(* ===== verification/Zyn_Prelude.thy ===== *)
theory Zyn_Prelude
  imports Main "HOL-Library.Word"
begin

text \<open>
  What every component shares: the names of the C integer types, the errno values the
  code returns, the generic facts about machine words and about \<open>mod\<close> on which the
  ring-buffer proofs rest, and the collections those facts are declared into.
\<close>

unbundle bit_operations_syntax

type_synonym u8 = "8 word"
type_synonym u16 = "16 word"
type_synonym u32 = "32 word"
type_synonym u64 = "64 word"

text \<open>
  The target is a 32-bit ARM (Zynq-7020), so \<^verbatim>\<open>size_t\<close>, \<^verbatim>\<open>unsigned long\<close> and
  \<^verbatim>\<open>phys_addr_t\<close> are 32 bits wide.
\<close>

type_synonym size_t = "32 word"
type_synonym ulong = "32 word"
type_synonym phys_addr = "32 word"

datatype errno = EPERM | EINTR | EAGAIN | ENOMEM | EFAULT | EBUSY | ENODEV | EINVAL
  | ENOTTY | ECONNRESET | ETIMEDOUT | ERESTARTSYS | EIO | ENOENT | E2BIG | EOTHER

named_theorems ring_intro \<open>rules that keep a pointer inside its ring and on a block boundary\<close>
named_theorems word_nat \<open>equations that move machine words to natural numbers\<close>

subsection \<open>Words as natural numbers\<close>

lemma unat_less_iff [word_nat]: "a < b \<longleftrightarrow> unat a < unat b" for a b :: "'a::len word"
  by (rule word_less_nat_alt)

lemma unat_le_iff [word_nat]: "a \<le> b \<longleftrightarrow> unat a \<le> unat b" for a b :: "'a::len word"
  by (rule word_le_nat_alt)

lemma unat_minus_le: "a \<le> b \<Longrightarrow> unat (b - a) = unat b - unat a" for a b :: "'a::len word"
  by (rule unat_sub)

lemma unat_plus_lt:
  "unat a + unat b < 2 ^ LENGTH('a) \<Longrightarrow> unat (a + b) = unat a + unat b"
  for a b :: "'a::len word"
  by (simp add: unat_word_ariths)

lemma unat_times_lt:
  "unat a * unat b < 2 ^ LENGTH('a) \<Longrightarrow> unat (a * b) = unat a * unat b"
  for a b :: "'a::len word"
  by (simp add: unat_word_ariths)

lemma unat_u32_lt: "unat (x :: u32) < 4294967296"
  using unsigned_less [of x] by simp

lemma word_eq_of_nat: "unat x = n \<Longrightarrow> x = of_nat n" for x :: "'a::len word"
  by auto

lemma unat_gt_0_u32: "x \<noteq> 0 \<Longrightarrow> 0 < unat (x :: u32)"
  by (simp add: unat_gt_0)

lemma unat_div_times_le: "unat (a div b * b) = unat a div unat b * unat b" for a b :: "'a::len word"
proof -
  have "unat a div unat b * unat b \<le> unat a" by simp
  also have "\<dots> < 2 ^ LENGTH('a)" by (rule unsigned_less)
  finally have "unat (a div b) * unat b < 2 ^ LENGTH('a)" by (simp add: unat_div_distrib)
  then have "unat (a div b * b) = unat (a div b) * unat b" by (rule unat_times_lt)
  then show ?thesis by (simp add: unat_div_distrib)
qed

lemma unat_ucast_u64 [simp]: "unat (ucast (x :: u32) :: u64) = unat x"
proof -
  have "unat x < 2 ^ 64" using unat_u32_lt [of x] by simp
  then have "take_bit 64 (unat x) = unat x" by (simp add: take_bit_nat_eq_self)
  then show ?thesis by (simp add: unsigned_ucast_eq)
qed

text \<open>A C \<^verbatim>\<open>int\<close> held in a word: non-negative values read the same either way.\<close>

lemma sint_eq_unat:
  assumes "unat x < 2147483648"
  shows "sint (x :: u32) = int (unat x)"
proof -
  have "uint x < 2147483648" using assms unfolding uint_nat by linarith
  then have "signed_take_bit 31 (uint x) = uint x"
    by (intro signed_take_bit_int_eq_self) (auto intro: order_trans [of _ 0])
  then show ?thesis by (simp add: sint_uint)
qed

lemma sint_neg:
  assumes "\<not> unat x < 2147483648"
  shows "sint (x :: u32) < 0"
proof -
  have "2147483648 \<le> uint x" using assms unfolding uint_nat by linarith
  moreover have "uint x < 4294967296" using unat_u32_lt [of x] unfolding uint_nat by linarith
  ultimately have "uint x div 2147483648 = 1" by linarith
  then have "bit (uint x) 31" by (simp add: bit_iff_odd)
  then show ?thesis by (simp add: sint_uint)
qed

lemma sint_pos_iff: "0 < sint (x :: u32) \<longleftrightarrow> 0 < unat x \<and> unat x < 2147483648"
  using sint_eq_unat [of x] sint_neg [of x] by linarith

subsection \<open>Remainders and block boundaries\<close>

lemma mod_add_once:
  fixes a n :: nat
  assumes "a < 2 * n"
  shows "a mod n = (if a < n then a else a - n)"
  using assms by (simp add: le_mod_geq)

lemma mod_sub_add_cancel:
  fixes a b n :: nat
  assumes "b \<le> a + n"
  shows "(b + (a + n - b) mod n) mod n = a mod n"
proof -
  have "(b + (a + n - b) mod n) mod n = (b + (a + n - b)) mod n" by (simp add: mod_add_right_eq)
  then show ?thesis using assms by simp
qed

lemma dvd_mod_add [ring_intro]:
  fixes a b n :: nat
  shows "d dvd n \<Longrightarrow> d dvd a \<Longrightarrow> d dvd b \<Longrightarrow> d dvd (a + b) mod n"
  by (simp add: dvd_mod)

lemma dvd_block_fits [ring_intro]:
  fixes a n d :: nat
  assumes "d dvd a" and "d dvd n" and "a < n"
  shows "a + d \<le> n"
proof -
  from assms(1,2) obtain i j where ij: "a = d * i" "n = d * j" by (auto simp: dvd_def)
  with assms(3) have "i < j" by auto
  then have "d * (i + 1) \<le> d * j" by (intro mult_le_mono2) simp
  with ij show ?thesis by simp
qed

lemma mod_add_cancel:
  fixes r x y n :: nat
  assumes eq: "(r + x) mod n = (r + y) mod n" and "x < n" "y < n"
  shows "x = y"
  using assms
proof (induction x y rule: linorder_wlog)
  case (le x y)
  then have "n dvd (r + y) - (r + x)"
    using mod_eq_dvd_iff_nat [of "r + x" "r + y" n] by simp
  then have "n dvd y - x" by simp
  with le show ?case using dvd_imp_le [of n "y - x"] by (cases "y = x") auto
qed simp

lemma floor_block_le: "(a :: nat) div d * d \<le> a"
  by simp

subsection \<open>Signed division of C\<close>

text \<open>C truncates towards zero; \<open>div\<close> on \<open>int\<close> rounds down.\<close>

definition c_div :: "int \<Rightarrow> int \<Rightarrow> int" where
  "c_div a b = sgn a * sgn b * (\<bar>a\<bar> div \<bar>b\<bar>)"

definition c_mod :: "int \<Rightarrow> int \<Rightarrow> int" where
  "c_mod a b = a - c_div a b * b"

lemma c_div_nonneg [simp]: "0 \<le> a \<Longrightarrow> 0 < b \<Longrightarrow> c_div a b = a div b"
  by (cases "a = 0") (auto simp: c_div_def sgn_if)

lemma c_mod_nonneg [simp]: "0 \<le> a \<Longrightarrow> 0 < b \<Longrightarrow> c_mod a b = a mod b"
  by (simp add: c_mod_def minus_div_mult_eq_mod)

end
