(* ===== verification/Ring.thy ===== *)
theory Ring
  imports Zyn_Prelude
begin

text \<open>
  Ring-buffer arithmetic. Every part of the program that shares a buffer with the FPGA
  computes how far a write pointer is ahead of a read pointer with the same conditional
  expression, and moves its own pointer either with \<open>%\<close> or with a compare against the
  end of the buffer. Here is the expression, what it means on natural numbers, and an
  interface (the locale \<open>ring\<close>) both ways of moving satisfy.
\<close>

subsection \<open>The distance between two pointers\<close>

definition ringbuf_used :: "u32 \<Rightarrow> u32 \<Rightarrow> u32 \<Rightarrow> u32" where
  "ringbuf_used rd hw_wr sz = (if rd \<le> hw_wr then hw_wr - rd else sz - rd + hw_wr)"

text \<open>The distance as a natural number, which no word operation can wrap.\<close>

definition ring_dist :: "nat \<Rightarrow> nat \<Rightarrow> nat \<Rightarrow> nat" where
  "ring_dist n rd wr = (wr + n - rd) mod n"

lemma ring_dist_less [simp, intro]: "0 < n \<Longrightarrow> ring_dist n rd wr < n"
  by (simp add: ring_dist_def)

lemma ring_dist_same [simp]: "ring_dist n a a = 0"
  by (simp add: ring_dist_def)

lemma ring_dist_reach:
  assumes "rd < n"
  shows "(rd + ring_dist n rd wr) mod n = wr mod n"
  unfolding ring_dist_def using assms by (intro mod_sub_add_cancel) simp

lemma ring_dist_dvd [ring_intro]:
  assumes "d dvd n" "d dvd rd" "d dvd wr" "rd < n"
  shows "d dvd ring_dist n rd wr"
  using assms by (simp add: ring_dist_def dvd_mod dvd_diff_nat)

lemma ring_dist_eq_if:
  assumes "rd < n" "wr < n"
  shows "ring_dist n rd wr = (if rd \<le> wr then wr - rd else n - rd + wr)"
  using assms by (auto simp: ring_dist_def le_mod_geq)

lemma ring_dist_zero_iff:
  assumes "rd < n" "wr < n"
  shows "ring_dist n rd wr = 0 \<longleftrightarrow> rd = wr"
  using assms by (auto simp: ring_dist_eq_if)

lemma ring_dist_advance:
  assumes "rd < n" "k \<le> ring_dist n rd wr"
  shows "ring_dist n ((rd + k) mod n) wr = ring_dist n rd wr - k"
proof -
  let ?d = "ring_dist n rd wr" and ?r = "(rd + k) mod n"
  from assms(1) have n: "0 < n" by simp
  have dl: "?d < n" using n by simp
  have r: "?r < n" using n by simp
  have "(?r + (?d - k)) mod n = (rd + k + (?d - k)) mod n" by (simp add: mod_add_left_eq)
  also have "\<dots> = wr mod n" using assms ring_dist_reach [OF assms(1)] by simp
  also have "\<dots> = (?r + ring_dist n ?r wr) mod n" using ring_dist_reach [OF r] by simp
  finally have eq: "(?r + (?d - k)) mod n = (?r + ring_dist n ?r wr) mod n" .
  have "?d - k < n" "ring_dist n ?r wr < n" using n dl by auto
  from mod_add_cancel [OF eq this] show ?thesis by (rule sym)
qed

lemma unat_ringbuf_used [word_nat]:
  assumes "rd < sz" "wr < sz"
  shows "unat (ringbuf_used rd wr sz) = ring_dist (unat sz) (unat rd) (unat wr)"
proof (cases "rd \<le> wr")
  case True
  with assms show ?thesis
    by (simp add: ringbuf_used_def unat_minus_le ring_dist_eq_if word_nat)
next
  case False
  then have lt: "unat wr < unat rd" by (simp add: word_nat)
  have sz: "unat rd < unat sz" using assms by (simp add: word_nat)
  have 1: "unat (sz - rd) = unat sz - unat rd"
    using assms by (intro unat_minus_le) simp
  have "unat (sz - rd) + unat wr < 4294967296"
    using 1 lt sz unat_u32_lt [of sz] by linarith
  then have "unat (sz - rd + wr) = unat sz - unat rd + unat wr"
    using 1 by (simp add: unat_plus_lt)
  with False lt sz assms show ?thesis
    by (simp add: ringbuf_used_def ring_dist_eq_if word_nat)
qed

lemma ringbuf_used_bound:
  assumes "rd < sz" "wr < sz"
  shows "ringbuf_used rd wr sz < sz"
proof -
  have "0 < unat sz" using assms(1) by (simp add: word_nat)
  then show ?thesis using assms by (simp add: word_nat)
qed

subsection \<open>Block boundaries\<close>

text \<open>
  A pointer of a ring that moves in blocks: the block size is not zero, divides the size
  of the ring and the pointer, and the pointer is inside the ring.
\<close>

definition on_block :: "u32 \<Rightarrow> u32 \<Rightarrow> u32 \<Rightarrow> bool" where
  "on_block bs sz p \<longleftrightarrow> 0 < bs \<and> unat bs dvd unat sz \<and> unat bs dvd unat p \<and> p < sz"

lemma on_blockI [ring_intro]:
  "0 < bs \<Longrightarrow> unat bs dvd unat sz \<Longrightarrow> unat bs dvd unat p \<Longrightarrow> p < sz \<Longrightarrow> on_block bs sz p"
  by (simp add: on_block_def)

lemma on_blockD:
  assumes "on_block bs sz p"
  shows "0 < unat bs" "unat bs dvd unat sz" "unat bs dvd unat p" "unat p < unat sz" "0 < unat sz"
  using assms by (auto simp: on_block_def word_nat)

lemma on_block_fits: "on_block bs sz p \<Longrightarrow> unat p + unat bs \<le> unat sz"
  using on_blockD [of bs sz p] by (intro dvd_block_fits) auto

lemma on_block_zero: "0 < bs \<Longrightarrow> 0 < sz \<Longrightarrow> unat bs dvd unat sz \<Longrightarrow> on_block bs sz 0"
  by (simp add: on_block_def)

lemma on_block_unat_add:
  assumes "on_block bs sz p"
  shows "unat (p + bs) = unat p + unat bs"
proof -
  have "unat p + unat bs < 4294967296"
    using on_block_fits [OF assms] unat_u32_lt [of sz] by linarith
  then show ?thesis by (simp add: unat_plus_lt)
qed

subsection \<open>Moving a pointer by one block\<close>

text \<open>
  The transmit side writes \<^verbatim>\<open>wr = (wr + block_size) % map_size\<close>; the receive side of
  the driver compares with the end of the buffer instead.
\<close>

definition adv_mod :: "u32 \<Rightarrow> u32 \<Rightarrow> u32 \<Rightarrow> u32" where
  "adv_mod bs sz p = (p + bs) mod sz"

definition adv_wrap :: "u32 \<Rightarrow> u32 \<Rightarrow> u32 \<Rightarrow> u32" where
  "adv_wrap bs sz p = (let nxt = p + bs in if sz \<le> nxt then 0 else nxt)"

lemma unat_adv_mod:
  assumes "on_block bs sz p"
  shows "unat (adv_mod bs sz p) = (unat p + unat bs) mod unat sz"
  using assms by (simp add: adv_mod_def unat_mod_distrib on_block_unat_add)

lemma unat_adv_wrap:
  assumes "on_block bs sz p"
  shows "unat (adv_wrap bs sz p) = (unat p + unat bs) mod unat sz"
  using on_block_unat_add [OF assms] on_block_fits [OF assms]
  by (auto simp: adv_wrap_def Let_def word_nat)

locale ring =
  fixes adv :: "u32 \<Rightarrow> u32 \<Rightarrow> u32 \<Rightarrow> u32"
  assumes adv: "on_block bs sz p \<Longrightarrow> unat (adv bs sz p) = (unat p + unat bs) mod unat sz"
begin

lemma adv_on_block [ring_intro]:
  assumes "on_block bs sz p"
  shows "on_block bs sz (adv bs sz p)"
  using on_blockD [OF assms] assms
  by (auto simp: on_block_def word_nat adv dvd_mod)

lemma adv_used:
  assumes "on_block bs sz rd" "wr < sz" "bs \<le> ringbuf_used rd wr sz"
  shows "unat (ringbuf_used (adv bs sz rd) wr sz) = unat (ringbuf_used rd wr sz) - unat bs"
proof -
  have rd: "rd < sz" "adv bs sz rd < sz"
    using assms(1) adv_on_block by (auto simp: on_block_def)
  have "unat bs \<le> ring_dist (unat sz) (unat rd) (unat wr)"
    using assms rd by (simp add: unat_ringbuf_used [symmetric] unat_le_iff [symmetric])
  then show ?thesis
    using assms(1,2) rd on_blockD [OF assms(1)]
    by (simp add: unat_ringbuf_used adv ring_dist_advance)
qed

lemma adv_iterate:
  assumes "on_block bs sz p"
  shows "on_block bs sz ((adv bs sz ^^ k) p) \<and>
         unat ((adv bs sz ^^ k) p) = (unat p + k * unat bs) mod unat sz"
proof (induction k)
  case 0
  show ?case using assms on_blockD [OF assms] by simp
next
  case (Suc k)
  then show ?case
    by (simp add: adv adv_on_block mod_add_left_eq) (simp add: ac_simps)
qed

lemma adv_period:
  assumes "on_block bs sz p"
  shows "(adv bs sz ^^ (unat sz div unat bs)) p = p"
proof -
  note b = on_blockD [OF assms]
  have "unat ((adv bs sz ^^ (unat sz div unat bs)) p) = unat p"
    using adv_iterate [OF assms, of "unat sz div unat bs"] b by simp
  then show ?thesis by (simp only: word_unat_eq_iff)
qed

end

interpretation rmod: ring adv_mod
  by unfold_locales (rule unat_adv_mod)

interpretation rwrap: ring adv_wrap
  by unfold_locales (rule unat_adv_wrap)

end
