(* ===== verification/Axi_Regs.thy ===== *)
theory Axi_Regs
  imports Ring
begin

text \<open>
  The register block of the FPGA peripheral as the drivers see it
  (\<^verbatim>\<open>struct ad936x_axi_regs\<close> of \<^verbatim>\<open>ad936x-axi.c\<close>), the bits of its control register, and
  the actions a driver performs on the hardware and on the kernel. A handler of a driver
  is a function that returns the new private state together with the list of its actions
  in program order.
\<close>

datatype axi_reg = Info | Ctrl | Tx_underrun | Rx_overflow | Rx_buf_base | Rx_buf_size
  | Reserved | Rx_buf_wr | Tx_buf_base | Tx_buf_size | Tx_buf_rd | Tx_buf_wr

fun axi_reg_offset :: "axi_reg \<Rightarrow> u64" where
  "axi_reg_offset Info = 0x00"
| "axi_reg_offset Ctrl = 0x04"
| "axi_reg_offset Tx_underrun = 0x08"
| "axi_reg_offset Rx_overflow = 0x0C"
| "axi_reg_offset Rx_buf_base = 0x10"
| "axi_reg_offset Rx_buf_size = 0x14"
| "axi_reg_offset Reserved = 0x18"
| "axi_reg_offset Rx_buf_wr = 0x1C"
| "axi_reg_offset Tx_buf_base = 0x20"
| "axi_reg_offset Tx_buf_size = 0x24"
| "axi_reg_offset Tx_buf_rd = 0x28"
| "axi_reg_offset Tx_buf_wr = 0x2C"

definition AD936X_CTRL_RESET :: u32 where "AD936X_CTRL_RESET = 1"
definition AD936X_CTRL_RX_ENABLE :: u32 where "AD936X_CTRL_RX_ENABLE = 2"
definition AD936X_CTRL_TX_ENABLE :: u32 where "AD936X_CTRL_TX_ENABLE = 4"
definition AD936X_INFO_MAGIC :: u32 where "AD936X_INFO_MAGIC = 0xAD93"

lemmas ctrl_bits = AD936X_CTRL_RESET_def AD936X_CTRL_RX_ENABLE_def AD936X_CTRL_TX_ENABLE_def

text \<open>
  The actions: a register write, a cache maintenance call over a physical range, a wake-up
  of a wait queue, the timer calls, the mapping of a physical range into a process.
\<close>

datatype wait_queue = Tx_wq | Rx_wq

datatype action =
    Writel axi_reg u32
  | Dma_sync_for_cpu phys_addr u32
  | Dma_sync_for_device phys_addr u32
  | Wake_up wait_queue
  | Hrtimer_start
  | Hrtimer_forward_now
  | Hrtimer_cancel
  | Remap_pfn_range phys_addr ulong
  | Put_user u32

fun writels :: "action list \<Rightarrow> (axi_reg \<times> u32) list" where
  "writels [] = []"
| "writels (Writel r v # as) = (r, v) # writels as"
| "writels (_ # as) = writels as"

lemma writels_append [simp]: "writels (as @ bs) = writels as @ writels bs"
  by (induction as rule: writels.induct) auto

lemma axi_reg_offset_inj: "axi_reg_offset r = axi_reg_offset r' \<longleftrightarrow> r = r'"
  by (cases r; cases r'; simp)

end
