(* ===== verification/Axi_Driver.thy ===== *)
theory Axi_Driver
  imports Axi_Regs "HOL-Library.Monad_Syntax"
begin

text \<open>
  The kernel driver \<^verbatim>\<open>ad936x-axi.c\<close>, one definition per file operation plus the
  high-resolution timer and the debugfs report. A value the driver reads from a device
  register, from user space or from the clock is an argument of the handler; the module
  parameter \<^verbatim>\<open>rx_block_size\<close> is the argument \<open>bs\<close>. \<^verbatim>\<open>atomic_t\<close> counters are 32-bit
  words read with \<open>sint\<close>, as the C \<^verbatim>\<open>int\<close> they hold. Where a handler sleeps in
  \<^verbatim>\<open>wait_event\<close> it is cut in two: what runs before, the condition it waits for, what
  runs after. Register reads inside one handler are separate arguments, because the FPGA
  may have moved its pointer between them.
\<close>

subsection \<open>State\<close>

record axi_priv =
  txbuf_phys :: phys_addr
  txbuf_size :: size_t
  txbuf_size_max :: size_t
  tx_wr_ptr :: u32
  rxbuf_phys :: phys_addr
  rxbuf_size :: size_t
  rxbuf_size_max :: size_t
  rd_ptr :: u32
  in_use :: u32
  closing :: bool
  timer_on :: bool
  blocks_ready :: u32
  timer_wr_ptr :: u32
  open_time :: int
  last_read_time :: int
  total_bytes_written :: u64
  prev_wr_ptr :: u32
  buf_used_peak :: u32
  read_count :: u64
  overrun_bytes :: u64

record axi_rx_read =
  rx_rd :: u32
  rx_hw_wr :: u32
  rx_lost_bytes :: u32

subsection \<open>The timer\<close>

text \<open>\<open>wr_ptr\<close> is the value of \<^verbatim>\<open>rx_buf_wr\<close> at this tick.\<close>

definition axi_timer :: "u32 \<Rightarrow> u32 \<Rightarrow> axi_priv \<Rightarrow> axi_priv \<times> action list" where
  "axi_timer bs wr_ptr p =
     (let (p1, wake) =
        (if 0 < rxbuf_size p then
           let delta = (if timer_wr_ptr p \<le> wr_ptr then wr_ptr - timer_wr_ptr p
                        else rxbuf_size p - timer_wr_ptr p + wr_ptr);
               new_blocks = delta div bs
           in if 0 < new_blocks then
                let advance = new_blocks * bs
                in (p\<lparr>timer_wr_ptr := (timer_wr_ptr p + advance) mod rxbuf_size p,
                      blocks_ready := blocks_ready p + new_blocks\<rparr>, [Wake_up Rx_wq])
              else (p, [])
         else (p, []))
      in (p1, wake @ [Wake_up Tx_wq, Hrtimer_forward_now]))"

subsection \<open>open and release\<close>

text \<open>\<open>hw_wr\<close> is what \<^verbatim>\<open>rx_buf_wr\<close> reads after the reset was released.\<close>

definition axi_open :: "u32 \<Rightarrow> int \<Rightarrow> axi_priv \<Rightarrow> errno + axi_priv \<times> action list" where
  "axi_open hw_wr now p =
     (if in_use p \<noteq> 0 then Inl EBUSY
      else
        Inr (p\<lparr>in_use := 1, tx_wr_ptr := 0, rxbuf_size := 0, txbuf_size := 0,
               closing := False, rd_ptr := 0, timer_wr_ptr := hw_wr, blocks_ready := 0,
               timer_on := True, open_time := now, last_read_time := now,
               total_bytes_written := 0, prev_wr_ptr := hw_wr, buf_used_peak := 0,
               read_count := 0, overrun_bytes := 0\<rparr>,
             [Writel Ctrl AD936X_CTRL_RESET,
              Writel Rx_buf_base (rxbuf_phys p),
              Writel Tx_buf_base (txbuf_phys p),
              Writel Tx_buf_wr 0,
              Writel Ctrl 0,
              Hrtimer_start]))"

definition axi_release :: "axi_priv \<Rightarrow> axi_priv \<times> action list" where
  "axi_release p =
     (p\<lparr>closing := True, timer_on := False, in_use := 0\<rparr>,
      [Wake_up Tx_wq, Wake_up Rx_wq, Hrtimer_cancel, Writel Ctrl 0])"

subsection \<open>read\<close>

text \<open>\<^verbatim>\<open>sizeof(struct ad936x_axi_rx_read)\<close> is 12: three words.\<close>

definition axi_read_enter :: "u32 \<Rightarrow> size_t \<Rightarrow> axi_priv \<Rightarrow> errno + u32" where
  "axi_read_enter bs count p =
     (let max_blocks = rxbuf_size p div bs in if count < 12 then Inl EINVAL else Inr max_blocks)"

definition axi_read_wakes :: "axi_priv \<Rightarrow> bool" where
  "axi_read_wakes p \<longleftrightarrow> 0 < sint (blocks_ready p) \<or> closing p"

definition axi_read_overrun :: "u32 \<Rightarrow> u32 \<Rightarrow> axi_priv \<Rightarrow> axi_priv \<times> u32" where
  "axi_read_overrun bs wr_ptr p =
     (let half = rxbuf_size p div 2;
          snap = (if half \<le> wr_ptr then wr_ptr - half else rxbuf_size p - half + wr_ptr);
          new_rd = snap div bs * bs;
          lost = (if rd_ptr p \<le> new_rd then new_rd - rd_ptr p
                  else rxbuf_size p - rd_ptr p + new_rd)
      in (p\<lparr>overrun_bytes := overrun_bytes p + ucast lost, rd_ptr := new_rd,
            blocks_ready := blocks_ready p - lost div bs\<rparr>, lost))"

definition axi_read_stats :: "u32 \<Rightarrow> int \<Rightarrow> axi_priv \<Rightarrow> axi_priv" where
  "axi_read_stats wr_ptr now p =
     (let delta = (if prev_wr_ptr p \<le> wr_ptr then wr_ptr - prev_wr_ptr p
                   else rxbuf_size p - prev_wr_ptr p + wr_ptr);
          used = (if rd_ptr p \<le> wr_ptr then wr_ptr - rd_ptr p
                  else rxbuf_size p - rd_ptr p + wr_ptr)
      in p\<lparr>total_bytes_written := total_bytes_written p + ucast delta,
           prev_wr_ptr := wr_ptr,
           buf_used_peak := (if buf_used_peak p < used then used else buf_used_peak p),
           last_read_time := now,
           read_count := read_count p + 1\<rparr>)"

text \<open>
  \<open>hw1\<close> is the write pointer the overrun branch reads, \<open>hw2\<close> the one read for the
  reply; \<open>copied\<close> says whether \<^verbatim>\<open>copy_to_user\<close> succeeded.
\<close>

definition axi_read_resume ::
  "u32 \<Rightarrow> u32 \<Rightarrow> u32 \<Rightarrow> u32 \<Rightarrow> int \<Rightarrow> bool \<Rightarrow> axi_priv \<Rightarrow>
     (errno + axi_rx_read) \<times> axi_priv \<times> action list" where
  "axi_read_resume bs max_blocks hw1 hw2 now copied p =
     (if closing p then (Inl ENODEV, p, [])
      else
        let (p1, lost) = (if sint max_blocks \<le> sint (blocks_ready p)
                          then axi_read_overrun bs hw1 p else (p, 0));
            p2 = axi_read_stats hw2 now (p1\<lparr>blocks_ready := blocks_ready p1 - 1\<rparr>);
            acts = [Dma_sync_for_cpu (rxbuf_phys p2 + rd_ptr p2) bs];
            resp = \<lparr>rx_rd = rd_ptr p2, rx_hw_wr = hw2, rx_lost_bytes = lost\<rparr>
        in if \<not> copied then (Inl EFAULT, p2, acts)
           else (Inr resp, p2\<lparr>rd_ptr := adv_wrap bs (rxbuf_size p2) (rd_ptr p2)\<rparr>, acts))"

subsection \<open>write\<close>

text \<open>\<open>req\<close> is \<open>None\<close> when \<^verbatim>\<open>copy_from_user\<close> fails; the request is one word.\<close>

definition axi_write_enter :: "size_t \<Rightarrow> u32 option \<Rightarrow> axi_priv \<Rightarrow> errno + u32" where
  "axi_write_enter count req p =
     (if count < 4 then Inl EINVAL
      else case req of
             None \<Rightarrow> Inl EFAULT
           | Some wr \<Rightarrow> if txbuf_size p \<le> wr then Inl EINVAL else Inr wr)"

definition axi_write_wakes :: "u32 \<Rightarrow> u32 \<Rightarrow> u32 \<Rightarrow> axi_priv \<Rightarrow> bool" where
  "axi_write_wakes bs wr rd p \<longleftrightarrow>
     (let used = (if rd \<le> wr then wr - rd else txbuf_size p - rd + wr)
      in used \<le> txbuf_size p - bs \<or> closing p)"

definition axi_write_flush :: "u32 \<Rightarrow> axi_priv \<Rightarrow> action list" where
  "axi_write_flush wr p =
     (let old_wr = tx_wr_ptr p;
          flush_len = (if old_wr \<le> wr then wr - old_wr else txbuf_size p - old_wr + wr)
      in if 0 < flush_len then
           let to_end = txbuf_size p - old_wr;
               chunk = min flush_len to_end
           in Dma_sync_for_device (txbuf_phys p + old_wr) chunk #
              (if chunk < flush_len
               then [Dma_sync_for_device (txbuf_phys p) (flush_len - chunk)] else [])
         else [])"

definition axi_write_resume ::
  "u32 \<Rightarrow> axi_priv \<Rightarrow> (errno + u32) \<times> axi_priv \<times> action list" where
  "axi_write_resume wr p =
     (if closing p then (Inl ENODEV, p, [])
      else (Inr 4, p\<lparr>tx_wr_ptr := wr\<rparr>, axi_write_flush wr p @ [Writel Tx_buf_wr wr]))"

subsection \<open>mmap\<close>

text \<open>
  \<open>sz\<close> is \<^verbatim>\<open>vma->vm_end - vma->vm_start\<close>, \<open>vm_write\<close> the bit \<^verbatim>\<open>VM_WRITE\<close> of its flags,
  \<open>remap\<close> the failure \<^verbatim>\<open>remap_pfn_range\<close> returns, if any.
\<close>

definition axi_mmap ::
  "u32 \<Rightarrow> ulong \<Rightarrow> ulong \<Rightarrow> bool \<Rightarrow> errno option \<Rightarrow> axi_priv \<Rightarrow>
     errno option \<times> axi_priv \<times> action list" where
  "axi_mmap bs pgoff sz vm_write remap p =
     (if sz mod bs \<noteq> 0 then (Some EINVAL, p, [])
      else if pgoff = 0 then
        (if vm_write then (Some EPERM, p, [])
         else if rxbuf_size_max p < sz then (Some EINVAL, p, [])
         else (remap, p\<lparr>rxbuf_size := sz\<rparr>,
               [Writel Rx_buf_size sz, Remap_pfn_range (rxbuf_phys p) sz]))
      else if pgoff = 1 then
        (if txbuf_size_max p < sz then (Some EINVAL, p, [])
         else (remap, p\<lparr>txbuf_size := sz\<rparr>,
               [Writel Tx_buf_size sz, Remap_pfn_range (txbuf_phys p) sz]))
      else (Some EINVAL, p, []))"

subsection \<open>ioctl\<close>

text \<open>The kernel's encoding of \<^verbatim>\<open>_IO\<close> and of \<^verbatim>\<open>_IOR\<close> with a 32-bit argument, type \<^verbatim>\<open>'a'\<close>.\<close>

definition ioc_io :: "u32 \<Rightarrow> u32" where
  "ioc_io nr = push_bit 8 0x61 OR nr"

definition ioc_ior :: "u32 \<Rightarrow> u32" where
  "ioc_ior nr = push_bit 30 2 OR push_bit 16 4 OR push_bit 8 0x61 OR nr"

definition AD936X_AXI_IOC_GET_RX_BUFSIZE :: u32 where
  "AD936X_AXI_IOC_GET_RX_BUFSIZE = ioc_ior 0"
definition AD936X_AXI_IOC_GET_BLOCKSIZE :: u32 where
  "AD936X_AXI_IOC_GET_BLOCKSIZE = ioc_ior 1"
definition AD936X_AXI_IOC_GET_TX_BUFSIZE :: u32 where
  "AD936X_AXI_IOC_GET_TX_BUFSIZE = ioc_ior 2"
definition AD936X_AXI_IOC_ENABLE :: u32 where
  "AD936X_AXI_IOC_ENABLE = ioc_io 3"

definition axi_enable_ctrl :: "axi_priv \<Rightarrow> u32" where
  "axi_enable_ctrl p =
     (if 0 < rxbuf_size p then AD936X_CTRL_RX_ENABLE else 0) OR
     (if 0 < txbuf_size p then AD936X_CTRL_TX_ENABLE else 0)"

text \<open>\<open>put_ok\<close> says whether \<^verbatim>\<open>put_user\<close> succeeded.\<close>

definition axi_ioctl :: "u32 \<Rightarrow> u32 \<Rightarrow> bool \<Rightarrow> axi_priv \<Rightarrow> errno option \<times> axi_priv \<times> action list" where
  "axi_ioctl bs cmd put_ok p =
     (let put = (\<lambda>v. if put_ok then (None, p, [Put_user v]) else (Some EFAULT, p, []))
      in if cmd = AD936X_AXI_IOC_GET_RX_BUFSIZE then put (rxbuf_size_max p)
         else if cmd = AD936X_AXI_IOC_GET_BLOCKSIZE then put bs
         else if cmd = AD936X_AXI_IOC_GET_TX_BUFSIZE then put (txbuf_size_max p)
         else if cmd = AD936X_AXI_IOC_ENABLE then
           (None, p\<lparr>rd_ptr := 0, timer_wr_ptr := 0, blocks_ready := 0\<rparr>,
            [Writel Ctrl 0, Writel Ctrl (axi_enable_ctrl p)])
         else (Some ENOTTY, p, []))"

subsection \<open>The debugfs report\<close>

text \<open>
  One constructor per line the report prints, with the numbers of the line; the text
  around them is left out. A division by zero, on which the kernel traps, is \<open>None\<close>.
\<close>

datatype stat_line =
    Stat_state bool
  | Stat_hint
  | Stat_uptime int int
  | Stat_bandwidth u64 u64
  | Stat_sample_rate u64 u64
  | Stat_total_bytes u64
  | Stat_total_samples u64
  | Stat_rx u32 u32 u32
  | Stat_overrun_bytes u64
  | Stat_rx_buf_size u32
  | Stat_rx_buf_used u32 u32
  | Stat_rx_buf_used_peak u32 u32
  | Stat_read_count u64
  | Stat_last_read_age int int
  | Stat_tx u32 u32 u32
  | Stat_tx_buf_size u32
  | Stat_tx_buf_used u32 u32

definition checked_div :: "'a::len word \<Rightarrow> 'a word \<Rightarrow> 'a word option" where
  "checked_div a b = (if b = 0 then None else Some (a div b))"

definition axi_stats_throughput :: "int \<Rightarrow> u64 \<Rightarrow> stat_line list option" where
  "axi_stats_throughput uptime_us tot =
     (if 0 < uptime_us then
        let samples = drop_bit 2 tot;
            uptime_ms = (word_of_int (c_div uptime_us 1000) :: u32)
        in do { mbps \<leftarrow> checked_div (tot * 800) (ucast uptime_ms);
                msps \<leftarrow> checked_div (samples * 100000) (ucast uptime_ms);
                Some [Stat_bandwidth (mbps div 100) (mbps mod 100),
                      Stat_sample_rate (msps div 100) (msps mod 100)] }
      else Some [])"

definition axi_stats_rx :: "u32 \<Rightarrow> u32 \<Rightarrow> int \<Rightarrow> axi_priv \<Rightarrow> stat_line list option" where
  "axi_stats_rx drops wr age_us p =
     (if 0 < rxbuf_size p then
        let rd = rd_ptr p;
            used = (if rd \<le> wr then wr - rd else rxbuf_size p - rd + wr)
        in do { pct \<leftarrow> checked_div used (rxbuf_size p div 100);
                peak \<leftarrow> checked_div (buf_used_peak p) (rxbuf_size p div 100);
                Some [Stat_rx wr rd drops, Stat_overrun_bytes (overrun_bytes p),
                      Stat_rx_buf_size (rxbuf_size p), Stat_rx_buf_used used pct,
                      Stat_rx_buf_used_peak (buf_used_peak p) peak,
                      Stat_read_count (read_count p),
                      Stat_last_read_age (c_div age_us 1000000)
                        (c_div (c_mod age_us 1000000) 1000)] }
      else Some [])"

definition axi_stats_tx :: "u32 \<Rightarrow> u32 \<Rightarrow> axi_priv \<Rightarrow> stat_line list option" where
  "axi_stats_tx rd underruns p =
     (if 0 < txbuf_size p then
        let wr = tx_wr_ptr p;
            used = (if rd \<le> wr then wr - rd else txbuf_size p - rd + wr)
        in do { pct \<leftarrow> checked_div used (txbuf_size p div 100);
                Some [Stat_tx wr rd underruns, Stat_tx_buf_size (txbuf_size p),
                      Stat_tx_buf_used used pct] }
      else Some [])"

definition axi_stats_show ::
  "int \<Rightarrow> u32 \<Rightarrow> u32 \<Rightarrow> u32 \<Rightarrow> u32 \<Rightarrow> axi_priv \<Rightarrow> stat_line list option" where
  "axi_stats_show now drops rx_wr tx_rd underruns p =
     (if in_use p = 0 then Some [Stat_state False, Stat_hint]
      else
        let uptime_us = c_div (now - open_time p) 1000;
            tot = total_bytes_written p;
            samples = drop_bit 2 tot;
            age_us = c_div (now - last_read_time p) 1000;
            rem = c_mod uptime_us 1000000;
            uptime_s = c_div uptime_us 1000000
        in do { thr \<leftarrow> axi_stats_throughput uptime_us tot;
                rx \<leftarrow> axi_stats_rx drops rx_wr age_us p;
                tx \<leftarrow> axi_stats_tx tx_rd underruns p;
                Some ([Stat_state True, Stat_uptime uptime_s (c_div rem 1000)] @ thr @
                      [Stat_total_bytes tot, Stat_total_samples samples] @ rx @ tx) })"

subsection \<open>probe and remove\<close>

text \<open>
  What the platform gives \<^verbatim>\<open>probe\<close>: whether each kernel call succeeds and, for the two
  memory regions, whether the phandle exists and what its resource is. Region 0 of
  \<^verbatim>\<open>memory-region\<close> is the transmit buffer, region 1 the receive buffer.
\<close>

record axi_platform =
  alloc_ok :: bool
  ioremap :: "errno option"
  info_reg :: u32
  region :: "nat \<Rightarrow> (errno + phys_addr \<times> size_t) option"
  misc_register :: "errno option"

definition axi_priv_zero :: axi_priv where
  "axi_priv_zero = \<lparr>txbuf_phys = 0, txbuf_size = 0, txbuf_size_max = 0, tx_wr_ptr = 0,
     rxbuf_phys = 0, rxbuf_size = 0, rxbuf_size_max = 0, rd_ptr = 0, in_use = 0,
     closing = False, timer_on = False, blocks_ready = 0, timer_wr_ptr = 0, open_time = 0,
     last_read_time = 0, total_bytes_written = 0, prev_wr_ptr = 0, buf_used_peak = 0,
     read_count = 0, overrun_bytes = 0\<rparr>"

definition axi_probe_region :: "axi_platform \<Rightarrow> nat \<Rightarrow> errno + phys_addr \<times> size_t" where
  "axi_probe_region pl i = (case region pl i of None \<Rightarrow> Inl EINVAL | Some r \<Rightarrow> r)"

definition axi_probe :: "axi_platform \<Rightarrow> errno + axi_priv" where
  "axi_probe pl =
     (if \<not> alloc_ok pl then Inl ENOMEM
      else case ioremap pl of Some e \<Rightarrow> Inl e | None \<Rightarrow>
        if drop_bit 16 (info_reg pl) \<noteq> AD936X_INFO_MAGIC then Inl ENODEV
        else case axi_probe_region pl 0 of Inl e \<Rightarrow> Inl e | Inr (tx_start, tx_sz) \<Rightarrow>
          case axi_probe_region pl 1 of Inl e \<Rightarrow> Inl e | Inr (rx_start, rx_sz) \<Rightarrow>
            case misc_register pl of Some e \<Rightarrow> Inl e | None \<Rightarrow>
              Inr (axi_priv_zero\<lparr>txbuf_phys := tx_start, txbuf_size_max := tx_sz,
                     rxbuf_phys := rx_start, rxbuf_size_max := rx_sz, in_use := 0\<rparr>))"

end
