(* ===== verification/Axi_Ring.thy ===== *)
theory Axi_Ring
  imports Axi_Driver
begin

text \<open>
  The receive ring of \<^verbatim>\<open>ad936x-axi.c\<close> against an abstract specification: a counter of
  the blocks the FPGA has completed and a counter of the blocks handed to the reader.
  \<open>rx_rel\<close> ties the driver's two pointers and its atomic counter to those two numbers;
  the timer and \<^verbatim>\<open>read()\<close> are simulated by the abstract operations, and the
  memory-safety and accounting facts of the driver follow from the simulation.
\<close>

subsection \<open>The specification\<close>

record rx_abs =
  produced :: nat
  consumed :: nat

definition abs_tick :: "nat \<Rightarrow> rx_abs \<Rightarrow> rx_abs" where
  "abs_tick n a = a\<lparr>produced := produced a + n\<rparr>"

text \<open>A read may skip \<open>k\<close> blocks and then takes the next one, whose number it returns.\<close>

definition abs_read :: "nat \<Rightarrow> rx_abs \<Rightarrow> (nat \<times> rx_abs) option" where
  "abs_read k a =
     (if consumed a + k < produced a
      then Some (consumed a + k, a\<lparr>consumed := consumed a + k + 1\<rparr>) else None)"

subsection \<open>The relation\<close>

definition rx_geom :: "u32 \<Rightarrow> axi_priv \<Rightarrow> bool" where
  "rx_geom bs p \<longleftrightarrow> 0 < unat bs \<and> 0 < unat (rxbuf_size p) \<and> unat bs dvd unat (rxbuf_size p) \<and>
     unat (rxbuf_size p) < 2147483648"

definition rx_rel :: "u32 \<Rightarrow> axi_priv \<Rightarrow> rx_abs \<Rightarrow> bool" where
  "rx_rel bs p a \<longleftrightarrow> consumed a \<le> produced a \<and>
     unat (blocks_ready p) = produced a - consumed a \<and>
     produced a - consumed a < 2147483648 \<and>
     unat (rd_ptr p) = consumed a * unat bs mod unat (rxbuf_size p) \<and>
     unat (timer_wr_ptr p) = produced a * unat bs mod unat (rxbuf_size p)"

lemmas rx_defs = rx_geom_def rx_rel_def

lemma rx_geomD:
  assumes "rx_geom bs p"
  shows "0 < unat bs" "0 < unat (rxbuf_size p)" "unat bs dvd unat (rxbuf_size p)"
    "unat (rxbuf_size p) < 2147483648"
  using assms by (auto simp: rx_geom_def)

lemma rx_on_block:
  assumes "rx_geom bs p" "unat x = c * unat bs mod unat (rxbuf_size p)"
  shows "on_block bs (rxbuf_size p) x"
  using rx_geomD [OF assms(1)] assms(2) by (auto simp: on_block_def word_nat dvd_mod)

lemma rx_rel_ptrs:
  assumes "rx_geom bs p" "rx_rel bs p a"
  shows "on_block bs (rxbuf_size p) (rd_ptr p)" "on_block bs (rxbuf_size p) (timer_wr_ptr p)"
  using assms rx_on_block by (auto simp: rx_rel_def)

lemma rx_rel_enable:
  "rx_geom bs p \<Longrightarrow>
   rx_rel bs (p\<lparr>rd_ptr := 0, timer_wr_ptr := 0, blocks_ready := 0\<rparr>) \<lparr>produced = 0, consumed = 0\<rparr>"
  by (simp add: rx_rel_def)

subsection \<open>The timer\<close>

text \<open>The number of blocks one tick accepts.\<close>

definition tick_blocks :: "u32 \<Rightarrow> u32 \<Rightarrow> axi_priv \<Rightarrow> nat" where
  "tick_blocks bs hw p =
     ring_dist (unat (rxbuf_size p)) (unat (timer_wr_ptr p)) (unat hw) div unat bs"

lemma axi_timer_unfold:
  assumes "rx_geom bs p"
  shows "fst (axi_timer bs hw p) =
    (let n = ringbuf_used (timer_wr_ptr p) hw (rxbuf_size p) div bs
     in if 0 < n then p\<lparr>timer_wr_ptr := (timer_wr_ptr p + n * bs) mod rxbuf_size p,
                        blocks_ready := blocks_ready p + n\<rparr> else p)"
  using rx_geomD(2) [OF assms]
  by (simp add: axi_timer_def ringbuf_used_def Let_def word_nat split: prod.splits)

lemma tick_advance:
  assumes g: "rx_geom bs p" and t: "on_block bs (rxbuf_size p) (timer_wr_ptr p)"
    and hw: "hw < rxbuf_size p"
  shows "unat (ringbuf_used (timer_wr_ptr p) hw (rxbuf_size p) div bs) = tick_blocks bs hw p"
    and "unat ((timer_wr_ptr p + ringbuf_used (timer_wr_ptr p) hw (rxbuf_size p) div bs * bs)
               mod rxbuf_size p) =
         (unat (timer_wr_ptr p) + tick_blocks bs hw p * unat bs) mod unat (rxbuf_size p)"
proof -
  let ?sz = "rxbuf_size p" and ?t = "timer_wr_ptr p"
  let ?u = "ringbuf_used ?t hw ?sz"
  have lt: "?t < ?sz" using t by (simp add: on_block_def)
  have u: "unat ?u = ring_dist (unat ?sz) (unat ?t) (unat hw)"
    using lt hw by (rule unat_ringbuf_used)
  show 1: "unat (?u div bs) = tick_blocks bs hw p"
    by (simp add: tick_blocks_def unat_div_distrib u)
  have adv: "unat (?u div bs * bs) = tick_blocks bs hw p * unat bs"
    by (simp only: unat_div_times_le u tick_blocks_def)
  have "unat ?t + unat (?u div bs * bs) < 4294967296"
  proof -
    have "unat (?u div bs * bs) \<le> unat ?u" by (simp only: unat_div_times_le) simp
    moreover have "unat ?u < unat ?sz"
      using ringbuf_used_bound [OF lt hw] by (simp add: word_nat)
    ultimately show ?thesis using lt rx_geomD(4) [OF g] by (simp add: word_nat)
  qed
  then have "unat (?t + ?u div bs * bs) = unat ?t + tick_blocks bs hw p * unat bs"
    by (simp add: unat_plus_lt adv)
  then show "unat ((?t + ?u div bs * bs) mod ?sz) =
      (unat ?t + tick_blocks bs hw p * unat bs) mod unat ?sz"
    by (simp add: unat_mod_distrib)
qed

lemma axi_timer_rel:
  assumes g: "rx_geom bs p" and r: "rx_rel bs p a" and hw: "hw < rxbuf_size p"
    and room: "produced a - consumed a + tick_blocks bs hw p < 2147483648"
  shows "rx_rel bs (fst (axi_timer bs hw p)) (abs_tick (tick_blocks bs hw p) a)"
proof -
  let ?n = "ringbuf_used (timer_wr_ptr p) hw (rxbuf_size p) div bs"
  note t = tick_advance [OF g rx_rel_ptrs(2) [OF g r] hw]
  have b: "unat (blocks_ready p) = produced a - consumed a" "consumed a \<le> produced a"
    using r by (auto simp: rx_rel_def)
  have "unat (blocks_ready p + ?n) = unat (blocks_ready p) + tick_blocks bs hw p"
    using room b by (simp add: unat_plus_lt t(1))
  moreover have "(unat (timer_wr_ptr p) + tick_blocks bs hw p * unat bs) mod unat (rxbuf_size p) =
      (produced a + tick_blocks bs hw p) * unat bs mod unat (rxbuf_size p)"
    using r by (simp add: rx_rel_def mod_add_left_eq distrib_right)
  ultimately show ?thesis
    using r room t(2) t(1)
    by (auto simp: axi_timer_unfold [OF g] rx_rel_def abs_tick_def Let_def word_nat)
qed

text \<open>After a tick the accepted pointer trails the hardware by less than one block.\<close>

lemma axi_timer_caught_up:
  assumes g: "rx_geom bs p" and t: "on_block bs (rxbuf_size p) (timer_wr_ptr p)"
    and hw: "hw < rxbuf_size p"
  shows "ring_dist (unat (rxbuf_size p)) (unat (timer_wr_ptr (fst (axi_timer bs hw p)))) (unat hw)
         < unat bs"
proof -
  let ?sz = "unat (rxbuf_size p)" and ?t = "unat (timer_wr_ptr p)"
  let ?d = "ring_dist ?sz ?t (unat hw)"
  note ta = tick_advance [OF g t hw]
  have tl: "?t < ?sz" using on_blockD [OF t] by simp
  have eq: "unat (timer_wr_ptr (fst (axi_timer bs hw p))) = (?t + tick_blocks bs hw p * unat bs) mod ?sz"
    using ta tl by (auto simp: axi_timer_unfold [OF g] Let_def word_nat)
  have le: "tick_blocks bs hw p * unat bs \<le> ?d" by (simp add: tick_blocks_def)
  have "ring_dist ?sz ((?t + tick_blocks bs hw p * unat bs) mod ?sz) (unat hw)
      = ?d - tick_blocks bs hw p * unat bs"
    using tl le by (rule ring_dist_advance)
  also have "\<dots> = ?d mod unat bs" by (simp add: tick_blocks_def minus_div_mult_eq_mod)
  finally show ?thesis using eq rx_geomD(1) [OF g] by simp
qed

subsection \<open>The overrun branch of read\<close>

definition snap_rd :: "u32 \<Rightarrow> u32 \<Rightarrow> axi_priv \<Rightarrow> u32" where
  "snap_rd bs hw p = ringbuf_used (rxbuf_size p div 2) hw (rxbuf_size p) div bs * bs"

definition skipped_blocks :: "u32 \<Rightarrow> u32 \<Rightarrow> axi_priv \<Rightarrow> nat" where
  "skipped_blocks bs hw p =
     ring_dist (unat (rxbuf_size p)) (unat (rd_ptr p)) (unat (snap_rd bs hw p)) div unat bs"

lemma axi_read_overrun_unfold:
  "axi_read_overrun bs hw p =
     (let lost = ringbuf_used (rd_ptr p) (snap_rd bs hw p) (rxbuf_size p)
      in (p\<lparr>overrun_bytes := overrun_bytes p + ucast lost, rd_ptr := snap_rd bs hw p,
            blocks_ready := blocks_ready p - lost div bs\<rparr>, lost))"
  by (simp add: axi_read_overrun_def ringbuf_used_def snap_rd_def Let_def)

lemma snap_rd_block:
  assumes g: "rx_geom bs p" and hw: "hw < rxbuf_size p"
  shows "on_block bs (rxbuf_size p) (snap_rd bs hw p)"
    and "unat (snap_rd bs hw p) =
         ring_dist (unat (rxbuf_size p)) (unat (rxbuf_size p) div 2) (unat hw) div unat bs * unat bs"
proof -
  let ?sz = "rxbuf_size p"
  have half: "?sz div 2 < ?sz" using rx_geomD(2) [OF g] by (simp add: word_nat unat_div_distrib)
  have u: "unat (ringbuf_used (?sz div 2) hw ?sz) = ring_dist (unat ?sz) (unat ?sz div 2) (unat hw)"
    using unat_ringbuf_used [OF half hw] by (simp add: unat_div_distrib)
  show 1: "unat (snap_rd bs hw p) = ring_dist (unat ?sz) (unat ?sz div 2) (unat hw) div unat bs * unat bs"
    by (simp only: snap_rd_def unat_div_times_le u)
  have "unat (snap_rd bs hw p) \<le> ring_dist (unat ?sz) (unat ?sz div 2) (unat hw)" by (simp add: 1)
  also have "\<dots> < unat ?sz" using rx_geomD(2) [OF g] by simp
  finally show "on_block bs ?sz (snap_rd bs hw p)"
    using rx_geomD [OF g] 1 by (simp add: on_block_def word_nat)
qed

lemma axi_read_overrun_lost:
  assumes g: "rx_geom bs p" and rd: "on_block bs (rxbuf_size p) (rd_ptr p)"
    and hw: "hw < rxbuf_size p"
  shows "unat (snd (axi_read_overrun bs hw p)) = skipped_blocks bs hw p * unat bs"
    and "unat (snd (axi_read_overrun bs hw p) div bs) = skipped_blocks bs hw p"
    and "skipped_blocks bs hw p < unat (rxbuf_size p) div unat bs"
    and "(unat (rd_ptr p) + skipped_blocks bs hw p * unat bs) mod unat (rxbuf_size p) =
         unat (snap_rd bs hw p)"
proof -
  let ?sz = "rxbuf_size p" and ?new = "snap_rd bs hw p"
  let ?d = "ring_dist (unat ?sz) (unat (rd_ptr p)) (unat ?new)"
  note new = snap_rd_block(1) [OF g hw]
  have u: "unat (snd (axi_read_overrun bs hw p)) = ?d"
    using rd new by (simp add: axi_read_overrun_unfold Let_def on_block_def unat_ringbuf_used)
  have dvd: "unat bs dvd ?d"
    using on_blockD [OF rd] on_blockD [OF new] by (intro ring_dist_dvd) auto
  then show lost: "unat (snd (axi_read_overrun bs hw p)) = skipped_blocks bs hw p * unat bs"
    by (simp add: u skipped_blocks_def)
  show "unat (snd (axi_read_overrun bs hw p) div bs) = skipped_blocks bs hw p"
    using u by (simp add: unat_div_distrib skipped_blocks_def)
  have d: "?d < unat ?sz" using rx_geomD(2) [OF g] by simp
  then show "skipped_blocks bs hw p < unat ?sz div unat bs"
    using rx_geomD(1,3) [OF g] unfolding skipped_blocks_def
    by (metis dvd_div_mult_self div_less_iff_less_mult)
  have "(unat (rd_ptr p) + ?d) mod unat ?sz = unat ?new mod unat ?sz"
    using on_blockD(4) [OF rd] by (rule ring_dist_reach)
  then show "(unat (rd_ptr p) + skipped_blocks bs hw p * unat bs) mod unat ?sz = unat ?new"
    using dvd on_blockD(4) [OF new] by (simp add: skipped_blocks_def)
qed

text \<open>The snapped pointer trails the hardware by half the ring and less than a block more.\<close>

lemma snap_rd_distance:
  assumes g: "rx_geom bs p" and hw: "hw < rxbuf_size p" and fits: "2 * unat bs \<le> unat (rxbuf_size p)"
  shows "unat (rxbuf_size p) div 2 \<le> ring_dist (unat (rxbuf_size p)) (unat (snap_rd bs hw p)) (unat hw)"
    and "ring_dist (unat (rxbuf_size p)) (unat (snap_rd bs hw p)) (unat hw)
         < unat (rxbuf_size p) div 2 + unat bs"
proof -
  let ?sz = "unat (rxbuf_size p)" and ?h = "unat (rxbuf_size p) div 2"
  let ?s = "ring_dist ?sz ?h (unat hw)" and ?new = "unat (snap_rd bs hw p)"
  have sz: "0 < ?sz" "unat hw < ?sz" using rx_geomD(2) [OF g] hw by (auto simp: word_nat)
  have new: "?new = ?s div unat bs * unat bs" by (rule snap_rd_block(2) [OF g hw])
  have split: "?s = ?new + ?s mod unat bs" unfolding new by (simp only: div_mult_mod_eq)
  have m: "?s mod unat bs < unat bs" using rx_geomD(1) [OF g] by simp
  have "unat bs + ?h \<le> ?sz" using fits by linarith
  have s: "?s < ?sz" using sz by simp
  have "(?h + ?s) mod ?sz = unat hw"
    using ring_dist_reach [of ?h ?sz "unat hw"] sz by simp
  moreover have "?new + (?h + ?s mod unat bs) = ?h + ?s" using split by linarith
  then have "(?new + (?h + ?s mod unat bs)) mod ?sz = (?h + ?s) mod ?sz" by (simp only:)
  moreover have "(?new + ring_dist ?sz ?new (unat hw)) mod ?sz = unat hw"
    using ring_dist_reach [of ?new ?sz "unat hw"] s split sz by simp
  ultimately have "(?new + ring_dist ?sz ?new (unat hw)) mod ?sz = (?new + (?h + ?s mod unat bs)) mod ?sz"
    by simp
  moreover have "ring_dist ?sz ?new (unat hw) < ?sz" "?h + ?s mod unat bs < ?sz"
    using m \<open>unat bs + ?h \<le> ?sz\<close> sz by auto
  ultimately have "ring_dist ?sz ?new (unat hw) = ?h + ?s mod unat bs" by (rule mod_add_cancel)
  then show "?h \<le> ring_dist ?sz ?new (unat hw)" "ring_dist ?sz ?new (unat hw) < ?h + unat bs"
    using m by auto
qed

subsection \<open>read\<close>

text \<open>The state in which a woken \<^verbatim>\<open>read()\<close> delivers: after the overrun check.\<close>

definition read_snapped :: "u32 \<Rightarrow> u32 \<Rightarrow> u32 \<Rightarrow> axi_priv \<Rightarrow> axi_priv \<times> u32" where
  "read_snapped bs max_blocks hw1 p =
     (if sint max_blocks \<le> sint (blocks_ready p) then axi_read_overrun bs hw1 p else (p, 0))"

lemma axi_read_stats_frame [simp]:
  "rd_ptr (axi_read_stats w n p) = rd_ptr p"
  "rxbuf_size (axi_read_stats w n p) = rxbuf_size p"
  "rxbuf_phys (axi_read_stats w n p) = rxbuf_phys p"
  "rxbuf_size_max (axi_read_stats w n p) = rxbuf_size_max p"
  "blocks_ready (axi_read_stats w n p) = blocks_ready p"
  "timer_wr_ptr (axi_read_stats w n p) = timer_wr_ptr p"
  "closing (axi_read_stats w n p) = closing p"
  by (simp_all add: axi_read_stats_def Let_def)

lemma axi_read_overrun_frame [simp]:
  "rxbuf_size (fst (axi_read_overrun bs hw p)) = rxbuf_size p"
  "rxbuf_phys (fst (axi_read_overrun bs hw p)) = rxbuf_phys p"
  "rxbuf_size_max (fst (axi_read_overrun bs hw p)) = rxbuf_size_max p"
  "timer_wr_ptr (fst (axi_read_overrun bs hw p)) = timer_wr_ptr p"
  "closing (fst (axi_read_overrun bs hw p)) = closing p"
  by (simp_all add: axi_read_overrun_def Let_def)

lemma rx_rel_stats [simp]: "rx_rel bs (axi_read_stats w n p) a = rx_rel bs p a"
  by (simp add: rx_rel_def)

lemma rx_geom_frame:
  "rxbuf_size p' = rxbuf_size p \<Longrightarrow> rx_geom bs p' = rx_geom bs p"
  by (simp add: rx_geom_def)

lemma axi_read_overrun_rel:
  assumes g: "rx_geom bs p" and r: "rx_rel bs p a" and hw: "hw < rxbuf_size p"
    and full: "unat (rxbuf_size p) div unat bs \<le> unat (blocks_ready p)"
  shows "rx_rel bs (fst (axi_read_overrun bs hw p)) (a\<lparr>consumed := consumed a + skipped_blocks bs hw p\<rparr>)"
    and "consumed a + skipped_blocks bs hw p < produced a"
proof -
  let ?k = "skipped_blocks bs hw p"
  note l = axi_read_overrun_lost [OF g rx_rel_ptrs(1) [OF g r] hw]
  have b: "unat (blocks_ready p) = produced a - consumed a" "consumed a \<le> produced a"
    using r by (auto simp: rx_rel_def)
  show lt: "consumed a + ?k < produced a" using l(3) full b by linarith
  have le: "snd (axi_read_overrun bs hw p) div bs \<le> blocks_ready p"
    using l(2) lt b by (simp add: word_nat)
  have bl: "blocks_ready (fst (axi_read_overrun bs hw p))
      = blocks_ready p - snd (axi_read_overrun bs hw p) div bs"
    by (simp add: axi_read_overrun_def Let_def)
  have "unat (blocks_ready (fst (axi_read_overrun bs hw p))) = produced a - consumed a - ?k"
    using unat_minus_le [OF le] l(2) b bl by simp
  moreover have "unat (rd_ptr (fst (axi_read_overrun bs hw p)))
      = (consumed a + ?k) * unat bs mod unat (rxbuf_size p)"
    using l(4) r by (simp add: axi_read_overrun_unfold Let_def rx_rel_def mod_add_left_eq distrib_right)
  ultimately show "rx_rel bs (fst (axi_read_overrun bs hw p)) (a\<lparr>consumed := consumed a + ?k\<rparr>)"
    using r lt by (auto simp: rx_rel_def)
qed

lemma read_snapped_rel:
  assumes g: "rx_geom bs p" and r: "rx_rel bs p a" and hw: "hw1 < rxbuf_size p"
    and wake: "0 < sint (blocks_ready p)"
  obtains k where "rx_rel bs (fst (read_snapped bs (rxbuf_size p div bs) hw1 p))
      (a\<lparr>consumed := consumed a + k\<rparr>)"
    "consumed a + k < produced a"
    "unat (snd (read_snapped bs (rxbuf_size p div bs) hw1 p)) = k * unat bs"
    "rxbuf_size (fst (read_snapped bs (rxbuf_size p div bs) hw1 p)) = rxbuf_size p"
    "unat (blocks_ready p) < unat (rxbuf_size p) div unat bs \<longrightarrow> k = 0"
    "sint (rxbuf_size p div bs) \<le> sint (blocks_ready p) \<longrightarrow> k = skipped_blocks bs hw1 p"
proof (cases "sint (rxbuf_size p div bs) \<le> sint (blocks_ready p)")
  case True
  have m: "unat (rxbuf_size p div bs) = unat (rxbuf_size p) div unat bs"
    by (simp add: unat_div_distrib)
  have bl: "unat (blocks_ready p) < 2147483648" "0 < unat (blocks_ready p)"
    using wake by (auto simp: sint_pos_iff)
  have "unat (rxbuf_size p div bs) < 2147483648"
    using rx_geomD(4) [OF g] div_le_dividend [of "unat (rxbuf_size p)" "unat bs"] m by linarith
  then have full: "unat (rxbuf_size p) div unat bs \<le> unat (blocks_ready p)"
    using True sint_eq_unat [of "rxbuf_size p div bs"] sint_eq_unat [OF bl(1)] m by linarith
  show ?thesis
    using that [of "skipped_blocks bs hw1 p"] True full
      axi_read_overrun_rel [OF g r hw full]
      axi_read_overrun_lost(1) [OF g rx_rel_ptrs(1) [OF g r] hw]
    by (simp add: read_snapped_def)
next
  case False
  then show ?thesis
    using that [of 0] r wake by (auto simp: read_snapped_def rx_rel_def sint_pos_iff)
qed

text \<open>What a successful \<^verbatim>\<open>read()\<close> returns, in terms of the state after the overrun check.\<close>

lemma axi_read_resume_ok:
  assumes "axi_read_resume bs mb hw1 hw2 now copied p = (Inr resp, p', acts)"
  shows "\<not> closing p" "copied"
    "resp = \<lparr>rx_rd = rd_ptr (fst (read_snapped bs mb hw1 p)), rx_hw_wr = hw2,
             rx_lost_bytes = snd (read_snapped bs mb hw1 p)\<rparr>"
    "acts = [Dma_sync_for_cpu (rxbuf_phys p + rd_ptr (fst (read_snapped bs mb hw1 p))) bs]"
    "rd_ptr p' = adv_wrap bs (rxbuf_size p) (rd_ptr (fst (read_snapped bs mb hw1 p)))"
    "blocks_ready p' = blocks_ready (fst (read_snapped bs mb hw1 p)) - 1"
    "rxbuf_size p' = rxbuf_size p" "timer_wr_ptr p' = timer_wr_ptr p"
  using assms
  by (auto simp: axi_read_resume_def read_snapped_def Let_def split: if_splits prod.splits
        dest!: arg_cong [where f = fst])

lemma axi_read_rel:
  assumes g: "rx_geom bs p" and r: "rx_rel bs p a" and hw: "hw1 < rxbuf_size p"
    and wake: "0 < sint (blocks_ready p)"
    and rd: "axi_read_resume bs (rxbuf_size p div bs) hw1 hw2 now copied p = (Inr resp, p', acts)"
  obtains k i a' where "abs_read k a = Some (i, a')" "rx_rel bs p' a'"
    "unat (rx_rd resp) = i * unat bs mod unat (rxbuf_size p)"
    "unat (rx_lost_bytes resp) = k * unat bs"
    "unat (blocks_ready p) < unat (rxbuf_size p) div unat bs \<longrightarrow> k = 0"
    "sint (rxbuf_size p div bs) \<le> sint (blocks_ready p) \<longrightarrow> k = skipped_blocks bs hw1 p"
proof -
  from read_snapped_rel [OF g r hw wake] obtain k where k:
    "rx_rel bs (fst (read_snapped bs (rxbuf_size p div bs) hw1 p)) (a\<lparr>consumed := consumed a + k\<rparr>)"
    "consumed a + k < produced a"
    "unat (snd (read_snapped bs (rxbuf_size p div bs) hw1 p)) = k * unat bs"
    "rxbuf_size (fst (read_snapped bs (rxbuf_size p div bs) hw1 p)) = rxbuf_size p"
    "unat (blocks_ready p) < unat (rxbuf_size p) div unat bs \<longrightarrow> k = 0"
    "sint (rxbuf_size p div bs) \<le> sint (blocks_ready p) \<longrightarrow> k = skipped_blocks bs hw1 p"
    by metis
  let ?p1 = "fst (read_snapped bs (rxbuf_size p div bs) hw1 p)"
  note ok = axi_read_resume_ok [OF rd]
  have rd1: "unat (rd_ptr ?p1) = (consumed a + k) * unat bs mod unat (rxbuf_size p)"
    using k(1,4) by (simp add: rx_rel_def)
  have ob: "on_block bs (rxbuf_size p) (rd_ptr ?p1)" using g rd1 by (rule rx_on_block)
  have b1: "unat (blocks_ready ?p1) = produced a - (consumed a + k)" using k(1) by (simp add: rx_rel_def)
  then have "1 \<le> blocks_ready ?p1" using k(2) by (simp add: word_nat)
  then have "unat (blocks_ready p') = produced a - (consumed a + k + 1)"
    using b1 by (simp add: ok unat_minus_le)
  moreover have "unat (rd_ptr p') = (consumed a + k + 1) * unat bs mod unat (rxbuf_size p)"
    by (simp add: ok unat_adv_wrap [OF ob] rd1 mod_add_left_eq) (simp add: ac_simps)
  ultimately have "rx_rel bs p' (a\<lparr>consumed := consumed a + k + 1\<rparr>)"
    using k(1,2) r by (auto simp: rx_rel_def ok)
  then show thesis
    using k(2,3,5,6) rd1 ok by (intro that [of k "consumed a + k"]) (simp_all add: abs_read_def)
qed

end
