(* ===== verification/Ring_Stream.thy ===== *)
theory Ring_Stream
  imports Ring
begin

text \<open>
  A ring buffer as a window on an endless byte stream. The FPGA writes the bytes of the
  stream one after the other around the ring; software reads behind it. Here is what the
  ring holds after a number of bytes, and the interface (the locale \<open>ring_reader\<close>) that
  every software reader of the ring satisfies: the kernel streaming thread and the legacy
  user-space reader are two of them. The locale's theorem is the one that matters to a
  receiver: what the reader copies out is a contiguous piece of the stream, as long as the
  writer does not get a whole ring ahead.
\<close>

subsection \<open>The ring and the stream\<close>

text \<open>\<open>ring_holds s n P mem\<close>: after \<open>P\<close> bytes, the ring holds the last \<open>n\<close> of them.\<close>

definition ring_holds :: "(nat \<Rightarrow> 'a) \<Rightarrow> nat \<Rightarrow> nat \<Rightarrow> (nat \<Rightarrow> 'a) \<Rightarrow> bool" where
  "ring_holds s n P mem \<longleftrightarrow> (\<forall>j < P. P \<le> j + n \<longrightarrow> mem (j mod n) = s j)"

definition ring_slice :: "nat \<Rightarrow> (nat \<Rightarrow> 'a) \<Rightarrow> nat \<Rightarrow> nat \<Rightarrow> 'a list" where
  "ring_slice n mem r k = map (\<lambda>i. mem ((r + i) mod n)) [0..<k]"

definition stream_slice :: "(nat \<Rightarrow> 'a) \<Rightarrow> nat \<Rightarrow> nat \<Rightarrow> 'a list" where
  "stream_slice s a b = map s [a..<b]"

lemma length_ring_slice [simp]: "length (ring_slice n mem r k) = k"
  by (simp add: ring_slice_def)

lemma length_stream_slice [simp]: "length (stream_slice s a b) = b - a"
  by (simp add: stream_slice_def)

lemma stream_slice_append:
  "a \<le> b \<Longrightarrow> b \<le> c \<Longrightarrow> stream_slice s a b @ stream_slice s b c = stream_slice s a c"
  unfolding stream_slice_def map_append [symmetric]
  by (metis le_Suc_ex upt_add_eq_append)

lemma stream_slice_empty [simp]: "stream_slice s a a = []"
  by (simp add: stream_slice_def)

lemma ring_holds_produce:
  assumes "ring_holds s n P mem" "0 < n"
  shows "ring_holds s n (Suc P) (mem(P mod n := s P))"
  unfolding ring_holds_def
proof (intro allI impI)
  fix j assume j: "j < Suc P" "Suc P \<le> j + n"
  show "(mem(P mod n := s P)) (j mod n) = s j"
  proof (cases "j = P")
    case False
    with j have "j < P" "P - j < n" by auto
    have "j mod n \<noteq> P mod n"
    proof
      assume "j mod n = P mod n"
      then have "n dvd P - j" using mod_eq_dvd_iff_nat [of j P n] \<open>j < P\<close> by simp
      then show False using dvd_imp_le [of n "P - j"] \<open>j < P\<close> \<open>P - j < n\<close> by simp
    qed
    then show ?thesis using assms(1) \<open>j < P\<close> j(2) by (simp add: ring_holds_def)
  qed simp
qed

text \<open>
  Software that copies a block out of the ring reads its bytes one after the other while
  the FPGA goes on writing. \<open>copied_between s n lo hi mem a\<close>: the byte the copy finds at
  offset \<open>a\<close> is what the ring held there at some moment at which the FPGA had written at
  least \<open>lo\<close> and at most \<open>hi\<close> bytes. Each byte has a moment of its own.
\<close>

definition copied_between :: "(nat \<Rightarrow> 'a) \<Rightarrow> nat \<Rightarrow> nat \<Rightarrow> nat \<Rightarrow> (nat \<Rightarrow> 'a) \<Rightarrow> nat \<Rightarrow> bool" where
  "copied_between s n lo hi mem a \<longleftrightarrow>
     (\<exists>m P. lo \<le> P \<and> P \<le> hi \<and> ring_holds s n P m \<and> mem a = m a)"

lemma ring_holds_exists: "0 < n \<Longrightarrow> \<exists>m. ring_holds s n P m"
proof (induction P)
  case 0
  then show ?case by (simp add: ring_holds_def)
next
  case (Suc P)
  then show ?case using ring_holds_produce by metis
qed

lemma copied_byte:
  "copied_between s n lo hi mem (j mod n) \<Longrightarrow> j < lo \<Longrightarrow> hi \<le> j + n \<Longrightarrow> mem (j mod n) = s j"
  by (auto simp: copied_between_def ring_holds_def)

lemma copied_betweenI:
  assumes "0 < n" "lo \<le> P" "P \<le> hi" "j < P" "P \<le> j + n" "mem (j mod n) = s j"
  shows "copied_between s n lo hi mem (j mod n)"
proof -
  obtain m where "ring_holds s n P m" using ring_holds_exists [OF assms(1)] by metis
  then show ?thesis
    unfolding copied_between_def using assms by (intro exI [of _ m] exI [of _ P]) (simp add: ring_holds_def)
qed

text \<open>A block all of whose bytes are read late enough and soon enough is the stream's.\<close>

lemma copied_slice:
  assumes "\<And>j. C \<le> j \<Longrightarrow> j < C + k \<Longrightarrow> copied_between s n lo (j + n) mem (j mod n)" "C + k \<le> lo"
  shows "ring_slice n mem (C mod n) k = stream_slice s C (C + k)"
proof (rule nth_equalityI)
  fix i assume "i < length (ring_slice n mem (C mod n) k)"
  then have i: "i < k" by simp
  then have "mem ((C + i) mod n) = s (C + i)"
    using assms by (intro copied_byte [of s n lo "C + i + n"]) simp_all
  then show "ring_slice n mem (C mod n) k ! i = stream_slice s C (C + k) ! i"
    using i by (simp add: ring_slice_def stream_slice_def mod_add_left_eq)
qed simp

lemma ring_slice_stream:
  assumes "ring_holds s n P mem" "C + k \<le> P" "P \<le> C + n"
  shows "ring_slice n mem (C mod n) k = stream_slice s C (C + k)"
proof (rule nth_equalityI)
  fix i assume "i < length (ring_slice n mem (C mod n) k)"
  then have i: "i < k" by simp
  then have "mem ((C + i) mod n) = s (C + i)"
    using assms by (simp add: ring_holds_def)
  then show "ring_slice n mem (C mod n) k ! i = stream_slice s C (C + k) ! i"
    using i by (simp add: ring_slice_def stream_slice_def mod_add_left_eq)
qed simp

lemma ring_dist_counts:
  assumes "C \<le> P" "P < C + n"
  shows "ring_dist n (C mod n) (P mod n) = P - C"
proof -
  have n: "0 < n" using assms by simp
  have "(C mod n + ring_dist n (C mod n) (P mod n)) mod n = P mod n"
    using ring_dist_reach [of "C mod n" n "P mod n"] n by simp
  also have "P mod n = (C + (P - C)) mod n" using assms by simp
  also have "\<dots> = (C mod n + (P - C)) mod n" by (rule mod_add_left_eq [symmetric])
  finally have eq: "(C mod n + ring_dist n (C mod n) (P mod n)) mod n = (C mod n + (P - C)) mod n" .
  show ?thesis
    using mod_add_cancel [OF eq] n assms by simp
qed

text \<open>A flat copy of \<open>k\<close> bytes that stays inside the ring is a slice of it.\<close>

lemma flat_slice:
  assumes "r + k \<le> n"
  shows "map mem [r..<r + k] = ring_slice n mem r k"
proof (rule nth_equalityI)
  fix i assume "i < length (map mem [r..<r + k])"
  then show "map mem [r..<r + k] ! i = ring_slice n mem r k ! i"
    using assms by (simp add: ring_slice_def)
qed simp

lemma wrap_slice:
  assumes "r \<le> n" "n < r + k" "k \<le> n"
  shows "map mem [r..<n] @ map mem [0..<k - (n - r)] = ring_slice n mem r k"
proof (rule nth_equalityI)
  show "length (map mem [r..<n] @ map mem [0..<k - (n - r)]) = length (ring_slice n mem r k)"
    using assms by simp
  fix i assume "i < length (map mem [r..<n] @ map mem [0..<k - (n - r)])"
  then show "(map mem [r..<n] @ map mem [0..<k - (n - r)]) ! i = ring_slice n mem r k ! i"
    using assms by (auto simp: ring_slice_def nth_append le_mod_geq add.commute)
qed

lemma mod_distinct:
  assumes "(a :: nat) < b" "b < a + n"
  shows "a mod n \<noteq> b mod n"
proof
  assume "a mod n = b mod n"
  then have "n dvd b - a" using mod_eq_dvd_iff_nat [of a b n] assms by simp
  then show False using dvd_imp_le [of n "b - a"] assms by simp
qed

text \<open>Writing a block of data at an index of a buffer.\<close>

definition write_block :: "nat \<Rightarrow> 'a list \<Rightarrow> (nat \<Rightarrow> 'a) \<Rightarrow> nat \<Rightarrow> 'a" where
  "write_block at xs mem i = (if at \<le> i \<and> i < at + length xs then xs ! (i - at) else mem i)"

text \<open>A block written at the write position, inside the ring, continues the stream.\<close>

lemma ring_holds_block:
  assumes "ring_holds s n P mem" "P mod n + k \<le> n" "xs = stream_slice s P (P + k)" "0 < n"
  shows "ring_holds s n (P + k) (write_block (P mod n) xs mem)"
  unfolding ring_holds_def
proof (intro allI impI)
  fix j assume j: "j < P + k" "P + k \<le> j + n"
  have at: "(P + i) mod n = P mod n + i" if "i < k" for i
  proof -
    have "(P + i) mod n = (P mod n + i) mod n" by (simp add: mod_add_left_eq)
    then show ?thesis using assms(2) that by simp
  qed
  show "write_block (P mod n) xs mem (j mod n) = s j"
  proof (cases "P \<le> j")
    case True
    then obtain d where d: "j = P + d" "d < k" using j(1) by (auto simp: le_iff_add)
    then show ?thesis using at [OF d(2)] by (simp add: write_block_def assms(3) stream_slice_def)
  next
    case False
    have "j mod n \<noteq> P mod n + i" if "i < k" for i
      using mod_distinct [of j "P + i" n] at [OF that] that j False by simp
    then have "\<not> (P mod n \<le> j mod n \<and> j mod n < P mod n + k)"
      by (metis le_Suc_ex nat_add_left_cancel_less)
    then show ?thesis
      using assms(1) False j by (auto simp: write_block_def assms(3) ring_holds_def)
  qed
qed

subsection \<open>Readers\<close>

text \<open>
  A reader polls: it is given the memory and the write pointer as they are at that moment
  and either has nothing to do (\<open>None\<close>) or copies some bytes out and moves on.
\<close>

type_synonym 'p poll = "(nat \<Rightarrow> u8) \<Rightarrow> u32 \<Rightarrow> 'p \<Rightarrow> (u8 list \<times> 'p) option"

fun run_reader :: "'p poll \<Rightarrow> (nat \<times> (nat \<Rightarrow> u8)) list \<Rightarrow> nat \<Rightarrow> 'p \<Rightarrow> u8 list \<times> 'p" where
  "run_reader poll [] n p = ([], p)"
| "run_reader poll ((P, mem) # xs) n p =
     (case poll mem (of_nat (P mod n)) p of
        None \<Rightarrow> run_reader poll xs n p
      | Some (out, p1) \<Rightarrow>
          let (out2, p2) = run_reader poll xs n p1 in (out @ out2, p2))"

text \<open>
  \<open>keeps_up\<close>: at each poll the writer has produced \<open>P\<close> bytes of the stream, no fewer than
  the \<open>C\<close> bytes read so far and less than a ring more.
\<close>

fun keeps_up ::
  "'p poll \<Rightarrow> (nat \<Rightarrow> u8) \<Rightarrow> nat \<Rightarrow> nat \<Rightarrow> (nat \<times> (nat \<Rightarrow> u8)) list \<Rightarrow> 'p \<Rightarrow> bool" where
  "keeps_up poll s n C [] p \<longleftrightarrow> True"
| "keeps_up poll s n C ((P, mem) # xs) p \<longleftrightarrow>
     C \<le> P \<and> P < C + n \<and> ring_holds s n P mem \<and>
     (case poll mem (of_nat (P mod n)) p of
        None \<Rightarrow> keeps_up poll s n C xs p
      | Some (out, p1) \<Rightarrow> keeps_up poll s n (C + length out) xs p1)"

locale ring_reader =
  fixes poll :: "'p poll" and pos :: "'p \<Rightarrow> nat" and inv :: "nat \<Rightarrow> 'p \<Rightarrow> bool"
  assumes inv_pos: "inv n p \<Longrightarrow> pos p < n"
    and inv_size: "inv n p \<Longrightarrow> n < 4294967296"
    and poll_some: "inv n p \<Longrightarrow> unat wr < n \<Longrightarrow> poll mem wr p = Some (out, p') \<Longrightarrow>
      length out \<le> ring_dist n (pos p) (unat wr) \<and>
      out = ring_slice n mem (pos p) (length out) \<and>
      pos p' = (pos p + length out) mod n \<and> inv n p'"
begin

lemma poll_counts:
  assumes "inv n p" "pos p = C mod n" "C \<le> P" "P < C + n" "ring_holds s n P mem"
    and "poll mem (of_nat (P mod n)) p = Some (out, p')"
  shows "out = stream_slice s C (C + length out) \<and> C + length out \<le> P \<and>
         inv n p' \<and> pos p' = (C + length out) mod n"
proof -
  have n: "0 < n" "n < 4294967296" using assms(1) inv_pos inv_size by fastforce+
  have "P mod n < 4294967296" using n mod_less_divisor [of n P] by linarith
  then have u: "unat (of_nat (P mod n) :: u32) = P mod n" by (simp add: unat_of_nat)
  have ps: "length out \<le> ring_dist n (pos p) (P mod n) \<and> out = ring_slice n mem (pos p) (length out) \<and>
      pos p' = (pos p + length out) mod n \<and> inv n p'"
    using poll_some [OF assms(1) _ assms(6)] u n by simp
  then have le: "C + length out \<le> P"
    using ring_dist_counts [OF assms(3,4)] assms(2,3) by auto
  then have "out = stream_slice s C (C + length out)"
    using ps ring_slice_stream [OF assms(5) le] assms(2,4) by simp
  then show ?thesis using ps le assms(2) by (simp add: mod_add_left_eq)
qed

theorem run_is_stream:
  assumes "inv n p" "pos p = C mod n" "keeps_up poll s n C xs p"
  shows "\<exists>D. fst (run_reader poll xs n p) = stream_slice s C D \<and> C \<le> D \<and>
             pos (snd (run_reader poll xs n p)) = D mod n"
  using assms
proof (induction xs arbitrary: C p)
  case Nil
  then show ?case by (auto intro!: exI [of _ C])
next
  case (Cons x xs)
  obtain P mem where x: "x = (P, mem)" by (cases x)
  show ?case
  proof (cases "poll mem (of_nat (P mod n)) p")
    case None
    then show ?thesis using Cons x by simp
  next
    case (Some r)
    obtain out p1 where r: "r = (out, p1)" by (cases r)
    have pc: "out = stream_slice s C (C + length out) \<and> C + length out \<le> P \<and>
         inv n p1 \<and> pos p1 = (C + length out) mod n"
    proof (rule poll_counts [OF Cons.prems(1,2)])
      show "C \<le> P" "P < C + n" "ring_holds s n P mem"
        "poll mem (of_nat (P mod n)) p = Some (out, p1)"
        using Cons.prems(3) Some r x by simp_all
    qed
    have "keeps_up poll s n (C + length out) xs p1" using Cons.prems(3) Some r x by simp
    from Cons.IH [OF _ _ this] pc obtain D where
      D: "fst (run_reader poll xs n p1) = stream_slice s (C + length out) D" "C + length out \<le> D"
        "pos (snd (run_reader poll xs n p1)) = D mod n"
      by blast
    have "fst (run_reader poll (x # xs) n p) = stream_slice s C (C + length out) @ stream_slice s (C + length out) D"
      using Some r x D(1) pc by (simp add: case_prod_unfold Let_def)
    also have "\<dots> = stream_slice s C D" using D(2) by (simp add: stream_slice_append)
    finally show ?thesis
      using D Some r x by (auto simp: case_prod_unfold Let_def intro!: exI [of _ D])
  qed
qed

end

end
