(* ===== verification/Axi_Props.thy ===== *)
theory Axi_Props
  imports Axi_Ring Ring_Stream
begin

text \<open>
  What the receive and transmit rings of \<^verbatim>\<open>ad936x-axi.c\<close> promise: runs of the timer and
  of \<^verbatim>\<open>read()\<close>, the memory the driver touches, the flow control of \<^verbatim>\<open>write()\<close>, the
  debugfs report.
\<close>

subsection \<open>Runs of the receive side\<close>

text \<open>
  The receive side after ENABLE is driven by timer ticks, each with the hardware write
  pointer it reads, and by \<^verbatim>\<open>read()\<close> calls, each with the two pointers it may read and
  the time. A call that finds no block ready sleeps and has no effect; the list collects
  the replies of the others.
\<close>

datatype rx_event = Tick u32 | Read u32 u32 int

fun rx_step :: "u32 \<Rightarrow> rx_event \<Rightarrow> axi_priv \<Rightarrow> axi_rx_read list \<times> axi_priv" where
  "rx_step bs (Tick hw) p = ([], fst (axi_timer bs hw p))"
| "rx_step bs (Read hw1 hw2 now) p =
     (if axi_read_wakes p then
        (case axi_read_resume bs (rxbuf_size p div bs) hw1 hw2 now True p of
           (Inr r, p', _) \<Rightarrow> ([r], p') | (Inl _, p', _) \<Rightarrow> ([], p'))
      else ([], p))"

fun rx_run :: "u32 \<Rightarrow> rx_event list \<Rightarrow> axi_priv \<Rightarrow> axi_rx_read list \<times> axi_priv" where
  "rx_run bs [] p = ([], p)"
| "rx_run bs (e # es) p =
     (let (rs, p1) = rx_step bs e p; (rs', p2) = rx_run bs es p1 in (rs @ rs', p2))"

fun event_hw :: "rx_event \<Rightarrow> u32 set" where
  "event_hw (Tick hw) = {hw}"
| "event_hw (Read hw1 hw2 _) = {hw1, hw2}"

text \<open>
  The reference for a run knows nothing of the driver. The FPGA has written \<open>H\<close> bytes
  since ENABLE, a number that only grows; its register \<^verbatim>\<open>rx_buf_wr\<close> shows \<open>H\<close> modulo the
  ring. An event of a run is a timer tick at a position, or a \<^verbatim>\<open>read()\<close> that finds the FPGA
  at \<open>H1\<close> when it checks for an overrun and at \<open>H2\<close> when it replies.
\<close>

datatype fpga_event = Tick_at nat | Read_at nat nat int

fun ring_event :: "nat \<Rightarrow> fpga_event \<Rightarrow> rx_event" where
  "ring_event n (Tick_at H) = Tick (of_nat (H mod n))"
| "ring_event n (Read_at H1 H2 now) = Read (of_nat (H1 mod n)) (of_nat (H2 mod n)) now"

text \<open>
  On positions the receive side is plain arithmetic. A tick accepts every whole block the
  FPGA has written. A read takes the next accepted block; when a whole ring of blocks waits,
  it goes on at the block half a ring behind the FPGA. Its result is the number of the block
  in the stream, the number of blocks passed over, and the position when it replied.
\<close>

fun stream_step :: "nat \<Rightarrow> nat \<Rightarrow> fpga_event \<Rightarrow> rx_abs \<Rightarrow> (nat \<times> nat \<times> nat) list \<times> rx_abs" where
  "stream_step bs n (Tick_at H) a = ([], a\<lparr>produced := H div bs\<rparr>)"
| "stream_step bs n (Read_at H1 H2 now) a =
     (if consumed a < produced a then
        let i = (if produced a - consumed a < n div bs then consumed a else (H1 - n div 2) div bs)
        in ([(i, i - consumed a, H2)], a\<lparr>consumed := i + 1\<rparr>)
      else ([], a))"

fun stream_run :: "nat \<Rightarrow> nat \<Rightarrow> fpga_event list \<Rightarrow> rx_abs \<Rightarrow> (nat \<times> nat \<times> nat) list \<times> rx_abs" where
  "stream_run bs n [] a = ([], a)"
| "stream_run bs n (e # es) a =
     (let (xs, a1) = stream_step bs n e a; (ys, a2) = stream_run bs n es a1 in (xs @ ys, a2))"

definition stream_start :: rx_abs where
  "stream_start = \<lparr>produced = 0, consumed = 0\<rparr>"

text \<open>The reply the driver owes for a block of the reference.\<close>

fun stream_reply :: "nat \<Rightarrow> nat \<Rightarrow> nat \<times> nat \<times> nat \<Rightarrow> axi_rx_read" where
  "stream_reply bs n (i, k, H) =
     \<lparr>rx_rd = of_nat (i * bs mod n), rx_hw_wr = of_nat (H mod n), rx_lost_bytes = of_nat (k * bs)\<rparr>"

text \<open>
  The timing the driver depends on, none of which it checks: between two ticks the FPGA
  writes less than one ring, since the register cannot show a whole turn; a read that finds
  a whole ring waiting comes before the FPGA is one and a half rings past the reader; and
  the blocks waiting fit the driver's signed counter.
\<close>

fun timely :: "nat \<Rightarrow> nat \<Rightarrow> nat \<Rightarrow> rx_abs \<Rightarrow> fpga_event list \<Rightarrow> bool" where
  "timely bs n H0 a [] \<longleftrightarrow> True"
| "timely bs n H0 a (Tick_at H # es) \<longleftrightarrow>
     H0 \<le> H \<and> H < produced a * bs + n \<and> H div bs - consumed a < 2147483648 \<and>
     timely bs n H (snd (stream_step bs n (Tick_at H) a)) es"
| "timely bs n H0 a (Read_at H1 H2 now # es) \<longleftrightarrow>
     H0 \<le> H1 \<and> H1 \<le> H2 \<and>
     (n div bs \<le> produced a - consumed a \<longrightarrow> H1 < consumed a * bs + n + n div 2) \<and>
     timely bs n H2 (snd (stream_step bs n (Read_at H1 H2 now) a)) es"

text \<open>The gap before each block of a list of block numbers.\<close>

fun gaps :: "nat \<Rightarrow> nat list \<Rightarrow> nat list" where
  "gaps c [] = []"
| "gaps c (i # is) = (i - c) # gaps (i + 1) is"

lemma axi_read_resume_frame:
  "rxbuf_size (fst (snd (axi_read_resume bs mb hw1 hw2 now copied p))) = rxbuf_size p"
  "closing (fst (snd (axi_read_resume bs mb hw1 hw2 now copied p))) = closing p"
  by (simp_all add: axi_read_resume_def Let_def split: prod.splits)
     (metis axi_read_overrun_frame fst_conv)+

lemma rx_step_frame:
  "rxbuf_size (snd (rx_step bs e p)) = rxbuf_size p"
  "closing (snd (rx_step bs e p)) = closing p"
proof -
  have "rxbuf_size (snd (rx_step bs e p)) = rxbuf_size p \<and> closing (snd (rx_step bs e p)) = closing p"
  proof (cases e)
    case (Tick hw)
    then show ?thesis by (simp add: axi_timer_def Let_def split: prod.splits)
  next
    case (Read hw1 hw2 now)
    then show ?thesis
      using axi_read_resume_frame [of bs "rxbuf_size p div bs" hw1 hw2 now True p]
      by (auto split: prod.splits sum.splits)
  qed
  then show "rxbuf_size (snd (rx_step bs e p)) = rxbuf_size p" "closing (snd (rx_step bs e p)) = closing p"
    by blast+
qed

lemma axi_read_resume_replies:
  assumes "\<not> closing p"
  obtains r p' acts where "axi_read_resume bs mb hw1 hw2 now True p = (Inr r, p', acts)"
  using assms by (simp add: axi_read_resume_def Let_def case_prod_unfold)

text \<open>Positions and the registers that show them.\<close>

lemma unat_ring_pos:
  assumes "n < 2147483648" "0 < n"
  shows "unat (of_nat (H mod n) :: u32) = H mod n"
proof -
  have "H mod n < 4294967296" using mod_less_divisor [OF assms(2), of H] assms(1) by linarith
  then show ?thesis by (simp add: unat_of_nat)
qed

lemma ring_pos_less: "0 < unat n \<Longrightarrow> unat n < 2147483648 \<Longrightarrow> (of_nat (H mod unat n) :: u32) < n"
  by (simp add: word_nat unat_ring_pos)

lemma block_of_mod:
  assumes "(bs :: nat) dvd n" shows "x mod n div bs * bs = x div bs * bs mod n"
proof -
  obtain N where n: "n = bs * N" using assms by blast
  have "x mod n div bs = x div bs mod N"
    by (cases "bs = 0") (simp_all add: n mod_mult2_eq)
  then show ?thesis unfolding n by (simp add: mult.commute mult_mod_left)
qed

lemma div_past: "T * bs \<le> (H :: nat) \<Longrightarrow> 0 < bs \<Longrightarrow> (H - T * bs) div bs = H div bs - T"
  by (auto simp: le_iff_add)

lemma tick_blocks_pos:
  assumes g: "rx_geom bs p" and r: "rx_rel bs p a"
    and H: "produced a * unat bs \<le> H" "H < produced a * unat bs + unat (rxbuf_size p)"
  shows "tick_blocks bs (of_nat (H mod unat (rxbuf_size p))) p = H div unat bs - produced a"
  using rx_geomD [OF g] r ring_dist_counts [OF H] div_past [OF H(1)]
  by (simp add: tick_blocks_def rx_rel_def unat_ring_pos)

text \<open>The block half a ring behind the FPGA, and what is passed over to reach it.\<close>

lemma snap_rd_pos:
  assumes g: "rx_geom bs p" and H: "unat (rxbuf_size p) div 2 \<le> H"
  shows "unat (snap_rd bs (of_nat (H mod unat (rxbuf_size p))) p) =
    (H - unat (rxbuf_size p) div 2) div unat bs * unat bs mod unat (rxbuf_size p)"
proof -
  let ?n = "unat (rxbuf_size p)" let ?h = "?n div 2"
  note n = rx_geomD [OF g]
  have "ring_dist ?n (?h mod ?n) ((?h + (H - ?h) mod ?n) mod ?n) = (H - ?h) mod ?n"
    using ring_dist_counts [of ?h "?h + (H - ?h) mod ?n" ?n] n(2) by simp
  then have "ring_dist ?n ?h (H mod ?n) = (H - ?h) mod ?n"
    using H n(2) by (simp add: mod_add_right_eq)
  then show ?thesis
    using snap_rd_block(2) [OF g ring_pos_less] n block_of_mod [OF n(3)] by (simp add: unat_ring_pos)
qed

lemma skipped_blocks_pos:
  assumes g: "rx_geom bs p" and r: "rx_rel bs p a"
    and H: "consumed a * unat bs + unat (rxbuf_size p) \<le> H"
      "H < consumed a * unat bs + unat (rxbuf_size p) + unat (rxbuf_size p) div 2"
  shows "skipped_blocks bs (of_nat (H mod unat (rxbuf_size p))) p =
      (H - unat (rxbuf_size p) div 2) div unat bs - consumed a"
    and "consumed a \<le> (H - unat (rxbuf_size p) div 2) div unat bs"
proof -
  let ?n = "unat (rxbuf_size p)" and ?b = "unat bs" let ?i = "(H - ?n div 2) div ?b"
  note n = rx_geomD [OF g]
  have c: "consumed a * ?b \<le> H - ?n div 2" using H(1) by linarith
  then show le: "consumed a \<le> ?i" using n(1) by (simp add: less_eq_div_iff_mult_less_eq)
  have "?i * ?b \<le> H - ?n div 2" by simp
  then have "?i * ?b < consumed a * ?b + ?n" using H(2) by linarith
  then have "ring_dist ?n (consumed a * ?b mod ?n) (?i * ?b mod ?n) = ?i * ?b - consumed a * ?b"
    using le by (intro ring_dist_counts) simp_all
  moreover have "?n div 2 \<le> H" using H(1) by linarith
  then have "unat (snap_rd bs (of_nat (H mod ?n)) p) = ?i * ?b mod ?n" by (rule snap_rd_pos [OF g])
  moreover have "(?i * ?b - consumed a * ?b) div ?b = ?i - consumed a"
    using n(1) by (simp only: diff_mult_distrib [symmetric] nonzero_mult_div_cancel_right)
  moreover have "unat (rd_ptr p) = consumed a * ?b mod ?n" using r by (simp add: rx_rel_def)
  ultimately show "skipped_blocks bs (of_nat (H mod ?n)) p = ?i - consumed a"
    by (simp only: skipped_blocks_def)
qed

text \<open>One event: the driver answers with the reference's block, if any.\<close>

lemma rx_step_tick_pos:
  assumes g: "rx_geom bs p" and r: "rx_rel bs p a" and n: "n = unat (rxbuf_size p)"
    and t: "timely (unat bs) n H0 a (Tick_at H # es)" "produced a * unat bs \<le> H0"
  shows "rx_rel bs (snd (rx_step bs (ring_event n (Tick_at H)) p))
      (snd (stream_step (unat bs) n (Tick_at H) a))"
proof -
  note gd = rx_geomD [OF g]
  have H: "produced a * unat bs \<le> H" "H < produced a * unat bs + n" "H div unat bs - consumed a < 2147483648"
    using t by auto
  have le: "produced a \<le> H div unat bs" using H(1) gd(1) by (simp add: less_eq_div_iff_mult_less_eq)
  have tb: "tick_blocks bs (of_nat (H mod n)) p = H div unat bs - produced a"
    using tick_blocks_pos [OF g r H(1)] H(2) n by simp
  have "produced a - consumed a + tick_blocks bs (of_nat (H mod n)) p < 2147483648"
    using H(3) le r by (simp add: tb rx_rel_def)
  from axi_timer_rel [OF g r _ this] have
    "rx_rel bs (fst (axi_timer bs (of_nat (H mod n)) p)) (abs_tick (H div unat bs - produced a) a)"
    using ring_pos_less [of "rxbuf_size p" H] gd n tb by simp
  then show ?thesis using le by (simp add: abs_tick_def)
qed

lemma rx_step_read_pos:
  assumes g: "rx_geom bs p" and r: "rx_rel bs p a" and n: "n = unat (rxbuf_size p)"
    and opn: "\<not> closing p"
    and t: "timely (unat bs) n H0 a (Read_at H1 H2 now # es)" "produced a * unat bs \<le> H0"
  shows "fst (rx_step bs (ring_event n (Read_at H1 H2 now)) p) =
      map (stream_reply (unat bs) n) (fst (stream_step (unat bs) n (Read_at H1 H2 now) a)) \<and>
    rx_rel bs (snd (rx_step bs (ring_event n (Read_at H1 H2 now)) p))
      (snd (stream_step (unat bs) n (Read_at H1 H2 now) a))"
proof (cases "axi_read_wakes p")
  case False
  then have "unat (blocks_ready p) = 0"
    using r opn sint_eq_unat [of "blocks_ready p"] by (simp add: axi_read_wakes_def rx_rel_def)
  then have "\<not> consumed a < produced a" using r by (simp add: rx_rel_def)
  then show ?thesis using False r by simp
next
  case True
  let ?hw1 = "of_nat (H1 mod n) :: u32" and ?hw2 = "of_nat (H2 mod n) :: u32"
  note gd = rx_geomD [OF g]
  have wake: "0 < sint (blocks_ready p)" using True opn by (simp add: axi_read_wakes_def)
  have hw: "?hw1 < rxbuf_size p" using gd n ring_pos_less by simp
  have b: "unat (blocks_ready p) = produced a - consumed a" "produced a - consumed a < 2147483648"
    using r by (auto simp: rx_rel_def)
  have some: "consumed a < produced a" using wake b by (simp add: sint_pos_iff)
  have N: "unat (rxbuf_size p div bs) = n div unat bs" by (simp add: unat_div_distrib n)
  have "n div unat bs < 2147483648" using gd(4) n div_le_dividend [of n "unat bs"] by linarith
  then have ov: "sint (rxbuf_size p div bs) \<le> sint (blocks_ready p) \<longleftrightarrow> n div unat bs \<le> produced a - consumed a"
    using N b sint_eq_unat [of "rxbuf_size p div bs"] sint_eq_unat [of "blocks_ready p"] by simp
  let ?i = "if produced a - consumed a < n div unat bs then consumed a else (H1 - n div 2) div unat bs"
  obtain rp p' acts where rd:
    "axi_read_resume bs (rxbuf_size p div bs) ?hw1 ?hw2 now True p = (Inr rp, p', acts)"
    using opn by (rule axi_read_resume_replies)
  obtain k i a' where k: "abs_read k a = Some (i, a')" "rx_rel bs p' a'"
    "unat (rx_rd rp) = i * unat bs mod unat (rxbuf_size p)" "unat (rx_lost_bytes rp) = k * unat bs"
    "unat (blocks_ready p) < unat (rxbuf_size p) div unat bs \<longrightarrow> k = 0"
    "sint (rxbuf_size p div bs) \<le> sint (blocks_ready p) \<longrightarrow> k = skipped_blocks bs ?hw1 p"
    by (rule axi_read_rel [OF g r hw wake rd])
  have i: "i = consumed a + k" "a' = a\<lparr>consumed := i + 1\<rparr>"
    using k(1) by (auto simp: abs_read_def split: if_splits)
  have ki: "k = ?i - consumed a \<and> consumed a \<le> ?i"
  proof (cases "produced a - consumed a < n div unat bs")
    case True
    then show ?thesis using k(5) b n by simp
  next
    case False
    have "n div unat bs * unat bs = n" using gd(3) n by simp
    moreover have "n div unat bs * unat bs \<le> (produced a - consumed a) * unat bs"
      using False by (intro mult_le_mono1) simp
    ultimately have "consumed a * unat bs + n \<le> produced a * unat bs"
      using some by (simp add: diff_mult_distrib) (metis add.commute le_diff_conv2 less_imp_le mult_le_mono1)
    moreover have "H1 < consumed a * unat bs + n + n div 2" "H0 \<le> H1" using t(1) False by auto
    ultimately show ?thesis
      using skipped_blocks_pos [OF g r, of H1] k(6) ov False t(2) n by simp
  qed
  then have ii: "i = ?i" using i(1) by linarith
  have step: "rx_step bs (Read ?hw1 ?hw2 now) p = ([rp], p')" using True rd by simp
  have "stream_step (unat bs) n (Read_at H1 H2 now) a = ([(i, k, H2)], a')"
    using some ii ki i(2) by (simp add: Let_def)
  moreover have "rp = stream_reply (unat bs) n (i, k, H2)"
    using k(3,4) axi_read_resume_ok(3) [OF rd] n gd unat_ring_pos
    by (auto simp: word_unat_eq_iff simp flip: k(4))
  ultimately show ?thesis using step k(2) by simp
qed

text \<open>What the reference delivers: whole blocks, each later than the one before.\<close>

lemma stream_read_block:
  assumes "0 < bs" "bs dvd n" "timely bs n H0 a (Read_at H1 H2 now # es)" "produced a * bs \<le> H0"
    and "consumed a < produced a"
  obtains i where "consumed a \<le> i" "i < produced a"
    "stream_step bs n (Read_at H1 H2 now) a = ([(i, i - consumed a, H2)], a\<lparr>consumed := i + 1\<rparr>)"
proof (cases "produced a - consumed a < n div bs")
  case True
  then show ?thesis using that [of "consumed a"] assms(5) by (simp add: Let_def)
next
  case False
  let ?i = "(H1 - n div 2) div bs"
  have n: "n div bs * bs = n" using assms(2) by simp
  have "consumed a + n div bs \<le> produced a" using False assms(5) by linarith
  then have "(consumed a + n div bs) * bs \<le> produced a * bs" by (rule mult_le_mono1)
  then have le: "consumed a * bs + n \<le> H1" using n assms(3,4) by (simp add: distrib_right)
  then have "consumed a \<le> ?i" using assms(1) by (simp add: less_eq_div_iff_mult_less_eq)
  moreover have "H1 < consumed a * bs + n + n div 2" using assms(3) False by auto
  then have "H1 - n div 2 < (consumed a + n div bs) * bs"
    using n le by (simp add: distrib_right)
  then have "?i < consumed a + n div bs" by (rule less_mult_imp_div_less)
  then have "?i < produced a" using False assms(5) by linarith
  ultimately show ?thesis using that [of ?i] assms(5) False by (simp add: Let_def)
qed

lemma rx_run_stream:
  assumes "rx_geom bs p" "rx_rel bs p a" "\<not> closing p" "n = unat (rxbuf_size p)"
    and "timely (unat bs) n H0 a es" "produced a * unat bs \<le> H0"
  shows "fst (rx_run bs (map (ring_event n) es) p) =
      map (stream_reply (unat bs) n) (fst (stream_run (unat bs) n es a)) \<and>
    sorted_wrt (<) (map fst (fst (stream_run (unat bs) n es a))) \<and>
    map (fst \<circ> snd) (fst (stream_run (unat bs) n es a)) =
      gaps (consumed a) (map fst (fst (stream_run (unat bs) n es a))) \<and>
    (\<forall>(i, k, H) \<in> set (fst (stream_run (unat bs) n es a)). consumed a \<le> i \<and> (i + 1) * unat bs \<le> H)"
  using assms
proof (induction es arbitrary: p a H0)
  case Nil
  then show ?case by simp
next
  case (Cons e es)
  note gd = rx_geomD [OF Cons.prems(1)]
  have bd: "unat bs dvd n" using gd(3) Cons.prems(4) by simp
  let ?p = "snd (rx_step bs (ring_event n e) p)" and ?a = "snd (stream_step (unat bs) n e a)"
  have runs: "fst (rx_run bs (map (ring_event n) (e # es)) p) =
      fst (rx_step bs (ring_event n e) p) @ fst (rx_run bs (map (ring_event n) es) ?p)"
    "fst (stream_run (unat bs) n (e # es) a) =
      fst (stream_step (unat bs) n e a) @ fst (stream_run (unat bs) n es ?a)"
    by (simp_all add: case_prod_unfold Let_def)
  have frame: "rxbuf_size ?p = rxbuf_size p" "\<not> closing ?p"
    using rx_step_frame [of bs "ring_event n e" p] Cons.prems(3) by simp_all
  have g: "rx_geom bs ?p" using Cons.prems(1) rx_geom_frame [OF frame(1)] by simp
  have n: "n = unat (rxbuf_size ?p)" using Cons.prems(4) frame(1) by simp
  show ?case
  proof (cases e)
    case (Tick_at H)
    have rel: "rx_rel bs ?p ?a"
      using rx_step_tick_pos [OF Cons.prems(1,2,4)] Cons.prems(5,6) Tick_at by blast
    have "timely (unat bs) n H ?a es" "produced ?a * unat bs \<le> H"
      using Cons.prems(5) Tick_at by simp_all
    from Cons.IH [OF g rel frame(2) n this] show ?thesis
      unfolding runs by (simp add: Tick_at)
  next
    case (Read_at H1 H2 now)
    note t = Cons.prems(5) [unfolded Read_at]
    have rd: "fst (rx_step bs (ring_event n e) p) =
        map (stream_reply (unat bs) n) (fst (stream_step (unat bs) n e a))" "rx_rel bs ?p ?a"
      using rx_step_read_pos [OF Cons.prems(1,2,4,3) t Cons.prems(6)] Read_at by simp_all
    have H: "H0 \<le> H2" "timely (unat bs) n H2 ?a es" using t Read_at by (simp_all del: stream_step.simps)
    show ?thesis
    proof (cases "consumed a < produced a")
      case False
      then have st: "stream_step (unat bs) n e a = ([], a)" using Read_at by simp
      have "produced ?a * unat bs \<le> H2" using st Cons.prems(6) H(1) by simp
      from Cons.IH [OF g rd(2) frame(2) n H(2) this] show ?thesis
        unfolding runs using rd(1) by (simp add: st)
    next
      case True
      obtain i where i: "consumed a \<le> i" "i < produced a"
        "stream_step (unat bs) n e a = ([(i, i - consumed a, H2)], a\<lparr>consumed := i + 1\<rparr>)"
        using stream_read_block [OF gd(1) bd t Cons.prems(6) True] Read_at by metis
      have "produced ?a * unat bs \<le> H2" using i(3) Cons.prems(6) H(1) by simp
      note IH = Cons.IH [OF g rd(2) frame(2) n H(2) this]
      have "(i + 1) * unat bs \<le> produced a * unat bs" using i(2) by (intro mult_le_mono1) simp
      then have "(i + 1) * unat bs \<le> H2" using Cons.prems(6) H(1) by linarith
      then show ?thesis
        unfolding runs using rd(1) IH i(1) by (fastforce simp: i(3))
    qed
  qed
qed

text \<open>A small driver state for the witnesses: a ring of four blocks of four bytes.\<close>

definition axi_small :: axi_priv where
  "axi_small = axi_priv_zero\<lparr>rxbuf_phys := 0x1000, rxbuf_size := 16, rxbuf_size_max := 16,
     txbuf_phys := 0x2000, txbuf_size := 16, txbuf_size_max := 16, in_use := 1\<rparr>"

lemma axi_small_geom: "rx_geom 4 axi_small"
  by (simp add: axi_small_def axi_priv_zero_def rx_geom_def)

lemma axi_small_rel: "rx_rel 4 (axi_small\<lparr>blocks_ready := 2, timer_wr_ptr := 8\<rparr>) \<lparr>produced = 2, consumed = 0\<rparr>"
  by (simp add: axi_small_def axi_priv_zero_def rx_rel_def)

lemma rx_run_enabled_stream:
  assumes "rx_geom bs p" and "\<not> closing p" and "timely (unat bs) (unat (rxbuf_size p)) 0 stream_start es"
  shows "fst (rx_run bs (map (ring_event (unat (rxbuf_size p))) es)
       (fst (snd (axi_ioctl bs AD936X_AXI_IOC_ENABLE ok p)))) =
      map (stream_reply (unat bs) (unat (rxbuf_size p)))
        (fst (stream_run (unat bs) (unat (rxbuf_size p)) es stream_start)) \<and>
    sorted_wrt (<) (map fst (fst (stream_run (unat bs) (unat (rxbuf_size p)) es stream_start))) \<and>
    map (fst \<circ> snd) (fst (stream_run (unat bs) (unat (rxbuf_size p)) es stream_start)) =
      gaps 0 (map fst (fst (stream_run (unat bs) (unat (rxbuf_size p)) es stream_start))) \<and>
    (\<forall>(i, k, H) \<in> set (fst (stream_run (unat bs) (unat (rxbuf_size p)) es stream_start)).
       (i + 1) * unat bs \<le> H)"
proof -
  let ?p0 = "p\<lparr>rd_ptr := 0, timer_wr_ptr := 0, blocks_ready := 0\<rparr>"
  have p0: "fst (snd (axi_ioctl bs AD936X_AXI_IOC_ENABLE ok p)) = ?p0"
    by (simp add: axi_ioctl_def Let_def AD936X_AXI_IOC_ENABLE_def AD936X_AXI_IOC_GET_RX_BUFSIZE_def
        AD936X_AXI_IOC_GET_BLOCKSIZE_def AD936X_AXI_IOC_GET_TX_BUFSIZE_def ioc_io_def ioc_ior_def)
  have "rx_geom bs ?p0" "rx_rel bs ?p0 stream_start"
    using assms(1) rx_rel_enable [OF assms(1)] by (simp_all add: rx_geom_def stream_start_def)
  from rx_run_stream [OF this] assms(2,3) show ?thesis
    unfolding p0 by (fastforce simp: stream_start_def)
qed

text \<open>
  C1. The replies of \<^verbatim>\<open>read()\<close> after the ENABLE ioctl, against the stream the FPGA really
  writes. As long as the timing \<open>timely\<close> holds (less than a ring written between two
  ticks, no read later than one and a half rings behind), the replies are exactly those of
  the reference on absolute positions: their block numbers strictly grow, so no block is
  handed out twice, each reply's offset is the place of its block in the ring, each
  \<^verbatim>\<open>lost_bytes\<close> is the size of the gap since the previous block, and every block is whole:
  the FPGA has written all of it when the driver replies.
\<close>

theorem axi_rx_run_refines:
  assumes "rx_geom bs p" and "\<not> closing p" and "timely (unat bs) (unat (rxbuf_size p)) 0 stream_start es"
  shows "fst (rx_run bs (map (ring_event (unat (rxbuf_size p))) es)
       (fst (snd (axi_ioctl bs AD936X_AXI_IOC_ENABLE ok p)))) =
      map (stream_reply (unat bs) (unat (rxbuf_size p)))
        (fst (stream_run (unat bs) (unat (rxbuf_size p)) es stream_start)) \<and>
    sorted_wrt (<) (map fst (fst (stream_run (unat bs) (unat (rxbuf_size p)) es stream_start))) \<and>
    map (fst \<circ> snd) (fst (stream_run (unat bs) (unat (rxbuf_size p)) es stream_start)) =
      gaps 0 (map fst (fst (stream_run (unat bs) (unat (rxbuf_size p)) es stream_start))) \<and>
    (\<forall>(i, k, H) \<in> set (fst (stream_run (unat bs) (unat (rxbuf_size p)) es stream_start)).
       (i + 1) * unat bs \<le> H)"
  by (rule rx_run_enabled_stream [OF assms])

text \<open>
  A run over a ring of four blocks of four bytes that is overrun and recovers: block 0 is
  read, then the FPGA gets 17 bytes past the reader, and the next block is number 3, with
  a gap of two blocks.
\<close>

definition rx_small_events :: "fpga_event list" where
  "rx_small_events = [Tick_at 8, Read_at 8 9 1, Tick_at 15, Tick_at 21, Read_at 21 22 2, Read_at 22 22 3]"

theorem axi_rx_run_refines_witness:
  "fst (rx_run 4 (map (ring_event (unat (rxbuf_size axi_small))) rx_small_events)
       (fst (snd (axi_ioctl 4 AD936X_AXI_IOC_ENABLE True axi_small)))) =
     map (stream_reply (unat (4 :: u32)) (unat (rxbuf_size axi_small)))
       (fst (stream_run (unat (4 :: u32)) (unat (rxbuf_size axi_small)) rx_small_events stream_start)) \<and>
   fst (stream_run 4 16 rx_small_events stream_start) = [(0, 0, 9), (3, 2, 22), (4, 0, 22)]"
proof (intro conjI)
  have t: "timely (unat (4 :: u32)) (unat (rxbuf_size axi_small)) 0 stream_start rx_small_events"
    by (simp add: rx_small_events_def stream_start_def axi_small_def)
  show "fst (rx_run 4 (map (ring_event (unat (rxbuf_size axi_small))) rx_small_events)
       (fst (snd (axi_ioctl 4 AD936X_AXI_IOC_ENABLE True axi_small)))) =
     map (stream_reply (unat (4 :: u32)) (unat (rxbuf_size axi_small)))
       (fst (stream_run (unat (4 :: u32)) (unat (rxbuf_size axi_small)) rx_small_events stream_start))"
    using axi_rx_run_refines [OF axi_small_geom _ t, of True]
    by (simp add: axi_small_def axi_priv_zero_def)
  show "fst (stream_run 4 16 rx_small_events stream_start) = [(0, 0, 9), (3, 2, 22), (4, 0, 22)]"
    by (simp add: rx_small_events_def stream_start_def)
qed

text \<open>
  C2. Past the timing of C1 the accounting of the overrun branch breaks: it reduces the
  counter by less than one ring, however many rings the FPGA is ahead. A reader two or more
  rings behind is snapped to half a ring behind the FPGA, and its next read, made before the
  FPGA has moved to another block, is snapped back to the same block: the block is handed
  out a second time, announced with one block less than a ring of lost bytes, none of which
  were written in between, and the reader's pointer is where it was after the first.
\<close>

theorem axi_read_far_behind_repeats:
  assumes "rx_geom bs p" and "on_block bs (rxbuf_size p) (rd_ptr p)" and "hw1 < rxbuf_size p"
    and "2 * (unat (rxbuf_size p) div unat bs) \<le> unat (blocks_ready p)" and "unat (blocks_ready p) < 2147483648"
    and "axi_read_resume bs (rxbuf_size p div bs) hw1 hw2 now True p = (Inr r1, p1, acts1)"
    and "axi_read_resume bs (rxbuf_size p div bs) hw1 hw3 now2 True p1 = (Inr r2, p2, acts2)"
  shows "rx_rd r2 = rx_rd r1 \<and> unat (rx_lost_bytes r2) = unat (rxbuf_size p) - unat bs \<and>
    rd_ptr p2 = rd_ptr p1 \<and> unat (rx_lost_bytes r1) < unat (rxbuf_size p)"
proof -
  let ?sz = "unat (rxbuf_size p)" and ?b = "unat bs"
  let ?N = "?sz div ?b"
  note g = rx_geomD [OF assms(1)]
  have NN: "unat (rxbuf_size p div bs) = ?N" by (simp add: unat_div_distrib)
  have Nb: "?N * ?b = ?sz" using g(3) by simp
  have N0: "0 < ?N" using Nb g(2) by (metis gr0I mult_0)
  have N31: "?N < 2147483648" using g(4) div_le_dividend [of ?sz ?b] by linarith
  have ov: "sint (rxbuf_size p div bs) \<le> sint x \<longleftrightarrow> ?N \<le> unat x" if "unat x < 2147483648" for x :: u32
    using sint_eq_unat [OF that] sint_eq_unat [of "rxbuf_size p div bs"] NN N31 by linarith
  note ok1 = axi_read_resume_ok [OF assms(6)] and ok2 = axi_read_resume_ok [OF assms(7)]
  note l1 = axi_read_overrun_lost [OF assms(1,2,3)]
  have s1: "read_snapped bs (rxbuf_size p div bs) hw1 p = axi_read_overrun bs hw1 p"
    using ov [OF assms(5)] assms(4) by (simp add: read_snapped_def)
  let ?s = "snap_rd bs hw1 p"
  have rd1: "rd_ptr (fst (axi_read_overrun bs hw1 p)) = ?s"
    by (simp add: axi_read_overrun_unfold Let_def)
  have sb: "on_block bs (rxbuf_size p) ?s" by (rule snap_rd_block(1) [OF assms(1,3)])
  have same: "snap_rd bs hw1 p1 = ?s" "rx_geom bs p1" "hw1 < rxbuf_size p1"
    using ok1(7) assms(1,3) by (simp_all add: snap_rd_def rx_geom_def)
  have p1: "rd_ptr p1 = adv_wrap bs (rxbuf_size p) ?s" using ok1(5) s1 rd1 by simp
  have u1: "unat (rd_ptr p1) = (unat ?s + ?b) mod ?sz" unfolding p1 by (rule unat_adv_wrap [OF sb])
  have le: "snd (axi_read_overrun bs hw1 p) div bs \<le> blocks_ready p"
    using l1(2,3) assms(4) by (simp add: word_nat)
  have "unat (blocks_ready (fst (axi_read_overrun bs hw1 p))) = unat (blocks_ready p) - skipped_blocks bs hw1 p"
    using unat_minus_le [OF le] l1(2) by (simp add: axi_read_overrun_def Let_def)
  then have b1: "unat (blocks_ready p1) = unat (blocks_ready p) - skipped_blocks bs hw1 p - 1"
    using ok1(6) s1 l1(3) assms(4) unat_minus_le [of 1 "blocks_ready (fst (axi_read_overrun bs hw1 p))"]
    by (simp add: word_nat)
  then have "?N \<le> unat (blocks_ready p1)" "unat (blocks_ready p1) < 2147483648"
    using l1(3) assms(4,5) by linarith+
  then have s2: "read_snapped bs (rxbuf_size p div bs) hw1 p1 = axi_read_overrun bs hw1 p1"
    using ov by (simp add: read_snapped_def)
  have rd2: "rd_ptr (fst (axi_read_overrun bs hw1 p1)) = ?s"
    using same(1) by (simp add: axi_read_overrun_unfold Let_def)
  have lt: "unat ?s < ?sz" "unat (rd_ptr p1) < ?sz" using on_blockD [OF sb] u1 g(2) by auto
  have "unat (rx_lost_bytes r2) = ring_dist ?sz (unat (rd_ptr p1)) (unat ?s)"
    using ok2(3) s2 lt same(1) ok1(7)
    by (simp add: axi_read_overrun_unfold Let_def unat_ringbuf_used word_nat)
  also have "\<dots> = ?sz - ?b"
  proof -
    have bs: "?b \<le> ?sz" using g(2,3) dvd_imp_le by blast
    have "ring_dist ?sz ((unat ?s + ?b) mod ?sz) ((unat ?s + ?sz) mod ?sz) = ?sz - ?b"
      using ring_dist_counts [of "unat ?s + ?b" "unat ?s + ?sz" ?sz] bs g(1) by simp
    then show ?thesis using u1 lt(1) by simp
  qed
  finally have "unat (rx_lost_bytes r2) = ?sz - ?b" .
  moreover have "rx_rd r2 = rx_rd r1" using ok1(3) ok2(3) s1 s2 rd1 rd2 by simp
  moreover have "rd_ptr p2 = rd_ptr p1" using ok2(5) s2 rd2 p1 ok1(7) by simp
  moreover have "skipped_blocks bs hw1 p * ?b < ?sz"
    using mult_strict_right_mono [OF l1(3) g(1)] Nb by simp
  then have "unat (rx_lost_bytes r1) < ?sz" using ok1(3) s1 l1(1) by simp
  ultimately show ?thesis by simp
qed

theorem axi_read_far_behind_repeats_witness:
  "let p = axi_small\<lparr>blocks_ready := 9, timer_wr_ptr := 4\<rparr>;
       (r1, p1, _) = axi_read_resume 4 4 5 5 1 True p;
       (r2, p2, _) = axi_read_resume 4 4 5 5 2 True p1
   in \<exists>x y. r1 = Inr x \<and> r2 = Inr y \<and> rx_rd y = rx_rd x \<and> rx_lost_bytes y = 12 \<and> unat (blocks_ready p2) = 1"
proof -
  let ?p = "axi_small\<lparr>blocks_ready := 9, timer_wr_ptr := 4\<rparr>"
  let ?p1 = "fst (snd (axi_read_resume 4 4 5 5 1 True ?p))"
  obtain r1 a1 where r1: "axi_read_resume 4 (rxbuf_size ?p div 4) 5 5 1 True ?p = (Inr r1, ?p1, a1)"
    by (rule axi_read_resume_replies [of ?p 4 4 5 5 1]) (simp_all add: axi_small_def axi_priv_zero_def)
  have cl: "\<not> closing ?p1" by (simp add: axi_read_resume_frame axi_small_def axi_priv_zero_def)
  obtain r2 p2 a2 where r2: "axi_read_resume 4 (rxbuf_size ?p div 4) 5 5 2 True ?p1 = (Inr r2, p2, a2)"
    by (rule axi_read_resume_replies [OF cl])
  have g: "rx_geom 4 ?p" using axi_small_geom by (simp add: rx_geom_def)
  have b: "blocks_ready (fst (snd (axi_read_resume 4 4 5 5 2 True ?p1))) = 1" by code_simp
  have "rx_rd r2 = rx_rd r1 \<and> unat (rx_lost_bytes r2) = 12"
    using axi_read_far_behind_repeats [OF g _ _ _ _ r1 r2]
    by (simp add: axi_small_def axi_priv_zero_def on_block_def)
  then show ?thesis
    using r1 r2 b by (auto simp: axi_small_def axi_priv_zero_def Let_def word_unat_eq_iff)
qed

subsection \<open>What one read touches and returns\<close>

text \<open>The actions of a woken \<^verbatim>\<open>read()\<close>, delivered or faulted, and the place it reports.\<close>

lemma axi_read_resume_acts:
  assumes "\<not> closing p"
  shows "snd (snd (axi_read_resume bs mb hw1 hw2 now copied p)) =
      [Dma_sync_for_cpu (rxbuf_phys p + rd_ptr (fst (read_snapped bs mb hw1 p))) bs]"
    and "fst (axi_read_resume bs mb hw1 hw2 now copied p) =
      (if copied then Inr \<lparr>rx_rd = rd_ptr (fst (read_snapped bs mb hw1 p)), rx_hw_wr = hw2,
         rx_lost_bytes = snd (read_snapped bs mb hw1 p)\<rparr> else Inl EFAULT)"
  using assms by (auto simp: axi_read_resume_def read_snapped_def Let_def case_prod_unfold)

text \<open>
  Memory safety of \<^verbatim>\<open>read()\<close>: in every state the run of C1 can reach, a woken read
  invalidates the cache for exactly one block, that block lies inside the mapped receive
  buffer, and a delivered reply names the same block; this also when the copy to user
  space faults.
\<close>

theorem axi_read_touches_one_block:
  assumes "rx_geom bs p" and "rx_rel bs p a" and "hw1 < rxbuf_size p"
    and "0 < sint (blocks_ready p)" and "\<not> closing p"
    and "axi_read_resume bs (rxbuf_size p div bs) hw1 hw2 now copied p = (res, p', acts)"
  shows "\<exists>rd. acts = [Dma_sync_for_cpu (rxbuf_phys p + rd) bs] \<and>
     unat bs dvd unat rd \<and> unat rd + unat bs \<le> unat (rxbuf_size p) \<and>
     (\<forall>r. res = Inr r \<longrightarrow> rx_rd r = rd)"
proof -
  let ?p1 = "fst (read_snapped bs (rxbuf_size p div bs) hw1 p)"
  obtain k where k: "rx_rel bs ?p1 (a\<lparr>consumed := consumed a + k\<rparr>)" "rxbuf_size ?p1 = rxbuf_size p"
    using read_snapped_rel [OF assms(1-4)] by metis
  have "on_block bs (rxbuf_size p) (rd_ptr ?p1)"
    using rx_rel_ptrs(1) [OF _ k(1)] k(2) assms(1) rx_geom_frame [OF k(2)] by metis
  then show ?thesis
    using axi_read_resume_acts [OF assms(5), of bs "rxbuf_size p div bs" hw1 hw2 now copied]
      assms(6) on_block_fits on_blockD(3) by (intro exI [of _ "rd_ptr ?p1"]) auto
qed

theorem axi_read_touches_one_block_witness:
  "\<exists>rd. snd (snd (axi_read_resume 4 4 9 9 1 True (axi_small\<lparr>blocks_ready := 2, timer_wr_ptr := 8\<rparr>)))
       = [Dma_sync_for_cpu (0x1000 + rd) 4] \<and> unat (4 :: u32) dvd unat rd \<and>
     unat rd + unat (4 :: u32) \<le> 16"
proof -
  let ?p = "axi_small\<lparr>blocks_ready := 2, timer_wr_ptr := 8\<rparr>"
  obtain res p' acts where r: "axi_read_resume 4 (rxbuf_size ?p div 4) 9 9 1 True ?p = (res, p', acts)"
    by (metis prod_cases3)
  have g: "rx_geom 4 ?p" using axi_small_geom by (simp add: rx_geom_def)
  show ?thesis
    using axi_read_touches_one_block [OF g axi_small_rel _ _ _ r] r
    by (auto simp: axi_small_def axi_priv_zero_def)
qed

text \<open>
  Recovery from an overrun: when the counter says the ring has been lapped, the block a
  read returns starts between half the ring and half the ring plus one block behind the
  hardware pointer, so the FPGA is not writing it and the reader has half a ring of slack.
\<close>

theorem axi_read_overrun_half_ring:
  assumes "rx_geom bs p" and "hw1 < rxbuf_size p" and "2 * unat bs \<le> unat (rxbuf_size p)"
    and "sint (rxbuf_size p div bs) \<le> sint (blocks_ready p)"
    and "axi_read_resume bs (rxbuf_size p div bs) hw1 hw2 now copied p = (Inr r, p', acts)"
  shows "unat (rxbuf_size p) div 2 \<le> ring_dist (unat (rxbuf_size p)) (unat (rx_rd r)) (unat hw1) \<and>
     ring_dist (unat (rxbuf_size p)) (unat (rx_rd r)) (unat hw1) < unat (rxbuf_size p) div 2 + unat bs"
proof -
  have "rx_rd r = snap_rd bs hw1 p"
    using axi_read_resume_ok(3) [OF assms(5)] assms(4)
    by (simp add: read_snapped_def axi_read_overrun_unfold Let_def)
  then show ?thesis using snap_rd_distance [OF assms(1-3)] by simp
qed

theorem axi_read_overrun_half_ring_witness:
  "let r = fst (axi_read_resume 4 4 9 9 1 True (axi_small\<lparr>blocks_ready := 5, timer_wr_ptr := 4\<rparr>))
   in \<exists>rp. r = Inr rp \<and> 8 \<le> ring_dist 16 (unat (rx_rd rp)) 9 \<and> ring_dist 16 (unat (rx_rd rp)) 9 < 12"
proof -
  let ?p = "axi_small\<lparr>blocks_ready := 5, timer_wr_ptr := 4\<rparr>"
  obtain rp p' acts where r: "axi_read_resume 4 (rxbuf_size ?p div 4) 9 9 1 True ?p = (Inr rp, p', acts)"
    by (rule axi_read_resume_replies [of ?p]) (simp add: axi_small_def axi_priv_zero_def)
  have g: "rx_geom 4 ?p" using axi_small_geom by (simp add: rx_geom_def)
  show ?thesis
    using axi_read_overrun_half_ring [OF g _ _ _ r] r
    by (auto simp: axi_small_def axi_priv_zero_def Let_def)
qed

text \<open>
  C3. A read whose copy to user space faults has already taken a block off the counter but
  does not move the read pointer: afterwards no pair of block counters describes the
  driver's pointers any more, so the counter and the pointers disagree for the rest of
  the session.
\<close>

theorem axi_read_efault_desynchronises:
  assumes "rx_geom bs p" and "rx_rel bs p a" and "unat bs < unat (rxbuf_size p)"
    and "0 < unat (blocks_ready p)"
    and "unat (blocks_ready p) < unat (rxbuf_size p) div unat bs" and "\<not> closing p"
    and "axi_read_resume bs (rxbuf_size p div bs) hw1 hw2 now False p = (res, p', acts)"
  shows "res = Inl EFAULT \<and> rd_ptr p' = rd_ptr p \<and>
     unat (blocks_ready p') = unat (blocks_ready p) - 1 \<and> \<not> (\<exists>a'. rx_rel bs p' a')"
proof -
  let ?sz = "unat (rxbuf_size p)" and ?b = "unat bs"
  have bl: "unat (blocks_ready p) = produced a - consumed a" "consumed a \<le> produced a"
    "unat (blocks_ready p) < 2147483648"
    using assms(2) by (auto simp: rx_rel_def)
  have m: "unat (rxbuf_size p div bs) = ?sz div ?b" by (simp add: unat_div_distrib)
  have "?sz div ?b < 2147483648"
    using rx_geomD(4) [OF assms(1)] div_le_dividend [of ?sz ?b] by linarith
  then have "\<not> sint (rxbuf_size p div bs) \<le> sint (blocks_ready p)"
    using sint_eq_unat [OF bl(3)] sint_eq_unat [of "rxbuf_size p div bs"] m assms(5) by linarith
  then have p': "res = Inl EFAULT" "rd_ptr p' = rd_ptr p" "blocks_ready p' = blocks_ready p - 1"
    "timer_wr_ptr p' = timer_wr_ptr p" "rxbuf_size p' = rxbuf_size p"
    using assms(6,7) by (auto simp: axi_read_resume_def Let_def)
  have "1 \<le> blocks_ready p" using assms(4) by (simp add: word_nat)
  then have dec: "unat (blocks_ready p') = unat (blocks_ready p) - 1"
    by (simp add: p'(3) unat_minus_le)
  have "\<not> rx_rel bs p' a'" for a'
  proof
    assume a': "rx_rel bs p' a'"
    let ?n = "unat (blocks_ready p) - 1"
    have eq: "produced a' = consumed a' + ?n" "produced a = consumed a + ?n + 1"
      using a' dec bl assms(4) by (auto simp: rx_rel_def)
    have c: "consumed a' * ?b mod ?sz = consumed a * ?b mod ?sz"
      "produced a' * ?b mod ?sz = produced a * ?b mod ?sz"
      using a' assms(2) p' by (auto simp: rx_rel_def)
    have "(consumed a * ?b + ?n * ?b) mod ?sz = (consumed a' * ?b + ?n * ?b) mod ?sz"
      by (rule mod_add_cong [OF c(1) [symmetric] refl])
    also have "\<dots> = produced a' * ?b mod ?sz" by (simp only: eq(1) distrib_right)
    also have "\<dots> = (consumed a * ?b + ?n * ?b + ?b) mod ?sz"
      unfolding c(2) by (simp only: eq(2) distrib_right mult_1)
    finally have "((consumed a * ?b + ?n * ?b) + 0) mod ?sz = ((consumed a * ?b + ?n * ?b) + ?b) mod ?sz"
      by simp
    from mod_add_cancel [OF this _ assms(3)] assms(3) have "0 = ?b" by simp
    then show False using rx_geomD(1) [OF assms(1)] by simp
  qed
  then show ?thesis using p' dec by simp
qed

theorem axi_read_efault_desynchronises_witness:
  "let p = axi_small\<lparr>blocks_ready := 2, timer_wr_ptr := 8\<rparr>;
       (res, p', acts) = axi_read_resume 4 4 9 9 1 False p
   in rd_ptr p' = 0 \<and> unat (blocks_ready p') = 1 \<and> \<not> (\<exists>a'. rx_rel 4 p' a')"
proof -
  let ?p = "axi_small\<lparr>blocks_ready := 2, timer_wr_ptr := 8\<rparr>"
  obtain res p' acts where r: "axi_read_resume 4 (rxbuf_size ?p div 4) 9 9 1 False ?p = (res, p', acts)"
    by (metis prod_cases3)
  have g: "rx_geom 4 ?p" using axi_small_geom by (simp add: rx_geom_def)
  show ?thesis
    using axi_read_efault_desynchronises [OF g axi_small_rel _ _ _ _ r] r
    by (auto simp: axi_small_def axi_priv_zero_def Let_def)
qed

subsection \<open>write\<close>

text \<open>The byte offsets the cache flushes of an action list cover, in order.\<close>

fun flush_offsets :: "phys_addr \<Rightarrow> action list \<Rightarrow> nat list" where
  "flush_offsets base [] = []"
| "flush_offsets base (Dma_sync_for_device a n # as) =
     [unat (a - base)..<unat (a - base) + unat n] @ flush_offsets base as"
| "flush_offsets base (_ # as) = flush_offsets base as"

lemma ring_walk:
  assumes "o0 < sz" "w < sz"
  shows "map (\<lambda>i. (o0 + i) mod sz) [0..<ring_dist sz o0 w] =
    (if o0 \<le> w then [o0..<w] else [o0..<sz] @ [0..<w])"
proof (cases "o0 \<le> w")
  case True
  then show ?thesis
    using assms by (auto simp: ring_dist_eq_if intro!: nth_equalityI)
next
  case False
  then show ?thesis
    using assms by (auto simp: ring_dist_eq_if nth_append mod_add_once intro!: nth_equalityI)
qed

lemma axi_write_flush_cases:
  assumes "tx_wr_ptr p < txbuf_size p" "wr < txbuf_size p"
  shows "axi_write_flush wr p =
    (if tx_wr_ptr p \<le> wr then
       (if tx_wr_ptr p = wr then [] else [Dma_sync_for_device (txbuf_phys p + tx_wr_ptr p) (wr - tx_wr_ptr p)])
     else Dma_sync_for_device (txbuf_phys p + tx_wr_ptr p) (txbuf_size p - tx_wr_ptr p) #
       (if wr = 0 then [] else [Dma_sync_for_device (txbuf_phys p) wr]))"
proof (cases "tx_wr_ptr p \<le> wr")
  case True
  then have "wr - tx_wr_ptr p \<le> txbuf_size p - tx_wr_ptr p"
    using assms by (simp add: word_nat unat_minus_le)
  then show ?thesis
    using True by (auto simp: axi_write_flush_def Let_def word_neq_0_conv [symmetric])
next
  case False
  let ?l = "txbuf_size p - tx_wr_ptr p" and ?f = "ringbuf_used (tx_wr_ptr p) wr (txbuf_size p)"
  have f: "?f = ?l + wr" using False by (simp add: ringbuf_used_def)
  have l: "unat ?l = unat (txbuf_size p) - unat (tx_wr_ptr p)"
    using assms by (intro unat_minus_le) simp
  have "unat ?f = unat ?l + unat wr"
    using False assms unat_ringbuf_used [OF assms] l by (simp add: ring_dist_eq_if word_nat)
  then have "?l \<le> ?l + wr" "0 < ?l + wr" "?l < ?l + wr \<longleftrightarrow> wr \<noteq> 0"
    using assms l f by (auto simp: word_nat word_unat_eq_iff)
  then show ?thesis
    using False by (simp add: axi_write_flush_def Let_def min_absorb2)
qed

lemma axi_write_flush_offsets:
  assumes "tx_wr_ptr p < txbuf_size p" "wr < txbuf_size p"
  shows "flush_offsets (txbuf_phys p) (axi_write_flush wr p) =
    map (\<lambda>i. (unat (tx_wr_ptr p) + i) mod unat (txbuf_size p))
      [0..<ring_dist (unat (txbuf_size p)) (unat (tx_wr_ptr p)) (unat wr)]"
proof -
  have lt: "unat (tx_wr_ptr p) < unat (txbuf_size p)" "unat wr < unat (txbuf_size p)"
    using assms by (auto simp: word_nat)
  show ?thesis
    unfolding ring_walk [OF lt] axi_write_flush_cases [OF assms]
    using lt unat_minus_le [of "tx_wr_ptr p" wr] unat_minus_le [of "tx_wr_ptr p" "txbuf_size p"]
    by (auto simp: word_nat word_unat_eq_iff)
qed

text \<open>
  C4. A \<^verbatim>\<open>write()\<close> that is let through flushes, before it publishes the new write pointer
  to the FPGA, exactly the bytes between the old and the new pointer: every offset once,
  in ring order, none outside the transmit buffer.
\<close>

theorem axi_write_flushes_then_publishes:
  assumes "tx_wr_ptr p < txbuf_size p" and "axi_write_enter count (Some req) p = Inr wr"
    and "\<not> closing p" and "axi_write_resume wr p = (res, p', acts)"
  shows "res = Inr 4 \<and> wr = req \<and> tx_wr_ptr p' = wr \<and> tx_wr_ptr p' < txbuf_size p' \<and>
     (\<exists>fl. acts = fl @ [Writel Tx_buf_wr wr] \<and> writels fl = [] \<and>
        flush_offsets (txbuf_phys p) fl =
          map (\<lambda>i. (unat (tx_wr_ptr p) + i) mod unat (txbuf_size p))
            [0..<ring_dist (unat (txbuf_size p)) (unat (tx_wr_ptr p)) (unat wr)])"
proof -
  have wr: "wr = req" "wr < txbuf_size p"
    using assms(2) by (auto simp: axi_write_enter_def not_le split: if_splits)
  have acts: "res = Inr 4" "p' = p\<lparr>tx_wr_ptr := wr\<rparr>" "acts = axi_write_flush wr p @ [Writel Tx_buf_wr wr]"
    using assms(3,4) by (auto simp: axi_write_resume_def)
  have "writels (axi_write_flush wr p) = []"
    by (simp add: axi_write_flush_cases [OF assms(1) wr(2)])
  then show ?thesis
    using axi_write_flush_offsets [OF assms(1) wr(2)] acts wr by auto
qed

theorem axi_write_flushes_then_publishes_witness:
  "\<exists>fl. snd (snd (axi_write_resume 3 (axi_small\<lparr>tx_wr_ptr := 12\<rparr>))) = fl @ [Writel Tx_buf_wr 3] \<and>
     flush_offsets 0x2000 fl = map (\<lambda>i. (12 + i) mod 16) [0..<ring_dist 16 12 3]"
proof -
  let ?p = "axi_small\<lparr>tx_wr_ptr := 12\<rparr>"
  obtain res p' acts where r: "axi_write_resume 3 ?p = (res, p', acts)" by (metis prod_cases3)
  have e: "axi_write_enter 4 (Some 3) ?p = Inr 3"
    by (simp add: axi_write_enter_def axi_small_def axi_priv_zero_def)
  show ?thesis
    using axi_write_flushes_then_publishes [OF _ e _ r] r
    by (auto simp: axi_small_def axi_priv_zero_def)
qed

text \<open>
  What the wait of \<^verbatim>\<open>write()\<close> buys the caller: when a request that leaves data for the
  FPGA is let through, the whole next block of the ring is free of unread bytes.
\<close>

theorem axi_write_next_block_free:
  assumes "rd < txbuf_size p" and "wr < txbuf_size p" and "bs \<le> txbuf_size p"
    and "axi_write_wakes bs wr rd p" and "\<not> closing p"
    and "i < unat bs"
    and "j < ring_dist (unat (txbuf_size p)) (unat rd) (unat wr)"
  shows "(unat wr + i) mod unat (txbuf_size p) \<noteq> (unat rd + j) mod unat (txbuf_size p)"
proof
  let ?sz = "unat (txbuf_size p)" and ?u = "ring_dist (unat (txbuf_size p)) (unat rd) (unat wr)"
  assume eq: "(unat wr + i) mod ?sz = (unat rd + j) mod ?sz"
  have "ringbuf_used rd wr (txbuf_size p) \<le> txbuf_size p - bs"
    using assms(4,5) by (simp add: axi_write_wakes_def ringbuf_used_def Let_def)
  then have u: "?u + unat bs \<le> ?sz"
    using assms(3) unat_ringbuf_used [OF assms(1,2)] by (simp add: word_nat unat_minus_le)
  have "(unat rd + (?u + i)) mod ?sz = ((unat rd + ?u) mod ?sz + i) mod ?sz"
    by (simp only: mod_add_left_eq add.assoc)
  also have "(unat rd + ?u) mod ?sz = unat wr"
    using ring_dist_reach [of "unat rd" ?sz "unat wr"] assms(1,2) by (simp add: word_nat)
  finally have "(unat rd + (?u + i)) mod ?sz = (unat rd + j) mod ?sz" using eq by simp
  from mod_add_cancel [OF this] have "?u + i = j" using u assms(6,7) by simp
  then show False using assms(7) by simp
qed

theorem axi_write_next_block_free_witness:
  "(unat (8 :: u32) + 1) mod unat (16 :: u32) \<noteq> (unat (3 :: u32) + 2) mod unat (txbuf_size axi_small)"
  using axi_write_next_block_free [of 3 axi_small 8 4 1 2]
  by (simp add: axi_small_def axi_priv_zero_def axi_write_wakes_def Let_def ring_dist_def)

text \<open>
  C5. The wait counts a ring whose write pointer has caught up with the read pointer as
  empty, never as full: while the FPGA's read pointer rests on a block boundary (before
  ENABLE it rests on 0), no block-aligned request ever waits, so a writer can go round
  the ring over data the FPGA has not read.
\<close>

theorem axi_write_never_waits_on_aligned_reader:
  assumes "on_block bs (txbuf_size p) rd" and "on_block bs (txbuf_size p) wr"
  shows "axi_write_wakes bs wr rd p"
proof -
  let ?sz = "unat (txbuf_size p)" and ?u = "ring_dist (unat (txbuf_size p)) (unat rd) (unat wr)"
  note r = on_blockD [OF assms(1)] and w = on_blockD [OF assms(2)]
  have "unat bs dvd ?u" using r w by (intro ring_dist_dvd) auto
  moreover have "?u < ?sz" using r by simp
  ultimately have "?u + unat bs \<le> ?sz" using r(2) by (intro dvd_block_fits)
  moreover have "rd < txbuf_size p" "wr < txbuf_size p" "bs \<le> txbuf_size p"
    using r w dvd_imp_le [OF r(2)] by (auto simp: word_nat)
  ultimately have "ringbuf_used rd wr (txbuf_size p) \<le> txbuf_size p - bs"
    by (simp add: word_nat unat_minus_le)
  then show ?thesis by (simp add: axi_write_wakes_def ringbuf_used_def Let_def)
qed

theorem axi_write_never_waits_on_aligned_reader_witness:
  "axi_write_wakes 4 4 0 axi_small \<and> axi_write_wakes 4 12 0 axi_small \<and> axi_write_wakes 4 0 0 axi_small"
  using axi_write_never_waits_on_aligned_reader [of 4 axi_small 0]
  by (simp add: on_block_def axi_small_def axi_priv_zero_def)

subsection \<open>mmap\<close>

text \<open>
  C6. A mapping the driver sets up never leaves the reserved region it belongs to: the
  receive buffer is only ever mapped read-only and for at most its reserved size, the
  transmit buffer for at most its own, both in whole blocks, and the size the FPGA is
  told is the size mapped; every refused call changes nothing.
\<close>

theorem axi_mmap_confined:
  assumes "0 < bs" and "axi_mmap bs pgoff sz vm_write remap p = (res, p', acts)"
  shows "(acts = [] \<and> p' = p \<and> (res = Some EINVAL \<or> res = Some EPERM)) \<or>
     (unat bs dvd unat sz \<and> res = remap \<and>
      (pgoff = 0 \<and> \<not> vm_write \<and> sz \<le> rxbuf_size_max p \<and> p' = p\<lparr>rxbuf_size := sz\<rparr> \<and>
         acts = [Writel Rx_buf_size sz, Remap_pfn_range (rxbuf_phys p) sz] \<or>
       pgoff = 1 \<and> sz \<le> txbuf_size_max p \<and> p' = p\<lparr>txbuf_size := sz\<rparr> \<and>
         acts = [Writel Tx_buf_size sz, Remap_pfn_range (txbuf_phys p) sz]))"
proof -
  have "sz mod bs = 0 \<Longrightarrow> unat bs dvd unat sz"
    by (metis mod_eq_0_iff_dvd unat_0 unat_mod_distrib)
  then show ?thesis using assms by (auto simp: axi_mmap_def split: if_splits)
qed

theorem axi_mmap_confined_witness:
  "(0 :: u32) < 4 \<and> (let (res, p', acts) = axi_mmap 4 0 8 False None axi_small in
     acts = [Writel Rx_buf_size 8, Remap_pfn_range 0x1000 8] \<and> rxbuf_size p' = 8)"
proof -
  obtain res p' acts where r: "axi_mmap 4 0 8 False None axi_small = (res, p', acts)"
    by (metis prod_cases3)
  have "acts \<noteq> []" using r by (auto simp: axi_mmap_def axi_small_def axi_priv_zero_def)
  then show ?thesis
    using axi_mmap_confined [OF _ r] r by (auto simp: axi_small_def axi_priv_zero_def)
qed

subsection \<open>The debugfs report\<close>

lemma checked_div_None [simp]: "checked_div a b = None \<longleftrightarrow> b = 0"
  by (simp add: checked_div_def)

lemma ucast_u64_eq_0 [simp]: "(ucast (x :: u32) :: u64) = 0 \<longleftrightarrow> x = 0"
  by (simp only: word_unat_eq_iff unat_ucast_u64 unat_0)

lemma u32_div100_eq_0 [simp]: "(x :: u32) div 100 = 0 \<longleftrightarrow> x < 100"
  by (simp add: word_unat_eq_iff unat_div_distrib word_nat div_eq_0_iff)

text \<open>
  Reading the debugfs file divides by zero exactly when the device is open and either
  less than one millisecond old (or its age in milliseconds is a multiple of two to the
  32), or one of its buffers is mapped with fewer than 100 bytes.
\<close>

theorem axi_stats_show_traps:
  "axi_stats_show now drops rx_wr tx_rd underruns p = None \<longleftrightarrow>
     in_use p \<noteq> 0 \<and>
     ((let uptime_us = c_div (now - open_time p) 1000
       in 0 < uptime_us \<and> (word_of_int (c_div uptime_us 1000) :: u32) = 0) \<or>
      (0 < rxbuf_size p \<and> rxbuf_size p < 100) \<or> (0 < txbuf_size p \<and> txbuf_size p < 100))"
proof -
  have thr: "axi_stats_throughput u tb = None \<longleftrightarrow> 0 < u \<and> (word_of_int (c_div u 1000) :: u32) = 0" for u tb
    by (auto simp: axi_stats_throughput_def Let_def bind_eq_None_conv)
  have rx: "axi_stats_rx d w g p = None \<longleftrightarrow> 0 < rxbuf_size p \<and> rxbuf_size p < 100" for d w g
    by (auto simp: axi_stats_rx_def Let_def bind_eq_None_conv)
  have tx: "axi_stats_tx r u p = None \<longleftrightarrow> 0 < txbuf_size p \<and> txbuf_size p < 100" for r u
    by (auto simp: axi_stats_tx_def Let_def bind_eq_None_conv)
  show ?thesis
    by (auto simp: axi_stats_show_def Let_def bind_eq_None_conv thr rx tx)
qed

end
