(* ===== verification/Emu.thy ===== *)
theory Emu
  imports Axi_Regs
begin

text \<open>
  The peripheral emulator \<^verbatim>\<open>ad936x-emu/src/lib.rs\<close> that stands in for the FPGA under QEMU:
  its state, the decoding of register reads and writes, and the timer tick that produces
  IQ samples and DMA writes. The sine and cosine of a tick are computed in \<^verbatim>\<open>f64\<close>; the
  pair of 16-bit samples they give for a phase is the argument \<open>wave\<close>.
\<close>

record emu =
  e_ctrl :: u32
  e_rx_overflow :: u32
  e_tx_underrun :: u32
  e_rx_buf_base :: u32
  e_rx_buf_size :: u32
  e_rx_buf_wr :: u32
  e_tx_buf_base :: u32
  e_tx_buf_size :: u32
  e_tx_buf_rd :: u32
  e_tx_buf_wr :: u32
  e_phase :: u32

definition emu_new :: emu where
  "emu_new = \<lparr>e_ctrl = AD936X_CTRL_RESET, e_rx_overflow = 0, e_tx_underrun = 0,
     e_rx_buf_base = 0, e_rx_buf_size = 0, e_rx_buf_wr = 0, e_tx_buf_base = 0,
     e_tx_buf_size = 0, e_tx_buf_rd = 0, e_tx_buf_wr = 0, e_phase = 0\<rparr>"

text \<open>\<^verbatim>\<open>i_val as u32\<close> sign-extends the 16-bit sample.\<close>

definition pack_iq :: "u16 \<Rightarrow> u16 \<Rightarrow> u32" where
  "pack_iq i_val q_val =
     (let i12 = push_bit 4 (scast i_val AND 0xFFF);
          q12 = push_bit 20 (scast q_val AND 0xFFF)
      in q12 OR i12)"

definition emu_read :: "emu \<Rightarrow> u64 \<Rightarrow> u64" where
  "emu_read s addr =
     (if addr = 0x00 then 0xAD930001
      else if addr = 0x04 then ucast (e_ctrl s)
      else if addr = 0x08 then ucast (e_tx_underrun s)
      else if addr = 0x0C then ucast (e_rx_overflow s)
      else if addr = 0x10 then ucast (e_rx_buf_base s)
      else if addr = 0x14 then ucast (e_rx_buf_size s)
      else if addr = 0x1C then ucast (e_rx_buf_wr s)
      else if addr = 0x20 then ucast (e_tx_buf_base s)
      else if addr = 0x24 then ucast (e_tx_buf_size s)
      else if addr = 0x28 then ucast (e_tx_buf_rd s)
      else if addr = 0x2C then ucast (e_tx_buf_wr s)
      else 0xDEADBEEF)"

definition emu_write :: "emu \<Rightarrow> u64 \<Rightarrow> u64 \<Rightarrow> emu" where
  "emu_write s addr val =
     (if addr = 0x04 then
        let s1 = s\<lparr>e_ctrl := ucast val AND
                     (AD936X_CTRL_RESET OR AD936X_CTRL_RX_ENABLE OR AD936X_CTRL_TX_ENABLE)\<rparr>
        in if e_ctrl s1 AND AD936X_CTRL_RESET \<noteq> 0 then
             s1\<lparr>e_rx_overflow := 0, e_tx_underrun := 0, e_rx_buf_wr := 0, e_rx_buf_base := 0,
                e_rx_buf_size := 0, e_tx_buf_base := 0, e_tx_buf_size := 0, e_tx_buf_wr := 0,
                e_tx_buf_rd := 0, e_phase := 0\<rparr>
           else s1
      else if addr = 0x10 then s\<lparr>e_rx_buf_base := ucast val\<rparr>
      else if addr = 0x14 then s\<lparr>e_rx_buf_size := ucast val\<rparr>
      else if addr = 0x20 then s\<lparr>e_tx_buf_base := ucast val\<rparr>
      else if addr = 0x24 then s\<lparr>e_tx_buf_size := ucast val\<rparr>
      else if addr = 0x2C then s\<lparr>e_tx_buf_wr := ucast val\<rparr>
      else s)"

text \<open>One iteration of the sample loop: a four-byte DMA write and the two pointers.\<close>

definition emu_sample :: "(u32 \<Rightarrow> u16 \<times> u16) \<Rightarrow> emu \<Rightarrow> emu \<times> (u64 \<times> u32)" where
  "emu_sample wave s =
     (let (i_val, q_val) = wave (e_phase s);
          sample = pack_iq i_val q_val;
          addr = ucast (e_rx_buf_base s) + ucast (e_rx_buf_wr s)
      in (s\<lparr>e_rx_buf_wr := (e_rx_buf_wr s + 4) mod e_rx_buf_size s, e_phase := e_phase s + 1\<rparr>,
          (addr, sample)))"

fun emu_samples :: "(u32 \<Rightarrow> u16 \<times> u16) \<Rightarrow> nat \<Rightarrow> emu \<Rightarrow> emu \<times> (u64 \<times> u32) list" where
  "emu_samples wave 0 s = (s, [])"
| "emu_samples wave (Suc n) s =
     (let (s1, w) = emu_sample wave s; (s2, ws) = emu_samples wave n s1 in (s2, w # ws))"

definition emu_tick :: "(u32 \<Rightarrow> u16 \<times> u16) \<Rightarrow> emu \<Rightarrow> emu \<times> (u64 \<times> u32) list" where
  "emu_tick wave s =
     (if e_ctrl s AND AD936X_CTRL_RX_ENABLE = 0 \<or> e_ctrl s AND AD936X_CTRL_RESET \<noteq> 0 \<or>
         e_rx_buf_size s = 0
      then (s, []) else emu_samples wave 256 s)"

subsection \<open>The emulator as the driver's register block\<close>

definition emu_reg :: "emu \<Rightarrow> axi_reg \<Rightarrow> u32" where
  "emu_reg s r = ucast (emu_read s (axi_reg_offset r))"

definition emu_writel :: "emu \<Rightarrow> axi_reg \<Rightarrow> u32 \<Rightarrow> emu" where
  "emu_writel s r v = emu_write s (axi_reg_offset r) (ucast v)"

lemma ucast_u32_u64_u32 [simp]: "(ucast (ucast (x :: u32) :: u64) :: u32) = x"
  by (rule bit_word_eqI) (simp add: bit_simps)

lemma emu_reg_simps [simp]:
  "emu_reg s Ctrl = e_ctrl s" "emu_reg s Rx_buf_wr = e_rx_buf_wr s"
  "emu_reg s Rx_buf_base = e_rx_buf_base s" "emu_reg s Rx_buf_size = e_rx_buf_size s"
  "emu_reg s Tx_buf_base = e_tx_buf_base s" "emu_reg s Tx_buf_size = e_tx_buf_size s"
  "emu_reg s Tx_buf_rd = e_tx_buf_rd s" "emu_reg s Tx_buf_wr = e_tx_buf_wr s"
  "emu_reg s Tx_underrun = e_tx_underrun s" "emu_reg s Rx_overflow = e_rx_overflow s"
  by (simp_all add: emu_reg_def emu_read_def)

lemma emu_samples_frame:
  "e_ctrl (fst (emu_samples wave n s)) = e_ctrl s"
  "e_rx_buf_size (fst (emu_samples wave n s)) = e_rx_buf_size s"
  "e_rx_buf_base (fst (emu_samples wave n s)) = e_rx_buf_base s"
  by (induction n arbitrary: s) (auto simp: emu_sample_def Let_def case_prod_unfold)

lemma emu_tick_frame:
  "e_ctrl (fst (emu_tick wave s)) = e_ctrl s"
  "e_rx_buf_size (fst (emu_tick wave s)) = e_rx_buf_size s"
  "e_rx_buf_base (fst (emu_tick wave s)) = e_rx_buf_base s"
  by (simp_all add: emu_tick_def emu_samples_frame)

lemma emu_tick_disabled:
  "e_ctrl s AND AD936X_CTRL_RX_ENABLE = 0 \<Longrightarrow> emu_tick wave s = (s, [])"
  by (simp add: emu_tick_def)

text \<open>A running tick moves the write pointer by 256 samples of four bytes around the ring.\<close>

lemma emu_samples_wr:
  assumes "e_rx_buf_wr s < e_rx_buf_size s" "unat (e_rx_buf_size s) < 4294967292"
  shows "unat (e_rx_buf_wr (fst (emu_samples wave n s))) =
    (unat (e_rx_buf_wr s) + 4 * n) mod unat (e_rx_buf_size s)"
  using assms
proof (induction n arbitrary: s)
  case 0
  then show ?case by (simp add: word_nat)
next
  case (Suc n)
  let ?s = "fst (emu_sample wave s)"
  have sz: "0 < unat (e_rx_buf_size s)" "unat (e_rx_buf_wr s) < unat (e_rx_buf_size s)"
    using Suc.prems by (auto simp: word_nat)
  have "unat (e_rx_buf_wr s + 4) = unat (e_rx_buf_wr s) + 4"
    using sz Suc.prems(2) by (simp add: unat_plus_lt)
  then have w: "unat (e_rx_buf_wr ?s) = (unat (e_rx_buf_wr s) + 4) mod unat (e_rx_buf_size s)"
    by (simp add: emu_sample_def Let_def case_prod_unfold unat_mod_distrib)
  have fr: "e_rx_buf_size ?s = e_rx_buf_size s"
    by (simp add: emu_sample_def Let_def case_prod_unfold)
  have "e_rx_buf_wr ?s < e_rx_buf_size ?s" using w fr sz by (simp add: word_nat)
  then have "unat (e_rx_buf_wr (fst (emu_samples wave n ?s))) =
      (unat (e_rx_buf_wr ?s) + 4 * n) mod unat (e_rx_buf_size s)"
    using Suc.IH [of ?s] Suc.prems(2) fr by simp
  also have "\<dots> = (unat (e_rx_buf_wr s) + 4 + 4 * n) mod unat (e_rx_buf_size s)"
    unfolding w by (rule mod_add_left_eq)
  finally show ?case by (simp add: case_prod_unfold Let_def ac_simps)
qed

lemma emu_tick_wr:
  assumes "e_rx_buf_wr s < e_rx_buf_size s" "unat (e_rx_buf_size s) < 4294967292"
    and "e_ctrl s AND AD936X_CTRL_RX_ENABLE \<noteq> 0" "e_ctrl s AND AD936X_CTRL_RESET = 0"
  shows "unat (e_rx_buf_wr (fst (emu_tick wave s))) =
    (unat (e_rx_buf_wr s) + 1024) mod unat (e_rx_buf_size s)"
proof -
  have "e_rx_buf_size s \<noteq> 0" using assms(1) by (auto simp: word_nat)
  then show ?thesis using assms emu_samples_wr [OF assms(1,2), of wave 256] by (simp add: emu_tick_def)
qed

end
