(* ===== verification/Axi_System.thy ===== *)
theory Axi_System
  imports Axi_Props Emu
begin

text \<open>
  The kernel driver running against a device. A device is a register block that can be
  written and read and that moves on its own; the driver's actions are applied to it in
  order. The locale \<open>rx_device\<close> states what the driver relies on in the device, and the
  emulator is shown to provide it.
\<close>

definition apply_writes :: "('d \<Rightarrow> axi_reg \<Rightarrow> u32 \<Rightarrow> 'd) \<Rightarrow> 'd \<Rightarrow> (axi_reg \<times> u32) list \<Rightarrow> 'd" where
  "apply_writes dw d ws = foldl (\<lambda>d (r, v). dw d r v) d ws"

lemma apply_writes_simps [simp]:
  "apply_writes dw d [] = d"
  "apply_writes dw d ((r, v) # ws) = apply_writes dw (dw d r v) ws"
  by (simp_all add: apply_writes_def)

text \<open>What a process, the timer interrupt and the device can do.\<close>

datatype sys_event =
    Ev_open int
  | Ev_release
  | Ev_mmap ulong ulong bool
  | Ev_ioctl u32
  | Ev_timer
  | Ev_read int
  | Ev_write u32
  | Ev_device

text \<open>
  One event: the driver's handler on the current register values, its writes applied to
  the device. A \<^verbatim>\<open>read()\<close> or \<^verbatim>\<open>write()\<close> that would sleep has no effect yet; the timer runs
  only while it is armed. The list holds the reply of a delivered read.
\<close>

fun sys_step ::
  "('d \<Rightarrow> axi_reg \<Rightarrow> u32 \<Rightarrow> 'd) \<Rightarrow> ('d \<Rightarrow> axi_reg \<Rightarrow> u32) \<Rightarrow> ('d \<Rightarrow> 'd) \<Rightarrow> u32 \<Rightarrow>
     sys_event \<Rightarrow> axi_priv \<times> 'd \<Rightarrow> axi_rx_read list \<times> axi_priv \<times> 'd" where
  "sys_step dw dr dt bs (Ev_open now) (p, d) =
     (case axi_open 0 now p of
        Inl _ \<Rightarrow> ([], p, d)
      | Inr (_, acts) \<Rightarrow>
          (let d' = apply_writes dw d (writels acts)
           in case axi_open (dr d' Rx_buf_wr) now p of
                Inl _ \<Rightarrow> ([], p, d) | Inr (p', _) \<Rightarrow> ([], p', d')))"
| "sys_step dw dr dt bs Ev_release (p, d) =
     (case axi_release p of (p', acts) \<Rightarrow> ([], p', apply_writes dw d (writels acts)))"
| "sys_step dw dr dt bs (Ev_mmap pgoff sz vm_write) (p, d) =
     (case axi_mmap bs pgoff sz vm_write None p of
        (_, p', acts) \<Rightarrow> ([], p', apply_writes dw d (writels acts)))"
| "sys_step dw dr dt bs (Ev_ioctl cmd) (p, d) =
     (case axi_ioctl bs cmd True p of
        (_, p', acts) \<Rightarrow> ([], p', apply_writes dw d (writels acts)))"
| "sys_step dw dr dt bs Ev_timer (p, d) =
     (if timer_on p then ([], fst (axi_timer bs (dr d Rx_buf_wr) p), d) else ([], p, d))"
| "sys_step dw dr dt bs (Ev_read now) (p, d) =
     (case rx_step bs (Read (dr d Rx_buf_wr) (dr d Rx_buf_wr) now) p of (rs, p') \<Rightarrow> (rs, p', d))"
| "sys_step dw dr dt bs (Ev_write req) (p, d) =
     (case axi_write_enter 4 (Some req) p of
        Inl _ \<Rightarrow> ([], p, d)
      | Inr wr \<Rightarrow>
          if axi_write_wakes bs wr (dr d Tx_buf_rd) p then
            (case axi_write_resume wr p of
               (_, p', acts) \<Rightarrow> ([], p', apply_writes dw d (writels acts)))
          else ([], p, d))"
| "sys_step dw dr dt bs Ev_device (p, d) = ([], p, dt d)"

fun sys_run ::
  "('d \<Rightarrow> axi_reg \<Rightarrow> u32 \<Rightarrow> 'd) \<Rightarrow> ('d \<Rightarrow> axi_reg \<Rightarrow> u32) \<Rightarrow> ('d \<Rightarrow> 'd) \<Rightarrow> u32 \<Rightarrow>
     sys_event list \<Rightarrow> axi_priv \<times> 'd \<Rightarrow> axi_rx_read list \<times> axi_priv \<times> 'd" where
  "sys_run dw dr dt bs [] s = ([], s)"
| "sys_run dw dr dt bs (e # es) s =
     (let (rs, s1) = sys_step dw dr dt bs e s; (rs', s2) = sys_run dw dr dt bs es s1
      in (rs @ rs', s2))"

lemma sys_run_append:
  "sys_run dw dr dt bs (xs @ ys) s =
     (let (rs, s1) = sys_run dw dr dt bs xs s; (rs', s2) = sys_run dw dr dt bs ys s1
      in (rs @ rs', s2))"
  by (induction xs arbitrary: s) (simp_all add: Let_def case_prod_unfold)

subsection \<open>What the driver relies on\<close>

locale rx_device =
  fixes dw :: "'d \<Rightarrow> axi_reg \<Rightarrow> u32 \<Rightarrow> 'd"
    and dr :: "'d \<Rightarrow> axi_reg \<Rightarrow> u32"
    and dt :: "'d \<Rightarrow> 'd"
  assumes ctrl_write: "v AND 7 = v \<Longrightarrow> dr (dw d Ctrl v) Ctrl = v"
    and ctrl_frame: "r \<noteq> Ctrl \<Longrightarrow> dr (dw d r v) Ctrl = dr d Ctrl"
    and wr_frame: "r \<noteq> Ctrl \<Longrightarrow> dr (dw d r v) Rx_buf_wr = dr d Rx_buf_wr"
    and stop_keeps_wr: "dr (dw d Ctrl 0) Rx_buf_wr = dr d Rx_buf_wr"
    and disabled_ctrl: "dr (dt d) Ctrl = dr d Ctrl"
    and disabled_wr: "dr d Ctrl AND AD936X_CTRL_RX_ENABLE = 0 \<Longrightarrow> dr (dt d) Rx_buf_wr = dr d Rx_buf_wr"
begin

text \<open>A session in which nothing has enabled the device: no block can become ready.\<close>

definition quiet :: "axi_priv \<times> 'd \<Rightarrow> bool" where
  "quiet s \<longleftrightarrow> dr (snd s) Ctrl = 0 \<and> blocks_ready (fst s) = 0 \<and>
     timer_wr_ptr (fst s) = dr (snd s) Rx_buf_wr"

lemma quiet_open:
  assumes "in_use p = 0"
  shows "quiet (snd (sys_step dw dr dt bs (Ev_open now) (p, d)))"
proof -
  have z: "dr (dw d' Ctrl 0) Ctrl = 0" for d' by (rule ctrl_write) simp
  show ?thesis using assms by (simp add: quiet_def axi_open_def Let_def z)
qed

lemma quiet_timer:
  assumes "timer_wr_ptr p = hw" "blocks_ready p = 0"
  shows "timer_wr_ptr (fst (axi_timer bs hw p)) = hw \<and> blocks_ready (fst (axi_timer bs hw p)) = 0"
  using assms by (simp add: axi_timer_def Let_def)

lemma ioctl_quiet:
  assumes "cmd \<noteq> AD936X_AXI_IOC_ENABLE"
  shows "fst (snd (axi_ioctl bs cmd True p)) = p \<and> writels (snd (snd (axi_ioctl bs cmd True p))) = []"
  using assms by (simp add: axi_ioctl_def Let_def)

lemma write_enter_quiet: "writels (axi_write_flush wr p) = []"
  by (simp add: axi_write_flush_def Let_def)

lemma read_quiet:
  assumes "blocks_ready p = 0"
  shows "rx_step bs (Read hw1 hw2 now) p = ([], p)"
  using assms by (auto simp: axi_read_wakes_def axi_read_resume_def)

lemma quiet_step:
  assumes "quiet s" "e \<noteq> Ev_ioctl AD936X_AXI_IOC_ENABLE"
  shows "quiet (snd (sys_step dw dr dt bs e s)) \<and> fst (sys_step dw dr dt bs e s) = []"
proof -
  obtain p d where s: "s = (p, d)" by (cases s)
  have q: "dr d Ctrl = 0" "blocks_ready p = 0" "timer_wr_ptr p = dr d Rx_buf_wr"
    using assms(1) by (auto simp: quiet_def s)
  have z: "dr (dw d' Ctrl 0) Ctrl = 0" for d' by (rule ctrl_write) simp
  show ?thesis
  proof (cases e)
    case (Ev_open now)
    then show ?thesis
      using quiet_open [of p bs now d] assms(1)
      by (cases "in_use p = 0") (auto simp: s axi_open_def Let_def)
  next
    case Ev_release
    then show ?thesis using q by (simp add: s quiet_def axi_release_def z stop_keeps_wr)
  next
    case (Ev_mmap pgoff sz w)
    then show ?thesis
      using q by (auto simp: s quiet_def axi_mmap_def ctrl_frame wr_frame)
  next
    case (Ev_ioctl cmd)
    then show ?thesis
      using assms ioctl_quiet [of cmd bs p] by (auto simp: s case_prod_unfold)
  next
    case Ev_timer
    then show ?thesis using q quiet_timer [of p "dr d Rx_buf_wr" bs] by (simp add: s quiet_def)
  next
    case (Ev_read now)
    then show ?thesis using assms(1) read_quiet [OF q(2)] by (simp add: s)
  next
    case (Ev_write req)
    then show ?thesis
      using q by (auto simp: s quiet_def axi_write_resume_def write_enter_quiet ctrl_frame wr_frame
          split: sum.splits)
  next
    case Ev_device
    then show ?thesis using q by (simp add: s quiet_def disabled_ctrl disabled_wr)
  qed
qed

lemma quiet_run:
  assumes "quiet s" "Ev_ioctl AD936X_AXI_IOC_ENABLE \<notin> set es"
  shows "fst (sys_run dw dr dt bs es s) = []"
  using assms
proof (induction es arbitrary: s)
  case Nil
  then show ?case by simp
next
  case (Cons e es)
  have "quiet (snd (sys_step dw dr dt bs e s))" "fst (sys_step dw dr dt bs e s) = []"
    using quiet_step [OF Cons.prems(1), of e bs] Cons.prems(2) by auto
  then show ?case using Cons.IH Cons.prems(2) by (simp add: Let_def case_prod_unfold)
qed

end

subsection \<open>The emulator is such a device\<close>

definition emu_dev_tick :: "(u32 \<Rightarrow> u16 \<times> u16) \<Rightarrow> emu \<Rightarrow> emu" where
  "emu_dev_tick wave s = fst (emu_tick wave s)"

lemma emu_writel_simps:
  "e_ctrl (emu_writel s Ctrl v) = v AND 7"
  "r \<noteq> Ctrl \<Longrightarrow> e_ctrl (emu_writel s r v) = e_ctrl s"
  "r \<noteq> Ctrl \<Longrightarrow> e_rx_buf_wr (emu_writel s r v) = e_rx_buf_wr s"
  "v AND 1 = 0 \<Longrightarrow> emu_writel s Ctrl v = s\<lparr>e_ctrl := v AND 7\<rparr>"
proof -
  have "emu_writel s Ctrl v = (let s1 = s\<lparr>e_ctrl := v AND 7\<rparr> in
      if e_ctrl s1 AND 1 \<noteq> 0 then s1\<lparr>e_rx_overflow := 0, e_tx_underrun := 0, e_rx_buf_wr := 0,
        e_rx_buf_base := 0, e_rx_buf_size := 0, e_tx_buf_base := 0, e_tx_buf_size := 0,
        e_tx_buf_wr := 0, e_tx_buf_rd := 0, e_phase := 0\<rparr> else s1)" for v
    by (simp add: emu_writel_def emu_write_def ctrl_bits Let_def)
  then show "e_ctrl (emu_writel s Ctrl v) = v AND 7"
    "v AND 1 = 0 \<Longrightarrow> emu_writel s Ctrl v = s\<lparr>e_ctrl := v AND 7\<rparr>"
    by (simp_all add: Let_def and.assoc)
  show "r \<noteq> Ctrl \<Longrightarrow> e_ctrl (emu_writel s r v) = e_ctrl s"
    "r \<noteq> Ctrl \<Longrightarrow> e_rx_buf_wr (emu_writel s r v) = e_rx_buf_wr s"
    by (cases r; simp add: emu_writel_def emu_write_def)+
qed

interpretation emu: rx_device emu_writel emu_reg "emu_dev_tick wave"
proof
  show "emu_reg (emu_writel d Ctrl v) Ctrl = v" if "v AND 7 = v" for d v
    using that by (simp add: emu_writel_simps)
  show "emu_reg (emu_dev_tick wave d) Rx_buf_wr = emu_reg d Rx_buf_wr"
    if "emu_reg d Ctrl AND AD936X_CTRL_RX_ENABLE = 0" for d
    using that by (simp add: emu_dev_tick_def emu_tick_disabled)
qed (simp_all add: emu_writel_simps emu_dev_tick_def emu_tick_frame)

subsection \<open>Sessions\<close>

text \<open>
  C7. A process that opens the device and never issues the ENABLE ioctl never receives a
  block: whatever it maps, writes or asks, however long the timer and the peripheral run,
  every \<^verbatim>\<open>read()\<close> keeps sleeping.
\<close>

theorem axi_no_enable_no_data:
  assumes "in_use p = 0" and "Ev_ioctl AD936X_AXI_IOC_ENABLE \<notin> set es"
  shows "fst (sys_run emu_writel emu_reg (emu_dev_tick wave) bs (Ev_open now # es) (p, d)) = []"
proof -
  let ?s = "sys_step emu_writel emu_reg (emu_dev_tick wave) bs (Ev_open now) (p, d)"
  have "emu.quiet (snd ?s)" using assms(1) by (rule emu.quiet_open)
  moreover have "fst ?s = []" by (simp add: Let_def split: sum.splits)
  ultimately show ?thesis
    using emu.quiet_run [where s = "snd ?s" and es = es] assms(2) by (simp add: Let_def case_prod_unfold)
qed

theorem axi_no_enable_no_data_witness:
  "in_use axi_priv_zero = 0 \<and>
   fst (sys_run emu_writel emu_reg (emu_dev_tick (\<lambda>_. (0, 0))) 4
     [Ev_open 0, Ev_mmap 0 16 False, Ev_device, Ev_timer, Ev_read 1] (axi_priv_zero, emu_new)) = []"
  using axi_no_enable_no_data [of axi_priv_zero "[Ev_mmap 0 16 False, Ev_device, Ev_timer, Ev_read 1]"]
  by (simp add: axi_priv_zero_def)

lemma sys_run_devices:
  "sys_run dw dr dt bs (replicate n Ev_device) (p, d) = ([], p, (dt ^^ n) d)"
  by (induction n arbitrary: d) (simp_all add: funpow_swap1)

lemmas emu_dev_tick_wr = emu_tick_wr [folded emu_dev_tick_def]

lemmas emu_dev_tick_frame = emu_tick_frame [folded emu_dev_tick_def]

lemma emu_ticks_wr:
  assumes "e_rx_buf_wr s = 0" "0 < unat (e_rx_buf_size s)" "unat (e_rx_buf_size s) < 2147483648"
    and "e_ctrl s = AD936X_CTRL_RX_ENABLE"
  shows "unat (e_rx_buf_wr ((emu_dev_tick wave ^^ n) s)) = (n * 1024) mod unat (e_rx_buf_size s) \<and>
    e_rx_buf_size ((emu_dev_tick wave ^^ n) s) = e_rx_buf_size s \<and>
    e_ctrl ((emu_dev_tick wave ^^ n) s) = e_ctrl s"
proof (induction n)
  case 0
  then show ?case using assms by simp
next
  case (Suc n)
  let ?s = "(emu_dev_tick wave ^^ n) s"
  have "unat (e_rx_buf_wr ?s) < unat (e_rx_buf_size ?s)" using Suc assms(2) by simp
  then have "unat (e_rx_buf_wr (emu_dev_tick wave ?s)) = (unat (e_rx_buf_wr ?s) + 1024) mod unat (e_rx_buf_size ?s)"
    using Suc assms by (intro emu_dev_tick_wr) (auto simp: ctrl_bits word_nat)
  then show ?case
    using Suc by (simp add: emu_dev_tick_frame mod_add_left_eq mod_add_right_eq ac_simps)
qed

text \<open>The state after open, the mapping of the receive buffer and ENABLE.\<close>

definition axi_started :: "u32 \<Rightarrow> axi_priv \<Rightarrow> emu \<Rightarrow> bool" where
  "axi_started sz p d \<longleftrightarrow> rxbuf_size p = sz \<and> rd_ptr p = 0 \<and> timer_wr_ptr p = 0 \<and>
     blocks_ready p = 0 \<and> \<not> closing p \<and> timer_on p \<and> e_ctrl d = AD936X_CTRL_RX_ENABLE \<and>
     e_rx_buf_wr d = 0 \<and> e_rx_buf_size d = sz"

lemma axi_session_start:
  assumes "in_use p = 0" "sz \<le> rxbuf_size_max p" "unat bs dvd unat sz" "0 < unat sz"
  shows "\<exists>p' d'. sys_run emu_writel emu_reg dt bs
       [Ev_open now, Ev_mmap 0 sz False, Ev_ioctl AD936X_AXI_IOC_ENABLE] (p, d) = ([], p', d') \<and>
     axi_started sz p' d'"
proof -
  have 1: "sz mod bs = 0" using assms(3) by (simp add: word_unat_eq_iff unat_mod_distrib)
  have 2: "0 < sz" "\<not> rxbuf_size_max p < sz" using assms(2,4) by (auto simp: word_nat)
  show ?thesis
    by (simp add: assms(1) 1 2 axi_open_def axi_mmap_def axi_ioctl_def axi_enable_ctrl_def Let_def ctrl_bits
        AD936X_AXI_IOC_ENABLE_def AD936X_AXI_IOC_GET_RX_BUFSIZE_def
        AD936X_AXI_IOC_GET_BLOCKSIZE_def AD936X_AXI_IOC_GET_TX_BUFSIZE_def ioc_io_def ioc_ior_def
        emu_writel_def emu_write_def axi_started_def)
qed

text \<open>
  C8. Data arrives: after open, mapping the receive buffer and ENABLE, once the peripheral
  has run for enough ticks to fill a block (and has not yet gone round the ring), the
  next timer tick wakes the reader, whose first \<^verbatim>\<open>read()\<close> delivers the block at offset 0
  with the hardware pointer where the peripheral left it and nothing lost.
\<close>

theorem axi_enable_delivers:
  assumes "in_use p = 0" and "sz \<le> rxbuf_size_max p" and "unat bs dvd unat sz"
    and "unat sz < 2147483648" and "0 < unat bs" and "unat bs \<le> n * 1024" and "n * 1024 < unat sz"
  shows "fst (sys_run emu_writel emu_reg (emu_dev_tick wave) bs
     ([Ev_open t0, Ev_mmap 0 sz False, Ev_ioctl AD936X_AXI_IOC_ENABLE] @
      replicate n Ev_device @ [Ev_timer, Ev_read t1]) (p, d)) =
     [\<lparr>rx_rd = 0, rx_hw_wr = of_nat (n * 1024), rx_lost_bytes = 0\<rparr>]"
proof -
  let ?run = "sys_run emu_writel emu_reg (emu_dev_tick wave) bs"
  obtain p1 d1 where s1:
    "?run [Ev_open t0, Ev_mmap 0 sz False, Ev_ioctl AD936X_AXI_IOC_ENABLE] (p, d) = ([], p1, d1)"
    "rxbuf_size p1 = sz" "rd_ptr p1 = 0" "timer_wr_ptr p1 = 0" "blocks_ready p1 = 0"
    "\<not> closing p1" "timer_on p1"
    "e_ctrl d1 = AD936X_CTRL_RX_ENABLE" "e_rx_buf_wr d1 = 0" "e_rx_buf_size d1 = sz"
    using axi_session_start [OF assms(1-3), of "emu_dev_tick wave" t0 d] assms(7)
    by (auto simp: axi_started_def)
  let ?d2 = "(emu_dev_tick wave ^^ n) d1" and ?hw = "e_rx_buf_wr ((emu_dev_tick wave ^^ n) d1)"
  have hw: "unat ?hw = n * 1024"
    using emu_ticks_wr [where s = d1 and n = n and wave = wave] s1 assms(4,7) by simp
  have hweq: "?hw = of_nat (n * 1024)" unfolding hw [symmetric] by simp
  have g: "rx_geom bs p1" using s1(2) assms by (simp add: rx_geom_def)
  have r0: "rx_rel bs p1 \<lparr>produced = 0, consumed = 0\<rparr>" using s1 by (simp add: rx_rel_def)
  let ?p2 = "fst (axi_timer bs ?hw p1)" and ?n = "tick_blocks bs ?hw p1"
  have lt: "?hw < rxbuf_size p1" using hw assms(7) s1(2) by (simp add: word_nat)
  have nb: "?n = n * 1024 div unat bs"
    using s1 hw assms(7) by (simp add: tick_blocks_def ring_dist_def)
  have n1: "0 < ?n" "?n < unat sz div unat bs"
    using nb assms(3,5,6,7) by (auto simp: div_greater_zero_iff less_mult_imp_div_less)
  have szb: "unat sz div unat bs < 2147483648" using assms(4) div_le_dividend le_less_trans by blast
  have r2: "rx_rel bs ?p2 (abs_tick ?n \<lparr>produced = 0, consumed = 0\<rparr>)"
    using axi_timer_rel [OF g r0 lt] n1(2) szb by simp
  have fr2: "rxbuf_size ?p2 = sz" "closing ?p2 = closing p1"
    using s1(2) by (simp_all add: axi_timer_unfold [OF g] Let_def)
  have b2: "unat (blocks_ready ?p2) = ?n" "rd_ptr ?p2 = 0"
    using r2 by (auto simp: rx_rel_def abs_tick_def word_unat_eq_iff)
  have wake: "axi_read_wakes ?p2" using n1 szb b2(1) by (simp add: axi_read_wakes_def sint_pos_iff)
  have m: "unat (sz div bs) = unat sz div unat bs" by (simp add: unat_div_distrib)
  have "unat (blocks_ready ?p2) < 2147483648" "unat (sz div bs) < 2147483648"
    using b2(1) n1(2) szb m by linarith+
  then have "sint (blocks_ready ?p2) = int ?n" "sint (sz div bs) = int (unat sz div unat bs)"
    by (simp_all only: sint_eq_unat b2(1) m)
  then have nov: "\<not> sint (sz div bs) \<le> sint (blocks_ready ?p2)" using n1(2) by simp
  have "fst (rx_step bs (Read ?hw ?hw t1) ?p2) =
      [\<lparr>rx_rd = 0, rx_hw_wr = of_nat (n * 1024), rx_lost_bytes = 0\<rparr>]"
    using wake nov s1(6) fr2 b2(2) hweq
    by (simp add: axi_read_resume_def Let_def case_prod_unfold split: prod.splits)
  then show ?thesis
    unfolding sys_run_append s1(1) sys_run_devices using s1(7)
    by (simp add: Let_def case_prod_unfold sys_run_append s1(1) sys_run_devices)
qed

theorem axi_enable_delivers_witness:
  "fst (sys_run emu_writel emu_reg (emu_dev_tick (\<lambda>_. (0, 0))) 1024
     ([Ev_open 0, Ev_mmap 0 4096 False, Ev_ioctl AD936X_AXI_IOC_ENABLE] @
      replicate 2 Ev_device @ [Ev_timer, Ev_read 5]) (axi_priv_zero\<lparr>rxbuf_size_max := 4096\<rparr>, emu_new)) =
     [\<lparr>rx_rd = 0, rx_hw_wr = 2048, rx_lost_bytes = 0\<rparr>]"
  using axi_enable_delivers [of "axi_priv_zero\<lparr>rxbuf_size_max := 4096\<rparr>" 4096 1024 2
      "\<lambda>_. (0, 0)" 0 5 emu_new]
  by (simp add: axi_priv_zero_def)

end
