(* ===== verification/Net.thy ===== *)
theory Net
  imports Zyn_Prelude
begin

text \<open>
  The socket helpers of the streaming application, \<^verbatim>\<open>net.c\<close>. The kernel's socket calls
  are not part of the program: what each call returns is an argument, a list with one
  result per call. A list that runs out is a call that has not returned, and the helper's
  result is then \<open>None\<close>.
\<close>

datatype io_result = Io_count nat | Io_error errno

subsection \<open>tcp_send\<close>

text \<open>
  The remaining bytes are the argument; \<^verbatim>\<open>len\<close> is their number. The result is the return
  value, the bytes handed to the kernel, and the call results not used.
\<close>

fun tcp_send :: "io_result list \<Rightarrow> u8 list \<Rightarrow> (int \<times> u8 list \<times> io_result list) option" where
  "tcp_send os [] = Some (0, [], os)"
| "tcp_send [] (b # p) = None"
| "tcp_send (Io_error e # os) (b # p) =
     (if e = EINTR then tcp_send os (b # p) else Some (-1, [], os))"
| "tcp_send (Io_count n # os) (b # p) =
     (if n = 0 then Some (-1, [], os)
      else case tcp_send os (drop n (b # p)) of
             None \<Rightarrow> None
           | Some (r, sent, os') \<Rightarrow> Some (r, take n (b # p) @ sent, os'))"

text \<open>What the kernel promises of \<^verbatim>\<open>send\<close>: it never accepts more than it was offered.\<close>

fun send_ok :: "io_result list \<Rightarrow> nat \<Rightarrow> bool" where
  "send_ok [] len \<longleftrightarrow> True"
| "send_ok (Io_error e # os) len \<longleftrightarrow> send_ok os len"
| "send_ok (Io_count n # os) len \<longleftrightarrow> n \<le> len \<and> send_ok os (len - n)"

lemma tcp_send_prefix:
  "tcp_send os p = Some (r, sent, os') \<Longrightarrow> \<exists>rest. p = sent @ rest \<and> (r = 0 \<longleftrightarrow> rest = []) \<and> (r = 0 \<or> r = -1)"
proof (induction os p arbitrary: r sent os' rule: tcp_send.induct)
  case (4 n os b p)
  show ?case
  proof (cases "n = 0")
    case True
    then show ?thesis using 4 by auto
  next
    case False
    with 4 obtain s1 where "tcp_send os (drop n (b # p)) = Some (r, s1, os')" "sent = take n (b # p) @ s1"
      by (auto split: option.splits prod.splits)
    with 4(1) [OF False] obtain rest where "drop n (b # p) = s1 @ rest" "r = 0 \<longleftrightarrow> rest = []" "r = 0 \<or> r = -1"
      by blast
    then show ?thesis using \<open>sent = take n (b # p) @ s1\<close>
      by (metis append.assoc append_take_drop_id)
  qed
qed (auto split: if_splits)

text \<open>
  Enough progress: the calls before the first error accept at least \<open>len\<close> bytes.
\<close>

fun accepts :: "io_result list \<Rightarrow> nat \<Rightarrow> bool" where
  "accepts os 0 \<longleftrightarrow> True"
| "accepts [] (Suc len) \<longleftrightarrow> False"
| "accepts (Io_error e # os) (Suc len) \<longleftrightarrow> e = EINTR \<and> accepts os (Suc len)"
| "accepts (Io_count n # os) (Suc len) \<longleftrightarrow> 0 < n \<and> accepts os (Suc len - n)"

lemma tcp_send_complete:
  "accepts os (length p) \<Longrightarrow> \<exists>os'. tcp_send os p = Some (0, p, os')"
proof (induction os p rule: tcp_send.induct)
  case (4 n os b p)
  then have n: "n \<noteq> 0" "accepts os (length (drop n (b # p)))" by auto
  with 4(1) obtain os' where "tcp_send os (drop n (b # p)) = Some (0, drop n (b # p), os')" by blast
  with n show ?case by simp
qed auto

subsection \<open>tcp_recv_full\<close>

text \<open>Each \<^verbatim>\<open>recv\<close> returns bytes, at most as many as it was asked for, or an error.\<close>

datatype recv_result = Recv_bytes "u8 list" | Recv_error errno

fun tcp_recv_full :: "recv_result list \<Rightarrow> nat \<Rightarrow> (int \<times> u8 list \<times> recv_result list) option" where
  "tcp_recv_full rs 0 = Some (0, [], rs)"
| "tcp_recv_full [] (Suc len) = None"
| "tcp_recv_full (Recv_error e # rs) (Suc len) =
     (if e = EINTR then tcp_recv_full rs (Suc len) else Some (-1, [], rs))"
| "tcp_recv_full (Recv_bytes bs # rs) (Suc len) =
     (if bs = [] then Some (-1, [], rs)
      else case tcp_recv_full rs (Suc len - length bs) of
             None \<Rightarrow> None
           | Some (r, got, rs') \<Rightarrow> Some (r, bs @ got, rs'))"

fun recv_bytes :: "recv_result list \<Rightarrow> u8 list" where
  "recv_bytes [] = []"
| "recv_bytes (Recv_bytes bs # rs) = bs @ recv_bytes rs"
| "recv_bytes (Recv_error e # rs) = recv_bytes rs"

fun recv_ok :: "recv_result list \<Rightarrow> nat \<Rightarrow> bool" where
  "recv_ok rs 0 \<longleftrightarrow> True"
| "recv_ok [] (Suc len) \<longleftrightarrow> True"
| "recv_ok (Recv_error e # rs) (Suc len) \<longleftrightarrow> recv_ok rs (Suc len)"
| "recv_ok (Recv_bytes bs # rs) (Suc len) \<longleftrightarrow> length bs \<le> Suc len \<and> recv_ok rs (Suc len - length bs)"

lemma tcp_recv_full_exact:
  "tcp_recv_full rs len = Some (0, got, rs') \<Longrightarrow> recv_ok rs len \<Longrightarrow>
     length got = len \<and> (\<exists>used. rs = used @ rs' \<and> recv_bytes used = got)"
proof (induction rs len arbitrary: got rs' rule: tcp_recv_full.induct)
  case (3 e rs len)
  then obtain used where "length got = Suc len" "rs = used @ rs'" "recv_bytes used = got"
    by (auto split: if_splits)
  then show ?case by (intro conjI exI [of _ "Recv_error e # used"]) auto
next
  case (4 bs rs len)
  obtain g where g: "tcp_recv_full rs (Suc len - length bs) = Some (0, g, rs')" "got = bs @ g" "bs \<noteq> []"
    using 4(2) by (auto split: if_splits option.splits)
  have ok: "recv_ok rs (Suc len - length bs)" "length bs \<le> Suc len" using 4(3) by auto
  from 4(1) [OF g(3,1) ok(1)] obtain used where
    "length g = Suc len - length bs" "rs = used @ rs'" "recv_bytes used = g" by blast
  with g ok show ?case by (intro conjI exI [of _ "Recv_bytes bs # used"]) auto
qed auto

text \<open>Where enough bytes are on their way and no call fails, the helper returns them.\<close>

lemma tcp_recv_full_complete:
  assumes "\<forall>r \<in> set rs. (\<exists>bs. r = Recv_bytes bs \<and> bs \<noteq> []) \<or> r = Recv_error EINTR"
    and "recv_ok rs len" and "len \<le> length (recv_bytes rs)"
  shows "\<exists>rs'. tcp_recv_full rs len = Some (0, take len (recv_bytes rs), rs')"
  using assms
proof (induction rs len rule: tcp_recv_full.induct)
  case (4 bs rs len)
  have "Suc len - length bs \<le> length (recv_bytes rs)" using 4(4) by simp
  then obtain rs' where "tcp_recv_full rs (Suc len - length bs)
      = Some (0, take (Suc len - length bs) (recv_bytes rs), rs')" using 4 by auto
  moreover have "bs \<noteq> []" "length bs \<le> Suc len" using 4 by auto
  ultimately show ?case by simp
qed auto

subsection \<open>udp_send_ring\<close>

definition DATAGRAM_SIZE :: nat where "DATAGRAM_SIZE = 1472"

text \<open>
  The two static variables: the wrap buffer of one datagram and how much of it is filled.
  A \<^verbatim>\<open>memcpy\<close> that would read past the block or write past the wrap buffer is \<open>None\<close>.
  \<open>sent\<close> is what \<^verbatim>\<open>sendmmsg\<close> returns; a failed call leaves the function before the tail
  is saved.
\<close>

record udp_state =
  s_wrap_buf :: "u8 list"
  s_wrap_pos :: nat

function udp_chunks :: "nat \<Rightarrow> u8 list \<Rightarrow> u8 list list \<times> u8 list" where
  "udp_chunks count data =
     (if DATAGRAM_SIZE \<le> length data \<and> count < 64 then
        let (ms, rest) = udp_chunks (count + 1) (drop DATAGRAM_SIZE data)
        in (take DATAGRAM_SIZE data # ms, rest)
      else ([], data))"
  by pat_completeness auto
termination
  by (relation "measure (\<lambda>(count, data). length data)") (auto simp: DATAGRAM_SIZE_def)

declare udp_chunks.simps [simp del]

definition udp_tail :: "udp_state \<Rightarrow> u8 list \<Rightarrow> udp_state option" where
  "udp_tail st data =
     (if data = [] then Some st
      else if DATAGRAM_SIZE < length data then None
      else Some (st\<lparr>s_wrap_buf := data @ drop (length data) (s_wrap_buf st),
                    s_wrap_pos := length data\<rparr>))"

definition udp_send_ring ::
  "int \<Rightarrow> u8 list \<Rightarrow> udp_state \<Rightarrow> (int \<times> udp_state \<times> u8 list list) option" where
  "udp_send_ring sent data st =
     (let need = DATAGRAM_SIZE - s_wrap_pos st
      in if 0 < s_wrap_pos st \<and> length data < need then None
         else
           let (st1, first, rest) =
                 (if 0 < s_wrap_pos st then
                    let w = take (s_wrap_pos st) (s_wrap_buf st) @ take need data
                    in (st\<lparr>s_wrap_buf := w, s_wrap_pos := 0\<rparr>, [w], drop need data)
                  else (st, [], data));
               (ms, tl) = udp_chunks (length first) rest;
               msgs = first @ ms
           in if msgs \<noteq> [] \<and> sent < 0 then Some (-1, st1, msgs)
              else map_option (\<lambda>st2. (0, st2, msgs)) (udp_tail st1 tl))"

lemma udp_chunks_split:
  assumes "count \<le> 64"
  shows "concat (fst (udp_chunks count data)) @ snd (udp_chunks count data) = data \<and>
    (\<forall>m \<in> set (fst (udp_chunks count data)). length m = DATAGRAM_SIZE) \<and>
    length (fst (udp_chunks count data)) = min (length data div DATAGRAM_SIZE) (64 - count)"
  using assms
proof (induction count data rule: udp_chunks.induct)
  case (1 count data)
  show ?case
  proof (cases "DATAGRAM_SIZE \<le> length data \<and> count < 64")
    case True
    then have "length data div DATAGRAM_SIZE = Suc ((length data - DATAGRAM_SIZE) div DATAGRAM_SIZE)"
      by (simp add: le_div_geq DATAGRAM_SIZE_def)
    with 1 True show ?thesis
      by (auto simp: udp_chunks.simps [of count data] Let_def case_prod_unfold min_def)
  next
    case False
    then show ?thesis using 1(2) by (auto simp: udp_chunks.simps [of count data] div_eq_0_iff)
  qed
qed

definition udp_ok :: "udp_state \<Rightarrow> bool" where
  "udp_ok st \<longleftrightarrow> length (s_wrap_buf st) = DATAGRAM_SIZE \<and> s_wrap_pos st \<le> DATAGRAM_SIZE"

text \<open>The bytes a previous call has left for the next one.\<close>

definition udp_pending :: "udp_state \<Rightarrow> u8 list" where
  "udp_pending st = take (s_wrap_pos st) (s_wrap_buf st)"

text \<open>A call is chunking the pending bytes followed by the block.\<close>

definition udp_input :: "udp_state \<Rightarrow> u8 list \<Rightarrow> u8 list" where
  "udp_input st data = udp_pending st @ data"

definition udp_first :: "udp_state \<Rightarrow> u8 list \<Rightarrow> u8 list list" where
  "udp_first st data = (if 0 < s_wrap_pos st then [take DATAGRAM_SIZE (udp_input st data)] else [])"

lemma udp_send_ring_unfold:
  assumes "udp_ok st" "0 \<le> sent" "DATAGRAM_SIZE \<le> length data"
  shows "udp_send_ring sent data st =
    (let rest = drop (DATAGRAM_SIZE * length (udp_first st data)) (udp_input st data);
         (ms, tl) = udp_chunks (length (udp_first st data)) rest;
         buf = (if 0 < s_wrap_pos st then take DATAGRAM_SIZE (udp_input st data) else s_wrap_buf st)
     in map_option (\<lambda>st2. (0, st2, udp_first st data @ ms))
          (udp_tail \<lparr>s_wrap_buf = buf, s_wrap_pos = 0\<rparr> tl))"
  using assms
  by (cases st)
     (auto simp: udp_send_ring_def udp_first_def udp_input_def udp_pending_def udp_ok_def Let_def
       case_prod_unfold)

lemma udp_first_split:
  assumes "udp_ok st" "DATAGRAM_SIZE \<le> length data"
  shows "concat (udp_first st data) @ drop (DATAGRAM_SIZE * length (udp_first st data)) (udp_input st data)
      = udp_input st data"
    and "\<forall>m \<in> set (udp_first st data). length m = DATAGRAM_SIZE"
    and "length (udp_first st data) \<le> 1"
    and "DATAGRAM_SIZE * length (udp_first st data) \<le> length (udp_input st data)"
proof -
  have "DATAGRAM_SIZE \<le> length (udp_input st data)" using assms(2) by (simp add: udp_input_def)
  then show "concat (udp_first st data) @ drop (DATAGRAM_SIZE * length (udp_first st data)) (udp_input st data)
      = udp_input st data"
    "\<forall>m \<in> set (udp_first st data). length m = DATAGRAM_SIZE" "length (udp_first st data) \<le> 1"
    "DATAGRAM_SIZE * length (udp_first st data) \<le> length (udp_input st data)"
    by (auto simp: udp_first_def)
qed

text \<open>
  How much is left after the datagrams of one call: with room for 64 datagrams, the
  remainder, otherwise everything beyond them.
\<close>

lemma udp_call:
  assumes ok: "udp_ok st" and s: "0 \<le> sent" and d: "DATAGRAM_SIZE \<le> length data"
  obtains ms tl buf where
    "udp_send_ring sent data st =
       map_option (\<lambda>st2. (0, st2, ms)) (udp_tail \<lparr>s_wrap_buf = buf, s_wrap_pos = 0\<rparr> tl)"
    "length buf = DATAGRAM_SIZE" "concat ms @ tl = udp_input st data"
    "\<forall>m \<in> set ms. length m = DATAGRAM_SIZE"
    "length ms = min (length (udp_input st data) div DATAGRAM_SIZE) 64"
proof -
  let ?f = "udp_first st data" and ?i = "udp_input st data"
  let ?rest = "drop (DATAGRAM_SIZE * length (udp_first st data)) (udp_input st data)"
  note f = udp_first_split [OF ok d]
  have c: "length ?f \<le> 64" using f(3) by simp
  note ch = udp_chunks_split [OF c, of ?rest]
  have "length ?rest div DATAGRAM_SIZE = length ?i div DATAGRAM_SIZE - length ?f"
    by (simp add: div_mult_self4 DATAGRAM_SIZE_def)
  moreover have "length ?f \<le> length ?i div DATAGRAM_SIZE"
    using f(4) by (simp add: DATAGRAM_SIZE_def less_eq_div_iff_mult_less_eq ac_simps)
  ultimately have "length (?f @ fst (udp_chunks (length ?f) ?rest)) = min (length ?i div DATAGRAM_SIZE) 64"
    using ch f(3) by simp
  note len = this
  let ?buf = "if 0 < s_wrap_pos st then take DATAGRAM_SIZE ?i else s_wrap_buf st"
  let ?c = "udp_chunks (length ?f) ?rest"
  show thesis
  proof (rule that)
    show "udp_send_ring sent data st = map_option (\<lambda>st2. (0, st2, ?f @ fst ?c))
        (udp_tail \<lparr>s_wrap_buf = ?buf, s_wrap_pos = 0\<rparr> (snd ?c))"
      by (simp only: udp_send_ring_unfold [OF ok s d] Let_def case_prod_unfold)
    show "length ?buf = DATAGRAM_SIZE" using ok d by (auto simp: udp_ok_def udp_input_def)
    have "concat (?f @ fst ?c) @ snd ?c = concat ?f @ ?rest" using ch by simp
    then show "concat (?f @ fst ?c) @ snd ?c = ?i" by (simp only: f(1))
    show "\<forall>m \<in> set (?f @ fst ?c). length m = DATAGRAM_SIZE" using f(2) ch by auto
  qed (rule len)
qed

subsection \<open>Properties\<close>

text \<open>
  \<^verbatim>\<open>tcp_send\<close> hands the kernel a prefix of the buffer, in order and without gaps or
  repeats, however the kernel splits it and whatever interrupts; it returns 0 only when
  the prefix is the whole buffer, and it does return 0 whenever the calls before the
  first error other than EINTR accept enough bytes.
\<close>

theorem tcp_send_all_or_prefix:
  "(\<forall>r sent os'. tcp_send os p = Some (r, sent, os') \<longrightarrow>
      (\<exists>rest. p = sent @ rest \<and> (r = 0 \<longleftrightarrow> rest = []) \<and> (r = 0 \<or> r = -1))) \<and>
   (accepts os (length p) \<longrightarrow> (\<exists>os'. tcp_send os p = Some (0, p, os')))"
  using tcp_send_prefix tcp_send_complete by blast

theorem tcp_send_all_or_prefix_witness:
  "\<exists>os'. tcp_send [Io_count 1, Io_error EINTR, Io_count 2, Io_error EIO] [1, 2, 3] = Some (0, [1, 2, 3], os')"
  using tcp_send_all_or_prefix [of "[Io_count 1, Io_error EINTR, Io_count 2, Io_error EIO]" "[1, 2, 3]"]
  by (simp add: numeral_2_eq_2 numeral_3_eq_3)

text \<open>
  One end sending with \<^verbatim>\<open>tcp_send\<close> and the other receiving with \<^verbatim>\<open>tcp_recv_full\<close>
  moves a buffer unchanged: if the bytes the sender's kernel took are what the receiver's
  calls deliver, in any pieces, the receiver gets exactly the sender's buffer.
\<close>

theorem tcp_send_recv_roundtrip:
  assumes "accepts os (length p)"
    and "\<exists>more. recv_bytes rs = fst (snd (the (tcp_send os p))) @ more"
    and "\<forall>r \<in> set rs. (\<exists>bs. r = Recv_bytes bs \<and> bs \<noteq> []) \<or> r = Recv_error EINTR"
    and "recv_ok rs (length p)"
  shows "\<exists>rs'. tcp_recv_full rs (length p) = Some (0, p, rs')"
proof -
  obtain os' where "tcp_send os p = Some (0, p, os')" using tcp_send_complete [OF assms(1)] by blast
  with assms(2) obtain more where rs: "recv_bytes rs = p @ more" by auto
  then show ?thesis
    using tcp_recv_full_complete [OF assms(3,4)] by simp
qed

theorem tcp_send_recv_roundtrip_witness:
  "\<exists>rs'. tcp_recv_full [Recv_bytes [1], Recv_error EINTR, Recv_bytes [2, 3]] 3 = Some (0, [1, 2, 3], rs')"
proof -
  have "\<exists>rs'. tcp_recv_full [Recv_bytes [1], Recv_error EINTR, Recv_bytes [2, 3]] (length [1, 2, 3 :: u8])
      = Some (0, [1, 2, 3], rs')"
    by (rule tcp_send_recv_roundtrip [of "[Io_count 3]"]) (auto simp: numeral_3_eq_3)
  then show ?thesis by (simp add: numeral_3_eq_3)
qed

text \<open>Successive calls of \<^verbatim>\<open>udp_send_ring\<close>, each with a \<^verbatim>\<open>sendmmsg\<close> that succeeds.\<close>

fun udp_stream :: "u8 list list \<Rightarrow> udp_state \<Rightarrow> (u8 list list \<times> udp_state) option" where
  "udp_stream [] st = Some ([], st)"
| "udp_stream (b # bs) st =
     (case udp_send_ring 1 b st of
        None \<Rightarrow> None
      | Some (_, st1, ms) \<Rightarrow> map_option (\<lambda>(ms', st2). (ms @ ms', st2)) (udp_stream bs st1))"

lemma udp_call_ok:
  assumes ok: "udp_ok st" and s: "0 \<le> sent" and d: "DATAGRAM_SIZE \<le> length data"
    and fits: "s_wrap_pos st + length data \<le> 65 * DATAGRAM_SIZE"
  shows "\<exists>st' ms. udp_send_ring sent data st = Some (0, st', ms) \<and> udp_ok st' \<and>
     concat ms @ udp_pending st' = udp_pending st @ data \<and> (\<forall>m \<in> set ms. length m = DATAGRAM_SIZE)"
proof -
  obtain ms tl buf where c: "udp_send_ring sent data st =
       map_option (\<lambda>st2. (0, st2, ms)) (udp_tail \<lparr>s_wrap_buf = buf, s_wrap_pos = 0\<rparr> tl)"
    "length buf = DATAGRAM_SIZE" "concat ms @ tl = udp_input st data"
    "\<forall>m \<in> set ms. length m = DATAGRAM_SIZE"
    "length ms = min (length (udp_input st data) div DATAGRAM_SIZE) 64"
    by (rule udp_call [OF ok s d])
  have li: "length (udp_input st data) = s_wrap_pos st + length data"
    using ok by (simp add: udp_input_def udp_pending_def udp_ok_def)
  have "length (concat ms) = length ms * DATAGRAM_SIZE"
    using c(4) by (induction ms) auto
  then have "length tl + length ms * DATAGRAM_SIZE = s_wrap_pos st + length data"
    using arg_cong [OF c(3), of length] li by simp
  then have "length tl \<le> DATAGRAM_SIZE"
    using c(5) li fits by (auto simp: min_def DATAGRAM_SIZE_def split: if_splits)
  then show ?thesis
    using c by (auto simp: udp_tail_def udp_ok_def udp_pending_def udp_input_def)
qed

lemma udp_stream_ok:
  assumes "udp_ok st" "\<forall>b \<in> set bs. DATAGRAM_SIZE \<le> length b \<and> length b \<le> 64 * DATAGRAM_SIZE"
  shows "\<exists>ms st'. udp_stream bs st = Some (ms, st') \<and> udp_ok st' \<and>
     concat ms @ udp_pending st' = udp_pending st @ concat bs \<and> (\<forall>m \<in> set ms. length m = DATAGRAM_SIZE)"
  using assms
proof (induction bs arbitrary: st)
  case Nil
  then show ?case by simp
next
  case (Cons b bs)
  have "s_wrap_pos st + length b \<le> 65 * DATAGRAM_SIZE" using Cons.prems by (auto simp: udp_ok_def)
  then obtain st1 m1 where 1: "udp_send_ring 1 b st = Some (0, st1, m1)" "udp_ok st1"
    "concat m1 @ udp_pending st1 = udp_pending st @ b" "\<forall>m \<in> set m1. length m = DATAGRAM_SIZE"
    using udp_call_ok [of st 1 b] Cons.prems by auto
  obtain m2 st2 where 2: "udp_stream bs st1 = Some (m2, st2)" "udp_ok st2"
    "concat m2 @ udp_pending st2 = udp_pending st1 @ concat bs" "\<forall>m \<in> set m2. length m = DATAGRAM_SIZE"
    using Cons.IH [OF 1(2)] Cons.prems by auto
  have "concat (m1 @ m2) @ udp_pending st2 = (concat m1 @ udp_pending st1) @ concat bs"
    using 2(3) by simp
  also have "\<dots> = udp_pending st @ concat (b # bs)" unfolding 1(3) by simp
  finally show ?case using 1 2 by auto
qed

text \<open>
  Over any number of blocks of between one and 64 datagrams, \<^verbatim>\<open>udp_send_ring\<close> puts
  every byte of the stream into a datagram exactly once and in order, each datagram full,
  and keeps the rest (less than or equal to one datagram) for the next block.
\<close>

theorem udp_stream_preserves_bytes:
  assumes "\<forall>b \<in> set blocks. DATAGRAM_SIZE \<le> length b \<and> length b \<le> 64 * DATAGRAM_SIZE"
    and "length (s_wrap_buf st) = DATAGRAM_SIZE" and "s_wrap_pos st = 0"
  shows "\<exists>ms st'. udp_stream blocks st = Some (ms, st') \<and>
     concat ms @ take (s_wrap_pos st') (s_wrap_buf st') = concat blocks \<and>
     s_wrap_pos st' \<le> DATAGRAM_SIZE \<and> (\<forall>m \<in> set ms. length m = DATAGRAM_SIZE)"
  using udp_stream_ok [of st blocks] assms by (auto simp: udp_ok_def udp_pending_def)

theorem udp_stream_preserves_bytes_witness:
  "\<exists>ms st'. udp_stream [replicate 2000 7, replicate 3000 8] \<lparr>s_wrap_buf = replicate 1472 0, s_wrap_pos = 0\<rparr>
     = Some (ms, st') \<and> concat ms @ take (s_wrap_pos st') (s_wrap_buf st') = replicate 2000 7 @ replicate 3000 8"
  using udp_stream_preserves_bytes [of "[replicate 2000 7, replicate 3000 8]"
      "\<lparr>s_wrap_buf = replicate 1472 0, s_wrap_pos = 0\<rparr>"]
  by (auto simp: DATAGRAM_SIZE_def)



end
