(* ===== verification/Tcp_Driver.thy ===== *)
theory Tcp_Driver
  imports Ring_Stream Net Emu
begin

text \<open>
  The kernel streaming module \<^verbatim>\<open>ad936x-tcp.c\<close>: a kernel thread that accepts one TCP
  client at a time and sends it the receive ring block by block, with no user-space copy.
  Socket calls, register reads and the ring's memory are arguments, one per iteration of
  the loop that uses them; a list of them that runs out is a call that has not returned.
  The module parameter \<^verbatim>\<open>block_size\<close> is the argument \<open>bs\<close>.
\<close>

subsection \<open>Registers and state\<close>

datatype tcp_reg = T_info | T_fifo | T_ctrl | T_drop_cnt | T_rx_buf_base | T_rx_buf_size
  | T_reserved | T_rx_buf_wr

fun tcp_reg_offset :: "tcp_reg \<Rightarrow> u64" where
  "tcp_reg_offset T_info = 0x00"
| "tcp_reg_offset T_fifo = 0x04"
| "tcp_reg_offset T_ctrl = 0x08"
| "tcp_reg_offset T_drop_cnt = 0x0C"
| "tcp_reg_offset T_rx_buf_base = 0x10"
| "tcp_reg_offset T_rx_buf_size = 0x14"
| "tcp_reg_offset T_reserved = 0x18"
| "tcp_reg_offset T_rx_buf_wr = 0x1C"

definition TCP_CTRL_ENABLE :: u32 where "TCP_CTRL_ENABLE = push_bit 0 1"
definition TCP_CTRL_RESET :: u32 where "TCP_CTRL_RESET = push_bit 1 1"
definition TCP_INFO_MAGIC :: u32 where "TCP_INFO_MAGIC = 0xAD93"

record tcp_priv =
  t_rxbuf_phys :: phys_addr
  t_rxbuf_size :: size_t
  t_rd_ptr :: u32

datatype tcp_action =
    TWritel tcp_reg u32
  | TDma_sync_for_cpu phys_addr u32
  | TUsleep
  | TSet_sndbuf int
  | TSet_nodelay
  | TShutdown_client
  | TRelease_client
  | TRelease_listener
  | TKthread_bind nat
  | TWake_up_process
  | TKthread_stop

definition fpga_reset_and_enable :: "tcp_priv \<Rightarrow> tcp_priv \<times> tcp_action list" where
  "fpga_reset_and_enable p =
     (p\<lparr>t_rd_ptr := 0\<rparr>,
      [TWritel T_ctrl TCP_CTRL_RESET,
       TWritel T_ctrl 0,
       TWritel T_rx_buf_base (t_rxbuf_phys p),
       TWritel T_rx_buf_size (t_rxbuf_size p),
       TWritel T_ctrl TCP_CTRL_ENABLE])"

definition fpga_disable :: "tcp_action list" where
  "fpga_disable = [TWritel T_ctrl 0]"

subsection \<open>Sending\<close>

text \<open>
  Each \<^verbatim>\<open>kernel_sendmsg\<close> copies out of the ring while the FPGA goes on writing it, and may
  block; so every call has a ring of its own, the bytes as that call finds them, together
  with its result. \<open>data\<close> is the offset of the next byte in the ring. The result of the
  function is the return value, \<open>None\<close> while a call has not returned, and the bytes the
  socket took so far.
\<close>

type_synonym send_call = "(nat \<Rightarrow> u8) \<times> io_result"

fun ksock_send :: "send_call list \<Rightarrow> nat \<Rightarrow> nat \<Rightarrow> (errno + unit) option \<times> u8 list" where
  "ksock_send os data 0 = (Some (Inr ()), [])"
| "ksock_send [] data (Suc len) = (None, [])"
| "ksock_send ((mem, Io_error e) # os) data (Suc len) = (Some (Inl e), [])"
| "ksock_send ((mem, Io_count n) # os) data (Suc len) =
     (if n = 0 then (Some (Inl ECONNRESET), [])
      else let (r, sent) = ksock_send os (data + n) (Suc len - n)
           in (r, map mem [data..<data + min n (Suc len)] @ sent))"

definition MAX_BVEC_PAGES :: nat where "MAX_BVEC_PAGES = 256"

text \<open>
  The page vector of the zero-copy variant: page address, length and offset of each
  piece. The first argument is \<^verbatim>\<open>MAX_BVEC_PAGES - i\<close>.
\<close>

fun sendpage_bvecs :: "nat \<Rightarrow> u32 \<Rightarrow> size_t \<Rightarrow> (u32 \<times> u32 \<times> u32) list" where
  "sendpage_bvecs 0 addr remaining = []"
| "sendpage_bvecs (Suc k) addr remaining =
     (if remaining = 0 then []
      else let off = addr AND 0xFFF;
               chunk = min remaining (4096 - off)
           in (addr - off, chunk, off) # sendpage_bvecs k (addr + chunk) (remaining - chunk))"

fun sendmsg_loop :: "io_result list \<Rightarrow> nat \<Rightarrow> (errno + unit) option" where
  "sendmsg_loop os 0 = Some (Inr ())"
| "sendmsg_loop [] (Suc n) = None"
| "sendmsg_loop (Io_error e # os) (Suc n) = Some (Inl e)"
| "sendmsg_loop (Io_count k # os) (Suc n) =
     (if k = 0 then Some (Inl ECONNRESET) else sendmsg_loop os (Suc n - k))"

definition ksock_sendpage ::
  "io_result list \<Rightarrow> u32 \<Rightarrow> size_t \<Rightarrow> (u32 \<times> u32 \<times> u32) list \<times> (errno + unit) option" where
  "ksock_sendpage os addr len =
     (sendpage_bvecs MAX_BVEC_PAGES addr len, sendmsg_loop os (unat len))"

subsection \<open>The streaming loop\<close>

definition tcp_avail :: "u32 \<Rightarrow> tcp_priv \<Rightarrow> u32" where
  "tcp_avail wr_ptr p =
     (if t_rd_ptr p \<le> wr_ptr then wr_ptr - t_rd_ptr p
      else t_rxbuf_size p - t_rd_ptr p + wr_ptr)"

definition tcp_advance :: "u32 \<Rightarrow> tcp_priv \<Rightarrow> tcp_priv" where
  "tcp_advance bs p = p\<lparr>t_rd_ptr := adv_wrap bs (t_rxbuf_size p) (t_rd_ptr p)\<rparr>"

datatype stream_event =
    SE_stop
  | SE_poll u32 "send_call list"

record stream_state =
  ss_sent :: "u8 list"
  ss_acts :: "tcp_action list"
  ss_priv :: tcp_priv
  ss_ended :: bool

fun stream_loop :: "u32 \<Rightarrow> stream_event list \<Rightarrow> stream_state \<Rightarrow> stream_state" where
  "stream_loop bs [] st = st"
| "stream_loop bs (SE_stop # evs) st = st\<lparr>ss_ended := True\<rparr>"
| "stream_loop bs (SE_poll wr_ptr os # evs) st =
     (let p = ss_priv st in
      if tcp_avail wr_ptr p < bs then
        stream_loop bs evs (st\<lparr>ss_acts := ss_acts st @ [TUsleep]\<rparr>)
      else
        let (r, sent) = ksock_send os (unat (t_rd_ptr p)) (unat bs);
            st1 = st\<lparr>ss_acts := ss_acts st @ [TDma_sync_for_cpu (t_rxbuf_phys p + t_rd_ptr p) bs],
                     ss_sent := ss_sent st @ sent\<rparr>
        in case r of
             None \<Rightarrow> st1
           | Some (Inl e) \<Rightarrow> st1\<lparr>ss_ended := True\<rparr>
           | Some (Inr _) \<Rightarrow> stream_loop bs evs (st1\<lparr>ss_priv := tcp_advance bs p\<rparr>))"

definition stream_to_client :: "u32 \<Rightarrow> stream_event list \<Rightarrow> tcp_priv \<Rightarrow> stream_state" where
  "stream_to_client bs evs p =
     (let (p1, acts) = fpga_reset_and_enable p;
          st = stream_loop bs evs
                 \<lparr>ss_sent = [], ss_acts = acts, ss_priv = p1, ss_ended = False\<rparr>
      in if ss_ended st then st\<lparr>ss_acts := ss_acts st @ fpga_disable\<rparr> else st)"

subsection \<open>The listener thread, probe and remove\<close>

datatype accept_event = AE_stop | AE_error errno | AE_client "stream_event list"

text \<open>The last component says that the loop was left.\<close>

fun listen_loop ::
  "u32 \<Rightarrow> accept_event list \<Rightarrow> tcp_priv \<Rightarrow> u8 list list \<times> tcp_action list \<times> tcp_priv \<times> bool" where
  "listen_loop bs [] p = ([], [], p, False)"
| "listen_loop bs (AE_stop # evs) p = ([], [], p, True)"
| "listen_loop bs (AE_error e # evs) p =
     (if e = EAGAIN \<or> e = ERESTARTSYS then listen_loop bs evs p else ([], [], p, True))"
| "listen_loop bs (AE_client ses # evs) p =
     (let st = stream_to_client bs ses p;
          acts = [TSet_sndbuf (8 * 1024 * 1024), TSet_nodelay] @ ss_acts st
      in if ss_ended st then
           let (sents, acts2, p2, e) = listen_loop bs evs (ss_priv st)
           in (ss_sent st # sents, acts @ [TShutdown_client, TRelease_client] @ acts2, p2, e)
         else ([ss_sent st], acts, ss_priv st, False))"

definition listen_thread_fn ::
  "errno option \<Rightarrow> errno option \<Rightarrow> errno option \<Rightarrow> u32 \<Rightarrow> accept_event list \<Rightarrow> tcp_priv \<Rightarrow>
     (errno + unit) option \<times> u8 list list \<times> tcp_action list \<times> tcp_priv" where
  "listen_thread_fn create bind_r listen_r bs evs p =
     (case create of Some e \<Rightarrow> (Some (Inl e), [], [], p)
      | None \<Rightarrow>
          if bind_r \<noteq> None \<or> listen_r \<noteq> None then (Some (Inr ()), [], [TRelease_listener], p)
          else let (sents, acts, p1, ended) = listen_loop bs evs p
               in if ended then (Some (Inr ()), sents, acts @ [TRelease_listener], p1)
                  else (None, sents, acts, p1))"

record tcp_platform =
  tp_alloc_ok :: bool
  tp_ioremap :: "errno option"
  tp_info :: u32
  tp_region :: "(errno + phys_addr \<times> size_t) option"
  tp_kthread_create :: "errno option"

definition ad936x_tcp_probe :: "tcp_platform \<Rightarrow> errno + tcp_priv \<times> tcp_action list" where
  "ad936x_tcp_probe pl =
     (if \<not> tp_alloc_ok pl then Inl ENOMEM
      else case tp_ioremap pl of Some e \<Rightarrow> Inl e | None \<Rightarrow>
        if drop_bit 16 (tp_info pl) \<noteq> TCP_INFO_MAGIC then Inl ENODEV
        else case tp_region pl of
               None \<Rightarrow> Inl EINVAL
             | Some (Inl e) \<Rightarrow> Inl e
             | Some (Inr (start, len)) \<Rightarrow>
                 (case tp_kthread_create pl of Some e \<Rightarrow> Inl e | None \<Rightarrow>
                    Inr (\<lparr>t_rxbuf_phys = start, t_rxbuf_size = len, t_rd_ptr = 0\<rparr>,
                         [TKthread_bind 1, TWake_up_process])))"

definition ad936x_tcp_remove :: "tcp_action list" where
  "ad936x_tcp_remove = TKthread_stop # fpga_disable"

subsection \<open>The thread is a ring reader\<close>

text \<open>One poll as the streaming thread makes it when the socket takes the block at once.\<close>

definition tcp_block :: "u32 \<Rightarrow> (nat \<Rightarrow> u8) \<Rightarrow> tcp_priv \<Rightarrow> u8 list" where
  "tcp_block bs mem p = map mem [unat (t_rd_ptr p)..<unat (t_rd_ptr p) + unat bs]"

definition tcp_poll :: "u32 \<Rightarrow> tcp_priv poll" where
  "tcp_poll bs mem wr_ptr p =
     (if tcp_avail wr_ptr p < bs then None else Some (tcp_block bs mem p, tcp_advance bs p))"

definition tcp_inv :: "u32 \<Rightarrow> nat \<Rightarrow> tcp_priv \<Rightarrow> bool" where
  "tcp_inv bs n p \<longleftrightarrow> n = unat (t_rxbuf_size p) \<and> on_block bs (t_rxbuf_size p) (t_rd_ptr p)"

lemma tcp_avail_used: "tcp_avail wr p = ringbuf_used (t_rd_ptr p) wr (t_rxbuf_size p)"
  by (simp add: tcp_avail_def ringbuf_used_def)

lemma tcp_poll_some:
  assumes "tcp_inv bs n p" "unat wr < n" "tcp_poll bs mem wr p = Some (out, p')"
  shows "length out \<le> ring_dist n (unat (t_rd_ptr p)) (unat wr) \<and>
         out = ring_slice n mem (unat (t_rd_ptr p)) (length out) \<and>
         unat (t_rd_ptr p') = (unat (t_rd_ptr p) + length out) mod n \<and> tcp_inv bs n p'"
proof -
  have ob: "on_block bs (t_rxbuf_size p) (t_rd_ptr p)" and n: "n = unat (t_rxbuf_size p)"
    using assms(1) by (auto simp: tcp_inv_def)
  have out: "out = tcp_block bs mem p" "p' = tcp_advance bs p" and av: "\<not> tcp_avail wr p < bs"
    using assms(3) by (auto simp: tcp_poll_def split: if_splits)
  have wr: "wr < t_rxbuf_size p" "t_rd_ptr p < t_rxbuf_size p"
    using assms(2) n ob by (auto simp: word_nat on_block_def)
  have "unat bs \<le> ring_dist n (unat (t_rd_ptr p)) (unat wr)"
    using av wr n by (simp add: tcp_avail_used unat_less_iff unat_ringbuf_used)
  moreover have "out = ring_slice n mem (unat (t_rd_ptr p)) (unat bs)"
    using flat_slice on_block_fits [OF ob] n out by (simp add: tcp_block_def)
  ultimately show ?thesis
    using out n ob rwrap.adv_on_block [OF ob] unat_adv_wrap [OF ob]
    by (simp add: tcp_advance_def tcp_inv_def)
qed

interpretation tcp: ring_reader "tcp_poll bs" "\<lambda>p. unat (t_rd_ptr p)" "tcp_inv bs" for bs
proof unfold_locales
  show "unat (t_rd_ptr p) < n" if "tcp_inv bs n p" for n p
    using that by (auto simp: tcp_inv_def on_block_def word_nat)
  show "n < 4294967296" if "tcp_inv bs n p" for n p
    using that unat_u32_lt by (auto simp: tcp_inv_def)
qed (rule tcp_poll_some)

text \<open>
  The condition on the FPGA's pace, on absolute positions. For one send: a byte of the
  block is copied after the poll that found the block complete (at position \<open>P\<close>) and before
  the FPGA comes round to it. For a session: when the thread looks, the FPGA has not gained
  a whole ring on it, and each send meets that condition.
\<close>

fun copies_intact :: "(nat \<Rightarrow> u8) \<Rightarrow> nat \<Rightarrow> nat \<Rightarrow> nat \<Rightarrow> nat \<Rightarrow> send_call list \<Rightarrow> bool" where
  "copies_intact s n P C len [] \<longleftrightarrow> True"
| "copies_intact s n P C len ((mem, Io_error e) # os) \<longleftrightarrow> True"
| "copies_intact s n P C len ((mem, Io_count k) # os) \<longleftrightarrow>
     (\<forall>j. C \<le> j \<and> j < C + min k len \<longrightarrow> copied_between s n P (j + n) mem (j mod n)) \<and>
     copies_intact s n P (C + k) (len - k) os"

fun pace_kept :: "(nat \<Rightarrow> u8) \<Rightarrow> nat \<Rightarrow> nat \<Rightarrow> nat \<Rightarrow> (nat \<times> send_call list) list \<Rightarrow> bool" where
  "pace_kept s n bs C [] \<longleftrightarrow> True"
| "pace_kept s n bs C ((P, os) # xs) \<longleftrightarrow>
     C \<le> P \<and> P < C + n \<and>
     (if P < C + bs then pace_kept s n bs C xs
      else copies_intact s n P C bs os \<and> pace_kept s n bs (C + bs) xs)"

definition poll_events :: "nat \<Rightarrow> (nat \<times> send_call list) list \<Rightarrow> stream_event list" where
  "poll_events n = map (\<lambda>(P, os). SE_poll (of_nat (P mod n)) os)"

lemma copied_run:
  assumes "\<And>i. i < m \<Longrightarrow> mem (a + i) = s (C + i)"
  shows "map mem [a..<a + m] = stream_slice s C (C + m)"
  using assms by (intro nth_equalityI) (simp_all add: stream_slice_def)

lemma ksock_send_stream:
  "copies_intact s n P C len os \<Longrightarrow> C + len \<le> P \<Longrightarrow> (\<And>i. i < len \<Longrightarrow> (C + i) mod n = a + i) \<Longrightarrow>
   \<exists>l \<le> len. snd (ksock_send os a len) = stream_slice s C (C + l) \<and>
     (fst (ksock_send os a len) = Some (Inr u) \<longrightarrow> l = len)"
proof (induction os a len arbitrary: C rule: ksock_send.induct)
  case (4 mem k os a len)
  show ?case
  proof (cases "k = 0")
    case False
    have byte: "mem (a + i) = s (C + i)" if i: "i < min k (Suc len)" for i
    proof -
      have "copied_between s n P (C + i + n) mem ((C + i) mod n)" using 4(2) i by simp
      from copied_byte [OF this] show ?thesis using 4(3) 4(4) [of i] i by simp
    qed
    have here: "map mem [a..<a + min k (Suc len)] = stream_slice s C (C + min k (Suc len))"
      by (rule copied_run) (rule byte)
    obtain l where l: "l \<le> Suc len - k"
      "snd (ksock_send os (a + k) (Suc len - k)) = stream_slice s (C + k) (C + k + l)"
      "fst (ksock_send os (a + k) (Suc len - k)) = Some (Inr u) \<longrightarrow> l = Suc len - k"
    proof (cases "k \<le> Suc len")
      case True
      have "\<exists>l \<le> Suc len - k. snd (ksock_send os (a + k) (Suc len - k)) = stream_slice s (C + k) (C + k + l) \<and>
          (fst (ksock_send os (a + k) (Suc len - k)) = Some (Inr u) \<longrightarrow> l = Suc len - k)"
      proof (rule 4(1) [OF False])
        show "copies_intact s n P (C + k) (Suc len - k) os" using 4(2) by simp
        show "C + k + (Suc len - k) \<le> P" using 4(3) True by simp
        show "(C + k + i) mod n = a + k + i" if "i < Suc len - k" for i
          using 4(4) [of "k + i"] that by (simp add: add.assoc)
      qed
      then show ?thesis using that by blast
    next
      case False
      then show ?thesis using that [of 0] by simp
    qed
    let ?l = "min k (Suc len) + l"
    have "stream_slice s C (C + min k (Suc len)) @ stream_slice s (C + k) (C + k + l) = stream_slice s C (C + ?l)"
    proof (cases "k \<le> Suc len")
      case True
      then show ?thesis by (simp add: min_def stream_slice_append add.assoc)
    qed (use l(1) in simp)
    then show ?thesis
      using l False here by (intro exI [of _ ?l]) (auto simp: case_prod_unfold Let_def)
  qed (auto intro!: exI [of _ 0])
qed (auto intro!: exI [of _ 0])

text \<open>The loop sends the stream from where the thread stands.\<close>

lemma stream_loop_sends_stream:
  assumes "tcp_inv bs n (ss_priv st)" "unat (t_rd_ptr (ss_priv st)) = C mod n"
    and "ss_sent st = stream_slice s 0 C" "pace_kept s n (unat bs) C xs"
  shows "\<exists>D. ss_sent (stream_loop bs (poll_events n xs) st) = stream_slice s 0 D"
  using assms
proof (induction xs arbitrary: st C)
  case Nil
  then show ?case by (auto simp: poll_events_def)
next
  case (Cons x xs)
  obtain P os where x: "x = (P, os)" by (cases x)
  let ?p = "ss_priv st" and ?wr = "of_nat (P mod n) :: u32"
  have ob: "on_block bs (t_rxbuf_size ?p) (t_rd_ptr ?p)" and n: "n = unat (t_rxbuf_size ?p)"
    using Cons.prems(1) by (auto simp: tcp_inv_def)
  have n0: "0 < n" using on_blockD [OF ob] n by simp
  have P: "C \<le> P" "P < C + n" using Cons.prems(4) x by simp_all
  have "P mod n < n" "n < 4294967296" using n0 n unat_u32_lt by simp_all
  then have wr: "unat ?wr = P mod n" by (simp add: unat_of_nat)
  have "unat (tcp_avail ?wr ?p) = ring_dist n (C mod n) (P mod n)"
    using unat_ringbuf_used [of "t_rd_ptr ?p" "t_rxbuf_size ?p" ?wr] n wr n0 Cons.prems(2)
    by (simp add: tcp_avail_used word_nat)
  then have av: "tcp_avail ?wr ?p < bs \<longleftrightarrow> P < C + unat bs"
    using ring_dist_counts [OF P] P(1) by (auto simp: word_nat)
  show ?case
  proof (cases "P < C + unat bs")
    case True
    then show ?thesis
      using Cons.IH [of "st\<lparr>ss_acts := ss_acts st @ [TUsleep]\<rparr>" C] Cons.prems x av
      by (simp add: poll_events_def)
  next
    case False
    let ?k = "ksock_send os (unat (t_rd_ptr ?p)) (unat bs)"
    have room: "(C + i) mod n = unat (t_rd_ptr ?p) + i" if "i < unat bs" for i
    proof -
      have "(C + i) mod n = (C mod n + i) mod n" by (simp add: mod_add_left_eq)
      then show ?thesis using on_block_fits [OF ob] Cons.prems(2) n that by simp
    qed
    obtain l where l: "l \<le> unat bs" "snd ?k = stream_slice s C (C + l)"
      "fst ?k = Some (Inr ()) \<longrightarrow> l = unat bs"
      using ksock_send_stream [of s n P C "unat bs" os "unat (t_rd_ptr ?p)" "()"] room False Cons.prems(4) x
      by auto
    have sent: "ss_sent st @ snd ?k = stream_slice s 0 (C + l)"
      using Cons.prems(3) l(2) by (simp add: stream_slice_append)
    obtain r sent' where k: "?k = (r, sent')" by (cases ?k)
    show ?thesis
    proof (cases "r = Some (Inr ())")
      case True
      let ?st = "st\<lparr>ss_acts := ss_acts st @ [TDma_sync_for_cpu (t_rxbuf_phys ?p + t_rd_ptr ?p) bs],
            ss_sent := ss_sent st @ sent', ss_priv := tcp_advance bs ?p\<rparr>"
      obtain m where m: "ring_holds s n P m" using ring_holds_exists [OF n0] by metis
      have "tcp_poll bs m ?wr ?p = Some (tcp_block bs m ?p, tcp_advance bs ?p)"
        using False av by (simp add: tcp_poll_def)
      from tcp.poll_counts [OF Cons.prems(1,2) P m this]
      have inv: "tcp_inv bs n (ss_priv ?st)" "unat (t_rd_ptr (ss_priv ?st)) = (C + unat bs) mod n"
        by (simp_all add: tcp_block_def)
      have "\<exists>D. ss_sent (stream_loop bs (poll_events n xs) ?st) = stream_slice s 0 D"
        using Cons.IH [OF inv] sent k l(3) True False Cons.prems(4) x by simp
      then show ?thesis
        using False av k True x by (simp add: poll_events_def Let_def)
    next
      case not_sent: False
      then show ?thesis
        using False av k sent x by (auto simp: poll_events_def Let_def split: option.splits sum.splits)
    qed
  qed
qed

end
