(* ===== verification/Tcp_Props.thy ===== *)
theory Tcp_Props
  imports Tcp_Driver
begin

text \<open>
  What the kernel streaming module promises: the client receives the FPGA's byte stream
  from its first byte, the FPGA is disabled whenever no client is connected, the page
  vector of the zero-copy variant covers the block up to its size, and the register
  layout it was written for is not the one of the current peripheral.
\<close>

lemma stream_loop_stop: "ss_sent (stream_loop bs (evs @ [SE_stop]) st) = ss_sent (stream_loop bs evs st)"
proof (induction evs arbitrary: st)
  case (Cons e evs)
  then show ?case
    by (cases e) (auto simp: Let_def case_prod_unfold split: option.splits sum.splits)
qed simp

lemma ss_sent_stream_to_client:
  "ss_sent (stream_to_client bs evs p) =
     ss_sent (stream_loop bs evs \<lparr>ss_sent = [], ss_acts = snd (fpga_reset_and_enable p),
       ss_priv = p\<lparr>t_rd_ptr := 0\<rparr>, ss_ended = False\<rparr>)"
  by (simp add: stream_to_client_def fpga_reset_and_enable_def Let_def)

text \<open>
  C10. The kernel thread sends the FPGA's stream as long as the FPGA keeps the pace
  \<open>pace_kept\<close>: it is less than a ring ahead of the thread whenever the thread looks, and it
  does not come round to a byte of the block before the \<^verbatim>\<open>kernel_sendmsg\<close> call that takes
  that byte has copied it (each call sees the ring as it is then; a call may block). Then the
  bytes handed to the client's socket are the FPGA's bytes from the first one on, without a
  gap and without a repetition, however the polls fall, however the socket splits a block
  and wherever the session ends. The code checks neither condition: outside it the client
  is sent other bytes and nothing is reported.
\<close>

theorem tcp_stream_sends_fpga_stream:
  assumes "0 < bs" "unat bs dvd n" "n = unat (t_rxbuf_size p)" "0 < n"
    and "pace_kept s n (unat bs) 0 xs"
  shows "let sent = ss_sent (stream_to_client bs (poll_events n xs @ (if stop then [SE_stop] else [])) p)
         in sent = stream_slice s 0 (length sent)"
proof -
  let ?p = "p\<lparr>t_rd_ptr := 0\<rparr>" and ?evs = "poll_events n xs @ (if stop then [SE_stop] else [])"
  let ?st = "\<lparr>ss_sent = [], ss_acts = snd (fpga_reset_and_enable p), ss_priv = ?p, ss_ended = False\<rparr>"
  have "tcp_inv bs n ?p"
    using assms(1-4) by (auto simp: tcp_inv_def word_nat intro!: on_block_zero)
  then obtain D where "ss_sent (stream_loop bs (poll_events n xs) ?st) = stream_slice s 0 D"
    using stream_loop_sends_stream [of bs n ?st 0 s xs] assms(5) by auto
  then show ?thesis
    by (simp add: ss_sent_stream_to_client stream_loop_stop Let_def)
qed

text \<open>
  Four polls over a ring of four blocks. The second send is taken in two calls, and between
  them the FPGA has moved on to position 17, overwriting a byte already copied.
\<close>

definition tcp_w_mem :: "nat \<Rightarrow> u8" where
  "tcp_w_mem i = (if i = 0 then 16 else of_nat i)"

theorem tcp_stream_sends_fpga_stream_witness:
  "ss_sent (stream_to_client 4
     [SE_poll 3 [], SE_poll 9 [(of_nat, Io_count 3), (tcp_w_mem, Io_count 1)], SE_poll 1 [(tcp_w_mem, Io_count 4)], SE_stop]
     \<lparr>t_rxbuf_phys = 0x1000, t_rxbuf_size = 16, t_rd_ptr = 8\<rparr>) = [0, 1, 2, 3, 4, 5, 6, 7]"
proof -
  let ?xs = "[(3, []), (9, [(of_nat, Io_count 3), (tcp_w_mem, Io_count 1)]), (17, [(tcp_w_mem, Io_count 4)])]
    :: (nat \<times> send_call list) list"
  let ?p = "\<lparr>t_rxbuf_phys = 0x1000, t_rxbuf_size = 16, t_rd_ptr = 8\<rparr>"
  have ev: "poll_events 16 ?xs @ (if True then [SE_stop] else []) =
    [SE_poll 3 [], SE_poll 9 [(of_nat, Io_count 3), (tcp_w_mem, Io_count 1)], SE_poll 1 [(tcp_w_mem, Io_count 4)], SE_stop]"
    by (simp add: poll_events_def)
  have c1: "copied_between of_nat 16 9 (j + 16) (of_nat :: nat \<Rightarrow> u8) (j mod 16)" if "j < 3" for j
    using that by (intro copied_betweenI [of _ _ 9]) simp_all
  have c2: "copied_between of_nat 16 9 19 tcp_w_mem 3"
    using copied_betweenI [of 16 9 17 19 3 tcp_w_mem of_nat] by (simp add: tcp_w_mem_def)
  have c3: "copied_between of_nat 16 17 (j + 16) tcp_w_mem (j mod 16)" if "4 \<le> j" "j < 8" for j
    using that by (intro copied_betweenI [of _ _ 17]) (simp_all add: tcp_w_mem_def)
  have j3: "j = 3" if "3 \<le> j" "j < 4" for j :: nat using that by simp
  have "let sent = ss_sent (stream_to_client 4 (poll_events 16 ?xs @ (if True then [SE_stop] else [])) ?p)
        in sent = stream_slice of_nat 0 (length sent)"
  proof (rule tcp_stream_sends_fpga_stream)
    show "pace_kept of_nat 16 (unat (4 :: u32)) 0 ?xs"
      using c1 c2 c3 by (auto dest!: j3)
  qed simp_all
  moreover have "length (ss_sent (stream_to_client 4 (poll_events 16 ?xs @ (if True then [SE_stop] else [])) ?p)) = 8"
    unfolding ev by code_simp
  ultimately have "ss_sent (stream_to_client 4 (poll_events 16 ?xs @ (if True then [SE_stop] else [])) ?p) =
      stream_slice of_nat 0 8" by simp
  then show ?thesis unfolding ev by (simp add: stream_slice_def upt_rec)
qed

text \<open>The control register is 0 whenever a client has been released.\<close>

fun idle_safe :: "u32 option \<Rightarrow> tcp_action list \<Rightarrow> bool" where
  "idle_safe c [] \<longleftrightarrow> True"
| "idle_safe c (TWritel T_ctrl v # as) \<longleftrightarrow> idle_safe (Some v) as"
| "idle_safe c (TRelease_client # as) \<longleftrightarrow> c = Some 0 \<and> idle_safe c as"
| "idle_safe c (a # as) \<longleftrightarrow> idle_safe c as"

fun last_ctrl :: "u32 option \<Rightarrow> tcp_action list \<Rightarrow> u32 option" where
  "last_ctrl c [] = c"
| "last_ctrl c (TWritel T_ctrl v # as) = last_ctrl (Some v) as"
| "last_ctrl c (a # as) = last_ctrl c as"

lemma idle_safe_append: "idle_safe c (as @ bs) \<longleftrightarrow> idle_safe c as \<and> idle_safe (last_ctrl c as) bs"
  by (induction c as rule: idle_safe.induct) auto

lemma stream_loop_acts:
  "\<exists>as. ss_acts (stream_loop bs evs st) = ss_acts st @ as \<and> (\<forall>c. idle_safe c as)"
proof (induction bs evs st rule: stream_loop.induct)
  case (3 bs wr os evs st)
  let ?p = "ss_priv st"
  show ?case
  proof (cases "tcp_avail wr ?p < bs")
    case True
    then show ?thesis using 3(1) [OF refl] by auto
  next
    case False
    obtain r sent where k: "ksock_send os (unat (t_rd_ptr ?p)) (unat bs) = (r, sent)"
      by (cases "ksock_send os (unat (t_rd_ptr ?p)) (unat bs)")
    show ?thesis
    proof (cases "\<exists>u. r = Some (Inr u)")
      case True
      then obtain u where u: "r = Some (Inr u)" by blast
      from 3(2) [OF refl False k [symmetric] refl refl u] show ?thesis
        using False k u by (auto simp: Let_def)
    next
      case not_sent: False
      then show ?thesis using False k by (auto simp: Let_def split: option.splits sum.splits)
    qed
  qed
qed auto

lemma stream_session_idle:
  assumes "ss_ended (stream_to_client bs evs p)"
  shows "idle_safe c (ss_acts (stream_to_client bs evs p)) \<and>
         last_ctrl c (ss_acts (stream_to_client bs evs p)) = Some 0"
proof -
  let ?st = "\<lparr>ss_sent = [], ss_acts = snd (fpga_reset_and_enable p),
       ss_priv = p\<lparr>t_rd_ptr := 0\<rparr>, ss_ended = False\<rparr>"
  obtain as where "ss_acts (stream_loop bs evs ?st) = snd (fpga_reset_and_enable p) @ as" "\<forall>c. idle_safe c as"
    using stream_loop_acts [of bs evs ?st] by auto
  moreover have "last_ctrl c (xs @ fpga_disable) = Some 0" for c xs
    by (induction c xs rule: last_ctrl.induct) (auto simp: fpga_disable_def)
  ultimately show ?thesis
    using assms
    by (auto simp: stream_to_client_def fpga_reset_and_enable_def fpga_disable_def Let_def idle_safe_append
        split: if_splits)
qed

lemma stream_session_running:
  assumes "\<not> ss_ended (stream_to_client bs evs p)"
  shows "idle_safe c (ss_acts (stream_to_client bs evs p))"
proof -
  let ?st = "\<lparr>ss_sent = [], ss_acts = snd (fpga_reset_and_enable p),
       ss_priv = p\<lparr>t_rd_ptr := 0\<rparr>, ss_ended = False\<rparr>"
  show ?thesis
    using assms stream_loop_acts [of bs evs ?st]
    by (auto simp: stream_to_client_def fpga_reset_and_enable_def Let_def idle_safe_append split: if_splits)
qed

lemma listen_loop_idle:
  "listen_loop bs evs p = (sents, acts, p', e) \<Longrightarrow> idle_safe c acts"
proof (induction bs evs p arbitrary: sents acts p' e c rule: listen_loop.induct)
  case (4 bs ses evs p)
  let ?st = "stream_to_client bs ses p"
  show ?case
  proof (cases "ss_ended ?st")
    case True
    obtain s2 a2 p2 e2 where l: "listen_loop bs evs (ss_priv ?st) = (s2, a2, p2, e2)"
      by (cases "listen_loop bs evs (ss_priv ?st)") auto
    have "idle_safe c a2" for c using 4(1) [OF refl refl True l] .
    then show ?thesis
      using 4(2) True l stream_session_idle [OF True]
      by (auto simp: Let_def idle_safe_append)
  next
    case False
    then show ?thesis using 4(2) stream_session_running [OF False] by (auto simp: Let_def)
  qed
qed (auto split: if_splits)

text \<open>
  The FPGA never streams to nobody: in everything the listener thread does, whatever
  clients connect and however their sessions end, the last value written to the control
  register before a client's socket is released is 0.
\<close>

theorem tcp_fpga_disabled_between_clients:
  "idle_safe c (fst (snd (snd (listen_thread_fn create bind_r listen_r bs evs p))))"
proof (cases "listen_loop bs evs p")
  case (fields sents acts p' e)
  then have "idle_safe c acts" by (rule listen_loop_idle)
  then show ?thesis
    using fields by (auto simp: listen_thread_fn_def idle_safe_append split: option.splits)
qed

text \<open>The register writes of the module, decoded by the peripheral emulator.\<close>

fun tcp_apply :: "tcp_action list \<Rightarrow> emu \<Rightarrow> emu" where
  "tcp_apply [] s = s"
| "tcp_apply (TWritel r v # as) s = tcp_apply as (emu_write s (tcp_reg_offset r) (ucast v))"
| "tcp_apply (a # as) s = tcp_apply as s"

text \<open>
  The register layout of this module is not the peripheral's: on a peripheral whose
  receive path is disabled, the writes with which the module starts a session do not
  enable it. No sample is ever produced and the write pointer the thread polls never
  moves.
\<close>

theorem tcp_start_does_not_enable_peripheral:
  assumes "e_ctrl s AND AD936X_CTRL_RX_ENABLE = 0"
  shows "let s' = tcp_apply (snd (fpga_reset_and_enable p)) s
         in emu_tick wave s' = (s', []) \<and> e_rx_buf_wr s' = e_rx_buf_wr s"
  using assms
  by (simp add: fpga_reset_and_enable_def emu_write_def emu_tick_def Let_def)

theorem tcp_start_does_not_enable_peripheral_witness:
  "emu_tick (\<lambda>_. (1, 2)) (tcp_apply (snd (fpga_reset_and_enable
      \<lparr>t_rxbuf_phys = 0x1000, t_rxbuf_size = 16, t_rd_ptr = 8\<rparr>)) emu_new) =
   (tcp_apply (snd (fpga_reset_and_enable
      \<lparr>t_rxbuf_phys = 0x1000, t_rxbuf_size = 16, t_rd_ptr = 8\<rparr>)) emu_new, [])"
  using tcp_start_does_not_enable_peripheral [of emu_new
      "\<lparr>t_rxbuf_phys = 0x1000, t_rxbuf_size = 16, t_rd_ptr = 8\<rparr>" "\<lambda>_. (1, 2)"]
  by (simp add: emu_new_def ctrl_bits Let_def)

subsection \<open>The page vector\<close>

definition bvec_bytes :: "(u32 \<times> u32 \<times> u32) list \<Rightarrow> nat list" where
  "bvec_bytes v = concat (map (\<lambda>(page, chunk, off). [unat page + unat off..<unat page + unat off + unat chunk]) v)"

lemma unat_page_offset: "unat (addr AND 0xFFF :: u32) = unat addr mod 4096"
proof -
  have m: "(0xFFF :: u32) = mask 12" by (simp add: mask_eq_exp_minus_1)
  show ?thesis unfolding m take_bit_eq_mask [symmetric] by (simp add: take_bit_eq_mod unat_mod_distrib)
qed

lemma unat_min_word: "unat (min a b) = min (unat a) (unat b)" for a b :: u32
  by (simp add: min_def word_nat)

lemma upt_join: "[a..<a + b] @ [a + b..<a + b + c] = [a..<a + (b + c)]" for a b c :: nat
  by (metis add.assoc le_add1 upt_add_eq_append)

lemma sendpage_step:
  fixes addr len :: u32
  assumes "unat addr + unat len < 4294967296"
  defines "off \<equiv> addr AND 0xFFF"
  defines "chunk \<equiv> min len (4096 - off)"
  shows "unat off = unat addr mod 4096" "unat chunk = min (unat len) (4096 - unat addr mod 4096)"
    "unat (addr - off) = unat addr - unat addr mod 4096" "unat (addr + chunk) = unat addr + unat chunk"
    "unat (len - chunk) = unat len - unat chunk"
proof -
  show off: "unat off = unat addr mod 4096" unfolding off_def by (rule unat_page_offset)
  then have "unat off \<le> unat addr" "unat off < 4096" by simp_all
  then show "unat (addr - off) = unat addr - unat addr mod 4096"
    using off by (simp add: unat_minus_le word_nat)
  have "unat (4096 - off :: u32) = 4096 - unat off"
    using \<open>unat off < 4096\<close> by (subst unat_minus_le) (auto simp: word_nat)
  then show c: "unat chunk = min (unat len) (4096 - unat addr mod 4096)"
    unfolding chunk_def using off by (simp add: unat_min_word)
  show "unat (addr + chunk) = unat addr + unat chunk" using assms(1) c by (intro unat_plus_lt) simp
  show "unat (len - chunk) = unat len - unat chunk" using c by (intro unat_minus_le) (simp add: word_nat)
qed

lemma min_shift:
  "q < m \<Longrightarrow> m - q < l \<Longrightarrow> m - q + min (l - (m - q)) K = min l (m + K - q)" for q m l K :: nat
  by (auto simp: min_def)

lemma page_capacity_step:
  fixes a l k :: nat
  assumes "0 < l"
  defines "c \<equiv> min l (4096 - a mod 4096)"
  shows "c + min (l - c) (k * 4096 - (a + c) mod 4096) = min l (Suc k * 4096 - a mod 4096)"
proof (cases "l = c")
  case True
  have "a mod 4096 < 4096" by simp
  with True show ?thesis using assms by (auto simp: min_def split: if_splits)
next
  case False
  then have c: "c = 4096 - a mod 4096" using assms by (auto simp: min_def split: if_splits)
  have "(a + c) mod 4096 = (a mod 4096 + c) mod 4096" by (simp add: mod_add_left_eq)
  then have z: "(a + c) mod 4096 = 0" unfolding c by simp
  have "a mod 4096 < 4096" by simp
  moreover have "4096 - a mod 4096 < l" using False c by (auto simp: c_def min_def split: if_splits)
  ultimately have "4096 - a mod 4096 + min (l - (4096 - a mod 4096)) (k * 4096) = min l (4096 + k * 4096 - a mod 4096)"
    by (rule min_shift)
  then show ?thesis unfolding z by (simp add: c)
qed

lemma sendpage_bvecs_cover:
  "unat addr + unat len < 4294967296 \<Longrightarrow>
   bvec_bytes (sendpage_bvecs k addr len) =
     [unat addr..<unat addr + min (unat len) (k * 4096 - unat addr mod 4096)]"
proof (induction k arbitrary: addr len)
  case 0
  then show ?case by (simp add: bvec_bytes_def)
next
  case (Suc k)
  show ?case
  proof (cases "len = 0")
    case True
    then show ?thesis by (simp add: bvec_bytes_def)
  next
    case False
    then have l: "0 < unat len" by (simp add: unat_gt_0)
    let ?off = "addr AND 0xFFF" let ?c = "min len (4096 - ?off)"
    note st = sendpage_step [OF Suc.prems]
    have a: "unat (addr - ?off) + unat ?off = unat addr" using st(1,3) by simp
    have b: "bvec_bytes (sendpage_bvecs k (addr + ?c) (len - ?c)) =
      [unat addr + unat ?c..<unat addr + unat ?c +
        min (unat len - unat ?c) (k * 4096 - (unat addr + unat ?c) mod 4096)]"
    proof -
      have "unat ?c \<le> unat len" using st(2) by (simp only: min.cobounded1)
      then have "unat (addr + ?c) + unat (len - ?c) < 4294967296"
        using Suc.prems st(4,5) by linarith
      from Suc.IH [OF this] show ?thesis unfolding st(4,5) .
    qed
    have "bvec_bytes (sendpage_bvecs (Suc k) addr len) =
        [unat addr..<unat addr + unat ?c] @ bvec_bytes (sendpage_bvecs k (addr + ?c) (len - ?c))"
      using False by (simp add: bvec_bytes_def Let_def a del: min_def)
    also have "\<dots> = [unat addr..<unat addr + (unat ?c +
        min (unat len - unat ?c) (k * 4096 - (unat addr + unat ?c) mod 4096))]"
      unfolding b by (rule upt_join)
    also have "unat ?c + min (unat len - unat ?c) (k * 4096 - (unat addr + unat ?c) mod 4096) =
        min (unat len) (Suc k * 4096 - unat addr mod 4096)"
      by (rule page_capacity_step [OF l, of "unat addr" k, folded st(2)])
    finally show ?thesis .
  qed
qed

text \<open>
  The page vector of the zero-copy send lists the bytes of the block in order, each
  once, and it lists all of them exactly when the block, counted from the start of its
  first page, fits in 256 pages. A larger \<^verbatim>\<open>block_size\<close> leaves the vector shorter than
  the length given to the socket.
\<close>

theorem tcp_sendpage_vector_covers:
  assumes "unat addr + unat len < 4294967296"
  shows "\<exists>m \<le> unat len. bvec_bytes (fst (ksock_sendpage os addr len)) = [unat addr..<unat addr + m] \<and>
           (m = unat len \<longleftrightarrow> unat addr mod 4096 + unat len \<le> 256 * 4096)"
proof (intro exI conjI)
  let ?m = "min (unat len) (256 * 4096 - unat addr mod 4096)"
  show "?m \<le> unat len" by simp
  show "bvec_bytes (fst (ksock_sendpage os addr len)) = [unat addr..<unat addr + ?m]"
    using sendpage_bvecs_cover [OF assms, of MAX_BVEC_PAGES] by (simp add: ksock_sendpage_def MAX_BVEC_PAGES_def)
  have "unat addr mod 4096 < 4096" by simp
  then show "?m = unat len \<longleftrightarrow> unat addr mod 4096 + unat len \<le> 256 * 4096" by (auto simp: min_def)
qed

theorem tcp_sendpage_vector_covers_witness:
  "\<exists>m \<le> unat (65536 :: u32). bvec_bytes (fst (ksock_sendpage [] 0x1F000000 65536)) =
       [unat (0x1F000000 :: u32)..<unat (0x1F000000 :: u32) + m] \<and>
     (m = unat (65536 :: u32) \<longleftrightarrow> unat (0x1F000000 :: u32) mod 4096 + unat (65536 :: u32) \<le> 256 * 4096)"
  by (rule tcp_sendpage_vector_covers [of "0x1F000000" 65536 "[]"]) simp

end
