(* ===== verification/Cstr.thy ===== *)
theory Cstr
  imports Zyn_Prelude
begin

text \<open>
  The C string functions the command lines are parsed with, on strings without NUL:
  \<^verbatim>\<open>atoi\<close> (glibc's, which clamps like \<^verbatim>\<open>strtol\<close> with a 32-bit \<^verbatim>\<open>long\<close>), \<^verbatim>\<open>strrchr\<close> as the
  split it is used for, \<^verbatim>\<open>strncpy\<close> into a zeroed buffer, and the byte order of ports.
  Both programs parse \<^verbatim>\<open>HOST:PORT\<close> with the same lines; that parser is here too.
\<close>

definition is_space :: "char \<Rightarrow> bool" where
  "is_space c \<longleftrightarrow> (of_char c :: nat) = 32 \<or> (9 \<le> (of_char c :: nat) \<and> (of_char c :: nat) \<le> 13)"

definition is_digit :: "char \<Rightarrow> bool" where
  "is_digit c \<longleftrightarrow> 48 \<le> (of_char c :: nat) \<and> (of_char c :: nat) \<le> 57"

definition digit_val :: "char \<Rightarrow> nat" where
  "digit_val c = of_char c - 48"

fun digits_val :: "nat \<Rightarrow> string \<Rightarrow> nat" where
  "digits_val acc [] = acc"
| "digits_val acc (c # cs) = (if is_digit c then digits_val (acc * 10 + digit_val c) cs else acc)"

definition clamp_long :: "int \<Rightarrow> int" where
  "clamp_long v = max (- 2147483648) (min 2147483647 v)"

definition atoi :: "string \<Rightarrow> int" where
  "atoi s =
     (case dropWhile is_space s of
        [] \<Rightarrow> 0
      | c # cs \<Rightarrow>
          if c = CHR ''-'' then clamp_long (- int (digits_val 0 cs))
          else if c = CHR ''+'' then clamp_long (int (digits_val 0 cs))
          else clamp_long (int (digits_val 0 (c # cs))))"

text \<open>The text before and after the last occurrence of a character.\<close>

fun split_last :: "char \<Rightarrow> string \<Rightarrow> (string \<times> string) option" where
  "split_last c [] = None"
| "split_last c (x # xs) =
     (case split_last c xs of
        Some (a, b) \<Rightarrow> Some (x # a, b)
      | None \<Rightarrow> if x = c then Some ([], xs) else None)"

definition strncpy63 :: "string \<Rightarrow> string" where
  "strncpy63 s = take 63 s"

definition parse_hostport :: "string \<Rightarrow> (string \<times> int) option" where
  "parse_hostport arg =
     (case split_last (CHR '':'') arg of
        None \<Rightarrow> None
      | Some (host, port) \<Rightarrow> Some (strncpy63 host, atoi port))"

text \<open>\<^verbatim>\<open>htons\<close> and \<^verbatim>\<open>ntohl\<close> on the little-endian target; an \<^verbatim>\<open>int\<close> argument is cut to 16 bits.\<close>

definition htons :: "int \<Rightarrow> u16" where
  "htons port = (let p = word_of_int port :: u16
                 in push_bit 8 p OR drop_bit 8 p)"

definition ntohl :: "u32 \<Rightarrow> u32" where
  "ntohl x = push_bit 24 x OR push_bit 8 (x AND 0xFF00) OR drop_bit 8 (x AND 0xFF0000) OR drop_bit 24 x"

subsection \<open>Reading back what was printed\<close>

fun show_nat :: "nat \<Rightarrow> string" where
  "show_nat n = (if n < 10 then [char_of (48 + n)] else show_nat (n div 10) @ [char_of (48 + n mod 10)])"

declare show_nat.simps [simp del]

lemma of_char_digit: "n < 10 \<Longrightarrow> of_char (char_of (48 + n) :: char) = 48 + n" for n :: nat
  by (simp add: take_bit_eq_mod)

lemma digit_char [simp]:
  assumes "n < 10"
  shows "is_digit (char_of (48 + n))" "digit_val (char_of (48 + n)) = n"
  using assms by (simp_all add: is_digit_def digit_val_def of_char_digit)

lemma digits_val_append:
  "(\<forall>c \<in> set xs. is_digit c) \<Longrightarrow> digits_val a (xs @ ys) = digits_val (digits_val a xs) ys"
  by (induction xs arbitrary: a) auto

lemma show_nat_digits: "(\<forall>c \<in> set (show_nat n). is_digit c) \<and> show_nat n \<noteq> [] \<and> digits_val 0 (show_nat n) = n"
proof (induction n rule: show_nat.induct)
  case (1 n)
  show ?case
  proof (cases "n < 10")
    case True
    then show ?thesis by (simp add: show_nat.simps [of n])
  next
    case False
    note ih = 1 [OF False]
    have "digits_val 0 (show_nat (n div 10) @ [char_of (48 + n mod 10)]) = n"
      using ih by (simp add: digits_val_append)
    then show ?thesis using False ih by (simp add: show_nat.simps [of n])
  qed
qed

lemma atoi_show_nat:
  assumes "n < 2147483648"
  shows "atoi (show_nat n) = int n"
proof -
  obtain c cs where s: "show_nat n = c # cs" using show_nat_digits [of n] by (cases "show_nat n") auto
  then have d: "is_digit c" "digits_val 0 (c # cs) = n" using show_nat_digits [of n] by auto
  then have "\<not> is_space c" "c \<noteq> CHR ''-''" "c \<noteq> CHR ''+''" by (auto simp: is_digit_def is_space_def)
  then show ?thesis using s d(2) assms by (simp add: atoi_def clamp_long_def)
qed

lemma split_last_none: "split_last c xs = None \<longleftrightarrow> c \<notin> set xs"
  by (induction xs) (auto split: option.splits)

lemma split_last_append: "c \<notin> set b \<Longrightarrow> split_last c (a @ c # b) = Some (a, b)"
proof (induction a)
  case Nil
  then have "split_last c b = None" by (simp add: split_last_none)
  then show ?case by simp
qed simp

lemma split_last_some: "split_last c s = Some (a, b) \<Longrightarrow> s = a @ c # b \<and> c \<notin> set b"
  by (induction s arbitrary: a) (auto simp: split_last_none split: option.splits if_splits)

lemma parse_hostport_roundtrip:
  assumes "length host \<le> 63" "port < 2147483648"
  shows "parse_hostport (host @ '':'' @ show_nat port) = Some (host, int port)"
proof -
  have "CHR '':'' \<notin> set (show_nat port)" using show_nat_digits [of port] by (auto simp: is_digit_def)
  then show ?thesis
    using assms by (simp add: parse_hostport_def split_last_append strncpy63_def atoi_show_nat)
qed

end
