(* ===== verification/Legacy_Rx.thy ===== *)
theory Legacy_Rx
  imports Ring_Stream Net Cstr "HOL-Library.Sublist"
begin

text \<open>
  The first receiver program, \<^verbatim>\<open>ad9361_rx.c\<close>: it maps the FPGA's registers and the DMA
  ring through \<^verbatim>\<open>/dev/mem\<close>, copies blocks from the ring into a circular array of slots,
  and a second thread sends the slots over TCP or UDP. Two counting semaphores guard the
  slots. The two threads interleave, so they are step relations on a shared state; the
  blocks copied so far (\<open>passed\<close>) and sent so far are recorded to state the properties.
\<close>

subsection \<open>Registers and start-up\<close>

datatype leg_reg = L_info | L_fifo | L_ctrl | L_drop_cnt | L_rx_buf_base | L_rx_buf_size
  | L_pad | L_rx_buf_wr

definition CTRL_ENABLE :: u32 where "CTRL_ENABLE = push_bit 0 1"
definition CTRL_RESET :: u32 where "CTRL_RESET = push_bit 1 1"

datatype leg_action = LWritel leg_reg u32 | LUsleep nat

text \<open>\<^verbatim>\<open>read_reserved_mem\<close>: whether the node opened, and the two big-endian cells read.\<close>

definition read_reserved_mem :: "bool \<Rightarrow> (u32 \<times> u32) option \<Rightarrow> (u32 \<times> u32) option" where
  "read_reserved_mem opened cells =
     (if \<not> opened then None
      else case cells of None \<Rightarrow> None | Some (c0, c1) \<Rightarrow> Some (ntohl c0, ntohl c1))"

datatype leg_mode = L_MODE_TCP | L_MODE_UDP

record leg_cfg =
  lc_mode :: leg_mode
  lc_host :: string
  lc_port :: int
  lc_buf_cnt :: u32
  lc_buf_size :: u32

text \<open>\<open>None\<close> is the usage message and exit code 1.\<close>

definition leg_parse_args :: "string list \<Rightarrow> leg_cfg option" where
  "leg_parse_args argv =
     (if length argv = 3 \<and> argv ! 1 = ''--tcp'' then
        Some \<lparr>lc_mode = L_MODE_TCP, lc_host = [], lc_port = atoi (argv ! 2),
              lc_buf_cnt = 1024, lc_buf_size = 32768\<rparr>
      else if length argv = 3 \<and> argv ! 1 = ''--udp'' then
        (case parse_hostport (argv ! 2) of
           None \<Rightarrow> None
         | Some (host, port) \<Rightarrow>
             Some \<lparr>lc_mode = L_MODE_UDP, lc_host = host, lc_port = port,
                   lc_buf_cnt = 1024, lc_buf_size = 1472\<rparr>)
      else None)"

datatype cleanup = Unmap_ctrl | Close_mem | Destroy_semaphores_and_free

record leg_env =
  le_malloc :: bool
  le_open :: bool
  le_map_ctrl :: bool
  le_info :: u32
  le_reserved :: "(u32 \<times> u32) option"
  le_map_rx :: bool
  le_ctrl :: u32

definition leg_configure :: "u32 \<Rightarrow> u32 \<Rightarrow> u32 \<Rightarrow> leg_action list" where
  "leg_configure ctrl base sz =
     (if ctrl \<noteq> 0 then [LWritel L_ctrl 0, LUsleep 100] else []) @
     [LWritel L_ctrl CTRL_RESET, LUsleep 100, LWritel L_rx_buf_base base,
      LWritel L_rx_buf_size sz, LWritel L_ctrl 0, LUsleep 100, LWritel L_ctrl CTRL_ENABLE]"

text \<open>\<open>Inl\<close>: the clean-up of the error path taken, exit code 1. \<open>Inr\<close>: ring size, register writes.\<close>

definition leg_main_init :: "leg_env \<Rightarrow> cleanup list + u32 \<times> leg_action list" where
  "leg_main_init env =
     (if \<not> le_malloc env then Inl []
      else if \<not> le_open env then Inl [Destroy_semaphores_and_free]
      else if \<not> le_map_ctrl env then Inl [Close_mem, Destroy_semaphores_and_free]
      else if drop_bit 16 (le_info env) \<noteq> 0xCAFE then
        Inl [Unmap_ctrl, Close_mem, Destroy_semaphores_and_free]
      else case le_reserved env of
             None \<Rightarrow> Inl [Unmap_ctrl, Close_mem, Destroy_semaphores_and_free]
           | Some (base, sz) \<Rightarrow>
               if \<not> le_map_rx env then Inl [Unmap_ctrl, Close_mem, Destroy_semaphores_and_free]
               else Inr (sz, leg_configure (le_ctrl env) base sz))"

subsection \<open>The copy loop\<close>

record leg_main =
  lm_rd :: u32
  lm_buf_nr :: nat
  lm_buf_wait_cnt :: u32
  lm_lost_bytes :: u32
  lm_pass_cnt :: u32

definition leg_avail :: "u32 \<Rightarrow> u32 \<Rightarrow> leg_main \<Rightarrow> u32" where
  "leg_avail sz wr_ptr m =
     (if lm_rd m \<le> wr_ptr then wr_ptr - lm_rd m else sz - lm_rd m + wr_ptr)"

definition leg_copy :: "u32 \<Rightarrow> u32 \<Rightarrow> (nat \<Rightarrow> u8) \<Rightarrow> leg_main \<Rightarrow> u8 list" where
  "leg_copy bs sz mem m =
     (let bytes_before_wrap = sz - lm_rd m in
      if bytes_before_wrap < bs then
        map mem [unat (lm_rd m)..<unat (lm_rd m) + unat bytes_before_wrap] @
        map mem [0..<unat (bs - bytes_before_wrap)]
      else map mem [unat (lm_rd m)..<unat (lm_rd m) + unat bs])"

definition leg_next :: "u32 \<Rightarrow> u32 \<Rightarrow> leg_main \<Rightarrow> leg_main" where
  "leg_next bs sz m = m\<lparr>lm_rd := (lm_rd m + bs) mod sz\<rparr>"

text \<open>One round of the loop in which a slot is free.\<close>

definition leg_poll :: "u32 \<Rightarrow> u32 \<Rightarrow> leg_main poll" where
  "leg_poll bs sz mem wr_ptr m =
     (if leg_avail sz wr_ptr m < bs then None
      else Some (leg_copy bs sz mem m, leg_next bs sz m))"

definition leg_inv :: "u32 \<Rightarrow> u32 \<Rightarrow> nat \<Rightarrow> leg_main \<Rightarrow> bool" where
  "leg_inv bs sz n m \<longleftrightarrow> n = unat sz \<and> unat (lm_rd m) < n \<and> unat bs \<le> n \<and> n + unat bs \<le> 4294967296"

lemma leg_copy_slice:
  assumes "leg_inv bs sz n m"
  shows "leg_copy bs sz mem m = ring_slice n mem (unat (lm_rd m)) (unat bs)"
proof -
  have r: "unat (lm_rd m) < n" "unat bs \<le> n" "n = unat sz" using assms by (auto simp: leg_inv_def)
  have b: "unat (sz - lm_rd m) = n - unat (lm_rd m)"
    using r by (subst unat_minus_le) (auto simp: word_nat)
  show ?thesis
  proof (cases "sz - lm_rd m < bs")
    case True
    then have lt: "n - unat (lm_rd m) < unat bs" using b by (simp add: word_nat)
    then have "unat (bs - (sz - lm_rd m)) = unat bs - (n - unat (lm_rd m))"
      using b by (subst unat_minus_le) (auto simp: word_nat)
    then show ?thesis
      using True b r lt wrap_slice [of "unat (lm_rd m)" n "unat bs" mem]
      by (simp add: leg_copy_def Let_def)
  next
    case False
    then have "unat (lm_rd m) + unat bs \<le> n" using b r by (simp add: word_nat)
    then show ?thesis using False flat_slice by (simp add: leg_copy_def Let_def)
  qed
qed

lemma leg_poll_some:
  assumes "leg_inv bs sz n m" "unat wr < n" "leg_poll bs sz mem wr m = Some (out, m')"
  shows "length out \<le> ring_dist n (unat (lm_rd m)) (unat wr) \<and>
         out = ring_slice n mem (unat (lm_rd m)) (length out) \<and>
         unat (lm_rd m') = (unat (lm_rd m) + length out) mod n \<and> leg_inv bs sz n m'"
proof -
  have r: "unat (lm_rd m) < n" "unat bs \<le> n" "n = unat sz" "n + unat bs \<le> 4294967296"
    using assms(1) by (auto simp: leg_inv_def)
  have o: "out = leg_copy bs sz mem m" "m' = leg_next bs sz m" "\<not> leg_avail sz wr m < bs"
    using assms(3) by (auto simp: leg_poll_def split: if_splits)
  have "leg_avail sz wr m = ringbuf_used (lm_rd m) wr sz" by (simp add: leg_avail_def ringbuf_used_def)
  moreover have "wr < sz" "lm_rd m < sz" using assms(2) r by (simp_all add: word_nat)
  ultimately have "unat bs \<le> ring_dist n (unat (lm_rd m)) (unat wr)"
    using o(3) r(3) by (simp add: unat_less_iff unat_ringbuf_used)
  moreover have "unat (lm_rd m + bs) = unat (lm_rd m) + unat bs"
    using r by (intro unat_plus_lt) simp
  ultimately show ?thesis
    using o r leg_copy_slice [OF assms(1)]
    by (simp add: leg_next_def leg_inv_def unat_mod_distrib)
qed

interpretation leg: ring_reader "leg_poll bs sz" "\<lambda>m. unat (lm_rd m)" "leg_inv bs sz" for bs sz
proof unfold_locales
  show "unat (lm_rd m) < n" if "leg_inv bs sz n m" for n m using that by (simp add: leg_inv_def)
  show "n < 4294967296" if "leg_inv bs sz n m" for n m
    using that unat_u32_lt [of sz] by (simp add: leg_inv_def)
qed (rule leg_poll_some)

subsection \<open>The slot queue\<close>

text \<open>
  Where the main loop is: about to look at the ring, holding a free slot, or with the
  block copied and not yet posted.
\<close>

datatype prod_pc = P_poll | P_copy | P_post

record leg_shared =
  lm :: leg_main
  prod_at :: prod_pc
  sem_used :: nat
  sem_free :: nat
  tx_slots :: "nat \<Rightarrow> u8 list"
  passed :: "u8 list list"

definition leg_shared_init :: "nat \<Rightarrow> leg_shared" where
  "leg_shared_init cnt =
     \<lparr>lm = \<lparr>lm_rd = 0, lm_buf_nr = 0, lm_buf_wait_cnt = 0, lm_lost_bytes = 0, lm_pass_cnt = 0\<rparr>,
      prod_at = P_poll, sem_used = 0, sem_free = cnt, tx_slots = (\<lambda>_. []), passed = []\<rparr>"

definition prod_wait :: "leg_shared \<Rightarrow> leg_shared" where
  "prod_wait s = s\<lparr>lm := (lm s)\<lparr>lm_buf_wait_cnt := lm_buf_wait_cnt (lm s) + 1\<rparr>\<rparr>"

definition prod_lost :: "u32 \<Rightarrow> u32 \<Rightarrow> leg_shared \<Rightarrow> leg_shared" where
  "prod_lost sz wr_ptr s =
     s\<lparr>lm := (lm s)\<lparr>lm_lost_bytes := lm_lost_bytes (lm s) + leg_avail sz wr_ptr (lm s),
                    lm_rd := wr_ptr\<rparr>\<rparr>"

definition prod_take :: "leg_shared \<Rightarrow> leg_shared" where
  "prod_take s = s\<lparr>sem_free := sem_free s - 1, prod_at := P_copy\<rparr>"

definition prod_copy :: "u32 \<Rightarrow> u32 \<Rightarrow> (nat \<Rightarrow> u8) \<Rightarrow> leg_shared \<Rightarrow> leg_shared" where
  "prod_copy bs sz mem s =
     (let blk = leg_copy bs sz mem (lm s) in
      s\<lparr>tx_slots := (tx_slots s)(lm_buf_nr (lm s) := blk), passed := passed s @ [blk],
        lm := leg_next bs sz (lm s), prod_at := P_post\<rparr>)"

definition prod_post :: "nat \<Rightarrow> leg_shared \<Rightarrow> leg_shared" where
  "prod_post cnt s =
     s\<lparr>sem_used := sem_used s + 1, prod_at := P_poll,
       lm := (lm s)\<lparr>lm_buf_nr := (lm_buf_nr (lm s) + 1) mod cnt, lm_pass_cnt := lm_pass_cnt (lm s) + 1\<rparr>\<rparr>"

inductive leg_prod :: "nat \<Rightarrow> u32 \<Rightarrow> u32 \<Rightarrow> leg_shared \<Rightarrow> leg_shared \<Rightarrow> bool"
  for cnt bs sz where
  wait: "prod_at s = P_poll \<Longrightarrow> leg_avail sz wr_ptr (lm s) < bs \<Longrightarrow> leg_prod cnt bs sz s (prod_wait s)"
| lost: "prod_at s = P_poll \<Longrightarrow> \<not> leg_avail sz wr_ptr (lm s) < bs \<Longrightarrow> sem_free s = 0 \<Longrightarrow>
    leg_prod cnt bs sz s (prod_lost sz wr_ptr s)"
| take: "prod_at s = P_poll \<Longrightarrow> \<not> leg_avail sz wr_ptr (lm s) < bs \<Longrightarrow> 0 < sem_free s \<Longrightarrow>
    leg_prod cnt bs sz s (prod_take s)"
| copy: "prod_at s = P_copy \<Longrightarrow> leg_prod cnt bs sz s (prod_copy bs sz mem s)"
| post: "prod_at s = P_post \<Longrightarrow> leg_prod cnt bs sz s (prod_post cnt s)"

inductive_cases leg_prodE: "leg_prod cnt bs sz s s'"

text \<open>
  The sending thread, UDP: it collects 32 slots, offers them to the socket in one
  \<^verbatim>\<open>sendmmsg\<close>, posts 32 times. The call returns how many datagrams the socket took, or an
  error; the thread looks at neither, goes on with the next 32 slots and adds 32 to its
  counter. \<open>uc_calls\<close> records, for each call, the blocks offered and how many were taken.
\<close>

definition UDP_BATCH :: nat where "UDP_BATCH = 32"

record udp_cons =
  uc_buf :: nat
  uc_batch :: "nat list"
  uc_posts :: nat
  uc_calls :: "(u8 list list \<times> nat) list"
  uc_send_cnt :: u32

definition udp_cons_init :: udp_cons where
  "udp_cons_init = \<lparr>uc_buf = 0, uc_batch = [], uc_posts = 0, uc_calls = [], uc_send_cnt = 0\<rparr>"

inductive leg_udp :: "nat \<Rightarrow> leg_shared \<times> udp_cons \<Rightarrow> leg_shared \<times> udp_cons \<Rightarrow> bool" for cnt where
  wait: "uc_posts c = 0 \<Longrightarrow> length (uc_batch c) < UDP_BATCH \<Longrightarrow> 0 < sem_used s \<Longrightarrow>
    leg_udp cnt (s, c) (s\<lparr>sem_used := sem_used s - 1\<rparr>,
      c\<lparr>uc_batch := uc_batch c @ [uc_buf c], uc_buf := (uc_buf c + 1) mod cnt\<rparr>)"
| send: "length (uc_batch c) = UDP_BATCH \<Longrightarrow> res \<le> int UDP_BATCH \<Longrightarrow>
    leg_udp cnt (s, c) (s, c\<lparr>uc_calls := uc_calls c @ [(map (tx_slots s) (uc_batch c), nat res)],
      uc_batch := [], uc_posts := UDP_BATCH\<rparr>)"
| post: "0 < uc_posts c \<Longrightarrow>
    leg_udp cnt (s, c) (s\<lparr>sem_free := sem_free s + 1\<rparr>,
      c\<lparr>uc_posts := uc_posts c - 1,
        uc_send_cnt := (if uc_posts c = 1 then uc_send_cnt c + of_nat UDP_BATCH else uc_send_cnt c)\<rparr>)"

text \<open>The blocks offered to the socket, and the datagrams it took.\<close>

definition udp_offered :: "udp_cons \<Rightarrow> u8 list list" where
  "udp_offered c = concat (map fst (uc_calls c))"

definition udp_sent :: "udp_cons \<Rightarrow> u8 list list" where
  "udp_sent c = concat (map (\<lambda>(b, k). take k b) (uc_calls c))"

inductive_cases leg_udpE: "leg_udp cnt (s, c) (s', c')"

inductive leg_udp_run :: "nat \<Rightarrow> u32 \<Rightarrow> u32 \<Rightarrow> leg_shared \<times> udp_cons \<Rightarrow> bool" for cnt bs sz where
  init: "leg_udp_run cnt bs sz (leg_shared_init cnt, udp_cons_init)"
| prod: "leg_udp_run cnt bs sz (s, c) \<Longrightarrow> leg_prod cnt bs sz s s' \<Longrightarrow> leg_udp_run cnt bs sz (s', c)"
| cons: "leg_udp_run cnt bs sz sc \<Longrightarrow> leg_udp cnt sc sc' \<Longrightarrow> leg_udp_run cnt bs sz sc'"

text \<open>The sending thread, TCP. \<open>tc_fails\<close> counts the sends that returned an error.\<close>

datatype tcp_pc = C_accept | C_wait | C_send | C_post bool

record tcp_cons =
  tc_pc :: tcp_pc
  tc_buf_nr :: nat
  tc_sent :: "u8 list list"
  tc_fails :: nat
  tc_send_cnt :: u32

definition tcp_cons_init :: tcp_cons where
  "tcp_cons_init = \<lparr>tc_pc = C_accept, tc_buf_nr = 0, tc_sent = [], tc_fails = 0, tc_send_cnt = 0\<rparr>"

definition cons_accept :: "tcp_cons \<Rightarrow> tcp_cons" where
  "cons_accept c = c\<lparr>tc_pc := C_wait, tc_buf_nr := 0\<rparr>"

definition cons_sent :: "leg_shared \<Rightarrow> int \<Rightarrow> tcp_cons \<Rightarrow> tcp_cons" where
  "cons_sent s res c =
     (if res < 0 then c\<lparr>tc_pc := C_post False, tc_fails := tc_fails c + 1\<rparr>
      else c\<lparr>tc_pc := C_post True, tc_sent := tc_sent c @ [tx_slots s (tc_buf_nr c)]\<rparr>)"

definition cons_posted :: "nat \<Rightarrow> bool \<Rightarrow> tcp_cons \<Rightarrow> tcp_cons" where
  "cons_posted cnt ok c =
     (if \<not> ok then c\<lparr>tc_pc := C_accept\<rparr>
      else c\<lparr>tc_pc := C_wait, tc_buf_nr := (tc_buf_nr c + 1) mod cnt, tc_send_cnt := tc_send_cnt c + 1\<rparr>)"

inductive leg_tcp :: "nat \<Rightarrow> leg_shared \<times> tcp_cons \<Rightarrow> leg_shared \<times> tcp_cons \<Rightarrow> bool" for cnt where
  accept: "tc_pc c = C_accept \<Longrightarrow> leg_tcp cnt (s, c) (s, cons_accept c)"
| wait: "tc_pc c = C_wait \<Longrightarrow> 0 < sem_used s \<Longrightarrow>
    leg_tcp cnt (s, c) (s\<lparr>sem_used := sem_used s - 1\<rparr>, c\<lparr>tc_pc := C_send\<rparr>)"
| send: "tc_pc c = C_send \<Longrightarrow> tcp_send os (tx_slots s (tc_buf_nr c)) = Some (res, bytes, os') \<Longrightarrow>
    leg_tcp cnt (s, c) (s, cons_sent s res c)"
| post: "tc_pc c = C_post ok \<Longrightarrow>
    leg_tcp cnt (s, c) (s\<lparr>sem_free := sem_free s + 1\<rparr>, cons_posted cnt ok c)"

inductive_cases leg_tcpE: "leg_tcp cnt (s, c) (s', c')"

inductive leg_tcp_run :: "nat \<Rightarrow> u32 \<Rightarrow> u32 \<Rightarrow> leg_shared \<times> tcp_cons \<Rightarrow> bool" for cnt bs sz where
  init: "leg_tcp_run cnt bs sz (leg_shared_init cnt, tcp_cons_init)"
| prod: "leg_tcp_run cnt bs sz (s, c) \<Longrightarrow> leg_prod cnt bs sz s s' \<Longrightarrow> leg_tcp_run cnt bs sz (s', c)"
| cons: "leg_tcp_run cnt bs sz sc \<Longrightarrow> leg_tcp cnt sc sc' \<Longrightarrow> leg_tcp_run cnt bs sz sc'"

text \<open>The status line: packets sent and passed, waits, fill, bytes lost since the last line.\<close>

definition leg_status :: "u32 \<times> u32 \<times> u32 \<times> u32 \<Rightarrow> u32 \<times> u32 \<times> u32 \<times> u32 \<Rightarrow> int list" where
  "leg_status prev now =
     (let (s0, p0, w0, l0) = prev; (s1, p1, w1, l1) = now
      in [sint (s1 - s0), sint (p1 - p0), sint (w1 - w0), sint (p1 - s1), sint (l1 - l0)])"

end
