(* ===== verification/Legacy_Props.thy ===== *)
theory Legacy_Props
  imports Legacy_Rx
begin

text \<open>
  The slot queue of the legacy receiver: an invariant of the two semaphores and the slot
  array that both sending threads keep, and from it that packets leave in the order they
  were copied. After a failed TCP send the queue's reader starts again at slot 0, and the
  property is lost.
\<close>

subsection \<open>The queue invariant\<close>

text \<open>
  \<open>lo\<close> blocks are finished with, \<open>T\<close> have been taken from the queue, \<open>posts\<close> slots are
  finished with but not yet posted as free.
\<close>

definition leg_queue :: "nat \<Rightarrow> nat \<Rightarrow> nat \<Rightarrow> nat \<Rightarrow> leg_shared \<Rightarrow> bool" where
  "leg_queue cnt lo T posts s \<longleftrightarrow>
     lo \<le> T \<and>
     sem_free s + sem_used s + (T - lo) + posts + (if prod_at s = P_poll then 0 else 1) = cnt \<and>
     lm_buf_nr (lm s) = (T + sem_used s) mod cnt \<and>
     length (passed s) = T + sem_used s + (if prod_at s = P_post then 1 else 0) \<and>
     (\<forall>i. lo \<le> i \<and> i < length (passed s) \<longrightarrow> tx_slots s (i mod cnt) = passed s ! i)"

named_theorems queue_intro \<open>steps that keep the queue invariant\<close>

lemma leg_queue_init [queue_intro]: "leg_queue cnt 0 0 0 (leg_shared_init cnt)"
  by (simp add: leg_queue_def leg_shared_init_def)

lemma leg_queue_prod [queue_intro]:
  assumes "leg_prod cnt bs sz s s'" "leg_queue cnt lo T posts s"
  shows "leg_queue cnt lo T posts s'"
  using assms(1)
proof (cases rule: leg_prod.cases)
  case (copy mem)
  let ?p = "T + sem_used s"
  have q: "lm_buf_nr (lm s) = ?p mod cnt" "length (passed s) = ?p"
    "sem_free s + sem_used s + (T - lo) + posts + 1 = cnt" "lo \<le> T"
    "\<And>i. lo \<le> i \<Longrightarrow> i < ?p \<Longrightarrow> tx_slots s (i mod cnt) = passed s ! i"
    using assms(2) copy by (auto simp: leg_queue_def)
  have "i mod cnt \<noteq> ?p mod cnt" if "lo \<le> i" "i < ?p" for i
    using that q(3,4) by (intro mod_distinct) auto
  then show ?thesis
    using q copy by (auto simp: leg_queue_def prod_copy_def leg_next_def Let_def nth_append less_Suc_eq)
next
  case post
  then show ?thesis
    using assms(2) by (auto simp: leg_queue_def prod_post_def mod_Suc_eq)
qed (use assms(2) in \<open>auto simp: leg_queue_def prod_wait_def prod_lost_def prod_take_def\<close>)

lemma leg_queue_take [queue_intro]:
  assumes "leg_queue cnt lo T posts s" "0 < sem_used s"
  shows "leg_queue cnt lo (Suc T) posts (s\<lparr>sem_used := sem_used s - 1\<rparr>)"
  using assms by (auto simp: leg_queue_def)

lemma leg_queue_release [queue_intro]:
  assumes "leg_queue cnt lo T posts s" "lo + k \<le> T"
  shows "leg_queue cnt (lo + k) T (posts + k) s"
  using assms by (auto simp: leg_queue_def)

lemma leg_queue_post [queue_intro]:
  assumes "leg_queue cnt lo T posts s" "0 < posts"
  shows "leg_queue cnt lo T (posts - 1) (s\<lparr>sem_free := sem_free s + 1\<rparr>)"
  using assms by (auto simp: leg_queue_def)

lemma leg_queue_slot:
  assumes "leg_queue cnt lo T posts s" "lo \<le> i" "i < T"
  shows "tx_slots s (i mod cnt) = passed s ! i" "i < length (passed s)"
  using assms by (auto simp: leg_queue_def)

lemma leg_prod_passed:
  assumes "leg_prod cnt bs sz s s'" shows "\<exists>more. passed s' = passed s @ more"
  using assms
  by (cases rule: leg_prod.cases)
    (auto simp: prod_wait_def prod_lost_def prod_take_def prod_copy_def prod_post_def Let_def)

subsection \<open>Rounds of the copy loop, for building runs\<close>

definition prod_round :: "nat \<Rightarrow> u32 \<Rightarrow> u32 \<Rightarrow> (nat \<Rightarrow> u8) \<Rightarrow> leg_shared \<Rightarrow> leg_shared" where
  "prod_round cnt bs sz mem s = prod_post cnt (prod_copy bs sz mem (prod_take s))"

lemma prod_round_simps [simp]:
  "sem_used (prod_round cnt bs sz mem s) = Suc (sem_used s)"
  "sem_free (prod_round cnt bs sz mem s) = sem_free s - 1"
  "prod_at (prod_round cnt bs sz mem s) = P_poll"
  "lm_rd (lm (prod_round cnt bs sz mem s)) = (lm_rd (lm s) + bs) mod sz"
  "lm_buf_nr (lm (prod_round cnt bs sz mem s)) = Suc (lm_buf_nr (lm s)) mod cnt"
  "tx_slots (prod_round cnt bs sz mem s) = (tx_slots s)(lm_buf_nr (lm s) := leg_copy bs sz mem (lm s))"
  "passed (prod_round cnt bs sz mem s) = passed s @ [leg_copy bs sz mem (lm s)]"
  by (simp_all add: prod_round_def prod_post_def prod_copy_def prod_take_def leg_next_def Let_def)

lemma leg_copy_const:
  "leg_inv bs sz (unat sz) m \<Longrightarrow> leg_copy bs sz (\<lambda>_. v) m = replicate (unat bs) v"
  by (simp add: leg_copy_slice ring_slice_def map_replicate_const)

lemma leg_room:
  assumes "unat rd + unat bs < unat sz" "lm_rd m = rd" "0 < unat bs"
  shows "\<exists>wr. \<not> leg_avail sz wr m < bs" "(rd + bs) mod sz = rd + bs" "unat (rd + bs) = unat rd + unat bs"
proof -
  have "unat rd + unat bs < 4294967296" using assms(1) unat_u32_lt [of sz] by linarith
  then show u: "unat (rd + bs) = unat rd + unat bs" by (intro unat_plus_lt) simp
  then show "(rd + bs) mod sz = rd + bs"
    using assms by (simp add: word_unat_eq_iff unat_mod_distrib)
  have "rd \<le> rd + bs" using u by (simp add: word_nat)
  then have "leg_avail sz (rd + bs) m = bs" using assms(2) by (simp add: leg_avail_def)
  then show "\<exists>wr. \<not> leg_avail sz wr m < bs" by (intro exI [of _ "rd + bs"]) simp
qed

subsection \<open>UDP\<close>

definition udp_inv :: "nat \<Rightarrow> leg_shared \<times> udp_cons \<Rightarrow> bool" where
  "udp_inv cnt sc \<longleftrightarrow> (case sc of (s, c) \<Rightarrow>
     let lo = length (udp_offered c); T = lo + length (uc_batch c)
     in leg_queue cnt lo T (uc_posts c) s \<and> uc_buf c = T mod cnt \<and>
        (0 < uc_posts c \<longrightarrow> uc_batch c = [] \<and> uc_calls c \<noteq> []) \<and>
        uc_batch c = map (\<lambda>i. i mod cnt) [lo..<T] \<and> udp_offered c = take lo (passed s) \<and>
        (\<forall>(b, k) \<in> set (uc_calls c). length b = UDP_BATCH \<and> k \<le> UDP_BATCH) \<and>
        uc_send_cnt c = of_nat (UDP_BATCH * (length (uc_calls c) - (if 0 < uc_posts c then 1 else 0))))"

lemma udp_inv_prod:
  assumes "udp_inv cnt (s, c)" "leg_prod cnt bs sz s s'"
  shows "udp_inv cnt (s', c)"
proof -
  obtain more where "passed s' = passed s @ more" using leg_prod_passed [OF assms(2)] by blast
  moreover have "length (udp_offered c) \<le> length (passed s)"
    using assms(1) by (auto simp: udp_inv_def Let_def leg_queue_def)
  ultimately show ?thesis
    using assms(1) leg_queue_prod [OF assms(2)] by (auto simp: udp_inv_def Let_def)
qed

lemma udp_inv_cons:
  assumes "leg_udp cnt (s, c) (s', c')" "udp_inv cnt (s, c)"
  shows "udp_inv cnt (s', c')"
  using assms(1)
proof (rule leg_udpE, goal_cases)
  case 1
  then show ?thesis
    using assms(2) leg_queue_take [of cnt "length (udp_offered c)" _ 0 s]
    by (auto simp: udp_inv_def udp_offered_def Let_def mod_Suc_eq)
next
  case (2 res)
  let ?lo = "length (udp_offered c)" let ?T = "?lo + length (uc_batch c)"
  have inv: "leg_queue cnt ?lo ?T 0 s" "uc_batch c = map (\<lambda>i. i mod cnt) [?lo..<?T]"
    "uc_buf c = ?T mod cnt" "udp_offered c = take ?lo (passed s)" "uc_posts c = 0"
    "\<forall>(b, k) \<in> set (uc_calls c). length b = UDP_BATCH \<and> k \<le> UDP_BATCH"
    "uc_send_cnt c = of_nat (UDP_BATCH * length (uc_calls c))"
    using assms(2) 2 by (auto simp: udp_inv_def Let_def UDP_BATCH_def)
  have len: "?T \<le> length (passed s)" using inv(1) by (simp add: leg_queue_def)
  have "map (tx_slots s) (uc_batch c) = map (\<lambda>i. passed s ! i) [?lo..<?T]"
    using leg_queue_slot [OF inv(1)] by (subst inv(2)) simp
  also have "\<dots> = take (length (uc_batch c)) (drop ?lo (passed s))"
    using len by (intro nth_equalityI) auto
  finally have "udp_offered c @ map (tx_slots s) (uc_batch c) = take ?T (passed s)"
    using inv(4) by (metis take_add)
  then have off: "udp_offered c' = take ?T (passed s)" using 2 by (simp add: udp_offered_def)
  have "leg_queue cnt ?T ?T (length (uc_batch c)) s"
    using leg_queue_release [OF inv(1), of "length (uc_batch c)"] by simp
  moreover have "min (length (passed s)) ?T = ?T" using len by simp
  moreover have "nat res \<le> UDP_BATCH" using 2 by simp
  ultimately show ?thesis
    using 2 inv(3,6,7) off by (auto simp: udp_inv_def Let_def UDP_BATCH_def)
next
  case 3
  have inv: "uc_calls c \<noteq> []" "uc_send_cnt c = of_nat (UDP_BATCH * (length (uc_calls c) - 1))"
    using assms(2) 3 by (auto simp: udp_inv_def Let_def)
  have "UDP_BATCH * (length (uc_calls c) - 1) + UDP_BATCH = UDP_BATCH * length (uc_calls c)"
    using inv(1) by (cases "uc_calls c") simp_all
  then have "uc_send_cnt c + of_nat UDP_BATCH = of_nat (UDP_BATCH * length (uc_calls c))"
    by (simp only: inv(2) of_nat_add [symmetric])
  then show ?thesis
    using assms(2) 3 leg_queue_post [of cnt _ _ "uc_posts c" s]
    by (auto simp: udp_inv_def udp_offered_def Let_def)
qed

lemma leg_udp_run_inv: "leg_udp_run cnt bs sz sc \<Longrightarrow> udp_inv cnt sc"
proof (induction rule: leg_udp_run.induct)
  case init
  then show ?case using leg_queue_init by (simp add: udp_inv_def udp_cons_init_def udp_offered_def)
next
  case (cons sc sc')
  then show ?case by (cases sc, cases sc') (auto intro: udp_inv_cons)
qed (rule udp_inv_prod)

lemma length_batches: "\<forall>(b, k) \<in> set xs. length b = m \<and> k \<le> m \<Longrightarrow> length (concat (map fst xs)) = m * length xs"
  by (induction xs) auto

lemma all_taken:
  "\<forall>(b, k) \<in> set xs. length b = m \<and> k \<le> m \<Longrightarrow> \<forall>(b, k) \<in> set xs. k = m \<Longrightarrow>
   concat (map (\<lambda>(b, k). take k b) xs) = concat (map fst xs)"
  by (induction xs) auto

lemma subseq_taken: "subseq (concat (map (\<lambda>(b, k). take k b) xs)) (concat (map fst xs))"
proof (induction xs)
  case (Cons x xs)
  have "subseq (take (snd x) (fst x)) (fst x)"
    by (rule prefix_imp_subseq [OF take_is_prefix])
  then show ?case using Cons by (simp add: case_prod_unfold list_emb_append_mono)
qed simp

text \<open>
  C11. However the copying thread and the UDP sending thread interleave, and whatever
  \<^verbatim>\<open>sendmmsg\<close> returns: the blocks offered to the socket are the blocks copied from the ring,
  each once and in order, in batches of 32 (a slot is never overwritten before it is
  offered, although the thread holds up to 32 slots at a time). The datagrams sent are
  those the socket took, the first few of each batch: they keep the order, and the rest of
  a batch that is taken only in part, or not at all, is lost. The thread's counter counts
  the lost ones as sent.
\<close>

theorem legacy_udp_in_order:
  assumes "leg_udp_run cnt bs sz (s, c)"
  shows "prefix (udp_offered c) (passed s) \<and>
     (\<forall>(b, k) \<in> set (uc_calls c). length b = UDP_BATCH \<and> k \<le> UDP_BATCH) \<and>
     subseq (udp_sent c) (passed s) \<and>
     ((\<forall>(b, k) \<in> set (uc_calls c). k = UDP_BATCH) \<longrightarrow> udp_sent c = udp_offered c) \<and>
     (uc_posts c = 0 \<longrightarrow> uc_send_cnt c = of_nat (length (udp_offered c)))"
proof -
  let ?n = "length (udp_offered c)"
  have inv: "udp_offered c = take ?n (passed s)"
    "\<forall>(b, k) \<in> set (uc_calls c). length b = UDP_BATCH \<and> k \<le> UDP_BATCH"
    "uc_posts c = 0 \<longrightarrow> uc_send_cnt c = of_nat (UDP_BATCH * length (uc_calls c))"
    using leg_udp_run_inv [OF assms] by (auto simp: udp_inv_def Let_def)
  have p: "prefix (udp_offered c) (passed s)" using inv(1) by (metis take_is_prefix)
  have "subseq (udp_sent c) (udp_offered c)"
    using subseq_taken by (simp add: udp_sent_def udp_offered_def)
  then have "subseq (udp_sent c) (passed s)"
    using p prefix_imp_subseq subseq_order.trans by blast
  moreover have "(\<forall>(b, k) \<in> set (uc_calls c). k = UDP_BATCH) \<longrightarrow> udp_sent c = udp_offered c"
    unfolding udp_sent_def udp_offered_def by (blast intro: all_taken [OF inv(2)])
  moreover have "?n = UDP_BATCH * length (uc_calls c)"
    unfolding udp_offered_def by (rule length_batches [OF inv(2)])
  ultimately show ?thesis using p inv(2,3) by simp
qed

text \<open>
  A run with the program's own sizes: 32 blocks are copied and collected, and the socket
  takes 30 of them.
\<close>

lemma leg_udp_prod_round:
  assumes "leg_udp_run cnt bs sz (s, c)" "prod_at s = P_poll" "0 < sem_free s"
    "\<exists>wr. \<not> leg_avail sz wr (lm s) < bs"
  shows "leg_udp_run cnt bs sz (prod_round cnt bs sz mem s, c)"
proof -
  obtain wr where "\<not> leg_avail sz wr (lm s) < bs" using assms(4) by blast
  with assms have "leg_udp_run cnt bs sz (prod_take s, c)"
    by (blast intro: leg_udp_run.prod leg_prod.take)
  then have "leg_udp_run cnt bs sz (prod_copy bs sz mem (prod_take s), c)"
    by (rule leg_udp_run.prod) (rule leg_prod.copy, simp add: prod_take_def)
  then show ?thesis
    unfolding prod_round_def
    by (rule leg_udp_run.prod) (rule leg_prod.post, simp add: prod_copy_def Let_def)
qed

lemma leg_udp_fill:
  assumes "0 < unat bs" "unat sz + unat bs \<le> 4294967296" "Suc k * unat bs < unat sz" "k \<le> cnt"
  shows "\<exists>s. leg_udp_run cnt bs sz (s, udp_cons_init) \<and> prod_at s = P_poll \<and> sem_used s = k \<and>
     sem_free s = cnt - k \<and> unat (lm_rd (lm s)) = k * unat bs \<and>
     passed s = map (\<lambda>i. replicate (unat bs) (of_nat i)) [0..<k]"
  using assms(3,4)
proof (induction k)
  case 0
  show ?case
    by (intro exI [of _ "leg_shared_init cnt"] conjI leg_udp_run.init) (simp_all add: leg_shared_init_def)
next
  case (Suc k)
  then obtain s where s: "leg_udp_run cnt bs sz (s, udp_cons_init)" "prod_at s = P_poll" "sem_used s = k"
     "sem_free s = cnt - k" "unat (lm_rd (lm s)) = k * unat bs"
     "passed s = map (\<lambda>i. replicate (unat bs) (of_nat i)) [0..<k]" by auto
  let ?s = "prod_round cnt bs sz (\<lambda>_. of_nat k) s"
  have lt: "unat (lm_rd (lm s)) + unat bs < unat sz" using Suc.prems(1) s(5) by simp
  note room = leg_room [OF lt refl assms(1)]
  have "leg_inv bs sz (unat sz) (lm s)" using lt assms(2) by (simp add: leg_inv_def)
  note copy = leg_copy_const [OF this]
  have "leg_udp_run cnt bs sz (?s, udp_cons_init)"
    using leg_udp_prod_round [OF s(1,2) _ room(1)] Suc.prems(2) s(4) by simp
  moreover have "unat (lm_rd (lm ?s)) = Suc k * unat bs" using room(2,3) s(5) by simp
  moreover have "passed ?s = map (\<lambda>i. replicate (unat bs) (of_nat i)) [0..<Suc k]"
    using copy s(6) by simp
  ultimately show ?case using s by (intro exI [of _ ?s]) simp
qed

lemma leg_udp_collect:
  assumes "leg_udp_run cnt bs sz (s, udp_cons_init)" "j \<le> sem_used s" "j \<le> UDP_BATCH"
  shows "\<exists>s' c. leg_udp_run cnt bs sz (s', c) \<and> passed s' = passed s \<and> sem_used s' = sem_used s - j \<and>
     length (uc_batch c) = j \<and> uc_posts c = 0 \<and> uc_calls c = []"
  using assms(2,3)
proof (induction j)
  case 0
  then show ?case using assms(1) by (intro exI [of _ s] exI [of _ udp_cons_init]) (simp add: udp_cons_init_def)
next
  case (Suc j)
  then obtain s' c where c: "leg_udp_run cnt bs sz (s', c)" "passed s' = passed s" "sem_used s' = sem_used s - j"
     "length (uc_batch c) = j" "uc_posts c = 0" "uc_calls c = []" by auto
  let ?s = "s'\<lparr>sem_used := sem_used s' - 1\<rparr>"
  let ?c = "c\<lparr>uc_batch := uc_batch c @ [uc_buf c], uc_buf := (uc_buf c + 1) mod cnt\<rparr>"
  have "leg_udp_run cnt bs sz (?s, ?c)"
    using c Suc.prems by (intro leg_udp_run.cons [OF c(1)] leg_udp.wait) simp_all
  then show ?case using c by (intro exI [of _ ?s] exI [of _ ?c]) simp
qed

lemma leg_udp_short_send:
  "\<exists>s c b. leg_udp_run 1024 1472 0x800000 (s, c) \<and> uc_calls c = [(b, 30)] \<and>
     passed s = map (\<lambda>i. replicate 1472 (of_nat i)) [0..<32]"
proof -
  obtain s where s: "leg_udp_run 1024 1472 0x800000 (s, udp_cons_init)" "sem_used s = 32"
    "passed s = map (\<lambda>i. replicate 1472 (of_nat i)) [0..<32]"
    using leg_udp_fill [where bs = 1472 and sz = "0x800000" and k = 32 and cnt = 1024] by auto
  obtain s' c where c: "leg_udp_run 1024 1472 0x800000 (s', c)" "passed s' = passed s"
    "length (uc_batch c) = UDP_BATCH" "uc_calls c = []"
    using leg_udp_collect [OF s(1), of UDP_BATCH] s(2) by (auto simp: UDP_BATCH_def)
  let ?c = "c\<lparr>uc_calls := uc_calls c @ [(map (tx_slots s') (uc_batch c), nat 30)], uc_batch := [],
     uc_posts := UDP_BATCH\<rparr>"
  have "leg_udp_run 1024 1472 0x800000 (s', ?c)"
    by (rule leg_udp_run.cons [OF c(1) leg_udp.send [OF c(3)]]) (simp add: UDP_BATCH_def)
  moreover have "uc_calls ?c = [(map (tx_slots s') (uc_batch c), 30)]" using c(4) by simp
  ultimately show ?thesis using c(2) s(3) by metis
qed

theorem legacy_udp_in_order_witness:
  "\<exists>s c. leg_udp_run 1024 1472 0x800000 (s, c) \<and>
     udp_sent c = map (\<lambda>i. replicate 1472 (of_nat i)) [0..<30] \<and>
     passed s = map (\<lambda>i. replicate 1472 (of_nat i)) [0..<32]"
proof -
  obtain s c b where r: "leg_udp_run 1024 1472 0x800000 (s, c)" "uc_calls c = [(b, 30)]"
    "passed s = map (\<lambda>i. replicate 1472 (of_nat i)) [0..<32]"
    using leg_udp_short_send by blast
  have "prefix b (passed s)" "length b = length (passed s)"
    using legacy_udp_in_order [OF r(1)] r(2,3) by (simp_all add: udp_offered_def UDP_BATCH_def)
  then have "b = passed s" by (auto simp: prefix_def)
  then have "udp_sent c = map (\<lambda>i. replicate 1472 (of_nat i)) [0..<30]"
    using r by (simp add: udp_sent_def take_map)
  then show ?thesis using r by blast
qed

subsection \<open>TCP\<close>

text \<open>Before the first failed send.\<close>

definition tcp_inv :: "nat \<Rightarrow> leg_shared \<times> tcp_cons \<Rightarrow> bool" where
  "tcp_inv cnt sc \<longleftrightarrow> (case sc of (s, c) \<Rightarrow>
     tc_fails c = 0 \<longrightarrow>
     (let lo = length (tc_sent c)
      in tc_sent c = take lo (passed s) \<and>
         (case tc_pc c of
            C_accept \<Rightarrow> lo = 0 \<and> leg_queue cnt lo lo 0 s
          | C_wait \<Rightarrow> leg_queue cnt lo lo 0 s \<and> tc_buf_nr c = lo mod cnt
          | C_send \<Rightarrow> leg_queue cnt lo (Suc lo) 0 s \<and> tc_buf_nr c = lo mod cnt
          | C_post ok \<Rightarrow> ok \<and> leg_queue cnt lo lo 1 s \<and> Suc (tc_buf_nr c) mod cnt = lo mod cnt)))"

lemma tcp_inv_prod:
  assumes "tcp_inv cnt (s, c)" "leg_prod cnt bs sz s s'"
  shows "tcp_inv cnt (s', c)"
proof -
  obtain more where m: "passed s' = passed s @ more" using leg_prod_passed [OF assms(2)] by blast
  show ?thesis
  proof (cases "tc_fails c = 0")
    case True
    then have "length (tc_sent c) \<le> length (passed s)"
      using assms(1) by (auto simp: tcp_inv_def Let_def leg_queue_def split: tcp_pc.splits)
    then show ?thesis
      using assms(1) leg_queue_prod [OF assms(2)] m by (auto simp: tcp_inv_def Let_def split: tcp_pc.splits)
  qed (simp add: tcp_inv_def)
qed

lemma tcp_inv_cons:
  assumes "leg_tcp cnt (s, c) (s', c')" "tcp_inv cnt (s, c)"
  shows "tcp_inv cnt (s', c')"
  using assms(1)
proof (rule leg_tcpE, goal_cases)
  case 1
  then show ?thesis using assms(2) by (auto simp: tcp_inv_def cons_accept_def Let_def)
next
  case 2
  then show ?thesis
    using assms(2) leg_queue_take [of cnt "length (tc_sent c)" _ 0 s]
    by (auto simp: tcp_inv_def Let_def)
next
  case (3 os res bytes os')
  show ?thesis
  proof (cases "tc_fails c = 0 \<and> \<not> res < 0")
    case True
    let ?lo = "length (tc_sent c)"
    have inv: "leg_queue cnt ?lo (Suc ?lo) 0 s" "tc_buf_nr c = ?lo mod cnt" "tc_sent c = take ?lo (passed s)"
      using assms(2) 3 True by (auto simp: tcp_inv_def Let_def)
    have sl: "tx_slots s (?lo mod cnt) = passed s ! ?lo" "?lo < length (passed s)"
      using leg_queue_slot [OF inv(1), of ?lo] by auto
    then have "tc_sent c @ [tx_slots s (tc_buf_nr c)] = take (Suc ?lo) (passed s)"
      using inv by (simp add: take_Suc_conv_app_nth)
    moreover have "leg_queue cnt (Suc ?lo) (Suc ?lo) 1 s"
      using leg_queue_release [OF inv(1), of 1] by simp
    moreover have "min (length (passed s)) (Suc ?lo) = Suc ?lo" using sl(2) by simp
    ultimately show ?thesis
      using True 3 inv(2) by (auto simp: tcp_inv_def cons_sent_def Let_def mod_Suc_eq)
  qed (use 3 in \<open>auto simp: tcp_inv_def cons_sent_def\<close>)
next
  case (4 ok)
  then show ?thesis
    using assms(2) leg_queue_post [of cnt "length (tc_sent c)" "length (tc_sent c)" 1 s]
    by (auto simp: tcp_inv_def cons_posted_def Let_def)
qed

lemma leg_tcp_run_inv: "leg_tcp_run cnt bs sz sc \<Longrightarrow> tcp_inv cnt sc"
proof (induction rule: leg_tcp_run.induct)
  case init
  then show ?case using leg_queue_init by (simp add: tcp_inv_def tcp_cons_init_def)
next
  case (cons sc sc')
  then show ?case by (cases sc, cases sc') (auto intro: tcp_inv_cons)
qed (rule tcp_inv_prod)

text \<open>
  Until a send fails, the TCP thread sends the blocks copied from the ring, each once
  and in order, however the two threads interleave.
\<close>

theorem legacy_tcp_in_order:
  assumes "leg_tcp_run cnt bs sz (s, c)" and "tc_fails c = 0"
  shows "prefix (tc_sent c) (passed s)"
proof -
  have "tc_sent c = take (length (tc_sent c)) (passed s)"
    using leg_tcp_run_inv [OF assms(1)] assms(2) by (simp add: tcp_inv_def Let_def)
  then show ?thesis by (metis take_is_prefix)
qed

theorem legacy_tcp_in_order_witness:
  "prefix (tc_sent (cons_accept tcp_cons_init)) (passed (leg_shared_init 1024))"
proof (rule legacy_tcp_in_order)
  show "leg_tcp_run 1024 32768 0x800000 (leg_shared_init 1024, cons_accept tcp_cons_init)"
    by (rule leg_tcp_run.cons [OF leg_tcp_run.init], rule leg_tcp.accept) (simp add: tcp_cons_init_def)
  show "tc_fails (cons_accept tcp_cons_init) = 0" by (simp add: cons_accept_def tcp_cons_init_def)
qed

subsection \<open>After a reconnection\<close>

text \<open>A whole round of the TCP thread, for building runs.\<close>

definition cons_round :: "nat \<Rightarrow> int \<Rightarrow> leg_shared \<times> tcp_cons \<Rightarrow> leg_shared \<times> tcp_cons" where
  "cons_round cnt res sc =
     (case sc of (s, c) \<Rightarrow>
        (s\<lparr>sem_used := sem_used s - 1, sem_free := sem_free s + 1\<rparr>,
         cons_posted cnt (\<not> res < 0) (cons_sent s res (c\<lparr>tc_pc := C_send\<rparr>))))"

lemma leg_tcp_prod_round:
  assumes "leg_tcp_run cnt bs sz (s, c)" "prod_at s = P_poll" "0 < sem_free s"
    "\<exists>wr. \<not> leg_avail sz wr (lm s) < bs"
  shows "leg_tcp_run cnt bs sz (prod_round cnt bs sz mem s, c)"
proof -
  obtain wr where "\<not> leg_avail sz wr (lm s) < bs" using assms(4) by blast
  with assms have "leg_tcp_run cnt bs sz (prod_take s, c)"
    by (blast intro: leg_tcp_run.prod leg_prod.take)
  then have "leg_tcp_run cnt bs sz (prod_copy bs sz mem (prod_take s), c)"
    by (rule leg_tcp_run.prod) (rule leg_prod.copy, simp add: prod_take_def)
  then show ?thesis
    unfolding prod_round_def
    by (rule leg_tcp_run.prod) (rule leg_prod.post, simp add: prod_copy_def Let_def)
qed

lemma leg_tcp_cons_round:
  assumes "leg_tcp_run cnt bs sz (s, c)" "tc_pc c = C_wait" "0 < sem_used s"
    "\<exists>os bytes os'. tcp_send os (tx_slots s (tc_buf_nr c)) = Some (res, bytes, os')"
  shows "leg_tcp_run cnt bs sz (cons_round cnt res (s, c))"
proof -
  obtain os bytes os' where os: "tcp_send os (tx_slots s (tc_buf_nr c)) = Some (res, bytes, os')"
    using assms(4) by blast
  let ?s = "s\<lparr>sem_used := sem_used s - 1\<rparr>" and ?c = "c\<lparr>tc_pc := C_send\<rparr>"
  have "leg_tcp_run cnt bs sz (?s, ?c)"
    using assms by (blast intro: leg_tcp_run.cons leg_tcp.wait)
  then have 1: "leg_tcp_run cnt bs sz (?s, cons_sent ?s res ?c)"
    by (rule leg_tcp_run.cons) (rule leg_tcp.send, use os in auto)
  have "leg_tcp_run cnt bs sz (?s\<lparr>sem_free := sem_free ?s + 1\<rparr>, cons_posted cnt (\<not> res < 0) (cons_sent ?s res ?c))"
    by (rule leg_tcp_run.cons [OF 1]) (rule leg_tcp.post, simp add: cons_sent_def)
  then show ?thesis by (cases "res < 0") (simp_all add: cons_round_def cons_sent_def)
qed

lemma tcp_send_fails: "b # p = data \<Longrightarrow> tcp_send [Io_count 0] data = Some (-1, [], [])"
  by auto

lemma tcp_send_once: "data \<noteq> [] \<Longrightarrow> tcp_send [Io_count (length data)] data = Some (0, data, [])"
  by (cases data) auto

text \<open>
  One connection sends the first block and fails on the second; the next connection, with a
  third block in the queue, sends the first block again.
\<close>

lemma leg_reconnect:
  assumes "3 \<le> cnt" "0 < unat bs" "4 * unat bs \<le> unat sz" "unat sz + unat bs \<le> 4294967296"
  shows "\<exists>s c. leg_tcp_run cnt bs sz (s, c) \<and> tc_fails c = 1 \<and>
     passed s = map (replicate (unat bs)) [1, 2, 3] \<and> tc_sent c = map (replicate (unat bs)) [1, 1]"
proof -
  let ?B = "replicate (unat bs)"
  have B: "?B v \<noteq> []" for v :: u8 using assms(2) by simp
  have ok: "\<exists>os bytes os'. tcp_send os (?B v) = Some (0, bytes, os')" for v
    using tcp_send_once [OF B] by blast
  have bad: "\<exists>os bytes os'. tcp_send os (?B v) = Some (-1, bytes, os')" for v :: u8
    using B [of v] by (cases "?B v") (auto intro: exI [of _ "[Io_count 0]"])
  let ?s0 = "leg_shared_init cnt" and ?c1 = "cons_accept tcp_cons_init"
  define s1 where "s1 = prod_round cnt bs sz (\<lambda>_. 1) ?s0"
  define s2 where "s2 = prod_round cnt bs sz (\<lambda>_. 2) s1"
  have r0: "lm_rd (lm ?s0) = 0" by (simp add: leg_shared_init_def)
  note m0 = leg_room [OF _ r0 assms(2), of sz]
  have r1: "lm_rd (lm s1) = bs" using m0 assms by (simp add: s1_def r0)
  note m1 = leg_room [OF _ r1 assms(2), of sz]
  have r2: "lm_rd (lm s2) = bs + bs" using m1 assms by (simp add: s2_def r1)
  have u2: "unat (bs + bs) = unat bs + unat bs" using m1 assms by simp
  note m2 = leg_room [OF _ r2 assms(2), of sz]
  have b: "leg_copy bs sz (\<lambda>_. v) (lm ?s0) = ?B v" "leg_copy bs sz (\<lambda>_. v) (lm s1) = ?B v"
    "leg_copy bs sz (\<lambda>_. v) (lm s2) = ?B v" for v
    using assms r0 r1 r2 u2 by (auto intro!: leg_copy_const simp: leg_inv_def)
  have n: "lm_buf_nr (lm ?s0) = 0" "lm_buf_nr (lm s1) = 1" "lm_buf_nr (lm s2) = 2"
    using assms(1) by (auto simp: s1_def s2_def leg_shared_init_def)
  have i: "sem_used ?s0 = 0" "sem_free ?s0 = cnt" "prod_at ?s0 = P_poll" "passed ?s0 = []"
    by (simp_all add: leg_shared_init_def)
  have "tx_slots s1 0 = ?B 1" by (simp add: s1_def b n)
  then have t2: "tx_slots s2 0 = ?B 1" "tx_slots s2 1 = ?B 2" using b n by (simp_all add: s2_def)
  have e0: "leg_tcp_run cnt bs sz (?s0, ?c1)"
    by (rule leg_tcp_run.cons [OF leg_tcp_run.init], rule leg_tcp.accept) (simp add: tcp_cons_init_def)
  have e1: "leg_tcp_run cnt bs sz (s1, ?c1)"
    unfolding s1_def using m0 assms i by (intro leg_tcp_prod_round [OF e0]) auto
  have e2: "leg_tcp_run cnt bs sz (s2, ?c1)"
    unfolding s2_def using m1 assms i by (intro leg_tcp_prod_round [OF e1]) (auto simp: s1_def)
  obtain s3 c3 where sc3: "cons_round cnt 0 (s2, ?c1) = (s3, c3)" by (cases "cons_round cnt 0 (s2, ?c1)")
  have e3: "leg_tcp_run cnt bs sz (s3, c3)"
    unfolding sc3 [symmetric] using ok t2(1)
    by (intro leg_tcp_cons_round [OF e2]) (auto simp: cons_accept_def tcp_cons_init_def s2_def)
  have f3: "s3 = s2\<lparr>sem_used := 1, sem_free := cnt - 1\<rparr>" "tc_pc c3 = C_wait" "tc_buf_nr c3 = 1"
    "tc_sent c3 = [?B 1]" "tc_fails c3 = 0"
    using sc3 assms(1) t2 i
    by (auto simp: cons_round_def cons_sent_def cons_posted_def cons_accept_def tcp_cons_init_def s2_def s1_def)
  obtain s4 c4 where sc4: "cons_round cnt (-1) (s3, c3) = (s4, c4)" by (cases "cons_round cnt (-1) (s3, c3)")
  have e4: "leg_tcp_run cnt bs sz (s4, c4)"
    unfolding sc4 [symmetric] using bad t2(2) f3
    by (intro leg_tcp_cons_round [OF e3]) auto
  have f4: "s4 = s2\<lparr>sem_used := 0, sem_free := cnt\<rparr>" "tc_pc c4 = C_accept" "tc_sent c4 = [?B 1]" "tc_fails c4 = 1"
    using sc4 f3 assms(1) by (auto simp: cons_round_def cons_sent_def cons_posted_def)
  have e5: "leg_tcp_run cnt bs sz (s4, cons_accept c4)"
    by (rule leg_tcp_run.cons [OF e4], rule leg_tcp.accept) (rule f4(2))
  let ?s6 = "prod_round cnt bs sz (\<lambda>_. 3) s4"
  have l4: "lm s4 = lm s2" using f4(1) by simp
  have e6: "leg_tcp_run cnt bs sz (?s6, cons_accept c4)"
    using m2 u2 assms l4 by (intro leg_tcp_prod_round [OF e5]) (auto simp: f4(1) s2_def)
  have f6: "tx_slots ?s6 0 = ?B 1" "passed ?s6 = [?B 1, ?B 2, ?B 3]" "0 < sem_used ?s6"
    using n t2 b l4 i by (auto simp: f4(1) s2_def s1_def)
  have e7: "leg_tcp_run cnt bs sz (cons_round cnt 0 (?s6, cons_accept c4))"
    using ok f6 by (intro leg_tcp_cons_round [OF e6]) (auto simp: cons_accept_def)
  moreover have "tc_sent (snd (cons_round cnt 0 (?s6, cons_accept c4))) = [?B 1, ?B 1]"
    "passed (fst (cons_round cnt 0 (?s6, cons_accept c4))) = [?B 1, ?B 2, ?B 3]"
    "tc_fails (snd (cons_round cnt 0 (?s6, cons_accept c4))) = 1"
    using f4 f6 by (auto simp: cons_round_def cons_sent_def cons_posted_def cons_accept_def)
  ultimately show ?thesis
    by (intro exI [of _ "fst (cons_round cnt 0 (?s6, cons_accept c4))"]
        exI [of _ "snd (cons_round cnt 0 (?s6, cons_accept c4))"]) simp
qed

text \<open>
  After a failed send the order is lost: the sending thread starts the next connection
  at slot 0 while the queue's oldest block is elsewhere. With the program's own sizes
  there is a run in which three different blocks are copied from the ring, one send fails,
  and the next client is sent the first block, which the previous client already had, in
  place of the third.
\<close>

theorem legacy_tcp_reconnect_repeats:
  "\<exists>s c. leg_tcp_run 1024 32768 0x800000 (s, c) \<and> tc_fails c = 1 \<and>
     passed s = map (replicate (unat (32768 :: u32))) [1, 2, 3] \<and>
     tc_sent c = map (replicate (unat (32768 :: u32))) [1, 1]"
  by (rule leg_reconnect) simp_all

text \<open>
  The copy loop follows the FPGA's stream: with a slot size that need not divide the
  ring (1472 bytes for UDP) and blocks that wrap around its end, the blocks copied are
  consecutive pieces of the stream, as long as the FPGA stays less than a ring ahead.
\<close>

theorem legacy_copies_stream:
  assumes "0 < unat sz" "unat bs \<le> unat sz" "unat sz + unat bs \<le> 4294967296" "lm_rd m = 0"
    and "keeps_up (leg_poll bs sz) s (unat sz) 0 xs m"
  shows "\<exists>D. fst (run_reader (leg_poll bs sz) xs (unat sz) m) = stream_slice s 0 D \<and>
             unat (lm_rd (snd (run_reader (leg_poll bs sz) xs (unat sz) m))) = D mod unat sz"
proof -
  have "leg_inv bs sz (unat sz) m" using assms by (simp add: leg_inv_def)
  from leg.run_is_stream [OF this _ assms(5)] assms(4) show ?thesis by auto
qed

theorem legacy_copies_stream_witness:
  "\<exists>D. fst (run_reader (leg_poll 3 8) [(5, of_nat), (7, of_nat)] 8
        \<lparr>lm_rd = 0, lm_buf_nr = 0, lm_buf_wait_cnt = 0, lm_lost_bytes = 0, lm_pass_cnt = 0\<rparr>) =
      stream_slice of_nat 0 D"
  using legacy_copies_stream [of 8 3 "\<lparr>lm_rd = 0, lm_buf_nr = 0, lm_buf_wait_cnt = 0,
      lm_lost_bytes = 0, lm_pass_cnt = 0\<rparr>" of_nat "[(5, of_nat), (7, of_nat)]"]
  by (auto simp: ring_holds_def leg_poll_def leg_avail_def leg_copy_def leg_next_def Let_def)

text \<open>
  \<^verbatim>\<open>--udp HOST:PORT\<close> is read back as it was written: a host of at most 63 characters
  (with or without colons of its own) and a port that fits a C int.
\<close>

theorem legacy_udp_args_roundtrip:
  assumes "length host \<le> 63" "port < 2147483648"
  shows "leg_parse_args [prog, ''--udp'', host @ '':'' @ show_nat port] =
    Some \<lparr>lc_mode = L_MODE_UDP, lc_host = host, lc_port = int port, lc_buf_cnt = 1024, lc_buf_size = 1472\<rparr>"
  using parse_hostport_roundtrip [OF assms] by (simp add: leg_parse_args_def)

theorem legacy_udp_args_roundtrip_witness:
  "leg_parse_args [''ad9361_rx'', ''--udp'', ''192.168.1.2'' @ '':'' @ show_nat 1234] =
    Some \<lparr>lc_mode = L_MODE_UDP, lc_host = ''192.168.1.2'', lc_port = int 1234, lc_buf_cnt = 1024, lc_buf_size = 1472\<rparr>"
  by (rule legacy_udp_args_roundtrip) simp_all

end
