(* ===== verification/Prbs.thy ===== *)
theory Prbs
  imports Zyn_Prelude
begin

text \<open>
  The pseudo-random test signal, \<^verbatim>\<open>prbs.c\<close>: the 16-bit shift register, the samples made of
  its states, the two lookup tables, the generator that fills transmit blocks, and the
  recovery of the register's state from a received sample. The tables are functions from
  the index. The shift register is linear over XOR, so its powers of two are matrices
  (lists of 16 columns) that the kernel computes; they give its period.
\<close>

subsection \<open>The code\<close>

definition PRBS_LEN :: nat where "PRBS_LEN = 65535"

record prbs_iq =
  iq_i :: u16
  iq_q :: u16

definition bitrev12 :: "u16 \<Rightarrow> u16" where
  "bitrev12 x = foldl (\<lambda>out i. out OR push_bit (11 - i) (drop_bit i x AND 1)) 0 [0..<12]"

text \<open>\<^verbatim>\<open>__builtin_popcount\<close> on a 32-bit argument.\<close>

definition popcount :: "u32 \<Rightarrow> nat" where
  "popcount x = length (filter (bit x) [0..<32])"

definition lfsr_next :: "u16 \<Rightarrow> u16" where
  "lfsr_next state =
     (let st = ucast state :: u32;
          xor_hi = of_nat (popcount (drop_bit 4 st AND 0xFFF)) AND 1 :: u32;
          xor_lo = of_nat (popcount (drop_bit 1 st AND 0x3)) AND 1 :: u32;
          new_bit = xor_hi XOR xor_lo
      in ucast ((push_bit 1 st OR new_bit) AND 0xFFFF))"

definition prbs_state_from_iq :: "u16 \<Rightarrow> u16 \<Rightarrow> u16" where
  "prbs_state_from_iq i q =
     (let q_rev = bitrev12 (q AND 0xFFF) in push_bit 4 (i AND 0xFFF) OR (q_rev AND 0xF))"

definition prbs_sample :: "u16 \<Rightarrow> prbs_iq" where
  "prbs_sample state =
     \<lparr>iq_i = push_bit 4 (drop_bit 4 state AND 0xFFF), iq_q = push_bit 4 (bitrev12 (state AND 0xFFF))\<rparr>"

text \<open>The body of \<^verbatim>\<open>prbs_init\<close>'s loop, \<open>k\<close> rounds from position \<open>n\<close>.\<close>

fun prbs_init_loop ::
  "nat \<Rightarrow> nat \<Rightarrow> u16 \<Rightarrow> (nat \<Rightarrow> prbs_iq) \<times> (u16 \<Rightarrow> u16) \<Rightarrow> (nat \<Rightarrow> prbs_iq) \<times> (u16 \<Rightarrow> u16)" where
  "prbs_init_loop 0 n state (lut, pos) = (lut, pos)"
| "prbs_init_loop (Suc k) n state (lut, pos) =
     prbs_init_loop k (Suc n) (lfsr_next state)
       (lut(n := prbs_sample state), pos(state := of_nat n))"

definition prbs_init :: "(nat \<Rightarrow> prbs_iq) \<times> (u16 \<Rightarrow> u16)" where
  "prbs_init = prbs_init_loop PRBS_LEN 0 1 ((\<lambda>_. \<lparr>iq_i = 0, iq_q = 0\<rparr>), (\<lambda>_. 0))"

text \<open>
  \<^verbatim>\<open>prbs_fill_block\<close>: the samples written and the new position. A position outside the table
  is read out of bounds, or never advances: \<open>None\<close>.
\<close>

function prbs_fill_block :: "(nat \<Rightarrow> 'a) \<Rightarrow> nat \<Rightarrow> nat \<Rightarrow> ('a list \<times> nat) option" where
  "prbs_fill_block lut remaining p =
     (if remaining = 0 then Some ([], p)
      else if PRBS_LEN \<le> p then None
      else let chunk = min (PRBS_LEN - p) remaining in
           map_option (\<lambda>(xs, p'). (map lut [p..<p + chunk] @ xs, p'))
             (prbs_fill_block lut (remaining - chunk) ((p + chunk) mod PRBS_LEN)))"
  by pat_completeness auto
termination
  by (relation "measure (\<lambda>(lut, remaining, p). remaining)") auto

declare prbs_fill_block.simps [simp del]

subsection \<open>Recovering the state\<close>

lemma bit_one_bit: "bit (push_bit m (drop_bit i x AND 1)) k \<longleftrightarrow> k = m \<and> m < 16 \<and> bit x i" for x :: u16
  by (auto simp: bit_simps)

lemma bit_fold_or:
  "bit (foldl (\<lambda>out i. out OR g i) 0 [0..<n]) k \<longleftrightarrow> (\<exists>i<n. bit (g i) k)" for g :: "nat \<Rightarrow> u16"
  by (induction n) (auto simp: bit_or_iff less_Suc_eq)

lemma bit_bitrev12: "bit (bitrev12 x) k \<longleftrightarrow> k < 12 \<and> bit x (11 - k)"
proof -
  have "bit (bitrev12 x) k \<longleftrightarrow> (\<exists>i<12. k = 11 - i \<and> 11 - i < 16 \<and> bit x i)"
    unfolding bitrev12_def bit_fold_or bit_one_bit by (rule refl)
  also have "\<dots> \<longleftrightarrow> k < 12 \<and> bit x (11 - k)" by (auto intro!: exI [of _ "11 - k"])
  finally show ?thesis .
qed

text \<open>The receiver shifts the 12-bit samples down by four before it recovers the state.\<close>

lemma prbs_state_of_sample:
  "prbs_state_from_iq (drop_bit 4 (iq_i (prbs_sample st))) (drop_bit 4 (iq_q (prbs_sample st))) = st"
proof (rule bit_word_eqI)
  have f: "(0xFFF :: u16) = mask 12" "(0xF :: u16) = mask 4" by (simp_all add: mask_eq_exp_minus_1)
  fix k assume "k < LENGTH(16)"
  then show "bit (prbs_state_from_iq (drop_bit 4 (iq_i (prbs_sample st))) (drop_bit 4 (iq_q (prbs_sample st)))) k =
    bit st k"
    unfolding prbs_state_from_iq_def prbs_sample_def Let_def f
    by (cases "k < 4") (auto simp: bit_simps bit_bitrev12)
qed

subsection \<open>The shift register is linear\<close>

lemma odd_filter_xor:
  "odd (length (filter (bit (x XOR y)) is)) \<longleftrightarrow>
     odd (length (filter (bit x) is)) \<noteq> odd (length (filter (bit y) is))" for x y :: u32
  by (induction "is") (auto simp: bit_xor_iff)

lemma bit_lfsr_next:
  "bit (lfsr_next s) k \<longleftrightarrow>
     (if k = 0 then odd (popcount (drop_bit 4 (ucast s) AND 0xFFF)) \<noteq> odd (popcount (drop_bit 1 (ucast s) AND 0x3))
      else k < 16 \<and> bit s (k - 1))"
proof -
  have m: "(0xFFFF :: u32) = mask 16" by (simp add: mask_eq_exp_minus_1)
  have g: "bit (ucast ((a OR b) AND mask 16) :: u16) k \<longleftrightarrow> k < 16 \<and> (bit a k \<or> bit b k)" for a b :: u32
    by (auto simp: bit_simps)
  have pb: "bit (push_bit 1 (ucast s :: u32)) k \<longleftrightarrow> 0 < k \<and> k \<le> 16 \<and> bit s (k - 1)"
    unfolding bit_push_bit_iff by (cases k) (auto simp: bit_simps dest: bit_imp_le_length)
  have nb: "bit ((of_nat n AND 1) XOR (of_nat n' AND 1) :: u32) k \<longleftrightarrow> k = 0 \<and> odd n \<noteq> odd n'" for n n'
    unfolding bit_xor_iff bit_and_iff bit_1_iff by (auto simp: bit_0)
  show ?thesis
    unfolding lfsr_next_def Let_def m g pb nb by auto
qed

lemma lfsr_next_xor: "lfsr_next (x XOR y) = lfsr_next x XOR lfsr_next y"
proof (rule bit_word_eqI)
  have d: "drop_bit n (ucast (x XOR y)) AND m = (drop_bit n (ucast x) AND m) XOR (drop_bit n (ucast y) AND m)"
    for n and m :: u32
    by (rule bit_word_eqI) (auto simp: bit_simps)
  fix k
  show "bit (lfsr_next (x XOR y)) k = bit (lfsr_next x XOR lfsr_next y) k"
    unfolding bit_xor_iff bit_lfsr_next d popcount_def odd_filter_xor by (auto simp: bit_simps)
qed

text \<open>Linear maps as lists of columns.\<close>

fun lin_apply :: "u16 list \<Rightarrow> nat \<Rightarrow> u16 \<Rightarrow> u16" where
  "lin_apply [] i v = 0"
| "lin_apply (c # cs) i v = (if bit v i then c else 0) XOR lin_apply cs (Suc i) v"

definition lin :: "u16 list \<Rightarrow> u16 \<Rightarrow> u16" where
  "lin cs v = lin_apply cs 0 v"

definition cols :: "(u16 \<Rightarrow> u16) \<Rightarrow> u16 list" where
  "cols f = map (\<lambda>i. f (push_bit i 1)) [0..<16]"

definition linear :: "(u16 \<Rightarrow> u16) \<Rightarrow> bool" where
  "linear f \<longleftrightarrow> (\<forall>x y. f (x XOR y) = f x XOR f y)"

lemma linear_zero: "linear f \<Longrightarrow> f 0 = 0"
  unfolding linear_def by (metis xor_self_eq)

lemma linear_lin_apply: "linear f \<Longrightarrow> f (lin_apply cs i v) = lin_apply (map f cs) i v"
  by (induction cs i v rule: lin_apply.induct) (auto simp: linear_def linear_zero)

lemma bit_lin_apply_units:
  "bit (lin_apply (map (\<lambda>i. push_bit i 1) [i..<i + n]) i v) k \<longleftrightarrow> i \<le> k \<and> k < i + n \<and> bit v k"
proof (induction n arbitrary: i)
  case 0
  then show ?case by simp
next
  case (Suc n)
  have "[i..<i + Suc n] = i # [Suc i..<Suc i + n]" by (simp add: upt_conv_Cons)
  then show ?case
    using Suc [of "Suc i"] bit_imp_le_length [of v k]
    by (auto simp: bit_simps le_Suc_eq Suc_le_eq)
qed

lemma lin_units: "lin (map (\<lambda>i. push_bit i 1) [0..<16]) v = v"
proof (rule bit_word_eqI)
  fix k assume "k < LENGTH(16)"
  then show "bit (lin (map (\<lambda>i. push_bit i 1) [0..<16]) v) k = bit v k"
    using bit_lin_apply_units [of 0 16 v k] by (simp add: lin_def)
qed

lemma linear_cols: "linear f \<Longrightarrow> f v = lin (cols f) v"
  using linear_lin_apply [of f "map (\<lambda>i. push_bit i 1) [0..<16]" 0 v] lin_units [of v]
  by (simp add: lin_def cols_def comp_def)

lemma linear_comp: "linear f \<Longrightarrow> linear g \<Longrightarrow> linear (f \<circ> g)"
  by (simp add: linear_def)

lemma cols_comp: "linear f \<Longrightarrow> cols (f \<circ> g) = map (lin (cols f)) (cols g)"
proof -
  assume f: "linear f"
  have "cols (f \<circ> g) = map f (cols g)" unfolding cols_def by simp
  also have "\<dots> = map (lin (cols f)) (cols g)" by (intro map_cong refl linear_cols f)
  finally show ?thesis .
qed

lemma linear_lfsr: "linear (lfsr_next ^^ n)"
proof (induction n)
  case (Suc n)
  then show ?case using linear_comp [of lfsr_next] by (simp add: linear_def lfsr_next_xor)
qed (simp add: linear_def)

definition lfsr_cols :: "nat \<Rightarrow> u16 list" where
  "lfsr_cols n = cols (lfsr_next ^^ n)"

lemma lfsr_cols_double: "lfsr_cols n = cs \<Longrightarrow> m = n + n \<Longrightarrow> lfsr_cols m = map (lin cs) cs"
  using cols_comp [OF linear_lfsr, of n "lfsr_next ^^ n"] by (simp add: lfsr_cols_def funpow_add)

lemma lfsr_apply: "lfsr_cols n = cs \<Longrightarrow> (lfsr_next ^^ n) v = lin cs v"
  using linear_cols [OF linear_lfsr] by (simp add: lfsr_cols_def)

subsection \<open>Its powers of two\<close>

lemma lfsr_cols_1: "lfsr_cols 1 =
     [2, 5, 9, 16, 33, 65, 129, 257, 513, 1025, 2049, 4097, 8193, 16385, 32769, 1]"
  by code_simp

lemma lfsr_cols_2: "lfsr_cols 2 =
     [5, 11, 18, 33, 67, 131, 259, 515, 1027, 2051, 4099, 8195, 16387, 32771, 3, 2]"
  by (rule trans [OF lfsr_cols_double [OF lfsr_cols_1]]; code_simp)

lemma lfsr_cols_4: "lfsr_cols 4 =
     [23, 47, 72, 134, 269, 525, 1037, 2061, 4109, 8205, 16397, 32781, 13, 12, 14, 11]"
  by (rule trans [OF lfsr_cols_double [OF lfsr_cols_2]]; code_simp)

lemma lfsr_cols_8: "lfsr_cols 8 =
     [381, 763, 1163, 2154, 4308, 8404, 16596, 32980, 212, 213, 215, 210, 217, 206, 225, 190]"
  by (rule trans [OF lfsr_cols_double [OF lfsr_cols_4]]; code_simp)

lemma lfsr_cols_16: "lfsr_cols 16 =
     [32156, 64313, 35823, 27203, 54406, 54417, 54462, 54497, 54367, 54562, 55257, 53807, 55747,
      52762, 57769, 48846]"
  by (rule trans [OF lfsr_cols_double [OF lfsr_cols_8]]; code_simp)

lemma lfsr_cols_32: "lfsr_cols 32 =
     [50706, 35876, 56923, 31397, 62794, 11398, 40734, 63535, 13900, 43658, 37638, 57374, 1582,
      51791, 21133, 25353]"
  by (rule trans [OF lfsr_cols_double [OF lfsr_cols_16]]; code_simp)

lemma lfsr_cols_64: "lfsr_cols 64 =
     [29030, 58060, 46335, 6296, 12592, 4871, 22377, 57269, 52749, 60796, 43934, 9819, 15824,
      2758, 25834, 47283]"
  by (rule trans [OF lfsr_cols_double [OF lfsr_cols_32]]; code_simp)

lemma lfsr_cols_128: "lfsr_cols 128 =
     [36780, 8024, 45341, 60822, 56108, 14836, 64581, 30502, 25057, 19566, 6001, 41295, 52530,
      5576, 42045, 51158]"
  by (rule trans [OF lfsr_cols_double [OF lfsr_cols_64]]; code_simp)

lemma lfsr_cols_256: "lfsr_cols 256 =
     [20030, 40060, 30406, 41907, 18278, 49394, 53211, 53640, 60719, 37985, 26365, 33733, 18868,
      56663, 62608, 42783]"
  by (rule trans [OF lfsr_cols_double [OF lfsr_cols_128]]; code_simp)

lemma lfsr_cols_512: "lfsr_cols 512 =
     [19284, 38569, 26118, 34648, 3760, 22068, 59197, 34095, 16650, 51521, 55767, 63738, 47776,
      15893, 14207, 9642]"
  by (rule trans [OF lfsr_cols_double [OF lfsr_cols_256]]; code_simp)

lemma lfsr_cols_1024: "lfsr_cols 1024 =
     [51269, 37003, 59731, 6883, 13767, 41931, 36818, 55264, 26500, 1868, 50908, 17917, 17343,
      20283, 22067, 25634]"
  by (rule trans [OF lfsr_cols_double [OF lfsr_cols_512]]; code_simp)

lemma lfsr_cols_2048: "lfsr_cols 2048 =
     [55592, 45648, 48520, 41529, 17523, 20942, 31413, 11331, 33199, 55926, 28100, 672, 56425,
      25083, 6878, 60564]"
  by (rule trans [OF lfsr_cols_double [OF lfsr_cols_1024]]; code_simp)

lemma lfsr_cols_4096: "lfsr_cols 4096 =
     [23259, 46518, 12727, 14773, 29546, 48143, 8900, 8018, 25727, 37413, 32400, 43003, 5421,
      28800, 48091, 11629]"
  by (rule trans [OF lfsr_cols_double [OF lfsr_cols_2048]]; code_simp)

lemma lfsr_cols_8192: "lfsr_cols 8192 =
     [780, 1561, 3903, 7538, 15076, 30404, 61060, 56836, 48901, 32006, 63744, 61708, 57620, 49444,
      33093, 390]"
  by (rule trans [OF lfsr_cols_double [OF lfsr_cols_4096]]; code_simp)

lemma lfsr_cols_16384: "lfsr_cols 16384 =
     [53326, 41116, 37239, 62112, 58689, 6860, 58838, 7138, 59274, 8026, 61178, 3515, 52025,
      17981, 23604, 26663]"
  by (rule trans [OF lfsr_cols_double [OF lfsr_cols_8192]]; code_simp)

lemma lfsr_cols_32768: "lfsr_cols 32768 =
     [55735, 45934, 49002, 42851, 20166, 17467, 20928, 31286, 11738, 33283, 56752, 25302, 7195,
      57728, 6838, 60635]"
  by (rule trans [OF lfsr_cols_double [OF lfsr_cols_16384]]; code_simp)

lemmas lfsr_powers = lfsr_cols_1 [THEN lfsr_apply] lfsr_cols_2 [THEN lfsr_apply] lfsr_cols_4 [THEN lfsr_apply] lfsr_cols_8 [THEN lfsr_apply] lfsr_cols_16 [THEN lfsr_apply] lfsr_cols_32 [THEN lfsr_apply] lfsr_cols_64 [THEN lfsr_apply] lfsr_cols_128 [THEN lfsr_apply] lfsr_cols_256 [THEN lfsr_apply] lfsr_cols_512 [THEN lfsr_apply] lfsr_cols_1024 [THEN lfsr_apply] lfsr_cols_2048 [THEN lfsr_apply] lfsr_cols_4096 [THEN lfsr_apply] lfsr_cols_8192 [THEN lfsr_apply] lfsr_cols_16384 [THEN lfsr_apply] lfsr_cols_32768 [THEN lfsr_apply]

subsection \<open>The period\<close>

lemma lfsr_at_65535: "(lfsr_next ^^ 65535) 1 = 1"
proof -
  have e: "(65535 :: nat) = 32768 + (16384 + (8192 + (4096 + (2048 + (1024 + (512 + (256 + (128 + (64 + (32 + (16 + (8 + (4 + (2 + (1)))))))))))))))" by simp
  show ?thesis unfolding e funpow_add comp_apply lfsr_powers by code_simp
qed

lemma lfsr_at_21845: "(lfsr_next ^^ 21845) 1 = 59188"
proof -
  have e: "(21845 :: nat) = 16384 + (4096 + (1024 + (256 + (64 + (16 + (4 + (1)))))))" by simp
  show ?thesis unfolding e funpow_add comp_apply lfsr_powers by code_simp
qed

lemma lfsr_at_13107: "(lfsr_next ^^ 13107) 1 = 31760"
proof -
  have e: "(13107 :: nat) = 8192 + (4096 + (512 + (256 + (32 + (16 + (2 + (1)))))))" by simp
  show ?thesis unfolding e funpow_add comp_apply lfsr_powers by code_simp
qed

lemma lfsr_at_3855: "(lfsr_next ^^ 3855) 1 = 44624"
proof -
  have e: "(3855 :: nat) = 2048 + (1024 + (512 + (256 + (8 + (4 + (2 + (1)))))))" by simp
  show ?thesis unfolding e funpow_add comp_apply lfsr_powers by code_simp
qed

lemma lfsr_at_255: "(lfsr_next ^^ 255) 1 = 42783"
proof -
  have e: "(255 :: nat) = 128 + (64 + (32 + (16 + (8 + (4 + (2 + (1)))))))" by simp
  show ?thesis unfolding e funpow_add comp_apply lfsr_powers by code_simp
qed

lemma divisor_257: "d dvd 257 \<Longrightarrow> d = 1 \<or> d = 257" for d :: nat
proof -
  assume d: "d dvd 257"
  then have "d \<le> 257" "d \<noteq> 0" using dvd_imp_le [of d 257] by (auto intro: Nat.gr0I)
  then have "d \<in> set [1..<258]" by simp
  moreover have "list_all (\<lambda>d. 257 mod d = 0 \<longrightarrow> d = 1 \<or> d = 257) [1..<258 :: nat]" by code_simp
  ultimately show ?thesis using d by (auto simp: list_all_iff mod_eq_0_iff_dvd)
qed

lemma divisor_small:
  fixes d :: nat
  assumes "d dvd p" "p = 3 \<or> p = 5 \<or> p = 17"
  shows "d = 1 \<or> d = p"
proof -
  have "d \<le> p" "d \<noteq> 0" using assms dvd_imp_le [of d p] by (auto intro: Nat.gr0I)
  then have "d \<in> set [1..<p + 1]" by auto
  moreover have "list_all (\<lambda>d. p mod d = 0 \<longrightarrow> d = 1 \<or> d = p) [1..<p + 1]"
    using assms(2) by (elim disjE) (simp_all, code_simp+)
  ultimately show ?thesis using assms(1) by (auto simp: list_all_iff mod_eq_0_iff_dvd)
qed

lemma factor_65535:
  fixes q :: nat
  assumes "q dvd 65535" "q \<noteq> 1"
  shows "\<exists>p \<in> {3, 5, 17, 257}. p dvd q"
proof (rule ccontr)
  assume no: "\<not> ?thesis"
  have "coprime q p" if "p \<in> {3, 5, 17, 257}" for p
  proof -
    have "gcd q p = 1 \<or> gcd q p = p"
      using that divisor_257 [of "gcd q 257"] divisor_small [of "gcd q p" p] by auto
    moreover have "gcd q p \<noteq> p" using no that by (metis gcd_dvd1)
    ultimately show ?thesis by (simp add: coprime_iff_gcd_eq_1)
  qed
  then have "coprime q (3 * (5 * (17 * 257)))" by (simp only: coprime_mult_right_iff) simp
  then have "coprime q 65535" by simp
  with assms show False by (simp add: coprime_absorb_left)
qed

lemma funpow_period: "(f ^^ n) x = x \<Longrightarrow> (f ^^ (k * n)) x = x"
  by (induction k) (simp_all add: funpow_add)

lemma funpow_gcd:
  assumes "(f ^^ d) x = x" "(f ^^ n) x = x" "0 < d"
  shows "(f ^^ gcd d n) x = x"
proof -
  obtain a b where "d * a = n * b + gcd d n" using bezout_nat [of d n] assms(3) by auto
  then have "(f ^^ (a * d)) x = (f ^^ (gcd d n + b * n)) x" by (simp add: ac_simps)
  then show ?thesis using funpow_period [OF assms(1), of a] funpow_period [OF assms(2), of b]
    by (simp add: funpow_add)
qed

definition prbs_state :: "nat \<Rightarrow> u16" where
  "prbs_state n = (lfsr_next ^^ n) 1"

lemma lfsr_order:
  assumes "(lfsr_next ^^ d) 1 = 1" "0 < d"
  shows "65535 \<le> d"
proof (rule ccontr)
  assume "\<not> 65535 \<le> d"
  let ?g = "gcd d 65535"
  have g: "(lfsr_next ^^ ?g) 1 = 1" using assms lfsr_at_65535 by (intro funpow_gcd) auto
  obtain q where q: "65535 = ?g * q" using gcd_dvd2 [of d 65535] by (auto simp: dvd_def)
  have "?g \<le> d" using assms(2) by (simp add: dvd_imp_le)
  with \<open>\<not> 65535 \<le> d\<close> q have "q \<noteq> 1" by auto
  moreover have "q dvd 65535" using q by (metis dvd_triv_right)
  ultimately obtain p where p: "p \<in> {3, 5, 17, 257}" "p dvd q" using factor_65535 by blast
  then obtain r where "q = p * r" by (auto simp: dvd_def)
  then have "65535 = p * (r * ?g)" using q by (simp add: ac_simps)
  then have "r * ?g = 65535 div p" using p(1) by auto
  moreover have "(lfsr_next ^^ (r * ?g)) 1 = 1" by (rule funpow_period [OF g])
  ultimately show False
    using p(1) lfsr_at_21845 lfsr_at_13107 lfsr_at_3855 lfsr_at_255 by auto
qed

lemma prbs_state_inj:
  assumes "i < j" "j < 65535"
  shows "prbs_state i \<noteq> prbs_state j"
proof
  assume eq: "prbs_state i = prbs_state j"
  have a: "(lfsr_next ^^ (65535 - i)) (prbs_state i) = 1"
    using assms lfsr_at_65535 by (simp add: prbs_state_def funpow_add [symmetric, THEN fun_cong, unfolded comp_apply])
  have "(lfsr_next ^^ (65535 - i)) (prbs_state j) = (lfsr_next ^^ (j - i + 65535)) 1"
    using assms by (simp add: prbs_state_def add.commute funpow_add [symmetric, THEN fun_cong, unfolded comp_apply])
  also have "\<dots> = (lfsr_next ^^ (j - i)) 1" by (simp only: funpow_add comp_apply lfsr_at_65535)
  finally have "(lfsr_next ^^ (j - i)) 1 = 1" using a eq by simp
  then have "65535 \<le> j - i" using assms by (intro lfsr_order) auto
  with assms show False by simp
qed

lemma prbs_state_eq_iff:
  "i < PRBS_LEN \<Longrightarrow> j < PRBS_LEN \<Longrightarrow> prbs_state i = prbs_state j \<longleftrightarrow> i = j"
  using prbs_state_inj by (metis PRBS_LEN_def linorder_neqE_nat)

subsection \<open>The tables\<close>

lemma prbs_init_loop_lut:
  "fst (prbs_init_loop k n st (lut, pos)) i =
     (if n \<le> i \<and> i < n + k then prbs_sample ((lfsr_next ^^ (i - n)) st) else lut i)"
proof (induction k arbitrary: n st lut pos)
  case (Suc k)
  have "(lfsr_next ^^ (i - Suc n)) (lfsr_next st) = (lfsr_next ^^ (i - n)) st" if "Suc n \<le> i"
    using that funpow_swap1 [of lfsr_next "i - Suc n" st] by (simp add: Suc_diff_Suc [symmetric] del: Suc_diff_Suc)
  then show ?case using Suc by auto
qed auto

lemma prbs_init_loop_pos_other:
  "(\<forall>j < k. (lfsr_next ^^ j) st \<noteq> x) \<Longrightarrow> snd (prbs_init_loop k n st (lut, pos)) x = pos x"
proof (induction k arbitrary: n st lut pos)
  case (Suc k)
  have "\<forall>j < k. (lfsr_next ^^ j) (lfsr_next st) \<noteq> x"
    using Suc.prems by (auto simp: funpow_swap1 [symmetric] dest: spec [of _ "Suc _"])
  moreover have "st \<noteq> x" using Suc.prems by (auto dest: spec [of _ 0])
  ultimately show ?case using Suc.IH by simp
qed simp

lemma prbs_init_loop_pos:
  assumes "j < k" "\<forall>i < k. i \<noteq> j \<longrightarrow> (lfsr_next ^^ i) st \<noteq> (lfsr_next ^^ j) st"
  shows "snd (prbs_init_loop k n st (lut, pos)) ((lfsr_next ^^ j) st) = of_nat (n + j)"
  using assms
proof (induction k arbitrary: n st lut pos j)
  case (Suc k)
  show ?case
  proof (cases j)
    case 0
    then have "\<forall>i < k. (lfsr_next ^^ i) (lfsr_next st) \<noteq> st"
      using Suc.prems(2) by (auto simp: funpow_swap1 [symmetric] dest: spec [of _ "Suc _"])
    then show ?thesis using 0 prbs_init_loop_pos_other by simp
  next
    case (Suc j')
    have "\<forall>i < k. i \<noteq> j' \<longrightarrow> (lfsr_next ^^ i) (lfsr_next st) \<noteq> (lfsr_next ^^ j') (lfsr_next st)"
      using Suc.prems(2) Suc by (auto simp: funpow_swap1 [symmetric] dest: spec [of _ "Suc _"])
    from Suc.IH [OF _ this] show ?thesis using Suc Suc.prems(1) by (simp add: funpow_swap1)
  qed
qed simp

lemma prbs_lut_at: "n < PRBS_LEN \<Longrightarrow> fst prbs_init n = prbs_sample (prbs_state n)"
  by (simp add: prbs_init_def prbs_init_loop_lut prbs_state_def)

lemma prbs_pos_at: "n < PRBS_LEN \<Longrightarrow> snd prbs_init (prbs_state n) = of_nat n"
  using prbs_init_loop_pos [of n PRBS_LEN 1 0] prbs_state_eq_iff
  by (simp add: prbs_init_def prbs_state_def)

subsection \<open>Filling blocks\<close>

definition prbs_cycle :: "(nat \<Rightarrow> 'a) \<Rightarrow> nat \<Rightarrow> nat \<Rightarrow> 'a list" where
  "prbs_cycle lut p n = map (\<lambda>i. lut ((p + i) mod PRBS_LEN)) [0..<n]"

lemma length_prbs_cycle [simp]: "length (prbs_cycle lut p n) = n"
  by (simp add: prbs_cycle_def)

lemma prbs_cycle_split:
  "prbs_cycle lut p (a + b) = prbs_cycle lut p a @ prbs_cycle lut ((p + a) mod PRBS_LEN) b"
proof (rule nth_equalityI)
  fix i assume "i < length (prbs_cycle lut p (a + b))"
  then show "prbs_cycle lut p (a + b) ! i =
      (prbs_cycle lut p a @ prbs_cycle lut ((p + a) mod PRBS_LEN) b) ! i"
    by (auto simp: prbs_cycle_def nth_append mod_add_left_eq)
qed simp

lemma prbs_cycle_chunk:
  assumes "p + k \<le> PRBS_LEN"
  shows "map lut [p..<p + k] = prbs_cycle lut p k"
  using assms by (intro nth_equalityI) (auto simp: prbs_cycle_def)

lemma prbs_fill_block_cycle:
  "p < PRBS_LEN \<Longrightarrow>
   prbs_fill_block lut n p = Some (prbs_cycle lut p n, (p + n) mod PRBS_LEN)"
proof (induction lut n p rule: prbs_fill_block.induct)
  case (1 lut n p)
  show ?case
  proof (cases "n = 0")
    case True
    then show ?thesis using 1(2) by (simp add: prbs_fill_block.simps [of lut 0] prbs_cycle_def)
  next
    case False
    let ?c = "min (PRBS_LEN - p) n"
    have pos: "0 < PRBS_LEN" by (simp add: PRBS_LEN_def)
    have c: "p + ?c \<le> PRBS_LEN" "?c + (n - ?c) = n" using 1(2) by auto
    have "(p + ?c) mod PRBS_LEN < PRBS_LEN" using pos by simp
    with 1 False have ih: "prbs_fill_block lut (n - ?c) ((p + ?c) mod PRBS_LEN) =
      Some (prbs_cycle lut ((p + ?c) mod PRBS_LEN) (n - ?c), ((p + ?c) mod PRBS_LEN + (n - ?c)) mod PRBS_LEN)"
      by auto
    have "((p + ?c) mod PRBS_LEN + (n - ?c)) mod PRBS_LEN = (p + n) mod PRBS_LEN"
      using c(2) by (metis add.assoc mod_add_left_eq)
    moreover have "prbs_cycle lut p n = map lut [p..<p + ?c] @ prbs_cycle lut ((p + ?c) mod PRBS_LEN) (n - ?c)"
      unfolding prbs_cycle_chunk [OF c(1)] using prbs_cycle_split [of lut p ?c "n - ?c"] c(2) by simp
    ultimately show ?thesis
      using False 1(2) ih by (simp add: prbs_fill_block.simps [of lut n] Let_def)
  qed
qed

end
