(* ===== verification/Client.thy ===== *)
theory Client
  imports Axi_Driver Net Ring_Stream
begin

text \<open>
  The streaming application's access to the driver (\<^verbatim>\<open>driver.c\<close>, \<^verbatim>\<open>driver.h\<close>), its two data
  paths (\<^verbatim>\<open>rx.c\<close>, \<^verbatim>\<open>tx.c\<close>) and its statistics (\<^verbatim>\<open>stats.c\<close>). System calls are arguments:
  what each \<^verbatim>\<open>read\<close> or \<^verbatim>\<open>write\<close> on the device returns, what the socket calls return, and
  the mapped receive memory as it is when a block is sent. A list of them that runs out is
  a call that has not returned: the outcome is then \<open>Waiting\<close>.
\<close>

subsection \<open>The driver handle\<close>

definition SAMPLE_SIZE :: nat where "SAMPLE_SIZE = 4"
definition TXRX_PREFILL_SAMPLES :: u32 where "TXRX_PREFILL_SAMPLES = 16384 * 128"

record driver =
  d_fd :: int
  d_rx_buf_size :: u32
  d_tx_buf_size :: u32
  d_block_size :: u32

text \<open>
  The results of the three ioctls, in the order they are made; \<open>None\<close> is an error and ends
  the sequence. The last component lists the descriptors closed.
\<close>

definition driver_open ::
  "int \<Rightarrow> u32 option \<Rightarrow> u32 option \<Rightarrow> u32 option \<Rightarrow> driver \<Rightarrow> int \<times> driver \<times> int list" where
  "driver_open fd rx tx blk drv =
     (let d0 = drv\<lparr>d_fd := fd\<rparr> in
      if fd < 0 then (-1, d0, [])
      else
        let fail = (\<lambda>d. (-1, d\<lparr>d_fd := -1\<rparr>, [fd]))
        in case rx of None \<Rightarrow> fail d0 | Some r \<Rightarrow>
           (let d1 = d0\<lparr>d_rx_buf_size := r\<rparr> in
            case tx of None \<Rightarrow> fail d1 | Some t \<Rightarrow>
            (let d2 = d1\<lparr>d_tx_buf_size := t\<rparr> in
             case blk of None \<Rightarrow> fail d2 | Some b \<Rightarrow> (0, d2\<lparr>d_block_size := b\<rparr>, []))))"

definition driver_close :: "driver \<Rightarrow> driver \<times> int list" where
  "driver_close drv = (let fd = d_fd drv in (drv\<lparr>d_fd := -1\<rparr>, if 0 \<le> fd then [fd] else []))"

text \<open>\<^verbatim>\<open>sizeof(struct rx_read)\<close> is 12, \<^verbatim>\<open>sizeof(struct tx_write)\<close> is 4.\<close>

definition driver_rx_get_block :: "int \<times> axi_rx_read \<Rightarrow> axi_rx_read option" where
  "driver_rx_get_block res = (case res of (n, r) \<Rightarrow> if n \<noteq> 12 then None else Some r)"

definition driver_tx_put_block :: "int \<Rightarrow> bool" where
  "driver_tx_put_block n \<longleftrightarrow> n = 4"

definition driver_enable :: "int \<Rightarrow> bool" where
  "driver_enable ioctl_result \<longleftrightarrow> \<not> ioctl_result < 0"

subsection \<open>Statistics\<close>

record dir_stats =
  ds_bytes :: u64
  ds_overrun :: u64
  ds_buf_used :: u32
  ds_buf_size :: u32

text \<open>
  What \<^verbatim>\<open>format_dir\<close> prints, from its integer inputs: bytes since the last line, fill in
  percent, losses since the last line. \<open>None\<close> is a division by zero, \<open>Some None\<close> the empty
  line of an inactive direction. The rates divide the first number by the elapsed time.
\<close>

definition format_dir :: "dir_stats \<Rightarrow> u64 \<Rightarrow> u64 \<Rightarrow> (u64 \<times> u32 \<times> u64) option option" where
  "format_dir s prev_bytes prev_overrun =
     (if ds_buf_size s = 0 then Some None
      else do { buf_pct \<leftarrow> checked_div (ds_buf_used s) (ds_buf_size s div 100);
                Some (Some (ds_bytes s - prev_bytes, buf_pct, ds_overrun s - prev_overrun)) })"

type_synonym dir_line = "(u64 \<times> u32 \<times> u64) option"

text \<open>The lines of \<^verbatim>\<open>status_thread\<close>, from the two counters as they are each second.\<close>

fun status_lines ::
  "u64 \<times> u64 \<Rightarrow> u64 \<times> u64 \<Rightarrow> (dir_stats \<times> dir_stats) list \<Rightarrow> (dir_line \<times> dir_line) list option" where
  "status_lines prev_rx prev_tx [] = Some []"
| "status_lines prev_rx prev_tx ((rx, tx) # ss) =
     do { l1 \<leftarrow> format_dir rx (fst prev_rx) (snd prev_rx);
          l2 \<leftarrow> format_dir tx (fst prev_tx) (snd prev_tx);
          rest \<leftarrow> status_lines (ds_bytes rx, ds_overrun rx) (ds_bytes tx, ds_overrun tx) ss;
          Some ((if l1 = None \<and> l2 = None then [] else [(l1, l2)]) @ rest) }"

subsection \<open>Receiving\<close>

datatype 'a outcome = Waiting 'a | Failed 'a | Done 'a

definition rx_get_block ::
  "driver \<Rightarrow> int \<times> axi_rx_read \<Rightarrow> dir_stats \<Rightarrow> (axi_rx_read \<times> dir_stats) option" where
  "rx_get_block drv res st =
     (case driver_rx_get_block res of
        None \<Rightarrow> None
      | Some r \<Rightarrow>
          Some (r, st\<lparr>ds_buf_used := ringbuf_used (rx_rd r) (rx_hw_wr r) (d_rx_buf_size drv),
                      ds_overrun := ds_overrun st + ucast (rx_lost_bytes r)\<rparr>))"

text \<open>The number of blocks dropped by the receiver and prefilled by the transmitter.\<close>

definition prefill_blocks :: "u32 \<Rightarrow> u32" where
  "prefill_blocks block_size =
     (let prefill_bytes = TXRX_PREFILL_SAMPLES * 4 in (prefill_bytes + block_size - 1) div block_size)"

text \<open>One iteration's environment: the device's reply, the mapped memory, the socket calls.\<close>

record rx_iter =
  ri_read :: "int \<times> axi_rx_read"
  ri_mem :: "nat \<Rightarrow> u8"
  ri_send :: "io_result list"

fun rx_drop :: "driver \<Rightarrow> nat \<Rightarrow> rx_iter list \<Rightarrow> dir_stats \<Rightarrow> (dir_stats \<times> rx_iter list) outcome" where
  "rx_drop drv 0 its st = Done (st, its)"
| "rx_drop drv (Suc k) [] st = Waiting (st, [])"
| "rx_drop drv (Suc k) (it # its) st =
     (case rx_get_block drv (ri_read it) st of
        None \<Rightarrow> Failed (st, its)
      | Some (r, st1) \<Rightarrow> rx_drop drv k its st1)"

text \<open>The block the session hands to the socket: \<^verbatim>\<open>block_size\<close> bytes at \<^verbatim>\<open>map + r.rd\<close>.\<close>

definition rx_block :: "u32 \<Rightarrow> (nat \<Rightarrow> u8) \<Rightarrow> axi_rx_read \<Rightarrow> u8 list" where
  "rx_block bs mem r = map mem [unat (rx_rd r)..<unat (rx_rd r) + unat bs]"

fun rx_tcp_loop ::
  "driver \<Rightarrow> rx_iter list \<Rightarrow> dir_stats \<Rightarrow> u8 list \<Rightarrow> (dir_stats \<times> u8 list) outcome" where
  "rx_tcp_loop drv [] st sent = Waiting (st, sent)"
| "rx_tcp_loop drv (it # its) st sent =
     (case rx_get_block drv (ri_read it) st of
        None \<Rightarrow> Failed (st, sent)
      | Some (r, st1) \<Rightarrow>
          (case tcp_send (ri_send it) (rx_block (d_block_size drv) (ri_mem it) r) of
             None \<Rightarrow> Waiting (st1, sent)
           | Some (ret, bytes, _) \<Rightarrow>
               if ret < 0 then Failed (st1, sent @ bytes)
               else rx_tcp_loop drv its
                      (st1\<lparr>ds_bytes := ds_bytes st1 + ucast (d_block_size drv)\<rparr>) (sent @ bytes)))"

text \<open>
  \<open>combined\<close>: a transmit mode is active too, and the transmit thread enables the FPGA.
  Otherwise the session does it itself; \<open>enable\<close> is the ioctl's result.
\<close>

definition rx_tcp_session ::
  "driver \<Rightarrow> bool \<Rightarrow> int \<Rightarrow> rx_iter list \<Rightarrow> dir_stats \<Rightarrow> (dir_stats \<times> u8 list) outcome" where
  "rx_tcp_session drv combined enable its st =
     (if \<not> combined \<and> \<not> driver_enable enable then Failed (st, [])
      else case rx_drop drv (unat (prefill_blocks (d_block_size drv))) its st of
             Waiting (st1, _) \<Rightarrow> Waiting (st1, [])
           | Failed (st1, _) \<Rightarrow> Failed (st1, [])
           | Done (st1, its1) \<Rightarrow> rx_tcp_loop drv its1 st1 [])"

text \<open>The UDP path: it neither enables the FPGA nor drops blocks. \<open>sent\<close> is \<^verbatim>\<open>sendmmsg\<close>'s result.\<close>

fun rx_udp_loop ::
  "driver \<Rightarrow> ((int \<times> axi_rx_read) \<times> (nat \<Rightarrow> u8) \<times> int) list \<Rightarrow> dir_stats \<Rightarrow> udp_state \<Rightarrow>
     (dir_stats \<times> u8 list list) outcome option" where
  "rx_udp_loop drv [] st us = Some (Waiting (st, []))"
| "rx_udp_loop drv ((res, mem, sent) # its) st us =
     (case rx_get_block drv res st of
        None \<Rightarrow> Some (Failed (st, []))
      | Some (r, st1) \<Rightarrow>
          (case udp_send_ring sent (rx_block (d_block_size drv) mem r) us of
             None \<Rightarrow> None
           | Some (ret, us1, ms) \<Rightarrow>
               if ret < 0 then Some (Failed (st1, ms))
               else map_option (\<lambda>out. case out of
                        Waiting (s, ms') \<Rightarrow> Waiting (s, ms @ ms')
                      | Failed (s, ms') \<Rightarrow> Failed (s, ms @ ms')
                      | Done (s, ms') \<Rightarrow> Done (s, ms @ ms'))
                    (rx_udp_loop drv its (st1\<lparr>ds_bytes := ds_bytes st1 + ucast (d_block_size drv)\<rparr>) us1)))"

subsection \<open>Transmitting\<close>

text \<open>\<open>samples\<close>: the requested depth as the sample count it is converted to, if one was given.\<close>

definition tx_effective :: "u32 option \<Rightarrow> driver \<Rightarrow> u32" where
  "tx_effective samples drv =
     (case samples of
        None \<Rightarrow> d_tx_buf_size drv
      | Some n \<Rightarrow>
          let bs = d_block_size drv;
              effective = n * 4;
              effective = ((effective + bs - 1) div bs) * bs
          in if d_tx_buf_size drv < effective then d_tx_buf_size drv else effective)"

record tx_state =
  ts_map :: "nat \<Rightarrow> u8"
  ts_wr :: u32
  ts_puts :: "u32 list"
  ts_stats :: dir_stats

definition tx_advance :: "u32 \<Rightarrow> u32 \<Rightarrow> tx_state \<Rightarrow> tx_state" where
  "tx_advance bs map_size t =
     (let wr = adv_mod bs map_size (ts_wr t) in t\<lparr>ts_wr := wr, ts_puts := ts_puts t @ [wr]\<rparr>)"

text \<open>\<open>puts\<close> are the results of the \<^verbatim>\<open>write\<close> calls.\<close>

fun tx_prefill :: "u32 \<Rightarrow> u32 \<Rightarrow> nat \<Rightarrow> int list \<Rightarrow> tx_state \<Rightarrow> (tx_state \<times> int list) outcome" where
  "tx_prefill bs map_size 0 puts t = Done (t, puts)"
| "tx_prefill bs map_size (Suc k) puts t =
     (let t1 = tx_advance bs map_size
                 (t\<lparr>ts_map := write_block (unat (ts_wr t)) (replicate (unat bs) 0) (ts_map t)\<rparr>)
      in case puts of
           [] \<Rightarrow> Waiting (t1, [])
         | n # puts' \<Rightarrow> if driver_tx_put_block n then tx_prefill bs map_size k puts' t1
                        else Failed (t1, puts'))"

text \<open>One round of the loop: the socket calls that fill a block and the result of the \<^verbatim>\<open>write\<close>.\<close>

fun tx_loop :: "u32 \<Rightarrow> u32 \<Rightarrow> (recv_result list \<times> int) list \<Rightarrow> tx_state \<Rightarrow> tx_state outcome" where
  "tx_loop bs map_size [] t = Waiting t"
| "tx_loop bs map_size ((rs, n) # its) t =
     (case tcp_recv_full rs (unat bs) of
        None \<Rightarrow> Waiting t
      | Some (ret, got, _) \<Rightarrow>
          let t1 = t\<lparr>ts_map := write_block (unat (ts_wr t)) got (ts_map t)\<rparr>
          in if ret < 0 then Failed t1
             else let t2 = tx_advance bs map_size t1
                  in if driver_tx_put_block n
                     then tx_loop bs map_size its
                            (t2\<lparr>ts_stats := (ts_stats t2)\<lparr>ds_bytes := ds_bytes (ts_stats t2) + ucast bs\<rparr>\<rparr>)
                     else Failed t2)"

text \<open>
  The session once the receive side is known to be active. The result says whether the FPGA
  was enabled.
\<close>

definition tx_tcp_session ::
  "driver \<Rightarrow> u32 \<Rightarrow> int list \<Rightarrow> int \<Rightarrow> (recv_result list \<times> int) list \<Rightarrow> tx_state \<Rightarrow> tx_state outcome \<times> bool" where
  "tx_tcp_session drv map_size puts enable its t =
     (let bs = d_block_size drv in
      case tx_prefill bs map_size (unat (prefill_blocks bs)) puts (t\<lparr>ts_wr := 0\<rparr>) of
        Waiting (t1, _) \<Rightarrow> (Waiting t1, False)
      | Failed (t1, _) \<Rightarrow> (Failed t1, False)
      | Done (t1, _) \<Rightarrow>
          if driver_enable enable then (tx_loop bs map_size its t1, True) else (Failed t1, False))"

end
