(* ===== verification/Diag.thy ===== *)
theory Diag
  imports Prbs Client
begin

text \<open>
  The diagnostic modes, \<^verbatim>\<open>diag.c\<close>: the tone generator, the thread that feeds the transmit
  ring, the ring monitor, the memory benchmark, the loopback print-out and the PRBS
  checker. Samples are pairs of 16-bit words; a mapped buffer is a function from the sample
  index. What \<^verbatim>\<open>driver_rx_get_block\<close> returns is an argument, one value per call.
\<close>

subsection \<open>The tone\<close>

definition TONE_PERIOD :: nat where "TONE_PERIOD = 64"

text \<open>
  \<open>tone i\<close> is the sample libm's cosine and sine give for phase \<open>i\<close>. The copy loop runs over
  byte offsets in a \<^verbatim>\<open>uint32_t\<close>; an offset that would wrap makes it endless, and a buffer
  shorter than a period is overrun: both are \<open>None\<close>.
\<close>

function tone_copy :: "nat \<Rightarrow> nat \<Rightarrow> (nat \<Rightarrow> 'a) \<Rightarrow> (nat \<Rightarrow> 'a) option" where
  "tone_copy total_bytes off buf =
     (if total_bytes \<le> off then Some buf
      else if 4294967296 \<le> off + TONE_PERIOD * SAMPLE_SIZE then None
      else let period_bytes = TONE_PERIOD * SAMPLE_SIZE;
               chunk = min (total_bytes - off) period_bytes;
               buf' = (\<lambda>i. if off div SAMPLE_SIZE \<le> i \<and> i < (off + chunk) div SAMPLE_SIZE
                           then buf (i - off div SAMPLE_SIZE) else buf i)
           in tone_copy total_bytes (off + period_bytes) buf')"
  by pat_completeness auto
termination
  by (relation "measure (\<lambda>(t, off, buf). t - off)") (auto simp: TONE_PERIOD_def SAMPLE_SIZE_def)

declare tone_copy.simps [simp del]

definition tx_generate_tone ::
  "(nat \<Rightarrow> 'a) \<Rightarrow> (nat \<Rightarrow> 'a) \<Rightarrow> u32 \<Rightarrow> (nat \<Rightarrow> 'a) option" where
  "tx_generate_tone tone buf num_samples =
     (if unat num_samples < TONE_PERIOD then None
      else tone_copy (unat (num_samples * 4)) (TONE_PERIOD * SAMPLE_SIZE)
             (\<lambda>i. if i < TONE_PERIOD then tone i else buf i))"

subsection \<open>The feeder thread\<close>

record feeder =
  f_wr :: u32
  f_prbs_p :: nat
  f_map :: "nat \<Rightarrow> prbs_iq"
  f_bytes :: u64

text \<open>One round; \<open>put\<close> says whether \<^verbatim>\<open>driver_tx_put_block\<close> succeeded, the result whether the loop goes on.\<close>

definition feeder_step ::
  "(nat \<Rightarrow> prbs_iq) \<Rightarrow> bool \<Rightarrow> u32 \<Rightarrow> u32 \<Rightarrow> bool \<Rightarrow> feeder \<Rightarrow> (feeder \<times> bool) option" where
  "feeder_step lut prbs block_size buf_size put f =
     do { f1 \<leftarrow> (if prbs then
                  map_option (\<lambda>(xs, p). f\<lparr>f_map := write_block (unat (f_wr f) div SAMPLE_SIZE) xs (f_map f),
                                          f_prbs_p := p\<rparr>)
                    (prbs_fill_block lut (unat block_size div SAMPLE_SIZE) (f_prbs_p f))
                else Some f);
          f2 \<leftarrow> Some (f1\<lparr>f_wr := adv_mod block_size buf_size (f_wr f1)\<rparr>);
          Some (if put then (f2\<lparr>f_bytes := f_bytes f2 + ucast block_size\<rparr>, True) else (f2, False)) }"

fun tx_feeder_thread ::
  "(nat \<Rightarrow> prbs_iq) \<Rightarrow> bool \<Rightarrow> u32 \<Rightarrow> u32 \<Rightarrow> bool list \<Rightarrow> feeder \<Rightarrow> feeder option" where
  "tx_feeder_thread lut prbs bs sz [] f = Some f"
| "tx_feeder_thread lut prbs bs sz (put # puts) f =
     (case feeder_step lut prbs bs sz put f of
        None \<Rightarrow> None
      | Some (f1, go) \<Rightarrow> if go then tx_feeder_thread lut prbs bs sz puts f1 else Some f1)"

definition feeder_init :: "(nat \<Rightarrow> prbs_iq) \<Rightarrow> feeder" where
  "feeder_init mem = \<lparr>f_wr = 0, f_prbs_p = 0, f_map = mem, f_bytes = 0\<rparr>"

subsection \<open>Monitor, benchmark, loopback\<close>

datatype diag_line =
    Ring_line u32 u32 u32 u32
  | First_word u32
  | No_new_data
  | Loop_line u32 u32 u32 u32 "prbs_iq list"
  | Copied_line u64
  | Err_line nat u16 u16
  | Prbs_line u64 u64 u64

text \<open>\<open>None\<close>: the percentage divides by zero.\<close>

definition diag_test_line :: "u32 \<Rightarrow> (nat \<Rightarrow> u32) \<Rightarrow> axi_rx_read \<Rightarrow> diag_line list option" where
  "diag_test_line rx_buf_size m r =
     (let used = ringbuf_used (rx_rd r) (rx_hw_wr r) rx_buf_size in
      do { pct \<leftarrow> checked_div used (rx_buf_size div 100);
           Some [Ring_line (rx_rd r) (rx_hw_wr r) used pct,
                 if rx_hw_wr r \<noteq> rx_rd r then First_word (m (unat (rx_rd r) div 4)) else No_new_data] })"

fun diag_test :: "u32 \<Rightarrow> (nat \<Rightarrow> u32) \<Rightarrow> axi_rx_read option list \<Rightarrow> (int \<times> diag_line list) option" where
  "diag_test sz m [] = Some (0, [])"
| "diag_test sz m (None # rs) = Some (1, [])"
| "diag_test sz m (Some r # rs) =
     do { l \<leftarrow> diag_test_line sz m r;
          (ret, ls) \<leftarrow> diag_test sz m rs;
          Some (ret, l @ ls) }"

text \<open>The offsets one pass of the benchmark copies 64 KiB from.\<close>

definition membench_offsets :: "size_t \<Rightarrow> nat list" where
  "membench_offsets rx_buf_size = map (\<lambda>k. k * 65536) [0..<(unat rx_buf_size + 65535) div 65536]"

fun diag_membench :: "size_t \<Rightarrow> nat \<Rightarrow> u64 \<Rightarrow> nat list \<times> u64" where
  "diag_membench sz 0 total_bytes = ([], total_bytes)"
| "diag_membench sz (Suc loops) total_bytes =
     (let (offs, t) = diag_membench sz loops (total_bytes + ucast sz) in (membench_offsets sz @ offs, t))"

fun diag_loopback :: "(nat \<Rightarrow> prbs_iq) list \<Rightarrow> axi_rx_read option list \<Rightarrow> u32 \<Rightarrow> diag_line list" where
  "diag_loopback (map1 # maps) (Some r # rs) count =
     (if count mod 16 = 0 then
        [Loop_line count (rx_rd r) (rx_hw_wr r) (rx_lost_bytes r)
           (map (\<lambda>i. map1 (unat (rx_rd r) div SAMPLE_SIZE + i)) [0..<8])]
      else []) @ diag_loopback maps rs (count + 1)"
| "diag_loopback maps rs count = []"

subsection \<open>The PRBS checker\<close>

definition cmp_range :: "(nat \<Rightarrow> 'a) \<Rightarrow> nat \<Rightarrow> (nat \<Rightarrow> 'a) \<Rightarrow> nat \<Rightarrow> nat \<Rightarrow> bool" where
  "cmp_range blk s lut p n \<longleftrightarrow> list_all (\<lambda>i. blk (s + i) = lut (p + i)) [0..<n]"

text \<open>The bisection for the first sample that differs, from \<^verbatim>\<open>lo\<close> and \<^verbatim>\<open>hi\<close>.\<close>

function prbs_bisect :: "(nat \<Rightarrow> 'a) \<Rightarrow> nat \<Rightarrow> (nat \<Rightarrow> 'a) \<Rightarrow> nat \<Rightarrow> nat \<Rightarrow> nat \<Rightarrow> nat" where
  "prbs_bisect blk s lut p lo hi =
     (if hi - lo \<le> 1 then lo
      else let mid = lo + (hi - lo) div 2 in
           if cmp_range blk (s + lo) lut (p + lo) (mid - lo)
           then prbs_bisect blk s lut p mid hi
           else prbs_bisect blk s lut p lo mid)"
  by pat_completeness auto
termination
  by (relation "measure (\<lambda>(blk, s, lut, p, lo, hi). hi - lo)") auto

declare prbs_bisect.simps [simp del]

datatype block_result = Block_ok nat | Block_error nat nat

text \<open>
  One block against the table from position \<open>p\<close>: the next position, or the sample index and
  the table position of the first difference.
\<close>

function check_block :: "(nat \<Rightarrow> 'a) \<Rightarrow> (nat \<Rightarrow> 'a) \<Rightarrow> nat \<Rightarrow> nat \<Rightarrow> nat \<Rightarrow> block_result option" where
  "check_block lut blk num_samples s p =
     (if num_samples \<le> s then Some (Block_ok p)
      else if PRBS_LEN \<le> p then None
      else let chunk = min (PRBS_LEN - p) (num_samples - s) in
           if cmp_range blk s lut p chunk
           then check_block lut blk num_samples (s + chunk) ((p + chunk) mod PRBS_LEN)
           else let i = prbs_bisect blk s lut p 0 chunk in Some (Block_error (s + i) (p + i)))"
  by pat_completeness auto
termination
  by (relation "measure (\<lambda>(lut, blk, n, s, p). n - s)") auto

declare check_block.simps [simp del]

text \<open>
  One event per \<^verbatim>\<open>driver_rx_get_block\<close>: the reply, the samples at \<^verbatim>\<open>r.rd\<close>, and whether the
  second's report is due when the block is done.
\<close>

record prbs_event =
  pe_r :: axi_rx_read
  pe_blk :: "nat \<Rightarrow> prbs_iq"
  pe_report :: bool

record prbs_diag =
  pd_pos :: "nat option"
  pd_errors :: u64
  pd_total :: u64
  pd_samples :: u64
  pd_out :: "diag_line list"

definition prbs_diag_init :: prbs_diag where
  "prbs_diag_init = \<lparr>pd_pos = None, pd_errors = 0, pd_total = 0, pd_samples = 0, pd_out = []\<rparr>"

text \<open>Catching up after an error: blocks are fetched until at most two are waiting.\<close>

fun prbs_catch_up ::
  "u32 \<Rightarrow> u32 \<Rightarrow> prbs_event \<Rightarrow> prbs_event list \<Rightarrow> (prbs_event \<times> prbs_event list) option" where
  "prbs_catch_up bs sz e evs =
     (if bs * 2 < ringbuf_used (rx_rd (pe_r e)) (rx_hw_wr (pe_r e)) sz then
        (case evs of [] \<Rightarrow> None | e' # evs' \<Rightarrow> prbs_catch_up bs sz e' evs')
      else Some (e, evs))"

declare prbs_catch_up.simps [simp del]

lemma prbs_catch_up_length:
  "prbs_catch_up bs sz e evs = Some (e', evs') \<Longrightarrow> length evs' \<le> length evs"
proof (induction bs sz e evs rule: prbs_catch_up.induct)
  case (1 bs sz e evs)
  show ?case
  proof (cases "bs * 2 < ringbuf_used (rx_rd (pe_r e)) (rx_hw_wr (pe_r e)) sz")
    case True
    with 1(2) obtain x xs where "evs = x # xs" "prbs_catch_up bs sz x xs = Some (e', evs')"
      by (auto simp: prbs_catch_up.simps [of bs sz e evs] split: list.splits)
    then show ?thesis using 1(1) [OF True] by fastforce
  next
    case False
    then show ?thesis using 1(2) by (simp add: prbs_catch_up.simps [of bs sz e evs])
  qed
qed

definition prbs_sync :: "(u16 \<Rightarrow> u16) \<Rightarrow> (nat \<Rightarrow> prbs_iq) \<Rightarrow> nat option" where
  "prbs_sync pos blk =
     (let st = prbs_state_from_iq (drop_bit 4 (iq_i (blk 0))) (drop_bit 4 (iq_q (blk 0)))
      in if st \<noteq> 0 then Some (unat (pos st)) else None)"

definition prbs_report :: "bool \<Rightarrow> u32 \<Rightarrow> prbs_diag \<Rightarrow> prbs_diag" where
  "prbs_report due num_samples d =
     (let d1 = d\<lparr>pd_samples := pd_samples d + ucast num_samples\<rparr> in
      if due then
        let t = pd_total d1 + pd_errors d1
        in d1\<lparr>pd_total := t, pd_errors := 0, pd_samples := 0,
              pd_out := pd_out d1 @ [Prbs_line (pd_samples d1) (pd_errors d1) t]\<rparr>
      else d1)"

text \<open>A bad block: the error line (the first one since the last report) and the count.\<close>

definition prbs_error ::
  "(nat \<Rightarrow> prbs_iq) \<Rightarrow> (nat \<Rightarrow> prbs_iq) \<Rightarrow> nat \<Rightarrow> nat \<Rightarrow> prbs_diag \<Rightarrow> prbs_diag" where
  "prbs_error lut blk s p d =
     d\<lparr>pd_out := pd_out d @
         (if pd_errors d = 0
          then [Err_line p (drop_bit 4 (iq_i (blk s))) (drop_bit 4 (iq_i (lut p)))] else []),
       pd_errors := pd_errors d + 1, pd_pos := None\<rparr>"

text \<open>The result is \<open>None\<close> when a table is read out of bounds.\<close>

function diag_prbs_loop ::
  "(nat \<Rightarrow> prbs_iq) \<times> (u16 \<Rightarrow> u16) \<Rightarrow> u32 \<Rightarrow> u32 \<Rightarrow> prbs_event list \<Rightarrow> prbs_diag \<Rightarrow> prbs_diag option" where
  "diag_prbs_loop tabs bs sz [] d = Some d"
| "diag_prbs_loop tabs bs sz (e # evs) d =
     (let num_samples = bs div 4;
          pos = (case pd_pos d of None \<Rightarrow> prbs_sync (snd tabs) (pe_blk e) | Some p \<Rightarrow> Some p)
      in case pos of
           None \<Rightarrow> diag_prbs_loop tabs bs sz evs d
         | Some p \<Rightarrow>
             (case check_block (fst tabs) (pe_blk e) (unat num_samples) 0 p of
                None \<Rightarrow> None
              | Some (Block_ok p') \<Rightarrow>
                  diag_prbs_loop tabs bs sz evs
                    (prbs_report (pe_report e) num_samples (d\<lparr>pd_pos := Some p'\<rparr>))
              | Some (Block_error s q) \<Rightarrow>
                  let d1 = prbs_error (fst tabs) (pe_blk e) s q d
                  in case prbs_catch_up bs sz e evs of
                       None \<Rightarrow> Some d1
                     | Some (e', evs') \<Rightarrow>
                         diag_prbs_loop tabs bs sz evs' (prbs_report (pe_report e') num_samples d1)))"
  by pat_completeness auto
termination
  by (relation "measure (\<lambda>(tabs, bs, sz, evs, d). length evs)")
    (auto simp: less_Suc_eq_le dest: prbs_catch_up_length)

end
