(* ===== verification/Diag_Props.thy ===== *)
theory Diag_Props
  imports Diag
begin

text \<open>
  What the diagnostics promise: the samples tell the checker exactly where in the sequence
  it is, a clean loop is never reported as an error, an error is reported at the first
  sample that differs, and the transmit ring holds the sequence (or the tone) without a
  seam.
\<close>

subsection \<open>The sequence\<close>

text \<open>
  A received sample identifies its place: for every position of the table, the state
  recovered from the sample there, looked up in the inverse table, gives the position
  back. This needs the shift register to pass through 65535 different states.
\<close>

theorem prbs_sample_gives_position:
  assumes "n < PRBS_LEN"
  shows "unat (snd prbs_init (prbs_state_from_iq (drop_bit 4 (iq_i (fst prbs_init n)))
           (drop_bit 4 (iq_q (fst prbs_init n))))) = n"
proof -
  have "n < 65536" using assms by (simp add: PRBS_LEN_def)
  then show ?thesis
    using assms by (simp add: prbs_lut_at prbs_state_of_sample prbs_pos_at unat_of_nat)
qed

theorem prbs_sample_gives_position_witness:
  "unat (snd prbs_init (prbs_state_from_iq (drop_bit 4 (iq_i (fst prbs_init 40000)))
     (drop_bit 4 (iq_q (fst prbs_init 40000))))) = 40000"
  by (rule prbs_sample_gives_position) (simp add: PRBS_LEN_def)

lemma prbs_state_nonzero:
  assumes "n < PRBS_LEN"
  shows "prbs_state n \<noteq> 0"
proof
  assume "prbs_state n = 0"
  then have "(lfsr_next ^^ (65535 - n)) ((lfsr_next ^^ n) 1) = (lfsr_next ^^ (65535 - n)) 0"
    by (simp add: prbs_state_def)
  also have "(lfsr_next ^^ m) 0 = 0" for m
    using linear_zero [OF linear_lfsr] .
  also have "(lfsr_next ^^ (65535 - n)) ((lfsr_next ^^ n) 1) = 1"
    using assms lfsr_at_65535 by (simp add: PRBS_LEN_def funpow_add [symmetric, THEN fun_cong, unfolded comp_apply])
  finally show False by simp
qed

text \<open>
  C12. The register runs through every non-zero state before it repeats: \<^verbatim>\<open>PRBS_LEN\<close> is the
  period, and the inverse table has an entry for each state a receiver can recover.
\<close>

theorem prbs_maximal_period:
  "prbs_state ` {0..<PRBS_LEN} = UNIV - {0} \<and> inj_on prbs_state {0..<PRBS_LEN} \<and>
   lfsr_next (prbs_state (PRBS_LEN - 1)) = prbs_state 0"
proof (intro conjI)
  show inj: "inj_on prbs_state {0..<PRBS_LEN}" by (rule inj_onI) (simp add: prbs_state_eq_iff)
  have nz: "prbs_state n \<noteq> 0" if "n < PRBS_LEN" for n using that by (rule prbs_state_nonzero)
  have "card (prbs_state ` {0..<PRBS_LEN}) = 65535" using inj by (simp add: card_image PRBS_LEN_def)
  moreover have "card (UNIV - {0} :: u16 set) = 65535" by (simp add: card_word)
  moreover have "prbs_state ` {0..<PRBS_LEN} \<subseteq> UNIV - {0}" using nz by auto
  ultimately show "prbs_state ` {0..<PRBS_LEN} = UNIV - {0}" by (intro card_subset_eq) simp_all
  have "lfsr_next (prbs_state (PRBS_LEN - 1)) = (lfsr_next ^^ Suc (PRBS_LEN - 1)) 1"
    by (simp add: prbs_state_def)
  also have "Suc (PRBS_LEN - 1) = 65535" by (simp add: PRBS_LEN_def)
  also have "(lfsr_next ^^ 65535) 1 = prbs_state 0" using lfsr_at_65535 by (simp add: prbs_state_def)
  finally show "lfsr_next (prbs_state (PRBS_LEN - 1)) = prbs_state 0" .
qed

subsection \<open>The checker\<close>

lemma cmp_range_iff: "cmp_range blk s lut p n \<longleftrightarrow> (\<forall>i < n. blk (s + i) = lut (p + i))"
  by (auto simp: cmp_range_def list_all_iff)

lemma cmp_rangeD:
  assumes "cmp_range blk s lut p n" "s \<le> i" "i < s + n"
  shows "blk i = lut (p + (i - s))"
proof -
  obtain k where "i = s + k" "k < n" using assms(2,3) by (auto simp: le_iff_add)
  then show ?thesis using assms(1) unfolding cmp_range_iff by simp
qed

lemma prbs_bisect_first:
  assumes "lo < hi" "\<forall>i < lo. blk (s + i) = lut (p + i)"
    "\<exists>i. lo \<le> i \<and> i < hi \<and> blk (s + i) \<noteq> lut (p + i)"
  shows "let k = prbs_bisect blk s lut p lo hi
         in k < hi \<and> blk (s + k) \<noteq> lut (p + k) \<and> (\<forall>i < k. blk (s + i) = lut (p + i))"
  using assms
proof (induction blk s lut p lo hi rule: prbs_bisect.induct)
  case (1 blk s lut p lo hi)
  show ?case
  proof (cases "hi - lo \<le> 1")
    case True
    then have "hi = Suc lo" using 1(3) by simp
    then have "blk (s + lo) \<noteq> lut (p + lo)" using 1(5) by (auto simp: less_Suc_eq)
    then show ?thesis using True 1(3,4) by (simp add: prbs_bisect.simps [of blk s lut p lo hi])
  next
    case False
    let ?mid = "lo + (hi - lo) div 2"
    have mid: "lo < ?mid" "?mid < hi" using False by auto
    show ?thesis
    proof (cases "cmp_range blk (s + lo) lut (p + lo) (?mid - lo)")
      case True
      then have lo_mid: "blk (s + i) = lut (p + i)" if "lo \<le> i" "i < ?mid" for i
        using cmp_rangeD [OF True, of "s + i"] that by simp
      have "\<forall>i < ?mid. blk (s + i) = lut (p + i)" using lo_mid 1(4) by (metis linorder_not_less)
      moreover have "\<exists>i. ?mid \<le> i \<and> i < hi \<and> blk (s + i) \<noteq> lut (p + i)"
        using 1(5) lo_mid by (metis linorder_not_less)
      ultimately show ?thesis
        using 1(1) [OF False refl True mid(2)] True False
        by (simp add: prbs_bisect.simps [of blk s lut p lo hi] Let_def)
    next
      case False': False
      then obtain j where "j < ?mid - lo" "blk (s + lo + j) \<noteq> lut (p + lo + j)"
        unfolding cmp_range_iff by blast
      then have "\<exists>i. lo \<le> i \<and> i < ?mid \<and> blk (s + i) \<noteq> lut (p + i)"
        by (intro exI [of _ "lo + j"]) (auto simp: add.assoc)
      then show ?thesis
        using 1(2) [OF False refl False' mid(1) 1(4)] False False' mid(2)
        by (auto simp: prbs_bisect.simps [of blk s lut p lo hi] Let_def)
    qed
  qed
qed

definition check_spec :: "(nat \<Rightarrow> 'a) \<Rightarrow> (nat \<Rightarrow> 'a) \<Rightarrow> nat \<Rightarrow> nat \<Rightarrow> nat \<Rightarrow> block_result option \<Rightarrow> bool" where
  "check_spec lut blk n s p r \<longleftrightarrow>
     (case r of
        None \<Rightarrow> False
      | Some (Block_ok p') \<Rightarrow> p' = (p + (n - s)) mod PRBS_LEN \<and>
          (\<forall>i. s \<le> i \<longrightarrow> i < n \<longrightarrow> blk i = lut ((p + (i - s)) mod PRBS_LEN))
      | Some (Block_error k q) \<Rightarrow> s \<le> k \<and> k < n \<and> q = (p + (k - s)) mod PRBS_LEN \<and> blk k \<noteq> lut q \<and>
          (\<forall>i. s \<le> i \<longrightarrow> i < k \<longrightarrow> blk i = lut ((p + (i - s)) mod PRBS_LEN)))"

lemma shift_mod:
  "s + c \<le> i \<Longrightarrow> ((p + c) mod L + (i - (s + c))) mod L = (p + (i - s)) mod L" for s c i p L :: nat
proof -
  assume "s + c \<le> i"
  then obtain d where "i = s + c + d" using le_Suc_ex by blast
  then show ?thesis by (simp add: mod_add_left_eq add.assoc)
qed

lemma check_spec_extend:
  assumes "s + c \<le> n" "\<And>i. s \<le> i \<Longrightarrow> i < s + c \<Longrightarrow> blk i = lut ((p + (i - s)) mod PRBS_LEN)"
    and "check_spec lut blk n (s + c) ((p + c) mod PRBS_LEN) r"
  shows "check_spec lut blk n s p r"
proof -
  have all: "blk i = lut ((p + (i - s)) mod PRBS_LEN)"
    if "s \<le> i" "\<And>i. s + c \<le> i \<Longrightarrow> i < m \<Longrightarrow> blk i = lut (((p + c) mod PRBS_LEN + (i - (s + c))) mod PRBS_LEN)" "i < m"
    for i m
    using assms(2) [of i] that shift_mod [of s c i p PRBS_LEN] by (cases "i < s + c") auto
  show ?thesis
  proof (cases r)
    case (Some b)
    then show ?thesis
    proof (cases b)
      case (Block_ok p')
      then show ?thesis
        using assms(3) Some all [where m = n] shift_mod [OF assms(1), of p PRBS_LEN]
        by (simp add: check_spec_def)
    next
      case (Block_error k q)
      have k: "s + c \<le> k" "k < n" "blk k \<noteq> lut q"
        "q = ((p + c) mod PRBS_LEN + (k - (s + c))) mod PRBS_LEN"
        "\<And>i. s + c \<le> i \<Longrightarrow> i < k \<Longrightarrow> blk i = lut (((p + c) mod PRBS_LEN + (i - (s + c))) mod PRBS_LEN)"
      proof -
        have "s + c \<le> k \<and> k < n \<and> q = ((p + c) mod PRBS_LEN + (k - (s + c))) mod PRBS_LEN \<and> blk k \<noteq> lut q \<and>
          (\<forall>i. s + c \<le> i \<longrightarrow> i < k \<longrightarrow> blk i = lut (((p + c) mod PRBS_LEN + (i - (s + c))) mod PRBS_LEN))"
          using assms(3) unfolding Some Block_error check_spec_def unfolding option.case block_result.case .
        then show "s + c \<le> k" "k < n" "blk k \<noteq> lut q" "q = ((p + c) mod PRBS_LEN + (k - (s + c))) mod PRBS_LEN"
          "\<And>i. s + c \<le> i \<Longrightarrow> i < k \<Longrightarrow> blk i = lut (((p + c) mod PRBS_LEN + (i - (s + c))) mod PRBS_LEN)"
          by blast+
      qed
      have "q = (p + (k - s)) mod PRBS_LEN" unfolding k(4) by (rule shift_mod [OF k(1)])
      moreover have "s \<le> k" using k(1) by simp
      ultimately show ?thesis
        using k(2,3) all [OF _ k(5)] unfolding Some Block_error check_spec_def by simp
    qed
  qed (use assms(3) in \<open>simp add: check_spec_def\<close>)
qed

lemma check_block_correct:
  "p < PRBS_LEN \<Longrightarrow> s \<le> n \<Longrightarrow> check_spec lut blk n s p (check_block lut blk n s p)"
proof (induction lut blk n s p rule: check_block.induct)
  case (1 lut blk n s p)
  define c where "c = min (PRBS_LEN - p) (n - s)"
  show ?case
  proof (cases "n \<le> s")
    case True
    then show ?thesis using 1(2,3) by (simp add: check_block.simps [of lut blk s s p] check_spec_def)
  next
    case False
    have c: "0 < c" "p + c \<le> PRBS_LEN" "s + c \<le> n" using False 1(2) by (auto simp: c_def)
    have inside: "(p + (i - s)) mod PRBS_LEN = p + (i - s)" if "s \<le> i" "i < s + c" for i
      using that c by simp
    show ?thesis
    proof (cases "cmp_range blk s lut p c")
      case True
      have first: "blk i = lut ((p + (i - s)) mod PRBS_LEN)" if i: "s \<le> i" "i < s + c" for i
        using cmp_rangeD [OF True i] inside [OF i] by simp
      have "(p + c) mod PRBS_LEN < PRBS_LEN" by (simp add: PRBS_LEN_def)
      then have "check_spec lut blk n (s + c) ((p + c) mod PRBS_LEN) (check_block lut blk n (s + c) ((p + c) mod PRBS_LEN))"
        using 1(1) [OF False _ c_def True] 1(2) c(3) by simp
      from check_spec_extend [OF c(3) first this]
      show ?thesis
        using False True 1(2) by (simp add: check_block.simps [of lut blk n s p] Let_def c_def [symmetric])
    next
      case mismatch: False
      let ?k = "prbs_bisect blk s lut p 0 c"
      have "\<exists>i. 0 \<le> i \<and> i < c \<and> blk (s + i) \<noteq> lut (p + i)" using mismatch unfolding cmp_range_iff by auto
      from prbs_bisect_first [OF c(1) _ this]
      have k: "?k < c" "blk (s + ?k) \<noteq> lut (p + ?k)" "\<forall>i < ?k. blk (s + i) = lut (p + i)"
        by (simp_all add: Let_def)
      have e: "check_block lut blk n s p = Some (Block_error (s + ?k) (p + ?k))"
        using False mismatch 1(2) by (simp add: check_block.simps [of lut blk n s p] Let_def c_def [symmetric])
      have "blk i = lut ((p + (i - s)) mod PRBS_LEN)" if i: "s \<le> i" "i < s + ?k" for i
      proof -
        obtain d where d: "i = s + d" "d < ?k" using i by (auto simp: le_iff_add)
        then show ?thesis using k(1,3) inside [of i] by simp
      qed
      then show ?thesis
        unfolding e using k c inside [of "s + ?k"] by (simp add: check_spec_def)
    qed
  qed
qed

text \<open>
  C13. The block check is exact: it accepts a block exactly when every sample is the table's
  from the expected position on, across the table's end, and then moves the position by
  the block; otherwise it reports the first sample that differs, with its table position.
\<close>

theorem prbs_check_block_exact:
  assumes "p < PRBS_LEN"
  shows "check_block lut blk n 0 p = Some (Block_ok ((p + n) mod PRBS_LEN)) \<and>
           (\<forall>i < n. blk i = lut ((p + i) mod PRBS_LEN)) \<or>
         (\<exists>k < n. check_block lut blk n 0 p = Some (Block_error k ((p + k) mod PRBS_LEN)) \<and>
           blk k \<noteq> lut ((p + k) mod PRBS_LEN) \<and> (\<forall>i < k. blk i = lut ((p + i) mod PRBS_LEN)))"
  using check_block_correct [OF assms le0, where n = n and lut = lut and blk = blk]
  by (auto simp: check_spec_def split: option.splits block_result.splits)

theorem prbs_check_block_exact_witness:
  "check_block (\<lambda>i. i) (\<lambda>i. if i = 5 then 0 else i + 2) 8 0 2 = Some (Block_error 5 7)"
proof -
  define blk where "blk = (\<lambda>i :: nat. if i = 5 then 0 else i + 2)"
  have lt: "2 < PRBS_LEN" by (simp add: PRBS_LEN_def)
  have "\<not> (\<forall>i < 8. blk i = (2 + i) mod PRBS_LEN)"
    unfolding not_all by (rule exI [of _ 5]) (simp add: PRBS_LEN_def blk_def)
  with prbs_check_block_exact [OF lt, of "\<lambda>i. i" blk 8]
  obtain k where k: "k < 8" "check_block (\<lambda>i. i) blk 8 0 2 = Some (Block_error k ((2 + k) mod PRBS_LEN))"
    "blk k \<noteq> (2 + k) mod PRBS_LEN"
    by blast
  have "k = 5" using k(1,3) by (simp add: PRBS_LEN_def blk_def split: if_splits)
  then show ?thesis using k(2) unfolding blk_def by (simp add: PRBS_LEN_def)
qed

text \<open>A receiver that gets the sequence from position \<open>q\<close> on, block after block.\<close>

fun clean_stream :: "nat \<Rightarrow> nat \<Rightarrow> prbs_event list \<Rightarrow> bool" where
  "clean_stream num q [] \<longleftrightarrow> True"
| "clean_stream num q (e # evs) \<longleftrightarrow>
     list_all (\<lambda>i. pe_blk e i = fst prbs_init ((q + i) mod PRBS_LEN)) [0..<num] \<and>
     clean_stream num (q + num) evs"

lemma prbs_sync_clean:
  assumes "blk 0 = fst prbs_init n" "n < PRBS_LEN"
  shows "prbs_sync (snd prbs_init) blk = Some n"
proof -
  have "n < 65536" using assms(2) by (simp add: PRBS_LEN_def)
  then show ?thesis
    using assms prbs_state_nonzero [OF assms(2)]
    by (simp add: prbs_sync_def prbs_lut_at prbs_state_of_sample prbs_pos_at unat_of_nat)
qed

lemma check_block_clean:
  assumes "p < PRBS_LEN" "\<forall>i < n. blk i = lut ((p + i) mod PRBS_LEN)"
  shows "check_block lut blk n 0 p = Some (Block_ok ((p + n) mod PRBS_LEN))"
  using check_block_correct [OF assms(1) le0, where n = n and lut = lut and blk = blk] assms(2)
  by (auto simp: check_spec_def split: option.splits block_result.splits)

lemma diag_prbs_clean:
  assumes "0 < unat (bs div 4)" "clean_stream (unat (bs div 4)) q evs"
    "pd_pos d = None \<or> pd_pos d = Some (q mod PRBS_LEN)" "pd_errors d = 0" "pd_total d = 0"
  shows "\<exists>d'. diag_prbs_loop prbs_init bs sz evs d = Some d' \<and> pd_errors d' = 0 \<and> pd_total d' = 0"
  using assms(2-)
proof (induction evs arbitrary: q d)
  case Nil
  then show ?case by simp
next
  case (Cons e evs)
  let ?n = "unat (bs div 4)" and ?p = "q mod PRBS_LEN"
  have L: "?p < PRBS_LEN" by (simp add: PRBS_LEN_def)
  have blk: "\<forall>i < ?n. pe_blk e i = fst prbs_init ((?p + i) mod PRBS_LEN)"
    using Cons.prems(1) by (auto simp: list_all_iff mod_add_left_eq)
  have "pe_blk e 0 = fst prbs_init ?p" using blk assms(1) by (auto dest: spec [of _ 0])
  then have sync: "(case pd_pos d of None \<Rightarrow> prbs_sync (snd prbs_init) (pe_blk e) | Some p \<Rightarrow> Some p) = Some ?p"
    using Cons.prems(2) prbs_sync_clean [OF _ L] by auto
  let ?d = "prbs_report (pe_report e) (bs div 4) (d\<lparr>pd_pos := Some ((?p + ?n) mod PRBS_LEN)\<rparr>)"
  have step: "diag_prbs_loop prbs_init bs sz (e # evs) d = diag_prbs_loop prbs_init bs sz evs ?d"
    using sync check_block_clean [OF L blk] by (simp add: Let_def)
  have "pd_pos ?d = Some ((q + ?n) mod PRBS_LEN)" "pd_errors ?d = 0" "pd_total ?d = 0"
    using Cons.prems(3,4) by (auto simp: prbs_report_def Let_def mod_add_left_eq)
  then show ?case unfolding step using Cons.IH [of "q + ?n" ?d] Cons.prems(1) by simp
qed

text \<open>
  A clean loop is never reported as an error: if the received blocks are consecutive
  pieces of the sequence, starting anywhere in it, the checker synchronises on the first
  one and ends with no error counted and none in the running total.
\<close>

theorem prbs_clean_stream_no_errors:
  assumes "4 \<le> unat bs" and "clean_stream (unat (bs div 4)) q evs"
  shows "\<exists>d. diag_prbs_loop prbs_init bs sz evs prbs_diag_init = Some d \<and> pd_errors d = 0 \<and> pd_total d = 0"
proof (rule diag_prbs_clean [OF _ assms(2)])
  show "0 < unat (bs div 4)" using assms(1) by (simp add: unat_div_distrib)
qed (simp_all add: prbs_diag_init_def)

theorem prbs_clean_stream_no_errors_witness:
  "\<exists>d. diag_prbs_loop prbs_init 8 64
        [\<lparr>pe_r = \<lparr>rx_rd = 0, rx_hw_wr = 8, rx_lost_bytes = 0\<rparr>, pe_blk = (\<lambda>i. fst prbs_init (65534 * (1 - i))),
          pe_report = True\<rparr>] prbs_diag_init = Some d \<and> pd_errors d = 0 \<and> pd_total d = 0"
  by (rule prbs_clean_stream_no_errors [of _ 65534]) (simp_all add: upt_rec PRBS_LEN_def)

subsection \<open>The transmit ring\<close>

lemma ring_room:
  assumes "bs dvd n" "0 < n" "(b :: nat) dvd bs" "0 < b"
  shows "((k * bs) mod n) div b = (k * (bs div b)) mod (n div b)" "(k * bs) mod n + bs \<le> n"
proof -
  obtain q where q: "bs = b * q" using assms(3) by (auto simp: dvd_def)
  obtain r where r: "n = b * r" using assms(1,3) by (meson dvd_def dvd_trans)
  show "((k * bs) mod n) div b = (k * (bs div b)) mod (n div b)"
    using assms(4) by (simp add: q r mult.left_commute [of k b] mult_mod_right [symmetric])
  show "(k * bs) mod n + bs \<le> n"
    by (rule dvd_block_fits) (use assms in \<open>auto simp: dvd_mod\<close>)
qed

lemma feeder_round:
  assumes "unat bs dvd unat sz" "4 dvd unat bs" "0 < unat sz" "0 < unat bs"
    and "f_wr f = of_nat ((k * unat bs) mod unat sz)" "f_prbs_p f = (k * (unat bs div 4)) mod PRBS_LEN"
    and "ring_holds (\<lambda>j. lut (j mod PRBS_LEN)) (unat sz div 4) (k * (unat bs div 4)) (f_map f)"
  shows "\<exists>f'. feeder_step lut True bs sz True f = Some (f', True) \<and>
     f_wr f' = of_nat ((Suc k * unat bs) mod unat sz) \<and>
     f_prbs_p f' = (Suc k * (unat bs div 4)) mod PRBS_LEN \<and>
     ring_holds (\<lambda>j. lut (j mod PRBS_LEN)) (unat sz div 4) (Suc k * (unat bs div 4)) (f_map f')"
proof -
  let ?n = "unat bs div 4" and ?N = "unat sz div 4" and ?s = "\<lambda>j. lut (j mod PRBS_LEN)"
  have "4 \<le> unat sz" using assms(1-3) by (meson dvd_imp_le dvd_trans)
  then have pos: "0 < ?N" by simp
  have small: "(k * unat bs) mod unat sz < 4294967296"
    using assms(3) mod_less_divisor [of "unat sz" "k * unat bs"] unat_u32_lt [of sz] by linarith
  then have wr: "unat (f_wr f) = (k * unat bs) mod unat sz" by (simp add: assms(5) unat_of_nat)
  then have ob: "on_block bs sz (f_wr f)"
    using assms(1-4) by (auto simp: on_block_def word_nat dvd_mod)
  have at: "unat (f_wr f) div 4 = (k * ?n) mod ?N"
    using ring_room(1) [OF assms(1,3,2)] wr by simp
  have "4 dvd unat sz" by (rule dvd_trans [OF assms(2,1)])
  then have "?n dvd ?N" using assms(1,2) by (simp add: div_dvd_div)
  then have fits: "(k * ?n) mod ?N + ?n \<le> ?N"
    using ring_room(2) [of ?n ?N 1 k] pos by simp
  have "prbs_cycle lut ((k * ?n) mod PRBS_LEN) ?n = stream_slice ?s (k * ?n) (k * ?n + ?n)"
    by (intro nth_equalityI) (simp_all add: prbs_cycle_def stream_slice_def mod_add_left_eq)
  with ring_holds_block [OF assms(7) fits _ pos]
  have mem: "ring_holds ?s ?N (Suc k * ?n) (write_block ((k * ?n) mod ?N) (prbs_cycle lut ((k * ?n) mod PRBS_LEN) ?n) (f_map f))"
    by (simp add: add.commute)
  have "unat (adv_mod bs sz (f_wr f)) = (Suc k * unat bs) mod unat sz"
    using unat_adv_mod [OF ob] unfolding wr mod_add_left_eq by (simp add: add.commute)
  then have "adv_mod bs sz (f_wr f) = of_nat ((Suc k * unat bs) mod unat sz)" by (intro word_eq_of_nat)
  moreover have "(k * ?n) mod PRBS_LEN < PRBS_LEN" by (simp add: PRBS_LEN_def)
  ultimately show ?thesis
    using mem at assms(6)
    by (simp add: feeder_step_def prbs_fill_block_cycle SAMPLE_SIZE_def mod_add_left_eq mod_add_right_eq add.commute)
qed

lemma feeder_rounds:
  assumes "unat bs dvd unat sz" "4 dvd unat bs" "0 < unat sz" "0 < unat bs"
  shows "f_wr f = of_nat ((k * unat bs) mod unat sz) \<Longrightarrow>
     f_prbs_p f = (k * (unat bs div 4)) mod PRBS_LEN \<Longrightarrow>
     ring_holds (\<lambda>j. lut (j mod PRBS_LEN)) (unat sz div 4) (k * (unat bs div 4)) (f_map f) \<Longrightarrow>
     \<exists>f'. tx_feeder_thread lut True bs sz (replicate m True) f = Some f' \<and>
       f_wr f' = of_nat (((k + m) * unat bs) mod unat sz) \<and>
       ring_holds (\<lambda>j. lut (j mod PRBS_LEN)) (unat sz div 4) ((k + m) * (unat bs div 4)) (f_map f')"
proof (induction m arbitrary: k f)
  case (Suc m)
  obtain f1 where f1: "feeder_step lut True bs sz True f = Some (f1, True)"
    "f_wr f1 = of_nat ((Suc k * unat bs) mod unat sz)" "f_prbs_p f1 = (Suc k * (unat bs div 4)) mod PRBS_LEN"
    "ring_holds (\<lambda>j. lut (j mod PRBS_LEN)) (unat sz div 4) (Suc k * (unat bs div 4)) (f_map f1)"
    using feeder_round [OF assms Suc.prems] by blast
  from Suc.IH [OF f1(2-4)] show ?case using f1(1) by simp
qed simp

text \<open>
  C14. The feeder keeps the transmit ring a window on the pseudo-random sequence: after any
  number of blocks the ring holds the last ring-full of the sequence, without a seam at the
  end of the ring or at the end of the table.
\<close>

theorem feeder_ring_holds_sequence:
  assumes "unat bs dvd unat sz" "4 dvd unat bs" "0 < unat sz" "0 < unat bs"
  shows "\<exists>f. tx_feeder_thread lut True bs sz (replicate m True) (feeder_init mem) = Some f \<and>
     f_wr f = of_nat ((m * unat bs) mod unat sz) \<and>
     ring_holds (\<lambda>j. lut (j mod PRBS_LEN)) (unat sz div 4) (m * (unat bs div 4)) (f_map f)"
proof -
  have r: "ring_holds (\<lambda>j. lut (j mod PRBS_LEN)) (unat sz div 4) (0 * (unat bs div 4)) (f_map (feeder_init mem))"
    by (simp add: ring_holds_def)
  have w: "f_wr (feeder_init mem) = of_nat ((0 * unat bs) mod unat sz)"
    "f_prbs_p (feeder_init mem) = (0 * (unat bs div 4)) mod PRBS_LEN"
    by (simp_all add: feeder_init_def)
  from feeder_rounds [OF assms w r, of m] show ?thesis by simp
qed

theorem feeder_ring_holds_sequence_witness:
  "\<exists>f. tx_feeder_thread (fst prbs_init) True 65536 0x800000 (replicate 200 True)
         (feeder_init (\<lambda>_. \<lparr>iq_i = 0, iq_q = 0\<rparr>)) = Some f \<and>
     ring_holds (\<lambda>j. fst prbs_init (j mod PRBS_LEN)) (unat (0x800000 :: u32) div 4)
       (200 * (unat (65536 :: u32) div 4)) (f_map f)"
proof -
  have "unat (65536 :: u32) dvd unat (0x800000 :: u32)" "4 dvd unat (65536 :: u32)"
    "0 < unat (0x800000 :: u32)" "0 < unat (65536 :: u32)"
    by simp_all
  from feeder_ring_holds_sequence [OF this, of "fst prbs_init" 200 "\<lambda>_. \<lparr>iq_i = 0, iq_q = 0\<rparr>"]
  show ?thesis by blast
qed

subsection \<open>The tone and the benchmark\<close>

lemma tone_copy_periodic:
  assumes "4 * u \<le> 4294967040"
  shows "\<lbrakk>0 < m; \<forall>i. i < 64 * m \<longrightarrow> i < u \<longrightarrow> buf i = tone (i mod 64)\<rbrakk> \<Longrightarrow>
    \<exists>buf'. tone_copy (4 * u) (m * 256) buf = Some buf' \<and> (\<forall>i < u. buf' i = tone (i mod 64))"
proof (induction "u - 64 * m" arbitrary: m buf rule: less_induct)
  case less
  show ?case
  proof (cases "u \<le> 64 * m")
    case True
    then show ?thesis using less(3) by (auto simp: tone_copy.simps [of "4 * u" "m * 256" buf])
  next
    case False
    have nb: "\<not> 4294967296 \<le> m * 256 + 256" using False assms by linarith
    define buf1 where "buf1 = (\<lambda>i. if m * 256 div SAMPLE_SIZE \<le> i \<and>
        i < (m * 256 + min (4 * u - m * 256) (TONE_PERIOD * SAMPLE_SIZE)) div SAMPLE_SIZE
      then buf (i - m * 256 div SAMPLE_SIZE) else buf i)"
    have e: "tone_copy (4 * u) (m * 256) buf = tone_copy (4 * u) (Suc m * 256) buf1"
      using False nb by (simp add: tone_copy.simps [of "4 * u" "m * 256" buf] buf1_def Let_def
          TONE_PERIOD_def SAMPLE_SIZE_def add.commute)
    obtain d where "u = 64 * m + d" using False le_Suc_ex [of "64 * m" u] by auto
    then have "m * 256 + min (4 * u - m * 256) 256 = 4 * min u (64 * m + 64)" by (simp add: min_def)
    then have b: "buf1 i = (if 64 * m \<le> i \<and> i < min u (64 * m + 64) then buf (i - 64 * m) else buf i)" for i
      unfolding buf1_def by (simp add: TONE_PERIOD_def SAMPLE_SIZE_def)
    have "buf1 i = tone (i mod 64)" if i: "i < 64 * Suc m" "i < u" for i
    proof (cases "64 * m \<le> i")
      case True
      then obtain d where d: "i = 64 * m + d" using le_Suc_ex by blast
      then have "d < 64 * m" "d < u" "d < 64" using i less(2) by auto
      then show ?thesis using b [of i] less(3) i d by auto
    qed (use b [of i] less(3) i in auto)
    then show ?thesis
      unfolding e using less(1) [of "Suc m" buf1] False by simp
  qed
qed

text \<open>
  The tone fills the whole transmit buffer without a seam: sample \<open>i\<close> of the buffer is
  sample \<open>i mod 64\<close> of the period, for any buffer of at least one period.
\<close>

theorem tone_fills_buffer:
  assumes "64 \<le> unat num_samples" "unat num_samples \<le> 1073741760"
  shows "\<exists>buf'. tx_generate_tone tone buf num_samples = Some buf' \<and>
           (\<forall>i < unat num_samples. buf' i = tone (i mod 64))"
proof -
  have "unat (num_samples * 4) = 4 * unat num_samples" using assms(2) by (simp add: unat_times_lt)
  then show ?thesis
    using assms tone_copy_periodic [of "unat num_samples" 1 "\<lambda>i. if i < TONE_PERIOD then tone i else buf i" tone]
    by (auto simp: tx_generate_tone_def TONE_PERIOD_def SAMPLE_SIZE_def)
qed

theorem tone_fills_buffer_witness:
  "\<exists>buf'. tx_generate_tone (\<lambda>i. i) (\<lambda>_. 0) 2097152 = Some buf' \<and> buf' 100 = 36 \<and> buf' 2097151 = 63"
proof -
  obtain buf' where b: "tx_generate_tone (\<lambda>i. i) (\<lambda>_. 0) 2097152 = Some buf'"
    "\<forall>i < unat (2097152 :: u32). buf' i = i mod 64"
    using tone_fills_buffer [of 2097152 "\<lambda>i. i" "\<lambda>_. 0"] by auto
  have "buf' 100 = 36" "buf' 2097151 = 63" using b(2) by auto
  with b(1) show ?thesis by blast
qed

lemma round_up_le:
  fixes b n :: nat
  assumes "0 < b" "(n + (b - 1)) div b * b \<le> n"
  shows "b dvd n"
proof (rule ccontr)
  assume "\<not> b dvd n"
  then have r: "0 < n mod b" "n mod b < b" using assms(1) by (auto simp: dvd_eq_mod_eq_0)
  have "n div b * b + n mod b = n" by simp
  moreover have "(n div b + 1) * b = n div b * b + b" by simp
  ultimately have "(n div b + 1) * b \<le> n + (b - 1)" using r by linarith
  then have "n div b + 1 \<le> (n + (b - 1)) div b" using assms(1) by (simp add: less_eq_div_iff_mult_less_eq)
  then have "(n div b + 1) * b \<le> n" using assms(2) by (meson le_trans mult_le_mono1)
  then show False using r div_mult_mod_eq [of n b] by simp
qed

lemma blocks_fit_iff:
  fixes b n :: nat
  assumes "0 < b"
  shows "(\<forall>k < (n + (b - 1)) div b. k * b + b \<le> n) \<longleftrightarrow> b dvd n"
proof
  let ?m = "(n + (b - 1)) div b"
  assume all: "\<forall>k < ?m. k * b + b \<le> n"
  have "?m * b \<le> n"
  proof (cases ?m)
    case (Suc k)
    then have "k * b + b \<le> n" using all by simp
    then show ?thesis unfolding Suc by simp
  qed simp
  then show "b dvd n" by (rule round_up_le [OF assms])
next
  assume "b dvd n"
  then obtain q where q: "n = b * q" by (auto simp: dvd_def)
  have "(n + (b - 1)) div b = q"
  proof (rule div_nat_eqI)
    show "b * q \<le> n + (b - 1)" unfolding q by simp
    show "n + (b - 1) < b * Suc q" unfolding q using assms by simp
  qed
  moreover have "k * b + b \<le> n" if "k < q" for k
  proof -
    have "b * (k + 1) \<le> b * q" using that by (intro mult_le_mono2) simp
    then show ?thesis unfolding q by (simp add: algebra_simps)
  qed
  ultimately show "\<forall>k < (n + (b - 1)) div b. k * b + b \<le> n" by simp
qed

text \<open>
  The benchmark reads only the mapped ring exactly when the ring is a multiple of
  64 KiB; it does not check, and a ring of any other size is read past its end.
\<close>

theorem membench_in_bounds_iff:
  "list_all (\<lambda>off. off + 65536 \<le> unat sz) (membench_offsets sz) \<longleftrightarrow> 65536 dvd unat sz"
proof -
  have "list_all (\<lambda>off. off + 65536 \<le> unat sz) (membench_offsets sz) \<longleftrightarrow>
    (\<forall>k < (unat sz + 65535) div 65536. k * 65536 + 65536 \<le> unat sz)"
    unfolding membench_offsets_def list_all_iff by auto
  also have "\<dots> \<longleftrightarrow> 65536 dvd unat sz" using blocks_fit_iff [of 65536 "unat sz"] by simp
  finally show ?thesis .
qed

end
