(* ===== verification/Client_Props.thy ===== *)
theory Client_Props
  imports Client Axi_Props
begin

text \<open>
  The streaming application over the kernel driver: what a TCP receiver is sent when the
  device replies as the driver does, what the transmit ring holds when the FPGA is
  enabled and afterwards, and the size of the transmit ring.
\<close>

subsection \<open>The receive session over the driver\<close>

text \<open>
  A block of the reference run with its number \<open>i\<close> and the FPGA's position \<open>H\<close> when the
  driver replied is copied to the socket later than that. It is intact when the FPGA does
  not come round to a byte of it before that byte is copied.
\<close>

fun block_intact :: "(nat \<Rightarrow> u8) \<Rightarrow> nat \<Rightarrow> nat \<Rightarrow> rx_iter \<Rightarrow> nat \<times> nat \<times> nat \<Rightarrow> bool" where
  "block_intact s n bs it (i, k, H) \<longleftrightarrow>
     (\<forall>j. i * bs \<le> j \<and> j < i * bs + bs \<longrightarrow> copied_between s n H (j + n) (ri_mem it) (j mod n))"

definition blocks_of :: "(nat \<Rightarrow> 'a) \<Rightarrow> nat \<Rightarrow> nat list \<Rightarrow> 'a list" where
  "blocks_of s bs is = concat (map (\<lambda>i. stream_slice s (i * bs) (i * bs + bs)) is)"

text \<open>The block of a reply, when it was whole at that moment.\<close>

lemma rx_block_stream:
  assumes "0 < n" "n < 2147483648" "unat bs dvd n" "block_intact s n (unat bs) it (i, k, H)"
    and "(i + 1) * unat bs \<le> H"
  shows "rx_block bs (ri_mem it) (stream_reply (unat bs) n (i, k, H)) =
    stream_slice s (i * unat bs) (i * unat bs + unat bs)"
proof -
  have "i * unat bs mod n + unat bs \<le> n"
    using assms(1,3) by (intro dvd_block_fits) (auto simp: dvd_mod)
  then have "rx_block bs (ri_mem it) (stream_reply (unat bs) n (i, k, H)) =
      ring_slice n (ri_mem it) (i * unat bs mod n) (unat bs)"
    using assms(1,2) by (simp add: rx_block_def unat_ring_pos flat_slice)
  then show ?thesis using assms(4,5) copied_slice [of "i * unat bs" "unat bs" s n H] by simp
qed

lemma rx_drop_reads:
  "rx_drop drv k its st = Done (st', its') \<Longrightarrow> its' = drop k its \<and> k \<le> length its"
  by (induction drv k its st arbitrary: its' rule: rx_drop.induct) (auto split: option.splits)

definition sent_of :: "(dir_stats \<times> u8 list) outcome \<Rightarrow> u8 list" where
  "sent_of res = (case res of Waiting x \<Rightarrow> snd x | Failed x \<Rightarrow> snd x | Done x \<Rightarrow> snd x)"

lemma sent_of_simps [simp]:
  "sent_of (Waiting x) = snd x" "sent_of (Failed x) = snd x" "sent_of (Done x) = snd x"
  by (simp_all add: sent_of_def)

lemma rx_get_block_ok: "\<exists>st'. rx_get_block drv (12, r) st = Some (r, st')"
  by (simp add: rx_get_block_def driver_rx_get_block_def)

lemma rx_tcp_loop_stream:
  assumes n: "0 < n" "n < 2147483648" "unat (d_block_size drv) dvd n"
  shows "map ri_read its = map (Pair 12 \<circ> stream_reply (unat (d_block_size drv)) n) bl \<Longrightarrow>
    list_all2 (block_intact s n (unat (d_block_size drv))) its bl \<Longrightarrow>
    \<forall>(i, k, H) \<in> set bl. (i + 1) * unat (d_block_size drv) \<le> H \<Longrightarrow>
    \<exists>rest. sent @ blocks_of s (unat (d_block_size drv)) (map fst bl) =
           sent_of (rx_tcp_loop drv its st sent) @ rest"
proof (induction bl arbitrary: its st sent)
  case Nil
  then show ?case by simp
next
  case (Cons x bl)
  let ?bs = "unat (d_block_size drv)"
  obtain i k H where x: "x = (i, k, H)" by (cases x)
  let ?r = "stream_reply ?bs n (i, k, H)"
  obtain it its' where its: "its = it # its'" "ri_read it = (12, ?r)"
    "map ri_read its' = map (Pair 12 \<circ> stream_reply ?bs n) bl"
    using Cons.prems(1) x by (cases its) auto
  have hold: "block_intact s n ?bs it (i, k, H)" "list_all2 (block_intact s n ?bs) its' bl"
    using Cons.prems(2) its(1) x by simp_all
  have H: "(i + 1) * ?bs \<le> H" "\<forall>(i, k, H) \<in> set bl. (i + 1) * ?bs \<le> H"
    using Cons.prems(3) x by auto
  obtain st1 where get: "rx_get_block drv (ri_read it) st = Some (?r, st1)"
    using rx_get_block_ok its(2) by metis
  note blk = rx_block_stream [OF n hold(1) H(1)]
  let ?b = "stream_slice s (i * ?bs) (i * ?bs + ?bs)"
  have spl: "blocks_of s ?bs (map fst (x # bl)) = ?b @ blocks_of s ?bs (map fst bl)"
    by (simp add: blocks_of_def x)
  show ?case
  proof (cases "tcp_send (ri_send it) ?b")
    case None
    then show ?thesis using its(1) get blk by simp
  next
    case (Some y)
    obtain ret bytes os' where y: "y = (ret, bytes, os')" by (cases y)
    have pre: "\<exists>rest. ?b = bytes @ rest \<and> (ret = 0 \<longleftrightarrow> rest = []) \<and> (ret = 0 \<or> ret = -1)"
      using tcp_send_prefix Some y by blast
    show ?thesis
    proof (cases "ret < 0")
      case True
      then show ?thesis using its(1) get blk Some y pre spl by auto
    next
      case False
      then have "bytes = ?b" using pre by auto
      then show ?thesis
        using Cons.IH [OF its(3) hold(2) H(2), of "sent @ ?b"] its(1) get blk Some y False spl by simp
    qed
  qed
qed

text \<open>
  What the client needs of the device, whatever provides it: a ring of whole blocks, and
  replies for whole blocks of a stream at their places in the ring.
\<close>

locale block_source =
  fixes source :: "u32 \<Rightarrow> nat \<Rightarrow> (nat \<times> nat \<times> nat) list \<Rightarrow> axi_rx_read list \<Rightarrow> bool"
  assumes ring_size: "source bs n bl rs \<Longrightarrow> 0 < n \<and> n < 2147483648 \<and> unat bs dvd n"
    and replies: "source bs n bl rs \<Longrightarrow> rs = map (stream_reply (unat bs) n) bl"
    and whole: "source bs n bl rs \<Longrightarrow> (i, k, H) \<in> set bl \<Longrightarrow> (i + 1) * unat bs \<le> H"
begin

lemma session_stream:
  assumes src: "source bs n bl rs" and its: "map ri_read its = map (Pair 12) rs"
    and bs: "d_block_size drv = bs"
    and hold: "list_all2 (block_intact s n (unat bs)) (drop (unat (prefill_blocks bs)) its)
           (drop (unat (prefill_blocks bs)) bl)"
  shows "\<exists>rest. blocks_of s (unat bs) (map fst (drop (unat (prefill_blocks bs)) bl)) =
     sent_of (rx_tcp_session drv combined enable its st) @ rest"
proof (cases "\<not> combined \<and> \<not> driver_enable enable")
  case True
  then show ?thesis by (simp add: rx_tcp_session_def)
next
  case False
  let ?k = "unat (prefill_blocks bs)"
  show ?thesis
  proof (cases "rx_drop drv ?k its st")
    case (Done x)
    obtain st1 its1 where x: "x = (st1, its1)" by (cases x)
    have d: "its1 = drop ?k its" using rx_drop_reads Done x by auto
    have m: "map ri_read its1 = map (Pair 12 \<circ> stream_reply (unat bs) n) (drop ?k bl)"
      unfolding d drop_map [symmetric] its replies [OF src] by (simp add: drop_map)
    have w: "\<forall>(i, k, H) \<in> set (drop ?k bl). (i + 1) * unat bs \<le> H"
      using whole [OF src] by (auto dest: in_set_dropD)
    note loop = rx_tcp_loop_stream [of n drv, unfolded bs, OF _ _ _ m _ w, of s "[]" st1]
    show ?thesis
      using loop ring_size [OF src] hold [folded d] Done x False bs by (auto simp: rx_tcp_session_def)
  qed (use False bs in \<open>auto simp: rx_tcp_session_def split: prod.splits\<close>)
qed

end

text \<open>The kernel driver is such a source: its replies to a timely run after the ENABLE ioctl.\<close>

definition axi_source :: "u32 \<Rightarrow> nat \<Rightarrow> (nat \<times> nat \<times> nat) list \<Rightarrow> axi_rx_read list \<Rightarrow> bool" where
  "axi_source bs n bl rs \<longleftrightarrow>
     (\<exists>p es ok. rx_geom bs p \<and> \<not> closing p \<and> n = unat (rxbuf_size p) \<and>
        timely (unat bs) n 0 stream_start es \<and> bl = fst (stream_run (unat bs) n es stream_start) \<and>
        rs = fst (rx_run bs (map (ring_event n) es) (fst (snd (axi_ioctl bs AD936X_AXI_IOC_ENABLE ok p)))))"

interpretation axi: block_source axi_source
proof
  fix bs n bl rs i k H
  assume r: "axi_source bs n bl rs"
  then obtain p es ok where p: "rx_geom bs p" "\<not> closing p" "n = unat (rxbuf_size p)"
    "timely (unat bs) n 0 stream_start es" "bl = fst (stream_run (unat bs) n es stream_start)"
    "rs = fst (rx_run bs (map (ring_event n) es) (fst (snd (axi_ioctl bs AD936X_AXI_IOC_ENABLE ok p))))"
    unfolding axi_source_def by blast
  note run = rx_run_enabled_stream [OF p(1,2) p(4) [unfolded p(3)], of ok, folded p(3)]
  show "0 < n \<and> n < 2147483648 \<and> unat bs dvd n" using rx_geomD [OF p(1)] p(3) by simp
  show "rs = map (stream_reply (unat bs) n) bl" using run p(5,6) by blast
  show "(i, k, H) \<in> set bl \<Longrightarrow> (i + 1) * unat bs \<le> H" using run p(5) by blast
qed

subsection \<open>The transmit session\<close>

lemma ring_holds_snoc:
  assumes "ring_holds ((!) xs) n (length xs) mem" "length xs mod n + length b \<le> n" "0 < n"
  shows "ring_holds ((!) (xs @ b)) n (length (xs @ b)) (write_block (length xs mod n) b mem)"
proof -
  have h: "ring_holds ((!) (xs @ b)) n (length xs) mem"
    using assms(1) by (simp add: ring_holds_def nth_append)
  have b: "b = stream_slice ((!) (xs @ b)) (length xs) (length xs + length b)"
    by (rule nth_equalityI) (simp_all add: stream_slice_def)
  show ?thesis using ring_holds_block [OF h assms(2) b assms(3)] by simp
qed

text \<open>The transmit ring after the bytes \<open>xs\<close> were put into it.\<close>

definition tx_holds :: "u32 \<Rightarrow> u32 \<Rightarrow> u8 list \<Rightarrow> tx_state \<Rightarrow> bool" where
  "tx_holds bs sz xs t \<longleftrightarrow>
     unat bs dvd length xs \<and> unat (ts_wr t) = length xs mod unat sz \<and>
     ring_holds ((!) xs) (unat sz) (length xs) (ts_map t)"

definition tx_geom :: "u32 \<Rightarrow> u32 \<Rightarrow> bool" where
  "tx_geom bs sz \<longleftrightarrow> 0 < unat bs \<and> 0 < unat sz \<and> unat bs dvd unat sz \<and> unat sz < 2147483648"

lemma tx_holds_put:
  assumes g: "tx_geom bs sz" and h: "tx_holds bs sz xs t" and b: "length b = unat bs"
  shows "tx_holds bs sz (xs @ b)
           (tx_advance bs sz (t\<lparr>ts_map := write_block (unat (ts_wr t)) b (ts_map t)\<rparr>))"
proof -
  have wr: "unat (ts_wr t) = length xs mod unat sz" and dv: "unat bs dvd length xs"
    and r: "ring_holds ((!) xs) (unat sz) (length xs) (ts_map t)"
    using h by (auto simp: tx_holds_def)
  have fit: "length xs mod unat sz + length b \<le> unat sz"
    using g dv b by (intro dvd_block_fits) (auto simp: tx_geom_def dvd_mod)
  have "unat (ts_wr t + bs) = unat (ts_wr t) + unat bs"
    using fit g wr b by (intro unat_plus_lt) (auto simp: tx_geom_def)
  then have "unat (adv_mod bs sz (ts_wr t)) = length (xs @ b) mod unat sz"
    by (simp add: adv_mod_def unat_mod_distrib wr b mod_add_left_eq)
  then show ?thesis
    using ring_holds_snoc [OF r fit] g dv b
    by (simp add: tx_holds_def tx_advance_def Let_def wr tx_geom_def)
qed

lemma tx_prefill_holds:
  assumes "tx_geom bs sz" "tx_holds bs sz xs t" "tx_prefill bs sz k puts t = Done (t', rest)"
  shows "tx_holds bs sz (xs @ replicate (k * unat bs) 0) t'"
  using assms(2,3)
proof (induction k arbitrary: xs t puts)
  case (Suc k)
  let ?t1 = "tx_advance bs sz
    (t\<lparr>ts_map := write_block (unat (ts_wr t)) (replicate (unat bs) 0) (ts_map t)\<rparr>)"
  obtain n puts' where p: "puts = n # puts'" "driver_tx_put_block n" "tx_prefill bs sz k puts' ?t1 = Done (t', rest)"
    using Suc.prems(2) by (auto simp: Let_def split: list.splits if_splits)
  have "tx_holds bs sz (xs @ replicate (unat bs) 0) ?t1"
    using tx_holds_put [OF assms(1) Suc.prems(1)] by simp
  from Suc.IH [OF this p(3)] show ?case by (simp add: replicate_add)
qed simp


text \<open>The bytes of the blocks that arrive and are put, until the client stops sending.\<close>

fun tx_accepted :: "nat \<Rightarrow> (recv_result list \<times> int) list \<Rightarrow> u8 list" where
  "tx_accepted bs [] = []"
| "tx_accepted bs ((rs, n) # its) =
     (case tcp_recv_full rs bs of
        None \<Rightarrow> []
      | Some (ret, got, _) \<Rightarrow>
          if ret < 0 then [] else got @ (if driver_tx_put_block n then tx_accepted bs its else []))"

lemma tx_holds_stats [simp]: "tx_holds bs sz xs (t\<lparr>ts_stats := u\<rparr>) = tx_holds bs sz xs t"
  by (simp add: tx_holds_def)

lemma tcp_recv_full_ret: "tcp_recv_full rs len = Some (r, got, rs') \<Longrightarrow> r = 0 \<or> r = -1"
  by (induction rs len arbitrary: got rule: tcp_recv_full.induct) (auto split: if_splits option.splits)

lemma tx_loop_holds:
  assumes g: "tx_geom bs sz"
  shows "tx_holds bs sz xs t \<Longrightarrow> \<forall>(rs, n) \<in> set its. recv_ok rs (unat bs) \<Longrightarrow>
    tx_loop bs sz its t = Waiting t' \<Longrightarrow> tx_holds bs sz (xs @ tx_accepted (unat bs) its) t'"
proof (induction its arbitrary: xs t)
  case (Cons it its)
  obtain rs n where it: "it = (rs, n)" by (cases it)
  show ?case
  proof (cases "tcp_recv_full rs (unat bs)")
    case None
    then show ?thesis using Cons.prems it by simp
  next
    case (Some x)
    obtain ret got rs' where x: "x = (ret, got, rs')" by (cases x)
    let ?t2 = "tx_advance bs sz (t\<lparr>ts_map := write_block (unat (ts_wr t)) got (ts_map t)\<rparr>)"
    have ok: "\<not> ret < 0" "driver_tx_put_block n"
      "tx_loop bs sz its (?t2\<lparr>ts_stats := (ts_stats ?t2)\<lparr>ds_bytes := ds_bytes (ts_stats ?t2) + ucast bs\<rparr>\<rparr>) = Waiting t'"
      using Cons.prems(3) it Some x by (simp_all add: Let_def split: if_splits)
    then have "ret = 0" using tcp_recv_full_ret Some x by fastforce
    then have "length got = unat bs" using tcp_recv_full_exact Some x Cons.prems(2) it by auto
    from tx_holds_put [OF g Cons.prems(1) this] have h: "tx_holds bs sz (xs @ got) ?t2" .
    show ?thesis
      using Cons.IH [OF _ _ ok(3), of "xs @ got"] h Cons.prems(2) it Some x ok(1,2) by simp
  qed
qed simp

lemma tx_prefill_puts:
  "tx_prefill bs sz k puts t = Done (t', rest) \<Longrightarrow> \<exists>done. puts = done @ rest \<and> length done = k \<and> list_all driver_tx_put_block done"
proof (induction k arbitrary: puts t)
  case (Suc k)
  then obtain n puts' t1 where "puts = n # puts'" "driver_tx_put_block n" "tx_prefill bs sz k puts' t1 = Done (t', rest)"
    by (auto simp: Let_def split: list.splits if_splits)
  moreover obtain d where "puts' = d @ rest" "length d = k" "list_all driver_tx_put_block d"
    using Suc.IH calculation(3) by blast
  ultimately show ?case by (intro exI [of _ "n # d"]) simp
qed simp

lemma tx_holds_start: "0 < unat sz \<Longrightarrow> tx_holds bs sz [] (t\<lparr>ts_wr := 0\<rparr>)"
  by (simp add: tx_holds_def ring_holds_def)

subsection \<open>The properties\<close>

text \<open>
  C15. The receive session refines the FPGA's stream. The device's replies are those of the
  driver to a run on absolute positions that keeps its timing (\<open>timely\<close>, see C1), and each
  block after the prefill is \<open>block_intact\<close>: the FPGA, which has moved on since the reply,
  does not come round to a byte of the block before that byte is copied to the socket.
  Then the bytes the TCP client is sent are a prefix of the FPGA's blocks with exactly the
  reference's numbers, the prefill blocks skipped, whatever the socket accepts and however
  the session ends. The code checks neither condition.
\<close>

theorem rx_session_delivers_stream:
  assumes "rx_geom bs p" and "\<not> closing p" and "n = unat (rxbuf_size p)"
    and "timely (unat bs) n 0 stream_start es" and "bl = fst (stream_run (unat bs) n es stream_start)"
    and "map ri_read its = map (Pair 12) (fst (rx_run bs (map (ring_event n) es)
           (fst (snd (axi_ioctl bs AD936X_AXI_IOC_ENABLE ok p)))))"
    and "d_block_size drv = bs"
    and "list_all2 (block_intact s n (unat bs)) (drop (unat (prefill_blocks bs)) its)
           (drop (unat (prefill_blocks bs)) bl)"
  shows "\<exists>rest. blocks_of s (unat bs) (map fst (drop (unat (prefill_blocks bs)) bl)) =
     sent_of (rx_tcp_session drv combined enable its st) @ rest"
proof (rule axi.session_stream [OF _ assms(6,7,8)])
  show "axi_source bs n bl (fst (rx_run bs (map (ring_event n) es)
           (fst (snd (axi_ioctl bs AD936X_AXI_IOC_ENABLE ok p)))))"
    unfolding axi_source_def using assms(1-5) by blast
qed

text \<open>
  A session over a ring of four blocks of 8 MiB: block 0 is prefill, then the FPGA laps the
  reader and the next block is number 3.
\<close>

definition rx_w_events :: "fpga_event list" where
  "rx_w_events = [Tick_at 16777216, Read_at 16777216 16777217 1, Tick_at 41943045, Read_at 41943045 41943050 2]"

definition rx_w_stream :: "nat \<Rightarrow> u8" where
  "rx_w_stream j = of_nat (j div 3)"

definition rx_w_iters :: "rx_iter list" where
  "rx_w_iters =
     [\<lparr>ri_read = (12, \<lparr>rx_rd = 0, rx_hw_wr = 16777217, rx_lost_bytes = 0\<rparr>), ri_mem = rx_w_stream, ri_send = []\<rparr>,
      \<lparr>ri_read = (12, \<lparr>rx_rd = 25165824, rx_hw_wr = 8388618, rx_lost_bytes = 16777216\<rparr>), ri_mem = rx_w_stream,
       ri_send = [Io_count 3, Io_error ECONNRESET]\<rparr>]"

definition rx_w_stats :: dir_stats where
  "rx_w_stats = \<lparr>ds_bytes = 0, ds_overrun = 0, ds_buf_used = 0, ds_buf_size = 33554432\<rparr>"

definition rx_w_driver :: driver where
  "rx_w_driver = \<lparr>d_fd = 3, d_rx_buf_size = 33554432, d_tx_buf_size = 33554432, d_block_size = 8388608\<rparr>"

lemma rx_w_blocks:
  "fst (stream_run (unat (8388608 :: u32)) 33554432 rx_w_events stream_start) = [(0, 0, 16777217), (3, 2, 41943050)]"
  by (simp add: rx_w_events_def stream_start_def Let_def)

lemma rx_w_replies:
  "fst (rx_run 8388608 (map (ring_event 33554432) rx_w_events)
     (fst (snd (axi_ioctl 8388608 AD936X_AXI_IOC_ENABLE True (axi_small\<lparr>rxbuf_size := 33554432\<rparr>))))) =
   [\<lparr>rx_rd = 0, rx_hw_wr = 16777217, rx_lost_bytes = 0\<rparr>,
    \<lparr>rx_rd = 25165824, rx_hw_wr = 8388618, rx_lost_bytes = 16777216\<rparr>]"
proof -
  have e: "map (ring_event 33554432) rx_w_events =
      [Tick 16777216, Read 16777216 16777217 1, Tick 8388613, Read 8388613 8388618 2]"
    by (simp add: rx_w_events_def)
  show ?thesis unfolding e by code_simp
qed

theorem rx_session_delivers_stream_witness:
  "\<exists>rest. blocks_of rx_w_stream 8388608 [3] =
     sent_of (rx_tcp_session rx_w_driver True 0 rx_w_iters rx_w_stats) @ rest"
proof -
  let ?p = "axi_small\<lparr>rxbuf_size := 33554432\<rparr>" let ?bs = "unat (8388608 :: u32)"
  have g: "rx_geom 8388608 ?p" "\<not> closing ?p" "33554432 = unat (rxbuf_size ?p)"
    by (simp_all add: axi_small_def axi_priv_zero_def rx_geom_def)
  have t: "timely ?bs 33554432 0 stream_start rx_w_events"
    by (simp add: rx_w_events_def stream_start_def Let_def)
  have k: "unat (prefill_blocks 8388608) = 1"
    by (simp add: prefill_blocks_def TXRX_PREFILL_SAMPLES_def)
  have m: "map ri_read rx_w_iters = map (Pair 12) (fst (rx_run 8388608 (map (ring_event 33554432) rx_w_events)
       (fst (snd (axi_ioctl 8388608 AD936X_AXI_IOC_ENABLE True ?p)))))"
    unfolding rx_w_replies by (simp add: rx_w_iters_def)
  have d: "d_block_size rx_w_driver = 8388608" by (simp add: rx_w_driver_def)
  have cp: "copied_between rx_w_stream 33554432 41943050 (j + 33554432) rx_w_stream j"
    if "25165824 \<le> j" "j < 33554432" for j
    using that copied_betweenI [of 33554432 41943050 41943050 "j + 33554432" j rx_w_stream rx_w_stream] by simp
  have l: "list_all2 (block_intact rx_w_stream 33554432 ?bs) (drop (unat (prefill_blocks 8388608)) rx_w_iters)
      (drop (unat (prefill_blocks 8388608)) [(0, 0, 16777217), (3, 2, 41943050)])"
    unfolding k by (simp add: rx_w_iters_def cp)
  show ?thesis
    using rx_session_delivers_stream [OF g t rx_w_blocks [symmetric] m d l, of True 0 rx_w_stats]
    unfolding k by simp
qed

text \<open>
  C16. The transmit session. When it enables the FPGA it has prefilled the ring and handed
  every prefill block to the driver; while it streams, the ring holds the last bytes of the
  prefill zeros followed by the client's bytes in order, and the write pointer is at their
  end.
\<close>

theorem tx_session_ring:
  assumes "tx_geom (d_block_size drv) sz" and "\<forall>(rs, n) \<in> set its. recv_ok rs (unat (d_block_size drv))"
  shows "(snd (tx_tcp_session drv sz puts en its t) \<longrightarrow>
      list_all driver_tx_put_block (take (unat (prefill_blocks (d_block_size drv))) puts) \<and>
      unat (prefill_blocks (d_block_size drv)) \<le> length puts \<and> driver_enable en) \<and>
    (\<forall>t'. tx_tcp_session drv sz puts en its t = (Waiting t', True) \<longrightarrow>
      tx_holds (d_block_size drv) sz
        (replicate (unat (prefill_blocks (d_block_size drv)) * unat (d_block_size drv)) 0 @
         tx_accepted (unat (d_block_size drv)) its) t')"
proof (cases "tx_prefill (d_block_size drv) sz (unat (prefill_blocks (d_block_size drv))) puts (t\<lparr>ts_wr := 0\<rparr>)")
  case (Done x)
  obtain t1 rest where x: "x = (t1, rest)" by (cases x)
  note pre = Done [unfolded x]
  have h: "tx_holds (d_block_size drv) sz
      ([] @ replicate (unat (prefill_blocks (d_block_size drv)) * unat (d_block_size drv)) 0) t1"
    using tx_prefill_holds [OF assms(1) tx_holds_start pre] assms(1) by (simp add: tx_geom_def)
  show ?thesis
    using tx_prefill_puts [OF pre] tx_loop_holds [OF assms(1) h assms(2)] pre
    by (auto simp: tx_tcp_session_def Let_def)
qed (auto simp: tx_tcp_session_def Let_def split: prod.splits)

theorem tx_session_ring_witness:
  "tx_holds 8388608 33554432
     (replicate (unat (prefill_blocks (d_block_size rx_w_driver)) * unat (d_block_size rx_w_driver)) 0 @
        tx_accepted (unat (d_block_size rx_w_driver)) [])
     (case fst (tx_tcp_session rx_w_driver 33554432 [4] 0 [] \<lparr>ts_map = (\<lambda>_. 7), ts_wr = 5, ts_puts = [], ts_stats = rx_w_stats\<rparr>)
      of Waiting t' \<Rightarrow> t')"
proof -
  have d: "d_block_size rx_w_driver = 8388608" by (simp add: rx_w_driver_def)
  have g: "tx_geom (d_block_size rx_w_driver) 33554432" by (simp add: d tx_geom_def)
  have k: "unat (prefill_blocks 8388608) = Suc 0"
    by (simp add: prefill_blocks_def TXRX_PREFILL_SAMPLES_def)
  let ?t = "\<lparr>ts_map = (\<lambda>_. 7), ts_wr = 5, ts_puts = [], ts_stats = rx_w_stats\<rparr>"
  obtain t' where t': "tx_tcp_session rx_w_driver 33554432 [4] 0 [] ?t = (Waiting t', True)"
    by (simp add: tx_tcp_session_def Let_def d k driver_tx_put_block_def driver_enable_def)
  show ?thesis
    using tx_session_ring [OF g, of "[]" "[4]" 0 ?t] t' by (simp add: d)
qed

text \<open>
  The size of the transmit ring. As long as the requested depth fits 32 bits in bytes,
  it is the depth rounded up to whole blocks, and never more than the allocated buffer; it
  is then a whole number of blocks, as the driver's arithmetic needs.
\<close>

theorem tx_effective_rounds_up:
  assumes "0 < unat (d_block_size drv)" and "unat (d_block_size drv) dvd unat (d_tx_buf_size drv)"
    and "4 * unat n + unat (d_block_size drv) < 4294967296"
  shows "unat (tx_effective (Some n) drv) =
      min ((4 * unat n + unat (d_block_size drv) - 1) div unat (d_block_size drv) * unat (d_block_size drv))
          (unat (d_tx_buf_size drv)) \<and>
    unat (d_block_size drv) dvd unat (tx_effective (Some n) drv)"
proof -
  let ?b = "unat (d_block_size drv)"
  have e: "unat (n * 4) = 4 * unat n"
    using assms(3) by (simp add: unat_word_ariths)
  have a: "unat (n * 4 + d_block_size drv) = 4 * unat n + ?b"
    using unat_plus_lt [of "n * 4" "d_block_size drv"] assms(3) e by simp
  have s: "unat (n * 4 + d_block_size drv - 1) = 4 * unat n + ?b - 1"
    using unat_minus_le [of 1 "n * 4 + d_block_size drv"] assms(1) a by (simp add: word_nat)
  have r: "unat ((n * 4 + d_block_size drv - 1) div d_block_size drv * d_block_size drv) =
      (4 * unat n + ?b - 1) div ?b * ?b"
    by (simp only: unat_div_times_le s)
  show ?thesis
    using assms(2) r by (auto simp: tx_effective_def Let_def word_nat min_def)
qed

theorem tx_effective_rounds_up_witness:
  "unat (tx_effective (Some 1000000) (rx_w_driver\<lparr>d_block_size := 65536, d_tx_buf_size := 8388608\<rparr>)) =
     min ((4 * unat (1000000 :: u32) + unat (65536 :: u32) - 1) div unat (65536 :: u32) * unat (65536 :: u32))
         (unat (8388608 :: u32))"
  using tx_effective_rounds_up [of "rx_w_driver\<lparr>d_block_size := 65536, d_tx_buf_size := 8388608\<rparr>" 1000000]
  by simp

text \<open>A depth of 2 to the 30 samples wraps to an empty ring.\<close>

lemma tx_effective_wraps: "tx_effective (Some 1073741824) (drv\<lparr>d_block_size := 65536\<rparr>) = 0"
  by (simp add: tx_effective_def Let_def)

end
