(* ===== verification/Cli.thy ===== *)
theory Cli
  imports Complex_Main Cstr Client
begin

text \<open>
  The streaming application's front (\<^verbatim>\<open>ad9361_txrx.c\<close>, \<^verbatim>\<open>cli.h\<close>): the option loop and its
  checks, the choice of what runs, the reconnect loop, and the start-up handshake between
  the receive and the transmit thread of a combined session (\<^verbatim>\<open>rx.c\<close>, \<^verbatim>\<open>tx.c\<close>). What
  \<^verbatim>\<open>getopt_long\<close> returns is a list of options in order; \<^verbatim>\<open>atof\<close> is a parameter.
\<close>

subsection \<open>The command line\<close>

datatype cli_mode = MODE_NONE | MODE_TCP | MODE_UDP
datatype diagnostic = DIAG_NONE | DIAG_TEST | DIAG_LOOPBACK | DIAG_PRBS | DIAG_MEMBENCH

record cli_cfg =
  cf_diagnostic :: diagnostic
  cf_membench_loops :: int
  cf_rx_mode :: cli_mode
  cf_tx_mode :: cli_mode
  cf_rx_port :: int
  cf_rx_host :: string
  cf_tx_port :: int
  cf_tx_depth :: rat

definition cli_cfg_zero :: cli_cfg where
  "cli_cfg_zero = \<lparr>cf_diagnostic = DIAG_NONE, cf_membench_loops = 0, cf_rx_mode = MODE_NONE,
     cf_tx_mode = MODE_NONE, cf_rx_port = 0, cf_rx_host = [], cf_tx_port = 0, cf_tx_depth = 0\<rparr>"

datatype cli_option = OPT_RX_TCP string | OPT_RX_UDP string | OPT_TX_TCP string | OPT_TX_UDP string
  | OPT_TX_DEPTH string | OPT_TEST | OPT_LOOPBACK | OPT_PRBS | OPT_MEMBENCH string | OPT_HELP | OPT_UNKNOWN

text \<open>\<open>Inl\<close> is an exit with that status.\<close>

fun cli_opt :: "(string \<Rightarrow> rat) \<Rightarrow> cli_option \<Rightarrow> cli_cfg \<Rightarrow> int + cli_cfg" where
  "cli_opt atof (OPT_RX_TCP a) c =
     (if cf_rx_mode c \<noteq> MODE_NONE then Inl 1
      else Inr (c\<lparr>cf_rx_mode := MODE_TCP, cf_rx_port := atoi a\<rparr>))"
| "cli_opt atof (OPT_RX_UDP a) c =
     (if cf_rx_mode c \<noteq> MODE_NONE then Inl 1
      else case parse_hostport a of
             None \<Rightarrow> Inl 1
           | Some (h, p) \<Rightarrow> Inr (c\<lparr>cf_rx_host := h, cf_rx_port := p, cf_rx_mode := MODE_UDP\<rparr>))"
| "cli_opt atof (OPT_TX_TCP a) c =
     (if cf_tx_mode c \<noteq> MODE_NONE then Inl 1
      else Inr (c\<lparr>cf_tx_mode := MODE_TCP, cf_tx_port := atoi a\<rparr>))"
| "cli_opt atof (OPT_TX_UDP a) c =
     (if cf_tx_mode c \<noteq> MODE_NONE then Inl 1
      else Inr (c\<lparr>cf_tx_mode := MODE_UDP, cf_tx_port := atoi a\<rparr>))"
| "cli_opt atof (OPT_TX_DEPTH a) c = Inr (c\<lparr>cf_tx_depth := atof a\<rparr>)"
| "cli_opt atof OPT_TEST c = Inr (c\<lparr>cf_diagnostic := DIAG_TEST\<rparr>)"
| "cli_opt atof OPT_LOOPBACK c = Inr (c\<lparr>cf_diagnostic := DIAG_LOOPBACK\<rparr>)"
| "cli_opt atof OPT_PRBS c = Inr (c\<lparr>cf_diagnostic := DIAG_PRBS\<rparr>)"
| "cli_opt atof (OPT_MEMBENCH a) c =
     Inr (c\<lparr>cf_diagnostic := DIAG_MEMBENCH, cf_membench_loops := atoi a\<rparr>)"
| "cli_opt atof OPT_HELP c = Inl 0"
| "cli_opt atof OPT_UNKNOWN c = Inl 1"

fun cli_opts :: "(string \<Rightarrow> rat) \<Rightarrow> cli_option list \<Rightarrow> cli_cfg \<Rightarrow> int + cli_cfg" where
  "cli_opts atof [] c = Inr c"
| "cli_opts atof (opt # opts) c =
     (case cli_opt atof opt c of Inl r \<Rightarrow> Inl r | Inr c1 \<Rightarrow> cli_opts atof opts c1)"

definition cli_streaming :: "cli_cfg \<Rightarrow> bool" where
  "cli_streaming c \<longleftrightarrow> cf_rx_mode c \<noteq> MODE_NONE \<or> cf_tx_mode c \<noteq> MODE_NONE"

definition cli_check :: "bool \<Rightarrow> cli_cfg \<Rightarrow> int + cli_cfg" where
  "cli_check positional c =
     (if positional then Inl 1
      else if cf_diagnostic c \<noteq> DIAG_NONE \<and> cli_streaming c then Inl 1
      else if 0 < cf_tx_depth c \<and> cf_tx_mode c = MODE_NONE then Inl 1
      else if cf_diagnostic c = DIAG_NONE \<and> \<not> cli_streaming c then Inl 1
      else Inr c)"

definition cli_parse :: "(string \<Rightarrow> rat) \<Rightarrow> cli_option list \<Rightarrow> bool \<Rightarrow> int + cli_cfg" where
  "cli_parse atof opts positional =
     (case cli_opts atof opts cli_cfg_zero of Inl r \<Rightarrow> Inl r | Inr c \<Rightarrow> cli_check positional c)"

subsection \<open>What runs\<close>

datatype cli_run = Run_diag diagnostic int | Run_both | Run_rx | Run_tx

definition cli_dispatch :: "cli_cfg \<Rightarrow> cli_run" where
  "cli_dispatch c =
     (if cf_diagnostic c \<noteq> DIAG_NONE then Run_diag (cf_diagnostic c) (cf_membench_loops c)
      else if cf_rx_mode c \<noteq> MODE_NONE \<and> cf_tx_mode c \<noteq> MODE_NONE then Run_both
      else if cf_rx_mode c \<noteq> MODE_NONE then Run_rx else Run_tx)"

text \<open>
  The reconnect loop. Each session brings the results of the open calls and the number of
  times its tasks call \<^verbatim>\<open>driver_close\<close>; the result lists the descriptors closed. When the
  sessions run out the program is still in one.
\<close>

record session =
  se_fd :: int
  se_rx :: "u32 option"
  se_tx :: "u32 option"
  se_blk :: "u32 option"
  se_closes :: nat

fun closes :: "nat \<Rightarrow> driver \<Rightarrow> driver \<times> int list" where
  "closes 0 d = (d, [])"
| "closes (Suc k) d = (let (d1, l1) = driver_close d; (d2, l2) = closes k d1 in (d2, l1 @ l2))"

fun reconnect_loop :: "session list \<Rightarrow> driver \<Rightarrow> bool \<times> driver \<times> int list" where
  "reconnect_loop [] d = (False, d, [])"
| "reconnect_loop (s # ss) d =
     (case driver_open (se_fd s) (se_rx s) (se_tx s) (se_blk s) d of
        (r, d1, l1) \<Rightarrow>
          if r < 0 then (True, d1, l1)
          else let (d2, l2) = closes (se_closes s) d1;
                   (d3, l3) = driver_close d2;
                   (stop, d4, l4) = reconnect_loop ss d3
               in (stop, d4, l1 @ l2 @ l3 @ l4))"

subsection \<open>The start of a combined session\<close>

text \<open>
  The two threads, their shared flag \<^verbatim>\<open>rx_session_active\<close>, and whether the FPGA is enabled.
  A thread that has ended is \<open>Gone\<close>. Accept, map and socket failures may happen at any time
  the code checks for them.
\<close>

datatype rx_pc = Rx_start | Rx_session | Rx_gone
datatype tx_pc = Tx_start | Tx_wait | Tx_prefill | Tx_session | Tx_gone

record start_st =
  st_rx :: rx_pc
  st_tx :: tx_pc
  rx_session_active :: bool
  st_enabled :: bool

definition start_init :: start_st where
  "start_init = \<lparr>st_rx = Rx_start, st_tx = Tx_start, rx_session_active = False, st_enabled = False\<rparr>"

inductive rx_task :: "cli_mode \<Rightarrow> start_st \<Rightarrow> start_st \<Rightarrow> bool" where
  rx_fail: "st_rx s = Rx_start \<Longrightarrow> rx_task m s (s\<lparr>st_rx := Rx_gone\<rparr>)"
| rx_tcp: "st_rx s = Rx_start \<Longrightarrow> m = MODE_TCP \<Longrightarrow>
    rx_task m s (s\<lparr>st_rx := Rx_session, rx_session_active := True\<rparr>)"
| rx_udp: "st_rx s = Rx_start \<Longrightarrow> m \<noteq> MODE_TCP \<Longrightarrow> rx_task m s (s\<lparr>st_rx := Rx_session\<rparr>)"
| rx_tcp_done: "st_rx s = Rx_session \<Longrightarrow> m = MODE_TCP \<Longrightarrow>
    rx_task m s (s\<lparr>st_rx := Rx_gone, rx_session_active := False\<rparr>)"
| rx_udp_done: "st_rx s = Rx_session \<Longrightarrow> m \<noteq> MODE_TCP \<Longrightarrow> rx_task m s (s\<lparr>st_rx := Rx_gone\<rparr>)"

inductive tx_task :: "cli_mode \<Rightarrow> start_st \<Rightarrow> start_st \<Rightarrow> bool" where
  tx_fail: "st_tx s = Tx_start \<Longrightarrow> tx_task m s (s\<lparr>st_tx := Tx_gone\<rparr>)"
| tx_accept: "st_tx s = Tx_start \<Longrightarrow> m = MODE_TCP \<Longrightarrow> tx_task m s (s\<lparr>st_tx := Tx_wait\<rparr>)"
| tx_woken: "st_tx s = Tx_wait \<Longrightarrow> rx_session_active s \<Longrightarrow> tx_task m s (s\<lparr>st_tx := Tx_prefill\<rparr>)"
| tx_enable: "st_tx s = Tx_prefill \<Longrightarrow> tx_task m s (s\<lparr>st_tx := Tx_session, st_enabled := True\<rparr>)"
| tx_prefill_fail: "st_tx s = Tx_prefill \<Longrightarrow> tx_task m s (s\<lparr>st_tx := Tx_gone\<rparr>)"
| tx_done: "st_tx s = Tx_session \<Longrightarrow> tx_task m s (s\<lparr>st_tx := Tx_gone\<rparr>)"

inductive start_reach :: "cli_mode \<Rightarrow> cli_mode \<Rightarrow> start_st \<Rightarrow> bool" for rxm txm where
  start_reach_init: "start_reach rxm txm start_init"
| start_reach_rx: "start_reach rxm txm s \<Longrightarrow> rx_task rxm s s' \<Longrightarrow> start_reach rxm txm s'"
| start_reach_tx: "start_reach rxm txm s \<Longrightarrow> tx_task txm s s' \<Longrightarrow> start_reach rxm txm s'"

inductive_cases rx_taskE: "rx_task m s s'"
inductive_cases tx_taskE: "tx_task m s s'"

subsection \<open>Lemmas\<close>

lemma cli_opt_diag_modes:
  "cli_opt atof opt c = Inr c' \<Longrightarrow> cf_rx_mode c \<noteq> MODE_NONE \<Longrightarrow> cf_rx_mode c' = cf_rx_mode c"
  "cli_opt atof opt c = Inr c' \<Longrightarrow> cf_tx_mode c \<noteq> MODE_NONE \<Longrightarrow> cf_tx_mode c' = cf_tx_mode c"
  by (cases opt; auto split: if_splits option.splits)+

fun is_rx_opt :: "cli_option \<Rightarrow> bool" where
  "is_rx_opt (OPT_RX_TCP _) = True" | "is_rx_opt (OPT_RX_UDP _) = True" | "is_rx_opt _ = False"

fun is_tx_opt :: "cli_option \<Rightarrow> bool" where
  "is_tx_opt (OPT_TX_TCP _) = True" | "is_tx_opt (OPT_TX_UDP _) = True" | "is_tx_opt _ = False"

fun is_diag_opt :: "cli_option \<Rightarrow> bool" where
  "is_diag_opt OPT_TEST = True" | "is_diag_opt OPT_LOOPBACK = True" | "is_diag_opt OPT_PRBS = True"
| "is_diag_opt (OPT_MEMBENCH _) = True" | "is_diag_opt _ = False"

lemma cli_opt_kinds:
  assumes "cli_opt atof opt c = Inr c'"
  shows "cf_rx_mode c' \<noteq> MODE_NONE \<longleftrightarrow> cf_rx_mode c \<noteq> MODE_NONE \<or> is_rx_opt opt"
    "cf_tx_mode c' \<noteq> MODE_NONE \<longleftrightarrow> cf_tx_mode c \<noteq> MODE_NONE \<or> is_tx_opt opt"
    "cf_diagnostic c' \<noteq> DIAG_NONE \<longleftrightarrow> cf_diagnostic c \<noteq> DIAG_NONE \<or> is_diag_opt opt"
    "is_rx_opt opt \<Longrightarrow> cf_rx_mode c = MODE_NONE" "is_tx_opt opt \<Longrightarrow> cf_tx_mode c = MODE_NONE"
  using assms by (cases opt; auto split: if_splits option.splits)+

lemma cli_opts_kinds:
  "cli_opts atof opts c = Inr c' \<Longrightarrow>
    (cf_rx_mode c' \<noteq> MODE_NONE \<longleftrightarrow> cf_rx_mode c \<noteq> MODE_NONE \<or> filter is_rx_opt opts \<noteq> []) \<and>
    (cf_tx_mode c' \<noteq> MODE_NONE \<longleftrightarrow> cf_tx_mode c \<noteq> MODE_NONE \<or> filter is_tx_opt opts \<noteq> []) \<and>
    (cf_diagnostic c' \<noteq> DIAG_NONE \<longleftrightarrow> cf_diagnostic c \<noteq> DIAG_NONE \<or> filter is_diag_opt opts \<noteq> []) \<and>
    length (filter is_rx_opt opts) \<le> (if cf_rx_mode c = MODE_NONE then 1 else 0) \<and>
    length (filter is_tx_opt opts) \<le> (if cf_tx_mode c = MODE_NONE then 1 else 0)"
proof (induction opts arbitrary: c)
  case (Cons opt opts)
  then obtain c1 where c1: "cli_opt atof opt c = Inr c1" "cli_opts atof opts c1 = Inr c'"
    by (auto split: sum.splits)
  note ih = Cons.IH [OF c1(2)]
  note k = cli_opt_kinds [OF c1(1)]
  show ?case using ih k by (auto split: if_splits)
qed simp

lemma closes_once:
  "closes k d = (if k = 0 then (d, []) else (d\<lparr>d_fd := -1\<rparr>, if d_fd d < 0 then [] else [d_fd d]))"
  by (induction k arbitrary: d) (auto simp: driver_close_def Let_def)

text \<open>The descriptors the sessions are given by \<^verbatim>\<open>open\<close>, up to the first failed session.\<close>

definition session_bad :: "session \<Rightarrow> bool" where
  "session_bad s \<longleftrightarrow> se_fd s < 0 \<or> se_rx s = None \<or> se_tx s = None \<or> se_blk s = None"

fun opened_fds :: "session list \<Rightarrow> int list" where
  "opened_fds [] = []"
| "opened_fds (s # ss) =
     (if se_fd s < 0 then [] else se_fd s # (if session_bad s then [] else opened_fds ss))"

lemma driver_open_bad:
  "session_bad s \<Longrightarrow>
   \<exists>d'. driver_open (se_fd s) (se_rx s) (se_tx s) (se_blk s) d =
     (-1, d', if se_fd s < 0 then [] else [se_fd s]) \<and> d_fd d' < 0"
  by (auto simp: session_bad_def driver_open_def Let_def split: option.splits)

lemma driver_open_good:
  "\<not> session_bad s \<Longrightarrow>
   \<exists>d'. driver_open (se_fd s) (se_rx s) (se_tx s) (se_blk s) d = (0, d', []) \<and> d_fd d' = se_fd s"
  by (auto simp: session_bad_def driver_open_def Let_def split: option.splits)

lemma reconnect_loop_closes:
  assumes "reconnect_loop ss d = (stop, d', l)" "d_fd d < 0"
  shows "l = opened_fds ss \<and> d_fd d' < 0 \<and> (stop \<longleftrightarrow> list_ex session_bad ss)"
  using assms
proof (induction ss arbitrary: d stop d' l)
  case (Cons s ss)
  show ?case
  proof (cases "session_bad s")
    case True
    then show ?thesis using driver_open_bad [OF True, of d] Cons.prems by auto
  next
    case False
    then obtain d1 where d1: "driver_open (se_fd s) (se_rx s) (se_tx s) (se_blk s) d = (0, d1, [])"
      "d_fd d1 = se_fd s"
      using driver_open_good by blast
    obtain stop' d4 l4 where r: "reconnect_loop ss (d1\<lparr>d_fd := -1\<rparr>) = (stop', d4, l4)"
      by (cases "reconnect_loop ss (d1\<lparr>d_fd := -1\<rparr>)")
    have "stop = stop'" "d' = d4" "l = se_fd s # l4" "0 \<le> se_fd s"
      using Cons.prems(1) d1 r False
      by (auto simp: closes_once driver_close_def Let_def session_bad_def split: if_splits)
    then show ?thesis using Cons.IH [OF r] False by simp
  qed
qed simp

text \<open>What the two threads of a combined session keep.\<close>

definition start_inv :: "cli_mode \<Rightarrow> start_st \<Rightarrow> bool" where
  "start_inv rxm s \<longleftrightarrow>
     (rx_session_active s \<longleftrightarrow> rxm = MODE_TCP \<and> st_rx s = Rx_session) \<and>
     (st_tx s \<in> {Tx_prefill, Tx_session} \<or> st_enabled s \<longrightarrow> rxm = MODE_TCP \<and> st_rx s \<noteq> Rx_start) \<and>
     (st_tx s = Tx_session \<longrightarrow> st_enabled s)"

lemma start_reach_inv: "start_reach rxm txm s \<Longrightarrow> start_inv rxm s"
proof (induction rule: start_reach.induct)
  case start_reach_init
  then show ?case by (simp add: start_inv_def start_init_def)
next
  case (start_reach_rx s s')
  from start_reach_rx(2,3) show ?case by (auto elim!: rx_taskE simp: start_inv_def)
next
  case (start_reach_tx s s')
  from start_reach_tx(2,3) show ?case by (auto elim!: tx_taskE simp: start_inv_def)
qed

subsection \<open>The properties\<close>

text \<open>
  A command line is accepted exactly as the usage text says for the streaming options:
  at most one receive and one transmit mode, never together with a diagnostic, at least one
  of the two, and a transmit depth only with a transmit mode.
\<close>

theorem cli_parse_accepts:
  assumes "cli_parse atof opts positional = Inr c"
  shows "length (filter is_rx_opt opts) \<le> 1 \<and> length (filter is_tx_opt opts) \<le> 1 \<and> \<not> positional \<and>
    (filter is_diag_opt opts \<noteq> [] \<longleftrightarrow> filter is_rx_opt opts = [] \<and> filter is_tx_opt opts = []) \<and>
    (0 < cf_tx_depth c \<longrightarrow> filter is_tx_opt opts \<noteq> []) \<and>
    (cli_dispatch c = Run_both \<longleftrightarrow> filter is_rx_opt opts \<noteq> [] \<and> filter is_tx_opt opts \<noteq> [])"
proof -
  obtain c0 where c0: "cli_opts atof opts cli_cfg_zero = Inr c0" "cli_check positional c0 = Inr c"
    using assms by (auto simp: cli_parse_def split: sum.splits)
  then have "c0 = c" by (auto simp: cli_check_def split: if_splits)
  with cli_opts_kinds [OF c0(1)] c0(2) show ?thesis
    by (auto simp: cli_check_def cli_streaming_def cli_dispatch_def cli_cfg_zero_def split: if_splits)
qed

theorem cli_parse_accepts_witness:
  "length (filter is_rx_opt [OPT_RX_UDP ''10.0.0.1:7000'', OPT_TX_TCP ''7001'', OPT_TX_DEPTH ''2.5'']) \<le> 1 \<and>
   (\<exists>c. cli_parse (\<lambda>_. 5 / 2) [OPT_RX_UDP ''10.0.0.1:7000'', OPT_TX_TCP ''7001'', OPT_TX_DEPTH ''2.5''] False = Inr c \<and>
     cf_rx_host c = ''10.0.0.1'' \<and> cf_rx_port c = 7000)"
proof -
  let ?opts = "[OPT_RX_UDP ''10.0.0.1:7000'', OPT_TX_TCP ''7001'', OPT_TX_DEPTH ''2.5'']"
  have h: "parse_hostport ''10.0.0.1:7000'' = Some (''10.0.0.1'', 7000)" by code_simp
  obtain c where c: "cli_parse (\<lambda>_. 5 / 2) ?opts False = Inr c" "cf_rx_host c = ''10.0.0.1''" "cf_rx_port c = 7000"
    by (simp add: cli_parse_def cli_check_def cli_streaming_def cli_cfg_zero_def h)
  show ?thesis using cli_parse_accepts [OF c(1)] c by blast
qed

text \<open>Two diagnostics are accepted although the usage text calls them mutually exclusive: the last one runs.\<close>

lemma cli_two_diagnostics:
  "map_sum id cli_dispatch (cli_parse atof [OPT_TEST, OPT_PRBS] False) = Inr (Run_diag DIAG_PRBS 0)"
  by (simp add: cli_parse_def cli_check_def cli_streaming_def cli_cfg_zero_def cli_dispatch_def)

text \<open>
  C17. Across any number of reconnections, however often the session's tasks close the
  driver themselves, every descriptor the program was given is closed exactly once and in
  order, none is left open, and the loop ends exactly when an open fails.
\<close>

theorem reconnect_closes_each_once:
  assumes "d_fd d < 0" and "reconnect_loop ss d = (stop, d', l)"
  shows "l = opened_fds ss \<and> d_fd d' < 0 \<and> (stop \<longleftrightarrow> list_ex session_bad ss)"
  using reconnect_loop_closes [OF assms(2,1)] .

theorem reconnect_closes_each_once_witness:
  "snd (snd (reconnect_loop
     [\<lparr>se_fd = 3, se_rx = Some 8, se_tx = Some 8, se_blk = Some 4, se_closes = 2\<rparr>,
      \<lparr>se_fd = 4, se_rx = Some 8, se_tx = None, se_blk = Some 4, se_closes = 0\<rparr>]
     \<lparr>d_fd = -1, d_rx_buf_size = 0, d_tx_buf_size = 0, d_block_size = 0\<rparr>)) = [3, 4]"
proof -
  let ?ss = "[\<lparr>se_fd = 3, se_rx = Some 8, se_tx = Some 8, se_blk = Some 4, se_closes = 2\<rparr>,
      \<lparr>se_fd = 4, se_rx = Some 8, se_tx = None, se_blk = Some 4, se_closes = 0\<rparr>]"
  let ?d = "\<lparr>d_fd = -1, d_rx_buf_size = 0, d_tx_buf_size = 0, d_block_size = 0\<rparr>"
  obtain stop d' l where r: "reconnect_loop ?ss ?d = (stop, d', l)" by (cases "reconnect_loop ?ss ?d")
  show ?thesis
    using reconnect_closes_each_once [OF _ r] r by (simp add: session_bad_def)
qed

text \<open>
  C18. The start of a combined session. The FPGA is enabled only after the TCP receiver's
  session has begun. With \<^verbatim>\<open>--rx-udp\<close> nothing ever tells the transmit thread: it is never past
  its wait and the FPGA is never enabled. And when the receive task is gone before the
  transmit client arrives, the transmit thread waits for ever.
\<close>

theorem combined_start:
  assumes "start_reach rxm txm s"
  shows "(st_enabled s \<longrightarrow> rxm = MODE_TCP \<and> st_rx s \<noteq> Rx_start) \<and>
    (rxm \<noteq> MODE_TCP \<longrightarrow> \<not> st_enabled s \<and> st_tx s \<in> {Tx_start, Tx_wait, Tx_gone}) \<and>
    (st_rx s = Rx_gone \<and> st_tx s = Tx_wait \<longrightarrow> \<not> (\<exists>s'. rx_task rxm s s' \<or> tx_task txm s s'))"
proof -
  have inv: "start_inv rxm s" by (rule start_reach_inv [OF assms])
  have "\<not> (\<exists>s'. rx_task rxm s s' \<or> tx_task txm s s')" if "st_rx s = Rx_gone" "st_tx s = Tx_wait"
    using that inv by (auto elim!: rx_taskE tx_taskE simp: start_inv_def)
  then show ?thesis using inv by (cases "st_tx s") (auto simp: start_inv_def)
qed

theorem combined_start_witness:
  "\<not> (\<exists>s'. rx_task MODE_TCP (start_init\<lparr>st_rx := Rx_gone, st_tx := Tx_wait\<rparr>) s' \<or>
           tx_task MODE_TCP (start_init\<lparr>st_rx := Rx_gone, st_tx := Tx_wait\<rparr>) s')"
proof -
  have "rx_task MODE_TCP start_init (start_init\<lparr>st_rx := Rx_gone\<rparr>)"
    by (rule rx_fail) (simp add: start_init_def)
  moreover have "tx_task MODE_TCP (start_init\<lparr>st_rx := Rx_gone\<rparr>) (start_init\<lparr>st_rx := Rx_gone, st_tx := Tx_wait\<rparr>)"
    using tx_accept [of "start_init\<lparr>st_rx := Rx_gone\<rparr>" MODE_TCP] by (simp add: start_init_def)
  ultimately have "start_reach MODE_TCP MODE_TCP (start_init\<lparr>st_rx := Rx_gone, st_tx := Tx_wait\<rparr>)"
    by (blast intro: start_reach.intros)
  from combined_start [OF this] show ?thesis by simp
qed

end
