(* ===== verification/Ad_Tables.thy ===== *)
theory Ad_Tables
  imports Zyn_Prelude
begin

text \<open>
  The constant tables of the AD9361 driver (\<^verbatim>\<open>ad9361_main.c\<close>): the synthesizer look-up
  tables for frequency and time division duplex, one per reference clock range, and the
  default full and split gain tables with the gains they stand for, one per carrier range.
  Signed bytes are integers.
\<close>

datatype SynthLUT = SynthLUT (VCO_MHz: u16) (VCO_Output_Level: u8) (VCO_Varactor: u8) (VCO_Bias_Ref: u8)
  (VCO_Bias_Tcf: u8) (VCO_Cal_Offset: u8) (VCO_Varactor_Reference: u8) (Charge_Pump_Current: u8)
  (LF_C2: u8) (LF_C1: u8) (LF_R1: u8) (LF_C3: u8) (LF_R3: u8)

definition SYNTH_LUT_SIZE :: nat where "SYNTH_LUT_SIZE = 53"

type_synonym gain_row = "u8 \<times> u8 \<times> u8"

definition SIZE_FULL_TABLE :: u8 where "SIZE_FULL_TABLE = 77"
definition SIZE_SPLIT_TABLE :: u8 where "SIZE_SPLIT_TABLE = 41"

definition SynthLUT_FDD_40 :: "SynthLUT list" where
  "SynthLUT_FDD_40 =
    [SynthLUT 12605 13 1 4 2 15 12 7 14 6 14 5 15,
     SynthLUT 12245 13 1 4 2 15 12 7 14 6 14 5 15,
     SynthLUT 11906 13 1 4 2 15 12 7 15 6 14 5 15,
     SynthLUT 11588 13 1 4 2 15 12 8 15 6 14 5 15,
     SynthLUT 11288 13 1 4 2 15 12 8 15 6 14 5 15,
     SynthLUT 11007 13 1 4 2 15 12 9 15 6 14 5 15,
     SynthLUT 10742 13 1 4 2 15 12 9 15 6 14 5 15,
     SynthLUT 10492 13 1 6 2 15 12 10 15 6 14 5 15,
     SynthLUT 10258 13 1 6 2 15 12 10 15 6 14 5 15,
     SynthLUT 10036 13 1 6 2 15 12 11 15 6 14 5 15,
     SynthLUT 9827 13 1 6 2 14 12 11 15 6 14 5 15,
     SynthLUT 9631 13 1 6 2 13 12 12 15 6 14 5 15,
     SynthLUT 9445 13 1 6 2 12 12 12 15 6 14 5 15,
     SynthLUT 9269 13 1 6 2 12 12 13 15 6 14 5 15,
     SynthLUT 9103 13 1 6 2 12 12 13 15 6 14 5 15,
     SynthLUT 8946 13 1 6 2 12 12 14 15 6 14 5 15,
     SynthLUT 8797 12 1 7 2 12 12 13 15 6 14 5 15,
     SynthLUT 8655 12 1 7 2 12 12 14 15 6 14 5 15,
     SynthLUT 8520 12 1 7 2 12 12 14 15 6 14 5 15,
     SynthLUT 8392 12 1 7 2 12 12 15 15 6 14 5 15,
     SynthLUT 8269 12 1 7 2 12 12 15 15 6 14 5 15,
     SynthLUT 8153 12 1 7 2 12 12 16 15 6 14 5 15,
     SynthLUT 8041 12 1 7 2 13 12 16 15 6 14 5 15,
     SynthLUT 7934 11 1 7 2 12 12 16 15 6 14 5 15,
     SynthLUT 7831 11 1 7 2 12 12 16 15 6 14 5 15,
     SynthLUT 7733 10 1 7 3 13 12 16 15 6 14 5 15,
     SynthLUT 7638 10 1 7 2 12 12 16 15 6 14 5 15,
     SynthLUT 7547 10 1 7 2 12 12 17 15 6 14 5 15,
     SynthLUT 7459 10 1 7 2 12 12 17 15 6 14 5 15,
     SynthLUT 7374 10 2 7 3 14 13 14 15 6 14 5 15,
     SynthLUT 7291 10 2 7 3 14 13 14 15 6 14 5 15,
     SynthLUT 7212 10 2 7 3 14 13 14 15 6 14 5 15,
     SynthLUT 7135 10 2 7 3 14 13 15 15 7 14 5 15,
     SynthLUT 7061 10 2 7 3 14 13 15 15 6 14 5 15,
     SynthLUT 6988 10 1 7 3 12 14 20 15 6 14 5 15, SynthLUT 6918 9 2 7 3 14 13 15 15 6 14 5 15,
     SynthLUT 6850 9 2 7 3 14 13 15 15 6 14 5 15, SynthLUT 6784 9 2 7 2 13 13 15 15 6 14 5 15,
     SynthLUT 6720 9 2 7 2 13 13 16 15 6 14 5 15, SynthLUT 6658 8 2 7 3 14 13 15 15 6 14 5 15,
     SynthLUT 6597 8 2 7 2 13 13 15 15 6 14 5 15, SynthLUT 6539 8 2 7 2 13 13 15 15 6 14 5 15,
     SynthLUT 6482 8 2 7 2 13 13 16 15 6 14 5 15, SynthLUT 6427 7 2 7 3 14 13 15 15 6 14 5 15,
     SynthLUT 6373 7 2 7 3 15 13 15 15 6 14 5 15, SynthLUT 6321 7 2 7 3 15 13 15 15 6 14 5 15,
     SynthLUT 6270 7 2 7 3 15 13 16 15 6 14 5 15, SynthLUT 6222 7 2 7 3 15 13 16 15 6 14 5 15,
     SynthLUT 6174 6 2 7 3 15 13 15 15 6 14 5 15, SynthLUT 6128 6 2 7 3 15 13 15 15 6 14 5 15,
     SynthLUT 6083 6 2 7 3 15 13 16 15 6 14 5 15, SynthLUT 6040 6 2 7 3 15 13 16 15 6 14 5 15,
     SynthLUT 5997 6 2 7 3 15 13 16 15 6 14 5 15]"

definition SynthLUT_FDD_60 :: "SynthLUT list" where
  "SynthLUT_FDD_60 =
    [SynthLUT 12605 13 1 4 2 15 12 13 15 12 12 5 14,
     SynthLUT 12245 13 1 4 2 15 12 13 15 12 12 5 14,
     SynthLUT 11906 13 1 4 2 15 12 13 15 13 12 5 13,
     SynthLUT 11588 13 1 4 2 15 12 14 15 13 12 5 13,
     SynthLUT 11288 13 1 5 2 15 12 15 15 13 12 5 13,
     SynthLUT 11007 13 1 5 2 15 12 16 15 13 12 5 13,
     SynthLUT 10742 13 1 5 2 15 12 16 15 12 12 5 14,
     SynthLUT 10492 13 1 6 2 15 12 17 15 12 12 5 14,
     SynthLUT 10258 13 1 6 2 15 12 18 15 13 12 5 13,
     SynthLUT 10036 13 1 6 2 15 12 19 15 13 12 5 13,
     SynthLUT 9827 13 1 6 2 14 12 20 15 13 12 5 13,
     SynthLUT 9631 13 1 6 2 13 12 21 15 13 12 5 13,
     SynthLUT 9445 13 1 6 2 12 12 22 15 13 12 5 13,
     SynthLUT 9269 13 1 6 2 12 12 22 15 12 12 5 14,
     SynthLUT 9103 13 1 6 2 12 12 23 15 13 12 5 13,
     SynthLUT 8946 13 1 6 2 12 12 24 15 13 12 5 13,
     SynthLUT 8797 12 1 7 2 12 12 24 15 13 12 5 13,
     SynthLUT 8655 12 1 7 2 12 12 25 15 13 12 5 13,
     SynthLUT 8520 12 1 7 2 12 12 25 15 13 12 5 13,
     SynthLUT 8392 12 1 7 2 12 12 26 15 13 12 5 13,
     SynthLUT 8269 12 1 7 2 12 12 27 15 13 12 5 13,
     SynthLUT 8153 12 1 7 2 12 12 28 15 13 12 5 13,
     SynthLUT 8041 12 1 7 2 13 12 29 15 13 12 5 13,
     SynthLUT 7934 11 1 7 2 12 12 28 15 13 12 5 13,
     SynthLUT 7831 11 1 7 2 12 12 29 15 13 12 5 13,
     SynthLUT 7733 10 1 7 3 13 12 28 15 13 12 5 13,
     SynthLUT 7638 10 1 7 2 12 12 29 15 13 12 5 13,
     SynthLUT 7547 10 1 7 2 12 12 29 15 13 12 5 13,
     SynthLUT 7459 10 1 7 2 12 12 30 15 13 12 5 13,
     SynthLUT 7374 10 2 7 3 14 13 24 15 13 12 5 13,
     SynthLUT 7291 10 2 7 3 14 13 25 15 13 12 5 13,
     SynthLUT 7212 10 2 7 3 14 13 25 15 13 12 5 13,
     SynthLUT 7135 10 2 7 3 14 13 26 15 13 12 5 13,
     SynthLUT 7061 10 2 7 3 14 13 26 15 13 12 5 13,
     SynthLUT 6988 10 1 7 3 12 14 35 15 13 12 5 13,
     SynthLUT 6918 9 1 7 3 12 14 33 15 13 12 5 13,
     SynthLUT 6850 9 1 7 3 12 14 34 15 13 12 5 13,
     SynthLUT 6784 9 1 7 2 11 14 35 15 13 12 5 13,
     SynthLUT 6720 9 1 7 2 11 14 35 15 13 12 5 13,
     SynthLUT 6658 8 2 7 3 15 13 26 15 13 12 5 13,
     SynthLUT 6597 8 2 7 2 15 13 27 15 13 12 5 13,
     SynthLUT 6539 8 2 7 2 15 13 27 15 13 12 5 13,
     SynthLUT 6482 8 2 7 2 15 13 28 15 13 12 5 13,
     SynthLUT 6427 7 2 7 3 14 13 27 15 13 12 5 13,
     SynthLUT 6373 7 2 7 3 15 13 27 15 13 12 5 13,
     SynthLUT 6321 7 2 7 3 15 13 27 15 13 12 5 13,
     SynthLUT 6270 7 2 7 3 15 13 28 15 13 12 5 13,
     SynthLUT 6222 7 2 7 3 15 13 28 15 13 12 5 13,
     SynthLUT 6174 6 2 7 3 15 13 27 15 13 12 5 13,
     SynthLUT 6128 6 2 7 3 15 13 27 15 13 12 5 13,
     SynthLUT 6083 6 2 7 3 15 13 28 15 13 12 5 13,
     SynthLUT 6040 6 2 7 3 15 13 28 15 13 12 5 13,
     SynthLUT 5997 6 2 7 3 15 13 29 15 13 12 5 13]"

definition SynthLUT_FDD_80 :: "SynthLUT list" where
  "SynthLUT_FDD_80 =
    [SynthLUT 12605 13 1 4 2 15 12 7 15 6 13 5 14,
     SynthLUT 12245 13 1 4 2 15 12 7 15 6 13 5 14,
     SynthLUT 11906 13 1 4 2 15 12 7 15 6 13 5 14,
     SynthLUT 11588 13 1 4 2 15 12 7 14 6 14 4 14,
     SynthLUT 11288 13 1 4 2 15 12 8 15 6 13 5 14,
     SynthLUT 11007 13 1 4 2 15 12 8 14 6 13 5 14,
     SynthLUT 10742 13 1 4 2 15 12 9 15 6 13 5 14,
     SynthLUT 10492 13 1 6 2 15 12 9 14 6 13 5 14,
     SynthLUT 10258 13 1 6 2 15 12 10 15 6 13 5 14,
     SynthLUT 10036 13 1 6 2 15 12 10 15 6 13 5 14,
     SynthLUT 9827 13 1 6 2 14 12 11 15 6 13 5 14,
     SynthLUT 9631 13 1 6 2 13 12 11 15 6 13 5 14,
     SynthLUT 9445 13 1 6 2 12 12 12 15 6 13 5 14,
     SynthLUT 9269 13 1 6 2 12 12 12 15 6 13 5 14,
     SynthLUT 9103 13 1 6 2 12 12 13 15 6 13 5 14,
     SynthLUT 8946 13 1 6 2 12 12 13 15 6 13 5 14,
     SynthLUT 8797 12 1 7 2 12 12 13 15 6 13 5 14,
     SynthLUT 8655 12 1 7 2 12 12 14 15 6 13 5 14,
     SynthLUT 8520 12 1 7 2 12 12 14 15 6 13 5 14,
     SynthLUT 8392 12 1 7 2 12 12 15 15 7 13 5 14,
     SynthLUT 8269 12 1 7 2 12 12 15 15 6 13 5 14,
     SynthLUT 8153 12 1 7 2 12 12 15 15 6 13 5 14,
     SynthLUT 8041 12 1 7 2 13 12 16 15 6 13 5 14,
     SynthLUT 7934 11 1 7 2 12 12 15 15 6 13 5 14,
     SynthLUT 7831 11 1 7 2 12 12 16 15 6 13 5 14,
     SynthLUT 7733 10 1 7 3 13 12 15 15 6 13 5 14,
     SynthLUT 7638 10 1 7 2 12 12 16 15 6 13 5 14,
     SynthLUT 7547 10 1 7 2 12 12 16 15 6 13 5 14,
     SynthLUT 7459 10 1 7 2 12 12 17 15 6 13 5 14,
     SynthLUT 7374 10 2 7 3 14 13 13 15 6 13 5 14,
     SynthLUT 7291 10 2 7 3 14 13 14 15 6 13 5 14,
     SynthLUT 7212 10 2 7 3 14 13 14 15 6 13 5 14,
     SynthLUT 7135 10 2 7 3 14 13 14 15 6 13 5 14,
     SynthLUT 7061 10 2 7 3 14 13 15 15 6 13 5 14,
     SynthLUT 6988 10 1 7 3 12 14 19 15 6 13 5 14, SynthLUT 6918 9 2 7 3 14 13 14 15 6 13 5 14,
     SynthLUT 6850 9 2 7 3 14 13 15 15 6 13 5 14, SynthLUT 6784 9 2 7 2 13 13 15 15 6 13 5 14,
     SynthLUT 6720 9 2 7 2 13 13 15 15 6 13 5 14, SynthLUT 6658 8 2 7 3 14 13 15 15 6 13 5 14,
     SynthLUT 6597 8 2 7 2 13 13 15 15 6 13 5 14, SynthLUT 6539 8 2 7 2 13 13 15 15 6 13 5 14,
     SynthLUT 6482 8 2 7 2 13 13 15 15 6 13 5 14, SynthLUT 6427 7 2 7 3 14 13 15 15 6 13 5 14,
     SynthLUT 6373 7 2 7 3 15 13 15 15 6 13 5 14, SynthLUT 6321 7 2 7 3 15 13 15 15 6 13 5 14,
     SynthLUT 6270 7 2 7 3 15 13 15 15 6 13 5 14, SynthLUT 6222 7 2 7 3 15 13 16 15 6 13 5 14,
     SynthLUT 6174 6 2 7 3 15 13 15 15 6 13 5 14, SynthLUT 6128 6 2 7 3 15 13 15 15 6 13 5 14,
     SynthLUT 6083 6 2 7 3 15 13 15 15 6 13 5 14, SynthLUT 6040 6 2 7 3 15 13 16 15 6 13 5 14,
     SynthLUT 5997 6 2 7 3 15 13 16 15 6 13 5 14]"

definition SynthLUT_FDD :: "SynthLUT list list" where
  "SynthLUT_FDD = [SynthLUT_FDD_40, SynthLUT_FDD_60, SynthLUT_FDD_80]"

definition SynthLUT_TDD_40 :: "SynthLUT list" where
  "SynthLUT_TDD_40 =
    [SynthLUT 12605 13 1 4 2 15 12 27 12 15 12 4 13,
     SynthLUT 12245 13 1 4 2 15 12 27 12 15 12 4 13,
     SynthLUT 11906 13 1 4 2 15 12 26 11 15 12 4 13,
     SynthLUT 11588 13 1 4 2 15 12 28 12 15 12 4 13,
     SynthLUT 11288 13 1 4 2 15 12 30 12 15 12 4 13,
     SynthLUT 11007 13 1 4 2 15 12 32 12 15 12 4 13,
     SynthLUT 10742 13 1 4 2 15 12 33 12 15 12 4 13,
     SynthLUT 10492 13 1 6 2 15 12 35 12 15 12 4 13,
     SynthLUT 10258 13 1 6 2 15 12 37 12 15 12 4 13,
     SynthLUT 10036 13 1 6 2 15 12 38 12 15 12 4 13,
     SynthLUT 9827 13 1 6 2 14 12 40 12 15 12 4 13,
     SynthLUT 9631 13 1 6 2 13 12 42 12 15 12 4 13,
     SynthLUT 9445 13 1 6 2 12 12 44 12 15 12 4 13,
     SynthLUT 9269 13 1 6 2 12 12 45 12 15 12 4 13,
     SynthLUT 9103 13 1 6 2 12 12 47 12 15 12 4 13,
     SynthLUT 8946 13 1 6 2 12 12 49 12 15 12 4 13,
     SynthLUT 8797 12 1 7 2 12 12 48 12 15 12 4 13,
     SynthLUT 8655 12 1 7 2 12 12 50 12 15 12 4 13,
     SynthLUT 8520 12 1 7 2 12 12 51 12 15 12 4 13,
     SynthLUT 8392 12 1 7 2 12 12 53 12 15 12 4 13,
     SynthLUT 8269 12 1 7 2 12 12 55 12 15 12 4 13,
     SynthLUT 8153 12 1 7 2 12 12 56 12 15 12 4 13,
     SynthLUT 8041 12 1 7 2 13 12 58 12 15 12 4 13,
     SynthLUT 7934 11 1 7 2 12 12 57 12 15 12 4 13,
     SynthLUT 7831 11 1 7 2 12 12 58 12 15 12 4 13,
     SynthLUT 7733 10 1 7 3 13 12 56 12 15 12 4 13,
     SynthLUT 7638 10 1 7 2 12 12 58 12 15 12 4 13,
     SynthLUT 7547 10 1 7 2 12 12 59 12 15 12 4 13,
     SynthLUT 7459 10 1 7 2 12 12 61 12 15 12 4 13,
     SynthLUT 7374 10 2 7 3 14 13 49 12 15 12 4 13,
     SynthLUT 7291 10 2 7 3 14 13 50 12 15 12 4 13,
     SynthLUT 7212 10 2 7 3 14 13 51 12 15 12 4 13,
     SynthLUT 7135 10 2 7 3 14 13 52 12 15 12 4 13,
     SynthLUT 7061 10 2 7 3 14 13 53 12 15 12 4 13,
     SynthLUT 6988 10 1 7 3 12 14 63 11 14 12 3 13,
     SynthLUT 6918 9 2 7 3 14 13 52 12 15 12 4 13,
     SynthLUT 6850 9 2 7 3 14 13 53 12 15 12 4 13,
     SynthLUT 6784 9 2 7 2 13 13 54 12 15 12 4 13,
     SynthLUT 6720 9 2 7 2 13 13 56 12 15 12 4 13,
     SynthLUT 6658 8 2 7 3 14 13 53 12 15 12 4 13,
     SynthLUT 6597 8 2 7 2 13 13 54 12 15 12 4 13,
     SynthLUT 6539 8 2 7 2 13 13 55 12 15 12 4 13,
     SynthLUT 6482 8 2 7 2 13 13 56 12 15 12 4 13,
     SynthLUT 6427 7 2 7 3 14 13 54 12 15 12 4 13,
     SynthLUT 6373 7 2 7 3 15 13 54 12 15 12 4 13,
     SynthLUT 6321 7 2 7 3 15 13 55 12 15 12 4 13,
     SynthLUT 6270 7 2 7 3 15 13 56 12 15 12 4 13,
     SynthLUT 6222 7 2 7 3 15 13 57 12 15 12 4 13,
     SynthLUT 6174 6 2 7 3 15 13 54 12 15 12 4 13,
     SynthLUT 6128 6 2 7 3 15 13 55 12 15 12 4 13,
     SynthLUT 6083 6 2 7 3 15 13 56 12 15 12 4 13,
     SynthLUT 6040 6 2 7 3 15 13 57 12 15 12 4 13,
     SynthLUT 5997 6 2 7 3 15 13 58 12 15 12 4 13]"

definition SynthLUT_TDD_60 :: "SynthLUT list" where
  "SynthLUT_TDD_60 =
    [SynthLUT 12605 13 1 4 2 15 12 26 11 15 11 4 13,
     SynthLUT 12245 13 1 4 2 15 12 26 11 15 11 4 13,
     SynthLUT 11906 13 1 4 2 15 12 26 12 15 11 4 12,
     SynthLUT 11588 13 1 4 2 15 12 30 12 15 11 4 12,
     SynthLUT 11288 13 1 4 2 15 12 32 12 15 10 4 12,
     SynthLUT 11007 13 1 4 2 15 12 31 12 15 11 4 12,
     SynthLUT 10742 13 1 4 2 15 12 33 12 15 10 4 12,
     SynthLUT 10492 13 1 6 2 15 12 37 12 15 10 4 12,
     SynthLUT 10258 13 1 6 2 15 12 38 12 15 11 4 13,
     SynthLUT 10036 13 1 6 2 15 12 38 12 15 10 4 12,
     SynthLUT 9827 13 1 6 2 14 12 42 12 15 11 4 12,
     SynthLUT 9631 13 1 6 2 13 12 41 12 15 11 4 12,
     SynthLUT 9445 13 1 6 2 12 12 45 12 15 11 4 12,
     SynthLUT 9269 13 1 6 2 12 12 47 12 15 11 4 12,
     SynthLUT 9103 13 1 6 2 12 12 46 12 15 11 4 12,
     SynthLUT 8946 13 1 6 2 12 12 48 12 15 10 4 12,
     SynthLUT 8797 12 1 7 2 12 12 49 12 15 11 4 13,
     SynthLUT 8655 12 1 7 2 12 12 51 12 15 11 4 12,
     SynthLUT 8520 12 1 7 2 12 12 50 12 15 11 4 12,
     SynthLUT 8392 12 1 7 2 12 12 52 12 15 10 4 12,
     SynthLUT 8269 12 1 7 2 12 12 56 12 15 10 4 12,
     SynthLUT 8153 12 1 7 2 12 12 55 12 15 11 4 12,
     SynthLUT 8041 12 1 7 2 13 12 57 12 15 10 4 12,
     SynthLUT 7934 11 1 7 2 12 12 55 12 15 11 4 12,
     SynthLUT 7831 11 1 7 2 12 12 57 12 15 10 4 12,
     SynthLUT 7733 10 1 7 3 13 12 55 12 15 11 4 12,
     SynthLUT 7638 10 1 7 2 12 12 59 12 15 10 4 12,
     SynthLUT 7547 10 1 7 2 12 12 60 12 15 11 4 12,
     SynthLUT 7459 10 1 7 2 12 12 48 12 15 11 4 12,
     SynthLUT 7374 10 2 7 3 14 13 47 12 15 11 4 13,
     SynthLUT 7291 10 2 7 3 14 13 49 12 15 10 4 12,
     SynthLUT 7212 10 2 7 3 14 13 50 12 15 10 4 12,
     SynthLUT 7135 10 2 7 3 14 13 52 12 15 11 4 13,
     SynthLUT 7061 10 2 7 3 14 13 52 12 15 11 4 12,
     SynthLUT 6988 10 1 7 3 12 14 63 11 15 11 4 13,
     SynthLUT 6918 9 1 7 3 12 14 63 11 15 11 4 13,
     SynthLUT 6850 9 1 7 3 12 14 63 11 15 11 4 13,
     SynthLUT 6784 9 1 7 2 11 14 63 11 15 11 4 13,
     SynthLUT 6720 9 1 7 2 11 14 63 11 14 11 3 13,
     SynthLUT 6658 8 1 7 3 12 14 63 11 15 11 4 13,
     SynthLUT 6597 8 1 7 2 11 14 63 11 14 11 3 13,
     SynthLUT 6539 8 1 7 2 11 14 63 10 14 11 3 13,
     SynthLUT 6482 8 1 7 2 11 14 63 10 14 11 3 13,
     SynthLUT 6427 7 2 7 3 14 13 54 12 15 10 4 12,
     SynthLUT 6373 7 2 7 3 15 13 53 12 15 11 4 12,
     SynthLUT 6321 7 2 7 3 15 13 54 12 15 11 4 12,
     SynthLUT 6270 7 2 7 3 15 13 55 12 15 11 4 12,
     SynthLUT 6222 7 2 7 3 15 13 56 12 15 11 4 12,
     SynthLUT 6174 6 2 7 3 15 13 53 12 15 11 4 12,
     SynthLUT 6128 6 2 7 3 15 13 55 12 15 11 4 12,
     SynthLUT 6083 6 2 7 3 15 13 55 12 15 10 4 12,
     SynthLUT 6040 6 2 7 3 15 13 56 12 15 10 4 12,
     SynthLUT 5997 6 2 7 3 15 13 57 12 15 10 4 12]"

definition SynthLUT_TDD_80 :: "SynthLUT list" where
  "SynthLUT_TDD_80 =
    [SynthLUT 12605 13 1 4 2 15 12 21 12 15 11 4 13,
     SynthLUT 12245 13 1 4 2 15 12 21 12 15 11 4 13,
     SynthLUT 11906 13 1 4 2 15 12 20 11 15 11 4 13,
     SynthLUT 11588 13 1 4 2 15 12 22 12 15 11 4 12,
     SynthLUT 11288 13 1 5 2 15 12 23 12 15 11 4 13,
     SynthLUT 11007 13 1 5 2 15 12 25 12 15 10 4 12,
     SynthLUT 10742 13 1 5 2 15 12 26 12 15 11 4 13,
     SynthLUT 10492 13 1 6 2 15 12 27 11 15 11 4 13,
     SynthLUT 10258 13 1 6 2 15 12 29 12 15 10 4 12,
     SynthLUT 10036 13 1 6 2 15 12 30 12 15 11 4 12,
     SynthLUT 9827 13 1 6 2 14 12 31 12 15 11 4 13,
     SynthLUT 9631 13 1 6 2 13 12 33 12 15 10 4 12,
     SynthLUT 9445 13 1 6 2 12 12 34 12 15 11 4 12,
     SynthLUT 9269 13 1 6 2 12 12 35 12 15 11 4 13,
     SynthLUT 9103 13 1 6 2 12 12 37 12 15 10 4 12,
     SynthLUT 8946 13 1 6 2 12 12 38 12 15 11 4 12,
     SynthLUT 8797 12 1 7 2 12 12 37 12 15 11 4 13,
     SynthLUT 8655 12 1 7 2 12 12 39 12 15 11 4 12,
     SynthLUT 8520 12 1 7 2 12 12 40 12 15 11 4 12,
     SynthLUT 8392 12 1 7 2 12 12 41 12 15 11 4 13,
     SynthLUT 8269 12 1 7 2 12 12 43 12 15 10 4 12,
     SynthLUT 8153 12 1 7 2 12 12 44 12 15 11 4 12,
     SynthLUT 8041 12 1 7 2 13 12 45 12 15 11 4 12,
     SynthLUT 7934 11 1 7 2 12 12 44 12 15 11 4 12,
     SynthLUT 7831 11 1 7 2 12 12 45 12 15 11 4 13,
     SynthLUT 7733 10 1 7 3 13 12 44 12 15 11 4 12,
     SynthLUT 7638 10 1 7 2 12 12 45 12 15 11 4 12,
     SynthLUT 7547 10 1 7 2 12 12 46 12 15 11 4 12,
     SynthLUT 7459 10 1 7 2 12 12 47 12 15 11 4 13,
     SynthLUT 7374 10 2 7 3 14 13 38 12 15 11 4 12,
     SynthLUT 7291 10 2 7 3 14 13 39 12 15 10 4 12,
     SynthLUT 7212 10 2 7 3 14 13 40 12 15 10 4 12,
     SynthLUT 7135 10 2 7 3 14 13 41 12 15 10 4 12,
     SynthLUT 7061 10 2 7 3 14 13 41 12 15 11 4 13,
     SynthLUT 6988 10 1 7 3 12 14 54 12 15 11 4 12,
     SynthLUT 6918 9 2 7 3 14 13 41 12 15 10 4 12,
     SynthLUT 6850 9 2 7 3 14 13 42 12 15 10 4 12,
     SynthLUT 6784 9 2 7 2 13 13 42 12 15 11 4 13,
     SynthLUT 6720 9 2 7 2 13 13 43 12 15 11 4 13,
     SynthLUT 6658 8 2 7 3 14 13 41 12 15 11 4 13,
     SynthLUT 6597 8 2 7 2 13 13 42 12 15 11 4 12,
     SynthLUT 6539 8 2 7 2 13 13 43 12 15 11 4 12,
     SynthLUT 6482 8 2 7 2 13 13 44 12 15 11 4 12,
     SynthLUT 6427 7 2 7 3 14 13 42 12 15 10 4 12,
     SynthLUT 6373 7 2 7 3 15 13 42 12 15 11 4 13,
     SynthLUT 6321 7 2 7 3 15 13 43 12 15 11 4 12,
     SynthLUT 6270 7 2 7 3 15 13 44 12 15 11 4 12,
     SynthLUT 6222 7 2 7 3 15 13 45 12 15 10 4 12,
     SynthLUT 6174 6 2 7 3 15 13 42 12 15 11 4 13,
     SynthLUT 6128 6 2 7 3 15 13 43 12 15 11 4 12,
     SynthLUT 6083 6 2 7 3 15 13 44 12 15 10 4 12,
     SynthLUT 6040 6 2 7 3 15 13 44 12 15 11 4 13,
     SynthLUT 5997 6 2 7 3 15 13 45 12 15 11 4 12]"

definition SynthLUT_TDD :: "SynthLUT list list" where
  "SynthLUT_TDD = [SynthLUT_TDD_40, SynthLUT_TDD_60, SynthLUT_TDD_80]"

definition full_gain_table_800 :: "gain_row list" where
  "full_gain_table_800 =
    [(0, 0, 32), (0, 0, 0), (0, 0, 0), (0, 1, 0), (0, 2, 0), (0, 3, 0), (0, 4, 0), (0, 5, 0),
     (1, 3, 32), (1, 4, 0), (1, 5, 0), (1, 6, 0), (1, 7, 0), (1, 8, 0), (1, 9, 0), (1, 10, 0),
     (1, 11, 0), (1, 12, 0), (1, 13, 0), (1, 14, 0), (2, 9, 32), (2, 10, 0), (2, 11, 0),
     (2, 12, 0), (2, 13, 0), (2, 14, 0), (2, 15, 0), (2, 16, 0), (2, 43, 32), (2, 44, 0),
     (4, 40, 32), (4, 41, 0), (4, 42, 0), (4, 43, 0), (36, 32, 32), (36, 33, 0), (68, 32, 32),
     (68, 33, 0), (68, 34, 0), (68, 35, 0), (68, 36, 0), (68, 37, 0), (68, 38, 0), (68, 39, 0),
     (68, 40, 0), (68, 41, 0), (68, 42, 0), (68, 43, 0), (68, 44, 0), (68, 45, 0), (68, 46, 0),
     (68, 47, 0), (68, 48, 0), (68, 49, 0), (68, 50, 0), (100, 46, 32), (100, 47, 0),
     (100, 48, 0), (100, 49, 0), (100, 50, 0), (100, 51, 0), (100, 52, 0), (100, 53, 0),
     (100, 54, 0), (100, 55, 0), (100, 56, 0), (101, 56, 32), (102, 56, 32), (103, 56, 32),
     (104, 56, 32), (105, 56, 32), (106, 56, 32), (107, 56, 32), (108, 56, 32), (109, 56, 32),
     (110, 56, 32), (111, 56, 32)]"

definition full_gain_table_2300 :: "gain_row list" where
  "full_gain_table_2300 =
    [(0, 0, 32), (0, 0, 0), (0, 0, 0), (0, 1, 0), (0, 2, 0), (0, 3, 0), (0, 4, 0), (0, 5, 0),
     (1, 3, 32), (1, 4, 0), (1, 5, 0), (1, 6, 0), (1, 7, 0), (1, 8, 0), (1, 9, 0), (1, 10, 0),
     (1, 11, 0), (1, 12, 0), (1, 13, 0), (1, 14, 0), (2, 9, 32), (2, 10, 0), (2, 11, 0),
     (2, 12, 0), (2, 13, 0), (2, 14, 0), (2, 15, 0), (2, 16, 0), (2, 43, 32), (2, 44, 0),
     (4, 39, 32), (4, 40, 0), (4, 41, 0), (4, 42, 0), (4, 43, 0), (36, 33, 32), (36, 34, 0),
     (68, 32, 32), (68, 33, 0), (68, 34, 0), (68, 35, 0), (68, 36, 0), (68, 37, 0),
     (68, 38, 0), (68, 39, 0), (68, 40, 0), (68, 41, 0), (68, 42, 0), (68, 43, 0), (68, 44, 0),
     (68, 45, 0), (68, 46, 0), (68, 47, 0), (68, 48, 0), (68, 49, 0), (100, 46, 32),
     (100, 47, 0), (100, 48, 0), (100, 49, 0), (100, 50, 0), (100, 51, 0), (100, 52, 0),
     (100, 53, 0), (100, 54, 0), (100, 55, 0), (100, 56, 0), (101, 56, 32), (102, 56, 32),
     (103, 56, 32), (104, 56, 32), (105, 56, 32), (106, 56, 32), (107, 56, 32), (108, 56, 32),
     (109, 56, 32), (110, 56, 32), (111, 56, 32)]"

definition full_gain_table_5500 :: "gain_row list" where
  "full_gain_table_5500 =
    [(0, 0, 32), (0, 0, 0), (0, 0, 0), (0, 0, 0), (0, 0, 0), (0, 1, 0), (0, 2, 0), (0, 3, 0),
     (1, 1, 32), (1, 2, 0), (1, 3, 0), (1, 4, 32), (1, 5, 0), (1, 6, 0), (1, 7, 0), (1, 8, 0),
     (1, 9, 0), (1, 10, 0), (1, 11, 0), (1, 12, 0), (2, 8, 32), (2, 9, 0), (2, 10, 0),
     (2, 11, 32), (2, 12, 0), (2, 13, 0), (2, 14, 0), (2, 15, 0), (2, 42, 32), (2, 43, 0),
     (4, 39, 32), (4, 40, 0), (4, 41, 0), (4, 42, 0), (4, 43, 0), (4, 44, 0), (4, 45, 0),
     (36, 32, 32), (36, 33, 0), (36, 34, 0), (68, 32, 32), (68, 33, 0), (68, 34, 0),
     (68, 35, 0), (68, 36, 0), (68, 37, 0), (68, 38, 0), (68, 39, 0), (68, 40, 0), (68, 41, 0),
     (68, 42, 0), (68, 43, 0), (68, 44, 0), (68, 45, 0), (68, 46, 0), (100, 46, 32),
     (100, 47, 0), (100, 48, 0), (100, 49, 0), (100, 50, 0), (100, 51, 0), (100, 52, 0),
     (100, 53, 0), (100, 54, 0), (100, 55, 0), (100, 56, 0), (101, 56, 32), (102, 56, 32),
     (103, 56, 32), (104, 56, 32), (105, 56, 32), (106, 56, 32), (107, 56, 32), (108, 56, 32),
     (109, 56, 32), (110, 56, 32), (111, 56, 32)]"

definition full_gain_table :: "gain_row list list" where
  "full_gain_table = [full_gain_table_800, full_gain_table_2300, full_gain_table_5500]"

definition full_gain_table_abs_gain_800 :: "int list" where
  "full_gain_table_abs_gain_800 =
    [(- 1), (- 1), (- 1), 0, 1, 2, 3, 4, 5, 6, 7, 8, 9, 10, 11, 12, 13, 14, 15, 16, 17, 18, 19,
     20, 21, 22, 23, 24, 25, 26, 27, 28, 29, 30, 31, 32, 33, 34, 35, 36, 37, 38, 39, 40, 41,
     42, 43, 44, 45, 46, 47, 48, 49, 50, 51, 52, 53, 54, 55, 56, 57, 58, 59, 60, 61, 62, 63,
     64, 65, 66, 67, 68, 69, 70, 71, 72, 73]"

definition full_gain_table_abs_gain_2300 :: "int list" where
  "full_gain_table_abs_gain_2300 =
    [(- 3), (- 3), (- 3), (- 2), (- 1), 0, 1, 2, 3, 4, 5, 6, 7, 8, 9, 10, 11, 12, 13, 14, 15,
     16, 17, 18, 19, 20, 21, 22, 23, 24, 25, 26, 27, 28, 29, 30, 31, 32, 33, 34, 35, 36, 37,
     38, 39, 40, 41, 42, 43, 44, 45, 46, 47, 48, 49, 50, 51, 52, 53, 54, 55, 56, 57, 58, 59,
     60, 61, 62, 63, 64, 65, 66, 67, 68, 69, 70, 71]"

definition full_gain_table_abs_gain_5500 :: "int list" where
  "full_gain_table_abs_gain_5500 =
    [(- 10), (- 10), (- 10), (- 10), (- 10), (- 9), (- 8), (- 7), (- 6), (- 5), (- 4), (- 3),
     (- 2), (- 1), 0, 1, 2, 3, 4, 5, 6, 7, 8, 9, 10, 11, 12, 13, 14, 15, 16, 17, 18, 19, 20,
     21, 22, 23, 24, 25, 26, 27, 28, 29, 30, 31, 32, 33, 34, 35, 36, 37, 38, 39, 40, 41, 42,
     43, 44, 45, 46, 47, 48, 49, 50, 51, 52, 53, 54, 55, 56, 57, 58, 59, 60, 61, 62]"

definition full_gain_table_abs_gain :: "int list list" where
  "full_gain_table_abs_gain = [full_gain_table_abs_gain_800, full_gain_table_abs_gain_2300, full_gain_table_abs_gain_5500]"

definition split_gain_table_800 :: "gain_row list" where
  "split_gain_table_800 =
    [(0, 24, 32), (0, 24, 0), (0, 24, 0), (0, 24, 0), (0, 24, 0), (0, 24, 0), (0, 24, 32),
     (1, 24, 32), (2, 24, 32), (4, 24, 32), (4, 56, 32), (5, 56, 32), (6, 56, 32), (7, 56, 32),
     (8, 56, 32), (9, 56, 32), (10, 56, 32), (11, 56, 32), (12, 56, 32), (13, 56, 32),
     (14, 56, 32), (15, 56, 32), (36, 56, 32), (37, 56, 32), (68, 56, 32), (69, 56, 32),
     (70, 56, 32), (71, 56, 32), (72, 56, 32), (100, 56, 32), (101, 56, 32), (102, 56, 32),
     (103, 56, 32), (104, 56, 32), (105, 56, 32), (106, 56, 32), (107, 56, 32), (108, 56, 32),
     (109, 56, 32), (110, 56, 32), (111, 56, 32)]"

definition split_gain_table_2300 :: "gain_row list" where
  "split_gain_table_2300 =
    [(0, 24, 32), (0, 24, 0), (0, 24, 0), (0, 24, 0), (0, 24, 0), (0, 24, 0), (0, 24, 0),
     (0, 24, 32), (1, 24, 32), (2, 24, 32), (4, 24, 32), (4, 56, 32), (5, 56, 32), (6, 56, 32),
     (7, 56, 32), (8, 56, 32), (9, 56, 32), (10, 56, 32), (11, 56, 32), (12, 56, 32),
     (13, 56, 32), (14, 56, 32), (15, 56, 32), (37, 56, 32), (38, 56, 32), (68, 56, 32),
     (69, 56, 32), (70, 56, 32), (71, 56, 32), (100, 56, 32), (101, 56, 32), (102, 56, 32),
     (103, 56, 32), (104, 56, 32), (105, 56, 32), (106, 56, 32), (107, 56, 32), (108, 56, 32),
     (109, 56, 32), (110, 56, 32), (111, 56, 32)]"

definition split_gain_table_5500 :: "gain_row list" where
  "split_gain_table_5500 =
    [(0, 24, 32), (0, 24, 0), (0, 24, 0), (0, 24, 0), (0, 24, 0), (0, 24, 0), (0, 24, 0),
     (0, 24, 0), (0, 24, 0), (0, 24, 0), (1, 24, 32), (2, 24, 32), (4, 24, 32), (4, 56, 32),
     (5, 56, 32), (6, 56, 32), (7, 56, 32), (8, 56, 32), (9, 56, 32), (10, 56, 32),
     (11, 56, 32), (12, 56, 32), (13, 56, 32), (14, 56, 32), (15, 56, 32), (98, 56, 32),
     (37, 56, 32), (38, 56, 32), (68, 56, 32), (100, 56, 32), (101, 56, 32), (102, 56, 32),
     (103, 56, 32), (104, 56, 32), (105, 56, 32), (106, 56, 32), (107, 56, 32), (108, 56, 32),
     (109, 56, 32), (110, 56, 32), (111, 56, 32)]"

definition split_gain_table :: "gain_row list list" where
  "split_gain_table = [split_gain_table_800, split_gain_table_2300, split_gain_table_5500]"

definition split_gain_table_abs_gain_800 :: "int list" where
  "split_gain_table_abs_gain_800 =
    [(- 1), (- 1), (- 1), (- 1), (- 1), (- 1), (- 1), 2, 8, 13, 19, 20, 21, 22, 23, 24, 25, 26,
     27, 28, 29, 30, 31, 32, 33, 34, 35, 36, 37, 38, 39, 40, 41, 42, 43, 44, 45, 46, 47, 48,
     49]"

definition split_gain_table_abs_gain_2300 :: "int list" where
  "split_gain_table_abs_gain_2300 =
    [(- 3), (- 3), (- 3), (- 3), (- 3), (- 3), (- 3), (- 3), 0, 6, 12, 18, 19, 20, 21, 22, 23,
     24, 25, 26, 27, 28, 29, 30, 31, 32, 33, 34, 35, 36, 37, 38, 39, 40, 41, 42, 43, 44, 45,
     46, 47]"

definition split_gain_table_abs_gain_5500 :: "int list" where
  "split_gain_table_abs_gain_5500 =
    [(- 10), (- 10), (- 10), (- 10), (- 10), (- 10), (- 10), (- 10), (- 10), (- 10), (- 7),
     (- 2), 3, 9, 10, 11, 12, 13, 14, 15, 16, 17, 18, 19, 20, 22, 24, 25, 26, 27, 28, 29, 30,
     31, 32, 33, 34, 35, 36, 37, 38]"

definition split_gain_table_abs_gain :: "int list list" where
  "split_gain_table_abs_gain = [split_gain_table_abs_gain_800, split_gain_table_abs_gain_2300, split_gain_table_abs_gain_5500]"

subsection \<open>The default gain table descriptors\<close>

record gain_table_info =
  gt_start :: u64
  gt_end :: u64
  gt_max_index :: u8
  gt_split_table :: bool
  gt_abs_gain :: "int list"
  gt_tab :: "gain_row list"

definition ad9361_adi_gt_info :: "gain_table_info list" where
  "ad9361_adi_gt_info =
    [\<lparr>gt_start = 0, gt_end = 1300000000, gt_max_index = SIZE_FULL_TABLE, gt_split_table = False,
      gt_abs_gain = full_gain_table_abs_gain_800, gt_tab = full_gain_table_800\<rparr>,
     \<lparr>gt_start = 1300000000, gt_end = 4000000000, gt_max_index = SIZE_FULL_TABLE, gt_split_table = False,
      gt_abs_gain = full_gain_table_abs_gain_2300, gt_tab = full_gain_table_2300\<rparr>,
     \<lparr>gt_start = 4000000000, gt_end = 6000000000, gt_max_index = SIZE_FULL_TABLE, gt_split_table = False,
      gt_abs_gain = full_gain_table_abs_gain_5500, gt_tab = full_gain_table_5500\<rparr>,
     \<lparr>gt_start = 0, gt_end = 1300000000, gt_max_index = SIZE_SPLIT_TABLE, gt_split_table = True,
      gt_abs_gain = split_gain_table_abs_gain_800, gt_tab = split_gain_table_800\<rparr>,
     \<lparr>gt_start = 1300000000, gt_end = 4000000000, gt_max_index = SIZE_SPLIT_TABLE, gt_split_table = True,
      gt_abs_gain = split_gain_table_abs_gain_2300, gt_tab = split_gain_table_2300\<rparr>,
     \<lparr>gt_start = 4000000000, gt_end = 6000000000, gt_max_index = SIZE_SPLIT_TABLE, gt_split_table = True,
      gt_abs_gain = split_gain_table_abs_gain_5500, gt_tab = split_gain_table_5500\<rparr>]"

text \<open>\<open>RXGAIN_TBLS_END\<close> tables of gains per LNA, mixer and TIA index.\<close>

definition lna_table :: "int list list" where
  "lna_table = [[5, 17, 19, 24], [3, 14, 17, 21], [- 4, 10, 13, 14]]"

definition tia_table :: "int list" where "tia_table = [- 6, 0]"

definition mixer_table :: "int list list" where
  "mixer_table =
    [[0, 3, 9, 13, 14, 15, 16, 17, 18, 19, 20, 21, 22, 23, 24, 25],
     [0, 3, 9, 14, 15, 16, 17, 18, 19, 20, 21, 22, 23, 24, 25, 26],
     [0, 3, 8, 12, 13, 14, 15, 16, 17, 18, 19, 20, 21, 22, 23, 24]]"

definition gm_st_gain :: "u8 list" where
  "gm_st_gain = [0x78, 0x74, 0x70, 0x6C, 0x68, 0x64, 0x60, 0x5C, 0x58, 0x54, 0x50, 0x4C, 0x48, 0x30, 0x18, 0x0]"

definition gm_st_ctrl :: "u8 list" where
  "gm_st_ctrl = [0x0, 0xD, 0x15, 0x1B, 0x21, 0x25, 0x29, 0x2C, 0x2F, 0x31, 0x33, 0x34, 0x35, 0x3A, 0x3D, 0x3E]"

subsection \<open>What the tables satisfy\<close>

fun falling :: "u16 list \<Rightarrow> bool" where
  "falling (a # b # xs) \<longleftrightarrow> b < a \<and> falling (b # xs)"
| "falling _ \<longleftrightarrow> True"

fun rising :: "int list \<Rightarrow> bool" where
  "rising (a # b # xs) \<longleftrightarrow> a \<le> b \<and> rising (b # xs)"
| "rising _ \<longleftrightarrow> True"

definition synth_lut_ok :: "SynthLUT list \<Rightarrow> bool" where
  "synth_lut_ok tab \<longleftrightarrow> length tab = SYNTH_LUT_SIZE \<and> VCO_MHz (last tab) \<le> 6000 \<and> falling (map VCO_MHz tab)"

lemma synth_luts_ok:
  "list_all synth_lut_ok SynthLUT_FDD" "list_all synth_lut_ok SynthLUT_TDD"
  by code_simp+

definition gain_table_ok :: "gain_table_info \<Rightarrow> bool" where
  "gain_table_ok g \<longleftrightarrow> length (gt_tab g) = unat (gt_max_index g) \<and>
     length (gt_abs_gain g) = unat (gt_max_index g) \<and> rising (gt_abs_gain g) \<and> gt_start g < gt_end g"

lemma adi_gt_info_ok: "list_all gain_table_ok ad9361_adi_gt_info"
  by code_simp

end
