(* ===== verification/Ad_Rfpll.thy ===== *)
theory Ad_Rfpll
  imports Ad_Tables "HOL-Library.Monad_Syntax"
begin

text \<open>
  The RF synthesizer arithmetic of the AD9361 driver: which carriers are accepted, how a
  carrier becomes a divider, an integer and a fractional word, what carrier those stand
  for, and which row of the look-up tables programs the VCO. \<^verbatim>\<open>do_div\<close> is the quotient of
  the 64-bit value; its remainder is written out.
\<close>

definition RFPLL_MODULUS :: u64 where "RFPLL_MODULUS = 8388593"
definition MIN_VCO_FREQ_HZ :: u64 where "MIN_VCO_FREQ_HZ = 6000000000"
definition MAX_CARRIER_FREQ_HZ :: u64 where "MAX_CARRIER_FREQ_HZ = 6000000000"
definition MIN_RX_CARRIER_FREQ_HZ :: u64 where "MIN_RX_CARRIER_FREQ_HZ = 70000000"
definition MIN_TX_CARRIER_FREQ_HZ :: u64 where "MIN_TX_CARRIER_FREQ_HZ = 46875001"
definition AD9363A_MAX_CARRIER_FREQ_HZ :: u64 where "AD9363A_MAX_CARRIER_FREQ_HZ = 3800000000"
definition AD9363A_MIN_CARRIER_FREQ_HZ :: u64 where "AD9363A_MIN_CARRIER_FREQ_HZ = 325000000"

datatype ad_dev = ID_AD9361 | ID_AD9364 | ID_AD9361_2 | ID_AD9363A

text \<open>\<^verbatim>\<open>-EINVAL\<close> is -22, as the driver returns it.\<close>

definition validate_rfpll :: "ad_dev \<Rightarrow> bool \<Rightarrow> u64 \<Rightarrow> int" where
  "validate_rfpll dev is_tx freq =
     (if dev = ID_AD9363A
      then (if AD9363A_MAX_CARRIER_FREQ_HZ < freq \<or> freq < AD9363A_MIN_CARRIER_FREQ_HZ then - 22 else 0)
      else if MAX_CARRIER_FREQ_HZ < freq \<or>
              freq < (if is_tx then MIN_TX_CARRIER_FREQ_HZ else MIN_RX_CARRIER_FREQ_HZ)
           then - 22 else 0)"

definition clamp_u32 :: "u32 \<Rightarrow> u32 \<Rightarrow> u32 \<Rightarrow> u32" where
  "clamp_u32 v lo hi = (if v < lo then lo else if hi < v then hi else v)"

definition validate_rf_bw :: "ad_dev \<Rightarrow> u32 \<Rightarrow> u32" where
  "validate_rf_bw dev bw =
     (if dev = ID_AD9363A then clamp_u32 bw 200000 20000000 else clamp_u32 bw 200000 56000000)"

text \<open>The clock framework's rates are 32 bits wide, so carriers travel halved.\<close>

definition ad9361_to_clk :: "u64 \<Rightarrow> ulong" where
  "ad9361_to_clk freq = (let h = drop_bit 1 freq in ucast (if h < 4294967295 then h else 4294967295))"

definition ad9361_from_clk :: "ulong \<Rightarrow> u64" where
  "ad9361_from_clk freq = push_bit 1 (ucast freq)"

subsection \<open>Divider words\<close>

definition calc_rfpll_freq :: "u64 \<Rightarrow> u64 \<Rightarrow> u64 \<Rightarrow> u32 \<Rightarrow> u64" where
  "calc_rfpll_freq parent_rate integer fract vco_div =
     (let rate = parent_rate * fract div RFPLL_MODULUS + parent_rate * integer
      in drop_bit (unat (vco_div + 1)) rate)"

text \<open>The doubling loop. On 0 it does not end; the value is then \<open>None\<close>.\<close>

partial_function (option) vco_scale :: "u64 \<Rightarrow> int \<Rightarrow> (u64 \<times> int) option" where
  "vco_scale freq div' =
     (if freq \<le> MIN_VCO_FREQ_HZ then vco_scale (push_bit 1 freq) (div' + 1) else Some (freq, div'))"

record rfpll_words =
  rw_integer :: u32
  rw_fract :: u32
  rw_div :: int
  rw_vco :: u64

definition calc_rfpll_divder :: "ad_dev \<Rightarrow> bool \<Rightarrow> u64 \<Rightarrow> u64 \<Rightarrow> (int + rfpll_words) option" where
  "calc_rfpll_divder dev is_tx freq parent_rate =
     (let ret = validate_rfpll dev is_tx freq in
      if ret \<noteq> 0 then Some (Inl ret)
      else do {
        (vco, d) \<leftarrow> vco_scale freq (- 1);
        let tmp = (vco mod parent_rate * RFPLL_MODULUS + drop_bit 1 parent_rate) div parent_rate;
        Some (Inr \<lparr>rw_integer = ucast (vco div parent_rate), rw_fract = ucast tmp, rw_div = d, rw_vco = vco\<rparr>)
      })"

subsection \<open>The VCO row\<close>

text \<open>\<^verbatim>\<open>LUT_FTDD_40\<close>, \<^verbatim>\<open>LUT_FTDD_60\<close> and \<^verbatim>\<open>LUT_FTDD_80\<close> are 0, 1 and 2.\<close>

definition rfvco_tableindex :: "ulong \<Rightarrow> nat" where
  "rfvco_tableindex freq = (if freq < 50000000 then 0 else if freq \<le> 70000000 then 1 else 2)"

text \<open>The search of \<^verbatim>\<open>ad9361_rfpll_vco_init\<close>: the row it stops at, 53 when it runs off.\<close>

fun vco_search :: "u64 \<Rightarrow> nat \<Rightarrow> SynthLUT list \<Rightarrow> nat" where
  "vco_search mhz i [] = i"
| "vco_search mhz i (r # rs) = (if mhz < ucast (VCO_MHz r) then vco_search mhz (i + 1) rs else i)"

definition synth_tab :: "bool \<Rightarrow> ulong \<Rightarrow> SynthLUT list" where
  "synth_tab fdd ref_clk = (if fdd then SynthLUT_FDD else SynthLUT_TDD) ! rfvco_tableindex ref_clk"

definition vco_row :: "bool \<Rightarrow> u64 \<Rightarrow> ulong \<Rightarrow> nat" where
  "vco_row fdd vco_freq ref_clk = vco_search (vco_freq div 1000000) 0 (synth_tab fdd ref_clk)"

subsection \<open>Lemmas\<close>

lemma unat_u64_lt: "unat (x :: u64) < 18446744073709551616"
  using unsigned_less [of x] by simp

lemma vco_scale_stop: "MIN_VCO_FREQ_HZ < f \<Longrightarrow> vco_scale f d = Some (f, d)"
  by (subst vco_scale.simps) auto

lemma vco_scale_step: "f \<le> MIN_VCO_FREQ_HZ \<Longrightarrow> vco_scale f d = vco_scale (push_bit 1 f) (d + 1)"
  by (subst vco_scale.simps) simp

lemma unat_double:
  assumes "unat (f :: u64) \<le> 6000000000"
  shows "unat (push_bit 1 f) = 2 * unat f"
  using assms by (simp add: push_bit_eq_mult unat_word_ariths)

lemma vco_scale_result:
  assumes "6000000000 < unat f * 2 ^ k" "unat f \<le> 12000000000" "0 < unat f"
  shows "\<exists>j v. vco_scale f d = Some (v, d + int j) \<and> j \<le> k \<and> unat v = unat f * 2 ^ j \<and>
     6000000000 < unat v \<and> unat v \<le> 12000000000 \<and> (0 < j \<longrightarrow> unat f \<le> 6000000000)"
  using assms
proof (induction k arbitrary: f d)
  case 0
  then show ?case using vco_scale_stop [of f d] by (simp add: MIN_VCO_FREQ_HZ_def word_nat)
next
  case (Suc k)
  show ?case
  proof (cases "unat f \<le> 6000000000")
    case True
    have dbl: "unat (push_bit 1 f) = 2 * unat f" by (rule unat_double [OF True])
    obtain j v where j: "vco_scale (push_bit 1 f) (d + 1) = Some (v, d + 1 + int j)" "j \<le> k"
      "unat v = unat (push_bit 1 f) * 2 ^ j" "6000000000 < unat v" "unat v \<le> 12000000000"
      using Suc.IH [of "push_bit 1 f" "d + 1"] Suc.prems True unfolding dbl by auto
    have "vco_scale f d = Some (v, d + int (Suc j))"
      using vco_scale_step [of f d] True j(1) by (simp add: MIN_VCO_FREQ_HZ_def word_nat add.assoc)
    then show ?thesis using j dbl True by (intro exI [of _ "Suc j"] exI [of _ v]) simp
  next
    case False
    then show ?thesis
      using vco_scale_stop [of f d] Suc.prems
      by (intro exI [of _ 0] exI [of _ f]) (simp add: MIN_VCO_FREQ_HZ_def word_nat)
  qed
qed

lemma validate_rfpll_range:
  assumes "validate_rfpll dev is_tx freq = 0"
  shows "46875001 \<le> unat freq" "unat freq \<le> 6000000000"
  using assms
  by (auto simp: validate_rfpll_def MAX_CARRIER_FREQ_HZ_def MIN_RX_CARRIER_FREQ_HZ_def MIN_TX_CARRIER_FREQ_HZ_def
      AD9363A_MAX_CARRIER_FREQ_HZ_def AD9363A_MIN_CARRIER_FREQ_HZ_def word_nat split: if_splits)

text \<open>For an accepted carrier the loop ends, the VCO is in its octave and the divider in 0 to 6.\<close>

lemma vco_scale_valid:
  assumes "validate_rfpll dev is_tx freq = 0"
  shows "\<exists>j v. vco_scale freq (- 1) = Some (v, int j) \<and> j \<le> 6 \<and> unat v = unat freq * 2 ^ (j + 1) \<and>
     6000000000 < unat v \<and> unat v \<le> 12000000000"
proof -
  note r = validate_rfpll_range [OF assms]
  obtain j v where j: "vco_scale freq (- 1) = Some (v, - 1 + int j)" "j \<le> 8" "unat v = unat freq * 2 ^ j"
    "6000000000 < unat v" "unat v \<le> 12000000000" "0 < j \<longrightarrow> unat freq \<le> 6000000000"
    using vco_scale_result [of freq 8 "- 1"] r by auto
  have "j \<noteq> 0" using j(3,4) r(2) by (cases j) auto
  moreover have "j \<noteq> 8" using j(3,5) r(1) by auto
  ultimately obtain i where "j = Suc i" "i \<le> 6" using j(2) by (cases j) auto
  then show ?thesis using j by (intro exI [of _ i] exI [of _ v]) simp
qed

text \<open>Rounding to the nearest multiple of \<open>1/M\<close> and back, on natural numbers.\<close>

lemma fract_error:
  fixes r p M N :: nat
  assumes "0 < p" "0 < M" "p < 2 * (N * M)"
  defines "f \<equiv> (r * M + p div 2) div p"
  shows "p * f div M \<le> r + N" "r \<le> p * f div M + N"
proof -
  have f1: "f * p \<le> r * M + p div 2" unfolding f_def by simp
  have f2: "r * M + p div 2 < f * p + p"
    unfolding f_def using assms(1) by (metis add.commute dividend_less_div_times)
  have h: "p div 2 < N * M" "p \<le> p div 2 + N * M" using assms(3) by linarith+
  have "p * f < r * M + N * M" using f1 h(1) by (simp add: mult.commute [of p f])
  then have "p * f < (r + N) * M" by (simp add: add_mult_distrib)
  then have "p * f div M < r + N" by (rule less_mult_imp_div_less)
  then show "p * f div M \<le> r + N" by simp
  have "p * f < (p * f div M) * M + M"
    using assms(2) by (metis add.commute dividend_less_div_times)
  then have "r * M < (p * f div M) * M + M + N * M" using f2 h(2) by (simp add: mult.commute [of p f])
  also have "\<dots> = (p * f div M + 1 + N) * M" by (simp add: add_mult_distrib)
  finally have "r < p * f div M + 1 + N" unfolding mult_less_cancel2 by (rule conjunct2)
  then show "r \<le> p * f div M + N" by simp
qed

lemma unat_ucast_u32: "unat (x :: u64) < 4294967296 \<Longrightarrow> unat (ucast x :: u32) = unat x"
  by (simp add: unsigned_ucast_eq take_bit_nat_eq_self)

text \<open>The words of an accepted carrier, as natural numbers.\<close>

lemma calc_rfpll_divder_words:
  assumes "validate_rfpll dev is_tx freq = 0" and "5859376 \<le> unat p" and "unat p < 83885930"
  shows "\<exists>w k v. calc_rfpll_divder dev is_tx freq p = Some (Inr w) \<and> rw_div w = int k \<and> k \<le> 6 \<and>
     rw_vco w = v \<and> unat v = unat freq * 2 ^ (k + 1) \<and> 6000000000 < unat v \<and> unat v \<le> 12000000000 \<and>
     unat (rw_integer w) = unat v div unat p \<and>
     unat (rw_fract w) = (unat v mod unat p * 8388593 + unat p div 2) div unat p \<and>
     unat (rw_integer w) < 2048 \<and> unat (rw_fract w) < 8388608"
proof -
  obtain k v where v: "vco_scale freq (- 1) = Some (v, int k)" "k \<le> 6" "unat v = unat freq * 2 ^ (k + 1)"
    "6000000000 < unat v" "unat v \<le> 12000000000"
    using vco_scale_valid [OF assms(1)] by blast
  let ?r = "unat v mod unat p"
  have r: "?r < unat p" using assms(2) by simp
  have I: "unat (v div p) = unat v div unat p" by (rule unat_div_distrib)
  have "unat v div unat p * 5859376 \<le> unat v div unat p * unat p" using assms(2) by simp
  also have "\<dots> \<le> unat v" by simp
  finally have Ib: "unat v div unat p < 2048" using v(5) by linarith
  have rM: "?r * 8388593 < 83885930 * 8388593" using r assms(3) by simp
  have m: "unat (v mod p * RFPLL_MODULUS) = ?r * 8388593"
    using rM by (subst unat_times_lt) (simp_all add: RFPLL_MODULUS_def unat_mod_distrib)
  have h: "unat (drop_bit 1 p) = unat p div 2" unfolding unat_drop_bit_eq unfolding drop_bit_eq_div by simp
  have a: "unat (v mod p * RFPLL_MODULUS + drop_bit 1 p) = ?r * 8388593 + unat p div 2"
    using rM assms(3) by (subst unat_plus_lt) (simp_all add: m h del: One_nat_def)
  have F: "unat ((v mod p * RFPLL_MODULUS + drop_bit 1 p) div p) = (?r * 8388593 + unat p div 2) div unat p"
    unfolding unat_div_distrib a ..
  have "?r * 8388593 + unat p div 2 < 8388608 * unat p"
  proof -
    have "?r * 8388593 \<le> unat p * 8388593" using r by simp
    moreover have "unat p div 2 < 15 * unat p" using assms(2) by linarith
    ultimately show ?thesis by linarith
  qed
  then have Fb: "(?r * 8388593 + unat p div 2) div unat p < 8388608"
    by (simp add: less_mult_imp_div_less)
  let ?w = "\<lparr>rw_integer = ucast (v div p), rw_fract = ucast ((v mod p * RFPLL_MODULUS + drop_bit 1 p) div p),
     rw_div = int k, rw_vco = v\<rparr>"
  have c: "calc_rfpll_divder dev is_tx freq p = Some (Inr ?w)"
    by (simp add: calc_rfpll_divder_def assms(1) v(1) Let_def)
  have wI: "unat (rw_integer ?w) = unat v div unat p"
    using unat_ucast_u32 [of "v div p"] I Ib by simp
  have wF: "unat (rw_fract ?w) = (?r * 8388593 + unat p div 2) div unat p"
    using unat_ucast_u32 [of "(v mod p * RFPLL_MODULUS + drop_bit 1 p) div p"] F Fb by simp
  show ?thesis
    using c v(2-5) wI wF Ib Fb by (intro exI [of _ ?w] exI [of _ k] exI [of _ v]) simp
qed

lemma calc_rfpll_freq_nat:
  assumes "unat p < 83885930" "unat I < 2048" "unat F < 8388608" "k \<le> 6"
  shows "unat (calc_rfpll_freq p (ucast (I :: u32)) (ucast (F :: u32)) (word_of_int (int k))) =
     (unat p * unat F div 8388593 + unat p * unat I) div 2 ^ (k + 1)"
proof -
  have a: "unat p * unat F \<le> 83885930 * 8388608" using assms(1,3) by (intro mult_mono) auto
  have b: "unat p * unat I \<le> 83885930 * 2048" using assms(1,2) by (intro mult_mono) auto
  have 1: "unat (p * ucast F) = unat p * unat F" using a by (subst unat_times_lt) simp_all
  have 2: "unat (p * ucast I) = unat p * unat I" using b by (subst unat_times_lt) simp_all
  have d: "unat p * unat F div 8388593 \<le> 83885930 * 8388608" using a div_le_dividend le_trans by blast
  have 3: "unat (p * ucast F div RFPLL_MODULUS + p * ucast I) = unat p * unat F div 8388593 + unat p * unat I"
    using b d by (subst unat_plus_lt) (simp_all add: unat_div_distrib 1 2 RFPLL_MODULUS_def)
  have k: "unat (word_of_int (int k) + 1 :: u32) = k + 1"
    using assms(4) by (simp add: unat_word_ariths unat_of_nat take_bit_nat_eq_self)
  show ?thesis
    unfolding calc_rfpll_freq_def Let_def k unat_drop_bit_eq 3 unfolding drop_bit_eq_div ..
qed

lemma div_pow_near:
  fixes f x N :: nat
  assumes "x \<le> f * N + 5" "f * N \<le> x + 5" "2 \<le> N"
  shows "x div N \<le> f + 2" "f \<le> x div N + 3"
proof -
  have "x < (f + 3) * N" using assms(1,3) by (simp add: algebra_simps)
  then have "x div N < f + 3" by (simp add: less_mult_imp_div_less)
  then show "x div N \<le> f + 2" by simp
  have "x < (x div N) * N + N" using assms(3) by (metis add.commute dividend_less_div_times less_le_trans zero_less_numeral)
  then have "f * N < (x div N) * N + N + 5" using assms(2) by simp
  also have "\<dots> \<le> (x div N + 4) * N" using assms(3) by (simp add: algebra_simps)
  finally have "f < x div N + 4" by simp
  then show "f \<le> x div N + 3" by simp
qed

lemma vco_search_spec:
  "falling (map VCO_MHz rs) \<Longrightarrow> rs \<noteq> [] \<Longrightarrow> ucast (VCO_MHz (last rs)) \<le> mhz \<Longrightarrow>
   \<exists>j < length rs. vco_search mhz i rs = i + j \<and> ucast (VCO_MHz (rs ! j)) \<le> mhz \<and>
     (\<forall>l < j. mhz < ucast (VCO_MHz (rs ! l)))"
proof (induction rs arbitrary: i)
  case (Cons r rs)
  show ?case
  proof (cases "mhz < ucast (VCO_MHz r)")
    case True
    then have ne: "rs \<noteq> []" using Cons.prems(3) by auto
    then have "falling (map VCO_MHz rs)" using Cons.prems(1) by (cases rs) auto
    then obtain j where j: "j < length rs" "vco_search mhz (i + 1) rs = i + 1 + j"
      "ucast (VCO_MHz (rs ! j)) \<le> mhz" "\<forall>l < j. mhz < ucast (VCO_MHz (rs ! l))"
      using Cons.IH [OF _ ne, of "i + 1"] Cons.prems(3) ne by auto
    then show ?thesis
      using True by (intro exI [of _ "Suc j"]) (auto simp: nth_Cons split: nat.splits)
  qed (intro exI [of _ 0], auto)
qed simp

lemma synth_tab_ok: "synth_lut_ok (synth_tab fdd ref_clk)"
proof -
  have "rfvco_tableindex ref_clk < 3" by (simp add: rfvco_tableindex_def)
  moreover have "length SynthLUT_FDD = 3" "length SynthLUT_TDD = 3"
    by (simp_all add: SynthLUT_FDD_def SynthLUT_TDD_def)
  ultimately show ?thesis
    using synth_luts_ok by (simp add: synth_tab_def list_all_length)
qed

lemma rfpll_tunes_bound:
  assumes "validate_rfpll dev is_tx freq = 0" and "5859376 \<le> unat p" and "unat p < 83885930"
  shows "\<exists>w. calc_rfpll_divder dev is_tx freq p = Some (Inr w) \<and> 0 \<le> rw_div w \<and> rw_div w \<le> 6 \<and>
     6000000000 < unat (rw_vco w) \<and> unat (rw_vco w) \<le> 12000000000 \<and>
     unat (rw_integer w) < 2048 \<and> unat (rw_fract w) < 8388608 \<and>
     unat (calc_rfpll_freq p (ucast (rw_integer w)) (ucast (rw_fract w)) (word_of_int (rw_div w))) \<le> unat freq + 3 \<and>
     unat freq \<le> unat (calc_rfpll_freq p (ucast (rw_integer w)) (ucast (rw_fract w)) (word_of_int (rw_div w))) + 3"
proof -
  obtain w k v where w: "calc_rfpll_divder dev is_tx freq p = Some (Inr w)" "rw_div w = int k" "k \<le> 6"
    "rw_vco w = v" "unat v = unat freq * 2 ^ (k + 1)" "6000000000 < unat v" "unat v \<le> 12000000000"
    "unat (rw_integer w) = unat v div unat p"
    "unat (rw_fract w) = (unat v mod unat p * 8388593 + unat p div 2) div unat p"
    "unat (rw_integer w) < 2048" "unat (rw_fract w) < 8388608"
    using calc_rfpll_divder_words [OF assms] by blast
  let ?x = "unat p * unat (rw_fract w) div 8388593 + unat p * unat (rw_integer w)"
  have split: "unat v = unat v mod unat p + unat p * (unat v div unat p)" by simp
  note fe = fract_error [of "unat p" 8388593 5 "unat v mod unat p", folded w(9)]
  have e: "unat p * unat (rw_fract w) div 8388593 \<le> unat v mod unat p + 5"
    "unat v mod unat p \<le> unat p * unat (rw_fract w) div 8388593 + 5"
    using fe assms(2,3) by simp_all
  have up: "?x \<le> unat v + 5" and lo: "unat v \<le> ?x + 5"
    unfolding w(8) using e split by linarith+
  have c: "unat (calc_rfpll_freq p (ucast (rw_integer w)) (ucast (rw_fract w)) (word_of_int (rw_div w))) =
      ?x div 2 ^ (k + 1)"
    unfolding w(2) by (rule calc_rfpll_freq_nat [OF assms(3) w(10,11,3)])
  have "?x div 2 ^ (k + 1) \<le> unat freq + 2" "unat freq \<le> ?x div 2 ^ (k + 1) + 3"
    using div_pow_near [of ?x "unat freq" "2 ^ (k + 1)"] up lo w(5) by simp_all
  then show ?thesis using w c by (intro exI [of _ w]) simp
qed

subsection \<open>The properties\<close>

text \<open>
  Tuning. For every accepted carrier and every reference clock from 5.86 to 83.8 MHz,
  the divider calculation returns: the VCO is above 6 GHz and at most 12 GHz, the divider
  is 0 to 6 (7 means an external oscillator), the two words fit their 11 and 23 register
  bits, and the carrier they stand for is within 3 Hz of the one asked for.
\<close>

theorem rfpll_tunes_within_3_hz:
  assumes "validate_rfpll dev is_tx freq = 0" and "5859376 \<le> unat p" and "unat p < 83885930"
  shows "\<exists>w. calc_rfpll_divder dev is_tx freq p = Some (Inr w) \<and> 0 \<le> rw_div w \<and> rw_div w \<le> 6 \<and>
     6000000000 < unat (rw_vco w) \<and> unat (rw_vco w) \<le> 12000000000 \<and>
     unat (rw_integer w) < 2048 \<and> unat (rw_fract w) < 8388608 \<and>
     unat (calc_rfpll_freq p (ucast (rw_integer w)) (ucast (rw_fract w)) (word_of_int (rw_div w))) \<le> unat freq + 3 \<and>
     unat freq \<le> unat (calc_rfpll_freq p (ucast (rw_integer w)) (ucast (rw_fract w)) (word_of_int (rw_div w))) + 3"
  using rfpll_tunes_bound [OF assms] .

theorem rfpll_tunes_within_3_hz_witness:
  "\<exists>w. calc_rfpll_divder ID_AD9361 False 2400000000 40000000 = Some (Inr w) \<and> rw_div w \<le> 6"
  using rfpll_tunes_within_3_hz [of ID_AD9361 False 2400000000 40000000]
  by (auto simp: validate_rfpll_def MAX_CARRIER_FREQ_HZ_def MIN_RX_CARRIER_FREQ_HZ_def)

text \<open>
  The VCO tables are never read past their end: for the VCO frequency of an accepted
  carrier the search stops inside the 53 rows of whichever table is chosen, at the first
  row that is not above the frequency.
\<close>

theorem vco_row_in_table:
  assumes "calc_rfpll_divder dev is_tx freq p = Some (Inr w)"
  shows "vco_row fdd (rw_vco w) ref_clk < SYNTH_LUT_SIZE \<and>
     unat (VCO_MHz (synth_tab fdd ref_clk ! vco_row fdd (rw_vco w) ref_clk)) \<le> unat (rw_vco w) div 1000000 \<and>
     \<not> (\<exists>l < vco_row fdd (rw_vco w) ref_clk.
          unat (VCO_MHz (synth_tab fdd ref_clk ! l)) \<le> unat (rw_vco w) div 1000000)"
proof -
  let ?t = "synth_tab fdd ref_clk" let ?m = "rw_vco w div 1000000"
  have "validate_rfpll dev is_tx freq = 0"
    using assms by (auto simp: calc_rfpll_divder_def Let_def split: if_splits)
  from vco_scale_valid [OF this] assms have v: "6000000000 < unat (rw_vco w)"
    by (auto simp: calc_rfpll_divder_def Let_def split: if_splits)
  have m: "unat ?m = unat (rw_vco w) div 1000000" by (simp add: unat_div_distrib)
  have t: "length ?t = 53" "VCO_MHz (last ?t) \<le> 6000" "falling (map VCO_MHz ?t)" "?t \<noteq> []"
    using synth_tab_ok [of fdd ref_clk] by (auto simp: synth_lut_ok_def SYNTH_LUT_SIZE_def)
  have u: "unat (ucast (x :: u16) :: u64) = unat x" for x
  proof -
    have "unat x < 2 ^ 64" by (rule order_less_le_trans [OF unsigned_less]) simp
    then show ?thesis by (simp add: unsigned_ucast_eq take_bit_nat_eq_self)
  qed
  have "unat (VCO_MHz (last ?t)) \<le> 6000" using t(2) by (simp add: word_nat)
  then have le: "ucast (VCO_MHz (last ?t)) \<le> ?m" using v by (simp add: word_nat u m)
  obtain j where "j < length ?t" "vco_search ?m 0 ?t = 0 + j" "ucast (VCO_MHz (?t ! j)) \<le> ?m"
    "\<forall>l < j. ?m < ucast (VCO_MHz (?t ! l))"
    using vco_search_spec [OF t(3,4) le] by blast
  then show ?thesis
    using t(1) m by (auto simp: vco_row_def SYNTH_LUT_SIZE_def word_nat u)
qed

theorem vco_row_in_table_witness:
  "\<exists>w. calc_rfpll_divder ID_AD9361 False 2400000000 40000000 = Some (Inr w) \<and>
     vco_row True (rw_vco w) 40000000 < SYNTH_LUT_SIZE"
proof -
  have "validate_rfpll ID_AD9361 False 2400000000 = 0"
    by (simp add: validate_rfpll_def MAX_CARRIER_FREQ_HZ_def MIN_RX_CARRIER_FREQ_HZ_def)
  then obtain w where w: "calc_rfpll_divder ID_AD9361 False 2400000000 40000000 = Some (Inr w)"
    using calc_rfpll_divder_words [of ID_AD9361 False 2400000000 40000000] by auto
  then show ?thesis using vco_row_in_table [OF w] by blast
qed

end
