(* ===== verification/Ad_Pdata.thy ===== *)
theory Ad_Pdata
  imports Zyn_Prelude
begin

text \<open>
  The parts of the AD9361 driver's platform data: one record per \<^verbatim>\<open>struct\<close> of
  \<^verbatim>\<open>ad9361_private.h\<close>, each with the settings of one block of the chip. Array fields are
  lists of the array's length. The \<^verbatim>\<open>_zero\<close> values are the cleared structs.
\<close>

type_synonym s8 = "8 word"

subsection \<open>Enumerations\<close>

text \<open>The gain control modes are stored in bytes.\<close>

definition RF_GAIN_MGC :: u8 where "RF_GAIN_MGC = 0"
definition RF_GAIN_FASTATTACK_AGC :: u8 where "RF_GAIN_FASTATTACK_AGC = 1"
definition RF_GAIN_SLOWATTACK_AGC :: u8 where "RF_GAIN_SLOWATTACK_AGC = 2"
definition RF_GAIN_HYBRID_AGC :: u8 where "RF_GAIN_HYBRID_AGC = 3"

datatype f_agc_target_gain_index_type = MAX_GAIN | SET_GAIN | OPTIMIZED_GAIN | NO_GAIN_CHANGE

datatype rssi_restart_mode = AGC_IN_FAST_ATTACK_MODE_LOCKS_THE_GAIN | EN_AGC_PIN_IS_PULLED_HIGH
  | ENTERS_RX_MODE | GAIN_CHANGE_OCCURS | SPI_WRITE_TO_REGISTER
  | GAIN_CHANGE_OCCURS_OR_EN_AGC_PIN_PULLED_HIGH

text \<open>The number of a restart mode in the configuration register.\<close>

definition rssi_mode_number :: "rssi_restart_mode \<Rightarrow> u32" where
  "rssi_mode_number m = (case m of AGC_IN_FAST_ATTACK_MODE_LOCKS_THE_GAIN \<Rightarrow> 0
     | EN_AGC_PIN_IS_PULLED_HIGH \<Rightarrow> 1 | ENTERS_RX_MODE \<Rightarrow> 2 | GAIN_CHANGE_OCCURS \<Rightarrow> 3
     | SPI_WRITE_TO_REGISTER \<Rightarrow> 4 | GAIN_CHANGE_OCCURS_OR_EN_AGC_PIN_PULLED_HIGH \<Rightarrow> 5)"

datatype ad9361_clkout = CLKOUT_DISABLE | BUFFERED_XTALN_DCXO | ADC_CLK_DIV_2 | ADC_CLK_DIV_3
  | ADC_CLK_DIV_4 | ADC_CLK_DIV_8 | ADC_CLK_DIV_16

subsection \<open>Settings of the blocks\<close>

record gain_control =
  gc_rx1_mode :: u8
  gc_rx2_mode :: u8
  gc_adc_ovr_sample_size :: u8
  gc_adc_small_overload_thresh :: u8
  gc_adc_large_overload_thresh :: u8
  gc_lmt_overload_high_thresh :: u16
  gc_lmt_overload_low_thresh :: u16
  gc_dec_pow_measuremnt_duration :: u16
  gc_low_power_thresh :: u8
  gc_use_rx_fir_out_for_dec_pwr_meas :: bool
  gc_dig_gain_en :: bool
  gc_max_dig_gain :: u8
  gc_mgc_rx1_ctrl_inp_en :: bool
  gc_mgc_rx2_ctrl_inp_en :: bool
  gc_mgc_inc_gain_step :: u8
  gc_mgc_dec_gain_step :: u8
  gc_mgc_split_table_ctrl_inp_gain_mode :: u8
  gc_agc_attack_delay_extra_margin_us :: u8
  gc_agc_outer_thresh_high :: u8
  gc_agc_outer_thresh_high_dec_steps :: u8
  gc_agc_inner_thresh_high :: u8
  gc_agc_inner_thresh_high_dec_steps :: u8
  gc_agc_inner_thresh_low :: u8
  gc_agc_inner_thresh_low_inc_steps :: u8
  gc_agc_outer_thresh_low :: u8
  gc_agc_outer_thresh_low_inc_steps :: u8
  gc_adc_small_overload_exceed_counter :: u8
  gc_adc_large_overload_exceed_counter :: u8
  gc_adc_large_overload_inc_steps :: u8
  gc_adc_lmt_small_overload_prevent_gain_inc :: bool
  gc_agc_dig_sat_ovrg_en :: bool
  gc_lmt_overload_large_exceed_counter :: u8
  gc_lmt_overload_small_exceed_counter :: u8
  gc_lmt_overload_large_inc_steps :: u8
  gc_dig_saturation_exceed_counter :: u8
  gc_dig_gain_step_size :: u8
  gc_sync_for_gain_counter_en :: bool
  gc_gain_update_interval_us :: u32
  gc_immed_gain_change_if_large_adc_overload :: bool
  gc_immed_gain_change_if_large_lmt_overload :: bool
  gc_f_agc_dec_pow_measuremnt_duration :: u32
  gc_f_agc_state_wait_time_ns :: u32
  gc_f_agc_allow_agc_gain_increase :: bool
  gc_f_agc_lp_thresh_increment_time :: u8
  gc_f_agc_lp_thresh_increment_steps :: u8
  gc_f_agc_lock_level :: u8
  gc_f_agc_lock_level_lmt_gain_increase_en :: bool
  gc_f_agc_lock_level_gain_increase_upper_limit :: u8
  gc_f_agc_lpf_final_settling_steps :: u8
  gc_f_agc_lmt_final_settling_steps :: u8
  gc_f_agc_final_overrange_count :: u8
  gc_f_agc_gain_increase_after_gain_lock_en :: bool
  gc_f_agc_gain_index_type_after_exit_rx_mode :: f_agc_target_gain_index_type
  gc_f_agc_use_last_lock_level_for_set_gain_en :: bool
  gc_f_agc_optimized_gain_offset :: u8
  gc_f_agc_rst_gla_stronger_sig_thresh_exceeded_en :: bool
  gc_f_agc_rst_gla_stronger_sig_thresh_above_ll :: u8
  gc_f_agc_rst_gla_engergy_lost_sig_thresh_exceeded_en :: bool
  gc_f_agc_rst_gla_engergy_lost_goto_optim_gain_en :: bool
  gc_f_agc_rst_gla_engergy_lost_sig_thresh_below_ll :: u8
  gc_f_agc_energy_lost_stronger_sig_gain_lock_exit_cnt :: u8
  gc_f_agc_rst_gla_large_adc_overload_en :: bool
  gc_f_agc_rst_gla_large_lmt_overload_en :: bool
  gc_f_agc_rst_gla_en_agc_pulled_high_en :: bool
  gc_f_agc_rst_gla_if_en_agc_pulled_high_mode :: f_agc_target_gain_index_type
  gc_f_agc_power_measurement_duration_in_state5 :: u8
  gc_f_agc_large_overload_inc_steps :: u8

record auxdac_control =
  dac_dac1_default_value :: u16
  dac_dac2_default_value :: u16
  dac_auxdac_manual_mode_en :: bool
  dac_dac1_in_rx_en :: bool
  dac_dac1_in_tx_en :: bool
  dac_dac1_in_alert_en :: bool
  dac_dac2_in_rx_en :: bool
  dac_dac2_in_tx_en :: bool
  dac_dac2_in_alert_en :: bool
  dac_dac1_rx_delay_us :: u8
  dac_dac1_tx_delay_us :: u8
  dac_dac2_rx_delay_us :: u8
  dac_dac2_tx_delay_us :: u8

record rssi_control =
  rc_restart_mode :: rssi_restart_mode
  rc_rssi_unit_is_rx_samples :: bool
  rc_rssi_delay :: u32
  rc_rssi_wait :: u32
  rc_rssi_duration :: u32

record port_control =
  pc_pp_conf :: "u8 list"
  pc_rx_clk_data_delay :: u8
  pc_tx_clk_data_delay :: u8
  pc_digital_io_ctrl :: u8
  pc_lvds_bias_ctrl :: u8
  pc_lvds_invert :: "u8 list"

record ctrl_outs_control =
  co_index :: u8
  co_en_mask :: u8

record elna_control =
  el_gain_mdB :: u16
  el_bypass_loss_mdB :: u16
  el_settling_delay_ns :: u32
  el_elna_1_control_en :: bool
  el_elna_2_control_en :: bool
  el_elna_in_gaintable_all_index_en :: bool

record auxadc_control =
  aa_offset :: s8
  aa_temp_time_inteval_ms :: u32
  aa_temp_sensor_decimation :: u32
  aa_periodic_temp_measuremnt :: bool
  aa_auxadc_clock_rate :: u32
  aa_auxadc_decimation :: u32

record gpo_control =
  gp_gpo_manual_mode_enable_mask :: u32
  gp_gpo_manual_mode_en :: bool
  gp_gpo0_inactive_state_high_en :: bool
  gp_gpo1_inactive_state_high_en :: bool
  gp_gpo2_inactive_state_high_en :: bool
  gp_gpo3_inactive_state_high_en :: bool
  gp_gpo0_slave_rx_en :: bool
  gp_gpo0_slave_tx_en :: bool
  gp_gpo1_slave_rx_en :: bool
  gp_gpo1_slave_tx_en :: bool
  gp_gpo2_slave_rx_en :: bool
  gp_gpo2_slave_tx_en :: bool
  gp_gpo3_slave_rx_en :: bool
  gp_gpo3_slave_tx_en :: bool
  gp_gpo0_rx_delay_us :: u8
  gp_gpo0_tx_delay_us :: u8
  gp_gpo1_rx_delay_us :: u8
  gp_gpo1_tx_delay_us :: u8
  gp_gpo2_rx_delay_us :: u8
  gp_gpo2_tx_delay_us :: u8
  gp_gpo3_rx_delay_us :: u8
  gp_gpo3_tx_delay_us :: u8

record tx_monitor_control =
  tm_tx_mon_track_en :: bool
  tm_one_shot_mode_en :: bool
  tm_low_high_gain_threshold_mdB :: u32
  tm_low_gain_dB :: u8
  tm_high_gain_dB :: u8
  tm_tx_mon_delay :: u16
  tm_tx_mon_duration :: u16
  tm_tx1_mon_front_end_gain :: u8
  tm_tx2_mon_front_end_gain :: u8
  tm_tx1_mon_lo_cm :: u8
  tm_tx2_mon_lo_cm :: u8

subsection \<open>The converter\<close>

text \<open>
  What the driver uses of the converter's structs; their declarations are in the header of
  the ADC driver. The scratch registers are a function of the channel.
\<close>

record axiadc_chip_info =
  ci_name :: string
  ci_max_rate :: ulong
  ci_num_channels :: nat
  ci_num_shadow_slave_channels :: nat
  ci_scan_masks :: "ulong list"

record axiadc_converter =
  cv_id :: u32
  cv_chip_info :: axiadc_chip_info
  cv_adc_clk :: ulong
  cv_scratch_reg :: "nat \<Rightarrow> u32"

subsection \<open>Cleared settings\<close>

definition gc_zero :: gain_control where
  "gc_zero = \<lparr>gc_rx1_mode = 0, gc_rx2_mode = 0, gc_adc_ovr_sample_size = 0,
     gc_adc_small_overload_thresh = 0, gc_adc_large_overload_thresh = 0,
     gc_lmt_overload_high_thresh = 0, gc_lmt_overload_low_thresh = 0,
     gc_dec_pow_measuremnt_duration = 0, gc_low_power_thresh = 0,
     gc_use_rx_fir_out_for_dec_pwr_meas = False, gc_dig_gain_en = False, gc_max_dig_gain = 0,
     gc_mgc_rx1_ctrl_inp_en = False, gc_mgc_rx2_ctrl_inp_en = False, gc_mgc_inc_gain_step = 0,
     gc_mgc_dec_gain_step = 0, gc_mgc_split_table_ctrl_inp_gain_mode = 0,
     gc_agc_attack_delay_extra_margin_us = 0, gc_agc_outer_thresh_high = 0,
     gc_agc_outer_thresh_high_dec_steps = 0, gc_agc_inner_thresh_high = 0,
     gc_agc_inner_thresh_high_dec_steps = 0, gc_agc_inner_thresh_low = 0,
     gc_agc_inner_thresh_low_inc_steps = 0, gc_agc_outer_thresh_low = 0,
     gc_agc_outer_thresh_low_inc_steps = 0, gc_adc_small_overload_exceed_counter = 0,
     gc_adc_large_overload_exceed_counter = 0, gc_adc_large_overload_inc_steps = 0,
     gc_adc_lmt_small_overload_prevent_gain_inc = False, gc_agc_dig_sat_ovrg_en = False,
     gc_lmt_overload_large_exceed_counter = 0, gc_lmt_overload_small_exceed_counter = 0,
     gc_lmt_overload_large_inc_steps = 0, gc_dig_saturation_exceed_counter = 0,
     gc_dig_gain_step_size = 0, gc_sync_for_gain_counter_en = False,
     gc_gain_update_interval_us = 0, gc_immed_gain_change_if_large_adc_overload = False,
     gc_immed_gain_change_if_large_lmt_overload = False, gc_f_agc_dec_pow_measuremnt_duration = 0,
     gc_f_agc_state_wait_time_ns = 0, gc_f_agc_allow_agc_gain_increase = False,
     gc_f_agc_lp_thresh_increment_time = 0, gc_f_agc_lp_thresh_increment_steps = 0,
     gc_f_agc_lock_level = 0, gc_f_agc_lock_level_lmt_gain_increase_en = False,
     gc_f_agc_lock_level_gain_increase_upper_limit = 0, gc_f_agc_lpf_final_settling_steps = 0,
     gc_f_agc_lmt_final_settling_steps = 0, gc_f_agc_final_overrange_count = 0,
     gc_f_agc_gain_increase_after_gain_lock_en = False,
     gc_f_agc_gain_index_type_after_exit_rx_mode = MAX_GAIN,
     gc_f_agc_use_last_lock_level_for_set_gain_en = False, gc_f_agc_optimized_gain_offset = 0,
     gc_f_agc_rst_gla_stronger_sig_thresh_exceeded_en = False,
     gc_f_agc_rst_gla_stronger_sig_thresh_above_ll = 0,
     gc_f_agc_rst_gla_engergy_lost_sig_thresh_exceeded_en = False,
     gc_f_agc_rst_gla_engergy_lost_goto_optim_gain_en = False,
     gc_f_agc_rst_gla_engergy_lost_sig_thresh_below_ll = 0,
     gc_f_agc_energy_lost_stronger_sig_gain_lock_exit_cnt = 0,
     gc_f_agc_rst_gla_large_adc_overload_en = False,
     gc_f_agc_rst_gla_large_lmt_overload_en = False,
     gc_f_agc_rst_gla_en_agc_pulled_high_en = False,
     gc_f_agc_rst_gla_if_en_agc_pulled_high_mode = MAX_GAIN,
     gc_f_agc_power_measurement_duration_in_state5 = 0,
     gc_f_agc_large_overload_inc_steps = 0\<rparr>"

definition dac_zero :: auxdac_control where
  "dac_zero = \<lparr>dac_dac1_default_value = 0, dac_dac2_default_value = 0,
     dac_auxdac_manual_mode_en = False, dac_dac1_in_rx_en = False, dac_dac1_in_tx_en = False,
     dac_dac1_in_alert_en = False, dac_dac2_in_rx_en = False, dac_dac2_in_tx_en = False,
     dac_dac2_in_alert_en = False, dac_dac1_rx_delay_us = 0, dac_dac1_tx_delay_us = 0,
     dac_dac2_rx_delay_us = 0, dac_dac2_tx_delay_us = 0\<rparr>"

definition rc_zero :: rssi_control where
  "rc_zero = \<lparr>rc_restart_mode = AGC_IN_FAST_ATTACK_MODE_LOCKS_THE_GAIN,
     rc_rssi_unit_is_rx_samples = False, rc_rssi_delay = 0, rc_rssi_wait = 0,
     rc_rssi_duration = 0\<rparr>"

definition pc_zero :: port_control where
  "pc_zero = \<lparr>pc_pp_conf = [0, 0, 0], pc_rx_clk_data_delay = 0, pc_tx_clk_data_delay = 0,
     pc_digital_io_ctrl = 0, pc_lvds_bias_ctrl = 0, pc_lvds_invert = [0, 0]\<rparr>"

definition co_zero :: ctrl_outs_control where
  "co_zero = \<lparr>co_index = 0, co_en_mask = 0\<rparr>"

definition el_zero :: elna_control where
  "el_zero = \<lparr>el_gain_mdB = 0, el_bypass_loss_mdB = 0, el_settling_delay_ns = 0,
     el_elna_1_control_en = False, el_elna_2_control_en = False,
     el_elna_in_gaintable_all_index_en = False\<rparr>"

definition aa_zero :: auxadc_control where
  "aa_zero = \<lparr>aa_offset = 0, aa_temp_time_inteval_ms = 0, aa_temp_sensor_decimation = 0,
     aa_periodic_temp_measuremnt = False, aa_auxadc_clock_rate = 0,
     aa_auxadc_decimation = 0\<rparr>"

definition gp_zero :: gpo_control where
  "gp_zero = \<lparr>gp_gpo_manual_mode_enable_mask = 0, gp_gpo_manual_mode_en = False,
     gp_gpo0_inactive_state_high_en = False, gp_gpo1_inactive_state_high_en = False,
     gp_gpo2_inactive_state_high_en = False, gp_gpo3_inactive_state_high_en = False,
     gp_gpo0_slave_rx_en = False, gp_gpo0_slave_tx_en = False, gp_gpo1_slave_rx_en = False,
     gp_gpo1_slave_tx_en = False, gp_gpo2_slave_rx_en = False, gp_gpo2_slave_tx_en = False,
     gp_gpo3_slave_rx_en = False, gp_gpo3_slave_tx_en = False, gp_gpo0_rx_delay_us = 0,
     gp_gpo0_tx_delay_us = 0, gp_gpo1_rx_delay_us = 0, gp_gpo1_tx_delay_us = 0,
     gp_gpo2_rx_delay_us = 0, gp_gpo2_tx_delay_us = 0, gp_gpo3_rx_delay_us = 0,
     gp_gpo3_tx_delay_us = 0\<rparr>"

definition tm_zero :: tx_monitor_control where
  "tm_zero = \<lparr>tm_tx_mon_track_en = False, tm_one_shot_mode_en = False,
     tm_low_high_gain_threshold_mdB = 0, tm_low_gain_dB = 0, tm_high_gain_dB = 0,
     tm_tx_mon_delay = 0, tm_tx_mon_duration = 0, tm_tx1_mon_front_end_gain = 0,
     tm_tx2_mon_front_end_gain = 0, tm_tx1_mon_lo_cm = 0, tm_tx2_mon_lo_cm = 0\<rparr>"

end
