(* ===== verification/Ad_Spi.thy ===== *)
theory Ad_Spi
  imports Ad_Rfpll Ad_Pdata "HOL-Library.State_Monad"
begin

unbundle bit_operations_syntax

text \<open>
  Register access of the AD9361 driver over SPI. The transfer itself (\<^verbatim>\<open>spi_write_then_read\<close>
  and the chip behind it) is a parameter \<open>bus\<close>: from the bytes sent, the number of bytes to
  read and the chip's state to the result, the bytes read and the chip's next state. A
  driver function is a \<open>state\<close> over the driver's fields and the chip, and returns C's
  \<^verbatim>\<open>int\<close>: a byte or 0, or a negative errno. \<open>chip_bus\<close> is the chip that is nothing but a
  register file behind the documented command word; the locale \<open>register_file\<close> states what
  the driver relies on in its registers, and is interpreted on that chip.
\<close>

type_synonym 'c bus = "u8 list \<Rightarrow> nat \<Rightarrow> 'c \<Rightarrow> int \<times> u8 list \<times> 'c"

record fastlock_entry =
  fl_flags :: u8
  fl_alc_orig :: u8
  fl_alc_written :: u8

text \<open>
  \<^verbatim>\<open>struct ad9361_rf_phy\<close>: the platform data (\<open>pd\<close>) and the state (\<open>st\<close>) the modelled
  functions use. Arrays of two indexed by a \<^verbatim>\<open>bool tx\<close> are functions of it. \<open>ad_board\<close> has the
  settings that only the setup of the device reads (\<open>pd_sync_gpio\<close>: whether the pin is there).
\<close>

record ad_board =
  pd_use_ext_rx_lo :: bool
  pd_use_ext_tx_lo :: bool
  pd_lo_powerdown_managed_en :: bool
  pd_debug_mode :: bool
  pd_rf_rx_input_sel_lock :: bool
  pd_rf_tx_output_sel_lock :: bool
  pd_rssi_skip_calib :: bool
  pd_dcxo_coarse :: u32
  pd_dcxo_fine :: u32
  pd_trx_synth_max_fref :: u32
  pd_rx_synth_freq :: u64
  pd_tx_synth_freq :: u64
  pd_rf_rx_bandwidth_Hz :: u32
  pd_rf_tx_bandwidth_Hz :: u32
  pd_tx_atten :: int
  pd_ad9361_clkout_mode :: ad9361_clkout
  pd_ctrl_outs_ctrl :: ctrl_outs_control
  pd_auxdac_ctrl :: auxdac_control
  pd_gpo_ctrl :: gpo_control
  pd_txmon_ctrl :: tx_monitor_control
  pd_sync_gpio :: bool

record ad_pdata = ad_board +
  pd_dev :: ad_dev
  pd_rx2tx2 :: bool
  pd_fdd :: bool
  pd_fdd_independent_mode :: bool
  pd_split_gt :: bool
  pd_ensm_pin_pulse_mode :: bool
  pd_tdd_use_dual_synth :: bool
  pd_tdd_skip_vco_cal :: bool
  pd_rx1tx1_mode_use_rx_num :: u32
  pd_rx1tx1_mode_use_tx_num :: u32
  pd_rx_fastlock_delay_ns :: u32
  pd_tx_fastlock_delay_ns :: u32
  pd_trx_fastlock_pinctrl_en :: "bool \<Rightarrow> bool"
  pd_update_tx_gain_via_alert :: bool
  pd_use_extclk :: bool
  pd_ensm_pin_ctrl :: bool
  pd_rx1rx2_phase_inversion_en :: bool
  pd_qec_tracking_slow_mode_en :: bool
  pd_dig_interface_tune_fir_disable :: bool
  pd_bb_clk_change_dig_tune_en :: bool
  pd_axi_half_dac_rate_en :: bool
  pd_dc_offset_update_events :: u8
  pd_dc_offset_attenuation_high :: u8
  pd_dc_offset_attenuation_low :: u8
  pd_rf_dc_offset_count_high :: u8
  pd_rf_dc_offset_count_low :: u8
  pd_dig_interface_tune_skipmode :: u8
  pd_rx_path_clks :: "ulong list"
  pd_tx_path_clks :: "ulong list"
  pd_gain_ctrl :: gain_control
  pd_rssi_ctrl :: rssi_control
  pd_port_ctrl :: port_control
  pd_elna_ctrl :: elna_control
  pd_auxadc_ctrl :: auxadc_control
  pd_rssi_lna_err_tbl :: "u32 list"
  pd_rssi_mixer_err_tbl :: "u32 list"
  pd_rssi_gain_step_calib_reg_val :: "u32 list"
  ph_gt_info :: "gain_table_info list"

text \<open>
  The part of the driver's state that the clock chain, the filters and the calibrations keep
  (\<open>ph_conv\<close>: the converter that the SPI device's driver data points to), and the rest of it with
  the chip.
\<close>

record ad_radio = ad_pdata +
  st_auto_cal_en :: bool
  st_manual_tx_quad_cal_en :: bool
  st_last_tx_quad_cal_freq :: u64
  st_last_tx_quad_cal_phase :: u32
  st_cal_threshold_freq :: ulong
  st_current_rx_path_clks :: "ulong list"
  st_current_tx_path_clks :: "ulong list"
  st_current_rx_bw_Hz :: u32
  st_current_tx_bw_Hz :: u32
  st_rxbbf_div :: u32
  st_rate_governor :: u32
  st_rx_eq_2tx :: bool
  st_filt_valid :: bool
  st_filt_rx_path_clks :: "ulong list"
  st_filt_tx_path_clks :: "ulong list"
  st_filt_rx_bw_Hz :: u32
  st_filt_tx_bw_Hz :: u32
  st_tx_fir_int :: u8
  st_tx_fir_ntaps :: u8
  st_rx_fir_dec :: u8
  st_rx_fir_ntaps :: u8
  st_rfdc_track_en :: bool
  st_bbdc_track_en :: bool
  st_quad_track_en :: bool
  st_auxdac1_value :: u16
  st_auxdac2_value :: u16
  st_rf_rx_input_sel :: u32
  st_rf_tx_output_sel :: u32
  st_work_pending :: bool
  st_save_profile :: u8
  ph_conv :: "axiadc_converter option"

record 'c ad9361 = ad_radio +
  ad_chip :: 'c
  st_prev_ensm_state :: u8
  st_curr_ensm_state :: u8
  st_ensm_pin_ctl_en :: bool
  st_cached_rx_rfpll_div :: u8
  st_cached_tx_rfpll_div :: u8
  st_cached_synth_pd0 :: u8
  st_cached_synth_pd1 :: u8
  st_current_table :: int
  st_current_tx_lo_freq :: u64
  st_current_rx_lo_freq :: u64
  st_current_tx_use_tdd_table :: bool
  st_current_rx_use_tdd_table :: bool
  st_bypass_rx_fir :: bool
  st_bypass_tx_fir :: bool
  st_tx1_atten_cached :: u32
  st_tx2_atten_cached :: u32
  st_bist_loopback_mode :: u8
  st_bist_config :: u8
  st_tx_quad_lpf_tia_match :: int
  st_agc_mode0 :: u8
  st_agc_mode1 :: u8
  st_txmon_tdd_en :: bool
  st_fl_current :: "bool \<Rightarrow> u8"
  st_fl_entry :: "bool \<Rightarrow> nat \<Rightarrow> fastlock_entry"

abbreviation (input) rtn :: "'a \<Rightarrow> ('s, 'a) state" where "rtn x \<equiv> State_Monad.return x"
abbreviation (input) get_phy :: "('s, 's) state" where "get_phy \<equiv> State_Monad.get"
abbreviation (input) upd_phy :: "('s \<Rightarrow> 's) \<Rightarrow> ('s, unit) state" where "upd_phy f \<equiv> State_Monad.update f"

lemma run_state_update [simp]: "run_state (State_Monad.update f) s = ((), f s)"
  by (simp add: State_Monad.update_def)

lemma run_bind_get: "run_state (State_Monad.bind State_Monad.get f) s = run_state (f s) s"
  by simp

lemma run_bind_update: "run_state (State_Monad.bind (State_Monad.update g) f) s = run_state (f ()) (g s)"
  by simp

lemma run_bind_eq: "run_state m s = (x, s') \<Longrightarrow> run_state (State_Monad.bind m f) s = run_state (f x) s'"
  by simp

lemma run_state_if: "run_state (if b then m else n) t = (if b then run_state m t else run_state n t)"
  by simp

subsection \<open>Bits of words\<close>

lemma small_bits: "unat (f :: u32) < 2 ^ k \<Longrightarrow> bit f n \<Longrightarrow> n < k"
proof -
  assume "unat f < 2 ^ k" "bit f n"
  then have "bit (unat f) n" by (simp add: bit_unsigned_iff)
  then have "2 ^ n \<le> unat f" by (metis bit_iff_odd div_less even_zero not_less)
  then have "(2 :: nat) ^ n < 2 ^ k" using \<open>unat f < 2 ^ k\<close> by (rule le_less_trans)
  then show "n < k" by simp
qed

lemma u8_eqI:
  fixes a b :: u8
  assumes "bit a 0 = bit b 0" "bit a 1 = bit b 1" "bit a 2 = bit b 2" "bit a 3 = bit b 3"
    "bit a 4 = bit b 4" "bit a 5 = bit b 5" "bit a 6 = bit b 6" "bit a 7 = bit b 7"
  shows "a = b"
proof (rule bit_word_eqI)
  fix n assume "n < LENGTH(8)"
  then consider "n = 0" | "n = 1" | "n = 2" | "n = 3" | "n = 4" | "n = 5" | "n = 6" | "n = 7" by fastforce
  then show "bit a n = bit b n" using assms by cases simp_all
qed

lemma down8:
  "(ucast ((x :: u32) AND y) :: u8) = ucast x AND ucast y"
  "(ucast (x OR y) :: u8) = ucast x OR ucast y"
  "(ucast (NOT x) :: u8) = NOT (ucast x)"
  by (rule bit_word_eqI; auto simp: bit_simps)+

text \<open>Two values of four bits in a byte.\<close>

lemma nibbles:
  fixes a b :: u32
  assumes "unat a < 2 ^ 4" "unat b < 2 ^ 4"
  shows "unat ((ucast (push_bit 4 b OR a) :: u8) AND 0xF) = unat a"
    "unat (drop_bit 4 (ucast (push_bit 4 b OR a) :: u8) AND 0xF) = unat b"
proof -
  have m: "0xF = (mask 4 :: u8)" by (simp add: mask_eq_exp_minus_1)
  have w: "(ucast (push_bit 4 b OR a) :: u8) AND 0xF = ucast a"
    "drop_bit 4 (ucast (push_bit 4 b OR a) :: u8) AND 0xF = ucast b"
    unfolding m
    by (rule bit_word_eqI; auto simp: bit_simps dest: small_bits [OF assms(1)] small_bits [OF assms(2)])+
  show "unat ((ucast (push_bit 4 b OR a) :: u8) AND 0xF) = unat a"
    "unat (drop_bit 4 (ucast (push_bit 4 b OR a) :: u8) AND 0xF) = unat b"
    unfolding w using assms by (simp_all add: unsigned_ucast_eq take_bit_eq_mod)
qed

text \<open>The interface mode byte \<^verbatim>\<open>port_ctrl.pp_conf[2]\<close>.\<close>

definition pd_pp_conf2 :: "'c ad9361 \<Rightarrow> u8" where
  "pd_pp_conf2 s = pc_pp_conf (pd_port_ctrl s) ! 2"

subsection \<open>The transfer functions\<close>

definition AD_READ :: u16 where "AD_READ = 0"
definition AD_WRITE :: u16 where "AD_WRITE = 0x8000"
definition AD_CNT :: "u32 \<Rightarrow> u16" where "AD_CNT x = push_bit 12 (ucast ((x - 1) AND 7))"
definition AD_ADDR :: "u32 \<Rightarrow> u16" where "AD_ADDR x = ucast (x AND 0x3FF)"
definition MAX_MBYTE_SPI :: nat where "MAX_MBYTE_SPI = 8"

text \<open>The first byte of a buffer the bus filled.\<close>

definition byte0 :: "u8 list \<Rightarrow> u8" where
  "byte0 rx = (case rx of [] \<Rightarrow> 0 | b # _ \<Rightarrow> b)"

definition spi_write_then_read :: "'c bus \<Rightarrow> u8 list \<Rightarrow> nat \<Rightarrow> ('c ad9361, int \<times> u8 list) state" where
  "spi_write_then_read bus tx n =
     State (\<lambda>s. case bus tx n (ad_chip s) of (ret, rx, c) \<Rightarrow> ((ret, rx), s\<lparr>ad_chip := c\<rparr>))"

definition cmd_bytes :: "u16 \<Rightarrow> u8 list" where
  "cmd_bytes cmd = [ucast (drop_bit 8 cmd), ucast (cmd AND 0xFF)]"

definition spi_readm :: "'c bus \<Rightarrow> u32 \<Rightarrow> nat \<Rightarrow> ('c ad9361, int \<times> u8 list) state" where
  "spi_readm bus reg num =
     (if MAX_MBYTE_SPI < num then State_Monad.return (- 22, [])
      else do {
        (ret, rx) \<leftarrow> spi_write_then_read bus
           (cmd_bytes (AD_READ OR AD_CNT (of_nat num) OR AD_ADDR reg)) num;
        State_Monad.return (if ret < 0 then ret else 0, rx)
      })"

definition spi_read :: "'c bus \<Rightarrow> u32 \<Rightarrow> ('c ad9361, int) state" where
  "spi_read bus reg = do {
     (ret, rx) \<leftarrow> spi_readm bus reg 1;
     State_Monad.return (if ret < 0 then ret else int (unat (byte0 rx)))
   }"

text \<open>\<^verbatim>\<open>__ffs\<close>: the position of the lowest set bit.\<close>

fun ffs_from :: "nat \<Rightarrow> nat \<Rightarrow> u32 \<Rightarrow> nat" where
  "ffs_from 0 i m = i"
| "ffs_from (Suc k) i m = (if bit m i then i else ffs_from k (Suc i) m)"

definition ffs :: "u32 \<Rightarrow> nat" where
  "ffs m = ffs_from 31 0 m"

definition spi_readf :: "'c bus \<Rightarrow> u32 \<Rightarrow> u32 \<Rightarrow> ('c ad9361, int) state" where
  "spi_readf bus reg mask' =
     (if mask' = 0 then State_Monad.return (- 22)
      else do {
        (ret, rx) \<leftarrow> spi_readm bus reg 1;
        State_Monad.return
          (if ret < 0 then ret else int (unat (drop_bit (ffs mask') (byte0 rx AND ucast mask'))))
      })"

definition spi_write :: "'c bus \<Rightarrow> u32 \<Rightarrow> u32 \<Rightarrow> ('c ad9361, int) state" where
  "spi_write bus reg val = do {
     (ret, _) \<leftarrow> spi_write_then_read bus (cmd_bytes (AD_WRITE OR AD_CNT 1 OR AD_ADDR reg) @ [ucast val]) 0;
     State_Monad.return (if ret < 0 then ret else 0)
   }"

definition spi_writef :: "'c bus \<Rightarrow> u32 \<Rightarrow> u32 \<Rightarrow> u32 \<Rightarrow> ('c ad9361, int) state" where
  "spi_writef bus reg mask' val =
     (if mask' = 0 then State_Monad.return (- 22)
      else do {
        (ret, rx) \<leftarrow> spi_readm bus reg 1;
        if ret < 0 then State_Monad.return ret
        else spi_write bus reg
               (ucast ((byte0 rx AND NOT (ucast mask')) OR ucast (push_bit (ffs mask') val AND mask')))
      })"

definition spi_writem :: "'c bus \<Rightarrow> u32 \<Rightarrow> u8 list \<Rightarrow> nat \<Rightarrow> ('c ad9361, int) state" where
  "spi_writem bus reg tbuf num =
     (if MAX_MBYTE_SPI < num then State_Monad.return (- 22)
      else do {
        (ret, _) \<leftarrow> spi_write_then_read bus
           (cmd_bytes (AD_WRITE OR AD_CNT (of_nat num) OR AD_ADDR reg) @ take num tbuf) 0;
        State_Monad.return (if ret < 0 then ret else 0)
      })"

subsection \<open>A chip that is a register file\<close>

type_synonym regfile = "u16 \<Rightarrow> u8"

fun put_bytes :: "u16 \<Rightarrow> u8 list \<Rightarrow> regfile \<Rightarrow> regfile" where
  "put_bytes a [] c = c"
| "put_bytes a (b # bs) c = put_bytes (a - 1) bs (c(a := b))"

definition chip_bus :: "regfile bus" where
  "chip_bus tx n c =
     (case tx of
        hi # lo # data \<Rightarrow>
          (let cmd = push_bit 8 (ucast hi) OR ucast lo :: u16; a = cmd AND 0x3FF
           in if bit cmd 15 then (0, [], put_bytes a data c)
              else (0, map (\<lambda>i. c (a - of_nat i)) [0..<n], c))
      | _ \<Rightarrow> (- 22, [], c))"

definition set_reg :: "u32 \<Rightarrow> u8 \<Rightarrow> regfile ad9361 \<Rightarrow> regfile ad9361" where
  "set_reg r v s = s\<lparr>ad_chip := (ad_chip s)(AD_ADDR r := v)\<rparr>"

abbreviation get_reg :: "regfile ad9361 \<Rightarrow> u32 \<Rightarrow> u8" where
  "get_reg s r \<equiv> ad_chip s (AD_ADDR r)"

subsection \<open>The register functions on it\<close>

named_theorems spi_run \<open>what a register function does on the register file\<close>

lemma cmd_bytes_join:
  "push_bit 8 (ucast (ucast (drop_bit 8 cmd) :: u8)) OR ucast (ucast (cmd AND 0xFF) :: u8) = (cmd :: u16)"
proof -
  have m: "0xFF = (mask 8 :: u16)" by (simp add: mask_eq_exp_minus_1)
  show ?thesis unfolding m by (rule bit_word_eqI) (auto simp: bit_simps not_less le_Suc_ex)
qed

lemma AD_ADDR_mask: "AD_ADDR r = ucast (r AND mask 10)"
  by (simp add: AD_ADDR_def mask_eq_exp_minus_1)

lemma AD_CNT_mask: "AD_CNT r = push_bit 12 (ucast ((r - 1) AND mask 3))"
  by (simp add: AD_CNT_def mask_eq_exp_minus_1)

lemma bit_AD_ADDR: "bit (AD_ADDR r) n \<longleftrightarrow> n < 10 \<and> bit r n"
  by (auto simp: AD_ADDR_mask bit_simps)

lemma bit_AD_CNT: "bit (AD_CNT r) n \<Longrightarrow> 12 \<le> n \<and> n < 15"
  by (auto simp: AD_CNT_mask bit_simps)

lemma cmd_read: "\<not> bit (AD_READ OR AD_CNT n OR AD_ADDR r) 15"
  using bit_AD_CNT [of n 15] bit_AD_ADDR [of r 15] by (auto simp: AD_READ_def bit_simps)

lemma AD_WRITE_bit: "bit AD_WRITE k \<longleftrightarrow> k = 15"
proof -
  have w: "AD_WRITE = push_bit 15 1" by (simp add: AD_WRITE_def)
  show ?thesis unfolding w bit_push_bit_iff bit_1_iff by auto
qed

lemma cmd_write: "bit (AD_WRITE OR AD_CNT n OR AD_ADDR r) 15"
  by (simp add: AD_WRITE_bit bit_or_iff)

lemma cmd_addr:
  "(AD_READ OR AD_CNT n OR AD_ADDR r) AND 0x3FF = AD_ADDR r"
  "(AD_WRITE OR AD_CNT n OR AD_ADDR r) AND 0x3FF = AD_ADDR r"
proof -
  have m: "0x3FF = (mask 10 :: u16)" by (simp add: mask_eq_exp_minus_1)
  show "(AD_READ OR AD_CNT n OR AD_ADDR r) AND 0x3FF = AD_ADDR r"
    unfolding m
    by (rule bit_word_eqI) (auto simp: AD_READ_def bit_and_iff bit_or_iff bit_mask_iff bit_AD_ADDR dest!: bit_AD_CNT)
  show "(AD_WRITE OR AD_CNT n OR AD_ADDR r) AND 0x3FF = AD_ADDR r"
    unfolding m
    by (rule bit_word_eqI) (auto simp: bit_and_iff bit_or_iff bit_mask_iff bit_AD_ADDR AD_WRITE_bit dest!: bit_AD_CNT)
qed

lemma chip_bus_cmd:
  "chip_bus (cmd_bytes cmd @ bs) n c =
     (if bit cmd 15 then (0, [], put_bytes (cmd AND 0x3FF) bs c)
      else (0, map (\<lambda>i. c ((cmd AND 0x3FF) - of_nat i)) [0..<n], c))"
  by (simp add: chip_bus_def cmd_bytes_def cmd_bytes_join Let_def)

lemma chip_bus_read:
  "chip_bus (cmd_bytes (AD_READ OR AD_CNT k OR AD_ADDR r)) n c = (0, map (\<lambda>i. c (AD_ADDR r - of_nat i)) [0..<n], c)"
  using chip_bus_cmd [of "AD_READ OR AD_CNT k OR AD_ADDR r" "[]"]
  unfolding cmd_addr append_Nil2 if_not_P [OF cmd_read] .

lemma chip_bus_write:
  "chip_bus (cmd_bytes (AD_WRITE OR AD_CNT k OR AD_ADDR r) @ bs) n c = (0, [], put_bytes (AD_ADDR r) bs c)"
  unfolding chip_bus_cmd cmd_addr if_P [OF cmd_write] ..

lemma run_spi_readm [spi_run]:
  "n \<le> 8 \<Longrightarrow> run_state (spi_readm chip_bus r n) s = ((0, map (\<lambda>i. ad_chip s (AD_ADDR r - of_nat i)) [0..<n]), s)"
  by (simp add: spi_readm_def MAX_MBYTE_SPI_def spi_write_then_read_def chip_bus_read)

lemma run_spi_read [spi_run]:
  "run_state (spi_read chip_bus r) s = (int (unat (get_reg s r)), s)"
  by (simp add: spi_read_def run_spi_readm byte0_def)

lemma run_spi_readf [spi_run]:
  "m \<noteq> 0 \<Longrightarrow> run_state (spi_readf chip_bus r m) s = (int (unat (drop_bit (ffs m) (get_reg s r AND ucast m))), s)"
  by (simp add: spi_readf_def run_spi_readm byte0_def)

lemma run_spi_write [spi_run]:
  "run_state (spi_write chip_bus r v) s = (0, set_reg r (ucast v) s)"
  by (simp add: spi_write_def spi_write_then_read_def chip_bus_write set_reg_def)

lemma ucast_u8_u32 [simp]: "ucast (ucast (x :: u8) :: u32) = x"
  by (rule bit_word_eqI) (auto simp: bit_simps)

lemma run_spi_writef [spi_run]:
  "m \<noteq> 0 \<Longrightarrow> run_state (spi_writef chip_bus r m v) s =
     (0, set_reg r ((get_reg s r AND NOT (ucast m)) OR ucast (push_bit (ffs m) v AND m)) s)"
  by (simp add: spi_writef_def run_spi_readm byte0_def run_spi_write)

lemma run_spi_writem [spi_run]:
  "n \<le> 8 \<Longrightarrow> run_state (spi_writem chip_bus r bs n) s =
     (0, s\<lparr>ad_chip := put_bytes (AD_ADDR r) (take n bs) (ad_chip s)\<rparr>)"
  by (simp add: spi_writem_def MAX_MBYTE_SPI_def spi_write_then_read_def chip_bus_write)

lemma get_set_reg [simp]:
  "get_reg (set_reg r v s) q = (if AD_ADDR q = AD_ADDR r then v else get_reg s q)"
  by (simp add: set_reg_def)

subsection \<open>What a register file promises\<close>

text \<open>
  The interface the proofs about fields use: a register that was written is read back,
  others (\<open>same\<close> tells when two numbers name one register) keep their value. A field is
  written by reading the register, replacing the bits of the mask and writing it back.
\<close>

locale register_file =
  fixes peek :: "'s \<Rightarrow> u32 \<Rightarrow> u8" and poke :: "u32 \<Rightarrow> u8 \<Rightarrow> 's \<Rightarrow> 's" and same :: "u32 \<Rightarrow> u32 \<Rightarrow> bool"
  assumes peek_poke: "peek (poke r v s) q = (if same q r then v else peek s q)"
    and same_refl: "same r r"
begin

lemma peek_field: "peek (poke r ((peek s r AND NOT m) OR (v AND m)) s) r AND m = v AND m"
  unfolding peek_poke if_P [OF same_refl] by (rule bit_word_eqI) (auto simp: bit_simps)

lemma peek_rest: "peek (poke r ((peek s r AND NOT m) OR (v AND m)) s) r AND NOT m = peek s r AND NOT m"
  unfolding peek_poke if_P [OF same_refl] by (rule bit_word_eqI) (auto simp: bit_simps)

lemma peek_other: "\<not> same q r \<Longrightarrow> peek (poke r v s) q = peek s q"
  by (simp add: peek_poke)

text \<open>Two fields of one register do not disturb each other.\<close>

lemma fields_apart:
  assumes "m AND n = 0"
  shows "peek (poke r ((peek s r AND NOT n) OR (v AND n)) s) r AND m = peek s r AND m"
  unfolding peek_poke if_P [OF same_refl]
proof (rule bit_word_eqI)
  fix k assume "k < LENGTH(8)"
  have "\<not> (bit m k \<and> bit n k)" using assms by (metis bit_0_eq bit_and_iff bot_apply bot_bool_def)
  then show "bit (((peek s r AND NOT n) OR (v AND n)) AND m) k = bit (peek s r AND m) k"
    using \<open>k < LENGTH(8)\<close> by (auto simp: bit_simps)
qed

end

interpretation chip: register_file "\<lambda>s r. get_reg s r" set_reg "\<lambda>q r. AD_ADDR q = AD_ADDR r"
  by unfold_locales simp_all

text \<open>The bits of a field write.\<close>

lemma field_write_bits:
  fixes b :: u8 and m v :: u32
  shows "bit ((b AND NOT (ucast m)) OR ucast (push_bit k v AND m)) i \<longleftrightarrow>
    (if bit m i \<and> i < 8 then k \<le> i \<and> bit v (i - k) else bit b i)"
proof (cases "i < 8")
  case True
  then show ?thesis by (auto simp: bit_simps)
next
  case False
  then show ?thesis using bit_imp_le_length [of b i] by (auto simp: bit_simps)
qed

subsection \<open>Operations that only touch the chip\<close>

definition chip_only :: "('c ad9361, 'a) state \<Rightarrow> bool" where
  "chip_only m \<longleftrightarrow> (\<forall>s. \<exists>x c. run_state m s = (x, s\<lparr>ad_chip := c\<rparr>))"

named_theorems chip_intro \<open>operations that change nothing but the chip\<close>

lemma chip_onlyE: "chip_only m \<Longrightarrow> \<exists>x c. run_state m s = (x, s\<lparr>ad_chip := c\<rparr>)"
  by (simp add: chip_only_def)

lemma chip_same: "\<exists>c. s = s\<lparr>ad_chip := c\<rparr>"
  by (intro exI [of _ "ad_chip s"]) simp

lemma chip_only_return [chip_intro]: "chip_only (State_Monad.return x)"
  by (simp add: chip_only_def chip_same)

lemma chip_only_get [chip_intro]: "chip_only State_Monad.get"
  by (simp add: chip_only_def chip_same)

lemma chip_only_bind [chip_intro]:
  assumes "chip_only m" "\<And>x. chip_only (f x)"
  shows "chip_only (State_Monad.bind m f)"
  unfolding chip_only_def
proof
  fix s
  obtain x c where 1: "run_state m s = (x, s\<lparr>ad_chip := c\<rparr>)" using chip_onlyE [OF assms(1)] by blast
  obtain y d where 2: "run_state (f x) (s\<lparr>ad_chip := c\<rparr>) = (y, s\<lparr>ad_chip := d\<rparr>)"
    using chip_onlyE [OF assms(2), of x "s\<lparr>ad_chip := c\<rparr>"] by auto
  show "\<exists>x c. run_state (State_Monad.bind m f) s = (x, s\<lparr>ad_chip := c\<rparr>)" using 1 2 by (intro exI [of _ y] exI [of _ d]) simp
qed

lemma chip_only_if [chip_intro]: "(b \<Longrightarrow> chip_only m) \<Longrightarrow> (\<not> b \<Longrightarrow> chip_only n) \<Longrightarrow> chip_only (if b then m else n)"
  by simp

lemma chip_only_prod [chip_intro]: "(\<And>a b. chip_only (f a b)) \<Longrightarrow> chip_only (case x of (a, b) \<Rightarrow> f a b)"
  by (cases x) simp

lemma chip_only_xfer [chip_intro]: "chip_only (spi_write_then_read bus tx n)"
  by (auto simp: chip_only_def spi_write_then_read_def split: prod.splits)

lemma chip_only_spi [chip_intro]:
  "chip_only (spi_readm bus r n)" "chip_only (spi_read bus r)" "chip_only (spi_readf bus r m)"
  "chip_only (spi_write bus r v)" "chip_only (spi_writef bus r m v)" "chip_only (spi_writem bus r bs n)"
  by (auto simp: spi_readm_def spi_read_def spi_readf_def spi_write_def spi_writef_def spi_writem_def intro!: chip_intro)

text \<open>A device in reset, for concrete runs.\<close>

definition ad_zero :: "regfile ad9361" where
  "ad_zero = \<lparr>pd_use_ext_rx_lo = False, pd_use_ext_tx_lo = False, pd_lo_powerdown_managed_en = False,
     pd_debug_mode = False, pd_rf_rx_input_sel_lock = False, pd_rf_tx_output_sel_lock = False,
     pd_rssi_skip_calib = False, pd_dcxo_coarse = 0, pd_dcxo_fine = 0, pd_trx_synth_max_fref = 0,
     pd_rx_synth_freq = 0, pd_tx_synth_freq = 0, pd_rf_rx_bandwidth_Hz = 0, pd_rf_tx_bandwidth_Hz = 0,
     pd_tx_atten = 0, pd_ad9361_clkout_mode = CLKOUT_DISABLE, pd_ctrl_outs_ctrl = co_zero,
     pd_auxdac_ctrl = dac_zero, pd_gpo_ctrl = gp_zero, pd_txmon_ctrl = tm_zero, pd_sync_gpio = False,
     pd_dev = ID_AD9361, pd_rx2tx2 = True, pd_fdd = True, pd_fdd_independent_mode = False,
     pd_split_gt = False, pd_ensm_pin_pulse_mode = False, pd_tdd_use_dual_synth = False,
     pd_tdd_skip_vco_cal = False, pd_rx1tx1_mode_use_rx_num = 1, pd_rx1tx1_mode_use_tx_num = 1,
     pd_rx_fastlock_delay_ns = 0, pd_tx_fastlock_delay_ns = 0, pd_trx_fastlock_pinctrl_en = (\<lambda>_. False),
     pd_update_tx_gain_via_alert = False, pd_use_extclk = False, pd_ensm_pin_ctrl = False,
     pd_rx1rx2_phase_inversion_en = False, pd_qec_tracking_slow_mode_en = False,
     pd_dig_interface_tune_fir_disable = False, pd_bb_clk_change_dig_tune_en = False,
     pd_axi_half_dac_rate_en = False, pd_dc_offset_update_events = 0, pd_dc_offset_attenuation_high = 0,
     pd_dc_offset_attenuation_low = 0, pd_rf_dc_offset_count_high = 0, pd_rf_dc_offset_count_low = 0,
     pd_dig_interface_tune_skipmode = 0, pd_rx_path_clks = replicate 6 0, pd_tx_path_clks = replicate 6 0,
     pd_gain_ctrl = gc_zero, pd_rssi_ctrl = rc_zero, pd_port_ctrl = pc_zero, pd_elna_ctrl = el_zero,
     pd_auxadc_ctrl = aa_zero, pd_rssi_lna_err_tbl = replicate 4 0, pd_rssi_mixer_err_tbl = replicate 16 0,
     pd_rssi_gain_step_calib_reg_val = replicate 5 0, ph_gt_info = ad9361_adi_gt_info,
     st_auto_cal_en = False, st_manual_tx_quad_cal_en = False, st_last_tx_quad_cal_freq = 0,
     st_last_tx_quad_cal_phase = 0, st_cal_threshold_freq = 0, st_current_rx_path_clks = replicate 6 0,
     st_current_tx_path_clks = replicate 6 0, st_current_rx_bw_Hz = 0, st_current_tx_bw_Hz = 0,
     st_rxbbf_div = 0, st_rate_governor = 1, st_rx_eq_2tx = False, st_filt_valid = False,
     st_filt_rx_path_clks = replicate 6 0, st_filt_tx_path_clks = replicate 6 0, st_filt_rx_bw_Hz = 0,
     st_filt_tx_bw_Hz = 0, st_tx_fir_int = 0, st_tx_fir_ntaps = 0, st_rx_fir_dec = 0, st_rx_fir_ntaps = 0,
     st_rfdc_track_en = True, st_bbdc_track_en = True, st_quad_track_en = True, st_auxdac1_value = 0,
     st_auxdac2_value = 0, st_rf_rx_input_sel = 0, st_rf_tx_output_sel = 0, st_work_pending = False, st_save_profile = 0, ph_conv = None,
     ad_chip = (\<lambda>_. 0), st_prev_ensm_state = 0, st_curr_ensm_state = 0, st_ensm_pin_ctl_en = False,
     st_cached_rx_rfpll_div = 0, st_cached_tx_rfpll_div = 0, st_cached_synth_pd0 = 0, st_cached_synth_pd1 = 0,
     st_current_table = - 1, st_current_tx_lo_freq = 0, st_current_rx_lo_freq = 0,
     st_current_tx_use_tdd_table = False, st_current_rx_use_tdd_table = False,
     st_bypass_rx_fir = True, st_bypass_tx_fir = True, st_tx1_atten_cached = 0, st_tx2_atten_cached = 0,
     st_bist_loopback_mode = 0, st_bist_config = 0,
     st_tx_quad_lpf_tia_match = - 22, st_agc_mode0 = 0, st_agc_mode1 = 0, st_txmon_tdd_en = False, st_fl_current = (\<lambda>_. 0),
     st_fl_entry = (\<lambda>_ _. \<lparr>fl_flags = 0, fl_alc_orig = 0, fl_alc_written = 0\<rparr>)\<rparr>"

end
