(* ===== verification/Ad_Regs.thy ===== *)
theory Ad_Regs
  imports Zyn_Prelude
begin

unbundle bit_operations_syntax

text \<open>
  The register addresses, field masks and limits of \<^verbatim>\<open>ad9361_regs.h\<close> that the modelled
  driver functions use, in the header's order.
\<close>

named_theorems ad_regs \<open>addresses and fields of the register map\<close>

definition REG_SPI_CONF :: u32 where [ad_regs]: "REG_SPI_CONF = 0x0"
definition REG_MULTICHIP_SYNC_AND_TX_MON_CTRL :: u32 where [ad_regs]: "REG_MULTICHIP_SYNC_AND_TX_MON_CTRL = 0x1"
definition REG_TX_ENABLE_FILTER_CTRL :: u32 where [ad_regs]: "REG_TX_ENABLE_FILTER_CTRL = 0x2"
definition REG_RX_ENABLE_FILTER_CTRL :: u32 where [ad_regs]: "REG_RX_ENABLE_FILTER_CTRL = 0x3"
definition REG_INPUT_SELECT :: u32 where [ad_regs]: "REG_INPUT_SELECT = 0x4"
definition REG_RFPLL_DIVIDERS :: u32 where [ad_regs]: "REG_RFPLL_DIVIDERS = 0x5"
definition REG_RX_CLOCK_DATA_DELAY :: u32 where [ad_regs]: "REG_RX_CLOCK_DATA_DELAY = 0x6"
definition REG_TX_CLOCK_DATA_DELAY :: u32 where [ad_regs]: "REG_TX_CLOCK_DATA_DELAY = 0x7"
definition REG_CLOCK_ENABLE :: u32 where [ad_regs]: "REG_CLOCK_ENABLE = 0x9"
definition REG_BBPLL :: u32 where [ad_regs]: "REG_BBPLL = 0xA"
definition REG_TEMP_OFFSET :: u32 where [ad_regs]: "REG_TEMP_OFFSET = 0xB"
definition REG_START_TEMP_READING :: u32 where [ad_regs]: "REG_START_TEMP_READING = 0xC"
definition REG_TEMP_SENSE2 :: u32 where [ad_regs]: "REG_TEMP_SENSE2 = 0xD"
definition REG_TEMPERATURE :: u32 where [ad_regs]: "REG_TEMPERATURE = 0xE"
definition REG_TEMP_SENSOR_CONFIG :: u32 where [ad_regs]: "REG_TEMP_SENSOR_CONFIG = 0xF"
definition REG_PARALLEL_PORT_CONF_1 :: u32 where [ad_regs]: "REG_PARALLEL_PORT_CONF_1 = 0x10"
definition REG_PARALLEL_PORT_CONF_2 :: u32 where [ad_regs]: "REG_PARALLEL_PORT_CONF_2 = 0x11"
definition REG_PARALLEL_PORT_CONF_3 :: u32 where [ad_regs]: "REG_PARALLEL_PORT_CONF_3 = 0x12"
definition REG_ENSM_MODE :: u32 where [ad_regs]: "REG_ENSM_MODE = 0x13"
definition REG_ENSM_CONFIG_1 :: u32 where [ad_regs]: "REG_ENSM_CONFIG_1 = 0x14"
definition REG_ENSM_CONFIG_2 :: u32 where [ad_regs]: "REG_ENSM_CONFIG_2 = 0x15"
definition REG_CALIBRATION_CTRL :: u32 where [ad_regs]: "REG_CALIBRATION_CTRL = 0x16"
definition REG_STATE :: u32 where [ad_regs]: "REG_STATE = 0x17"
definition REG_AUXDAC_1_WORD :: u32 where [ad_regs]: "REG_AUXDAC_1_WORD = 0x18"
definition REG_AUXDAC_2_WORD :: u32 where [ad_regs]: "REG_AUXDAC_2_WORD = 0x19"
definition REG_AUXDAC_1_CONFIG :: u32 where [ad_regs]: "REG_AUXDAC_1_CONFIG = 0x1A"
definition REG_AUXDAC_2_CONFIG :: u32 where [ad_regs]: "REG_AUXDAC_2_CONFIG = 0x1B"
definition REG_AUXADC_CLOCK_DIVIDER :: u32 where [ad_regs]: "REG_AUXADC_CLOCK_DIVIDER = 0x1C"
definition REG_AUXADC_CONFIG :: u32 where [ad_regs]: "REG_AUXADC_CONFIG = 0x1D"
definition REG_AUXADC_LSB :: u32 where [ad_regs]: "REG_AUXADC_LSB = 0x1F"
definition REG_AUTO_GPO :: u32 where [ad_regs]: "REG_AUTO_GPO = 0x20"
definition REG_AGC_ATTACK_DELAY :: u32 where [ad_regs]: "REG_AGC_ATTACK_DELAY = 0x22"
definition REG_AUXDAC_ENABLE_CTRL :: u32 where [ad_regs]: "REG_AUXDAC_ENABLE_CTRL = 0x23"
definition REG_EXTERNAL_LNA_CTRL :: u32 where [ad_regs]: "REG_EXTERNAL_LNA_CTRL = 0x26"
definition REG_GPO_FORCE_AND_INIT :: u32 where [ad_regs]: "REG_GPO_FORCE_AND_INIT = 0x27"
definition REG_GPO0_RX_DELAY :: u32 where [ad_regs]: "REG_GPO0_RX_DELAY = 0x28"
definition REG_GPO1_RX_DELAY :: u32 where [ad_regs]: "REG_GPO1_RX_DELAY = 0x29"
definition REG_GPO2_RX_DELAY :: u32 where [ad_regs]: "REG_GPO2_RX_DELAY = 0x2A"
definition REG_GPO3_RX_DELAY :: u32 where [ad_regs]: "REG_GPO3_RX_DELAY = 0x2B"
definition REG_GPO0_TX_DELAY :: u32 where [ad_regs]: "REG_GPO0_TX_DELAY = 0x2C"
definition REG_GPO1_TX_DELAY :: u32 where [ad_regs]: "REG_GPO1_TX_DELAY = 0x2D"
definition REG_GPO2_TX_DELAY :: u32 where [ad_regs]: "REG_GPO2_TX_DELAY = 0x2E"
definition REG_GPO3_TX_DELAY :: u32 where [ad_regs]: "REG_GPO3_TX_DELAY = 0x2F"
definition REG_AUXDAC1_RX_DELAY :: u32 where [ad_regs]: "REG_AUXDAC1_RX_DELAY = 0x30"
definition REG_AUXDAC1_TX_DELAY :: u32 where [ad_regs]: "REG_AUXDAC1_TX_DELAY = 0x31"
definition REG_AUXDAC2_RX_DELAY :: u32 where [ad_regs]: "REG_AUXDAC2_RX_DELAY = 0x32"
definition REG_AUXDAC2_TX_DELAY :: u32 where [ad_regs]: "REG_AUXDAC2_TX_DELAY = 0x33"
definition REG_CTRL_OUTPUT_POINTER :: u32 where [ad_regs]: "REG_CTRL_OUTPUT_POINTER = 0x35"
definition REG_CTRL_OUTPUT_ENABLE :: u32 where [ad_regs]: "REG_CTRL_OUTPUT_ENABLE = 0x36"
definition REG_PRODUCT_ID :: u32 where [ad_regs]: "REG_PRODUCT_ID = 0x37"
definition REG_REFERENCE_CLOCK_CYCLES :: u32 where [ad_regs]: "REG_REFERENCE_CLOCK_CYCLES = 0x3A"
definition REG_LVDS_BIAS_CTRL :: u32 where [ad_regs]: "REG_LVDS_BIAS_CTRL = 0x3C"
definition REG_LVDS_INVERT_CTRL1 :: u32 where [ad_regs]: "REG_LVDS_INVERT_CTRL1 = 0x3D"
definition REG_LVDS_INVERT_CTRL2 :: u32 where [ad_regs]: "REG_LVDS_INVERT_CTRL2 = 0x3E"
definition REG_SDM_CTRL_1 :: u32 where [ad_regs]: "REG_SDM_CTRL_1 = 0x3F"
definition REG_FRACT_BB_FREQ_WORD_1 :: u32 where [ad_regs]: "REG_FRACT_BB_FREQ_WORD_1 = 0x41"
definition REG_FRACT_BB_FREQ_WORD_2 :: u32 where [ad_regs]: "REG_FRACT_BB_FREQ_WORD_2 = 0x42"
definition REG_FRACT_BB_FREQ_WORD_3 :: u32 where [ad_regs]: "REG_FRACT_BB_FREQ_WORD_3 = 0x43"
definition REG_INTEGER_BB_FREQ_WORD :: u32 where [ad_regs]: "REG_INTEGER_BB_FREQ_WORD = 0x44"
definition REG_CLOCK_CTRL :: u32 where [ad_regs]: "REG_CLOCK_CTRL = 0x45"
definition REG_CP_CURRENT :: u32 where [ad_regs]: "REG_CP_CURRENT = 0x46"
definition REG_CP_BLEED_CURRENT :: u32 where [ad_regs]: "REG_CP_BLEED_CURRENT = 0x47"
definition REG_LOOP_FILTER_3 :: u32 where [ad_regs]: "REG_LOOP_FILTER_3 = 0x4A"
definition REG_VCO_CTRL :: u32 where [ad_regs]: "REG_VCO_CTRL = 0x4B"
definition REG_VCO_PROGRAM_1 :: u32 where [ad_regs]: "REG_VCO_PROGRAM_1 = 0x4C"
definition REG_VCO_PROGRAM_2 :: u32 where [ad_regs]: "REG_VCO_PROGRAM_2 = 0x4D"
definition REG_SDM_CTRL :: u32 where [ad_regs]: "REG_SDM_CTRL = 0x4E"
definition REG_RX_SYNTH_POWER_DOWN_OVERRIDE :: u32 where [ad_regs]: "REG_RX_SYNTH_POWER_DOWN_OVERRIDE = 0x50"
definition REG_TX_SYNTH_POWER_DOWN_OVERRIDE :: u32 where [ad_regs]: "REG_TX_SYNTH_POWER_DOWN_OVERRIDE = 0x51"
definition REG_ANALOG_POWER_DOWN_OVERRIDE :: u32 where [ad_regs]: "REG_ANALOG_POWER_DOWN_OVERRIDE = 0x57"
definition REG_CH_1_OVERFLOW :: u32 where [ad_regs]: "REG_CH_1_OVERFLOW = 0x5E"
definition REG_TX_FILTER_COEF_ADDR :: u32 where [ad_regs]: "REG_TX_FILTER_COEF_ADDR = 0x60"
definition REG_TX_FILTER_COEF_WRITE_DATA_1 :: u32 where [ad_regs]: "REG_TX_FILTER_COEF_WRITE_DATA_1 = 0x61"
definition REG_TX_FILTER_COEF_WRITE_DATA_2 :: u32 where [ad_regs]: "REG_TX_FILTER_COEF_WRITE_DATA_2 = 0x62"
definition REG_TX_FILTER_COEF_READ_DATA_1 :: u32 where [ad_regs]: "REG_TX_FILTER_COEF_READ_DATA_1 = 0x63"
definition REG_TX_FILTER_COEF_READ_DATA_2 :: u32 where [ad_regs]: "REG_TX_FILTER_COEF_READ_DATA_2 = 0x64"
definition REG_TX_FILTER_CONF :: u32 where [ad_regs]: "REG_TX_FILTER_CONF = 0x65"
definition REG_TX_MON_LOW_GAIN :: u32 where [ad_regs]: "REG_TX_MON_LOW_GAIN = 0x67"
definition REG_TX_MON_HIGH_GAIN :: u32 where [ad_regs]: "REG_TX_MON_HIGH_GAIN = 0x68"
definition REG_TX_MON_DELAY :: u32 where [ad_regs]: "REG_TX_MON_DELAY = 0x69"
definition REG_TX_LEVEL_THRESH :: u32 where [ad_regs]: "REG_TX_LEVEL_THRESH = 0x6A"
definition REG_TX_RSSI_LSB :: u32 where [ad_regs]: "REG_TX_RSSI_LSB = 0x6D"
definition REG_TPM_MODE_ENABLE :: u32 where [ad_regs]: "REG_TPM_MODE_ENABLE = 0x6E"
definition REG_TX_MON_1_CONFIG :: u32 where [ad_regs]: "REG_TX_MON_1_CONFIG = 0x70"
definition REG_TX_MON_2_CONFIG :: u32 where [ad_regs]: "REG_TX_MON_2_CONFIG = 0x71"
definition REG_TX1_ATTEN_1 :: u32 where [ad_regs]: "REG_TX1_ATTEN_1 = 0x74"
definition REG_TX2_ATTEN_1 :: u32 where [ad_regs]: "REG_TX2_ATTEN_1 = 0x76"
definition REG_TX_ATTEN_OFFSET :: u32 where [ad_regs]: "REG_TX_ATTEN_OFFSET = 0x77"
definition REG_TX_ATTEN_THRESH :: u32 where [ad_regs]: "REG_TX_ATTEN_THRESH = 0x78"
definition REG_TX2_DIG_ATTEN :: u32 where [ad_regs]: "REG_TX2_DIG_ATTEN = 0x7C"
definition REG_TX_SYMBOL_ATTEN_CONFIG :: u32 where [ad_regs]: "REG_TX_SYMBOL_ATTEN_CONFIG = 0x81"
definition REG_QUAD_CAL_NCO_FREQ_PHASE_OFFSET :: u32 where [ad_regs]: "REG_QUAD_CAL_NCO_FREQ_PHASE_OFFSET = 0xA0"
definition REG_QUAD_CAL_CTRL :: u32 where [ad_regs]: "REG_QUAD_CAL_CTRL = 0xA1"
definition REG_KEXP_1 :: u32 where [ad_regs]: "REG_KEXP_1 = 0xA2"
definition REG_KEXP_2 :: u32 where [ad_regs]: "REG_KEXP_2 = 0xA3"
definition REG_QUAD_SETTLE_COUNT :: u32 where [ad_regs]: "REG_QUAD_SETTLE_COUNT = 0xA4"
definition REG_MAG_FTEST_THRESH :: u32 where [ad_regs]: "REG_MAG_FTEST_THRESH = 0xA5"
definition REG_MAG_FTEST_THRESH_2 :: u32 where [ad_regs]: "REG_MAG_FTEST_THRESH_2 = 0xA6"
definition REG_QUAD_CAL_STATUS_TX1 :: u32 where [ad_regs]: "REG_QUAD_CAL_STATUS_TX1 = 0xA7"
definition REG_QUAD_CAL_STATUS_TX2 :: u32 where [ad_regs]: "REG_QUAD_CAL_STATUS_TX2 = 0xA8"
definition REG_QUAD_CAL_COUNT :: u32 where [ad_regs]: "REG_QUAD_CAL_COUNT = 0xA9"
definition REG_TX_QUAD_FULL_LMT_GAIN :: u32 where [ad_regs]: "REG_TX_QUAD_FULL_LMT_GAIN = 0xAA"
definition REG_TX_QUAD_LPF_GAIN :: u32 where [ad_regs]: "REG_TX_QUAD_LPF_GAIN = 0xAE"
definition REG_TX_TUNE_CTRL :: u32 where [ad_regs]: "REG_TX_TUNE_CTRL = 0xCA"
definition REG_CONFIG0 :: u32 where [ad_regs]: "REG_CONFIG0 = 0xD0"
definition REG_RESISTOR :: u32 where [ad_regs]: "REG_RESISTOR = 0xD1"
definition REG_CAPACITOR :: u32 where [ad_regs]: "REG_CAPACITOR = 0xD2"
definition REG_TX_BBF_TUNE_DIVIDER :: u32 where [ad_regs]: "REG_TX_BBF_TUNE_DIVIDER = 0xD6"
definition REG_TX_BBF_TUNE_MODE :: u32 where [ad_regs]: "REG_TX_BBF_TUNE_MODE = 0xD7"
definition REG_RX_FILTER_COEF_ADDR :: u32 where [ad_regs]: "REG_RX_FILTER_COEF_ADDR = 0xF0"
definition REG_RX_FILTER_GAIN :: u32 where [ad_regs]: "REG_RX_FILTER_GAIN = 0xF6"
definition REG_AGC_CONFIG_1 :: u32 where [ad_regs]: "REG_AGC_CONFIG_1 = 0xFA"
definition REG_AGC_CONFIG_2 :: u32 where [ad_regs]: "REG_AGC_CONFIG_2 = 0xFB"
definition REG_AGC_CONFIG_3 :: u32 where [ad_regs]: "REG_AGC_CONFIG_3 = 0xFC"
definition REG_MAX_LMT_FULL_GAIN :: u32 where [ad_regs]: "REG_MAX_LMT_FULL_GAIN = 0xFD"
definition REG_PEAK_WAIT_TIME :: u32 where [ad_regs]: "REG_PEAK_WAIT_TIME = 0xFE"
definition REG_DIGITAL_GAIN :: u32 where [ad_regs]: "REG_DIGITAL_GAIN = 0x100"
definition REG_AGC_LOCK_LEVEL :: u32 where [ad_regs]: "REG_AGC_LOCK_LEVEL = 0x101"
definition REG_GAIN_STP_CONFIG1 :: u32 where [ad_regs]: "REG_GAIN_STP_CONFIG1 = 0x103"
definition REG_ADC_SMALL_OVERLOAD_THRESH :: u32 where [ad_regs]: "REG_ADC_SMALL_OVERLOAD_THRESH = 0x104"
definition REG_ADC_LARGE_OVERLOAD_THRESH :: u32 where [ad_regs]: "REG_ADC_LARGE_OVERLOAD_THRESH = 0x105"
definition REG_GAIN_STP_CONFIG_2 :: u32 where [ad_regs]: "REG_GAIN_STP_CONFIG_2 = 0x106"
definition REG_SMALL_LMT_OVERLOAD_THRESH :: u32 where [ad_regs]: "REG_SMALL_LMT_OVERLOAD_THRESH = 0x107"
definition REG_LARGE_LMT_OVERLOAD_THRESH :: u32 where [ad_regs]: "REG_LARGE_LMT_OVERLOAD_THRESH = 0x108"
definition REG_RX1_MANUAL_LMT_FULL_GAIN :: u32 where [ad_regs]: "REG_RX1_MANUAL_LMT_FULL_GAIN = 0x109"
definition REG_RX1_MANUAL_LPF_GAIN :: u32 where [ad_regs]: "REG_RX1_MANUAL_LPF_GAIN = 0x10A"
definition REG_RX1_MANUAL_DIGITALFORCED_GAIN :: u32 where [ad_regs]: "REG_RX1_MANUAL_DIGITALFORCED_GAIN = 0x10B"
definition REG_RX2_MANUAL_LMT_FULL_GAIN :: u32 where [ad_regs]: "REG_RX2_MANUAL_LMT_FULL_GAIN = 0x10C"
definition REG_RX2_MANUAL_LPF_GAIN :: u32 where [ad_regs]: "REG_RX2_MANUAL_LPF_GAIN = 0x10D"
definition REG_RX2_MANUAL_DIGITALFORCED_GAIN :: u32 where [ad_regs]: "REG_RX2_MANUAL_DIGITALFORCED_GAIN = 0x10E"
definition REG_FAST_CONFIG_1 :: u32 where [ad_regs]: "REG_FAST_CONFIG_1 = 0x110"
definition REG_FAST_CONFIG_2_SETTLING_DELAY :: u32 where [ad_regs]: "REG_FAST_CONFIG_2_SETTLING_DELAY = 0x111"
definition REG_FAST_ENERGY_LOST_THRESH :: u32 where [ad_regs]: "REG_FAST_ENERGY_LOST_THRESH = 0x112"
definition REG_FAST_STRONGER_SIGNAL_THRESH :: u32 where [ad_regs]: "REG_FAST_STRONGER_SIGNAL_THRESH = 0x113"
definition REG_FAST_LOW_POWER_THRESH :: u32 where [ad_regs]: "REG_FAST_LOW_POWER_THRESH = 0x114"
definition REG_FAST_STRONG_SIGNAL_FREEZE :: u32 where [ad_regs]: "REG_FAST_STRONG_SIGNAL_FREEZE = 0x115"
definition REG_FAST_FINAL_OVER_RANGE_AND_OPT_GAIN :: u32 where [ad_regs]: "REG_FAST_FINAL_OVER_RANGE_AND_OPT_GAIN = 0x116"
definition REG_FAST_ENERGY_DETECT_COUNT :: u32 where [ad_regs]: "REG_FAST_ENERGY_DETECT_COUNT = 0x117"
definition REG_FAST_AGCLL_UPPER_LIMIT :: u32 where [ad_regs]: "REG_FAST_AGCLL_UPPER_LIMIT = 0x118"
definition REG_FAST_GAIN_LOCK_EXIT_COUNT :: u32 where [ad_regs]: "REG_FAST_GAIN_LOCK_EXIT_COUNT = 0x119"
definition REG_FAST_INITIAL_LMT_GAIN_LIMIT :: u32 where [ad_regs]: "REG_FAST_INITIAL_LMT_GAIN_LIMIT = 0x11A"
definition REG_FAST_INCREMENT_TIME :: u32 where [ad_regs]: "REG_FAST_INCREMENT_TIME = 0x11B"
definition REG_AGC_INNER_LOW_THRESH :: u32 where [ad_regs]: "REG_AGC_INNER_LOW_THRESH = 0x120"
definition REG_LMT_OVERLOAD_COUNTERS :: u32 where [ad_regs]: "REG_LMT_OVERLOAD_COUNTERS = 0x121"
definition REG_ADC_OVERLOAD_COUNTERS :: u32 where [ad_regs]: "REG_ADC_OVERLOAD_COUNTERS = 0x122"
definition REG_GAIN_STP1 :: u32 where [ad_regs]: "REG_GAIN_STP1 = 0x123"
definition REG_GAIN_UPDATE_COUNTER1 :: u32 where [ad_regs]: "REG_GAIN_UPDATE_COUNTER1 = 0x124"
definition REG_GAIN_UPDATE_COUNTER2 :: u32 where [ad_regs]: "REG_GAIN_UPDATE_COUNTER2 = 0x125"
definition REG_DIGITAL_SAT_COUNTER :: u32 where [ad_regs]: "REG_DIGITAL_SAT_COUNTER = 0x128"
definition REG_OUTER_POWER_THRESHS :: u32 where [ad_regs]: "REG_OUTER_POWER_THRESHS = 0x129"
definition REG_GAIN_STP_2 :: u32 where [ad_regs]: "REG_GAIN_STP_2 = 0x12A"
definition REG_EXT_LNA_HIGH_GAIN :: u32 where [ad_regs]: "REG_EXT_LNA_HIGH_GAIN = 0x12C"
definition REG_EXT_LNA_LOW_GAIN :: u32 where [ad_regs]: "REG_EXT_LNA_LOW_GAIN = 0x12D"
definition REG_GAIN_TABLE_ADDRESS :: u32 where [ad_regs]: "REG_GAIN_TABLE_ADDRESS = 0x130"
definition REG_GAIN_TABLE_WRITE_DATA1 :: u32 where [ad_regs]: "REG_GAIN_TABLE_WRITE_DATA1 = 0x131"
definition REG_GAIN_TABLE_WRITE_DATA2 :: u32 where [ad_regs]: "REG_GAIN_TABLE_WRITE_DATA2 = 0x132"
definition REG_GAIN_TABLE_WRITE_DATA3 :: u32 where [ad_regs]: "REG_GAIN_TABLE_WRITE_DATA3 = 0x133"
definition REG_GAIN_TABLE_READ_DATA1 :: u32 where [ad_regs]: "REG_GAIN_TABLE_READ_DATA1 = 0x134"
definition REG_GAIN_TABLE_READ_DATA2 :: u32 where [ad_regs]: "REG_GAIN_TABLE_READ_DATA2 = 0x135"
definition REG_GAIN_TABLE_CONFIG :: u32 where [ad_regs]: "REG_GAIN_TABLE_CONFIG = 0x137"
definition REG_GM_SUB_TABLE_ADDRESS :: u32 where [ad_regs]: "REG_GM_SUB_TABLE_ADDRESS = 0x138"
definition REG_GM_SUB_TABLE_GAIN_WRITE :: u32 where [ad_regs]: "REG_GM_SUB_TABLE_GAIN_WRITE = 0x139"
definition REG_GM_SUB_TABLE_BIAS_WRITE :: u32 where [ad_regs]: "REG_GM_SUB_TABLE_BIAS_WRITE = 0x13A"
definition REG_GM_SUB_TABLE_CTRL_WRITE :: u32 where [ad_regs]: "REG_GM_SUB_TABLE_CTRL_WRITE = 0x13B"
definition REG_GM_SUB_TABLE_GAIN_READ :: u32 where [ad_regs]: "REG_GM_SUB_TABLE_GAIN_READ = 0x13C"
definition REG_GM_SUB_TABLE_CONFIG :: u32 where [ad_regs]: "REG_GM_SUB_TABLE_CONFIG = 0x13F"
definition REG_WORD_ADDRESS :: u32 where [ad_regs]: "REG_WORD_ADDRESS = 0x140"
definition REG_GAIN_DIFF_WORDERROR_WRITE :: u32 where [ad_regs]: "REG_GAIN_DIFF_WORDERROR_WRITE = 0x141"
definition REG_GAIN_ERROR_READ :: u32 where [ad_regs]: "REG_GAIN_ERROR_READ = 0x142"
definition REG_CONFIG :: u32 where [ad_regs]: "REG_CONFIG = 0x143"
definition REG_MAX_MIXER_CALIBRATION_GAIN_INDEX :: u32 where [ad_regs]: "REG_MAX_MIXER_CALIBRATION_GAIN_INDEX = 0x145"
definition REG_SETTLE_TIME :: u32 where [ad_regs]: "REG_SETTLE_TIME = 0x147"
definition REG_MEASURE_DURATION :: u32 where [ad_regs]: "REG_MEASURE_DURATION = 0x148"
definition REG_MEASURE_DURATION_01 :: u32 where [ad_regs]: "REG_MEASURE_DURATION_01 = 0x150"
definition REG_MEASURE_DURATION_23 :: u32 where [ad_regs]: "REG_MEASURE_DURATION_23 = 0x151"
definition REG_RSSI_WEIGHT_0 :: u32 where [ad_regs]: "REG_RSSI_WEIGHT_0 = 0x152"
definition REG_RSSI_WEIGHT_1 :: u32 where [ad_regs]: "REG_RSSI_WEIGHT_1 = 0x153"
definition REG_RSSI_WEIGHT_2 :: u32 where [ad_regs]: "REG_RSSI_WEIGHT_2 = 0x154"
definition REG_RSSI_WEIGHT_3 :: u32 where [ad_regs]: "REG_RSSI_WEIGHT_3 = 0x155"
definition REG_RSSI_DELAY :: u32 where [ad_regs]: "REG_RSSI_DELAY = 0x156"
definition REG_RSSI_WAIT_TIME :: u32 where [ad_regs]: "REG_RSSI_WAIT_TIME = 0x157"
definition REG_RSSI_CONFIG :: u32 where [ad_regs]: "REG_RSSI_CONFIG = 0x158"
definition REG_DEC_POWER_MEASURE_DURATION_0 :: u32 where [ad_regs]: "REG_DEC_POWER_MEASURE_DURATION_0 = 0x15C"
definition REG_LNA_GAIN :: u32 where [ad_regs]: "REG_LNA_GAIN = 0x15D"
definition REG_CALIBRATION_CONFIG_1 :: u32 where [ad_regs]: "REG_CALIBRATION_CONFIG_1 = 0x169"
definition REG_CALIBRATION_CONFIG_2 :: u32 where [ad_regs]: "REG_CALIBRATION_CONFIG_2 = 0x16A"
definition REG_CALIBRATION_CONFIG_3 :: u32 where [ad_regs]: "REG_CALIBRATION_CONFIG_3 = 0x16B"
definition REG_RX_QUAD_GAIN2 :: u32 where [ad_regs]: "REG_RX_QUAD_GAIN2 = 0x16F"
definition REG_WAIT_COUNT :: u32 where [ad_regs]: "REG_WAIT_COUNT = 0x185"
definition REG_RF_DC_OFFSET_COUNT :: u32 where [ad_regs]: "REG_RF_DC_OFFSET_COUNT = 0x186"
definition REG_RF_DC_OFFSET_CONFIG_1 :: u32 where [ad_regs]: "REG_RF_DC_OFFSET_CONFIG_1 = 0x187"
definition REG_RF_DC_OFFSET_ATTEN :: u32 where [ad_regs]: "REG_RF_DC_OFFSET_ATTEN = 0x188"
definition REG_INVERT_BITS :: u32 where [ad_regs]: "REG_INVERT_BITS = 0x189"
definition REG_DC_OFFSET_CONFIG2 :: u32 where [ad_regs]: "REG_DC_OFFSET_CONFIG2 = 0x18B"
definition REG_BB_DC_OFFSET_SHIFT :: u32 where [ad_regs]: "REG_BB_DC_OFFSET_SHIFT = 0x190"
definition REG_BB_DC_OFFSET_COUNT :: u32 where [ad_regs]: "REG_BB_DC_OFFSET_COUNT = 0x193"
definition REG_BB_DC_OFFSET_ATTEN :: u32 where [ad_regs]: "REG_BB_DC_OFFSET_ATTEN = 0x194"
definition REG_PREAMBLE_LSB :: u32 where [ad_regs]: "REG_PREAMBLE_LSB = 0x1AC"
definition REG_RX_MIX_GM_CONFIG :: u32 where [ad_regs]: "REG_RX_MIX_GM_CONFIG = 0x1C0"
definition REG_RX_MIX_LO_CM :: u32 where [ad_regs]: "REG_RX_MIX_LO_CM = 0x1D5"
definition REG_RX_TIA_CONFIG :: u32 where [ad_regs]: "REG_RX_TIA_CONFIG = 0x1DB"
definition REG_TIA1_C_LSB :: u32 where [ad_regs]: "REG_TIA1_C_LSB = 0x1DC"
definition REG_TIA1_C_MSB :: u32 where [ad_regs]: "REG_TIA1_C_MSB = 0x1DD"
definition REG_TIA2_C_LSB :: u32 where [ad_regs]: "REG_TIA2_C_LSB = 0x1DE"
definition REG_TIA2_C_MSB :: u32 where [ad_regs]: "REG_TIA2_C_MSB = 0x1DF"
definition REG_RX1_TUNE_CTRL :: u32 where [ad_regs]: "REG_RX1_TUNE_CTRL = 0x1E2"
definition REG_RX2_TUNE_CTRL :: u32 where [ad_regs]: "REG_RX2_TUNE_CTRL = 0x1E3"
definition REG_RX_BBF_R2346 :: u32 where [ad_regs]: "REG_RX_BBF_R2346 = 0x1E6"
definition REG_RX_BBF_C3_MSB :: u32 where [ad_regs]: "REG_RX_BBF_C3_MSB = 0x1EB"
definition REG_RX_BBF_C3_LSB :: u32 where [ad_regs]: "REG_RX_BBF_C3_LSB = 0x1EC"
definition REG_RX_BBF_TUNE_DIVIDE :: u32 where [ad_regs]: "REG_RX_BBF_TUNE_DIVIDE = 0x1F8"
definition REG_RX_BBF_TUNE_CONFIG :: u32 where [ad_regs]: "REG_RX_BBF_TUNE_CONFIG = 0x1F9"
definition REG_RX_BBBW_MHZ :: u32 where [ad_regs]: "REG_RX_BBBW_MHZ = 0x1FB"
definition REG_RX_BBBW_KHZ :: u32 where [ad_regs]: "REG_RX_BBBW_KHZ = 0x1FC"
definition REG_RX_PFD_CONFIG :: u32 where [ad_regs]: "REG_RX_PFD_CONFIG = 0x230"
definition REG_RX_INTEGER_BYTE_0 :: u32 where [ad_regs]: "REG_RX_INTEGER_BYTE_0 = 0x231"
definition REG_RX_INTEGER_BYTE_1 :: u32 where [ad_regs]: "REG_RX_INTEGER_BYTE_1 = 0x232"
definition REG_RX_FRACT_BYTE_0 :: u32 where [ad_regs]: "REG_RX_FRACT_BYTE_0 = 0x233"
definition REG_RX_FRACT_BYTE_1 :: u32 where [ad_regs]: "REG_RX_FRACT_BYTE_1 = 0x234"
definition REG_RX_FRACT_BYTE_2 :: u32 where [ad_regs]: "REG_RX_FRACT_BYTE_2 = 0x235"
definition REG_RX_FORCE_ALC :: u32 where [ad_regs]: "REG_RX_FORCE_ALC = 0x236"
definition REG_RX_FORCE_VCO_TUNE_0 :: u32 where [ad_regs]: "REG_RX_FORCE_VCO_TUNE_0 = 0x237"
definition REG_RX_FORCE_VCO_TUNE_1 :: u32 where [ad_regs]: "REG_RX_FORCE_VCO_TUNE_1 = 0x238"
definition REG_RX_ALC_VARACTOR :: u32 where [ad_regs]: "REG_RX_ALC_VARACTOR = 0x239"
definition REG_RX_VCO_OUTPUT :: u32 where [ad_regs]: "REG_RX_VCO_OUTPUT = 0x23A"
definition REG_RX_CP_CURRENT :: u32 where [ad_regs]: "REG_RX_CP_CURRENT = 0x23B"
definition REG_RX_CP_CONFIG :: u32 where [ad_regs]: "REG_RX_CP_CONFIG = 0x23D"
definition REG_RX_LOOP_FILTER_1 :: u32 where [ad_regs]: "REG_RX_LOOP_FILTER_1 = 0x23E"
definition REG_RX_LOOP_FILTER_2 :: u32 where [ad_regs]: "REG_RX_LOOP_FILTER_2 = 0x23F"
definition REG_RX_LOOP_FILTER_3 :: u32 where [ad_regs]: "REG_RX_LOOP_FILTER_3 = 0x240"
definition REG_RX_VCO_BIAS_1 :: u32 where [ad_regs]: "REG_RX_VCO_BIAS_1 = 0x242"
definition REG_RX_CAL_STATUS :: u32 where [ad_regs]: "REG_RX_CAL_STATUS = 0x244"
definition REG_RX_VCO_CAL_REF :: u32 where [ad_regs]: "REG_RX_VCO_CAL_REF = 0x245"
definition REG_RX_VCO_PD_OVERRIDES :: u32 where [ad_regs]: "REG_RX_VCO_PD_OVERRIDES = 0x246"
definition REG_RX_CP_OVERRANGE_VCO_LOCK :: u32 where [ad_regs]: "REG_RX_CP_OVERRANGE_VCO_LOCK = 0x247"
definition REG_RX_VCO_LDO :: u32 where [ad_regs]: "REG_RX_VCO_LDO = 0x248"
definition REG_RX_VCO_CAL :: u32 where [ad_regs]: "REG_RX_VCO_CAL = 0x249"
definition REG_RX_CP_LEVEL_DETECT :: u32 where [ad_regs]: "REG_RX_CP_LEVEL_DETECT = 0x24B"
definition REG_RX_DSM_SETUP_1 :: u32 where [ad_regs]: "REG_RX_DSM_SETUP_1 = 0x24D"
definition REG_RX_VCO_VARACTOR_CTRL_0 :: u32 where [ad_regs]: "REG_RX_VCO_VARACTOR_CTRL_0 = 0x250"
definition REG_RX_VCO_VARACTOR_CTRL_1 :: u32 where [ad_regs]: "REG_RX_VCO_VARACTOR_CTRL_1 = 0x251"
definition REG_RX_FAST_LOCK_SETUP :: u32 where [ad_regs]: "REG_RX_FAST_LOCK_SETUP = 0x25A"
definition REG_RX_FAST_LOCK_SETUP_INIT_DELAY :: u32 where [ad_regs]: "REG_RX_FAST_LOCK_SETUP_INIT_DELAY = 0x25B"
definition REG_RX_FAST_LOCK_PROGRAM_ADDR :: u32 where [ad_regs]: "REG_RX_FAST_LOCK_PROGRAM_ADDR = 0x25C"
definition REG_RX_FAST_LOCK_PROGRAM_DATA :: u32 where [ad_regs]: "REG_RX_FAST_LOCK_PROGRAM_DATA = 0x25D"
definition REG_RX_FAST_LOCK_PROGRAM_READ :: u32 where [ad_regs]: "REG_RX_FAST_LOCK_PROGRAM_READ = 0x25E"
definition REG_RX_FAST_LOCK_PROGRAM_CTRL :: u32 where [ad_regs]: "REG_RX_FAST_LOCK_PROGRAM_CTRL = 0x25F"
definition REG_RX_LO_GEN_POWER_MODE :: u32 where [ad_regs]: "REG_RX_LO_GEN_POWER_MODE = 0x261"
definition REG_TX_PFD_CONFIG :: u32 where [ad_regs]: "REG_TX_PFD_CONFIG = 0x270"
definition REG_TX_FRACT_BYTE_2 :: u32 where [ad_regs]: "REG_TX_FRACT_BYTE_2 = 0x275"
definition REG_TX_VCO_OUTPUT :: u32 where [ad_regs]: "REG_TX_VCO_OUTPUT = 0x27A"
definition REG_TX_CP_OVERRANGE_VCO_LOCK :: u32 where [ad_regs]: "REG_TX_CP_OVERRANGE_VCO_LOCK = 0x287"
definition REG_DCXO_COARSE_TUNE :: u32 where [ad_regs]: "REG_DCXO_COARSE_TUNE = 0x292"
definition REG_DCXO_FINE_TUNE_HIGH :: u32 where [ad_regs]: "REG_DCXO_FINE_TUNE_HIGH = 0x293"
definition REG_DCXO_FINE_TUNE_LOW :: u32 where [ad_regs]: "REG_DCXO_FINE_TUNE_LOW = 0x294"
definition REG_TX_FAST_LOCK_SETUP :: u32 where [ad_regs]: "REG_TX_FAST_LOCK_SETUP = 0x29A"
definition REG_TX_LO_GEN_POWER_MODE :: u32 where [ad_regs]: "REG_TX_LO_GEN_POWER_MODE = 0x2A1"
definition REG_BANDGAP_CONFIG0 :: u32 where [ad_regs]: "REG_BANDGAP_CONFIG0 = 0x2A6"
definition REG_BANDGAP_CONFIG1 :: u32 where [ad_regs]: "REG_BANDGAP_CONFIG1 = 0x2A8"
definition REG_REF_DIVIDE_CONFIG_1 :: u32 where [ad_regs]: "REG_REF_DIVIDE_CONFIG_1 = 0x2AB"
definition REG_REF_DIVIDE_CONFIG_2 :: u32 where [ad_regs]: "REG_REF_DIVIDE_CONFIG_2 = 0x2AC"
definition REG_GAIN_RX1 :: u32 where [ad_regs]: "REG_GAIN_RX1 = 0x2B0"
definition REG_FAST_ATTACK_STATE :: u32 where [ad_regs]: "REG_FAST_ATTACK_STATE = 0x2B3"
definition REG_GAIN_RX2 :: u32 where [ad_regs]: "REG_GAIN_RX2 = 0x2B5"
definition REG_CTRL :: u32 where [ad_regs]: "REG_CTRL = 0x3DF"
definition REG_BIST_CONFIG :: u32 where [ad_regs]: "REG_BIST_CONFIG = 0x3F4"
definition REG_OBSERVE_CONFIG :: u32 where [ad_regs]: "REG_OBSERVE_CONFIG = 0x3F5"
definition REG_BIST_AND_DATA_PORT_TEST_CONFIG :: u32 where [ad_regs]: "REG_BIST_AND_DATA_PORT_TEST_CONFIG = 0x3F6"
definition SOFT_RESET :: u32 where [ad_regs]: "SOFT_RESET = 0x80"
definition MCS_RF_ENABLE :: u32 where [ad_regs]: "MCS_RF_ENABLE = 0x8"
definition MCS_BBPLL_ENABLE :: u32 where [ad_regs]: "MCS_BBPLL_ENABLE = 0x4"
definition MCS_DIGITAL_CLK_ENABLE :: u32 where [ad_regs]: "MCS_DIGITAL_CLK_ENABLE = 0x2"
definition MCS_BB_ENABLE :: u32 where [ad_regs]: "MCS_BB_ENABLE = 0x1"
definition THB2_EN :: u32 where [ad_regs]: "THB2_EN = 0x8"
definition THB1_EN :: u32 where [ad_regs]: "THB1_EN = 0x4"
definition TX_CHANNEL_ENABLE :: "u32 \<Rightarrow> u32" where [ad_regs]: "TX_CHANNEL_ENABLE x = push_bit 6 (x AND 0x3)"
definition THB3_ENABLE_INTERP :: "u32 \<Rightarrow> u32" where [ad_regs]: "THB3_ENABLE_INTERP x = push_bit 4 (x AND 0x3)"
definition TX_FIR_ENABLE_INTERPOLATION :: "u32 \<Rightarrow> u32" where [ad_regs]: "TX_FIR_ENABLE_INTERPOLATION x = x AND 0x3"
definition TX_1 :: u32 where [ad_regs]: "TX_1 = 0x1"
definition TX_2 :: u32 where [ad_regs]: "TX_2 = 0x2"
definition RHB2_EN :: u32 where [ad_regs]: "RHB2_EN = 0x8"
definition RHB1_EN :: u32 where [ad_regs]: "RHB1_EN = 0x4"
definition RX_CHANNEL_ENABLE :: "u32 \<Rightarrow> u32" where [ad_regs]: "RX_CHANNEL_ENABLE x = push_bit 6 (x AND 0x3)"
definition DEC3_ENABLE_DECIMATION :: "u32 \<Rightarrow> u32" where [ad_regs]: "DEC3_ENABLE_DECIMATION x = push_bit 4 (x AND 0x3)"
definition RX_FIR_ENABLE_DECIMATION :: "u32 \<Rightarrow> u32" where [ad_regs]: "RX_FIR_ENABLE_DECIMATION x = x AND 0x3"
definition RX_1 :: u32 where [ad_regs]: "RX_1 = 0x1"
definition RX_2 :: u32 where [ad_regs]: "RX_2 = 0x2"
definition RX_ENABLE :: u32 where [ad_regs]: "RX_ENABLE = 0x1"
definition RX_DISABLE :: u32 where [ad_regs]: "RX_DISABLE = 0x0"
definition TX_OUTPUT :: u32 where [ad_regs]: "TX_OUTPUT = 0x40"
definition TX_VCO_DIVIDER :: "u32 \<Rightarrow> u32" where [ad_regs]: "TX_VCO_DIVIDER x = push_bit 4 (x AND 0xF)"
definition RX_VCO_DIVIDER :: "u32 \<Rightarrow> u32" where [ad_regs]: "RX_VCO_DIVIDER x = x AND 0xF"
definition DATA_CLK_DELAY :: "u32 \<Rightarrow> u32" where [ad_regs]: "DATA_CLK_DELAY x = push_bit 4 (x AND 0xF)"
definition RX_DATA_DELAY :: "u32 \<Rightarrow> u32" where [ad_regs]: "RX_DATA_DELAY x = x AND 0xF"
definition FB_CLK_DELAY :: "u32 \<Rightarrow> u32" where [ad_regs]: "FB_CLK_DELAY x = push_bit 4 (x AND 0xF)"
definition TX_DATA_DELAY :: "u32 \<Rightarrow> u32" where [ad_regs]: "TX_DATA_DELAY x = x AND 0xF"
definition XO_BYPASS :: u32 where [ad_regs]: "XO_BYPASS = 0x10"
definition DIGITAL_POWER_UP :: u32 where [ad_regs]: "DIGITAL_POWER_UP = 0x4"
definition CLOCK_ENABLE_DFLT :: u32 where [ad_regs]: "CLOCK_ENABLE_DFLT = 0x2"
definition BBPLL_ENABLE :: u32 where [ad_regs]: "BBPLL_ENABLE = 0x1"
definition CLKOUT_ENABLE :: u32 where [ad_regs]: "CLKOUT_ENABLE = 0x10"
definition CLKOUT_SELECT :: "u32 \<Rightarrow> u32" where [ad_regs]: "CLKOUT_SELECT x = push_bit 5 (x AND 0x7)"
definition TEMP_SENSE_PERIODIC_ENABLE :: u32 where [ad_regs]: "TEMP_SENSE_PERIODIC_ENABLE = 0x1"
definition MEASUREMENT_TIME_INTERVAL :: "u32 \<Rightarrow> u32" where [ad_regs]: "MEASUREMENT_TIME_INTERVAL x = push_bit 1 (x AND 0x7F)"
definition TEMP_SENSOR_DECIMATION :: "u32 \<Rightarrow> u32" where [ad_regs]: "TEMP_SENSOR_DECIMATION x = x AND 0x7"
definition INVERT_RX2 :: u32 where [ad_regs]: "INVERT_RX2 = 0x20"
definition FDD_RX_RATE_2TX_RATE :: u32 where [ad_regs]: "FDD_RX_RATE_2TX_RATE = 0x80"
definition SINGLE_DATA_RATE :: u32 where [ad_regs]: "SINGLE_DATA_RATE = 0x20"
definition LVDS_MODE :: u32 where [ad_regs]: "LVDS_MODE = 0x10"
definition HALF_DUPLEX_MODE :: u32 where [ad_regs]: "HALF_DUPLEX_MODE = 0x8"
definition SINGLE_PORT_MODE :: u32 where [ad_regs]: "SINGLE_PORT_MODE = 0x4"
definition FULL_PORT :: u32 where [ad_regs]: "FULL_PORT = 0x2"
definition FDD_MODE :: u32 where [ad_regs]: "FDD_MODE = 0x1"
definition ENABLE_RX_DATA_PORT_FOR_CAL :: u32 where [ad_regs]: "ENABLE_RX_DATA_PORT_FOR_CAL = 0x80"
definition FORCE_RX_ON :: u32 where [ad_regs]: "FORCE_RX_ON = 0x40"
definition FORCE_TX_ON :: u32 where [ad_regs]: "FORCE_TX_ON = 0x20"
definition ENABLE_ENSM_PIN_CTRL :: u32 where [ad_regs]: "ENABLE_ENSM_PIN_CTRL = 0x10"
definition LEVEL_MODE :: u32 where [ad_regs]: "LEVEL_MODE = 0x8"
definition FORCE_ALERT_STATE :: u32 where [ad_regs]: "FORCE_ALERT_STATE = 0x4"
definition TO_ALERT :: u32 where [ad_regs]: "TO_ALERT = 0x1"
definition FDD_EXTERNAL_CTRL_ENABLE :: u32 where [ad_regs]: "FDD_EXTERNAL_CTRL_ENABLE = 0x80"
definition POWER_DOWN_RX_SYNTH :: u32 where [ad_regs]: "POWER_DOWN_RX_SYNTH = 0x40"
definition POWER_DOWN_TX_SYNTH :: u32 where [ad_regs]: "POWER_DOWN_TX_SYNTH = 0x20"
definition TXNRX_SPI_CTRL :: u32 where [ad_regs]: "TXNRX_SPI_CTRL = 0x10"
definition SYNTH_ENABLE_PIN_CTRL_MODE :: u32 where [ad_regs]: "SYNTH_ENABLE_PIN_CTRL_MODE = 0x8"
definition DUAL_SYNTH_MODE :: u32 where [ad_regs]: "DUAL_SYNTH_MODE = 0x4"
definition RX_SYNTH_READY_MASK :: u32 where [ad_regs]: "RX_SYNTH_READY_MASK = 0x2"
definition TX_SYNTH_READY_MASK :: u32 where [ad_regs]: "TX_SYNTH_READY_MASK = 0x1"
definition RX_BB_TUNE_CAL :: u32 where [ad_regs]: "RX_BB_TUNE_CAL = 0x80"
definition TX_BB_TUNE_CAL :: u32 where [ad_regs]: "TX_BB_TUNE_CAL = 0x40"
definition TX_QUAD_CAL :: u32 where [ad_regs]: "TX_QUAD_CAL = 0x10"
definition RX_GAIN_STEP_CAL :: u32 where [ad_regs]: "RX_GAIN_STEP_CAL = 0x8"
definition RFDC_CAL :: u32 where [ad_regs]: "RFDC_CAL = 0x2"
definition BBDC_CAL :: u32 where [ad_regs]: "BBDC_CAL = 0x1"
definition ENSM_STATE :: "u32 \<Rightarrow> u32" where [ad_regs]: "ENSM_STATE x = x AND 0xF"
definition ENSM_STATE_SLEEP_WAIT :: u32 where [ad_regs]: "ENSM_STATE_SLEEP_WAIT = 0x0"
definition ENSM_STATE_ALERT :: u32 where [ad_regs]: "ENSM_STATE_ALERT = 0x5"
definition ENSM_STATE_TX :: u32 where [ad_regs]: "ENSM_STATE_TX = 0x6"
definition ENSM_STATE_RX :: u32 where [ad_regs]: "ENSM_STATE_RX = 0x8"
definition ENSM_STATE_FDD :: u32 where [ad_regs]: "ENSM_STATE_FDD = 0xA"
definition ENSM_STATE_SLEEP :: u32 where [ad_regs]: "ENSM_STATE_SLEEP = 0x80"
definition AUXDAC_1_VREF :: "u32 \<Rightarrow> u32" where [ad_regs]: "AUXDAC_1_VREF x = push_bit 2 (x AND 0x3)"
definition AUXDAC_1_WORD_LSB :: "u32 \<Rightarrow> u32" where [ad_regs]: "AUXDAC_1_WORD_LSB x = x AND 0x3"
definition AUXDAC_2_WORD_LSB :: "u32 \<Rightarrow> u32" where [ad_regs]: "AUXDAC_2_WORD_LSB x = x AND 0x3"
definition AUXADC_POWER_DOWN :: u32 where [ad_regs]: "AUXADC_POWER_DOWN = 0x1"
definition AUX_ADC_DECIMATION :: "u32 \<Rightarrow> u32" where [ad_regs]: "AUX_ADC_DECIMATION x = push_bit 1 (x AND 0x7)"
definition AUXADC_WORD_LSB :: "u32 \<Rightarrow> u32" where [ad_regs]: "AUXADC_WORD_LSB x = x AND 0xF"
definition GPO_ENABLE_AUTO_RX :: "u32 \<Rightarrow> u32" where [ad_regs]: "GPO_ENABLE_AUTO_RX x = push_bit 4 (x AND 0xF)"
definition GPO_ENABLE_AUTO_TX :: "u32 \<Rightarrow> u32" where [ad_regs]: "GPO_ENABLE_AUTO_TX x = x AND 0xF"
definition AGC_ATTACK_DELAY :: "u32 \<Rightarrow> u32" where [ad_regs]: "AGC_ATTACK_DELAY x = x AND 0x3F"
definition AUXDAC_MANUAL_BAR :: "u32 \<Rightarrow> u32" where [ad_regs]: "AUXDAC_MANUAL_BAR x = push_bit 6 (x AND 0x3)"
definition AUXDAC_AUTO_TX_BAR :: "u32 \<Rightarrow> u32" where [ad_regs]: "AUXDAC_AUTO_TX_BAR x = push_bit 4 (x AND 0x3)"
definition AUXDAC_AUTO_RX_BAR :: "u32 \<Rightarrow> u32" where [ad_regs]: "AUXDAC_AUTO_RX_BAR x = push_bit 2 (x AND 0x3)"
definition AUXDAC_INIT_BAR :: "u32 \<Rightarrow> u32" where [ad_regs]: "AUXDAC_INIT_BAR x = x AND 0x3"
definition AUXDAC_MANUAL_SELECT :: u32 where [ad_regs]: "AUXDAC_MANUAL_SELECT = 0x80"
definition EXTERNAL_LNA2_CTRL :: u32 where [ad_regs]: "EXTERNAL_LNA2_CTRL = 0x40"
definition EXTERNAL_LNA1_CTRL :: u32 where [ad_regs]: "EXTERNAL_LNA1_CTRL = 0x20"
definition GPO_MANUAL_SELECT :: u32 where [ad_regs]: "GPO_MANUAL_SELECT = 0x10"
definition GPO_MANUAL_CTRL :: "u32 \<Rightarrow> u32" where [ad_regs]: "GPO_MANUAL_CTRL x = push_bit 4 (x AND 0xF)"
definition GPO_INIT_STATE :: "u32 \<Rightarrow> u32" where [ad_regs]: "GPO_INIT_STATE x = x AND 0xF"
definition PRODUCT_ID_MASK :: u32 where [ad_regs]: "PRODUCT_ID_MASK = 0xF8"
definition PRODUCT_ID_9361 :: u32 where [ad_regs]: "PRODUCT_ID_9361 = 0x8"
definition REFERENCE_CLOCK_CYCLES_PER_US :: "u32 \<Rightarrow> u32" where [ad_regs]: "REFERENCE_CLOCK_CYCLES_PER_US x = x AND 0x7F"
definition INIT_BB_FO_CAL :: u32 where [ad_regs]: "INIT_BB_FO_CAL = 0x4"
definition BBPLL_RESET_BAR :: u32 where [ad_regs]: "BBPLL_RESET_BAR = 0x1"
definition REF_FREQ_SCALER :: "u32 \<Rightarrow> u32" where [ad_regs]: "REF_FREQ_SCALER x = x AND 0x3"
definition CHARGE_PUMP_CURRENT :: "u32 \<Rightarrow> u32" where [ad_regs]: "CHARGE_PUMP_CURRENT x = x AND 0x3F"
definition MCS_REFCLK_SCALE_EN :: u32 where [ad_regs]: "MCS_REFCLK_SCALE_EN = 0x80"
definition FREQ_CAL_ENABLE :: u32 where [ad_regs]: "FREQ_CAL_ENABLE = 0x80"
definition FREQ_CAL_COUNT_LENGTH :: "u32 \<Rightarrow> u32" where [ad_regs]: "FREQ_CAL_COUNT_LENGTH x = push_bit 5 (x AND 0x3)"
definition RX_LO_POWER_DOWN :: u32 where [ad_regs]: "RX_LO_POWER_DOWN = 0x10"
definition RX_SYNTH_VCO_ALC_POWER_DOWN :: u32 where [ad_regs]: "RX_SYNTH_VCO_ALC_POWER_DOWN = 0x8"
definition RX_SYNTH_PTAT_POWER_DOWN :: u32 where [ad_regs]: "RX_SYNTH_PTAT_POWER_DOWN = 0x4"
definition RX_SYNTH_VCO_POWER_DOWN :: u32 where [ad_regs]: "RX_SYNTH_VCO_POWER_DOWN = 0x2"
definition TX_LO_POWER_DOWN :: u32 where [ad_regs]: "TX_LO_POWER_DOWN = 0x10"
definition TX_SYNTH_VCO_ALC_POWER_DOWN :: u32 where [ad_regs]: "TX_SYNTH_VCO_ALC_POWER_DOWN = 0x8"
definition TX_SYNTH_PTAT_POWER_DOWN :: u32 where [ad_regs]: "TX_SYNTH_PTAT_POWER_DOWN = 0x4"
definition TX_SYNTH_VCO_POWER_DOWN :: u32 where [ad_regs]: "TX_SYNTH_VCO_POWER_DOWN = 0x2"
definition RX_EXT_VCO_BUFFER_POWER_DOWN :: u32 where [ad_regs]: "RX_EXT_VCO_BUFFER_POWER_DOWN = 0x20"
definition TX_EXT_VCO_BUFFER_POWER_DOWN :: u32 where [ad_regs]: "TX_EXT_VCO_BUFFER_POWER_DOWN = 0x10"
definition TX_MONITOR_POWER_DOWN :: "u32 \<Rightarrow> u32" where [ad_regs]: "TX_MONITOR_POWER_DOWN x = push_bit 2 (x AND 0x3)"
definition BBPLL_LOCK :: u32 where [ad_regs]: "BBPLL_LOCK = 0x80"
definition TX_FIR_GAIN_6DB :: u32 where [ad_regs]: "TX_FIR_GAIN_6DB = 0x1"
definition FIR_START_CLK :: u32 where [ad_regs]: "FIR_START_CLK = 0x2"
definition FIR_WRITE :: u32 where [ad_regs]: "FIR_WRITE = 0x4"
definition FIR_SELECT :: "u32 \<Rightarrow> u32" where [ad_regs]: "FIR_SELECT x = push_bit 3 (x AND 0x3)"
definition FIR_NUM_TAPS :: "u32 \<Rightarrow> u32" where [ad_regs]: "FIR_NUM_TAPS x = push_bit 5 (x AND 0x7)"
definition TX_MON_TRACK :: u32 where [ad_regs]: "TX_MON_TRACK = 0x20"
definition TX_MON_LOW_GAIN :: "u32 \<Rightarrow> u32" where [ad_regs]: "TX_MON_LOW_GAIN x = x AND 0x1F"
definition TX_MON_HIGH_GAIN :: "u32 \<Rightarrow> u32" where [ad_regs]: "TX_MON_HIGH_GAIN x = x AND 0x1F"
definition TX_MON_DELAY_COUNTER :: "u32 \<Rightarrow> u32" where [ad_regs]: "TX_MON_DELAY_COUNTER x = x AND 0x3"
definition TX_RSSI_2 :: u32 where [ad_regs]: "TX_RSSI_2 = 0x2"
definition TX_RSSI_1 :: u32 where [ad_regs]: "TX_RSSI_1 = 0x1"
definition TX2_MON_ENABLE :: u32 where [ad_regs]: "TX2_MON_ENABLE = 0x80"
definition TX1_MON_ENABLE :: u32 where [ad_regs]: "TX1_MON_ENABLE = 0x20"
definition ONE_SHOT_MODE :: u32 where [ad_regs]: "ONE_SHOT_MODE = 0x40"
definition TX_MON_DURATION :: "u32 \<Rightarrow> u32" where [ad_regs]: "TX_MON_DURATION x = x AND 0xF"
definition TX_MON_1_LO_CM :: "u32 \<Rightarrow> u32" where [ad_regs]: "TX_MON_1_LO_CM x = push_bit 2 (x AND 0x3F)"
definition TX_MON_1_GAIN :: "u32 \<Rightarrow> u32" where [ad_regs]: "TX_MON_1_GAIN x = x AND 0x3"
definition TX_MON_2_LO_CM :: "u32 \<Rightarrow> u32" where [ad_regs]: "TX_MON_2_LO_CM x = push_bit 2 (x AND 0x3F)"
definition TX_MON_2_GAIN :: "u32 \<Rightarrow> u32" where [ad_regs]: "TX_MON_2_GAIN x = x AND 0x3"
definition MASK_CLR_ATTEN_UPDATE :: u32 where [ad_regs]: "MASK_CLR_ATTEN_UPDATE = 0x40"
definition IMMEDIATELY_UPDATE_TPC_ATTEN :: u32 where [ad_regs]: "IMMEDIATELY_UPDATE_TPC_ATTEN = 0x40"
definition RX_NCO_FREQ :: "u32 \<Rightarrow> u32" where [ad_regs]: "RX_NCO_FREQ x = push_bit 5 (x AND 0x3)"
definition RX_NCO_PHASE_OFFSET :: "u32 \<Rightarrow> u32" where [ad_regs]: "RX_NCO_PHASE_OFFSET x = x AND 0x1F"
definition SETTLE_MAIN_ENABLE :: u32 where [ad_regs]: "SETTLE_MAIN_ENABLE = 0x40"
definition DC_OFFSET_ENABLE :: u32 where [ad_regs]: "DC_OFFSET_ENABLE = 0x20"
definition GAIN_ENABLE :: u32 where [ad_regs]: "GAIN_ENABLE = 0x10"
definition PHASE_ENABLE :: u32 where [ad_regs]: "PHASE_ENABLE = 0x8"
definition QUAD_CAL_SOFT_RESET :: u32 where [ad_regs]: "QUAD_CAL_SOFT_RESET = 0x4"
definition M_DECIM :: "u32 \<Rightarrow> u32" where [ad_regs]: "M_DECIM x = x AND 0x3"
definition KEXP_TX :: "u32 \<Rightarrow> u32" where [ad_regs]: "KEXP_TX x = push_bit 6 (x AND 0x3)"
definition KEXP_TX_COMP :: "u32 \<Rightarrow> u32" where [ad_regs]: "KEXP_TX_COMP x = push_bit 4 (x AND 0x3)"
definition KEXP_DC_I :: "u32 \<Rightarrow> u32" where [ad_regs]: "KEXP_DC_I x = push_bit 2 (x AND 0x3)"
definition KEXP_DC_Q :: "u32 \<Rightarrow> u32" where [ad_regs]: "KEXP_DC_Q x = x AND 0x3"
definition TX_NCO_FREQ :: "u32 \<Rightarrow> u32" where [ad_regs]: "TX_NCO_FREQ x = push_bit 6 (x AND 0x3)"
definition TX1_LO_CONV :: u32 where [ad_regs]: "TX1_LO_CONV = 0x2"
definition TX1_SSB_CONV :: u32 where [ad_regs]: "TX1_SSB_CONV = 0x1"
definition TX2_LO_CONV :: u32 where [ad_regs]: "TX2_LO_CONV = 0x2"
definition TX2_SSB_CONV :: u32 where [ad_regs]: "TX2_SSB_CONV = 0x1"
definition R1 :: "u32 \<Rightarrow> u32" where [ad_regs]: "R1 x = x AND 0x1F"
definition R2 :: "u32 \<Rightarrow> u32" where [ad_regs]: "R2 x = x AND 0x1F"
definition PD_TUNE :: u32 where [ad_regs]: "PD_TUNE = 0x4"
definition TUNER_RESAMPLE :: u32 where [ad_regs]: "TUNER_RESAMPLE = 0x2"
definition TUNE_CTRL :: "u32 \<Rightarrow> u32" where [ad_regs]: "TUNE_CTRL x = push_bit 5 (x AND 0x3)"
definition TX_BBF_TUNE_DIVIDER :: u32 where [ad_regs]: "TX_BBF_TUNE_DIVIDER = 0x1"
definition DEC_PWR_FOR_LOW_PWR :: u32 where [ad_regs]: "DEC_PWR_FOR_LOW_PWR = 0x80"
definition DEC_PWR_FOR_LOCK_LEVEL :: u32 where [ad_regs]: "DEC_PWR_FOR_LOCK_LEVEL = 0x40"
definition DEC_PWR_FOR_GAIN_LOCK_EXIT :: u32 where [ad_regs]: "DEC_PWR_FOR_GAIN_LOCK_EXIT = 0x20"
definition SLOW_ATTACK_HYBRID_MODE :: u32 where [ad_regs]: "SLOW_ATTACK_HYBRID_MODE = 0x10"
definition RX2_GAIN_CTRL_SETUP :: "u32 \<Rightarrow> u32" where [ad_regs]: "RX2_GAIN_CTRL_SETUP x = push_bit 2 (x AND 0x3)"
definition RX1_GAIN_CTRL_SETUP :: "u32 \<Rightarrow> u32" where [ad_regs]: "RX1_GAIN_CTRL_SETUP x = x AND 0x3"
definition RX_GAIN_CTL_MASK :: u32 where [ad_regs]: "RX_GAIN_CTL_MASK = 0x3"
definition RX2_GAIN_CTRL_SHIFT :: u32 where [ad_regs]: "RX2_GAIN_CTRL_SHIFT = 0x2"
definition RX1_GAIN_CTRL_SHIFT :: u32 where [ad_regs]: "RX1_GAIN_CTRL_SHIFT = 0x0"
definition RX_GAIN_CTL_MGC :: u32 where [ad_regs]: "RX_GAIN_CTL_MGC = 0x0"
definition RX_GAIN_CTL_AGC_FAST_ATK :: u32 where [ad_regs]: "RX_GAIN_CTL_AGC_FAST_ATK = 0x1"
definition RX_GAIN_CTL_AGC_SLOW_ATK :: u32 where [ad_regs]: "RX_GAIN_CTL_AGC_SLOW_ATK = 0x2"
definition RX_GAIN_CTL_AGC_SLOW_ATK_HYBD :: u32 where [ad_regs]: "RX_GAIN_CTL_AGC_SLOW_ATK_HYBD = 0x3"
definition AGC_GAIN_UNLOCK_CTRL :: u32 where [ad_regs]: "AGC_GAIN_UNLOCK_CTRL = 0x40"
definition AGC_USE_FULL_GAIN_TABLE :: u32 where [ad_regs]: "AGC_USE_FULL_GAIN_TABLE = 0x8"
definition DIG_GAIN_EN :: u32 where [ad_regs]: "DIG_GAIN_EN = 0x4"
definition MAN_GAIN_CTRL_RX2 :: u32 where [ad_regs]: "MAN_GAIN_CTRL_RX2 = 0x2"
definition MAN_GAIN_CTRL_RX1 :: u32 where [ad_regs]: "MAN_GAIN_CTRL_RX1 = 0x1"
definition INCDEC_LMT_GAIN :: u32 where [ad_regs]: "INCDEC_LMT_GAIN = 0x10"
definition USE_AGC_FOR_LMTLPF_GAIN :: u32 where [ad_regs]: "USE_AGC_FOR_LMTLPF_GAIN = 0x8"
definition MANUAL_INCR_STEP_SIZE :: "u32 \<Rightarrow> u32" where [ad_regs]: "MANUAL_INCR_STEP_SIZE x = push_bit 5 (x AND 0x7)"
definition ADC_OVERRANGE_SAMPLE_SIZE :: "u32 \<Rightarrow> u32" where [ad_regs]: "ADC_OVERRANGE_SAMPLE_SIZE x = x AND 0x7"
definition MANUAL_CTRL_IN_DECR_GAIN_STP_SIZE :: "u32 \<Rightarrow> u32" where [ad_regs]: "MANUAL_CTRL_IN_DECR_GAIN_STP_SIZE x = push_bit 5 (x AND 0x7)"
definition PEAK_OVERLOAD_WAIT_TIME :: "u32 \<Rightarrow> u32" where [ad_regs]: "PEAK_OVERLOAD_WAIT_TIME x = x AND 0x1F"
definition DIG_GAIN_STP_SIZE :: "u32 \<Rightarrow> u32" where [ad_regs]: "DIG_GAIN_STP_SIZE x = push_bit 5 (x AND 0x7)"
definition MAXIMUM_DIGITAL_GAIN :: "u32 \<Rightarrow> u32" where [ad_regs]: "MAXIMUM_DIGITAL_GAIN x = x AND 0x1F"
definition ENABLE_DIG_SAT_OVRG :: u32 where [ad_regs]: "ENABLE_DIG_SAT_OVRG = 0x80"
definition DEC_STP_SIZE_FOR_LARGE_LMT_OVERLOAD :: "u32 \<Rightarrow> u32" where [ad_regs]: "DEC_STP_SIZE_FOR_LARGE_LMT_OVERLOAD x = push_bit 2 (x AND 0x7)"
definition DECREMENT_STP_SIZE_FOR_SMALL_LPF_GAIN_CHANGE :: "u32 \<Rightarrow> u32" where [ad_regs]: "DECREMENT_STP_SIZE_FOR_SMALL_LPF_GAIN_CHANGE x = push_bit 4 (x AND 0x7)"
definition LARGE_LPF_GAIN_STEP :: "u32 \<Rightarrow> u32" where [ad_regs]: "LARGE_LPF_GAIN_STEP x = x AND 0xF"
definition FORCE_PD_RESET_RX2 :: u32 where [ad_regs]: "FORCE_PD_RESET_RX2 = 0x80"
definition FORCE_PD_RESET_RX1 :: u32 where [ad_regs]: "FORCE_PD_RESET_RX1 = 0x40"
definition SMALL_LMT_OVERLOAD_THRESH :: "u32 \<Rightarrow> u32" where [ad_regs]: "SMALL_LMT_OVERLOAD_THRESH x = x AND 0x3F"
definition POWER_MEAS_IN_STATE_5_MSB :: u32 where [ad_regs]: "POWER_MEAS_IN_STATE_5_MSB = 0x80"
definition RX1_MANUAL_FULL_TABLE_LMT_TABLE_GAIN_INDEX :: "u32 \<Rightarrow> u32" where [ad_regs]: "RX1_MANUAL_FULL_TABLE_LMT_TABLE_GAIN_INDEX x = x AND 0x7F"
definition RX_FULL_TBL_IDX_MASK :: u32 where [ad_regs]: "RX_FULL_TBL_IDX_MASK = RX1_MANUAL_FULL_TABLE_LMT_TABLE_GAIN_INDEX (- 1)"
definition POWER_MEAS_IN_STATE_5 :: "u32 \<Rightarrow> u32" where [ad_regs]: "POWER_MEAS_IN_STATE_5 x = push_bit 5 (x AND 0x7)"
definition RX1_MANUAL_LPF_GAIN :: "u32 \<Rightarrow> u32" where [ad_regs]: "RX1_MANUAL_LPF_GAIN x = x AND 0x1F"
definition RX_LPF_IDX_MASK :: u32 where [ad_regs]: "RX_LPF_IDX_MASK = RX1_MANUAL_LPF_GAIN (- 1)"
definition RX1_MANUALFORCED_DIGITAL_GAIN :: "u32 \<Rightarrow> u32" where [ad_regs]: "RX1_MANUALFORCED_DIGITAL_GAIN x = x AND 0x1F"
definition RX_DIGITAL_IDX_MASK :: u32 where [ad_regs]: "RX_DIGITAL_IDX_MASK = RX1_MANUALFORCED_DIGITAL_GAIN (- 1)"
definition ENABLE_GAIN_INC_AFTER_GAIN_LOCK :: u32 where [ad_regs]: "ENABLE_GAIN_INC_AFTER_GAIN_LOCK = 0x80"
definition GOTO_OPT_GAIN_IF_ENERGY_LOST_OR_EN_AGC_HIGH :: u32 where [ad_regs]: "GOTO_OPT_GAIN_IF_ENERGY_LOST_OR_EN_AGC_HIGH = 0x40"
definition GOTO_SET_GAIN_IF_EN_AGC_HIGH :: u32 where [ad_regs]: "GOTO_SET_GAIN_IF_EN_AGC_HIGH = 0x20"
definition GOTO_SET_GAIN_IF_EXIT_RX_STATE :: u32 where [ad_regs]: "GOTO_SET_GAIN_IF_EXIT_RX_STATE = 0x10"
definition DONT_UNLOCK_GAIN_IF_ENERGY_LOST :: u32 where [ad_regs]: "DONT_UNLOCK_GAIN_IF_ENERGY_LOST = 0x8"
definition GOTO_OPTIMIZED_GAIN_IF_EXIT_RX_STATE :: u32 where [ad_regs]: "GOTO_OPTIMIZED_GAIN_IF_EXIT_RX_STATE = 0x4"
definition DONT_UNLOCK_GAIN_IF_LG_ADC_OR_LMT_OVRG :: u32 where [ad_regs]: "DONT_UNLOCK_GAIN_IF_LG_ADC_OR_LMT_OVRG = 0x2"
definition ENABLE_INCR_GAIN :: u32 where [ad_regs]: "ENABLE_INCR_GAIN = 0x1"
definition USE_LAST_LOCK_LEVEL_FOR_SET_GAIN :: u32 where [ad_regs]: "USE_LAST_LOCK_LEVEL_FOR_SET_GAIN = 0x80"
definition ENABLE_LMT_GAIN_INC_FOR_LOCK_LEVEL :: u32 where [ad_regs]: "ENABLE_LMT_GAIN_INC_FOR_LOCK_LEVEL = 0x40"
definition GOTO_MAX_GAIN_OR_OPT_GAIN_IF_EN_AGC_HIGH :: u32 where [ad_regs]: "GOTO_MAX_GAIN_OR_OPT_GAIN_IF_EN_AGC_HIGH = 0x20"
definition SETTLING_DELAY :: "u32 \<Rightarrow> u32" where [ad_regs]: "SETTLING_DELAY x = x AND 0x1F"
definition POST_LOCK_LEVEL_STP_SIZE_FOR_LPF_TABLE_FULL_TABLE :: "u32 \<Rightarrow> u32" where [ad_regs]: "POST_LOCK_LEVEL_STP_SIZE_FOR_LPF_TABLE_FULL_TABLE x = push_bit 6 (x AND 0x3)"
definition ENERGY_LOST_THRESH :: "u32 \<Rightarrow> u32" where [ad_regs]: "ENERGY_LOST_THRESH x = x AND 0x3F"
definition POST_LOCK_LEVEL_STP_FOR_LMT_TABLE :: "u32 \<Rightarrow> u32" where [ad_regs]: "POST_LOCK_LEVEL_STP_FOR_LMT_TABLE x = push_bit 6 (x AND 0x3)"
definition STRONGER_SIGNAL_THRESH :: "u32 \<Rightarrow> u32" where [ad_regs]: "STRONGER_SIGNAL_THRESH x = x AND 0x3F"
definition DONT_UNLOCK_GAIN_IF_ADC_OVRG :: u32 where [ad_regs]: "DONT_UNLOCK_GAIN_IF_ADC_OVRG = 0x80"
definition DONT_UNLOCK_GAIN_IF_STRONGER_SIGNAL :: u32 where [ad_regs]: "DONT_UNLOCK_GAIN_IF_STRONGER_SIGNAL = 0x80"
definition FINAL_OVER_RANGE_COUNT :: "u32 \<Rightarrow> u32" where [ad_regs]: "FINAL_OVER_RANGE_COUNT x = push_bit 5 (x AND 0x7)"
definition OPTIMIZE_GAIN_OFFSET :: "u32 \<Rightarrow> u32" where [ad_regs]: "OPTIMIZE_GAIN_OFFSET x = x AND 0xF"
definition INCREMENT_GAIN_STP_LPFLMT :: "u32 \<Rightarrow> u32" where [ad_regs]: "INCREMENT_GAIN_STP_LPFLMT x = push_bit 5 (x AND 0x7)"
definition ENERGY_DETECT_COUNT :: "u32 \<Rightarrow> u32" where [ad_regs]: "ENERGY_DETECT_COUNT x = x AND 0x1F"
definition AGCLL_MAX_INCREASE :: "u32 \<Rightarrow> u32" where [ad_regs]: "AGCLL_MAX_INCREASE x = x AND 0x3F"
definition GAIN_LOCK_EXIT_COUNT :: "u32 \<Rightarrow> u32" where [ad_regs]: "GAIN_LOCK_EXIT_COUNT x = x AND 0x3F"
definition PREVENT_GAIN_INC :: u32 where [ad_regs]: "PREVENT_GAIN_INC = 0x80"
definition LARGE_LMT_OVERLOAD_EXED_COUNTER :: "u32 \<Rightarrow> u32" where [ad_regs]: "LARGE_LMT_OVERLOAD_EXED_COUNTER x = push_bit 4 (x AND 0xF)"
definition SMALL_LMT_OVERLOAD_EXED_COUNTER :: "u32 \<Rightarrow> u32" where [ad_regs]: "SMALL_LMT_OVERLOAD_EXED_COUNTER x = x AND 0xF"
definition LARGE_ADC_OVERLOAD_EXED_COUNTER :: "u32 \<Rightarrow> u32" where [ad_regs]: "LARGE_ADC_OVERLOAD_EXED_COUNTER x = push_bit 4 (x AND 0xF)"
definition SMALL_ADC_OVERLOAD_EXED_COUNTER :: "u32 \<Rightarrow> u32" where [ad_regs]: "SMALL_ADC_OVERLOAD_EXED_COUNTER x = x AND 0xF"
definition IMMED_GAIN_CHANGE_IF_LG_LMT_OVERLOAD :: u32 where [ad_regs]: "IMMED_GAIN_CHANGE_IF_LG_LMT_OVERLOAD = 0x80"
definition IMMED_GAIN_CHANGE_IF_LG_ADC_OVERLOAD :: u32 where [ad_regs]: "IMMED_GAIN_CHANGE_IF_LG_ADC_OVERLOAD = 0x8"
definition AGC_INNER_HIGH_THRESH_EXED_STP_SIZE :: "u32 \<Rightarrow> u32" where [ad_regs]: "AGC_INNER_HIGH_THRESH_EXED_STP_SIZE x = push_bit 4 (x AND 0x7)"
definition AGC_INNER_LOW_THRESH_EXED_STP_SIZE :: "u32 \<Rightarrow> u32" where [ad_regs]: "AGC_INNER_LOW_THRESH_EXED_STP_SIZE x = x AND 0x7"
definition DOUBLE_GAIN_COUNTER :: u32 where [ad_regs]: "DOUBLE_GAIN_COUNTER = 0x20"
definition ENABLE_SYNC_FOR_GAIN_COUNTER :: u32 where [ad_regs]: "ENABLE_SYNC_FOR_GAIN_COUNTER = 0x10"
definition DIG_SATURATION_EXED_COUNTER :: "u32 \<Rightarrow> u32" where [ad_regs]: "DIG_SATURATION_EXED_COUNTER x = x AND 0xF"
definition AGC_OUTER_HIGH_THRESH :: "u32 \<Rightarrow> u32" where [ad_regs]: "AGC_OUTER_HIGH_THRESH x = push_bit 4 (x AND 0xF)"
definition AGC_OUTER_LOW_THRESH :: "u32 \<Rightarrow> u32" where [ad_regs]: "AGC_OUTER_LOW_THRESH x = x AND 0xF"
definition AGC_OUTER_HIGH_THRESH_EXED_STP_SIZE :: "u32 \<Rightarrow> u32" where [ad_regs]: "AGC_OUTER_HIGH_THRESH_EXED_STP_SIZE x = push_bit 4 (x AND 0xF)"
definition AGC_OUTER_LOW_THRESH_EXED_STP_SIZE :: "u32 \<Rightarrow> u32" where [ad_regs]: "AGC_OUTER_LOW_THRESH_EXED_STP_SIZE x = x AND 0xF"
definition EXT_LNA_HIGH_GAIN :: "u32 \<Rightarrow> u32" where [ad_regs]: "EXT_LNA_HIGH_GAIN x = x AND 0x3F"
definition EXT_LNA_LOW_GAIN :: "u32 \<Rightarrow> u32" where [ad_regs]: "EXT_LNA_LOW_GAIN x = x AND 0x3F"
definition EXT_LNA_CTRL :: u32 where [ad_regs]: "EXT_LNA_CTRL = 0x80"
definition TIA_GAIN :: u32 where [ad_regs]: "TIA_GAIN = 0x20"
definition TO_LNA_GAIN :: "u32 \<Rightarrow> u32" where [ad_regs]: "TO_LNA_GAIN x = drop_bit 5 x AND 0x3"
definition TO_MIXER_GM_GAIN :: "u32 \<Rightarrow> u32" where [ad_regs]: "TO_MIXER_GM_GAIN x = x AND 0x1F"
definition WRITE_GAIN_TABLE :: u32 where [ad_regs]: "WRITE_GAIN_TABLE = 0x4"
definition START_GAIN_TABLE_CLOCK :: u32 where [ad_regs]: "START_GAIN_TABLE_CLOCK = 0x2"
definition RECEIVER_SELECT :: "u32 \<Rightarrow> u32" where [ad_regs]: "RECEIVER_SELECT x = push_bit 3 (x AND 0x3)"
definition WRITE_GM_SUB_TABLE :: u32 where [ad_regs]: "WRITE_GM_SUB_TABLE = 0x4"
definition START_GM_SUB_TABLE_CLOCK :: u32 where [ad_regs]: "START_GM_SUB_TABLE_CLOCK = 0x2"
definition READ_SELECT :: u32 where [ad_regs]: "READ_SELECT = 0x10"
definition WRITE_MIXER_ERROR_TABLE :: u32 where [ad_regs]: "WRITE_MIXER_ERROR_TABLE = 0x8"
definition WRITE_LNA_ERROR_TABLE :: u32 where [ad_regs]: "WRITE_LNA_ERROR_TABLE = 0x4"
definition WRITE_LNA_GAIN_DIFF :: u32 where [ad_regs]: "WRITE_LNA_GAIN_DIFF = 0x2"
definition START_CALIB_TABLE_CLOCK :: u32 where [ad_regs]: "START_CALIB_TABLE_CLOCK = 0x1"
definition CALIB_TABLE_SELECT :: "u32 \<Rightarrow> u32" where [ad_regs]: "CALIB_TABLE_SELECT x = push_bit 5 (x AND 0x3)"
definition MAX_MIXER_CALIBRATION_GAIN_INDEX :: "u32 \<Rightarrow> u32" where [ad_regs]: "MAX_MIXER_CALIBRATION_GAIN_INDEX x = x AND 0x1F"
definition ENABLE_DIG_GAIN_CORR :: u32 where [ad_regs]: "ENABLE_DIG_GAIN_CORR = 0x80"
definition SETTLE_TIME :: "u32 \<Rightarrow> u32" where [ad_regs]: "SETTLE_TIME x = x AND 0x3F"
definition GAIN_CAL_MEAS_DURATION :: "u32 \<Rightarrow> u32" where [ad_regs]: "GAIN_CAL_MEAS_DURATION x = x AND 0xF"
definition MEASUREMENT_DURATION_0 :: "u32 \<Rightarrow> u32" where [ad_regs]: "MEASUREMENT_DURATION_0 x = x AND 0xF"
definition START_RSSI_MEAS :: u32 where [ad_regs]: "START_RSSI_MEAS = 0x20"
definition DEFAULT_RSSI_MEAS_MODE :: u32 where [ad_regs]: "DEFAULT_RSSI_MEAS_MODE = 0x1"
definition RSSI_MODE_SELECT :: "u32 \<Rightarrow> u32" where [ad_regs]: "RSSI_MODE_SELECT x = push_bit 2 (x AND 0x7)"
definition USE_HB1_OUT_FOR_DEC_PWR_MEAS :: u32 where [ad_regs]: "USE_HB1_OUT_FOR_DEC_PWR_MEAS = 0x40"
definition ENABLE_DEC_PWR_MEAS :: u32 where [ad_regs]: "ENABLE_DEC_PWR_MEAS = 0x20"
definition DEC_POWER_MEASUREMENT_DURATION :: "u32 \<Rightarrow> u32" where [ad_regs]: "DEC_POWER_MEASUREMENT_DURATION x = x AND 0xF"
definition ENABLE_PHASE_CORR :: u32 where [ad_regs]: "ENABLE_PHASE_CORR = 0x80"
definition ENABLE_GAIN_CORR :: u32 where [ad_regs]: "ENABLE_GAIN_CORR = 0x40"
definition FREE_RUN_MODE :: u32 where [ad_regs]: "FREE_RUN_MODE = 0x8"
definition ENABLE_CORR_WORD_DECIMATION :: u32 where [ad_regs]: "ENABLE_CORR_WORD_DECIMATION = 0x4"
definition ENABLE_TRACKING_MODE_CH2 :: u32 where [ad_regs]: "ENABLE_TRACKING_MODE_CH2 = 0x2"
definition ENABLE_TRACKING_MODE_CH1 :: u32 where [ad_regs]: "ENABLE_TRACKING_MODE_CH1 = 0x1"
definition CALIBRATION_CONFIG2_DFLT :: u32 where [ad_regs]: "CALIBRATION_CONFIG2_DFLT = 0x60"
definition K_EXP_PHASE :: "u32 \<Rightarrow> u32" where [ad_regs]: "K_EXP_PHASE x = x AND 0x1F"
definition PREVENT_POS_LOOP_GAIN :: u32 where [ad_regs]: "PREVENT_POS_LOOP_GAIN = 0x80"
definition K_EXP_AMPLITUDE :: "u32 \<Rightarrow> u32" where [ad_regs]: "K_EXP_AMPLITUDE x = x AND 0x1F"
definition CORRECTION_WORD_DECIMATION_M :: "u32 \<Rightarrow> u32" where [ad_regs]: "CORRECTION_WORD_DECIMATION_M x = push_bit 5 (x AND 0x7)"
definition DAC_FS :: "u32 \<Rightarrow> u32" where [ad_regs]: "DAC_FS x = push_bit 4 (x AND 0x3)"
definition RF_DC_CALIBRATION_COUNT :: "u32 \<Rightarrow> u32" where [ad_regs]: "RF_DC_CALIBRATION_COUNT x = x AND 0xF"
definition RF_DC_OFFSET_ATTEN :: "u32 \<Rightarrow> u32" where [ad_regs]: "RF_DC_OFFSET_ATTEN x = x AND 0x1F"
definition INVERT_RX2_RF_DC_CGOUT_WORD :: u32 where [ad_regs]: "INVERT_RX2_RF_DC_CGOUT_WORD = 0x20"
definition INVERT_RX1_RF_DC_CGOUT_WORD :: u32 where [ad_regs]: "INVERT_RX1_RF_DC_CGOUT_WORD = 0x10"
definition USE_WAIT_COUNTER_FOR_RF_DC_INIT_CAL :: u32 where [ad_regs]: "USE_WAIT_COUNTER_FOR_RF_DC_INIT_CAL = 0x80"
definition ENABLE_BB_DC_OFFSET_TRACKING :: u32 where [ad_regs]: "ENABLE_BB_DC_OFFSET_TRACKING = 0x20"
definition ENABLE_RF_OFFSET_TRACKING :: u32 where [ad_regs]: "ENABLE_RF_OFFSET_TRACKING = 0x8"
definition DC_OFFSET_UPDATE :: "u32 \<Rightarrow> u32" where [ad_regs]: "DC_OFFSET_UPDATE x = x AND 0x7"
definition BB_DC_M_SHIFT :: "u32 \<Rightarrow> u32" where [ad_regs]: "BB_DC_M_SHIFT x = x AND 0x1F"
definition BB_DC_OFFSET_ATTEN :: "u32 \<Rightarrow> u32" where [ad_regs]: "BB_DC_OFFSET_ATTEN x = x AND 0xF"
definition RSSI_LSB_SHIFT :: u32 where [ad_regs]: "RSSI_LSB_SHIFT = 0x1"
definition RSSI_LSB_MASK1 :: u32 where [ad_regs]: "RSSI_LSB_MASK1 = 0x1"
definition RSSI_LSB_MASK2 :: u32 where [ad_regs]: "RSSI_LSB_MASK2 = 0x2"
definition RX_MIX_GM_PLOAD :: "u32 \<Rightarrow> u32" where [ad_regs]: "RX_MIX_GM_PLOAD x = x AND 0x3"
definition RX_MIX_LO_CM :: "u32 \<Rightarrow> u32" where [ad_regs]: "RX_MIX_LO_CM x = x AND 0x3F"
definition RX1_TUNE_RESAMPLE :: u32 where [ad_regs]: "RX1_TUNE_RESAMPLE = 0x2"
definition RX1_PD_TUNE :: u32 where [ad_regs]: "RX1_PD_TUNE = 0x1"
definition RX2_TUNE_RESAMPLE :: u32 where [ad_regs]: "RX2_TUNE_RESAMPLE = 0x2"
definition RX2_PD_TUNE :: u32 where [ad_regs]: "RX2_PD_TUNE = 0x1"
definition RX_BBF_R2346 :: "u32 \<Rightarrow> u32" where [ad_regs]: "RX_BBF_R2346 x = x AND 0x7"
definition BYPASS_LD_SYNTH :: u32 where [ad_regs]: "BYPASS_LD_SYNTH = 0x1"
definition SYNTH_INTEGER_WORD :: "u32 \<Rightarrow> u32" where [ad_regs]: "SYNTH_INTEGER_WORD x = x AND 0x7"
definition SYNTH_FRACT_WORD :: "u32 \<Rightarrow> u32" where [ad_regs]: "SYNTH_FRACT_WORD x = x AND 0x7F"
definition VCO_CAL_OFFSET :: "u32 \<Rightarrow> u32" where [ad_regs]: "VCO_CAL_OFFSET x = push_bit 3 (x AND 0xF)"
definition VCO_VARACTOR :: "u32 \<Rightarrow> u32" where [ad_regs]: "VCO_VARACTOR x = x AND 0xF"
definition PORB_VCO_LOGIC :: u32 where [ad_regs]: "PORB_VCO_LOGIC = 0x40"
definition VCO_OUTPUT_LEVEL :: "u32 \<Rightarrow> u32" where [ad_regs]: "VCO_OUTPUT_LEVEL x = x AND 0xF"
definition CP_OFFSET_OFF :: u32 where [ad_regs]: "CP_OFFSET_OFF = 0x10"
definition CP_CAL_ENABLE :: u32 where [ad_regs]: "CP_CAL_ENABLE = 0x4"
definition LOOP_FILTER_C2 :: "u32 \<Rightarrow> u32" where [ad_regs]: "LOOP_FILTER_C2 x = push_bit 4 (x AND 0xF)"
definition LOOP_FILTER_C1 :: "u32 \<Rightarrow> u32" where [ad_regs]: "LOOP_FILTER_C1 x = x AND 0xF"
definition LOOP_FILTER_R1 :: "u32 \<Rightarrow> u32" where [ad_regs]: "LOOP_FILTER_R1 x = push_bit 4 (x AND 0xF)"
definition LOOP_FILTER_C3 :: "u32 \<Rightarrow> u32" where [ad_regs]: "LOOP_FILTER_C3 x = x AND 0xF"
definition LOOP_FILTER_R3 :: "u32 \<Rightarrow> u32" where [ad_regs]: "LOOP_FILTER_R3 x = x AND 0xF"
definition VCO_BIAS_TCF :: "u32 \<Rightarrow> u32" where [ad_regs]: "VCO_BIAS_TCF x = push_bit 3 (x AND 0x3)"
definition VCO_BIAS_REF :: "u32 \<Rightarrow> u32" where [ad_regs]: "VCO_BIAS_REF x = x AND 0x7"
definition CP_CAL_VALID :: u32 where [ad_regs]: "CP_CAL_VALID = 0x80"
definition VCO_CAL_REF_TCF :: "u32 \<Rightarrow> u32" where [ad_regs]: "VCO_CAL_REF_TCF x = x AND 0x7"
definition VCO_LOCK :: u32 where [ad_regs]: "VCO_LOCK = 0x2"
definition VCO_CAL_EN :: u32 where [ad_regs]: "VCO_CAL_EN = 0x80"
definition VCO_CAL_COUNT :: "u32 \<Rightarrow> u32" where [ad_regs]: "VCO_CAL_COUNT x = push_bit 2 (x AND 0x3)"
definition VCO_VARACTOR_REFERENCE_TCF :: "u32 \<Rightarrow> u32" where [ad_regs]: "VCO_VARACTOR_REFERENCE_TCF x = push_bit 4 (x AND 0x7)"
definition VCO_VARACTOR_OFFSET :: "u32 \<Rightarrow> u32" where [ad_regs]: "VCO_VARACTOR_OFFSET x = x AND 0xF"
definition VCO_VARACTOR_REFERENCE :: "u32 \<Rightarrow> u32" where [ad_regs]: "VCO_VARACTOR_REFERENCE x = x AND 0xF"
definition RX_FAST_LOCK_PROFILE_PIN_SELECT :: u32 where [ad_regs]: "RX_FAST_LOCK_PROFILE_PIN_SELECT = 0x2"
definition RX_FAST_LOCK_MODE_ENABLE :: u32 where [ad_regs]: "RX_FAST_LOCK_MODE_ENABLE = 0x1"
definition RX_FAST_LOCK_PROFILE :: "u32 \<Rightarrow> u32" where [ad_regs]: "RX_FAST_LOCK_PROFILE x = push_bit 5 (x AND 0x7)"
definition RX_FAST_LOCK_PROFILE_ADDR :: "u32 \<Rightarrow> u32" where [ad_regs]: "RX_FAST_LOCK_PROFILE_ADDR x = push_bit 4 (x AND 0x7)"
definition RX_FAST_LOCK_PROFILE_WORD :: "u32 \<Rightarrow> u32" where [ad_regs]: "RX_FAST_LOCK_PROFILE_WORD x = x AND 0xF"
definition RX_FAST_LOCK_PROGRAM_WRITE :: u32 where [ad_regs]: "RX_FAST_LOCK_PROGRAM_WRITE = 0x2"
definition RX_FAST_LOCK_PROGRAM_CLOCK_ENABLE :: u32 where [ad_regs]: "RX_FAST_LOCK_PROGRAM_CLOCK_ENABLE = 0x1"
definition RX_LO_GEN_POWER_MODE :: "u32 \<Rightarrow> u32" where [ad_regs]: "RX_LO_GEN_POWER_MODE x = push_bit 4 (x AND 0x3)"
definition FORCE_ALC_ENABLE :: u32 where [ad_regs]: "FORCE_ALC_ENABLE = 0x80"
definition FORCE_ALC_WORD :: "u32 \<Rightarrow> u32" where [ad_regs]: "FORCE_ALC_WORD x = x AND 0x7F"
definition FORCE_VCO_TUNE_ENABLE :: u32 where [ad_regs]: "FORCE_VCO_TUNE_ENABLE = 0x2"
definition FORCE_VCO_TUNE :: u32 where [ad_regs]: "FORCE_VCO_TUNE = 0x1"
definition FB_CLOCK_ADV :: "u32 \<Rightarrow> u32" where [ad_regs]: "FB_CLOCK_ADV x = x AND 0x3"
definition DCXO_TUNE_COARSE :: "u32 \<Rightarrow> u32" where [ad_regs]: "DCXO_TUNE_COARSE x = x AND 0x3F"
definition DCXO_TUNE_FINE_LOW :: "u32 \<Rightarrow> u32" where [ad_regs]: "DCXO_TUNE_FINE_LOW x = push_bit 3 (x AND 0x1F)"
definition DCXO_TUNE_FINE_HIGH :: "u32 \<Rightarrow> u32" where [ad_regs]: "DCXO_TUNE_FINE_HIGH x = drop_bit 5 x"
definition TX_LO_GEN_POWER_MODE :: "u32 \<Rightarrow> u32" where [ad_regs]: "TX_LO_GEN_POWER_MODE x = push_bit 4 (x AND 0xF)"
definition MASTER_BIAS_TRIM :: "u32 \<Rightarrow> u32" where [ad_regs]: "MASTER_BIAS_TRIM x = x AND 0x1F"
definition BANDGAP_TEMP_TRIM :: "u32 \<Rightarrow> u32" where [ad_regs]: "BANDGAP_TEMP_TRIM x = x AND 0x1F"
definition RX_REF_RESET_BAR :: u32 where [ad_regs]: "RX_REF_RESET_BAR = 0x2"
definition RX_REF_DIVIDER_MSB :: u32 where [ad_regs]: "RX_REF_DIVIDER_MSB = 0x1"
definition RX_REF_DIVIDER_LSB :: u32 where [ad_regs]: "RX_REF_DIVIDER_LSB = 0x80"
definition TX_REF_RESET_BAR :: u32 where [ad_regs]: "TX_REF_RESET_BAR = 0x10"
definition RX_REF_DOUBLER_FB_DELAY :: "u32 \<Rightarrow> u32" where [ad_regs]: "RX_REF_DOUBLER_FB_DELAY x = push_bit 5 (x AND 0x3)"
definition TX_REF_DIVIDER :: "u32 \<Rightarrow> u32" where [ad_regs]: "TX_REF_DIVIDER x = push_bit 2 (x AND 0x3)"
definition TX_REF_DOUBLER_FB_DELAY :: "u32 \<Rightarrow> u32" where [ad_regs]: "TX_REF_DOUBLER_FB_DELAY x = x AND 0x3"
definition FULL_TABLE_GAIN_INDEX :: "u32 \<Rightarrow> u32" where [ad_regs]: "FULL_TABLE_GAIN_INDEX x = x AND 0x7F"
definition LPF_GAIN_RX :: "u32 \<Rightarrow> u32" where [ad_regs]: "LPF_GAIN_RX x = x AND 0x1F"
definition DIGITAL_GAIN_RX :: "u32 \<Rightarrow> u32" where [ad_regs]: "DIGITAL_GAIN_RX x = x AND 0x1F"
definition FAST_ATK_MASK :: u32 where [ad_regs]: "FAST_ATK_MASK = 0x7"
definition RX1_FAST_ATK_SHIFT :: u32 where [ad_regs]: "RX1_FAST_ATK_SHIFT = 0x0"
definition RX2_FAST_ATK_SHIFT :: u32 where [ad_regs]: "RX2_FAST_ATK_SHIFT = 0x4"
definition FAST_ATK_GAIN_LOCKED :: u32 where [ad_regs]: "FAST_ATK_GAIN_LOCKED = 0x5"
definition TONE_PRBS :: u32 where [ad_regs]: "TONE_PRBS = 0x2"
definition BIST_ENABLE :: u32 where [ad_regs]: "BIST_ENABLE = 0x1"
definition TONE_FREQ :: "u32 \<Rightarrow> u32" where [ad_regs]: "TONE_FREQ x = push_bit 6 (x AND 0x3)"
definition TONE_LEVEL :: "u32 \<Rightarrow> u32" where [ad_regs]: "TONE_LEVEL x = push_bit 4 (x AND 0x3)"
definition BIST_CTRL_POINT :: "u32 \<Rightarrow> u32" where [ad_regs]: "BIST_CTRL_POINT x = push_bit 2 (x AND 0x3)"
definition DATA_PORT_SP_HD_LOOP_TEST_OE :: u32 where [ad_regs]: "DATA_PORT_SP_HD_LOOP_TEST_OE = 0x80"
definition DATA_PORT_LOOP_TEST_ENABLE :: u32 where [ad_regs]: "DATA_PORT_LOOP_TEST_ENABLE = 0x1"
definition BIST_MASK_CHANNEL_2_Q_DATA :: u32 where [ad_regs]: "BIST_MASK_CHANNEL_2_Q_DATA = 0x20"
definition BIST_MASK_CHANNEL_2_I_DATA :: u32 where [ad_regs]: "BIST_MASK_CHANNEL_2_I_DATA = 0x10"
definition BIST_MASK_CHANNEL_1_Q_DATA :: u32 where [ad_regs]: "BIST_MASK_CHANNEL_1_Q_DATA = 0x8"
definition BIST_MASK_CHANNEL_1_I_DATA :: u32 where [ad_regs]: "BIST_MASK_CHANNEL_1_I_DATA = 0x4"
definition RSSI_MULTIPLIER :: u32 where [ad_regs]: "RSSI_MULTIPLIER = 0x64"
definition RSSI_MAX_WEIGHT :: u32 where [ad_regs]: "RSSI_MAX_WEIGHT = 0xFF"
definition MAX_LMT_INDEX :: u32 where [ad_regs]: "MAX_LMT_INDEX = 0x28"
definition MAX_LPF_GAIN :: u32 where [ad_regs]: "MAX_LPF_GAIN = 0x18"
definition MAX_DIG_GAIN :: u32 where [ad_regs]: "MAX_DIG_GAIN = 0x1F"
definition MAX_BBPLL_FREF :: u32 where [ad_regs]: "MAX_BBPLL_FREF = 0x42C38D8"
definition MIN_BBPLL_FREQ :: u32 where [ad_regs]: "MIN_BBPLL_FREQ = 0x2A9CF174"
definition MAX_BBPLL_FREQ :: u32 where [ad_regs]: "MAX_BBPLL_FREQ = 0x553E4018"
definition MAX_BBPLL_DIV :: u32 where [ad_regs]: "MAX_BBPLL_DIV = 0x40"
definition MIN_BBPLL_DIV :: u32 where [ad_regs]: "MIN_BBPLL_DIV = 0x2"
definition MIN_ADC_CLK :: u32 where [ad_regs]: "MIN_ADC_CLK = 0x17D7840"
definition MAX_ADC_CLK :: u32 where [ad_regs]: "MAX_ADC_CLK = 0x2625A000"
definition MAX_RX_HB1 :: u32 where [ad_regs]: "MAX_RX_HB1 = 0x7530000"
definition MAX_RX_HB2 :: u32 where [ad_regs]: "MAX_RX_HB2 = 0xEA60000"
definition MAX_RX_HB3 :: u32 where [ad_regs]: "MAX_RX_HB3 = 0x1312D000"
definition MAX_TX_HB1 :: u32 where [ad_regs]: "MAX_TX_HB1 = 0x7530000"
definition MAX_TX_HB2 :: u32 where [ad_regs]: "MAX_TX_HB2 = 0xEA60000"
definition MAX_TX_HB3 :: u32 where [ad_regs]: "MAX_TX_HB3 = 0x1312D000"
definition MAX_BASEBAND_RATE :: u32 where [ad_regs]: "MAX_BASEBAND_RATE = 0x3A98000"
definition BBPLL_MODULUS :: u32 where [ad_regs]: "BBPLL_MODULUS = 0x1FE000"
definition MAX_SYNTH_FREF :: u32 where [ad_regs]: "MAX_SYNTH_FREF = 0x4C4D340"
definition MIN_SYNTH_FREF :: u32 where [ad_regs]: "MIN_SYNTH_FREF = 0x989298"
definition MAX_TX_ATTENUATION_DB :: u32 where [ad_regs]: "MAX_TX_ATTENUATION_DB = 0x15E96"

end
