(* ===== verification/Ad_Clk.thy ===== *)
theory Ad_Clk
  imports Ad_Spi Ad_Regs
begin

unbundle bit_operations_syntax

text \<open>
  The clock tree of the AD9361 driver: the scalers of each clock and their registers, the
  factor clocks' rates, and the baseband PLL. A rate operation that divides by zero has no
  result (\<open>None\<close>).
\<close>

subsection \<open>Scalers\<close>

datatype ad9361_clocks = BB_REFCLK | RX_REFCLK | TX_REFCLK | BBPLL_CLK | ADC_CLK | R2_CLK | R1_CLK
  | CLKRF_CLK | RX_SAMPL_CLK | DAC_CLK | T2_CLK | T1_CLK | CLKTF_CLK | TX_SAMPL_CLK | RX_RFPLL_INT
  | TX_RFPLL_INT | RX_RFPLL_DUMMY | TX_RFPLL_DUMMY | RX_RFPLL | TX_RFPLL | PL_INTF_CLK

record refclk_scale =
  sc_mult :: u32
  sc_div :: u32
  sc_source :: ad9361_clocks

definition set_muldiv :: "u32 \<Rightarrow> u32 \<Rightarrow> refclk_scale \<Rightarrow> int \<times> refclk_scale" where
  "set_muldiv m d c = (0, c\<lparr>sc_mult := m, sc_div := d\<rparr>)"

definition uses_rx2tx2 :: "'c ad9361 \<Rightarrow> bool" where
  "uses_rx2tx2 s \<longleftrightarrow> pd_rx2tx2 s"

definition refclk_muldiv :: "u32 \<Rightarrow> refclk_scale \<Rightarrow> int \<times> refclk_scale" where
  "refclk_muldiv tmp c =
     (if tmp = 0 then (0, snd (set_muldiv 1 1 c))
      else if tmp = 1 then (0, snd (set_muldiv 1 2 c))
      else if tmp = 2 then (0, snd (set_muldiv 1 4 c))
      else if tmp = 3 then (0, snd (set_muldiv 2 1 c))
      else (- 22, c))"

text \<open>The decimation read from a FIR field; 0 is the bypassed filter.\<close>

definition fir_factor :: "u32 \<Rightarrow> u32" where
  "fir_factor tmp = (if tmp = 0 then 1 else push_bit (unat (tmp - 1)) 1)"

definition get_clk_scaler :: "'c bus \<Rightarrow> refclk_scale \<Rightarrow> ('c ad9361, int \<times> refclk_scale) state" where
  "get_clk_scaler bus c =
     (let readf = (\<lambda>r m. do { v \<leftarrow> spi_readf bus r m; State_Monad.return (word_of_int v :: u32) });
          plus1 = (\<lambda>r m. do { tmp \<leftarrow> readf r m; State_Monad.return (set_muldiv 1 (tmp + 1) c) });
          fir = (\<lambda>r m. do { tmp \<leftarrow> readf r m; State_Monad.return (set_muldiv 1 (fir_factor tmp) c) })
      in case sc_source c of
        BB_REFCLK \<Rightarrow> do {
          v \<leftarrow> spi_read bus REG_CLOCK_CTRL;
          State_Monad.return (refclk_muldiv (word_of_int v AND 3) c) }
      | RX_REFCLK \<Rightarrow> do {
          tmp \<leftarrow> readf REG_REF_DIVIDE_CONFIG_1 RX_REF_DIVIDER_MSB;
          tmp1 \<leftarrow> readf REG_REF_DIVIDE_CONFIG_2 RX_REF_DIVIDER_LSB;
          State_Monad.return (refclk_muldiv (push_bit 1 tmp OR tmp1) c) }
      | TX_REFCLK \<Rightarrow> do {
          tmp \<leftarrow> readf REG_REF_DIVIDE_CONFIG_2 (TX_REF_DIVIDER (- 1));
          State_Monad.return (refclk_muldiv tmp c) }
      | ADC_CLK \<Rightarrow> do {
          v \<leftarrow> spi_read bus REG_BBPLL;
          State_Monad.return (set_muldiv 1 (push_bit (unat (word_of_int v AND 7 :: u32)) 1) c) }
      | R2_CLK \<Rightarrow> plus1 REG_RX_ENABLE_FILTER_CTRL (DEC3_ENABLE_DECIMATION (- 1))
      | R1_CLK \<Rightarrow> plus1 REG_RX_ENABLE_FILTER_CTRL RHB2_EN
      | CLKRF_CLK \<Rightarrow> plus1 REG_RX_ENABLE_FILTER_CTRL RHB1_EN
      | RX_SAMPL_CLK \<Rightarrow> fir REG_RX_ENABLE_FILTER_CTRL (RX_FIR_ENABLE_DECIMATION (- 1))
      | DAC_CLK \<Rightarrow> plus1 REG_BBPLL 8
      | T2_CLK \<Rightarrow> plus1 REG_TX_ENABLE_FILTER_CTRL (THB3_ENABLE_INTERP (- 1))
      | T1_CLK \<Rightarrow> plus1 REG_TX_ENABLE_FILTER_CTRL THB2_EN
      | CLKTF_CLK \<Rightarrow> plus1 REG_TX_ENABLE_FILTER_CTRL THB1_EN
      | TX_SAMPL_CLK \<Rightarrow> fir REG_TX_ENABLE_FILTER_CTRL (TX_FIR_ENABLE_INTERPOLATION (- 1))
      | PL_INTF_CLK \<Rightarrow> do {
          s \<leftarrow> State_Monad.get;
          State_Monad.return (set_muldiv
            (push_bit (if ucast (pd_pp_conf2 s) AND LVDS_MODE \<noteq> 0 then 1 else 0)
               ((if uses_rx2tx2 s then 1 else 0) + 1)) 1 c) }
      | _ \<Rightarrow> State_Monad.return (- 22, c))"

definition to_refclk_scaler :: "refclk_scale \<Rightarrow> int" where
  "to_refclk_scaler c =
     (let k = push_bit 4 (sc_mult c AND 0xF) OR (sc_div c AND 0xF)
      in if k = 0x11 then 0 else if k = 0x12 then 1 else if k = 0x14 then 2 else if k = 0x21 then 3
         else - 22)"

text \<open>\<^verbatim>\<open>ilog2\<close> of a 32-bit value: the index of its highest bit, -1 for 0.\<close>

fun ilog2_from :: "nat \<Rightarrow> u32 \<Rightarrow> int" where
  "ilog2_from 0 x = - 1"
| "ilog2_from (Suc k) x = (if bit x k then int k else ilog2_from k x)"

definition ilog2 :: "u32 \<Rightarrow> int" where
  "ilog2 x = ilog2_from 32 x"

definition set_clk_scaler :: "'c bus \<Rightarrow> refclk_scale \<Rightarrow> bool \<Rightarrow> ('c ad9361, int) state" where
  "set_clk_scaler bus c wr =
     (let m = sc_mult c; d = sc_div c; einval = State_Monad.return (- 22); ok = State_Monad.return 0;
          limit = (\<lambda>hi r mask'. if m \<noteq> 1 \<or> hi < d \<or> d < 1 then einval
                   else if wr then spi_writef bus r mask' (d - 1) else ok);
          fir = (\<lambda>bypass r mask'. if m \<noteq> 1 \<or> 4 < d \<or> d < 1 \<or> d = 3 then einval
                   else let tmp = if bypass then 0 else word_of_int (ilog2 d + 1)
                        in if wr then spi_writef bus r mask' tmp else ok);
          ret = to_refclk_scaler c
      in case sc_source c of
        BB_REFCLK \<Rightarrow>
          (if ret < 0 then State_Monad.return ret
           else if wr then spi_writef bus REG_CLOCK_CTRL (REF_FREQ_SCALER (- 1)) (word_of_int ret) else ok)
      | RX_REFCLK \<Rightarrow>
          (if ret < 0 then State_Monad.return ret
           else if wr then do {
             let tmp = word_of_int ret;
             r1 \<leftarrow> spi_writef bus REG_REF_DIVIDE_CONFIG_1 RX_REF_DIVIDER_MSB (drop_bit 1 tmp);
             r2 \<leftarrow> spi_writef bus REG_REF_DIVIDE_CONFIG_2 RX_REF_DIVIDER_LSB (tmp AND 1);
             State_Monad.return (r1 OR r2) }
           else ok)
      | TX_REFCLK \<Rightarrow>
          (if ret < 0 then State_Monad.return ret
           else if wr then spi_writef bus REG_REF_DIVIDE_CONFIG_2 (TX_REF_DIVIDER (- 1)) (word_of_int ret)
           else ok)
      | ADC_CLK \<Rightarrow>
          (let tmp = word_of_int (ilog2 (d AND 0xFF)) :: u32
           in if m \<noteq> 1 \<or> 6 < tmp \<or> tmp < 1 then einval
              else if wr then spi_writef bus REG_BBPLL 7 tmp else ok)
      | R2_CLK \<Rightarrow> limit 3 REG_RX_ENABLE_FILTER_CTRL (DEC3_ENABLE_DECIMATION (- 1))
      | R1_CLK \<Rightarrow> limit 2 REG_RX_ENABLE_FILTER_CTRL RHB2_EN
      | CLKRF_CLK \<Rightarrow> limit 2 REG_RX_ENABLE_FILTER_CTRL RHB1_EN
      | RX_SAMPL_CLK \<Rightarrow> do {
          s \<leftarrow> State_Monad.get;
          fir (st_bypass_rx_fir s) REG_RX_ENABLE_FILTER_CTRL (RX_FIR_ENABLE_DECIMATION (- 1)) }
      | DAC_CLK \<Rightarrow> limit 2 REG_BBPLL 8
      | T2_CLK \<Rightarrow> limit 3 REG_TX_ENABLE_FILTER_CTRL (THB3_ENABLE_INTERP (- 1))
      | T1_CLK \<Rightarrow> limit 2 REG_TX_ENABLE_FILTER_CTRL THB2_EN
      | CLKTF_CLK \<Rightarrow> limit 2 REG_TX_ENABLE_FILTER_CTRL THB1_EN
      | TX_SAMPL_CLK \<Rightarrow> do {
          s \<leftarrow> State_Monad.get;
          fir (st_bypass_tx_fir s) REG_TX_ENABLE_FILTER_CTRL (TX_FIR_ENABLE_INTERPOLATION (- 1)) }
      | PL_INTF_CLK \<Rightarrow> ok
      | _ \<Rightarrow> einval)"

subsection \<open>Factor clocks\<close>

text \<open>\<^verbatim>\<open>DIV_ROUND_CLOSEST\<close> on unsigned 32-bit values; \<open>None\<close> is a division by zero.\<close>

definition div_round_closest :: "u32 \<Rightarrow> u32 \<Rightarrow> u32 option" where
  "div_round_closest x d = (if d = 0 then None else Some ((x + d div 2) div d))"

definition rate_muldiv :: "ulong \<Rightarrow> ulong \<Rightarrow> refclk_scale \<Rightarrow> refclk_scale option" where
  "rate_muldiv rate prate c =
     (if prate \<le> rate then do {
        m \<leftarrow> div_round_closest rate prate;
        Some (c\<lparr>sc_mult := m, sc_div := 1\<rparr>) }
      else do {
        d \<leftarrow> div_round_closest prate rate;
        Some (c\<lparr>sc_div := (if d = 0 then 1 else d), sc_mult := 1\<rparr>) })"

definition clk_factor_recalc_rate :: "'c bus \<Rightarrow> ulong \<Rightarrow> refclk_scale \<Rightarrow> ('c ad9361, ulong \<times> refclk_scale) state" where
  "clk_factor_recalc_rate bus parent_rate c = do {
     (_, c1) \<leftarrow> get_clk_scaler bus c;
     State_Monad.return (parent_rate * sc_mult c1 div sc_div c1, c1)
   }"

definition clk_factor_round_rate ::
  "'c bus \<Rightarrow> ulong \<Rightarrow> ulong \<Rightarrow> refclk_scale \<Rightarrow> ('c ad9361, int \<times> refclk_scale) state option" where
  "clk_factor_round_rate bus rate prate c =
     map_option (\<lambda>c1. do {
       ret \<leftarrow> set_clk_scaler bus c1 False;
       State_Monad.return (if ret < 0 then ret else sint (prate div sc_div c1 * sc_mult c1), c1)
     }) (rate_muldiv rate prate c)"

definition clk_factor_set_rate ::
  "'c bus \<Rightarrow> ulong \<Rightarrow> ulong \<Rightarrow> refclk_scale \<Rightarrow> ('c ad9361, int \<times> refclk_scale) state option" where
  "clk_factor_set_rate bus rate parent_rate c =
     map_option (\<lambda>c1. do { ret \<leftarrow> set_clk_scaler bus c1 True; State_Monad.return (ret, c1) })
       (rate_muldiv rate parent_rate c)"

text \<open>
  What the kernel's clock framework answers and does is a parameter of the functions that
  use other clocks: the rate of a clock, and setting it.
\<close>

record 'c clk_framework =
  clk_get_rate :: "ad9361_clocks \<Rightarrow> 'c ad9361 \<Rightarrow> ulong"
  clk_set_rate :: "ad9361_clocks \<Rightarrow> ulong \<Rightarrow> ('c ad9361, int) state"

text \<open>A framework with one rate for all clocks, for concrete runs.\<close>

definition fixed_clk :: "ulong \<Rightarrow> 'c clk_framework" where
  "fixed_clk r = \<lparr>clk_get_rate = (\<lambda>_ _. r), clk_set_rate = (\<lambda>_ _. State_Monad.return 0)\<rparr>"

text \<open>\<^verbatim>\<open>DIV_ROUND_CLOSEST\<close> and \<^verbatim>\<open>DIV_ROUND_UP\<close> by a constant.\<close>

definition div_closest :: "u32 \<Rightarrow> u32 \<Rightarrow> u32" where
  "div_closest x d = (x + d div 2) div d"

definition div_round_up :: "u32 \<Rightarrow> u32 \<Rightarrow> u32" where
  "div_round_up x d = (x + d - 1) div d"

subsection \<open>Calibration polling\<close>

text \<open>The \<^verbatim>\<open>do ... while (timeout--)\<close> loop: \<open>k\<close> reads left; -110 is \<^verbatim>\<open>-ETIMEDOUT\<close>.\<close>

fun cal_poll :: "'c bus \<Rightarrow> u32 \<Rightarrow> u32 \<Rightarrow> u32 \<Rightarrow> nat \<Rightarrow> ('c ad9361, int) state" where
  "cal_poll bus r m done_state 0 = State_Monad.return (- 110)"
| "cal_poll bus r m done_state (Suc k) = do {
     v \<leftarrow> spi_readf bus r m;
     if word_of_int v = done_state then State_Monad.return 0 else cal_poll bus r m done_state k
   }"

definition check_cal_done :: "'c bus \<Rightarrow> u32 \<Rightarrow> u32 \<Rightarrow> u32 \<Rightarrow> ('c ad9361, int) state" where
  "check_cal_done bus r m done_state = cal_poll bus r m done_state 5001"

definition run_calibration :: "'c bus \<Rightarrow> u32 \<Rightarrow> ('c ad9361, int) state" where
  "run_calibration bus m = do {
     ret \<leftarrow> spi_write bus REG_CALIBRATION_CTRL m;
     if ret < 0 then State_Monad.return ret else check_cal_done bus REG_CALIBRATION_CTRL m 0
   }"

subsection \<open>The baseband PLL\<close>

text \<open>The two words of a rate, and the rate of two words.\<close>

definition bbpll_words :: "ulong \<Rightarrow> ulong \<Rightarrow> u32 \<times> u32" where
  "bbpll_words rate parent_rate =
     (let rate64 = ucast rate :: u64; p = ucast parent_rate :: u64;
          tmp = (rate64 mod p * ucast BBPLL_MODULUS + ucast (drop_bit 1 parent_rate)) div p
      in (ucast (rate64 div p), ucast tmp))"

definition bbpll_recalc_rate :: "'c bus \<Rightarrow> ulong \<Rightarrow> ('c ad9361, ulong) state" where
  "bbpll_recalc_rate bus parent_rate = do {
     (_, buf) \<leftarrow> spi_readm bus REG_INTEGER_BB_FREQ_WORD
        (unat (REG_INTEGER_BB_FREQ_WORD - REG_FRACT_BB_FREQ_WORD_1 + 1));
     let fract = (push_bit 16 (ucast (buf ! 3)) OR push_bit 8 (ucast (buf ! 2)) OR ucast (buf ! 1) :: u32);
     let integer = (ucast (buf ! 0) :: u32);
     let rate = (ucast parent_rate * ucast fract div ucast BBPLL_MODULUS + ucast parent_rate * ucast integer :: u64);
     State_Monad.return (ucast rate)
   }"

definition bbpll_round_rate :: "ulong \<Rightarrow> ulong \<Rightarrow> ulong option" where
  "bbpll_round_rate rate prate =
     (if MAX_BBPLL_FREQ < rate then Some MAX_BBPLL_FREQ
      else if rate < MIN_BBPLL_FREQ then Some MIN_BBPLL_FREQ
      else if prate = 0 then None
      else let (integer, fract) = bbpll_words rate prate;
               tmp = ucast prate * ucast fract div ucast BBPLL_MODULUS + ucast (prate * integer) :: u64
           in Some (ucast tmp))"

definition bbpll_icp :: "ulong \<Rightarrow> ulong \<Rightarrow> int option" where
  "bbpll_icp rate parent_rate =
     (let d = drop_bit 7 parent_rate * 32 in
      if d = 0 then None
      else let tmp = drop_bit 7 (ucast rate) * 150 div ucast d :: u64;
               icp = sint ((ucast tmp + 12) div 25 - 1 :: u32)
           in Some (max 1 (min 64 icp)))"

definition bbpll_set_rate :: "'c bus \<Rightarrow> ulong \<Rightarrow> ulong \<Rightarrow> ('c ad9361, int) state option" where
  "bbpll_set_rate bus rate parent_rate =
     map_option (\<lambda>icp. do {
       _ \<leftarrow> spi_write bus REG_CP_CURRENT (word_of_int icp);
       _ \<leftarrow> spi_writem bus REG_LOOP_FILTER_3 [0x35, 0x5B, 0xE8] 3;
       _ \<leftarrow> spi_write bus REG_VCO_CTRL (FREQ_CAL_ENABLE OR FREQ_CAL_COUNT_LENGTH 3);
       _ \<leftarrow> spi_write bus REG_SDM_CTRL 0x10;
       let (integer, fract) = bbpll_words rate parent_rate;
       _ \<leftarrow> spi_write bus REG_INTEGER_BB_FREQ_WORD integer;
       _ \<leftarrow> spi_write bus REG_FRACT_BB_FREQ_WORD_3 fract;
       _ \<leftarrow> spi_write bus REG_FRACT_BB_FREQ_WORD_2 (drop_bit 8 fract);
       _ \<leftarrow> spi_write bus REG_FRACT_BB_FREQ_WORD_1 (drop_bit 16 fract);
       _ \<leftarrow> spi_write bus REG_SDM_CTRL_1 (INIT_BB_FO_CAL OR BBPLL_RESET_BAR);
       _ \<leftarrow> spi_write bus REG_SDM_CTRL_1 BBPLL_RESET_BAR;
       _ \<leftarrow> spi_write bus REG_VCO_PROGRAM_1 0x86;
       _ \<leftarrow> spi_write bus REG_VCO_PROGRAM_2 0x01;
       _ \<leftarrow> spi_write bus REG_VCO_PROGRAM_2 0x05;
       check_cal_done bus REG_CH_1_OVERFLOW BBPLL_LOCK 1
     }) (bbpll_icp rate parent_rate)"

lemma chip_only_cal_poll [chip_intro]: "chip_only (cal_poll bus r m d k)"
  by (induction k) (auto intro!: chip_intro)

lemma chip_only_check_cal_done [chip_intro]: "chip_only (check_cal_done bus r m d)"
  by (simp add: check_cal_done_def chip_only_cal_poll)

end
