(* ===== verification/Ad_Rf.thy ===== *)
theory Ad_Rf
  imports Ad_Clk
begin

unbundle bit_operations_syntax

text \<open>
  The RF side of the AD9361 driver: channel enables and self test, transmit attenuation,
  oscillator control and power, programming the synthesizers, and the fast lock profiles.
\<close>

subsection \<open>Small helpers\<close>

text \<open>The longest run of zero bytes of a field: its length, and where it starts.\<close>

fun find_opt_loop :: "u8 list \<Rightarrow> int \<Rightarrow> int \<Rightarrow> int \<Rightarrow> int \<Rightarrow> int \<Rightarrow> int \<times> int" where
  "find_opt_loop [] i start cnt max_cnt max_start =
     (if max_cnt < cnt then (cnt, start) else (max_cnt, max_start))"
| "find_opt_loop (b # bs) i start cnt max_cnt max_start =
     (if b = 0 then find_opt_loop bs (i + 1) (if start = - 1 then i else start) (cnt + 1) max_cnt max_start
      else if max_cnt < cnt then find_opt_loop bs (i + 1) (- 1) 0 cnt start
      else find_opt_loop bs (i + 1) (- 1) 0 max_cnt max_start)"

definition find_opt :: "u8 list \<Rightarrow> int \<times> int" where
  "find_opt field = find_opt_loop field 0 (- 1) 0 0 0"

definition channel_map_1rx1tx :: "bool \<Rightarrow> int \<Rightarrow> 'c ad9361 \<Rightarrow> int" where
  "channel_map_1rx1tx tx channel s =
     (if pd_rx2tx2 s then channel
      else if (if tx then pd_rx1tx1_mode_use_tx_num s else pd_rx1tx1_mode_use_rx_num s) = 2
           then channel + 1 else channel)"

definition en_dis_tx :: "'c bus \<Rightarrow> u32 \<Rightarrow> u32 \<Rightarrow> ('c ad9361, int) state" where
  "en_dis_tx bus tx_if enable = do {
     s \<leftarrow> get_phy;
     if 1 < tx_if AND enable \<and> pd_dev s = ID_AD9364 \<and> enable \<noteq> 0 then rtn (- 22)
     else spi_writef bus REG_TX_ENABLE_FILTER_CTRL (TX_CHANNEL_ENABLE tx_if) enable
   }"

definition en_dis_rx :: "'c bus \<Rightarrow> u32 \<Rightarrow> u32 \<Rightarrow> ('c ad9361, int) state" where
  "en_dis_rx bus rx_if enable = do {
     s \<leftarrow> get_phy;
     if 1 < rx_if AND enable \<and> pd_dev s = ID_AD9364 \<and> enable \<noteq> 0 then rtn (- 22)
     else spi_writef bus REG_RX_ENABLE_FILTER_CTRL (RX_CHANNEL_ENABLE rx_if) enable
   }"

definition int_loopback_fix_ch_cross :: "'c bus \<Rightarrow> bool \<Rightarrow> ('c ad9361, int) state" where
  "int_loopback_fix_ch_cross bus enable = do {
     s \<leftarrow> get_phy;
     if \<not> pd_rx2tx2 s \<and> pd_rx1tx1_mode_use_rx_num s \<noteq> pd_rx1tx1_mode_use_tx_num s
     then en_dis_tx bus (TX_1 OR TX_2)
            (if enable then pd_rx1tx1_mode_use_rx_num s else pd_rx1tx1_mode_use_tx_num s)
     else rtn 0
   }"

subsection \<open>Built-in self test\<close>

datatype bist_mode = BIST_DISABLE | BIST_INJ_TX | BIST_INJ_RX

definition write_bist_reg :: "'c bus \<Rightarrow> u32 \<Rightarrow> ('c ad9361, int) state" where
  "write_bist_reg bus val = do {
     _ \<leftarrow> upd_phy (\<lambda>s. s\<lparr>st_bist_config := ucast val\<rparr>);
     spi_write bus REG_BIST_CONFIG val
   }"

definition bist_point :: "bist_mode \<Rightarrow> u32" where
  "bist_point mode =
     (case mode of BIST_DISABLE \<Rightarrow> 0
      | BIST_INJ_TX \<Rightarrow> BIST_CTRL_POINT 0 OR BIST_ENABLE
      | BIST_INJ_RX \<Rightarrow> BIST_CTRL_POINT 2 OR BIST_ENABLE)"

definition bist_prbs :: "'c bus \<Rightarrow> bist_mode \<Rightarrow> ('c ad9361, int) state" where
  "bist_prbs bus mode = write_bist_reg bus (bist_point mode)"

text \<open>\<open>clk\<close>: the rate of the sample clock of the chosen side.\<close>

definition bist_tone :: "'c bus \<Rightarrow> (bist_mode \<Rightarrow> ulong) \<Rightarrow> bist_mode \<Rightarrow> u32 \<Rightarrow> u32 \<Rightarrow> u32 \<Rightarrow> ('c ad9361, int) state" where
  "bist_tone bus sampl_clk mode freq_Hz level_dB mask' =
     (let clk = (if mode = BIST_DISABLE then 0 else sampl_clk mode);
          reg0 = bist_point mode OR TONE_PRBS OR TONE_LEVEL (level_dB div 6);
          reg1 = (if freq_Hz < 4 then reg0 OR TONE_FREQ freq_Hz
                  else if clk \<noteq> 0 then reg0 OR TONE_FREQ ((freq_Hz * 32 + clk div 2) div clk - 1)
                  else reg0);
          reg_mask = BIST_MASK_CHANNEL_1_I_DATA OR BIST_MASK_CHANNEL_1_Q_DATA OR
                     BIST_MASK_CHANNEL_2_I_DATA OR BIST_MASK_CHANNEL_2_Q_DATA
      in do {
        _ \<leftarrow> spi_write bus REG_BIST_AND_DATA_PORT_TEST_CONFIG (push_bit 2 mask' AND reg_mask);
        write_bist_reg bus reg1
      })"

subsection \<open>Transmit attenuation\<close>

text \<open>The two bytes of the attenuation word.\<close>

definition set_tx_atten :: "'c bus \<Rightarrow> u32 \<Rightarrow> bool \<Rightarrow> bool \<Rightarrow> bool \<Rightarrow> ('c ad9361, int) state" where
  "set_tx_atten bus atten_mdb tx1 tx2 immed =
     (if MAX_TX_ATTENUATION_DB < atten_mdb then rtn (- 22)
      else let a = atten_mdb div 250; buf = [ucast (drop_bit 8 a), ucast (a AND 0xFF)] in do {
        _ \<leftarrow> spi_writef bus REG_TX2_DIG_ATTEN IMMEDIATELY_UPDATE_TPC_ATTEN 0;
        r1 \<leftarrow> if tx1 then spi_writem bus REG_TX1_ATTEN_1 buf 2 else rtn 0;
        r2 \<leftarrow> if tx2 then spi_writem bus REG_TX2_ATTEN_1 buf 2 else rtn r1;
        _ \<leftarrow> if immed then spi_writef bus REG_TX2_DIG_ATTEN IMMEDIATELY_UPDATE_TPC_ATTEN 1 else rtn 0;
        rtn r2
      })"

definition get_tx_atten :: "'c bus \<Rightarrow> u32 \<Rightarrow> ('c ad9361, int) state" where
  "get_tx_atten bus tx_num = do {
     (ret, buf) \<leftarrow> spi_readm bus (if tx_num = 1 then REG_TX1_ATTEN_1 else REG_TX2_ATTEN_1) 2;
     rtn (if ret < 0 then ret
          else sint ((push_bit 8 (ucast (buf ! 0)) OR ucast (buf ! 1)) * 250 :: u32))
   }"

definition tx_mute :: "'c bus \<Rightarrow> u32 \<Rightarrow> ('c ad9361, int) state" where
  "tx_mute bus mute =
     (if mute \<noteq> 0 then do {
        a1 \<leftarrow> get_tx_atten bus 1;
        _ \<leftarrow> upd_phy (\<lambda>s. s\<lparr>st_tx1_atten_cached := word_of_int a1\<rparr>);
        a2 \<leftarrow> get_tx_atten bus 2;
        _ \<leftarrow> upd_phy (\<lambda>s. s\<lparr>st_tx2_atten_cached := word_of_int a2\<rparr>);
        set_tx_atten bus 89750 True True True
      } else do {
        s \<leftarrow> get_phy;
        if st_tx1_atten_cached s = st_tx2_atten_cached s
        then set_tx_atten bus (st_tx1_atten_cached s) True True True
        else do {
          r1 \<leftarrow> set_tx_atten bus (st_tx1_atten_cached s) True False True;
          r2 \<leftarrow> set_tx_atten bus (st_tx2_atten_cached s) False True True;
          rtn (r1 OR r2)
        }
      })"

subsection \<open>Oscillators\<close>

definition trx_vco_cal_control :: "'c bus \<Rightarrow> bool \<Rightarrow> bool \<Rightarrow> ('c ad9361, int) state" where
  "trx_vco_cal_control bus tx enable =
     spi_writef bus (if tx then REG_TX_PFD_CONFIG else REG_RX_PFD_CONFIG) BYPASS_LD_SYNTH (if enable then 0 else 1)"

definition trx_ext_lo_control :: "'c bus \<Rightarrow> bool \<Rightarrow> bool \<Rightarrow> ('c ad9361, int) state" where
  "trx_ext_lo_control bus tx enable =
     (let val = (if enable then - 1 else 0) :: u32; en = (if enable then 1 else 0) :: u32 in do {
        mcs_rf \<leftarrow> spi_readf bus REG_MULTICHIP_SYNC_AND_TX_MON_CTRL MCS_RF_ENABLE;
        if tx then do {
          _ \<leftarrow> spi_writef bus REG_ENSM_CONFIG_2 POWER_DOWN_TX_SYNTH (if mcs_rf \<noteq> 0 then 0 else en);
          r1 \<leftarrow> spi_writef bus REG_ENSM_CONFIG_2 TX_SYNTH_READY_MASK en;
          s \<leftarrow> get_phy;
          r2 \<leftarrow> spi_writef bus REG_RFPLL_DIVIDERS (TX_VCO_DIVIDER (- 1))
                  (if enable then 7 else ucast (st_cached_tx_rfpll_div s));
          _ \<leftarrow> upd_phy (\<lambda>s. s\<lparr>st_cached_synth_pd0 :=
                 (if enable
                  then st_cached_synth_pd0 s OR ucast (TX_SYNTH_VCO_ALC_POWER_DOWN OR
                         TX_SYNTH_PTAT_POWER_DOWN OR TX_SYNTH_VCO_POWER_DOWN)
                  else st_cached_synth_pd0 s AND NOT (ucast (TX_SYNTH_VCO_ALC_POWER_DOWN OR TX_SYNTH_PTAT_POWER_DOWN OR TX_SYNTH_VCO_POWER_DOWN)))\<rparr>);
          s \<leftarrow> get_phy;
          r3 \<leftarrow> spi_write bus REG_TX_SYNTH_POWER_DOWN_OVERRIDE (ucast (st_cached_synth_pd0 s));
          r4 \<leftarrow> spi_writef bus REG_ANALOG_POWER_DOWN_OVERRIDE TX_EXT_VCO_BUFFER_POWER_DOWN (1 - en);
          r5 \<leftarrow> spi_write bus REG_TX_LO_GEN_POWER_MODE (TX_LO_GEN_POWER_MODE val);
          rtn (r1 OR r2 OR r3 OR r4 OR r5)
        }
        else do {
          _ \<leftarrow> spi_writef bus REG_ENSM_CONFIG_2 POWER_DOWN_RX_SYNTH (if mcs_rf \<noteq> 0 then 0 else en);
          r1 \<leftarrow> spi_writef bus REG_ENSM_CONFIG_2 RX_SYNTH_READY_MASK en;
          s \<leftarrow> get_phy;
          r2 \<leftarrow> spi_writef bus REG_RFPLL_DIVIDERS (RX_VCO_DIVIDER (- 1))
                  (if enable then 7 else ucast (st_cached_rx_rfpll_div s));
          _ \<leftarrow> upd_phy (\<lambda>s. s\<lparr>st_cached_synth_pd1 :=
                 (if enable
                  then st_cached_synth_pd1 s OR ucast (RX_SYNTH_VCO_ALC_POWER_DOWN OR
                         RX_SYNTH_PTAT_POWER_DOWN OR RX_SYNTH_VCO_POWER_DOWN)
                  else st_cached_synth_pd1 s AND NOT (ucast (TX_SYNTH_VCO_ALC_POWER_DOWN OR RX_SYNTH_PTAT_POWER_DOWN OR RX_SYNTH_VCO_POWER_DOWN)))\<rparr>);
          s \<leftarrow> get_phy;
          r3 \<leftarrow> spi_write bus REG_RX_SYNTH_POWER_DOWN_OVERRIDE (ucast (st_cached_synth_pd1 s));
          r4 \<leftarrow> spi_writef bus REG_ANALOG_POWER_DOWN_OVERRIDE RX_EXT_VCO_BUFFER_POWER_DOWN (1 - en);
          r5 \<leftarrow> spi_write bus REG_RX_LO_GEN_POWER_MODE (RX_LO_GEN_POWER_MODE val);
          rtn (r1 OR r2 OR r3 OR r4 OR r5)
        }
      })"

datatype synth_pd_ctrl = LO_DONTCARE | LO_OFF | LO_ON

definition lo_powerdown :: "synth_pd_ctrl \<Rightarrow> u8 \<Rightarrow> u8 \<Rightarrow> u8" where
  "lo_powerdown c m pd = (case c of LO_OFF \<Rightarrow> pd OR m | LO_ON \<Rightarrow> pd AND NOT m | LO_DONTCARE \<Rightarrow> pd)"

definition synth_lo_powerdown :: "'c bus \<Rightarrow> synth_pd_ctrl \<Rightarrow> synth_pd_ctrl \<Rightarrow> ('c ad9361, int) state" where
  "synth_lo_powerdown bus rx tx = do {
     _ \<leftarrow> upd_phy (\<lambda>s. s\<lparr>st_cached_synth_pd1 := lo_powerdown rx (ucast RX_LO_POWER_DOWN) (st_cached_synth_pd1 s),
                        st_cached_synth_pd0 := lo_powerdown tx (ucast TX_LO_POWER_DOWN) (st_cached_synth_pd0 s)\<rparr>);
     s \<leftarrow> get_phy;
     spi_writem bus REG_TX_SYNTH_POWER_DOWN_OVERRIDE [st_cached_synth_pd0 s, st_cached_synth_pd1 s] 2
   }"

text \<open>
  Programming the VCO: the row found for the frequency; a row past the table has no value.
\<close>

definition rfpll_vco_init :: "'c bus \<Rightarrow> bool \<Rightarrow> u64 \<Rightarrow> ulong \<Rightarrow> ('c ad9361, int) state" where
  "rfpll_vco_init bus tx vco_freq ref_clk = do {
     s \<leftarrow> get_phy;
     let fdd = (pd_fdd s \<and> \<not> pd_fdd_independent_mode s \<and> st_current_tx_lo_freq s \<noteq> st_current_rx_lo_freq s);
     _ \<leftarrow> upd_phy (\<lambda>s. if tx then s\<lparr>st_current_tx_use_tdd_table := \<not> fdd\<rparr>
                         else s\<lparr>st_current_rx_use_tdd_table := \<not> fdd\<rparr>);
     let offs = (if tx then REG_TX_VCO_OUTPUT - REG_RX_VCO_OUTPUT else 0);
     let t = synth_tab fdd ref_clk ! vco_row fdd vco_freq ref_clk;
     _ \<leftarrow> spi_write bus (REG_RX_VCO_OUTPUT + offs) (VCO_OUTPUT_LEVEL (ucast (VCO_Output_Level t)) OR PORB_VCO_LOGIC);
     _ \<leftarrow> spi_writef bus (REG_RX_ALC_VARACTOR + offs) (VCO_VARACTOR (- 1)) (ucast (VCO_Varactor t));
     _ \<leftarrow> spi_write bus (REG_RX_VCO_BIAS_1 + offs)
            (VCO_BIAS_REF (ucast (VCO_Bias_Ref t)) OR VCO_BIAS_TCF (ucast (VCO_Bias_Tcf t)));
     _ \<leftarrow> spi_write bus (REG_RX_FORCE_VCO_TUNE_1 + offs) (VCO_CAL_OFFSET (ucast (VCO_Cal_Offset t)));
     _ \<leftarrow> spi_write bus (REG_RX_VCO_VARACTOR_CTRL_1 + offs)
            (VCO_VARACTOR_REFERENCE (ucast (VCO_Varactor_Reference t)));
     _ \<leftarrow> spi_write bus (REG_RX_VCO_CAL_REF + offs) (VCO_CAL_REF_TCF 0);
     _ \<leftarrow> spi_write bus (REG_RX_VCO_VARACTOR_CTRL_0 + offs) (VCO_VARACTOR_OFFSET 0 OR VCO_VARACTOR_REFERENCE_TCF 7);
     _ \<leftarrow> spi_writef bus (REG_RX_CP_CURRENT + offs) (CHARGE_PUMP_CURRENT (- 1)) (ucast (Charge_Pump_Current t));
     _ \<leftarrow> spi_write bus (REG_RX_LOOP_FILTER_1 + offs) (LOOP_FILTER_C2 (ucast (LF_C2 t)) OR LOOP_FILTER_C1 (ucast (LF_C1 t)));
     _ \<leftarrow> spi_write bus (REG_RX_LOOP_FILTER_2 + offs) (LOOP_FILTER_R1 (ucast (LF_R1 t)) OR LOOP_FILTER_C3 (ucast (LF_C3 t)));
     _ \<leftarrow> spi_write bus (REG_RX_LOOP_FILTER_3 + offs) (LOOP_FILTER_R3 (ucast (LF_R3 t)));
     rtn 0
   }"

end
