(* ===== verification/Ad_Fastlock.thy ===== *)
theory Ad_Fastlock
  imports Ad_Rf
begin

unbundle bit_operations_syntax

text \<open>
  Fast lock profiles of the synthesizers, and tuning a synthesizer: storing, loading,
  preparing and recalling a profile, setting the carrier and reading it back.
\<close>

definition FASTLOOK_INIT :: u8 where "FASTLOOK_INIT = 1"

definition fl_offs :: "bool \<Rightarrow> u32" where
  "fl_offs tx = (if tx then REG_TX_FAST_LOCK_SETUP - REG_RX_FAST_LOCK_SETUP else 0)"

definition upd_fl_entry ::
  "bool \<Rightarrow> nat \<Rightarrow> (fastlock_entry \<Rightarrow> fastlock_entry) \<Rightarrow> 'c ad9361 \<Rightarrow> 'c ad9361" where
  "upd_fl_entry tx profile f s =
     s\<lparr>st_fl_entry := (st_fl_entry s)(tx := (st_fl_entry s tx)(profile := f (st_fl_entry s tx profile)))\<rparr>"

subsection \<open>The profile memory\<close>

definition fastlock_readval :: "'c bus \<Rightarrow> bool \<Rightarrow> u32 \<Rightarrow> u32 \<Rightarrow> ('c ad9361, int) state" where
  "fastlock_readval bus tx profile word = do {
     _ \<leftarrow> spi_write bus (REG_RX_FAST_LOCK_PROGRAM_ADDR + fl_offs tx)
            (RX_FAST_LOCK_PROFILE_ADDR profile OR RX_FAST_LOCK_PROFILE_WORD word);
     spi_read bus (REG_RX_FAST_LOCK_PROGRAM_READ + fl_offs tx)
   }"

definition fastlock_writeval :: "'c bus \<Rightarrow> bool \<Rightarrow> u32 \<Rightarrow> u32 \<Rightarrow> u8 \<Rightarrow> bool \<Rightarrow> ('c ad9361, int) state" where
  "fastlock_writeval bus tx profile word val last' = do {
     r1 \<leftarrow> spi_write bus (REG_RX_FAST_LOCK_PROGRAM_ADDR + fl_offs tx)
            (RX_FAST_LOCK_PROFILE_ADDR profile OR RX_FAST_LOCK_PROFILE_WORD word);
     r2 \<leftarrow> spi_write bus (REG_RX_FAST_LOCK_PROGRAM_DATA + fl_offs tx) (ucast val);
     r3 \<leftarrow> spi_write bus (REG_RX_FAST_LOCK_PROGRAM_CTRL + fl_offs tx)
            (RX_FAST_LOCK_PROGRAM_WRITE OR RX_FAST_LOCK_PROGRAM_CLOCK_ENABLE);
     r4 \<leftarrow> if last' then spi_write bus (REG_RX_FAST_LOCK_PROGRAM_CTRL + fl_offs tx) 0 else rtn 0;
     rtn (r1 OR r2 OR r3 OR r4)
   }"

fun fastlock_load_words :: "'c bus \<Rightarrow> bool \<Rightarrow> u32 \<Rightarrow> nat \<Rightarrow> u8 list \<Rightarrow> ('c ad9361, unit) state" where
  "fastlock_load_words bus tx profile i [] = rtn ()"
| "fastlock_load_words bus tx profile i (v # vs) = do {
     _ \<leftarrow> spi_writem bus (REG_RX_FAST_LOCK_PROGRAM_CTRL + fl_offs tx)
            [ucast (RX_FAST_LOCK_PROGRAM_WRITE OR RX_FAST_LOCK_PROGRAM_CLOCK_ENABLE), 0, v,
             ucast (RX_FAST_LOCK_PROFILE_ADDR profile OR RX_FAST_LOCK_PROFILE_WORD (of_nat i))] 4;
     fastlock_load_words bus tx profile (Suc i) vs
   }"

definition fastlock_load :: "'c bus \<Rightarrow> bool \<Rightarrow> u32 \<Rightarrow> u8 list \<Rightarrow> ('c ad9361, int) state" where
  "fastlock_load bus tx profile values = do {
     _ \<leftarrow> spi_writem bus (REG_RX_FAST_LOCK_PROGRAM_DATA + fl_offs tx)
            [values ! 0, ucast (RX_FAST_LOCK_PROFILE_ADDR profile OR RX_FAST_LOCK_PROFILE_WORD 0)] 2;
     _ \<leftarrow> fastlock_load_words bus tx profile 1 (take 15 (drop 1 values));
     _ \<leftarrow> spi_write bus (REG_RX_FAST_LOCK_PROGRAM_CTRL + fl_offs tx)
            (RX_FAST_LOCK_PROGRAM_WRITE OR RX_FAST_LOCK_PROGRAM_CLOCK_ENABLE);
     _ \<leftarrow> spi_write bus (REG_RX_FAST_LOCK_PROGRAM_CTRL + fl_offs tx) 0;
     _ \<leftarrow> upd_phy (upd_fl_entry tx (unat profile)
            (\<lambda>_. \<lparr>fl_flags = FASTLOOK_INIT, fl_alc_orig = values ! 15, fl_alc_written = values ! 15\<rparr>));
     rtn 0
   }"

definition fastlock_store :: "'c bus \<Rightarrow> bool \<Rightarrow> u32 \<Rightarrow> ('c ad9361, int) state" where
  "fastlock_store bus tx profile =
     (let o' = fl_offs tx;
          rd = (\<lambda>r. do { v \<leftarrow> spi_read bus (r + o'); rtn (word_of_int v :: u8) });
          rf = (\<lambda>r m. do { v \<leftarrow> spi_readf bus (r + o') m; rtn (word_of_int v :: u32) })
      in do {
        v0 \<leftarrow> rd REG_RX_INTEGER_BYTE_0;
        v1 \<leftarrow> rd REG_RX_INTEGER_BYTE_1;
        v2 \<leftarrow> rd REG_RX_FRACT_BYTE_0;
        v3 \<leftarrow> rd REG_RX_FRACT_BYTE_1;
        v4 \<leftarrow> rd REG_RX_FRACT_BYTE_2;
        x5 \<leftarrow> rf REG_RX_VCO_BIAS_1 (VCO_BIAS_REF (- 1));
        y5 \<leftarrow> rf REG_RX_ALC_VARACTOR (VCO_VARACTOR (- 1));
        x6 \<leftarrow> rf REG_RX_VCO_BIAS_1 (VCO_BIAS_TCF (- 1));
        y6 \<leftarrow> rf REG_RX_CP_CURRENT (CHARGE_PUMP_CURRENT (- 1));
        x8 \<leftarrow> rf REG_RX_LOOP_FILTER_3 (LOOP_FILTER_R3 (- 1));
        x9 \<leftarrow> rf REG_RX_LOOP_FILTER_2 (LOOP_FILTER_C3 (- 1));
        x10 \<leftarrow> rf REG_RX_LOOP_FILTER_1 (LOOP_FILTER_C1 (- 1));
        y10 \<leftarrow> rf REG_RX_LOOP_FILTER_1 (LOOP_FILTER_C2 (- 1));
        x11 \<leftarrow> rf REG_RX_LOOP_FILTER_2 (LOOP_FILTER_R1 (- 1));
        x12 \<leftarrow> rf REG_RX_VCO_VARACTOR_CTRL_0 (VCO_VARACTOR_REFERENCE_TCF (- 1));
        d12 \<leftarrow> spi_readf bus REG_RFPLL_DIVIDERS (if tx then TX_VCO_DIVIDER (- 1) else RX_VCO_DIVIDER (- 1));
        let y12 = (word_of_int d12 :: u32);
        x13 \<leftarrow> rf REG_RX_FORCE_VCO_TUNE_1 (VCO_CAL_OFFSET (- 1));
        y13 \<leftarrow> rf REG_RX_VCO_VARACTOR_CTRL_1 (VCO_VARACTOR_REFERENCE (- 1));
        v14 \<leftarrow> rd REG_RX_FORCE_VCO_TUNE_0;
        x15 \<leftarrow> rf REG_RX_FORCE_ALC (FORCE_ALC_WORD (- 1));
        y15 \<leftarrow> rf REG_RX_FORCE_VCO_TUNE_1 FORCE_VCO_TUNE;
        fastlock_load bus tx profile
          [v0, v1, v2, v3, v4, ucast (push_bit 4 x5 OR y5), ucast (push_bit 6 x6 OR y6), ucast y6,
           ucast (push_bit 4 x8 OR x8), ucast (push_bit 4 x9 OR x9), ucast (push_bit 4 x10 OR y10),
           ucast (push_bit 4 x11 OR x11), ucast (push_bit 4 x12 OR y12), ucast (push_bit 4 x13 OR y13),
           v14, ucast (push_bit 1 x15 OR y15)]
      })"

subsection \<open>Entering and leaving a profile\<close>

definition fastlock_prepare :: "'c bus \<Rightarrow> bool \<Rightarrow> u32 \<Rightarrow> bool \<Rightarrow> ('c ad9361, int) state" where
  "fastlock_prepare bus tx profile prepare =
     (let o' = fl_offs tx; ready_mask = (if tx then TX_SYNTH_READY_MASK else RX_SYNTH_READY_MASK) in do {
        s \<leftarrow> get_phy;
        let is_prepared = (st_fl_current s tx \<noteq> 0);
        if prepare \<and> \<not> is_prepared then do {
          _ \<leftarrow> spi_write bus (REG_RX_FAST_LOCK_SETUP_INIT_DELAY + o')
                 ((if tx then pd_tx_fastlock_delay_ns s else pd_rx_fastlock_delay_ns s) div 250);
          _ \<leftarrow> spi_write bus (REG_RX_FAST_LOCK_SETUP + o') (RX_FAST_LOCK_PROFILE profile OR RX_FAST_LOCK_MODE_ENABLE);
          _ \<leftarrow> spi_write bus (REG_RX_FAST_LOCK_PROGRAM_CTRL + o') 0;
          _ \<leftarrow> spi_writef bus REG_ENSM_CONFIG_2 ready_mask 1;
          _ \<leftarrow> trx_vco_cal_control bus tx False;
          rtn 0
        } else if \<not> prepare \<and> is_prepared then do {
          _ \<leftarrow> spi_write bus (REG_RX_FAST_LOCK_SETUP + o') 0;
          _ \<leftarrow> spi_writef bus (REG_RX_FORCE_ALC + o') FORCE_ALC_ENABLE 1;
          _ \<leftarrow> spi_writef bus (REG_RX_FORCE_VCO_TUNE_1 + o') FORCE_VCO_TUNE_ENABLE 1;
          _ \<leftarrow> spi_writef bus (REG_RX_FORCE_ALC + o') FORCE_ALC_ENABLE 0;
          _ \<leftarrow> spi_writef bus (REG_RX_FORCE_VCO_TUNE_1 + o') FORCE_VCO_TUNE_ENABLE 0;
          _ \<leftarrow> trx_vco_cal_control bus tx True;
          _ \<leftarrow> spi_writef bus REG_ENSM_CONFIG_2 ready_mask 0;
          _ \<leftarrow> upd_phy (\<lambda>s. s\<lparr>st_fl_current := (st_fl_current s)(tx := 0)\<rparr>);
          rtn 0
        } else rtn 0
      })"

text \<open>The ALC word the profile is given: never the one in use, which would not lock.\<close>

definition recall_alc :: "u8 \<Rightarrow> fastlock_entry \<Rightarrow> u8" where
  "recall_alc cur e =
     (let new = fl_alc_written e; orig = fl_alc_orig e in
      if drop_bit 1 cur = drop_bit 1 new
      then if drop_bit 1 orig = drop_bit 1 new then new + 2 else orig
      else new)"

definition fastlock_recall :: "'c bus \<Rightarrow> bool \<Rightarrow> u32 \<Rightarrow> ('c ad9361, int) state" where
  "fastlock_recall bus tx profile = do {
     s \<leftarrow> get_phy;
     let e = st_fl_entry s tx (unat profile);
     if fl_flags e \<noteq> FASTLOOK_INIT then rtn (- 22)
     else do {
       let current_profile = st_fl_current s tx;
       let new = fl_alc_written e;
       cur \<leftarrow> if current_profile = 0
               then do { v \<leftarrow> spi_readf bus (REG_RX_FORCE_ALC + fl_offs tx) (FORCE_ALC_WORD (- 1));
                         rtn (push_bit 1 (word_of_int v) :: u8) }
               else rtn (fl_alc_written (st_fl_entry s tx (unat (current_profile - 1))));
       _ \<leftarrow> if drop_bit 1 cur = drop_bit 1 new
            then do {
              _ \<leftarrow> upd_phy (upd_fl_entry tx (unat profile) (\<lambda>e. e\<lparr>fl_alc_written := recall_alc cur e\<rparr>));
              s \<leftarrow> get_phy;
              fastlock_writeval bus tx profile 0xF (fl_alc_written (st_fl_entry s tx (unat profile))) True
            } else rtn 0;
       _ \<leftarrow> fastlock_prepare bus tx profile True;
       _ \<leftarrow> upd_phy (\<lambda>s. s\<lparr>st_fl_current := (st_fl_current s)(tx := ucast (profile + 1))\<rparr>);
       spi_write bus (REG_RX_FAST_LOCK_SETUP + fl_offs tx)
         (RX_FAST_LOCK_PROFILE profile OR
          (if pd_trx_fastlock_pinctrl_en s tx then RX_FAST_LOCK_PROFILE_PIN_SELECT else 0) OR
          RX_FAST_LOCK_MODE_ENABLE)
     }
   }"

fun fastlock_save :: "'c bus \<Rightarrow> bool \<Rightarrow> u32 \<Rightarrow> nat \<Rightarrow> nat \<Rightarrow> ('c ad9361, u8 list) state" where
  "fastlock_save bus tx profile i 0 = rtn []"
| "fastlock_save bus tx profile i (Suc k) = do {
     v \<leftarrow> fastlock_readval bus tx profile (of_nat i);
     vs \<leftarrow> fastlock_save bus tx profile (Suc i) k;
     rtn (word_of_int v # vs)
   }"

text \<open>
  The \<^verbatim>\<open>LOEXT_LOAD\<close> attribute: the comma separated lines as \<^verbatim>\<open>sscanf\<close> reads them. The sixteen
  bytes of \<^verbatim>\<open>faslock_vals\<close> are on the stack; a seventeenth write is \<open>None\<close>.
\<close>

datatype lo_line = Lo_value u32 | Lo_profile u32 u32 | Lo_other

fun lo_load_lines :: "lo_line list \<Rightarrow> u32 \<Rightarrow> u8 list \<Rightarrow> (u32 \<times> u8 list) option" where
  "lo_load_lines [] profile vals = Some (profile, vals)"
| "lo_load_lines (Lo_other # ls) profile vals = lo_load_lines ls profile vals"
| "lo_load_lines (Lo_value v # ls) profile vals =
     (if length vals < 16 then lo_load_lines ls profile (vals @ [ucast v]) else None)"
| "lo_load_lines (Lo_profile p v # ls) profile vals =
     (if length vals < 16 then lo_load_lines ls p (vals @ [ucast v]) else None)"

definition lo_load :: "'c bus \<Rightarrow> bool \<Rightarrow> lo_line list \<Rightarrow> ('c ad9361, int) state option" where
  "lo_load bus tx ls =
     map_option (\<lambda>(profile, vals). if length vals = 16 then fastlock_load bus tx profile vals else rtn (- 22))
       (lo_load_lines ls 0 [])"

subsection \<open>Lemmas\<close>

lemma lo_load_lines_none:
  "lo_load_lines ls profile vals = None \<longleftrightarrow> 16 < length vals + length (filter (\<lambda>l. l \<noteq> Lo_other) ls) \<and>
     filter (\<lambda>l. l \<noteq> Lo_other) ls \<noteq> []"
  by (induction ls profile vals rule: lo_load_lines.induct) auto

text \<open>The attribute overruns its buffer exactly when a write brings more than sixteen values.\<close>

lemma lo_load_overruns: "lo_load bus tx ls = None \<longleftrightarrow> 16 < length (filter (\<lambda>l. l \<noteq> Lo_other) ls)"
  by (auto simp: lo_load_def lo_load_lines_none)

lemma drop_bit_plus2: "drop_bit 1 (x + 2) \<noteq> drop_bit 1 x" for x :: u8
proof
  assume "drop_bit 1 (x + 2) = drop_bit 1 x"
  then have "unat (drop_bit 1 (x + 2)) = unat (drop_bit 1 x)" by (rule arg_cong)
  then have "unat (x + 2) div 2 = unat x div 2"
    unfolding unat_drop_bit_eq unfolding drop_bit_eq_div by simp
  moreover have "unat (x + 2) = (unat x + 2) mod 256" by (simp add: unat_word_ariths)
  moreover have "unat x < 256" using unsigned_less [of x] by simp
  moreover have "unat x < 254 \<or> unat x = 254 \<or> unat x = 255" using calculation(3) by linarith
  ultimately show False by auto
qed

lemma recall_alc_differs: "drop_bit 1 (recall_alc cur e) \<noteq> drop_bit 1 cur"
  using drop_bit_plus2 [of "fl_alc_written e"] by (simp add: recall_alc_def Let_def)

lemma ready_masks: "TX_SYNTH_READY_MASK \<noteq> 0" "RX_SYNTH_READY_MASK \<noteq> 0" "BYPASS_LD_SYNTH \<noteq> 0"
  "FORCE_ALC_ENABLE \<noteq> 0" "FORCE_VCO_TUNE_ENABLE \<noteq> 0" "FORCE_ALC_WORD (- 1) \<noteq> 0"
  by code_simp+

lemma chip_only_fastlock [chip_intro]:
  "chip_only (trx_vco_cal_control bus tx en)" "chip_only (fastlock_prepare bus tx profile True)"
  "chip_only (fastlock_writeval bus tx profile word val l)" "chip_only (fastlock_readval bus tx profile word)"
  by (auto simp: trx_vco_cal_control_def fastlock_prepare_def fastlock_writeval_def fastlock_readval_def Let_def
      intro!: chip_intro)

text \<open>The ALC word in use before a recall.\<close>

definition alc_in_use :: "bool \<Rightarrow> regfile ad9361 \<Rightarrow> u8" where
  "alc_in_use tx s =
     (if st_fl_current s tx = 0
      then push_bit 1 (drop_bit (ffs (FORCE_ALC_WORD (- 1)))
             (get_reg s (REG_RX_FORCE_ALC + fl_offs tx) AND ucast (FORCE_ALC_WORD (- 1))))
      else fl_alc_written (st_fl_entry s tx (unat (st_fl_current s tx - 1))))"

lemma run_recall:
  assumes "fl_flags (st_fl_entry s tx (unat profile)) = FASTLOOK_INIT"
  shows "\<exists>c. run_state (fastlock_recall chip_bus tx profile) s = (0,
     (upd_fl_entry tx (unat profile) (\<lambda>e. e\<lparr>fl_alc_written := recall_alc (alc_in_use tx s) e\<rparr>) s)
       \<lparr>st_fl_current := (st_fl_current s)(tx := ucast (profile + 1)), ad_chip := c\<rparr>)"
proof -
  let ?p = "unat profile" let ?cur = "alc_in_use tx s"
  let ?e = "st_fl_entry s tx ?p"
  let ?s1 = "upd_fl_entry tx ?p (\<lambda>e. e\<lparr>fl_alc_written := recall_alc ?cur e\<rparr>) s"
  have cur: "run_state (if st_fl_current s tx = 0
      then do { v \<leftarrow> spi_readf chip_bus (REG_RX_FORCE_ALC + fl_offs tx) (FORCE_ALC_WORD (- 1));
                rtn (push_bit 1 (word_of_int v) :: u8) }
      else rtn (fl_alc_written (st_fl_entry s tx (unat (st_fl_current s tx - 1))))) s = (?cur, s)"
    unfolding alc_in_use_def
    by (simp add: run_spi_readf ready_masks del: drop_bit_and push_bit_and push_bit_of_Suc_0)
  have "\<exists>x c. run_state (if drop_bit 1 ?cur = drop_bit 1 (fl_alc_written ?e)
      then do {
        _ \<leftarrow> upd_phy (upd_fl_entry tx ?p (\<lambda>e. e\<lparr>fl_alc_written := recall_alc ?cur e\<rparr>));
        s \<leftarrow> get_phy;
        fastlock_writeval chip_bus tx profile 0xF (fl_alc_written (st_fl_entry s tx ?p)) True
      } else rtn 0) s = (x, ?s1\<lparr>ad_chip := c\<rparr>)"
  proof (cases "drop_bit 1 ?cur = drop_bit 1 (fl_alc_written ?e)")
    case True
    then show ?thesis by (simp add: chip_onlyE [OF chip_only_fastlock(3)])
  next
    case False
    then have "recall_alc ?cur ?e = fl_alc_written ?e" by (simp add: recall_alc_def Let_def)
    then have "?s1 = s" by (simp add: upd_fl_entry_def)
    then show ?thesis using False chip_same [of s] by auto
  qed
  then obtain x c where wr: "run_state (if drop_bit 1 ?cur = drop_bit 1 (fl_alc_written ?e)
      then do {
        _ \<leftarrow> upd_phy (upd_fl_entry tx ?p (\<lambda>e. e\<lparr>fl_alc_written := recall_alc ?cur e\<rparr>));
        s \<leftarrow> get_phy;
        fastlock_writeval chip_bus tx profile 0xF (fl_alc_written (st_fl_entry s tx ?p)) True
      } else rtn 0) s = (x, ?s1\<lparr>ad_chip := c\<rparr>)"
    by blast
  obtain y d where prep: "run_state (fastlock_prepare chip_bus tx profile True) (?s1\<lparr>ad_chip := c\<rparr>) =
      (y, ?s1\<lparr>ad_chip := d\<rparr>)"
    using chip_onlyE [where s = "?s1\<lparr>ad_chip := c\<rparr>", OF chip_only_fastlock(2) [of chip_bus tx profile]] by auto
  have fl: "st_fl_current ?s1 = st_fl_current s" by (simp add: upd_fl_entry_def)
  show ?thesis
    by (simp only: fastlock_recall_def Let_def run_state_bind run_state_get prod.case assms not_True_eq_False
        if_False simp_thms cur wr prep run_state_update run_spi_write set_reg_def)
      (auto simp: fl)
qed

subsection \<open>The property\<close>

text \<open>
  Recalling a fast lock profile. A profile that was never stored is refused and nothing
  changes. Otherwise the recall succeeds, the profile becomes the current one, and its ALC
  word differs from the word in use before in the seven bits that matter, also when the
  profile in use is recalled again; no other profile changes.
\<close>

theorem fastlock_recall_changes_alc:
  "(fl_flags (st_fl_entry s tx (unat profile)) \<noteq> FASTLOOK_INIT \<longrightarrow>
      run_state (fastlock_recall chip_bus tx profile) s = (- 22, s)) \<and>
   (fl_flags (st_fl_entry s tx (unat profile)) = FASTLOOK_INIT \<longrightarrow>
      (\<exists>s'. run_state (fastlock_recall chip_bus tx profile) s = (0, s') \<and>
        st_fl_current s' tx = ucast (profile + 1) \<and>
        drop_bit 1 (fl_alc_written (st_fl_entry s' tx (unat profile))) \<noteq> drop_bit 1 (alc_in_use tx s) \<and>
        fl_flags (st_fl_entry s' tx (unat profile)) = FASTLOOK_INIT \<and>
        (\<forall>t p. (t, p) \<noteq> (tx, unat profile) \<longrightarrow> st_fl_entry s' t p = st_fl_entry s t p)))"
proof (intro conjI impI)
  assume "fl_flags (st_fl_entry s tx (unat profile)) \<noteq> FASTLOOK_INIT"
  then show "run_state (fastlock_recall chip_bus tx profile) s = (- 22, s)"
    by (simp add: fastlock_recall_def Let_def)
next
  assume init: "fl_flags (st_fl_entry s tx (unat profile)) = FASTLOOK_INIT"
  obtain c where "run_state (fastlock_recall chip_bus tx profile) s = (0,
     (upd_fl_entry tx (unat profile) (\<lambda>e. e\<lparr>fl_alc_written := recall_alc (alc_in_use tx s) e\<rparr>) s)
       \<lparr>st_fl_current := (st_fl_current s)(tx := ucast (profile + 1)), ad_chip := c\<rparr>)"
    using run_recall [OF init] by blast
  then show "\<exists>s'. run_state (fastlock_recall chip_bus tx profile) s = (0, s') \<and>
        st_fl_current s' tx = ucast (profile + 1) \<and>
        drop_bit 1 (fl_alc_written (st_fl_entry s' tx (unat profile))) \<noteq> drop_bit 1 (alc_in_use tx s) \<and>
        fl_flags (st_fl_entry s' tx (unat profile)) = FASTLOOK_INIT \<and>
        (\<forall>t p. (t, p) \<noteq> (tx, unat profile) \<longrightarrow> st_fl_entry s' t p = st_fl_entry s t p)"
    using recall_alc_differs init by (auto simp: upd_fl_entry_def)
qed

theorem fastlock_recall_changes_alc_witness:
  "\<exists>s'. run_state (fastlock_recall chip_bus True 3)
      (upd_fl_entry True 3 (\<lambda>_. \<lparr>fl_flags = 1, fl_alc_orig = 0, fl_alc_written = 0\<rparr>) ad_zero) = (0, s') \<and>
     drop_bit 1 (fl_alc_written (st_fl_entry s' True 3)) \<noteq>
     drop_bit 1 (alc_in_use True (upd_fl_entry True 3 (\<lambda>_. \<lparr>fl_flags = 1, fl_alc_orig = 0, fl_alc_written = 0\<rparr>) ad_zero))"
proof -
  let ?s = "upd_fl_entry True 3 (\<lambda>_. \<lparr>fl_flags = 1, fl_alc_orig = 0, fl_alc_written = 0\<rparr>) ad_zero"
  have "fl_flags (st_fl_entry ?s True (unat (3 :: u32))) = FASTLOOK_INIT"
    by (simp add: upd_fl_entry_def FASTLOOK_INIT_def)
  then show ?thesis using fastlock_recall_changes_alc [of ?s True 3] by auto
qed

end
