(* ===== verification/Ad_Clk_Props.thy ===== *)
theory Ad_Clk_Props
  imports Ad_Clk
begin

unbundle bit_operations_syntax

text \<open>
  The clock scalers and the baseband PLL over a register file: what is set is what is read
  back, and which settings are not.
\<close>

subsection \<open>Fields\<close>

lemma field_read: "((b AND NOT m) OR x) AND m = x AND m" for b m x :: "'a::len word"
  by (rule bit_word_eqI) (auto simp: bit_simps)

lemma field_read_ucast:
  "ucast ((b AND NOT (ucast m)) OR x :: u8) AND m = (ucast x AND m :: u32)"
  by (rule bit_word_eqI) (auto simp: bit_simps)

lemma word_of_byte [simp]: "word_of_int (int (unat (b :: u8))) = (ucast b :: u32)"
  by simp

lemma u32_le_cases:
  fixes d :: u32
  shows "\<not> 2 < d \<Longrightarrow> \<not> d < 1 \<Longrightarrow> d = 1 \<or> d = 2"
    "\<not> 3 < d \<Longrightarrow> \<not> d < 1 \<Longrightarrow> d = 1 \<or> d = 2 \<or> d = 3"
    "\<not> 4 < d \<Longrightarrow> \<not> d < 1 \<Longrightarrow> d = 1 \<or> d = 2 \<or> d = 3 \<or> d = 4"
  by (unat_arith; simp)+

lemma ffs_values:
  "ffs 1 = 0" "ffs 3 = 0" "ffs 7 = 0" "ffs 4 = 2" "ffs 8 = 3" "ffs 0x30 = 4" "ffs 0xC = 2" "ffs 0x80 = 7"
  by code_simp+

text \<open>The masks of the clock fields as numbers.\<close>

lemma clk_masks:
  "REF_FREQ_SCALER (- 1) = 3" "RX_REF_DIVIDER_MSB = 1" "RX_REF_DIVIDER_LSB = 0x80" "TX_REF_DIVIDER (- 1) = 0xC"
  "DEC3_ENABLE_DECIMATION (- 1) = 0x30" "RHB2_EN = 8" "RHB1_EN = 4" "RX_FIR_ENABLE_DECIMATION (- 1) = 3"
  "THB3_ENABLE_INTERP (- 1) = 0x30" "THB2_EN = 8" "THB1_EN = 4" "TX_FIR_ENABLE_INTERPOLATION (- 1) = 3"
  by code_simp+

lemma clk_regs_differ: "AD_ADDR REG_REF_DIVIDE_CONFIG_1 \<noteq> AD_ADDR REG_REF_DIVIDE_CONFIG_2"
  by code_simp

text \<open>A field read after it was written.\<close>

lemma run_readf_writef:
  assumes "m \<noteq> 0" "run_state (spi_writef chip_bus r m v) s = (e, s')"
  shows "run_state (spi_readf chip_bus r m) s' =
     (int (unat (drop_bit (ffs m) (ucast (push_bit (ffs m) v AND m) AND ucast m :: u8))), s')" "e = 0"
  using assms by (auto simp: run_spi_writef run_spi_readf field_read and.assoc simp del: drop_bit_and)

text \<open>
  The settings a register can hold: reference scalers of at most four bits, and powers of
  two for the ADC; a bypassed FIR filter divides by one.
\<close>

definition scaler_exact :: "'c ad9361 \<Rightarrow> refclk_scale \<Rightarrow> bool" where
  "scaler_exact s c \<longleftrightarrow>
     (case sc_source c of
        BB_REFCLK \<Rightarrow> sc_mult c < 16 \<and> sc_div c < 16
      | RX_REFCLK \<Rightarrow> sc_mult c < 16 \<and> sc_div c < 16
      | TX_REFCLK \<Rightarrow> sc_mult c < 16 \<and> sc_div c < 16
      | ADC_CLK \<Rightarrow> sc_div c \<in> {2, 4, 8, 16, 32, 64}
      | RX_SAMPL_CLK \<Rightarrow> st_bypass_rx_fir s \<longrightarrow> sc_div c = 1
      | TX_SAMPL_CLK \<Rightarrow> st_bypass_tx_fir s \<longrightarrow> sc_div c = 1
      | PL_INTF_CLK \<Rightarrow> False
      | _ \<Rightarrow> True)"

lemma refclk_fields:
  assumes "a < 16" "b < 16" "push_bit 4 (a AND 0xF) OR (b AND 0xF) = k"
  shows "a = drop_bit 4 k \<and> b = (k AND 0xF :: u32)"
proof -
  have m: "0xF = (mask 4 :: u32)" by (simp add: mask_eq_exp_minus_1)
  have "a AND mask 4 = a" "b AND mask 4 = b"
    using assms(1,2) by (simp_all add: less_mask_eq)
  then have small: "bit a i \<Longrightarrow> i < 4" "bit b i \<Longrightarrow> i < 4" for i
    by (metis bit_and_iff bit_mask_iff)+
  show ?thesis
    unfolding assms(3) [symmetric] m
    by (auto intro!: bit_word_eqI simp: bit_simps) (use small in fastforce)+
qed

lemma to_refclk_scaler_cases:
  assumes "\<not> to_refclk_scaler c < 0" "sc_mult c < 16" "sc_div c < 16"
  shows "(to_refclk_scaler c = 0 \<and> sc_mult c = 1 \<and> sc_div c = 1) \<or> (to_refclk_scaler c = 1 \<and> sc_mult c = 1 \<and> sc_div c = 2) \<or>
    (to_refclk_scaler c = 2 \<and> sc_mult c = 1 \<and> sc_div c = 4) \<or> (to_refclk_scaler c = 3 \<and> sc_mult c = 2 \<and> sc_div c = 1)"
proof -
  obtain k where k: "push_bit 4 (sc_mult c AND 0xF) OR (sc_div c AND 0xF) = k" by blast
  have f: "sc_mult c = drop_bit 4 k" "sc_div c = k AND 0xF"
    using refclk_fields [OF assms(2,3) k] by auto
  have r: "to_refclk_scaler c = (if k = 0x11 then 0 else if k = 0x12 then 1 else if k = 0x14 then 2
      else if k = 0x21 then 3 else - 22)"
    unfolding to_refclk_scaler_def k Let_def ..
  then have "k = 0x11 \<or> k = 0x12 \<or> k = 0x14 \<or> k = 0x21" using assms(1) by (auto split: if_splits)
  then show ?thesis using r f by (elim disjE) simp_all
qed

lemma scale_eq [simp]: "sc_mult c = a \<Longrightarrow> sc_div c = b \<Longrightarrow> c\<lparr>sc_mult := a, sc_div := b\<rparr> = c"
  by auto

lemma muldiv_back: "sc_mult c = a \<Longrightarrow> sc_div c = b \<Longrightarrow> set_muldiv a b (c\<lparr>sc_mult := x, sc_div := y\<rparr>) = (0, c)"
  by (auto simp: set_muldiv_def)

text \<open>The plain dividers: what is written is the divisor less one.\<close>

lemma divider_roundtrip:
  assumes "m \<noteq> 0" "run_state (spi_writef chip_bus r m (d - 1)) s = (0, s')"
    and "ucast (drop_bit (ffs m) (ucast (push_bit (ffs m) (d - 1) AND m) AND ucast m :: u8)) + 1 = (d :: u32)"
  shows "run_state (do { tmp \<leftarrow> do { v \<leftarrow> spi_readf chip_bus r m; State_Monad.return (word_of_int v :: u32) };
      State_Monad.return (set_muldiv 1 (tmp + 1) c) }) s' = (set_muldiv 1 d c, s')"
  using run_readf_writef [OF assms(1,2)] assms(3) by simp

text \<open>The register, the field and the largest divisor of the plain dividers.\<close>

fun clk_divider :: "ad9361_clocks \<Rightarrow> (u32 \<times> u32 \<times> u32) option" where
  "clk_divider R2_CLK = Some (REG_RX_ENABLE_FILTER_CTRL, 0x30, 3)"
| "clk_divider R1_CLK = Some (REG_RX_ENABLE_FILTER_CTRL, 8, 2)"
| "clk_divider CLKRF_CLK = Some (REG_RX_ENABLE_FILTER_CTRL, 4, 2)"
| "clk_divider DAC_CLK = Some (REG_BBPLL, 8, 2)"
| "clk_divider T2_CLK = Some (REG_TX_ENABLE_FILTER_CTRL, 0x30, 3)"
| "clk_divider T1_CLK = Some (REG_TX_ENABLE_FILTER_CTRL, 8, 2)"
| "clk_divider CLKTF_CLK = Some (REG_TX_ENABLE_FILTER_CTRL, 4, 2)"
| "clk_divider _ = None"

lemma set_divider:
  "clk_divider (sc_source c) = Some (r, m, hi) \<Longrightarrow> set_clk_scaler bus c True =
     (if sc_mult c \<noteq> 1 \<or> hi < sc_div c \<or> sc_div c < 1 then State_Monad.return (- 22)
      else spi_writef bus r m (sc_div c - 1))"
  by (cases "sc_source c") (auto simp: set_clk_scaler_def clk_masks Let_def)

lemma get_divider:
  "clk_divider (sc_source c) = Some (r, m, hi) \<Longrightarrow> get_clk_scaler bus c = do {
      tmp \<leftarrow> do { v \<leftarrow> spi_readf bus r m; State_Monad.return (word_of_int v :: u32) };
      State_Monad.return (set_muldiv 1 (tmp + 1) c) }"
  by (cases "sc_source c") (auto simp: get_clk_scaler_def clk_masks Let_def)

lemma divider_field:
  "clk_divider k = Some (r, m, hi) \<Longrightarrow> \<not> hi < d \<Longrightarrow> \<not> d < 1 \<Longrightarrow>
   m \<noteq> 0 \<and> ucast (drop_bit (ffs m) (ucast (push_bit (ffs m) (d - 1) AND m) AND ucast m :: u8)) + 1 = (d :: u32)"
  using u32_le_cases [of d] by (cases k) (auto simp: ffs_values)

lemma roundtrip_divider:
  assumes "clk_divider (sc_source c) = Some (r, m, hi)" "run_state (set_clk_scaler chip_bus c True) s = (0, s')"
  shows "run_state (get_clk_scaler chip_bus (c\<lparr>sc_mult := x, sc_div := y\<rparr>)) s' = ((0, c), s')"
proof -
  have c: "sc_mult c = 1" "\<not> hi < sc_div c" "\<not> sc_div c < 1"
    "run_state (spi_writef chip_bus r m (sc_div c - 1)) s = (0, s')"
    using assms(2) unfolding set_divider [OF assms(1)] by (auto split: if_splits)
  note f = divider_field [OF assms(1) c(2,3)]
  have g: "clk_divider (sc_source (c\<lparr>sc_mult := x, sc_div := y\<rparr>)) = Some (r, m, hi)" using assms(1) by simp
  show ?thesis
    unfolding get_divider [OF g] using divider_roundtrip [of m r "sc_div c" s s' "c\<lparr>sc_mult := x, sc_div := y\<rparr>"] f c(4)
    by (simp add: muldiv_back c(1))
qed

text \<open>The FIR decimation fields.\<close>

lemma fir_field:
  fixes d :: u32
  assumes "\<not> 4 < d" "\<not> d < 1" "d \<noteq> 3" "bypass \<longrightarrow> d = 1"
  shows "fir_factor (ucast (drop_bit 0 (ucast (push_bit 0 (if bypass then 0 else word_of_int (ilog2 d + 1) :: u32) AND 3) AND 3 :: u8))) = d"
proof -
  have "ilog2 1 = 0" "ilog2 2 = 1" "ilog2 4 = 2" by code_simp+
  then show ?thesis using assms u32_le_cases(3) [of d] by (auto simp: fir_factor_def)
qed

lemma run_set_field:
  "run_state (spi_writef chip_bus r m v) s = (0, s') \<Longrightarrow> m \<noteq> 0 \<Longrightarrow>
   s' = set_reg r ((get_reg s r AND NOT (ucast m)) OR ucast (push_bit (ffs m) v AND m)) s"
  by (simp add: run_spi_writef)

lemma roundtrip_fir:
  assumes src: "sc_source c = RX_SAMPL_CLK \<or> sc_source c = TX_SAMPL_CLK"
    and set: "run_state (set_clk_scaler chip_bus c True) s = (0, s')" and ex: "scaler_exact s c"
  shows "run_state (get_clk_scaler chip_bus (c\<lparr>sc_mult := x, sc_div := y\<rparr>)) s' = ((0, c), s')"
proof -
  define r where "r = (if sc_source c = RX_SAMPL_CLK then REG_RX_ENABLE_FILTER_CTRL else REG_TX_ENABLE_FILTER_CTRL)"
  define b where "b = (if sc_source c = RX_SAMPL_CLK then st_bypass_rx_fir s else st_bypass_tx_fir s)"
  define v where "v = (if b then 0 else word_of_int (ilog2 (sc_div c) + 1) :: u32)"
  have c: "sc_mult c = 1" "\<not> 4 < sc_div c" "\<not> sc_div c < 1" "sc_div c \<noteq> 3"
    "run_state (spi_writef chip_bus r 3 v) s = (0, s')"
    using src set by (auto simp: set_clk_scaler_def clk_masks Let_def r_def b_def v_def split: if_splits)
  have b: "b \<longrightarrow> sc_div c = 1" using src ex by (auto simp: scaler_exact_def b_def)
  have rd: "run_state (spi_readf chip_bus r 3) s' = (int (unat (drop_bit 0 (ucast (push_bit 0 v AND 3) AND 3 :: u8))), s')"
    using run_readf_writef(1) [OF _ c(5)] by (simp add: ffs_values)
  have f: "fir_factor (ucast (drop_bit 0 (ucast (push_bit 0 v AND 3) AND 3 :: u8))) = sc_div c"
    using fir_field [OF c(2-4) b] by (simp only: v_def)
  have "get_clk_scaler chip_bus (c\<lparr>sc_mult := x, sc_div := y\<rparr>) = do {
      tmp \<leftarrow> do { v \<leftarrow> spi_readf chip_bus r 3; State_Monad.return (word_of_int v :: u32) };
      State_Monad.return (set_muldiv 1 (fir_factor tmp) (c\<lparr>sc_mult := x, sc_div := y\<rparr>)) }"
    using src by (auto simp: get_clk_scaler_def clk_masks Let_def r_def)
  then show ?thesis by (simp only: run_state_bind run_state_return rd prod.case word_of_byte f muldiv_back [OF c(1) refl])
qed

lemma roundtrip_adc:
  assumes src: "sc_source c = ADC_CLK"
    and set: "run_state (set_clk_scaler chip_bus c True) s = (0, s')" and ex: "scaler_exact s c"
  shows "run_state (get_clk_scaler chip_bus (c\<lparr>sc_mult := x, sc_div := y\<rparr>)) s' = ((0, c), s')"
proof -
  have d: "sc_div c \<in> {2, 4, 8, 16, 32, 64}" using ex src by (simp add: scaler_exact_def)
  have il: "ilog2 2 = 1" "ilog2 4 = 2" "ilog2 8 = 3" "ilog2 16 = 4" "ilog2 32 = 5" "ilog2 64 = 6"
    by code_simp+
  define v where "v = (word_of_int (ilog2 (sc_div c AND 0xFF)) :: u32)"
  have c: "sc_mult c = 1" "run_state (spi_writef chip_bus REG_BBPLL 7 v) s = (0, s')"
    using src set by (auto simp: set_clk_scaler_def Let_def v_def split: if_splits)
  have s': "s' = set_reg REG_BBPLL ((get_reg s REG_BBPLL AND NOT 7) OR ucast (push_bit 0 v AND 7)) s"
    using run_set_field [OF c(2)] by (simp add: ffs_values)
  have f: "push_bit (unat (ucast ((get_reg s REG_BBPLL AND NOT 7) OR ucast (push_bit 0 v AND 7)) AND 7 :: u32)) 1 = sc_div c"
    using field_read_ucast [of "get_reg s REG_BBPLL" 7 "ucast (push_bit 0 v AND 7)"] d il by (auto simp: v_def)
  show ?thesis
    using src f by (simp add: get_clk_scaler_def run_spi_read s' muldiv_back c(1))
qed

lemma roundtrip_refclk:
  assumes src: "sc_source c = BB_REFCLK \<or> sc_source c = RX_REFCLK \<or> sc_source c = TX_REFCLK"
    and set: "run_state (set_clk_scaler chip_bus c True) s = (0, s')" and ex: "scaler_exact s c"
  shows "run_state (get_clk_scaler chip_bus (c\<lparr>sc_mult := x, sc_div := y\<rparr>)) s' = ((0, c), s')"
proof -
  define k where "k = to_refclk_scaler c"
  have lt: "sc_mult c < 16" "sc_div c < 16" using src ex by (auto simp: scaler_exact_def)
  have nn: "\<not> k < 0" using src set by (auto simp: set_clk_scaler_def Let_def k_def split: if_splits)
  have k: "(k = 0 \<and> sc_mult c = 1 \<and> sc_div c = 1) \<or> (k = 1 \<and> sc_mult c = 1 \<and> sc_div c = 2) \<or>
      (k = 2 \<and> sc_mult c = 1 \<and> sc_div c = 4) \<or> (k = 3 \<and> sc_mult c = 2 \<and> sc_div c = 1)"
    unfolding k_def by (rule to_refclk_scaler_cases [OF nn [unfolded k_def] lt])
  have bk: "refclk_muldiv (word_of_int k) (c\<lparr>sc_mult := x, sc_div := y\<rparr>) = (0, c)"
    using k by (auto simp: refclk_muldiv_def set_muldiv_def)
  consider (bb) "sc_source c = BB_REFCLK" | (rx) "sc_source c = RX_REFCLK" | (tx) "sc_source c = TX_REFCLK"
    using src by blast
  then show ?thesis
  proof cases
    case bb
    then have s': "s' = set_reg REG_CLOCK_CTRL ((get_reg s REG_CLOCK_CTRL AND NOT 3) OR ucast (push_bit 0 (word_of_int k) AND 3 :: u32)) s"
      using set nn run_set_field [of REG_CLOCK_CTRL 3] by (simp add: set_clk_scaler_def Let_def k_def clk_masks ffs_values)
    have "ucast ((get_reg s REG_CLOCK_CTRL AND NOT 3) OR ucast (push_bit 0 (word_of_int k) AND 3 :: u32)) AND 3 = (word_of_int k :: u32)"
      using field_read_ucast [of "get_reg s REG_CLOCK_CTRL" 3 "ucast (push_bit 0 (word_of_int k) AND 3 :: u32)"] k by auto
    then show ?thesis using bb bk by (simp add: get_clk_scaler_def run_spi_read s')
  next
    case rx
    show ?thesis
      using rx set nn k bk clk_regs_differ
      by (elim disjE) (auto simp: set_clk_scaler_def get_clk_scaler_def Let_def k_def [symmetric] clk_masks ffs_values
          run_spi_writef run_spi_readf field_read and.assoc simp del: drop_bit_and)
  next
    case tx
    then have "run_state (spi_writef chip_bus REG_REF_DIVIDE_CONFIG_2 0xC (word_of_int k)) s = (0, s')"
      using set nn by (simp add: set_clk_scaler_def Let_def k_def clk_masks)
    from run_readf_writef(1) [OF _ this] show ?thesis
      using tx bk k by (auto simp: get_clk_scaler_def clk_masks ffs_values)
  qed
qed

lemma clk_scaler_readback:
  assumes set: "run_state (set_clk_scaler chip_bus c True) s = (0, s')" and ex: "scaler_exact s c"
  shows "run_state (get_clk_scaler chip_bus (c\<lparr>sc_mult := x, sc_div := y\<rparr>)) s' = ((0, c), s')"
proof (cases "clk_divider (sc_source c)")
  case (Some f)
  then show ?thesis using roundtrip_divider [OF _ set] by (cases f) simp
next
  case None
  then have "sc_source c \<in> {RX_SAMPL_CLK, TX_SAMPL_CLK, ADC_CLK, BB_REFCLK, RX_REFCLK, TX_REFCLK} \<or>
      set_clk_scaler chip_bus c True = State_Monad.return (- 22)"
    using ex by (cases "sc_source c") (auto simp: set_clk_scaler_def scaler_exact_def)
  then show ?thesis
    using roundtrip_fir [OF _ set ex] roundtrip_adc [OF _ set ex] roundtrip_refclk [OF _ set ex] set by auto
qed

text \<open>Asking first (\<open>wr\<close> false) gives the same verdict and touches nothing.\<close>

lemma set_clk_scaler_dry:
  "run_state (set_clk_scaler chip_bus c True) s = (0, s') \<Longrightarrow> run_state (set_clk_scaler chip_bus c False) s = (0, s)"
  by (cases "sc_source c") (auto simp: set_clk_scaler_def Let_def split: if_splits)

text \<open>
  What the registers hold after an accepted setting. It is the setting itself but for these:
  only four bits of each factor select a reference scaler; the ADC's divider is the power of
  two below it; a bypassed FIR filter divides by one; and the interface clock has no register,
  its factor follows from the channel mode and the bus.
\<close>

definition stored_scale :: "'c ad9361 \<Rightarrow> refclk_scale \<Rightarrow> refclk_scale" where
  "stored_scale s c =
     (let low4 = c\<lparr>sc_mult := sc_mult c AND 0xF, sc_div := sc_div c AND 0xF\<rparr>
      in case sc_source c of
           BB_REFCLK \<Rightarrow> low4
         | RX_REFCLK \<Rightarrow> low4
         | TX_REFCLK \<Rightarrow> low4
         | ADC_CLK \<Rightarrow> c\<lparr>sc_div := 2 ^ nat (ilog2 (sc_div c AND 0xFF))\<rparr>
         | RX_SAMPL_CLK \<Rightarrow> if st_bypass_rx_fir s then c\<lparr>sc_div := 1\<rparr> else c
         | TX_SAMPL_CLK \<Rightarrow> if st_bypass_tx_fir s then c\<lparr>sc_div := 1\<rparr> else c
         | PL_INTF_CLK \<Rightarrow> c\<lparr>sc_mult := push_bit (if ucast (pd_pp_conf2 s) AND LVDS_MODE \<noteq> 0 then 1 else 0)
                                          ((if uses_rx2tx2 s then 1 else 0) + 1), sc_div := 1\<rparr>
         | _ \<Rightarrow> c)"

lemma stored_source [simp]: "sc_source (stored_scale s c) = sc_source c"
  by (simp add: stored_scale_def Let_def split: ad9361_clocks.split)

lemma stored_refclk:
  assumes src: "sc_source c = BB_REFCLK \<or> sc_source c = RX_REFCLK \<or> sc_source c = TX_REFCLK"
  shows "set_clk_scaler bus (stored_scale s c) wr = set_clk_scaler bus c wr" "scaler_exact s (stored_scale s c)"
proof -
  let ?c = "c\<lparr>sc_mult := sc_mult c AND 0xF, sc_div := sc_div c AND 0xF\<rparr>"
  have st: "stored_scale s c = ?c" using src by (auto simp: stored_scale_def Let_def)
  have "to_refclk_scaler ?c = to_refclk_scaler c" by (simp add: to_refclk_scaler_def)
  then show "set_clk_scaler bus (stored_scale s c) wr = set_clk_scaler bus c wr"
    unfolding st using src by (elim disjE) (simp_all add: set_clk_scaler_def Let_def cong: if_cong)
  have "x AND 0xF < 16" for x :: u32
    using word_and_le1 [of x 15] by (rule le_less_trans) simp
  then show "scaler_exact s (stored_scale s c)" unfolding st using src by (auto simp: scaler_exact_def)
qed

lemma ilog2_range: "- 1 \<le> ilog2 x \<and> ilog2 x < 32"
proof -
  have "- 1 \<le> ilog2_from k x \<and> ilog2_from k x < int k" for k by (induction k) auto
  from this [of 32] show ?thesis by (simp add: ilog2_def)
qed

lemma ilog2_six:
  assumes "\<not> 6 < (word_of_int (ilog2 x) :: u32)" "\<not> word_of_int (ilog2 x) < (1 :: u32)"
  shows "ilog2 x \<in> {1, 2, 3, 4, 5, 6}"
proof (cases "ilog2 x = - 1")
  case True
  then show ?thesis using assms(1) by simp
next
  case False
  then have "0 \<le> ilog2 x" using ilog2_range [of x] by linarith
  then obtain k where k: "ilog2 x = int k" by (rule nonneg_int_cases)
  have "k < 32" using ilog2_range [of x] k by simp
  then have "unat (word_of_int (ilog2 x) :: u32) = k" using k by (simp add: unat_of_nat)
  then have "k \<le> 6" "1 \<le> k" using assms by (simp_all add: word_less_nat_alt)
  then show ?thesis using k by auto
qed

lemma stored_adc:
  assumes src: "sc_source c = ADC_CLK" and set: "run_state (set_clk_scaler chip_bus c True) s = (0, s')"
  shows "run_state (set_clk_scaler chip_bus (stored_scale s c) True) s = (0, s')" "scaler_exact s (stored_scale s c)"
proof -
  let ?l = "ilog2 (sc_div c AND 0xFF)"
  let ?c = "c\<lparr>sc_div := 2 ^ nat ?l\<rparr>"
  have st: "stored_scale s c = ?c" using src by (simp add: stored_scale_def Let_def)
  have "\<not> 6 < (word_of_int ?l :: u32)" "\<not> word_of_int ?l < (1 :: u32)"
    using src set by (auto simp: set_clk_scaler_def Let_def split: if_splits)
  then have l: "?l \<in> {1, 2, 3, 4, 5, 6}" by (rule ilog2_six)
  have il: "ilog2 2 = 1" "ilog2 4 = 2" "ilog2 8 = 3" "ilog2 16 = 4" "ilog2 32 = 5" "ilog2 64 = 6"
    by code_simp+
  have same: "ilog2 (2 ^ nat ?l AND 0xFF) = ?l" using l il by auto
  have "set_clk_scaler chip_bus ?c True = set_clk_scaler chip_bus c True"
    using src by (simp add: set_clk_scaler_def Let_def same)
  then show "run_state (set_clk_scaler chip_bus (stored_scale s c) True) s = (0, s')" using set st by simp
  show "scaler_exact s (stored_scale s c)" unfolding st using src l by (auto simp: scaler_exact_def)
qed

lemma stored_fir:
  assumes src: "sc_source c = RX_SAMPL_CLK \<or> sc_source c = TX_SAMPL_CLK"
    and set: "run_state (set_clk_scaler chip_bus c True) s = (0, s')"
  shows "run_state (set_clk_scaler chip_bus (stored_scale s c) True) s = (0, s')" "scaler_exact s (stored_scale s c)"
proof -
  define b where "b = (if sc_source c = RX_SAMPL_CLK then st_bypass_rx_fir s else st_bypass_tx_fir s)"
  define r where "r = (if sc_source c = RX_SAMPL_CLK then REG_RX_ENABLE_FILTER_CTRL else REG_TX_ENABLE_FILTER_CTRL)"
  have st: "stored_scale s c = (if b then c\<lparr>sc_div := 1\<rparr> else c)"
    using src by (auto simp: stored_scale_def b_def)
  have run: "run_state (set_clk_scaler chip_bus c' True) s =
      run_state (if sc_mult c' \<noteq> 1 \<or> 4 < sc_div c' \<or> sc_div c' < 1 \<or> sc_div c' = 3 then State_Monad.return (- 22)
        else spi_writef chip_bus r 3 (if b then 0 else word_of_int (ilog2 (sc_div c') + 1))) s"
    if "sc_source c' = sc_source c" for c'
    using src that by (elim disjE) (simp_all add: set_clk_scaler_def Let_def clk_masks b_def r_def)
  show "run_state (set_clk_scaler chip_bus (stored_scale s c) True) s = (0, s')"
    using set run [of c] run [of "stored_scale s c"] unfolding st by (cases b) (simp_all split: if_splits)
  show "scaler_exact s (stored_scale s c)"
    unfolding st using src by (auto simp: scaler_exact_def b_def)
qed

text \<open>Every accepted setting reads back as what was stored.\<close>

lemma clk_scaler_stored:
  assumes set: "run_state (set_clk_scaler chip_bus c True) s = (0, s')"
  shows "run_state (get_clk_scaler chip_bus (c\<lparr>sc_mult := x, sc_div := y\<rparr>)) s' = ((0, stored_scale s c), s')"
proof -
  let ?c = "stored_scale s c"
  have fields: "?c\<lparr>sc_mult := x, sc_div := y\<rparr> = c\<lparr>sc_mult := x, sc_div := y\<rparr>"
    by (simp add: stored_scale_def Let_def split: ad9361_clocks.split)
  consider (pl) "sc_source c = PL_INTF_CLK" | (refclk) "sc_source c = BB_REFCLK \<or> sc_source c = RX_REFCLK \<or> sc_source c = TX_REFCLK"
    | (adc) "sc_source c = ADC_CLK" | (fir) "sc_source c = RX_SAMPL_CLK \<or> sc_source c = TX_SAMPL_CLK"
    | (plain) "stored_scale s c = c" "scaler_exact s c"
    by (cases "sc_source c") (auto simp: stored_scale_def scaler_exact_def Let_def)
  then show ?thesis
  proof cases
    case pl
    then have "s' = s" using set by (simp add: set_clk_scaler_def)
    then show ?thesis using pl by (simp add: get_clk_scaler_def stored_scale_def set_muldiv_def Let_def)
  next
    case refclk
    show ?thesis
      using clk_scaler_readback [where c = ?c and s = s and s' = s' and x = x and y = y] set
        stored_refclk(1) [OF refclk, of chip_bus s True] stored_refclk(2) [OF refclk, of s]
      unfolding fields by simp
  next
    case adc
    show ?thesis using clk_scaler_readback [OF stored_adc [OF adc set], where x = x and y = y] unfolding fields .
  next
    case fir
    show ?thesis using clk_scaler_readback [OF stored_fir [OF fir set], where x = x and y = y] unfolding fields .
  next
    case plain
    show ?thesis using clk_scaler_readback [OF set plain(2)] unfolding plain(1) .
  qed
qed

text \<open>The settings that are accepted and stored as others, and that every other is stored as it is.\<close>

lemma stored_otherwise:
  "stored_scale s \<lparr>sc_mult = 1, sc_div = 3, sc_source = ADC_CLK\<rparr> = \<lparr>sc_mult = 1, sc_div = 2, sc_source = ADC_CLK\<rparr>"
  "st_bypass_rx_fir s \<Longrightarrow>
     stored_scale s \<lparr>sc_mult = 1, sc_div = 2, sc_source = RX_SAMPL_CLK\<rparr> = \<lparr>sc_mult = 1, sc_div = 1, sc_source = RX_SAMPL_CLK\<rparr>"
  "stored_scale s \<lparr>sc_mult = 1, sc_div = 17, sc_source = BB_REFCLK\<rparr> = \<lparr>sc_mult = 1, sc_div = 1, sc_source = BB_REFCLK\<rparr>"
proof -
  have "ilog2 3 = 1" by code_simp
  then show "stored_scale s \<lparr>sc_mult = 1, sc_div = 3, sc_source = ADC_CLK\<rparr> = \<lparr>sc_mult = 1, sc_div = 2, sc_source = ADC_CLK\<rparr>"
    by (simp add: stored_scale_def)
qed (simp_all add: stored_scale_def)

lemma stored_exact: "scaler_exact s c \<Longrightarrow> stored_scale s c = c"
proof -
  assume ex: "scaler_exact s c"
  have il: "ilog2 2 = 1" "ilog2 4 = 2" "ilog2 8 = 3" "ilog2 16 = 4" "ilog2 32 = 5" "ilog2 64 = 6"
    by code_simp+
  have m: "x < 16 \<Longrightarrow> x AND 0xF = x" for x :: u32
    using less_mask_eq [of x 4] by (simp add: mask_eq_exp_minus_1)
  have "sc_source c = ADC_CLK \<Longrightarrow> 2 ^ nat (ilog2 (sc_div c AND 0xFF)) = sc_div c"
    using ex il by (auto simp: scaler_exact_def)
  then show ?thesis
    using ex m by (auto simp: stored_scale_def scaler_exact_def Let_def split: ad9361_clocks.split)
qed

lemma rate_muldiv_one:
  "rate_muldiv rate p c = Some c1 \<Longrightarrow> sc_mult c1 = 1 \<or> sc_div c1 = 1"
  by (auto simp: rate_muldiv_def split: if_splits bind_splits)

lemma rate_muldiv_source: "rate_muldiv rate p c = Some c1 \<Longrightarrow> sc_source c1 = sc_source c"
  by (auto simp: rate_muldiv_def split: if_splits bind_splits)

lemma muldiv_rate_agrees:
  fixes p m d :: u32
  assumes "m = 1 \<or> d = 1" "unat p * unat m < 2147483648"
  shows "sint (p div d * m) = int (unat (p * m div d))"
proof -
  have eq: "p div d * m = p * m div d" using assms(1) by auto
  have pm: "unat (p * m) = unat p * unat m" using assms(2) by (simp add: unat_times_lt)
  have "unat p * unat m div unat d \<le> unat p * unat m" by simp
  then have "unat (p * m div d) < 2147483648"
    using assms(2) unfolding unat_div_distrib pm by linarith
  then show ?thesis unfolding eq by (rule sint_eq_unat)
qed

text \<open>
  C23. Clock factors. When a rate was set, the register file accepting it, the clock's scaler
  reads back as \<open>stored_scale\<close> of the factors chosen, and the rate recalculated is the parent's
  times and over those; rounding beforehand writes nothing and promises the parent's rate over
  and times the factors chosen. Where those factors are stored as they are (all but the cases of
  \<open>stored_scale\<close>: a reference factor above 15, an ADC divider that is no power of two, a
  bypassed FIR filter, the interface clock) and the product does not overflow 31 bits, the rate
  recalculated is the one promised.
\<close>

theorem clk_factor_set_then_recalc:
  assumes "clk_factor_set_rate chip_bus rate p c = Some m" and "run_state m s = ((0, c1), s')"
  shows "\<exists>r. clk_factor_round_rate chip_bus rate p c = Some r \<and>
     run_state (get_clk_scaler chip_bus (c1\<lparr>sc_mult := x, sc_div := y\<rparr>)) s' = ((0, stored_scale s c1), s') \<and>
     run_state r s = ((sint (p div sc_div c1 * sc_mult c1), c1), s) \<and>
     fst (fst (run_state (clk_factor_recalc_rate chip_bus p c1) s')) =
       p * sc_mult (stored_scale s c1) div sc_div (stored_scale s c1) \<and>
     (stored_scale s c1 = c1 \<and> unat p * unat (sc_mult c1) < 2147483648 \<longrightarrow>
        fst (fst (run_state r s)) = int (unat (fst (fst (run_state (clk_factor_recalc_rate chip_bus p c1) s')))))"
proof -
  have md: "rate_muldiv rate p c = Some c1" and m: "run_state (set_clk_scaler chip_bus c1 True) s = (0, s')"
    using assms(1,2) by (auto simp: clk_factor_set_rate_def split: prod.splits)
  note bk = clk_scaler_stored [OF m]
  have "run_state (get_clk_scaler chip_bus c1) s' = ((0, stored_scale s c1), s')"
    using bk [where x = "sc_mult c1" and y = "sc_div c1"] by simp
  then have rc: "run_state (clk_factor_recalc_rate chip_bus p c1) s' =
      ((p * sc_mult (stored_scale s c1) div sc_div (stored_scale s c1), stored_scale s c1), s')"
    by (simp add: clk_factor_recalc_rate_def)
  have "unat p * unat (sc_mult c1) < 2147483648 \<Longrightarrow>
      sint (p div sc_div c1 * sc_mult c1) = int (unat (p * sc_mult c1 div sc_div c1))"
    by (rule muldiv_rate_agrees [OF rate_muldiv_one [OF md]])
  then show ?thesis
    using bk set_clk_scaler_dry [OF m] md rc by (simp add: clk_factor_round_rate_def)
qed

theorem clk_factor_set_then_recalc_witness:
  "fst (fst (run_state (clk_factor_recalc_rate chip_bus 1000000000
      \<lparr>sc_mult = 1, sc_div = 4, sc_source = ADC_CLK\<rparr>)
      (snd (run_state (set_clk_scaler chip_bus \<lparr>sc_mult = 1, sc_div = 4, sc_source = ADC_CLK\<rparr> True) ad_zero)))) =
   250000000"
proof -
  let ?c = "\<lparr>sc_mult = 0, sc_div = 0, sc_source = ADC_CLK\<rparr>"
  let ?c1 = "\<lparr>sc_mult = 1, sc_div = 4, sc_source = ADC_CLK\<rparr>"
  have md: "rate_muldiv 250000000 1000000000 ?c = Some ?c1" by code_simp
  obtain m where m: "clk_factor_set_rate chip_bus 250000000 1000000000 ?c = Some m"
    "m = do { ret \<leftarrow> set_clk_scaler chip_bus ?c1 True; State_Monad.return (ret, ?c1) }"
    by (simp add: clk_factor_set_rate_def md)
  obtain s' where s': "run_state (set_clk_scaler chip_bus ?c1 True) ad_zero = (0, s')"
  proof -
    have "ilog2 (4 AND 0xFF) = 2" by code_simp
    then show ?thesis using that by (simp add: set_clk_scaler_def Let_def run_spi_writef)
  qed
  have r: "run_state m ad_zero = ((0, ?c1), s')" using m(2) s' by simp
  have "stored_scale ad_zero ?c1 = ?c1" by (rule stored_exact) (simp add: scaler_exact_def)
  then have "fst (fst (run_state (clk_factor_recalc_rate chip_bus 1000000000 ?c1) s')) = 250000000"
    using clk_factor_set_then_recalc [OF m(1) r] by auto
  then show ?thesis by (simp add: s')
qed

subsection \<open>The baseband PLL\<close>

lemma run_cal_poll:
  "m \<noteq> 0 \<Longrightarrow> \<exists>e. run_state (cal_poll chip_bus r m d k) s = (e, s) \<and> (e = 0 \<or> e = - 110)"
  by (induction k) (auto simp: run_spi_readf)

lemma three_bytes:
  assumes "unat (f :: u32) < 16777216"
  shows "push_bit 16 (ucast (ucast (drop_bit 16 f) :: u8)) OR push_bit 8 (ucast (ucast (drop_bit 8 f) :: u8)) OR
    ucast (ucast f :: u8) = f"
proof (rule bit_word_eqI)
  fix n assume "n < LENGTH(32)"
  have small: "bit f n \<Longrightarrow> n < 24" using small_bits [of f 24 n] assms by simp
  consider "n < 8" | "8 \<le> n" "n < 16" | "16 \<le> n" "n < 24" | "24 \<le> n" by linarith
  then show "bit (push_bit 16 (ucast (ucast (drop_bit 16 f) :: u8)) OR push_bit 8 (ucast (ucast (drop_bit 8 f) :: u8)) OR
      ucast (ucast f :: u8) :: u32) n \<longleftrightarrow> bit f n"
    using small by cases (auto simp: bit_simps)
qed

lemma one_byte: "unat (x :: u32) < 256 \<Longrightarrow> ucast (ucast x :: u8) = x"
  using small_bits [of x 8] by (intro bit_word_eqI) (auto simp: bit_simps)

lemma unat_u64_of_u32 [simp]: "unat (ucast (x :: u32) :: u64) = unat x"
  by simp

lemma bbpll_words_nat:
  assumes "714928500 \<le> unat rate" "unat rate \<le> 1430143000" "5650000 \<le> unat p" "unat p \<le> 80008000"
    and w: "bbpll_words rate p = (integer, fract)"
  shows "unat integer = unat rate div unat p" "unat integer < 256"
    "unat fract = (unat rate mod unat p * 2088960 + unat p div 2) div unat p" "unat fract < 16777216"
proof -
  let ?r = "unat rate mod unat p"
  have r: "?r < unat p" using assms(3) by simp
  have "unat rate div unat p * 5650000 \<le> unat rate div unat p * unat p" using assms(3) by simp
  also have "\<dots> \<le> unat rate" by simp
  finally have Ib: "unat rate div unat p < 256" using assms(2) by linarith
  have q: "unat (ucast rate div ucast p :: u64) = unat rate div unat p" by (simp add: unat_div_distrib)
  show i: "unat integer = unat rate div unat p"
    using w Ib unat_ucast_u32 [of "ucast rate div ucast p"] q by (auto simp: bbpll_words_def Let_def)
  show "unat integer < 256" using i Ib by simp
  have rM: "?r * 2088960 < 80008000 * 2088960" using r assms(4) by simp
  have m: "unat (ucast rate mod ucast p * ucast BBPLL_MODULUS :: u64) = ?r * 2088960"
    using rM by (subst unat_times_lt) (simp_all add: BBPLL_MODULUS_def unat_mod_distrib)
  have h: "unat (drop_bit 1 p) = unat p div 2" unfolding unat_drop_bit_eq unfolding drop_bit_eq_div by simp
  have a: "unat (ucast rate mod ucast p * ucast BBPLL_MODULUS + ucast (drop_bit 1 p) :: u64) = ?r * 2088960 + unat p div 2"
    using rM assms(4) by (subst unat_plus_lt) (simp_all only: m h unat_u64_of_u32 unat_ucast_u64, simp)
  have F: "unat ((ucast rate mod ucast p * ucast BBPLL_MODULUS + ucast (drop_bit 1 p)) div ucast p :: u64) =
      (?r * 2088960 + unat p div 2) div unat p"
    unfolding unat_div_distrib a by simp
  have "?r * 2088960 + unat p div 2 < 16777216 * unat p"
  proof -
    have "?r * 2088960 \<le> unat p * 2088960" using r by simp
    moreover have "unat p div 2 \<le> unat p" by simp
    ultimately show ?thesis using assms(3) by linarith
  qed
  then have Fb: "(?r * 2088960 + unat p div 2) div unat p < 16777216"
    by (simp add: less_mult_imp_div_less)
  have "fract = ucast ((ucast rate mod ucast p * ucast BBPLL_MODULUS + ucast (drop_bit 1 p)) div ucast p :: u64)"
    using w by (simp add: bbpll_words_def Let_def)
  then show f: "unat fract = (?r * 2088960 + unat p div 2) div unat p"
    using unat_ucast_u32 [of "(ucast rate mod ucast p * ucast BBPLL_MODULUS + ucast (drop_bit 1 p)) div ucast p"] F Fb
    by simp
  show "unat fract < 16777216" using f Fb by simp
qed

lemma bbpll_addrs:
  "AD_ADDR REG_INTEGER_BB_FREQ_WORD = 0x44" "AD_ADDR REG_FRACT_BB_FREQ_WORD_3 = 0x43" "AD_ADDR REG_FRACT_BB_FREQ_WORD_2 = 0x42"
  "AD_ADDR REG_FRACT_BB_FREQ_WORD_1 = 0x41" "AD_ADDR REG_CP_CURRENT = 0x46" "AD_ADDR REG_LOOP_FILTER_3 = 0x4A"
  "AD_ADDR REG_VCO_CTRL = 0x4B" "AD_ADDR REG_SDM_CTRL = 0x4E" "AD_ADDR REG_SDM_CTRL_1 = 0x3F"
  "AD_ADDR REG_VCO_PROGRAM_1 = 0x4C" "AD_ADDR REG_VCO_PROGRAM_2 = 0x4D"
  "unat (REG_INTEGER_BB_FREQ_WORD - REG_FRACT_BB_FREQ_WORD_1 + 1) = 4"
  by code_simp+

text \<open>What the registers hold after the rate was set, lock or no lock.\<close>

lemma run_bbpll_set_rate:
  assumes "bbpll_set_rate chip_bus rate p = Some m" "bbpll_words rate p = (integer, fract)"
  shows "\<exists>e s'. run_state m s = (e, s') \<and> (e = 0 \<or> e = - 110) \<and> ad_chip s' 0x44 = ucast integer \<and>
     ad_chip s' 0x43 = ucast fract \<and> ad_chip s' 0x42 = ucast (drop_bit 8 fract) \<and> ad_chip s' 0x41 = ucast (drop_bit 16 fract)"
proof -
  have l: "BBPLL_LOCK \<noteq> 0" by (simp add: ad_regs)
  obtain icp where "m = (do {
       _ \<leftarrow> spi_write chip_bus REG_CP_CURRENT (word_of_int icp);
       _ \<leftarrow> spi_writem chip_bus REG_LOOP_FILTER_3 [0x35, 0x5B, 0xE8] 3;
       _ \<leftarrow> spi_write chip_bus REG_VCO_CTRL (FREQ_CAL_ENABLE OR FREQ_CAL_COUNT_LENGTH 3);
       _ \<leftarrow> spi_write chip_bus REG_SDM_CTRL 0x10;
       _ \<leftarrow> spi_write chip_bus REG_INTEGER_BB_FREQ_WORD integer;
       _ \<leftarrow> spi_write chip_bus REG_FRACT_BB_FREQ_WORD_3 fract;
       _ \<leftarrow> spi_write chip_bus REG_FRACT_BB_FREQ_WORD_2 (drop_bit 8 fract);
       _ \<leftarrow> spi_write chip_bus REG_FRACT_BB_FREQ_WORD_1 (drop_bit 16 fract);
       _ \<leftarrow> spi_write chip_bus REG_SDM_CTRL_1 (INIT_BB_FO_CAL OR BBPLL_RESET_BAR);
       _ \<leftarrow> spi_write chip_bus REG_SDM_CTRL_1 BBPLL_RESET_BAR;
       _ \<leftarrow> spi_write chip_bus REG_VCO_PROGRAM_1 0x86;
       _ \<leftarrow> spi_write chip_bus REG_VCO_PROGRAM_2 0x01;
       _ \<leftarrow> spi_write chip_bus REG_VCO_PROGRAM_2 0x05;
       check_cal_done chip_bus REG_CH_1_OVERFLOW BBPLL_LOCK 1 })"
    using assms by (auto simp: bbpll_set_rate_def)
  then have "\<exists>s2. run_state m s = run_state (cal_poll chip_bus REG_CH_1_OVERFLOW BBPLL_LOCK 1 5001) s2 \<and>
      ad_chip s2 0x44 = ucast integer \<and> ad_chip s2 0x43 = ucast fract \<and>
      ad_chip s2 0x42 = ucast (drop_bit 8 fract) \<and> ad_chip s2 0x41 = ucast (drop_bit 16 fract)"
    by (simp add: run_spi_write run_spi_writem check_cal_done_def set_reg_def bbpll_addrs numeral_3_eq_3)
       (intro exI conjI, rule refl, simp_all)
  then show ?thesis using run_cal_poll [OF l] by metis
qed

lemma bbpll_recalc_value:
  assumes "ad_chip s 0x44 = ucast (integer :: u32)" "ad_chip s 0x43 = ucast (fract :: u32)" "ad_chip s 0x42 = ucast (drop_bit 8 fract)"
    "ad_chip s 0x41 = ucast (drop_bit 16 fract)" "unat integer < 256" "unat fract < 16777216"
  shows "fst (run_state (bbpll_recalc_rate chip_bus p) s) =
     ucast (ucast p * ucast fract div ucast BBPLL_MODULUS + ucast p * ucast integer :: u64)"
proof -
  have "map (\<lambda>i. ad_chip s (0x44 - of_nat i)) [0..<4] =
      [ad_chip s 0x44, ad_chip s 0x43, ad_chip s 0x42, ad_chip s 0x41]"
    by (simp add: upt_rec)
  then show ?thesis
    using three_bytes [OF assms(6)] one_byte [OF assms(5)] assms(1-4)
    by (simp add: bbpll_recalc_rate_def run_spi_readm bbpll_addrs Let_def)
qed

lemma bbpll_limits: "unat MIN_BBPLL_FREQ = 714928500" "unat MAX_BBPLL_FREQ = 1430143000"
  by (simp_all add: ad_regs)

lemma bbpll_round_value:
  assumes "714928500 \<le> unat rate" "unat rate \<le> 1430143000" "5650000 \<le> unat p" "unat p \<le> 80008000"
    and w: "bbpll_words rate p = (integer, fract)"
  defines "v \<equiv> (ucast p * ucast fract div ucast BBPLL_MODULUS + ucast p * ucast integer :: u64)"
  shows "bbpll_round_rate rate p = Some (ucast v)" "unat v \<le> unat rate + 25" "unat rate \<le> unat v + 25"
    "unat (ucast v :: u32) = unat v"
proof -
  note n = bbpll_words_nat [OF assms(1-4) w]
  let ?r = "unat rate mod unat p"
  have split: "unat rate = ?r + unat p * unat integer" unfolding n(1) by simp
  have pi: "unat p * unat integer \<le> 1430143000" using split assms(2) by linarith
  have pf: "unat p * unat fract \<le> 80008000 * 16777216" using n(4) assms(4) by (intro mult_mono) auto
  have 1: "unat (ucast p * ucast fract :: u64) = unat p * unat fract"
    using pf by (subst unat_times_lt) simp_all
  have 2: "unat (ucast p * ucast integer :: u64) = unat p * unat integer"
    using pi by (subst unat_times_lt) simp_all
  have 3: "unat (ucast (p * integer) :: u64) = unat p * unat integer"
    using pi by (simp add: unat_times_lt)
  have eq: "(ucast (p * integer) :: u64) = ucast p * ucast integer"
    using 2 3 by (intro word_unat_eq_iff [THEN iffD2]) simp
  have fe: "unat p * unat fract div 2088960 \<le> ?r + 20" "?r \<le> unat p * unat fract div 2088960 + 20"
    using fract_error [of "unat p" 2088960 20 ?r, folded n(3)] assms(3,4) by simp_all
  have sum: "unat p * unat fract div 2088960 + unat p * unat integer < 4294967296"
    using fe(1) split assms(2) by linarith
  have v: "unat v = unat p * unat fract div 2088960 + unat p * unat integer"
    using sum unfolding v_def
    by (subst unat_plus_lt) (simp_all add: unat_div_distrib 1 2 BBPLL_MODULUS_def)
  show "unat v \<le> unat rate + 25" "unat rate \<le> unat v + 25" unfolding v using fe split by linarith+
  show "unat (ucast v :: u32) = unat v" using sum v by (simp add: unat_ucast_u32)
  have p0: "p \<noteq> 0" using assms(3) by auto
  show "bbpll_round_rate rate p = Some (ucast v)"
    using assms(1,2) bbpll_limits p0 by (simp add: bbpll_round_rate_def word_nat w v_def eq)
qed

lemma bbpll_icp_some: "4096 \<le> unat p \<Longrightarrow> \<exists>i. bbpll_icp rate p = Some i"
proof -
  assume "4096 \<le> unat p"
  have d: "unat (drop_bit 7 p) = unat p div 128" unfolding unat_drop_bit_eq unfolding drop_bit_eq_div by simp
  have "unat p div 128 < 33554432" using unat_u32_lt [of p] by simp
  then have "unat (drop_bit 7 p * 32) = unat p div 128 * 32" using d by (subst unat_times_lt) simp_all
  moreover have "unat p div 128 \<noteq> 0" using \<open>4096 \<le> unat p\<close> by simp
  ultimately have "drop_bit 7 p * 32 \<noteq> 0" by (metis mult_is_0 unat_0 zero_neq_numeral)
  then show ?thesis by (simp add: bbpll_icp_def Let_def)
qed

text \<open>
  The baseband PLL. For every rate in its range and every reference clock from 5.65 to
  80.008 MHz, setting the rate writes registers from which recalculation reads back exactly
  the rate that rounding announced, and that rate is within 25 Hz of the one asked for,
  whether or not the lock is seen in time.
\<close>

theorem bbpll_set_then_recalc:
  assumes "MIN_BBPLL_FREQ \<le> rate" "rate \<le> MAX_BBPLL_FREQ" "5650000 \<le> unat p" "unat p \<le> 80008000"
  shows "\<exists>m e s' r. bbpll_set_rate chip_bus rate p = Some m \<and> run_state m s = (e, s') \<and> (e = 0 \<or> e = - 110) \<and>
     bbpll_round_rate rate p = Some r \<and> fst (run_state (bbpll_recalc_rate chip_bus p) s') = r \<and>
     unat r \<le> unat rate + 25 \<and> unat rate \<le> unat r + 25"
proof -
  have lim: "714928500 \<le> unat rate" "unat rate \<le> 1430143000"
    using assms(1,2) bbpll_limits by (simp_all add: word_nat)
  obtain integer fract where w: "bbpll_words rate p = (integer, fract)" by (cases "bbpll_words rate p")
  note n = bbpll_words_nat [OF lim assms(3,4) w] and v = bbpll_round_value [OF lim assms(3,4) w]
  obtain i where "bbpll_icp rate p = Some i" using bbpll_icp_some assms(3) by fastforce
  then obtain m where m: "bbpll_set_rate chip_bus rate p = Some m" by (simp add: bbpll_set_rate_def)
  obtain e s' where s': "run_state m s = (e, s')" "e = 0 \<or> e = - 110" "ad_chip s' 0x44 = ucast integer"
    "ad_chip s' 0x43 = ucast fract" "ad_chip s' 0x42 = ucast (drop_bit 8 fract)" "ad_chip s' 0x41 = ucast (drop_bit 16 fract)"
    using run_bbpll_set_rate [OF m w, of s] by blast
  note rc = bbpll_recalc_value [OF s'(3-6) n(2,4), of p]
  show ?thesis using m s'(1,2) v rc by auto
qed

theorem bbpll_set_then_recalc_witness:
  "\<exists>m e s'. bbpll_set_rate chip_bus 983040000 40000000 = Some m \<and> run_state m ad_zero = (e, s') \<and>
     unat (fst (run_state (bbpll_recalc_rate chip_bus 40000000) s')) \<le> unat (983040000 :: u32) + 25"
  using bbpll_set_then_recalc [of 983040000 40000000 ad_zero] by (auto simp: ad_regs)

end
