(* ===== verification/Ad_Ensm.thy ===== *)
theory Ad_Ensm
  imports Ad_Rf
begin

unbundle bit_operations_syntax

text \<open>
  The enable state machine of the AD9361 as the driver moves it: forcing a state around a
  calibration and restoring it, moving to a state on request with the checks of the duplex
  mode, and the mode registers.
\<close>

subsection \<open>Forcing and restoring a state\<close>

definition ensm_get_state :: "'c bus \<Rightarrow> ('c ad9361, u8) state" where
  "ensm_get_state bus = do {
     v \<leftarrow> spi_readf bus REG_STATE (ENSM_STATE (- 1));
     rtn (word_of_int v)
   }"

text \<open>The bits that ask for a state; \<open>None\<close> for a state the switch does not handle.\<close>

definition force_bits :: "u8 \<Rightarrow> u32 \<Rightarrow> u32 option" where
  "force_bits ensm_state val =
     (if ensm_state = ucast ENSM_STATE_TX \<or> ensm_state = ucast ENSM_STATE_FDD then Some (val OR FORCE_TX_ON)
      else if ensm_state = ucast ENSM_STATE_RX then Some (val OR FORCE_RX_ON)
      else if ensm_state = ucast ENSM_STATE_ALERT then
        Some ((val AND NOT (FORCE_TX_ON OR FORCE_RX_ON)) OR (TO_ALERT OR FORCE_ALERT_STATE))
      else None)"

definition ensm_force_state :: "'c bus \<Rightarrow> u8 \<Rightarrow> ('c ad9361, unit) state" where
  "ensm_force_state bus ensm_state = do {
     dev_ensm_state \<leftarrow> ensm_get_state bus;
     _ \<leftarrow> upd_phy (\<lambda>s. s\<lparr>st_prev_ensm_state := dev_ensm_state\<rparr>);
     if dev_ensm_state = ensm_state then rtn ()
     else do {
       v \<leftarrow> spi_read bus REG_ENSM_CONFIG_1;
       let val = (word_of_int v :: u32);
       let pin = (val AND ENABLE_ENSM_PIN_CTRL \<noteq> 0);
       let val = (if pin then val AND NOT ENABLE_ENSM_PIN_CTRL else val);
       _ \<leftarrow> upd_phy (\<lambda>s. s\<lparr>st_ensm_pin_ctl_en := pin\<rparr>);
       let val = (if dev_ensm_state \<noteq> 0 then val AND NOT TO_ALERT else val);
       case force_bits ensm_state val of
         None \<Rightarrow> rtn ()
       | Some val \<Rightarrow> do {
           _ \<leftarrow> spi_write bus REG_ENSM_CONFIG_1 (TO_ALERT OR FORCE_ALERT_STATE);
           _ \<leftarrow> spi_write bus REG_ENSM_CONFIG_1 val;
           rtn ()
         }
     }
   }"

definition restore_bits :: "u8 \<Rightarrow> u32 \<Rightarrow> u32 option" where
  "restore_bits ensm_state val =
     (if ensm_state = ucast ENSM_STATE_TX \<or> ensm_state = ucast ENSM_STATE_FDD then Some (val OR FORCE_TX_ON)
      else if ensm_state = ucast ENSM_STATE_RX then Some (val OR FORCE_RX_ON)
      else if ensm_state = ucast ENSM_STATE_ALERT then Some (val OR TO_ALERT)
      else None)"

definition ensm_restore_state :: "'c bus \<Rightarrow> u8 \<Rightarrow> ('c ad9361, unit) state" where
  "ensm_restore_state bus ensm_state = do {
     v \<leftarrow> spi_read bus REG_ENSM_CONFIG_1;
     let val = ((word_of_int v AND NOT (FORCE_TX_ON OR FORCE_RX_ON OR FORCE_ALERT_STATE)) OR TO_ALERT :: u32);
     case restore_bits ensm_state val of
       None \<Rightarrow> rtn ()
     | Some val \<Rightarrow> do {
         _ \<leftarrow> spi_write bus REG_ENSM_CONFIG_1 (TO_ALERT OR FORCE_ALERT_STATE);
         rc \<leftarrow> spi_write bus REG_ENSM_CONFIG_1 val;
         if rc \<noteq> 0 then rtn ()
         else do {
           s \<leftarrow> get_phy;
           if st_ensm_pin_ctl_en s then do {
             _ \<leftarrow> spi_write bus REG_ENSM_CONFIG_1 (val OR ENABLE_ENSM_PIN_CTRL);
             rtn ()
           } else rtn ()
         }
       }
   }"

definition ensm_restore_prev_state :: "'c bus \<Rightarrow> ('c ad9361, unit) state" where
  "ensm_restore_prev_state bus = do {
     s \<leftarrow> get_phy;
     ensm_restore_state bus (st_prev_ensm_state s)
   }"

subsection \<open>Moving to a state\<close>

definition xo_bypass :: "'c ad9361 \<Rightarrow> u32" where
  "xo_bypass s = (if pd_use_extclk s then XO_BYPASS else 0)"

definition ensm_wake :: "'c bus \<Rightarrow> ('c ad9361, unit) state" where
  "ensm_wake bus = do {
     s \<leftarrow> get_phy;
     _ \<leftarrow> spi_write bus REG_CLOCK_ENABLE (DIGITAL_POWER_UP OR CLOCK_ENABLE_DFLT OR BBPLL_ENABLE OR xo_bypass s);
     _ \<leftarrow> spi_write bus REG_ENSM_CONFIG_1 (TO_ALERT OR FORCE_ALERT_STATE);
     _ \<leftarrow> trx_vco_cal_control bus False True;
     _ \<leftarrow> trx_vco_cal_control bus True True;
     rtn ()
   }"

text \<open>\<open>adc_rate\<close> is the rate of the ADC clock the flush delay is divided by.\<close>

definition ensm_sleep :: "'c bus \<Rightarrow> ulong \<Rightarrow> ('c ad9361, int option) state" where
  "ensm_sleep bus adc_rate = do {
     s \<leftarrow> get_phy;
     _ \<leftarrow> trx_vco_cal_control bus False False;
     _ \<leftarrow> trx_vco_cal_control bus True False;
     _ \<leftarrow> spi_write bus REG_ENSM_CONFIG_1 0;
     _ \<leftarrow> spi_write bus REG_ENSM_CONFIG_1 (if pd_fdd s then FORCE_TX_ON else FORCE_RX_ON);
     if adc_rate = 0 then rtn None
     else do {
       _ \<leftarrow> spi_write bus REG_ENSM_CONFIG_1 0;
       _ \<leftarrow> spi_write bus REG_CLOCK_ENABLE (xo_bypass s);
       _ \<leftarrow> upd_phy (\<lambda>s. s\<lparr>st_curr_ensm_state := ucast ENSM_STATE_SLEEP\<rparr>);
       rtn (Some 0)
     }
   }"

definition ensm_base :: "bool \<Rightarrow> 'c ad9361 \<Rightarrow> u32" where
  "ensm_base pinctrl s =
     (if pd_ensm_pin_pulse_mode s then 0 else LEVEL_MODE) OR (if pinctrl then ENABLE_ENSM_PIN_CTRL else 0) OR
     (if st_txmon_tdd_en s then ENABLE_RX_DATA_PORT_FOR_CAL else 0) OR TO_ALERT"

text \<open>The switch: the bits of the request and its check; \<open>None\<close> for a state it does not handle.\<close>

definition ensm_request :: "u8 \<Rightarrow> 'c ad9361 \<Rightarrow> u32 \<Rightarrow> (u32 \<times> int) option" where
  "ensm_request ensm_state s val =
     (let einval = (if pd_fdd s \<or> st_curr_ensm_state s \<noteq> ucast ENSM_STATE_ALERT then - 22 else 0) in
      if ensm_state = ucast ENSM_STATE_TX then Some (val OR FORCE_TX_ON, einval)
      else if ensm_state = ucast ENSM_STATE_RX then Some (val OR FORCE_RX_ON, einval)
      else if ensm_state = ucast ENSM_STATE_FDD then Some (val OR FORCE_TX_ON, if pd_fdd s then 0 else - 22)
      else if ensm_state = ucast ENSM_STATE_ALERT then
        Some ((val AND NOT (FORCE_TX_ON OR FORCE_RX_ON)) OR (TO_ALERT OR FORCE_ALERT_STATE), 0)
      else if ensm_state = ucast ENSM_STATE_SLEEP_WAIT then Some (val, 0)
      else None)"

text \<open>With one synthesizer for both directions: switch it over and wait for its lock.\<close>

definition ensm_single_synth :: "'c bus \<Rightarrow> u8 \<Rightarrow> bool \<Rightarrow> ('c ad9361, unit) state" where
  "ensm_single_synth bus ensm_state pinctrl = do {
     s \<leftarrow> get_phy;
     let tx = (ensm_state = ucast ENSM_STATE_TX);
     if \<not> pd_fdd s \<and> \<not> pinctrl \<and> \<not> pd_tdd_use_dual_synth s \<and> (tx \<or> ensm_state = ucast ENSM_STATE_RX) then do {
       let check = (if tx then ucast (st_cached_synth_pd0 s) AND TX_SYNTH_VCO_POWER_DOWN = 0
                    else ucast (st_cached_synth_pd1 s) AND RX_SYNTH_VCO_POWER_DOWN = 0);
       _ \<leftarrow> spi_writef bus REG_ENSM_CONFIG_2 TXNRX_SPI_CTRL (if tx then 1 else 0);
       if check then do {
         _ \<leftarrow> check_cal_done bus (if tx then REG_TX_CP_OVERRANGE_VCO_LOCK else REG_RX_CP_OVERRANGE_VCO_LOCK) VCO_LOCK 1;
         rtn ()
       } else rtn ()
     } else rtn ()
   }"

text \<open>In manual gain mode the peak detectors are reset when the receiver starts.\<close>

definition ensm_reset_detectors :: "'c bus \<Rightarrow> u32 \<Rightarrow> ('c ad9361, unit) state" where
  "ensm_reset_detectors bus val = do {
     s \<leftarrow> get_phy;
     if val AND FORCE_RX_ON \<noteq> 0 \<and> (st_agc_mode0 s = RF_GAIN_MGC \<or> st_agc_mode1 s = RF_GAIN_MGC) then do {
       v \<leftarrow> spi_read bus REG_SMALL_LMT_OVERLOAD_THRESH;
       let tmp = (word_of_int v AND SMALL_LMT_OVERLOAD_THRESH (- 1) :: u32);
       _ \<leftarrow> spi_write bus REG_SMALL_LMT_OVERLOAD_THRESH
              (tmp OR (if st_agc_mode0 s = RF_GAIN_MGC then FORCE_PD_RESET_RX1 else 0) OR
                (if st_agc_mode1 s = RF_GAIN_MGC then FORCE_PD_RESET_RX2 else 0));
       _ \<leftarrow> spi_write bus REG_SMALL_LMT_OVERLOAD_THRESH tmp;
       rtn ()
     } else rtn ()
   }"

definition ensm_set_state :: "'c bus \<Rightarrow> ulong \<Rightarrow> u8 \<Rightarrow> bool \<Rightarrow> ('c ad9361, int option) state" where
  "ensm_set_state bus adc_rate ensm_state pinctrl = do {
     s \<leftarrow> get_phy;
     _ \<leftarrow> if st_curr_ensm_state s = ucast ENSM_STATE_SLEEP then ensm_wake bus else rtn ();
     if ensm_state = ucast ENSM_STATE_SLEEP then ensm_sleep bus adc_rate
     else (case ensm_request ensm_state s (ensm_base pinctrl s) of
         None \<Rightarrow> rtn (Some 0)
       | Some (val, rc) \<Rightarrow>
           if rc \<noteq> 0 \<and> (st_curr_ensm_state s = ucast ENSM_STATE_ALERT \<or> val AND (FORCE_RX_ON OR FORCE_TX_ON) = 0)
           then rtn (Some rc)
           else do {
             _ \<leftarrow> if rc \<noteq> 0 then do {
                    _ \<leftarrow> spi_write bus REG_ENSM_CONFIG_1
                          ((val AND NOT (FORCE_TX_ON OR FORCE_RX_ON)) OR (TO_ALERT OR FORCE_ALERT_STATE));
                    check_cal_done bus REG_STATE (ENSM_STATE (- 1)) ENSM_STATE_ALERT
                  } else rtn 0;
             _ \<leftarrow> ensm_single_synth bus ensm_state pinctrl;
             rc \<leftarrow> spi_write bus REG_ENSM_CONFIG_1 val;
             _ \<leftarrow> ensm_reset_detectors bus val;
             _ \<leftarrow> upd_phy (\<lambda>s. s\<lparr>st_curr_ensm_state := ensm_state\<rparr>);
             rtn (Some rc)
           })
   }"

subsection \<open>The mode registers\<close>

definition set_ensm_mode :: "'c bus \<Rightarrow> bool \<Rightarrow> bool \<Rightarrow> ('c ad9361, int) state" where
  "set_ensm_mode bus fdd pinctrl = do {
     s \<leftarrow> get_phy;
     _ \<leftarrow> spi_write bus REG_ENSM_MODE (if fdd then FDD_MODE else 0);
     v \<leftarrow> spi_read bus REG_ENSM_CONFIG_2;
     let val = (word_of_int v AND (POWER_DOWN_RX_SYNTH OR POWER_DOWN_TX_SYNTH OR RX_SYNTH_READY_MASK OR
                  TX_SYNTH_READY_MASK) :: u32);
     if fdd then spi_write bus REG_ENSM_CONFIG_2
         (val OR DUAL_SYNTH_MODE OR (if pd_fdd_independent_mode s then FDD_EXTERNAL_CTRL_ENABLE else 0))
     else spi_write bus REG_ENSM_CONFIG_2
         (val OR (if pd_tdd_use_dual_synth s then DUAL_SYNTH_MODE else 0) OR
           (if pd_tdd_use_dual_synth s then 0 else if pinctrl then SYNTH_ENABLE_PIN_CTRL_MODE else 0))
   }"

definition ensm_mode_disable_pinctrl :: "'c bus \<Rightarrow> ('c ad9361, int) state" where
  "ensm_mode_disable_pinctrl bus = do {
     s \<leftarrow> get_phy;
     if \<not> pd_fdd s then set_ensm_mode bus True False else rtn 0
   }"

definition ensm_mode_restore_pinctrl :: "'c bus \<Rightarrow> ('c ad9361, int) state" where
  "ensm_mode_restore_pinctrl bus = do {
     s \<leftarrow> get_phy;
     if \<not> pd_fdd s then set_ensm_mode bus (pd_fdd s) (pd_ensm_pin_ctrl s) else rtn 0
   }"

end
