(* ===== verification/Ad_Frame.thy ===== *)
theory Ad_Frame
  imports Ad_Ensm
begin

unbundle bit_operations_syntax

text \<open>
  What a driver function leaves alone. \<open>keeps f m\<close>: running \<open>m\<close> does not change the part \<open>f\<close> of
  the state. The locale \<open>driver_field\<close> is the contract of a part that does not look at the
  chip, which every register access keeps; \<open>ensm_free_field\<close> extends it to parts that do not
  look at the saved state machine state either, which forcing and restoring a state keep.
\<close>

definition keeps :: "('s \<Rightarrow> 'b) \<Rightarrow> ('s, 'a) state \<Rightarrow> bool" where
  "keeps f m \<longleftrightarrow> (\<forall>s. f (snd (run_state m s)) = f s)"

named_theorems keeps_intro \<open>operations that keep a part of the state\<close>

lemma keepsD: "keeps f m \<Longrightarrow> run_state m s = (x, t) \<Longrightarrow> f t = f s"
  by (metis keeps_def snd_conv)

lemma keeps_return [keeps_intro]: "keeps f (State_Monad.return x)"
  by (simp add: keeps_def)

lemma keeps_get [keeps_intro]: "keeps f State_Monad.get"
  by (simp add: keeps_def)

lemma keeps_update: "(\<And>s. f (g s) = f s) \<Longrightarrow> keeps f (State_Monad.update g)"
  by (simp add: keeps_def)

lemma keeps_bind [keeps_intro]:
  assumes "keeps f m" "\<And>x. keeps f (g x)"
  shows "keeps f (State_Monad.bind m g)"
  unfolding keeps_def
proof
  fix s
  obtain x t where m: "run_state m s = (x, t)" by fastforce
  show "f (snd (run_state (State_Monad.bind m g) s)) = f s"
    using keepsD [OF assms(1) m] assms(2) [of x] unfolding run_bind_eq [OF m] keeps_def by simp
qed

lemma keeps_if [keeps_intro]: "(b \<Longrightarrow> keeps f m) \<Longrightarrow> (\<not> b \<Longrightarrow> keeps f n) \<Longrightarrow> keeps f (if b then m else n)"
  by simp

lemma keeps_option [keeps_intro]:
  "keeps f m \<Longrightarrow> (\<And>y. keeps f (g y)) \<Longrightarrow> keeps f (case x of None \<Rightarrow> m | Some y \<Rightarrow> g y)"
  by (simp split: option.split)

lemma keeps_sum [keeps_intro]:
  "(\<And>y. keeps f (g y)) \<Longrightarrow> (\<And>y. keeps f (h y)) \<Longrightarrow> keeps f (case x of Inl y \<Rightarrow> g y | Inr y \<Rightarrow> h y)"
  by (simp split: sum.split)

lemma keeps_prod [keeps_intro]: "(\<And>a b. keeps f (g a b)) \<Longrightarrow> keeps f (case x of (a, b) \<Rightarrow> g a b)"
  by (cases x) simp

lemma keeps_let [keeps_intro]: "keeps f (g x) \<Longrightarrow> keeps f (Let x g)"
  by simp

lemma chip_only_let [chip_intro]: "chip_only (g x) \<Longrightarrow> chip_only (Let x g)"
  by simp

text \<open>The weaker form for a predicate: what held before holds after.\<close>

definition preserves :: "('s \<Rightarrow> bool) \<Rightarrow> ('s, 'a) state \<Rightarrow> bool" where
  "preserves P m \<longleftrightarrow> (\<forall>s. P s \<longrightarrow> P (snd (run_state m s)))"

named_theorems preserves_intro \<open>operations that preserve a predicate\<close>

lemma preservesD: "preserves P m \<Longrightarrow> P s \<Longrightarrow> P (snd (run_state m s))"
  by (simp add: preserves_def)

lemma keeps_preserves: "keeps P m \<Longrightarrow> preserves P m"
  by (simp add: keeps_def preserves_def)

lemma preserves_update: "(\<And>s. P s \<Longrightarrow> P (g s)) \<Longrightarrow> preserves P (State_Monad.update g)"
  by (simp add: preserves_def)

lemma preserves_return [preserves_intro]: "preserves P (State_Monad.return x)"
  by (simp add: preserves_def)

lemma preserves_get [preserves_intro]: "preserves P State_Monad.get"
  by (simp add: preserves_def)

lemma preserves_bind [preserves_intro]:
  assumes "preserves P m" "\<And>x. preserves P (g x)"
  shows "preserves P (State_Monad.bind m g)"
  unfolding preserves_def
proof (intro allI impI)
  fix s assume "P s"
  obtain x t where m: "run_state m s = (x, t)" by fastforce
  then have "P t" using preservesD [OF assms(1) \<open>P s\<close>] by simp
  then show "P (snd (run_state (State_Monad.bind m g) s))"
    unfolding run_bind_eq [OF m] by (rule preservesD [OF assms(2)])
qed

lemma preserves_if [preserves_intro]:
  "(b \<Longrightarrow> preserves P m) \<Longrightarrow> (\<not> b \<Longrightarrow> preserves P n) \<Longrightarrow> preserves P (if b then m else n)"
  by simp

lemma preserves_let [preserves_intro]: "preserves P (g x) \<Longrightarrow> preserves P (Let x g)"
  by simp

locale driver_field =
  fixes f :: "'c ad9361 \<Rightarrow> 'b"
  assumes chip_free: "f (s\<lparr>ad_chip := c\<rparr>) = f s"
begin

lemma keeps_chip_only: "chip_only m \<Longrightarrow> keeps f m"
  unfolding keeps_def chip_only_def using chip_free by (metis snd_conv)

lemma keeps_spi:
  "keeps f (spi_readm bus r n)" "keeps f (spi_read bus r)" "keeps f (spi_readf bus r m)"
  "keeps f (spi_write bus r v)" "keeps f (spi_writef bus r m v)" "keeps f (spi_writem bus r bs n)"
  by (rule keeps_chip_only, rule chip_intro)+

end

locale ensm_free_field = driver_field +
  assumes prev_free: "f (s\<lparr>st_prev_ensm_state := a\<rparr>) = f s"
    and pin_free: "f (s\<lparr>st_ensm_pin_ctl_en := b\<rparr>) = f s"
begin

lemma keeps_force: "keeps f (ensm_force_state bus e)"
  unfolding ensm_force_state_def ensm_get_state_def
  by (intro keeps_intro keeps_spi keeps_update prev_free pin_free)

lemma keeps_restore: "keeps f (ensm_restore_prev_state bus)"
  unfolding ensm_restore_prev_state_def ensm_restore_state_def
  by (intro keeps_intro keeps_spi)

end

end
