(* ===== verification/Ad_Tune.thy ===== *)
theory Ad_Tune
  imports Ad_Fastlock Ad_Clk_Props Ad_Frame
begin

unbundle bit_operations_syntax

text \<open>
  Setting a carrier and reading it back (\<^verbatim>\<open>ad9361_rfpll_set_rate\<close>, \<^verbatim>\<open>ad9361_rfpll_recalc_rate\<close>).
  Setting one synthesizer may make the driver reprogram the other one, in a loop without a
  bound: \<open>fuel\<close> counts its rounds, \<open>None\<close> is a loop still running. Two rounds are enough.
\<close>

definition fract_reg :: "bool \<Rightarrow> u32" where
  "fract_reg tx = (if tx then REG_TX_FRACT_BYTE_2 else REG_RX_FRACT_BYTE_2)"

definition vco_div_mask :: "bool \<Rightarrow> u32" where
  "vco_div_mask tx = (if tx then TX_VCO_DIVIDER (- 1) else RX_VCO_DIVIDER (- 1))"

definition vco_lock_reg :: "bool \<Rightarrow> u32" where
  "vco_lock_reg tx = (if tx then REG_TX_CP_OVERRANGE_VCO_LOCK else REG_RX_CP_OVERRANGE_VCO_LOCK)"

text \<open>The five bytes of the two words; the integer's high byte keeps the bits it shares.\<close>

definition rfpll_bytes :: "u32 \<Rightarrow> u32 \<Rightarrow> u32 \<Rightarrow> u8 list" where
  "rfpll_bytes integer fract old =
     [ucast (SYNTH_FRACT_WORD (drop_bit 16 fract)), ucast (drop_bit 8 fract), ucast (fract AND 0xFF),
      ucast (SYNTH_INTEGER_WORD (drop_bit 8 integer) OR (NOT (SYNTH_INTEGER_WORD (- 1)) AND old)),
      ucast (integer AND 0xFF)]"

definition rfpll_words_of :: "u8 list \<Rightarrow> u32 \<times> u32" where
  "rfpll_words_of buf =
     (push_bit 8 (SYNTH_INTEGER_WORD (ucast (buf ! 3))) OR ucast (buf ! 4),
      push_bit 16 (SYNTH_FRACT_WORD (ucast (buf ! 0))) OR push_bit 8 (ucast (buf ! 1)) OR ucast (buf ! 2))"

definition rfpll_recalc_rate :: "'c bus \<Rightarrow> bool \<Rightarrow> ulong \<Rightarrow> ('c ad9361, ulong) state" where
  "rfpll_recalc_rate bus tx parent_rate = do {
     s \<leftarrow> get_phy;
     let profile = (ucast (st_fl_current s tx) :: u32);
     (buf, vco_div) \<leftarrow>
       (if profile \<noteq> 0 then
          (let fl = (\<lambda>w. do { v \<leftarrow> fastlock_readval bus tx (profile - 1) w; rtn (word_of_int v :: u8) }) in do {
            b0 \<leftarrow> fl 4; b1 \<leftarrow> fl 3; b2 \<leftarrow> fl 2; b3 \<leftarrow> fl 1; b4 \<leftarrow> fl 0;
            d \<leftarrow> fastlock_readval bus tx (profile - 1) 12;
            rtn ([b0, b1, b2, b3, b4], word_of_int d AND 0xF)
          })
        else do {
          (_, buf) \<leftarrow> spi_readm bus (fract_reg tx) 5;
          d \<leftarrow> spi_readf bus REG_RFPLL_DIVIDERS (vco_div_mask tx);
          rtn (buf, word_of_int d :: u32)
        });
     let (integer, fract) = rfpll_words_of buf;
     rtn (ad9361_to_clk (calc_rfpll_freq (ucast parent_rate) (ucast integer) (ucast fract) vco_div))
   }"

definition rfpll_fixup :: "'c ad9361 \<Rightarrow> bool" where
  "rfpll_fixup s \<longleftrightarrow> pd_fdd s \<and> \<not> pd_fdd_independent_mode s \<and>
     ((st_current_tx_lo_freq s = st_current_rx_lo_freq s \<and>
        st_current_tx_use_tdd_table s \<noteq> st_current_rx_use_tdd_table s) \<or>
      (st_current_tx_lo_freq s \<noteq> st_current_rx_lo_freq s \<and>
        (st_current_tx_use_tdd_table s \<or> st_current_rx_use_tdd_table s)))"

text \<open>One pass over one synthesizer, \<open>side\<close>.\<close>

definition rfpll_program :: "'c bus \<Rightarrow> bool \<Rightarrow> ulong \<Rightarrow> rfpll_words \<Rightarrow> ('c ad9361, int) state" where
  "rfpll_program bus side parent_rate w = do {
     _ \<leftarrow> rfpll_vco_init bus side (rw_vco w) parent_rate;
     old \<leftarrow> spi_read bus (fract_reg side - 3);
     _ \<leftarrow> spi_writem bus (fract_reg side) (rfpll_bytes (rw_integer w) (rw_fract w) (word_of_int old)) 5;
     _ \<leftarrow> spi_writef bus REG_RFPLL_DIVIDERS (vco_div_mask side) (word_of_int (rw_div w));
     check_cal_done bus (vco_lock_reg side) VCO_LOCK 1
   }"

fun rfpll_rounds :: "'c bus \<Rightarrow> bool \<Rightarrow> ulong \<Rightarrow> nat \<Rightarrow> bool \<Rightarrow> rfpll_words \<Rightarrow> ('c ad9361, int option) state" where
  "rfpll_rounds bus src parent_rate 0 side w = rtn None"
| "rfpll_rounds bus src parent_rate (Suc fuel) side w = do {
     ret \<leftarrow> rfpll_program bus side parent_rate w;
     s \<leftarrow> get_phy;
     if rfpll_fixup s then
       (if st_current_tx_lo_freq s \<noteq> st_current_rx_lo_freq s then
          (case calc_rfpll_divder (pd_dev s) src
                  (ad9361_from_clk (ucast (if src then st_current_rx_lo_freq s else st_current_tx_lo_freq s)))
                  (ucast parent_rate) of
             None \<Rightarrow> rtn None
           | Some res \<Rightarrow> do {
               _ \<leftarrow> fastlock_prepare bus (\<not> src) 0 False;
               rfpll_rounds bus src parent_rate fuel (\<not> src) (case res of Inl _ \<Rightarrow> w | Inr w' \<Rightarrow> w')
             })
        else rfpll_rounds bus src parent_rate fuel (\<not> src) w)
     else rtn (Some ret)
   }"

definition rfpll_set_rate :: "'c bus \<Rightarrow> nat \<Rightarrow> bool \<Rightarrow> ulong \<Rightarrow> ulong \<Rightarrow> ('c ad9361, int option) state" where
  "rfpll_set_rate bus fuel tx rate parent_rate = do {
     _ \<leftarrow> fastlock_prepare bus tx 0 False;
     s \<leftarrow> get_phy;
     case calc_rfpll_divder (pd_dev s) tx (ad9361_from_clk rate) (ucast parent_rate) of
       None \<Rightarrow> rtn None
     | Some (Inl ret) \<Rightarrow> rtn (Some ret)
     | Some (Inr w) \<Rightarrow> do {
         _ \<leftarrow> upd_phy (\<lambda>s. if tx then s\<lparr>st_cached_tx_rfpll_div := word_of_int (rw_div w), st_current_tx_lo_freq := ucast rate\<rparr>
                             else s\<lparr>st_cached_rx_rfpll_div := word_of_int (rw_div w), st_current_rx_lo_freq := ucast rate\<rparr>);
         _ \<leftarrow> if pd_tdd_skip_vco_cal s then trx_vco_cal_control bus tx True else rtn 0;
         ret \<leftarrow> rfpll_rounds bus tx parent_rate fuel tx w;
         _ \<leftarrow> if pd_tdd_skip_vco_cal s then trx_vco_cal_control bus tx False else rtn 0;
         rtn ret
       }
   }"

subsection \<open>Lemmas\<close>

text \<open>Which tables a pass over a side marks as used.\<close>

definition mark_tables :: "bool \<Rightarrow> 'c ad9361 \<Rightarrow> 'c ad9361" where
  "mark_tables side s =
     (let f = \<not> (pd_fdd s \<and> \<not> pd_fdd_independent_mode s \<and> st_current_tx_lo_freq s \<noteq> st_current_rx_lo_freq s) in
      if side then s\<lparr>st_current_tx_use_tdd_table := f\<rparr> else s\<lparr>st_current_rx_use_tdd_table := f\<rparr>)"

lemma rfpll_vco_init_runs:
  "\<exists>x c. run_state (rfpll_vco_init bus tx v p) s = (x, (mark_tables tx s)\<lparr>ad_chip := c\<rparr>)"
  unfolding rfpll_vco_init_def Let_def mark_tables_def
  apply (simp only: run_bind_get run_bind_update)
  apply (rule chip_onlyE)
  apply (intro chip_intro)
  done

text \<open>A pass leaves the driver's fields as they were, but for the table flag of its side.\<close>

lemma rfpll_program_runs:
  "\<exists>x c. run_state (rfpll_program bus side p w) s = (x, (mark_tables side s)\<lparr>ad_chip := c\<rparr>)"
proof -
  obtain x c where 1: "run_state (rfpll_vco_init bus side (rw_vco w) p) s = (x, (mark_tables side s)\<lparr>ad_chip := c\<rparr>)"
    using rfpll_vco_init_runs [of bus side "rw_vco w" p s] by blast
  have "chip_only (do {
     old \<leftarrow> spi_read bus (fract_reg side - 3);
     _ \<leftarrow> spi_writem bus (fract_reg side) (rfpll_bytes (rw_integer w) (rw_fract w) (word_of_int old)) 5;
     _ \<leftarrow> spi_writef bus REG_RFPLL_DIVIDERS (vco_div_mask side) (word_of_int (rw_div w));
     check_cal_done bus (vco_lock_reg side) VCO_LOCK 1 })"
    by (intro chip_intro)
  from chip_onlyE [OF this, of "(mark_tables side s)\<lparr>ad_chip := c\<rparr>"] show ?thesis
    unfolding rfpll_program_def run_bind_eq [OF 1] by auto
qed

lemma fixup_chip [simp]: "rfpll_fixup (s\<lparr>ad_chip := c\<rparr>) = rfpll_fixup s"
  by (simp add: rfpll_fixup_def)

lemma fixup_fl [simp]: "rfpll_fixup (s\<lparr>st_fl_current := f\<rparr>) = rfpll_fixup s"
  by (simp add: rfpll_fixup_def)

lemma mark_chip [simp]: "mark_tables side (s\<lparr>ad_chip := c\<rparr>) = (mark_tables side s)\<lparr>ad_chip := c\<rparr>"
  by (simp add: mark_tables_def Let_def)

text \<open>After a pass over each side there is nothing left to fix.\<close>

lemma no_fixup_after_both: "\<not> rfpll_fixup (mark_tables (\<not> side) (mark_tables side s))"
  by (auto simp: rfpll_fixup_def mark_tables_def Let_def)

lemma fl_chip_same: "\<exists>c f. s = s\<lparr>ad_chip := c, st_fl_current := f\<rparr>"
  by (intro exI [of _ "ad_chip s"] exI [of _ "st_fl_current s"]) simp

lemma prepare_false_runs:
  "\<exists>x c f. run_state (fastlock_prepare bus tx p False) s = (x, s\<lparr>ad_chip := c, st_fl_current := f\<rparr>)"
proof (cases "st_fl_current s tx = 0")
  case True
  then show ?thesis
    by (simp add: fastlock_prepare_def Let_def fl_chip_same)
next
  case False
  let ?m = "do {
          _ \<leftarrow> spi_write bus (REG_RX_FAST_LOCK_SETUP + fl_offs tx) 0;
          _ \<leftarrow> spi_writef bus (REG_RX_FORCE_ALC + fl_offs tx) FORCE_ALC_ENABLE 1;
          _ \<leftarrow> spi_writef bus (REG_RX_FORCE_VCO_TUNE_1 + fl_offs tx) FORCE_VCO_TUNE_ENABLE 1;
          _ \<leftarrow> spi_writef bus (REG_RX_FORCE_ALC + fl_offs tx) FORCE_ALC_ENABLE 0;
          _ \<leftarrow> spi_writef bus (REG_RX_FORCE_VCO_TUNE_1 + fl_offs tx) FORCE_VCO_TUNE_ENABLE 0;
          _ \<leftarrow> trx_vco_cal_control bus tx True;
          spi_writef bus REG_ENSM_CONFIG_2 (if tx then TX_SYNTH_READY_MASK else RX_SYNTH_READY_MASK) 0 }"
  have "chip_only ?m" by (intro chip_intro)
  from chip_onlyE [OF this, of s] obtain x c where m: "run_state ?m s = (x, s\<lparr>ad_chip := c\<rparr>)" by blast
  have "fastlock_prepare bus tx p False = do {
      s \<leftarrow> get_phy;
      if st_fl_current s tx \<noteq> 0 then
        State_Monad.bind ?m (\<lambda>_. do { _ \<leftarrow> upd_phy (\<lambda>s. s\<lparr>st_fl_current := (st_fl_current s)(tx := 0)\<rparr>); rtn 0 })
      else rtn 0 }"
    by (simp add: fastlock_prepare_def Let_def cong: if_cong)
  then have "run_state (fastlock_prepare bus tx p False) s =
      (0, s\<lparr>ad_chip := c, st_fl_current := (st_fl_current s)(tx := 0)\<rparr>)"
    by (simp only: run_bind_get False not_False_eq_True if_True run_bind_eq [OF m] run_bind_update run_state_return) simp
  then show ?thesis by blast
qed

text \<open>The other side's turn: whatever it ends with, it ends.\<close>

lemma other_round_ends:
  assumes "\<not> rfpll_fixup (mark_tables side s)"
  shows "\<exists>r s'. run_state (rfpll_rounds bus src p (Suc k) side w) s = (Some r, s')"
proof -
  obtain x c where 1: "run_state (rfpll_program bus side p w) s = (x, (mark_tables side s)\<lparr>ad_chip := c\<rparr>)"
    using rfpll_program_runs [of bus side p w s] by blast
  show ?thesis
    unfolding rfpll_rounds.simps run_bind_eq [OF 1] run_bind_get using assms by simp
qed

lemma mark_fl [simp]: "mark_tables side (s\<lparr>st_fl_current := f\<rparr>) = (mark_tables side s)\<lparr>st_fl_current := f\<rparr>"
  by (simp add: mark_tables_def Let_def)

lemma calc_divder_some: "\<exists>r. calc_rfpll_divder dev tx freq p = Some r"
proof (cases "validate_rfpll dev tx freq = 0")
  case True
  obtain j v where "vco_scale freq (- 1) = Some (v, int j)" using vco_scale_valid [OF True] by blast
  then show ?thesis by (simp add: calc_rfpll_divder_def Let_def)
qed (simp add: calc_rfpll_divder_def Let_def)

lemma rounds_end:
  "\<exists>r s'. run_state (rfpll_rounds bus src p (Suc (Suc k)) src w) s = (Some r, s')"
proof -
  obtain x c where 1: "run_state (rfpll_program bus src p w) s = (x, (mark_tables src s)\<lparr>ad_chip := c\<rparr>)"
    using rfpll_program_runs [of bus src p w s] by blast
  let ?s1 = "(mark_tables src s)\<lparr>ad_chip := c\<rparr>"
  have nf: "\<not> rfpll_fixup (mark_tables (\<not> src) ?s1)" by (simp add: no_fixup_after_both)
  show ?thesis
  proof (cases "rfpll_fixup ?s1")
    case False
    then show ?thesis unfolding rfpll_rounds.simps(2) [of _ _ _ "Suc k"] run_bind_eq [OF 1] run_bind_get by simp
  next
    case fx: True
    show ?thesis
    proof (cases "st_current_tx_lo_freq ?s1 = st_current_rx_lo_freq ?s1")
      case True
      then show ?thesis
        using other_round_ends [OF nf, of bus src p k w] fx
        unfolding rfpll_rounds.simps(2) [of _ _ _ "Suc k"] run_bind_eq [OF 1] run_bind_get by simp
    next
      case False
      obtain res where res: "calc_rfpll_divder (pd_dev ?s1) src
          (ad9361_from_clk (ucast (if src then st_current_rx_lo_freq ?s1 else st_current_tx_lo_freq ?s1))) (ucast p) = Some res"
        using calc_divder_some by blast
      obtain y d f where 2: "run_state (fastlock_prepare bus (\<not> src) 0 False) ?s1 = (y, ?s1\<lparr>ad_chip := d, st_fl_current := f\<rparr>)"
        using prepare_false_runs [of bus "\<not> src" 0 ?s1] by blast
      let ?s2 = "?s1\<lparr>ad_chip := d, st_fl_current := f\<rparr>"
      have "\<not> rfpll_fixup (mark_tables (\<not> src) ?s2)" using nf by simp
      from other_round_ends [OF this] have e: "\<exists>r s'. run_state (rfpll_rounds bus src p (Suc k) (\<not> src)
          (case res of Inl _ \<Rightarrow> w | Inr w' \<Rightarrow> w')) ?s2 = (Some r, s')" .
      show ?thesis
        unfolding rfpll_rounds.simps(2) [of _ _ _ "Suc k"] run_bind_eq [OF 1] run_bind_get
        using fx False res e
        by (simp only: if_True not_False_eq_True not_True_eq_False option.case run_bind_eq [OF 2])
    qed
  qed
qed

subsection \<open>The words in the registers\<close>

lemma ucast_u8_bit: "bit (ucast (ucast (x :: u32) :: u8) :: u32) n \<longleftrightarrow> n < 8 \<and> bit x n"
  by (auto simp: bit_simps)

lemma rfpll_bytes_roundtrip:
  assumes "unat integer < 2048" "unat fract < 8388608"
  shows "rfpll_words_of (rfpll_bytes integer fract old) = (integer, fract)"
proof -
  have m: "0x7F = (mask 7 :: u32)" "0x7 = (mask 3 :: u32)" "0xFF = (mask 8 :: u32)" "(- 1 :: u32) AND mask 3 = mask 3"
    by (simp_all add: mask_eq_exp_minus_1)
  have I: "bit integer n \<Longrightarrow> n < 11" for n using small_bits [of integer 11 n] assms(1) by simp
  have F: "bit fract n \<Longrightarrow> n < 23" for n using small_bits [of fract 23 n] assms(2) by simp
  have w: "SYNTH_INTEGER_WORD x = x AND mask 3" "SYNTH_FRACT_WORD x = x AND mask 7" for x
    by (simp_all add: ad_regs m(1,2))
  have 1: "push_bit 8 (SYNTH_INTEGER_WORD (ucast (ucast (SYNTH_INTEGER_WORD (drop_bit 8 integer) OR
      (NOT (SYNTH_INTEGER_WORD (- 1)) AND old)) :: u8))) OR ucast (ucast (integer AND 0xFF) :: u8) = integer"
  proof (rule bit_word_eqI)
    fix n assume "n < LENGTH(32)"
    consider "n < 8" | "8 \<le> n" "n < 11" | "11 \<le> n" by linarith
    then show "bit (push_bit 8 (SYNTH_INTEGER_WORD (ucast (ucast (SYNTH_INTEGER_WORD (drop_bit 8 integer) OR
        (NOT (SYNTH_INTEGER_WORD (- 1)) AND old)) :: u8))) OR ucast (ucast (integer AND 0xFF) :: u8)) n = bit integer n"
      unfolding w m using I [of n]
      by cases (auto simp: bit_or_iff bit_and_iff bit_push_bit_iff bit_drop_bit_eq bit_not_iff bit_mask_iff ucast_u8_bit)
  qed
  have 2: "push_bit 16 (SYNTH_FRACT_WORD (ucast (ucast (SYNTH_FRACT_WORD (drop_bit 16 fract)) :: u8))) OR
      push_bit 8 (ucast (ucast (drop_bit 8 fract) :: u8)) OR ucast (ucast (fract AND 0xFF) :: u8) = fract"
  proof (rule bit_word_eqI)
    fix n assume "n < LENGTH(32)"
    consider "n < 8" | "8 \<le> n" "n < 16" | "16 \<le> n" "n < 23" | "23 \<le> n" by linarith
    then show "bit (push_bit 16 (SYNTH_FRACT_WORD (ucast (ucast (SYNTH_FRACT_WORD (drop_bit 16 fract)) :: u8))) OR
        push_bit 8 (ucast (ucast (drop_bit 8 fract) :: u8)) OR ucast (ucast (fract AND 0xFF) :: u8)) n = bit fract n"
      unfolding w m using F [of n]
      by cases (auto simp: bit_or_iff bit_and_iff bit_push_bit_iff bit_drop_bit_eq bit_mask_iff ucast_u8_bit)
  qed
  show ?thesis by (simp add: rfpll_words_of_def rfpll_bytes_def 1 2)
qed

lemma vco_div_field:
  assumes "k \<le> 6"
  shows "drop_bit (ffs (vco_div_mask tx))
     (ucast (push_bit (ffs (vco_div_mask tx)) (word_of_int (int k)) AND vco_div_mask tx) AND ucast (vco_div_mask tx) :: u8) =
     word_of_int (int k)" "vco_div_mask tx \<noteq> 0"
proof -
  have "k \<in> {0, 1, 2, 3, 4, 5, 6}" using assms by auto
  moreover have "vco_div_mask True = 0xF0" "vco_div_mask False = 0xF" "ffs 0xF0 = 4" "ffs 0xF = 0" by code_simp+
  ultimately show "drop_bit (ffs (vco_div_mask tx))
     (ucast (push_bit (ffs (vco_div_mask tx)) (word_of_int (int k)) AND vco_div_mask tx) AND ucast (vco_div_mask tx) :: u8) =
     word_of_int (int k)" "vco_div_mask tx \<noteq> 0"
    by (cases tx; auto)+
qed

lemma tune_addrs:
  "AD_ADDR REG_RFPLL_DIVIDERS = 5" "AD_ADDR (fract_reg True) = 0x275" "AD_ADDR (fract_reg False) = 0x235"
  "AD_ADDR REG_TX_PFD_CONFIG \<notin> {0x275, 0x274, 0x273, 0x272, 0x271, 0x235, 0x234, 0x233, 0x232, 0x231, 5}"
  "AD_ADDR REG_RX_PFD_CONFIG \<notin> {0x275, 0x274, 0x273, 0x272, 0x271, 0x235, 0x234, 0x233, 0x232, 0x231, 5}"
  by code_simp+

text \<open>The registers that hold a side's carrier, and the same in a register file.\<close>

definition holds_words :: "bool \<Rightarrow> rfpll_words \<Rightarrow> regfile \<Rightarrow> bool" where
  "holds_words tx w c \<longleftrightarrow>
     (\<exists>old. map (\<lambda>i. c (AD_ADDR (fract_reg tx) - of_nat i)) [0..<5] = rfpll_bytes (rw_integer w) (rw_fract w) old) \<and>
     drop_bit (ffs (vco_div_mask tx)) (c 5 AND ucast (vco_div_mask tx)) = word_of_int (rw_div w)"

lemma put_five:
  assumes "length bs = 5" "AD_ADDR (fract_reg tx) = a"
  shows "map (\<lambda>i. put_bytes a bs c (a - of_nat i)) [0..<5] = bs" "put_bytes a bs c 5 = c 5"
proof -
  obtain b0 b1 b2 b3 b4 where bs: "bs = [b0, b1, b2, b3, b4]"
    using assms(1) by (auto simp: numeral_eq_Suc length_Suc_conv)
  have a: "a = 0x275 \<or> a = 0x235" using assms(2) tune_addrs(2,3) by (cases tx) auto
  show "map (\<lambda>i. put_bytes a bs c (a - of_nat i)) [0..<5] = bs" "put_bytes a bs c 5 = c 5"
    using a by (auto simp: bs upt_rec)
qed

lemma holds_words_other:
  assumes "holds_words tx w c" "a \<notin> {0x275, 0x274, 0x273, 0x272, 0x271, 0x235, 0x234, 0x233, 0x232, 0x231, 5}"
  shows "holds_words tx w (c(a := v))"
  using assms tune_addrs(2,3) by (cases tx) (auto simp: holds_words_def upt_rec)

lemma run_program_words:
  assumes "rw_div w = int k" "k \<le> 6"
  shows "\<exists>e c. run_state (rfpll_program chip_bus side p w) s = (e, (mark_tables side s)\<lparr>ad_chip := c\<rparr>) \<and>
     (e = 0 \<or> e = - 110) \<and> holds_words side w c"
proof -
  obtain x c0 where 1: "run_state (rfpll_vco_init chip_bus side (rw_vco w) p) s = (x, (mark_tables side s)\<lparr>ad_chip := c0\<rparr>)"
    using rfpll_vco_init_runs [of chip_bus side "rw_vco w" p s] by blast
  let ?old = "word_of_int (int (unat (c0 (AD_ADDR (fract_reg side - 3))))) :: u32"
  let ?bs = "rfpll_bytes (rw_integer w) (rw_fract w) ?old"
  let ?a = "AD_ADDR (fract_reg side)" let ?m = "vco_div_mask side"
  define c1 where "c1 = put_bytes ?a ?bs c0"
  define c2 where "c2 = c1(5 := (c1 5 AND NOT (ucast ?m)) OR ucast (push_bit (ffs ?m) (word_of_int (rw_div w)) AND ?m))"
  have len: "length ?bs = 5" by (simp add: rfpll_bytes_def)
  note five = put_five [OF len refl, of side c0, folded c1_def]
  have l: "VCO_LOCK \<noteq> 0" by (simp add: ad_regs)
  obtain e where e: "run_state (check_cal_done chip_bus (vco_lock_reg side) VCO_LOCK 1) ((mark_tables side s)\<lparr>ad_chip := c2\<rparr>) =
      (e, (mark_tables side s)\<lparr>ad_chip := c2\<rparr>)" "e = 0 \<or> e = - 110"
    using run_cal_poll [OF l, of "vco_lock_reg side" 1 5001 "(mark_tables side s)\<lparr>ad_chip := c2\<rparr>"]
    unfolding check_cal_done_def by blast
  have "run_state (rfpll_program chip_bus side p w) s = (e, (mark_tables side s)\<lparr>ad_chip := c2\<rparr>)"
    unfolding rfpll_program_def run_bind_eq [OF 1]
    using e(1) len vco_div_field(2) [OF assms(2), of side]
    by (simp add: run_spi_read run_spi_writem run_spi_writef set_reg_def c2_def c1_def tune_addrs(1))
  moreover have "holds_words side w c2"
  proof -
    have ne: "?a - of_nat i \<noteq> 5" if "i < 5" for i
    proof -
      have "i \<in> {0, 1, 2, 3, 4}" using that by auto
      then show ?thesis using tune_addrs(2,3) by (cases side) auto
    qed
    have "map (\<lambda>i. c2 (?a - of_nat i)) [0..<5] = map (\<lambda>i. c1 (?a - of_nat i)) [0..<5]"
      using ne by (intro map_cong) (auto simp: c2_def)
    moreover have "drop_bit (ffs ?m) (c2 5 AND ucast ?m) = word_of_int (rw_div w)"
      using vco_div_field(1) [OF assms(2), of side] assms(1) by (simp add: c2_def field_read del: drop_bit_and)
    ultimately show ?thesis unfolding holds_words_def using five(1) by auto
  qed
  ultimately show ?thesis using e(2) by blast
qed

lemma run_recalc_words:
  assumes "holds_words tx w (ad_chip s)" "st_fl_current s tx = 0" "rw_div w = int k" "k \<le> 6"
    "unat (rw_integer w) < 2048" "unat (rw_fract w) < 8388608"
  shows "run_state (rfpll_recalc_rate chip_bus tx p) s =
     (ad9361_to_clk (calc_rfpll_freq (ucast p) (ucast (rw_integer w)) (ucast (rw_fract w)) (word_of_int (rw_div w))), s)"
proof -
  obtain old where b: "map (\<lambda>i. ad_chip s (AD_ADDR (fract_reg tx) - of_nat i)) [0..<5] =
      rfpll_bytes (rw_integer w) (rw_fract w) old"
    and d: "drop_bit (ffs (vco_div_mask tx)) (ad_chip s 5 AND ucast (vco_div_mask tx)) = word_of_int (rw_div w)"
    using assms(1) by (auto simp: holds_words_def)
  have k: "ucast (word_of_int (rw_div w) :: u8) = (word_of_int (rw_div w) :: u32)"
  proof -
    have "k \<in> {0, 1, 2, 3, 4, 5, 6}" using assms(4) by auto
    then show ?thesis unfolding assms(3) by auto
  qed
  have d': "run_state (spi_readf chip_bus REG_RFPLL_DIVIDERS (vco_div_mask tx)) s =
      (int (unat (word_of_int (rw_div w) :: u8)), s)"
    using vco_div_field(2) [OF assms(4), of tx] d by (simp add: run_spi_readf tune_addrs(1) del: drop_bit_and)
  have five: "(5 :: nat) \<le> 8" by simp
  show ?thesis
    unfolding rfpll_recalc_rate_def Let_def run_bind_get
    using assms(2) rfpll_bytes_roundtrip [OF assms(5,6), of old]
    by (simp add: run_spi_readm [OF five] b d' k)
qed

lemma to_clk_near:
  assumes "unat f \<le> 2 * unat (r :: u32) + 3" "2 * unat r \<le> unat f + 3" "unat r \<le> 3000000000"
  shows "unat (ad9361_to_clk f) \<le> unat r + 1 \<and> unat r \<le> unat (ad9361_to_clk f) + 2"
proof -
  have h: "unat (drop_bit 1 f) = unat f div 2" unfolding unat_drop_bit_eq unfolding drop_bit_eq_div by simp
  have lt: "unat (drop_bit 1 f) < 4294967295" using assms(1,3) h by simp
  then have "unat (ad9361_to_clk f) = unat f div 2"
    using unat_ucast_u32 [of "drop_bit 1 f"] h by (simp add: ad9361_to_clk_def Let_def word_nat)
  then show ?thesis using assms(1,2) by linarith
qed

lemma prepare_false_other:
  fixes bus :: "'c bus"
  assumes "run_state (fastlock_prepare bus (\<not> tx) p False) s = (x, s')"
  shows "st_fl_current s' tx = st_fl_current s tx"
proof -
  have field: "driver_field (\<lambda>s :: 'c ad9361. st_fl_current s tx)" by unfold_locales simp
  note spi = driver_field.keeps_spi [OF field] driver_field.keeps_chip_only [OF field]
  have "keeps (\<lambda>s :: 'c ad9361. st_fl_current s tx) (fastlock_prepare bus (\<not> tx) p False)"
    unfolding fastlock_prepare_def Let_def
    by (intro keeps_intro keeps_update spi chip_intro) simp_all
  from keepsD [OF this assms] show ?thesis .
qed

lemma prepare_false_leaves: "run_state (fastlock_prepare chip_bus tx p False) s = (x, s') \<Longrightarrow> st_fl_current s' tx = 0"
proof (cases "st_fl_current s tx = 0")
  case False
  assume r: "run_state (fastlock_prepare chip_bus tx p False) s = (x, s')"
  show ?thesis
    using r False unfolding fastlock_prepare_def Let_def run_bind_get
    by (auto simp: run_spi_write run_spi_writef ready_masks trx_vco_cal_control_def set_reg_def)
qed (auto simp: fastlock_prepare_def Let_def)

text \<open>
  What the other side's turn leaves alone: the five bytes of this side's words and its half
  of the shared divider register.
\<close>

definition carrier_regs :: "bool \<Rightarrow> regfile ad9361 \<Rightarrow> u8 list \<times> u8" where
  "carrier_regs tx s = (map (\<lambda>i. ad_chip s (AD_ADDR (fract_reg tx) - of_nat i)) [0..<5],
     ad_chip s 5 AND ucast (vco_div_mask tx))"

abbreviation carrier_addrs :: "u16 set" where
  "carrier_addrs \<equiv> {0x275, 0x274, 0x273, 0x272, 0x271, 0x235, 0x234, 0x233, 0x232, 0x231, 5}"

lemma holds_words_regs:
  "carrier_regs tx s' = carrier_regs tx s \<Longrightarrow> holds_words tx w (ad_chip s') = holds_words tx w (ad_chip s)"
  unfolding holds_words_def carrier_regs_def prod.inject by (simp only:)

lemma carrier_set_far: "AD_ADDR r \<notin> carrier_addrs \<Longrightarrow> carrier_regs tx (set_reg r v s) = carrier_regs tx s"
  using tune_addrs(2,3) by (cases tx) (auto simp: carrier_regs_def set_reg_def upt_rec)

lemma keeps_carrier_write:
  "AD_ADDR r \<notin> carrier_addrs \<Longrightarrow> keeps (carrier_regs tx) (spi_write chip_bus r v)"
  "AD_ADDR r \<notin> carrier_addrs \<Longrightarrow> m \<noteq> 0 \<Longrightarrow> keeps (carrier_regs tx) (spi_writef chip_bus r m v)"
  by (simp_all add: keeps_def run_spi_write run_spi_writef carrier_set_far)

lemma keeps_carrier_own:
  "keeps (carrier_regs tx) (spi_read chip_bus r)"
  "length bs = 5 \<Longrightarrow> keeps (carrier_regs tx) (spi_writem chip_bus (fract_reg (\<not> tx)) bs 5)"
  "keeps (carrier_regs tx) (spi_writef chip_bus REG_RFPLL_DIVIDERS (vco_div_mask (\<not> tx)) v)"
  "keeps (carrier_regs tx) (check_cal_done chip_bus (vco_lock_reg side) VCO_LOCK 1)"
proof -
  show "keeps (carrier_regs tx) (spi_read chip_bus r)" by (simp add: keeps_def run_spi_read)
  show "keeps (carrier_regs tx) (spi_writem chip_bus (fract_reg (\<not> tx)) bs 5)" if len: "length bs = 5"
  proof -
    obtain b0 b1 b2 b3 b4 where bs: "bs = [b0, b1, b2, b3, b4]"
      using len by (auto simp: numeral_eq_Suc length_Suc_conv)
    show ?thesis
      using tune_addrs(2,3) by (cases tx) (auto simp: keeps_def run_spi_writem carrier_regs_def bs upt_rec)
  qed
  have m: "vco_div_mask True = 0xF0" "vco_div_mask False = 0xF" "ffs 0xF0 = 4" "ffs 0xF = 0" by code_simp+
  have half: "((x AND NOT (ucast (vco_div_mask (\<not> tx)))) OR
      ucast (push_bit (ffs (vco_div_mask (\<not> tx))) v AND vco_div_mask (\<not> tx))) AND ucast (vco_div_mask tx) =
      x AND (ucast (vco_div_mask tx) :: u8)" for x
  proof -
    have d: "ucast (y AND vco_div_mask (\<not> tx)) AND ucast (vco_div_mask tx) = (0 :: u8)" for y :: u32
    proof -
      have "ucast (y AND vco_div_mask (\<not> tx)) = (ucast y AND ucast (vco_div_mask (\<not> tx)) :: u8)"
        by (rule bit_word_eqI) (simp add: bit_simps)
      moreover have "(ucast (vco_div_mask (\<not> tx)) AND ucast (vco_div_mask tx) :: u8) = 0"
        using m by (cases tx) simp_all
      ultimately show ?thesis by (simp only: and.assoc and_zero_eq)
    qed
    have n: "NOT (ucast (vco_div_mask (\<not> tx))) AND ucast (vco_div_mask tx) = (ucast (vco_div_mask tx) :: u8)"
      using m by (cases tx) simp_all
    show ?thesis by (simp only: bit.conj_disj_distrib2 d or.right_neutral and.assoc n)
  qed
  have five: "AD_ADDR (fract_reg tx) - of_nat i \<noteq> 5" if "i < 5" for i
  proof -
    have "i \<in> {0, 1, 2, 3, 4}" using that by auto
    then show ?thesis using tune_addrs(2,3) by (cases tx) auto
  qed
  show "keeps (carrier_regs tx) (spi_writef chip_bus REG_RFPLL_DIVIDERS (vco_div_mask (\<not> tx)) v)"
    using vco_div_field(2) [of 0 "\<not> tx"] five
    by (simp add: keeps_def run_spi_writef carrier_regs_def set_reg_def tune_addrs(1) half cong: map_cong)
  have l: "VCO_LOCK \<noteq> 0" by (simp add: ad_regs)
  show "keeps (carrier_regs tx) (check_cal_done chip_bus (vco_lock_reg side) VCO_LOCK 1)"
    unfolding keeps_def check_cal_done_def
    using run_cal_poll [OF l, of "vco_lock_reg side" 1 5001] by (metis snd_conv)
qed

text \<open>The registers the other side's turn writes, at both offsets.\<close>

lemma vco_init_addrs:
  "\<forall>offs \<in> {0, REG_TX_VCO_OUTPUT - REG_RX_VCO_OUTPUT}. \<forall>r \<in> {REG_RX_VCO_OUTPUT, REG_RX_ALC_VARACTOR,
     REG_RX_VCO_BIAS_1, REG_RX_FORCE_VCO_TUNE_1, REG_RX_VCO_VARACTOR_CTRL_1, REG_RX_VCO_CAL_REF,
     REG_RX_VCO_VARACTOR_CTRL_0, REG_RX_CP_CURRENT, REG_RX_LOOP_FILTER_1, REG_RX_LOOP_FILTER_2,
     REG_RX_LOOP_FILTER_3}. AD_ADDR (r + offs) \<notin> carrier_addrs"
  by code_simp

lemma prepare_addrs:
  "\<forall>tx. \<forall>r \<in> {REG_RX_FAST_LOCK_SETUP, REG_RX_FORCE_ALC, REG_RX_FORCE_VCO_TUNE_1}.
     AD_ADDR (r + fl_offs tx) \<notin> carrier_addrs"
  "AD_ADDR REG_ENSM_CONFIG_2 \<notin> carrier_addrs"
  "VCO_VARACTOR (- 1) \<noteq> 0" "CHARGE_PUMP_CURRENT (- 1) \<noteq> 0" "FORCE_ALC_ENABLE \<noteq> 0" "FORCE_VCO_TUNE_ENABLE \<noteq> 0"
  by code_simp+

lemma keeps_carrier_vco_init: "keeps (carrier_regs tx) (rfpll_vco_init chip_bus side v p)"
proof -
  have upd: "carrier_regs tx (if side then s\<lparr>st_current_tx_use_tdd_table := x\<rparr> else s\<lparr>st_current_rx_use_tdd_table := x\<rparr>) =
      carrier_regs tx s" for s x
    by (simp add: carrier_regs_def)
  show ?thesis
    unfolding rfpll_vco_init_def Let_def
    by (intro keeps_intro keeps_update keeps_carrier_write prepare_addrs(3,4) upd
        vco_init_addrs [THEN bspec, THEN bspec]) auto
qed

lemma keeps_carrier_prepare: "keeps (carrier_regs tx) (fastlock_prepare chip_bus side 0 False)"
proof -
  have upd: "carrier_regs tx (s\<lparr>st_fl_current := x\<rparr>) = carrier_regs tx s" for s x
    by (simp add: carrier_regs_def)
  have pfd: "AD_ADDR (if side then REG_TX_PFD_CONFIG else REG_RX_PFD_CONFIG) \<notin> carrier_addrs"
    using tune_addrs(4,5) by (cases side) simp_all
  have m: "(if side then TX_SYNTH_READY_MASK else RX_SYNTH_READY_MASK) \<noteq> 0" by (simp add: ready_masks)
  show ?thesis
    unfolding fastlock_prepare_def Let_def trx_vco_cal_control_def
    by (intro keeps_intro keeps_update keeps_carrier_write prepare_addrs(2,5,6) pfd m upd
        prepare_addrs(1) [THEN spec, THEN bspec]) (simp_all add: ready_masks)
qed

lemma keeps_carrier_program: "keeps (carrier_regs tx) (rfpll_program chip_bus (\<not> tx) p w)"
  unfolding rfpll_program_def
  by (intro keeps_intro keeps_carrier_vco_init keeps_carrier_own) (simp add: rfpll_bytes_def)

lemma program_result: "\<exists>e s'. run_state (rfpll_program chip_bus side p w) s = (e, s') \<and> (e = 0 \<or> e = - 110)"
proof -
  obtain x c0 where 1: "run_state (rfpll_vco_init chip_bus side (rw_vco w) p) s = (x, (mark_tables side s)\<lparr>ad_chip := c0\<rparr>)"
    using rfpll_vco_init_runs [of chip_bus side "rw_vco w" p s] by blast
  have l: "VCO_LOCK \<noteq> 0" by (simp add: ad_regs)
  have poll: "\<exists>e. run_state (check_cal_done chip_bus (vco_lock_reg side) VCO_LOCK 1) t = (e, t) \<and> (e = 0 \<or> e = - 110)" for t
    using run_cal_poll [OF l, of "vco_lock_reg side" 1 5001 t] unfolding check_cal_done_def by blast
  show ?thesis
    unfolding rfpll_program_def run_bind_eq [OF 1]
    using vco_div_field(2) [of 0 side]
    by (simp add: run_spi_read run_spi_writem run_spi_writef) (use poll in blast)
qed

lemma mark_fl_current [simp]: "st_fl_current (mark_tables side s) = st_fl_current s"
  by (simp add: mark_tables_def Let_def)

text \<open>The other side's turn: it ends the loop and leaves this side's carrier as it is.\<close>

lemma other_round_keeps:
  assumes "\<not> rfpll_fixup (mark_tables (\<not> tx) s)"
  shows "\<exists>e s'. run_state (rfpll_rounds chip_bus src p (Suc k) (\<not> tx) w) s = (Some e, s') \<and> (e = 0 \<or> e = - 110) \<and>
     carrier_regs tx s' = carrier_regs tx s \<and> st_fl_current s' = st_fl_current s"
proof -
  obtain e c where 1: "run_state (rfpll_program chip_bus (\<not> tx) p w) s = (e, (mark_tables (\<not> tx) s)\<lparr>ad_chip := c\<rparr>)"
    using rfpll_program_runs [of chip_bus "\<not> tx" p w s] by blast
  have "e = 0 \<or> e = - 110" using program_result [of "\<not> tx" p w s] 1 by auto
  moreover have "carrier_regs tx ((mark_tables (\<not> tx) s)\<lparr>ad_chip := c\<rparr>) = carrier_regs tx s"
    by (rule keepsD [OF keeps_carrier_program 1])
  ultimately show ?thesis
    unfolding rfpll_rounds.simps run_bind_eq [OF 1] run_bind_get using assms by simp
qed

lemma rounds_hold_words:
  assumes k: "rw_div w = int k" "k \<le> 6" and fl: "st_fl_current s tx = 0"
  shows "\<exists>e s'. run_state (rfpll_rounds chip_bus tx p (Suc (Suc fuel)) tx w) s = (Some e, s') \<and>
     (e = 0 \<or> e = - 110) \<and> holds_words tx w (ad_chip s') \<and> st_fl_current s' tx = 0"
proof -
  obtain e c where 1: "run_state (rfpll_program chip_bus tx p w) s = (e, (mark_tables tx s)\<lparr>ad_chip := c\<rparr>)"
    "e = 0 \<or> e = - 110" "holds_words tx w c"
    using run_program_words [OF k] by blast
  let ?s1 = "(mark_tables tx s)\<lparr>ad_chip := c\<rparr>"
  have nf: "\<not> rfpll_fixup (mark_tables (\<not> tx) ?s1)" by (simp add: no_fixup_after_both)
  have kept: "holds_words tx w (ad_chip s')" if "carrier_regs tx s' = carrier_regs tx ?s1" for s'
    using holds_words_regs [OF that] 1(3) by simp
  note run = rfpll_rounds.simps(2) [of _ _ _ "Suc fuel"] run_bind_eq [OF 1(1)] run_bind_get
  show ?thesis
  proof (cases "rfpll_fixup ?s1")
    case False
    then show ?thesis using 1(2,3) fl unfolding run by simp
  next
    case fx: True
    show ?thesis
    proof (cases "st_current_tx_lo_freq ?s1 = st_current_rx_lo_freq ?s1")
      case True
      obtain e2 s2 where 2: "run_state (rfpll_rounds chip_bus tx p (Suc fuel) (\<not> tx) w) ?s1 = (Some e2, s2)"
        "e2 = 0 \<or> e2 = - 110" "carrier_regs tx s2 = carrier_regs tx ?s1" "st_fl_current s2 = st_fl_current ?s1"
        using other_round_keeps [OF nf] by blast
      then show ?thesis using fx True fl kept [OF 2(3)] unfolding run by simp
    next
      case False
      obtain res where res: "calc_rfpll_divder (pd_dev ?s1) tx
          (ad9361_from_clk (ucast (if tx then st_current_rx_lo_freq ?s1 else st_current_tx_lo_freq ?s1))) (ucast p) = Some res"
        using calc_divder_some by blast
      obtain y d f where 2: "run_state (fastlock_prepare chip_bus (\<not> tx) 0 False) ?s1 = (y, ?s1\<lparr>ad_chip := d, st_fl_current := f\<rparr>)"
        using prepare_false_runs [of chip_bus "\<not> tx" 0 ?s1] by blast
      let ?s2 = "?s1\<lparr>ad_chip := d, st_fl_current := f\<rparr>"
      have cr: "carrier_regs tx ?s2 = carrier_regs tx ?s1" by (rule keepsD [OF keeps_carrier_prepare 2])
      have f: "f tx = 0" using prepare_false_other [OF 2] fl by simp
      have "\<not> rfpll_fixup (mark_tables (\<not> tx) ?s2)" using nf by simp
      from other_round_keeps [OF this] obtain e3 s3 where
        3: "run_state (rfpll_rounds chip_bus tx p (Suc fuel) (\<not> tx) (case res of Inl _ \<Rightarrow> w | Inr w' \<Rightarrow> w')) ?s2 = (Some e3, s3)"
        "e3 = 0 \<or> e3 = - 110" "carrier_regs tx s3 = carrier_regs tx ?s2" "st_fl_current s3 = st_fl_current ?s2"
        by blast
      have "holds_words tx w (ad_chip s3)" by (rule kept) (simp only: 3(3) cr)
      moreover have "st_fl_current s3 tx = 0" using 3(4) f by simp
      ultimately show ?thesis
        unfolding run using fx False res 3(1,2)
        by (simp only: if_True not_False_eq_True not_True_eq_False option.case run_bind_eq [OF 2]) blast
    qed
  qed
qed

text \<open>Setting the carrier: its words are in the registers when it returns.\<close>

lemma run_set_rate_words:
  assumes calc: "calc_rfpll_divder (pd_dev s) tx (ad9361_from_clk rate) (ucast p) = Some (Inr w)"
    and k: "rw_div w = int k" "k \<le> 6"
  shows "\<exists>e s'. run_state (rfpll_set_rate chip_bus (Suc (Suc fuel)) tx rate p) s = (Some e, s') \<and> (e = 0 \<or> e = - 110) \<and>
     holds_words tx w (ad_chip s') \<and> st_fl_current s' tx = 0"
proof -
  obtain x c0 f where 0: "run_state (fastlock_prepare chip_bus tx 0 False) s = (x, s\<lparr>ad_chip := c0, st_fl_current := f\<rparr>)"
    using prepare_false_runs [of chip_bus tx 0 s] by blast
  let ?s0 = "s\<lparr>ad_chip := c0, st_fl_current := f\<rparr>"
  have f: "f tx = 0" using prepare_false_leaves [OF 0] by simp
  let ?set = "\<lambda>s. if tx then s\<lparr>st_cached_tx_rfpll_div := word_of_int (rw_div w), st_current_tx_lo_freq := ucast rate\<rparr>
      else s\<lparr>st_cached_rx_rfpll_div := word_of_int (rw_div w), st_current_rx_lo_freq := ucast rate\<rparr> :: regfile ad9361"
  have "chip_only (if pd_tdd_skip_vco_cal ?s0 then trx_vco_cal_control chip_bus tx True else rtn 0)"
    by (intro chip_intro)
  from chip_onlyE [OF this] obtain y c1 where 1: "run_state (if pd_tdd_skip_vco_cal ?s0 then trx_vco_cal_control chip_bus tx True else rtn 0)
      (?set ?s0) = (y, (?set ?s0)\<lparr>ad_chip := c1\<rparr>)" by blast
  let ?s1 = "(?set ?s0)\<lparr>ad_chip := c1\<rparr>"
  have fl1: "st_fl_current ?s1 tx = 0" using f by (cases tx) simp_all
  obtain e s2 where 2: "run_state (rfpll_rounds chip_bus tx p (Suc (Suc fuel)) tx w) ?s1 = (Some e, s2)"
    "e = 0 \<or> e = - 110" "holds_words tx w (ad_chip s2)" "st_fl_current s2 tx = 0"
    using rounds_hold_words [OF k fl1] by blast
  have "\<exists>z s3. run_state (if pd_tdd_skip_vco_cal ?s0 then trx_vco_cal_control chip_bus tx False else rtn 0) s2 = (z, s3) \<and>
      holds_words tx w (ad_chip s3) \<and> st_fl_current s3 tx = 0"
    using 2(3,4) tune_addrs(4,5)
    by (auto simp: trx_vco_cal_control_def run_spi_writef ready_masks set_reg_def intro!: holds_words_other)
  then obtain z s3 where 3: "run_state (if pd_tdd_skip_vco_cal ?s0 then trx_vco_cal_control chip_bus tx False else rtn 0) s2 = (z, s3)"
    "holds_words tx w (ad_chip s3)" "st_fl_current s3 tx = 0" by blast
  have c: "calc_rfpll_divder (pd_dev ?s0) tx (ad9361_from_clk rate) (ucast p) = Some (Inr w)" using calc by simp
  have "run_state (rfpll_set_rate chip_bus (Suc (Suc fuel)) tx rate p) s = (Some e, s3)"
    unfolding rfpll_set_rate_def run_bind_eq [OF 0] run_bind_get c option.case sum.case run_bind_update
      run_bind_eq [OF 1] run_bind_eq [OF 2(1)] run_bind_eq [OF 3(1)]
    by simp
  then show ?thesis using 2(2) 3 by blast
qed

subsection \<open>The properties\<close>

text \<open>
  C21. Setting a carrier ends, whatever the chip answers: reprogramming the other
  synthesizer takes at most one more round, so two rounds of the loop are always enough.
\<close>

theorem rfpll_set_rate_returns:
  "\<exists>r s'. run_state (rfpll_set_rate bus (Suc (Suc fuel)) tx rate p) s = (Some r, s')"
proof -
  obtain x c f where 0: "run_state (fastlock_prepare bus tx 0 False) s = (x, s\<lparr>ad_chip := c, st_fl_current := f\<rparr>)"
    using prepare_false_runs [of bus tx 0 s] by blast
  obtain res where res: "calc_rfpll_divder (pd_dev (s\<lparr>ad_chip := c, st_fl_current := f\<rparr>)) tx (ad9361_from_clk rate) (ucast p) = Some res"
    using calc_divder_some by blast
  show ?thesis
  proof (cases res)
    case (Inl r)
    then show ?thesis unfolding rfpll_set_rate_def run_bind_eq [OF 0] run_bind_get res by simp
  next
    case (Inr w)
    define s1 where "s1 = (if tx then s\<lparr>ad_chip := c, st_fl_current := f, st_cached_tx_rfpll_div := word_of_int (rw_div w), st_current_tx_lo_freq := ucast rate\<rparr>
      else s\<lparr>ad_chip := c, st_fl_current := f, st_cached_rx_rfpll_div := word_of_int (rw_div w), st_current_rx_lo_freq := ucast rate\<rparr>)"
    have "chip_only (if pd_tdd_skip_vco_cal (s\<lparr>ad_chip := c, st_fl_current := f\<rparr>) then trx_vco_cal_control bus tx True else rtn 0)"
      by (intro chip_intro)
    from chip_onlyE [OF this, of s1] obtain y c1 where 1: "run_state (if pd_tdd_skip_vco_cal (s\<lparr>ad_chip := c, st_fl_current := f\<rparr>)
        then trx_vco_cal_control bus tx True else rtn 0) s1 = (y, s1\<lparr>ad_chip := c1\<rparr>)" by blast
    obtain r s2 where 2: "run_state (rfpll_rounds bus tx p (Suc (Suc fuel)) tx w) (s1\<lparr>ad_chip := c1\<rparr>) = (Some r, s2)"
      using rounds_end by blast
    have "chip_only (if pd_tdd_skip_vco_cal (s\<lparr>ad_chip := c, st_fl_current := f\<rparr>) then trx_vco_cal_control bus tx False else rtn 0)"
      by (intro chip_intro)
    from chip_onlyE [OF this, of s2] obtain z c2 where 3: "run_state (if pd_tdd_skip_vco_cal (s\<lparr>ad_chip := c, st_fl_current := f\<rparr>)
        then trx_vco_cal_control bus tx False else rtn 0) s2 = (z, s2\<lparr>ad_chip := c2\<rparr>)" by blast
    show ?thesis
      unfolding rfpll_set_rate_def run_bind_eq [OF 0] run_bind_get res option.case Inr sum.case run_bind_update s1_def [symmetric]
        run_bind_eq [OF 1] run_bind_eq [OF 2] run_bind_eq [OF 3]
      by simp
  qed
qed

text \<open>
  C22. A carrier that was set is read back. Over a register file, in either duplex mode and
  whatever the other side's carrier and profile are, setting any carrier the driver accepts
  takes at most two rounds and leaves registers from which the driver recalculates it:
  reprogramming the other synthesizer does not disturb the words just written. Rates are
  those of the clock framework, half the carrier, and what is read back is at most 1 above
  and 2 below. The reference clock is that of the synthesizer, between 5.86 and 83.8 MHz,
  which includes every clock the driver can give it (at most 80 MHz).
\<close>

theorem rfpll_set_then_recalc:
  assumes "validate_rfpll (pd_dev s) tx (ad9361_from_clk rate) = 0"
    and "5859376 \<le> unat p" "unat p < 83885930"
  shows "\<exists>e s'. run_state (rfpll_set_rate chip_bus (Suc (Suc fuel)) tx rate p) s = (Some e, s') \<and> (e = 0 \<or> e = - 110) \<and>
     unat (fst (run_state (rfpll_recalc_rate chip_bus tx p) s')) \<le> unat rate + 1 \<and>
     unat rate \<le> unat (fst (run_state (rfpll_recalc_rate chip_bus tx p) s')) + 2"
proof -
  have up: "unat (ucast p :: u64) = unat p" by simp
  obtain w where w: "calc_rfpll_divder (pd_dev s) tx (ad9361_from_clk rate) (ucast p) = Some (Inr w)"
    "0 \<le> rw_div w" "rw_div w \<le> 6" "unat (rw_integer w) < 2048" "unat (rw_fract w) < 8388608"
    "unat (calc_rfpll_freq (ucast p) (ucast (rw_integer w)) (ucast (rw_fract w)) (word_of_int (rw_div w))) \<le>
       unat (ad9361_from_clk rate) + 3"
    "unat (ad9361_from_clk rate) \<le>
       unat (calc_rfpll_freq (ucast p) (ucast (rw_integer w)) (ucast (rw_fract w)) (word_of_int (rw_div w))) + 3"
    using rfpll_tunes_bound [OF assms(1), of "ucast p"] assms(2,3) unfolding up by blast
  obtain k where k: "rw_div w = int k" "k \<le> 6" using w(2,3) nonneg_int_cases by fastforce
  have fc: "unat (ad9361_from_clk rate) = 2 * unat rate"
    using unat_u32_lt [of rate] by (simp add: ad9361_from_clk_def push_bit_eq_mult unat_word_ariths)
  have r: "unat rate \<le> 3000000000" using validate_rfpll_range(2) [OF assms(1)] fc by simp
  obtain e s' where s': "run_state (rfpll_set_rate chip_bus (Suc (Suc fuel)) tx rate p) s = (Some e, s')" "e = 0 \<or> e = - 110"
    "holds_words tx w (ad_chip s')" "st_fl_current s' tx = 0"
    using run_set_rate_words [OF w(1) k] by blast
  note rc = run_recalc_words [OF s'(3,4) k w(4,5), of p]
  show ?thesis
    using s'(1,2) to_clk_near [OF w(6,7) [unfolded fc] r] by (intro exI [of _ e] exI [of _ s']) (simp add: rc)
qed

text \<open>The board's own duplex mode, with the receive side elsewhere.\<close>

theorem rfpll_set_then_recalc_witness:
  "\<exists>e s'. run_state (rfpll_set_rate chip_bus (Suc (Suc 0)) True 1200000000 40000000)
       (ad_zero\<lparr>pd_fdd := True, st_current_rx_lo_freq := 600000000, st_current_rx_use_tdd_table := True\<rparr>) = (Some e, s') \<and>
     unat (fst (run_state (rfpll_recalc_rate chip_bus True 40000000) s')) \<le> unat (1200000000 :: u32) + 1 \<and>
     unat (1200000000 :: u32) \<le> unat (fst (run_state (rfpll_recalc_rate chip_bus True 40000000) s')) + 2"
proof -
  let ?s = "ad_zero\<lparr>pd_fdd := True, st_current_rx_lo_freq := 600000000, st_current_rx_use_tdd_table := True\<rparr>"
  have "ad9361_from_clk 1200000000 = 2400000000" by (simp add: ad9361_from_clk_def)
  then have "validate_rfpll (pd_dev ?s) True (ad9361_from_clk 1200000000) = 0"
    by (simp add: ad_zero_def validate_rfpll_def MAX_CARRIER_FREQ_HZ_def MIN_TX_CARRIER_FREQ_HZ_def)
  from rfpll_set_then_recalc [OF this, of 40000000 0] show ?thesis by auto
qed

end
