(* ===== verification/Ad_Gain.thy ===== *)
theory Ad_Gain
  imports Ad_Spi Ad_Regs
begin

unbundle bit_operations_syntax

text \<open>
  The receive gain of the AD9361 driver: the choice of the gain table for a carrier, the
  search for a gain in it, loading a table into the chip, and setting and reading the gain
  in the full and in the split table mode. A read past the end of one of the tables has no
  result (\<open>None\<close>).
\<close>

definition RXGAIN_TBLS_END :: int where "RXGAIN_TBLS_END = 3"

record rf_rx_gain =
  rg_ant :: u32
  rg_gain_db :: int
  rg_fgt_lmt_index :: u32
  rg_lmt_gain :: u32
  rg_lpf_gain :: u32
  rg_digital_gain :: u32
  rg_lna_index :: u32
  rg_tia_index :: u32
  rg_mixer_index :: u32

definition tbl_at :: "'a list \<Rightarrow> int \<Rightarrow> 'a option" where
  "tbl_at xs i = (if 0 \<le> i \<and> i < int (length xs) then Some (xs ! nat i) else None)"

subsection \<open>The table of a carrier\<close>

text \<open>The list ends where the array has its empty entry.\<close>

fun gt_tableindex_from :: "bool \<Rightarrow> u64 \<Rightarrow> nat \<Rightarrow> gain_table_info list \<Rightarrow> nat" where
  "gt_tableindex_from split freq i [] = 0"
| "gt_tableindex_from split freq i (g # gs) =
     (if split = gt_split_table g \<and> gt_start g < freq \<and> freq \<le> gt_end g then i
      else gt_tableindex_from split freq (Suc i) gs)"

definition gt_tableindex :: "u64 \<Rightarrow> 'c ad9361 \<Rightarrow> nat" where
  "gt_tableindex freq s = gt_tableindex_from (pd_split_gt s) freq 0 (ph_gt_info s)"

definition gt :: "'c ad9361 \<Rightarrow> nat" where
  "gt s = (if st_current_table s = - 1 then 0 else nat (st_current_table s))"

subsection \<open>Searching a gain\<close>

fun find_index_from :: "int list \<Rightarrow> int \<Rightarrow> nat \<Rightarrow> nat \<Rightarrow> int" where
  "find_index_from gains gain i 0 = - 22"
| "find_index_from gains gain i (Suc k) =
     (if gain \<le> gains ! i then
        (let p = (if 0 < i then i - 1 else i) in
         if \<bar>gains ! p - gain\<bar> < \<bar>gains ! i - gain\<bar> then int p else int i)
      else find_index_from gains gain (Suc i) k)"

definition find_table_index :: "int \<Rightarrow> 'c ad9361 \<Rightarrow> int" where
  "find_table_index gain s =
     (let g = ph_gt_info s ! gt s in find_index_from (gt_abs_gain g) gain 0 (unat (gt_max_index g)))"

subsection \<open>Loading a table\<close>

text \<open>The gain a manual gain register stands for before the table changes.\<close>

definition manual_gain :: "'c bus \<Rightarrow> u32 \<Rightarrow> nat \<Rightarrow> ('c ad9361, int option) state" where
  "manual_gain bus reg band = do {
     s \<leftarrow> get_phy;
     v \<leftarrow> spi_readf bus reg RX_FULL_TBL_IDX_MASK;
     let set_gain = (word_of_int v :: u32);
     let index_max = (ucast (gt_max_index (ph_gt_info s ! band)) :: u32);
     rtn (if 0 \<le> st_current_table s then
            tbl_at (gt_abs_gain (ph_gt_info s ! nat (st_current_table s))) (int (unat set_gain))
          else tbl_at (gt_abs_gain (ph_gt_info s ! band))
                 (int (unat (if index_max - 1 < set_gain then index_max - 1 else set_gain))))
   }"

fun load_rows :: "'c bus \<Rightarrow> u32 \<Rightarrow> u8 \<Rightarrow> u8 \<Rightarrow> nat \<Rightarrow> gain_row list \<Rightarrow> ('c ad9361, unit) state" where
  "load_rows bus dest lna lpf_tia_mask i [] = rtn ()"
| "load_rows bus dest lna lpf_tia_mask i ((t0, t1, t2) # rows) = do {
     _ \<leftarrow> spi_write bus REG_GAIN_TABLE_ADDRESS (of_nat i);
     _ \<leftarrow> spi_write bus REG_GAIN_TABLE_WRITE_DATA1 (ucast (t0 OR lna));
     _ \<leftarrow> spi_write bus REG_GAIN_TABLE_WRITE_DATA2 (ucast t1);
     _ \<leftarrow> spi_write bus REG_GAIN_TABLE_WRITE_DATA3 (ucast t2);
     _ \<leftarrow> spi_write bus REG_GAIN_TABLE_CONFIG (START_GAIN_TABLE_CLOCK OR WRITE_GAIN_TABLE OR RECEIVER_SELECT dest);
     _ \<leftarrow> spi_write bus REG_GAIN_TABLE_READ_DATA1 0;
     _ \<leftarrow> spi_write bus REG_GAIN_TABLE_READ_DATA1 0;
     _ \<leftarrow> upd_phy (\<lambda>s. if t1 AND lpf_tia_mask = 0x20 then s\<lparr>st_tx_quad_lpf_tia_match := int i\<rparr> else s);
     load_rows bus dest lna lpf_tia_mask (Suc i) rows
   }"

text \<open>The index of a gain in the new table, its last entry when the gain is above it.\<close>

definition new_index :: "int \<Rightarrow> 'c ad9361 \<Rightarrow> int" where
  "new_index gain s =
     (let ret = find_table_index gain s in
      if ret < 0 then int (unat (gt_max_index (ph_gt_info s ! gt s))) - 1 else ret)"

definition load_gt :: "'c bus \<Rightarrow> u64 \<Rightarrow> u32 \<Rightarrow> ('c ad9361, int option) state" where
  "load_gt bus freq dest = do {
     s \<leftarrow> get_phy;
     let band = gt_tableindex freq s;
     if st_current_table s = int band then rtn (Some 0)
     else do {
       let g = ph_gt_info s ! band;
       _ \<leftarrow> spi_writef bus REG_AGC_CONFIG_2 AGC_USE_FULL_GAIN_TABLE (if pd_split_gt s then 0 else 1);
       _ \<leftarrow> spi_write bus REG_MAX_LMT_FULL_GAIN (ucast (gt_max_index g) - 1);
       g1 \<leftarrow> manual_gain bus REG_RX1_MANUAL_LMT_FULL_GAIN band;
       g2 \<leftarrow> manual_gain bus REG_RX2_MANUAL_LMT_FULL_GAIN band;
       case (g1, g2) of
         (Some rx1_gain, Some rx2_gain) \<Rightarrow> do {
           _ \<leftarrow> spi_write bus REG_GAIN_TABLE_CONFIG (START_GAIN_TABLE_CLOCK OR RECEIVER_SELECT dest);
           _ \<leftarrow> upd_phy (\<lambda>s. s\<lparr>st_tx_quad_lpf_tia_match := - 22\<rparr>);
           _ \<leftarrow> load_rows bus dest (if el_elna_in_gaintable_all_index_en (pd_elna_ctrl s) then ucast EXT_LNA_CTRL else 0)
                  (if pd_split_gt s then 0x20 else 0x3F) 0 (take (unat (gt_max_index g)) (gt_tab g));
           _ \<leftarrow> spi_write bus REG_GAIN_TABLE_CONFIG (START_GAIN_TABLE_CLOCK OR RECEIVER_SELECT dest);
           _ \<leftarrow> spi_write bus REG_GAIN_TABLE_READ_DATA1 0;
           _ \<leftarrow> spi_write bus REG_GAIN_TABLE_READ_DATA1 0;
           _ \<leftarrow> spi_write bus REG_GAIN_TABLE_CONFIG 0;
           _ \<leftarrow> upd_phy (\<lambda>s. s\<lparr>st_current_table := int band\<rparr>);
           s \<leftarrow> get_phy;
           _ \<leftarrow> spi_writef bus REG_RX1_MANUAL_LMT_FULL_GAIN RX_FULL_TBL_IDX_MASK (word_of_int (new_index rx1_gain s));
           _ \<leftarrow> spi_write bus REG_RX2_MANUAL_LMT_FULL_GAIN (word_of_int (new_index rx2_gain s));
           rtn (Some 0)
         }
       | _ \<Rightarrow> rtn None
     }
   }"

subsection \<open>Setting the gain\<close>

definition set_split_table_gain :: "'c bus \<Rightarrow> u32 \<Rightarrow> rf_rx_gain \<Rightarrow> ('c ad9361, int \<times> rf_rx_gain) state" where
  "set_split_table_gain bus idx_reg rg =
     (if MAX_LMT_INDEX < rg_fgt_lmt_index rg \<or> MAX_LPF_GAIN < rg_lpf_gain rg \<or> MAX_DIG_GAIN < rg_digital_gain rg
      then rtn (0, rg)
      else do {
        s \<leftarrow> get_phy;
        let rc = find_table_index (rg_gain_db rg) s;
        if rc < 0 then rtn (0, rg)
        else do {
          let rg' = rg\<lparr>rg_fgt_lmt_index := word_of_int rc\<rparr>;
          _ \<leftarrow> spi_writef bus idx_reg RX_FULL_TBL_IDX_MASK (rg_fgt_lmt_index rg');
          _ \<leftarrow> spi_writef bus (idx_reg + 1) RX_LPF_IDX_MASK (rg_lpf_gain rg');
          _ \<leftarrow> if gc_dig_gain_en (pd_gain_ctrl s) then spi_writef bus (idx_reg + 2) RX_DIGITAL_IDX_MASK (rg_digital_gain rg')
               else rtn 0;
          rtn (0, rg')
        }
      })"

definition set_full_table_gain :: "'c bus \<Rightarrow> u32 \<Rightarrow> rf_rx_gain \<Rightarrow> ('c ad9361, int \<times> rf_rx_gain) state" where
  "set_full_table_gain bus idx_reg rg = do {
     s \<leftarrow> get_phy;
     let rc = find_table_index (rg_gain_db rg) s;
     if rc < 0 then rtn (rc, rg)
     else do {
       rc \<leftarrow> spi_writef bus idx_reg RX_FULL_TBL_IDX_MASK (word_of_int rc);
       rtn (rc, rg)
     }
   }"

definition set_rx_gain :: "'c bus \<Rightarrow> u32 \<Rightarrow> rf_rx_gain \<Rightarrow> ('c ad9361, int \<times> rf_rx_gain) state" where
  "set_rx_gain bus rx_id rg =
     (if rx_id \<noteq> 1 \<and> rx_id \<noteq> 2 then rtn (- 22, rg)
      else do {
        let shift = unat (if rx_id = 1 then RX1_GAIN_CTRL_SHIFT else RX2_GAIN_CTRL_SHIFT);
        let idx_reg = (if rx_id = 1 then REG_RX1_MANUAL_LMT_FULL_GAIN else REG_RX2_MANUAL_LMT_FULL_GAIN);
        v \<leftarrow> spi_read bus REG_AGC_CONFIG_1;
        if drop_bit shift (word_of_int v) AND RX_GAIN_CTL_MASK \<noteq> RX_GAIN_CTL_MGC then rtn (- 95, rg)
        else do {
          s \<leftarrow> get_phy;
          if pd_split_gt s then set_split_table_gain bus idx_reg rg else set_full_table_gain bus idx_reg rg
        }
      })"

subsection \<open>Reading the gain\<close>

definition get_split_table_gain :: "'c bus \<Rightarrow> u32 \<Rightarrow> rf_rx_gain \<Rightarrow> ('c ad9361, (int \<times> rf_rx_gain) option) state" where
  "get_split_table_gain bus idx_reg rg = do {
     idx \<leftarrow> spi_readf bus idx_reg (FULL_TABLE_GAIN_INDEX (- 1));
     tbl_addr \<leftarrow> spi_read bus REG_GAIN_TABLE_ADDRESS;
     _ \<leftarrow> spi_write bus REG_GAIN_TABLE_ADDRESS (word_of_int idx);
     v \<leftarrow> spi_read bus REG_GAIN_TABLE_READ_DATA1;
     let lna = TO_LNA_GAIN (word_of_int v);
     let mixer = TO_MIXER_GM_GAIN (word_of_int v);
     t \<leftarrow> spi_readf bus REG_GAIN_TABLE_READ_DATA2 TIA_GAIN;
     s \<leftarrow> get_phy;
     let band = int (gt s) - RXGAIN_TBLS_END;
     let lmt = (case (Option.bind (tbl_at lna_table band) (\<lambda>row. tbl_at row (int (unat lna))),
                      Option.bind (tbl_at mixer_table band) (\<lambda>row. tbl_at row (int (unat mixer))),
                      tbl_at tia_table t) of
                  (Some a, Some b, Some c) \<Rightarrow> Some (a + b + c)
                | _ \<Rightarrow> None);
     case lmt of
       None \<Rightarrow> rtn None
     | Some g \<Rightarrow> do {
         _ \<leftarrow> spi_write bus REG_GAIN_TABLE_ADDRESS (word_of_int tbl_addr);
         lpf \<leftarrow> spi_readf bus (idx_reg + 1) (LPF_GAIN_RX (- 1));
         dig \<leftarrow> spi_readf bus (idx_reg + 2) (DIGITAL_GAIN_RX (- 1));
         rtn (Some (0, rg\<lparr>rg_fgt_lmt_index := word_of_int idx, rg_lna_index := lna, rg_mixer_index := mixer,
           rg_tia_index := word_of_int t, rg_lmt_gain := word_of_int g, rg_lpf_gain := word_of_int lpf,
           rg_digital_gain := word_of_int dig,
           rg_gain_db := sint (word_of_int (g + lpf + dig) :: u32)\<rparr>))
       }
   }"

definition get_full_table_gain :: "'c bus \<Rightarrow> u32 \<Rightarrow> rf_rx_gain \<Rightarrow> ('c ad9361, (int \<times> rf_rx_gain) option) state" where
  "get_full_table_gain bus idx_reg rg = do {
     v \<leftarrow> spi_readf bus idx_reg (FULL_TABLE_GAIN_INDEX (- 1));
     dig \<leftarrow> spi_readf bus (idx_reg + 2) (DIGITAL_GAIN_RX (- 1));
     s \<leftarrow> get_phy;
     rtn (map_option (\<lambda>g. (0, rg\<lparr>rg_fgt_lmt_index := word_of_int v, rg_digital_gain := word_of_int dig, rg_gain_db := g\<rparr>))
            (tbl_at (gt_abs_gain (ph_gt_info s ! gt s)) (int (unat (word_of_int v :: u32)))))
   }"

definition get_rx_gain :: "'c bus \<Rightarrow> u32 \<Rightarrow> rf_rx_gain \<Rightarrow> ('c ad9361, (int \<times> rf_rx_gain) option) state" where
  "get_rx_gain bus rx_id rg =
     (if rx_id \<noteq> 1 \<and> rx_id \<noteq> 2 then rtn (Some (- 22, rg))
      else do {
        let gain_ctl_shift = unat (if rx_id = 1 then RX1_GAIN_CTRL_SHIFT else RX2_GAIN_CTRL_SHIFT);
        let idx_reg = (if rx_id = 1 then REG_GAIN_RX1 else REG_GAIN_RX2);
        let fast_atk_shift = unat (if rx_id = 1 then RX1_FAST_ATK_SHIFT else RX2_FAST_ATK_SHIFT);
        val \<leftarrow> spi_readf bus REG_RX_ENABLE_FILTER_CTRL (RX_CHANNEL_ENABLE (if rx_id = 1 then RX_1 else RX_2));
        if val = 0 then rtn (Some (- 11, rg))
        else do {
          v \<leftarrow> spi_read bus REG_AGC_CONFIG_1;
          locked \<leftarrow>
            (if drop_bit gain_ctl_shift (word_of_int v) AND RX_GAIN_CTL_MASK = RX_GAIN_CTL_AGC_FAST_ATK then do {
               f \<leftarrow> spi_read bus REG_FAST_ATTACK_STATE;
               rtn (drop_bit fast_atk_shift (word_of_int f) AND FAST_ATK_MASK = FAST_ATK_GAIN_LOCKED)
             } else rtn True);
          if \<not> locked then rtn (Some (- 11, rg))
          else do {
            s \<leftarrow> get_phy;
            if pd_split_gt s then get_split_table_gain bus idx_reg rg else get_full_table_gain bus idx_reg rg
          }
        }
      })"

end
