(* ===== verification/Ad_Gain_Props.thy ===== *)
theory Ad_Gain_Props
  imports Ad_Gain
begin

unbundle bit_operations_syntax

text \<open>
  The receive gain: the search finds the nearest gain of a rising table, a gain is set to
  the nearest one or refused, and loading another table keeps the gains as near as the new
  table allows.
\<close>

subsection \<open>The search\<close>

lemma rising_Cons: "rising (a # xs) \<Longrightarrow> rising xs"
  by (cases xs) simp_all

lemma rising_nth: "rising xs \<Longrightarrow> i \<le> j \<Longrightarrow> j < length xs \<Longrightarrow> xs ! i \<le> xs ! j"
proof (induction xs arbitrary: i j)
  case (Cons a xs)
  show ?case
  proof (cases j)
    case (Suc j')
    have r: "rising xs" using Cons.prems(1) by (rule rising_Cons)
    show ?thesis
    proof (cases i)
      case 0
      from Suc Cons.prems(3) obtain b ys where xs: "xs = b # ys" by (cases xs) auto
      have "a \<le> b" using Cons.prems(1) xs by simp
      also have "b \<le> xs ! j'" using Cons.IH [OF r, of 0 j'] Suc Cons.prems(3) xs by simp
      finally show ?thesis using 0 Suc by simp
    next
      case (Suc i')
      with Cons.IH [OF r, of i' j'] Cons.prems \<open>j = Suc j'\<close> show ?thesis by simp
    qed
  qed (use Cons.prems in simp)
qed simp

definition nearest :: "int list \<Rightarrow> int \<Rightarrow> nat \<Rightarrow> bool" where
  "nearest gains gain i \<longleftrightarrow> i < length gains \<and> (\<forall>j < length gains. \<bar>gains ! i - gain\<bar> \<le> \<bar>gains ! j - gain\<bar>)"

lemma nearest_at_crossing:
  assumes r: "rising xs" and i: "i < length xs" "gain \<le> xs ! i" and below: "\<And>j. j < i \<Longrightarrow> xs ! j < gain"
  shows "nearest xs gain (let p = (if 0 < i then i - 1 else i) in if \<bar>xs ! p - gain\<bar> < \<bar>xs ! i - gain\<bar> then p else i)"
proof -
  have up: "\<bar>xs ! i - gain\<bar> \<le> \<bar>xs ! j - gain\<bar>" if "i \<le> j" "j < length xs" for j
    using rising_nth [OF r that] i(2) by linarith
  have down: "\<bar>xs ! (i - 1) - gain\<bar> \<le> \<bar>xs ! j - gain\<bar>" if "j < i" for j
    using rising_nth [OF r, of j "i - 1"] below [of "i - 1"] below [OF that] that i(1) by linarith
  show ?thesis
  proof (cases "0 < i")
    case True
    then show ?thesis
      using up down i(1) unfolding nearest_def Let_def
      by (auto simp: not_less) (metis le_less_linear order_trans less_imp_le)+
  next
    case False
    then show ?thesis using up i(1) unfolding nearest_def Let_def by auto
  qed
qed

lemma find_index_from_spec:
  assumes "rising xs" "i + k = length xs" "\<And>j. j < i \<Longrightarrow> xs ! j < gain"
  shows "if \<forall>j < length xs. xs ! j < gain then find_index_from xs gain i k = - 22
         else \<exists>r. find_index_from xs gain i k = int r \<and> nearest xs gain r"
  using assms(2,3)
proof (induction k arbitrary: i)
  case 0
  then show ?case by simp
next
  case (Suc k)
  show ?case
  proof (cases "gain \<le> xs ! i")
    case True
    have i: "i < length xs" using Suc.prems(1) by simp
    have "find_index_from xs gain i (Suc k) =
        int (let p = (if 0 < i then i - 1 else i) in if \<bar>xs ! p - gain\<bar> < \<bar>xs ! i - gain\<bar> then p else i)"
      using True by (simp add: Let_def)
    moreover have "\<not> (\<forall>j < length xs. xs ! j < gain)" using i True by (meson not_less)
    ultimately show ?thesis
      using nearest_at_crossing [OF assms(1) i True Suc.prems(2)] by (simp only: if_False) blast
  next
    case False
    have "xs ! j < gain" if "j < Suc i" for j using that Suc.prems(2) False by (cases "j = i") auto
    from Suc.IH [OF _ this] Suc.prems(1) False show ?thesis by simp
  qed
qed

definition cur_gains :: "'c ad9361 \<Rightarrow> int list" where
  "cur_gains s = gt_abs_gain (ph_gt_info s ! gt s)"

lemma above_all_iff:
  assumes "rising xs" "xs \<noteq> []"
  shows "(\<forall>j < length xs. xs ! j < gain) \<longleftrightarrow> last xs < gain"
proof
  assume "last xs < gain"
  then show "\<forall>j < length xs. xs ! j < gain"
    using rising_nth [OF assms(1), of _ "length xs - 1"] assms(2)
    by (auto simp: last_conv_nth) (metis Suc_pred length_greater_0_conv less_Suc_eq_le lessI order_le_less_trans)
next
  assume "\<forall>j < length xs. xs ! j < gain"
  then show "last xs < gain" using assms(2) by (simp add: last_conv_nth)
qed

lemma find_table_index_cases:
  assumes "gain_table_ok (ph_gt_info s ! gt s)" "cur_gains s \<noteq> []"
  shows "if last (cur_gains s) < gain then find_table_index gain s = - 22
         else \<exists>i. find_table_index gain s = int i \<and> nearest (cur_gains s) gain i"
proof -
  have r: "rising (cur_gains s)" and l: "unat (gt_max_index (ph_gt_info s ! gt s)) = length (cur_gains s)"
    using assms(1) by (simp_all add: gain_table_ok_def cur_gains_def)
  have "find_table_index gain s = find_index_from (cur_gains s) gain 0 (length (cur_gains s))"
    unfolding find_table_index_def Let_def l by (simp add: cur_gains_def)
  with find_index_from_spec [OF r, of 0 "length (cur_gains s)" gain, unfolded above_all_iff [OF r assms(2)]]
  show ?thesis by simp
qed

text \<open>
  Searching a gain. In a rising table the search refuses exactly the gains above the
  last entry; any other gain, below the first one too, gets the index of an entry no other
  entry is nearer to.
\<close>

theorem find_table_index_nearest:
  assumes "gain_table_ok (ph_gt_info s ! gt s)" "gt_abs_gain (ph_gt_info s ! gt s) \<noteq> []"
  shows "(find_table_index gain s = - 22 \<longleftrightarrow> last (gt_abs_gain (ph_gt_info s ! gt s)) < gain) \<and>
    (gain \<le> last (gt_abs_gain (ph_gt_info s ! gt s)) \<longrightarrow>
      (\<exists>i. find_table_index gain s = int i \<and> i < length (gt_abs_gain (ph_gt_info s ! gt s)) \<and>
        (\<forall>j < length (gt_abs_gain (ph_gt_info s ! gt s)).
           \<bar>gt_abs_gain (ph_gt_info s ! gt s) ! i - gain\<bar> \<le> \<bar>gt_abs_gain (ph_gt_info s ! gt s) ! j - gain\<bar>)))"
  using find_table_index_cases [of s gain] assms
  unfolding nearest_def cur_gains_def by (auto simp: not_less split: if_splits)

lemma adi_tables_nonempty: "list_all (\<lambda>g. gt_abs_gain g \<noteq> []) ad9361_adi_gt_info"
  by code_simp

lemma ad_zero_table:
  "gain_table_ok (ph_gt_info ad_zero ! gt ad_zero)" "gt_abs_gain (ph_gt_info ad_zero ! gt ad_zero) \<noteq> []"
  "length (gt_abs_gain (ph_gt_info ad_zero ! gt ad_zero)) = 77" "last (gt_abs_gain (ph_gt_info ad_zero ! gt ad_zero)) = 73"
  using adi_gt_info_ok adi_tables_nonempty
  by (simp_all add: ad_zero_def gt_def ad9361_adi_gt_info_def full_gain_table_abs_gain_800_def)

theorem find_table_index_nearest_witness:
  "find_table_index 200 ad_zero = - 22 \<and> find_table_index 30 ad_zero \<noteq> - 22"
  using find_table_index_nearest [OF ad_zero_table(1,2), of 200] find_table_index_nearest [OF ad_zero_table(1,2), of 30]
  by (simp add: ad_zero_table)

subsection \<open>Setting a gain\<close>

definition gain_reg :: "u32 \<Rightarrow> u32" where
  "gain_reg rx_id = (if rx_id = 1 then REG_RX1_MANUAL_LMT_FULL_GAIN else REG_RX2_MANUAL_LMT_FULL_GAIN)"

definition manual_mode :: "u32 \<Rightarrow> regfile ad9361 \<Rightarrow> bool" where
  "manual_mode rx_id s \<longleftrightarrow>
     drop_bit (if rx_id = 1 then 0 else 2) (ucast (get_reg s REG_AGC_CONFIG_1) :: u32) AND 3 = 0"

text \<open>The seven-bit index field of a manual gain register.\<close>

lemma index_field:
  fixes b :: u8 and v :: u32
  shows "(b AND NOT (ucast (0x7F :: u32))) OR ucast (push_bit 0 v AND 0x7F) = (b AND 0x80) OR (ucast v AND 0x7F)"
proof (rule bit_word_eqI)
  fix n assume n: "n < LENGTH(8)"
  have m: "0x7F = (mask 7 :: u32)" "0x7F = (mask 7 :: u8)"
    by (simp_all add: mask_eq_exp_minus_1)
  have "(0x80 :: u8) = push_bit 7 1" by simp
  then have h: "bit (0x80 :: u8) n \<longleftrightarrow> n = 7" using n by (simp only: bit_push_bit_iff bit_1_iff) auto
  show "bit ((b AND NOT (ucast (0x7F :: u32))) OR ucast (push_bit 0 v AND 0x7F)) n =
      bit ((b AND 0x80) OR (ucast v AND 0x7F)) n"
    unfolding m bit_or_iff bit_and_iff h using n by (auto simp: bit_simps)
qed

lemma ffs_7F: "ffs 0x7F = 0"
  by (simp add: ffs_def eval_nat_numeral)

lemma idx_mask: "RX_FULL_TBL_IDX_MASK = 0x7F"
  by (simp add: ad_regs)

lemma run_index_write:
  "run_state (spi_writef chip_bus r RX_FULL_TBL_IDX_MASK v) s =
     (0, set_reg r ((get_reg s r AND 0x80) OR (ucast v AND 0x7F)) s)"
  by (simp add: idx_mask run_spi_writef ffs_7F index_field [of _ v, simplified] del: push_bit_and)

lemma run_set_rx_gain:
  assumes "rx_id = 1 \<or> rx_id = 2"
  shows "run_state (set_rx_gain chip_bus rx_id rg) s =
    (if \<not> manual_mode rx_id s then ((- 95, rg), s)
     else if pd_split_gt s then run_state (set_split_table_gain chip_bus (gain_reg rx_id) rg) s
     else run_state (set_full_table_gain chip_bus (gain_reg rx_id) rg) s)"
proof -
  have c: "word_of_int (int (unat (x :: u8))) = (ucast x :: u32)" for x by (simp add: of_nat_unat)
  show ?thesis
    using assms unfolding set_rx_gain_def Let_def
    by (auto simp: run_spi_read c manual_mode_def gain_reg_def RX1_GAIN_CTRL_SHIFT_def
        RX2_GAIN_CTRL_SHIFT_def RX_GAIN_CTL_MASK_def RX_GAIN_CTL_MGC_def)
qed

lemma run_set_full:
  "run_state (set_full_table_gain chip_bus r rg) s =
     (let rc = find_table_index (rg_gain_db rg) s in
      if rc < 0 then ((rc, rg), s)
      else ((0, rg), set_reg r ((get_reg s r AND 0x80) OR (ucast (word_of_int rc :: u32) AND 0x7F)) s))"
  by (simp add: set_full_table_gain_def Let_def run_index_write)

definition split_args_ok :: "rf_rx_gain \<Rightarrow> bool" where
  "split_args_ok rg \<longleftrightarrow> rg_fgt_lmt_index rg \<le> MAX_LMT_INDEX \<and> rg_lpf_gain rg \<le> MAX_LPF_GAIN \<and>
     rg_digital_gain rg \<le> MAX_DIG_GAIN"

lemma run_set_split_refused:
  assumes "\<not> split_args_ok rg \<or> find_table_index (rg_gain_db rg) s < 0"
  shows "run_state (set_split_table_gain chip_bus r rg) s = ((0, rg), s)"
  using assms by (auto simp: set_split_table_gain_def Let_def split_args_ok_def not_le)

text \<open>
  Setting the receive gain. Outside manual gain mode the request fails with -95 and
  changes nothing. In the full table mode a gain above the table fails with -22 and changes
  nothing; any other gain succeeds, and the only change is the index field of the receiver's
  gain register, which selects a nearest gain. In the split table mode a request that is
  refused changes nothing either, but the call returns 0 as if it had been done.
\<close>

theorem set_rx_gain_nearest:
  fixes s :: "regfile ad9361"
  defines "gains \<equiv> gt_abs_gain (ph_gt_info s ! gt s)"
  assumes "gain_table_ok (ph_gt_info s ! gt s)" "gains \<noteq> []" "length gains \<le> 128" "rx_id = 1 \<or> rx_id = 2"
  shows "(\<not> manual_mode rx_id s \<longrightarrow> run_state (set_rx_gain chip_bus rx_id rg) s = ((- 95, rg), s)) \<and>
    (manual_mode rx_id s \<and> \<not> pd_split_gt s \<and> last gains < rg_gain_db rg \<longrightarrow>
       run_state (set_rx_gain chip_bus rx_id rg) s = ((- 22, rg), s)) \<and>
    (manual_mode rx_id s \<and> \<not> pd_split_gt s \<and> rg_gain_db rg \<le> last gains \<longrightarrow>
       (\<exists>i < length gains. (\<forall>j < length gains. \<bar>gains ! i - rg_gain_db rg\<bar> \<le> \<bar>gains ! j - rg_gain_db rg\<bar>) \<and>
          run_state (set_rx_gain chip_bus rx_id rg) s =
            ((0, rg), set_reg (gain_reg rx_id) ((get_reg s (gain_reg rx_id) AND 0x80) OR of_nat i) s))) \<and>
    (manual_mode rx_id s \<and> pd_split_gt s \<and> (\<not> split_args_ok rg \<or> last gains < rg_gain_db rg) \<longrightarrow>
       run_state (set_rx_gain chip_bus rx_id rg) s = ((0, rg), s))"
proof -
  note run = run_set_rx_gain [OF assms(5), of rg s]
  have ne: "cur_gains s \<noteq> []" and g: "gains = cur_gains s" using assms(3) by (simp_all add: gains_def cur_gains_def)
  note f = find_table_index_cases [OF assms(2) ne, of "rg_gain_db rg"]
  have idx: "ucast (word_of_int (int i) :: u32) AND 0x7F = (of_nat i :: u8)" if "i < length gains" for i
  proof -
    have i: "i < 128" using that assms(4) by simp
    have "(of_nat i :: u8) AND mask 7 = of_nat i"
      using i by (intro less_mask_eq) (simp add: word_less_nat_alt unat_of_nat)
    moreover have "ucast (word_of_int (int i) :: u32) = (of_nat i :: u8)" using i
      by (simp add: word_unat_eq_iff unsigned_ucast_eq unsigned_of_nat take_bit_eq_mod)
    ultimately show ?thesis by (simp add: mask_eq_exp_minus_1)
  qed
  show ?thesis
  proof (intro conjI impI; (elim conjE)?)
    assume "manual_mode rx_id s" "\<not> pd_split_gt s" "rg_gain_db rg \<le> last gains"
    moreover from f this obtain i where i: "find_table_index (rg_gain_db rg) s = int i" "nearest gains (rg_gain_db rg) i"
      unfolding g by auto
    ultimately show "\<exists>i < length gains. (\<forall>j < length gains. \<bar>gains ! i - rg_gain_db rg\<bar> \<le> \<bar>gains ! j - rg_gain_db rg\<bar>) \<and>
          run_state (set_rx_gain chip_bus rx_id rg) s =
            ((0, rg), set_reg (gain_reg rx_id) ((get_reg s (gain_reg rx_id) AND 0x80) OR of_nat i) s)"
      using idx [of i] run run_set_full [of "gain_reg rx_id" rg s]
      by (intro exI [of _ i]) (simp add: nearest_def Let_def)
  next
    assume "\<not> manual_mode rx_id s"
    then show "run_state (set_rx_gain chip_bus rx_id rg) s = ((- 95, rg), s)" using run by simp
  next
    assume "manual_mode rx_id s" "\<not> pd_split_gt s" "last gains < rg_gain_db rg"
    then show "run_state (set_rx_gain chip_bus rx_id rg) s = ((- 22, rg), s)"
      using run f run_set_full [of "gain_reg rx_id" rg s] unfolding g by (simp add: Let_def)
  next
    assume "manual_mode rx_id s" "pd_split_gt s" "\<not> split_args_ok rg \<or> last gains < rg_gain_db rg"
    then show "run_state (set_rx_gain chip_bus rx_id rg) s = ((0, rg), s)"
      using run f run_set_split_refused [of rg s "gain_reg rx_id"] unfolding g by auto
  qed
qed

text \<open>A request of 500 dB is refused in the full table mode and reported done in the split one.\<close>

theorem set_rx_gain_nearest_witness:
  "run_state (set_rx_gain chip_bus 2 \<lparr>rg_ant = 0, rg_gain_db = 500, rg_fgt_lmt_index = 0, rg_lmt_gain = 0,
       rg_lpf_gain = 0, rg_digital_gain = 0, rg_lna_index = 0, rg_tia_index = 0, rg_mixer_index = 0\<rparr>) ad_zero =
     ((- 22, \<lparr>rg_ant = 0, rg_gain_db = 500, rg_fgt_lmt_index = 0, rg_lmt_gain = 0,
       rg_lpf_gain = 0, rg_digital_gain = 0, rg_lna_index = 0, rg_tia_index = 0, rg_mixer_index = 0\<rparr>), ad_zero)"
proof -
  have "manual_mode 2 ad_zero" "\<not> pd_split_gt ad_zero" by (simp_all add: manual_mode_def ad_zero_def)
  then show ?thesis
    using set_rx_gain_nearest [OF ad_zero_table(1,2), of 2 "\<lparr>rg_ant = 0, rg_gain_db = 500, rg_fgt_lmt_index = 0,
       rg_lmt_gain = 0, rg_lpf_gain = 0, rg_digital_gain = 0, rg_lna_index = 0, rg_tia_index = 0, rg_mixer_index = 0\<rparr>"]
    by (simp add: ad_zero_table)
qed

subsection \<open>Loading a table\<close>

text \<open>States that agree but for the table match and the chip outside the manual gain registers.\<close>

definition kept :: "regfile ad9361 \<Rightarrow> regfile ad9361 \<Rightarrow> bool" where
  "kept s t \<longleftrightarrow> (\<exists>c q. t = s\<lparr>ad_chip := c, st_tx_quad_lpf_tia_match := q\<rparr>) \<and>
     (\<forall>rx. get_reg t (gain_reg rx) = get_reg s (gain_reg rx))"

definition gain_kept :: "(regfile ad9361, 'a) state \<Rightarrow> bool" where
  "gain_kept m \<longleftrightarrow> (\<forall>s. kept s (snd (run_state m s)))"

lemma kept_refl [simp]: "kept s s"
  unfolding kept_def by (intro conjI exI [of _ "ad_chip s"] exI [of _ "st_tx_quad_lpf_tia_match s"] allI) simp_all

lemma kept_trans: "kept s t \<Longrightarrow> kept t u \<Longrightarrow> kept s u"
  unfolding kept_def by (elim conjE exE) (simp, metis)

lemma gain_kept_step:
  assumes "gain_kept m" "kept s0 s" "\<And>x t. kept s0 t \<Longrightarrow> P (run_state (f x) t)"
  shows "P (run_state (State_Monad.bind m f) s)"
proof -
  obtain x t where m: "run_state m s = (x, t)" by (cases "run_state m s")
  then have "kept s t" using assms(1) unfolding gain_kept_def by (metis snd_conv)
  then show ?thesis using assms(3) [OF kept_trans [OF assms(2)]] m by simp
qed

lemma gain_kept_bind: "gain_kept m \<Longrightarrow> (\<And>x. gain_kept (f x)) \<Longrightarrow> gain_kept (State_Monad.bind m f)"
  using gain_kept_step [of m _ _ "\<lambda>r. kept _ (snd r)" f] unfolding gain_kept_def
  by (metis (no_types, lifting) kept_refl kept_trans gain_kept_def gain_kept_step)

lemma gain_kept_return [intro, simp]: "gain_kept (State_Monad.return x)"
  by (simp add: gain_kept_def)

lemma gain_reg_cases: "gain_reg rx = 0x109 \<or> gain_reg rx = 0x10C"
  by (simp add: gain_reg_def ad_regs)

lemma gain_kept_set_reg:
  assumes "AD_ADDR r \<noteq> AD_ADDR 0x109" "AD_ADDR r \<noteq> AD_ADDR 0x10C"
  shows "kept s (set_reg r v s)"
proof -
  have "get_reg (set_reg r v s) (gain_reg rx) = get_reg s (gain_reg rx)" for rx
    using gain_reg_cases [of rx] assms by (auto simp: set_reg_def)
  moreover have "set_reg r v s = s\<lparr>ad_chip := (ad_chip s)(AD_ADDR r := v), st_tx_quad_lpf_tia_match := st_tx_quad_lpf_tia_match s\<rparr>"
    by (simp add: set_reg_def)
  ultimately show ?thesis unfolding kept_def by blast
qed

lemma gain_kept_write:
  "AD_ADDR r \<noteq> AD_ADDR 0x109 \<Longrightarrow> AD_ADDR r \<noteq> AD_ADDR 0x10C \<Longrightarrow> gain_kept (spi_write chip_bus r v)"
  by (simp add: gain_kept_def run_spi_write gain_kept_set_reg)

lemma gain_kept_writef:
  "AD_ADDR r \<noteq> AD_ADDR 0x109 \<Longrightarrow> AD_ADDR r \<noteq> AD_ADDR 0x10C \<Longrightarrow> m \<noteq> 0 \<Longrightarrow> gain_kept (spi_writef chip_bus r m v)"
  by (simp add: gain_kept_def run_spi_writef gain_kept_set_reg)

lemma gain_kept_match: "gain_kept (upd_phy (\<lambda>s. if b then s\<lparr>st_tx_quad_lpf_tia_match := q\<rparr> else s))"
  unfolding gain_kept_def
proof
  fix s :: "regfile ad9361"
  have "kept s (s\<lparr>st_tx_quad_lpf_tia_match := q\<rparr>)"
    unfolding kept_def by (intro conjI exI [of _ "ad_chip s"] exI [of _ q] allI) simp_all
  then show "kept s (snd (run_state (upd_phy (\<lambda>s. if b then s\<lparr>st_tx_quad_lpf_tia_match := q\<rparr> else s)) s))"
    by simp
qed

named_theorems gain_table_regs \<open>the registers of the table load\<close>

lemma gain_table_addrs [gain_table_regs]:
  "r \<in> {REG_GAIN_TABLE_ADDRESS, REG_GAIN_TABLE_WRITE_DATA1, REG_GAIN_TABLE_WRITE_DATA2, REG_GAIN_TABLE_WRITE_DATA3,
     REG_GAIN_TABLE_CONFIG, REG_GAIN_TABLE_READ_DATA1, REG_MAX_LMT_FULL_GAIN, REG_AGC_CONFIG_2} \<Longrightarrow>
     AD_ADDR r \<noteq> AD_ADDR 0x109 \<and> AD_ADDR r \<noteq> AD_ADDR 0x10C"
  by (elim insertE; simp add: ad_regs AD_ADDR_def)

lemma gain_kept_table_write:
  "r \<in> {REG_GAIN_TABLE_ADDRESS, REG_GAIN_TABLE_WRITE_DATA1, REG_GAIN_TABLE_WRITE_DATA2, REG_GAIN_TABLE_WRITE_DATA3,
     REG_GAIN_TABLE_CONFIG, REG_GAIN_TABLE_READ_DATA1, REG_MAX_LMT_FULL_GAIN, REG_AGC_CONFIG_2} \<Longrightarrow>
     gain_kept (spi_write chip_bus r v)"
  using gain_table_addrs [of r] by (intro gain_kept_write) blast+

lemma gain_kept_load_rows: "gain_kept (load_rows chip_bus dest lna m i rows)"
proof (induction rows arbitrary: i)
  case (Cons row rows)
  obtain t0 t1 t2 where row: "row = (t0, t1, t2)" by (cases row)
  show ?case
    unfolding row load_rows.simps
    by (intro gain_kept_bind gain_kept_table_write gain_kept_match Cons.IH) simp_all
qed simp

lemma kept_fields:
  "kept s t \<Longrightarrow> ph_gt_info t = ph_gt_info s \<and> st_current_table t = st_current_table s \<and> pd_split_gt t = pd_split_gt s"
  by (auto simp: kept_def)

lemma kept_reg: "kept s t \<Longrightarrow> get_reg t (gain_reg rx) = get_reg s (gain_reg rx)"
  by (simp add: kept_def)

definition usable_table :: "gain_table_info \<Rightarrow> bool" where
  "usable_table g \<longleftrightarrow> gain_table_ok g \<and> gt_abs_gain g \<noteq> [] \<and> length (gt_abs_gain g) \<le> 128"

definition manual_index :: "u32 \<Rightarrow> regfile ad9361 \<Rightarrow> nat" where
  "manual_index rx s = unat (get_reg s (gain_reg rx) AND 0x7F)"

text \<open>The gain a receiver has before the table changes to \<open>band\<close>.\<close>

definition old_gain :: "u32 \<Rightarrow> nat \<Rightarrow> regfile ad9361 \<Rightarrow> int" where
  "old_gain rx band s =
     (let xs = gt_abs_gain (ph_gt_info s ! band) in
      if 0 \<le> st_current_table s then gt_abs_gain (ph_gt_info s ! nat (st_current_table s)) ! manual_index rx s
      else xs ! min (manual_index rx s) (length xs - 1))"

lemma old_gain_kept: "kept s t \<Longrightarrow> old_gain rx band t = old_gain rx band s"
  using kept_fields [of s t] by (simp add: old_gain_def manual_index_def kept_reg Let_def)

definition indices_ok :: "regfile ad9361 \<Rightarrow> bool" where
  "indices_ok s \<longleftrightarrow> (0 \<le> st_current_table s \<longrightarrow>
     manual_index 1 s < length (gt_abs_gain (ph_gt_info s ! nat (st_current_table s))) \<and>
     manual_index 2 s < length (gt_abs_gain (ph_gt_info s ! nat (st_current_table s))))"

lemma indices_ok_kept: "kept s t \<Longrightarrow> indices_ok t = indices_ok s"
  using kept_fields [of s t] by (simp add: indices_ok_def manual_index_def kept_reg)

lemma read_index:
  "run_state (spi_readf chip_bus (gain_reg rx) RX_FULL_TBL_IDX_MASK) s = (int (manual_index rx s), s)"
proof -
  have "ucast (0x7F :: u32) = (0x7F :: u8)" by simp
  then show ?thesis by (simp only: idx_mask run_spi_readf ffs_7F) (simp add: manual_index_def run_spi_readf ffs_7F)
qed

lemma run_manual_gain:
  assumes "usable_table (ph_gt_info s ! band)" "indices_ok s" "rx = 1 \<or> rx = 2"
  shows "run_state (manual_gain chip_bus (gain_reg rx) band) s = (Some (old_gain rx band s), s)"
proof -
  let ?xs = "gt_abs_gain (ph_gt_info s ! band)" and ?k = "manual_index rx s"
  have k: "?k < 256" unfolding manual_index_def using unsigned_less [of "get_reg s (gain_reg rx) AND 0x7F"] by simp
  have w: "unat (word_of_int (int ?k) :: u32) = ?k" using k by (simp add: unsigned_of_nat take_bit_eq_mod)
  have len: "length ?xs = unat (gt_max_index (ph_gt_info s ! band))" "0 < length ?xs"
    using assms(1) by (simp_all add: usable_table_def gain_table_ok_def length_greater_0_conv [symmetric] del: length_greater_0_conv)
  have u8: "unat (gt_max_index (ph_gt_info s ! band)) < 256"
    by (rule order_less_le_trans [OF unsigned_less]) simp
  have m: "unat (ucast (gt_max_index (ph_gt_info s ! band)) - 1 :: u32) = length ?xs - 1"
    using len u8 by (subst unat_sub) (simp_all add: word_le_nat_alt unsigned_ucast_eq take_bit_eq_mod)
  have c: "tbl_at ?xs (int (unat (if A < B then A else B))) = Some (?xs ! min ?k (length ?xs - 1))"
    if "unat A = length ?xs - 1" "unat B = ?k" for A B :: u32
  proof -
    have "unat (if A < B then A else B) = min ?k (length ?xs - 1)"
      using that by (simp add: word_less_nat_alt min_def)
    then show ?thesis using len(2) by (simp only: tbl_at_def) (simp add: min_less_iff_disj)
  qed
  show ?thesis
    unfolding manual_gain_def run_bind_get Let_def run_bind_eq [OF read_index] run_state_return c [OF m w]
    using assms(2,3) w by (auto simp: old_gain_def Let_def tbl_at_def indices_ok_def)
qed

lemma new_index_nearest:
  assumes "usable_table (ph_gt_info s ! gt s)"
  shows "\<exists>i. new_index gain s = int i \<and> nearest (cur_gains s) gain i"
proof (cases "last (cur_gains s) < gain")
  case False
  then show ?thesis
    using find_table_index_cases [of s gain] assms
    by (auto simp: usable_table_def cur_gains_def new_index_def Let_def)
next
  case True
  let ?xs = "cur_gains s"
  have r: "rising ?xs" "?xs \<noteq> []" and l: "unat (gt_max_index (ph_gt_info s ! gt s)) = length ?xs"
    using assms by (simp_all add: usable_table_def gain_table_ok_def cur_gains_def)
  have below: "?xs ! j \<le> last ?xs" if "j < length ?xs" for j
    using rising_nth [OF r(1), of j "length ?xs - 1"] that r(2) by (simp add: last_conv_nth)
  have "nearest ?xs gain (length ?xs - 1)"
    unfolding nearest_def using below True r(2) by (force simp: last_conv_nth)
  moreover have "new_index gain s = int (length ?xs - 1)"
    using find_table_index_cases [of s gain] assms True r(2)
    by (simp add: usable_table_def cur_gains_def new_index_def Let_def l [unfolded cur_gains_def] of_nat_diff Suc_leI)
  ultimately show ?thesis by blast
qed

lemma index_mask_idle:
  assumes "i < 128"
  shows "unat ((of_nat i :: u8) AND 0x7F) = i" "(ucast (word_of_int (int i) :: u32) :: u8) = of_nat i"
    "unat (((b AND 0x80) OR ((of_nat i :: u8) AND 0x7F)) AND 0x7F) = i"
proof -
  have m: "(of_nat i :: u8) AND 0x7F = of_nat i"
    using assms less_mask_eq [of "of_nat i :: u8" 7] by (simp add: word_less_nat_alt unsigned_of_nat mask_eq_exp_minus_1 take_bit_eq_mod)
  show "unat ((of_nat i :: u8) AND 0x7F) = i" using m assms by (simp add: unsigned_of_nat take_bit_eq_mod)
  show "(ucast (word_of_int (int i) :: u32) :: u8) = of_nat i"
    using assms by (simp add: word_unat_eq_iff unsigned_ucast_eq unsigned_of_nat take_bit_eq_mod)
  have "((b AND 0x80) OR ((of_nat i :: u8) AND 0x7F)) AND 0x7F = of_nat i"
    unfolding m using m by (simp add: bit.conj_disj_distrib2 and.assoc)
  then show "unat (((b AND 0x80) OR ((of_nat i :: u8) AND 0x7F)) AND 0x7F) = i"
    using assms by (simp add: unsigned_of_nat take_bit_eq_mod)
qed

lemma gt_tableindex_from_found:
  assumes "list_ex (\<lambda>g. gt_split_table g = split \<and> gt_start g < freq \<and> freq \<le> gt_end g) gs"
  shows "\<exists>j < length gs. gt_tableindex_from split freq i gs = i + j \<and>
    gt_split_table (gs ! j) = split \<and> gt_start (gs ! j) < freq \<and> freq \<le> gt_end (gs ! j)"
  using assms
proof (induction gs arbitrary: i)
  case (Cons g gs)
  show ?case
  proof (cases "split = gt_split_table g \<and> gt_start g < freq \<and> freq \<le> gt_end g")
    case True
    then show ?thesis by (intro exI [of _ 0]) auto
  next
    case False
    with Cons.prems Cons.IH [of "Suc i"] obtain j where
      "j < length gs" "gt_tableindex_from split freq (Suc i) gs = Suc i + j"
      "gt_split_table (gs ! j) = split" "gt_start (gs ! j) < freq" "freq \<le> gt_end (gs ! j)" by auto
    with False show ?thesis by (intro exI [of _ "Suc j"]) auto
  qed
qed simp

text \<open>The part of the load after the gains were read.\<close>

lemma load_gt_tail:
  assumes k: "kept s t" and band: "usable_table (ph_gt_info s ! band)"
  shows "\<exists>s'. run_state (do {
           _ \<leftarrow> upd_phy (\<lambda>s. s\<lparr>st_current_table := int band\<rparr>);
           s \<leftarrow> get_phy;
           _ \<leftarrow> spi_writef chip_bus REG_RX1_MANUAL_LMT_FULL_GAIN RX_FULL_TBL_IDX_MASK (word_of_int (new_index a s));
           _ \<leftarrow> spi_write chip_bus REG_RX2_MANUAL_LMT_FULL_GAIN (word_of_int (new_index b s));
           rtn (Some (0 :: int)) }) t = (Some 0, s') \<and> st_current_table s' = int band \<and> ph_gt_info s' = ph_gt_info s \<and>
         nearest (gt_abs_gain (ph_gt_info s ! band)) a (manual_index 1 s') \<and>
         nearest (gt_abs_gain (ph_gt_info s ! band)) b (manual_index 2 s')"
proof -
  let ?t = "t\<lparr>st_current_table := int band\<rparr>" and ?xs = "gt_abs_gain (ph_gt_info s ! band)"
  have g: "gt ?t = band" "ph_gt_info ?t = ph_gt_info s" "cur_gains ?t = ?xs"
    using kept_fields [OF k] by (simp_all add: gt_def cur_gains_def)
  have u: "usable_table (ph_gt_info ?t ! gt ?t)" using band g by simp
  obtain i j where i: "new_index a ?t = int i" "nearest ?xs a i" and j: "new_index b ?t = int j" "nearest ?xs b j"
    using new_index_nearest [OF u, of a] new_index_nearest [OF u, of b] g(3) by auto
  have lt: "i < 128" "j < 128" using i(2) j(2) band by (auto simp: nearest_def usable_table_def)
  have r: "REG_RX1_MANUAL_LMT_FULL_GAIN = gain_reg 1" "REG_RX2_MANUAL_LMT_FULL_GAIN = gain_reg 2"
    by (simp_all add: gain_reg_def)
  have ne: "AD_ADDR (gain_reg 1) \<noteq> AD_ADDR (gain_reg 2)" by (simp add: gain_reg_def ad_regs AD_ADDR_def)
  let ?u = "set_reg (gain_reg 2) (of_nat j)
     (set_reg (gain_reg 1) ((get_reg ?t (gain_reg 1) AND 0x80) OR (of_nat i AND 0x7F)) ?t)"
  have f: "st_current_table ?u = int band" "ph_gt_info ?u = ph_gt_info s"
    using kept_fields [OF k] by (simp_all add: set_reg_def)
  have m: "manual_index 1 ?u = i" "manual_index 2 ?u = j"
    unfolding manual_index_def get_set_reg using ne ne [symmetric] index_mask_idle lt by simp_all
  show ?thesis
    unfolding run_bind_update run_bind_get i(1) j(1) r
      run_bind_eq [OF run_index_write] run_bind_eq [OF run_spi_write] run_state_return
      index_mask_idle(2) [OF lt(1)] index_mask_idle(2) [OF lt(2)]
    using i(2) j(2) f m by (intro exI [of _ ?u]) (simp only: simp_thms)
qed

text \<open>
  C24. Changing the gain table. For a carrier some table covers, loading returns 0 with a
  current table that covers the carrier. When the table was current already nothing
  changes; otherwise the manual gain index of either receiver then selects, in the new
  table, a gain nearest to the gain it had in the old one.
\<close>

theorem load_gt_keeps_gain:
  assumes "list_all usable_table (ph_gt_info s)" "indices_ok s"
    "list_ex (\<lambda>g. gt_split_table g = pd_split_gt s \<and> gt_start g < freq \<and> freq \<le> gt_end g) (ph_gt_info s)"
  shows "\<exists>s' band. run_state (load_gt chip_bus freq dest) s = (Some 0, s') \<and> st_current_table s' = int band \<and>
    band < length (ph_gt_info s) \<and> gt_split_table (ph_gt_info s ! band) = pd_split_gt s \<and>
    gt_start (ph_gt_info s ! band) < freq \<and> freq \<le> gt_end (ph_gt_info s ! band) \<and>
    (if st_current_table s = int band then s' = s
     else nearest (gt_abs_gain (ph_gt_info s ! band)) (old_gain 1 band s) (manual_index 1 s') \<and>
          nearest (gt_abs_gain (ph_gt_info s ! band)) (old_gain 2 band s) (manual_index 2 s'))"
proof -
  define band where "band = gt_tableindex freq s"
  have b: "band < length (ph_gt_info s)" "gt_split_table (ph_gt_info s ! band) = pd_split_gt s"
    "gt_start (ph_gt_info s ! band) < freq" "freq \<le> gt_end (ph_gt_info s ! band)"
    using gt_tableindex_from_found [OF assms(3), of 0] unfolding band_def gt_tableindex_def by auto
  have u: "usable_table (ph_gt_info s ! band)" using assms(1) b(1) by (simp add: list_all_length)
  have r: "REG_RX1_MANUAL_LMT_FULL_GAIN = gain_reg 1" "REG_RX2_MANUAL_LMT_FULL_GAIN = gain_reg 2"
    by (simp_all add: gain_reg_def)
  have mg: "run_state (manual_gain chip_bus (gain_reg rx) band) t = (Some (old_gain rx band s), t)"
    if "kept s t" "rx = 1 \<or> rx = 2" for t rx
    using run_manual_gain [of t band rx] that u assms(2) kept_fields [OF that(1)]
    by (simp add: indices_ok_kept old_gain_kept)
  have agc: "gain_kept (spi_writef chip_bus REG_AGC_CONFIG_2 AGC_USE_FULL_GAIN_TABLE v)" for v
    using gain_table_addrs [of REG_AGC_CONFIG_2] by (intro gain_kept_writef) (auto simp: AGC_USE_FULL_GAIN_TABLE_def)
  have tia: "gain_kept (upd_phy (\<lambda>s. s\<lparr>st_tx_quad_lpf_tia_match := - 22\<rparr>))" using gain_kept_match [of True "- 22"] by simp
  show ?thesis
  proof (cases "st_current_table s = int band")
    case True
    then show ?thesis
      using b by (intro exI [of _ s] exI [of _ band]) (simp add: load_gt_def band_def [symmetric] Let_def)
  next
    case False
    have "\<exists>s'. run_state (load_gt chip_bus freq dest) s = (Some 0, s') \<and> st_current_table s' = int band \<and>
        ph_gt_info s' = ph_gt_info s \<and>
        nearest (gt_abs_gain (ph_gt_info s ! band)) (old_gain 1 band s) (manual_index 1 s') \<and>
        nearest (gt_abs_gain (ph_gt_info s ! band)) (old_gain 2 band s) (manual_index 2 s')"
      unfolding load_gt_def run_bind_get Let_def band_def [symmetric] if_not_P [OF False]
      apply (rule gain_kept_step [OF agc kept_refl])
      apply (rule gain_kept_step [OF gain_kept_table_write], simp, assumption)
      apply (simp only: r run_bind_eq [OF mg] simp_thms prod.case option.case)
      apply (rule gain_kept_step [OF gain_kept_table_write], simp, assumption)
      apply (rule gain_kept_step [OF tia], assumption)
      apply (rule gain_kept_step [OF gain_kept_load_rows], assumption)
      apply (rule gain_kept_step [OF gain_kept_table_write], simp, assumption)+
      apply (rule load_gt_tail [OF _ u, folded r, unfolded r], assumption)
      done
    then show ?thesis using b False by (metis (no_types, lifting))
  qed
qed

lemma adi_tables_usable: "list_all usable_table ad9361_adi_gt_info"
  by code_simp

theorem load_gt_keeps_gain_witness:
  "\<exists>s'. run_state (load_gt chip_bus 2400000000 3) ad_zero = (Some 0, s') \<and> st_current_table s' = 1"
proof -
  have z: "ph_gt_info ad_zero = ad9361_adi_gt_info" "\<not> pd_split_gt ad_zero" "st_current_table ad_zero = - 1"
    by (simp_all add: ad_zero_def)
  have "list_all usable_table (ph_gt_info ad_zero)" "indices_ok ad_zero"
    "list_ex (\<lambda>g. gt_split_table g = pd_split_gt ad_zero \<and> gt_start g < 2400000000 \<and> 2400000000 \<le> gt_end g) (ph_gt_info ad_zero)"
    using adi_tables_usable z by (simp_all add: indices_ok_def ad9361_adi_gt_info_def)
  from load_gt_keeps_gain [OF this, of 3] obtain s' band where
    s': "run_state (load_gt chip_bus 2400000000 3) ad_zero = (Some 0, s')" "st_current_table s' = int band"
    and band: "band < length ad9361_adi_gt_info" "\<not> gt_split_table (ad9361_adi_gt_info ! band)"
      "gt_start (ad9361_adi_gt_info ! band) < 2400000000" "2400000000 \<le> gt_end (ad9361_adi_gt_info ! band)"
    unfolding z(1) using z(2) by blast
  have "band < 6" using band(1) by (simp add: ad9361_adi_gt_info_def)
  then consider "band = 0" | "band = 1" | "band = 2" | "band = 3" | "band = 4" | "band = 5" by linarith
  then have "band = 1" using band(2-4) by cases (simp_all add: ad9361_adi_gt_info_def)
  with s' show ?thesis by auto
qed

end
