(* ===== verification/Ad_Ensm_Props.thy ===== *)
theory Ad_Ensm_Props
  imports Ad_Ensm
begin

unbundle bit_operations_syntax

text \<open>
  The enable state machine: a calibration that forces a state and restores the previous one
  leaves the request register as it was, but for a stale pin-control flag; and which moves
  are accepted from which state.
\<close>

subsection \<open>Forcing and restoring\<close>

definition handled :: "u8 \<Rightarrow> bool" where
  "handled e \<longleftrightarrow> e = 0x6 \<or> e = 0xA \<or> e = 0x8 \<or> e = 0x5"

text \<open>The bits that ask for a state.\<close>

definition wanted :: "u8 \<Rightarrow> u8" where
  "wanted e = (if e = 0x6 \<or> e = 0xA then 0x21 else if e = 0x8 then 0x41 else 0x01)"

lemma ensm_states:
  "ENSM_STATE_TX = 0x6" "ENSM_STATE_FDD = 0xA" "ENSM_STATE_RX = 0x8" "ENSM_STATE_ALERT = 0x5"
  "ENSM_STATE_SLEEP = 0x80" "ENSM_STATE_SLEEP_WAIT = 0"
  by (simp_all add: ad_regs)

lemma config_bits:
  "FORCE_TX_ON = 0x20" "FORCE_RX_ON = 0x40" "FORCE_ALERT_STATE = 0x4" "TO_ALERT = 0x1" "ENABLE_ENSM_PIN_CTRL = 0x10"
  by (simp_all add: ad_regs)

lemma up8: "word_of_int (int (unat (c :: u8))) = (ucast c :: u32)"
  by (simp add: of_nat_unat)

definition dev_state :: "regfile ad9361 \<Rightarrow> u8" where
  "dev_state s = get_reg s REG_STATE AND 0xF"

lemma run_get_state: "run_state (ensm_get_state chip_bus) s = (dev_state s, s)"
proof -
  have m: "ENSM_STATE (- 1) = 0xF" by (simp add: ad_regs)
  have "ffs 0xF = 0" by (simp add: ffs_def eval_nat_numeral)
  then show ?thesis unfolding ensm_get_state_def m by (simp add: run_spi_readf dev_state_def)
qed

text \<open>The request register after a state was forced.\<close>

definition forced :: "u8 \<Rightarrow> u8 \<Rightarrow> u8 \<Rightarrow> u8" where
  "forced e d c =
     (let v = c AND NOT 0x10; v = (if d \<noteq> 0 then v AND NOT 1 else v)
      in if e = 0x6 \<or> e = 0xA then v OR 0x20 else if e = 0x8 then v OR 0x40 else (v AND NOT 0x60) OR 5)"

lemma pin_clear:
  fixes c :: u8
  shows "ucast (if ucast c AND (0x10 :: u32) \<noteq> 0 then ucast c AND NOT 0x10 else ucast c :: u32) = c AND NOT 0x10"
    "ucast c AND (0x10 :: u32) \<noteq> 0 \<longleftrightarrow> bit c 4"
proof -
  have p: "(0x10 :: u32) = push_bit 4 1" by simp
  have "ucast c AND (0x10 :: u32) \<noteq> 0 \<longleftrightarrow> bit (ucast c :: u32) 4"
    unfolding p by (simp only: and_exp_eq_0_iff_not_bit push_bit_of_1) simp
  then show b: "ucast c AND (0x10 :: u32) \<noteq> 0 \<longleftrightarrow> bit c 4" by (simp add: bit_ucast_iff)
  show "ucast (if ucast c AND (0x10 :: u32) \<noteq> 0 then ucast c AND NOT 0x10 else ucast c :: u32) = c AND NOT 0x10"
    unfolding b if_distrib [of "ucast :: u32 \<Rightarrow> u8"] down8
    by (rule u8_eqI) (simp_all add: bit_and_iff bit_not_iff)
qed

lemma force_bits_forced:
  assumes "handled e" "ucast w = (if d \<noteq> 0 then (c AND NOT 0x10) AND NOT 1 else c AND NOT 0x10)"
  shows "\<exists>v. force_bits e w = Some v \<and> ucast v = forced e d c"
proof -
  have alert: "(ucast ((w AND NOT (0x20 OR 0x40)) OR (1 OR 4)) :: u8) = (ucast w AND NOT (0x60)) OR 5"
    and tx: "(ucast (w OR 0x20) :: u8) = ucast w OR 0x20" and rx: "(ucast (w OR 0x40) :: u8) = ucast w OR 0x40"
    unfolding down8 by simp_all
  from assms(1) consider "e = 0x6 \<or> e = 0xA" | "e = 0x8" | "e = 0x5" unfolding handled_def by blast
  then show ?thesis
  proof cases
    case 1
    then show ?thesis unfolding force_bits_def ensm_states config_bits forced_def Let_def assms(2) [symmetric]
      using tx by auto
  next
    case 2
    then show ?thesis unfolding force_bits_def ensm_states config_bits forced_def Let_def assms(2) [symmetric]
      using rx by auto
  next
    case 3
    then show ?thesis unfolding force_bits_def ensm_states config_bits forced_def Let_def assms(2) [symmetric]
      using alert by auto
  qed
qed

lemma run_force:
  assumes "handled e" "dev_state s \<noteq> e"
  shows "snd (run_state (ensm_force_state chip_bus e) s) =
    set_reg REG_ENSM_CONFIG_1 (forced e (dev_state s) (get_reg s REG_ENSM_CONFIG_1))
      (set_reg REG_ENSM_CONFIG_1 5
        (s\<lparr>st_prev_ensm_state := dev_state s, st_ensm_pin_ctl_en := bit (get_reg s REG_ENSM_CONFIG_1) 4\<rparr>))"
proof -
  let ?c = "get_reg s REG_ENSM_CONFIG_1"
  let ?v = "if ucast ?c AND (0x10 :: u32) \<noteq> 0 then ucast ?c AND NOT 0x10 else ucast ?c :: u32"
  let ?w = "if dev_state s \<noteq> 0 then ?v AND NOT 1 else ?v"
  have w: "ucast ?w = (if dev_state s \<noteq> 0 then (?c AND NOT 0x10) AND NOT 1 else ?c AND NOT 0x10)"
    unfolding if_distrib [of "ucast :: u32 \<Rightarrow> u8", of "dev_state s \<noteq> 0"] down8(1) [of _ "NOT 1"] down8(3) pin_clear(1) by simp
  obtain v where v: "force_bits e ?w = Some v" "ucast v = forced e (dev_state s) ?c"
    using force_bits_forced [OF assms(1) w] by blast
  have u: "(ucast (5 :: u32) :: u8) = 5" by simp
  show ?thesis
    using v assms(2)
    unfolding ensm_force_state_def run_bind_eq [OF run_get_state]
    by (simp add: up8 run_spi_read run_spi_write Let_def config_bits pin_clear(2) cong: if_cong)
qed

lemma restore_bits_wanted:
  assumes "handled p" "ucast w = (c AND NOT 0x64) OR 1"
  shows "\<exists>v. restore_bits p w = Some v \<and> ucast v = (c AND NOT 0x64) OR wanted p"
proof -
  have or1: "(0x21 :: u8) = 1 OR 0x20" "(0x41 :: u8) = 1 OR 0x40" "(1 :: u8) = 1 OR 1" by simp_all
  have u: "(ucast (w OR 0x20) :: u8) = ((c AND NOT 0x64) OR 1) OR 0x20"
    "(ucast (w OR 0x40) :: u8) = ((c AND NOT 0x64) OR 1) OR 0x40" "(ucast (w OR 1) :: u8) = ((c AND NOT 0x64) OR 1) OR 1"
    unfolding down8 assms(2) by simp_all
  from assms(1) consider "p = 0x6 \<or> p = 0xA" | "p = 0x8" | "p = 0x5" unfolding handled_def by blast
  then show ?thesis
  proof cases
    case 1
    then have "restore_bits p w = Some (w OR 0x20)" "wanted p = 1 OR 0x20"
      by (auto simp: restore_bits_def ensm_states config_bits wanted_def)
    then show ?thesis using u(1) by (simp only: or.assoc) blast
  next
    case 2
    then have "restore_bits p w = Some (w OR 0x40)" "wanted p = 1 OR 0x40"
      by (auto simp: restore_bits_def ensm_states config_bits wanted_def)
    then show ?thesis using u(2) by (simp only: or.assoc) blast
  next
    case 3
    then have "restore_bits p w = Some (w OR 1)" "wanted p = 1 OR 1"
      by (auto simp: restore_bits_def ensm_states config_bits wanted_def)
    then show ?thesis using u(3) by (simp only: or.assoc) blast
  qed
qed

text \<open>What the restored register says, whatever it was before.\<close>

lemma restored_bits:
  fixes f w :: u8
  assumes "w = 0x21 \<or> w = 0x41 \<or> w = 0x01"
  shows "((f AND NOT 0x64) OR w) AND 0x65 = w" "((f AND NOT 0x64) OR w) AND 0x8A = f AND 0x8A"
    "bit ((f AND NOT 0x64) OR w) 4 \<longleftrightarrow> bit f 4"
    "(((f AND NOT 0x64) OR w) OR 0x10) AND 0x65 = w" "(((f AND NOT 0x64) OR w) OR 0x10) AND 0x8A = f AND 0x8A"
    "bit (((f AND NOT 0x64) OR w) OR 0x10) 4"
proof -
  note bits = bit_or_iff bit_and_iff bit_not_iff
  have w: "bit w 0" "\<not> bit w 1" "\<not> bit w 2" "\<not> bit w 3" "\<not> bit w 4" "\<not> bit w 7"
    using assms by (elim disjE; simp)+
  have m: "((f AND NOT 0x64) OR w) AND 0x65 = w"
    using w by (intro u8_eqI) (simp_all add: bits)
  show "((f AND NOT 0x64) OR w) AND 0x65 = w" by (rule m)
  show "((f AND NOT 0x64) OR w) AND 0x8A = f AND 0x8A" using w by (intro u8_eqI) (simp_all add: bits)
  show "bit ((f AND NOT 0x64) OR w) 4 \<longleftrightarrow> bit f 4" using w by (simp add: bits)
  show "(((f AND NOT 0x64) OR w) OR 0x10) AND 0x65 = w" using w by (intro u8_eqI) (simp_all add: bits)
  show "(((f AND NOT 0x64) OR w) OR 0x10) AND 0x8A = f AND 0x8A" using w by (intro u8_eqI) (simp_all add: bits)
  show "bit (((f AND NOT 0x64) OR w) OR 0x10) 4" by (simp add: bits)
qed

lemma wanted_cases: "wanted e = 0x21 \<or> wanted e = 0x41 \<or> wanted e = 0x01"
  by (simp add: wanted_def)

lemma run_restore:
  assumes "handled p"
  shows "get_reg (snd (run_state (ensm_restore_state chip_bus p) s)) REG_ENSM_CONFIG_1 =
    (let v = (get_reg s REG_ENSM_CONFIG_1 AND NOT 0x64) OR wanted p in if st_ensm_pin_ctl_en s then v OR 0x10 else v)"
proof -
  have down: "(ucast ((ucast c AND NOT (0x20 OR 0x40 OR 0x4)) OR 1 :: u32) :: u8) = (c AND NOT 0x64) OR 1" for c :: u8
    unfolding down8 by simp
  obtain v where v: "restore_bits p ((ucast (get_reg s REG_ENSM_CONFIG_1) AND NOT (0x20 OR 0x40 OR 0x4)) OR 1) = Some v"
    "ucast v = (get_reg s REG_ENSM_CONFIG_1 AND NOT 0x64) OR wanted p"
    using restore_bits_wanted [OF assms, of "(ucast (get_reg s REG_ENSM_CONFIG_1) AND NOT (0x20 OR 0x40 OR 0x4)) OR 1"] down
    by blast
  have pin: "st_ensm_pin_ctl_en (set_reg r x t) = st_ensm_pin_ctl_en t" for r x t by (simp add: set_reg_def)
  have w: "(ucast (v OR 0x10) :: u8) = ucast v OR 0x10" unfolding down8 by simp
  show ?thesis
    unfolding ensm_restore_state_def run_bind_eq [OF run_spi_read] up8 config_bits Let_def v(1) option.case
      run_bind_eq [OF run_spi_write]
    by (simp add: pin run_spi_write w v(2))
qed

text \<open>
  Forcing a state and restoring the previous one, as the calibrations do. The request
  bits of the control register then ask for the state the chip was in, the bits outside the
  request and the pin control bit are as they were, and so is the pin control bit, except
  when the chip was in the forced state already and an earlier call left the flag set: then
  pin control comes back on though it was off.
\<close>

theorem ensm_force_restore:
  assumes "handled (dev_state s)" "handled e"
  shows "let c = get_reg s REG_ENSM_CONFIG_1;
             t = snd (run_state (ensm_force_state chip_bus e) s);
             c' = get_reg (snd (run_state (ensm_restore_prev_state chip_bus) t)) REG_ENSM_CONFIG_1
         in c' AND 0x65 = wanted (dev_state s) \<and> c' AND 0x8A = c AND 0x8A \<and>
            (bit c' 4 \<longleftrightarrow> bit c 4 \<or> (dev_state s = e \<and> st_ensm_pin_ctl_en s))"
proof (cases "dev_state s = e")
  case True
  let ?t = "s\<lparr>st_prev_ensm_state := e\<rparr>"
  have t: "snd (run_state (ensm_force_state chip_bus e) s) = ?t"
    using True unfolding ensm_force_state_def run_bind_eq [OF run_get_state] by simp
  have "get_reg (snd (run_state (ensm_restore_state chip_bus e) ?t)) REG_ENSM_CONFIG_1 =
      (let v = (get_reg s REG_ENSM_CONFIG_1 AND NOT 0x64) OR wanted e in if st_ensm_pin_ctl_en s then v OR 0x10 else v)"
    using run_restore [OF assms(2), of ?t] by simp
  then show ?thesis
    using restored_bits [OF wanted_cases [of e], of "get_reg s REG_ENSM_CONFIG_1"] True
    unfolding t ensm_restore_prev_state_def run_bind_get Let_def by (simp split: if_splits)
next
  case False
  let ?c = "get_reg s REG_ENSM_CONFIG_1" and ?d = "dev_state s"
  let ?t = "set_reg REG_ENSM_CONFIG_1 (forced e ?d ?c)
      (set_reg REG_ENSM_CONFIG_1 5 (s\<lparr>st_prev_ensm_state := ?d, st_ensm_pin_ctl_en := bit ?c 4\<rparr>))"
  have f: "st_prev_ensm_state ?t = ?d" "st_ensm_pin_ctl_en ?t = bit ?c 4" by (simp_all add: set_reg_def)
  have n: "forced e ?d ?c AND 0x8A = ?c AND 0x8A" "\<not> bit (forced e ?d ?c) 4"
    unfolding forced_def Let_def
    by (cases "e = 0x6 \<or> e = 0xA"; cases "e = 0x8"; cases "?d = 0"; intro u8_eqI; simp add: bit_or_iff bit_and_iff bit_not_iff)
      (simp add: bit_or_iff bit_and_iff bit_not_iff)
  show ?thesis
    using restored_bits [OF wanted_cases [of ?d], of "forced e ?d ?c"] n False
    unfolding run_force [OF assms(2) False] ensm_restore_prev_state_def run_bind_get Let_def f(1)
      run_restore [OF assms(1)] f(2) get_set_reg
    by (simp split: if_splits)
qed

text \<open>A stale flag: the chip is in ALERT already, so forcing ALERT does nothing, yet restoring turns pin control on.\<close>

theorem ensm_force_restore_witness:
  "let s = set_reg REG_STATE 5 (ad_zero\<lparr>st_ensm_pin_ctl_en := True\<rparr>);
       t = snd (run_state (ensm_force_state chip_bus 5) s)
   in \<not> bit (get_reg s REG_ENSM_CONFIG_1) 4 \<and>
      bit (get_reg (snd (run_state (ensm_restore_prev_state chip_bus) t)) REG_ENSM_CONFIG_1) 4"
proof -
  let ?s = "set_reg REG_STATE 5 (ad_zero\<lparr>st_ensm_pin_ctl_en := True\<rparr>)"
  have d: "dev_state ?s = 5" by (simp add: dev_state_def)
  have c: "get_reg ?s REG_ENSM_CONFIG_1 = 0" "st_ensm_pin_ctl_en ?s"
    by (simp_all add: set_reg_def ad_zero_def ad_regs AD_ADDR_def)
  have "handled (dev_state ?s)" "handled 5" by (simp_all add: d handled_def)
  from ensm_force_restore [OF this] show ?thesis unfolding Let_def d c(1) using c(2) by simp
qed

subsection \<open>Moving to a state\<close>

lemma chip_only_wake [chip_intro]: "chip_only (ensm_wake bus)"
  unfolding ensm_wake_def trx_vco_cal_control_def by (intro chip_intro)

lemma chip_only_single_synth [chip_intro]: "chip_only (ensm_single_synth bus e pin)"
  unfolding ensm_single_synth_def Let_def by (intro chip_intro)

lemma chip_only_reset_detectors [chip_intro]: "chip_only (ensm_reset_detectors bus v)"
  unfolding ensm_reset_detectors_def Let_def by (intro chip_intro)

definition known_state :: "u8 \<Rightarrow> bool" where
  "known_state e \<longleftrightarrow> handled e \<or> e = 0 \<or> e = 0x80"

definition wrong_mode :: "u8 \<Rightarrow> 'c ad9361 \<Rightarrow> bool" where
  "wrong_mode e s \<longleftrightarrow> (if e = 0xA then \<not> pd_fdd s else (e = 0x6 \<or> e = 0x8) \<and> pd_fdd s)"

lemma request_bits_set: "(x OR 0x20) AND (0x40 OR 0x20) \<noteq> (0 :: u32)" "(x OR 0x40) AND (0x40 OR 0x20) \<noteq> (0 :: u32)"
proof -
  have "bit ((x OR 0x20) AND (0x40 OR 0x20)) 5" "bit ((x OR 0x40) AND (0x40 OR 0x20)) 6"
    by (simp_all add: bit_and_iff bit_or_iff)
  then show "(x OR 0x20) AND (0x40 OR 0x20) \<noteq> 0" "(x OR 0x40) AND (0x40 OR 0x20) \<noteq> 0" by force+
qed

text \<open>The request and its check.\<close>

lemma ensm_request_cases:
  "\<not> known_state e \<Longrightarrow> ensm_request e s b = None"
  "known_state e \<Longrightarrow> e \<noteq> 0x80 \<Longrightarrow> \<exists>val rc. ensm_request e s b = Some (val, rc) \<and>
     (st_curr_ensm_state s = 5 \<longrightarrow> rc = (if wrong_mode e s then - 22 else 0)) \<and>
     (rc \<noteq> 0 \<longrightarrow> val AND (FORCE_RX_ON OR FORCE_TX_ON) \<noteq> 0)"
  unfolding ensm_request_def known_state_def handled_def ensm_states config_bits wrong_mode_def Let_def
  by (auto simp: request_bits_set [simplified])

text \<open>Carrying a request out always ends in the state asked for.\<close>

lemma ensm_carry_out:
  "\<exists>s'. run_state (do {
       _ \<leftarrow> (if rc \<noteq> 0 then do {
              _ \<leftarrow> spi_write chip_bus REG_ENSM_CONFIG_1 v1;
              check_cal_done chip_bus REG_STATE (ENSM_STATE (- 1)) ENSM_STATE_ALERT
            } else rtn 0);
       _ \<leftarrow> ensm_single_synth chip_bus e pinctrl;
       rc \<leftarrow> spi_write chip_bus REG_ENSM_CONFIG_1 val;
       _ \<leftarrow> ensm_reset_detectors chip_bus val;
       _ \<leftarrow> upd_phy (\<lambda>s. s\<lparr>st_curr_ensm_state := e\<rparr>);
       rtn (Some rc) }) s = (Some 0, s') \<and> st_curr_ensm_state s' = e"
proof -
  have 1: "chip_only (if rc \<noteq> 0 then do {
              _ \<leftarrow> spi_write chip_bus REG_ENSM_CONFIG_1 v1;
              check_cal_done chip_bus REG_STATE (ENSM_STATE (- 1)) ENSM_STATE_ALERT
            } else rtn 0)"
    by (intro chip_intro)
  obtain x1 c1 where s1: "run_state (if rc \<noteq> 0 then do {
              _ \<leftarrow> spi_write chip_bus REG_ENSM_CONFIG_1 v1;
              check_cal_done chip_bus REG_STATE (ENSM_STATE (- 1)) ENSM_STATE_ALERT
            } else rtn 0) s = (x1, s\<lparr>ad_chip := c1\<rparr>)"
    using chip_onlyE [OF 1, of s] by blast
  obtain x2 t where s2: "run_state (ensm_single_synth chip_bus e pinctrl) (s\<lparr>ad_chip := c1\<rparr>) = (x2, t)"
    by (cases "run_state (ensm_single_synth chip_bus e pinctrl) (s\<lparr>ad_chip := c1\<rparr>)")
  obtain x3 u where s3: "run_state (ensm_reset_detectors chip_bus val) (set_reg REG_ENSM_CONFIG_1 (ucast val) t) = (x3, u)"
    by (cases "run_state (ensm_reset_detectors chip_bus val) (set_reg REG_ENSM_CONFIG_1 (ucast val) t)")
  show ?thesis
    unfolding run_bind_eq [OF s1] run_bind_eq [OF s2] run_bind_eq [OF run_spi_write] run_bind_eq [OF s3] run_bind_update
    by simp
qed

text \<open>
  C25. Moving the state machine. A state the switch does not know returns 0 and moves
  nothing. From ALERT a state of the other duplex mode is refused with -22 and nothing at
  all changes. In every other case the call returns 0 and the state asked for is current:
  also a state of the other duplex mode, when the machine is not in ALERT.
\<close>

theorem ensm_set_state_outcome:
  assumes "adc_rate \<noteq> 0"
  shows "(\<not> known_state e \<longrightarrow> (\<exists>s'. run_state (ensm_set_state chip_bus adc_rate e pin) s = (Some 0, s') \<and>
            st_curr_ensm_state s' = st_curr_ensm_state s)) \<and>
    (known_state e \<and> wrong_mode e s \<and> st_curr_ensm_state s = 5 \<longrightarrow>
       run_state (ensm_set_state chip_bus adc_rate e pin) s = (Some (- 22), s)) \<and>
    (known_state e \<and> \<not> (wrong_mode e s \<and> st_curr_ensm_state s = 5) \<longrightarrow>
       (\<exists>s'. run_state (ensm_set_state chip_bus adc_rate e pin) s = (Some 0, s') \<and> st_curr_ensm_state s' = e))"
proof -
  let ?wake = "if st_curr_ensm_state s = ucast ENSM_STATE_SLEEP then ensm_wake chip_bus else rtn ()"
  have "chip_only ?wake" by (intro chip_intro)
  from chip_onlyE [OF this, of s] obtain w c where w: "run_state ?wake s = (w, s\<lparr>ad_chip := c\<rparr>)" by blast
  have u8_states: "(ucast (0x80 :: u32) :: u8) = 0x80" "(ucast (5 :: u32) :: u8) = 5" by simp_all
  have start: "run_state (ensm_set_state chip_bus adc_rate e pin) s =
      run_state (if e = 0x80 then ensm_sleep chip_bus adc_rate
        else (case ensm_request e s (ensm_base pin s) of
          None \<Rightarrow> rtn (Some 0)
        | Some (val, rc) \<Rightarrow>
           if rc \<noteq> 0 \<and> (st_curr_ensm_state s = 5 \<or> val AND (FORCE_RX_ON OR FORCE_TX_ON) = 0)
           then rtn (Some rc)
           else do {
             _ \<leftarrow> if rc \<noteq> 0 then do {
                    _ \<leftarrow> spi_write chip_bus REG_ENSM_CONFIG_1
                          ((val AND NOT (FORCE_TX_ON OR FORCE_RX_ON)) OR (TO_ALERT OR FORCE_ALERT_STATE));
                    check_cal_done chip_bus REG_STATE (ENSM_STATE (- 1)) ENSM_STATE_ALERT
                  } else rtn 0;
             _ \<leftarrow> ensm_single_synth chip_bus e pin;
             rc \<leftarrow> spi_write chip_bus REG_ENSM_CONFIG_1 val;
             _ \<leftarrow> ensm_reset_detectors chip_bus val;
             _ \<leftarrow> upd_phy (\<lambda>s. s\<lparr>st_curr_ensm_state := e\<rparr>);
             rtn (Some rc)
           })) (s\<lparr>ad_chip := c\<rparr>)"
    unfolding ensm_set_state_def run_bind_get run_bind_eq [OF w] unfolding ensm_states u8_states by (rule refl)
  show ?thesis
  proof (intro conjI impI; (elim conjE)?)
    assume k: "\<not> known_state e"
    then show "\<exists>s'. run_state (ensm_set_state chip_bus adc_rate e pin) s = (Some 0, s') \<and>
        st_curr_ensm_state s' = st_curr_ensm_state s"
      unfolding start by (simp add: ensm_request_cases(1) known_state_def)
  next
    assume k: "known_state e" "wrong_mode e s" "st_curr_ensm_state s = 5"
    then have ne: "e \<noteq> 0x80" by (auto simp: wrong_mode_def split: if_splits)
    have "?wake = rtn ()" using k(3) by (simp add: ensm_states)
    with w have "s\<lparr>ad_chip := c\<rparr> = s" by simp
    then show "run_state (ensm_set_state chip_bus adc_rate e pin) s = (Some (- 22), s)"
      using ensm_request_cases(2) [OF k(1) ne, of s "ensm_base pin s"] k(2,3) ne unfolding start by auto
  next
    assume k: "known_state e" "\<not> (wrong_mode e s \<and> st_curr_ensm_state s = 5)"
    show "\<exists>s'. run_state (ensm_set_state chip_bus adc_rate e pin) s = (Some 0, s') \<and> st_curr_ensm_state s' = e"
    proof (cases "e = 0x80")
      case True
      then show ?thesis
        using assms unfolding start
        by (simp add: ensm_sleep_def trx_vco_cal_control_def run_spi_write ensm_states split: prod.split)
    next
      case False
      from ensm_request_cases(2) [OF k(1) False, of s "ensm_base pin s"] obtain val rc where
        r: "ensm_request e s (ensm_base pin s) = Some (val, rc)"
          "\<not> (rc \<noteq> 0 \<and> (st_curr_ensm_state s = 5 \<or> val AND (FORCE_RX_ON OR FORCE_TX_ON) = 0))"
        using k(2) by fastforce
      show ?thesis unfolding start if_not_P [OF False] r(1) option.case prod.case if_not_P [OF r(2)] by (rule ensm_carry_out)
    qed
  qed
qed

text \<open>In FDD mode TX is refused from ALERT, but taken from the FDD state.\<close>

theorem ensm_set_state_outcome_witness:
  "run_state (ensm_set_state chip_bus 1 6 False) (ad_zero\<lparr>st_curr_ensm_state := 5\<rparr>) =
     (Some (- 22), ad_zero\<lparr>st_curr_ensm_state := 5\<rparr>) \<and>
   (\<exists>s'. run_state (ensm_set_state chip_bus 1 6 False) (ad_zero\<lparr>st_curr_ensm_state := 10\<rparr>) = (Some 0, s') \<and>
      st_curr_ensm_state s' = 6)"
proof -
  have k: "known_state 6" by (simp add: known_state_def handled_def)
  have m: "wrong_mode 6 (ad_zero\<lparr>st_curr_ensm_state := x\<rparr>)" for x by (simp add: wrong_mode_def ad_zero_def)
  show ?thesis
    using ensm_set_state_outcome [of 1 6 False "ad_zero\<lparr>st_curr_ensm_state := 5\<rparr>"]
      ensm_set_state_outcome [of 1 6 False "ad_zero\<lparr>st_curr_ensm_state := 10\<rparr>"] k m by simp
qed

end
