(* ===== verification/Ad_Rf_Props.thy ===== *)
theory Ad_Rf_Props
  imports Ad_Rf
begin

unbundle bit_operations_syntax

text \<open>
  The transmit attenuation and its mute, and the search for the widest eye opening against
  a reference definition.
\<close>

subsection \<open>Attenuation\<close>

definition atten_code :: "bool \<Rightarrow> regfile ad9361 \<Rightarrow> u32" where
  "atten_code tx2 s = (let r = (if tx2 then REG_TX2_ATTEN_1 else REG_TX1_ATTEN_1) in
     push_bit 8 (ucast (get_reg s r)) OR ucast (get_reg s (r - 1)))"

lemma bytes_join:
  fixes a :: u32
  assumes "unat a < 65536"
  shows "push_bit 8 (ucast (ucast (drop_bit 8 a) :: u8)) OR ucast (ucast (a AND 0xFF) :: u8) = a"
proof -
  have m: "0xFF = (mask 8 :: u32)" by (simp add: mask_eq_exp_minus_1)
  have hi: "bit a n \<Longrightarrow> n < 16" for n using small_bits [of a 16 n] assms by simp
  show ?thesis
  proof (rule bit_word_eqI)
    fix n assume "n < LENGTH(32)"
    consider "n < 8" | "8 \<le> n" "n < 16" | "16 \<le> n" by linarith
    then show "bit (push_bit 8 (ucast (ucast (drop_bit 8 a) :: u8)) OR ucast (ucast (a AND 0xFF) :: u8) :: u32) n = bit a n"
      unfolding m using hi [of n] by cases (auto simp: bit_simps)
  qed
qed

definition atten_reg :: "bool \<Rightarrow> u32" where
  "atten_reg tx2 = (if tx2 then REG_TX2_ATTEN_1 else REG_TX1_ATTEN_1)"

text \<open>Writing one attenuation word.\<close>

definition put_code :: "bool \<Rightarrow> u32 \<Rightarrow> regfile ad9361 \<Rightarrow> regfile ad9361" where
  "put_code tx2 a s =
     set_reg (atten_reg tx2 - 1) (ucast (a AND 0xFF)) (set_reg (atten_reg tx2) (ucast (drop_bit 8 a)) s)"

lemma atten_addr: "AD_ADDR (atten_reg tx2) - 1 = AD_ADDR (atten_reg tx2 - 1)"
  by (simp add: atten_reg_def ad_regs AD_ADDR_def)

lemma run_put_code:
  "run_state (spi_writem chip_bus (atten_reg tx2) [ucast (drop_bit 8 a), ucast (a AND 0xFF)] 2) s = (0, put_code tx2 a s)"
  by (simp add: run_spi_writem put_code_def set_reg_def atten_addr eval_nat_numeral)

lemma code_put:
  assumes "unat a < 65536"
  shows "atten_code t (put_code u a s) = (if t = u then a else atten_code t s)"
  using bytes_join [OF assms]
  by (cases t; cases u) (simp_all add: atten_code_def put_code_def atten_reg_def ad_regs AD_ADDR_def set_reg_def Let_def)

lemma code_dig: "atten_code t (set_reg REG_TX2_DIG_ATTEN v s) = atten_code t s"
  by (cases t) (simp_all add: atten_code_def ad_regs AD_ADDR_def set_reg_def Let_def)

lemma run_set_tx_atten:
  assumes "a \<le> MAX_TX_ATTENUATION_DB"
  shows "\<exists>v w. run_state (set_tx_atten chip_bus a tx1 tx2 True) s =
    (0, set_reg REG_TX2_DIG_ATTEN w
      ((if tx2 then put_code True (a div 250) else id) ((if tx1 then put_code False (a div 250) else id)
         (set_reg REG_TX2_DIG_ATTEN v s))))"
proof -
  have m: "IMMEDIATELY_UPDATE_TPC_ATTEN \<noteq> 0" by (simp add: ad_regs)
  have r: "REG_TX1_ATTEN_1 = atten_reg False" "REG_TX2_ATTEN_1 = atten_reg True" by (simp_all add: atten_reg_def)
  show ?thesis
    unfolding set_tx_atten_def if_not_P [OF leD [OF assms]] Let_def run_bind_eq [OF run_spi_writef [OF m]] r
    by (cases tx1; cases tx2) (auto simp: run_put_code run_spi_writef [OF m])
qed

lemma run_get_tx_atten:
  "run_state (get_tx_atten chip_bus n) s = (sint (atten_code (n \<noteq> 1) s * 250), s)"
proof -
  have "(if n = 1 then REG_TX1_ATTEN_1 else REG_TX2_ATTEN_1) = atten_reg (n \<noteq> 1)" by (simp add: atten_reg_def)
  then show ?thesis
    by (simp add: get_tx_atten_def run_spi_readm atten_addr eval_nat_numeral atten_code_def)
      (simp add: atten_reg_def Let_def)
qed

lemma code_scale:
  assumes "(c :: u32) \<le> 359"
  shows "c * 250 \<le> MAX_TX_ATTENUATION_DB" "c * 250 div 250 = c" "unat c < 65536"
proof -
  have c: "unat c \<le> 359" using assms by (simp add: word_le_nat_alt)
  then show "unat c < 65536" by simp
  have m: "unat (c * 250) = unat c * 250" using c by (subst unat_mult_lem [THEN iffD1]) simp_all
  show "c * 250 \<le> MAX_TX_ATTENUATION_DB" using c by (simp add: word_le_nat_alt m ad_regs)
  show "c * 250 div 250 = c" by (simp add: word_unat_eq_iff unat_div_distrib m)
qed

lemma atten_code_fields [simp]:
  "atten_code t (s\<lparr>st_tx1_atten_cached := x\<rparr>) = atten_code t s" "atten_code t (s\<lparr>st_tx2_atten_cached := x\<rparr>) = atten_code t s"
  by (simp_all add: atten_code_def Let_def)

lemma cached_kept:
  "st_tx1_atten_cached (put_code t a s) = st_tx1_atten_cached s" "st_tx2_atten_cached (put_code t a s) = st_tx2_atten_cached s"
  "st_tx1_atten_cached (set_reg r v s) = st_tx1_atten_cached s" "st_tx2_atten_cached (set_reg r v s) = st_tx2_atten_cached s"
  by (simp_all add: put_code_def set_reg_def)

text \<open>Setting one or both attenuations, in terms of the codes.\<close>

lemma set_tx_atten_codes:
  assumes "c \<le> 359"
  shows "\<exists>s'. run_state (set_tx_atten chip_bus (c * 250) tx1 tx2 True) s = (0, s') \<and>
    atten_code False s' = (if tx1 then c else atten_code False s) \<and>
    atten_code True s' = (if tx2 then c else atten_code True s) \<and>
    st_tx1_atten_cached s' = st_tx1_atten_cached s \<and> st_tx2_atten_cached s' = st_tx2_atten_cached s"
proof -
  obtain v w where r: "run_state (set_tx_atten chip_bus (c * 250) tx1 tx2 True) s =
    (0, set_reg REG_TX2_DIG_ATTEN w
      ((if tx2 then put_code True c else id) ((if tx1 then put_code False c else id) (set_reg REG_TX2_DIG_ATTEN v s))))"
    using run_set_tx_atten [OF code_scale(1) [OF assms], of tx1 tx2 s] unfolding code_scale(2) [OF assms] by blast
  show ?thesis
    unfolding r using code_scale(3) [OF assms] by (simp add: code_put code_dig cached_kept)
qed

lemma run_unmute_same:
  "st_tx1_atten_cached r = x \<Longrightarrow> st_tx2_atten_cached r = x \<Longrightarrow>
     run_state (tx_mute chip_bus 0) r = run_state (set_tx_atten chip_bus x True True True) r"
  unfolding tx_mute_def by simp

lemma run_unmute_differ:
  assumes "st_tx1_atten_cached r = x" "st_tx2_atten_cached r = y" "x \<noteq> y"
    "run_state (set_tx_atten chip_bus x True False True) r = (0, s1)"
    "run_state (set_tx_atten chip_bus y False True True) s1 = (0, s2)"
  shows "run_state (tx_mute chip_bus 0) r = (0, s2)"
  using assms unfolding tx_mute_def by simp

text \<open>
  C26. Muting and unmuting the transmitter. Muting sets both attenuations to their maximum
  of 89.75 dB and unmuting afterwards returns 0 and puts back what each was before, also
  when the two differ. It only remembers one level: muting twice and unmuting once leaves
  the transmitter muted.
\<close>

theorem tx_mute_restores:
  assumes "atten_code False s \<le> 359" "atten_code True s \<le> 359"
  shows "\<exists>t u v. run_state (tx_mute chip_bus 1) s = (0, t) \<and> atten_code False t = 359 \<and> atten_code True t = 359 \<and>
    run_state (tx_mute chip_bus 0) t = (0, u) \<and>
    atten_code False u = atten_code False s \<and> atten_code True u = atten_code True s \<and>
    (\<exists>t'. run_state (tx_mute chip_bus 1) t = (0, t') \<and> run_state (tx_mute chip_bus 0) t' = (0, v)) \<and>
    atten_code False v = 359 \<and> atten_code True v = 359"
proof -
  have mute: "\<exists>t. run_state (tx_mute chip_bus 1) r = (0, t) \<and> atten_code False t = 359 \<and> atten_code True t = 359 \<and>
      st_tx1_atten_cached t = atten_code False r * 250 \<and> st_tx2_atten_cached t = atten_code True r * 250" for r
  proof -
    let ?r = "r\<lparr>st_tx1_atten_cached := atten_code False r * 250, st_tx2_atten_cached := atten_code True r * 250\<rparr>"
    have k: "(359 :: u32) \<le> 359" "(359 :: u32) * 250 = 89750" by simp_all
    obtain t where "run_state (set_tx_atten chip_bus 89750 True True True) ?r = (0, t)"
      "atten_code False t = 359" "atten_code True t = 359"
      "st_tx1_atten_cached t = atten_code False r * 250" "st_tx2_atten_cached t = atten_code True r * 250"
      using set_tx_atten_codes [OF k(1), of True True ?r] unfolding k(2) by auto
    moreover have "run_state (tx_mute chip_bus 1) r = run_state (set_tx_atten chip_bus 89750 True True True) ?r"
    proof -
      have "(1 :: u32) \<noteq> 0" "(1 :: u32) \<noteq> 0 \<longleftrightarrow> True" "(2 :: u32) = 1 \<longleftrightarrow> False" by simp_all
      then show ?thesis
        unfolding tx_mute_def
        by (simp only: if_True simp_thms run_bind_eq [OF run_get_tx_atten] run_bind_update atten_code_fields of_int_sint scast_id)
    qed
    ultimately show ?thesis by (intro exI [of _ t]) simp
  qed
  have unmute: "\<exists>u. run_state (tx_mute chip_bus 0) r = (0, u) \<and> atten_code False u = a \<and> atten_code True u = b"
    if r: "st_tx1_atten_cached r = a * 250" "st_tx2_atten_cached r = b * 250" and ab: "a \<le> 359" "b \<le> 359" for r a b
  proof (cases "a * 250 = b * 250")
    case True
    have "a = b" using code_scale(2) [OF ab(1), symmetric] code_scale(2) [OF ab(2)] unfolding True by (rule trans)
    obtain u where "run_state (set_tx_atten chip_bus (a * 250) True True True) r = (0, u)"
      "atten_code False u = a" "atten_code True u = a"
      using set_tx_atten_codes [OF ab(1), of True True r] by auto
    moreover have "run_state (tx_mute chip_bus 0) r = run_state (set_tx_atten chip_bus (a * 250) True True True) r"
      by (rule run_unmute_same [OF r(1)]) (unfold True, rule r(2))
    ultimately show ?thesis unfolding \<open>a = b\<close> by metis
  next
    case False
    obtain s1 where 1: "run_state (set_tx_atten chip_bus (a * 250) True False True) r = (0, s1)"
      "atten_code False s1 = a" "st_tx2_atten_cached s1 = b * 250"
      using set_tx_atten_codes [OF ab(1), of True False r] r by auto
    obtain s2 where 2: "run_state (set_tx_atten chip_bus (b * 250) False True True) s1 = (0, s2)"
      "atten_code False s2 = a" "atten_code True s2 = b"
      using set_tx_atten_codes [OF ab(2), of False True s1] 1 by auto
    show ?thesis using run_unmute_differ [OF r False 1(1) 2(1)] 2(2,3) by blast
  qed
  obtain t where t: "run_state (tx_mute chip_bus 1) s = (0, t)" "atten_code False t = 359" "atten_code True t = 359"
    "st_tx1_atten_cached t = atten_code False s * 250" "st_tx2_atten_cached t = atten_code True s * 250"
    using mute [of s] by blast
  obtain u where u: "run_state (tx_mute chip_bus 0) t = (0, u)" "atten_code False u = atten_code False s"
    "atten_code True u = atten_code True s" using unmute [OF t(4,5) assms] by blast
  obtain t' where t': "run_state (tx_mute chip_bus 1) t = (0, t')"
    "st_tx1_atten_cached t' = 359 * 250" "st_tx2_atten_cached t' = 359 * 250"
    using mute [of t] t(2,3) by auto
  obtain v where "run_state (tx_mute chip_bus 0) t' = (0, v)" "atten_code False v = 359" "atten_code True v = 359"
    using unmute [OF t'(2,3)] by auto
  with t(1-3) u t'(1) show ?thesis by blast
qed

theorem tx_mute_restores_witness:
  "\<exists>t u. run_state (tx_mute chip_bus 1) ad_zero = (0, t) \<and> atten_code False t = 359 \<and>
     run_state (tx_mute chip_bus 0) t = (0, u) \<and> atten_code False u = 0"
proof -
  have z: "atten_code b ad_zero = 0" for b by (simp add: atten_code_def ad_zero_def Let_def)
  show ?thesis using tx_mute_restores [of ad_zero] unfolding z by auto
qed

subsection \<open>The widest opening\<close>

text \<open>A run of good (zero) settings, by its first index and its length.\<close>

definition zero_run :: "u8 list \<Rightarrow> nat \<Rightarrow> nat \<Rightarrow> bool" where
  "zero_run xs i m \<longleftrightarrow> i + m \<le> length xs \<and> (\<forall>j < m. xs ! (i + j) = 0)"

text \<open>Before the end of the field: the run that is still growing, and the best one closed so far.\<close>

definition open_run :: "u8 list \<Rightarrow> nat \<Rightarrow> bool" where
  "open_run ys c \<longleftrightarrow> zero_run ys (length ys - c) c \<and> c \<le> length ys \<and>
     (c < length ys \<longrightarrow> ys ! (length ys - c - 1) \<noteq> 0)"

definition best_before :: "u8 list \<Rightarrow> nat \<Rightarrow> nat \<Rightarrow> nat \<Rightarrow> bool" where
  "best_before ys e m i \<longleftrightarrow> zero_run ys i m \<and> i + m \<le> e \<and>
     (\<forall>i' m'. zero_run ys i' m' \<and> i' + m' \<le> e \<longrightarrow> m' \<le> m \<and> (m' = m \<and> 0 < m \<longrightarrow> i \<le> i'))"

lemma zero_run_append: "i + m \<le> length ys \<Longrightarrow> zero_run (ys @ zs) i m \<longleftrightarrow> zero_run ys i m"
  by (auto simp: zero_run_def nth_append)

lemma open_run_zero: "open_run ys c \<Longrightarrow> open_run (ys @ [0]) (Suc c)"
  unfolding open_run_def zero_run_def by (auto simp: nth_append less_Suc_eq Suc_diff_le)

lemma open_run_nonzero: "b \<noteq> 0 \<Longrightarrow> open_run (ys @ [b]) 0"
  by (auto simp: open_run_def zero_run_def)

lemma best_before_append: "best_before ys e m i \<Longrightarrow> e \<le> length ys \<Longrightarrow> best_before (ys @ zs) e m i"
  unfolding best_before_def by (auto simp: zero_run_append)

text \<open>A run lies in the open run or ends before it.\<close>

lemma zero_run_split:
  assumes "open_run ys c" "zero_run ys i m" "0 < m"
  shows "i + m \<le> length ys - c \<or> length ys - c \<le> i"
proof (rule ccontr)
  assume a: "\<not> ?thesis"
  then have c: "c < length ys" and i: "i \<le> length ys - c - 1" "length ys - c - 1 < i + m"
    using assms(1) by (auto simp: open_run_def)
  have "ys ! (i + (length ys - c - 1 - i)) = 0" using assms(2) i unfolding zero_run_def by (metis add_diff_inverse_nat less_diff_conv2 add.commute not_less)
  then show False using assms(1) c i(1) by (simp add: open_run_def)
qed

lemma close_run:
  assumes o: "open_run ys c" and b: "best_before ys (length ys - c) m i"
  shows "best_before ys (length ys) (if m < c then c else m) (if m < c then length ys - c else i)"
proof -
  have run: "m' \<le> max m c \<and> (m' = m \<and> 0 < m \<and> \<not> m < c \<longrightarrow> i \<le> i') \<and> (m' = c \<and> m < c \<longrightarrow> length ys - c \<le> i')"
    if z: "zero_run ys i' m'" for i' m'
  proof (cases "m' = 0")
    case False
    from zero_run_split [OF o z] False consider "i' + m' \<le> length ys - c" | "length ys - c \<le> i'" by blast
    then show ?thesis
    proof cases
      case 1
      then show ?thesis using b z False unfolding best_before_def by fastforce
    next
      case 2
      have "i' + m' \<le> length ys" using z by (simp add: zero_run_def)
      moreover have "i \<le> length ys - c" using b by (simp add: best_before_def)
      ultimately show ?thesis using 2 by auto
    qed
  qed auto
  have "zero_run ys (length ys - c) c" "length ys - c + c \<le> length ys" using o by (auto simp: open_run_def)
  moreover have "zero_run ys i m" "i + m \<le> length ys" using b by (auto simp: best_before_def)
  ultimately show ?thesis using run unfolding best_before_def by (auto simp: not_less max_def split: if_splits)
qed

lemma find_opt_loop_best:
  assumes "open_run ys c" "best_before ys (length ys - c) m i"
  shows "\<exists>m' i'. find_opt_loop zs (int (length ys)) (if c = 0 then - 1 else int (length ys - c)) (int c) (int m) (int i) =
      (int m', int i') \<and> best_before (ys @ zs) (length (ys @ zs)) m' i'"
  using assms
proof (induction zs arbitrary: ys c m i)
  case Nil
  have "find_opt_loop [] (int (length ys)) (if c = 0 then - 1 else int (length ys - c)) (int c) (int m) (int i) =
      (int (if m < c then c else m), int (if m < c then length ys - c else i))" by simp
  then show ?case using close_run [OF Nil.prems] by auto
next
  case (Cons b zs)
  show ?case
  proof (cases "b = 0")
    case True
    have l: "length (ys @ [b]) - Suc c = length ys - c" by simp
    have c: "c \<le> length ys" using Cons.prems(1) by (simp add: open_run_def)
    have s: "(if (if c = 0 then - 1 else int (length ys - c)) = - 1 then int (length ys)
        else if c = 0 then - 1 else int (length ys - c)) = int (length ys - c)" by auto
    have "open_run (ys @ [b]) (Suc c)" using open_run_zero [OF Cons.prems(1)] True by simp
    moreover have "best_before (ys @ [b]) (length (ys @ [b]) - Suc c) m i"
      unfolding l using Cons.prems(2) by (intro best_before_append) simp_all
    ultimately show ?thesis
      using Cons.IH [of "ys @ [b]" "Suc c" m i] True s by (simp add: add.commute)
  next
    case False
    let ?m = "if m < c then c else m" and ?i = "if m < c then length ys - c else i"
    have "best_before (ys @ [b]) (length (ys @ [b]) - 0) ?m ?i"
    proof -
      have "best_before (ys @ [b]) (length ys) ?m ?i"
        using close_run [OF Cons.prems] by (intro best_before_append) simp_all
      moreover have "i' + m' \<le> length ys \<or> m' = 0" if "zero_run (ys @ [b]) i' m'" for i' m'
      proof (rule ccontr)
        assume "\<not> ?thesis"
        then have "0 < m'" "i' + (m' - 1) = length ys" using that by (auto simp: zero_run_def)
        then show False using that False unfolding zero_run_def by (metis diff_less nth_append_length zero_less_one)
      qed
      ultimately show ?thesis unfolding best_before_def by (fastforce split: if_splits)
    qed
    moreover have "open_run (ys @ [b]) 0" by (rule open_run_nonzero [OF False])
    ultimately show ?thesis
      using Cons.IH [of "ys @ [b]" 0 ?m ?i] False Cons.prems(1) by (auto simp: add.commute open_run_def split: if_splits)
  qed
qed

lemma find_opt_spec: "\<exists>m i. find_opt xs = (int m, int i) \<and> best_before xs (length xs) m i"
proof -
  have "open_run [] 0" "best_before [] (length ([] :: u8 list) - 0) 0 0"
    by (simp_all add: open_run_def best_before_def zero_run_def)
  from find_opt_loop_best [OF this, of xs] show ?thesis by (auto simp: find_opt_def)
qed

text \<open>
  C27. The eye search is equivalent to its specification: the length it returns is that of
  the longest run of good settings (0 when there is none), and the start is where the first
  such run begins.
\<close>

theorem find_opt_longest:
  "\<exists>m i. find_opt xs = (int m, int i) \<and> i + m \<le> length xs \<and> (\<forall>j < m. xs ! (i + j) = 0) \<and>
     (\<forall>i' m'. zero_run xs i' m' \<longrightarrow> m' \<le> m \<and> (m' = m \<and> 0 < m \<longrightarrow> i \<le> i'))"
  using find_opt_spec [of xs] unfolding best_before_def zero_run_def by auto

theorem find_opt_longest_witness: "find_opt [1, 0, 0, 1, 0, 0, 0, 2, 0, 0, 0] = (3, 4) \<and> zero_run [1, 0, 0, 1, 0, 0, 0, 2, 0, 0, 0] 4 3"
proof -
  have "find_opt [1, 0, 0, 1, 0, 0, 0, 2, 0, 0, 0] = (3, 4)" by code_simp
  moreover from this find_opt_longest [of "[1, 0, 0, 1, 0, 0, 0, 2, 0, 0, 0]"] have "zero_run [1, 0, 0, 1, 0, 0, 0, 2, 0, 0, 0] 4 3"
    by (auto simp: zero_run_def)
  ultimately show ?thesis by simp
qed

end
