(* ===== verification/Ad_Setup.thy ===== *)
theory Ad_Setup
  imports Ad_Ensm
begin

unbundle bit_operations_syntax

text \<open>
  The settings of the AD9361 that depend on the clock rates: gain control timing, signal
  strength measurement, auxiliary ADC; and the handler that renews them when the baseband
  clock changes. \<open>None\<close> is a division by zero or a write outside an array. The rates come
  from the clock framework \<open>fw\<close>.
\<close>

subsection \<open>Gain control\<close>

text \<open>\<^verbatim>\<open>clamp_t(u8, x, lo, hi)\<close>: the value is cut to a byte before it is compared.\<close>

definition clamp_u8 :: "u32 \<Rightarrow> u32 \<Rightarrow> u32 \<Rightarrow> u32" where
  "clamp_u8 x lo hi = min (max (ucast (ucast x :: u8)) lo) hi"

text \<open>Attack delay, peak overload wait time and settling delay.\<close>

definition gc_delays :: "gain_control \<Rightarrow> u32 \<Rightarrow> ulong \<Rightarrow> (u32 \<times> u32 \<times> u32) option" where
  "gc_delays gc delay_lna clkrf =
     (if clkrf div 500 = 0 then None
      else let attack = (200 + delay_lna) div 2 + 14000000 div (clkrf div 500);
               attack = div_round_up attack 1000 + ucast (gc_agc_attack_delay_extra_margin_us gc);
               peak = div_round_up ((delay_lna + 100) * (clkrf div 1000)) 1000000 + 1;
               settling = div_round_up ((delay_lna + 200) * (clkrf div 2000)) 1000000 + 7
           in Some (clamp_u8 attack 0 31, clamp_u8 peak 0 31, clamp_u8 settling 0 31))"

definition gc_update_counter :: "gain_control \<Rightarrow> ulong \<Rightarrow> u32 \<Rightarrow> u32" where
  "gc_update_counter gc clkrf settling =
     min (div_closest (gc_gain_update_interval_us gc * (clkrf div 1000) - settling * 2000 - 2000) 2000) 131071"

text \<open>The duration of the power measurement; \<open>sampl\<close> is the rate of the sample clock.\<close>

definition gc_power_duration :: "'c ad9361 \<Rightarrow> ulong \<Rightarrow> ulong \<Rightarrow> u32 \<Rightarrow> u32 option" where
  "gc_power_duration s clkrf sampl reg =
     (let gc = pd_gain_ctrl s in
      if st_agc_mode0 s = RF_GAIN_FASTATTACK_AGC \<or> st_agc_mode1 s = RF_GAIN_FASTATTACK_AGC
      then Some (gc_f_agc_dec_pow_measuremnt_duration gc)
      else do {
        fir_div \<leftarrow> div_round_closest clkrf sampl;
        let dur = (ucast (gc_dec_pow_measuremnt_duration gc) :: u32);
        if fir_div = 0 \<or> dur = 0 then None
        else Some (if (reg * 2 div fir_div) div dur < 2 then reg div fir_div else dur)
      })"

definition gc_update :: "'c bus \<Rightarrow> 'c clk_framework \<Rightarrow> ('c ad9361, int option) state" where
  "gc_update bus fw = do {
     s \<leftarrow> get_phy;
     let clkrf = clk_get_rate fw CLKRF_CLK s;
     let gc = pd_gain_ctrl s;
     case gc_delays gc (el_settling_delay_ns (pd_elna_ctrl s)) clkrf of
       None \<Rightarrow> rtn None
     | Some (attack, peak, settling) \<Rightarrow> do {
         r1 \<leftarrow> spi_writef bus REG_AGC_ATTACK_DELAY (AGC_ATTACK_DELAY (- 1)) attack;
         r2 \<leftarrow> spi_writef bus REG_PEAK_WAIT_TIME (PEAK_OVERLOAD_WAIT_TIME (- 1)) peak;
         r3 \<leftarrow> spi_writef bus REG_FAST_CONFIG_2_SETTLING_DELAY (SETTLING_DELAY (- 1)) settling;
         let reg = gc_update_counter gc clkrf settling;
         s \<leftarrow> get_phy;
         case gc_power_duration s clkrf (clk_get_rate fw RX_SAMPL_CLK s) reg of
           None \<Rightarrow> rtn None
         | Some dur \<Rightarrow> do {
             _ \<leftarrow> spi_writef bus REG_DEC_POWER_MEASURE_DURATION_0 (DEC_POWER_MEASUREMENT_DURATION (- 1))
                    (word_of_int (ilog2 (dur div 16)));
             r4 \<leftarrow> spi_writef bus REG_DIGITAL_SAT_COUNTER DOUBLE_GAIN_COUNTER (if 65535 < reg then 1 else 0);
             let reg = (if 65535 < reg then reg div 2 else reg);
             r5 \<leftarrow> spi_write bus REG_GAIN_UPDATE_COUNTER1 (reg AND 0xFF);
             r6 \<leftarrow> spi_write bus REG_GAIN_UPDATE_COUNTER2 (drop_bit 8 reg);
             r7 \<leftarrow> spi_writef bus REG_FAST_ENERGY_DETECT_COUNT (ENERGY_DETECT_COUNT (- 1))
                    (min (div_closest (gc_f_agc_state_wait_time_ns gc * (clkrf div 1000)) 1000000) 31);
             rtn (Some (r1 OR r2 OR r3 OR r4 OR r5 OR r6 OR r7))
           }
       }
   }"

record rf_gain_ctrl =
  gctl_ant :: u32
  gctl_mode :: u8

definition gain_ctl_mode :: "u8 \<Rightarrow> u32 option" where
  "gain_ctl_mode m =
     (if m = RF_GAIN_MGC then Some RX_GAIN_CTL_MGC
      else if m = RF_GAIN_FASTATTACK_AGC then Some RX_GAIN_CTL_AGC_FAST_ATK
      else if m = RF_GAIN_SLOWATTACK_AGC then Some RX_GAIN_CTL_AGC_SLOW_ATK
      else if m = RF_GAIN_HYBRID_AGC then Some RX_GAIN_CTL_AGC_SLOW_ATK_HYBD
      else None)"

definition gain_ctl_shift :: "u32 \<Rightarrow> nat option" where
  "gain_ctl_shift ant =
     (if ant = 1 then Some (unat RX1_GAIN_CTRL_SHIFT) else if ant = 2 then Some (unat RX2_GAIN_CTRL_SHIFT) else None)"

definition gain_ctl_bits :: "u8 \<Rightarrow> u32 \<Rightarrow> nat \<Rightarrow> u8" where
  "gain_ctl_bits val mode shift =
     (let val = (val AND NOT (ucast (push_bit shift RX_GAIN_CTL_MASK))) OR ucast (push_bit shift mode)
      in if mode = RX_GAIN_CTL_AGC_SLOW_ATK_HYBD then val OR ucast SLOW_ATTACK_HYBRID_MODE
         else val AND NOT (ucast SLOW_ATTACK_HYBRID_MODE))"

definition set_gain_ctrl_mode :: "'c bus \<Rightarrow> 'c clk_framework \<Rightarrow> rf_gain_ctrl \<Rightarrow> ('c ad9361, int option) state" where
  "set_gain_ctrl_mode bus fw gctl = do {
     (rc, rx) \<leftarrow> spi_readm bus REG_AGC_CONFIG_1 1;
     if rc \<noteq> 0 then rtn (Some rc)
     else (case gain_ctl_mode (gctl_mode gctl) of
         None \<Rightarrow> rtn (Some (- 22))
       | Some mode \<Rightarrow> (case gain_ctl_shift (gctl_ant gctl) of
           None \<Rightarrow> rtn (Some (- 22))
         | Some shift \<Rightarrow> do {
             rc \<leftarrow> en_dis_rx bus (gctl_ant gctl) RX_DISABLE;
             if rc \<noteq> 0 then rtn (Some rc)
             else do {
               rc \<leftarrow> spi_write bus REG_AGC_CONFIG_1 (ucast (gain_ctl_bits (byte0 rx) mode shift));
               if rc \<noteq> 0 then rtn (Some rc)
               else do {
                 _ \<leftarrow> en_dis_rx bus (gctl_ant gctl) RX_ENABLE;
                 gc_update bus fw
               }
             }
           }))
   }"

subsection \<open>Signal strength\<close>

definition RSSI_RESOLUTION :: u32 where "RSSI_RESOLUTION = 25"

record rf_rssi =
  rssi_ant :: u32
  rssi_symbol :: u32
  rssi_preamble :: u32
  rssi_multiplier :: u32

definition read_rssi :: "'c bus \<Rightarrow> rf_rssi \<Rightarrow> ('c ad9361, int \<times> rf_rssi) state" where
  "read_rssi bus rssi = do {
     (rc, buf) \<leftarrow> spi_readm bus REG_PREAMBLE_LSB 6;
     let msb = (\<lambda>i. push_bit (unat RSSI_LSB_SHIFT) (ucast (buf ! i)) :: u32);
     let lsb = (\<lambda>i m. ucast (buf ! i) AND m :: u32);
     let (rc, rssi) =
       (if rssi_ant rssi = 1 then
          (rc, rssi\<lparr>rssi_symbol := RSSI_RESOLUTION * (msb 5 + lsb 1 RSSI_LSB_MASK1),
                    rssi_preamble := RSSI_RESOLUTION * (msb 4 + lsb 0 RSSI_LSB_MASK1)\<rparr>)
        else if rssi_ant rssi = 2 then
          (rc, rssi\<lparr>rssi_symbol := RSSI_RESOLUTION * (msb 3 + drop_bit 1 (lsb 1 RSSI_LSB_MASK2)),
                    rssi_preamble := RSSI_RESOLUTION * (msb 2 + drop_bit 1 (lsb 0 RSSI_LSB_MASK2))\<rparr>)
        else (- 14, rssi));
     rtn (rc, rssi\<lparr>rssi_multiplier := RSSI_MULTIPLIER\<rparr>)
   }"

text \<open>
  A measurement of \<open>d\<close> samples is put together from at most four powers of two, the largest
  first: \<open>rssi_bit 14 d\<close> is the largest exponent that fits.
\<close>

fun rssi_bit :: "nat \<Rightarrow> int \<Rightarrow> nat" where
  "rssi_bit 0 d = 0"
| "rssi_bit (Suc i) d = (if 2 ^ Suc i \<le> d then Suc i else rssi_bit i d)"

fun rssi_durations :: "nat \<Rightarrow> int \<Rightarrow> nat list \<times> int" where
  "rssi_durations 0 d = ([], d)"
| "rssi_durations (Suc k) d =
     (if 0 < d then let i = rssi_bit 14 d; (r, rest) = rssi_durations k (d - 2 ^ i) in (i # r, rest)
      else ([], d))"

text \<open>
  The weights of the parts; the last part's is corrected so that all sum up to 255. Without
  any part the correction is written in front of the array.
\<close>

definition rssi_raw_weights :: "nat list \<Rightarrow> u32 list" where
  "rssi_raw_weights ds =
     (let total_dur = sum_list (map (\<lambda>i. push_bit i 1) ds) :: u32
      in map (\<lambda>i. div_closest (RSSI_MAX_WEIGHT * push_bit i 1) total_dur) ds)"

definition rssi_weights :: "nat list \<Rightarrow> u32 list option" where
  "rssi_weights ds =
     (let w = rssi_raw_weights ds @ replicate (4 - List.length ds) 0;
          val = sum_list w - 0xFF; j = List.length ds
      in if j = 0 then None else Some (w[j - 1 := w ! (j - 1) - val]))"

text \<open>The exponent written for part \<open>i\<close>, 0 for the parts that are not used.\<close>

definition dur_word :: "nat list \<Rightarrow> nat \<Rightarrow> u32" where
  "dur_word ds i = (if i < List.length ds then of_nat (ds ! i) else 0)"

text \<open>Delay, wait time and duration in samples.\<close>

definition rssi_times :: "rssi_control \<Rightarrow> ulong \<Rightarrow> u32 \<times> u32 \<times> u32" where
  "rssi_times ctrl sampl =
     (if rc_rssi_unit_is_rx_samples ctrl then (rc_rssi_delay ctrl, rc_rssi_wait ctrl, rc_rssi_duration ctrl)
      else let rate = div_closest sampl 1000
           in (div_closest (rc_rssi_delay ctrl * rate) 1000, div_closest (rc_rssi_wait ctrl * rate) 1000,
               div_closest (rc_rssi_duration ctrl * rate) 1000))"

definition rssi_config :: "rssi_control \<Rightarrow> nat list \<Rightarrow> int \<Rightarrow> u32" where
  "rssi_config ctrl ds rest =
     RSSI_MODE_SELECT (rssi_mode_number (rc_restart_mode ctrl)) OR
     (if rc_restart_mode ctrl = SPI_WRITE_TO_REGISTER then START_RSSI_MEAS else 0) OR
     (if rest = 0 \<and> List.length ds = 1 then DEFAULT_RSSI_MEAS_MODE else 0)"

definition rssi_setup :: "'c bus \<Rightarrow> 'c clk_framework \<Rightarrow> rssi_control \<Rightarrow> bool \<Rightarrow> ('c ad9361, int option) state" where
  "rssi_setup bus fw ctrl is_update =
     (if rc_rssi_unit_is_rx_samples ctrl \<and> is_update then rtn (Some 0)
      else do {
        s \<leftarrow> get_phy;
        let (delay, wait, duration) = rssi_times ctrl (clk_get_rate fw RX_SAMPL_CLK s);
        let delay = (if rc_restart_mode ctrl = EN_AGC_PIN_IS_PULLED_HIGH then 0 else delay);
        let delay = min (delay div 8) 255;
        let wait = min (wait div 4) 255;
        let (ds, rest) = rssi_durations 4 (sint duration);
        case rssi_weights ds of
          None \<Rightarrow> rtn None
        | Some w \<Rightarrow> do {
            _ \<leftarrow> spi_write bus REG_MEASURE_DURATION_01 (push_bit 4 (dur_word ds 1) OR dur_word ds 0);
            _ \<leftarrow> spi_write bus REG_MEASURE_DURATION_23 (push_bit 4 (dur_word ds 3) OR dur_word ds 2);
            _ \<leftarrow> spi_write bus REG_RSSI_WEIGHT_0 (w ! 0);
            _ \<leftarrow> spi_write bus REG_RSSI_WEIGHT_1 (w ! 1);
            _ \<leftarrow> spi_write bus REG_RSSI_WEIGHT_2 (w ! 2);
            _ \<leftarrow> spi_write bus REG_RSSI_WEIGHT_3 (w ! 3);
            _ \<leftarrow> spi_write bus REG_RSSI_DELAY delay;
            _ \<leftarrow> spi_write bus REG_RSSI_WAIT_TIME wait;
            _ \<leftarrow> spi_write bus REG_RSSI_CONFIG (rssi_config ctrl ds rest);
            rtn (Some 0)
          }
      })"

subsection \<open>Auxiliary converters\<close>

definition auxadc_setup :: "'c bus \<Rightarrow> auxadc_control \<Rightarrow> ulong \<Rightarrow> ('c ad9361, int option) state" where
  "auxadc_setup bus ctrl bbpll_freq = do {
     let val = div_closest (aa_temp_time_inteval_ms ctrl * (bbpll_freq div 1000)) (push_bit 29 1);
     _ \<leftarrow> spi_write bus REG_TEMP_OFFSET (scast (aa_offset ctrl));
     _ \<leftarrow> spi_write bus REG_START_TEMP_READING 0;
     _ \<leftarrow> spi_write bus REG_TEMP_SENSE2 (MEASUREMENT_TIME_INTERVAL val OR
            (if aa_periodic_temp_measuremnt ctrl then TEMP_SENSE_PERIODIC_ENABLE else 0));
     _ \<leftarrow> spi_write bus REG_TEMP_SENSOR_CONFIG
            (TEMP_SENSOR_DECIMATION (word_of_int (ilog2 (aa_temp_sensor_decimation ctrl) - 8)));
     if aa_auxadc_clock_rate ctrl = 0 then rtn None
     else do {
       _ \<leftarrow> spi_write bus REG_AUXADC_CLOCK_DIVIDER (bbpll_freq div aa_auxadc_clock_rate ctrl);
       _ \<leftarrow> spi_write bus REG_AUXADC_CONFIG
              (AUX_ADC_DECIMATION (word_of_int (ilog2 (aa_auxadc_decimation ctrl) - 8)));
       rtn (Some 0)
     }
   }"

text \<open>\<^verbatim>\<open>DIV_ROUND_CLOSEST(val * 1000000, 1140)\<close> on signed values.\<close>

definition temp_millidegrees :: "u8 \<Rightarrow> int" where
  "temp_millidegrees b = (let v = sint b * 1000000 in if 0 < v then c_div (v + 570) 1140 else c_div (v - 570) 1140)"

definition get_temp :: "'c bus \<Rightarrow> ('c ad9361, int) state" where
  "get_temp bus = do {
     _ \<leftarrow> spi_writef bus REG_AUXADC_CONFIG AUXADC_POWER_DOWN 1;
     v \<leftarrow> spi_read bus REG_TEMPERATURE;
     _ \<leftarrow> spi_writef bus REG_AUXADC_CONFIG AUXADC_POWER_DOWN 0;
     rtn (temp_millidegrees (word_of_int v))
   }"

definition get_auxadc :: "'c bus \<Rightarrow> ('c ad9361, int) state" where
  "get_auxadc bus = do {
     _ \<leftarrow> spi_writef bus REG_AUXADC_CONFIG AUXADC_POWER_DOWN 1;
     (_, buf) \<leftarrow> spi_readm bus REG_AUXADC_LSB 2;
     _ \<leftarrow> spi_writef bus REG_AUXADC_CONFIG AUXADC_POWER_DOWN 0;
     rtn (sint (push_bit 4 (ucast (buf ! 1)) OR AUXADC_WORD_LSB (ucast (buf ! 0)) :: u32))
   }"

text \<open>\<open>dac\<close> is 1 or 2; the caller's value is in millivolts.\<close>

definition auxdac_word :: "u32 \<Rightarrow> u32 \<times> u32" where
  "auxdac_word mV =
     (let (val, tmp) = (if mV < 1888 then ((mV - 306) * 1000 div 1469, AUXDAC_1_VREF 0)
                        else ((mV - 1761) * 1000 div 1512, AUXDAC_1_VREF 3))
      in (min val 1023, tmp))"

definition auxdac_set :: "'c bus \<Rightarrow> u32 \<Rightarrow> u32 \<Rightarrow> ('c ad9361, int) state" where
  "auxdac_set bus dac val_mV = do {
     _ \<leftarrow> spi_writef bus REG_AUXDAC_ENABLE_CTRL (AUXDAC_MANUAL_BAR dac) (if val_mV \<noteq> 0 then 0 else 1);
     let val_mV = (if val_mV < 306 then 306 else val_mV);
     let (val, tmp) = auxdac_word val_mV;
     if dac = 1 then do {
       _ \<leftarrow> spi_write bus REG_AUXDAC_1_WORD (drop_bit 2 val);
       _ \<leftarrow> spi_write bus REG_AUXDAC_1_CONFIG (AUXDAC_1_WORD_LSB val OR tmp);
       _ \<leftarrow> upd_phy (\<lambda>s. s\<lparr>st_auxdac1_value := ucast val_mV\<rparr>);
       rtn 0
     }
     else if dac = 2 then do {
       _ \<leftarrow> spi_write bus REG_AUXDAC_2_WORD (drop_bit 2 val);
       _ \<leftarrow> spi_write bus REG_AUXDAC_2_CONFIG (AUXDAC_2_WORD_LSB val OR tmp);
       _ \<leftarrow> upd_phy (\<lambda>s. s\<lparr>st_auxdac2_value := ucast val_mV\<rparr>);
       rtn 0
     }
     else rtn (- 22)
   }"

definition auxdac_get :: "u32 \<Rightarrow> 'c ad9361 \<Rightarrow> int" where
  "auxdac_get dac s = (if dac = 1 then int (unat (st_auxdac1_value s))
     else if dac = 2 then int (unat (st_auxdac2_value s)) else - 22)"

definition auxdac_setup :: "'c bus \<Rightarrow> auxdac_control \<Rightarrow> ('c ad9361, int) state" where
  "auxdac_setup bus ctrl = do {
     _ \<leftarrow> auxdac_set bus 1 (ucast (dac_dac1_default_value ctrl));
     _ \<leftarrow> auxdac_set bus 2 (ucast (dac_dac2_default_value ctrl));
     let two = (\<lambda>b a. (if b then 2 else 0) OR (if a then 1 else 0) :: u32);
     let tmp = (ucast (NOT (AUXDAC_AUTO_TX_BAR (two (dac_dac2_in_tx_en ctrl) (dac_dac1_in_tx_en ctrl)) OR
                  AUXDAC_AUTO_RX_BAR (two (dac_dac2_in_rx_en ctrl) (dac_dac1_in_rx_en ctrl)) OR
                  AUXDAC_INIT_BAR (two (dac_dac2_in_alert_en ctrl) (dac_dac1_in_alert_en ctrl)))) :: u8);
     _ \<leftarrow> spi_writef bus REG_AUXDAC_ENABLE_CTRL
            (AUXDAC_AUTO_TX_BAR (- 1) OR AUXDAC_AUTO_RX_BAR (- 1) OR AUXDAC_INIT_BAR (- 1)) (ucast tmp);
     _ \<leftarrow> spi_writef bus REG_EXTERNAL_LNA_CTRL AUXDAC_MANUAL_SELECT (if dac_auxdac_manual_mode_en ctrl then 1 else 0);
     _ \<leftarrow> spi_write bus REG_AUXDAC1_RX_DELAY (ucast (dac_dac1_rx_delay_us ctrl));
     _ \<leftarrow> spi_write bus REG_AUXDAC1_TX_DELAY (ucast (dac_dac1_tx_delay_us ctrl));
     _ \<leftarrow> spi_write bus REG_AUXDAC2_RX_DELAY (ucast (dac_dac2_rx_delay_us ctrl));
     _ \<leftarrow> spi_write bus REG_AUXDAC2_TX_DELAY (ucast (dac_dac2_tx_delay_us ctrl));
     rtn 0
   }"

subsection \<open>After a change of the baseband clock\<close>

text \<open>
  \<^verbatim>\<open>ad9361_bb_clk_change_handler\<close>: gain control, signal strength, auxiliary ADC.
\<close>

definition bb_clk_change_handler :: "'c bus \<Rightarrow> 'c clk_framework \<Rightarrow> ('c ad9361, int option) state" where
  "bb_clk_change_handler bus fw = do {
     r1 \<leftarrow> gc_update bus fw;
     s \<leftarrow> get_phy;
     r2 \<leftarrow> if r1 = None then rtn None else rssi_setup bus fw (pd_rssi_ctrl s) True;
     s \<leftarrow> get_phy;
     r3 \<leftarrow> if r1 = None \<or> r2 = None then rtn None
           else auxadc_setup bus (pd_auxadc_ctrl s) (clk_get_rate fw BBPLL_CLK s);
     rtn (case (r1, r2, r3) of (Some a, Some b, Some c) \<Rightarrow> Some (a OR b OR c) | _ \<Rightarrow> None)
   }"

end
