(* ===== verification/Ad_Setup_Props.thy ===== *)
theory Ad_Setup_Props
  imports Ad_Setup
begin

unbundle bit_operations_syntax

text \<open>
  The weights of the signal strength measurement, and the corner cases of the timing values.
\<close>

subsection \<open>Durations\<close>

lemma rssi_bit_fits: "0 < d \<Longrightarrow> 2 ^ rssi_bit i d \<le> d \<and> rssi_bit i d \<le> i"
  by (induction i) auto

lemma rssi_durations_sum:
  "rssi_durations k d = (ds, rest) \<Longrightarrow>
    d = (\<Sum>i\<leftarrow>ds. 2 ^ i) + rest \<and> List.length ds \<le> k \<and> (\<forall>i \<in> set ds. i \<le> 14) \<and> (0 \<le> d \<longrightarrow> 0 \<le> rest) \<and>
    (0 < d \<and> 0 < k \<longrightarrow> ds \<noteq> [])"
proof (induction k d arbitrary: ds rest rule: rssi_durations.induct)
  case (2 k d)
  show ?case
  proof (cases "0 < d")
    case True
    obtain r t where r: "rssi_durations k (d - 2 ^ rssi_bit 14 d) = (r, t)"
      by (cases "rssi_durations k (d - 2 ^ rssi_bit 14 d)")
    have eq: "ds = rssi_bit 14 d # r" "rest = t" using "2.prems" True r by (simp_all add: Let_def)
    show ?thesis using "2.IH" [OF True refl r] rssi_bit_fits [OF True, of 14] unfolding eq by auto
  qed (use "2.prems" in auto)
qed simp

subsection \<open>Weights\<close>

lemma length_rssi_raw: "List.length (rssi_raw_weights ds) = List.length ds"
  by (simp add: rssi_raw_weights_def Let_def)

lemma sum_list_upd_word: "k < List.length xs \<Longrightarrow> sum_list (xs[k := x]) = sum_list xs + x - xs ! k" for x :: u32
  by (induction xs arbitrary: k) (auto simp: less_Suc_eq_0_disj)

text \<open>The weights always sum up to 255 as 32-bit values, and so do the bytes written.\<close>

lemma rssi_weights_sum:
  assumes "ds \<noteq> []" "List.length ds \<le> 4"
  obtains w where "rssi_weights ds = Some w" "List.length w = 4" "sum_list w = 0xFF"
proof -
  let ?w = "rssi_raw_weights ds @ replicate (4 - List.length ds) 0" and ?j = "List.length ds - 1"
  have len: "List.length ?w = 4" using assms by (simp add: length_rssi_raw)
  have j: "?j < List.length ?w" using assms by (cases ds) (simp_all add: length_rssi_raw)
  let ?v = "?w[?j := ?w ! ?j - (sum_list ?w - 0xFF)]"
  have "sum_list ?v = 0xFF" unfolding sum_list_upd_word [OF j] by simp
  moreover have "rssi_weights ds = Some ?v" using assms by (simp add: rssi_weights_def Let_def)
  moreover have "List.length ?v = 4" using len by simp
  ultimately show ?thesis using that by blast
qed

lemma ucast_sum_list: "(ucast (sum_list (w :: u32 list)) :: u8) = sum_list (map ucast w)"
proof (induction w)
  case (Cons a w)
  have "(ucast (a + b) :: u8) = ucast a + ucast b" for a b :: u32
    by (simp add: word_unat_eq_iff unsigned_ucast_eq take_bit_eq_mod unat_word_ariths mod_simps mod_mod_cancel)
  then show ?case using Cons by simp
qed simp

text \<open>The exponent of a part, as the chip's duration registers hold it.\<close>

definition rssi_part :: "regfile ad9361 \<Rightarrow> nat \<Rightarrow> nat" where
  "rssi_part s i = unat (drop_bit (4 * (i mod 2))
     (get_reg s (if i < 2 then REG_MEASURE_DURATION_01 else REG_MEASURE_DURATION_23)) AND 0xF)"

definition weight_reg :: "nat \<Rightarrow> u32" where
  "weight_reg i = [REG_RSSI_WEIGHT_0, REG_RSSI_WEIGHT_1, REG_RSSI_WEIGHT_2, REG_RSSI_WEIGHT_3] ! i"

lemma run_rssi_setup:
  assumes "\<not> (rc_rssi_unit_is_rx_samples ctrl \<and> upd)"
    and "rssi_times ctrl (clk_get_rate fw RX_SAMPL_CLK s) = (delay, wait, duration)"
    and "rssi_durations 4 (sint duration) = (ds, rest)" "rssi_weights ds = Some w"
  shows "\<exists>s'. run_state (rssi_setup chip_bus fw ctrl upd) s = (Some 0, s') \<and>
    get_reg s' REG_MEASURE_DURATION_01 = ucast (push_bit 4 (dur_word ds 1) OR dur_word ds 0) \<and>
    get_reg s' REG_MEASURE_DURATION_23 = ucast (push_bit 4 (dur_word ds 3) OR dur_word ds 2) \<and>
    get_reg s' REG_RSSI_WEIGHT_0 = ucast (w ! 0) \<and> get_reg s' REG_RSSI_WEIGHT_1 = ucast (w ! 1) \<and>
    get_reg s' REG_RSSI_WEIGHT_2 = ucast (w ! 2) \<and> get_reg s' REG_RSSI_WEIGHT_3 = ucast (w ! 3)"
  unfolding rssi_setup_def if_not_P [OF assms(1)]
  by (simp add: assms(2,3,4) run_spi_write Let_def ad_regs AD_ADDR_def set_reg_def)

text \<open>
  Setting up the signal strength measurement with a positive duration of \<open>d\<close> samples:
  the exponents in the chip's duration registers are those of at most four powers of two whose
  sum is \<open>d\<close> less a rest that is not negative, and the four weights add up to 255 as bytes. With
  a duration of 0 the weights are corrected in front of their array.
\<close>

theorem rssi_setup_weights:
  assumes upd: "\<not> (rc_rssi_unit_is_rx_samples ctrl \<and> upd)"
    and times: "rssi_times ctrl (clk_get_rate fw RX_SAMPL_CLK s) = (delay, wait, duration)"
  shows "(0 < sint duration \<longrightarrow> (\<exists>s' ds rest. run_state (rssi_setup chip_bus fw ctrl upd) s = (Some 0, s') \<and>
      rssi_durations 4 (sint duration) = (ds, rest) \<and> sint duration = (\<Sum>i\<leftarrow>ds. 2 ^ i) + rest \<and> 0 \<le> rest \<and>
      map (rssi_part s') [0, 1, 2, 3] = ds @ replicate (4 - List.length ds) 0 \<and>
      get_reg s' REG_RSSI_WEIGHT_0 + get_reg s' REG_RSSI_WEIGHT_1 + get_reg s' REG_RSSI_WEIGHT_2 +
        get_reg s' REG_RSSI_WEIGHT_3 = 0xFF)) \<and>
    (sint duration \<le> 0 \<longrightarrow> run_state (rssi_setup chip_bus fw ctrl upd) s = (None, s))"
proof (intro conjI impI)
  assume pos: "0 < sint duration"
  obtain ds rest where d: "rssi_durations 4 (sint duration) = (ds, rest)" by (cases "rssi_durations 4 (sint duration)")
  note ds = rssi_durations_sum [OF d]
  have ne: "ds \<noteq> []" and le: "List.length ds \<le> 4" using ds pos by simp_all
  obtain w where w: "rssi_weights ds = Some w" "List.length w = 4" "sum_list w = 0xFF"
    using rssi_weights_sum [OF ne le] by blast
  obtain s' where run: "run_state (rssi_setup chip_bus fw ctrl upd) s = (Some 0, s')"
    "get_reg s' REG_MEASURE_DURATION_01 = ucast (push_bit 4 (dur_word ds 1) OR dur_word ds 0)"
    "get_reg s' REG_MEASURE_DURATION_23 = ucast (push_bit 4 (dur_word ds 3) OR dur_word ds 2)"
    "get_reg s' REG_RSSI_WEIGHT_0 = ucast (w ! 0)" "get_reg s' REG_RSSI_WEIGHT_1 = ucast (w ! 1)"
    "get_reg s' REG_RSSI_WEIGHT_2 = ucast (w ! 2)" "get_reg s' REG_RSSI_WEIGHT_3 = ucast (w ! 3)"
    using run_rssi_setup [where fw = fw, OF upd times d w(1)] by blast
  have small: "unat (dur_word ds i) = (if i < List.length ds then ds ! i else 0)" "unat (dur_word ds i) < 2 ^ 4" for i
  proof -
    have "i < List.length ds \<Longrightarrow> ds ! i \<le> 14" using ds by simp
    then show "unat (dur_word ds i) = (if i < List.length ds then ds ! i else 0)" "unat (dur_word ds i) < 2 ^ 4"
      by (auto simp: dur_word_def unsigned_of_nat take_bit_eq_mod)
  qed
  note nib = nibbles [OF small(2) small(2)]
  have "rssi_part s' 0 = unat (dur_word ds 0)" "rssi_part s' 1 = unat (dur_word ds 1)"
    "rssi_part s' 2 = unat (dur_word ds 2)" "rssi_part s' 3 = unat (dur_word ds 3)"
    unfolding rssi_part_def by (simp_all add: run(2,3) nib)
  then have parts: "map (rssi_part s') [0, 1, 2, 3] = ds @ replicate (4 - List.length ds) 0"
    unfolding small(1) using ne le by (auto intro!: nth_equalityI simp: nth_append less_Suc_eq numeral_eq_Suc)
  obtain a b c e where w4: "w = [a, b, c, e]" using w(2) by (auto simp: numeral_eq_Suc length_Suc_conv)
  have "sum_list (map ucast w) = (0xFF :: u8)" using ucast_sum_list [of w] w(3) by simp
  then have sum: "(ucast (w ! 0) + ucast (w ! 1) + ucast (w ! 2) + ucast (w ! 3) :: u8) = 0xFF"
    unfolding w4 by (simp add: add.assoc)
  show "\<exists>s' ds rest. run_state (rssi_setup chip_bus fw ctrl upd) s = (Some 0, s') \<and>
      rssi_durations 4 (sint duration) = (ds, rest) \<and> sint duration = (\<Sum>i\<leftarrow>ds. 2 ^ i) + rest \<and> 0 \<le> rest \<and>
      map (rssi_part s') [0, 1, 2, 3] = ds @ replicate (4 - List.length ds) 0 \<and>
      get_reg s' REG_RSSI_WEIGHT_0 + get_reg s' REG_RSSI_WEIGHT_1 + get_reg s' REG_RSSI_WEIGHT_2 +
        get_reg s' REG_RSSI_WEIGHT_3 = 0xFF"
    using run d ds parts sum pos by (intro exI [of _ s'] exI [of _ ds] exI [of _ rest]) simp
next
  assume "sint duration \<le> 0"
  then have d: "rssi_durations 4 (sint duration) = ([], sint duration)" by (simp add: numeral_eq_Suc)
  show "run_state (rssi_setup chip_bus fw ctrl upd) s = (None, s)"
    using upd by (simp add: rssi_setup_def times d rssi_weights_def Let_def)
qed

definition rssi_w_ctrl :: rssi_control where
  "rssi_w_ctrl = rc_zero\<lparr>rc_rssi_duration := 1000\<rparr>"

theorem rssi_setup_weights_witness:
  "\<exists>s'. run_state (rssi_setup chip_bus (fixed_clk 1000000) rssi_w_ctrl True) ad_zero = (Some 0, s') \<and>
     map (rssi_part s') [0, 1, 2, 3] = [9, 8, 7, 6] \<and>
     get_reg s' REG_RSSI_WEIGHT_0 + get_reg s' REG_RSSI_WEIGHT_1 + get_reg s' REG_RSSI_WEIGHT_2 +
       get_reg s' REG_RSSI_WEIGHT_3 = 0xFF"
proof -
  have upd: "\<not> (rc_rssi_unit_is_rx_samples rssi_w_ctrl \<and> True)" by (simp add: rssi_w_ctrl_def rc_zero_def)
  have t: "rssi_times rssi_w_ctrl (clk_get_rate (fixed_clk 1000000) RX_SAMPL_CLK ad_zero) = (0, 0, 1000)"
    by (simp add: rssi_times_def rssi_w_ctrl_def rc_zero_def fixed_clk_def div_closest_def Let_def)
  have d: "rssi_durations 4 1000 = ([9, 8, 7, 6], 40)" by code_simp
  show ?thesis using rssi_setup_weights [OF upd t] d by fastforce
qed

text \<open>
  The correction of the last weight can go below 0: a measurement of 1289 samples gives its
  single last sample the weight 255 in the register.
\<close>

lemma rssi_weight_negative:
  "rssi_durations 4 1289 = ([10, 8, 3, 0], 0)" "rssi_weights [10, 8, 3, 0] = Some [203, 51, 2, - 1]"
  "(ucast (- 1 :: u32) :: u8) = - 1"
proof -
  show "rssi_durations 4 1289 = ([10, 8, 3, 0], 0)" by code_simp
  show "rssi_weights [10, 8, 3, 0] = Some [203, 51, 2, - 1]"
    by (simp add: rssi_weights_def rssi_raw_weights_def Let_def div_closest_def ad_regs)
  show "(ucast (- 1 :: u32) :: u8) = - 1" by (rule bit_word_eqI) (simp add: bit_simps)
qed

end
