(* ===== verification/Ad_Chain.thy ===== *)
theory Ad_Chain
  imports Ad_Setup
begin

unbundle bit_operations_syntax

text \<open>
  The clock chain of the AD9361: from a sample rate to the rates of the baseband PLL, the
  converters and the half-band filters of both directions, the check of such a chain, and
  programming it. A path is the list of its six rates in the order of the source's
  enumerations (\<^verbatim>\<open>BBPLL_FREQ\<close>, \<^verbatim>\<open>ADC_FREQ\<close>, ..., \<^verbatim>\<open>RX_SAMPL_FREQ\<close>). \<open>None\<close> is a division by zero.
\<close>

definition MAX_DAC_CLK :: ulong where "MAX_DAC_CLK = MAX_ADC_CLK div 2"

definition BBPLL_FREQ :: nat where "BBPLL_FREQ = 0"
definition ADC_FREQ :: nat where "ADC_FREQ = 1"
definition R2_FREQ :: nat where "R2_FREQ = 2"
definition RX_SAMPL_FREQ :: nat where "RX_SAMPL_FREQ = 5"

subsection \<open>Checking a chain\<close>

definition max_rx_rates :: "ulong list" where
  "max_rx_rates = [MAX_BBPLL_FREQ, MAX_ADC_CLK, MAX_RX_HB3, MAX_RX_HB2, MAX_RX_HB1, MAX_BASEBAND_RATE]"

definition max_tx_rates :: "ulong list" where
  "max_tx_rates = [MAX_BBPLL_FREQ, MAX_DAC_CLK, MAX_TX_HB3, MAX_TX_HB2, MAX_TX_HB1, MAX_BASEBAND_RATE]"

definition uses_lvds_mode :: "'c ad9361 \<Rightarrow> bool" where
  "uses_lvds_mode s \<longleftrightarrow> ucast (pd_pp_conf2 s) AND LVDS_MODE \<noteq> 0"

text \<open>The data clock is a C \<^verbatim>\<open>int\<close>; it is compared as an unsigned value.\<close>

definition data_clk :: "'c ad9361 \<Rightarrow> ulong list \<Rightarrow> u32" where
  "data_clk s rx = (if pd_rx2tx2 s then 4 else 2) div (if uses_lvds_mode s then 1 else 2) * rx ! RX_SAMPL_FREQ"

fun rates_ok :: "ulong list \<Rightarrow> ulong list \<Rightarrow> bool" where
  "rates_ok (r # rs) (m # ms) \<longleftrightarrow> r \<le> m \<and> rates_ok rs ms"
| "rates_ok _ _ \<longleftrightarrow> True"

text \<open>\<^verbatim>\<open>abs\<close> of a difference of unsigned values, as a signed value.\<close>

definition near_clk :: "ulong \<Rightarrow> u32 \<Rightarrow> bool" where
  "near_clk r clk \<longleftrightarrow> (let d = r - clk in sint (if sint d < 0 then - d else d) < 4)"

definition validate_trx_clock_chain :: "'c ad9361 \<Rightarrow> ulong list \<Rightarrow> ulong list \<Rightarrow> int" where
  "validate_trx_clock_chain s rx tx =
     (let clk = data_clk s rx in
      if \<not> uses_lvds_mode s \<and> MAX_BASEBAND_RATE < clk then - 22
      else if \<not> (rates_ok rx max_rx_rates \<and> rates_ok tx max_tx_rates) then - 22
      else if (\<exists>i \<in> set [1, 2, 3]. near_clk (rx ! ADC_FREQ div i) clk) then 0
      else if (\<exists>i \<in> set [1, 2, 3, 4]. near_clk (drop_bit i (rx ! R2_FREQ)) clk) then 0
      else - 22)"

subsection \<open>From a sample rate to a chain\<close>

definition clk_dividers :: "ulong list list" where
  "clk_dividers = [[12,3,2,2], [8,2,2,2], [6,3,1,2], [4,2,2,1], [3,3,1,1], [2,2,1,1], [1,1,1,1]]"

definition rx_intdec :: "'c ad9361 \<Rightarrow> u32" where
  "rx_intdec s = (if st_bypass_rx_fir s then 1 else ucast (st_rx_fir_dec s))"

definition tx_intdec :: "'c ad9361 \<Rightarrow> u32" where
  "tx_intdec s = (if st_bypass_tx_fir s then 1 else ucast (st_tx_fir_int s))"

text \<open>How the two converter rates relate: their quotient, negative when the DAC is faster.\<close>

definition rate_ratio :: "ulong \<Rightarrow> ulong \<Rightarrow> int option" where
  "rate_ratio adc dac =
     (if adc < dac then (if adc = 0 then None else Some (sint (- (dac div adc))))
      else if dac = 0 then None else Some (sint (adc div dac)))"

definition tx_index :: "nat \<Rightarrow> int \<Rightarrow> ulong \<Rightarrow> int \<times> ulong" where
  "tx_index i tmp adc =
     (if adc \<le> MAX_DAC_CLK then (int i - (if tmp = 1 then 0 else tmp), adc)
      else (if i = 4 \<and> 0 \<le> tmp then 7
            else int i + (if i = 5 \<and> 0 \<le> tmp then 1 else 2) - (if tmp = 1 then 0 else tmp), adc div 2))"

text \<open>The first row from \<open>i\<close> on whose ADC rate is in range; \<open>k\<close> rows are left.\<close>

fun clk_search :: "ulong \<Rightarrow> ulong \<Rightarrow> nat \<Rightarrow> nat \<Rightarrow> ulong \<times> ulong \<Rightarrow> (ulong \<times> ulong \<times> int \<times> int) option" where
  "clk_search clkrf clktf 0 i (adc, dac) = Some (adc, dac, - 1, - 1)"
| "clk_search clkrf clktf (Suc k) i _ =
     (let adc = clkrf * (clk_dividers ! i ! 0); dac = clktf * (clk_dividers ! i ! 0)
      in if adc \<le> MAX_ADC_CLK \<and> MIN_ADC_CLK \<le> adc
         then do {
           tmp \<leftarrow> rate_ratio adc dac;
           let (tx, dac') = tx_index i tmp adc;
           Some (adc, dac', int i, tx)
         }
         else clk_search clkrf clktf k (Suc i) (adc, dac))"

text \<open>The rate of the baseband PLL: the ADC rate times the largest divider that fits.\<close>

lemma half_less: "2 \<le> drop_bit (Suc 0) d \<Longrightarrow> unat (drop_bit (Suc 0) d) < unat (d :: u32)"
  by (simp add: unat_drop_bit_eq drop_bit_eq_div word_le_nat_alt unat_div)

function bbpll_target :: "ulong \<Rightarrow> u32 \<Rightarrow> u64" where
  "bbpll_target adc d =
     (let r = ucast adc * ucast d :: u64; d' = drop_bit 1 d
      in if ucast MAX_BBPLL_FREQ < r \<and> MIN_BBPLL_DIV \<le> d' then bbpll_target adc d' else r)"
  by auto
termination by (relation "measure (\<lambda>(_, d). unat d)") (auto simp: ad_regs intro: half_less)

declare bbpll_target.simps [simp del]

definition path_rates :: "u64 \<Rightarrow> ulong \<Rightarrow> ulong list \<Rightarrow> u32 \<Rightarrow> ulong list" where
  "path_rates bbpll adc d intdec =
     (let r2 = adc div d ! 1; r1 = r2 div d ! 2; clk = r1 div d ! 3
      in [ucast bbpll, adc, r2, r1, clk, clk div intdec])"

definition bad_index :: "int \<Rightarrow> bool" where
  "bad_index i \<longleftrightarrow> i < 0 \<or> 6 < i"

lemma gov_less: "\<not> 7 \<le> (g :: u32) \<Longrightarrow> 7 - unat (g + 1) < 7 - unat g"
proof -
  assume "\<not> 7 \<le> g"
  then have "unat g < 7" by (simp add: word_le_nat_alt)
  moreover from this have "unat (g + 1) = unat g + 1"
    by (subst unat_plus_lt) auto
  ultimately show ?thesis by simp
qed

function calculate_rf_clock_chain :: "'c ad9361 \<Rightarrow> ulong \<Rightarrow> u32 \<Rightarrow> (int + ulong list \<times> ulong list) option" where
  "calculate_rf_clock_chain s rate gov0 =
     (let slow = (gov0 = 1 \<and> rx_intdec s * rate * 8 < MIN_ADC_CLK);
          recursion = \<not> slow; gov = (if slow then 0 else gov0)
      in if MAX_BASEBAND_RATE < rate then Some (Inl (- 22))
         else (case clk_search (rate * rx_intdec s * (if st_rx_eq_2tx s then 2 else 1)) (rate * tx_intdec s)
                    (7 - unat gov) (unat gov) (0, 0) of
           None \<Rightarrow> None
         | Some (adc, dac, irx, itx) \<Rightarrow>
             if (bad_index itx \<or> bad_index irx) \<and> \<not> 7 \<le> gov \<and> recursion
             then calculate_rf_clock_chain s rate (gov + 1)
             else if bad_index itx \<or> bad_index irx then Some (Inl (- 22))
             else if rx_intdec s = 0 \<or> tx_intdec s = 0 then None
             else let bbpll = bbpll_target adc MAX_BBPLL_DIV
                  in Some (Inr (path_rates bbpll adc (clk_dividers ! nat irx) (rx_intdec s),
                                path_rates bbpll dac (clk_dividers ! nat itx) (tx_intdec s)))))"
  by pat_completeness auto
termination by (relation "measure (\<lambda>(_, _, g). 7 - unat g)") (auto simp: Let_def intro: gov_less split: if_splits)

declare calculate_rf_clock_chain.simps [simp del]

subsection \<open>Programming a chain\<close>

definition chain_clks :: "(ad9361_clocks \<times> ad9361_clocks \<times> nat) list" where
  "chain_clks = [(ADC_CLK, DAC_CLK, 1), (R2_CLK, T2_CLK, 2), (R1_CLK, T1_CLK, 3), (CLKRF_CLK, CLKTF_CLK, 4),
     (RX_SAMPL_CLK, TX_SAMPL_CLK, 5)]"

fun set_path_clks :: "'c clk_framework \<Rightarrow> ulong list \<Rightarrow> ulong list \<Rightarrow> (ad9361_clocks \<times> ad9361_clocks \<times> nat) list \<Rightarrow>
    ('c ad9361, int) state" where
  "set_path_clks fw rx tx [] = rtn 0"
| "set_path_clks fw rx tx ((i, j, n) # cs) = do {
     ret \<leftarrow> clk_set_rate fw i (rx ! n);
     if ret < 0 then rtn ret
     else do {
       _ \<leftarrow> upd_phy (\<lambda>s. s\<lparr>st_current_rx_path_clks := (st_current_rx_path_clks s)[n := rx ! n]\<rparr>);
       ret \<leftarrow> clk_set_rate fw j (tx ! n);
       if ret < 0 then rtn ret
       else do {
         _ \<leftarrow> upd_phy (\<lambda>s. s\<lparr>st_current_tx_path_clks := (st_current_tx_path_clks s)[n := tx ! n]\<rparr>);
         set_path_clks fw rx tx cs
       }
     }
   }"

text \<open>The flags of a tuning run.\<close>

definition BE_VERBOSE :: u32 where "BE_VERBOSE = 1"
definition BE_MOREVERBOSE :: u32 where "BE_MOREVERBOSE = 2"
definition DO_IDELAY :: u32 where "DO_IDELAY = 4"
definition DO_ODELAY :: u32 where "DO_ODELAY = 8"
definition SKIP_STORE_RESULT :: u32 where "SKIP_STORE_RESULT = 16"
definition RESTORE_DEFAULT :: u32 where "RESTORE_DEFAULT = 32"

text \<open>
  The filter bits that the clock framework does not write when no rate changes. \<open>tune\<close> is the
  tuning of the digital interface, which may program a chain in turn.
\<close>

definition enable_firs :: "'c bus \<Rightarrow> ('c ad9361, unit) state" where
  "enable_firs bus = do {
     s \<leftarrow> get_phy;
     _ \<leftarrow> if st_rx_fir_dec s = 1 \<or> st_bypass_rx_fir s
          then spi_writef bus REG_RX_ENABLE_FILTER_CTRL (RX_FIR_ENABLE_DECIMATION (- 1)) (if st_bypass_rx_fir s then 0 else 1)
          else rtn 0;
     _ \<leftarrow> if st_tx_fir_int s = 1 \<or> st_bypass_tx_fir s
          then spi_writef bus REG_TX_ENABLE_FILTER_CTRL (TX_FIR_ENABLE_INTERPOLATION (- 1)) (if st_bypass_tx_fir s then 0 else 1)
          else rtn 0;
     rtn ()
   }"

type_synonym 'c dig_tuner = "ulong \<Rightarrow> u32 \<Rightarrow> ('c ad9361, int option) state"

definition tune_after_chain :: "'c dig_tuner \<Rightarrow> ('c ad9361, int option) state" where
  "tune_after_chain tune = do {
     s \<leftarrow> get_phy;
     ret \<leftarrow> if \<not> pd_dig_interface_tune_fir_disable s \<and> \<not> (st_bypass_tx_fir s \<and> st_bypass_rx_fir s) \<and>
              \<not> pd_bb_clk_change_dig_tune_en s \<and> ph_conv s \<noteq> None
           then tune 0 SKIP_STORE_RESULT else rtn (Some 0);
     s \<leftarrow> get_phy;
     case ret of
       None \<Rightarrow> rtn None
     | Some r \<Rightarrow>
         if r < 0 then rtn (Some r)
         else if pd_bb_clk_change_dig_tune_en s \<and> ph_conv s \<noteq> None then tune 0 0 else rtn (Some r)
   }"

definition set_trx_clock_chain :: "'c bus \<Rightarrow> 'c clk_framework \<Rightarrow> 'c dig_tuner \<Rightarrow> ulong list \<Rightarrow> ulong list \<Rightarrow>
    ('c ad9361, int option) state" where
  "set_trx_clock_chain bus fw tune rx tx = do {
     s \<leftarrow> get_phy;
     let ret = validate_trx_clock_chain s rx tx;
     if ret < 0 then rtn (Some ret)
     else do {
       ret \<leftarrow> clk_set_rate fw BBPLL_CLK (rx ! BBPLL_FREQ);
       if ret < 0 then rtn (Some ret)
       else do {
         _ \<leftarrow> upd_phy (\<lambda>s. s\<lparr>st_current_rx_path_clks := (st_current_rx_path_clks s)[BBPLL_FREQ := rx ! BBPLL_FREQ]\<rparr>);
         ret \<leftarrow> set_path_clks fw rx tx chain_clks;
         if ret < 0 then rtn (Some ret)
         else do {
           _ \<leftarrow> enable_firs bus;
           ret \<leftarrow> tune_after_chain tune;
           case ret of
             None \<Rightarrow> rtn None
           | Some r \<Rightarrow> if r < 0 then rtn (Some r) else bb_clk_change_handler bus fw
         }
       }
     }
   }"

definition set_trx_clock_chain_default :: "'c bus \<Rightarrow> 'c clk_framework \<Rightarrow> 'c dig_tuner \<Rightarrow> ('c ad9361, int option) state" where
  "set_trx_clock_chain_default bus fw tune = do {
     s \<leftarrow> get_phy;
     set_trx_clock_chain bus fw tune (pd_rx_path_clks s) (pd_tx_path_clks s)
   }"

definition get_trx_clock_chain :: "'c clk_framework \<Rightarrow> 'c ad9361 \<Rightarrow> ulong list \<times> ulong list" where
  "get_trx_clock_chain fw s =
     (let bbpll = clk_get_rate fw BBPLL_CLK s
      in (bbpll # map (\<lambda>(i, _, _). clk_get_rate fw i s) chain_clks,
          bbpll # map (\<lambda>(_, j, _). clk_get_rate fw j s) chain_clks))"

definition set_trx_clock_chain_freq :: "'c bus \<Rightarrow> 'c clk_framework \<Rightarrow> 'c dig_tuner \<Rightarrow> ulong \<Rightarrow>
    ('c ad9361, int option) state" where
  "set_trx_clock_chain_freq bus fw tune freq = do {
     s \<leftarrow> get_phy;
     case calculate_rf_clock_chain s freq (st_rate_governor s) of
       None \<Rightarrow> rtn None
     | Some (Inl e) \<Rightarrow> rtn (Some e)
     | Some (Inr (rx, tx)) \<Rightarrow> set_trx_clock_chain bus fw tune rx tx
   }"

end
