(* ===== verification/Ad_Chain_Props.thy ===== *)
theory Ad_Chain_Props
  imports Ad_Chain
begin

unbundle bit_operations_syntax

text \<open>
  Which row of the divider table the calculation takes, and that a chain that also passes the
  check has the requested sample rates and converter and PLL rates within their limits.
\<close>

subsection \<open>The row that is taken\<close>

definition adc_in_range :: "ulong \<Rightarrow> bool" where
  "adc_in_range r \<longleftrightarrow> r \<le> MAX_ADC_CLK \<and> MIN_ADC_CLK \<le> r"

definition row_adc :: "ulong \<Rightarrow> nat \<Rightarrow> ulong" where
  "row_adc clk j = clk * (clk_dividers ! j ! 0)"

text \<open>Row \<open>j\<close> is usable with transmit row \<open>itx\<close> and DAC rate \<open>dac\<close>.\<close>

definition usable :: "ulong \<Rightarrow> ulong \<Rightarrow> nat \<Rightarrow> int \<Rightarrow> ulong \<Rightarrow> bool" where
  "usable clkrf clktf j itx dac \<longleftrightarrow> adc_in_range (row_adc clkrf j) \<and> \<not> bad_index itx \<and>
     (\<exists>tmp. rate_ratio (row_adc clkrf j) (row_adc clktf j) = Some tmp \<and> (itx, dac) = tx_index j tmp (row_adc clkrf j))"

lemma clk_search_first:
  assumes "clk_search clkrf clktf k i a = Some (adc, dac, irx, itx)"
  shows "(irx = - 1 \<and> itx = - 1 \<and> (\<forall>j. i \<le> j \<and> j < i + k \<longrightarrow> \<not> adc_in_range (row_adc clkrf j))) \<or>
    (\<exists>j tmp. irx = int j \<and> i \<le> j \<and> j < i + k \<and> adc_in_range (row_adc clkrf j) \<and> adc = row_adc clkrf j \<and>
       (\<forall>j'. i \<le> j' \<and> j' < j \<longrightarrow> \<not> adc_in_range (row_adc clkrf j')) \<and>
       rate_ratio (row_adc clkrf j) (row_adc clktf j) = Some tmp \<and> (itx, dac) = tx_index j tmp (row_adc clkrf j))"
  using assms
proof (induction clkrf clktf k i a rule: clk_search.induct)
  case (1 clkrf clktf i adc' dac')
  then show ?case by auto
next
  case (2 clkrf clktf k i a)
  show ?case
  proof (cases "adc_in_range (row_adc clkrf i)")
    case True
    then have b: "Option.bind (rate_ratio (row_adc clkrf i) (row_adc clktf i))
        (\<lambda>tmp. let (x, d) = tx_index i tmp (row_adc clkrf i) in Some (row_adc clkrf i, d, int i, x)) = Some (adc, dac, irx, itx)"
      using "2.prems" by (simp only: clk_search.simps Let_def adc_in_range_def row_adc_def if_True simp_thms)
    obtain tmp where r: "rate_ratio (row_adc clkrf i) (row_adc clktf i) = Some tmp"
      using b by (cases "rate_ratio (row_adc clkrf i) (row_adc clktf i)") simp_all
    obtain x d where t: "tx_index i tmp (row_adc clkrf i) = (x, d)" by (cases "tx_index i tmp (row_adc clkrf i)")
    have "irx = int i" "adc = row_adc clkrf i" "x = itx" "d = dac" using b unfolding r by (simp_all add: t)
    then show ?thesis using True r t by (intro disjI2 exI [of _ i] exI [of _ tmp]) auto
  next
    case False
    have step: "clk_search clkrf clktf k (Suc i) (row_adc clkrf i, row_adc clktf i) = Some (adc, dac, irx, itx)"
      using "2.prems" False by (auto simp: Let_def adc_in_range_def row_adc_def)
    have out: "\<not> (row_adc clkrf i \<le> MAX_ADC_CLK \<and> MIN_ADC_CLK \<le> row_adc clkrf i)"
      using False by (simp add: adc_in_range_def)
    note IH = "2.IH" [OF refl refl out [unfolded row_adc_def] step [unfolded row_adc_def]]
    have before: "\<And>m. (\<forall>j'. Suc i \<le> j' \<and> j' < m \<longrightarrow> \<not> adc_in_range (row_adc clkrf j')) \<Longrightarrow>
        (\<forall>j'. i \<le> j' \<and> j' < m \<longrightarrow> \<not> adc_in_range (row_adc clkrf j'))"
      using False by (metis Suc_leI le_neq_implies_less)
    show ?thesis
      using IH
    proof (elim disjE exE conjE)
      assume "irx = - 1" "itx = - 1" "\<forall>j. Suc i \<le> j \<and> j < Suc i + k \<longrightarrow> \<not> adc_in_range (row_adc clkrf j)"
      then show ?thesis using before [of "i + Suc k"] by simp
    next
      fix j tmp
      assume j: "irx = int j" "Suc i \<le> j" "j < Suc i + k" "adc_in_range (row_adc clkrf j)" "adc = row_adc clkrf j"
        "\<forall>j'. Suc i \<le> j' \<and> j' < j \<longrightarrow> \<not> adc_in_range (row_adc clkrf j')"
        "rate_ratio (row_adc clkrf j) (row_adc clktf j) = Some tmp" "(itx, dac) = tx_index j tmp (row_adc clkrf j)"
      then show ?thesis using before [OF j(6)] by (intro disjI2 exI [of _ j] exI [of _ tmp]) simp
    qed
  qed
qed

text \<open>The calculation takes the first usable row from the governor's on.\<close>

definition chain_rf :: "'c ad9361 \<Rightarrow> ulong \<Rightarrow> ulong" where
  "chain_rf s rate = rate * rx_intdec s * (if st_rx_eq_2tx s then 2 else 1)"

definition chain_tf :: "'c ad9361 \<Rightarrow> ulong \<Rightarrow> ulong" where
  "chain_tf s rate = rate * tx_intdec s"

definition chosen :: "'c ad9361 \<Rightarrow> ulong \<Rightarrow> nat \<Rightarrow> ulong list \<times> ulong list \<Rightarrow> nat \<Rightarrow> nat \<Rightarrow> ulong \<Rightarrow> bool" where
  "chosen s rate g paths j itx dac \<longleftrightarrow>
     usable (chain_rf s rate) (chain_tf s rate) j (int itx) dac \<and> g \<le> j \<and> j < 7 \<and>
     (\<forall>j'. g \<le> j' \<and> j' < j \<longrightarrow> (\<forall>x d. \<not> usable (chain_rf s rate) (chain_tf s rate) j' x d)) \<and>
     paths = (path_rates (bbpll_target (row_adc (chain_rf s rate) j) MAX_BBPLL_DIV) (row_adc (chain_rf s rate) j)
                (clk_dividers ! j) (rx_intdec s),
              path_rates (bbpll_target (row_adc (chain_rf s rate) j) MAX_BBPLL_DIV) dac (clk_dividers ! itx) (tx_intdec s))"

lemma usable_unique:
  assumes "usable rf tf j x d" "rate_ratio (row_adc rf j) (row_adc tf j) = Some tmp" "(itx, dac) = tx_index j tmp (row_adc rf j)"
  shows "\<not> bad_index itx"
  using assms unfolding usable_def by (metis option.inject prod.inject)

lemma search_chosen:
  assumes "clk_search (chain_rf s rate) (chain_tf s rate) (7 - g) g a = Some (adc, dac, irx, itx)"
    and "\<not> bad_index irx" "\<not> bad_index itx"
    and "paths = (path_rates (bbpll_target adc MAX_BBPLL_DIV) adc (clk_dividers ! nat irx) (rx_intdec s),
                  path_rates (bbpll_target adc MAX_BBPLL_DIV) dac (clk_dividers ! nat itx) (tx_intdec s))"
  shows "chosen s rate g paths (nat irx) (nat itx) dac"
proof -
  obtain j tmp where j: "irx = int j" "g \<le> j" "j < g + (7 - g)" "adc_in_range (row_adc (chain_rf s rate) j)"
    "adc = row_adc (chain_rf s rate) j"
    "\<forall>j'. g \<le> j' \<and> j' < j \<longrightarrow> \<not> adc_in_range (row_adc (chain_rf s rate) j')"
    "rate_ratio (row_adc (chain_rf s rate) j) (row_adc (chain_tf s rate) j) = Some tmp"
    "(itx, dac) = tx_index j tmp (row_adc (chain_rf s rate) j)"
    using clk_search_first [OF assms(1)] assms(2) unfolding bad_index_def by fastforce
  have "int (nat itx) = itx" using assms(3) by (simp add: bad_index_def)
  moreover have "j < 7" using assms(2) j(1) by (simp add: bad_index_def)
  ultimately show ?thesis
    using j assms(3,4) by (auto simp: chosen_def usable_def)
qed

lemma search_skips:
  assumes "clk_search rf tf (7 - g) g a = Some (adc, dac, irx, itx)" "bad_index itx \<or> bad_index irx" "g < 7"
  shows "\<not> usable rf tf g x d"
proof
  assume u: "usable rf tf g x d"
  then have win: "adc_in_range (row_adc rf g)" by (simp add: usable_def)
  have "\<not> (\<forall>j. g \<le> j \<and> j < g + (7 - g) \<longrightarrow> \<not> adc_in_range (row_adc rf j))" using win \<open>g < 7\<close> by auto
  then obtain j tmp where j: "irx = int j" "g \<le> j" "j < 7"
    "\<forall>j'. g \<le> j' \<and> j' < j \<longrightarrow> \<not> adc_in_range (row_adc rf j')"
    "rate_ratio (row_adc rf j) (row_adc tf j) = Some tmp" "(itx, dac) = tx_index j tmp (row_adc rf j)"
    using clk_search_first [OF assms(1)] \<open>g < 7\<close> by auto
  have "j = g" using j(2,4) win by (metis le_neq_implies_less order_refl)
  then have "\<not> bad_index itx" using usable_unique [OF u] j(5,6) by blast
  moreover have "\<not> bad_index irx" using j(1,3) by (simp add: bad_index_def)
  ultimately show False using assms(2) by blast
qed

lemma calculate_chooses:
  assumes "calculate_rf_clock_chain s rate g = Some (Inr paths)"
  shows "rate \<le> MAX_BASEBAND_RATE \<and> rx_intdec s \<noteq> 0 \<and> tx_intdec s \<noteq> 0 \<and>
    (\<exists>g' j itx dac. (g' = unat g \<or> g' = 0) \<and> chosen s rate g' paths j itx dac)"
  using assms
proof (induction s rate g rule: calculate_rf_clock_chain.induct)
  case (1 s rate g)
  define slow where "slow \<longleftrightarrow> g = 1 \<and> rx_intdec s * rate * 8 < MIN_ADC_CLK"
  define gov where "gov = (if slow then 0 else g)"
  have g': "unat gov = unat g \<or> unat gov = 0" by (simp add: gov_def)
  have fits: "\<not> MAX_BASEBAND_RATE < rate"
    using "1.prems" by (auto simp: calculate_rf_clock_chain.simps [of s rate g] Let_def split: if_splits)
  obtain adc dac irx itx where search:
      "clk_search (chain_rf s rate) (chain_tf s rate) (7 - unat gov) (unat gov) (0, 0) = Some (adc, dac, irx, itx)"
    using "1.prems" fits unfolding calculate_rf_clock_chain.simps [of s rate g] chain_rf_def chain_tf_def gov_def slow_def Let_def
    by (fastforce split: option.splits)
  note unfolded = calculate_rf_clock_chain.simps [of s rate g, folded slow_def, unfolded Let_def, folded gov_def,
      folded chain_rf_def chain_tf_def, unfolded search if_not_P [OF fits] option.case prod.case]
  show ?case
  proof (cases "(bad_index itx \<or> bad_index irx) \<and> \<not> 7 \<le> gov \<and> \<not> slow")
    case True
    then have next_step: "calculate_rf_clock_chain s rate (gov + 1) = Some (Inr paths)"
      using "1.prems" unfolding unfolded by simp
    have eq: "gov = g" using True by (simp add: gov_def)
    have small: "unat g < 7" using True eq by (simp add: word_le_nat_alt)
    have succ: "unat (gov + 1) = unat g + 1" using small by (simp add: eq) (subst unat_plus_lt, auto)
    have IH: "rate \<le> MAX_BASEBAND_RATE \<and> rx_intdec s \<noteq> 0 \<and> tx_intdec s \<noteq> 0 \<and>
      (\<exists>g' j itx dac. (g' = unat (gov + 1) \<or> g' = 0) \<and> chosen s rate g' paths j itx dac)"
      using "1.IH" [OF refl refl refl fits search [unfolded chain_rf_def chain_tf_def gov_def slow_def] refl refl refl]
        True next_step unfolding gov_def slow_def by blast
    then obtain g' j x d where c: "g' = unat g + 1 \<or> g' = 0" "chosen s rate g' paths j x d"
      unfolding succ by blast
    have "\<exists>g''. (g'' = unat g \<or> g'' = 0) \<and> chosen s rate g'' paths j x d"
    proof (cases "g' = 0")
      case False
      have "\<not> usable (chain_rf s rate) (chain_tf s rate) (unat g) y e" for y e
        using search_skips [OF search [unfolded eq]] True small by blast
      then have "chosen s rate (unat g) paths j x d"
        using c False unfolding chosen_def by (metis Suc_eq_plus1 Suc_leI Suc_le_lessD le_neq_implies_less less_imp_le_nat)
      then show ?thesis by blast
    qed (use c in blast)
    then show ?thesis using IH by blast
  next
    case False
    then have ok: "\<not> bad_index irx" "\<not> bad_index itx" "rx_intdec s \<noteq> 0" "tx_intdec s \<noteq> 0"
      and p: "paths = (path_rates (bbpll_target adc MAX_BBPLL_DIV) adc (clk_dividers ! nat irx) (rx_intdec s),
                  path_rates (bbpll_target adc MAX_BBPLL_DIV) dac (clk_dividers ! nat itx) (tx_intdec s))"
      using "1.prems" unfolding unfolded by (auto split: if_splits)
    show ?thesis using search_chosen [OF search ok(1,2) p] ok(3,4) fits g' by (auto simp: not_less)
  qed
qed

subsection \<open>Rates as numbers\<close>

definition row_div :: "nat \<Rightarrow> nat" where
  "row_div j = [12, 8, 6, 4, 3, 2, 1] ! j"

lemma row_cases:
  fixes j :: nat
  assumes "j < 7"
  obtains "j = 0" | "j = 1" | "j = 2" | "j = 3" | "j = 4" | "j = 5" | "j = 6"
  using assms by linarith

lemma row_divs:
  assumes "j < 7"
  shows "unat (clk_dividers ! j ! 0) = row_div j" "0 < row_div j" "row_div j \<le> 12"
    "unat (clk_dividers ! j ! 1) * unat (clk_dividers ! j ! 2) * unat (clk_dividers ! j ! 3) = row_div j"
  by (rule row_cases [OF assms]; simp add: clk_dividers_def row_div_def)+

lemma unat_path_rates:
  assumes "j < 7"
  shows "unat (path_rates b r (clk_dividers ! j) k ! 4) = unat r div row_div j"
    "unat (path_rates b r (clk_dividers ! j) k ! 5) = unat r div (row_div j * unat k)"
    "path_rates b r (clk_dividers ! j) k ! 0 = ucast b" "path_rates b r (clk_dividers ! j) k ! 1 = r"
    "List.length (path_rates b r (clk_dividers ! j) k) = 6"
  using row_divs(4) [OF assms] by (simp_all add: path_rates_def Let_def unat_div div_mult2_eq [symmetric] mult.assoc)

definition ratio :: "nat \<Rightarrow> nat \<Rightarrow> int" where
  "ratio kr kt = (if kr < kt then - int (kt div kr) else int (kr div kt))"

lemma rate_ratio_value:
  assumes "unat adc = R * kr * d" "unat dac = R * kt * d" "0 < R" "0 < d"
    and k: "kr \<in> {1, 2, 4, 8}" "kt \<in> {1, 2, 4}"
  shows "rate_ratio adc dac = Some (ratio kr kt)"
proof -
  have pos: "0 < R * d" using assms by simp
  have q: "R * kt * d div (R * kr * d) = kt div kr" "R * kr * d div (R * kt * d) = kr div kt"
    using pos by (simp_all add: mult.assoc mult.left_commute [of _ d] mult.commute [of _ d])
  have w: "dac div adc = of_nat (kt div kr)" "adc div dac = of_nat (kr div kt)"
    by (rule word_eq_of_nat, simp add: unat_div assms(1,2) q)+
  have lt: "adc < dac \<longleftrightarrow> kr < kt" using assms(1-4) by (simp add: word_less_nat_alt)
  have nz: "dac \<noteq> 0" "adc \<noteq> 0" using assms by (auto simp: unat_eq_zero)
  show ?thesis using k lt nz unfolding rate_ratio_def w ratio_def by auto
qed

definition index_low :: "nat \<Rightarrow> int \<Rightarrow> int" where
  "index_low j t = int j - (if t = 1 then 0 else t)"

definition index_high :: "nat \<Rightarrow> int \<Rightarrow> int" where
  "index_high j t = (if j = 4 \<and> 0 \<le> t then 7 else int j + (if j = 5 \<and> 0 \<le> t then 1 else 2) - (if t = 1 then 0 else t))"

lemma tx_index_split:
  "tx_index j t adc = (if adc \<le> MAX_DAC_CLK then (index_low j t, adc) else (index_high j t, adc div 2))"
  by (simp add: tx_index_def index_low_def index_high_def)

text \<open>
  With a DAC as fast as the ADC the rows fit each other, or the row before is usable too. With
  a DAC at half the rate they fit, but for the rows that have too few dividers.
\<close>

lemma rows_low:
  assumes j: "j < 7" and k: "kr \<in> {1, 2, 4, 8}" "kt \<in> {1, 2, 4}" and x: "x < 7" "int x = index_low j (ratio kr kt)"
  shows "kr * row_div j = row_div x * kt \<or>
    (row_div j = 1 \<or> row_div x = 1) \<and> 2 \<le> j \<and> \<not> bad_index (index_low (j - 1) (ratio kr kt)) \<and>
    row_div j \<le> row_div (j - 1) \<and> row_div (j - 1) \<le> 2 * row_div j"
proof -
  have "x = nat (index_low j (ratio kr kt))" using x(2) by linarith
  then show ?thesis
    using k x by (cases rule: row_cases [OF j]) (auto simp: ratio_def row_div_def bad_index_def index_low_def)
qed

lemma rows_high:
  assumes j: "j < 7" and k: "kr \<in> {1, 2, 4, 8}" "kt \<in> {1, 2, 4}"
    and x: "x < 7" "int x = index_high j (ratio kr kt)" and "j \<le> 4" "x \<le> 5"
  shows "kr * row_div j = 2 * (row_div x * kt)"
proof -
  have "x = nat (index_high j (ratio kr kt))" using x(2) by linarith
  then show ?thesis
    using assms by (cases rule: row_cases [OF j]) (auto simp: ratio_def row_div_def index_high_def)
qed

subsection \<open>The PLL rate\<close>

lemma bbpll_target_steps:
  fixes adc :: ulong
  shows "bbpll_target adc 64 = (if 1430143000 < (ucast adc * 64 :: u64) then bbpll_target adc 32 else ucast adc * 64)"
    "bbpll_target adc 32 = (if 1430143000 < (ucast adc * 32 :: u64) then bbpll_target adc 16 else ucast adc * 32)"
    "bbpll_target adc 16 = (if 1430143000 < (ucast adc * 16 :: u64) then bbpll_target adc 8 else ucast adc * 16)"
    "bbpll_target adc 8 = (if 1430143000 < (ucast adc * 8 :: u64) then bbpll_target adc 4 else ucast adc * 8)"
    "bbpll_target adc 4 = (if 1430143000 < (ucast adc * 4 :: u64) then bbpll_target adc 2 else ucast adc * 4)"
    "bbpll_target adc 2 = ucast adc * 2"
  by (subst bbpll_target.simps, simp add: ad_regs Let_def word_le_nat_alt)+

lemma bbpll_target_range:
  assumes "adc_in_range adc"
  shows "714928500 \<le> unat (bbpll_target adc 64)" "unat (bbpll_target adc 64) \<le> 1430143000"
proof -
  have a: "25000000 \<le> unat adc" "unat adc \<le> 640000000"
    using assms by (simp_all add: adc_in_range_def ad_regs word_le_nat_alt)
  have m: "unat (ucast adc * n :: u64) = unat adc * unat n" if "unat n \<le> 64" for n
    using unat_times_lt [of "ucast adc :: u64" n] that unat_u32_lt [of adc]
      mult_le_mono [of "unat adc" "2 ^ 32" "unat n" 64] by (simp add: unat_ucast_u64)
  have lt: "1430143000 < (ucast adc * n :: u64) \<longleftrightarrow> 1430143000 < unat adc * unat n" if "unat n \<le> 64" for n
    using m [OF that] by (simp add: word_less_nat_alt)
  show "714928500 \<le> unat (bbpll_target adc 64)" "unat (bbpll_target adc 64) \<le> 1430143000"
    unfolding bbpll_target_steps using a by (simp_all add: m lt)
qed

subsection \<open>The chain\<close>

definition rx_factor :: "'c ad9361 \<Rightarrow> nat" where
  "rx_factor s = unat (rx_intdec s) * (if st_rx_eq_2tx s then 2 else 1)"

lemma row_adc_rx:
  assumes "unat rate * rx_factor s * 12 < 2 ^ 32" "j < 7"
  shows "unat (row_adc (chain_rf s rate) j) = unat rate * rx_factor s * row_div j"
proof -
  let ?q = "if st_rx_eq_2tx s then 2 else 1 :: u32"
  have q: "unat ?q = (if st_rx_eq_2tx s then 2 else 1)" by simp
  have b: "unat rate * rx_factor s * row_div j < 2 ^ 32"
    using assms(1) row_divs(3) [OF assms(2)] mult_le_mono2 [of "row_div j" 12 "unat rate * rx_factor s"] by linarith
  have c: "unat rate * rx_factor s \<le> unat rate * rx_factor s * row_div j" using row_divs(2) [OF assms(2)] by simp
  have "unat rate * unat (rx_intdec s) \<le> unat rate * rx_factor s" by (simp add: rx_factor_def)
  then have "unat rate * unat (rx_intdec s) < 2 ^ 32" using b c by linarith
  then have 1: "unat (rate * rx_intdec s) = unat rate * unat (rx_intdec s)" by (intro unat_times_lt) simp
  have "unat rate * rx_factor s < 2 ^ 32" using b c by linarith
  then have "unat (rate * rx_intdec s) * unat ?q < 2 ^ LENGTH(32)" unfolding 1 q by (simp add: rx_factor_def mult.assoc)
  from unat_times_lt [OF this] have 2: "unat (chain_rf s rate) = unat rate * rx_factor s"
    unfolding chain_rf_def rx_factor_def 1 q by (simp add: mult.assoc)
  show ?thesis unfolding row_adc_def using b by (subst unat_times_lt) (simp_all add: 2 row_divs(1) [OF assms(2)])
qed

lemma row_adc_tx:
  assumes "unat rate \<le> 61440000" "unat (tx_intdec s) \<le> 4" "j < 7"
  shows "unat (row_adc (chain_tf s rate) j) = unat rate * unat (tx_intdec s) * row_div j"
proof -
  have a: "unat rate * unat (tx_intdec s) \<le> 61440000 * 4" using assms by (intro mult_le_mono)
  have b: "unat rate * unat (tx_intdec s) * row_div j \<le> 61440000 * 4 * 12"
    using a row_divs(3) [OF assms(3)] by (rule mult_le_mono)
  have 1: "unat (chain_tf s rate) = unat rate * unat (tx_intdec s)"
    unfolding chain_tf_def using a by (intro unat_times_lt) simp
  show ?thesis unfolding row_adc_def using b by (subst unat_times_lt) (simp_all add: 1 row_divs(1) [OF assms(3)])
qed

lemma valid_rates:
  assumes "validate_trx_clock_chain s rx tx = 0" "List.length rx = 6" "List.length tx = 6"
  shows "unat (rx ! 4) \<le> 122880000" "unat (tx ! 4) \<le> 122880000" "unat (tx ! 1) \<le> 320000000"
proof -
  have ok: "rates_ok rx max_rx_rates" "rates_ok tx max_tx_rates"
    using assms(1) by (auto simp: validate_trx_clock_chain_def Let_def split: if_splits)
  obtain a b c d e f where rx: "rx = [a, b, c, d, e, f]" using assms(2) by (auto simp: eval_nat_numeral length_Suc_conv)
  obtain a' b' c' d' e' f' where tx: "tx = [a', b', c', d', e', f']" using assms(3) by (auto simp: eval_nat_numeral length_Suc_conv)
  show "unat (rx ! 4) \<le> 122880000" "unat (tx ! 4) \<le> 122880000" "unat (tx ! 1) \<le> 320000000"
    using ok unfolding rx tx by (simp_all add: max_rx_rates_def max_tx_rates_def MAX_DAC_CLK_def ad_regs word_le_nat_alt)
qed

text \<open>The rows fit when the chain passes the check.\<close>

lemma chosen_rows_fit:
  assumes c: "chosen s rate g (rx, tx) j x dac" and g: "g \<le> 1" and R: "unat rate \<le> 61440000"
    and kr: "rx_factor s \<in> {1, 2, 4, 8}" and kt: "unat (tx_intdec s) \<in> {1, 2, 4}"
    and fits: "unat rate * rx_factor s * 12 < 2 ^ 32"
    and lim: "unat (rx ! 4) \<le> 122880000" "unat (tx ! 4) \<le> 122880000"
  shows "j < 7 \<and> x < 7 \<and> 0 < unat rate \<and>
    (dac = row_adc (chain_rf s rate) j \<and> rx_factor s * row_div j = row_div x * unat (tx_intdec s) \<or>
     dac = row_adc (chain_rf s rate) j div 2 \<and> rx_factor s * row_div j = 2 * (row_div x * unat (tx_intdec s)))"
proof -
  let ?adc = "row_adc (chain_rf s rate)" let ?k = "rx_factor s" let ?t = "ratio ?k (unat (tx_intdec s))"
  have j: "j < 7" and u: "usable (chain_rf s rate) (chain_tf s rate) j (int x) dac"
    and first: "\<And>j' y d. g \<le> j' \<Longrightarrow> j' < j \<Longrightarrow> \<not> usable (chain_rf s rate) (chain_tf s rate) j' y d"
    using c by (auto simp: chosen_def)
  have x: "x < 7" using u by (simp add: usable_def bad_index_def)
  have adc: "unat (?adc i) = unat rate * ?k * row_div i" if "i < 7" for i using row_adc_rx [OF fits that] .
  have t4: "unat (tx_intdec s) \<le> 4" using kt by auto
  have tf: "unat (row_adc (chain_tf s rate) i) = unat rate * unat (tx_intdec s) * row_div i" if "i < 7" for i
    using row_adc_tx [OF R t4 that] .
  have range: "25000000 \<le> unat (?adc j)" "unat (?adc j) \<le> 640000000"
    using u by (simp_all add: usable_def adc_in_range_def ad_regs word_le_nat_alt)
  have pos: "0 < unat rate" using range(1) adc [OF j] by (cases "unat rate = 0") simp_all
  have rr: "rate_ratio (?adc i) (row_adc (chain_tf s rate) i) = Some ?t" if "i < 7" for i
    using rate_ratio_value [OF adc [OF that] tf [OF that] pos row_divs(2) [OF that] kr kt] .
  have idx: "(int x, dac) = tx_index j ?t (?adc j)" using u rr [OF j] by (auto simp: usable_def)
  have rx4: "rx ! 4 = path_rates (bbpll_target (?adc j) MAX_BBPLL_DIV) (?adc j) (clk_dividers ! j) (rx_intdec s) ! 4"
    and tx4: "tx ! 4 = path_rates (bbpll_target (?adc j) MAX_BBPLL_DIV) dac (clk_dividers ! x) (tx_intdec s) ! 4"
    using c by (auto simp: chosen_def)
  have rk: "unat rate * ?k \<le> 122880000"
    using lim(1) row_divs(2) [OF j] unfolding rx4 unat_path_rates [OF j] adc [OF j] by simp
  have dk: "unat dac div row_div x \<le> 122880000" using lim(2) unfolding tx4 unat_path_rates [OF x] .
  have dacs: "MAX_DAC_CLK = 320000000" by (simp add: MAX_DAC_CLK_def ad_regs)
  show ?thesis
  proof (cases "?adc j \<le> MAX_DAC_CLK")
    case True
    then have low: "int x = index_low j ?t" "dac = ?adc j" using idx by (simp_all add: tx_index_split)
    consider "?k * row_div j = row_div x * unat (tx_intdec s)"
      | "row_div j = 1 \<or> row_div x = 1" "2 \<le> j" "\<not> bad_index (index_low (j - 1) ?t)"
        "row_div j \<le> row_div (j - 1)" "row_div (j - 1) \<le> 2 * row_div j"
      using rows_low [OF j kr kt x low(1)] by blast
    then show ?thesis
    proof cases
      case 1
      then show ?thesis using j x pos low(2) by blast
    next
      case 2
      have "unat (?adc j) \<le> 122880000" using 2(1) rk dk unfolding low(2) by (auto simp: adc [OF j])
      moreover have "unat rate * ?k * row_div j \<le> unat rate * ?k * row_div (j - 1)" using 2(4) by simp
      moreover have "unat rate * ?k * row_div (j - 1) \<le> unat rate * ?k * (2 * row_div j)" using 2(5) by (intro mult_le_mono2)
      ultimately have before: "25000000 \<le> unat (?adc (j - 1))" "unat (?adc (j - 1)) \<le> 245760000"
        using range(1) adc [of "j - 1"] j unfolding adc [OF j] by linarith+
      have "usable (chain_rf s rate) (chain_tf s rate) (j - 1) (index_low (j - 1) ?t) (?adc (j - 1))"
        unfolding usable_def using before rr [of "j - 1"] 2(3) j
        by (auto simp: adc_in_range_def ad_regs word_le_nat_alt tx_index_split dacs)
      then show ?thesis using first [of "j - 1"] g 2(2) by auto
    qed
  next
    case False
    then have high: "int x = index_high j ?t" "dac = ?adc j div 2" and big: "320000000 < unat (?adc j)"
      using idx by (simp_all add: tx_index_split dacs word_le_nat_alt)
    have "3 \<le> row_div j"
    proof (rule ccontr)
      assume "\<not> 3 \<le> row_div j"
      then have "unat rate * ?k * row_div j \<le> unat rate * ?k * 2" by simp
      then show False using rk big unfolding adc [OF j] by linarith
    qed
    then have j4: "j \<le> 4" by (cases rule: row_cases [OF j]) (simp_all add: row_div_def)
    have "unat dac = unat (?adc j) div 2" by (simp add: high(2) unat_div)
    then have "x \<noteq> 6" using dk big by (auto simp: row_div_def)
    then have "?k * row_div j = 2 * (row_div x * unat (tx_intdec s))"
      using rows_high [OF j kr kt x high(1) j4] x by simp
    then show ?thesis using j x pos high(2) by blast
  qed
qed

lemma rx_factor_cases:
  assumes "rx_intdec s \<in> {1, 2, 4}" "unat rate \<le> 61440000"
    and "st_rx_eq_2tx s \<Longrightarrow> rx_intdec s = 4 \<Longrightarrow> unat rate \<le> 44739242"
  shows "rx_factor s \<in> {1, 2, 4, 8}" "unat rate * rx_factor s * 12 < 2 ^ 32"
  using assms by (auto simp: rx_factor_def)

text \<open>
  C28. A clock chain that the calculation returns and the check accepts ends in the requested
  sample rate in both directions (twice the rate on the receive side when the port is set up
  that way), with the ADC between 25 and 640 MHz, the DAC at the rate of the ADC or half of it
  and at most 320 MHz, and the baseband PLL between 715 and 1430 MHz (with the 100 ppm of
  the limits). The governor is 0 or 1, as its attribute sets it, and the filters divide by 1,
  2 or 4. The condition on the rate excludes the wrap-around of \<open>clock_chain_wraps\<close>.
\<close>

theorem clock_chain_exact:
  assumes calc: "calculate_rf_clock_chain s rate gov = Some (Inr (rx, tx))"
    and valid: "validate_trx_clock_chain s rx tx = 0"
    and "gov \<le> 1" "rx_intdec s \<in> {1, 2, 4}" "tx_intdec s \<in> {1, 2, 4}"
    and "st_rx_eq_2tx s \<Longrightarrow> rx_intdec s = 4 \<Longrightarrow> unat rate \<le> 44739242"
  shows "unat (rx ! 5) = unat rate * (if st_rx_eq_2tx s then 2 else 1) \<and> tx ! 5 = rate \<and>
    25000000 \<le> unat (rx ! 1) \<and> unat (rx ! 1) \<le> 640000000 \<and>
    (tx ! 1 = rx ! 1 \<or> tx ! 1 = rx ! 1 div 2) \<and> unat (tx ! 1) \<le> 320000000 \<and>
    714928500 \<le> unat (rx ! 0) \<and> unat (rx ! 0) \<le> 1430143000 \<and> tx ! 0 = rx ! 0"
proof -
  obtain g j x dac where R: "rate \<le> MAX_BASEBAND_RATE" and g: "g = unat gov \<or> g = 0"
    and c: "chosen s rate g (rx, tx) j x dac"
    using calculate_chooses [OF calc] by blast
  have R': "unat rate \<le> 61440000" using R by (simp add: ad_regs word_le_nat_alt)
  have g1: "g \<le> 1" using g \<open>gov \<le> 1\<close> by (auto simp: word_le_nat_alt)
  note kr = rx_factor_cases [OF assms(4) R' assms(6)]
  have kt: "unat (tx_intdec s) \<in> {1, 2, 4}" using assms(5) by auto
  let ?adc = "row_adc (chain_rf s rate) j" let ?b = "bbpll_target ?adc MAX_BBPLL_DIV"
  have p: "rx = path_rates ?b ?adc (clk_dividers ! j) (rx_intdec s)" "tx = path_rates ?b dac (clk_dividers ! x) (tx_intdec s)"
    and win: "adc_in_range ?adc" and jx: "j < 7" "x < 7"
    using c by (auto simp: chosen_def usable_def bad_index_def)
  note rxs = unat_path_rates [OF jx(1), of ?b ?adc "rx_intdec s", folded p(1)]
  note txs = unat_path_rates [OF jx(2), of ?b dac "tx_intdec s", folded p(2)]
  note lim = valid_rates [OF valid rxs(5) txs(5)]
  have fit: "0 < unat rate" "dac = ?adc \<and> rx_factor s * row_div j = row_div x * unat (tx_intdec s) \<or>
     dac = ?adc div 2 \<and> rx_factor s * row_div j = 2 * (row_div x * unat (tx_intdec s))"
    using chosen_rows_fit [OF c g1 R' kr(1) kt kr(2) lim(1,2)] by blast+
  have adc: "unat ?adc = unat rate * rx_factor s * row_div j" by (rule row_adc_rx [OF kr(2) jx(1)])
  have "0 < row_div j * unat (rx_intdec s)" using row_divs(2) [OF jx(1)] assms(4) by auto
  then have rx5: "unat (rx ! 5) = unat rate * (if st_rx_eq_2tx s then 2 else 1)"
    unfolding rxs(2) adc rx_factor_def by (simp add: mult.assoc mult.left_commute [of _ "row_div j"])
  have "0 < row_div x * unat (tx_intdec s)" using row_divs(2) [OF jx(2)] kt by auto
  then have "unat (tx ! 5) = unat rate"
    unfolding txs(2) using fit(2) by (auto simp: unat_div adc mult.assoc)
  then have tx5: "tx ! 5 = rate" by (simp only: word_unat_eq_iff)
  have b: "714928500 \<le> unat ?b" "unat ?b \<le> 1430143000"
    using bbpll_target_range [OF win] by (simp_all add: ad_regs)
  have "unat (ucast ?b :: u32) = unat ?b" using b(2) by (simp add: unsigned_ucast_eq take_bit_eq_mod)
  then show ?thesis
    using rx5 tx5 fit(2) lim(3) win b unfolding rxs(3,4) txs(3,4)
    by (auto simp: adc_in_range_def ad_regs word_le_nat_alt)
qed

theorem clock_chain_exact_witness:
  "calculate_rf_clock_chain ad_zero 30720000 1 =
     Some (Inr ([983040000, 245760000, 122880000, 61440000, 30720000, 30720000],
                [983040000, 245760000, 122880000, 61440000, 30720000, 30720000])) \<and>
   ([983040000, 245760000, 122880000, 61440000, 30720000, 30720000] :: ulong list) ! 5 = 30720000"
proof -
  let ?p = "[983040000, 245760000, 122880000, 61440000, 30720000, 30720000] :: ulong list"
  have f: "rx_intdec ad_zero = 1" "tx_intdec ad_zero = 1" "st_rx_eq_2tx ad_zero = False"
    by (simp_all add: rx_intdec_def tx_intdec_def ad_zero_def)
  have search: "clk_search 30720000 30720000 (Suc 5) 1 (0, 0) = Some (245760000, 245760000, 1, 1)"
    by (subst clk_search.simps(2)) (simp add: clk_dividers_def rate_ratio_def ad_regs tx_index_def MAX_DAC_CLK_def Let_def)
  note search' = search [simplified]
  have pll: "bbpll_target 245760000 64 = 983040000" by (simp add: bbpll_target_steps)
  have calc: "calculate_rf_clock_chain ad_zero 30720000 1 = Some (Inr (?p, ?p))"
    by (subst calculate_rf_clock_chain.simps)
      (simp add: f ad_regs Let_def search' pll bad_index_def clk_dividers_def path_rates_def
        del: clk_search.simps)
  have valid: "validate_trx_clock_chain ad_zero ?p ?p = 0"
    by (simp add: validate_trx_clock_chain_def data_clk_def uses_lvds_mode_def pd_pp_conf2_def ad_zero_def pc_zero_def
      ad_regs max_rx_rates_def max_tx_rates_def MAX_DAC_CLK_def RX_SAMPL_FREQ_def ADC_FREQ_def R2_FREQ_def near_clk_def Let_def)
  have "tx ! 5 = 30720000" if "tx = ?p" for tx
    using clock_chain_exact [OF calc valid] f unfolding that by simp
  then show ?thesis using calc by simp
qed

text \<open>
  With the receive side at twice the transmit rate and its filter decimating by 4 the product
  of rate and divider wraps around: 51.2 MHz are accepted, and 12.9 MHz are programmed.
\<close>

definition wrap_phy :: "regfile ad9361" where
  "wrap_phy = ad_zero\<lparr>st_rx_eq_2tx := True, st_bypass_rx_fir := False, st_rx_fir_dec := 4\<rparr>"

lemma clock_chain_wraps:
  "calculate_rf_clock_chain wrap_phy 51200000 0 =
     Some (Inr ([1240465408, 620232704, 206744234, 103372117, 51686058, 12921514],
                [1240465408, 310116352, 103372117, 103372117, 51686058, 51686058])) \<and>
   validate_trx_clock_chain wrap_phy [1240465408, 620232704, 206744234, 103372117, 51686058, 12921514]
     [1240465408, 310116352, 103372117, 103372117, 51686058, 51686058] = 0"
proof -
  have f: "rx_intdec wrap_phy = 4" "tx_intdec wrap_phy = 1" "st_rx_eq_2tx wrap_phy = True"
    by (simp_all add: rx_intdec_def tx_intdec_def wrap_phy_def ad_zero_def)
  have search: "clk_search 409600000 51200000 (Suc 6) 0 (0, 0) = Some (620232704, 310116352, 0, 2)"
    by (subst clk_search.simps(2)) (simp add: clk_dividers_def rate_ratio_def ad_regs tx_index_def MAX_DAC_CLK_def Let_def)
  note search' = search [simplified]
  have pll: "bbpll_target 620232704 64 = 1240465408" by (simp add: bbpll_target_steps)
  have calc: "calculate_rf_clock_chain wrap_phy 51200000 0 =
     Some (Inr ([1240465408, 620232704, 206744234, 103372117, 51686058, 12921514],
                [1240465408, 310116352, 103372117, 103372117, 51686058, 51686058]))"
    by (subst calculate_rf_clock_chain.simps)
      (simp add: f ad_regs Let_def search' pll bad_index_def clk_dividers_def path_rates_def del: clk_search.simps)
  then show ?thesis
    by (simp add: validate_trx_clock_chain_def data_clk_def uses_lvds_mode_def pd_pp_conf2_def wrap_phy_def ad_zero_def
      pc_zero_def ad_regs max_rx_rates_def max_tx_rates_def MAX_DAC_CLK_def RX_SAMPL_FREQ_def ADC_FREQ_def R2_FREQ_def
      near_clk_def Let_def)
qed

end
