(* ===== verification/Ad_Dig.thy ===== *)
theory Ad_Dig
  imports Ad_Chain Cstr
begin

unbundle bit_operations_syntax

text \<open>
  Tuning the digital interface between the AD9361 and the converter in the FPGA
  (\<^verbatim>\<open>ad9361_conv.c\<close>): the transceiver sends a pseudo random sequence, the converter checks it
  under every setting of the clock and data delays, and the middle of the widest opening is
  programmed. The converter is a parameter: the accesses that the header \<^verbatim>\<open>cf_axi_adc.h\<close>
  declares, with its register numbers and bits, and the passing of time, all of which act on
  the chip side of the state. Printing is left out.
\<close>

subsection \<open>The converter's core\<close>

record 'c axi_adc =
  axi_read :: "u32 \<Rightarrow> 'c \<Rightarrow> u32 \<times> 'c"
  axi_write :: "u32 \<Rightarrow> u32 \<Rightarrow> 'c \<Rightarrow> 'c"
  axi_idelay_set :: "u32 \<Rightarrow> u32 \<Rightarrow> 'c \<Rightarrow> 'c"
  axi_set_pnsel :: "u32 \<Rightarrow> bool \<Rightarrow> 'c \<Rightarrow> 'c"
  axi_mdelay :: "nat \<Rightarrow> 'c \<Rightarrow> 'c"
  ADI_REG_CHAN_STATUS :: "u32 \<Rightarrow> u32"
  ADI_REG_CHAN_CNTRL :: "u32 \<Rightarrow> u32"
  ADI_REG_CHAN_CNTRL_1 :: "u32 \<Rightarrow> u32"
  ADI_REG_CHAN_CNTRL_2 :: "u32 \<Rightarrow> u32"
  ADI_REG_DELAY :: "u32 \<Rightarrow> u32"
  ADI_DCFILT_OFFSET :: "u32 \<Rightarrow> u32"
  ADI_REG_STATUS :: u32
  ADI_REG_RSTN :: u32
  ADI_REG_CNTRL :: u32
  ADI_REG_CONFIG :: u32
  ADI_REG_CLOCKS_PER_PPS :: u32
  ADI_REG_CLOCKS_PER_PPS_STATUS :: u32
  ADI_AXI_REG_ID :: u32
  ADI_PN_ERR :: u32
  ADI_PN_OOS :: u32
  ADI_STATUS :: u32
  ADI_RSTN :: u32
  ADI_MMCM_RSTN :: u32
  ADI_R1_MODE :: u32
  ADI_FORMAT_SIGNEXT :: u32
  ADI_FORMAT_ENABLE :: u32
  ADI_ENABLE :: u32
  ADI_IQCOR_ENB :: u32
  ADI_PPS_RECEIVER_ENABLE :: u32
  ADI_CLOCKS_PER_PPS_STAT_INVAL :: u32
  ADI_CMOS_OR_LVDS_N :: u32

definition on_chip :: "('c \<Rightarrow> 'c) \<Rightarrow> ('c ad9361, unit) state" where
  "on_chip f = upd_phy (\<lambda>s. s\<lparr>ad_chip := f (ad_chip s)\<rparr>)"

definition axiadc_read :: "'c axi_adc \<Rightarrow> u32 \<Rightarrow> ('c ad9361, u32) state" where
  "axiadc_read ax r = State (\<lambda>s. case axi_read ax r (ad_chip s) of (v, c) \<Rightarrow> (v, s\<lparr>ad_chip := c\<rparr>))"

definition axiadc_write :: "'c axi_adc \<Rightarrow> u32 \<Rightarrow> u32 \<Rightarrow> ('c ad9361, unit) state" where
  "axiadc_write ax r v = on_chip (axi_write ax r v)"

definition num_channels :: "'c ad9361 \<Rightarrow> nat" where
  "num_channels s = (case ph_conv s of None \<Rightarrow> 0 | Some cv \<Rightarrow> ci_num_channels (cv_chip_info cv))"

definition num_phy_chan :: "'c ad9361 \<Rightarrow> nat" where
  "num_phy_chan s = (if 4 < num_channels s then 4 else num_channels s)"

subsection \<open>Loopback\<close>

text \<open>\<open>k\<close> channels from \<open>chan\<close> on: their data source is set to the loopback, or to what it was.\<close>

fun hdl_loopback_chans :: "'c axi_adc \<Rightarrow> bool \<Rightarrow> nat \<Rightarrow> nat \<Rightarrow> ('c ad9361, unit) state" where
  "hdl_loopback_chans ax enable 0 chan = rtn ()"
| "hdl_loopback_chans ax enable (Suc k) chan = do {
     let addr = 0x4418 + of_nat chan * 0x40;
     reg \<leftarrow> axiadc_read ax addr;
     s \<leftarrow> get_phy;
     let saved = (case ph_conv s of Some cv \<Rightarrow> cv_scratch_reg cv chan | None \<Rightarrow> 0);
     _ \<leftarrow> if enable \<and> reg \<noteq> 8
          then upd_phy (\<lambda>s. s\<lparr>ph_conv := map_option (\<lambda>cv. cv\<lparr>cv_scratch_reg := (cv_scratch_reg cv)(chan := reg)\<rparr>) (ph_conv s)\<rparr>)
          else rtn ();
     _ \<leftarrow> axiadc_write ax addr (if enable then 8 else if reg = 8 then saved else reg);
     hdl_loopback_chans ax enable k (Suc chan)
   }"

definition hdl_loopback :: "'c axi_adc \<Rightarrow> bool \<Rightarrow> ('c ad9361, int) state" where
  "hdl_loopback ax enable = do {
     s \<leftarrow> get_phy;
     if ph_conv s = None then rtn (- 19)
     else do {
       _ \<leftarrow> axiadc_read ax 0x4000;
       _ \<leftarrow> hdl_loopback_chans ax enable (num_channels s) 0;
       rtn 0
     }
   }"

definition bist_loopback :: "'c bus \<Rightarrow> 'c axi_adc \<Rightarrow> u32 \<Rightarrow> ('c ad9361, int) state" where
  "bist_loopback bus ax mode = do {
     v \<leftarrow> spi_read bus REG_OBSERVE_CONFIG;
     let reg = (word_of_int v :: u32);
     _ \<leftarrow> upd_phy (\<lambda>s. s\<lparr>st_bist_loopback_mode := ucast mode\<rparr>);
     let off = (reg AND NOT (DATA_PORT_SP_HD_LOOP_TEST_OE OR DATA_PORT_LOOP_TEST_ENABLE));
     if mode = 0 then do {
       _ \<leftarrow> hdl_loopback ax False;
       _ \<leftarrow> int_loopback_fix_ch_cross bus False;
       spi_write bus REG_OBSERVE_CONFIG off
     }
     else if mode = 1 then do {
       _ \<leftarrow> hdl_loopback ax False;
       _ \<leftarrow> int_loopback_fix_ch_cross bus True;
       p \<leftarrow> spi_read bus REG_PARALLEL_PORT_CONF_3;
       let sp_hd = (word_of_int p :: u32);
       let reg = (if sp_hd AND SINGLE_PORT_MODE \<noteq> 0 \<and> sp_hd AND HALF_DUPLEX_MODE \<noteq> 0
                  then reg OR DATA_PORT_SP_HD_LOOP_TEST_OE else reg AND NOT DATA_PORT_SP_HD_LOOP_TEST_OE);
       spi_write bus REG_OBSERVE_CONFIG (reg OR DATA_PORT_LOOP_TEST_ENABLE)
     }
     else if mode = 2 then do {
       _ \<leftarrow> hdl_loopback ax True;
       _ \<leftarrow> int_loopback_fix_ch_cross bus False;
       spi_write bus REG_OBSERVE_CONFIG off
     }
     else rtn (- 22)
   }"

subsection \<open>One setting\<close>

definition set_intf_delay :: "'c bus \<Rightarrow> bool \<Rightarrow> u32 \<Rightarrow> u32 \<Rightarrow> bool \<Rightarrow> ('c ad9361, unit) state" where
  "set_intf_delay bus tx clock_delay data_delay clock_changed = do {
     _ \<leftarrow> if clock_changed then ensm_force_state bus (ucast ENSM_STATE_ALERT) else rtn ();
     _ \<leftarrow> spi_write bus (REG_RX_CLOCK_DATA_DELAY + (if tx then 1 else 0))
            (RX_DATA_DELAY data_delay OR DATA_CLK_DELAY clock_delay);
     if clock_changed then ensm_force_state bus (ucast ENSM_STATE_FDD) else rtn ()
   }"

fun clear_status :: "'c axi_adc \<Rightarrow> nat \<Rightarrow> nat \<Rightarrow> ('c ad9361, unit) state" where
  "clear_status ax 0 chan = rtn ()"
| "clear_status ax (Suc k) chan = do {
     _ \<leftarrow> axiadc_write ax (ADI_REG_CHAN_STATUS ax (of_nat chan)) (ADI_PN_ERR ax OR ADI_PN_OOS ax);
     clear_status ax k (Suc chan)
   }"

fun any_status :: "'c axi_adc \<Rightarrow> nat \<Rightarrow> nat \<Rightarrow> ('c ad9361, u8) state" where
  "any_status ax 0 chan = rtn 0"
| "any_status ax (Suc k) chan = do {
     v \<leftarrow> axiadc_read ax (ADI_REG_CHAN_STATUS ax (of_nat chan));
     if v \<noteq> 0 then rtn 1 else any_status ax k (Suc chan)
   }"

text \<open>0 when the sequence was received without an error for \<open>delay\<close> milliseconds.\<close>

definition check_pn :: "'c axi_adc \<Rightarrow> bool \<Rightarrow> nat \<Rightarrow> ('c ad9361, u8) state" where
  "check_pn ax tx delay = do {
     s \<leftarrow> get_phy;
     let num_chan = num_phy_chan s;
     _ \<leftarrow> clear_status ax num_chan 0;
     _ \<leftarrow> on_chip (axi_mdelay ax delay);
     if tx then any_status ax num_chan 0
     else do {
       v \<leftarrow> axiadc_read ax (ADI_REG_STATUS ax);
       if v AND ADI_STATUS ax = 0 then rtn 1 else any_status ax num_chan 0
     }
   }"

subsection \<open>Sweeps\<close>

definition write_clock_data_delays :: "'c bus \<Rightarrow> ('c ad9361, int) state" where
  "write_clock_data_delays bus = do {
     s \<leftarrow> get_phy;
     _ \<leftarrow> spi_write bus REG_RX_CLOCK_DATA_DELAY (ucast (pc_rx_clk_data_delay (pd_port_ctrl s)));
     _ \<leftarrow> spi_write bus REG_TX_CLOCK_DATA_DELAY (ucast (pc_tx_clk_data_delay (pd_port_ctrl s)));
     rtn 0
   }"

definition read_clock_data_delays :: "'c bus \<Rightarrow> ('c ad9361, int) state" where
  "read_clock_data_delays bus = do {
     r \<leftarrow> spi_read bus REG_RX_CLOCK_DATA_DELAY;
     _ \<leftarrow> upd_phy (\<lambda>s. s\<lparr>pd_port_ctrl := (pd_port_ctrl s)\<lparr>pc_rx_clk_data_delay := word_of_int r\<rparr>\<rparr>);
     t \<leftarrow> spi_read bus REG_TX_CLOCK_DATA_DELAY;
     _ \<leftarrow> upd_phy (\<lambda>s. s\<lparr>pd_port_ctrl := (pd_port_ctrl s)\<lparr>pc_tx_clk_data_delay := word_of_int t\<rparr>\<rparr>);
     rtn 0
   }"

definition iodelay_set :: "'c axi_adc \<Rightarrow> u32 \<Rightarrow> u32 \<Rightarrow> bool \<Rightarrow> ('c ad9361, unit) state" where
  "iodelay_set ax lane val tx =
     (if tx then axiadc_write ax (0x4000 + ADI_REG_DELAY ax lane) val else on_chip (axi_idelay_set ax lane val))"

fun midscale_lanes :: "'c axi_adc \<Rightarrow> bool \<Rightarrow> nat \<Rightarrow> nat \<Rightarrow> ('c ad9361, unit) state" where
  "midscale_lanes ax tx 0 i = rtn ()"
| "midscale_lanes ax tx (Suc k) i = do {
     _ \<leftarrow> iodelay_set ax (of_nat i) 15 tx;
     midscale_lanes ax tx k (Suc i)
   }"

definition midscale_iodelay :: "'c axi_adc \<Rightarrow> bool \<Rightarrow> ('c ad9361, int) state" where
  "midscale_iodelay ax tx = do {
     _ \<leftarrow> midscale_lanes ax tx 7 0;
     rtn 0
   }"

text \<open>The results of \<open>k\<close> delays of lane \<open>i\<close> from \<open>j\<close> on.\<close>

fun lane_sweep :: "'c axi_adc \<Rightarrow> bool \<Rightarrow> nat \<Rightarrow> nat \<Rightarrow> nat \<Rightarrow> ('c ad9361, u8 list) state" where
  "lane_sweep ax tx i 0 j = rtn []"
| "lane_sweep ax tx i (Suc k) j = do {
     _ \<leftarrow> iodelay_set ax (of_nat i) (of_nat j) tx;
     _ \<leftarrow> on_chip (axi_mdelay ax 1);
     b \<leftarrow> check_pn ax tx 10;
     bs \<leftarrow> lane_sweep ax tx i k (Suc j);
     rtn (b # bs)
   }"

definition middle :: "int \<times> int \<Rightarrow> u32" where
  "middle r = (case r of (c, s) \<Rightarrow> word_of_int s + word_of_int c div 2)"

fun tune_lanes :: "'c axi_adc \<Rightarrow> bool \<Rightarrow> nat \<Rightarrow> nat \<Rightarrow> ('c ad9361, unit) state" where
  "tune_lanes ax tx 0 i = rtn ()"
| "tune_lanes ax tx (Suc k) i = do {
     field \<leftarrow> lane_sweep ax tx i 32 0;
     _ \<leftarrow> iodelay_set ax (of_nat i) (middle (find_opt field)) tx;
     tune_lanes ax tx k (Suc i)
   }"

definition dig_tune_iodelay :: "'c axi_adc \<Rightarrow> bool \<Rightarrow> ('c ad9361, int) state" where
  "dig_tune_iodelay ax tx = do {
     _ \<leftarrow> tune_lanes ax tx 7 0;
     rtn 0
   }"

text \<open>
  Row \<open>i\<close> of the field: with clock delay 0 and rising data delay, or clock delay 15 and falling
  data delay. The results are or-ed to those of the other rates.
\<close>

fun delay_row :: "'c bus \<Rightarrow> 'c axi_adc \<Rightarrow> bool \<Rightarrow> bool \<Rightarrow> u8 list \<Rightarrow> nat \<Rightarrow> ('c ad9361, u8 list) state" where
  "delay_row bus ax tx i [] j = rtn []"
| "delay_row bus ax tx i (f # fs) j = do {
     _ \<leftarrow> set_intf_delay bus tx (if i then 15 else 0) (if i then 15 - of_nat j else of_nat j) (j = 0);
     b \<leftarrow> check_pn ax tx 4;
     bs \<leftarrow> delay_row bus ax tx i fs (Suc j);
     rtn ((f OR b) # bs)
   }"

definition tune_rates :: "ulong list" where
  "tune_rates = [25000000, 40000000, 61440000]"

fun delay_rates :: "'c bus \<Rightarrow> 'c axi_adc \<Rightarrow> (ulong \<Rightarrow> ('c ad9361, int option) state) \<Rightarrow> bool \<Rightarrow> ulong \<Rightarrow> bool \<Rightarrow>
    u8 list \<times> u8 list \<Rightarrow> ulong list \<Rightarrow> ('c ad9361, (u8 list \<times> u8 list) option) state" where
  "delay_rates bus ax set_freq tx max_freq half field [] = rtn (Some field)"
| "delay_rates bus ax set_freq tx max_freq half (f0, f1) (r # rs) = do {
     ok \<leftarrow> if max_freq \<noteq> 0 then set_freq (if half then r div 2 else r) else rtn (Some 0);
     if ok = None then rtn None
     else do {
       f0 \<leftarrow> delay_row bus ax tx False f0 0;
       f1 \<leftarrow> delay_row bus ax tx True f1 0;
       delay_rates bus ax set_freq tx max_freq half (f0, f1) rs
     }
   }"

text \<open>The choice between the two rows, programmed as a clock or as a data delay; -5 is \<^verbatim>\<open>-EIO\<close>.\<close>

definition program_delay :: "'c bus \<Rightarrow> bool \<Rightarrow> u8 list \<Rightarrow> u8 list \<Rightarrow> ('c ad9361, int) state" where
  "program_delay bus tx f0 f1 =
     (let (c0, s0) = find_opt f0; (c1, s1) = find_opt f1 in
      if c0 = 0 \<and> c1 = 0 then rtn (- 5)
      else do {
        _ \<leftarrow> if c0 < c1 then set_intf_delay bus tx (middle (c1, s1)) 0 True
             else set_intf_delay bus tx 0 (middle (c0, s0)) True;
        rtn 0
      })"

definition dig_tune_delay :: "'c bus \<Rightarrow> 'c axi_adc \<Rightarrow> (ulong \<Rightarrow> ('c ad9361, int option) state) \<Rightarrow> ulong \<Rightarrow> bool \<Rightarrow>
    ('c ad9361, int option) state" where
  "dig_tune_delay bus ax set_freq max_freq tx = do {
     s \<leftarrow> get_phy;
     let half_data_rate = (\<not> (uses_lvds_mode s \<or> \<not> uses_rx2tx2 s));
     r \<leftarrow> delay_rates bus ax set_freq tx max_freq half_data_rate (replicate 16 0, replicate 16 0)
            (if max_freq \<noteq> 0 then tune_rates else take 1 tune_rates);
     case r of
       None \<Rightarrow> rtn None
     | Some (f0, f1) \<Rightarrow> do {
         ret \<leftarrow> program_delay bus tx f0 f1;
         rtn (Some ret)
       }
   }"

subsection \<open>Tuning both directions\<close>

definition reset_core :: "'c axi_adc \<Rightarrow> ('c ad9361, unit) state" where
  "reset_core ax = do {
     _ \<leftarrow> axiadc_write ax (ADI_REG_RSTN ax) (ADI_MMCM_RSTN ax);
     axiadc_write ax (ADI_REG_RSTN ax) (ADI_RSTN ax OR ADI_MMCM_RSTN ax)
   }"

definition dig_tune_rx :: "'c bus \<Rightarrow> 'c axi_adc \<Rightarrow> (ulong \<Rightarrow> ('c ad9361, int option) state) \<Rightarrow> ulong \<Rightarrow> u32 \<Rightarrow>
    ('c ad9361, int option) state" where
  "dig_tune_rx bus ax set_freq max_freq flags = do {
     _ \<leftarrow> bist_loopback bus ax 0;
     _ \<leftarrow> bist_prbs bus BIST_INJ_RX;
     ret \<leftarrow> dig_tune_delay bus ax set_freq max_freq False;
     if ret = None then rtn None
     else do {
       _ \<leftarrow> if flags AND DO_IDELAY \<noteq> 0 then dig_tune_iodelay ax False else rtn 0;
       _ \<leftarrow> reset_core ax;
       rtn ret
     }
   }"

text \<open>The transmit channels' source and correction are saved, set to the looped back data, and restored.\<close>

definition chan_on :: "'c axi_adc \<Rightarrow> u32" where
  "chan_on ax = ADI_FORMAT_SIGNEXT ax OR ADI_FORMAT_ENABLE ax OR ADI_ENABLE ax OR ADI_IQCOR_ENB ax"

fun save_chans :: "'c axi_adc \<Rightarrow> nat \<Rightarrow> nat \<Rightarrow> ('c ad9361, (u32 \<times> u32 \<times> u32) list) state" where
  "save_chans ax 0 chan = rtn []"
| "save_chans ax (Suc k) chan = do {
     c0 \<leftarrow> axiadc_read ax (ADI_REG_CHAN_CNTRL ax (of_nat chan));
     _ \<leftarrow> axiadc_write ax (ADI_REG_CHAN_CNTRL ax (of_nat chan)) (chan_on ax);
     _ \<leftarrow> on_chip (axi_set_pnsel ax (of_nat chan) True);
     c6 \<leftarrow> axiadc_read ax (0x4414 + of_nat chan * 0x40);
     d \<leftarrow> axiadc_read ax (0x4418 + of_nat chan * 0x40);
     _ \<leftarrow> axiadc_write ax (0x4418 + of_nat chan * 0x40) 9;
     _ \<leftarrow> axiadc_write ax (0x4414 + of_nat chan * 0x40) 0;
     _ \<leftarrow> axiadc_write ax 0x4044 1;
     cs \<leftarrow> save_chans ax k (Suc chan);
     rtn ((c0, c6, d) # cs)
   }"

fun restore_chans :: "'c axi_adc \<Rightarrow> (u32 \<times> u32 \<times> u32) list \<Rightarrow> nat \<Rightarrow> ('c ad9361, unit) state" where
  "restore_chans ax [] chan = rtn ()"
| "restore_chans ax ((c0, c6, d) # cs) chan = do {
     _ \<leftarrow> axiadc_write ax (ADI_REG_CHAN_CNTRL ax (of_nat chan)) c0;
     _ \<leftarrow> on_chip (axi_set_pnsel ax (of_nat chan) False);
     _ \<leftarrow> axiadc_write ax (0x4418 + of_nat chan * 0x40) d;
     _ \<leftarrow> axiadc_write ax 0x4044 1;
     _ \<leftarrow> axiadc_write ax (0x4414 + of_nat chan * 0x40) c6;
     restore_chans ax cs (Suc chan)
   }"

definition dig_tune_tx :: "'c bus \<Rightarrow> 'c axi_adc \<Rightarrow> (ulong \<Rightarrow> ('c ad9361, int option) state) \<Rightarrow> ulong \<Rightarrow> u32 \<Rightarrow>
    ('c ad9361, int option) state" where
  "dig_tune_tx bus ax set_freq max_freq flags = do {
     s \<leftarrow> get_phy;
     let num_chan = num_phy_chan s;
     _ \<leftarrow> axiadc_read ax 0x4000;
     _ \<leftarrow> bist_prbs bus BIST_DISABLE;
     _ \<leftarrow> bist_loopback bus ax 1;
     _ \<leftarrow> axiadc_write ax (0x4000 + ADI_REG_RSTN ax) (ADI_RSTN ax OR ADI_MMCM_RSTN ax);
     saved \<leftarrow> save_chans ax num_chan 0;
     ret \<leftarrow> dig_tune_delay bus ax set_freq max_freq True;
     if ret = None then rtn None
     else do {
       _ \<leftarrow> if flags AND DO_ODELAY \<noteq> 0 then dig_tune_iodelay ax True else rtn 0;
       _ \<leftarrow> restore_chans ax saved 0;
       rtn ret
     }
   }"

definition TUNE_RX_TX :: u8 where "TUNE_RX_TX = 0"
definition SKIP_TX :: u8 where "SKIP_TX = 1"
definition SKIP_ALL :: u8 where "SKIP_ALL = 2"

record dig_tune_data =
  dt_bist_loopback_mode :: u32
  dt_bist_config :: u32
  dt_ensm_state :: u32
  dt_skip_mode :: u8

definition get_dig_tune_data :: "'c bus \<Rightarrow> ('c ad9361, dig_tune_data) state" where
  "get_dig_tune_data bus = do {
     s \<leftarrow> get_phy;
     e \<leftarrow> ensm_get_state bus;
     rtn \<lparr>dt_bist_loopback_mode = ucast (st_bist_loopback_mode s), dt_bist_config = ucast (st_bist_config s),
          dt_ensm_state = ucast e, dt_skip_mode = pd_dig_interface_tune_skipmode s\<rparr>
   }"

text \<open>
  A tuning run. The inner part returns the result of the two directions, what muting returned,
  and whether the defaults are to be restored.
\<close>

definition tune_directions :: "'c bus \<Rightarrow> 'c axi_adc \<Rightarrow> (ulong \<Rightarrow> ('c ad9361, int option) state) \<Rightarrow> ulong \<Rightarrow> u32 \<Rightarrow>
    dig_tune_data \<Rightarrow> ('c ad9361, (int \<times> int \<times> bool) option) state" where
  "tune_directions bus ax set_freq max_freq flags data =
     (if dt_skip_mode data = SKIP_ALL \<or> flags AND RESTORE_DEFAULT \<noteq> 0 then rtn (Some (0, - 1, True))
      else do {
        ret_mute \<leftarrow> tx_mute bus 1;
        _ \<leftarrow> ensm_mode_disable_pinctrl bus;
        _ \<leftarrow> if flags AND DO_IDELAY \<noteq> 0 then midscale_iodelay ax False else rtn 0;
        _ \<leftarrow> if flags AND DO_ODELAY \<noteq> 0 then midscale_iodelay ax True else rtn 0;
        r \<leftarrow> dig_tune_rx bus ax set_freq max_freq flags;
        r \<leftarrow> if r = Some 0 \<and> dt_skip_mode data = TUNE_RX_TX then dig_tune_tx bus ax set_freq max_freq flags else rtn r;
        case r of
          None \<Rightarrow> rtn None
        | Some ret \<Rightarrow> do {
            _ \<leftarrow> bist_loopback bus ax (dt_bist_loopback_mode data);
            _ \<leftarrow> write_bist_reg bus (dt_bist_config data);
            rtn (Some (if max_freq = 0 then 0 else ret, ret_mute, ret = - 5))
          }
      })"

definition dig_tune_at :: "'c bus \<Rightarrow> 'c axi_adc \<Rightarrow> (ulong \<Rightarrow> ('c ad9361, int option) state) \<Rightarrow> ulong \<Rightarrow> u32 \<Rightarrow>
    ('c ad9361, int option) state" where
  "dig_tune_at bus ax set_freq max_freq flags = do {
     s \<leftarrow> get_phy;
     if ph_conv s = None then rtn (Some (- 19))
     else do {
       data \<leftarrow> get_dig_tune_data bus;
       r \<leftarrow> tune_directions bus ax set_freq max_freq flags data;
       case r of
         None \<Rightarrow> rtn None
       | Some (ret, ret_mute, restore) \<Rightarrow> do {
           _ \<leftarrow> if restore then do {
                  _ \<leftarrow> ensm_force_state bus (ucast ENSM_STATE_ALERT);
                  write_clock_data_delays bus
                }
                else if flags AND SKIP_STORE_RESULT = 0 then read_clock_data_delays bus else rtn 0;
           _ \<leftarrow> ensm_mode_restore_pinctrl bus;
           _ \<leftarrow> ensm_restore_state bus (ucast (dt_ensm_state data));
           _ \<leftarrow> reset_core ax;
           _ \<leftarrow> if ret_mute = 0 then tx_mute bus 0 else rtn 0;
           rtn (Some ret)
         }
     }
   }"

text \<open>
  Programming a chain may tune, and tuning with a maximal frequency programs chains: the run
  within has frequency 0 and programs none.
\<close>

definition tune_within :: "'c bus \<Rightarrow> 'c axi_adc \<Rightarrow> 'c dig_tuner" where
  "tune_within bus ax = dig_tune_at bus ax (\<lambda>_. rtn (Some 0))"

definition dig_tune :: "'c bus \<Rightarrow> 'c clk_framework \<Rightarrow> 'c axi_adc \<Rightarrow> 'c dig_tuner" where
  "dig_tune bus fw ax = dig_tune_at bus ax (set_trx_clock_chain_freq bus fw (tune_within bus ax))"

subsection \<open>Setting up the converter\<close>

definition axi_half_dac_rate :: "'c ad9361 \<Rightarrow> bool" where
  "axi_half_dac_rate s \<longleftrightarrow> pd_axi_half_dac_rate_en s"

definition bb_clk_change_dig_tune_en :: "'c ad9361 \<Rightarrow> bool" where
  "bb_clk_change_dig_tune_en s \<longleftrightarrow> pd_bb_clk_change_dig_tune_en s"

text \<open>The getter returns the truth value of C's conjunction, not the mode.\<close>

definition get_dig_interface_tune_skipmode :: "'c ad9361 \<Rightarrow> u32" where
  "get_dig_interface_tune_skipmode s = (if pd_dig_interface_tune_skipmode s \<noteq> 0 then 1 else 0)"

definition set_dig_interface_tune_skipmode :: "u32 \<Rightarrow> ('c ad9361, unit) state" where
  "set_dig_interface_tune_skipmode skip = upd_phy (\<lambda>s. s\<lparr>pd_dig_interface_tune_skipmode := ucast skip\<rparr>)"

definition rate_word :: "'c ad9361 \<Rightarrow> u32" where
  "rate_word s =
     (if \<not> uses_rx2tx2 s then (if axi_half_dac_rate s then 0 else if uses_lvds_mode s then 1 else 0)
      else (if axi_half_dac_rate s then 1 else if uses_lvds_mode s then 3 else 1))"

fun setup_chans :: "'c axi_adc \<Rightarrow> nat \<Rightarrow> nat \<Rightarrow> ('c ad9361, unit) state" where
  "setup_chans ax 0 i = rtn ()"
| "setup_chans ax (Suc k) i = do {
     _ \<leftarrow> axiadc_write ax (ADI_REG_CHAN_CNTRL_1 ax (of_nat i)) (ADI_DCFILT_OFFSET ax 0);
     _ \<leftarrow> axiadc_write ax (ADI_REG_CHAN_CNTRL_2 ax (of_nat i)) (if odd i then 0x00004000 else 0x40000000);
     _ \<leftarrow> axiadc_write ax (ADI_REG_CHAN_CNTRL ax (of_nat i)) (chan_on ax);
     setup_chans ax k (Suc i)
   }"

definition setup_core :: "'c axi_adc \<Rightarrow> ('c ad9361, unit) state" where
  "setup_core ax = do {
     s \<leftarrow> get_phy;
     _ \<leftarrow> axiadc_write ax (ADI_REG_CNTRL ax) (if uses_rx2tx2 s then 0 else ADI_R1_MODE ax);
     tmp \<leftarrow> axiadc_read ax 0x4048;
     _ \<leftarrow> axiadc_write ax 0x4048 (if uses_rx2tx2 s then tmp AND NOT (push_bit 5 1) else tmp OR push_bit 5 1);
     _ \<leftarrow> axiadc_write ax 0x404c (rate_word s);
     setup_chans ax (num_phy_chan s) 0
   }"

text \<open>
  The flags of the run are 0, so that the second run of the code (with delay flags) never
  happens.
\<close>

definition post_setup :: "'c bus \<Rightarrow> 'c clk_framework \<Rightarrow> 'c axi_adc \<Rightarrow> ('c ad9361, int option) state" where
  "post_setup bus fw ax = do {
     s \<leftarrow> get_phy;
     let skipmode = get_dig_interface_tune_skipmode s;
     _ \<leftarrow> if bb_clk_change_dig_tune_en s then set_dig_interface_tune_skipmode (ucast SKIP_ALL) else rtn ();
     _ \<leftarrow> setup_core ax;
     v \<leftarrow> axiadc_read ax (ADI_AXI_REG_ID ax);
     ret \<leftarrow> dig_tune bus fw ax 61440000 (if v \<noteq> 0 then RESTORE_DEFAULT else 0);
     case ret of
       None \<Rightarrow> rtn None
     | Some r \<Rightarrow>
         if r < 0 then do {
           _ \<leftarrow> upd_phy (\<lambda>s. s\<lparr>ph_conv := None\<rparr>);
           rtn (Some r)
         }
         else do {
           s \<leftarrow> get_phy;
           _ \<leftarrow> if bb_clk_change_dig_tune_en s then set_dig_interface_tune_skipmode skipmode else rtn ();
           ret \<leftarrow> set_trx_clock_chain_default bus fw (dig_tune bus fw ax);
           if ret = None then rtn None
           else do {
             _ \<leftarrow> ensm_force_state bus (ucast ENSM_STATE_ALERT);
             _ \<leftarrow> ensm_restore_prev_state bus;
             rtn (Some 0)
           }
         }
   }"

definition available_scan_masks :: "ulong list" where
  "available_scan_masks = [0x01, 0x02, 0x04, 0x08, 0x03, 0x0C, 0x0F, 0x00]"

definition available_scan_masks_2x2 :: "ulong list" where
  "available_scan_masks_2x2 =
     [0x01, 0x02, 0x04, 0x08, 0x03, 0x0C, 0x10, 0x20, 0x40, 0x80, 0x30, 0xC0,
      0x33, 0xCC, 0xC3, 0x3C, 0x0F, 0xF0, 0xFF, 0x00]"

definition axiadc_chip_info_tbl :: "ad_dev \<Rightarrow> axiadc_chip_info" where
  "axiadc_chip_info_tbl d = (case d of
     ID_AD9361_2 \<Rightarrow> \<lparr>ci_name = ''AD9361-2'', ci_max_rate = 61440000, ci_num_channels = 8,
       ci_num_shadow_slave_channels = 4, ci_scan_masks = available_scan_masks_2x2\<rparr>
   | ID_AD9364 \<Rightarrow> \<lparr>ci_name = ''AD9364'', ci_max_rate = 61440000, ci_num_channels = 2,
       ci_num_shadow_slave_channels = 0, ci_scan_masks = []\<rparr>
   | _ \<Rightarrow> \<lparr>ci_name = ''AD9361'', ci_max_rate = 61440000, ci_num_channels = 4,
       ci_num_shadow_slave_channels = 0, ci_scan_masks = available_scan_masks\<rparr>)"

text \<open>\<open>alloc\<close>: whether the allocation of the converter succeeds.\<close>

definition register_axi_converter :: "'c bus \<Rightarrow> 'c clk_framework \<Rightarrow> bool \<Rightarrow> ('c ad9361, int) state" where
  "register_axi_converter bus fw alloc =
     (if \<not> alloc then rtn (- 12)
      else do {
        v \<leftarrow> spi_read bus REG_PRODUCT_ID;
        let cid = (word_of_int v AND PRODUCT_ID_MASK :: u32);
        if cid \<noteq> PRODUCT_ID_9361 then do {
          _ \<leftarrow> upd_phy (\<lambda>s. s\<lparr>ph_conv := None\<rparr>);
          rtn (- 19)
        }
        else do {
          s \<leftarrow> get_phy;
          let info = axiadc_chip_info_tbl (if pd_dev s = ID_AD9361_2 then ID_AD9361_2
                       else if uses_rx2tx2 s then ID_AD9361 else ID_AD9364);
          _ \<leftarrow> upd_phy (\<lambda>s. s\<lparr>ph_conv := Some \<lparr>cv_id = cid, cv_chip_info = info,
                 cv_adc_clk = clk_get_rate fw RX_SAMPL_CLK s, cv_scratch_reg = (\<lambda>_. 0)\<rparr>\<rparr>);
          rtn 0
        }
      })"

subsection \<open>Attributes\<close>

text \<open>The number of samples in a pulse-per-second interval, or a negative errno.\<close>

definition samples_pps_read :: "'c axi_adc \<Rightarrow> ('c ad9361, int) state" where
  "samples_pps_read ax = do {
     config \<leftarrow> axiadc_read ax (ADI_REG_CONFIG ax);
     if config AND ADI_PPS_RECEIVER_ENABLE ax = 0 then rtn (- 19)
     else do {
       val \<leftarrow> axiadc_read ax (ADI_REG_CLOCKS_PER_PPS_STATUS ax);
       if val AND ADI_CLOCKS_PER_PPS_STAT_INVAL ax \<noteq> 0 then rtn (- 110)
       else do {
         mode \<leftarrow> axiadc_read ax (ADI_REG_CNTRL ax);
         val \<leftarrow> axiadc_read ax (ADI_REG_CLOCKS_PER_PPS ax);
         let val = (if mode AND ADI_R1_MODE ax = 0 then val div 2 else val);
         let val = (if config AND ADI_CMOS_OR_LVDS_N ax = 0 then val div 2 else val);
         rtn (int (unat val))
       }
     }
   }"

text \<open>
  The sampling frequency of the converter; \<open>round_rate\<close> is the clock framework's rounding, whose
  negative results compare as large values.
\<close>

definition conv_read_raw :: "'c clk_framework \<Rightarrow> ('c ad9361, int) state" where
  "conv_read_raw fw = do {
     s \<leftarrow> get_phy;
     let r = clk_get_rate fw RX_SAMPL_CLK s;
     _ \<leftarrow> upd_phy (\<lambda>s. s\<lparr>ph_conv := map_option (\<lambda>cv. cv\<lparr>cv_adc_clk := r\<rparr>) (ph_conv s)\<rparr>);
     rtn (sint r)
   }"

definition conv_write_raw :: "'c clk_framework \<Rightarrow> (ulong \<Rightarrow> ulong) \<Rightarrow> ulong \<Rightarrow> ('c ad9361, int) state" where
  "conv_write_raw fw round_rate val = do {
     s \<leftarrow> get_phy;
     let r_clk = round_rate val;
     case ph_conv s of
       None \<Rightarrow> rtn (- 19)
     | Some cv \<Rightarrow>
         if ci_max_rate (cv_chip_info cv) < r_clk then rtn (- 22)
         else do {
           ret \<leftarrow> clk_set_rate fw RX_SAMPL_CLK r_clk;
           rtn (if ret < 0 then ret else 0)
         }
   }"

subsection \<open>Timing analysis\<close>

text \<open>One clock delay with the 16 data delays, and the 16 clock delays.\<close>

fun analysis_row :: "'c bus \<Rightarrow> 'c axi_adc \<Rightarrow> u32 \<Rightarrow> nat \<Rightarrow> nat \<Rightarrow> ('c ad9361, u8 list) state" where
  "analysis_row bus ax clk 0 j = rtn []"
| "analysis_row bus ax clk (Suc k) j = do {
     _ \<leftarrow> set_intf_delay bus False clk (of_nat j) (j = 0);
     b \<leftarrow> check_pn ax False 1;
     bs \<leftarrow> analysis_row bus ax clk k (Suc j);
     rtn (b # bs)
   }"

fun analysis_sweep :: "'c bus \<Rightarrow> 'c axi_adc \<Rightarrow> nat \<Rightarrow> nat \<Rightarrow> ('c ad9361, u8 list list) state" where
  "analysis_sweep bus ax 0 i = rtn []"
| "analysis_sweep bus ax (Suc k) i = do {
     row \<leftarrow> analysis_row bus ax (of_nat i) 16 0;
     rows \<leftarrow> analysis_sweep bus ax k (Suc i);
     rtn (row # rows)
   }"

definition hex_digit :: "nat \<Rightarrow> string" where
  "hex_digit n = [''0123456789abcdef'' ! n]"

text \<open>The pieces of the report, one per \<^verbatim>\<open>snprintf\<close>; a row of the report has one data delay.\<close>

definition report_row :: "u8 list list \<Rightarrow> nat \<Rightarrow> string list" where
  "report_row cols i =
     (hex_digit i @ '':'') # map (\<lambda>col. (if col ! i \<noteq> 0 then ''. '' else ''o '')) cols @ [[CHR 0x0A]]"

definition report_pieces :: "ulong \<Rightarrow> u8 list list \<Rightarrow> string list" where
  "report_pieces clk cols =
     [''CLK: '' @ show_nat (unat clk) @ '' Hz 'o' = PASS'' @ [CHR 0x0A], ''DC''] @
     map (\<lambda>i. hex_digit i @ '':'') [0..<16] @ [[CHR 0x0A]] @
     concat (map (report_row cols) [0..<16]) @ [[CHR 0x0A]]"

text \<open>
  Each piece is written with the length of the whole buffer as its bound, whatever has been
  written before: \<open>report_extent\<close> is the end of the bytes written (with the terminating 0).
\<close>

fun report_extent :: "nat \<Rightarrow> nat \<Rightarrow> string list \<Rightarrow> nat" where
  "report_extent buflen off [] = 0"
| "report_extent buflen off (p # ps) =
     max (off + min buflen (List.length p + 1)) (report_extent buflen (off + List.length p) ps)"

definition dig_interface_timing_analysis :: "'c bus \<Rightarrow> 'c clk_framework \<Rightarrow> 'c axi_adc \<Rightarrow> ('c ad9361, int + string list) state" where
  "dig_interface_timing_analysis bus fw ax = do {
     s \<leftarrow> get_phy;
     if ph_conv s = None then rtn (Inl (- 19))
     else do {
       data \<leftarrow> get_dig_tune_data bus;
       rx \<leftarrow> spi_read bus REG_RX_CLOCK_DATA_DELAY;
       _ \<leftarrow> tx_mute bus 1;
       _ \<leftarrow> ensm_mode_disable_pinctrl bus;
       _ \<leftarrow> bist_loopback bus ax 0;
       _ \<leftarrow> bist_prbs bus BIST_INJ_RX;
       cols \<leftarrow> analysis_sweep bus ax 16 0;
       _ \<leftarrow> ensm_force_state bus (ucast ENSM_STATE_ALERT);
       _ \<leftarrow> spi_write bus REG_RX_CLOCK_DATA_DELAY (ucast (word_of_int rx :: u8));
       _ \<leftarrow> bist_loopback bus ax (dt_bist_loopback_mode data);
       _ \<leftarrow> write_bist_reg bus (dt_bist_config data);
       _ \<leftarrow> ensm_mode_restore_pinctrl bus;
       _ \<leftarrow> ensm_restore_state bus (ucast (dt_ensm_state data));
       _ \<leftarrow> tx_mute bus 0;
       s \<leftarrow> get_phy;
       rtn (Inr (report_pieces (clk_get_rate fw RX_SAMPL_CLK s) cols))
     }
   }"

end
