(* ===== verification/Ad_Dig_Props.thy ===== *)
theory Ad_Dig_Props
  imports Ad_Dig Ad_Rf_Props Ad_Ensm_Props
begin

unbundle bit_operations_syntax

text \<open>
  Tuning one direction of the digital interface on a chip that is a register file and a
  converter whose check passes or fails depending on the delay register.
\<close>

subsection \<open>One setting\<close>

definition delay_reg :: "bool \<Rightarrow> u32" where
  "delay_reg tx = REG_RX_CLOCK_DATA_DELAY + (if tx then 1 else 0)"

definition delay_byte :: "u32 \<Rightarrow> u32 \<Rightarrow> u8" where
  "delay_byte clock data = ucast (RX_DATA_DELAY data OR DATA_CLK_DELAY clock)"

lemma delay_reg_apart: "AD_ADDR (delay_reg tx) \<noteq> AD_ADDR REG_ENSM_CONFIG_1"
  by (simp add: delay_reg_def ad_regs AD_ADDR_def)

lemma run_get_state_same: "\<exists>e. run_state (ensm_get_state chip_bus) s = (e, s)"
  by (simp add: ensm_get_state_def run_spi_readf ad_regs)

lemma run_force_frame:
  assumes "AD_ADDR r \<noteq> AD_ADDR REG_ENSM_CONFIG_1"
  shows "\<exists>t. run_state (ensm_force_state chip_bus e) s = ((), t) \<and> get_reg t r = get_reg s r \<and> ph_conv t = ph_conv s"
proof -
  obtain d where d: "run_state (ensm_get_state chip_bus) s = (d, s)" using run_get_state_same by blast
  show ?thesis
    using assms unfolding ensm_force_state_def run_bind_eq [OF d]
    by (auto simp: run_spi_read run_spi_write Let_def set_reg_def split: option.split)
qed

lemma run_set_intf_delay:
  "\<exists>t. run_state (set_intf_delay chip_bus tx c d ch) s = ((), t) \<and>
     get_reg t (delay_reg tx) = delay_byte c d \<and> ph_conv t = ph_conv s"
proof -
  have frame: "\<exists>t. run_state (if ch then ensm_force_state chip_bus e else rtn ()) u = ((), t) \<and>
      get_reg t (delay_reg tx) = get_reg u (delay_reg tx) \<and> ph_conv t = ph_conv u" for e u
    using run_force_frame [OF delay_reg_apart [of tx], of e u] by (cases ch) simp_all
  obtain s1 where 1: "run_state (if ch then ensm_force_state chip_bus (ucast ENSM_STATE_ALERT) else rtn ()) s = ((), s1)"
    "ph_conv s1 = ph_conv s"
    using frame [of "ucast ENSM_STATE_ALERT" s] by blast
  define s2 where "s2 = set_reg (delay_reg tx) (delay_byte c d) s1"
  have 2: "run_state (spi_write chip_bus (REG_RX_CLOCK_DATA_DELAY + (if tx then 1 else 0))
      (RX_DATA_DELAY d OR DATA_CLK_DELAY c)) s1 = (0, s2)"
    by (simp add: run_spi_write s2_def delay_reg_def delay_byte_def)
  have s2: "get_reg s2 (delay_reg tx) = delay_byte c d" "ph_conv s2 = ph_conv s"
    by (simp_all add: s2_def set_reg_def 1(2))
  obtain t where 3: "run_state (if ch then ensm_force_state chip_bus (ucast ENSM_STATE_FDD) else rtn ()) s2 = ((), t)"
    "get_reg t (delay_reg tx) = get_reg s2 (delay_reg tx)" "ph_conv t = ph_conv s2"
    using frame [of "ucast ENSM_STATE_FDD" s2] by blast
  show ?thesis
    unfolding set_intf_delay_def run_bind_eq [OF 1(1)] run_bind_eq [OF 2] 3(1) using 3 s2 by simp
qed

subsection \<open>Sweeping the settings\<close>

text \<open>The setting number \<open>j\<close> of row \<open>i\<close>, and the row of results.\<close>

definition tested :: "bool \<Rightarrow> nat \<Rightarrow> u8" where
  "tested i j = delay_byte (if i then 15 else 0) (if i then 15 - of_nat j else of_nat j)"

definition result :: "(u8 \<Rightarrow> bool) \<Rightarrow> bool \<Rightarrow> nat \<Rightarrow> u8" where
  "result good i j = (if good (tested i j) then 0 else 1)"

definition eye :: "(u8 \<Rightarrow> bool) \<Rightarrow> bool \<Rightarrow> u8 list" where
  "eye good i = map (result good i) [0..<16]"

text \<open>A converter whose check tells whether the delay register holds a good setting.\<close>

definition checks :: "regfile axi_adc \<Rightarrow> bool \<Rightarrow> (u8 \<Rightarrow> bool) \<Rightarrow> axiadc_converter option \<Rightarrow> bool" where
  "checks ax tx good cv \<longleftrightarrow> (\<forall>t. ph_conv t = cv \<longrightarrow>
     run_state (check_pn ax tx 4) t = (if good (get_reg t (delay_reg tx)) then 0 else 1, t))"

lemma run_delay_row:
  assumes "checks ax tx good cv" "ph_conv s = cv"
  shows "\<exists>t. run_state (delay_row chip_bus ax tx i (replicate k 0) j) s = (map (result good i) [j..<j + k], t) \<and> ph_conv t = cv"
  using assms(2)
proof (induction k arbitrary: j s)
  case (Suc k)
  let ?c = "if i then 15 else 0 :: u32" let ?d = "if i then 15 - of_nat j else of_nat j :: u32"
  obtain s1 where 1: "run_state (set_intf_delay chip_bus tx ?c ?d (j = 0)) s = ((), s1)"
    "get_reg s1 (delay_reg tx) = delay_byte ?c ?d" "ph_conv s1 = cv"
    using run_set_intf_delay [of tx ?c ?d "j = 0" s] Suc.prems by blast
  have 2: "run_state (check_pn ax tx 4) s1 = (result good i j, s1)"
    using assms(1) 1(2,3) by (simp add: checks_def result_def tested_def)
  obtain t where 3: "run_state (delay_row chip_bus ax tx i (replicate k 0) (Suc j)) s1 = (map (result good i) [Suc j..<Suc j + k], t)"
    "ph_conv t = cv" using Suc.IH [OF 1(3), of "Suc j"] by blast
  have split: "[j..<j + Suc k] = j # [Suc j..<Suc j + k]" by (simp add: upt_rec)
  show ?case
    unfolding replicate_Suc delay_row.simps run_bind_eq [OF 1(1)] run_bind_eq [OF 2] run_bind_eq [OF 3(1)] split
    using 3(2) by simp
qed simp

lemma run_delay_rates:
  assumes "checks ax tx good cv" "ph_conv s = cv"
  shows "\<exists>t. run_state (delay_rates chip_bus ax f tx 0 half (replicate 16 0, replicate 16 0) [r]) s =
      (Some (eye good False, eye good True), t) \<and> ph_conv t = cv"
proof -
  obtain s1 where 1: "run_state (delay_row chip_bus ax tx False (replicate 16 0) 0) s = (eye good False, s1)" "ph_conv s1 = cv"
    using run_delay_row [OF assms, of False 16 0] by (auto simp: eye_def)
  obtain s2 where 2: "run_state (delay_row chip_bus ax tx True (replicate 16 0) 0) s1 = (eye good True, s2)" "ph_conv s2 = cv"
    using run_delay_row [OF assms(1) 1(2), of True 16 0] by (auto simp: eye_def)
  show ?thesis by (simp add: 1(1) 2)
qed

subsection \<open>Choosing the setting\<close>

lemma eye_nth: "j < 16 \<Longrightarrow> eye good i ! j = result good i j"
  by (simp add: eye_def)

lemma length_eye: "length (eye good i) = 16"
  by (simp add: eye_def)

lemma eye_run:
  assumes "zero_run (eye good i) k m"
  shows "k + m \<le> 16" "j < m \<Longrightarrow> good (tested i (k + j))"
proof -
  show le: "k + m \<le> 16" using assms by (simp add: zero_run_def length_eye)
  show "good (tested i (k + j))" if "j < m"
  proof -
    have "eye good i ! (k + j) = 0" using assms that by (simp add: zero_run_def)
    then show ?thesis using le that by (simp add: eye_nth result_def split: if_splits)
  qed
qed

lemma single_run: "j < 16 \<Longrightarrow> good (tested i j) \<Longrightarrow> zero_run (eye good i) j 1"
  by (simp add: zero_run_def length_eye eye_nth result_def)

lemma middle_word: "middle (int m, int i) = of_nat (i + m div 2)" if "m < 2 ^ 32"
  using that by (simp add: middle_def word_unat_eq_iff [of "_ div _"] unat_div unsigned_of_nat take_bit_eq_mod)

text \<open>
  C29. Tuning one direction without changing rates. The converter's check depends on the delay
  register only, and a setting of the second row (clock delay 15, data delay 15 - j) passes
  like the one that is programmed for it (clock delay j, no data delay): the skew is the
  same. Then the run fails with -5 exactly when none of the 32 settings passes. Otherwise the
  middle of a longest run of passing settings of both rows is programmed, and it passes.
\<close>

theorem dig_tune_delay_programs_good:
  assumes check: "checks ax tx good (ph_conv s)"
    and skew: "\<And>j. j < 16 \<Longrightarrow> good (tested True j) \<longleftrightarrow> good (delay_byte (of_nat j) 0)"
  shows "\<exists>ret t. run_state (dig_tune_delay chip_bus ax f 0 tx) s = (Some ret, t) \<and>
    (if \<exists>i j. j < 16 \<and> good (tested i j)
     then ret = 0 \<and> good (get_reg t (delay_reg tx)) \<and>
       (\<exists>i k m. zero_run (eye good i) k m \<and> (\<forall>i' k' m'. zero_run (eye good i') k' m' \<longrightarrow> m' \<le> m) \<and>
         get_reg t (delay_reg tx) = (if i then delay_byte (of_nat (k + m div 2)) 0 else delay_byte 0 (of_nat (k + m div 2))))
     else ret = - 5)"
proof -
  define half where "half \<longleftrightarrow> \<not> (uses_lvds_mode s \<or> \<not> uses_rx2tx2 s)"
  have one: "take 1 tune_rates = [25000000]" by (simp add: tune_rates_def)
  obtain s1 where 1: "run_state (delay_rates chip_bus ax f tx 0 half (replicate 16 0, replicate 16 0) [25000000]) s =
      (Some (eye good False, eye good True), s1)" using run_delay_rates [OF check refl] by blast
  obtain m0 k0 where 0: "find_opt (eye good False) = (int m0, int k0)" "best_before (eye good False) 16 m0 k0"
    using find_opt_spec [of "eye good False"] by (auto simp: length_eye)
  obtain m1 k1 where 2: "find_opt (eye good True) = (int m1, int k1)" "best_before (eye good True) 16 m1 k1"
    using find_opt_spec [of "eye good True"] by (auto simp: length_eye)
  have best: "zero_run (eye good False) k0 m0" "zero_run (eye good True) k1 m1"
    "\<And>k m. zero_run (eye good False) k m \<Longrightarrow> m \<le> m0" "\<And>k m. zero_run (eye good True) k m \<Longrightarrow> m \<le> m1"
    using 0(2) 2(2) by (auto simp: best_before_def zero_run_def length_eye)
  have run: "run_state (dig_tune_delay chip_bus ax f 0 tx) s =
      run_state (program_delay chip_bus tx (eye good False) (eye good True) \<bind> (\<lambda>ret. rtn (Some ret))) s1"
    unfolding dig_tune_delay_def Let_def run_bind_get one half_def [symmetric]
    by (simp add: 1 del: delay_rates.simps)
  have none: "(\<exists>i j. j < 16 \<and> good (tested i j)) \<longleftrightarrow> 0 < m0 \<or> 0 < m1"
  proof
    assume "\<exists>i j. j < 16 \<and> good (tested i j)"
    then obtain i j where "zero_run (eye good i) j 1" using single_run by blast
    then show "0 < m0 \<or> 0 < m1" using best(3,4) by (cases i) fastforce+
  next
    assume "0 < m0 \<or> 0 < m1"
    then show "\<exists>i j. j < 16 \<and> good (tested i j)"
    proof
      assume "0 < m0"
      then show ?thesis using eye_run(1) [OF best(1)] eye_run(2) [OF best(1), of 0] by (intro exI [of _ False] exI [of _ k0]) simp
    next
      assume "0 < m1"
      then show ?thesis using eye_run(1) [OF best(2)] eye_run(2) [OF best(2), of 0] by (intro exI [of _ True] exI [of _ k1]) simp
    qed
  qed
  show ?thesis
  proof (cases "0 < m0 \<or> 0 < m1")
    case False
    then have "run_state (program_delay chip_bus tx (eye good False) (eye good True)) s1 = (- 5, s1)"
      by (simp add: program_delay_def 0 2)
    then show ?thesis using False none unfolding run by simp
  next
    case True
    have "m0 \<le> 16" "m1 \<le> 16" using eye_run(1) [OF best(1)] eye_run(1) [OF best(2)] by simp_all
    then have mid: "middle (int m0, int k0) = of_nat (k0 + m0 div 2)" "middle (int m1, int k1) = of_nat (k1 + m1 div 2)"
      by (simp_all add: middle_word)
    define i where "i \<longleftrightarrow> m0 < m1"
    define k where "k = (if i then k1 else k0)"
    define m where "m = (if i then m1 else m0)"
    let ?p = "k + m div 2"
    have b: "zero_run (eye good i) k m" "0 < m" "\<And>i' k' m'. zero_run (eye good i') k' m' \<Longrightarrow> m' \<le> m"
      using best True by (auto simp: i_def k_def m_def) (metis (full_types) le_trans less_imp_le_nat not_less)+
    have p: "?p < 16" using eye_run(1) [OF b(1)] b(2) by linarith
    have good: "good (tested i ?p)" using eye_run(2) [OF b(1), of "m div 2"] b(2) by simp
    obtain t where t: "run_state (set_intf_delay chip_bus tx (if i then of_nat ?p else 0) (if i then 0 else of_nat ?p) True) s1 = ((), t)"
      "get_reg t (delay_reg tx) = delay_byte (if i then of_nat ?p else 0) (if i then 0 else of_nat ?p)"
      using run_set_intf_delay by blast
    have prog: "run_state (program_delay chip_bus tx (eye good False) (eye good True)) s1 = (0, t)"
      using True t(1) unfolding program_delay_def by (auto simp: 0 2 mid i_def k_def m_def)
    have "good (get_reg t (delay_reg tx))"
      using good skew [OF p] unfolding t(2) by (cases i) (simp_all add: tested_def)
    moreover have "get_reg t (delay_reg tx) = (if i then delay_byte (of_nat ?p) 0 else delay_byte 0 (of_nat ?p))"
      unfolding t(2) by simp
    ultimately have "good (get_reg t (delay_reg tx)) \<and> (\<exists>i k m. zero_run (eye good i) k m \<and>
        (\<forall>i' k' m'. zero_run (eye good i') k' m' \<longrightarrow> m' \<le> m) \<and>
        get_reg t (delay_reg tx) = (if i then delay_byte (of_nat (k + m div 2)) 0 else delay_byte 0 (of_nat (k + m div 2))))"
      using b by blast
    then show ?thesis using True unfolding none run run_bind_eq [OF prog] by (intro exI [of _ 0] exI [of _ t]) simp
  qed
qed

text \<open>
  A converter with one status word: it reads 0 when the setting in the delay register is good.
\<close>

definition eye_adc :: "u32 \<Rightarrow> (u8 \<Rightarrow> bool) \<Rightarrow> regfile axi_adc" where
  "eye_adc reg good = \<lparr>axi_read = (\<lambda>r c. (if r = 0 then 1 else if good (c (AD_ADDR reg)) then 0 else 1, c)),
     axi_write = (\<lambda>_ _ c. c), axi_idelay_set = (\<lambda>_ _ c. c), axi_set_pnsel = (\<lambda>_ _ c. c), axi_mdelay = (\<lambda>_ c. c),
     ADI_REG_CHAN_STATUS = (\<lambda>_. 4), ADI_REG_CHAN_CNTRL = (\<lambda>_. 8), ADI_REG_CHAN_CNTRL_1 = (\<lambda>_. 8),
     ADI_REG_CHAN_CNTRL_2 = (\<lambda>_. 8), ADI_REG_DELAY = (\<lambda>_. 8), ADI_DCFILT_OFFSET = (\<lambda>_. 0), ADI_REG_STATUS = 0,
     ADI_REG_RSTN = 8, ADI_REG_CNTRL = 8, ADI_REG_CONFIG = 8, ADI_REG_CLOCKS_PER_PPS = 8,
     ADI_REG_CLOCKS_PER_PPS_STATUS = 8, ADI_AXI_REG_ID = 8, ADI_PN_ERR = 4, ADI_PN_OOS = 2, ADI_STATUS = 1,
     ADI_RSTN = 1, ADI_MMCM_RSTN = 2, ADI_R1_MODE = 4, ADI_FORMAT_SIGNEXT = 64, ADI_FORMAT_ENABLE = 16,
     ADI_ENABLE = 1, ADI_IQCOR_ENB = 512, ADI_PPS_RECEIVER_ENABLE = 256, ADI_CLOCKS_PER_PPS_STAT_INVAL = 1,
     ADI_CMOS_OR_LVDS_N = 128\<rparr>"

definition four_channels :: axiadc_converter where
  "four_channels = \<lparr>cv_id = 8, cv_chip_info = axiadc_chip_info_tbl ID_AD9361, cv_adc_clk = 0, cv_scratch_reg = (\<lambda>_. 0)\<rparr>"

lemma eye_adc_checks: "checks (eye_adc (delay_reg tx) good) tx good (Some four_channels)"
proof -
  define reg where "reg = delay_reg tx"
  show ?thesis unfolding checks_def reg_def [symmetric]
proof (intro allI impI)
  fix t :: "regfile ad9361" assume cv: "ph_conv t = Some four_channels"
  have n: "num_phy_chan t = 4" by (simp add: num_phy_chan_def num_channels_def cv four_channels_def axiadc_chip_info_tbl_def)
  have clear: "run_state (clear_status (eye_adc reg good) k j) u = ((), u)" for k j u
    by (induction k arbitrary: j) (simp_all add: axiadc_write_def on_chip_def eye_adc_def)
  have wait: "run_state (on_chip (axi_mdelay (eye_adc reg good) 4)) u = ((), u)" for u
    by (simp add: on_chip_def eye_adc_def)
  have any: "run_state (any_status (eye_adc reg good) k j) t = (if good (get_reg t (reg)) \<or> k = 0 then 0 else 1, t)" for k j
    by (induction k arbitrary: j) (simp_all add: axiadc_read_def eye_adc_def)
  have status: "run_state (axiadc_read (eye_adc reg good) (ADI_REG_STATUS (eye_adc reg good))) t = (1, t)"
    "ADI_STATUS (eye_adc reg good) = 1"
    by (simp_all add: axiadc_read_def eye_adc_def)
  show "run_state (check_pn (eye_adc reg good) tx 4) t = (if good (get_reg t (reg)) then 0 else 1, t)"
    unfolding check_pn_def run_bind_get Let_def n run_bind_eq [OF clear] run_bind_eq [OF wait]
    by (simp add: run_state_if any [of 4 0, simplified] status)
qed
qed

text \<open>With passing settings at a clock delay of 3 to 9 beyond the data delay, 6 is programmed.\<close>

definition skew_of :: "u8 \<Rightarrow> int" where
  "skew_of b = int (unat (drop_bit 4 b AND 0xF)) - int (unat (b AND 0xF))"

definition skew_3_9 :: "u8 \<Rightarrow> bool" where
  "skew_3_9 b \<longleftrightarrow> 3 \<le> skew_of b \<and> skew_of b \<le> 9"

lemma skew_delay_byte:
  assumes "unat c < 2 ^ 4" "unat d < 2 ^ 4"
  shows "skew_of (delay_byte c d) = int (unat c) - int (unat d)"
proof -
  have m: "0xF = (mask 4 :: u32)" by (simp add: mask_eq_exp_minus_1)
  have keep: "x AND 0xF = x" if "unat x < 2 ^ 4" for x :: u32
    unfolding m by (rule bit_word_eqI) (auto simp: bit_simps dest: small_bits [OF that])
  have "delay_byte c d = ucast (push_bit 4 c OR d)"
    unfolding delay_byte_def RX_DATA_DELAY_def DATA_CLK_DELAY_def keep [OF assms(1)] keep [OF assms(2)]
    by (simp only: or.commute)
  then show ?thesis unfolding skew_of_def by (simp only: nibbles [OF assms(2,1)])
qed

lemma delay_bytes:
  assumes "j < 16"
  shows "skew_of (tested True j) = int j" "skew_of (delay_byte (of_nat j) 0) = int j"
proof -
  have j: "unat (of_nat j :: u32) = j" using assms by (simp add: unsigned_of_nat take_bit_eq_mod)
  moreover from this assms have "unat (15 - of_nat j :: u32) = 15 - j" by (simp add: unat_minus_le word_le_nat_alt)
  ultimately show "skew_of (tested True j) = int j" "skew_of (delay_byte (of_nat j) 0) = int j"
    using assms by (simp_all add: tested_def skew_delay_byte of_nat_diff)
qed

theorem dig_tune_delay_programs_good_witness:
  "\<exists>t. run_state (dig_tune_delay chip_bus (eye_adc (delay_reg False) skew_3_9) (\<lambda>_. rtn None) 0 False)
      (ad_zero\<lparr>ph_conv := Some four_channels\<rparr>) = (Some 0, t) \<and> skew_3_9 (get_reg t (delay_reg False))"
proof -
  let ?s = "ad_zero\<lparr>ph_conv := Some four_channels\<rparr> :: regfile ad9361"
  have check: "checks (eye_adc (delay_reg False) skew_3_9) False skew_3_9 (ph_conv ?s)" using eye_adc_checks by simp
  have skew: "skew_3_9 (tested True j) \<longleftrightarrow> skew_3_9 (delay_byte (of_nat j) 0)" if "j < 16" for j
    using delay_bytes [OF that] by (simp add: skew_3_9_def)
  have "skew_3_9 (tested True 5)" using delay_bytes [of 5] by (simp add: skew_3_9_def)
  then have "\<exists>i j. j < 16 \<and> skew_3_9 (tested i j)" by (intro exI [of _ True] exI [of _ 5]) simp
  then show ?thesis using dig_tune_delay_programs_good [OF check skew, of "\<lambda>_. rtn None"] by auto
qed

subsection \<open>A run within a run\<close>

text \<open>With frequency 0 no chain is programmed, so the nested run does not depend on how that is done.\<close>

lemma delay_rates_zero: "delay_rates bus ax f tx 0 half field rs = delay_rates bus ax g tx 0 half field rs"
proof (induction rs arbitrary: field)
  case (Cons r rs)
  show ?case by (cases field) (simp add: Cons)
qed simp

lemma dig_tune_zero: "dig_tune_at bus ax f 0 fl = dig_tune_at bus ax g 0 fl"
proof -
  have d: "dig_tune_delay bus ax f 0 tx = dig_tune_delay bus ax g 0 tx" for tx
    unfolding dig_tune_delay_def delay_rates_zero [of bus ax f tx _ _ _ g] ..
  show ?thesis
    unfolding dig_tune_at_def tune_directions_def dig_tune_rx_def dig_tune_tx_def d ..
qed

lemma tune_within_is_dig_tune: "tune_within bus ax 0 fl = dig_tune bus fw ax 0 fl"
  unfolding tune_within_def dig_tune_def by (rule dig_tune_zero)

subsection \<open>Corner cases\<close>

text \<open>The skip mode that is saved before the converter's set-up is not the one that was set.\<close>

lemma skipmode_getter_loses:
  "pd_dig_interface_tune_skipmode s = SKIP_ALL \<Longrightarrow> get_dig_interface_tune_skipmode s = ucast SKIP_TX"
  by (simp add: get_dig_interface_tune_skipmode_def SKIP_ALL_def SKIP_TX_def)

text \<open>
  A delay that is set with a changed clock forces two states; the second one records that pin
  control was off, and what is restored after the run keeps it off.
\<close>

lemma forced_clears_pin: "\<not> bit (forced e d c) 4"
  by (simp add: forced_def Let_def bit_or_iff bit_and_iff bit_not_iff)

lemma set_intf_delay_forgets_pin:
  assumes "dev_state s \<noteq> 0x5" "dev_state s \<noteq> 0xA"
  shows "\<not> st_ensm_pin_ctl_en (snd (run_state (set_intf_delay chip_bus tx c d True) s))"
proof -
  let ?e1 = "ucast ENSM_STATE_ALERT :: u8" and ?e2 = "ucast ENSM_STATE_FDD :: u8"
  have e: "?e1 = 0x5" "?e2 = 0xA" by (simp_all add: ad_regs)
  have h: "handled ?e1" "handled ?e2" by (simp_all add: handled_def e)
  obtain s1 where 1: "run_state (ensm_force_state chip_bus ?e1) s = ((), s1)"
    by (cases "run_state (ensm_force_state chip_bus ?e1) s") simp
  have "s1 = snd (run_state (ensm_force_state chip_bus ?e1) s)" by (simp add: 1)
  also have "\<dots> = set_reg REG_ENSM_CONFIG_1 (forced ?e1 (dev_state s) (get_reg s REG_ENSM_CONFIG_1))
      (set_reg REG_ENSM_CONFIG_1 5
        (s\<lparr>st_prev_ensm_state := dev_state s, st_ensm_pin_ctl_en := bit (get_reg s REG_ENSM_CONFIG_1) 4\<rparr>))"
    by (rule run_force [OF h(1)]) (simp add: e assms)
  finally have s1: "\<not> bit (get_reg s1 REG_ENSM_CONFIG_1) 4" "dev_state s1 = dev_state s"
    by (simp_all add: forced_clears_pin dev_state_def set_reg_def ad_regs AD_ADDR_def)
  define s2 where "s2 = set_reg (delay_reg tx) (delay_byte c d) s1"
  have 2: "run_state (spi_write chip_bus (REG_RX_CLOCK_DATA_DELAY + (if tx then 1 else 0))
      (RX_DATA_DELAY d OR DATA_CLK_DELAY c)) s1 = (0, s2)"
    by (simp add: run_spi_write s2_def delay_reg_def delay_byte_def)
  have s2: "\<not> bit (get_reg s2 REG_ENSM_CONFIG_1) 4" "dev_state s2 = dev_state s"
    using s1 by (simp_all add: s2_def dev_state_def set_reg_def delay_reg_def ad_regs AD_ADDR_def)
  have "snd (run_state (set_intf_delay chip_bus tx c d True) s) = snd (run_state (ensm_force_state chip_bus ?e2) s2)"
    unfolding set_intf_delay_def if_True run_bind_eq [OF 1] run_bind_eq [OF 2] ..
  also have "\<dots> = set_reg REG_ENSM_CONFIG_1 (forced ?e2 (dev_state s2) (get_reg s2 REG_ENSM_CONFIG_1))
      (set_reg REG_ENSM_CONFIG_1 5
        (s2\<lparr>st_prev_ensm_state := dev_state s2, st_ensm_pin_ctl_en := bit (get_reg s2 REG_ENSM_CONFIG_1) 4\<rparr>))"
    by (rule run_force [OF h(2)]) (simp add: e assms s2(2))
  finally show ?thesis using s2(1) by (simp add: set_reg_def)
qed

text \<open>The timing report is written past the end of a buffer that is shorter than it.\<close>

lemma timing_report_overruns:
  "report_extent 100 0 (report_pieces 1 (replicate 16 (replicate 16 0))) = 618"
  by code_simp

end
