(* ===== verification/Ad_Bbf.thy ===== *)
theory Ad_Bbf
  imports Ad_Chain
begin

unbundle bit_operations_syntax

text \<open>
  The analog baseband filters of the AD9361 and what is derived from their calibration: the
  tuning of the receive and transmit filters, the transimpedance amplifier, the second
  transmit filter and the settings of the receive ADC. \<open>isqrt\<close> is the kernel's \<^verbatim>\<open>int_sqrt\<close>.
  \<open>None\<close> is a division by zero.
\<close>

definition read_u8 :: "'c bus \<Rightarrow> u32 \<Rightarrow> ('c ad9361, u8) state" where
  "read_u8 bus r = do { v \<leftarrow> spi_read bus r; rtn (word_of_int v) }"

subsection \<open>Tuning the filters\<close>

definition rx_bbf_divider :: "ulong \<Rightarrow> ulong \<Rightarrow> u32" where
  "rx_bbf_divider bw bbpll_freq = min 511 (div_round_up bbpll_freq (126906 * (bw div 10000)))"

definition rx_bb_analog_filter_calib :: "'c bus \<Rightarrow> ulong \<Rightarrow> ulong \<Rightarrow> ('c ad9361, int) state" where
  "rx_bb_analog_filter_calib bus rx_bb_bw bbpll_freq =
     (let bw = clamp_u32 rx_bb_bw 200000 28000000;
          khz = (ucast (div_closest (bw mod 1000000 * 128) 1000000) :: u8)
      in do {
        _ \<leftarrow> upd_phy (\<lambda>s. s\<lparr>st_rxbbf_div := rx_bbf_divider bw bbpll_freq\<rparr>);
        s \<leftarrow> get_phy;
        _ \<leftarrow> spi_write bus REG_RX_BBF_TUNE_DIVIDE (st_rxbbf_div s);
        _ \<leftarrow> spi_writef bus REG_RX_BBF_TUNE_CONFIG 1 (drop_bit 8 (st_rxbbf_div s));
        _ \<leftarrow> spi_write bus REG_RX_BBBW_MHZ (bw div 1000000);
        _ \<leftarrow> spi_write bus REG_RX_BBBW_KHZ (ucast (min 127 khz));
        _ \<leftarrow> spi_write bus REG_RX_MIX_LO_CM (RX_MIX_LO_CM 0x3F);
        _ \<leftarrow> spi_write bus REG_RX_MIX_GM_CONFIG (RX_MIX_GM_PLOAD 3);
        _ \<leftarrow> spi_write bus REG_RX1_TUNE_CTRL RX1_TUNE_RESAMPLE;
        _ \<leftarrow> spi_write bus REG_RX2_TUNE_CTRL RX2_TUNE_RESAMPLE;
        ret \<leftarrow> run_calibration bus RX_BB_TUNE_CAL;
        _ \<leftarrow> spi_write bus REG_RX1_TUNE_CTRL (RX1_TUNE_RESAMPLE OR RX1_PD_TUNE);
        _ \<leftarrow> spi_write bus REG_RX2_TUNE_CTRL (RX2_TUNE_RESAMPLE OR RX2_PD_TUNE);
        rtn ret
      })"

definition tx_bbf_divider :: "ulong \<Rightarrow> ulong \<Rightarrow> u32" where
  "tx_bbf_divider bw bbpll_freq = min 511 (div_round_up bbpll_freq (145036 * (bw div 10000)))"

definition tx_bb_analog_filter_calib :: "'c bus \<Rightarrow> ulong \<Rightarrow> ulong \<Rightarrow> ('c ad9361, int) state" where
  "tx_bb_analog_filter_calib bus tx_bb_bw bbpll_freq =
     (let txbbf_div = tx_bbf_divider (clamp_u32 tx_bb_bw 625000 20000000) bbpll_freq
      in do {
        _ \<leftarrow> spi_write bus REG_TX_BBF_TUNE_DIVIDER txbbf_div;
        _ \<leftarrow> spi_writef bus REG_TX_BBF_TUNE_MODE TX_BBF_TUNE_DIVIDER (drop_bit 8 txbbf_div);
        _ \<leftarrow> spi_write bus REG_TX_TUNE_CTRL (TUNER_RESAMPLE OR TUNE_CTRL 1);
        ret \<leftarrow> run_calibration bus TX_BB_TUNE_CAL;
        _ \<leftarrow> spi_write bus REG_TX_TUNE_CTRL (TUNER_RESAMPLE OR TUNE_CTRL 1 OR PD_TUNE);
        rtn ret
      })"

subsection \<open>The second transmit filter\<close>

text \<open>\<open>k\<close> rounds are left; the capacitance and the resistance factor of the last one.\<close>

fun second_filter :: "ulong \<Rightarrow> nat \<Rightarrow> ulong \<Rightarrow> u64 \<Rightarrow> u64 \<times> ulong" where
  "second_filter corner 0 res cap = (cap, res)"
| "second_filter corner (Suc k) res cap =
     (let d = corner * res; cap' = (500000000 + ucast (drop_bit 1 d)) div ucast d - 12
      in if cap' < 64 then (cap', res) else second_filter corner k (push_bit 1 res) cap')"

definition second_filter_conf :: "ulong \<Rightarrow> u32" where
  "second_filter_conf bw = (if bw \<le> 4500000 then 0x59 else if bw \<le> 12000000 then 0x56 else 0x57)"

definition second_filter_res :: "ulong \<Rightarrow> u32" where
  "second_filter_res res = (if res = 1 then 0x0C else if res = 2 then 0x04 else if res = 4 then 0x03 else 0x01)"

definition tx_bb_second_filter_calib :: "'c bus \<Rightarrow> ulong \<Rightarrow> ('c ad9361, int) state" where
  "tx_bb_second_filter_calib bus tx_bb_bw =
     (let bw = clamp_u32 tx_bb_bw 530000 20000000;
          (cap, res) = second_filter (15708 * (bw div 10000)) 4 1 0;
          cap = min 63 cap
      in do {
        r1 \<leftarrow> spi_write bus REG_CONFIG0 (second_filter_conf bw);
        r2 \<leftarrow> spi_write bus REG_RESISTOR (second_filter_res res);
        r3 \<leftarrow> spi_write bus REG_CAPACITOR (ucast (ucast cap :: u8));
        rtn (r1 OR r2 OR r3)
      })"

subsection \<open>The transimpedance amplifier\<close>

text \<open>\<^verbatim>\<open>do_div\<close>: a 64-bit value by the low 32 bits of a divisor.\<close>

definition do_div :: "u64 \<Rightarrow> u32 \<Rightarrow> u64" where
  "do_div n base = n div ucast base"

text \<open>The capacitance in fF that the calibrated filter asks for, and the two capacitor bytes.\<close>

definition tia_capacitance :: "u8 \<Rightarrow> u8 \<Rightarrow> u8 \<Rightarrow> u64" where
  "tia_capacitance c3_msb c3_lsb r2346 =
     (let cbbf = ucast c3_msb * 160 + ucast c3_lsb * 10 + 140 :: ulong;
          r = 18300 * RX_BBF_R2346 (ucast r2346) :: ulong
      in do_div (ucast (cbbf * r) * 560) 3500000)"

definition tia_bytes :: "u64 \<Rightarrow> u8 \<times> u8" where
  "tia_bytes ctia =
     (if 2920 < ctia then (0x40, ucast (min 127 (div_closest (ucast ctia - 400) 320)))
      else (ucast (div_closest (ucast ctia - 400) 40 + 0x40), 0))"

definition tia_config :: "ulong \<Rightarrow> u32" where
  "tia_config bw = (if bw \<le> 3000000 then 0xE0 else if bw \<le> 10000000 then 0x60 else 0x20)"

definition rx_tia_calib :: "'c bus \<Rightarrow> ulong \<Rightarrow> ('c ad9361, int) state" where
  "rx_tia_calib bus bb_bw_Hz = do {
     c3_msb \<leftarrow> read_u8 bus REG_RX_BBF_C3_MSB;
     c3_lsb \<leftarrow> read_u8 bus REG_RX_BBF_C3_LSB;
     r2346 \<leftarrow> read_u8 bus REG_RX_BBF_R2346;
     let (lsb, msb) = tia_bytes (tia_capacitance c3_msb c3_lsb r2346);
     _ \<leftarrow> spi_write bus REG_RX_TIA_CONFIG (tia_config (clamp_u32 bb_bw_Hz 200000 20000000));
     _ \<leftarrow> spi_write bus REG_TIA1_C_LSB (ucast lsb);
     _ \<leftarrow> spi_write bus REG_TIA1_C_MSB (ucast msb);
     _ \<leftarrow> spi_write bus REG_TIA2_C_LSB (ucast lsb);
     _ \<leftarrow> spi_write bus REG_TIA2_C_MSB (ucast msb);
     rtn 0
   }"

subsection \<open>The receive ADC\<close>

text \<open>The bandwidth the filter was tuned to, from the divider the tuning left.\<close>

definition adc_bandwidth :: "ulong \<Rightarrow> u32 \<Rightarrow> ulong option" where
  "adc_bandwidth bbpll_freq rxbbf_div =
     (let base = 126906 * rxbbf_div
      in if base = 0 then None
         else Some (clamp_u32 (ucast (do_div (ucast bbpll_freq * 10000) base)) 200000 28000000))"

text \<open>The inverse of the time constant of the filter, times one million.\<close>

definition adc_invrc :: "u8 \<Rightarrow> u8 \<Rightarrow> u8 \<Rightarrow> ulong \<Rightarrow> u64" where
  "adc_invrc c3_msb c3_lsb r2346 bw =
     (let p = 160975 * ucast r2346 * (160 * ucast c3_msb + 10 * ucast c3_lsb + 140) * ucast bw :: u64
      in do_div (if 18000000 \<le> bw then do_div (p * ucast (1000 + 10 * (bw - 18000000) div 1000000)) 1000 else p)
           1000000000)"

text \<open>The forty bytes of the ADC's registers.\<close>

definition adc_data :: "(ulong \<Rightarrow> ulong) \<Rightarrow> ulong \<Rightarrow> u64 \<Rightarrow> u8 list option" where
  "adc_data isqrt freq invrc =
     (let base = (ucast invrc :: u32); base77 = (ucast (invrc * 77) :: u32); khz = div_closest freq 1000
      in if khz = 0 \<or> base = 0 \<or> base77 = 0 then None
         else let
           scale_snr = (if freq < 80000000 then 1000 else 1585) :: u64;
           sqrt_inv = isqrt (ucast invrc);
           scaled = div_closest freq 640;
           inv_scaled = div_closest 640000000 khz;
           tmp_1e3 = div_closest (980000 + 20 * max 1000 (div_closest inv_scaled 4)) 1000;
           sqrt_term = isqrt scaled;
           min_sqrt = min 1000 (isqrt (4 * scaled));
           d7 = ucast (min 124 (do_div (8 * scale_snr * ucast sqrt_inv * ucast min_sqrt - 50000000) 100000000)) :: u32;
           d8 = ucast (min 255 (do_div (drop_bit 1 invrc + ucast (20 * inv_scaled * d7 div 80) * 1000) base)) :: u32;
           d10 = ucast (min 127 (do_div (77 * ucast sqrt_inv * ucast min_sqrt - 500000) 1000000)) :: u32;
           d9 = min 127 (800 * d10 div 1000);
           d11 = ucast (min 255 (do_div (drop_bit 1 invrc + ucast (20 * inv_scaled * d10) * 1000) base77)) :: u32;
           d12 = min 127 ((80 * sqrt_inv * min_sqrt - 500000) div 1000000);
           d13 = ucast (min 255 (do_div (scast (- 3 * (ucast (drop_bit 1 invrc) :: u32)) +
                   ucast (inv_scaled * d12) * 250) base)) :: u32;
           d14 = 21 * (inv_scaled div 10000);
           d15 = min 127 ((500 + 1025 * d7) div 1000);
           d16 = min 127 (d15 * tmp_1e3 div 1000);
           d18 = min 127 ((500 + 975 * d10) div 1000);
           d19 = min 127 (d18 * tmp_1e3 div 1000);
           d21 = min 127 ((500 + 975 * d12) div 1000);
           d22 = min 127 (d21 * tmp_1e3 div 1000);
           d25 = 128 + min 63000 (div_closest (63 * scaled) 1000) div 1000;
           d26 = min 63 (63 * scaled div 1000000 * (920 + 80 * inv_scaled div 1000) div 1000);
           d27 = min 63 (32 * sqrt_term div 1000);
           d33 = min 63 (63 * sqrt_term div 1000);
           d34 = min 127 (64 * sqrt_term div 1000)
         in Some (map ucast [0, 0, 0, 0x24, 0x24, 0, 0, d7, d8, d9, d10, d11, d12, d13, d14, d15, d16, d15,
              d18, d19, d18, d21, d22, d21, 0x2E, d25, d26, d27, d25, d26, d27, d25, d26, d33, d34,
              0x40, 0x40, 0x2C, 0, 0]))"

fun adc_write :: "'c bus \<Rightarrow> u32 \<Rightarrow> u8 list \<Rightarrow> ('c ad9361, int) state" where
  "adc_write bus i [] = rtn 0"
| "adc_write bus i (b # bs) = do {
     ret \<leftarrow> spi_write bus (0x200 + i) (ucast b);
     if ret < 0 then rtn ret else adc_write bus (i + 1) bs
   }"

definition rx_adc_setup :: "'c bus \<Rightarrow> (ulong \<Rightarrow> ulong) \<Rightarrow> ulong \<Rightarrow> ulong \<Rightarrow> ('c ad9361, int option) state" where
  "rx_adc_setup bus isqrt bbpll_freq adc_sampl_freq_Hz = do {
     c3_msb \<leftarrow> read_u8 bus REG_RX_BBF_C3_MSB;
     c3_lsb \<leftarrow> read_u8 bus REG_RX_BBF_C3_LSB;
     r2346 \<leftarrow> read_u8 bus REG_RX_BBF_R2346;
     s \<leftarrow> get_phy;
     case adc_bandwidth bbpll_freq (st_rxbbf_div s) of
       None \<Rightarrow> rtn None
     | Some bw \<Rightarrow>
         (case adc_data isqrt adc_sampl_freq_Hz (adc_invrc c3_msb c3_lsb r2346 bw) of
            None \<Rightarrow> rtn None
          | Some bytes \<Rightarrow> do { ret \<leftarrow> adc_write bus 0 bytes; rtn (Some ret) })
   }"

subsection \<open>All of them\<close>

definition rf_bandwidth_calib :: "'c bus \<Rightarrow> 'c clk_framework \<Rightarrow> (ulong \<Rightarrow> ulong) \<Rightarrow> ulong \<Rightarrow> u32 \<Rightarrow> u32 \<Rightarrow>
    ('c ad9361, int option) state" where
  "rf_bandwidth_calib bus fw isqrt bbpll_freq rx_bw tx_bw = do {
     ret \<leftarrow> rx_bb_analog_filter_calib bus rx_bw bbpll_freq;
     if ret < 0 then rtn (Some ret)
     else do {
       ret \<leftarrow> tx_bb_analog_filter_calib bus tx_bw bbpll_freq;
       if ret < 0 then rtn (Some ret)
       else do {
         ret \<leftarrow> rx_tia_calib bus rx_bw;
         if ret < 0 then rtn (Some ret)
         else do {
           ret \<leftarrow> tx_bb_second_filter_calib bus tx_bw;
           if ret < 0 then rtn (Some ret)
           else do {
             s \<leftarrow> get_phy;
             rx_adc_setup bus isqrt bbpll_freq (clk_get_rate fw ADC_CLK s)
           }
         }
       }
     }
   }"

text \<open>\<^verbatim>\<open>__ad9361_update_rf_bandwidth\<close>.\<close>

definition update_rf_bandwidth' :: "'c bus \<Rightarrow> 'c clk_framework \<Rightarrow> (ulong \<Rightarrow> ulong) \<Rightarrow> u32 \<Rightarrow> u32 \<Rightarrow>
    ('c ad9361, int option) state" where
  "update_rf_bandwidth' bus fw isqrt rf_rx_bw rf_tx_bw = do {
     s \<leftarrow> get_phy;
     ret \<leftarrow> rf_bandwidth_calib bus fw isqrt (clk_get_rate fw BBPLL_CLK s) (rf_rx_bw div 2) (rf_tx_bw div 2);
     case ret of None \<Rightarrow> rtn None | Some r \<Rightarrow> rtn (Some (if r < 0 then r else 0))
   }"

end
