(* ===== verification/Ad_Calib.thy ===== *)
theory Ad_Calib
  imports Ad_Bbf
begin

unbundle bit_operations_syntax

text \<open>
  The calibrations of the AD9361 that need the chip in its alert state: the charge pumps of the
  synthesizers, the baseband and RF DC offsets, the transmit quadrature with the search for a
  phase, the tracking loops, and the two sequences that run them. \<open>junk\<close> is what the
  uninitialised result byte of the quadrature calibration holds.
\<close>

subsection \<open>Charge pumps and DC offsets\<close>

definition vco_cal_cnt :: "bool \<Rightarrow> ulong \<Rightarrow> u32" where
  "vco_cal_cnt fdd ref_clk_hz =
     VCO_CAL_EN OR VCO_CAL_COUNT (if fdd then 3 else if 40000000 < ref_clk_hz then 1 else 0) OR FB_CLOCK_ADV 2"

definition txrx_synth_cp_calib :: "'c bus \<Rightarrow> ulong \<Rightarrow> bool \<Rightarrow> ('c ad9361, int) state" where
  "txrx_synth_cp_calib bus ref_clk_hz tx =
     (let offs = (if tx then 0x40 else 0) :: u32 in do {
        _ \<leftarrow> spi_write bus (REG_RX_CP_LEVEL_DETECT + offs) 0x17;
        _ \<leftarrow> spi_write bus (REG_RX_DSM_SETUP_1 + offs) 0;
        _ \<leftarrow> spi_write bus (REG_RX_LO_GEN_POWER_MODE + offs) 0;
        _ \<leftarrow> spi_write bus (REG_RX_VCO_LDO + offs) 0x0B;
        _ \<leftarrow> spi_write bus (REG_RX_VCO_PD_OVERRIDES + offs) 0x02;
        _ \<leftarrow> spi_write bus (REG_RX_CP_CURRENT + offs) 0x80;
        _ \<leftarrow> spi_write bus (REG_RX_CP_CONFIG + offs) CP_OFFSET_OFF;
        s \<leftarrow> get_phy;
        _ \<leftarrow> spi_write bus (REG_RX_VCO_CAL + offs) (vco_cal_cnt (pd_fdd s) ref_clk_hz);
        _ \<leftarrow> if \<not> pd_fdd s then spi_writef bus REG_PARALLEL_PORT_CONF_3 HALF_DUPLEX_MODE 0 else rtn 0;
        _ \<leftarrow> spi_write bus REG_ENSM_CONFIG_2 DUAL_SYNTH_MODE;
        _ \<leftarrow> spi_write bus REG_ENSM_CONFIG_1 (FORCE_ALERT_STATE OR TO_ALERT);
        _ \<leftarrow> spi_write bus REG_ENSM_MODE FDD_MODE;
        _ \<leftarrow> spi_write bus (REG_RX_CP_CONFIG + offs) (CP_OFFSET_OFF OR CP_CAL_ENABLE);
        check_cal_done bus (REG_RX_CAL_STATUS + offs) CP_CAL_VALID 1
      })"

definition bb_dc_offset_calib :: "'c bus \<Rightarrow> ('c ad9361, int) state" where
  "bb_dc_offset_calib bus = do {
     _ \<leftarrow> spi_write bus REG_BB_DC_OFFSET_COUNT 0x3F;
     _ \<leftarrow> spi_write bus REG_BB_DC_OFFSET_SHIFT (BB_DC_M_SHIFT 0xF);
     _ \<leftarrow> spi_write bus REG_BB_DC_OFFSET_ATTEN (BB_DC_OFFSET_ATTEN 1);
     run_calibration bus BBDC_CAL
   }"

text \<open>Whether the second receiver is inverted.\<close>

definition phase_inverted :: "'c ad9361 \<Rightarrow> bool" where
  "phase_inverted s \<longleftrightarrow>
     pd_rx1rx2_phase_inversion_en s \<or> ucast (pc_pp_conf (pd_port_ctrl s) ! 1) AND INVERT_RX2 \<noteq> 0"

definition rf_dc_offset_calib :: "'c bus \<Rightarrow> u64 \<Rightarrow> ('c ad9361, int) state" where
  "rf_dc_offset_calib bus rx_freq = do {
     s \<leftarrow> get_phy;
     let low = (rx_freq \<le> 4000000000);
     _ \<leftarrow> spi_write bus REG_WAIT_COUNT 0x20;
     _ \<leftarrow> spi_write bus REG_RF_DC_OFFSET_COUNT
            (ucast (if low then pd_rf_dc_offset_count_low s else pd_rf_dc_offset_count_high s));
     _ \<leftarrow> spi_write bus REG_RF_DC_OFFSET_CONFIG_1 (RF_DC_CALIBRATION_COUNT 4 OR DAC_FS (if low then 2 else 3));
     _ \<leftarrow> spi_write bus REG_RF_DC_OFFSET_ATTEN
            (RF_DC_OFFSET_ATTEN (ucast (if low then pd_dc_offset_attenuation_low s else pd_dc_offset_attenuation_high s)));
     _ \<leftarrow> spi_write bus REG_DC_OFFSET_CONFIG2 (USE_WAIT_COUNTER_FOR_RF_DC_INIT_CAL OR DC_OFFSET_UPDATE 3);
     _ \<leftarrow> spi_write bus REG_INVERT_BITS
            (if phase_inverted s then INVERT_RX1_RF_DC_CGOUT_WORD
             else INVERT_RX1_RF_DC_CGOUT_WORD OR INVERT_RX2_RF_DC_CGOUT_WORD);
     run_calibration bus RFDC_CAL
   }"

subsection \<open>One quadrature calibration\<close>

text \<open>
  \<^verbatim>\<open>__ad9361_tx_quad_calib\<close>: the result byte is stored when the caller gives a place for it
  (\<open>want\<close>) and the calibration ends; otherwise it keeps its value.
\<close>

definition tx_quad_calib1 :: "'c bus \<Rightarrow> u32 \<Rightarrow> u32 \<Rightarrow> u32 \<Rightarrow> bool \<Rightarrow> u8 \<Rightarrow> ('c ad9361, int \<times> u8) state" where
  "tx_quad_calib1 bus phase rxnco_word decim want res =
     (let ctrl = SETTLE_MAIN_ENABLE OR DC_OFFSET_ENABLE OR GAIN_ENABLE OR PHASE_ENABLE OR M_DECIM decim in do {
        _ \<leftarrow> spi_write bus REG_QUAD_CAL_NCO_FREQ_PHASE_OFFSET (RX_NCO_FREQ rxnco_word OR RX_NCO_PHASE_OFFSET phase);
        _ \<leftarrow> spi_write bus REG_QUAD_CAL_CTRL (ctrl OR QUAD_CAL_SOFT_RESET);
        _ \<leftarrow> spi_write bus REG_QUAD_CAL_CTRL ctrl;
        ret \<leftarrow> run_calibration bus TX_QUAD_CAL;
        if ret < 0 then rtn (ret, res)
        else if \<not> want then rtn (0, res)
        else do {
          s \<leftarrow> get_phy;
          v \<leftarrow> spi_read bus (if pd_rx1tx1_mode_use_tx_num s = 2 then REG_QUAD_CAL_STATUS_TX2 else REG_QUAD_CAL_STATUS_TX1);
          let res = (ucast (word_of_int v AND (TX1_LO_CONV OR TX1_SSB_CONV)) :: u8);
          if pd_rx2tx2 s
          then do {
            v \<leftarrow> spi_read bus REG_QUAD_CAL_STATUS_TX2;
            rtn (0, res AND ucast (word_of_int v AND (TX2_LO_CONV OR TX2_SSB_CONV)))
          }
          else rtn (0, res)
        }
      })"

definition quad_converged :: "u8 \<Rightarrow> bool" where
  "quad_converged val \<longleftrightarrow> ucast val AND TX1_LO_CONV \<noteq> 0 \<and> ucast val AND TX1_SSB_CONV \<noteq> 0"

text \<open>The first half of the field of the phase search: \<open>k\<close> phases are left.\<close>

fun phase_sweep :: "'c bus \<Rightarrow> u32 \<Rightarrow> u32 \<Rightarrow> nat \<Rightarrow> nat \<Rightarrow> u8 \<Rightarrow> ('c ad9361, int + u8 list) state" where
  "phase_sweep bus rxnco_word decim 0 i val = rtn (Inr [])"
| "phase_sweep bus rxnco_word decim (Suc k) i val = do {
     (ret, val) \<leftarrow> tx_quad_calib1 bus (of_nat i) rxnco_word decim True val;
     if ret < 0 then rtn (Inl ret)
     else do {
       rest \<leftarrow> phase_sweep bus rxnco_word decim k (Suc i) val;
       rtn (case rest of Inl e \<Rightarrow> Inl e | Inr bs \<Rightarrow> Inr ((if quad_converged val then 0 else 1) # bs))
     }
   }"

definition best_phase :: "u8 list \<Rightarrow> u32" where
  "best_phase half = (let (n, start) = find_opt (half @ half) in word_of_int (start + n div 2) AND 0x1F)"

definition tx_quad_phase_search :: "'c bus \<Rightarrow> u32 \<Rightarrow> u32 \<Rightarrow> ('c ad9361, int) state" where
  "tx_quad_phase_search bus rxnco_word decim = do {
     field \<leftarrow> phase_sweep bus rxnco_word decim 32 0 0;
     case field of
       Inl e \<Rightarrow> rtn e
     | Inr half \<Rightarrow> do {
         _ \<leftarrow> upd_phy (\<lambda>s. s\<lparr>st_last_tx_quad_cal_phase := best_phase half\<rparr>);
         (ret, _) \<leftarrow> tx_quad_calib1 bus (best_phase half) rxnco_word decim False 0;
         rtn (if ret < 0 then ret else 0)
       }
   }"

subsection \<open>The quadrature calibration\<close>

text \<open>The oscillator word for a bandwidth; \<open>None\<close> is a division by zero.\<close>

definition txnco_word :: "ulong \<Rightarrow> ulong \<Rightarrow> int option" where
  "txnco_word bw_tx clktf = map_option (\<lambda>q. min (max (sint (q - 1)) 0) 3) (div_round_closest (bw_tx * 8) clktf)"

text \<open>
  The two oscillator words and the phase for the ratio of the two clocks; \<open>reg22\<close> tells whether
  the transmit filters are in the one setting that has a phase of its own.
\<close>

definition quad_words :: "ulong \<Rightarrow> ulong \<Rightarrow> bool \<Rightarrow> int \<Rightarrow> int \<times> int \<times> u8" where
  "quad_words clkrf clktf reg22 t =
     (if clkrf div 2 = clktf
      then (if t = 0 then (1, 0, 0x0E) else if t = 1 then (1, 0, 0x0E)
            else if t = 2 then (1, 0, 0x0E) else (3, 1, 0x08))
      else if clkrf = clktf
      then (t, t, if t = 0 \<or> t = 3 then 0x15 else if t = 2 then 0x1F else if reg22 then 0x15 else 0x1A)
      else if clktf div 2 = clkrf
      then (if t = 0 then (0, 1, - 2) else (1, 3, - 2))
      else if clktf div 4 = clkrf then (0, 3, - 2)
      else if clkrf div 4 = clktf then (3, 0, - 2)
      else (t, t, 0))"

definition lo_managed :: "'c ad9361 \<Rightarrow> bool" where
  "lo_managed s \<longleftrightarrow> ucast (st_cached_synth_pd0 s) AND TX_LO_POWER_DOWN \<noteq> 0"

definition restore_lo :: "'c bus \<Rightarrow> int \<Rightarrow> ('c ad9361, int) state" where
  "restore_lo bus ret = do {
     s \<leftarrow> get_phy;
     _ \<leftarrow> if pd_lo_powerdown_managed_en s \<and> lo_managed s
          then synth_lo_powerdown bus LO_DONTCARE LO_DONTCARE else rtn 0;
     rtn ret
   }"

text \<open>The tries of a calibration: the given phase, the last one that worked, all of them.\<close>

definition quad_tries :: "'c bus \<Rightarrow> u8 \<Rightarrow> int \<Rightarrow> u8 \<Rightarrow> u32 \<Rightarrow> u32 \<Rightarrow> ('c ad9361, int) state" where
  "quad_tries bus junk rx_phase phase rxnco decim =
     (let both = ucast (TX1_LO_CONV OR TX1_SSB_CONV) :: u8 in do {
        (ret, val) \<leftarrow>
          (if rx_phase \<noteq> - 2
           then do {
             (ret, val) \<leftarrow> tx_quad_calib1 bus (ucast phase) rxnco decim True junk;
             s \<leftarrow> get_phy;
             if val \<noteq> both
             then (if st_last_tx_quad_cal_phase s < 31
                   then tx_quad_calib1 bus (st_last_tx_quad_cal_phase s) rxnco decim True val
                   else rtn (ret, val))
             else do {
               _ \<leftarrow> upd_phy (\<lambda>s. s\<lparr>st_last_tx_quad_cal_phase := ucast phase\<rparr>);
               rtn (ret, val)
             }
           }
           else rtn (0, 0));
        if val \<noteq> both then tx_quad_phase_search bus rxnco decim else rtn ret
      })"

definition quad_prepare :: "'c bus \<Rightarrow> int \<Rightarrow> ('c ad9361, unit) state" where
  "quad_prepare bus txw = do {
     _ \<leftarrow> spi_writef bus REG_KEXP_2 (TX_NCO_FREQ (- 1)) (word_of_int txw);
     _ \<leftarrow> spi_write bus REG_QUAD_CAL_COUNT 0xFF;
     _ \<leftarrow> spi_write bus REG_KEXP_1 (KEXP_TX 1 OR KEXP_TX_COMP 3 OR KEXP_DC_I 3 OR KEXP_DC_Q 3);
     _ \<leftarrow> spi_write bus REG_MAG_FTEST_THRESH 0x03;
     _ \<leftarrow> spi_write bus REG_MAG_FTEST_THRESH_2 0x03;
     s \<leftarrow> get_phy;
     _ \<leftarrow> if st_tx_quad_lpf_tia_match s < 0 then rtn 0
          else spi_write bus REG_TX_QUAD_FULL_LMT_GAIN (word_of_int (st_tx_quad_lpf_tia_match s));
     _ \<leftarrow> spi_write bus REG_QUAD_SETTLE_COUNT 0xF0;
     _ \<leftarrow> spi_write bus REG_TX_QUAD_LPF_GAIN 0x00;
     rtn ()
   }"

text \<open>The part between the two changes of the bandwidth.\<close>

definition quad_inverted :: "'c bus \<Rightarrow> int \<Rightarrow> ('c ad9361, int) state \<Rightarrow> ('c ad9361, int) state" where
  "quad_inverted bus txw tries = do {
     s \<leftarrow> get_phy;
     let inv = phase_inverted s;
     bits \<leftarrow> if inv then do {
               _ \<leftarrow> spi_writef bus REG_PARALLEL_PORT_CONF_2 INVERT_RX2 0;
               bits \<leftarrow> read_u8 bus REG_INVERT_BITS;
               _ \<leftarrow> spi_write bus REG_INVERT_BITS (INVERT_RX1_RF_DC_CGOUT_WORD OR INVERT_RX2_RF_DC_CGOUT_WORD);
               rtn bits
             } else rtn 0;
     _ \<leftarrow> quad_prepare bus txw;
     ret \<leftarrow> tries;
     _ \<leftarrow> if inv then do {
            _ \<leftarrow> spi_writef bus REG_PARALLEL_PORT_CONF_2 INVERT_RX2 1;
            spi_write bus REG_INVERT_BITS (ucast bits)
          } else rtn 0;
     rtn ret
   }"

definition tx_quad_calib :: "'c bus \<Rightarrow> 'c clk_framework \<Rightarrow> (ulong \<Rightarrow> ulong) \<Rightarrow> u8 \<Rightarrow> ulong \<Rightarrow> ulong \<Rightarrow> int \<Rightarrow>
    ('c ad9361, int option) state" where
  "tx_quad_calib bus fw isqrt junk bw_rx bw_tx rx_phase = do {
     s \<leftarrow> get_phy;
     if lo_managed s \<and> \<not> pd_lo_powerdown_managed_en s then rtn (Some (- 14))
     else do {
       _ \<leftarrow> if lo_managed s then spi_writef bus REG_TX_SYNTH_POWER_DOWN_OVERRIDE TX_LO_POWER_DOWN 0 else rtn 0;
       s \<leftarrow> get_phy;
       let clkrf = clk_get_rate fw CLKRF_CLK s;
       let clktf = clk_get_rate fw CLKTF_CLK s;
       case txnco_word bw_tx clktf of
         None \<Rightarrow> rtn None
       | Some t \<Rightarrow> do {
           reg22 \<leftarrow> if clkrf div 2 \<noteq> clktf \<and> clkrf = clktf \<and> t = 1
                    then do { v \<leftarrow> spi_readf bus REG_TX_ENABLE_FILTER_CTRL 0x3F; rtn (v = 0x22) }
                    else rtn False;
           let (txw, rxw, phase) = quad_words clkrf clktf reg22 t;
           let phase = (if 0 \<le> rx_phase then word_of_int rx_phase else phase);
           let decim = (if clktf \<le> 4000000 then 2 else 3 :: u32);
           let freq = clktf * word_of_int (txw + 1) div 32;
           let wide = (bw_rx div 4 < freq \<or> bw_tx div 4 < freq);
           ret \<leftarrow> if wide then update_rf_bandwidth' bus fw isqrt (freq * 8) (freq * 8) else rtn (Some 0);
           case ret of
             None \<Rightarrow> rtn None
           | Some r \<Rightarrow>
               if r < 0 then do { r \<leftarrow> restore_lo bus r; rtn (Some r) }
               else do {
                 r \<leftarrow> quad_inverted bus txw (quad_tries bus junk rx_phase phase (word_of_int rxw) decim);
                 s \<leftarrow> get_phy;
                 again \<leftarrow> if wide then update_rf_bandwidth' bus fw isqrt (st_current_rx_bw_Hz s) (st_current_tx_bw_Hz s)
                          else rtn (Some 0);
                 case again of
                   None \<Rightarrow> rtn None
                 | Some _ \<Rightarrow> do { r \<leftarrow> restore_lo bus r; rtn (Some r) }
               }
         }
     }
   }"

subsection \<open>Tracking and the sequences\<close>

definition tracking_channels :: "bool \<Rightarrow> 'c ad9361 \<Rightarrow> u32" where
  "tracking_channels rxquad_track s =
     (if \<not> rxquad_track then 0
      else if pd_rx2tx2 s then ENABLE_TRACKING_MODE_CH1 OR ENABLE_TRACKING_MODE_CH2
      else if pd_rx1tx1_mode_use_rx_num s = 1 then ENABLE_TRACKING_MODE_CH1 else ENABLE_TRACKING_MODE_CH2)"

definition tracking_control :: "'c bus \<Rightarrow> bool \<Rightarrow> bool \<Rightarrow> bool \<Rightarrow> ('c ad9361, int) state" where
  "tracking_control bus bbdc_track rfdc_track rxquad_track = do {
     s \<leftarrow> get_phy;
     _ \<leftarrow> spi_write bus REG_CALIBRATION_CONFIG_2 (CALIBRATION_CONFIG2_DFLT OR K_EXP_PHASE 0x15);
     _ \<leftarrow> spi_write bus REG_CALIBRATION_CONFIG_3 (PREVENT_POS_LOOP_GAIN OR K_EXP_AMPLITUDE 0x15);
     _ \<leftarrow> spi_write bus REG_DC_OFFSET_CONFIG2
            (USE_WAIT_COUNTER_FOR_RF_DC_INIT_CAL OR DC_OFFSET_UPDATE (ucast (pd_dc_offset_update_events s)) OR
             (if bbdc_track then ENABLE_BB_DC_OFFSET_TRACKING else 0) OR
             (if rfdc_track then ENABLE_RF_OFFSET_TRACKING else 0));
     _ \<leftarrow> spi_writef bus REG_RX_QUAD_GAIN2 (CORRECTION_WORD_DECIMATION_M (- 1))
            (if pd_qec_tracking_slow_mode_en s then 4 else 0);
     _ \<leftarrow> spi_write bus REG_CALIBRATION_CONFIG_1
            (ENABLE_PHASE_CORR OR ENABLE_GAIN_CORR OR FREE_RUN_MODE OR ENABLE_CORR_WORD_DECIMATION OR
             tracking_channels rxquad_track s);
     rtn 0
   }"

definition tracking_restore :: "'c bus \<Rightarrow> ('c ad9361, int) state" where
  "tracking_restore bus = do {
     s \<leftarrow> get_phy;
     tracking_control bus (st_bbdc_track_en s) (st_rfdc_track_en s) (st_quad_track_en s)
   }"

definition run_cal :: "'c bus \<Rightarrow> 'c clk_framework \<Rightarrow> (ulong \<Rightarrow> ulong) \<Rightarrow> u8 \<Rightarrow> u32 \<Rightarrow> int \<Rightarrow>
    ('c ad9361, int option) state" where
  "run_cal bus fw isqrt junk cal arg = do {
     s \<leftarrow> get_phy;
     if cal = TX_QUAD_CAL
     then tx_quad_calib bus fw isqrt junk (st_current_rx_bw_Hz s div 2) (st_current_tx_bw_Hz s div 2) arg
     else if cal = RFDC_CAL
     then do {
       ret \<leftarrow> rf_dc_offset_calib bus (ad9361_from_clk (clk_get_rate fw RX_RFPLL s));
       rtn (Some ret)
     }
     else rtn (Some (- 22))
   }"

definition do_calib_run :: "'c bus \<Rightarrow> 'c clk_framework \<Rightarrow> (ulong \<Rightarrow> ulong) \<Rightarrow> u8 \<Rightarrow> u32 \<Rightarrow> int \<Rightarrow>
    ('c ad9361, int option) state" where
  "do_calib_run bus fw isqrt junk cal arg = do {
     ret \<leftarrow> tracking_control bus False False False;
     if ret < 0 then rtn (Some ret)
     else do {
       _ \<leftarrow> ensm_force_state bus (ucast ENSM_STATE_ALERT);
       ret \<leftarrow> run_cal bus fw isqrt junk cal arg;
       case ret of
         None \<Rightarrow> rtn None
       | Some ret \<Rightarrow> do {
           ret2 \<leftarrow> tracking_restore bus;
           _ \<leftarrow> ensm_restore_prev_state bus;
           rtn (Some (if ret \<noteq> 0 then ret else ret2))
         }
     }
   }"

text \<open>What follows once the filters are calibrated.\<close>

definition record_bandwidth :: "'c bus \<Rightarrow> 'c clk_framework \<Rightarrow> (ulong \<Rightarrow> ulong) \<Rightarrow> u8 \<Rightarrow> u32 \<Rightarrow> u32 \<Rightarrow>
    ('c ad9361, int option) state" where
  "record_bandwidth bus fw isqrt junk rf_rx_bw rf_tx_bw = do {
     _ \<leftarrow> upd_phy (\<lambda>s. s\<lparr>st_current_rx_bw_Hz := rf_rx_bw, st_current_tx_bw_Hz := rf_tx_bw\<rparr>);
     s \<leftarrow> get_phy;
     ret \<leftarrow> if \<not> st_manual_tx_quad_cal_en s
            then tx_quad_calib bus fw isqrt junk (rf_rx_bw div 2) (rf_tx_bw div 2) (- 1)
            else rtn (Some 0);
     case ret of
       None \<Rightarrow> rtn None
     | Some r \<Rightarrow>
         if r < 0 then rtn (Some r)
         else do {
           ret \<leftarrow> tracking_restore bus;
           if ret < 0 then rtn (Some ret)
           else do { _ \<leftarrow> ensm_restore_prev_state bus; rtn (Some 0) }
         }
   }"

definition update_rf_bandwidth :: "'c bus \<Rightarrow> 'c clk_framework \<Rightarrow> (ulong \<Rightarrow> ulong) \<Rightarrow> u8 \<Rightarrow> u32 \<Rightarrow> u32 \<Rightarrow>
    ('c ad9361, int option) state" where
  "update_rf_bandwidth bus fw isqrt junk rf_rx_bw rf_tx_bw = do {
     ret \<leftarrow> tracking_control bus False False False;
     if ret < 0 then rtn (Some ret)
     else do {
       _ \<leftarrow> ensm_force_state bus (ucast ENSM_STATE_ALERT);
       ret \<leftarrow> update_rf_bandwidth' bus fw isqrt rf_rx_bw rf_tx_bw;
       case ret of
         None \<Rightarrow> rtn None
       | Some r \<Rightarrow> if r < 0 then rtn (Some r) else record_bandwidth bus fw isqrt junk rf_rx_bw rf_tx_bw
     }
   }"

end
