(* ===== verification/Ad_Calib_Props.thy ===== *)
theory Ad_Calib_Props
  imports Ad_Calib Ad_Frame Ad_Rf_Props
begin

unbundle bit_operations_syntax

text \<open>
  The calibrations: what they leave alone (\<open>calib_field\<close>), so that a change of the bandwidth
  records what was asked for; the phase that the quadrature search picks; the capacitor of
  the second transmit filter.
\<close>

subsection \<open>What the calibrations leave alone\<close>

lemma chip_only_run_cal [chip_intro]: "chip_only (run_calibration bus m)"
  unfolding run_calibration_def by (intro chip_intro)

lemma chip_only_read_u8 [chip_intro]: "chip_only (read_u8 bus r)"
  unfolding read_u8_def by (intro chip_intro)

lemma chip_only_option [chip_intro]:
  "chip_only m \<Longrightarrow> (\<And>y. chip_only (g y)) \<Longrightarrow> chip_only (case x of None \<Rightarrow> m | Some y \<Rightarrow> g y)"
  by (simp split: option.split)

lemma chip_only_filters [chip_intro]:
  "chip_only (tx_bb_analog_filter_calib bus bw pll)" "chip_only (tx_bb_second_filter_calib bus bw)"
  "chip_only (rx_tia_calib bus bw)"
  unfolding tx_bb_analog_filter_calib_def tx_bb_second_filter_calib_def rx_tia_calib_def by (intro chip_intro)+

lemma chip_only_adc_write [chip_intro]: "chip_only (adc_write bus i bs)"
  by (induction bs arbitrary: i) (auto intro!: chip_intro)

lemma chip_only_adc [chip_intro]: "chip_only (rx_adc_setup bus isqrt pll freq)"
  unfolding rx_adc_setup_def by (intro chip_intro)

lemma chip_only_quad1 [chip_intro]: "chip_only (tx_quad_calib1 bus phase rxnco decim want res)"
  unfolding tx_quad_calib1_def by (intro chip_intro)

lemma chip_only_tracking [chip_intro]: "chip_only (tracking_control bus a b c)" "chip_only (tracking_restore bus)"
  unfolding tracking_restore_def tracking_control_def by (intro chip_intro)+

lemma chip_only_sum [chip_intro]:
  "(\<And>y. chip_only (g y)) \<Longrightarrow> (\<And>y. chip_only (h y)) \<Longrightarrow> chip_only (case x of Inl y \<Rightarrow> g y | Inr y \<Rightarrow> h y)"
  by (simp split: sum.split)

lemma chip_only_sweep [chip_intro]: "chip_only (phase_sweep bus rxnco decim k i val)"
  by (induction k arbitrary: i val) (auto intro!: chip_intro)

text \<open>A part of the state that no calibration writes.\<close>

locale calib_field = ensm_free_field +
  assumes div_free: "f (s\<lparr>st_rxbbf_div := d\<rparr>) = f s"
    and phase_free: "f (s\<lparr>st_last_tx_quad_cal_phase := p\<rparr>) = f s"
    and pd_free: "f (s\<lparr>st_cached_synth_pd1 := a1, st_cached_synth_pd0 := a2\<rparr>) = f s"
begin

lemma keeps_bandwidth_calib: "keeps f (update_rf_bandwidth' bus fw isqrt rx tx)"
  unfolding update_rf_bandwidth'_def rf_bandwidth_calib_def rx_bb_analog_filter_calib_def
  by (intro keeps_intro keeps_spi keeps_update keeps_chip_only [OF chip_only_run_cal] div_free
      keeps_chip_only [OF chip_only_filters(1)] keeps_chip_only [OF chip_only_filters(2)]
      keeps_chip_only [OF chip_only_filters(3)] keeps_chip_only [OF chip_only_adc])

lemma keeps_search: "keeps f (tx_quad_phase_search bus rxnco decim)"
  unfolding tx_quad_phase_search_def
  by (intro keeps_intro keeps_update phase_free keeps_chip_only [OF chip_only_sweep] keeps_chip_only [OF chip_only_quad1])

lemma keeps_tries: "keeps f (quad_tries bus junk rx_phase phase rxnco decim)"
  unfolding quad_tries_def
  by (intro keeps_intro keeps_update phase_free keeps_search keeps_chip_only [OF chip_only_quad1])

lemma keeps_inverted: "keeps f m \<Longrightarrow> keeps f (quad_inverted bus txw m)"
  unfolding quad_inverted_def quad_prepare_def
  by (intro keeps_intro keeps_spi keeps_chip_only [OF chip_only_read_u8])

lemma keeps_restore_lo: "keeps f (restore_lo bus r)"
  unfolding restore_lo_def synth_lo_powerdown_def
  by (intro keeps_intro keeps_spi keeps_update pd_free)

lemma keeps_quad_calib: "keeps f (tx_quad_calib bus fw isqrt junk bw_rx bw_tx rx_phase)"
  unfolding tx_quad_calib_def
  by (intro keeps_intro keeps_spi keeps_bandwidth_calib keeps_restore_lo keeps_inverted keeps_tries)

end

text \<open>The recorded bandwidths are such a part.\<close>

definition bandwidths :: "'c ad9361 \<Rightarrow> u32 \<times> u32" where
  "bandwidths s = (st_current_rx_bw_Hz s, st_current_tx_bw_Hz s)"

interpretation bw: calib_field bandwidths
  by unfold_locales (simp_all add: bandwidths_def)

subsection \<open>A change of the bandwidth\<close>

lemma record_bandwidth_records:
  assumes "run_state (record_bandwidth bus fw isqrt junk rx tx) s = (r, t)"
  shows "bandwidths t = (rx, tx)"
proof -
  let ?s = "s\<lparr>st_current_rx_bw_Hz := rx, st_current_tx_bw_Hz := tx\<rparr>"
  have "bandwidths t = bandwidths ?s"
    using assms unfolding record_bandwidth_def run_bind_update
    by (elim keepsD [rotated])
      (intro keeps_intro bw.keeps_quad_calib bw.keeps_restore bw.keeps_chip_only [OF chip_only_tracking(2)])
  then show ?thesis by (simp add: bandwidths_def)
qed

text \<open>
  C33. Changing the RF bandwidth records the two bandwidths exactly when the filters have been
  calibrated for them. If tracking cannot be stopped, or the filter calibration fails or divides
  by zero, the call ends with that result and the driver's state still holds the old bandwidths;
  otherwise it holds the new ones, whatever the quadrature calibration after it answers.
\<close>

theorem update_rf_bandwidth_records:
  "let (r, t) = run_state (update_rf_bandwidth bus fw isqrt junk rx tx) s;
       (r1, s1) = run_state (tracking_control bus False False False) s;
       (_, s2) = run_state (ensm_force_state bus (ucast ENSM_STATE_ALERT)) s1;
       (r3, s3) = run_state (update_rf_bandwidth' bus fw isqrt rx tx) s2
   in if r1 < 0 then r = Some r1 \<and> bandwidths t = bandwidths s
      else if r3 = None \<or> the r3 < 0 then r = r3 \<and> bandwidths t = bandwidths s
      else bandwidths t = (rx, tx)"
proof -
  obtain r t where rt: "run_state (update_rf_bandwidth bus fw isqrt junk rx tx) s = (r, t)" by fastforce
  obtain r1 s1 where 1: "run_state (tracking_control bus False False False) s = (r1, s1)" by fastforce
  obtain s2 where 2: "run_state (ensm_force_state bus (ucast ENSM_STATE_ALERT)) s1 = ((), s2)" by (metis (full_types) surj_pair unit.exhaust)
  obtain r3 s3 where 3: "run_state (update_rf_bandwidth' bus fw isqrt rx tx) s2 = (r3, s3)" by fastforce
  have b1: "bandwidths s1 = bandwidths s" by (rule keepsD [OF bw.keeps_chip_only [OF chip_only_tracking(1)] 1])
  then have b3: "bandwidths s3 = bandwidths s"
    using keepsD [OF bw.keeps_force 2] keepsD [OF bw.keeps_bandwidth_calib 3] by simp
  have run: "(r, t) = (if r1 < 0 then (Some r1, s1)
      else if r3 = None then (None, s3)
      else if the r3 < 0 then (r3, s3) else run_state (record_bandwidth bus fw isqrt junk rx tx) s3)"
    using rt unfolding update_rf_bandwidth_def run_bind_eq [OF 1] run_state_if run_bind_eq [OF 2] run_bind_eq [OF 3]
    by (auto split: option.splits if_splits)
  show ?thesis
    using run b1 b3 record_bandwidth_records [of bus fw isqrt junk rx tx s3 r t]
    unfolding rt 1 prod.case 2 3 Let_def by (cases r3) (auto split: if_splits)
qed

subsection \<open>The phase of the quadrature calibration\<close>

lemma length_phase_sweep:
  "run_state (phase_sweep bus rxnco decim k i val) s = (Inr half, t) \<Longrightarrow> length half = k"
proof (induction k arbitrary: i val s half t)
  case (Suc k)
  obtain ret v s1 where 1: "run_state (tx_quad_calib1 bus (of_nat i) rxnco decim True val) s = ((ret, v), s1)" by (metis surj_pair)
  obtain rest s2 where 2: "run_state (phase_sweep bus rxnco decim k (Suc i) v) s1 = (rest, s2)" by fastforce
  have run: "run_state (if ret < 0 then rtn (Inl ret) else do {
      rest \<leftarrow> phase_sweep bus rxnco decim k (Suc i) v;
      rtn (case rest of Inl e \<Rightarrow> Inl e | Inr bs \<Rightarrow> Inr ((if quad_converged v then 0 else 1) # bs))
    }) s1 = (Inr half, t)"
    using Suc.prems unfolding phase_sweep.simps run_bind_eq [OF 1] prod.case .
  then obtain bs where "rest = Inr bs" "half = (if quad_converged v then 0 else 1) # bs"
    using 2 by (cases rest) (auto split: if_splits)
  then show ?case using Suc.IH 2 by simp
qed simp

lemma low_five_bits: "unat (x AND 0x1F) = unat x mod 32" for x :: u32
proof -
  have m: "0x1F = (mask 5 :: u32)" by (simp add: mask_eq_exp_minus_1)
  show ?thesis unfolding m by (simp only: unsigned_take_bit_eq flip: take_bit_eq_mask) (simp add: take_bit_eq_mod)
qed

text \<open>The middle of the longest run of the field laid out twice, taken round.\<close>

lemma best_phase_spec:
  assumes "length half = 32" "0 \<in> set half"
  shows "\<exists>i m. 0 < m \<and> zero_run (half @ half) i m \<and> (\<forall>i' m'. zero_run (half @ half) i' m' \<longrightarrow> m' \<le> m) \<and>
    unat (best_phase half) = (i + m div 2) mod 32 \<and> half ! unat (best_phase half) = 0"
proof -
  obtain m i where f: "find_opt (half @ half) = (int m, int i)" "best_before (half @ half) (length (half @ half)) m i"
    using find_opt_spec by blast
  have run: "zero_run (half @ half) i m" and longest: "\<forall>i' m'. zero_run (half @ half) i' m' \<longrightarrow> m' \<le> m"
    using f(2) by (auto simp: best_before_def zero_run_def)
  obtain k where "k < 32" "half ! k = 0" using assms by (auto simp: in_set_conv_nth)
  then have "zero_run (half @ half) k 1" using assms(1) by (simp add: zero_run_def nth_append)
  then have pos: "0 < m" using longest by fastforce
  then have mid: "i + m div 2 < 64" "(half @ half) ! (i + m div 2) = 0"
    using run assms(1) by (auto simp: zero_run_def)
  have "int i + int m div 2 = int (i + m div 2)" by (simp add: zdiv_int)
  then have best: "best_phase half = of_nat (i + m div 2) AND 0x1F" using f(1) by (simp only: best_phase_def) simp
  have "unat (of_nat (i + m div 2) :: u32) = i + m div 2" using mid(1) by (simp only: unat_of_nat) simp
  then have u: "unat (best_phase half) = (i + m div 2) mod 32" unfolding best low_five_bits by simp
  have "(half @ half) ! (i + m div 2) = half ! ((i + m div 2) mod 32)"
    using mid(1) assms(1) by (cases "i + m div 2 < 32") (simp_all add: nth_append mod_if)
  then show ?thesis using run longest pos u mid(2) by auto
qed

text \<open>
  C32. The phase search records a phase that works: whenever the sweep over the 32 phases ends
  with at least one that converged, the phase it stores for later calibrations is the middle
  of a longest stretch of converged phases (taken round, 31 next to 0), and is one of them.
\<close>

theorem quad_search_phase:
  assumes "run_state (phase_sweep bus rxnco decim 32 0 0) s = (Inr half, s1)" "0 \<in> set half"
    and "run_state (tx_quad_phase_search bus rxnco decim) s = (r, t)"
  shows "\<exists>i m. zero_run (half @ half) i m \<and> (\<forall>i' m'. zero_run (half @ half) i' m' \<longrightarrow> m' \<le> m) \<and>
    unat (st_last_tx_quad_cal_phase t) = (i + m div 2) mod 32 \<and> half ! unat (st_last_tx_quad_cal_phase t) = 0"
proof -
  let ?s = "s1\<lparr>st_last_tx_quad_cal_phase := best_phase half\<rparr>"
  obtain x s2 where 2: "run_state (tx_quad_calib1 bus (best_phase half) rxnco decim False 0) ?s = (x, s2)" by fastforce
  then obtain c where c: "s2 = ?s\<lparr>ad_chip := c\<rparr>" using chip_onlyE [OF chip_only_quad1] by (metis prod.inject)
  have "t = s2"
    using assms(3) unfolding tx_quad_phase_search_def run_bind_eq [OF assms(1)] sum.case run_bind_update run_bind_eq [OF 2]
    by (auto split: prod.splits)
  then have "st_last_tx_quad_cal_phase t = best_phase half" using c by simp
  then show ?thesis using best_phase_spec [OF length_phase_sweep [OF assms(1)] assms(2)] by auto
qed

text \<open>A chip whose calibration converges for the phases 8 to 12 only.\<close>

definition window_pass :: "regfile ad9361 \<Rightarrow> u8" where
  "window_pass s = (let p = get_reg s REG_QUAD_CAL_NCO_FREQ_PHASE_OFFSET in if 8 \<le> p \<and> p \<le> 12 then 3 else 0)"

definition window_bus :: "regfile bus" where
  "window_bus tx n c =
     (let p = c (AD_ADDR REG_QUAD_CAL_NCO_FREQ_PHASE_OFFSET); (r, rx, c') = chip_bus tx n c
      in (r, map (\<lambda>_. if 8 \<le> p \<and> p \<le> 12 then 3 else 0) rx, c'))"

lemma run_window:
  "run_state (spi_write window_bus r v) s = (0, set_reg r (ucast v) s)"
  "run_state (spi_read window_bus r) s = (int (unat (window_pass s)), s)"
  "m \<noteq> 0 \<Longrightarrow> run_state (spi_readf window_bus r m) s = (int (unat (drop_bit (ffs m) (window_pass s AND ucast m))), s)"
  by (simp_all add: spi_write_def spi_read_def spi_readf_def spi_readm_def MAX_MBYTE_SPI_def spi_write_then_read_def
      window_bus_def chip_bus_write chip_bus_read set_reg_def byte0_def window_pass_def Let_def)

lemma run_window_cal: "run_state (run_calibration window_bus TX_QUAD_CAL) s = (0, set_reg REG_CALIBRATION_CTRL (ucast TX_QUAD_CAL) s)"
proof -
  have "window_pass t AND ucast TX_QUAD_CAL = 0" for t by (simp add: window_pass_def ad_regs Let_def)
  then have poll: "run_state (cal_poll window_bus REG_CALIBRATION_CTRL TX_QUAD_CAL 0 (Suc k)) t = (0, t)" for k t
    by (simp add: run_window ad_regs)
  have "(5001 :: nat) = Suc 5000" by simp
  then have "run_state (cal_poll window_bus REG_CALIBRATION_CTRL TX_QUAD_CAL 0 5001) t = (0, t)" for t
    by (simp only: poll)
  then show ?thesis
    unfolding run_calibration_def check_cal_done_def run_bind_eq [OF run_window(1)] by simp
qed

lemma run_window_quad1:
  assumes "i < 32" "pd_rx2tx2 s"
  shows "\<exists>t. run_state (tx_quad_calib1 window_bus (of_nat i) 0 2 True v) s =
    ((0, if 8 \<le> i \<and> i \<le> 12 then 3 else 0), t) \<and> pd_rx2tx2 t"
proof -
  have five: "(of_nat i :: u32) AND 0x1F = of_nat i"
    using assms(1) by (intro word_unat_eq_iff [THEN iffD2]) (simp add: low_five_bits unat_of_nat)
  have b: "unat (ucast (of_nat i :: u32) :: u8) = i"
    using assms(1) by (simp add: unsigned_ucast_eq take_bit_eq_mod unat_of_nat)
  have w: "window_pass t = (if 8 \<le> i \<and> i \<le> 12 then 3 else 0)"
    if "get_reg t REG_QUAD_CAL_NCO_FREQ_PHASE_OFFSET = ucast (of_nat i :: u32)" for t
    using b that by (simp add: window_pass_def Let_def word_le_nat_alt)
  let ?nco = "RX_NCO_FREQ 0 OR RX_NCO_PHASE_OFFSET (of_nat i)"
  define ctrl where "ctrl = SETTLE_MAIN_ENABLE OR DC_OFFSET_ENABLE OR GAIN_ENABLE OR PHASE_ENABLE OR M_DECIM 2"
  define t where "t = set_reg REG_CALIBRATION_CTRL (ucast TX_QUAD_CAL) (set_reg REG_QUAD_CAL_CTRL (ucast ctrl)
    (set_reg REG_QUAD_CAL_CTRL (ucast (ctrl OR QUAD_CAL_SOFT_RESET)) (set_reg REG_QUAD_CAL_NCO_FREQ_PHASE_OFFSET (ucast ?nco) s)))"
  have "?nco = of_nat i" by (simp add: ad_regs five)
  then have "get_reg t REG_QUAD_CAL_NCO_FREQ_PHASE_OFFSET = ucast (of_nat i :: u32)"
    by (simp add: t_def set_reg_def) (simp add: AD_ADDR_def ad_regs)
  note wt = w [OF this]
  have "pd_rx2tx2 t" using assms(2) by (simp add: t_def set_reg_def)
  moreover have "run_state (tx_quad_calib1 window_bus (of_nat i) 0 2 True v) s =
      ((0, if 8 \<le> i \<and> i \<le> 12 then 3 else 0), t)"
    unfolding tx_quad_calib1_def Let_def ctrl_def [symmetric] run_bind_eq [OF run_window(1)]
      run_bind_eq [OF run_window_cal] t_def [symmetric]
    using calculation by (simp add: run_window wt) (simp add: ad_regs)
  ultimately show ?thesis by blast
qed

lemma run_window_sweep:
  assumes "i + k \<le> 32" "pd_rx2tx2 s"
  shows "\<exists>t. run_state (phase_sweep window_bus 0 2 k i v) s =
    (Inr (map (\<lambda>i. if 8 \<le> i \<and> i \<le> 12 then 0 else 1) [i..<i + k]), t)"
  using assms
proof (induction k arbitrary: i s v)
  case (Suc k)
  obtain t where 1: "run_state (tx_quad_calib1 window_bus (of_nat i) 0 2 True v) s =
      ((0, if 8 \<le> i \<and> i \<le> 12 then 3 else 0), t)" "pd_rx2tx2 t"
    using run_window_quad1 [of i s v] Suc.prems by auto
  obtain u where 2: "run_state (phase_sweep window_bus 0 2 k (Suc i) (if 8 \<le> i \<and> i \<le> 12 then 3 else 0)) t =
      (Inr (map (\<lambda>i. if 8 \<le> i \<and> i \<le> 12 then 0 else 1) [Suc i..<Suc i + k]), u)"
    using Suc.IH [OF _ 1(2), of "Suc i"] Suc.prems by auto
  have split: "[i..<i + Suc k] = i # [Suc i..<Suc i + k]" by (simp add: upt_rec)
  have c: "quad_converged (if b then 3 else 0) \<longleftrightarrow> b" for b by (simp add: quad_converged_def ad_regs)
  show ?case
    unfolding phase_sweep.simps run_bind_eq [OF 1(1)] prod.case split
    by (simp add: 2 c)
qed simp

theorem quad_search_phase_witness:
  "map (\<lambda>i. if 8 \<le> i \<and> i \<le> 12 then 0 else 1 :: u8) [0..<32] !
     unat (st_last_tx_quad_cal_phase (snd (run_state (tx_quad_phase_search window_bus 0 2) ad_zero))) = 0"
proof -
  obtain t where 1: "run_state (phase_sweep window_bus 0 2 32 0 0) ad_zero =
      (Inr (map (\<lambda>i. if 8 \<le> i \<and> i \<le> 12 then 0 else 1) [0..<32]), t)"
    using run_window_sweep [of 0 32 ad_zero 0] by (auto simp: ad_zero_def)
  have z: "0 \<in> set (map (\<lambda>i. if 8 \<le> i \<and> i \<le> 12 then 0 else 1 :: u8) [0..<32])" by force
  show ?thesis
    using quad_search_phase [OF 1 z surjective_pairing] by blast
qed

subsection \<open>The second transmit filter\<close>

text \<open>The capacitance for a divisor, before the 12 are taken off.\<close>

definition cap_of :: "nat \<Rightarrow> nat" where
  "cap_of d = (500000000 + d div 2) div d"

lemma cap_of_word:
  assumes "0 < unat d" "unat d < 400000000"
  shows "unat ((500000000 + ucast (drop_bit 1 d)) div ucast d :: u64) = cap_of (unat (d :: u32))"
proof -
  have h: "unat (ucast (drop_bit 1 d) :: u64) = unat d div 2"
    by (simp add: unsigned_ucast_eq take_bit_eq_mod drop_bit_eq_div unat_div)
  have "unat (500000000 + ucast (drop_bit 1 d) :: u64) = 500000000 + unat d div 2"
    using h assms by (subst unat_plus_lt) simp_all
  then show ?thesis by (simp add: unat_div cap_of_def unsigned_ucast_eq take_bit_eq_mod)
qed

lemma cap_of_bounds:
  "0 < d \<Longrightarrow> (cap_of d < 76 \<longleftrightarrow> 500000000 + d div 2 < 76 * d)"
  "0 < d \<Longrightarrow> (12 \<le> cap_of d \<longleftrightarrow> 12 * d \<le> 500000000 + d div 2)"
  by (simp_all add: cap_of_def div_less_iff_less_mult less_eq_div_iff_mult_less_eq mult.commute)

lemma second_filter_round:
  fixes corner res :: u32
  assumes d: "unat corner * unat res = d" "832524 \<le> d" "d < 400000000" and c: "12 \<le> cap_of d"
  shows "second_filter corner (Suc k) res cap0 =
    (if cap_of d < 76 then (of_nat (cap_of d - 12), res)
     else second_filter corner k (push_bit 1 res) (of_nat (cap_of d - 12)))"
proof -
  have u: "unat (corner * res) = d" using d by (subst unat_times_lt) simp_all
  let ?q = "(500000000 + ucast (drop_bit 1 (corner * res))) div ucast (corner * res) :: u64"
  have q: "unat ?q = cap_of d" using cap_of_word [of "corner * res"] d u by simp
  have small: "cap_of d < 1000" using d(2) by (simp add: cap_of_def div_less_iff_less_mult)
  have "?q = of_nat (cap_of d)" by (rule word_eq_of_nat [OF q])
  then have w: "?q - 12 = of_nat (cap_of d - 12)" using c by (simp add: of_nat_diff)
  have less: "(of_nat (cap_of d - 12) :: u64) < 64 \<longleftrightarrow> cap_of d < 76"
    using small c by (auto simp: word_less_nat_alt unat_of_nat simp del: of_nat_diff)
  then show ?thesis by (simp only: second_filter.simps Let_def w less)
qed

text \<open>
  Tuning the second transmit filter needs no saturation: for every bandwidth the search
  over the four resistors ends with a capacitance of at most 63 that did not wrap below 0,
  the rounded quotient less 12 for the resistor it ends with, and the resistor before it (if
  any) was too small. So the clamp to 63 and the default resistor are never used.
\<close>

theorem second_filter_tunes:
  "\<exists>k c. k < 4 \<and> second_filter (15708 * (clamp_u32 bw 530000 20000000 div 10000)) 4 1 0 = (of_nat c, 2 ^ k) \<and>
     c \<le> 63 \<and> c + 12 = cap_of (15708 * (unat (clamp_u32 bw 530000 20000000) div 10000) * 2 ^ k) \<and>
     (k = 0 \<or> 63 < cap_of (15708 * (unat (clamp_u32 bw 530000 20000000) div 10000) * 2 ^ (k - 1)) - 12)"
proof -
  define b where "b = clamp_u32 bw 530000 20000000"
  define q where "q = unat b div 10000"
  have "530000 \<le> unat b" "unat b \<le> 20000000"
    by (auto simp: b_def clamp_u32_def word_less_nat_alt not_less)
  then have q: "53 \<le> q" "q \<le> 2000" by (simp_all add: q_def)
  let ?c = "15708 * (b div 10000)"
  have uq: "unat (b div 10000) = q" by (simp add: q_def unat_div)
  have corner: "unat ?c = 15708 * q" using uq q by (subst unat_times_lt) simp_all
  have half: "15708 * q * 2 ^ k div 2 = 7854 * q * 2 ^ k" for k by simp
  note bnd = cap_of_bounds [of "15708 * q * 2 ^ _", unfolded half]
  have round: "second_filter ?c (Suc k) (2 ^ j) cap0 =
      (if cap_of (15708 * q * 2 ^ j) < 76 then (of_nat (cap_of (15708 * q * 2 ^ j) - 12), 2 ^ j)
       else second_filter ?c k (2 ^ Suc j) (of_nat (cap_of (15708 * q * 2 ^ j) - 12)))"
    if "j \<in> {0, 1, 2, 3}" "12 \<le> cap_of (15708 * q * 2 ^ j)" for k j cap0
  proof -
    have "unat (2 ^ j :: u32) = 2 ^ j" "push_bit 1 (2 ^ j :: u32) = 2 ^ Suc j" using that(1) by auto
    then show ?thesis
      using second_filter_round [of ?c "2 ^ j" "15708 * q * 2 ^ j" k cap0] corner q that by auto
  qed
  define ok where "ok j \<longleftrightarrow> cap_of (15708 * q * 2 ^ j) < 76" for j
  define C where "C j = cap_of (15708 * q * 2 ^ j)" for j
  define F where "F k j = second_filter ?c k (2 ^ j)" for k j
  have step: "F (Suc k) j cap0 = (if ok j then (of_nat (C j - 12), 2 ^ j) else F k (Suc j) (of_nat (C j - 12)))"
    if "j \<in> {0, 1, 2, 3}" "12 \<le> C j" for k j cap0
    using round [of j k cap0] that unfolding ok_def C_def F_def by blast
  have low0: "12 \<le> C 0" using q bnd(2) [of 0] by (simp add: C_def)
  have low: "\<not> ok j \<Longrightarrow> 12 \<le> C (Suc j)" for j
    using q bnd(1) [of j] bnd(2) [of "Suc j"] by (simp add: C_def ok_def)
  have last: "ok 3" using q bnd(1) [of 3] by (simp add: ok_def)
  have four: "second_filter ?c 4 1 0 = F (Suc (Suc (Suc (Suc 0)))) 0 0"
  proof -
    have "(4 :: nat) = Suc (Suc (Suc (Suc 0)))" "(1 :: u32) = 2 ^ 0" by simp_all
    then show ?thesis by (simp only: F_def)
  qed
  have low1: "\<not> ok 0 \<Longrightarrow> 12 \<le> C 1" and low2: "\<not> ok 1 \<Longrightarrow> 12 \<le> C 2" and low3: "\<not> ok 2 \<Longrightarrow> 12 \<le> C 3"
    using low [of 0] low [of 1] low [of 2] by (simp_all add: numeral_eq_Suc)
  have steps: "F (Suc k) 0 x = (if ok 0 then (of_nat (C 0 - 12), 2 ^ 0) else F k 1 (of_nat (C 0 - 12)))"
    "\<not> ok 0 \<Longrightarrow> F (Suc k) 1 x = (if ok 1 then (of_nat (C 1 - 12), 2 ^ 1) else F k 2 (of_nat (C 1 - 12)))"
    "\<not> ok 1 \<Longrightarrow> F (Suc k) 2 x = (if ok 2 then (of_nat (C 2 - 12), 2 ^ 2) else F k 3 (of_nat (C 2 - 12)))"
    "\<not> ok 2 \<Longrightarrow> F (Suc k) 3 x = (of_nat (C 3 - 12), 2 ^ 3)" for k x
    using step [of 0] step [of 1] step [of 2] step [of 3] low0 low1 low2 low3 last
    by (simp_all add: numeral_2_eq_2 numeral_3_eq_3)
  have res: "\<exists>k c. k < 4 \<and> second_filter ?c 4 1 0 = (of_nat c, 2 ^ k) \<and> c \<le> 63 \<and> c + 12 = C k \<and>
      (k = 0 \<or> 63 < C (k - 1) - 12)"
    if "k < 4" "second_filter ?c 4 1 0 = (of_nat (C k - 12), 2 ^ k)" "ok k" "12 \<le> C k" "k = 0 \<or> \<not> ok (k - 1)" for k
    using that by (intro exI [of _ k] exI [of _ "C k - 12"]) (auto simp: ok_def C_def)
  have "\<exists>k c. k < 4 \<and> second_filter ?c 4 1 0 = (of_nat c, 2 ^ k) \<and> c \<le> 63 \<and> c + 12 = C k \<and> (k = 0 \<or> 63 < C (k - 1) - 12)"
  proof -
    consider "ok 0" | "\<not> ok 0" "ok 1" | "\<not> ok 0" "\<not> ok 1" "ok 2" | "\<not> ok 0" "\<not> ok 1" "\<not> ok 2" by blast
    then show ?thesis
    proof cases
      case 1
      have "second_filter ?c 4 1 0 = (of_nat (C 0 - 12), 2 ^ 0)" unfolding four steps(1) if_P [OF 1] ..
      then show ?thesis using 1 low0 by (intro res [of 0]) simp_all
    next
      case 2
      have "second_filter ?c 4 1 0 = (of_nat (C 1 - 12), 2 ^ 1)"
        unfolding four steps(1) if_not_P [OF 2(1)] steps(2) [OF 2(1)] if_P [OF 2(2)] ..
      then show ?thesis using 2 low1 by (intro res [of 1]) simp_all
    next
      case 3
      have "second_filter ?c 4 1 0 = (of_nat (C 2 - 12), 2 ^ 2)"
        unfolding four steps(1) if_not_P [OF 3(1)] steps(2) [OF 3(1)] if_not_P [OF 3(2)] steps(3) [OF 3(2)] if_P [OF 3(3)] ..
      then show ?thesis using 3 low2 by (intro res [of 2]) simp_all
    next
      case 4
      have "second_filter ?c 4 1 0 = (of_nat (C 3 - 12), 2 ^ 3)"
        unfolding four steps(1) if_not_P [OF 4(1)] steps(2) [OF 4(1)] if_not_P [OF 4(2)] steps(3) [OF 4(2)]
          if_not_P [OF 4(3)] steps(4) [OF 4(3)] ..
      then show ?thesis using 4 low3 last by (intro res [of 3]) simp_all
    qed
  qed
  then show ?thesis by (simp only: b_def q_def C_def)
qed

end
