(* ===== verification/Scanf.thy ===== *)
theory Scanf
  imports Cstr
begin

text \<open>
  The kernel's \<^verbatim>\<open>sscanf\<close> on strings without NUL, for the conversions the drivers use: \<^verbatim>\<open>%d\<close> and
  \<^verbatim>\<open>%lu\<close>, white space, and characters that must match. The result is the values converted
  before the first mismatch, its length what the call returns; a value is stored cut to the
  width of its variable. \<^verbatim>\<open>strsep\<close> on newlines is here too. The lemmas show that what was
  printed is read back.
\<close>

definition k_isspace :: "char \<Rightarrow> bool" where
  "k_isspace c \<longleftrightarrow> is_space c \<or> (of_char c :: nat) = 160"

datatype scan_item = Sp | Lit char | Conv bool

text \<open>The items of a format string; \<open>Conv\<close> tells whether a minus sign is accepted.\<close>

fun fmt_items :: "string \<Rightarrow> scan_item list" where
  "fmt_items [] = []"
| "fmt_items (c # f) =
     (if k_isspace c then Sp # fmt_items f
      else if c = CHR ''%'' then (case f of
          [] \<Rightarrow> []
        | d # g \<Rightarrow> if d = CHR ''d'' then Conv True # fmt_items g
                  else (case g of [] \<Rightarrow> [] | _ # h \<Rightarrow> Conv False # fmt_items h))
      else Lit c # fmt_items f)"

definition scan_int :: "bool \<Rightarrow> string \<Rightarrow> (int \<times> string) option" where
  "scan_int sg str =
     (case dropWhile k_isspace str of
        [] \<Rightarrow> None
      | c # cs \<Rightarrow>
          if sg \<and> c = CHR ''-''
          then (case cs of
                  [] \<Rightarrow> None
                | d # _ \<Rightarrow> if is_digit d then Some (- int (digits_val 0 cs), dropWhile is_digit cs) else None)
          else if is_digit c then Some (int (digits_val 0 (c # cs)), dropWhile is_digit cs)
          else None)"

fun scan_items :: "scan_item list \<Rightarrow> string \<Rightarrow> int list" where
  "scan_items [] str = []"
| "scan_items (Sp # f) str = scan_items f (dropWhile k_isspace str)"
| "scan_items (Lit c # f) str = (case str of [] \<Rightarrow> [] | x # xs \<Rightarrow> if x = c then scan_items f xs else [])"
| "scan_items (Conv sg # f) str = (case scan_int sg str of None \<Rightarrow> [] | Some (v, rest) \<Rightarrow> v # scan_items f rest)"

definition sscanf :: "string \<Rightarrow> string \<Rightarrow> int list" where
  "sscanf str f = scan_items (fmt_items f) str"

text \<open>The value of an \<^verbatim>\<open>int\<close> variable that a conversion was stored in.\<close>

definition to_int :: "int \<Rightarrow> int" where
  "to_int v = sint (word_of_int v :: u32)"

text \<open>The lines \<^verbatim>\<open>strsep\<close> gives, with the offset where each begins.\<close>

definition nl :: char where "nl = CHR 0x0A"

function strsep_lines :: "nat \<Rightarrow> string \<Rightarrow> (nat \<times> string) list" where
  "strsep_lines off str =
     (let line = takeWhile (\<lambda>c. c \<noteq> nl) str in
      case dropWhile (\<lambda>c. c \<noteq> nl) str of
        [] \<Rightarrow> [(off, line)]
      | _ # rest \<Rightarrow> (off, line) # strsep_lines (off + length line + 1) rest)"
  by auto
termination
proof (relation "measure (\<lambda>(_, s). length s)", simp, clarsimp)
  fix str rest :: string and x assume "dropWhile (\<lambda>c. c \<noteq> nl) str = x # rest"
  then show "length rest < length str"
    using length_dropWhile_le [of "\<lambda>c. c \<noteq> nl" str] by simp
qed

declare strsep_lines.simps [simp del]

subsection \<open>Reading back what was printed\<close>

definition show_int :: "int \<Rightarrow> string" where
  "show_int v = (if v < 0 then CHR ''-'' # show_nat (nat (- v)) else show_nat (nat v))"

text \<open>A text that a number can stand before.\<close>

definition no_digit :: "string \<Rightarrow> bool" where
  "no_digit rest \<longleftrightarrow> (case rest of [] \<Rightarrow> True | c # _ \<Rightarrow> \<not> is_digit c)"

lemma digits_val_stop: "no_digit rest \<Longrightarrow> digits_val a rest = a"
  by (cases rest) (auto simp: no_digit_def)

lemma dropWhile_digits: "(\<forall>c \<in> set xs. is_digit c) \<Longrightarrow> no_digit rest \<Longrightarrow> dropWhile is_digit (xs @ rest) = rest"
  by (induction xs) (auto simp: no_digit_def split: list.splits)

lemma digit_char_facts: "is_digit c \<Longrightarrow> \<not> k_isspace c \<and> c \<noteq> CHR ''-'' \<and> c \<noteq> nl \<and> c \<noteq> CHR ''#''"
  by (auto simp: is_digit_def k_isspace_def is_space_def nl_def)

lemma scan_int_nat:
  assumes "no_digit rest"
  shows "scan_int sg (show_nat n @ rest) = Some (int n, rest)"
proof -
  obtain c cs where s: "show_nat n = c # cs" using show_nat_digits [of n] by (cases "show_nat n") auto
  then have d: "is_digit c" "\<forall>x \<in> set cs. is_digit x" "digits_val 0 (c # cs) = n"
    using show_nat_digits [of n] by auto
  have "digits_val 0 (c # cs @ rest) = n"
    using d digits_val_append [of "c # cs" 0 rest] digits_val_stop [OF assms] by simp
  then show ?thesis
    using d s digit_char_facts [OF d(1)] dropWhile_digits [OF d(2) assms] by (simp add: scan_int_def)
qed

lemma scan_int_show:
  assumes "no_digit rest"
  shows "scan_int True (show_int v @ rest) = Some (v, rest)"
proof (cases "v < 0")
  case True
  obtain c cs where s: "show_nat (nat (- v)) = c # cs" using show_nat_digits by (cases "show_nat (nat (- v))") auto
  then have d: "is_digit c" "\<forall>x \<in> set cs. is_digit x" "digits_val 0 (c # cs) = nat (- v)"
    using show_nat_digits [of "nat (- v)"] by auto
  have "digits_val 0 (c # cs @ rest) = nat (- v)"
    using d digits_val_append [of "c # cs" 0 rest] digits_val_stop [OF assms] by simp
  moreover have "\<not> k_isspace CHR ''-''" by (simp add: k_isspace_def is_space_def)
  ultimately show ?thesis
    using True d s dropWhile_digits [OF d(2) assms] by (simp add: scan_int_def show_int_def)
qed (use scan_int_nat [OF assms] in \<open>simp add: show_int_def\<close>)

lemma no_digit_simps [simp]: "no_digit []" "no_digit (c # cs) \<longleftrightarrow> \<not> is_digit c"
  by (simp_all add: no_digit_def)

lemma show_int_plain: "c \<in> set (show_int v) \<Longrightarrow> is_digit c \<or> c = CHR ''-''"
  using show_nat_digits [of "nat v"] show_nat_digits [of "nat (- v)"] by (auto simp: show_int_def split: if_splits)

lemma show_int_start: "\<exists>c cs. show_int v = c # cs \<and> (is_digit c \<or> c = CHR ''-'')"
  using show_nat_digits [of "nat v"] show_nat_digits [of "nat (- v)"]
  by (auto simp: show_int_def neq_Nil_conv)

text \<open>White space in a format is no obstacle before a number.\<close>

lemma skip_show_int: "dropWhile k_isspace (show_int v @ rest) = show_int v @ rest"
proof -
  obtain c cs where "show_int v = c # cs" "is_digit c \<or> c = CHR ''-''" using show_int_start [of v] by auto
  moreover have "\<not> k_isspace CHR ''-''" by (simp add: k_isspace_def is_space_def)
  ultimately show ?thesis using digit_char_facts [of c] by auto
qed

lemma to_int_id: "- 2147483648 \<le> v \<Longrightarrow> v < 2147483648 \<Longrightarrow> to_int v = v"
  by (simp add: to_int_def signed_of_int signed_take_bit_int_eq_self)

text \<open>Lines joined by newlines come apart again.\<close>

fun join_lines :: "string list \<Rightarrow> string" where
  "join_lines [] = []"
| "join_lines [l] = l"
| "join_lines (l # m # ls) = l @ nl # join_lines (m # ls)"

lemma strsep_join:
  assumes "ls \<noteq> []" "\<forall>l \<in> set ls. nl \<notin> set l"
  shows "map snd (strsep_lines off (join_lines ls)) = ls"
  using assms
proof (induction ls arbitrary: off rule: join_lines.induct)
  case (2 l)
  then have p: "takeWhile (\<lambda>c. c \<noteq> nl) l = l" "dropWhile (\<lambda>c. c \<noteq> nl) l = []"
    by (auto intro: takeWhile_eq_all_conv [THEN iffD2])
  show ?case unfolding join_lines.simps strsep_lines.simps [of off l] Let_def p by simp
next
  case (3 l m ls)
  have "\<forall>c \<in> set l. c \<noteq> nl" using 3(3) by auto
  then have "takeWhile (\<lambda>c. c \<noteq> nl) (l @ nl # join_lines (m # ls)) = l"
    "dropWhile (\<lambda>c. c \<noteq> nl) (l @ nl # join_lines (m # ls)) = nl # join_lines (m # ls)"
    by (simp_all add: takeWhile_append2 dropWhile_append2)
  then show ?case using 3 by (simp add: Let_def strsep_lines.simps [of off "l @ nl # join_lines (m # ls)"])
qed simp

text \<open>Every line begins inside the text or at its end.\<close>

lemma strsep_offsets: "(o', l) \<in> set (strsep_lines off str) \<Longrightarrow> off \<le> o' \<and> o' + length l \<le> off + length str"
proof (induction off str rule: strsep_lines.induct)
  case (1 off str)
  let ?l = "takeWhile (\<lambda>c. c \<noteq> nl) str"
  have len: "length ?l + length (dropWhile (\<lambda>c. c \<noteq> nl) str) = length str"
    by (metis length_append takeWhile_dropWhile_id)
  show ?case
  proof (cases "dropWhile (\<lambda>c. c \<noteq> nl) str")
    case Nil
    then have "(o', l) = (off, ?l)"
      using 1(2) unfolding strsep_lines.simps [of off str] Let_def Nil by simp
    then show ?thesis using len by simp
  next
    case (Cons x rest)
    then have "(o', l) = (off, ?l) \<or> (o', l) \<in> set (strsep_lines (off + length ?l + 1) rest)"
      using 1(2) by (simp add: Let_def strsep_lines.simps [of off str])
    then show ?thesis using 1(1) [OF refl Cons] len Cons by auto
  qed
qed

end
