(* ===== verification/Ad_Fir.thy ===== *)
theory Ad_Fir
  imports Ad_Calib Scanf "HOL-Library.Signed_Division"
begin

unbundle bit_operations_syntax

text \<open>
  The FIR filters of the AD9361: reading a filter file, loading the coefficients, checking that
  the filter fits the clock chain and switching it on. The coefficients are 16-bit words; their
  list has \<^verbatim>\<open>ntaps\<close> entries. \<open>debug\<close> tells whether the driver is built with \<^verbatim>\<open>DEBUG\<close>.
\<close>

type_synonym s16 = "16 word"

definition FIR_TX1 :: u32 where "FIR_TX1 = 0x01"
definition FIR_TX2 :: u32 where "FIR_TX2 = 0x02"
definition FIR_TX1_TX2 :: u32 where "FIR_TX1_TX2 = 0x03"
definition FIR_RX1 :: u32 where "FIR_RX1 = 0x81"
definition FIR_RX2 :: u32 where "FIR_RX2 = 0x82"
definition FIR_RX1_RX2 :: u32 where "FIR_RX1_RX2 = 0x83"
definition FIR_IS_RX :: u32 where "FIR_IS_RX = 0x80"

definition is_rx :: "u32 \<Rightarrow> bool" where
  "is_rx dest \<longleftrightarrow> dest AND FIR_IS_RX \<noteq> 0"

definition fir_offs :: "u32 \<Rightarrow> u32" where
  "fir_offs dest = (if is_rx dest then REG_RX_FILTER_COEF_ADDR - REG_TX_FILTER_COEF_ADDR else 0)"

subsection \<open>Verifying the coefficients\<close>

fun verify_taps :: "'c bus \<Rightarrow> u32 \<Rightarrow> u32 \<Rightarrow> s16 list \<Rightarrow> int \<Rightarrow> ('c ad9361, int) state" where
  "verify_taps bus offs val [] ret = rtn ret"
| "verify_taps bus offs val (c # cs) ret = do {
     _ \<leftarrow> spi_write bus (REG_TX_FILTER_COEF_ADDR + offs) val;
     lo \<leftarrow> spi_read bus (REG_TX_FILTER_COEF_READ_DATA_1 + offs);
     hi \<leftarrow> spi_read bus (REG_TX_FILTER_COEF_READ_DATA_2 + offs);
     let tmp = (ucast ((word_of_int lo AND 0xFF) OR push_bit 8 (word_of_int hi) :: u32) :: s16);
     verify_taps bus offs (val + 1) cs (if tmp \<noteq> c then - 5 else ret)
   }"

fun verify_sels :: "'c bus \<Rightarrow> u32 \<Rightarrow> u32 \<Rightarrow> nat \<Rightarrow> s16 list \<Rightarrow> int \<Rightarrow> ('c ad9361, int) state" where
  "verify_sels bus offs sel 0 coef ret = rtn ret"
| "verify_sels bus offs sel (Suc cnt) coef ret = do {
     _ \<leftarrow> spi_write bus (REG_TX_FILTER_CONF + offs)
            (FIR_NUM_TAPS (of_nat (length coef) div 16 - 1) OR FIR_SELECT sel OR FIR_START_CLK);
     ret \<leftarrow> verify_taps bus offs 0 coef ret;
     verify_sels bus offs (sel + 1) cnt coef ret
   }"

definition verify_fir_filter_coef :: "'c bus \<Rightarrow> bool \<Rightarrow> u32 \<Rightarrow> s16 list \<Rightarrow> ('c ad9361, int) state" where
  "verify_fir_filter_coef bus debug dest coef =
     (if \<not> debug then rtn 0
      else let offs = fir_offs dest; both = (dest AND 3 = 3) in do {
        gain \<leftarrow> if is_rx dest then do {
                 g \<leftarrow> spi_read bus REG_RX_FILTER_GAIN;
                 _ \<leftarrow> spi_write bus REG_RX_FILTER_GAIN 0;
                 rtn g
               } else rtn 0;
        conf \<leftarrow> spi_read bus (REG_TX_FILTER_CONF + offs);
        ret \<leftarrow> verify_sels bus offs (if both then 1 else dest AND 3) (if both then 2 else 1) coef 0;
        _ \<leftarrow> if is_rx dest then spi_write bus REG_RX_FILTER_GAIN (word_of_int gain) else rtn 0;
        _ \<leftarrow> spi_write bus (REG_TX_FILTER_CONF + offs) (word_of_int conf);
        rtn ret
      })"

subsection \<open>Loading the coefficients\<close>

text \<open>The receive gain as the two bits of its register; the division rounds towards zero.\<close>

definition rx_fir_gain :: "int \<Rightarrow> u32" where
  "rx_fir_gain gain_dB = word_of_int (3 - (gain_dB + 12) sdiv 6) AND 3"

definition fir_factor_field :: "u8 \<Rightarrow> u32" where
  "fir_factor_field f = (if f = 4 then 3 else ucast f)"

text \<open>The filter's clock is enabled with the factor of the file; the field as it was before.\<close>

definition fir_enable :: "'c bus \<Rightarrow> u32 \<Rightarrow> int \<Rightarrow> nat \<Rightarrow> ('c ad9361, u32) state" where
  "fir_enable bus dest gain_dB ntaps =
     (if is_rx dest then do {
        _ \<leftarrow> spi_write bus REG_RX_FILTER_GAIN (rx_fir_gain gain_dB);
        _ \<leftarrow> upd_phy (\<lambda>s. s\<lparr>st_rx_fir_ntaps := of_nat ntaps\<rparr>);
        v \<leftarrow> spi_readf bus REG_RX_ENABLE_FILTER_CTRL (RX_FIR_ENABLE_DECIMATION (- 1));
        s \<leftarrow> get_phy;
        _ \<leftarrow> spi_writef bus REG_RX_ENABLE_FILTER_CTRL (RX_FIR_ENABLE_DECIMATION (- 1)) (fir_factor_field (st_rx_fir_dec s));
        rtn (word_of_int v)
      } else do {
        _ \<leftarrow> upd_phy (\<lambda>s. s\<lparr>st_tx_fir_ntaps := of_nat ntaps\<rparr>);
        v \<leftarrow> spi_readf bus REG_TX_ENABLE_FILTER_CTRL (TX_FIR_ENABLE_INTERPOLATION (- 1));
        s \<leftarrow> get_phy;
        _ \<leftarrow> spi_writef bus REG_TX_ENABLE_FILTER_CTRL (TX_FIR_ENABLE_INTERPOLATION (- 1)) (fir_factor_field (st_tx_fir_int s));
        rtn (word_of_int v)
      })"

definition fir_restore :: "'c bus \<Rightarrow> u32 \<Rightarrow> u32 \<Rightarrow> ('c ad9361, int) state" where
  "fir_restore bus dest val =
     (if is_rx dest then spi_writef bus REG_RX_ENABLE_FILTER_CTRL (RX_FIR_ENABLE_DECIMATION (- 1)) val
      else spi_writef bus REG_TX_ENABLE_FILTER_CTRL (TX_FIR_ENABLE_INTERPOLATION (- 1)) val)"

fun load_taps :: "'c bus \<Rightarrow> u32 \<Rightarrow> u32 \<Rightarrow> u32 \<Rightarrow> s16 list \<Rightarrow> ('c ad9361, unit) state" where
  "load_taps bus offs conf val [] = rtn ()"
| "load_taps bus offs conf val (c # cs) = do {
     _ \<leftarrow> spi_write bus (REG_TX_FILTER_COEF_ADDR + offs) val;
     _ \<leftarrow> spi_write bus (REG_TX_FILTER_COEF_WRITE_DATA_1 + offs) (scast c AND 0xFF);
     _ \<leftarrow> spi_write bus (REG_TX_FILTER_COEF_WRITE_DATA_2 + offs) (scast (signed_drop_bit 8 c));
     _ \<leftarrow> spi_write bus (REG_TX_FILTER_CONF + offs) (conf OR FIR_WRITE);
     _ \<leftarrow> spi_write bus (REG_TX_FILTER_COEF_READ_DATA_2 + offs) 0;
     _ \<leftarrow> spi_write bus (REG_TX_FILTER_COEF_READ_DATA_2 + offs) 0;
     load_taps bus offs conf (val + 1) cs
   }"

definition fir_conf :: "u32 \<Rightarrow> int \<Rightarrow> nat \<Rightarrow> u32" where
  "fir_conf dest gain_dB ntaps =
     (if \<not> is_rx dest \<and> gain_dB = - 6 then TX_FIR_GAIN_6DB else 0) OR
     FIR_NUM_TAPS (of_nat ntaps div 16 - 1) OR FIR_SELECT dest OR FIR_START_CLK"

definition load_fir_filter_coef :: "'c bus \<Rightarrow> bool \<Rightarrow> u32 \<Rightarrow> int \<Rightarrow> s16 list \<Rightarrow> ('c ad9361, int) state" where
  "load_fir_filter_coef bus debug dest gain_dB coef =
     (let ntaps = length coef; offs = fir_offs dest; conf = fir_conf dest gain_dB ntaps
      in if ntaps = 0 \<or> 128 < ntaps \<or> ntaps mod 16 \<noteq> 0 then rtn (- 22)
         else do {
           _ \<leftarrow> ensm_force_state bus (ucast ENSM_STATE_ALERT);
           enabled \<leftarrow> fir_enable bus dest gain_dB ntaps;
           _ \<leftarrow> spi_write bus (REG_TX_FILTER_CONF + offs) conf;
           _ \<leftarrow> load_taps bus offs conf 0 coef;
           _ \<leftarrow> spi_write bus (REG_TX_FILTER_CONF + offs) conf;
           _ \<leftarrow> spi_write bus (REG_TX_FILTER_CONF + offs) (conf AND NOT FIR_START_CLK);
           ret \<leftarrow> verify_fir_filter_coef bus debug dest coef;
           _ \<leftarrow> fir_restore bus dest enabled;
           _ \<leftarrow> ensm_restore_prev_state bus;
           rtn ret
         })"

subsection \<open>The filter file\<close>

text \<open>
  What the lines read so far have set: the variables of the parser (-1: no such line yet), the
  coefficients of both directions, and the fields of the driver's state.
\<close>

record fir_file =
  fp_tx :: int
  fp_tx_gain :: int
  fp_tx_int :: int
  fp_rx :: int
  fp_rx_gain :: int
  fp_rx_dec :: int
  fp_rtx :: int
  fp_rrx :: int
  fp_coefs :: "(s16 \<times> s16) list"
  fp_tx_clks :: "ulong list"
  fp_rx_clks :: "ulong list"
  fp_tx_bw :: u32
  fp_rx_bw :: u32

text \<open>The values that were converted replace the first entries of an array.\<close>

definition put_clks :: "int list \<Rightarrow> ulong list \<Rightarrow> ulong list" where
  "put_clks vs clks = map word_of_int vs @ drop (length vs) clks"

text \<open>One \<^verbatim>\<open>sscanf\<close> each: whether the line was taken.\<close>

definition try_tx :: "string \<Rightarrow> fir_file \<Rightarrow> bool \<times> fir_file" where
  "try_tx line p =
     (if fp_tx p < 0
      then (case sscanf line ''TX %d GAIN %d INT %d'' of
              [a, b, c] \<Rightarrow> (True, p\<lparr>fp_tx := to_int a, fp_tx_gain := to_int b, fp_tx_int := to_int c\<rparr>)
            | _ \<Rightarrow> (False, p\<lparr>fp_tx := - 1\<rparr>))
      else (False, p))"

definition try_rx :: "string \<Rightarrow> fir_file \<Rightarrow> bool \<times> fir_file" where
  "try_rx line p =
     (if fp_rx p < 0
      then (case sscanf line ''RX %d GAIN %d DEC %d'' of
              [a, b, c] \<Rightarrow> (True, p\<lparr>fp_rx := to_int a, fp_rx_gain := to_int b, fp_rx_dec := to_int c\<rparr>)
            | _ \<Rightarrow> (False, p\<lparr>fp_rx := - 1\<rparr>))
      else (False, p))"

definition try_rtx :: "string \<Rightarrow> fir_file \<Rightarrow> bool \<times> fir_file" where
  "try_rtx line p =
     (if fp_rtx p < 0
      then let vs = sscanf line ''RTX %lu %lu %lu %lu %lu %lu''; p = p\<lparr>fp_tx_clks := put_clks vs (fp_tx_clks p)\<rparr>
           in if length vs = 6 then (True, p\<lparr>fp_rtx := 0\<rparr>) else (False, p\<lparr>fp_rtx := - 1\<rparr>)
      else (False, p))"

definition try_rrx :: "string \<Rightarrow> fir_file \<Rightarrow> bool \<times> fir_file" where
  "try_rrx line p =
     (if fp_rrx p < 0
      then let vs = sscanf line ''RRX %lu %lu %lu %lu %lu %lu''; p = p\<lparr>fp_rx_clks := put_clks vs (fp_rx_clks p)\<rparr>
           in if length vs = 6 then (True, p\<lparr>fp_rrx := 0\<rparr>) else (False, p\<lparr>fp_rrx := - 1\<rparr>)
      else (False, p))"

definition try_bwrx :: "string \<Rightarrow> fir_file \<Rightarrow> bool \<times> fir_file" where
  "try_bwrx line p =
     (if fp_rx_bw p = 0
      then (case sscanf line ''BWRX %d'' of [v] \<Rightarrow> (True, p\<lparr>fp_rx_bw := word_of_int v\<rparr>) | _ \<Rightarrow> (False, p))
      else (False, p))"

definition try_bwtx :: "string \<Rightarrow> fir_file \<Rightarrow> bool \<times> fir_file" where
  "try_bwtx line p =
     (if fp_tx_bw p = 0
      then (case sscanf line ''BWTX %d'' of [v] \<Rightarrow> (True, p\<lparr>fp_tx_bw := word_of_int v\<rparr>) | _ \<Rightarrow> (False, p))
      else (False, p))"

fun first_taken :: "(string \<Rightarrow> fir_file \<Rightarrow> bool \<times> fir_file) list \<Rightarrow> string \<Rightarrow> fir_file \<Rightarrow> bool \<times> fir_file" where
  "first_taken [] line p = (False, p)"
| "first_taken (t # ts) line p = (let (taken, p) = t line p in if taken then (True, p) else first_taken ts line p)"

text \<open>A line of coefficients; \<open>Inl\<close> is the return with \<^verbatim>\<open>-EINVAL\<close> when the arrays are full.\<close>

definition try_coef :: "string \<Rightarrow> fir_file \<Rightarrow> fir_file + fir_file" where
  "try_coef line p =
     (let add = (\<lambda>t r. if 128 \<le> length (fp_coefs p) then Inl p
                       else Inr (p\<lparr>fp_coefs := fp_coefs p @ [(word_of_int t, word_of_int r)]\<rparr>))
      in case sscanf line ''%d,%d'' of [t] \<Rightarrow> add t t | [t, r] \<Rightarrow> add t r | _ \<Rightarrow> Inr p)"

definition fir_line :: "string \<Rightarrow> fir_file \<Rightarrow> fir_file + fir_file" where
  "fir_line line p =
     (if (case line of c # _ \<Rightarrow> c = CHR ''#'' | [] \<Rightarrow> False) then Inr p
      else let (taken, p) = first_taken [try_tx, try_rx, try_rtx, try_rrx, try_bwrx, try_bwtx] line p
           in if taken then Inr p else try_coef line p)"

fun fir_lines :: "nat \<Rightarrow> (nat \<times> string) list \<Rightarrow> fir_file \<Rightarrow> fir_file + fir_file" where
  "fir_lines n [] p = Inr p"
| "fir_lines n ((off, line) # ls) p =
     (if n \<le> off then Inr p
      else case fir_line line p of Inl p \<Rightarrow> Inl p | Inr p \<Rightarrow> fir_lines n ls p)"

definition fir_start :: "'c ad9361 \<Rightarrow> fir_file" where
  "fir_start s = \<lparr>fp_tx = - 1, fp_tx_gain = 0, fp_tx_int = 0, fp_rx = - 1, fp_rx_gain = 0, fp_rx_dec = 0,
     fp_rtx = - 1, fp_rrx = - 1, fp_coefs = [], fp_tx_clks = st_filt_tx_path_clks s,
     fp_rx_clks = st_filt_rx_path_clks s, fp_tx_bw = 0, fp_rx_bw = 0\<rparr>"

definition keep_file :: "fir_file \<Rightarrow> 'c ad9361 \<Rightarrow> 'c ad9361" where
  "keep_file p s = s\<lparr>st_filt_valid := False, st_filt_tx_path_clks := fp_tx_clks p,
     st_filt_rx_path_clks := fp_rx_clks p, st_filt_tx_bw_Hz := fp_tx_bw p, st_filt_rx_bw_Hz := fp_rx_bw p\<rparr>"

text \<open>Loading the two directions of a file; \<open>ret\<close> is what the direction before left.\<close>

definition load_tx :: "'c bus \<Rightarrow> bool \<Rightarrow> fir_file \<Rightarrow> ('c ad9361, int) state" where
  "load_tx bus debug p =
     (if fp_tx p = - 1 then rtn (- 22)
      else if fp_tx p = 1 \<or> fp_tx p = 2 \<or> fp_tx p = 3
      then do {
        _ \<leftarrow> upd_phy (\<lambda>s. s\<lparr>st_tx_fir_int := word_of_int (fp_tx_int p)\<rparr>);
        load_fir_filter_coef bus debug (word_of_int (fp_tx p)) (fp_tx_gain p) (map fst (fp_coefs p))
      }
      else rtn (- 22))"

definition load_rx :: "'c bus \<Rightarrow> bool \<Rightarrow> fir_file \<Rightarrow> int \<Rightarrow> ('c ad9361, int) state" where
  "load_rx bus debug p ret =
     (let dest = word_of_int (fp_rx p) OR FIR_IS_RX in
      if fp_rx p = - 1 then rtn ret
      else if dest = FIR_RX1 \<or> dest = FIR_RX2 \<or> dest = FIR_RX1_RX2
      then do {
        _ \<leftarrow> upd_phy (\<lambda>s. s\<lparr>st_rx_fir_dec := word_of_int (fp_rx_dec p)\<rparr>);
        load_fir_filter_coef bus debug dest (fp_rx_gain p) (map snd (fp_coefs p))
      }
      else rtn (- 22))"

definition parse_fir :: "'c bus \<Rightarrow> bool \<Rightarrow> string \<Rightarrow> nat \<Rightarrow> ('c ad9361, int) state" where
  "parse_fir bus debug data n = do {
     s \<leftarrow> get_phy;
     case fir_lines n (strsep_lines 0 data) (fir_start s) of
       Inl p \<Rightarrow> do { _ \<leftarrow> upd_phy (keep_file p); rtn (- 22) }
     | Inr p \<Rightarrow> do {
         _ \<leftarrow> upd_phy (keep_file p);
         ret \<leftarrow> load_tx bus debug p;
         ret \<leftarrow> load_rx bus debug p ret;
         if ret < 0 then rtn ret
         else do {
           _ \<leftarrow> upd_phy (\<lambda>s. if fp_rrx p = 0 \<and> fp_rtx p = 0 then s\<lparr>st_filt_valid := True\<rparr> else s);
           rtn (int n)
         }
       }
   }"

subsection \<open>Switching the filters on\<close>

definition fir_modes_ok :: "'c ad9361 \<Rightarrow> bool" where
  "fir_modes_ok s \<longleftrightarrow>
     (st_bypass_tx_fir s \<or> (st_tx_fir_int s = 1 \<or> st_tx_fir_int s = 2 \<or> st_tx_fir_int s = 4) \<and>
        \<not> (st_tx_fir_int s = 1 \<and> 64 < st_tx_fir_ntaps s)) \<and>
     (st_bypass_rx_fir s \<or> st_rx_fir_dec s = 1 \<or> st_rx_fir_dec s = 2 \<or> st_rx_fir_dec s = 4)"

text \<open>The chain for the filters: that of the file, or computed, with the slowest rate as a last resort.\<close>

definition fir_chain :: "'c ad9361 \<Rightarrow> ulong \<Rightarrow> (int + (ulong list \<times> ulong list) \<times> bool) option" where
  "fir_chain s rate =
     (if \<not> st_filt_valid s \<or> st_bypass_rx_fir s \<or> st_bypass_tx_fir s
      then (case calculate_rf_clock_chain s rate (st_rate_governor s) of
              None \<Rightarrow> None
            | Some (Inr c) \<Rightarrow> Some (Inr (c, False))
            | Some (Inl _) \<Rightarrow>
                (case calculate_rf_clock_chain s (if st_rate_governor s \<noteq> 0 then 1500000 else 1000000) (st_rate_governor s) of
                   None \<Rightarrow> None
                 | Some (Inl e) \<Rightarrow> Some (Inl e)
                 | Some (Inr c) \<Rightarrow> Some (Inr (c, False))))
      else Some (Inr ((st_filt_rx_path_clks s, st_filt_tx_path_clks s), True)))"

text \<open>Whether the taps fit between two samples; \<open>None\<close> is a division by zero.\<close>

definition fir_taps_ok :: "'c ad9361 \<Rightarrow> ulong list \<Rightarrow> ulong list \<Rightarrow> bool option" where
  "fir_taps_ok s rx tx =
     (if \<not> st_bypass_tx_fir s \<and> tx ! RX_SAMPL_FREQ = 0 then None
      else if \<not> st_bypass_tx_fir s \<and> (tx ! ADC_FREQ div tx ! RX_SAMPL_FREQ) * 16 < ucast (st_tx_fir_ntaps s) then Some False
      else if \<not> st_bypass_rx_fir s \<and> rx ! RX_SAMPL_FREQ = 0 then None
      else Some (st_bypass_rx_fir s \<or>
        \<not> (rx ! ADC_FREQ div (if rx ! ADC_FREQ = rx ! R2_FREQ then 1 else 2) div rx ! RX_SAMPL_FREQ) * 16 < ucast (st_rx_fir_ntaps s)))"

definition validate_enable_fir :: "'c bus \<Rightarrow> 'c clk_framework \<Rightarrow> 'c dig_tuner \<Rightarrow> (ulong \<Rightarrow> ulong) \<Rightarrow> u8 \<Rightarrow>
    ('c ad9361, int option) state" where
  "validate_enable_fir bus fw tune isqrt junk = do {
     s \<leftarrow> get_phy;
     if \<not> fir_modes_ok s then rtn (Some (- 22))
     else case fir_chain s (clk_get_rate fw TX_SAMPL_CLK s) of
       None \<Rightarrow> rtn None
     | Some (Inl e) \<Rightarrow> rtn (Some e)
     | Some (Inr ((rx, tx), valid)) \<Rightarrow>
         (case fir_taps_ok s rx tx of
            None \<Rightarrow> rtn None
          | Some False \<Rightarrow> rtn (Some (- 22))
          | Some True \<Rightarrow> do {
              ret \<leftarrow> set_trx_clock_chain bus fw tune rx tx;
              case ret of
                None \<Rightarrow> rtn None
              | Some r \<Rightarrow>
                  if r < 0 then rtn (Some r)
                  else do {
                    s \<leftarrow> get_phy;
                    t \<leftarrow> if \<not> pd_dig_interface_tune_fir_disable s \<and> st_bypass_tx_fir s \<and> st_bypass_rx_fir s
                         then tune 0 RESTORE_DEFAULT else rtn (Some 0);
                    s \<leftarrow> get_phy;
                    case t of
                      None \<Rightarrow> rtn None
                    | Some _ \<Rightarrow> update_rf_bandwidth bus fw isqrt junk
                        (if valid \<and> st_filt_rx_bw_Hz s \<noteq> 0 then st_filt_rx_bw_Hz s else st_current_rx_bw_Hz s)
                        (if valid \<and> st_filt_tx_bw_Hz s \<noteq> 0 then st_filt_tx_bw_Hz s else st_current_tx_bw_Hz s)
                  }
            })
   }"

end
