(* ===== verification/Ad_Fir_Props.thy ===== *)
theory Ad_Fir_Props
  imports Ad_Fir Ad_Calib_Props
begin

unbundle bit_operations_syntax

text \<open>
  The FIR filters: the driver's filter state stays well-formed whatever text it is given, and
  a filter file that was printed is read back.
\<close>

subsection \<open>The filter state\<close>

text \<open>Six rates per path, and a number of taps that the filter can hold.\<close>

definition taps_ok :: "u8 \<Rightarrow> bool" where
  "taps_ok n \<longleftrightarrow> unat n \<le> 128 \<and> unat n mod 16 = 0"

definition fir_wf :: "'c ad9361 \<Rightarrow> bool" where
  "fir_wf s \<longleftrightarrow> length (st_filt_rx_path_clks s) = 6 \<and> length (st_filt_tx_path_clks s) = 6 \<and>
     taps_ok (st_rx_fir_ntaps s) \<and> taps_ok (st_tx_fir_ntaps s)"

interpretation wf: ensm_free_field fir_wf
  by unfold_locales (simp_all add: fir_wf_def)

lemma taps_ok_of_nat: "n \<le> 128 \<Longrightarrow> n mod 16 = 0 \<Longrightarrow> taps_ok (of_nat n)"
  by (simp add: taps_ok_def unat_of_nat)

lemma chip_only_verify_taps [chip_intro]: "chip_only (verify_taps bus offs val cs ret)"
  by (induction cs arbitrary: val ret) (auto intro!: chip_intro)

lemma chip_only_verify_sels [chip_intro]: "chip_only (verify_sels bus offs sel cnt cs ret)"
  by (induction cnt arbitrary: sel ret) (auto intro!: chip_intro)

lemma chip_only_load_taps [chip_intro]: "chip_only (load_taps bus offs conf val cs)"
  by (induction cs arbitrary: val) (auto intro!: chip_intro)

lemma chip_only_fir [chip_intro]:
  "chip_only (verify_fir_filter_coef bus debug dest coef)" "chip_only (fir_restore bus dest v)"
  unfolding verify_fir_filter_coef_def fir_restore_def by (intro chip_intro)+

lemma wf_fir_enable: "n \<le> 128 \<Longrightarrow> n mod 16 = 0 \<Longrightarrow> preserves fir_wf (fir_enable bus dest g n)"
  unfolding fir_enable_def
  by (intro preserves_intro preserves_update keeps_preserves wf.keeps_spi)
    (simp_all add: fir_wf_def taps_ok_of_nat)

lemma wf_load: "preserves fir_wf (load_fir_filter_coef bus debug dest g coef)"
  unfolding load_fir_filter_coef_def Let_def
  by (intro preserves_intro wf_fir_enable keeps_preserves wf.keeps_spi wf.keeps_force wf.keeps_restore
      wf.keeps_chip_only [OF chip_only_load_taps] wf.keeps_chip_only [OF chip_only_fir(1)]
      wf.keeps_chip_only [OF chip_only_fir(2)]) auto

lemma wf_load_tx: "preserves fir_wf (load_tx bus debug p)"
  unfolding load_tx_def
  by (intro preserves_intro preserves_update wf_load) (simp_all add: fir_wf_def)

lemma wf_load_rx: "preserves fir_wf (load_rx bus debug p ret)"
  unfolding load_rx_def
  by (intro preserves_intro preserves_update wf_load) (simp_all add: fir_wf_def)

text \<open>A conversion for every value: the arrays of rates keep their length.\<close>

lemma length_scan_items: "length (scan_items f str) \<le> length (filter (\<lambda>i. case i of Conv _ \<Rightarrow> True | _ \<Rightarrow> False) f)"
proof (induction f str rule: scan_items.induct)
  case (4 sg f str)
  then show ?case by (cases "scan_int sg str") auto
qed (auto split: list.split intro: le_SucI)

lemma space_chars [simp]: "k_isspace CHR '' ''" "\<not> k_isspace CHR ''%''" "\<not> k_isspace CHR '',''"
  "\<not> k_isspace CHR ''T''" "\<not> k_isspace CHR ''X''" "\<not> k_isspace CHR ''R''" "\<not> k_isspace CHR ''G''"
  "\<not> k_isspace CHR ''A''" "\<not> k_isspace CHR ''I''" "\<not> k_isspace CHR ''N''" "\<not> k_isspace CHR ''D''"
  "\<not> k_isspace CHR ''E''" "\<not> k_isspace CHR ''C''" "\<not> k_isspace CHR ''B''" "\<not> k_isspace CHR ''W''"
  by (simp_all add: k_isspace_def is_space_def)

lemma length_put_clks: "length vs \<le> 6 \<Longrightarrow> length clks = 6 \<Longrightarrow> length (put_clks vs clks) = 6"
  by (simp add: put_clks_def)

lemma six_values:
  "length (sscanf line ''RTX %lu %lu %lu %lu %lu %lu'') \<le> 6"
  "length (sscanf line ''RRX %lu %lu %lu %lu %lu %lu'') \<le> 6"
  unfolding sscanf_def by (rule order_trans [OF length_scan_items], simp)+

definition clks_wf :: "fir_file \<Rightarrow> bool" where
  "clks_wf p \<longleftrightarrow> length (fp_tx_clks p) = 6 \<and> length (fp_rx_clks p) = 6"

lemma clks_try:
  assumes "clks_wf p"
  shows "clks_wf (snd (try_tx line p))" "clks_wf (snd (try_rx line p))" "clks_wf (snd (try_rtx line p))"
    "clks_wf (snd (try_rrx line p))" "clks_wf (snd (try_bwrx line p))" "clks_wf (snd (try_bwtx line p))"
  using assms six_values [of line]
  by (auto simp: clks_wf_def try_tx_def try_rx_def try_rtx_def try_rrx_def try_bwrx_def try_bwtx_def
      length_put_clks Let_def split: list.split)

lemma clks_first:
  assumes "\<And>t p. t \<in> set ts \<Longrightarrow> clks_wf p \<Longrightarrow> clks_wf (snd (t line p))" "clks_wf p"
  shows "clks_wf (snd (first_taken ts line p))"
  using assms
proof (induction ts arbitrary: p)
  case (Cons t ts)
  then show ?case by (auto simp: Let_def split: prod.split) (metis snd_conv)+
qed simp

lemma clks_coef: "clks_wf p \<Longrightarrow> try_coef line p = Inl q \<or> try_coef line p = Inr q \<Longrightarrow> clks_wf q"
  by (auto simp: try_coef_def clks_wf_def Let_def split: list.splits if_splits)

lemma clks_line:
  assumes "clks_wf p" "fir_line line p = Inl q \<or> fir_line line p = Inr q"
  shows "clks_wf q"
proof -
  obtain taken r where r: "first_taken [try_tx, try_rx, try_rtx, try_rrx, try_bwrx, try_bwtx] line p = (taken, r)" by fastforce
  have "clks_wf (snd (first_taken [try_tx, try_rx, try_rtx, try_rrx, try_bwrx, try_bwtx] line p))"
    by (rule clks_first) (use clks_try [of _ line] assms(1) in auto)
  then have "clks_wf r" by (simp only: r snd_conv)
  moreover have "q = p \<or> q = r \<or> try_coef line r = Inl q \<or> try_coef line r = Inr q"
    using assms(2) unfolding fir_line_def r Let_def prod.case by (auto split: if_splits)
  ultimately show ?thesis using assms(1) clks_coef by blast
qed

lemma clks_lines: "clks_wf p \<Longrightarrow> fir_lines n ls p = Inl q \<or> fir_lines n ls p = Inr q \<Longrightarrow> clks_wf q"
  by (induction n ls p rule: fir_lines.induct) (auto split: if_splits sum.splits dest: clks_line)

text \<open>
  C31. The filter state is well-formed: six rates for each path, and for each direction a
  number of taps that is a multiple of 16 and at most 128. Reading a filter file preserves
  this for every text and every behaviour of the bus, the error returns included.
\<close>

theorem parse_fir_wf:
  assumes "fir_wf s"
  shows "fir_wf (snd (run_state (parse_fir bus debug data n) s))"
proof -
  have start: "clks_wf (fir_start s)" using assms by (simp add: clks_wf_def fir_start_def fir_wf_def)
  have keep: "fir_wf (keep_file p s)" if "clks_wf p" for p
    using assms that by (simp add: keep_file_def fir_wf_def clks_wf_def)
  have valid: "preserves fir_wf (upd_phy (\<lambda>s. if b then s\<lparr>st_filt_valid := True\<rparr> else s))" for b
    by (rule preserves_update) (simp add: fir_wf_def)
  show ?thesis
  proof (cases "fir_lines n (strsep_lines 0 data) (fir_start s)")
    case (Inl p)
    then have "fir_wf (keep_file p s)" using keep clks_lines [OF start] by blast
    then show ?thesis using Inl by (simp add: parse_fir_def)
  next
    case (Inr p)
    have "preserves fir_wf (do {
        ret \<leftarrow> load_tx bus debug p;
        ret \<leftarrow> load_rx bus debug p ret;
        if ret < 0 then rtn ret
        else do {
          _ \<leftarrow> upd_phy (\<lambda>s. if fp_rrx p = 0 \<and> fp_rtx p = 0 then s\<lparr>st_filt_valid := True\<rparr> else s);
          rtn (int n)
        }
      })"
      by (intro preserves_intro wf_load_tx wf_load_rx valid)
    moreover have "fir_wf (keep_file p s)" using keep clks_lines [OF start] Inr by blast
    ultimately show ?thesis
      unfolding parse_fir_def run_bind_get Inr sum.case run_bind_update by (rule preservesD)
  qed
qed

theorem parse_fir_wf_witness:
  "fir_wf (snd (run_state (parse_fir chip_bus True (''RX 3 GAIN -6 DEC 2'' @ [nl] @ ''12,-7'') 25) ad_zero))"
  by (rule parse_fir_wf) (simp add: fir_wf_def ad_zero_def taps_ok_def)

subsection \<open>Reading a printed file back\<close>

text \<open>The lines of a filter file, as the filter design tools write them.\<close>

definition tx_line :: "int \<times> int \<times> int \<Rightarrow> string" where
  "tx_line h = (case h of (a, b, c) \<Rightarrow> ''TX '' @ show_int a @ '' GAIN '' @ show_int b @ '' INT '' @ show_int c)"

definition rx_line :: "int \<times> int \<times> int \<Rightarrow> string" where
  "rx_line h = (case h of (a, b, c) \<Rightarrow> ''RX '' @ show_int a @ '' GAIN '' @ show_int b @ '' DEC '' @ show_int c)"

definition clks_text :: "ulong list \<Rightarrow> string" where
  "clks_text cs = concat (map (\<lambda>c. CHR '' '' # show_nat (unat c)) cs)"

definition bw_line :: "string \<Rightarrow> u32 \<Rightarrow> string" where
  "bw_line tag bw = tag @ CHR '' '' # show_int (sint bw)"

definition coef_line :: "s16 \<times> s16 \<Rightarrow> string" where
  "coef_line c = show_int (sint (fst c)) @ CHR '','' # show_int (sint (snd c))"

lemma scan_show: "no_digit rest \<Longrightarrow> scan_items (Conv True # f) (show_int v @ rest) = v # scan_items f rest"
  by (simp add: scan_int_show)

lemma scan_show_end: "scan_items [Conv True] (show_int v) = [v]"
  using scan_show [of "[]" "[]" v] by simp

lemma skip_show: "dropWhile k_isspace (CHR '' '' # show_int v @ rest) = show_int v @ rest"
  "dropWhile k_isspace (CHR '' '' # show_int v) = show_int v" "dropWhile k_isspace (show_int v) = show_int v"
  using skip_show_int [of v rest] skip_show_int [of v "[]"] by simp_all

lemma scan_int_end: "scan_int True (show_int v) = Some (v, [])" "scan_int sg (show_nat n) = Some (int n, [])"
  using scan_int_show [of "[]" v] scan_int_nat [of "[]" sg n] by simp_all

lemma skip_show_nat: "dropWhile k_isspace (show_nat n @ rest) = show_nat n @ rest" "dropWhile k_isspace (show_nat n) = show_nat n"
  using skip_show_int [of "int n" rest] skip_show_int [of "int n" "[]"] by (simp_all add: show_int_def)

lemma scan_header:
  "sscanf (tx_line (a, b, c)) ''TX %d GAIN %d INT %d'' = [a, b, c]"
  "sscanf (rx_line (a, b, c)) ''RX %d GAIN %d DEC %d'' = [a, b, c]"
  unfolding sscanf_def tx_line_def rx_line_def
  by (simp_all add: skip_show skip_show_int scan_int_show scan_int_end is_digit_def)

lemma scan_clks:
  assumes "length cs = 6"
  shows "sscanf (''RTX'' @ clks_text cs) ''RTX %lu %lu %lu %lu %lu %lu'' = map uint cs"
    "sscanf (''RRX'' @ clks_text cs) ''RRX %lu %lu %lu %lu %lu %lu'' = map uint cs"
proof -
  obtain a b c d e f where "cs = [a, b, c, d, e, f]" using assms by (auto simp: numeral_eq_Suc length_Suc_conv)
  then show "sscanf (''RTX'' @ clks_text cs) ''RTX %lu %lu %lu %lu %lu %lu'' = map uint cs"
    "sscanf (''RRX'' @ clks_text cs) ''RRX %lu %lu %lu %lu %lu %lu'' = map uint cs"
    unfolding sscanf_def clks_text_def
    by (simp_all add: skip_show_nat scan_int_nat scan_int_end is_digit_def)
qed

lemma scan_bw:
  "sscanf (bw_line ''BWRX'' w) ''BWRX %d'' = [sint w]" "sscanf (bw_line ''BWTX'' w) ''BWTX %d'' = [sint w]"
  unfolding sscanf_def bw_line_def by (simp_all add: skip_show skip_show_int scan_int_show scan_int_end)

lemma scan_coef: "sscanf (coef_line c) ''%d,%d'' = [sint (fst c), sint (snd c)]"
  unfolding sscanf_def coef_line_def by (simp add: skip_show_int scan_int_show scan_int_end is_digit_def)

text \<open>A line that does not begin a comment and that one reader takes.\<close>

lemma fir_line_taken:
  "line = c # cs \<Longrightarrow> c \<noteq> CHR ''#'' \<Longrightarrow>
   first_taken [try_tx, try_rx, try_rtx, try_rrx, try_bwrx, try_bwtx] line p = (True, q) \<Longrightarrow> fir_line line p = Inr q"
  by (simp add: fir_line_def del: first_taken.simps)

definition in_int :: "int \<times> int \<times> int \<Rightarrow> bool" where
  "in_int h \<longleftrightarrow> (case h of (a, b, c) \<Rightarrow> 0 \<le> a \<and> a < 2147483648 \<and>
     - 2147483648 \<le> b \<and> b < 2147483648 \<and> - 2147483648 \<le> c \<and> c < 2147483648)"

lemma line_tx:
  "fp_tx p < 0 \<Longrightarrow> in_int (a, b, c) \<Longrightarrow>
   fir_line (tx_line (a, b, c)) p = Inr (p\<lparr>fp_tx := a, fp_tx_gain := b, fp_tx_int := c\<rparr>)"
  by (rule fir_line_taken [of _ "CHR ''T''"])
    (simp add: tx_line_def, simp, simp add: try_tx_def scan_header in_int_def to_int_id)

lemma line_rx:
  "0 \<le> fp_tx p \<Longrightarrow> fp_rx p < 0 \<Longrightarrow> in_int (a, b, c) \<Longrightarrow>
   fir_line (rx_line (a, b, c)) p = Inr (p\<lparr>fp_rx := a, fp_rx_gain := b, fp_rx_dec := c\<rparr>)"
  by (rule fir_line_taken [of _ "CHR ''R''"])
    (simp add: rx_line_def, simp, simp add: try_tx_def try_rx_def scan_header in_int_def to_int_id)

lemma put_all: "length cs = length ds \<Longrightarrow> put_clks (map uint cs) ds = cs"
  by (simp add: put_clks_def map_idI)

lemma line_rtx:
  "0 \<le> fp_tx p \<Longrightarrow> 0 \<le> fp_rx p \<Longrightarrow> fp_rtx p < 0 \<Longrightarrow> length cs = 6 \<Longrightarrow> length (fp_tx_clks p) = 6 \<Longrightarrow>
   fir_line (''RTX'' @ clks_text cs) p = Inr (p\<lparr>fp_tx_clks := cs, fp_rtx := 0\<rparr>)"
  by (rule fir_line_taken [of _ "CHR ''R''"])
    (simp, simp, simp only: first_taken.simps try_tx_def try_rx_def try_rtx_def scan_clks, simp add: put_all)

lemma line_rrx:
  "0 \<le> fp_tx p \<Longrightarrow> 0 \<le> fp_rx p \<Longrightarrow> fp_rtx p = 0 \<Longrightarrow> fp_rrx p < 0 \<Longrightarrow> length cs = 6 \<Longrightarrow> length (fp_rx_clks p) = 6 \<Longrightarrow>
   fir_line (''RRX'' @ clks_text cs) p = Inr (p\<lparr>fp_rx_clks := cs, fp_rrx := 0\<rparr>)"
  by (rule fir_line_taken [of _ "CHR ''R''"])
    (simp, simp, simp only: first_taken.simps try_tx_def try_rx_def try_rtx_def try_rrx_def scan_clks, simp add: put_all)

text \<open>The two headers and the two paths have been read.\<close>

definition heads_read :: "fir_file \<Rightarrow> bool" where
  "heads_read p \<longleftrightarrow> 0 \<le> fp_tx p \<and> 0 \<le> fp_rx p \<and> fp_rtx p = 0 \<and> fp_rrx p = 0"

lemmas tries = try_tx_def try_rx_def try_rtx_def try_rrx_def try_bwrx_def try_bwtx_def

lemma line_bw:
  "heads_read p \<Longrightarrow> fp_rx_bw p = 0 \<Longrightarrow> fir_line (bw_line ''BWRX'' w) p = Inr (p\<lparr>fp_rx_bw := w\<rparr>)"
  "heads_read p \<Longrightarrow> fp_rx_bw p \<noteq> 0 \<Longrightarrow> fp_tx_bw p = 0 \<Longrightarrow> fir_line (bw_line ''BWTX'' w) p = Inr (p\<lparr>fp_tx_bw := w\<rparr>)"
  by (rule fir_line_taken [of _ "CHR ''B''"], simp add: bw_line_def, simp,
      simp add: heads_read_def tries scan_bw)+

lemma coef_line_start: "\<exists>x xs. coef_line c = x # xs \<and> x \<noteq> CHR ''#''"
  using show_int_start [of "sint (fst c)"] digit_char_facts by (auto simp: coef_line_def)

lemma line_coef:
  assumes "heads_read p" "fp_rx_bw p \<noteq> 0" "fp_tx_bw p \<noteq> 0" "length (fp_coefs p) < 128"
  shows "fir_line (coef_line c) p = Inr (p\<lparr>fp_coefs := fp_coefs p @ [c]\<rparr>)"
proof -
  have "first_taken [try_tx, try_rx, try_rtx, try_rrx, try_bwrx, try_bwtx] (coef_line c) p = (False, p)"
    using assms(1-3) by (simp add: heads_read_def tries)
  moreover have "try_coef (coef_line c) p = Inr (p\<lparr>fp_coefs := fp_coefs p @ [c]\<rparr>)"
    using assms(4) by (simp add: try_coef_def scan_coef)
  ultimately show ?thesis
    using coef_line_start [of c] by (auto simp: fir_line_def simp del: first_taken.simps)
qed

fun each_line :: "string list \<Rightarrow> fir_file \<Rightarrow> fir_file + fir_file" where
  "each_line [] p = Inr p"
| "each_line (l # ls) p = (case fir_line l p of Inl p \<Rightarrow> Inl p | Inr p \<Rightarrow> each_line ls p)"

lemma each_coef:
  "heads_read p \<Longrightarrow> fp_rx_bw p \<noteq> 0 \<Longrightarrow> fp_tx_bw p \<noteq> 0 \<Longrightarrow> length (fp_coefs p) + length cs \<le> 128 \<Longrightarrow>
   each_line (map coef_line cs) p = Inr (p\<lparr>fp_coefs := fp_coefs p @ cs\<rparr>)"
proof (induction cs arbitrary: p)
  case (Cons c cs)
  have "fir_line (coef_line c) p = Inr (p\<lparr>fp_coefs := fp_coefs p @ [c]\<rparr>)"
    using Cons.prems by (intro line_coef) simp_all
  then show ?case
    using Cons.IH [of "p\<lparr>fp_coefs := fp_coefs p @ [c]\<rparr>"] Cons.prems by (simp add: heads_read_def)
qed simp

lemma fir_lines_each: "(\<forall>x \<in> set ls. fst x < n) \<Longrightarrow> fir_lines n ls p = each_line (map snd ls) p"
  by (induction n ls p rule: fir_lines.induct) (auto split: sum.split)

definition file_lines :: "int \<times> int \<times> int \<Rightarrow> int \<times> int \<times> int \<Rightarrow> ulong list \<Rightarrow> ulong list \<Rightarrow> u32 \<Rightarrow> u32 \<Rightarrow>
    (s16 \<times> s16) list \<Rightarrow> string list" where
  "file_lines tx rx txc rxc txbw rxbw cs =
     [tx_line tx, rx_line rx, ''RTX'' @ clks_text txc, ''RRX'' @ clks_text rxc, bw_line ''BWRX'' rxbw, bw_line ''BWTX'' txbw] @
     map coef_line cs"

lemma plain_parts: "nl \<notin> set (show_int v)" "nl \<notin> set (show_nat n)"
  using show_int_plain [of nl v] show_int_plain [of nl "int n"] by (auto simp: is_digit_def nl_def show_int_def)

lemma nl_chars: "CHR 0x0A = nl" "nl \<noteq> CHR '' ''" "nl \<noteq> CHR '',''" "nl \<noteq> CHR ''A''" "nl \<noteq> CHR ''B''" "nl \<noteq> CHR ''C''"
  "nl \<noteq> CHR ''D''" "nl \<noteq> CHR ''E''" "nl \<noteq> CHR ''G''" "nl \<noteq> CHR ''I''" "nl \<noteq> CHR ''N''" "nl \<noteq> CHR ''R''"
  "nl \<noteq> CHR ''T''" "nl \<noteq> CHR ''W''" "nl \<noteq> CHR ''X''"
  by (simp_all add: nl_def)

lemma lines_plain: "\<forall>l \<in> set (file_lines tx rx txc rxc txbw rxbw cs). nl \<notin> set l \<and> l \<noteq> []"
proof -
  have "nl \<notin> set (tx_line tx)" "nl \<notin> set (rx_line rx)" "nl \<notin> set (clks_text c)" for c
    by (auto simp: tx_line_def rx_line_def clks_text_def plain_parts nl_chars split: prod.splits)
  moreover have "nl \<notin> set (coef_line c)" "coef_line c \<noteq> []" for c
    by (simp_all add: coef_line_def plain_parts nl_chars)
  moreover have "nl \<notin> set (bw_line ''BWRX'' w)" "nl \<notin> set (bw_line ''BWTX'' w)" for w
    by (simp_all add: bw_line_def plain_parts nl_chars)
  moreover have "tx_line tx \<noteq> []" "rx_line rx \<noteq> []" "bw_line ''BWRX'' w \<noteq> []" "bw_line ''BWTX'' w \<noteq> []" for w
    by (simp_all add: tx_line_def rx_line_def bw_line_def split: prod.split)
  ultimately show ?thesis by (auto simp: file_lines_def nl_chars)
qed

text \<open>
  C30. A filter file is read back: printing the two headers, the rates of both paths, the two
  bandwidths and up to 128 pairs of coefficients, one to a line, and parsing the text gives
  those values, whatever rates were stored before. The headers' first numbers are not
  negative and all fit an \<^verbatim>\<open>int\<close>, the bandwidths are not 0.
\<close>

theorem fir_file_roundtrip:
  assumes "in_int (a, b, c)" "in_int (d, e, f)" "length txc = 6" "length rxc = 6" "txbw \<noteq> 0" "rxbw \<noteq> 0"
    and "length cs \<le> 128" "fir_wf s"
    and printed: "data = join_lines (file_lines (a, b, c) (d, e, f) txc rxc txbw rxbw cs)" "length data \<le> n"
  shows "fir_lines n (strsep_lines 0 data) (fir_start s) = Inr \<lparr>fp_tx = a, fp_tx_gain = b, fp_tx_int = c,
    fp_rx = d, fp_rx_gain = e, fp_rx_dec = f, fp_rtx = 0, fp_rrx = 0, fp_coefs = cs, fp_tx_clks = txc,
    fp_rx_clks = rxc, fp_tx_bw = txbw, fp_rx_bw = rxbw\<rparr>"
proof -
  let ?ls = "file_lines (a, b, c) (d, e, f) txc rxc txbw rxbw cs"
  have ls: "map snd (strsep_lines 0 data) = ?ls"
    unfolding printed(1) by (rule strsep_join) (use lines_plain in \<open>auto simp: file_lines_def\<close>)
  have "fst x < n" if "x \<in> set (strsep_lines 0 data)" for x
  proof -
    obtain o' l where x: "x = (o', l)" by fastforce
    have "l \<in> set ?ls" using that x unfolding ls [symmetric] by force
    then have "l \<noteq> []" using lines_plain by blast
    then show ?thesis using strsep_offsets [of o' l 0 data] that x printed(2) by (cases l) auto
  qed
  then have "fir_lines n (strsep_lines 0 data) (fir_start s) = each_line ?ls (fir_start s)"
    using fir_lines_each ls by metis
  also have "\<dots> = each_line (map coef_line cs) \<lparr>fp_tx = a, fp_tx_gain = b, fp_tx_int = c, fp_rx = d, fp_rx_gain = e,
      fp_rx_dec = f, fp_rtx = 0, fp_rrx = 0, fp_coefs = [], fp_tx_clks = txc, fp_rx_clks = rxc, fp_tx_bw = txbw, fp_rx_bw = rxbw\<rparr>"
    using assms(1-6,8)
    by (simp only: file_lines_def append_Cons append_Nil each_line.simps fir_start_def)
      (simp add: line_tx line_rx line_rtx [simplified] line_rrx [simplified] line_bw heads_read_def in_int_def fir_wf_def)
  also have "\<dots> = Inr \<lparr>fp_tx = a, fp_tx_gain = b, fp_tx_int = c, fp_rx = d, fp_rx_gain = e,
      fp_rx_dec = f, fp_rtx = 0, fp_rrx = 0, fp_coefs = cs, fp_tx_clks = txc, fp_rx_clks = rxc, fp_tx_bw = txbw, fp_rx_bw = rxbw\<rparr>"
    using assms(1,2,5-7) by (subst each_coef) (simp_all add: heads_read_def in_int_def)
  finally show ?thesis .
qed

theorem fir_file_roundtrip_witness:
  "fir_lines 200 (strsep_lines 0 (join_lines (file_lines (3, 0, 2) (3, - 6, 2) [1, 2, 3, 4, 5, 6] [7, 8, 9, 10, 11, 12]
     20 18 [(1, 2), (- 3, 4)]))) (fir_start ad_zero) = Inr \<lparr>fp_tx = 3, fp_tx_gain = 0, fp_tx_int = 2,
    fp_rx = 3, fp_rx_gain = - 6, fp_rx_dec = 2, fp_rtx = 0, fp_rrx = 0, fp_coefs = [(1, 2), (- 3, 4)],
    fp_tx_clks = [1, 2, 3, 4, 5, 6], fp_rx_clks = [7, 8, 9, 10, 11, 12], fp_tx_bw = 20, fp_rx_bw = 18\<rparr>"
proof (rule fir_file_roundtrip)
  show "fir_wf ad_zero" by (simp add: fir_wf_def ad_zero_def taps_ok_def)
  show "length (join_lines (file_lines (3, 0, 2) (3, - 6, 2) [1, 2, 3, 4, 5, 6] [7, 8, 9, 10, 11, 12] 20 18 [(1, 2), (- 3, 4)])) \<le> 200"
    by code_simp
qed (simp_all add: in_int_def)

end
