(* ===== verification/Ad_Agc.thy ===== *)
theory Ad_Agc
  imports Ad_Setup
begin

unbundle bit_operations_syntax

text \<open>
  The setup of the AD9361's gain control: \<^verbatim>\<open>ad9361_gc_setup\<close> in the order of the code, one
  definition per group of registers. Every write's result is dropped; the result is that of
  the final update of the timing.
\<close>

abbreviation (input) b32 :: "u8 \<Rightarrow> u32" where "b32 x \<equiv> ucast x"

definition set_gc :: "(gain_control \<Rightarrow> gain_control) \<Rightarrow> 'c ad9361 \<Rightarrow> 'c ad9361" where
  "set_gc f s = s\<lparr>pd_gain_ctrl := f (pd_gain_ctrl s)\<rparr>"

subsection \<open>Modes, steps and thresholds\<close>

definition gc_modes :: "'c bus \<Rightarrow> gain_control \<Rightarrow> ('c ad9361, int) state" where
  "gc_modes bus gc =
     (let reg = DEC_PWR_FOR_GAIN_LOCK_EXIT OR DEC_PWR_FOR_LOCK_LEVEL OR DEC_PWR_FOR_LOW_PWR OR
          (if gc_rx1_mode gc = RF_GAIN_HYBRID_AGC \<or> gc_rx2_mode gc = RF_GAIN_HYBRID_AGC then SLOW_ATTACK_HYBRID_MODE else 0) OR
          RX1_GAIN_CTRL_SETUP (b32 (gc_rx1_mode gc)) OR RX2_GAIN_CTRL_SETUP (b32 (gc_rx2_mode gc))
      in do {
        _ \<leftarrow> upd_phy (\<lambda>s. s\<lparr>st_agc_mode0 := gc_rx1_mode gc, st_agc_mode1 := gc_rx2_mode gc\<rparr>);
        _ \<leftarrow> spi_write bus REG_AGC_CONFIG_1 reg;
        _ \<leftarrow> spi_writef bus REG_AGC_CONFIG_2 MAN_GAIN_CTRL_RX1 (of_bool (gc_mgc_rx1_ctrl_inp_en gc));
        _ \<leftarrow> spi_writef bus REG_AGC_CONFIG_2 MAN_GAIN_CTRL_RX2 (of_bool (gc_mgc_rx2_ctrl_inp_en gc));
        spi_writef bus REG_AGC_CONFIG_2 DIG_GAIN_EN (of_bool (gc_dig_gain_en gc))
      })"

text \<open>\<^verbatim>\<open>clamp_t(u8, x, 1U, 8U)\<close>: a step of one to eight.\<close>

definition clamp_step :: "u8 \<Rightarrow> u8" where
  "clamp_step x = min (max x 1) 8"

definition agc_config_3 :: "bool \<Rightarrow> gain_control \<Rightarrow> u32" where
  "agc_config_3 split gc =
     (let reg = ADC_OVERRANGE_SAMPLE_SIZE (b32 (gc_adc_ovr_sample_size gc) - 1);
          mode = gc_mgc_split_table_ctrl_inp_gain_mode gc
      in (if split \<and> (gc_mgc_rx1_ctrl_inp_en gc \<or> gc_mgc_rx2_ctrl_inp_en gc)
          then (if mode = 1 then reg AND NOT INCDEC_LMT_GAIN
                else if mode = 2 then reg OR INCDEC_LMT_GAIN else reg OR USE_AGC_FOR_LMTLPF_GAIN)
          else reg) OR MANUAL_INCR_STEP_SIZE (b32 (gc_mgc_inc_gain_step gc) - 1))"

definition gc_steps :: "'c bus \<Rightarrow> ('c ad9361, int) state" where
  "gc_steps bus = do {
     _ \<leftarrow> upd_phy (set_gc (\<lambda>gc. gc\<lparr>gc_adc_ovr_sample_size := clamp_step (gc_adc_ovr_sample_size gc)\<rparr>));
     _ \<leftarrow> upd_phy (set_gc (\<lambda>gc. gc\<lparr>gc_mgc_inc_gain_step := clamp_step (gc_mgc_inc_gain_step gc)\<rparr>));
     s \<leftarrow> get_phy;
     _ \<leftarrow> spi_write bus REG_AGC_CONFIG_3 (agc_config_3 (pd_split_gt s) (pd_gain_ctrl s));
     _ \<leftarrow> upd_phy (set_gc (\<lambda>gc. gc\<lparr>gc_mgc_dec_gain_step := clamp_step (gc_mgc_dec_gain_step gc)\<rparr>));
     s \<leftarrow> get_phy;
     let gc = pd_gain_ctrl s;
     _ \<leftarrow> spi_write bus REG_PEAK_WAIT_TIME (MANUAL_CTRL_IN_DECR_GAIN_STP_SIZE (b32 (gc_mgc_dec_gain_step gc) - 1));
     if gc_dig_gain_en gc
     then spi_write bus REG_DIGITAL_GAIN
            (MAXIMUM_DIGITAL_GAIN (b32 (gc_max_dig_gain gc)) OR DIG_GAIN_STP_SIZE (b32 (gc_dig_gain_step_size gc)))
     else rtn 0
   }"

text \<open>An overload threshold in steps of 16; one below 16 wraps to the largest value.\<close>

definition lmt_thresh :: "u16 \<Rightarrow> u32" where
  "lmt_thresh t = min (max (ucast t div 16 - 1) 0) 63"

definition gc_overload :: "'c bus \<Rightarrow> gain_control \<Rightarrow> ('c ad9361, int) state" where
  "gc_overload bus gc =
     (let small = gc_adc_small_overload_thresh gc; large = gc_adc_large_overload_thresh gc in do {
        _ \<leftarrow> spi_write bus REG_ADC_SMALL_OVERLOAD_THRESH (b32 (if small \<le> large then small else large));
        _ \<leftarrow> spi_write bus REG_ADC_LARGE_OVERLOAD_THRESH (b32 (if small \<le> large then large else small));
        _ \<leftarrow> spi_write bus REG_LARGE_LMT_OVERLOAD_THRESH (lmt_thresh (gc_lmt_overload_high_thresh gc));
        _ \<leftarrow> spi_writef bus REG_SMALL_LMT_OVERLOAD_THRESH (SMALL_LMT_OVERLOAD_THRESH (- 1))
               (lmt_thresh (gc_lmt_overload_low_thresh gc));
        s \<leftarrow> get_phy;
        _ \<leftarrow> if pd_split_gt s then do {
               _ \<leftarrow> spi_write bus REG_RX1_MANUAL_LPF_GAIN 0x58;
               _ \<leftarrow> spi_write bus REG_RX2_MANUAL_LPF_GAIN 0x18;
               spi_write bus REG_FAST_INITIAL_LMT_GAIN_LIMIT 0x27
             } else rtn 0;
        _ \<leftarrow> spi_write bus REG_RX1_MANUAL_DIGITALFORCED_GAIN 0;
        spi_write bus REG_RX2_MANUAL_DIGITALFORCED_GAIN 0
      })"

text \<open>The power measurement; a duration below 16 has no logarithm and sets all the bits.\<close>

definition gc_power :: "'c bus \<Rightarrow> gain_control \<Rightarrow> ('c ad9361, int) state" where
  "gc_power bus gc =
     (let fast = (gc_rx1_mode gc = RF_GAIN_FASTATTACK_AGC \<or> gc_rx2_mode gc = RF_GAIN_FASTATTACK_AGC);
          dur = (if fast then gc_f_agc_dec_pow_measuremnt_duration gc else ucast (gc_dec_pow_measuremnt_duration gc))
      in do {
        _ \<leftarrow> spi_write bus REG_FAST_LOW_POWER_THRESH (b32 (min (max (gc_low_power_thresh gc) 0) 64) * 2);
        _ \<leftarrow> spi_write bus REG_TX_SYMBOL_ATTEN_CONFIG 0;
        _ \<leftarrow> spi_writef bus REG_DEC_POWER_MEASURE_DURATION_0 USE_HB1_OUT_FOR_DEC_PWR_MEAS
               (of_bool (\<not> gc_use_rx_fir_out_for_dec_pwr_meas gc));
        _ \<leftarrow> spi_writef bus REG_DEC_POWER_MEASURE_DURATION_0 ENABLE_DEC_PWR_MEAS 1;
        spi_writef bus REG_DEC_POWER_MEASURE_DURATION_0 (DEC_POWER_MEASUREMENT_DURATION (- 1))
          (word_of_int (ilog2 (dur div 16)))
      })"

subsection \<open>Slow attack\<close>

definition gc_thresholds :: "'c bus \<Rightarrow> gain_control \<Rightarrow> ('c ad9361, int) state" where
  "gc_thresholds bus gc =
     (let hi = b32 (min (max (gc_agc_inner_thresh_high gc) 0) 127); lo = b32 (min (max (gc_agc_inner_thresh_low gc) 0) 127)
      in do {
        _ \<leftarrow> spi_write bus REG_AGC_LOCK_LEVEL (hi OR (push_bit 7 (of_bool (gc_agc_dig_sat_ovrg_en gc)) AND ENABLE_DIG_SAT_OVRG));
        _ \<leftarrow> spi_write bus REG_AGC_INNER_LOW_THRESH
               (lo OR (if gc_adc_lmt_small_overload_prevent_gain_inc gc then PREVENT_GAIN_INC else 0));
        _ \<leftarrow> spi_write bus REG_OUTER_POWER_THRESHS
               (AGC_OUTER_HIGH_THRESH (hi - b32 (gc_agc_outer_thresh_high gc)) OR
                AGC_OUTER_LOW_THRESH (b32 (gc_agc_outer_thresh_low gc) - lo));
        _ \<leftarrow> spi_write bus REG_GAIN_STP_2
               (AGC_OUTER_HIGH_THRESH_EXED_STP_SIZE (b32 (gc_agc_outer_thresh_high_dec_steps gc)) OR
                AGC_OUTER_LOW_THRESH_EXED_STP_SIZE (b32 (gc_agc_outer_thresh_low_inc_steps gc)));
        spi_write bus REG_GAIN_STP1
          ((if gc_immed_gain_change_if_large_adc_overload gc then IMMED_GAIN_CHANGE_IF_LG_ADC_OVERLOAD else 0) OR
           (if gc_immed_gain_change_if_large_lmt_overload gc then IMMED_GAIN_CHANGE_IF_LG_LMT_OVERLOAD else 0) OR
           AGC_INNER_HIGH_THRESH_EXED_STP_SIZE (b32 (gc_agc_inner_thresh_high_dec_steps gc)) OR
           AGC_INNER_LOW_THRESH_EXED_STP_SIZE (b32 (gc_agc_inner_thresh_low_inc_steps gc)))
      })"

definition gc_counters :: "'c bus \<Rightarrow> gain_control \<Rightarrow> ('c ad9361, int) state" where
  "gc_counters bus gc = do {
     _ \<leftarrow> spi_write bus REG_ADC_OVERLOAD_COUNTERS
            (LARGE_ADC_OVERLOAD_EXED_COUNTER (b32 (gc_adc_large_overload_exceed_counter gc)) OR
             SMALL_ADC_OVERLOAD_EXED_COUNTER (b32 (gc_adc_small_overload_exceed_counter gc)));
     _ \<leftarrow> spi_write bus REG_GAIN_STP_CONFIG_2
            (DECREMENT_STP_SIZE_FOR_SMALL_LPF_GAIN_CHANGE (b32 (gc_f_agc_large_overload_inc_steps gc)) OR
             LARGE_LPF_GAIN_STEP (b32 (gc_adc_large_overload_inc_steps gc)));
     _ \<leftarrow> spi_write bus REG_LMT_OVERLOAD_COUNTERS
            (LARGE_LMT_OVERLOAD_EXED_COUNTER (b32 (gc_lmt_overload_large_exceed_counter gc)) OR
             SMALL_LMT_OVERLOAD_EXED_COUNTER (b32 (gc_lmt_overload_small_exceed_counter gc)));
     _ \<leftarrow> spi_writef bus REG_GAIN_STP_CONFIG1 (DEC_STP_SIZE_FOR_LARGE_LMT_OVERLOAD (- 1))
            (b32 (gc_lmt_overload_large_inc_steps gc));
     spi_write bus REG_DIGITAL_SAT_COUNTER
       (DIG_SATURATION_EXED_COUNTER (b32 (gc_dig_saturation_exceed_counter gc)) OR
        (if gc_sync_for_gain_counter_en gc then ENABLE_SYNC_FOR_GAIN_COUNTER else 0))
   }"

subsection \<open>Fast attack\<close>

definition gc_fast_lock :: "'c bus \<Rightarrow> gain_control \<Rightarrow> ('c ad9361, int) state" where
  "gc_fast_lock bus gc = do {
     _ \<leftarrow> spi_writef bus REG_FAST_CONFIG_1 ENABLE_INCR_GAIN (of_bool (gc_f_agc_allow_agc_gain_increase gc));
     _ \<leftarrow> spi_write bus REG_FAST_INCREMENT_TIME (b32 (gc_f_agc_lp_thresh_increment_time gc));
     _ \<leftarrow> spi_writef bus REG_FAST_ENERGY_DETECT_COUNT (INCREMENT_GAIN_STP_LPFLMT (- 1))
            (clamp_u32 (b32 (gc_f_agc_lp_thresh_increment_steps gc) - 1) 0 7);
     _ \<leftarrow> spi_writef bus REG_FAST_CONFIG_2_SETTLING_DELAY ENABLE_LMT_GAIN_INC_FOR_LOCK_LEVEL
            (of_bool (gc_f_agc_lock_level_lmt_gain_increase_en gc));
     _ \<leftarrow> spi_writef bus REG_FAST_AGCLL_UPPER_LIMIT (AGCLL_MAX_INCREASE (- 1))
            (clamp_u32 (b32 (gc_f_agc_lock_level_gain_increase_upper_limit gc)) 0 63);
     _ \<leftarrow> spi_writef bus REG_FAST_ENERGY_LOST_THRESH (POST_LOCK_LEVEL_STP_SIZE_FOR_LPF_TABLE_FULL_TABLE (- 1))
            (clamp_u32 (b32 (gc_f_agc_lpf_final_settling_steps gc)) 0 3);
     _ \<leftarrow> spi_writef bus REG_FAST_STRONGER_SIGNAL_THRESH (POST_LOCK_LEVEL_STP_FOR_LMT_TABLE (- 1))
            (clamp_u32 (b32 (gc_f_agc_lmt_final_settling_steps gc)) 0 3);
     _ \<leftarrow> spi_writef bus REG_FAST_FINAL_OVER_RANGE_AND_OPT_GAIN (FINAL_OVER_RANGE_COUNT (- 1))
            (clamp_u32 (b32 (gc_f_agc_final_overrange_count gc)) 0 7);
     spi_writef bus REG_FAST_CONFIG_1 ENABLE_GAIN_INC_AFTER_GAIN_LOCK (of_bool (gc_f_agc_gain_increase_after_gain_lock_en gc))
   }"

definition gc_fast_unlock :: "'c bus \<Rightarrow> gain_control \<Rightarrow> ('c ad9361, int) state" where
  "gc_fast_unlock bus gc =
     (let exit = gc_f_agc_gain_index_type_after_exit_rx_mode gc;
          strong = gc_f_agc_rst_gla_stronger_sig_thresh_exceeded_en gc;
          lost = gc_f_agc_rst_gla_engergy_lost_sig_thresh_exceeded_en gc;
          adc = gc_f_agc_rst_gla_large_adc_overload_en gc; lmt = gc_f_agc_rst_gla_large_lmt_overload_en gc
      in do {
        _ \<leftarrow> spi_writef bus REG_FAST_CONFIG_1 GOTO_SET_GAIN_IF_EXIT_RX_STATE (of_bool (exit = SET_GAIN));
        _ \<leftarrow> spi_writef bus REG_FAST_CONFIG_1 GOTO_OPTIMIZED_GAIN_IF_EXIT_RX_STATE (of_bool (exit = OPTIMIZED_GAIN));
        _ \<leftarrow> spi_writef bus REG_FAST_CONFIG_2_SETTLING_DELAY USE_LAST_LOCK_LEVEL_FOR_SET_GAIN
               (of_bool (gc_f_agc_use_last_lock_level_for_set_gain_en gc));
        _ \<leftarrow> spi_writef bus REG_FAST_FINAL_OVER_RANGE_AND_OPT_GAIN (OPTIMIZE_GAIN_OFFSET (- 1))
               (clamp_u32 (b32 (gc_f_agc_optimized_gain_offset gc)) 0 15);
        _ \<leftarrow> spi_writef bus REG_AGC_CONFIG_2 AGC_GAIN_UNLOCK_CTRL
               (of_bool (\<not> strong \<or> \<not> lost \<or> \<not> adc \<or> \<not> lmt \<or> gc_f_agc_rst_gla_en_agc_pulled_high_en gc));
        _ \<leftarrow> spi_writef bus REG_FAST_STRONG_SIGNAL_FREEZE DONT_UNLOCK_GAIN_IF_STRONGER_SIGNAL (of_bool (\<not> strong));
        _ \<leftarrow> spi_writef bus REG_FAST_STRONGER_SIGNAL_THRESH (STRONGER_SIGNAL_THRESH (- 1))
               (clamp_u32 (b32 (gc_f_agc_rst_gla_stronger_sig_thresh_above_ll gc)) 0 63);
        _ \<leftarrow> spi_writef bus REG_FAST_ENERGY_LOST_THRESH (ENERGY_LOST_THRESH (- 1))
               (clamp_u32 (b32 (gc_f_agc_rst_gla_engergy_lost_sig_thresh_below_ll gc)) 0 63);
        _ \<leftarrow> spi_writef bus REG_FAST_CONFIG_1 GOTO_OPT_GAIN_IF_ENERGY_LOST_OR_EN_AGC_HIGH
               (of_bool (gc_f_agc_rst_gla_engergy_lost_goto_optim_gain_en gc));
        _ \<leftarrow> spi_writef bus REG_FAST_CONFIG_1 DONT_UNLOCK_GAIN_IF_ENERGY_LOST (of_bool (\<not> lost));
        _ \<leftarrow> spi_writef bus REG_FAST_GAIN_LOCK_EXIT_COUNT (GAIN_LOCK_EXIT_COUNT (- 1))
               (clamp_u32 (b32 (gc_f_agc_energy_lost_stronger_sig_gain_lock_exit_cnt gc)) 0 63);
        _ \<leftarrow> spi_writef bus REG_FAST_CONFIG_1 DONT_UNLOCK_GAIN_IF_LG_ADC_OR_LMT_OVRG (of_bool (\<not> adc \<or> \<not> lmt));
        spi_writef bus REG_FAST_LOW_POWER_THRESH DONT_UNLOCK_GAIN_IF_ADC_OVRG (of_bool (\<not> adc))
      })"

text \<open>Where the gain goes when the pin is pulled high.\<close>

definition gc_pulled_high :: "'c bus \<Rightarrow> gain_control \<Rightarrow> ('c ad9361, int) state" where
  "gc_pulled_high bus gc =
     (let goto = spi_writef bus REG_FAST_CONFIG_2_SETTLING_DELAY GOTO_MAX_GAIN_OR_OPT_GAIN_IF_EN_AGC_HIGH;
          to_set = spi_writef bus REG_FAST_CONFIG_1 GOTO_SET_GAIN_IF_EN_AGC_HIGH;
          opt = spi_writef bus REG_FAST_CONFIG_1 GOTO_OPT_GAIN_IF_ENERGY_LOST_OR_EN_AGC_HIGH
      in if gc_f_agc_rst_gla_en_agc_pulled_high_en gc
         then (case gc_f_agc_rst_gla_if_en_agc_pulled_high_mode gc of
             MAX_GAIN \<Rightarrow> do { _ \<leftarrow> goto 1; _ \<leftarrow> to_set 0; opt 0 }
           | SET_GAIN \<Rightarrow> do { _ \<leftarrow> goto 0; to_set 1 }
           | OPTIMIZED_GAIN \<Rightarrow> do { _ \<leftarrow> goto 1; _ \<leftarrow> to_set 0; opt 1 }
           | NO_GAIN_CHANGE \<Rightarrow> do { _ \<leftarrow> to_set 0; goto 0 })
         else do { _ \<leftarrow> to_set 0; goto 0 })"

definition gc_state5 :: "'c bus \<Rightarrow> gain_control \<Rightarrow> ('c ad9361, int) state" where
  "gc_state5 bus gc =
     (let reg = clamp_u32 (word_of_int (ilog2 (b32 (gc_f_agc_power_measurement_duration_in_state5 gc) div 16))) 0 15 in do {
        _ \<leftarrow> spi_writef bus REG_RX1_MANUAL_LPF_GAIN (POWER_MEAS_IN_STATE_5 (- 1)) reg;
        spi_writef bus REG_RX1_MANUAL_LMT_FULL_GAIN POWER_MEAS_IN_STATE_5_MSB (drop_bit 3 reg)
      })"

definition gc_setup :: "'c bus \<Rightarrow> 'c clk_framework \<Rightarrow> ('c ad9361, int option) state" where
  "gc_setup bus fw = do {
     s \<leftarrow> get_phy;
     _ \<leftarrow> gc_modes bus (pd_gain_ctrl s);
     _ \<leftarrow> gc_steps bus;
     s \<leftarrow> get_phy;
     let gc = pd_gain_ctrl s;
     _ \<leftarrow> gc_overload bus gc;
     _ \<leftarrow> gc_power bus gc;
     _ \<leftarrow> gc_thresholds bus gc;
     _ \<leftarrow> gc_counters bus gc;
     _ \<leftarrow> gc_fast_lock bus gc;
     _ \<leftarrow> gc_fast_unlock bus gc;
     _ \<leftarrow> gc_pulled_high bus gc;
     _ \<leftarrow> gc_state5 bus gc;
     gc_update bus fw
   }"

end
