(* ===== verification/Ad_Init.thy ===== *)
theory Ad_Init
  imports Ad_Calib Ad_Agc Ad_Dig
begin

unbundle bit_operations_syntax

text \<open>
  Bringing the AD9361 up: the blocks that are written once, the ports, multi-chip
  synchronisation, the calibration of the signal strength measurement, and \<^verbatim>\<open>ad9361_setup\<close>,
  which runs all of them in order and stops at the first error. What the board brings (the
  reference clock, the clock framework's enables and parents, the synchronisation pin) is the
  parameter \<open>board\<close>.
\<close>

record 'c board =
  bd_refin_rate :: "'c ad9361 \<Rightarrow> ulong"
  bd_refin_enable :: "('c ad9361, int) state"
  bd_enable :: "ad9361_clocks \<Rightarrow> ('c ad9361, int) state"
  bd_add_action :: "('c ad9361, int) state"
  bd_set_parent :: "ad9361_clocks \<Rightarrow> bool \<Rightarrow> ('c ad9361, unit) state"
  bd_sync_pulse :: "'c \<Rightarrow> 'c"

text \<open>\<open>bd_set_parent c ext\<close>: the parent of \<open>c\<close> becomes the external oscillator or the internal PLL.\<close>

subsection \<open>Blocks written once\<close>

definition set_ref_clk_cycles :: "'c bus \<Rightarrow> ulong \<Rightarrow> ('c ad9361, int) state" where
  "set_ref_clk_cycles bus ref_clk_hz =
     spi_write bus REG_REFERENCE_CLOCK_CYCLES (REFERENCE_CLOCK_CYCLES_PER_US (ref_clk_hz div 1000000 - 1))"

definition set_dcxo_tune :: "'c bus \<Rightarrow> u32 \<Rightarrow> u32 \<Rightarrow> ('c ad9361, int) state" where
  "set_dcxo_tune bus coarse fine = do {
     s \<leftarrow> get_phy;
     if pd_use_extclk s then rtn (- 19)
     else do {
       _ \<leftarrow> spi_write bus REG_DCXO_COARSE_TUNE (DCXO_TUNE_COARSE coarse);
       _ \<leftarrow> spi_write bus REG_DCXO_FINE_TUNE_LOW (DCXO_TUNE_FINE_LOW fine);
       spi_write bus REG_DCXO_FINE_TUNE_HIGH (DCXO_TUNE_FINE_HIGH fine)
     }
   }"

definition txmon_setup :: "'c bus \<Rightarrow> tx_monitor_control \<Rightarrow> ('c ad9361, int) state" where
  "txmon_setup bus ctrl = do {
     _ \<leftarrow> spi_write bus REG_TPM_MODE_ENABLE
            ((if tm_one_shot_mode_en ctrl then ONE_SHOT_MODE else 0) OR
             TX_MON_DURATION (word_of_int (ilog2 (ucast (tm_tx_mon_duration ctrl) div 16))));
     _ \<leftarrow> spi_write bus REG_TX_MON_DELAY (ucast (tm_tx_mon_delay ctrl) AND 0xFF);
     _ \<leftarrow> spi_writef bus REG_TX_LEVEL_THRESH (TX_MON_DELAY_COUNTER (- 1)) (drop_bit 8 (ucast (tm_tx_mon_delay ctrl)));
     _ \<leftarrow> spi_write bus REG_TX_MON_1_CONFIG
            (TX_MON_1_LO_CM (b32 (tm_tx1_mon_lo_cm ctrl)) OR TX_MON_1_GAIN (b32 (tm_tx1_mon_front_end_gain ctrl)));
     _ \<leftarrow> spi_write bus REG_TX_MON_2_CONFIG
            (TX_MON_2_LO_CM (b32 (tm_tx2_mon_lo_cm ctrl)) OR TX_MON_2_GAIN (b32 (tm_tx2_mon_front_end_gain ctrl)));
     _ \<leftarrow> spi_write bus REG_TX_ATTEN_THRESH (tm_low_high_gain_threshold_mdB ctrl div 250);
     _ \<leftarrow> spi_write bus REG_TX_MON_HIGH_GAIN (TX_MON_HIGH_GAIN (b32 (tm_high_gain_dB ctrl)));
     _ \<leftarrow> spi_write bus REG_TX_MON_LOW_GAIN
            ((if tm_tx_mon_track_en ctrl then TX_MON_TRACK else 0) OR TX_MON_LOW_GAIN (b32 (tm_low_gain_dB ctrl)));
     rtn 0
   }"

definition setup_ext_lna :: "'c bus \<Rightarrow> elna_control \<Rightarrow> ('c ad9361, int) state" where
  "setup_ext_lna bus ctrl = do {
     _ \<leftarrow> spi_writef bus REG_EXTERNAL_LNA_CTRL EXTERNAL_LNA1_CTRL (of_bool (el_elna_1_control_en ctrl));
     _ \<leftarrow> spi_writef bus REG_EXTERNAL_LNA_CTRL EXTERNAL_LNA2_CTRL (of_bool (el_elna_2_control_en ctrl));
     _ \<leftarrow> spi_write bus REG_EXT_LNA_HIGH_GAIN (EXT_LNA_HIGH_GAIN (ucast (el_gain_mdB ctrl) div 500));
     spi_write bus REG_EXT_LNA_LOW_GAIN (EXT_LNA_LOW_GAIN (ucast (el_bypass_loss_mdB ctrl) div 500))
   }"

text \<open>The number of a clock output mode.\<close>

definition clkout_number :: "ad9361_clkout \<Rightarrow> u32" where
  "clkout_number mode = (case mode of CLKOUT_DISABLE \<Rightarrow> 0 | BUFFERED_XTALN_DCXO \<Rightarrow> 1 | ADC_CLK_DIV_2 \<Rightarrow> 2
     | ADC_CLK_DIV_3 \<Rightarrow> 3 | ADC_CLK_DIV_4 \<Rightarrow> 4 | ADC_CLK_DIV_8 \<Rightarrow> 5 | ADC_CLK_DIV_16 \<Rightarrow> 6)"

definition clkout_control :: "'c bus \<Rightarrow> ad9361_clkout \<Rightarrow> ('c ad9361, int) state" where
  "clkout_control bus mode =
     (if mode = CLKOUT_DISABLE then spi_writef bus REG_BBPLL CLKOUT_ENABLE 0
      else spi_writef bus REG_BBPLL (CLKOUT_ENABLE OR CLKOUT_SELECT (- 1))
             (push_bit 1 (clkout_number mode - 1) OR 1))"

fun gm_rows :: "'c bus \<Rightarrow> u32 \<Rightarrow> (u8 \<times> u8) list \<Rightarrow> ('c ad9361, unit) state" where
  "gm_rows bus addr [] = rtn ()"
| "gm_rows bus addr ((gain, ctrl) # rows) = do {
     _ \<leftarrow> spi_write bus REG_GM_SUB_TABLE_ADDRESS (addr - 1);
     _ \<leftarrow> spi_write bus REG_GM_SUB_TABLE_BIAS_WRITE 0;
     _ \<leftarrow> spi_write bus REG_GM_SUB_TABLE_GAIN_WRITE (b32 gain);
     _ \<leftarrow> spi_write bus REG_GM_SUB_TABLE_CTRL_WRITE (b32 ctrl);
     _ \<leftarrow> spi_write bus REG_GM_SUB_TABLE_CONFIG (WRITE_GM_SUB_TABLE OR START_GM_SUB_TABLE_CLOCK);
     _ \<leftarrow> spi_write bus REG_GM_SUB_TABLE_GAIN_READ 0;
     _ \<leftarrow> spi_write bus REG_GM_SUB_TABLE_GAIN_READ 0;
     gm_rows bus (addr - 1) rows
   }"

definition load_mixer_gm_subtable :: "'c bus \<Rightarrow> ('c ad9361, int) state" where
  "load_mixer_gm_subtable bus = do {
     _ \<leftarrow> spi_write bus REG_GM_SUB_TABLE_CONFIG START_GM_SUB_TABLE_CLOCK;
     _ \<leftarrow> gm_rows bus (of_nat (length gm_st_ctrl)) (zip gm_st_gain gm_st_ctrl);
     _ \<leftarrow> spi_write bus REG_GM_SUB_TABLE_CONFIG START_GM_SUB_TABLE_CLOCK;
     _ \<leftarrow> spi_write bus REG_GM_SUB_TABLE_GAIN_READ 0;
     _ \<leftarrow> spi_write bus REG_GM_SUB_TABLE_GAIN_READ 0;
     _ \<leftarrow> spi_write bus REG_GM_SUB_TABLE_CONFIG 0;
     rtn 0
   }"

definition ctrl_outs_setup :: "'c bus \<Rightarrow> ctrl_outs_control \<Rightarrow> ('c ad9361, int) state" where
  "ctrl_outs_setup bus ctrl = do {
     _ \<leftarrow> spi_write bus REG_CTRL_OUTPUT_POINTER (b32 (co_index ctrl));
     spi_write bus REG_CTRL_OUTPUT_ENABLE (b32 (co_en_mask ctrl))
   }"

definition four_bits :: "bool \<Rightarrow> bool \<Rightarrow> bool \<Rightarrow> bool \<Rightarrow> u32" where
  "four_bits a b c d = of_bool a OR push_bit 1 (of_bool b) OR push_bit 2 (of_bool c) OR push_bit 3 (of_bool d)"

definition gpo_setup :: "'c bus \<Rightarrow> gpo_control \<Rightarrow> ('c ad9361, int) state" where
  "gpo_setup bus ctrl = do {
     _ \<leftarrow> spi_write bus REG_AUTO_GPO
            (GPO_ENABLE_AUTO_RX (four_bits (gp_gpo0_slave_rx_en ctrl) (gp_gpo1_slave_rx_en ctrl)
               (gp_gpo2_slave_rx_en ctrl) (gp_gpo3_slave_rx_en ctrl)) OR
             GPO_ENABLE_AUTO_TX (four_bits (gp_gpo0_slave_tx_en ctrl) (gp_gpo1_slave_tx_en ctrl)
               (gp_gpo2_slave_tx_en ctrl) (gp_gpo3_slave_tx_en ctrl)));
     _ \<leftarrow> spi_write bus REG_GPO_FORCE_AND_INIT
            (GPO_MANUAL_CTRL (gp_gpo_manual_mode_enable_mask ctrl) OR
             GPO_INIT_STATE (four_bits (gp_gpo0_inactive_state_high_en ctrl) (gp_gpo1_inactive_state_high_en ctrl)
               (gp_gpo2_inactive_state_high_en ctrl) (gp_gpo3_inactive_state_high_en ctrl)));
     _ \<leftarrow> spi_write bus REG_GPO0_RX_DELAY (b32 (gp_gpo0_rx_delay_us ctrl));
     _ \<leftarrow> spi_write bus REG_GPO0_TX_DELAY (b32 (gp_gpo0_tx_delay_us ctrl));
     _ \<leftarrow> spi_write bus REG_GPO1_RX_DELAY (b32 (gp_gpo1_rx_delay_us ctrl));
     _ \<leftarrow> spi_write bus REG_GPO1_TX_DELAY (b32 (gp_gpo1_tx_delay_us ctrl));
     _ \<leftarrow> spi_write bus REG_GPO2_RX_DELAY (b32 (gp_gpo2_rx_delay_us ctrl));
     _ \<leftarrow> spi_write bus REG_GPO2_TX_DELAY (b32 (gp_gpo2_tx_delay_us ctrl));
     _ \<leftarrow> spi_write bus REG_GPO3_RX_DELAY (b32 (gp_gpo3_rx_delay_us ctrl));
     _ \<leftarrow> spi_write bus REG_GPO3_TX_DELAY (b32 (gp_gpo3_tx_delay_us ctrl));
     _ \<leftarrow> spi_writef bus REG_EXTERNAL_LNA_CTRL GPO_MANUAL_SELECT (of_bool (gp_gpo_manual_mode_en ctrl));
     rtn 0
   }"

subsection \<open>Ports\<close>

definition txmon_control :: "'c bus \<Rightarrow> u32 \<Rightarrow> ('c ad9361, int) state" where
  "txmon_control bus en_mask = do {
     _ \<leftarrow> spi_writef bus REG_ANALOG_POWER_DOWN_OVERRIDE (TX_MONITOR_POWER_DOWN (- 1)) (NOT en_mask);
     _ \<leftarrow> spi_writef bus REG_TPM_MODE_ENABLE TX1_MON_ENABLE (of_bool (en_mask AND TX_1 \<noteq> 0));
     spi_writef bus REG_TPM_MODE_ENABLE TX2_MON_ENABLE (of_bool (en_mask AND TX_2 \<noteq> 0))
   }"

definition input_select :: "u32 \<Rightarrow> u32 \<Rightarrow> u32" where
  "input_select rx_inputs txb =
     (if rx_inputs < 3 then push_bit (unat (rx_inputs * 2)) 3 else push_bit (unat (rx_inputs - 3)) 1) OR
     (if txb \<noteq> 0 then TX_OUTPUT else 0)"

definition rf_port_setup :: "'c bus \<Rightarrow> bool \<Rightarrow> u32 \<Rightarrow> u32 \<Rightarrow> ('c ad9361, int) state" where
  "rf_port_setup bus is_out rx_inputs txb =
     (if 11 < rx_inputs then rtn (- 22)
      else if \<not> is_out \<and> 8 < rx_inputs then txmon_control bus (rx_inputs AND (TX_1 OR TX_2))
      else do {
        _ \<leftarrow> if is_out then rtn 0 else txmon_control bus 0;
        spi_write bus REG_INPUT_SELECT (input_select rx_inputs txb)
      })"

text \<open>The selections are the numbers of \<^verbatim>\<open>enum rx_port_sel\<close> and \<^verbatim>\<open>enum tx_port_sel\<close>.\<close>

definition set_rx_port :: "'c bus \<Rightarrow> u32 \<Rightarrow> ('c ad9361, int) state" where
  "set_rx_port bus sel = do {
     s \<leftarrow> get_phy;
     if 11 < sel then rtn (- 22)
     else if st_rf_rx_input_sel s = sel then rtn 0
     else do {
       _ \<leftarrow> upd_phy (\<lambda>s. s\<lparr>st_rf_rx_input_sel := sel\<rparr>);
       rf_port_setup bus False sel (st_rf_tx_output_sel s)
     }
   }"

definition set_tx_port :: "'c bus \<Rightarrow> u32 \<Rightarrow> ('c ad9361, int) state" where
  "set_tx_port bus sel = do {
     s \<leftarrow> get_phy;
     if 1 < sel then rtn (- 22)
     else if st_rf_tx_output_sel s = sel then rtn 0
     else do {
       _ \<leftarrow> upd_phy (\<lambda>s. s\<lparr>st_rf_tx_output_sel := sel\<rparr>);
       rf_port_setup bus True (st_rf_rx_input_sel s) sel
     }
   }"

text \<open>The mode byte of the digital interface, without the modes that exclude each other.\<close>

definition sane_conf2 :: "u8 \<Rightarrow> u8" where
  "sane_conf2 c =
     (let c = (if ucast c AND LVDS_MODE \<noteq> 0
               then c AND NOT (ucast (HALF_DUPLEX_MODE OR SINGLE_DATA_RATE OR SINGLE_PORT_MODE)) else c)
      in if ucast c AND FULL_PORT \<noteq> 0 then c AND NOT (ucast (HALF_DUPLEX_MODE OR SINGLE_PORT_MODE)) else c)"

definition pp_port_setup :: "'c bus \<Rightarrow> bool \<Rightarrow> ('c ad9361, int) state" where
  "pp_port_setup bus restore_c3 = do {
     s \<leftarrow> get_phy;
     if restore_c3 then spi_write bus REG_PARALLEL_PORT_CONF_3 (b32 (pc_pp_conf (pd_port_ctrl s) ! 2))
     else do {
       let conf = (pc_pp_conf (pd_port_ctrl s))[2 := sane_conf2 (pc_pp_conf (pd_port_ctrl s) ! 2)];
       _ \<leftarrow> upd_phy (\<lambda>s. s\<lparr>pd_port_ctrl := (pd_port_ctrl s)\<lparr>pc_pp_conf := conf\<rparr>\<rparr>);
       s \<leftarrow> get_phy;
       let pc = pd_port_ctrl s;
       _ \<leftarrow> spi_write bus REG_PARALLEL_PORT_CONF_1 (b32 (conf ! 0));
       _ \<leftarrow> spi_write bus REG_PARALLEL_PORT_CONF_2 (b32 (conf ! 1));
       _ \<leftarrow> spi_write bus REG_PARALLEL_PORT_CONF_3 (b32 (conf ! 2));
       _ \<leftarrow> write_clock_data_delays bus;
       _ \<leftarrow> spi_write bus REG_LVDS_BIAS_CTRL (b32 (pc_lvds_bias_ctrl pc));
       _ \<leftarrow> spi_write bus REG_LVDS_INVERT_CTRL1 (b32 (pc_lvds_invert pc ! 0));
       _ \<leftarrow> spi_write bus REG_LVDS_INVERT_CTRL2 (b32 (pc_lvds_invert pc ! 1));
       _ \<leftarrow> if phase_inverted s then do {
              _ \<leftarrow> spi_writef bus REG_PARALLEL_PORT_CONF_2 INVERT_RX2 1;
              spi_writef bus REG_INVERT_BITS INVERT_RX2_RF_DC_CGOUT_WORD 0
            } else rtn 0;
       rtn 0
     }
   }"

subsection \<open>Multi-chip synchronisation\<close>

definition sync_pulse :: "'c board \<Rightarrow> ('c ad9361, int) state" where
  "sync_pulse bd = do {
     s \<leftarrow> get_phy;
     _ \<leftarrow> if pd_sync_gpio s then on_chip (bd_sync_pulse bd) else rtn ();
     rtn 0
   }"

definition mcs :: "'c bus \<Rightarrow> 'c board \<Rightarrow> u32 \<Rightarrow> ('c ad9361, int) state" where
  "mcs bus bd step =
     (let mcs_mask = MCS_RF_ENABLE OR MCS_BBPLL_ENABLE OR MCS_DIGITAL_CLK_ENABLE OR MCS_BB_ENABLE;
          sync = spi_writef bus REG_MULTICHIP_SYNC_AND_TX_MON_CTRL mcs_mask
      in do {
        s \<leftarrow> get_phy;
        if pd_dev s = ID_AD9363A then rtn (- 19)
        else if step = 1 then do {
          _ \<leftarrow> spi_writef bus REG_ENSM_CONFIG_2 (POWER_DOWN_TX_SYNTH OR POWER_DOWN_RX_SYNTH) 0;
          _ \<leftarrow> sync (MCS_BB_ENABLE OR MCS_BBPLL_ENABLE OR MCS_RF_ENABLE);
          _ \<leftarrow> spi_writef bus REG_CP_BLEED_CURRENT MCS_REFCLK_SCALE_EN 1;
          rtn 0
        }
        else if step = 2 \<or> step = 4 then sync_pulse bd
        else if step = 3 then do { _ \<leftarrow> sync (MCS_BB_ENABLE OR MCS_DIGITAL_CLK_ENABLE OR MCS_RF_ENABLE); rtn 0 }
        else if step = 5 then do { _ \<leftarrow> sync MCS_RF_ENABLE; rtn 0 }
        else rtn 0
      })"

subsection \<open>Calibrating the signal strength measurement\<close>

text \<open>Writing the entries \<open>i\<close>, \<open>i + 1\<close>, ... of a table; \<open>cmd\<close> is the command that stores one.\<close>

fun write_err_rows :: "'c bus \<Rightarrow> u32 \<Rightarrow> u32 \<Rightarrow> u32 list \<Rightarrow> ('c ad9361, unit) state" where
  "write_err_rows bus cmd i [] = rtn ()"
| "write_err_rows bus cmd i (v # vs) = do {
     _ \<leftarrow> spi_write bus REG_WORD_ADDRESS i;
     _ \<leftarrow> spi_write bus REG_GAIN_DIFF_WORDERROR_WRITE v;
     _ \<leftarrow> spi_write bus REG_CONFIG (CALIB_TABLE_SELECT 3 OR cmd OR START_CALIB_TABLE_CLOCK);
     write_err_rows bus cmd (i + 1) vs
   }"

definition rssi_write_err_tbl :: "'c bus \<Rightarrow> ('c ad9361, int) state" where
  "rssi_write_err_tbl bus = do {
     s \<leftarrow> get_phy;
     _ \<leftarrow> spi_write bus REG_CONFIG (CALIB_TABLE_SELECT 3 OR START_CALIB_TABLE_CLOCK);
     _ \<leftarrow> write_err_rows bus WRITE_LNA_ERROR_TABLE 0 (pd_rssi_lna_err_tbl s);
     _ \<leftarrow> spi_write bus REG_CONFIG (CALIB_TABLE_SELECT 3 OR START_CALIB_TABLE_CLOCK);
     _ \<leftarrow> write_err_rows bus WRITE_MIXER_ERROR_TABLE 0 (pd_rssi_mixer_err_tbl s);
     _ \<leftarrow> spi_write bus REG_CONFIG 0;
     rtn 0
   }"

definition rssi_program_lna_gain :: "'c bus \<Rightarrow> ('c ad9361, int) state" where
  "rssi_program_lna_gain bus = do {
     s \<leftarrow> get_phy;
     _ \<leftarrow> spi_write bus REG_LNA_GAIN (pd_rssi_gain_step_calib_reg_val s ! 0);
     _ \<leftarrow> spi_write bus REG_CONFIG (CALIB_TABLE_SELECT 3 OR START_CALIB_TABLE_CLOCK);
     _ \<leftarrow> write_err_rows bus WRITE_LNA_GAIN_DIFF 0 (drop 1 (pd_rssi_gain_step_calib_reg_val s));
     rtn 0
   }"

definition gain_step_calib_reg_val :: "u32 list list" where
  "gain_step_calib_reg_val = [[0xC0, 0x2E, 0x10, 0x06, 0x00], [0xC0, 0x2C, 0x10, 0x06, 0x00],
     [0xB8, 0x2C, 0x10, 0x06, 0x00], [0xA0, 0x24, 0x10, 0x06, 0x00]]"

definition lo_range :: "u64 \<Rightarrow> nat" where
  "lo_range f = (if f < 1300000000 then 0 else if f < 3300000000 then 1 else if f < 4100000000 then 2 else 3)"

fun read_errs :: "'c bus \<Rightarrow> nat \<Rightarrow> nat \<Rightarrow> ('c ad9361, u32 list) state" where
  "read_errs bus 0 i = rtn []"
| "read_errs bus (Suc k) i = do {
     _ \<leftarrow> spi_write bus REG_WORD_ADDRESS (of_nat i);
     v \<leftarrow> spi_read bus REG_GAIN_ERROR_READ;
     vs \<leftarrow> read_errs bus k (Suc i);
     rtn (word_of_int v # vs)
   }"

definition rssi_gain_step_calib :: "'c bus \<Rightarrow> 'c clk_framework \<Rightarrow> ('c ad9361, int) state" where
  "rssi_gain_step_calib bus fw = do {
     s \<leftarrow> get_phy;
     let row = gain_step_calib_reg_val ! lo_range (ad9361_from_clk (clk_get_rate fw RX_RFPLL s));
     _ \<leftarrow> upd_phy (\<lambda>s. s\<lparr>pd_rssi_gain_step_calib_reg_val := take 4 row @ drop 4 (pd_rssi_gain_step_calib_reg_val s)\<rparr>);
     _ \<leftarrow> ensm_force_state bus (ucast ENSM_STATE_ALERT);
     _ \<leftarrow> spi_write bus REG_MAX_MIXER_CALIBRATION_GAIN_INDEX (MAX_MIXER_CALIBRATION_GAIN_INDEX 0x0F);
     _ \<leftarrow> spi_write bus REG_MEASURE_DURATION (GAIN_CAL_MEAS_DURATION 0x0E);
     _ \<leftarrow> spi_write bus REG_SETTLE_TIME (SETTLE_TIME 0x3F);
     _ \<leftarrow> spi_write bus REG_RSSI_CONFIG (RSSI_MODE_SELECT 3 OR DEFAULT_RSSI_MEAS_MODE);
     _ \<leftarrow> spi_write bus REG_MEASURE_DURATION_01 (MEASUREMENT_DURATION_0 0x0E);
     _ \<leftarrow> rssi_program_lna_gain bus;
     _ \<leftarrow> spi_write bus REG_CONFIG START_CALIB_TABLE_CLOCK;
     _ \<leftarrow> spi_write bus REG_CONFIG 0;
     ret \<leftarrow> run_calibration bus RX_GAIN_STEP_CAL;
     _ \<leftarrow> spi_write bus REG_CONFIG (CALIB_TABLE_SELECT 1 OR READ_SELECT);
     lna \<leftarrow> read_errs bus 4 0;
     _ \<leftarrow> upd_phy (\<lambda>s. s\<lparr>pd_rssi_lna_err_tbl := lna\<rparr>);
     _ \<leftarrow> spi_write bus REG_CONFIG (CALIB_TABLE_SELECT 1);
     mixer \<leftarrow> read_errs bus 16 0;
     _ \<leftarrow> upd_phy (\<lambda>s. s\<lparr>pd_rssi_mixer_err_tbl := mixer\<rparr>);
     _ \<leftarrow> spi_write bus REG_CONFIG 0;
     _ \<leftarrow> rssi_write_err_tbl bus;
     _ \<leftarrow> spi_write bus REG_SETTLE_TIME (ENABLE_DIG_GAIN_CORR OR SETTLE_TIME 0x10);
     _ \<leftarrow> ensm_restore_prev_state bus;
     rtn ret
   }"

end
