(* ===== verification/Ad_Bringup.thy ===== *)
theory Ad_Bringup
  imports Ad_Init
begin

unbundle bit_operations_syntax

text \<open>
  \<^verbatim>\<open>ad9361_setup\<close>: the whole bring-up of the device as the list of its steps, and the driver's
  state before it. A step goes on, stops with what the function returns, or has no result
  (\<open>Undef\<close>: a division by zero inside).
\<close>

subsection \<open>The state before\<close>

definition init_state :: "'c ad9361 \<Rightarrow> 'c ad9361" where
  "init_state s = s\<lparr>st_current_table := - 1, st_bypass_tx_fir := True, st_bypass_rx_fir := True,
     st_rate_governor := 1, st_rfdc_track_en := True, st_bbdc_track_en := True, st_quad_track_en := True\<rparr>"

definition zero_radio :: "'c ad9361 \<Rightarrow> 'c ad9361" where
  "zero_radio s = s\<lparr>st_auto_cal_en := False, st_manual_tx_quad_cal_en := False, st_last_tx_quad_cal_freq := 0,
     st_last_tx_quad_cal_phase := 0, st_cal_threshold_freq := 0, st_current_rx_path_clks := replicate 6 0,
     st_current_tx_path_clks := replicate 6 0, st_current_rx_bw_Hz := 0, st_current_tx_bw_Hz := 0,
     st_rxbbf_div := 0, st_rate_governor := 0, st_rx_eq_2tx := False, st_filt_valid := False,
     st_filt_rx_path_clks := replicate 6 0, st_filt_tx_path_clks := replicate 6 0, st_filt_rx_bw_Hz := 0,
     st_filt_tx_bw_Hz := 0, st_tx_fir_int := 0, st_tx_fir_ntaps := 0, st_rx_fir_dec := 0, st_rx_fir_ntaps := 0,
     st_rfdc_track_en := False, st_bbdc_track_en := False, st_quad_track_en := False, st_auxdac1_value := 0,
     st_auxdac2_value := 0, st_rf_rx_input_sel := 0, st_rf_tx_output_sel := 0,
     st_work_pending := False, st_save_profile := 0\<rparr>"

definition zero_chip_state :: "'c ad9361 \<Rightarrow> 'c ad9361" where
  "zero_chip_state s = s\<lparr>st_prev_ensm_state := 0, st_curr_ensm_state := 0, st_ensm_pin_ctl_en := False,
     st_cached_rx_rfpll_div := 0, st_cached_tx_rfpll_div := 0, st_cached_synth_pd0 := 0, st_cached_synth_pd1 := 0,
     st_current_table := 0, st_current_tx_lo_freq := 0, st_current_rx_lo_freq := 0,
     st_current_tx_use_tdd_table := False, st_current_rx_use_tdd_table := False, st_bypass_rx_fir := False,
     st_bypass_tx_fir := False, st_tx1_atten_cached := 0, st_tx2_atten_cached := 0, st_bist_loopback_mode := 0,
     st_bist_config := 0, st_tx_quad_lpf_tia_match := 0, st_agc_mode0 := 0, st_agc_mode1 := 0,
     st_txmon_tdd_en := False, st_fl_current := (\<lambda>_. 0),
     st_fl_entry := (\<lambda>_ _. \<lparr>fl_flags = 0, fl_alc_orig = 0, fl_alc_written = 0\<rparr>)\<rparr>"

definition clear_state :: "'c ad9361 \<Rightarrow> 'c ad9361" where
  "clear_state s = init_state (zero_chip_state (zero_radio s))"

definition ref_div_sel :: "ulong \<Rightarrow> ulong \<Rightarrow> ulong" where
  "ref_div_sel refin_Hz m =
     (if refin_Hz \<le> m div 2 then 2 * refin_Hz
      else if refin_Hz \<le> m then refin_Hz
      else if refin_Hz \<le> m * 2 then refin_Hz div 2
      else if refin_Hz \<le> m * 4 then refin_Hz div 4
      else 0)"

subsection \<open>Steps\<close>

datatype step_end = Go | Stop int | Undef

type_synonym 'c step = "('c ad9361, step_end) state"

fun run_steps :: "'c step list \<Rightarrow> ('c ad9361, int option) state" where
  "run_steps [] = rtn (Some 0)"
| "run_steps (m # ms) = do {
     r \<leftarrow> m;
     case r of Go \<Rightarrow> run_steps ms | Stop e \<Rightarrow> rtn (Some e) | Undef \<Rightarrow> rtn None
   }"

text \<open>The four ways a call's result is treated: stop on a negative one, on any but 0, never, or by option.\<close>

definition chk :: "('c ad9361, int) state \<Rightarrow> 'c step" where
  "chk m = do { r \<leftarrow> m; rtn (if r < 0 then Stop r else Go) }"

definition chk0 :: "('c ad9361, int) state \<Rightarrow> 'c step" where
  "chk0 m = do { r \<leftarrow> m; rtn (if r \<noteq> 0 then Stop r else Go) }"

definition chko :: "('c ad9361, int option) state \<Rightarrow> 'c step" where
  "chko m = do { r \<leftarrow> m; rtn (case r of None \<Rightarrow> Undef | Some r \<Rightarrow> if r < 0 then Stop r else Go) }"

definition call :: "('c ad9361, 'a) state \<Rightarrow> 'c step" where
  "call m = do { _ \<leftarrow> m; rtn Go }"

definition callo :: "('c ad9361, int option) state \<Rightarrow> 'c step" where
  "callo m = do { r \<leftarrow> m; rtn (if r = None then Undef else Go) }"

text \<open>A step that depends on the state it runs in.\<close>

definition at_phy :: "('c ad9361 \<Rightarrow> ('c ad9361, 'a) state) \<Rightarrow> ('c ad9361, 'a) state" where
  "at_phy f = do { s \<leftarrow> get_phy; f s }"

subsection \<open>The setup\<close>

definition setup_pdata :: "'c ad9361 \<Rightarrow> 'c ad9361" where
  "setup_pdata s =
     (let s = s\<lparr>pd_rf_rx_bandwidth_Hz := validate_rf_bw (pd_dev s) (pd_rf_rx_bandwidth_Hz s),
                pd_rf_tx_bandwidth_Hz := validate_rf_bw (pd_dev s) (pd_rf_tx_bandwidth_Hz s)\<rparr>
      in if pd_fdd s
         then s\<lparr>pd_tdd_skip_vco_cal := False,
                pd_ensm_pin_ctrl := pd_ensm_pin_ctrl s \<and> \<not> pd_fdd_independent_mode s\<rparr>
         else s)"

definition clamp_chan :: "u32 \<Rightarrow> u32" where
  "clamp_chan n = clamp_u32 n TX_1 TX_2"

definition setup_channels :: "'c bus \<Rightarrow> ('c ad9361, unit) state" where
  "setup_channels bus = do {
     s \<leftarrow> get_phy;
     if \<not> pd_rx2tx2 s then do {
       _ \<leftarrow> upd_phy (\<lambda>s. s\<lparr>pd_rx1tx1_mode_use_tx_num := clamp_chan (pd_rx1tx1_mode_use_tx_num s),
                          pd_rx1tx1_mode_use_rx_num := clamp_chan (pd_rx1tx1_mode_use_rx_num s)\<rparr>);
       s \<leftarrow> get_phy;
       _ \<leftarrow> en_dis_tx bus (TX_1 OR TX_2) (pd_rx1tx1_mode_use_tx_num s);
       _ \<leftarrow> en_dis_rx bus (TX_1 OR TX_2) (pd_rx1tx1_mode_use_rx_num s);
       rtn ()
     } else do {
       _ \<leftarrow> en_dis_tx bus (TX_1 OR TX_2) (TX_1 OR TX_2);
       _ \<leftarrow> en_dis_rx bus (RX_1 OR RX_2) (RX_1 OR RX_2);
       rtn ()
     }
   }"

text \<open>Up to the baseband clocks.\<close>

definition setup_clocks :: "'c bus \<Rightarrow> 'c clk_framework \<Rightarrow> 'c board \<Rightarrow> 'c dig_tuner \<Rightarrow> ulong \<Rightarrow> 'c step list" where
  "setup_clocks bus fw bd tune ref_freq =
     [if ref_freq = 0 then rtn (Stop (- 22)) else rtn Go,
      call (spi_writef bus REG_REF_DIVIDE_CONFIG_1 RX_REF_RESET_BAR 1),
      call (spi_writef bus REG_REF_DIVIDE_CONFIG_2 TX_REF_RESET_BAR 1),
      call (spi_writef bus REG_REF_DIVIDE_CONFIG_2 (TX_REF_DOUBLER_FB_DELAY (- 1)) 3),
      call (spi_writef bus REG_REF_DIVIDE_CONFIG_2 (RX_REF_DOUBLER_FB_DELAY (- 1)) 3),
      call (at_phy (\<lambda>s. spi_write bus REG_CLOCK_ENABLE
        (DIGITAL_POWER_UP OR CLOCK_ENABLE_DFLT OR BBPLL_ENABLE OR (if pd_use_extclk s then XO_BYPASS else 0)))),
      chk (bd_refin_enable bd),
      chk0 (bd_add_action bd),
      chk (clk_set_rate fw BB_REFCLK ref_freq),
      call (spi_write bus REG_FRACT_BB_FREQ_WORD_2 0x12),
      call (spi_write bus REG_FRACT_BB_FREQ_WORD_3 0x34),
      chko (set_trx_clock_chain_default bus fw tune)]"

text \<open>\<^verbatim>\<open>CTRL_ENABLE\<close>.\<close>

definition AD_CTRL_ENABLE :: u32 where "AD_CTRL_ENABLE = 0x1"

definition setup_blocks :: "'c bus \<Rightarrow> 'c step list" where
  "setup_blocks bus =
     [chk (at_phy (\<lambda>s. auxdac_setup bus (pd_auxdac_ctrl s))),
      chk (at_phy (\<lambda>s. gpo_setup bus (pd_gpo_ctrl s))),
      call (upd_phy (\<lambda>s. if b32 (pc_pp_conf (pd_port_ctrl s) ! 2) AND FDD_RX_RATE_2TX_RATE \<noteq> 0
                         then s\<lparr>st_rx_eq_2tx := True\<rparr> else s)),
      call (spi_write bus REG_CTRL AD_CTRL_ENABLE),
      call (spi_write bus REG_BANDGAP_CONFIG0 (MASTER_BIAS_TRIM 0x0E)),
      call (spi_write bus REG_BANDGAP_CONFIG1 (BANDGAP_TEMP_TRIM 0x0E)),
      call (at_phy (\<lambda>s. set_dcxo_tune bus (pd_dcxo_coarse s) (pd_dcxo_fine s)))]"

definition setup_ports :: "'c bus \<Rightarrow> 'c step list" where
  "setup_ports bus =
     [call (setup_channels bus),
      chk (at_phy (\<lambda>s. rf_port_setup bus True (st_rf_rx_input_sel s) (st_rf_tx_output_sel s))),
      chk (pp_port_setup bus False)]"

definition setup_aux :: "'c bus \<Rightarrow> ulong \<Rightarrow> ulong \<Rightarrow> 'c step list" where
  "setup_aux bus refin_Hz bbpll_freq =
     [chko (at_phy (\<lambda>s. auxadc_setup bus (pd_auxadc_ctrl s) bbpll_freq)),
      chk (at_phy (\<lambda>s. ctrl_outs_setup bus (pd_ctrl_outs_ctrl s))),
      chk (set_ref_clk_cycles bus refin_Hz),
      chk (at_phy (\<lambda>s. setup_ext_lna bus (pd_elna_ctrl s))),
      call (upd_phy (\<lambda>s. s\<lparr>pd_trx_synth_max_fref := clamp_u32 (pd_trx_synth_max_fref s) MIN_SYNTH_FREF MAX_SYNTH_FREF\<rparr>))]"

text \<open>One synthesizer's carrier: rate, enable, and the action that disables it again.\<close>

definition setup_pll :: "'c clk_framework \<Rightarrow> 'c board \<Rightarrow> ad9361_clocks \<Rightarrow> ('c ad9361 \<Rightarrow> u64) \<Rightarrow> 'c step list" where
  "setup_pll fw bd pll freq =
     [chk (at_phy (\<lambda>s. clk_set_rate fw pll (ad9361_to_clk (freq s)))),
      chk (bd_enable bd pll),
      chk0 (bd_add_action bd)]"

definition setup_synths :: "'c bus \<Rightarrow> 'c clk_framework \<Rightarrow> 'c board \<Rightarrow> ulong \<Rightarrow> 'c step list" where
  "setup_synths bus fw bd ref_freq =
     [if ref_freq = 0 then rtn (Stop (- 22)) else rtn Go,
      call (bd_set_parent bd TX_RFPLL False),
      call (bd_set_parent bd RX_RFPLL False),
      chk (clk_set_rate fw RX_REFCLK ref_freq),
      chk (clk_set_rate fw TX_REFCLK ref_freq),
      chk (txrx_synth_cp_calib bus ref_freq False),
      chk (txrx_synth_cp_calib bus ref_freq True)] @
     setup_pll fw bd RX_RFPLL pd_rx_synth_freq @
     [call (upd_phy (\<lambda>s. s\<lparr>st_last_tx_quad_cal_freq := pd_tx_synth_freq s\<rparr>))] @
     setup_pll fw bd TX_RFPLL pd_tx_synth_freq @
     [call (at_phy (\<lambda>s. bd_set_parent bd RX_RFPLL (pd_use_ext_rx_lo s))),
      call (at_phy (\<lambda>s. bd_set_parent bd TX_RFPLL (pd_use_ext_tx_lo s)))]"

definition setup_calibs :: "'c bus \<Rightarrow> 'c clk_framework \<Rightarrow> (ulong \<Rightarrow> ulong) \<Rightarrow> u8 \<Rightarrow> ulong \<Rightarrow> u32 \<Rightarrow> u32 \<Rightarrow> 'c step list" where
  "setup_calibs bus fw isqrt junk bbpll_freq rx_bw tx_bw =
     [chk (load_mixer_gm_subtable bus),
      chko (gc_setup bus fw),
      chko (rf_bandwidth_calib bus fw isqrt bbpll_freq rx_bw tx_bw),
      chk (bb_dc_offset_calib bus),
      chk (at_phy (\<lambda>s. rf_dc_offset_calib bus (ad9361_from_clk (clk_get_rate fw RX_RFPLL s)))),
      call (upd_phy (\<lambda>s. s\<lparr>st_current_rx_bw_Hz := pd_rf_rx_bandwidth_Hz s,
                          st_current_tx_bw_Hz := pd_rf_tx_bandwidth_Hz s, st_last_tx_quad_cal_phase := - 1\<rparr>)),
      chko (tx_quad_calib bus fw isqrt junk rx_bw tx_bw (- 1)),
      chk (tracking_restore bus),
      call (pp_port_setup bus True),
      chk (at_phy (\<lambda>s. set_ensm_mode bus (pd_fdd s) (pd_ensm_pin_ctrl s)))]"

definition setup_tx_atten :: "'c bus \<Rightarrow> 'c step list" where
  "setup_tx_atten bus =
     [call (spi_writef bus REG_TX_ATTEN_OFFSET MASK_CLR_ATTEN_UPDATE 0),
      chk (at_phy (\<lambda>s. set_tx_atten bus (word_of_int (pd_tx_atten s))
        (pd_rx2tx2 s \<or> pd_rx1tx1_mode_use_tx_num s = 1) (pd_rx2tx2 s \<or> pd_rx1tx1_mode_use_tx_num s = 2) True)),
      chk (at_phy (\<lambda>s. if pd_rx2tx2 s then rtn 0
        else set_tx_atten bus 89750 (pd_rx1tx1_mode_use_tx_num s = 2) (pd_rx1tx1_mode_use_tx_num s = 1) True))]"

definition setup_last :: "'c bus \<Rightarrow> 'c clk_framework \<Rightarrow> 'c step list" where
  "setup_last bus fw =
     [chko (at_phy (\<lambda>s. rssi_setup bus fw (pd_rssi_ctrl s) False)),
      chk (at_phy (\<lambda>s. clkout_control bus (pd_ad9361_clkout_mode s))),
      chk (at_phy (\<lambda>s. txmon_setup bus (pd_txmon_ctrl s))),
      call (do {
        v \<leftarrow> spi_readf bus REG_STATE (ENSM_STATE (- 1));
        upd_phy (\<lambda>s. s\<lparr>st_curr_ensm_state := word_of_int v\<rparr>)
      }),
      callo (at_phy (\<lambda>s. ensm_set_state bus (clk_get_rate fw ADC_CLK s)
        (if pd_fdd s then ucast ENSM_STATE_FDD else ucast ENSM_STATE_RX) (pd_ensm_pin_ctrl s))),
      call (upd_phy (\<lambda>s. s\<lparr>st_auto_cal_en := True, st_cal_threshold_freq := 100000000\<rparr>)),
      call (at_phy (\<lambda>s. if pd_rssi_skip_calib s then rtn ()
        else do {
          _ \<leftarrow> ensm_force_state bus (ucast ENSM_STATE_ALERT);
          _ \<leftarrow> rssi_program_lna_gain bus;
          _ \<leftarrow> rssi_write_err_tbl bus;
          _ \<leftarrow> spi_write bus REG_SETTLE_TIME (ENABLE_DIG_GAIN_CORR OR SETTLE_TIME 0x10);
          ensm_restore_prev_state bus
        }))]"

definition setup_radio :: "'c bus \<Rightarrow> 'c clk_framework \<Rightarrow> 'c board \<Rightarrow> (ulong \<Rightarrow> ulong) \<Rightarrow> u8 \<Rightarrow> ulong \<Rightarrow>
    ('c ad9361, int option) state" where
  "setup_radio bus fw bd isqrt junk refin_Hz = do {
     s \<leftarrow> get_phy;
     let bbpll_freq = clk_get_rate fw BBPLL_CLK s;
     r \<leftarrow> run_steps (setup_aux bus refin_Hz bbpll_freq);
     s \<leftarrow> get_phy;
     if r \<noteq> Some 0 then rtn r
     else run_steps
       (setup_synths bus fw bd (ref_div_sel refin_Hz (pd_trx_synth_max_fref s)) @
        setup_calibs bus fw isqrt junk bbpll_freq (pd_rf_rx_bandwidth_Hz s div 2) (pd_rf_tx_bandwidth_Hz s div 2) @
        setup_tx_atten bus @ setup_last bus fw)
   }"

definition ad_setup :: "'c bus \<Rightarrow> 'c clk_framework \<Rightarrow> 'c board \<Rightarrow> 'c dig_tuner \<Rightarrow> (ulong \<Rightarrow> ulong) \<Rightarrow> u8 \<Rightarrow>
    ('c ad9361, int option) state" where
  "ad_setup bus fw bd tune isqrt junk = do {
     _ \<leftarrow> upd_phy setup_pdata;
     r \<leftarrow> run_steps (setup_blocks bus);
     if r \<noteq> Some 0 then rtn r
     else do {
       s \<leftarrow> get_phy;
       let refin_Hz = bd_refin_rate bd s;
       r \<leftarrow> run_steps (setup_clocks bus fw bd tune (ref_div_sel refin_Hz MAX_BBPLL_FREF) @ setup_ports bus);
       if r \<noteq> Some 0 then rtn r else setup_radio bus fw bd isqrt junk refin_Hz
     }
   }"

end
