(* ===== verification/Kstr.thy ===== *)
theory Kstr
  imports Scanf
begin

text \<open>
  More of the kernel's text functions, on strings without NUL: \<^verbatim>\<open>kstrtoull\<close>, \<^verbatim>\<open>kstrtol\<close> and
  \<^verbatim>\<open>kstrtobool\<close>, \<^verbatim>\<open>sysfs_streq\<close>, \<^verbatim>\<open>strncmp\<close> against a prefix, \<^verbatim>\<open>strstr\<close>, and \<^verbatim>\<open>sscanf\<close>
  with \<^verbatim>\<open>%i\<close> (decimal, octal or hexadecimal) and \<^verbatim>\<open>%s\<close>. Errors are \<open>Inl\<close> of a negative errno.
\<close>

subsection \<open>Whole numbers\<close>

definition kstr_nat :: "string \<Rightarrow> int + nat" where
  "kstr_nat str =
     (let rest = dropWhile is_digit str in
      if 2 ^ 64 \<le> digits_val 0 str then Inl (- 34)
      else if takeWhile is_digit str = [] then Inl (- 22)
      else if rest = [] \<or> rest = [nl] then Inr (digits_val 0 str) else Inl (- 22))"

definition kstrtoull :: "string \<Rightarrow> int + nat" where
  "kstrtoull str = kstr_nat (case str of c # cs \<Rightarrow> if c = CHR ''+'' then cs else str | [] \<Rightarrow> [])"

text \<open>\<^verbatim>\<open>kstrtoll\<close> and the check that the value fits a 32-bit \<^verbatim>\<open>long\<close>.\<close>

definition kstrtoll :: "string \<Rightarrow> int + int" where
  "kstrtoll str =
     (case str of
        c # cs \<Rightarrow>
          if c = CHR ''-''
          then (case kstr_nat cs of Inl e \<Rightarrow> Inl e | Inr v \<Rightarrow> if 2 ^ 63 < v then Inl (- 34) else Inr (- int v))
          else (case kstrtoull str of Inl e \<Rightarrow> Inl e | Inr v \<Rightarrow> if 2 ^ 63 \<le> v then Inl (- 34) else Inr (int v))
      | [] \<Rightarrow> Inl (- 22))"

definition kstrtol :: "string \<Rightarrow> int + int" where
  "kstrtol str =
     (case kstrtoll str of
        Inl e \<Rightarrow> Inl e
      | Inr v \<Rightarrow> if v < - (2 ^ 31) \<or> 2 ^ 31 \<le> v then Inl (- 34) else Inr v)"

definition kstrtobool :: "string \<Rightarrow> int + bool" where
  "kstrtobool str =
     (case str of
        c # cs \<Rightarrow>
          if c \<in> set ''yYtT1'' then Inr True
          else if c \<in> set ''nNfF0'' then Inr False
          else if c \<in> set ''oO''
          then (case cs of
                  d # _ \<Rightarrow> if d \<in> set ''nN'' then Inr True else if d \<in> set ''fF'' then Inr False else Inl (- 22)
                | [] \<Rightarrow> Inl (- 22))
          else Inl (- 22)
      | [] \<Rightarrow> Inl (- 22))"

subsection \<open>Comparisons\<close>

definition sysfs_streq :: "string \<Rightarrow> string \<Rightarrow> bool" where
  "sysfs_streq a b \<longleftrightarrow> a = b \<or> a @ [nl] = b \<or> a = b @ [nl]"

definition starts_with :: "string \<Rightarrow> string \<Rightarrow> bool" where
  "starts_with p str \<longleftrightarrow> take (length p) str = p"

fun strstr :: "string \<Rightarrow> string \<Rightarrow> bool" where
  "strstr [] p \<longleftrightarrow> p = []"
| "strstr (c # cs) p \<longleftrightarrow> starts_with p (c # cs) \<or> strstr cs p"

subsection \<open>Scanning numbers of any base and words\<close>

definition xdigit :: "char \<Rightarrow> nat" where
  "xdigit c =
     (let n = of_char c in
      if 48 \<le> n \<and> n \<le> 57 then n - 48 else if 97 \<le> n \<and> n \<le> 102 then n - 87
      else if 65 \<le> n \<and> n \<le> 70 then n - 55 else 16)"

fun base_val :: "nat \<Rightarrow> nat \<Rightarrow> string \<Rightarrow> nat" where
  "base_val b a [] = a"
| "base_val b a (c # cs) = (if xdigit c < b then base_val b (a * b + xdigit c) cs else a)"

text \<open>The base a number announces, and its digits.\<close>

definition number_base :: "string \<Rightarrow> nat \<times> string" where
  "number_base str =
     (case str of
        c # d # e # cs \<Rightarrow>
          if c = CHR ''0'' then if d \<in> set ''xX'' \<and> xdigit e < 16 then (16, e # cs) else (8, str) else (10, str)
      | c # cs \<Rightarrow> (if c = CHR ''0'' then 8 else 10, str)
      | [] \<Rightarrow> (10, []))"

definition scan_base :: "string \<Rightarrow> nat \<times> string" where
  "scan_base str = (case number_base str of (b, ds) \<Rightarrow> (base_val b 0 ds, dropWhile (\<lambda>c. xdigit c < b) ds))"

definition scan_any_int :: "string \<Rightarrow> (int \<times> string) option" where
  "scan_any_int str =
     (case dropWhile k_isspace str of
        [] \<Rightarrow> None
      | c # cs \<Rightarrow>
          if c = CHR ''-''
          then (case cs of
                  d # _ \<Rightarrow> if is_digit d then (case scan_base cs of (v, rest) \<Rightarrow> Some (- int v, rest)) else None
                | [] \<Rightarrow> None)
          else if is_digit c then (case scan_base (c # cs) of (v, rest) \<Rightarrow> Some (int v, rest))
          else None)"

text \<open>
  The items of a format and the values they give: white space, a character, \<^verbatim>\<open>%i\<close> (with any
  length) and \<^verbatim>\<open>%s\<close>.
\<close>

datatype any_item = Blank | Char char | Number | Token
datatype scan_val = Num int | Str string

definition lits :: "string \<Rightarrow> any_item list" where
  "lits f = map (\<lambda>c. if k_isspace c then Blank else Char c) f"

fun scan_any :: "any_item list \<Rightarrow> string \<Rightarrow> scan_val list" where
  "scan_any [] str = []"
| "scan_any (Blank # f) str = scan_any f (dropWhile k_isspace str)"
| "scan_any (Char c # f) str = (case str of [] \<Rightarrow> [] | x # xs \<Rightarrow> if x = c then scan_any f xs else [])"
| "scan_any (Number # f) str = (case scan_any_int str of None \<Rightarrow> [] | Some (v, rest) \<Rightarrow> Num v # scan_any f rest)"
| "scan_any (Token # f) str =
     (if str = [] then []
      else let w = dropWhile k_isspace str in
        Str (takeWhile (\<lambda>c. \<not> k_isspace c) w) # scan_any f (dropWhile (\<lambda>c. \<not> k_isspace c) w))"

subsection \<open>What they read back\<close>

lemma kstr_nat_show: "n < 2 ^ 64 \<Longrightarrow> kstr_nat (show_nat n) = Inr n"
  using show_nat_digits [of n] dropWhile_digits [of "show_nat n" "[]"]
  by (cases "show_nat n") (auto simp: kstr_nat_def Let_def)

lemma kstrtoull_show: "n < 2 ^ 64 \<Longrightarrow> kstrtoull (show_nat n) = Inr n"
proof -
  assume "n < 2 ^ 64"
  obtain c cs where s: "show_nat n = c # cs" using show_nat_digits [of n] by (cases "show_nat n") auto
  then have "is_digit c" using show_nat_digits [of n] by auto
  then have "c \<noteq> CHR ''+''" by (auto simp: is_digit_def)
  then show ?thesis using kstr_nat_show [OF \<open>n < 2 ^ 64\<close>] s by (simp add: kstrtoull_def)
qed

text \<open>A decimal number without a leading zero announces base 10.\<close>

lemma is_digit_xdigit: "is_digit c \<Longrightarrow> xdigit c = digit_val c \<and> digit_val c < 10"
  by (auto simp: is_digit_def xdigit_def digit_val_def Let_def)

lemma xdigit_is_digit: "xdigit c < 10 \<Longrightarrow> is_digit c"
  by (auto simp: is_digit_def xdigit_def Let_def split: if_splits)

lemma xdigit_ten: "xdigit c < 10 \<longleftrightarrow> is_digit c"
  using is_digit_xdigit xdigit_is_digit by metis

lemma base_val_ten: "base_val 10 a str = digits_val a str"
  by (induction str arbitrary: a) (use is_digit_xdigit in \<open>auto simp: xdigit_ten\<close>)

lemma show_nat_head: "0 < n \<Longrightarrow> hd (show_nat n) \<noteq> CHR ''0''"
proof (induction n rule: show_nat.induct)
  case (1 n)
  show ?case
  proof (cases "n < 10")
    case True
    then have "of_char (hd (show_nat n)) = 48 + n" using of_char_digit [of n] by (simp add: show_nat.simps [of n])
    moreover have "(of_char CHR ''0'' :: nat) = 48" by simp
    ultimately show ?thesis using 1(2) by (metis add_cancel_right_right less_irrefl)
  next
    case False
    then have "show_nat n = show_nat (n div 10) @ [char_of (48 + n mod 10)]" by (simp add: show_nat.simps [of n])
    moreover have "show_nat (n div 10) \<noteq> []" using show_nat_digits by blast
    ultimately show ?thesis using 1(1) [OF False] False by simp
  qed
qed

lemma number_base_show:
  assumes "0 < n"
  shows "number_base (show_nat n @ rest) = (10, show_nat n @ rest)"
proof -
  obtain c cs where s: "show_nat n = c # cs" using show_nat_digits [of n] by (cases "show_nat n") auto
  then have "c \<noteq> CHR ''0''" using show_nat_head [OF assms] by simp
  then show ?thesis using s by (auto simp: number_base_def split: list.splits)
qed

lemma scan_base_show:
  assumes "no_digit rest" "rest = [] \<or> hd rest \<notin> set ''xX''"
  shows "scan_base (show_nat n @ rest) = (n, rest)"
proof (cases "n = 0")
  case True
  have "show_nat 0 = ''0''" by code_simp
  then have s: "show_nat n = ''0''" using True by simp
  have "number_base (''0'' @ rest) = (8, ''0'' @ rest)"
    using assms(2) by (auto simp: number_base_def split: list.splits)
  moreover have "xdigit CHR ''0'' = 0" by (simp add: xdigit_def)
  moreover have "dropWhile (\<lambda>c. xdigit c < 8) rest = rest \<and> base_val 8 0 rest = 0"
    using assms(1) xdigit_is_digit by (cases rest) (auto simp: order.strict_trans2)
  ultimately show ?thesis using s True by (simp add: scan_base_def)
next
  case False
  then show ?thesis
    using show_nat_digits [of n] digits_val_append [of "show_nat n" 0 rest] digits_val_stop [OF assms(1)]
      dropWhile_digits [OF _ assms(1), of "show_nat n"]
    by (simp add: scan_base_def number_base_show base_val_ten xdigit_ten)
qed

lemma scan_any_int_show:
  assumes "no_digit rest" "rest = [] \<or> hd rest \<notin> set ''xX''"
  shows "scan_any_int (show_int v @ rest) = Some (v, rest)"
proof (cases "v < 0")
  case True
  obtain c cs where s: "show_nat (nat (- v)) = c # cs" using show_nat_digits by (cases "show_nat (nat (- v))") auto
  then have "is_digit c" using show_nat_digits [of "nat (- v)"] by auto
  moreover have "\<not> k_isspace CHR ''-''" by (simp add: k_isspace_def is_space_def)
  ultimately show ?thesis
    using True s scan_base_show [OF assms, of "nat (- v)"] by (simp add: scan_any_int_def show_int_def)
next
  case False
  obtain c cs where s: "show_nat (nat v) = c # cs" using show_nat_digits by (cases "show_nat (nat v)") auto
  then have "is_digit c" using show_nat_digits [of "nat v"] by auto
  then show ?thesis
    using False s digit_char_facts [of c] scan_base_show [OF assms, of "nat v"]
    by (auto simp: scan_any_int_def show_int_def)
qed

end
