(* ===== verification/Ad_Gt.thy ===== *)
theory Ad_Gt
  imports Ad_Gain Ad_Clk Kstr
begin

unbundle bit_operations_syntax

text \<open>
  Gain tables as text: the parser of \<^verbatim>\<open>ad9361_parse_gt\<close>, the firmware file and the binary
  attribute that feed it, and the text the attribute prints. \<open>beyond\<close> is what lies in memory
  behind a buffer, up to the next NUL, for the string functions that run past its end; memory
  is never exhausted. \<open>None\<close> is what C leaves undefined.
\<close>

definition MAX_GAIN_TABLE_SIZE :: nat where "MAX_GAIN_TABLE_SIZE = 90"
definition MAX_NUM_GAIN_TABLES :: nat where "MAX_NUM_GAIN_TABLES = 16"
definition GT_RX1 :: u32 where "GT_RX1 = 1"
definition GT_RX2 :: u32 where "GT_RX2 = 2"

subsection \<open>The parser\<close>

text \<open>A table being read: its header and the rows so far.\<close>

record gt_header =
  gh_start :: u64
  gh_end :: u64
  gh_split :: bool
  gh_rows :: "(int \<times> gain_row) list"

text \<open>What the parser returns: the tables, \<^verbatim>\<open>ERR_PTR\<close> of a number, or undefined behaviour.\<close>

datatype gt_result = Gt_tables "gain_table_info list" | Err_ptr int | Gt_overrun

definition header_fmt :: "any_item list" where
  "header_fmt = lits '' <gaintable AD'' @ [Number] @ lits '' type='' @ [Token] @ lits '' dest='' @ [Number] @
     lits '' start='' @ [Number] @ lits '' end='' @ [Number] @ lits ''>''"

definition row_fmt :: "any_item list" where
  "row_fmt = [Blank, Number, Char CHR '','', Number, Char CHR '','', Number, Char CHR '','', Number]"

text \<open>The word of a header is stored in an array of 40.\<close>

definition token_overrun :: "scan_val list \<Rightarrow> bool" where
  "token_overrun vs \<longleftrightarrow> (case vs of _ # Str t # _ \<Rightarrow> 40 \<le> length t | _ \<Rightarrow> False)"

text \<open>A header line: an error, no header, or a new table.\<close>

definition gt_open :: "string \<Rightarrow> gt_result + gt_header option" where
  "gt_open line =
     (let vs = scan_any header_fmt line in
      if token_overrun vs then Inl Gt_overrun
      else (case vs of
          [Num model, Str type, Num dest, Num start, Num stop] \<Rightarrow>
            (if \<not> (word_of_int model = (9361 :: u32) \<or> word_of_int model = (9364 :: u32)) then Inl (Err_ptr (- 22))
             else if (word_of_int stop :: u64) \<le> word_of_int start then Inl (Err_ptr (- 22))
             else Inr (Some \<lparr>gh_start = word_of_int start, gh_end = word_of_int stop,
                         gh_split = sysfs_streq type ''SPLIT'', gh_rows = []\<rparr>))
        | _ \<Rightarrow> Inr None))"

text \<open>A gain as it is stored in an \<^verbatim>\<open>s8\<close>; the finished table with the rows that were not filled.\<close>

definition to_s8 :: "int \<Rightarrow> int" where
  "to_s8 v = sint (word_of_int v :: u8)"

definition gt_close :: "gt_header \<Rightarrow> gain_table_info" where
  "gt_close h =
     (let n = length (gh_rows h); free = MAX_GAIN_TABLE_SIZE - n in
      \<lparr>gt_start = gh_start h, gt_end = gh_end h, gt_max_index = of_nat n, gt_split_table = gh_split h,
       gt_abs_gain = map fst (gh_rows h) @ replicate free 0,
       gt_tab = map snd (gh_rows h) @ replicate free (0, 0, 0)\<rparr>)"

text \<open>A line below a header: an error, another row, or the end of the table (\<open>None\<close>).\<close>

definition gt_row :: "string \<Rightarrow> gt_header \<Rightarrow> gt_result + gt_header option" where
  "gt_row line h =
     (let vs = scan_any row_fmt line in
      case vs of
        [Num a, Num b, Num c, Num d] \<Rightarrow>
          if MAX_GAIN_TABLE_SIZE \<le> length (gh_rows h) then Inl (Err_ptr 4)
          else Inr (Some (h\<lparr>gh_rows := gh_rows h @ [(to_s8 a, word_of_int b, word_of_int c, word_of_int d)]\<rparr>))
      | _ \<Rightarrow> if strstr line ''</gaintable>'' then Inr None else Inl (Err_ptr (int (length vs))))"

definition gt_done :: "gain_table_info list \<Rightarrow> gt_header option \<Rightarrow> gt_result" where
  "gt_done tables cur = (if tables \<noteq> [] \<and> cur = None then Gt_tables tables else Err_ptr (- 14))"

definition skipped :: "string \<Rightarrow> bool" where
  "skipped line \<longleftrightarrow> (case line of c # _ \<Rightarrow> c = CHR ''#'' | [] \<Rightarrow> False) \<or> strstr line ''list>''"

text \<open>The lines in order, and the lines that were not read.\<close>

fun gt_lines :: "nat \<Rightarrow> (nat \<times> string) list \<Rightarrow> gain_table_info list \<Rightarrow> gt_header option \<Rightarrow>
    gt_result \<times> (nat \<times> string) list" where
  "gt_lines n [] tables cur = (gt_done tables cur, [])"
| "gt_lines n ((off, line) # ls) tables cur =
     (if n \<le> off then (gt_done tables cur, ls)
      else if skipped line then gt_lines n ls tables cur
      else (case cur of
          None \<Rightarrow> (case gt_open line of Inl r \<Rightarrow> (r, ls) | Inr h \<Rightarrow> gt_lines n ls tables h)
        | Some h \<Rightarrow>
            (case gt_row line h of
               Inl r \<Rightarrow> (r, ls)
             | Inr (Some h) \<Rightarrow> gt_lines n ls tables (Some h)
             | Inr None \<Rightarrow>
                 (if MAX_NUM_GAIN_TABLES - 2 \<le> Suc (length tables) then (gt_done (tables @ [gt_close h]) None, ls)
                  else gt_lines n ls (tables @ [gt_close h]) None))))"

definition parse_gt :: "nat \<Rightarrow> string \<Rightarrow> gt_result" where
  "parse_gt n data = fst (gt_lines n (strsep_lines 0 data) [] None)"

subsection \<open>The firmware file\<close>

text \<open>
  \<open>file\<close>: what \<^verbatim>\<open>request_firmware\<close> gives for the name in the device tree (an error, or the bytes). The
  copy the parser works on has no terminating NUL.
\<close>

definition nul :: char where "nul = CHR 0x00"

definition c_string :: "string \<Rightarrow> string \<Rightarrow> string" where
  "c_string buf beyond = takeWhile (\<lambda>c. c \<noteq> nul) buf @ (if nul \<in> set buf then [] else beyond)"

definition take_tables :: "gain_table_info list \<Rightarrow> 'c ad9361 \<Rightarrow> 'c ad9361" where
  "take_tables tables s = s\<lparr>st_current_table := - 1, ph_gt_info := tables\<rparr>"

definition request_gt :: "string option \<Rightarrow> (string \<Rightarrow> int + string) \<Rightarrow> string \<Rightarrow> ('c ad9361, int option) state" where
  "request_gt name firmware beyond =
     (case name of
        None \<Rightarrow> rtn (Some (- 2))
      | Some name \<Rightarrow>
          (case firmware name of
             Inl e \<Rightarrow> rtn (Some e)
           | Inr file \<Rightarrow>
               (case parse_gt (length file) (c_string file beyond) of
                  Gt_tables tables \<Rightarrow> do { _ \<leftarrow> upd_phy (take_tables tables); rtn (Some 0) }
                | Err_ptr e \<Rightarrow> rtn (if e \<le> 0 then Some e else None)
                | Gt_overrun \<Rightarrow> rtn None)))"

subsection \<open>The binary attribute\<close>

definition GT_BIN_SIZE :: nat where "GT_BIN_SIZE = 4096"

text \<open>The newlines of the lines that were read are overwritten by NULs.\<close>

definition cut_lines :: "(nat \<times> string) list \<Rightarrow> string \<Rightarrow> string" where
  "cut_lines rest buf =
     (let n = (case rest of [] \<Rightarrow> length buf | (off, _) # _ \<Rightarrow> off) in
      map (\<lambda>c. if c = nl then nul else c) (take n buf) @ drop n buf)"

definition put_at :: "nat \<Rightarrow> string \<Rightarrow> string \<Rightarrow> string" where
  "put_at off data buf = take off buf @ data @ drop (off + length data) buf"

text \<open>
  \<open>kept\<close>: the buffer of the attribute, once there is one. The result has the bytes written or an
  error, and the buffer.
\<close>

definition gt_bin_write :: "'c bus \<Rightarrow> 'c clk_framework \<Rightarrow> string \<Rightarrow> string option \<Rightarrow> string \<Rightarrow> nat \<Rightarrow>
    ('c ad9361, (int \<times> string) option) state" where
  "gt_bin_write bus fw beyond kept data off =
     (let buf = (if off = 0 \<or> kept = None then replicate GT_BIN_SIZE nul else the kept);
          buf = put_at off data buf; n = off + length data
      in if kept = None \<and> off \<noteq> 0 then rtn None
         else if \<not> strstr (take n buf) ''</list>'' then rtn (Some (int (length data), buf))
         else let (r, rest) = gt_lines n (strsep_lines 0 (c_string buf beyond)) [] None; buf = cut_lines rest buf in
           (case r of
              Gt_tables tables \<Rightarrow> do {
                _ \<leftarrow> upd_phy (take_tables tables);
                s \<leftarrow> get_phy;
                ret \<leftarrow> load_gt bus (ad9361_from_clk (clk_get_rate fw RX_RFPLL s)) (GT_RX1 + GT_RX2);
                rtn (if ret = None then None else Some (int (length data), buf))
              }
            | Err_ptr e \<Rightarrow> rtn (if e \<le> 0 then Some (e, buf) else None)
            | Gt_overrun \<Rightarrow> rtn None))"

text \<open>The text of a table; the newline ends each piece.\<close>

definition hex2 :: "u8 \<Rightarrow> string" where
  "hex2 b = ''0x'' @ [''0123456789ABCDEF'' ! (unat b div 16), ''0123456789ABCDEF'' ! (unat b mod 16)]"

definition gt_head :: "gain_table_info \<Rightarrow> string" where
  "gt_head g = ''<gaintable AD9361 type='' @ (if gt_split_table g then ''SPLIT'' else ''FULL'') @ '' dest=3 start='' @
     show_int (sint (gt_start g)) @ '' end='' @ show_int (sint (gt_end g)) @ ''>''"

definition gt_row_text :: "int \<times> gain_row \<Rightarrow> string" where
  "gt_row_text r = (case r of (a, b, c, d) \<Rightarrow> show_int a @ '', '' @ hex2 b @ '', '' @ hex2 c @ '', '' @ hex2 d)"

definition gt_rows :: "gain_table_info \<Rightarrow> (int \<times> gain_row) list" where
  "gt_rows g = take (unat (gt_max_index g)) (zip (gt_abs_gain g) (gt_tab g))"

definition gt_text :: "gain_table_info \<Rightarrow> string list" where
  "gt_text g = map (\<lambda>l. l @ [nl]) (gt_head g # map gt_row_text (gt_rows g) @ [''</gaintable>''])"

text \<open>
  \<^verbatim>\<open>snprintf\<close> behind what is there: the text as far as it fits, the length counted in full; past
  the end the space that is left wraps, and nothing is written or counted any more.
\<close>

definition put_piece :: "nat \<Rightarrow> string \<times> nat \<Rightarrow> string \<Rightarrow> string \<times> nat" where
  "put_piece count bl p = (case bl of (buf, len) \<Rightarrow>
     if len < count then (buf @ take (count - len - 1) p, len + length p)
     else if len = count then (buf, len + length p) else (buf, len))"

text \<open>\<^verbatim>\<open>memory_read_from_buffer\<close> out of the \<open>count\<close> bytes that were allocated.\<close>

definition gt_bin_read :: "'c ad9361 \<Rightarrow> nat \<Rightarrow> nat \<Rightarrow> string option" where
  "gt_bin_read s off count =
     (let (buf, len) = foldl (put_piece count) ([], 0) (gt_text (ph_gt_info s ! gt s));
          tab = buf @ replicate (count - length buf) nul; n = min count (len - off)
      in if len \<le> off then Some []
         else if count < off + n then None
         else Some (take n (drop off tab)))"

end
