(* ===== verification/Ad_Gt_Props.thy ===== *)
theory Ad_Gt_Props
  imports Ad_Gt
begin

unbundle bit_operations_syntax

text \<open>
  The text of a gain table is read back as that table; the attribute ignores the text it
  prints itself, since the parser only starts at the end of a list; and which texts bring the
  driver down.
\<close>

subsection \<open>Scanning what was printed\<close>

lemma blank_chars [simp]: "k_isspace CHR '' ''" "\<not> k_isspace CHR '',''" "\<not> k_isspace CHR ''-''" "k_isspace nl"
  by (simp_all add: k_isspace_def is_space_def nl_def)

lemma letter_not_space: "65 \<le> (of_char c :: nat) \<Longrightarrow> (of_char c :: nat) < 128 \<Longrightarrow> \<not> k_isspace c"
  by (auto simp: k_isspace_def is_space_def)

lemma hex_chars: "i < 16 \<Longrightarrow> xdigit (''0123456789ABCDEF'' ! i) = i"
proof -
  have all: "map xdigit ''0123456789ABCDEF'' = [0..<16]" by code_simp
  assume i: "i < 16"
  have "xdigit (''0123456789ABCDEF'' ! i) = map xdigit ''0123456789ABCDEF'' ! i"
    using i by (intro nth_map [symmetric]) simp
  then show ?thesis using i unfolding all by simp
qed

lemma scan_hex2:
  assumes "rest = [] \<or> 16 \<le> xdigit (hd rest)"
  shows "scan_any_int (hex2 b @ rest) = Some (int (unat b), rest)"
proof -
  have "unat b < 2 ^ LENGTH(8)" by (rule unsigned_less)
  then have lt: "unat b div 16 < 16" "unat b mod 16 < 16" by simp_all
  let ?d = "''0123456789ABCDEF'' ! (unat b div 16)" and ?e = "''0123456789ABCDEF'' ! (unat b mod 16)"
  have x: "xdigit ?d = unat b div 16" "xdigit ?e = unat b mod 16" using hex_chars lt by blast+
  have s: "hex2 b @ rest = CHR ''0'' # CHR ''x'' # ?d # ?e # rest" by (simp add: hex2_def)
  have base: "number_base (hex2 b @ rest) = (16, ?d # ?e # rest)" unfolding s using lt x by (simp add: number_base_def)
  have stop: "base_val 16 a rest = a" "dropWhile (\<lambda>c. xdigit c < 16) rest = rest" for a
    using assms by (cases rest; simp)+
  have "scan_base (hex2 b @ rest) = (unat b, rest)"
    unfolding scan_base_def base using lt x stop by simp
  moreover have "is_digit CHR ''0''" by (simp add: is_digit_def)
  moreover have "\<not> k_isspace CHR ''0''" by (simp add: k_isspace_def is_space_def)
  ultimately show ?thesis unfolding s by (simp add: scan_any_int_def)
qed

lemma comma_stops [simp]: "xdigit CHR '','' = 16" "\<not> is_digit CHR '',''"
  by (simp_all add: xdigit_def is_digit_def)

lemma skip_number: "dropWhile k_isspace (show_int v @ rest) = show_int v @ rest"
  by (rule skip_show_int)

lemma scan_spaced: "scan_any_int (CHR '' '' # str) = scan_any_int str"
  by (simp add: scan_any_int_def)

lemma scan_row: "scan_any row_fmt (gt_row_text (a, b, c, d)) = [Num a, Num (uint b), Num (uint c), Num (uint d)]"
  by (simp add: row_fmt_def gt_row_text_def skip_number scan_any_int_show scan_spaced scan_hex2
      scan_hex2 [of "[]", simplified])

lemma header_items:
  "header_fmt = Blank # map Char ''<gaintable'' @ Blank # map Char ''AD'' @ Number # Blank # map Char ''type='' @
     Token # Blank # map Char ''dest='' @ Number # Blank # map Char ''start='' @ Number # Blank # map Char ''end='' @
     [Number, Char CHR ''>'']"
  by code_simp

lemma scan_chars: "scan_any (map Char p @ f) (p @ str) = scan_any f str"
  by (induction p) simp_all

lemma scan_model:
  "scan_any_int (CHR ''9'' # CHR ''3'' # CHR ''6'' # CHR ''1'' # CHR '' '' # str) = Some (9361, CHR '' '' # str)"
  by (simp add: scan_any_int_def scan_base_def number_base_def xdigit_def is_digit_def k_isspace_def is_space_def)

lemma scan_three: "scan_any_int (CHR ''3'' # CHR '' '' # str) = Some (3, CHR '' '' # str)"
  by (cases str) (simp_all add: scan_any_int_def scan_base_def number_base_def xdigit_def is_digit_def k_isspace_def is_space_def)

lemma skip_plain: "str \<noteq> [] \<Longrightarrow> \<not> k_isspace (hd str) \<Longrightarrow> dropWhile k_isspace str = str"
  by (cases str) simp_all

lemma scan_token:
  assumes "w \<noteq> []" "\<forall>c \<in> set w. \<not> k_isspace c"
  shows "scan_any (Token # f) (w @ CHR '' '' # str) = Str w # scan_any f (CHR '' '' # str)"
proof -
  have "dropWhile k_isspace (w @ CHR '' '' # str) = w @ CHR '' '' # str" using assms by (intro skip_plain) auto
  then show ?thesis using assms by (simp add: takeWhile_append2 dropWhile_append2)
qed

lemma scan_head:
  "scan_any header_fmt (gt_head g) =
     [Num 9361, Str (if gt_split_table g then ''SPLIT'' else ''FULL''), Num 3, Num (sint (gt_start g)), Num (sint (gt_end g))]"
proof -
  define w where "w = (if gt_split_table g then ''SPLIT'' else ''FULL'')"
  have w: "w \<noteq> []" "\<forall>c \<in> set w. \<not> k_isspace c" by (auto simp: w_def letter_not_space)
  have plain: "\<not> k_isspace CHR ''<''" "\<not> k_isspace CHR ''A''" "\<not> k_isspace CHR ''t''" "\<not> k_isspace CHR ''d''"
    "\<not> k_isspace CHR ''s''" "\<not> k_isspace CHR ''e''" "\<not> is_digit CHR '' ''" "\<not> is_digit CHR ''>''"
    by (simp_all add: k_isspace_def is_space_def is_digit_def)
  have line_is: "gt_head g = ''<gaintable'' @ CHR '' '' # ''AD'' @ ''9361'' @ CHR '' '' # ''type='' @ w @ CHR '' '' #
      ''dest='' @ CHR ''3'' # CHR '' '' # ''start='' @ show_int (sint (gt_start g)) @ CHR '' '' #
      ''end='' @ show_int (sint (gt_end g)) @ ''>''"
    by (simp add: gt_head_def w_def)
  show ?thesis
    unfolding line_is header_items w_def [symmetric]
    using plain w by (simp add: scan_model scan_three scan_token scan_any_int_show skip_number del: scan_any.simps(5))
qed

subsection \<open>Lines of a printed table\<close>

lemma strstr_split: "strstr str p \<Longrightarrow> \<exists>a b. str = a @ p @ b"
proof (induction str)
  case (Cons c cs)
  show ?case
  proof (cases "starts_with p (c # cs)")
    case True
    then have "c # cs = [] @ p @ drop (length p) (c # cs)"
      by (metis append_Nil append_take_drop_id starts_with_def)
    then show ?thesis by blast
  next
    case False
    then show ?thesis using Cons by (metis append_Cons strstr.simps(2))
  qed
qed simp

lemma strstr_mid: "strstr (a @ p @ b) p"
proof (induction a)
  case Nil
  have "starts_with p (p @ b)" by (simp add: starts_with_def)
  then show ?case by (cases "p @ b") auto
qed simp

text \<open>A bracket closes a list only behind the word.\<close>

lemma no_list:
  assumes "CHR ''>'' \<notin> set xs" "xs = [] \<or> last xs \<noteq> CHR ''t''"
  shows "\<not> strstr xs ''list>''" "\<not> strstr (xs @ ''>'') ''list>''"
proof -
  show "\<not> strstr xs ''list>''" using strstr_split [of xs "''list>''"] assms(1) by auto
  show "\<not> strstr (xs @ ''>'') ''list>''"
  proof
    assume "strstr (xs @ ''>'') ''list>''"
    then obtain a b where ab: "xs @ ''>'' = (a @ ''list'') @ CHR ''>'' # b" using strstr_split by force
    have "b = []"
      using ab assms(1) by (cases b rule: rev_cases) (auto dest!: arg_cong [of _ _ set])
    then have "xs = a @ ''list''" using ab by simp
    then show False using assms(2) by simp
  qed
qed

lemma show_int_chars: "c \<in> set (show_int v) \<Longrightarrow> c \<noteq> CHR ''>'' \<and> c \<noteq> CHR ''t'' \<and> c \<noteq> nl \<and> c \<noteq> nul"
  using show_int_plain [of c v] by (auto simp: is_digit_def nl_def nul_def)

lemma show_int_nonempty: "show_int v \<noteq> []"
  using show_int_start [of v] by auto

lemma hex_set: "i < 16 \<Longrightarrow> ''0123456789ABCDEF'' ! i \<in> set ''0123456789ABCDEF''"
  by (rule nth_mem) simp

lemma hex2_chars: "c \<in> set (hex2 b) \<Longrightarrow> c \<in> set ''x0123456789ABCDEF''"
proof -
  have "unat b < 2 ^ LENGTH(8)" by (rule unsigned_less)
  then show "c \<in> set (hex2 b) \<Longrightarrow> c \<in> set ''x0123456789ABCDEF''"
    using hex_set [of "unat b div 16"] hex_set [of "unat b mod 16"] unfolding hex2_def by (auto simp del: nth_Cons_numeral)
qed

lemma row_text_chars:
  assumes "c \<in> set (gt_row_text r)"
  shows "c \<noteq> CHR ''>'' \<and> c \<noteq> nl \<and> c \<noteq> nul"
proof -
  obtain a x y z where r: "r = (a, x, y, z)" by (cases r) auto
  have "c \<in> set (show_int a) \<or> c \<in> set (hex2 x) \<or> c \<in> set (hex2 y) \<or> c \<in> set (hex2 z) \<or> c \<in> set '', ''"
    using assms by (auto simp: r gt_row_text_def)
  then show ?thesis using show_int_chars [of c a] hex2_chars [of c] by (auto simp: nl_def nul_def)
qed

lemma row_text_start: "gt_row_text r \<noteq> [] \<and> hd (gt_row_text r) \<noteq> CHR ''#''"
proof -
  obtain a x where r: "r = (a, x)" by (cases r) blast
  obtain c cs where "show_int a = c # cs" "is_digit c \<or> c = CHR ''-''" using show_int_start [of a] by auto
  then show ?thesis using digit_char_facts [of c] by (auto simp: r gt_row_text_def split: prod.split)
qed

lemma row_not_skipped: "\<not> skipped (gt_row_text r)"
proof -
  have "\<not> strstr (gt_row_text r) ''list>''" using row_text_chars [of "CHR ''>''" r] by (auto dest!: strstr_split)
  then show ?thesis using row_text_start [of r] by (cases "gt_row_text r") (auto simp: skipped_def)
qed

definition row_ok :: "int \<times> gain_row \<Rightarrow> bool" where
  "row_ok r \<longleftrightarrow> - 128 \<le> fst r \<and> fst r < 128"

lemma to_s8_id: "- 128 \<le> v \<Longrightarrow> v < 128 \<Longrightarrow> to_s8 v = v"
  by (simp add: to_s8_def signed_of_int signed_take_bit_int_eq_self)

lemma row_read:
  "row_ok r \<Longrightarrow> length (gh_rows h) < 90 \<Longrightarrow> gt_row (gt_row_text r) h = Inr (Some (h\<lparr>gh_rows := gh_rows h @ [r]\<rparr>))"
  by (cases r) (simp add: gt_row_def scan_row row_ok_def to_s8_id MAX_GAIN_TABLE_SIZE_def)

lemma head_parts:
  "gt_head g = (''<gaintable AD9361 type='' @ (if gt_split_table g then ''SPLIT'' else ''FULL'') @ '' dest=3 start='' @
     show_int (sint (gt_start g)) @ '' end='' @ show_int (sint (gt_end g))) @ ''>''"
  by (simp add: gt_head_def)

lemma head_not_skipped: "\<not> skipped (gt_head g)"
proof -
  let ?v = "show_int (sint (gt_end g))"
  have "last ?v \<in> set ?v" using show_int_nonempty by simp
  then have "last ?v \<noteq> CHR ''t''" using show_int_chars by blast
  then have "\<not> strstr (gt_head g) ''list>''"
    unfolding head_parts using show_int_nonempty show_int_chars by (intro no_list(2)) auto
  then show ?thesis by (simp add: skipped_def gt_head_def)
qed

lemma head_plain: "nl \<notin> set (gt_head g)" "nul \<notin> set (gt_head g)" "gt_head g \<noteq> []"
  using show_int_chars [of nl] show_int_chars [of nul] by (auto simp: gt_head_def nl_def nul_def)

definition header_ok :: "gt_header \<Rightarrow> bool" where
  "header_ok h \<longleftrightarrow> gh_start h < gh_end h \<and> length (gh_rows h) \<le> 90 \<and> (\<forall>r \<in> set (gh_rows h). row_ok r)"

lemma head_read:
  assumes "gh_start h < gh_end h"
  shows "gt_open (gt_head (gt_close h)) = Inr (Some (h\<lparr>gh_rows := []\<rparr>))"
proof -
  have w: "sysfs_streq ''SPLIT'' ''SPLIT''" "\<not> sysfs_streq ''FULL'' ''SPLIT''"
    by (simp_all add: sysfs_streq_def)
  have f: "gt_start (gt_close h) = gh_start h" "gt_end (gt_close h) = gh_end h" "gt_split_table (gt_close h) = gh_split h"
    by (simp_all add: gt_close_def Let_def)
  show ?thesis
    using assms w by (auto simp: gt_open_def scan_head f token_overrun_def Let_def not_le)
qed

lemma rows_closed: "length (gh_rows h) \<le> 90 \<Longrightarrow> gt_rows (gt_close h) = gh_rows h"
  by (simp add: gt_rows_def gt_close_def MAX_GAIN_TABLE_SIZE_def Let_def unat_of_nat zip_append zip_map_fst_snd)

lemma end_read: "\<not> skipped ''</gaintable>''" "gt_row ''</gaintable>'' h = Inr None"
  by (simp_all add: skipped_def gt_row_def row_fmt_def scan_any_int_def starts_with_def is_digit_def k_isspace_def is_space_def)

subsection \<open>Reading printed tables back\<close>

definition lines_of :: "gt_header \<Rightarrow> string list" where
  "lines_of h = gt_head (gt_close h) # map gt_row_text (gh_rows h) @ [''</gaintable>'']"

lemma gt_lines_rows:
  assumes "\<forall>x \<in> set ls. fst x < n" "map snd ls = map gt_row_text rs" "\<forall>r \<in> set rs. row_ok r"
    and "length (gh_rows h) + length rs \<le> 90"
  shows "gt_lines n (ls @ rest) tables (Some h) = gt_lines n rest tables (Some (h\<lparr>gh_rows := gh_rows h @ rs\<rparr>))"
  using assms
proof (induction rs arbitrary: ls h)
  case (Cons r rs)
  then obtain off ls' where ls: "ls = (off, gt_row_text r) # ls'" "map snd ls' = map gt_row_text rs" by (cases ls) auto
  have "gt_row (gt_row_text r) h = Inr (Some (h\<lparr>gh_rows := gh_rows h @ [r]\<rparr>))"
    using Cons.prems by (intro row_read) auto
  then have "gt_lines n (ls @ rest) tables (Some h) = gt_lines n (ls' @ rest) tables (Some (h\<lparr>gh_rows := gh_rows h @ [r]\<rparr>))"
    using Cons.prems(1) row_not_skipped [of r] by (simp add: ls(1))
  also have "\<dots> = gt_lines n rest tables (Some (h\<lparr>gh_rows := (gh_rows h @ [r]) @ rs\<rparr>))"
    using Cons.IH [of ls' "h\<lparr>gh_rows := gh_rows h @ [r]\<rparr>"] Cons.prems ls by simp
  finally show ?case by simp
qed simp

lemma gt_lines_table:
  assumes "header_ok h" "map snd ls = lines_of h" "\<forall>x \<in> set ls. fst x < n" "Suc (length tables) < 14"
  shows "gt_lines n (ls @ rest) tables None = gt_lines n rest (tables @ [gt_close h]) None"
proof -
  obtain o1 o2 rows where ls: "ls = (o1, gt_head (gt_close h)) # rows @ [(o2, ''</gaintable>'')]"
      "map snd rows = map gt_row_text (gh_rows h)"
    using assms(2) by (auto simp: lines_of_def map_eq_Cons_conv map_eq_append_conv)
  have inside: "\<not> n \<le> o1" "\<not> n \<le> o2" "\<forall>x \<in> set rows. fst x < n" using assms(3) by (auto simp: ls(1))
  have "gt_lines n (ls @ rest) tables None =
      gt_lines n (rows @ (o2, ''</gaintable>'') # rest) tables (Some (h\<lparr>gh_rows := []\<rparr>))"
    using assms(1) inside(1) head_not_skipped head_read [of h] by (simp add: ls(1) header_ok_def)
  also have "\<dots> = gt_lines n ((o2, ''</gaintable>'') # rest) tables (Some h)"
    using gt_lines_rows [OF inside(3) ls(2), of "h\<lparr>gh_rows := []\<rparr>"] assms(1) by (simp add: header_ok_def)
  also have "\<dots> = gt_lines n rest (tables @ [gt_close h]) None"
    using inside(2) end_read assms(4) by (simp add: MAX_NUM_GAIN_TABLES_def)
  finally show ?thesis .
qed

lemma gt_lines_tables:
  assumes "\<forall>h \<in> set hs. header_ok h" "map snd ls = concat (map lines_of hs)" "\<forall>x \<in> set ls. fst x < n"
    and "length tables + length hs < 14"
  shows "gt_lines n (ls @ rest) tables None = gt_lines n rest (tables @ map gt_close hs) None"
  using assms
proof (induction hs arbitrary: ls tables)
  case (Cons h hs)
  then obtain l1 l2 where ls: "ls = l1 @ l2" "map snd l1 = lines_of h" "map snd l2 = concat (map lines_of hs)"
    by (auto simp: map_eq_append_conv)
  have "gt_lines n (ls @ rest) tables None = gt_lines n (l2 @ rest) (tables @ [gt_close h]) None"
    using gt_lines_table [OF _ ls(2), of n tables "l2 @ rest"] Cons.prems by (simp add: ls(1))
  then show ?case using Cons.IH [OF _ ls(3), of "tables @ [gt_close h]"] Cons.prems by (simp add: ls(1))
qed simp

lemma join_concat: "concat (map (\<lambda>l. l @ [nl]) ls) = join_lines (ls @ [[]])"
proof (induction ls)
  case (Cons l ls)
  then show ?case by (cases "ls @ [[]]") simp_all
qed simp

lemma text_lines: "header_ok h \<Longrightarrow> gt_text (gt_close h) = map (\<lambda>l. l @ [nl]) (lines_of h)"
  by (simp add: gt_text_def lines_of_def rows_closed header_ok_def)

lemma table_lines_plain: "l \<in> set (lines_of h) \<Longrightarrow> nl \<notin> set l \<and> nul \<notin> set l \<and> l \<noteq> []"
  using head_plain [of "gt_close h"] row_text_chars [of nl] row_text_chars [of nul] row_text_start
  by (auto simp: lines_of_def nl_def nul_def)

definition tables_text :: "gt_header list \<Rightarrow> string" where
  "tables_text hs = concat (map (\<lambda>h. concat (gt_text (gt_close h))) hs)"

lemma tables_text_lines:
  "\<forall>h \<in> set hs. header_ok h \<Longrightarrow> tables_text hs = concat (map (\<lambda>l. l @ [nl]) (concat (map lines_of hs)))"
  by (induction hs) (simp_all add: tables_text_def text_lines)

lemma gt_lines_rest:
  "\<forall>x \<in> set ls. skipped (snd x) \<or> snd x = [] \<Longrightarrow> fst (gt_lines n ls tables None) = gt_done tables None"
proof (induction ls)
  case (Cons x ls)
  have "gt_open [] = Inr None" by (simp add: gt_open_def header_items token_overrun_def)
  then show ?case using Cons by (cases x) auto
qed simp

text \<open>The lines of a text that begins with printed tables and goes on with lines that are skipped.\<close>

lemma parse_printed:
  assumes "\<forall>h \<in> set hs. header_ok h" "hs \<noteq> []" "length hs < 14" "\<forall>l \<in> set last_lines. nl \<notin> set l \<and> skipped l"
    and data: "data = tables_text hs @ concat (map (\<lambda>l. l @ [nl]) last_lines)" "length data \<le> n"
  shows "fst (gt_lines n (strsep_lines 0 data) [] None) = Gt_tables (map gt_close hs)"
proof -
  let ?ls = "concat (map lines_of hs)"
  have data_is: "data = join_lines ((?ls @ last_lines) @ [[]])"
    using assms(1) unfolding join_concat [symmetric] data(1) by (simp add: tables_text_lines)
  have "map snd (strsep_lines 0 data) = (?ls @ last_lines) @ [[]]"
    unfolding data_is by (rule strsep_join) (use table_lines_plain assms(4) in \<open>auto\<close>)
  then have "\<exists>l1 l2. strsep_lines 0 data = l1 @ l2 \<and> ?ls = map snd l1 \<and> last_lines @ [[]] = map snd l2"
    unfolding append_assoc map_eq_append_conv [of snd _ ?ls] .
  then obtain l1 l2 where ls: "strsep_lines 0 data = l1 @ l2" "map snd l1 = ?ls" "map snd l2 = last_lines @ [[]]"
    by metis
  have "\<forall>x \<in> set l1. fst x < n"
  proof
    fix x assume x: "x \<in> set l1"
    then have "snd x \<in> set ?ls" unfolding ls(2) [symmetric] by simp
    then have "snd x \<noteq> []" using table_lines_plain by auto
    moreover have "(fst x, snd x) \<in> set (strsep_lines 0 data)" using x ls(1) by simp
    ultimately show "fst x < n" using strsep_offsets [of "fst x" "snd x" 0 data] data(2) by (cases "snd x") auto
  qed
  then have "gt_lines n (l1 @ l2) [] None = gt_lines n l2 (map gt_close hs) None"
    using gt_lines_tables [OF assms(1) ls(2), of n "[]"] assms(3) by simp
  moreover have "\<forall>x \<in> set l2. skipped (snd x) \<or> snd x = []"
  proof
    fix x assume "x \<in> set l2"
    then have "snd x \<in> set (last_lines @ [[]])" unfolding ls(3) [symmetric] by simp
    then show "skipped (snd x) \<or> snd x = []" using assms(4) by auto
  qed
  ultimately show ?thesis using assms(2) gt_lines_rest by (simp add: ls(1) gt_done_def)
qed

text \<open>
  C34. Gain tables survive being printed: the text the attribute prints for up to 13 tables,
  one after the other, is parsed to those tables, with their ranges, kind, gains and register
  rows. Their starts lie below their ends, the gains fit a byte, and there are at most 90 rows.
\<close>

theorem gain_table_roundtrip:
  assumes "\<forall>h \<in> set hs. header_ok h" "hs \<noteq> []" "length hs < 14"
  shows "parse_gt (length (tables_text hs)) (tables_text hs) = Gt_tables (map gt_close hs)"
  unfolding parse_gt_def by (rule parse_printed [OF assms, of "[]"]) simp_all

theorem gain_table_roundtrip_witness:
  "parse_gt (length (tables_text [\<lparr>gh_start = 0, gh_end = 1300000000, gh_split = True, gh_rows = [(- 1, 0, 0x20, 0x1A), (5, 1, 2, 0xFF)]\<rparr>]))
     (tables_text [\<lparr>gh_start = 0, gh_end = 1300000000, gh_split = True, gh_rows = [(- 1, 0, 0x20, 0x1A), (5, 1, 2, 0xFF)]\<rparr>]) =
   Gt_tables [gt_close \<lparr>gh_start = 0, gh_end = 1300000000, gh_split = True, gh_rows = [(- 1, 0, 0x20, 0x1A), (5, 1, 2, 0xFF)]\<rparr>]"
proof -
  let ?h = "\<lparr>gh_start = 0, gh_end = 1300000000, gh_split = True, gh_rows = [(- 1, 0, 0x20, 0x1A), (5, 1, 2, 0xFF)]\<rparr>"
  have "header_ok ?h" by (simp add: header_ok_def row_ok_def)
  then show ?thesis using gain_table_roundtrip [of "[?h]"] by simp
qed

subsection \<open>The attribute\<close>

lemma strstr_line: "nl \<notin> set p \<Longrightarrow> strstr (x @ nl # y) p \<Longrightarrow> p \<noteq> [] \<Longrightarrow> strstr x p \<or> strstr y p"
proof (induction x)
  case Nil
  then show ?case by (cases p) (auto simp: starts_with_def)
next
  case (Cons c x)
  show ?case
  proof (cases "starts_with p (c # x @ nl # y)")
    case True
    show ?thesis
    proof (cases "length p \<le> length (c # x)")
      case True
      then have "starts_with p (c # x)" using \<open>starts_with p (c # x @ nl # y)\<close>
        by (metis append_Cons append_is_Nil_conv diff_is_0_eq' starts_with_def self_append_conv take0 take_append)
      then show ?thesis by simp
    next
      case False
      then have "nl \<in> set (take (length p) ((c # x) @ nl # y))" using Cons.prems(3) by (simp add: take_Cons')
      then show ?thesis using \<open>starts_with p (c # x @ nl # y)\<close> Cons.prems(1) by (simp add: starts_with_def)
    qed
  qed (use Cons in auto)
qed

lemma strstr_lines:
  "nl \<notin> set p \<Longrightarrow> p \<noteq> [] \<Longrightarrow> strstr (concat (map (\<lambda>l. l @ [nl]) ls)) p \<Longrightarrow> \<exists>l \<in> set ls. strstr l p"
  by (induction ls) (use strstr_line in \<open>fastforce\<close>)+

lemma no_list_end: "\<not> skipped l \<Longrightarrow> \<not> strstr l ''</list>''"
proof
  assume "\<not> skipped l" "strstr l ''</list>''"
  then obtain a b where "l = (a @ ''</'') @ ''list>'' @ b" using strstr_split by force
  then have "strstr l ''list>''" using strstr_mid by blast
  then show False using \<open>\<not> skipped l\<close> by (simp add: skipped_def)
qed

lemma lines_not_skipped: "l \<in> set (lines_of h) \<Longrightarrow> \<not> skipped l"
  using head_not_skipped row_not_skipped end_read(1) by (auto simp: lines_of_def)

lemma text_without_end:
  assumes "\<forall>h \<in> set hs. header_ok h"
  shows "\<not> strstr (tables_text hs) ''</list>''"
proof
  assume "strstr (tables_text hs) ''</list>''"
  then obtain l where "l \<in> set (concat (map lines_of hs))" "strstr l ''</list>''"
    using strstr_lines [of "''</list>''" "concat (map lines_of hs)"] unfolding tables_text_lines [OF assms] by (auto simp: nl_def)
  then show False using lines_not_skipped no_list_end by auto
qed

text \<open>
  What the attribute prints is not what it reads: writing back the printed tables reports
  success and changes nothing, because the end of a list is missing. With that line added the
  tables replace the driver's, and the one for the current carrier is loaded.
\<close>

theorem gain_table_write_back:
  assumes "\<forall>h \<in> set hs. header_ok h" "hs \<noteq> []" "length hs < 14"
    and "listed = tables_text hs @ ''</list>'' @ [nl]" "length listed < GT_BIN_SIZE"
    and "s' = take_tables (map gt_close hs) s"
  shows "(\<exists>buf. run_state (gt_bin_write bus fw beyond None (tables_text hs) 0) s = (Some (int (length (tables_text hs)), buf), s)) \<and>
    snd (run_state (gt_bin_write bus fw beyond None listed 0) s) =
      snd (run_state (load_gt bus (ad9361_from_clk (clk_get_rate fw RX_RFPLL s')) (GT_RX1 + GT_RX2)) s')"
proof
  let ?t = "tables_text hs"
  have put: "put_at 0 d (replicate GT_BIN_SIZE nul) = d @ replicate (GT_BIN_SIZE - length d) nul" if "length d < GT_BIN_SIZE" for d
    using that by (simp add: put_at_def)
  have small: "length ?t < GT_BIN_SIZE" using assms(4,5) by simp
  show "\<exists>buf. run_state (gt_bin_write bus fw beyond None ?t 0) s = (Some (int (length ?t), buf), s)"
    using text_without_end [OF assms(1)] by (simp add: gt_bin_write_def put [OF small] Let_def)
  have chars: "nul \<notin> set listed"
  proof -
    have "nul \<noteq> nl" "nul \<notin> set (''</list>'' @ [nl])" by (simp_all add: nul_def nl_def)
    then show ?thesis using table_lines_plain unfolding assms(4) tables_text_lines [OF assms(1)] by auto
  qed
  have "takeWhile (\<lambda>c. c \<noteq> nul) (listed @ xs) = listed @ takeWhile (\<lambda>c. c \<noteq> nul) xs" for xs
    using chars by (intro takeWhile_append2) auto
  then have "c_string (listed @ replicate (GT_BIN_SIZE - length listed) nul) beyond = listed"
    using assms(5) by (simp add: c_string_def takeWhile_replicate)
  moreover have "strstr listed ''</list>''" unfolding assms(4) by (rule strstr_mid)
  moreover have "fst (gt_lines (length listed) (strsep_lines 0 listed) [] None) = Gt_tables (map gt_close hs)"
    by (rule parse_printed [OF assms(1-3), of "[''</list>'']"]) (use assms(4) in \<open>simp_all add: skipped_def nl_def starts_with_def\<close>)
  ultimately show "snd (run_state (gt_bin_write bus fw beyond None listed 0) s) =
      snd (run_state (load_gt bus (ad9361_from_clk (clk_get_rate fw RX_RFPLL s')) (GT_RX1 + GT_RX2)) s')"
    using put [OF assms(5)] by (auto simp: gt_bin_write_def assms(6) Let_def split: prod.splits)
qed

theorem gain_table_write_back_witness:
  "(\<exists>buf. run_state (gt_bin_write chip_bus (fixed_clk 400000000) [] None (tables_text [\<lparr>gh_start = 0, gh_end = 9,
       gh_split = False, gh_rows = [(3, 0, 0, 0x18)]\<rparr>]) 0) ad_zero =
     (Some (int (length (tables_text [\<lparr>gh_start = 0, gh_end = 9, gh_split = False, gh_rows = [(3, 0, 0, 0x18)]\<rparr>])), buf), ad_zero)) \<and>
   snd (run_state (gt_bin_write chip_bus (fixed_clk 400000000) [] None (tables_text [\<lparr>gh_start = 0, gh_end = 9,
       gh_split = False, gh_rows = [(3, 0, 0, 0x18)]\<rparr>] @ ''</list>'' @ [nl]) 0) ad_zero) =
     snd (run_state (load_gt chip_bus (ad9361_from_clk 400000000) (GT_RX1 + GT_RX2))
       (take_tables [gt_close \<lparr>gh_start = 0, gh_end = 9, gh_split = False, gh_rows = [(3, 0, 0, 0x18)]\<rparr>] ad_zero))"
proof -
  let ?h = "\<lparr>gh_start = 0, gh_end = 9, gh_split = False, gh_rows = [(3, 0, 0, 0x18)]\<rparr>"
  have "\<forall>h \<in> set [?h]. header_ok h" by (simp add: header_ok_def row_ok_def)
  moreover have "length (tables_text [?h] @ ''</list>'' @ [nl]) < 120" by code_simp
  ultimately show ?thesis
    using gain_table_write_back [of "[?h]" "tables_text [?h] @ ''</list>'' @ [nl]" _ ad_zero chip_bus "fixed_clk 400000000" "[]"]
    by (simp add: fixed_clk_def GT_BIN_SIZE_def)
qed

subsection \<open>Reading in chunks\<close>

text \<open>How much of a text is in the buffer and how much is counted.\<close>

lemma put_pieces:
  assumes "0 < count"
  shows "case foldl (put_piece count) ([], 0) ps of (buf, len) \<Rightarrow>
    buf = take (count - 1) (concat ps) \<and> (length (concat ps) \<le> count \<longrightarrow> len = length (concat ps)) \<and>
    (count < length (concat ps) \<longrightarrow> count < len)"
proof (induction ps rule: rev_induct)
  case (snoc p ps)
  obtain buf len where f: "foldl (put_piece count) ([], 0) ps = (buf, len)" by (cases "foldl (put_piece count) ([], 0) ps")
  then have ih: "buf = take (count - 1) (concat ps)" "length (concat ps) \<le> count \<Longrightarrow> len = length (concat ps)"
      "count < length (concat ps) \<Longrightarrow> count < len"
    using snoc by auto
  have piece: "foldl (put_piece count) ([], 0) (ps @ [p]) = put_piece count (buf, len) p" by (simp add: f)
  consider "length (concat ps) < count" | "length (concat ps) = count" | "count < length (concat ps)" by linarith
  then show ?case
  proof cases
    case 1
    then show ?thesis using ih(1,2) assms unfolding piece by (simp add: put_piece_def)
  next
    case 2
    then show ?thesis using ih(1,2) assms unfolding piece by (simp add: put_piece_def)
  next
    case 3
    then show ?thesis using ih(1,3) assms unfolding piece by (simp add: put_piece_def)
  qed
qed simp

text \<open>
  Reading the gain table in chunks. A read whose chunk holds the whole text gives the part
  that starts at the offset; with a smaller chunk the first read ends in a NUL instead of the
  last character, and the next one reads memory behind the allocated buffer.
\<close>

theorem gt_read_chunks:
  assumes "0 < count" "content = concat (gt_text (ph_gt_info s ! gt s))"
  shows "(length content < count \<longrightarrow> gt_bin_read s off count = Some (drop off content)) \<and>
    (count < length content \<longrightarrow> gt_bin_read s 0 count = Some (take (count - 1) content @ [nul]) \<and>
       (0 < off \<and> off \<le> count \<longrightarrow> gt_bin_read s off count = None))"
proof -
  obtain buf len where f: "foldl (put_piece count) ([], 0) (gt_text (ph_gt_info s ! gt s)) = (buf, len)" by fastforce
  have p: "buf = take (count - 1) content" "length content \<le> count \<Longrightarrow> len = length content"
      "count < length content \<Longrightarrow> count < len"
    using put_pieces [OF assms(1), of "gt_text (ph_gt_info s ! gt s)"] unfolding f assms(2) by auto
  note run = gt_bin_read_def [of s _ count, unfolded f prod.case Let_def]
  have "length content < count \<Longrightarrow> gt_bin_read s off count = Some (drop off content)"
    using p by (auto simp: run)
  moreover have "count < length content \<Longrightarrow> gt_bin_read s 0 count = Some (take (count - 1) content @ [nul])"
    using p assms(1) by (auto simp: run)
  moreover have "count < length content \<Longrightarrow> 0 < off \<Longrightarrow> off \<le> count \<Longrightarrow> gt_bin_read s off count = None"
    using p by (auto simp: run)
  ultimately show ?thesis by blast
qed

lemma text_length: "40 \<le> length (concat (gt_text g))"
  by (simp add: gt_text_def gt_head_def)

theorem gt_read_chunks_witness: "gt_bin_read ad_zero 16 16 = None"
  using gt_read_chunks [of 16 _ ad_zero 16, OF _ refl] text_length [of "ph_gt_info ad_zero ! gt ad_zero"] by auto

subsection \<open>Texts that are no tables\<close>

text \<open>The numbers the parser wraps into a pointer.\<close>

definition parse_errors :: "int set" where
  "parse_errors = {- 22, - 14, 0, 1, 2, 3, 4}"

lemma open_error: "gt_open line = Inl (Err_ptr e) \<Longrightarrow> e \<in> parse_errors"
  by (auto simp: gt_open_def parse_errors_def Let_def split: if_splits list.splits scan_val.splits)

lemma scan_row_length: "length (scan_any row_fmt line) \<le> 4"
proof -
  have "length (scan_any f line) \<le> length (filter (\<lambda>i. i = Number \<or> i = Token) f)" for f
    by (induction f line rule: scan_any.induct) (auto split: list.splits option.splits simp: Let_def)
  from this [of row_fmt] show ?thesis by (simp add: row_fmt_def)
qed

lemma row_error: "gt_row line h = Inl (Err_ptr e) \<Longrightarrow> e \<in> parse_errors"
proof -
  assume "gt_row line h = Inl (Err_ptr e)"
  then have "e = 4 \<or> e = int (length (scan_any row_fmt line))"
    by (auto simp: gt_row_def Let_def split: if_splits list.splits scan_val.splits)
  moreover have "l = 0 \<or> l = 1 \<or> l = 2 \<or> l = 3 \<or> l = 4" if "l \<le> 4" for l :: nat using that by linarith
  ultimately show ?thesis using scan_row_length [of line] by (fastforce simp: parse_errors_def)
qed

lemma lines_error: "gt_lines n ls tables cur = (Err_ptr e, rest) \<Longrightarrow> e \<in> parse_errors"
proof (induction n ls tables cur rule: gt_lines.induct)
  case (2 n off line ls tables cur)
  then show ?case
    using open_error [of line e] row_error [of line _ e]
    by (auto simp: gt_done_def parse_errors_def split: if_splits option.splits sum.splits)
qed (auto simp: gt_done_def parse_errors_def split: if_splits)

text \<open>
  A write to the gain table attribute that returns is all or nothing: it reports all of its
  bytes, or one of three errors (a bad header, no complete table, a row without numbers, which is
  reported as 0 bytes written) with the driver's state unchanged.
\<close>

theorem gt_write_errors:
  assumes "run_state (gt_bin_write bus fw beyond kept data off) s = (Some (r, buf), t)"
  shows "r = int (length data) \<or> r \<in> {- 22, - 14, 0} \<and> t = s"
proof -
  define b where "b = put_at off data (if off = 0 \<or> kept = None then replicate GT_BIN_SIZE nul else the kept)"
  obtain g rest where g: "gt_lines (off + length data) (strsep_lines 0 (c_string b beyond)) [] None = (g, rest)" by fastforce
  note run = assms [unfolded gt_bin_write_def Let_def b_def [symmetric] g prod.case]
  show ?thesis
  proof (cases g)
    case (Gt_tables tables)
    then show ?thesis using run by (auto simp: run_state_if split: if_splits prod.splits)
  next
    case (Err_ptr e)
    then have "e \<in> parse_errors" using lines_error g by blast
    then show ?thesis using run Err_ptr by (auto simp: parse_errors_def split: if_splits)
  next
    case Gt_overrun
    then show ?thesis using run by (auto split: if_splits)
  qed
qed

text \<open>
  A row with too few numbers is answered with a pointer made of their count, which the caller
  takes for a table; so is the fifth and any longer list of rows, see \<open>gt_row\<close>.
\<close>

lemma short_row_crashes:
  "parse_gt 99 (''<gaintable AD9361 type=FULL dest=3 start=0 end=9>'' @ [nl] @ ''1, 2'') = Err_ptr 2"
  by code_simp

theorem gt_write_errors_witness:
  "\<exists>buf. run_state (gt_bin_write chip_bus (fixed_clk 0) [] None ''</list>'' 0) ad_zero = (Some (- 14, buf), ad_zero) \<and>
     (- 14 = int (length ''</list>'') \<or> - 14 \<in> {- 22, - 14, 0 :: int} \<and> ad_zero = ad_zero)"
proof -
  define d where "d = ''</list>''"
  let ?buf = "d @ replicate (GT_BIN_SIZE - 7) nul"
  have d: "length d = 7" "nul \<notin> set d" by (simp_all add: d_def nul_def)
  then have "takeWhile (\<lambda>c. c \<noteq> nul) (d @ xs) = d @ takeWhile (\<lambda>c. c \<noteq> nul) xs" for xs
    by (intro takeWhile_append2) auto
  moreover have "nul \<in> set ?buf" by (simp add: GT_BIN_SIZE_def)
  ultimately have c: "c_string ?buf [] = d" by (simp only: c_string_def) (simp add: takeWhile_replicate)
  have l: "strsep_lines 0 d = [(0, d)]" by (simp add: strsep_lines.simps nl_def d_def)
  have p: "put_at 0 d (replicate GT_BIN_SIZE nul) = ?buf" by (simp add: put_at_def d)
  have g: "gt_lines 7 [(0, d)] [] None = (Err_ptr (- 14), [])"
    by (simp add: skipped_def starts_with_def gt_done_def d_def)
  have "strstr (take 7 ?buf) ''</list>''" by (simp add: starts_with_def d_def)
  then have "run_state (gt_bin_write chip_bus (fixed_clk 0) [] None d 0) ad_zero = (Some (- 14, cut_lines [] ?buf), ad_zero)"
    using c l p g d by (simp add: gt_bin_write_def Let_def del: gt_lines.simps)
  then show ?thesis using gt_write_errors unfolding d_def by blast
qed

end
