(* ===== verification/Ad_Attr.thy ===== *)
theory Ad_Attr
  imports Ad_Bringup Ad_Fir Ad_Gt
begin

unbundle bit_operations_syntax

text \<open>
  The attributes of the transceiver's device: \<^verbatim>\<open>ad9361_phy_store\<close> and \<^verbatim>\<open>ad9361_phy_show\<close>, the
  handlers of a carrier change, the deferred calibration and the clock multiplexer. A store
  returns the length of the text or an error; \<open>None\<close> is a division by zero inside.
\<close>

subsection \<open>What the driver runs on\<close>

text \<open>
  The parameters of the operations below in one record: the bus, the kernel's clock framework, the
  board, the digital tuning, the kernel's square root, the byte an uninitialised variable has,
  setting the rate of the reference clock and its accuracy; for the receive and the transmit carrier
  (\<open>True\<close>) whether there is a clock for an external oscillator, making it or the internal PLL the
  parent, and whether it is.
\<close>

record 'c env =
  ev_bus :: "'c bus"
  ev_fw :: "'c clk_framework"
  ev_board :: "'c board"
  ev_tune :: "'c dig_tuner"
  ev_isqrt :: "ulong \<Rightarrow> ulong"
  ev_junk :: u8
  ev_set_refin :: "ulong \<Rightarrow> ('c ad9361, int) state"
  ev_accuracy :: "'c ad9361 \<Rightarrow> ulong"
  ev_ext_lo :: "bool \<Rightarrow> bool"
  ev_set_parent :: "bool \<Rightarrow> bool \<Rightarrow> ('c ad9361, int) state"
  ev_external :: "bool \<Rightarrow> 'c ad9361 \<Rightarrow> bool"

datatype phy_attr = AD9361_RF_RX_BANDWIDTH | AD9361_RF_TX_BANDWIDTH | AD9361_ENSM_MODE | AD9361_ENSM_MODE_AVAIL
  | AD9361_CALIB_MODE | AD9361_CALIB_MODE_AVAIL | AD9361_RSSI_GAIN_STEP_ERROR | AD9361_RX_PATH_FREQ
  | AD9361_TX_PATH_FREQ | AD9361_TRX_RATE_GOV | AD9361_TRX_RATE_GOV_AVAIL | AD9361_FIR_RX_ENABLE
  | AD9361_FIR_TX_ENABLE | AD9361_FIR_TRX_ENABLE | AD9361_BBDC_OFFS_ENABLE | AD9361_RFDC_OFFS_ENABLE
  | AD9361_QUAD_ENABLE | AD9361_DCXO_TUNE_COARSE | AD9361_DCXO_TUNE_COARSE_AVAILABLE | AD9361_DCXO_TUNE_FINE
  | AD9361_DCXO_TUNE_FINE_AVAILABLE | AD9361_XO_CORRECTION | AD9361_XO_CORRECTION_AVAILABLE | AD9361_MCS_SYNC

subsection \<open>Writing\<close>

definition store_bandwidth :: "'c env \<Rightarrow> bool \<Rightarrow> string \<Rightarrow> ('c ad9361, int option) state" where
  "store_bandwidth ev tx buf =
     (case kstrtol buf of
        Inl e \<Rightarrow> rtn (Some e)
      | Inr v \<Rightarrow> do {
          s \<leftarrow> get_phy;
          let bw = validate_rf_bw (pd_dev s) (word_of_int v);
          if (if tx then st_current_tx_bw_Hz s else st_current_rx_bw_Hz s) = bw then rtn (Some 0)
          else update_rf_bandwidth (ev_bus ev) (ev_fw ev) (ev_isqrt ev) (ev_junk ev)
                 (if tx then st_current_rx_bw_Hz s else bw) (if tx then bw else st_current_tx_bw_Hz s)
        })"

text \<open>The mode a text asks for: the state, whether pins control it, and independent FDD.\<close>

definition ensm_modes :: "(string \<times> u32 \<times> bool \<times> bool) list" where
  "ensm_modes =
     [(''tx'', ENSM_STATE_TX, False, False), (''rx'', ENSM_STATE_RX, False, False),
      (''alert'', ENSM_STATE_ALERT, False, False), (''fdd'', ENSM_STATE_FDD, False, False),
      (''wait'', ENSM_STATE_SLEEP_WAIT, False, False), (''sleep'', ENSM_STATE_SLEEP, False, False),
      (''pinctrl'', ENSM_STATE_SLEEP_WAIT, True, False), (''pinctrl_fdd_indep'', ENSM_STATE_FDD, False, True)]"

fun streq_lookup :: "string \<Rightarrow> (string \<times> 'a) list \<Rightarrow> 'a option" where
  "streq_lookup buf [] = None"
| "streq_lookup buf ((name, x) # xs) = (if sysfs_streq buf name then Some x else streq_lookup buf xs)"

definition store_ensm_mode :: "'c env \<Rightarrow> string \<Rightarrow> ('c ad9361, int option) state" where
  "store_ensm_mode ev buf = do {
     _ \<leftarrow> upd_phy (\<lambda>s. s\<lparr>pd_fdd_independent_mode := False\<rparr>);
     case streq_lookup buf ensm_modes of
       None \<Rightarrow> rtn (Some 0)
     | Some (val, res, indep) \<Rightarrow> do {
         _ \<leftarrow> upd_phy (\<lambda>s. if indep then s\<lparr>pd_fdd_independent_mode := True\<rparr> else s);
         s \<leftarrow> get_phy;
         _ \<leftarrow> set_ensm_mode (ev_bus ev) (pd_fdd s) res;
         s \<leftarrow> get_phy;
         ensm_set_state (ev_bus ev) (clk_get_rate (ev_fw ev) ADC_CLK s) (ucast val) res
       }
   }"

definition store_rate_governor :: "string \<Rightarrow> ('c ad9361, int option) state" where
  "store_rate_governor buf =
     (case streq_lookup buf [(''highest_osr'', 0), (''nominal'', 1)] of
        None \<Rightarrow> rtn (Some (- 22))
      | Some g \<Rightarrow> do { _ \<leftarrow> upd_phy (\<lambda>s. s\<lparr>st_rate_governor := g\<rparr>); rtn (Some 0) })"

text \<open>The filters of the receive path, the transmit path or both.\<close>

definition bypass_firs :: "bool \<Rightarrow> bool \<Rightarrow> bool \<Rightarrow> 'c ad9361 \<Rightarrow> 'c ad9361" where
  "bypass_firs rx tx b s = s\<lparr>st_bypass_rx_fir := if rx then b else st_bypass_rx_fir s,
     st_bypass_tx_fir := if tx then b else st_bypass_tx_fir s\<rparr>"

definition store_fir_enable :: "'c env \<Rightarrow> bool \<Rightarrow> bool \<Rightarrow> string \<Rightarrow> ('c ad9361, int option) state" where
  "store_fir_enable ev rx tx buf =
     (case kstrtobool buf of
        Inl e \<Rightarrow> rtn (Some e)
      | Inr res \<Rightarrow> do {
          s \<leftarrow> get_phy;
          if (rx \<longrightarrow> st_bypass_rx_fir s = (\<not> res)) \<and> (tx \<longrightarrow> st_bypass_tx_fir s = (\<not> res)) then rtn (Some 0)
          else do {
            _ \<leftarrow> upd_phy (bypass_firs rx tx (\<not> res));
            ret \<leftarrow> validate_enable_fir (ev_bus ev) (ev_fw ev) (ev_tune ev) (ev_isqrt ev) (ev_junk ev);
            case ret of
              None \<Rightarrow> rtn None
            | Some r \<Rightarrow>
                if r < 0 then do { _ \<leftarrow> upd_phy (bypass_firs rx tx True); rtn (Some r) }
                else rtn (Some r)
          }
        })"

text \<open>The calibration a text asks for.\<close>

definition quad_arg :: "string \<Rightarrow> int" where
  "quad_arg buf = (case sscanf buf ''tx_quad %d'' of [v] \<Rightarrow> to_int v | _ \<Rightarrow> - 1)"

definition cal_flags :: "bool \<Rightarrow> bool \<Rightarrow> ('c ad9361, int option) state" where
  "cal_flags auto manual_quad = do {
     _ \<leftarrow> upd_phy (\<lambda>s. s\<lparr>st_auto_cal_en := auto, st_manual_tx_quad_cal_en := manual_quad\<rparr>);
     rtn (Some 0)
   }"

definition store_calib_mode :: "'c env \<Rightarrow> string \<Rightarrow> ('c ad9361, int option) state" where
  "store_calib_mode ev buf =
     (let run = do_calib_run (ev_bus ev) (ev_fw ev) (ev_isqrt ev) (ev_junk ev) in
      if sysfs_streq buf ''auto'' then cal_flags True False
      else if sysfs_streq buf ''manual'' then cal_flags False False
      else if sysfs_streq buf ''manual_tx_quad'' then cal_flags False True
      else if starts_with ''tx_quad'' buf then run TX_QUAD_CAL (quad_arg buf)
      else if sysfs_streq buf ''rf_dc_offs'' then run RFDC_CAL (- 1)
      else if sysfs_streq buf ''rssi_gain_step''
        then do { r \<leftarrow> rssi_gain_step_calib (ev_bus ev) (ev_fw ev); rtn (Some r) }
      else rtn (Some 0))"

text \<open>The 25 numbers of the gain step errors; those that were read before a mismatch stay stored.\<close>

definition gain_errors_fmt :: string where
  "gain_errors_fmt = ''lna_error: %d %d %d %d '' @ ''mixer_error: %d %d %d %d %d %d %d %d '' @
     ''%d %d %d %d %d %d %d %d '' @ ''gain_step_calib_reg_val: %d %d %d %d %d''"

definition overlay :: "int list \<Rightarrow> u32 list \<Rightarrow> u32 list" where
  "overlay vs ws = map word_of_int (take (length ws) vs) @ drop (length vs) ws"

definition take_gain_errors :: "int list \<Rightarrow> 'c ad9361 \<Rightarrow> 'c ad9361" where
  "take_gain_errors vs s = s\<lparr>pd_rssi_lna_err_tbl := overlay vs (pd_rssi_lna_err_tbl s),
     pd_rssi_mixer_err_tbl := overlay (drop 4 vs) (pd_rssi_mixer_err_tbl s),
     pd_rssi_gain_step_calib_reg_val := overlay (drop 20 vs) (pd_rssi_gain_step_calib_reg_val s)\<rparr>"

definition store_gain_errors :: "'c env \<Rightarrow> string \<Rightarrow> ('c ad9361, int option) state" where
  "store_gain_errors ev buf =
     (let vs = sscanf buf gain_errors_fmt; bus = ev_bus ev in do {
        _ \<leftarrow> upd_phy (take_gain_errors vs);
        if length vs = 25 then do {
          _ \<leftarrow> ensm_force_state bus (ucast ENSM_STATE_ALERT);
          _ \<leftarrow> rssi_program_lna_gain bus;
          _ \<leftarrow> rssi_write_err_tbl bus;
          _ \<leftarrow> spi_write bus REG_SETTLE_TIME (ENABLE_DIG_GAIN_CORR OR SETTLE_TIME 0x10);
          _ \<leftarrow> ensm_restore_prev_state bus;
          rtn (Some 0)
        } else rtn (Some (- 22))
      })"

definition store_tracking :: "'c env \<Rightarrow> (bool \<Rightarrow> 'c ad9361 \<Rightarrow> 'c ad9361) \<Rightarrow> string \<Rightarrow> ('c ad9361, int option) state" where
  "store_tracking ev put buf =
     (case kstrtobool buf of
        Inl e \<Rightarrow> rtn (Some e)
      | Inr res \<Rightarrow> do {
          _ \<leftarrow> upd_phy (put res);
          s \<leftarrow> get_phy;
          r \<leftarrow> tracking_control (ev_bus ev) (st_bbdc_track_en s) (st_rfdc_track_en s) (st_quad_track_en s);
          rtn (Some r)
        })"

definition store_dcxo :: "'c env \<Rightarrow> bool \<Rightarrow> string \<Rightarrow> ('c ad9361, int option) state" where
  "store_dcxo ev coarse buf =
     (case kstrtol buf of
        Inl e \<Rightarrow> rtn (Some e)
      | Inr v \<Rightarrow> do {
          s \<leftarrow> get_phy;
          let val = clamp_u32 (word_of_int v) 0 (if coarse then 63 else 8191);
          if val = (if coarse then pd_dcxo_coarse s else pd_dcxo_fine s) then rtn (Some 0)
          else do {
            _ \<leftarrow> upd_phy (\<lambda>s. if coarse then s\<lparr>pd_dcxo_coarse := val\<rparr> else s\<lparr>pd_dcxo_fine := val\<rparr>);
            s \<leftarrow> get_phy;
            r \<leftarrow> set_dcxo_tune (ev_bus ev) (pd_dcxo_coarse s) (pd_dcxo_fine s);
            rtn (Some r)
          }
        })"

definition store_xo_correction :: "'c env \<Rightarrow> string \<Rightarrow> ('c ad9361, int option) state" where
  "store_xo_correction ev buf =
     (case kstrtol buf of
        Inl e \<Rightarrow> rtn (Some e)
      | Inr v \<Rightarrow> do {
          s \<leftarrow> get_phy;
          if word_of_int v = bd_refin_rate (ev_board ev) s then rtn (Some 0)
          else do {
            let rx = ucast (st_current_rx_lo_freq s); tx = ucast (st_current_tx_lo_freq s) in do {
            ret \<leftarrow> ev_set_refin ev (word_of_int v);
            if ret < 0 then rtn (Some ret)
            else do {
              s \<leftarrow> get_phy;
              r \<leftarrow> set_trx_clock_chain (ev_bus ev) (ev_fw ev) (ev_tune ev) (st_current_rx_path_clks s) (st_current_tx_path_clks s);
              if r = None then rtn None
              else do {
                _ \<leftarrow> clk_set_rate (ev_fw ev) RX_RFPLL rx;
                _ \<leftarrow> clk_set_rate (ev_fw ev) TX_RFPLL tx;
                rtn (Some ret)
              }
            } }
          }
        })"

definition store_mcs :: "'c env \<Rightarrow> string \<Rightarrow> ('c ad9361, int option) state" where
  "store_mcs ev buf =
     (case kstrtol buf of
        Inl e \<Rightarrow> rtn (Some e)
      | Inr v \<Rightarrow> do { r \<leftarrow> mcs (ev_bus ev) (ev_board ev) (word_of_int v); rtn (Some r) })"

definition store_attr :: "'c env \<Rightarrow> phy_attr \<Rightarrow> string \<Rightarrow> ('c ad9361, int option) state" where
  "store_attr ev a buf =
     (case a of
        AD9361_RF_RX_BANDWIDTH \<Rightarrow> store_bandwidth ev False buf
      | AD9361_RF_TX_BANDWIDTH \<Rightarrow> store_bandwidth ev True buf
      | AD9361_ENSM_MODE \<Rightarrow> store_ensm_mode ev buf
      | AD9361_TRX_RATE_GOV \<Rightarrow> store_rate_governor buf
      | AD9361_FIR_TRX_ENABLE \<Rightarrow> store_fir_enable ev True True buf
      | AD9361_FIR_RX_ENABLE \<Rightarrow> store_fir_enable ev True False buf
      | AD9361_FIR_TX_ENABLE \<Rightarrow> store_fir_enable ev False True buf
      | AD9361_CALIB_MODE \<Rightarrow> store_calib_mode ev buf
      | AD9361_RSSI_GAIN_STEP_ERROR \<Rightarrow> store_gain_errors ev buf
      | AD9361_BBDC_OFFS_ENABLE \<Rightarrow> store_tracking ev (\<lambda>b s. s\<lparr>st_bbdc_track_en := b\<rparr>) buf
      | AD9361_RFDC_OFFS_ENABLE \<Rightarrow> store_tracking ev (\<lambda>b s. s\<lparr>st_rfdc_track_en := b\<rparr>) buf
      | AD9361_QUAD_ENABLE \<Rightarrow> store_tracking ev (\<lambda>b s. s\<lparr>st_quad_track_en := b\<rparr>) buf
      | AD9361_DCXO_TUNE_COARSE \<Rightarrow> store_dcxo ev True buf
      | AD9361_DCXO_TUNE_FINE \<Rightarrow> store_dcxo ev False buf
      | AD9361_XO_CORRECTION \<Rightarrow> store_xo_correction ev buf
      | AD9361_MCS_SYNC \<Rightarrow> store_mcs ev buf
      | _ \<Rightarrow> rtn (Some (- 22)))"

text \<open>What a store reports: its error, or all of the text.\<close>

definition reported :: "string \<Rightarrow> int \<Rightarrow> int" where
  "reported buf ret = (if ret \<noteq> 0 then ret else int (length buf))"

definition phy_store :: "'c env \<Rightarrow> phy_attr \<Rightarrow> string \<Rightarrow> ('c ad9361, int option) state" where
  "phy_store ev a buf = do {
     s \<leftarrow> get_phy;
     if st_curr_ensm_state s = ucast ENSM_STATE_SLEEP \<and> a \<noteq> AD9361_ENSM_MODE then rtn (Some (- 22))
     else do { r \<leftarrow> store_attr ev a buf; rtn (map_option (reported buf) r) }
   }"

subsection \<open>Reading\<close>

definition show_u32 :: "u32 \<Rightarrow> string" where "show_u32 w = show_nat (unat w)"
definition show_s32 :: "u32 \<Rightarrow> string" where "show_s32 w = show_int (sint w)"

definition show_flag :: "bool \<Rightarrow> string" where "show_flag b = (if b then ''1'' else ''0'')"

definition ensm_states :: "string option list" where
  "ensm_states = [Some ''sleep'', None, None, None, None, Some ''alert'', Some ''tx'', Some ''tx flush'',
     Some ''rx'', Some ''rx_flush'', Some ''fdd'', Some ''fdd_flush'']"

definition show_ensm_mode :: "'c env \<Rightarrow> ('c ad9361, int + string) state" where
  "show_ensm_mode ev = do {
     v \<leftarrow> spi_readf (ev_bus ev) REG_STATE (ENSM_STATE (- 1));
     rtn (if v < 0 then Inl v
          else if length ensm_states \<le> nat v then Inl (- 5)
          else (case ensm_states ! nat v of None \<Rightarrow> Inl (- 5) | Some name \<Rightarrow> Inr (name @ [nl])))
   }"

definition show_path :: "string list \<Rightarrow> ulong list \<Rightarrow> string" where
  "show_path names clks = concat (map2 (\<lambda>n c. n @ show_u32 c) names clks) @ [nl]"

definition spaced :: "u32 list \<Rightarrow> string" where
  "spaced ws = concat (map (\<lambda>w. CHR '' '' # show_s32 w) ws)"

definition show_gain_errors :: "'c ad9361 \<Rightarrow> string" where
  "show_gain_errors s =
     ''lna_error:'' @ spaced (take 4 (pd_rssi_lna_err_tbl s)) @ [nl] @
     ''mixer_error:'' @ spaced (take 16 (pd_rssi_mixer_err_tbl s)) @ [nl] @
     ''gain_step_calib_reg_val:'' @ spaced (take 5 (pd_rssi_gain_step_calib_reg_val s)) @ [nl]"

definition xo_delta :: "ulong \<Rightarrow> ulong \<Rightarrow> u64" where
  "xo_delta rate accuracy = (ucast rate * ucast accuracy) div 1000000000"

definition show_attr :: "'c env \<Rightarrow> phy_attr \<Rightarrow> 'c ad9361 \<Rightarrow> int + string" where
  "show_attr ev a s =
     (let line = (\<lambda>str. Inr (str @ [nl])); refin = bd_refin_rate (ev_board ev) s in
      case a of
        AD9361_RF_RX_BANDWIDTH \<Rightarrow> line (show_u32 (st_current_rx_bw_Hz s))
      | AD9361_RF_TX_BANDWIDTH \<Rightarrow> line (show_u32 (st_current_tx_bw_Hz s))
      | AD9361_ENSM_MODE_AVAIL \<Rightarrow>
          line (if pd_fdd s then ''sleep wait alert fdd pinctrl pinctrl_fdd_indep'' else ''sleep wait alert rx tx pinctrl'')
      | AD9361_TX_PATH_FREQ \<Rightarrow> Inr (show_path [''BBPLL:'', '' DAC:'', '' T2:'', '' T1:'', '' TF:'', '' TXSAMP:'']
          (snd (get_trx_clock_chain (ev_fw ev) s)))
      | AD9361_RX_PATH_FREQ \<Rightarrow> Inr (show_path [''BBPLL:'', '' ADC:'', '' R2:'', '' R1:'', '' RF:'', '' RXSAMP:'']
          (fst (get_trx_clock_chain (ev_fw ev) s)))
      | AD9361_TRX_RATE_GOV \<Rightarrow> line (if st_rate_governor s \<noteq> 0 then ''nominal'' else ''highest_osr'')
      | AD9361_TRX_RATE_GOV_AVAIL \<Rightarrow> line ''nominal highest_osr''
      | AD9361_FIR_RX_ENABLE \<Rightarrow> line (show_flag (\<not> st_bypass_rx_fir s))
      | AD9361_FIR_TX_ENABLE \<Rightarrow> line (show_flag (\<not> st_bypass_tx_fir s))
      | AD9361_FIR_TRX_ENABLE \<Rightarrow> line (show_flag (\<not> st_bypass_tx_fir s \<and> \<not> st_bypass_rx_fir s))
      | AD9361_CALIB_MODE_AVAIL \<Rightarrow> line ''auto manual manual_tx_quad tx_quad rf_dc_offs rssi_gain_step''
      | AD9361_CALIB_MODE \<Rightarrow>
          line (if st_manual_tx_quad_cal_en s then ''manual_tx_quad '' @ show_s32 (st_last_tx_quad_cal_phase s)
                else if st_auto_cal_en s then ''auto'' else ''manual'')
      | AD9361_RSSI_GAIN_STEP_ERROR \<Rightarrow> Inr (show_gain_errors s)
      | AD9361_BBDC_OFFS_ENABLE \<Rightarrow> line (show_flag (st_bbdc_track_en s))
      | AD9361_RFDC_OFFS_ENABLE \<Rightarrow> line (show_flag (st_rfdc_track_en s))
      | AD9361_QUAD_ENABLE \<Rightarrow> line (show_flag (st_quad_track_en s))
      | AD9361_DCXO_TUNE_COARSE \<Rightarrow> if pd_use_extclk s then Inl (- 19) else line (show_s32 (pd_dcxo_coarse s))
      | AD9361_DCXO_TUNE_FINE \<Rightarrow> if pd_use_extclk s then Inl (- 19) else line (show_s32 (pd_dcxo_fine s))
      | AD9361_DCXO_TUNE_COARSE_AVAILABLE \<Rightarrow> line (if pd_use_extclk s then ''[0 0 0]'' else ''[0 1 63]'')
      | AD9361_DCXO_TUNE_FINE_AVAILABLE \<Rightarrow> line (if pd_use_extclk s then ''[0 0 0]'' else ''[0 1 8191]'')
      | AD9361_XO_CORRECTION \<Rightarrow> line (show_u32 refin)
      | AD9361_XO_CORRECTION_AVAILABLE \<Rightarrow>
          (let delta = xo_delta refin (ev_accuracy ev s) in
           line (CHR ''['' # show_nat (unat (ucast refin - delta)) @ '' 1 '' @ show_nat (unat (ucast refin + delta)) @ '']''))
      | _ \<Rightarrow> Inl (- 22))"

definition phy_show :: "'c env \<Rightarrow> phy_attr \<Rightarrow> ('c ad9361, int + string) state" where
  "phy_show ev a =
     (if a = AD9361_ENSM_MODE then show_ensm_mode ev
      else do { s \<leftarrow> get_phy; rtn (show_attr ev a s) })"

subsection \<open>Behind the carrier clocks\<close>

text \<open>
  The work that a change of the transmit carrier schedules, waiting for it, and the handlers of the
  two changes. \<open>band\<close> is the switching of external band filters.
\<close>

definition work_func :: "'c env \<Rightarrow> ('c ad9361, int option) state" where
  "work_func ev = do {
     s \<leftarrow> get_phy;
     r \<leftarrow> do_calib_run (ev_bus ev) (ev_fw ev) (ev_isqrt ev) (ev_junk ev) TX_QUAD_CAL (sint (st_last_tx_quad_cal_phase s));
     _ \<leftarrow> upd_phy (\<lambda>s. s\<lparr>st_work_pending := False\<rparr>);
     rtn r
   }"

definition rx_rfpll_rate_change :: "'c env \<Rightarrow> (u64 \<Rightarrow> ('c ad9361, unit) state) \<Rightarrow> ulong \<Rightarrow> ('c ad9361, int option) state" where
  "rx_rfpll_rate_change ev band new_rate = do {
     r \<leftarrow> if new_rate \<noteq> 0 then load_gt (ev_bus ev) (ad9361_from_clk new_rate) (GT_RX1 + GT_RX2) else rtn (Some 0);
     _ \<leftarrow> band (ad9361_from_clk new_rate);
     rtn (if r = None then None else Some 1)
   }"

text \<open>The kernel's \<^verbatim>\<open>abs\<close> takes an unsigned 64-bit difference as a signed one.\<close>

definition tx_rfpll_rate_change :: "(u64 \<Rightarrow> ('c ad9361, unit) state) \<Rightarrow> ulong \<Rightarrow> ('c ad9361, int option) state" where
  "tx_rfpll_rate_change band new_rate = do {
     s \<leftarrow> get_phy;
     let new = ad9361_from_clk new_rate;
     _ \<leftarrow> if st_auto_cal_en s \<and> int (unat (st_cal_threshold_freq s)) < \<bar>sint (st_last_tx_quad_cal_freq s - new)\<bar>
          then upd_phy (\<lambda>s. s\<lparr>st_work_pending := True, st_last_tx_quad_cal_freq := new\<rparr>) else rtn ();
     _ \<leftarrow> band new;
     rtn (Some 1)
   }"

definition clk_mux_set_parent :: "'c bus \<Rightarrow> bool \<Rightarrow> u8 \<Rightarrow> ('c ad9361, int \<times> u8 option) state" where
  "clk_mux_set_parent bus tx index = do {
     _ \<leftarrow> ensm_force_state bus (ucast ENSM_STATE_ALERT);
     ret \<leftarrow> trx_ext_lo_control bus tx (index = 1);
     _ \<leftarrow> ensm_restore_prev_state bus;
     rtn (ret, if 0 \<le> ret then Some index else None)
   }"

end
