(* ===== verification/Ad_Chan.thy ===== *)
theory Ad_Chan
  imports Ad_Attr Ad_Fastlock
begin

unbundle bit_operations_syntax

text \<open>
  The attributes of the channels: carriers and fast lock profiles (\<^verbatim>\<open>ad9361_phy_lo_write\<close>,
  \<^verbatim>\<open>ad9361_phy_lo_read\<close>), gain control mode, port and signal strength of a signal channel, and the
  raw values (\<^verbatim>\<open>ad9361_phy_read_raw\<close>, \<^verbatim>\<open>ad9361_phy_write_raw\<close>, \<^verbatim>\<open>ad9361_phy_read_avail\<close>).
\<close>

subsection \<open>Carriers\<close>

datatype lo_ext_info = LOEXT_FREQ | LOEXT_FREQ_AVAILABLE | LOEXT_STORE | LOEXT_RECALL | LOEXT_LOAD | LOEXT_SAVE
  | LOEXT_EXTERNAL | LOEXT_PD

text \<open>The pieces \<^verbatim>\<open>strsep\<close> gives for one separator, and what is read from a piece.\<close>

fun pieces :: "char \<Rightarrow> string \<Rightarrow> string list" where
  "pieces d [] = [[]]"
| "pieces d (c # cs) = (if c = d then [] # pieces d cs
     else (case pieces d cs of [] \<Rightarrow> [[c]] | p # ps \<Rightarrow> (c # p) # ps))"

definition read_lo_line :: "string \<Rightarrow> lo_line" where
  "read_lo_line line =
     (case scan_items [Conv False, Sp, Conv False] line of
        [v] \<Rightarrow> Lo_value (word_of_int v)
      | [p, v] \<Rightarrow> Lo_profile (word_of_int p) (word_of_int v)
      | _ \<Rightarrow> Lo_other)"

text \<open>The argument of a write: a number, a switch, or the text itself.\<close>

definition lo_argument :: "lo_ext_info \<Rightarrow> string \<Rightarrow> int + u64 \<times> bool" where
  "lo_argument p buf =
     (if p \<in> {LOEXT_FREQ, LOEXT_STORE, LOEXT_RECALL, LOEXT_SAVE}
      then (case kstrtoull buf of Inl e \<Rightarrow> Inl e | Inr v \<Rightarrow> Inr (of_nat v, False))
      else if p \<in> {LOEXT_EXTERNAL, LOEXT_PD}
      then (case kstrtobool buf of Inl e \<Rightarrow> Inl e | Inr b \<Rightarrow> Inr (0, b))
      else Inr (0, False))"

definition lo_set_freq :: "'c env \<Rightarrow> nat \<Rightarrow> u64 \<Rightarrow> ('c ad9361, int option) state" where
  "lo_set_freq ev ch freq =
     (if ch = 0 then do { r \<leftarrow> clk_set_rate (ev_fw ev) RX_RFPLL (ad9361_to_clk freq); rtn (Some r) }
      else if ch = 1 then do {
        ret \<leftarrow> clk_set_rate (ev_fw ev) TX_RFPLL (ad9361_to_clk freq);
        s \<leftarrow> get_phy;
        if st_work_pending s
        then do { r \<leftarrow> work_func ev; rtn (if r = None then None else Some ret) }
        else rtn (Some ret)
      }
      else rtn (Some (- 22)))"

definition lo_set_external :: "'c env \<Rightarrow> nat \<Rightarrow> bool \<Rightarrow> ('c ad9361, int) state" where
  "lo_set_external ev ch res = do {
     s \<leftarrow> get_phy;
     if pd_dev s = ID_AD9363A then rtn (- 19)
     else if ch = 0 \<or> ch = 1
     then (if ev_ext_lo ev (ch = 1) then ev_set_parent ev (ch = 1) res else rtn (- 19))
     else rtn (- 22)
   }"

definition lo_set_powerdown :: "'c bus \<Rightarrow> nat \<Rightarrow> bool \<Rightarrow> ('c ad9361, int) state" where
  "lo_set_powerdown bus ch res =
     (let pd = (if res then LO_OFF else LO_ON) in
      if ch = 0 then synth_lo_powerdown bus pd LO_DONTCARE
      else if ch = 1 then synth_lo_powerdown bus LO_DONTCARE pd
      else rtn 0)"

definition lo_do :: "'c env \<Rightarrow> lo_ext_info \<Rightarrow> nat \<Rightarrow> string \<Rightarrow> u64 \<Rightarrow> bool \<Rightarrow> ('c ad9361, int option) state" where
  "lo_do ev p ch buf readin res =
     (let bus = ev_bus ev; some = (\<lambda>m. do { r \<leftarrow> m; rtn (Some r) }) in
      case p of
        LOEXT_FREQ \<Rightarrow> lo_set_freq ev ch readin
      | LOEXT_STORE \<Rightarrow> some (fastlock_store bus (ch = 1) (ucast readin))
      | LOEXT_RECALL \<Rightarrow> some (fastlock_recall bus (ch = 1) (ucast readin))
      | LOEXT_LOAD \<Rightarrow>
          (case lo_load bus (ch = 1) (map read_lo_line (pieces CHR '','' buf)) of
             None \<Rightarrow> rtn None
           | Some m \<Rightarrow> some m)
      | LOEXT_SAVE \<Rightarrow> do { _ \<leftarrow> upd_phy (\<lambda>s. s\<lparr>st_save_profile := ucast readin\<rparr>); rtn (Some 0) }
      | LOEXT_EXTERNAL \<Rightarrow> some (lo_set_external ev ch res)
      | LOEXT_PD \<Rightarrow> some (lo_set_powerdown bus ch res)
      | LOEXT_FREQ_AVAILABLE \<Rightarrow> rtn (Some 0))"

definition phy_lo_write :: "'c env \<Rightarrow> lo_ext_info \<Rightarrow> nat \<Rightarrow> string \<Rightarrow> ('c ad9361, int option) state" where
  "phy_lo_write ev p ch buf = do {
     s \<leftarrow> get_phy;
     if st_curr_ensm_state s = ucast ENSM_STATE_SLEEP then rtn (Some (- 22))
     else (case lo_argument p buf of
         Inl e \<Rightarrow> rtn (Some e)
       | Inr (readin, res) \<Rightarrow> do {
           r \<leftarrow> lo_do ev p ch buf readin res;
           rtn (map_option (reported buf) r)
         })
   }"

text \<open>A saved profile as text: its number, then the sixteen words.\<close>

definition show_profile :: "u8 \<Rightarrow> u8 list \<Rightarrow> string" where
  "show_profile p ws = show_nat (unat p) @ '' '' @
     concat (map (\<lambda>w. show_nat (unat w) @ [CHR '','']) (butlast ws)) @ show_nat (unat (last ws)) @ [nl]"

definition lo_freq_range :: "ad_dev \<Rightarrow> nat \<Rightarrow> u64 \<times> u64" where
  "lo_freq_range dev ch =
     (if dev = ID_AD9363A then (AD9363A_MIN_CARRIER_FREQ_HZ, AD9363A_MAX_CARRIER_FREQ_HZ)
      else (if ch \<noteq> 0 then MIN_TX_CARRIER_FREQ_HZ else MIN_RX_CARRIER_FREQ_HZ, MAX_CARRIER_FREQ_HZ))"

definition phy_lo_read :: "'c env \<Rightarrow> lo_ext_info \<Rightarrow> nat \<Rightarrow> ('c ad9361, int + string) state" where
  "phy_lo_read ev p ch = do {
     s \<leftarrow> get_phy;
     let val = (\<lambda>n. Inr (show_nat n @ [nl]));
     (case p of
        LOEXT_FREQ \<Rightarrow> rtn (val (unat (ad9361_from_clk (clk_get_rate (ev_fw ev) (if ch \<noteq> 0 then TX_RFPLL else RX_RFPLL) s))))
      | LOEXT_SAVE \<Rightarrow> do {
          ws \<leftarrow> fastlock_save (ev_bus ev) (ch = 1) (ucast (st_save_profile s)) 0 16;
          rtn (Inr (show_profile (st_save_profile s) ws))
        }
      | LOEXT_RECALL \<Rightarrow>
          (let cur = st_fl_current s (ch = 1) in rtn (if cur = 0 then Inl (- 22) else val (unat cur - 1)))
      | LOEXT_EXTERNAL \<Rightarrow> rtn (if ch = 0 \<or> ch = 1 then val (of_bool (ev_external ev (ch = 1) s)) else Inl (- 22))
      | LOEXT_PD \<Rightarrow>
          (let pd = (if ch \<noteq> 0 then st_cached_synth_pd0 s else st_cached_synth_pd1 s) in
           rtn (val (of_bool (b32 pd AND RX_LO_POWER_DOWN \<noteq> 0))))
      | LOEXT_FREQ_AVAILABLE \<Rightarrow>
          (case lo_freq_range (pd_dev s) ch of (mn, mx) \<Rightarrow>
             rtn (Inr (CHR ''['' # show_nat (unat mn) @ '' 1 '' @ show_nat (unat mx) @ '']'' @ [nl])))
      | _ \<Rightarrow> rtn (val 0))
   }"

subsection \<open>Mode, port and signal strength\<close>

definition agc_mode :: "nat \<Rightarrow> 'c ad9361 \<Rightarrow> u8" where
  "agc_mode ch s = (if ch = 0 then st_agc_mode0 s else st_agc_mode1 s)"

definition set_agc_mode :: "'c env \<Rightarrow> nat \<Rightarrow> u32 \<Rightarrow> ('c ad9361, int option) state" where
  "set_agc_mode ev ch mode = do {
     s \<leftarrow> get_phy;
     if ucast (agc_mode ch s) = mode then rtn (Some 0)
     else do {
       _ \<leftarrow> upd_phy (\<lambda>s. if ch = 0 then s\<lparr>st_agc_mode0 := ucast mode\<rparr> else s\<lparr>st_agc_mode1 := ucast mode\<rparr>);
       set_gain_ctrl_mode (ev_bus ev) (ev_fw ev)
         \<lparr>gctl_ant = word_of_int (channel_map_1rx1tx False (int ch + 1) s), gctl_mode = ucast mode\<rparr>
     }
   }"

definition set_rf_port :: "'c bus \<Rightarrow> bool \<Rightarrow> u32 \<Rightarrow> ('c ad9361, int) state" where
  "set_rf_port bus output mode = do {
     s \<leftarrow> get_phy;
     if output
     then (if pd_rf_tx_output_sel_lock s \<and> mode \<noteq> st_rf_tx_output_sel s then rtn (- 22) else set_tx_port bus mode)
     else (if pd_rf_rx_input_sel_lock s \<and> mode \<noteq> st_rf_rx_input_sel s then rtn (- 22) else set_rx_port bus mode)
   }"

definition get_rf_port :: "bool \<Rightarrow> 'c ad9361 \<Rightarrow> u32" where
  "get_rf_port output s = (if output then st_rf_tx_output_sel s else st_rf_rx_input_sel s)"

text \<open>\<^verbatim>\<open>%u.%02u dB\<close>.\<close>

definition show_db :: "u32 \<Rightarrow> u32 \<Rightarrow> string" where
  "show_db val mul =
     (let r = unat (val mod mul) in
      show_nat (unat (val div mul)) @ ''.'' @ (if r < 10 then ''0'' else []) @ show_nat r @ '' dB'' @ [nl])"

definition phy_rx_read :: "'c bus \<Rightarrow> nat \<Rightarrow> ('c ad9361, int + string) state" where
  "phy_rx_read bus ch = do {
     s \<leftarrow> get_phy;
     (ret, rssi) \<leftarrow> read_rssi bus \<lparr>rssi_ant = word_of_int (channel_map_1rx1tx False (int ch + 1) s),
        rssi_symbol = 0, rssi_preamble = 0, rssi_multiplier = 0\<rparr>;
     rtn (if ret < 0 then Inl ret else Inr (show_db (rssi_symbol rssi) (rssi_multiplier rssi)))
   }"

definition phy_rx_write :: "string \<Rightarrow> int" where
  "phy_rx_write buf = (case kstrtoull buf of Inl e \<Rightarrow> e | Inr _ \<Rightarrow> int (length buf))"

definition phy_tx_read :: "'c bus \<Rightarrow> nat \<Rightarrow> ('c ad9361, int + string) state" where
  "phy_tx_read bus ch = do {
     (ret, buf) \<leftarrow> spi_readm bus REG_TX_RSSI_LSB 3;
     let val = (if ch = 0 then push_bit 1 (b32 (buf ! 2)) OR (b32 (buf ! 0) AND TX_RSSI_1)
                else push_bit 1 (b32 (buf ! 1)) OR drop_bit 1 (b32 (buf ! 0) AND TX_RSSI_2));
     let ret = (if ch = 0 \<or> ch = 1 then ret else - 22);
     rtn (if ret < 0 then Inl ret else Inr (show_db (val * RSSI_RESOLUTION) RSSI_MULTIPLIER))
   }"

subsection \<open>Raw values\<close>

datatype chan_info = IIO_CHAN_INFO_HARDWAREGAIN | IIO_CHAN_INFO_SAMP_FREQ | IIO_CHAN_INFO_PROCESSED
  | IIO_CHAN_INFO_RAW | IIO_CHAN_INFO_OFFSET | IIO_CHAN_INFO_SCALE

text \<open>A value with the type the function returns for it.\<close>

datatype raw_val = VAL_INT int | VAL_INT_PLUS_MICRO int int | VAL_INT_PLUS_MICRO_DB int int

definition rx_gain_of :: "int \<Rightarrow> rf_rx_gain" where
  "rx_gain_of db = \<lparr>rg_ant = 0, rg_gain_db = db, rg_fgt_lmt_index = 0, rg_lmt_gain = 0, rg_lpf_gain = 0,
     rg_digital_gain = 0, rg_lna_index = 0, rg_tia_index = 0, rg_mixer_index = 0\<rparr>"

text \<open>An attenuation in mdB as a negative gain: whole dB and micro-dB, the sign on the first that is not 0.\<close>

definition atten_val :: "int \<Rightarrow> raw_val" where
  "atten_val mdb =
     (let val = - (mdb div 1000); val2 = (mdb mod 1000) * 1000 in
      VAL_INT_PLUS_MICRO_DB val (if val = 0 then - val2 else val2))"

definition read_gain :: "'c bus \<Rightarrow> bool \<Rightarrow> nat \<Rightarrow> ('c ad9361, (int + raw_val) option) state" where
  "read_gain bus output ch = do {
     s \<leftarrow> get_phy;
     let id = word_of_int (channel_map_1rx1tx output (int ch + 1) s);
     if output then do {
       ret \<leftarrow> get_tx_atten bus id;
       rtn (Some (if ret < 0 then Inl (- 22) else Inr (atten_val ret)))
     } else do {
       r \<leftarrow> get_rx_gain bus id (rx_gain_of 0);
       rtn (map_option (\<lambda>(_, g). Inr (VAL_INT_PLUS_MICRO_DB (rg_gain_db g) 0)) r)
     }
   }"

definition int_or_err :: "int \<Rightarrow> int + raw_val" where
  "int_or_err ret = (if 0 \<le> ret then Inr (VAL_INT ret) else Inl ret)"

definition phy_read_raw :: "'c env \<Rightarrow> chan_info \<Rightarrow> bool \<Rightarrow> nat \<Rightarrow> ('c ad9361, (int + raw_val) option) state" where
  "phy_read_raw ev m output ch =
     (let bus = ev_bus ev in
      case m of
        IIO_CHAN_INFO_HARDWAREGAIN \<Rightarrow> read_gain bus output ch
      | IIO_CHAN_INFO_SAMP_FREQ \<Rightarrow> do {
          s \<leftarrow> get_phy;
          rtn (Some (Inr (VAL_INT (sint (clk_get_rate (ev_fw ev) (if output then TX_SAMPL_CLK else RX_SAMPL_CLK) s)))))
        }
      | IIO_CHAN_INFO_PROCESSED \<Rightarrow> do { t \<leftarrow> get_temp bus; rtn (Some (Inr (VAL_INT t))) }
      | IIO_CHAN_INFO_RAW \<Rightarrow>
          (if output then do {
             s \<leftarrow> get_phy;
             rtn (Some (int_or_err (if ch = 2 then auxdac_get 1 s else if ch = 3 then auxdac_get 2 s else - 22)))
           } else do { v \<leftarrow> get_auxadc bus; rtn (Some (int_or_err v)) })
      | IIO_CHAN_INFO_OFFSET \<Rightarrow> rtn (Some (Inr (VAL_INT 57)))
      | IIO_CHAN_INFO_SCALE \<Rightarrow> rtn (Some (Inr (if output then VAL_INT_PLUS_MICRO 1 0 else VAL_INT_PLUS_MICRO 0 305250))))"

definition write_gain :: "'c bus \<Rightarrow> bool \<Rightarrow> nat \<Rightarrow> int \<Rightarrow> int \<Rightarrow> ('c ad9361, int) state" where
  "write_gain bus output ch val val2 = do {
     s \<leftarrow> get_phy;
     if output then
       (if 0 < val \<or> (val = 0 \<and> 0 < val2) then rtn (- 22)
        else (let code = word_of_int (\<bar>val\<bar> * 1000 + \<bar>val2\<bar> div 1000); id = channel_map_1rx1tx True (int ch) s in
          set_tx_atten bus code (id = 0) (id = 1) (\<not> pd_update_tx_gain_via_alert s)))
     else do {
       (ret, _) \<leftarrow> set_rx_gain bus (word_of_int (channel_map_1rx1tx False (int ch + 1) s)) (rx_gain_of val);
       rtn ret
     }
   }"

definition write_samp_freq :: "'c env \<Rightarrow> bool \<Rightarrow> int \<Rightarrow> ('c ad9361, int option) state" where
  "write_samp_freq ev output val = do {
     s \<leftarrow> get_phy;
     if st_rx_eq_2tx s \<and> \<not> output then rtn (Some 0)
     else do {
       ret \<leftarrow> set_trx_clock_chain_freq (ev_bus ev) (ev_fw ev) (ev_tune ev) (word_of_int val);
       case ret of
         None \<Rightarrow> rtn None
       | Some r \<Rightarrow>
           if r < 0 then rtn (Some r)
           else do {
             s \<leftarrow> get_phy;
             update_rf_bandwidth (ev_bus ev) (ev_fw ev) (ev_isqrt ev) (ev_junk ev) (st_current_rx_bw_Hz s) (st_current_tx_bw_Hz s)
           }
     }
   }"

definition phy_write_raw :: "'c env \<Rightarrow> chan_info \<Rightarrow> bool \<Rightarrow> nat \<Rightarrow> int \<Rightarrow> int \<Rightarrow> ('c ad9361, int option) state" where
  "phy_write_raw ev m output ch val val2 = do {
     s \<leftarrow> get_phy;
     if st_curr_ensm_state s = ucast ENSM_STATE_SLEEP then rtn (Some (- 22))
     else (case m of
         IIO_CHAN_INFO_HARDWAREGAIN \<Rightarrow> do { r \<leftarrow> write_gain (ev_bus ev) output ch val val2; rtn (Some r) }
       | IIO_CHAN_INFO_SAMP_FREQ \<Rightarrow> write_samp_freq ev output val
       | IIO_CHAN_INFO_RAW \<Rightarrow>
           (if output \<and> (ch = 2 \<or> ch = 3)
            then do { r \<leftarrow> auxdac_set (ev_bus ev) (of_nat ch - 1) (word_of_int val); rtn (Some r) }
            else rtn (Some (- 22)))
       | _ \<Rightarrow> rtn (Some (- 22)))
   }"

text \<open>The range of a value: first, step, last; \<open>None\<close> for a table without rows or a division by zero.\<close>

definition gain_range :: "'c ad9361 \<Rightarrow> int list option" where
  "gain_range s =
     (let g = ph_gt_info s ! gt s; n = unat (gt_max_index g) in
      if 0 < n \<and> n \<le> length (gt_abs_gain g) then Some [gt_abs_gain g ! 0, 1, gt_abs_gain g ! (n - 1)] else None)"

definition freq_range :: "bool \<Rightarrow> 'c ad9361 \<Rightarrow> int list option" where
  "freq_range output s =
     (let mx = (if uses_lvds_mode s then 61440000 else 61440000 div (if pd_rx2tx2 s then 2 else 1)) :: int;
          int_dec = (if output then if st_bypass_tx_fir s then 1 else uint (st_tx_fir_int s)
                     else if st_bypass_rx_fir s then 1 else uint (st_rx_fir_dec s));
          hb1 = uint (if output then MAX_TX_HB1 else MAX_RX_HB1);
          mx = (if int_dec = 4 then hb1 div 4 else mx)
      in if int_dec = 0 then None else Some [uint MIN_ADC_CLK div (12 * int_dec), 1, mx])"

definition phy_read_avail :: "chan_info \<Rightarrow> bool \<Rightarrow> 'c ad9361 \<Rightarrow> (int + int list) option" where
  "phy_read_avail m output s =
     (case m of
        IIO_CHAN_INFO_HARDWAREGAIN \<Rightarrow>
          (if output then Some (Inr [89, - 750000, 0, 250000, 0, 0]) else map_option Inr (gain_range s))
      | IIO_CHAN_INFO_SAMP_FREQ \<Rightarrow> map_option Inr (freq_range output s)
      | _ \<Rightarrow> Some (Inl (- 22)))"

definition phy_reg_access :: "'c bus \<Rightarrow> u32 \<Rightarrow> u32 option \<Rightarrow> ('c ad9361, int \<times> u32 option) state" where
  "phy_reg_access bus reg writeval =
     (case writeval of
        Some v \<Rightarrow> do { r \<leftarrow> spi_write bus reg v; rtn (r, None) }
      | None \<Rightarrow> do { v \<leftarrow> spi_read bus reg; rtn (0, Some (word_of_int v)) })"

end
