(* ===== verification/Ad_Dt.thy ===== *)
theory Ad_Dt
  imports Ad_Chan Ad_Dig
begin

unbundle bit_operations_syntax

text \<open>
  The device tree: \<^verbatim>\<open>ad9361_phy_parse_dt\<close> fills the platform data from the properties of the
  device's node, and leaves a debugfs file for most of them. A node maps the name of a property
  to its 32-bit cells.
\<close>

type_synonym dt_node = "string \<Rightarrow> u32 list option"

definition of_bool_at :: "dt_node \<Rightarrow> string \<Rightarrow> bool" where
  "of_bool_at node name \<longleftrightarrow> node name \<noteq> None"

definition of_array :: "dt_node \<Rightarrow> string \<Rightarrow> nat \<Rightarrow> u32 list option" where
  "of_array node name n =
     (case node name of None \<Rightarrow> None | Some cs \<Rightarrow> if n \<le> length cs then Some (take n cs) else None)"

definition of_u32 :: "dt_node \<Rightarrow> string \<Rightarrow> u32 \<Rightarrow> u32" where
  "of_u32 node name d = (case of_array node name 1 of Some [v] \<Rightarrow> v | _ \<Rightarrow> d)"

definition of_u64 :: "dt_node \<Rightarrow> string \<Rightarrow> u64 \<Rightarrow> u64" where
  "of_u64 node name d = (case of_array node name 2 of Some [hi, lo] \<Rightarrow> push_bit 32 (ucast hi) OR ucast lo | _ \<Rightarrow> d)"

subsection \<open>Fields\<close>

text \<open>
  A property with its default, the size of the variable it is stored in (5 for a \<^verbatim>\<open>bool\<close>), and
  how the variable is read and written. A write is \<open>None\<close> for a number outside an enumeration,
  which C would store.
\<close>

record 'c dt_field =
  df_name :: string
  df_default :: u32
  df_size :: nat
  df_get :: "'c ad9361 \<Rightarrow> u32"
  df_put :: "u32 \<Rightarrow> 'c ad9361 \<Rightarrow> 'c ad9361 option"

definition u32_field :: "string \<Rightarrow> u32 \<Rightarrow> ('c ad9361 \<Rightarrow> u32) \<Rightarrow> ((u32 \<Rightarrow> u32) \<Rightarrow> 'c ad9361 \<Rightarrow> 'c ad9361) \<Rightarrow> 'c dt_field" where
  "u32_field n d g u = \<lparr>df_name = n, df_default = d, df_size = 4, df_get = g, df_put = (\<lambda>v s. Some (u (\<lambda>_. v) s))\<rparr>"

definition int_field :: "string \<Rightarrow> u32 \<Rightarrow> ('c ad9361 \<Rightarrow> int) \<Rightarrow> ((int \<Rightarrow> int) \<Rightarrow> 'c ad9361 \<Rightarrow> 'c ad9361) \<Rightarrow> 'c dt_field" where
  "int_field n d g u = \<lparr>df_name = n, df_default = d, df_size = 4, df_get = (\<lambda>s. word_of_int (g s)),
     df_put = (\<lambda>v s. Some (u (\<lambda>_. sint v) s))\<rparr>"

definition u16_field :: "string \<Rightarrow> u32 \<Rightarrow> ('c ad9361 \<Rightarrow> u16) \<Rightarrow> ((u16 \<Rightarrow> u16) \<Rightarrow> 'c ad9361 \<Rightarrow> 'c ad9361) \<Rightarrow> 'c dt_field" where
  "u16_field n d g u = \<lparr>df_name = n, df_default = d, df_size = 2, df_get = (\<lambda>s. ucast (g s)),
     df_put = (\<lambda>v s. Some (u (\<lambda>_. ucast v) s))\<rparr>"

definition u8_field :: "string \<Rightarrow> u32 \<Rightarrow> ('c ad9361 \<Rightarrow> u8) \<Rightarrow> ((u8 \<Rightarrow> u8) \<Rightarrow> 'c ad9361 \<Rightarrow> 'c ad9361) \<Rightarrow> 'c dt_field" where
  "u8_field n d g u = \<lparr>df_name = n, df_default = d, df_size = 1, df_get = (\<lambda>s. ucast (g s)),
     df_put = (\<lambda>v s. Some (u (\<lambda>_. ucast v) s))\<rparr>"

definition bool_field :: "string \<Rightarrow> ('c ad9361 \<Rightarrow> bool) \<Rightarrow> ((bool \<Rightarrow> bool) \<Rightarrow> 'c ad9361 \<Rightarrow> 'c ad9361) \<Rightarrow> 'c dt_field" where
  "bool_field n g u = \<lparr>df_name = n, df_default = 0, df_size = 5, df_get = (\<lambda>s. of_bool (g s)),
     df_put = (\<lambda>v s. Some (u (\<lambda>_. v \<noteq> 0) s))\<rparr>"

fun index_in :: "'a list \<Rightarrow> 'a \<Rightarrow> nat" where
  "index_in [] x = 0"
| "index_in (y # ys) x = (if x = y then 0 else Suc (index_in ys x))"

definition enum_field :: "'a list \<Rightarrow> string \<Rightarrow> u32 \<Rightarrow> ('c ad9361 \<Rightarrow> 'a) \<Rightarrow> (('a \<Rightarrow> 'a) \<Rightarrow> 'c ad9361 \<Rightarrow> 'c ad9361) \<Rightarrow> 'c dt_field" where
  "enum_field xs n d g u = \<lparr>df_name = n, df_default = d, df_size = 4, df_get = (\<lambda>s. of_nat (index_in xs (g s))),
     df_put = (\<lambda>v s. if unat v < length xs then Some (u (\<lambda>_. xs ! unat v) s) else None)\<rparr>"

definition gain_index_types :: "f_agc_target_gain_index_type list" where
  "gain_index_types = [MAX_GAIN, SET_GAIN, OPTIMIZED_GAIN, NO_GAIN_CHANGE]"

definition rssi_modes :: "rssi_restart_mode list" where
  "rssi_modes = [AGC_IN_FAST_ATTACK_MODE_LOCKS_THE_GAIN, EN_AGC_PIN_IS_PULLED_HIGH, ENTERS_RX_MODE, GAIN_CHANGE_OCCURS,
     SPI_WRITE_TO_REGISTER, GAIN_CHANGE_OCCURS_OR_EN_AGC_PIN_PULLED_HIGH]"

definition clkouts :: "ad9361_clkout list" where
  "clkouts = [CLKOUT_DISABLE, BUFFERED_XTALN_DCXO, ADC_CLK_DIV_2, ADC_CLK_DIV_3, ADC_CLK_DIV_4, ADC_CLK_DIV_8, ADC_CLK_DIV_16]"

text \<open>The fields in the order they are read.\<close>

definition dt_modes :: "'c dt_field list" where
  "dt_modes =
     [bool_field ''adi,frequency-division-duplex-mode-enable'' pd_fdd pd_fdd_update,
      bool_field ''adi,frequency-division-duplex-independent-mode-enable'' pd_fdd_independent_mode
          pd_fdd_independent_mode_update,
      bool_field ''adi,ensm-enable-pin-pulse-mode-enable'' pd_ensm_pin_pulse_mode pd_ensm_pin_pulse_mode_update,
      bool_field ''adi,ensm-enable-txnrx-control-enable'' pd_ensm_pin_ctrl pd_ensm_pin_ctrl_update,
      bool_field ''adi,debug-mode-enable'' pd_debug_mode pd_debug_mode_update,
      bool_field ''adi,tdd-use-dual-synth-mode-enable'' pd_tdd_use_dual_synth pd_tdd_use_dual_synth_update,
      bool_field ''adi,tdd-skip-vco-cal-enable'' pd_tdd_skip_vco_cal pd_tdd_skip_vco_cal_update,
      u32_field ''adi,tx-fastlock-delay-ns'' 0 pd_rx_fastlock_delay_ns pd_rx_fastlock_delay_ns_update,
      u32_field ''adi,rx-fastlock-delay-ns'' 0 pd_tx_fastlock_delay_ns pd_tx_fastlock_delay_ns_update,
      bool_field ''adi,rx-fastlock-pincontrol-enable'' (\<lambda>s. pd_trx_fastlock_pinctrl_en s False)
          (\<lambda>f. pd_trx_fastlock_pinctrl_en_update (\<lambda>g. g(False := f (g False)))),
      bool_field ''adi,tx-fastlock-pincontrol-enable'' (\<lambda>s. pd_trx_fastlock_pinctrl_en s True)
          (\<lambda>f. pd_trx_fastlock_pinctrl_en_update (\<lambda>g. g(True := f (g True))))]"

definition dt_channels :: "'c dt_field list" where
  "dt_channels =
     [u8_field ''adi,digital-interface-tune-skip-mode'' 0 pd_dig_interface_tune_skipmode
         pd_dig_interface_tune_skipmode_update,
      bool_field ''adi,digital-interface-tune-fir-disable'' pd_dig_interface_tune_fir_disable
          pd_dig_interface_tune_fir_disable_update,
      bool_field ''adi,2rx-2tx-mode-enable'' pd_rx2tx2 pd_rx2tx2_update,
      u32_field ''adi,1rx-1tx-mode-use-rx-num'' 1 pd_rx1tx1_mode_use_rx_num pd_rx1tx1_mode_use_rx_num_update,
      u32_field ''adi,1rx-1tx-mode-use-tx-num'' 1 pd_rx1tx1_mode_use_tx_num pd_rx1tx1_mode_use_tx_num_update,
      bool_field ''adi,split-gain-table-mode-enable'' pd_split_gt pd_split_gt_update,
      u32_field ''adi,rx-rf-port-input-select'' 0 st_rf_rx_input_sel st_rf_rx_input_sel_update,
      u32_field ''adi,tx-rf-port-input-select'' 0 st_rf_tx_output_sel st_rf_tx_output_sel_update,
      bool_field ''adi,rx-rf-port-input-select-lock-enable'' pd_rf_rx_input_sel_lock pd_rf_rx_input_sel_lock_update,
      bool_field ''adi,tx-rf-port-input-select-lock-enable'' pd_rf_tx_output_sel_lock pd_rf_tx_output_sel_lock_update,
      bool_field ''adi,rx1-rx2-phase-inversion-enable'' pd_rx1rx2_phase_inversion_en
          pd_rx1rx2_phase_inversion_en_update,
      u32_field ''adi,trx-synthesizer-target-fref-overwrite-hz'' MAX_SYNTH_FREF pd_trx_synth_max_fref
          pd_trx_synth_max_fref_update,
      bool_field ''adi,tx-lo-powerdown-managed-enable'' pd_lo_powerdown_managed_en pd_lo_powerdown_managed_en_update]"

definition dt_clocks :: "'c dt_field list" where
  "dt_clocks =
     [bool_field ''adi,xo-disable-use-ext-refclk-enable'' pd_use_extclk pd_use_extclk_update,
      bool_field ''adi,external-tx-lo-enable'' pd_use_ext_tx_lo pd_use_ext_tx_lo_update,
      bool_field ''adi,external-rx-lo-enable'' pd_use_ext_rx_lo pd_use_ext_rx_lo_update]"

definition dt_offsets :: "'c dt_field list" where
  "dt_offsets =
     [enum_field clkouts ''adi,clk-output-mode-select'' 0 pd_ad9361_clkout_mode pd_ad9361_clkout_mode_update,
      u8_field ''adi,dc-offset-tracking-update-event-mask'' 5 pd_dc_offset_update_events
          pd_dc_offset_update_events_update,
      u8_field ''adi,dc-offset-attenuation-high-range'' 6 pd_dc_offset_attenuation_high
          pd_dc_offset_attenuation_high_update,
      u8_field ''adi,dc-offset-attenuation-low-range'' 5 pd_dc_offset_attenuation_low
          pd_dc_offset_attenuation_low_update,
      u8_field ''adi,dc-offset-count-high-range'' 0x28 pd_rf_dc_offset_count_high pd_rf_dc_offset_count_high_update,
      u8_field ''adi,dc-offset-count-low-range'' 0x32 pd_rf_dc_offset_count_low pd_rf_dc_offset_count_low_update,
      bool_field ''adi,qec-tracking-slow-mode-enable'' pd_qec_tracking_slow_mode_en
          pd_qec_tracking_slow_mode_en_update]"

definition dt_levels :: "'c dt_field list" where
  "dt_levels =
     [u32_field ''adi,rf-rx-bandwidth-hz'' 18000000 pd_rf_rx_bandwidth_Hz pd_rf_rx_bandwidth_Hz_update,
      u32_field ''adi,rf-tx-bandwidth-hz'' 18000000 pd_rf_tx_bandwidth_Hz pd_rf_tx_bandwidth_Hz_update,
      int_field ''adi,tx-attenuation-mdB'' 10000 pd_tx_atten pd_tx_atten_update,
      bool_field ''adi,update-tx-gain-in-alert-enable'' pd_update_tx_gain_via_alert
          pd_update_tx_gain_via_alert_update]"

definition dt_gain :: "'c dt_field list" where
  "dt_gain =
     [u8_field ''adi,gc-rx1-mode'' 0 (\<lambda>s. gc_rx1_mode (pd_gain_ctrl s)) (\<lambda>f. pd_gain_ctrl_update
         (gc_rx1_mode_update f)),
      u8_field ''adi,gc-rx2-mode'' 0 (\<lambda>s. gc_rx2_mode (pd_gain_ctrl s)) (\<lambda>f. pd_gain_ctrl_update
          (gc_rx2_mode_update f)),
      u8_field ''adi,gc-adc-ovr-sample-size'' 4 (\<lambda>s. gc_adc_ovr_sample_size (pd_gain_ctrl s))
          (\<lambda>f. pd_gain_ctrl_update (gc_adc_ovr_sample_size_update f)),
      u8_field ''adi,gc-adc-small-overload-thresh'' 47 (\<lambda>s. gc_adc_small_overload_thresh (pd_gain_ctrl
          s)) (\<lambda>f. pd_gain_ctrl_update (gc_adc_small_overload_thresh_update f)),
      u8_field ''adi,gc-adc-large-overload-thresh'' 58 (\<lambda>s. gc_adc_large_overload_thresh (pd_gain_ctrl
          s)) (\<lambda>f. pd_gain_ctrl_update (gc_adc_large_overload_thresh_update f)),
      u16_field ''adi,gc-lmt-overload-high-thresh'' 800 (\<lambda>s. gc_lmt_overload_high_thresh (pd_gain_ctrl
          s)) (\<lambda>f. pd_gain_ctrl_update (gc_lmt_overload_high_thresh_update f)),
      u16_field ''adi,gc-lmt-overload-low-thresh'' 704 (\<lambda>s. gc_lmt_overload_low_thresh (pd_gain_ctrl s))
          (\<lambda>f. pd_gain_ctrl_update (gc_lmt_overload_low_thresh_update f)),
      u16_field ''adi,gc-dec-pow-measurement-duration'' 8192 (\<lambda>s. gc_dec_pow_measuremnt_duration
          (pd_gain_ctrl s)) (\<lambda>f. pd_gain_ctrl_update (gc_dec_pow_measuremnt_duration_update f)),
      u8_field ''adi,gc-low-power-thresh'' 24 (\<lambda>s. gc_low_power_thresh (pd_gain_ctrl s)) (\<lambda>f.
          pd_gain_ctrl_update (gc_low_power_thresh_update f)),
      bool_field ''adi,gc-dig-gain-enable'' (\<lambda>s. gc_dig_gain_en (pd_gain_ctrl s)) (\<lambda>f.
          pd_gain_ctrl_update (gc_dig_gain_en_update f)),
      u8_field ''adi,gc-max-dig-gain'' 15 (\<lambda>s. gc_max_dig_gain (pd_gain_ctrl s)) (\<lambda>f.
          pd_gain_ctrl_update (gc_max_dig_gain_update f)),
      bool_field ''adi,gc-use-rx-fir-out-for-dec-pwr-meas-enable'' (\<lambda>s.
          gc_use_rx_fir_out_for_dec_pwr_meas (pd_gain_ctrl s)) (\<lambda>f. pd_gain_ctrl_update
          (gc_use_rx_fir_out_for_dec_pwr_meas_update f)),
      bool_field ''adi,mgc-rx1-ctrl-inp-enable'' (\<lambda>s. gc_mgc_rx1_ctrl_inp_en (pd_gain_ctrl s))
          (\<lambda>f. pd_gain_ctrl_update (gc_mgc_rx1_ctrl_inp_en_update f)),
      bool_field ''adi,mgc-rx2-ctrl-inp-enable'' (\<lambda>s. gc_mgc_rx2_ctrl_inp_en (pd_gain_ctrl s))
          (\<lambda>f. pd_gain_ctrl_update (gc_mgc_rx2_ctrl_inp_en_update f)),
      u8_field ''adi,mgc-inc-gain-step'' 2 (\<lambda>s. gc_mgc_inc_gain_step (pd_gain_ctrl s)) (\<lambda>f.
          pd_gain_ctrl_update (gc_mgc_inc_gain_step_update f)),
      u8_field ''adi,mgc-dec-gain-step'' 2 (\<lambda>s. gc_mgc_dec_gain_step (pd_gain_ctrl s)) (\<lambda>f.
          pd_gain_ctrl_update (gc_mgc_dec_gain_step_update f)),
      u8_field ''adi,mgc-split-table-ctrl-inp-gain-mode'' 0 (\<lambda>s. gc_mgc_split_table_ctrl_inp_gain_mode
          (pd_gain_ctrl s)) (\<lambda>f. pd_gain_ctrl_update (gc_mgc_split_table_ctrl_inp_gain_mode_update f)),
      u8_field ''adi,agc-attack-delay-extra-margin-us'' 1 (\<lambda>s. gc_agc_attack_delay_extra_margin_us
          (pd_gain_ctrl s)) (\<lambda>f. pd_gain_ctrl_update (gc_agc_attack_delay_extra_margin_us_update f)),
      u8_field ''adi,agc-outer-thresh-high'' 5 (\<lambda>s. gc_agc_outer_thresh_high (pd_gain_ctrl s))
          (\<lambda>f. pd_gain_ctrl_update (gc_agc_outer_thresh_high_update f)),
      u8_field ''adi,agc-outer-thresh-high-dec-steps'' 2 (\<lambda>s. gc_agc_outer_thresh_high_dec_steps
          (pd_gain_ctrl s)) (\<lambda>f. pd_gain_ctrl_update (gc_agc_outer_thresh_high_dec_steps_update f)),
      u8_field ''adi,agc-inner-thresh-high'' 10 (\<lambda>s. gc_agc_inner_thresh_high (pd_gain_ctrl s))
          (\<lambda>f. pd_gain_ctrl_update (gc_agc_inner_thresh_high_update f)),
      u8_field ''adi,agc-inner-thresh-high-dec-steps'' 1 (\<lambda>s. gc_agc_inner_thresh_high_dec_steps
          (pd_gain_ctrl s)) (\<lambda>f. pd_gain_ctrl_update (gc_agc_inner_thresh_high_dec_steps_update f)),
      u8_field ''adi,agc-inner-thresh-low'' 12 (\<lambda>s. gc_agc_inner_thresh_low (pd_gain_ctrl s))
          (\<lambda>f. pd_gain_ctrl_update (gc_agc_inner_thresh_low_update f)),
      u8_field ''adi,agc-inner-thresh-low-inc-steps'' 1 (\<lambda>s. gc_agc_inner_thresh_low_inc_steps
          (pd_gain_ctrl s)) (\<lambda>f. pd_gain_ctrl_update (gc_agc_inner_thresh_low_inc_steps_update f)),
      u8_field ''adi,agc-outer-thresh-low'' 18 (\<lambda>s. gc_agc_outer_thresh_low (pd_gain_ctrl s))
          (\<lambda>f. pd_gain_ctrl_update (gc_agc_outer_thresh_low_update f))]"

definition dt_agc :: "'c dt_field list" where
  "dt_agc =
     [u8_field ''adi,agc-outer-thresh-low-inc-steps'' 2 (\<lambda>s. gc_agc_outer_thresh_low_inc_steps
         (pd_gain_ctrl s)) (\<lambda>f. pd_gain_ctrl_update (gc_agc_outer_thresh_low_inc_steps_update f)),
      bool_field ''adi,agc-dig-sat-ovrg-enable'' (\<lambda>s. gc_agc_dig_sat_ovrg_en (pd_gain_ctrl s))
          (\<lambda>f. pd_gain_ctrl_update (gc_agc_dig_sat_ovrg_en_update f)),
      u8_field ''adi,agc-adc-small-overload-exceed-counter'' 10 (\<lambda>s.
          gc_adc_small_overload_exceed_counter (pd_gain_ctrl s)) (\<lambda>f. pd_gain_ctrl_update
          (gc_adc_small_overload_exceed_counter_update f)),
      u8_field ''adi,agc-adc-large-overload-exceed-counter'' 10 (\<lambda>s.
          gc_adc_large_overload_exceed_counter (pd_gain_ctrl s)) (\<lambda>f. pd_gain_ctrl_update
          (gc_adc_large_overload_exceed_counter_update f)),
      u8_field ''adi,agc-adc-large-overload-inc-steps'' 2 (\<lambda>s. gc_adc_large_overload_inc_steps
          (pd_gain_ctrl s)) (\<lambda>f. pd_gain_ctrl_update (gc_adc_large_overload_inc_steps_update f)),
      bool_field ''adi,agc-adc-lmt-small-overload-prevent-gain-inc-enable'' (\<lambda>s.
          gc_adc_lmt_small_overload_prevent_gain_inc (pd_gain_ctrl s)) (\<lambda>f. pd_gain_ctrl_update
          (gc_adc_lmt_small_overload_prevent_gain_inc_update f)),
      u8_field ''adi,agc-lmt-overload-large-exceed-counter'' 10 (\<lambda>s.
          gc_lmt_overload_large_exceed_counter (pd_gain_ctrl s)) (\<lambda>f. pd_gain_ctrl_update
          (gc_lmt_overload_large_exceed_counter_update f)),
      u8_field ''adi,agc-lmt-overload-small-exceed-counter'' 10 (\<lambda>s.
          gc_lmt_overload_small_exceed_counter (pd_gain_ctrl s)) (\<lambda>f. pd_gain_ctrl_update
          (gc_lmt_overload_small_exceed_counter_update f)),
      u8_field ''adi,agc-lmt-overload-large-inc-steps'' 2 (\<lambda>s. gc_lmt_overload_large_inc_steps
          (pd_gain_ctrl s)) (\<lambda>f. pd_gain_ctrl_update (gc_lmt_overload_large_inc_steps_update f)),
      u8_field ''adi,agc-dig-saturation-exceed-counter'' 3 (\<lambda>s. gc_dig_saturation_exceed_counter
          (pd_gain_ctrl s)) (\<lambda>f. pd_gain_ctrl_update (gc_dig_saturation_exceed_counter_update f)),
      u8_field ''adi,agc-dig-gain-step-size'' 4 (\<lambda>s. gc_dig_gain_step_size (pd_gain_ctrl s))
          (\<lambda>f. pd_gain_ctrl_update (gc_dig_gain_step_size_update f)),
      bool_field ''adi,agc-sync-for-gain-counter-enable'' (\<lambda>s. gc_sync_for_gain_counter_en (pd_gain_ctrl
          s)) (\<lambda>f. pd_gain_ctrl_update (gc_sync_for_gain_counter_en_update f)),
      u32_field ''adi,agc-gain-update-interval-us'' 1000 (\<lambda>s. gc_gain_update_interval_us (pd_gain_ctrl
          s)) (\<lambda>f. pd_gain_ctrl_update (gc_gain_update_interval_us_update f)),
      bool_field ''adi,agc-immed-gain-change-if-large-adc-overload-enable'' (\<lambda>s.
          gc_immed_gain_change_if_large_adc_overload (pd_gain_ctrl s)) (\<lambda>f. pd_gain_ctrl_update
          (gc_immed_gain_change_if_large_adc_overload_update f)),
      bool_field ''adi,agc-immed-gain-change-if-large-lmt-overload-enable'' (\<lambda>s.
          gc_immed_gain_change_if_large_lmt_overload (pd_gain_ctrl s)) (\<lambda>f. pd_gain_ctrl_update
          (gc_immed_gain_change_if_large_lmt_overload_update f))]"

definition dt_fast_agc :: "'c dt_field list" where
  "dt_fast_agc =
     [u32_field ''adi,fagc-dec-pow-measurement-duration'' 64 (\<lambda>s. gc_f_agc_dec_pow_measuremnt_duration
         (pd_gain_ctrl s)) (\<lambda>f. pd_gain_ctrl_update (gc_f_agc_dec_pow_measuremnt_duration_update f)),
      u32_field ''adi,fagc-state-wait-time-ns'' 260 (\<lambda>s. gc_f_agc_state_wait_time_ns (pd_gain_ctrl s))
          (\<lambda>f. pd_gain_ctrl_update (gc_f_agc_state_wait_time_ns_update f)),
      bool_field ''adi,fagc-allow-agc-gain-increase-enable'' (\<lambda>s. gc_f_agc_allow_agc_gain_increase
          (pd_gain_ctrl s)) (\<lambda>f. pd_gain_ctrl_update (gc_f_agc_allow_agc_gain_increase_update f)),
      u8_field ''adi,fagc-lp-thresh-increment-time'' 5 (\<lambda>s. gc_f_agc_lp_thresh_increment_time
          (pd_gain_ctrl s)) (\<lambda>f. pd_gain_ctrl_update (gc_f_agc_lp_thresh_increment_time_update f)),
      u8_field ''adi,fagc-lp-thresh-increment-steps'' 1 (\<lambda>s. gc_f_agc_lp_thresh_increment_steps
          (pd_gain_ctrl s)) (\<lambda>f. pd_gain_ctrl_update (gc_f_agc_lp_thresh_increment_steps_update f)),
      bool_field ''adi,fagc-lock-level-lmt-gain-increase-enable'' (\<lambda>s.
          gc_f_agc_lock_level_lmt_gain_increase_en (pd_gain_ctrl s)) (\<lambda>f. pd_gain_ctrl_update
          (gc_f_agc_lock_level_lmt_gain_increase_en_update f)),
      u8_field ''adi,fagc-lock-level-gain-increase-upper-limit'' 5 (\<lambda>s.
          gc_f_agc_lock_level_gain_increase_upper_limit (pd_gain_ctrl s)) (\<lambda>f. pd_gain_ctrl_update
          (gc_f_agc_lock_level_gain_increase_upper_limit_update f)),
      u8_field ''adi,fagc-lpf-final-settling-steps'' 1 (\<lambda>s. gc_f_agc_lpf_final_settling_steps
          (pd_gain_ctrl s)) (\<lambda>f. pd_gain_ctrl_update (gc_f_agc_lpf_final_settling_steps_update f)),
      u8_field ''adi,fagc-lmt-final-settling-steps'' 1 (\<lambda>s. gc_f_agc_lmt_final_settling_steps
          (pd_gain_ctrl s)) (\<lambda>f. pd_gain_ctrl_update (gc_f_agc_lmt_final_settling_steps_update f)),
      u8_field ''adi,fagc-final-overrange-count'' 3 (\<lambda>s. gc_f_agc_final_overrange_count (pd_gain_ctrl
          s)) (\<lambda>f. pd_gain_ctrl_update (gc_f_agc_final_overrange_count_update f)),
      bool_field ''adi,fagc-gain-increase-after-gain-lock-enable'' (\<lambda>s.
          gc_f_agc_gain_increase_after_gain_lock_en (pd_gain_ctrl s)) (\<lambda>f. pd_gain_ctrl_update
          (gc_f_agc_gain_increase_after_gain_lock_en_update f)),
      enum_field gain_index_types ''adi,fagc-gain-index-type-after-exit-rx-mode'' 0 (\<lambda>s.
          gc_f_agc_gain_index_type_after_exit_rx_mode (pd_gain_ctrl s)) (\<lambda>f. pd_gain_ctrl_update
          (gc_f_agc_gain_index_type_after_exit_rx_mode_update f))]"

definition dt_fast_unlock :: "'c dt_field list" where
  "dt_fast_unlock =
     [bool_field ''adi,fagc-use-last-lock-level-for-set-gain-enable'' (\<lambda>s.
         gc_f_agc_use_last_lock_level_for_set_gain_en (pd_gain_ctrl s)) (\<lambda>f. pd_gain_ctrl_update
         (gc_f_agc_use_last_lock_level_for_set_gain_en_update f)),
      bool_field ''adi,fagc-rst-gla-stronger-sig-thresh-exceeded-enable'' (\<lambda>s.
          gc_f_agc_rst_gla_stronger_sig_thresh_exceeded_en (pd_gain_ctrl s)) (\<lambda>f. pd_gain_ctrl_update
          (gc_f_agc_rst_gla_stronger_sig_thresh_exceeded_en_update f)),
      u8_field ''adi,fagc-optimized-gain-offset'' 5 (\<lambda>s. gc_f_agc_optimized_gain_offset (pd_gain_ctrl
          s)) (\<lambda>f. pd_gain_ctrl_update (gc_f_agc_optimized_gain_offset_update f)),
      u8_field ''adi,fagc-rst-gla-stronger-sig-thresh-above-ll'' 10 (\<lambda>s.
          gc_f_agc_rst_gla_stronger_sig_thresh_above_ll (pd_gain_ctrl s)) (\<lambda>f. pd_gain_ctrl_update
          (gc_f_agc_rst_gla_stronger_sig_thresh_above_ll_update f)),
      bool_field ''adi,fagc-rst-gla-engergy-lost-sig-thresh-exceeded-enable'' (\<lambda>s.
          gc_f_agc_rst_gla_engergy_lost_sig_thresh_exceeded_en (pd_gain_ctrl s)) (\<lambda>f.
          pd_gain_ctrl_update (gc_f_agc_rst_gla_engergy_lost_sig_thresh_exceeded_en_update f)),
      bool_field ''adi,fagc-rst-gla-engergy-lost-goto-optim-gain-enable'' (\<lambda>s.
          gc_f_agc_rst_gla_engergy_lost_goto_optim_gain_en (pd_gain_ctrl s)) (\<lambda>f. pd_gain_ctrl_update
          (gc_f_agc_rst_gla_engergy_lost_goto_optim_gain_en_update f)),
      u8_field ''adi,fagc-rst-gla-engergy-lost-sig-thresh-below-ll'' 10 (\<lambda>s.
          gc_f_agc_rst_gla_engergy_lost_sig_thresh_below_ll (pd_gain_ctrl s)) (\<lambda>f. pd_gain_ctrl_update
          (gc_f_agc_rst_gla_engergy_lost_sig_thresh_below_ll_update f)),
      u8_field ''adi,fagc-energy-lost-stronger-sig-gain-lock-exit-cnt'' 8 (\<lambda>s.
          gc_f_agc_energy_lost_stronger_sig_gain_lock_exit_cnt (pd_gain_ctrl s)) (\<lambda>f.
          pd_gain_ctrl_update (gc_f_agc_energy_lost_stronger_sig_gain_lock_exit_cnt_update f)),
      bool_field ''adi,fagc-rst-gla-large-adc-overload-enable'' (\<lambda>s.
          gc_f_agc_rst_gla_large_adc_overload_en (pd_gain_ctrl s)) (\<lambda>f. pd_gain_ctrl_update
          (gc_f_agc_rst_gla_large_adc_overload_en_update f)),
      bool_field ''adi,fagc-rst-gla-large-lmt-overload-enable'' (\<lambda>s.
          gc_f_agc_rst_gla_large_lmt_overload_en (pd_gain_ctrl s)) (\<lambda>f. pd_gain_ctrl_update
          (gc_f_agc_rst_gla_large_lmt_overload_en_update f)),
      bool_field ''adi,fagc-rst-gla-en-agc-pulled-high-enable'' (\<lambda>s.
          gc_f_agc_rst_gla_en_agc_pulled_high_en (pd_gain_ctrl s)) (\<lambda>f. pd_gain_ctrl_update
          (gc_f_agc_rst_gla_en_agc_pulled_high_en_update f)),
      enum_field gain_index_types ''adi,fagc-rst-gla-if-en-agc-pulled-high-mode'' 0 (\<lambda>s.
          gc_f_agc_rst_gla_if_en_agc_pulled_high_mode (pd_gain_ctrl s)) (\<lambda>f. pd_gain_ctrl_update
          (gc_f_agc_rst_gla_if_en_agc_pulled_high_mode_update f)),
      u8_field ''adi,fagc-power-measurement-duration-in-state5'' 64 (\<lambda>s.
          gc_f_agc_power_measurement_duration_in_state5 (pd_gain_ctrl s)) (\<lambda>f. pd_gain_ctrl_update
          (gc_f_agc_power_measurement_duration_in_state5_update f)),
      u8_field ''adi,fagc-adc-large-overload-inc-steps'' 2 (\<lambda>s. gc_f_agc_large_overload_inc_steps
          (pd_gain_ctrl s)) (\<lambda>f. pd_gain_ctrl_update (gc_f_agc_large_overload_inc_steps_update f))]"

definition dt_rssi :: "'c dt_field list" where
  "dt_rssi =
     [enum_field rssi_modes ''adi,rssi-restart-mode'' 3 (\<lambda>s. rc_restart_mode (pd_rssi_ctrl s))
         (\<lambda>f. pd_rssi_ctrl_update (rc_restart_mode_update f)),
      bool_field ''adi,rssi-unit-is-rx-samples-enable'' (\<lambda>s. rc_rssi_unit_is_rx_samples (pd_rssi_ctrl
          s)) (\<lambda>f. pd_rssi_ctrl_update (rc_rssi_unit_is_rx_samples_update f)),
      u32_field ''adi,rssi-delay'' 1 (\<lambda>s. rc_rssi_delay (pd_rssi_ctrl s)) (\<lambda>f.
          pd_rssi_ctrl_update (rc_rssi_delay_update f)),
      u32_field ''adi,rssi-wait'' 1 (\<lambda>s. rc_rssi_wait (pd_rssi_ctrl s)) (\<lambda>f. pd_rssi_ctrl_update
          (rc_rssi_wait_update f)),
      u32_field ''adi,rssi-duration'' 1000 (\<lambda>s. rc_rssi_duration (pd_rssi_ctrl s)) (\<lambda>f.
          pd_rssi_ctrl_update (rc_rssi_duration_update f))]"

definition dt_aux :: "'c dt_field list" where
  "dt_aux =
     [u8_field ''adi,ctrl-outs-index'' 0 (\<lambda>s. co_index (pd_ctrl_outs_ctrl s)) (\<lambda>f.
         pd_ctrl_outs_ctrl_update (co_index_update f)),
      u8_field ''adi,ctrl-outs-enable-mask'' 0xFF (\<lambda>s. co_en_mask (pd_ctrl_outs_ctrl s)) (\<lambda>f.
          pd_ctrl_outs_ctrl_update (co_en_mask_update f)),
      u32_field ''adi,elna-settling-delay-ns'' 0 (\<lambda>s. el_settling_delay_ns (pd_elna_ctrl s))
          (\<lambda>f. pd_elna_ctrl_update (el_settling_delay_ns_update f)),
      u16_field ''adi,elna-gain-mdB'' 0 (\<lambda>s. el_gain_mdB (pd_elna_ctrl s)) (\<lambda>f.
          pd_elna_ctrl_update (el_gain_mdB_update f)),
      u16_field ''adi,elna-bypass-loss-mdB'' 0 (\<lambda>s. el_bypass_loss_mdB (pd_elna_ctrl s)) (\<lambda>f.
          pd_elna_ctrl_update (el_bypass_loss_mdB_update f)),
      bool_field ''adi,elna-rx1-gpo0-control-enable'' (\<lambda>s. el_elna_1_control_en (pd_elna_ctrl s))
          (\<lambda>f. pd_elna_ctrl_update (el_elna_1_control_en_update f)),
      bool_field ''adi,elna-rx2-gpo1-control-enable'' (\<lambda>s. el_elna_2_control_en (pd_elna_ctrl s))
          (\<lambda>f. pd_elna_ctrl_update (el_elna_2_control_en_update f)),
      bool_field ''adi,elna-gaintable-all-index-enable'' (\<lambda>s. el_elna_in_gaintable_all_index_en
          (pd_elna_ctrl s)) (\<lambda>f. pd_elna_ctrl_update (el_elna_in_gaintable_all_index_en_update f)),
      u32_field ''adi,temp-sense-measurement-interval-ms'' 1000 (\<lambda>s. aa_temp_time_inteval_ms
          (pd_auxadc_ctrl s)) (\<lambda>f. pd_auxadc_ctrl_update (aa_temp_time_inteval_ms_update f)),
      u8_field ''adi,temp-sense-offset-signed'' 0xBD (\<lambda>s. aa_offset (pd_auxadc_ctrl s)) (\<lambda>f.
          pd_auxadc_ctrl_update (aa_offset_update f)),
      bool_field ''adi,temp-sense-periodic-measurement-enable'' (\<lambda>s. aa_periodic_temp_measuremnt
          (pd_auxadc_ctrl s)) (\<lambda>f. pd_auxadc_ctrl_update (aa_periodic_temp_measuremnt_update f)),
      u32_field ''adi,temp-sense-decimation'' 256 (\<lambda>s. aa_temp_sensor_decimation (pd_auxadc_ctrl s))
          (\<lambda>f. pd_auxadc_ctrl_update (aa_temp_sensor_decimation_update f)),
      u32_field ''adi,aux-adc-rate'' 40000000 (\<lambda>s. aa_auxadc_clock_rate (pd_auxadc_ctrl s)) (\<lambda>f.
          pd_auxadc_ctrl_update (aa_auxadc_clock_rate_update f)),
      u32_field ''adi,aux-adc-decimation'' 256 (\<lambda>s. aa_auxadc_decimation (pd_auxadc_ctrl s))
          (\<lambda>f. pd_auxadc_ctrl_update (aa_auxadc_decimation_update f)),
      bool_field ''adi,aux-dac-manual-mode-enable'' (\<lambda>s. dac_auxdac_manual_mode_en (pd_auxdac_ctrl s))
          (\<lambda>f. pd_auxdac_ctrl_update (dac_auxdac_manual_mode_en_update f)),
      u16_field ''adi,aux-dac1-default-value-mV'' 0 (\<lambda>s. dac_dac1_default_value (pd_auxdac_ctrl s))
          (\<lambda>f. pd_auxdac_ctrl_update (dac_dac1_default_value_update f)),
      bool_field ''adi,aux-dac1-active-in-rx-enable'' (\<lambda>s. dac_dac1_in_rx_en (pd_auxdac_ctrl s))
          (\<lambda>f. pd_auxdac_ctrl_update (dac_dac1_in_rx_en_update f)),
      bool_field ''adi,aux-dac1-active-in-tx-enable'' (\<lambda>s. dac_dac1_in_tx_en (pd_auxdac_ctrl s))
          (\<lambda>f. pd_auxdac_ctrl_update (dac_dac1_in_tx_en_update f)),
      bool_field ''adi,aux-dac1-active-in-alert-enable'' (\<lambda>s. dac_dac1_in_alert_en (pd_auxdac_ctrl s))
          (\<lambda>f. pd_auxdac_ctrl_update (dac_dac1_in_alert_en_update f)),
      u8_field ''adi,aux-dac1-rx-delay-us'' 0 (\<lambda>s. dac_dac1_rx_delay_us (pd_auxdac_ctrl s)) (\<lambda>f.
          pd_auxdac_ctrl_update (dac_dac1_rx_delay_us_update f)),
      u8_field ''adi,aux-dac1-tx-delay-us'' 0 (\<lambda>s. dac_dac1_tx_delay_us (pd_auxdac_ctrl s)) (\<lambda>f.
          pd_auxdac_ctrl_update (dac_dac1_tx_delay_us_update f)),
      u16_field ''adi,aux-dac2-default-value-mV'' 0 (\<lambda>s. dac_dac2_default_value (pd_auxdac_ctrl s))
          (\<lambda>f. pd_auxdac_ctrl_update (dac_dac2_default_value_update f)),
      bool_field ''adi,aux-dac2-active-in-rx-enable'' (\<lambda>s. dac_dac2_in_rx_en (pd_auxdac_ctrl s))
          (\<lambda>f. pd_auxdac_ctrl_update (dac_dac2_in_rx_en_update f)),
      bool_field ''adi,aux-dac2-active-in-tx-enable'' (\<lambda>s. dac_dac2_in_tx_en (pd_auxdac_ctrl s))
          (\<lambda>f. pd_auxdac_ctrl_update (dac_dac2_in_tx_en_update f)),
      bool_field ''adi,aux-dac2-active-in-alert-enable'' (\<lambda>s. dac_dac2_in_alert_en (pd_auxdac_ctrl s))
          (\<lambda>f. pd_auxdac_ctrl_update (dac_dac2_in_alert_en_update f)),
      u8_field ''adi,aux-dac2-rx-delay-us'' 0 (\<lambda>s. dac_dac2_rx_delay_us (pd_auxdac_ctrl s)) (\<lambda>f.
          pd_auxdac_ctrl_update (dac_dac2_rx_delay_us_update f)),
      u8_field ''adi,aux-dac2-tx-delay-us'' 0 (\<lambda>s. dac_dac2_tx_delay_us (pd_auxdac_ctrl s)) (\<lambda>f.
          pd_auxdac_ctrl_update (dac_dac2_tx_delay_us_update f))]"

definition dt_gpo :: "'c dt_field list" where
  "dt_gpo =
     [bool_field ''adi,gpo-manual-mode-enable'' (\<lambda>s. gp_gpo_manual_mode_en (pd_gpo_ctrl s)) (\<lambda>f.
         pd_gpo_ctrl_update (gp_gpo_manual_mode_en_update f)),
      u32_field ''adi,gpo-manual-mode-enable-mask'' 0 (\<lambda>s. gp_gpo_manual_mode_enable_mask (pd_gpo_ctrl
          s)) (\<lambda>f. pd_gpo_ctrl_update (gp_gpo_manual_mode_enable_mask_update f)),
      bool_field ''adi,gpo0-inactive-state-high-enable'' (\<lambda>s. gp_gpo0_inactive_state_high_en
          (pd_gpo_ctrl s)) (\<lambda>f. pd_gpo_ctrl_update (gp_gpo0_inactive_state_high_en_update f)),
      bool_field ''adi,gpo1-inactive-state-high-enable'' (\<lambda>s. gp_gpo1_inactive_state_high_en
          (pd_gpo_ctrl s)) (\<lambda>f. pd_gpo_ctrl_update (gp_gpo1_inactive_state_high_en_update f)),
      bool_field ''adi,gpo2-inactive-state-high-enable'' (\<lambda>s. gp_gpo2_inactive_state_high_en
          (pd_gpo_ctrl s)) (\<lambda>f. pd_gpo_ctrl_update (gp_gpo2_inactive_state_high_en_update f)),
      bool_field ''adi,gpo3-inactive-state-high-enable'' (\<lambda>s. gp_gpo3_inactive_state_high_en
          (pd_gpo_ctrl s)) (\<lambda>f. pd_gpo_ctrl_update (gp_gpo3_inactive_state_high_en_update f)),
      bool_field ''adi,gpo0-slave-rx-enable'' (\<lambda>s. gp_gpo0_slave_rx_en (pd_gpo_ctrl s)) (\<lambda>f.
          pd_gpo_ctrl_update (gp_gpo0_slave_rx_en_update f)),
      bool_field ''adi,gpo0-slave-tx-enable'' (\<lambda>s. gp_gpo0_slave_tx_en (pd_gpo_ctrl s)) (\<lambda>f.
          pd_gpo_ctrl_update (gp_gpo0_slave_tx_en_update f)),
      bool_field ''adi,gpo1-slave-rx-enable'' (\<lambda>s. gp_gpo1_slave_rx_en (pd_gpo_ctrl s)) (\<lambda>f.
          pd_gpo_ctrl_update (gp_gpo1_slave_rx_en_update f)),
      bool_field ''adi,gpo1-slave-tx-enable'' (\<lambda>s. gp_gpo1_slave_tx_en (pd_gpo_ctrl s)) (\<lambda>f.
          pd_gpo_ctrl_update (gp_gpo1_slave_tx_en_update f)),
      bool_field ''adi,gpo2-slave-rx-enable'' (\<lambda>s. gp_gpo2_slave_rx_en (pd_gpo_ctrl s)) (\<lambda>f.
          pd_gpo_ctrl_update (gp_gpo2_slave_rx_en_update f)),
      bool_field ''adi,gpo2-slave-tx-enable'' (\<lambda>s. gp_gpo2_slave_tx_en (pd_gpo_ctrl s)) (\<lambda>f.
          pd_gpo_ctrl_update (gp_gpo2_slave_tx_en_update f)),
      bool_field ''adi,gpo3-slave-rx-enable'' (\<lambda>s. gp_gpo3_slave_rx_en (pd_gpo_ctrl s)) (\<lambda>f.
          pd_gpo_ctrl_update (gp_gpo3_slave_rx_en_update f)),
      bool_field ''adi,gpo3-slave-tx-enable'' (\<lambda>s. gp_gpo3_slave_tx_en (pd_gpo_ctrl s)) (\<lambda>f.
          pd_gpo_ctrl_update (gp_gpo3_slave_tx_en_update f)),
      u8_field ''adi,gpo0-rx-delay-us'' 0 (\<lambda>s. gp_gpo0_rx_delay_us (pd_gpo_ctrl s)) (\<lambda>f.
          pd_gpo_ctrl_update (gp_gpo0_rx_delay_us_update f)),
      u8_field ''adi,gpo0-tx-delay-us'' 0 (\<lambda>s. gp_gpo0_tx_delay_us (pd_gpo_ctrl s)) (\<lambda>f.
          pd_gpo_ctrl_update (gp_gpo0_tx_delay_us_update f)),
      u8_field ''adi,gpo1-rx-delay-us'' 0 (\<lambda>s. gp_gpo1_rx_delay_us (pd_gpo_ctrl s)) (\<lambda>f.
          pd_gpo_ctrl_update (gp_gpo1_rx_delay_us_update f)),
      u8_field ''adi,gpo1-tx-delay-us'' 0 (\<lambda>s. gp_gpo1_tx_delay_us (pd_gpo_ctrl s)) (\<lambda>f.
          pd_gpo_ctrl_update (gp_gpo1_tx_delay_us_update f)),
      u8_field ''adi,gpo2-rx-delay-us'' 0 (\<lambda>s. gp_gpo2_rx_delay_us (pd_gpo_ctrl s)) (\<lambda>f.
          pd_gpo_ctrl_update (gp_gpo2_rx_delay_us_update f)),
      u8_field ''adi,gpo2-tx-delay-us'' 0 (\<lambda>s. gp_gpo2_tx_delay_us (pd_gpo_ctrl s)) (\<lambda>f.
          pd_gpo_ctrl_update (gp_gpo2_tx_delay_us_update f)),
      u8_field ''adi,gpo3-rx-delay-us'' 0 (\<lambda>s. gp_gpo3_rx_delay_us (pd_gpo_ctrl s)) (\<lambda>f.
          pd_gpo_ctrl_update (gp_gpo3_rx_delay_us_update f)),
      u8_field ''adi,gpo3-tx-delay-us'' 0 (\<lambda>s. gp_gpo3_tx_delay_us (pd_gpo_ctrl s)) (\<lambda>f.
          pd_gpo_ctrl_update (gp_gpo3_tx_delay_us_update f))]"

definition dt_txmon :: "'c dt_field list" where
  "dt_txmon =
     [u32_field ''adi,txmon-low-high-thresh'' 37000 (\<lambda>s. tm_low_high_gain_threshold_mdB (pd_txmon_ctrl
         s)) (\<lambda>f. pd_txmon_ctrl_update (tm_low_high_gain_threshold_mdB_update f)),
      u8_field ''adi,txmon-low-gain'' 0 (\<lambda>s. tm_low_gain_dB (pd_txmon_ctrl s)) (\<lambda>f.
          pd_txmon_ctrl_update (tm_low_gain_dB_update f)),
      u8_field ''adi,txmon-high-gain'' 24 (\<lambda>s. tm_high_gain_dB (pd_txmon_ctrl s)) (\<lambda>f.
          pd_txmon_ctrl_update (tm_high_gain_dB_update f)),
      bool_field ''adi,txmon-dc-tracking-enable'' (\<lambda>s. tm_tx_mon_track_en (pd_txmon_ctrl s))
          (\<lambda>f. pd_txmon_ctrl_update (tm_tx_mon_track_en_update f)),
      bool_field ''adi,txmon-one-shot-mode-enable'' (\<lambda>s. tm_one_shot_mode_en (pd_txmon_ctrl s))
          (\<lambda>f. pd_txmon_ctrl_update (tm_one_shot_mode_en_update f)),
      u16_field ''adi,txmon-delay'' 511 (\<lambda>s. tm_tx_mon_delay (pd_txmon_ctrl s)) (\<lambda>f.
          pd_txmon_ctrl_update (tm_tx_mon_delay_update f)),
      u16_field ''adi,txmon-duration'' 8192 (\<lambda>s. tm_tx_mon_duration (pd_txmon_ctrl s)) (\<lambda>f.
          pd_txmon_ctrl_update (tm_tx_mon_duration_update f)),
      u8_field ''adi,txmon-1-front-end-gain'' 2 (\<lambda>s. tm_tx1_mon_front_end_gain (pd_txmon_ctrl s))
          (\<lambda>f. pd_txmon_ctrl_update (tm_tx1_mon_front_end_gain_update f)),
      u8_field ''adi,txmon-2-front-end-gain'' 2 (\<lambda>s. tm_tx2_mon_front_end_gain (pd_txmon_ctrl s))
          (\<lambda>f. pd_txmon_ctrl_update (tm_tx2_mon_front_end_gain_update f)),
      u8_field ''adi,txmon-1-lo-cm'' 48 (\<lambda>s. tm_tx1_mon_lo_cm (pd_txmon_ctrl s)) (\<lambda>f.
          pd_txmon_ctrl_update (tm_tx1_mon_lo_cm_update f)),
      u8_field ''adi,txmon-2-lo-cm'' 48 (\<lambda>s. tm_tx2_mon_lo_cm (pd_txmon_ctrl s)) (\<lambda>f.
          pd_txmon_ctrl_update (tm_tx2_mon_lo_cm_update f)),
      bool_field ''adi,axi-half-dac-rate-enable'' pd_axi_half_dac_rate_en pd_axi_half_dac_rate_en_update,
      bool_field ''adi,bb-clk-change-dig-tune-enable'' pd_bb_clk_change_dig_tune_en
          pd_bb_clk_change_dig_tune_en_update]"

definition dt_fields :: "ad_dev \<Rightarrow> 'c dt_field list" where
  "dt_fields dev = dt_modes @ dt_channels @ (if dev = ID_AD9363A then [] else dt_clocks) @ dt_offsets @ dt_levels @ dt_gain @
     dt_agc @ dt_fast_agc @ dt_fast_unlock @ dt_rssi @ dt_aux @ dt_gpo @ dt_txmon"

subsection \<open>The parser\<close>

text \<open>Platform data, none, or a number outside an enumeration.\<close>

datatype 's dt_out = Dt_ok 's | Dt_null | Dt_foreign

fun dt_run :: "('s \<Rightarrow> 's dt_out) list \<Rightarrow> 's \<Rightarrow> 's dt_out" where
  "dt_run [] s = Dt_ok s"
| "dt_run (f # fs) s = (case f s of Dt_ok t \<Rightarrow> dt_run fs t | Dt_null \<Rightarrow> Dt_null | Dt_foreign \<Rightarrow> Dt_foreign)"

definition field_value :: "dt_node \<Rightarrow> 'c dt_field \<Rightarrow> u32" where
  "field_value node f = (if df_size f = 5 then of_bool (of_bool_at node (df_name f)) else of_u32 node (df_name f) (df_default f))"

definition read_field :: "dt_node \<Rightarrow> 'c dt_field \<Rightarrow> 'c ad9361 \<Rightarrow> 'c ad9361 dt_out" where
  "read_field node f s = (case df_put f (field_value node f) s of None \<Rightarrow> Dt_foreign | Some t \<Rightarrow> Dt_ok t)"

definition zero_pdata :: "'c ad9361 \<Rightarrow> 'c ad9361" where
  "zero_pdata s =
     s\<lparr>pd_use_ext_rx_lo := False, pd_use_ext_tx_lo := False, pd_lo_powerdown_managed_en := False,
       pd_debug_mode := False, pd_rf_rx_input_sel_lock := False, pd_rf_tx_output_sel_lock := False,
       pd_rssi_skip_calib := False, pd_dcxo_coarse := 0, pd_dcxo_fine := 0, pd_trx_synth_max_fref := 0,
       pd_rx_synth_freq := 0, pd_tx_synth_freq := 0, pd_rf_rx_bandwidth_Hz := 0,
       pd_rf_tx_bandwidth_Hz := 0, pd_tx_atten := 0, pd_ad9361_clkout_mode := CLKOUT_DISABLE,
       pd_ctrl_outs_ctrl := co_zero, pd_auxdac_ctrl := dac_zero, pd_gpo_ctrl := gp_zero,
       pd_txmon_ctrl := tm_zero, pd_sync_gpio := False, pd_rx2tx2 := False, pd_fdd := False,
       pd_fdd_independent_mode := False, pd_split_gt := False, pd_ensm_pin_pulse_mode := False,
       pd_tdd_use_dual_synth := False, pd_tdd_skip_vco_cal := False, pd_rx1tx1_mode_use_rx_num := 0,
       pd_rx1tx1_mode_use_tx_num := 0, pd_rx_fastlock_delay_ns := 0, pd_tx_fastlock_delay_ns := 0,
       pd_trx_fastlock_pinctrl_en := (\<lambda>_. False), pd_update_tx_gain_via_alert := False,
       pd_use_extclk := False, pd_ensm_pin_ctrl := False, pd_rx1rx2_phase_inversion_en := False,
       pd_qec_tracking_slow_mode_en := False, pd_dig_interface_tune_fir_disable := False,
       pd_bb_clk_change_dig_tune_en := False, pd_axi_half_dac_rate_en := False,
       pd_dc_offset_update_events := 0, pd_dc_offset_attenuation_high := 0,
       pd_dc_offset_attenuation_low := 0, pd_rf_dc_offset_count_high := 0,
       pd_rf_dc_offset_count_low := 0, pd_dig_interface_tune_skipmode := 0,
       pd_rx_path_clks := replicate 6 0, pd_tx_path_clks := replicate 6 0, pd_gain_ctrl := gc_zero,
       pd_rssi_ctrl := rc_zero, pd_port_ctrl := pc_zero, pd_elna_ctrl := el_zero,
       pd_auxadc_ctrl := aa_zero, pd_rssi_lna_err_tbl := replicate 4 0,
       pd_rssi_mixer_err_tbl := replicate 16 0, pd_rssi_gain_step_calib_reg_val := replicate 5 0\<rparr>"

definition dport_config :: "(nat \<times> nat \<times> string) list" where
  "dport_config =
     [(1, 7, ''adi,pp-tx-swap-enable''), (1, 6, ''adi,pp-rx-swap-enable''), (1, 5, ''adi,tx-channel-swap-enable''),
      (1, 4, ''adi,rx-channel-swap-enable''), (1, 3, ''adi,rx-frame-pulse-mode-enable''), (1, 2, ''adi,2t2r-timing-enable''),
      (1, 1, ''adi,invert-data-bus-enable''), (1, 0, ''adi,invert-data-clk-enable''), (2, 7, ''adi,fdd-alt-word-order-enable''),
      (2, 2, ''adi,invert-rx-frame-enable''), (3, 7, ''adi,fdd-rx-rate-2tx-enable''), (3, 6, ''adi,swap-ports-enable''),
      (3, 5, ''adi,single-data-rate-enable''), (3, 4, ''adi,lvds-mode-enable''), (3, 3, ''adi,half-duplex-mode-enable''),
      (3, 2, ''adi,single-port-mode-enable''), (3, 1, ''adi,full-port-enable''), (3, 0, ''adi,full-duplex-swap-bits-enable'')]"

definition conf_byte :: "dt_node \<Rightarrow> nat \<Rightarrow> u8" where
  "conf_byte node r =
     foldr (\<lambda>(reg, offset, name) b. if reg = r then b OR push_bit offset (of_bool (of_bool_at node name)) else b) dport_config 0"

definition dt_port :: "dt_node \<Rightarrow> port_control \<Rightarrow> port_control" where
  "dt_port node pc =
     (let bias = of_u32 node ''adi,lvds-bias-mV'' 75 in
      pc\<lparr>pc_pp_conf := [conf_byte node 1, conf_byte node 2 OR ucast (of_u32 node ''adi,delay-rx-data'' 0 AND 3), conf_byte node 3],
         pc_rx_clk_data_delay := ucast (DATA_CLK_DELAY (of_u32 node ''adi,rx-data-clock-delay'' 0)) OR
           ucast (RX_DATA_DELAY (of_u32 node ''adi,rx-data-delay'' 0)),
         pc_tx_clk_data_delay := ucast (FB_CLK_DELAY (of_u32 node ''adi,tx-fb-clock-delay'' 0)) OR
           ucast (TX_DATA_DELAY (of_u32 node ''adi,tx-data-delay'' 0)),
         pc_lvds_bias_ctrl := ucast (((bias - 75) div 75) AND 7) OR
           push_bit 5 (of_bool (of_bool_at node ''adi,lvds-rx-onchip-termination-enable'')),
         pc_lvds_invert := [ucast (of_u32 node ''adi,lvds-invert1-control'' 0xFF), ucast (of_u32 node ''adi,lvds-invert2-control'' 0x0F)]\<rparr>)"

definition dt_synth :: "dt_node \<Rightarrow> 'c ad9361 \<Rightarrow> 'c ad9361" where
  "dt_synth node s =
     (let dcxo = (case of_array node ''adi,dcxo-coarse-and-fine-tune'' 2 of Some [c, f] \<Rightarrow> (c, f) | _ \<Rightarrow> (8, 5920)) in
      s\<lparr>pd_rx_synth_freq := of_u64 node ''adi,rx-synthesizer-frequency-hz'' 2400000000,
        pd_tx_synth_freq := of_u64 node ''adi,tx-synthesizer-frequency-hz'' 2440000000,
        pd_dcxo_coarse := fst dcxo, pd_dcxo_fine := snd dcxo\<rparr>)"

definition dt_ad9363a :: "'c ad9361 \<Rightarrow> 'c ad9361" where
  "dt_ad9363a s = (if pd_dev s = ID_AD9363A
     then s\<lparr>pd_use_extclk := True, pd_use_ext_tx_lo := False, pd_use_ext_rx_lo := False\<rparr> else s)"

definition dt_path_clks :: "dt_node \<Rightarrow> 'c ad9361 \<Rightarrow> 'c ad9361 dt_out" where
  "dt_path_clks node s =
     (case of_array node ''adi,rx-path-clock-frequencies'' 6 of
        None \<Rightarrow> Dt_null
      | Some rx \<Rightarrow>
          (case of_array node ''adi,tx-path-clock-frequencies'' 6 of
             None \<Rightarrow> Dt_null
           | Some tx \<Rightarrow> Dt_ok (s\<lparr>pd_rx_path_clks := rx, pd_tx_path_clks := tx\<rparr>)))"

definition dt_rssi_tables :: "dt_node \<Rightarrow> 'c ad9361 \<Rightarrow> 'c ad9361" where
  "dt_rssi_tables node s =
     (let lna = of_array node ''adi,rssi-gain-step-lna-error-table'' 4;
          mixer = of_array node ''adi,rssi-gain-step-mixer-error-table'' 16;
          regs = of_array node ''adi,rssi-gain-step-calibration-register-values'' 5;
          keep = (\<lambda>old new. case new of None \<Rightarrow> old | Some ws \<Rightarrow> ws)
      in s\<lparr>pd_rssi_lna_err_tbl := keep (pd_rssi_lna_err_tbl s) lna,
           pd_rssi_mixer_err_tbl := keep (pd_rssi_mixer_err_tbl s) mixer,
           pd_rssi_gain_step_calib_reg_val := keep (pd_rssi_gain_step_calib_reg_val s) regs,
           pd_rssi_skip_calib := (lna = None \<or> mixer = None \<or> regs = None)\<rparr>)"

definition phy_parse_dt :: "dt_node \<Rightarrow> 'c ad9361 \<Rightarrow> 'c ad9361 dt_out" where
  "phy_parse_dt node s =
     (let fields = map (read_field node) in
      dt_run ([\<lambda>s. Dt_ok (zero_pdata s)] @ fields dt_modes @
        [\<lambda>s. Dt_ok (s\<lparr>pd_port_ctrl := dt_port node (pd_port_ctrl s)\<rparr>)] @ fields dt_channels @
        [\<lambda>s. Dt_ok (dt_synth node s), \<lambda>s. Dt_ok (dt_ad9363a s)] @ fields (if pd_dev s = ID_AD9363A then [] else dt_clocks) @
        fields dt_offsets @ [dt_path_clks node] @
        fields (dt_levels @ dt_gain @ dt_agc @ dt_fast_agc @ dt_fast_unlock @ dt_rssi) @
        [\<lambda>s. Dt_ok (dt_rssi_tables node s)] @ fields (dt_aux @ dt_gpo @ dt_txmon)) s)"

end
