(* ===== verification/Ad_Dbg.thy ===== *)
theory Ad_Dbg
  imports Ad_Dt
begin

unbundle bit_operations_syntax

text \<open>
  The debugfs files of the device (\<^verbatim>\<open>ad9361_debugfs_read\<close>, \<^verbatim>\<open>ad9361_debugfs_write\<close>): one for each
  property of the device tree and one for each command.
\<close>

datatype debugfs_cmd = DBGFS_NONE | DBGFS_INIT | DBGFS_LOOPBACK | DBGFS_BIST_PRBS | DBGFS_BIST_TONE
  | DBGFS_BIST_DT_ANALYSIS | DBGFS_RXGAIN_1 | DBGFS_RXGAIN_2 | DBGFS_MCS | DBGFS_CAL_SW_CTRL | DBGFS_DIGITAL_TUNE
  | DBGFS_GPO_SET

text \<open>An entry; its \<^verbatim>\<open>val\<close> is passed along.\<close>

record 'c debugfs_entry =
  de_propname :: string
  de_out_value :: "'c dt_field option"
  de_cmd :: debugfs_cmd

definition MAX_DEBUGFS_ENTRIES :: nat where "MAX_DEBUGFS_ENTRIES = 182"

definition dt_entry :: "'c dt_field \<Rightarrow> 'c debugfs_entry" where
  "dt_entry f = \<lparr>de_propname = df_name f, de_out_value = Some f, de_cmd = DBGFS_NONE\<rparr>"

definition cmd_entries :: "'c debugfs_entry list" where
  "cmd_entries = map (\<lambda>(n, c). \<lparr>de_propname = n, de_out_value = None, de_cmd = c\<rparr>)
     [(''initialize'', DBGFS_INIT), (''loopback'', DBGFS_LOOPBACK), (''bist_prbs'', DBGFS_BIST_PRBS),
      (''bist_tone'', DBGFS_BIST_TONE), (''gpo_set'', DBGFS_GPO_SET), (''bist_timing_analysis'', DBGFS_BIST_DT_ANALYSIS),
      (''gaininfo_rx1'', DBGFS_RXGAIN_1), (''gaininfo_rx2'', DBGFS_RXGAIN_2), (''multichip_sync'', DBGFS_MCS),
      (''calibration_switch_control'', DBGFS_CAL_SW_CTRL), (''digital_tune'', DBGFS_DIGITAL_TUNE)]"

text \<open>An entry is added unless the table is full.\<close>

definition add_entry :: "'c debugfs_entry list \<Rightarrow> 'c debugfs_entry \<Rightarrow> 'c debugfs_entry list" where
  "add_entry es e = (if MAX_DEBUGFS_ENTRIES \<le> length es then es else es @ [e])"

definition debugfs_entries :: "ad_dev \<Rightarrow> 'c debugfs_entry list" where
  "debugfs_entries dev = foldl add_entry [] (map dt_entry (dt_fields dev) @ cmd_entries)"

subsection \<open>Reading\<close>

text \<open>
  A text, an error, or the contents of the stack behind the 700 bytes of the buffer: the negative
  errno of the timing analysis is taken for a length.
\<close>

datatype dbg_text = Dbg_text string | Dbg_err int | Dbg_overrun

definition show_gaininfo :: "rf_rx_gain \<Rightarrow> string" where
  "show_gaininfo g = show_int (rg_gain_db g) @
     concat (map (\<lambda>w. CHR '' '' # show_u32 w) [rg_fgt_lmt_index g, rg_digital_gain g, rg_lmt_gain g, rg_lpf_gain g,
       rg_lna_index g, rg_tia_index g, rg_mixer_index g]) @ [nl]"

definition read_gaininfo :: "'c bus \<Rightarrow> u32 \<Rightarrow> ('c ad9361, dbg_text option) state" where
  "read_gaininfo bus rx_id = do {
     r \<leftarrow> get_rx_gain bus rx_id (rx_gain_of 0);
     rtn (map_option (\<lambda>(ret, g). if ret < 0 then Dbg_err ret else Dbg_text (show_gaininfo g)) r)
   }"

definition read_analysis :: "'c env \<Rightarrow> 'c axi_adc \<Rightarrow> u32 \<Rightarrow> ('c ad9361, dbg_text) state" where
  "read_analysis ev ax val =
     (if val = 0 then rtn (Dbg_text (''0'' @ [nl]))
      else do {
        r \<leftarrow> dig_interface_timing_analysis (ev_bus ev) (ev_fw ev) ax;
        rtn (case r of Inl e \<Rightarrow> Dbg_overrun | Inr ps \<Rightarrow> if 700 < length (concat ps) then Dbg_overrun else Dbg_text (concat ps))
      })"

text \<open>The result has the entry's value after the read.\<close>

definition debugfs_read :: "'c env \<Rightarrow> 'c axi_adc \<Rightarrow> 'c debugfs_entry \<Rightarrow> u32 \<Rightarrow> ('c ad9361, dbg_text option \<times> u32) state" where
  "debugfs_read ev ax e val =
     (let line = (\<lambda>v. Dbg_text (show_u32 v @ [nl])) in
      case de_out_value e of
        Some f \<Rightarrow> do { s \<leftarrow> get_phy; rtn (Some (line (df_get f s)), val) }
      | None \<Rightarrow>
          if de_cmd e = DBGFS_RXGAIN_1 \<or> de_cmd e = DBGFS_RXGAIN_2
          then do { r \<leftarrow> read_gaininfo (ev_bus ev) (if de_cmd e = DBGFS_RXGAIN_1 then 1 else 2); rtn (r, val) }
          else if de_cmd e = DBGFS_BIST_DT_ANALYSIS then do { r \<leftarrow> read_analysis ev ax val; rtn (Some r, 0) }
          else if de_cmd e \<noteq> DBGFS_NONE then rtn (Some (line val), val)
          else rtn (Some (Dbg_err (- 14)), val))"

subsection \<open>Writing\<close>

definition scan_numbers :: "string \<Rightarrow> u32 list" where
  "scan_numbers buf =
     map (\<lambda>v. case v of Num i \<Rightarrow> word_of_int i | Str _ \<Rightarrow> 0)
       (scan_any [Number, Blank, Number, Blank, Number, Blank, Number] buf)"

definition bist_mode_of :: "u32 \<Rightarrow> bist_mode" where
  "bist_mode_of v = (if v = 1 then BIST_INJ_TX else if v = 2 then BIST_INJ_RX else BIST_DISABLE)"

text \<open>The reset of the chip, by its pin or over the bus.\<close>

definition UNDERSCORE_SOFT_RESET :: u32 where "UNDERSCORE_SOFT_RESET = 1"

definition ad9361_reset :: "'c bus \<Rightarrow> ('c \<Rightarrow> 'c) option \<Rightarrow> ('c ad9361, int) state" where
  "ad9361_reset bus pin =
     (case pin of
        Some f \<Rightarrow> do { _ \<leftarrow> upd_phy (\<lambda>s. s\<lparr>ad_chip := f (ad_chip s)\<rparr>); rtn 0 }
      | None \<Rightarrow> do {
          _ \<leftarrow> spi_write bus REG_SPI_CONF (SOFT_RESET OR UNDERSCORE_SOFT_RESET);
          _ \<leftarrow> spi_write bus REG_SPI_CONF 0;
          rtn (- 19)
        })"

definition reinitialize :: "'c env \<Rightarrow> ('c \<Rightarrow> 'c) option \<Rightarrow> ('c ad9361, int option) state" where
  "reinitialize ev pin = do {
     _ \<leftarrow> clk_set_rate (ev_fw ev) TX_SAMPL_CLK 1;
     _ \<leftarrow> ev_set_parent ev False True;
     _ \<leftarrow> ev_set_parent ev True True;
     s \<leftarrow> get_phy;
     w \<leftarrow> if st_work_pending s then work_func ev else rtn (Some 0);
     if w = None then rtn None
     else do {
       _ \<leftarrow> ad9361_reset (ev_bus ev) pin;
       _ \<leftarrow> upd_phy clear_state;
       ad_setup (ev_bus ev) (ev_fw ev) (ev_board ev) (ev_tune ev) (ev_isqrt ev) (ev_junk ev)
     }
   }"

text \<open>The outputs a write selects: their mask and their new bits.\<close>

definition gpo_bits :: "u32 \<Rightarrow> u32 \<Rightarrow> (u32 \<times> u32) option" where
  "gpo_bits val val2 =
     (if val < 4 then Some (push_bit (unat val) 1, if val2 \<noteq> 0 then push_bit (unat val) 1 else 0)
      else if val = 0xF then Some (0xF, val2 AND 0xF)
      else None)"

definition gpo_set :: "'c bus \<Rightarrow> u32 \<Rightarrow> u32 \<Rightarrow> ('c ad9361, int) state" where
  "gpo_set bus val val2 = do {
     s \<leftarrow> get_phy;
     if \<not> gp_gpo_manual_mode_en (pd_gpo_ctrl s) then rtn (- 22)
     else case gpo_bits val val2 of
       None \<Rightarrow> rtn (- 22)
     | Some (mask', bits) \<Rightarrow> do {
         _ \<leftarrow> upd_phy (pd_gpo_ctrl_update (gp_gpo_manual_mode_enable_mask_update (\<lambda>m. (m AND NOT mask') OR bits)));
         s \<leftarrow> get_phy;
         let ctrl = pd_gpo_ctrl s in do {
           ret \<leftarrow> spi_write bus REG_GPO_FORCE_AND_INIT
             (GPO_MANUAL_CTRL (gp_gpo_manual_mode_enable_mask ctrl) OR
              GPO_INIT_STATE (four_bits (gp_gpo0_inactive_state_high_en ctrl) (gp_gpo1_inactive_state_high_en ctrl)
                (gp_gpo2_inactive_state_high_en ctrl) (gp_gpo3_inactive_state_high_en ctrl)));
           v \<leftarrow> spi_read bus REG_EXTERNAL_LNA_CTRL;
           _ \<leftarrow> if word_of_int v AND GPO_MANUAL_SELECT = 0
                then spi_write bus REG_EXTERNAL_LNA_CTRL (word_of_int v OR GPO_MANUAL_SELECT) else rtn 0;
           rtn ret
         }
       }
   }"

text \<open>
  A command that takes \<open>n\<close> numbers: refused with another count, and the entry's value is set
  when it succeeds. \<open>count\<close> is what a successful write reports.
\<close>

definition command :: "nat \<Rightarrow> u32 list \<Rightarrow> u32 \<Rightarrow> int \<Rightarrow> ('c ad9361, int option) state \<Rightarrow> ('c ad9361, int option \<times> u32) state" where
  "command n vs val count m =
     (if length vs \<noteq> n then rtn (Some (- 22), val)
      else do {
        r \<leftarrow> m;
        rtn (case r of None \<Rightarrow> (None, val) | Some r \<Rightarrow> if r < 0 then (Some r, val) else (Some count, vs ! 0))
      })"

definition some :: "('c ad9361, int) state \<Rightarrow> ('c ad9361, int option) state" where
  "some m = do { r \<leftarrow> m; rtn (Some r) }"

text \<open>\<open>cal_sw\<close>: setting the two calibration switches, if the board has them.\<close>

definition set_cal_sw :: "('c \<Rightarrow> bool \<Rightarrow> bool \<Rightarrow> 'c) option \<Rightarrow> u32 \<Rightarrow> ('c ad9361, int) state" where
  "set_cal_sw cal_sw val =
     (case cal_sw of
        None \<Rightarrow> rtn (- 19)
      | Some f \<Rightarrow> do { _ \<leftarrow> upd_phy (\<lambda>s. s\<lparr>ad_chip := f (ad_chip s) (bit val 0) (bit val 1)\<rparr>); rtn 0 })"

definition store_out_value :: "'c dt_field option \<Rightarrow> u32 \<Rightarrow> ('c ad9361, bool) state" where
  "store_out_value out v =
     (case out of
        None \<Rightarrow> rtn True
      | Some f \<Rightarrow> do {
          s \<leftarrow> get_phy;
          case df_put f v s of None \<Rightarrow> rtn False | Some t \<Rightarrow> do { _ \<leftarrow> upd_phy (\<lambda>_. t); rtn True }
        })"

definition debugfs_write :: "'c env \<Rightarrow> 'c axi_adc \<Rightarrow> ('c \<Rightarrow> 'c) option \<Rightarrow> ('c \<Rightarrow> bool \<Rightarrow> bool \<Rightarrow> 'c) option \<Rightarrow>
    'c debugfs_entry \<Rightarrow> u32 \<Rightarrow> string \<Rightarrow> ('c ad9361, int option \<times> u32) state" where
  "debugfs_write ev ax pin cal_sw e val userbuf =
     (let buf = take 79 userbuf; count = int (length buf); vs = scan_numbers buf; bus = ev_bus ev;
          clk = (\<lambda>s m. clk_get_rate (ev_fw ev) (if m = BIST_INJ_TX then TX_SAMPL_CLK else RX_SAMPL_CLK) s)
      in if vs = [] then rtn (Some (- 22), val)
         else (case de_cmd e of
             DBGFS_INIT \<Rightarrow>
               if length vs = 1 \<and> vs ! 0 = 1 then do {
                 r \<leftarrow> reinitialize ev pin;
                 rtn (map_option (\<lambda>r. if r < 0 then r else count) r, val)
               } else rtn (Some (- 22), val)
           | DBGFS_LOOPBACK \<Rightarrow> command 1 vs val count (some (bist_loopback bus ax (vs ! 0)))
           | DBGFS_BIST_PRBS \<Rightarrow> command 1 vs val count (some (bist_prbs bus (bist_mode_of (vs ! 0))))
           | DBGFS_BIST_TONE \<Rightarrow> command 4 vs val count
               (some (at_phy (\<lambda>s. bist_tone bus (clk s) (bist_mode_of (vs ! 0)) (vs ! 1) (vs ! 2) (vs ! 3))))
           | DBGFS_MCS \<Rightarrow> command 1 vs val count (some (mcs bus (ev_board ev) (vs ! 0)))
           | DBGFS_CAL_SW_CTRL \<Rightarrow> command 1 vs val count (some (set_cal_sw cal_sw (vs ! 0)))
           | DBGFS_DIGITAL_TUNE \<Rightarrow> command 2 vs val count (ev_tune ev (vs ! 0) (vs ! 1))
           | DBGFS_BIST_DT_ANALYSIS \<Rightarrow> rtn (Some count, vs ! 0)
           | DBGFS_GPO_SET \<Rightarrow> command 2 vs val count (some (gpo_set bus (vs ! 0) (vs ! 1)))
           | _ \<Rightarrow> do {
               known \<leftarrow> store_out_value (de_out_value e) (vs ! 0);
               rtn (if known then Some count else None, val)
             }))"

end
