(* ===== verification/Ad_Attr_Props.thy ===== *)
theory Ad_Attr_Props
  imports Ad_Chan Ad_Fir_Props Ad_Rf_Props
begin

unbundle bit_operations_syntax

text \<open>
  What the attributes promise: the texts they print can be written back, a refused filter leaves
  the filters bypassed, profiles and gains come back as they were written, and a sleeping device
  takes nothing but a new mode.
\<close>

subsection \<open>Writing back what was read\<close>

lemma kstr_nat_line: "n < 2 ^ 64 \<Longrightarrow> kstr_nat (show_nat n @ [nl]) = Inr n"
proof -
  assume "n < 2 ^ 64"
  have nl: "\<not> is_digit nl" by (simp add: nl_def is_digit_def)
  then have "no_digit [nl]" by simp
  then have "dropWhile is_digit (show_nat n @ [nl]) = [nl]" "digits_val 0 (show_nat n @ [nl]) = n"
    using show_nat_digits [of n] dropWhile_digits digits_val_append [of "show_nat n" 0 "[nl]"] digits_val_stop by auto
  moreover have "takeWhile is_digit (show_nat n @ [nl]) \<noteq> []"
    using show_nat_digits [of n] by (cases "show_nat n") auto
  ultimately show ?thesis using \<open>n < 2 ^ 64\<close> by (simp add: kstr_nat_def Let_def)
qed

lemma kstrtoull_line: "n < 2 ^ 64 \<Longrightarrow> kstrtoull (show_nat n @ [nl]) = Inr n"
proof -
  assume "n < 2 ^ 64"
  obtain c cs where s: "show_nat n = c # cs" "is_digit c" using show_nat_digits [of n] by (cases "show_nat n") auto
  then have "c \<noteq> CHR ''+''" by (auto simp: is_digit_def)
  then show ?thesis using kstr_nat_line [OF \<open>n < 2 ^ 64\<close>] s by (simp add: kstrtoull_def)
qed

lemma kstrtol_line: "n < 2 ^ 31 \<Longrightarrow> kstrtol (show_nat n @ [nl]) = Inr (int n)"
proof -
  assume n: "n < 2 ^ 31"
  obtain c cs where s: "show_nat n = c # cs" "is_digit c" using show_nat_digits [of n] by (cases "show_nat n") auto
  then have "c \<noteq> CHR ''-''" by (auto simp: is_digit_def)
  then show ?thesis using kstrtoull_line [of n] s n by (auto simp: kstrtol_def kstrtoll_def)
qed

lemma kstrtol_u32: "unat w < 2 ^ 31 \<Longrightarrow> kstrtol (show_u32 w @ [nl]) = Inr (uint w)"
  using kstrtol_line [of "unat w"] by (simp add: show_u32_def)

lemma kstrtol_s32: "unat w < 2 ^ 31 \<Longrightarrow> kstrtol (show_s32 w @ [nl]) = Inr (uint w)"
proof -
  assume w: "unat w < 2 ^ 31"
  then have "sint w = int (unat w)" by (intro sint_eq_unat) simp
  then show ?thesis using kstrtol_line [OF w] by (simp add: show_s32_def show_int_def)
qed

lemma kstrtobool_flag: "kstrtobool (show_flag b @ [nl]) = Inr b"
  by (simp add: show_flag_def kstrtobool_def)

lemma bandwidth_small: "validate_rf_bw dev bw = bw \<Longrightarrow> unat bw < 2 ^ 31"
  by (auto simp: validate_rf_bw_def clamp_u32_def word_le_nat_alt word_less_nat_alt split: if_splits)


text \<open>The attributes whose text is a number or a switch that nothing else depends on.\<close>

definition plain_attrs :: "phy_attr set" where
  "plain_attrs = {AD9361_RF_RX_BANDWIDTH, AD9361_RF_TX_BANDWIDTH, AD9361_TRX_RATE_GOV, AD9361_FIR_RX_ENABLE,
     AD9361_FIR_TX_ENABLE, AD9361_DCXO_TUNE_COARSE, AD9361_DCXO_TUNE_FINE, AD9361_XO_CORRECTION}"

text \<open>
  What each attribute depends on to be taken back: a recorded value that its own write would
  store. The writes of the bandwidths and of the crystal's trims bring a value into its range
  first, and the numbers are parsed as signed 32-bit ones.
\<close>

definition in_range :: "'c env \<Rightarrow> phy_attr \<Rightarrow> 'c ad9361 \<Rightarrow> bool" where
  "in_range ev a s \<longleftrightarrow>
     (case a of
        AD9361_RF_RX_BANDWIDTH \<Rightarrow> validate_rf_bw (pd_dev s) (st_current_rx_bw_Hz s) = st_current_rx_bw_Hz s
      | AD9361_RF_TX_BANDWIDTH \<Rightarrow> validate_rf_bw (pd_dev s) (st_current_tx_bw_Hz s) = st_current_tx_bw_Hz s
      | AD9361_TRX_RATE_GOV \<Rightarrow> st_rate_governor s = 0 \<or> st_rate_governor s = 1
      | AD9361_DCXO_TUNE_COARSE \<Rightarrow> unat (pd_dcxo_coarse s) \<le> 63
      | AD9361_DCXO_TUNE_FINE \<Rightarrow> unat (pd_dcxo_fine s) \<le> 8191
      | AD9361_XO_CORRECTION \<Rightarrow> unat (bd_refin_rate (ev_board ev) s) < 2 ^ 31
      | _ \<Rightarrow> True)"

definition dcxo_attrs :: "phy_attr set" where
  "dcxo_attrs = {AD9361_DCXO_TUNE_COARSE, AD9361_DCXO_TUNE_FINE}"

lemma streq_governor:
  "streq_lookup (''nominal'' @ [nl]) [(''highest_osr'', 0), (''nominal'', 1)] = Some (1 :: u32)"
  "streq_lookup (''highest_osr'' @ [nl]) [(''highest_osr'', 0), (''nominal'', 1)] = Some (0 :: u32)"
  by (simp_all add: sysfs_streq_def nl_def)

lemma clamp_id: "unat w \<le> unat m \<Longrightarrow> clamp_u32 w 0 m = w"
  by (auto simp: clamp_u32_def word_less_nat_alt)

lemma bandwidth_back:
  assumes "validate_rf_bw (pd_dev s) bw = bw" "(if tx then st_current_tx_bw_Hz s else st_current_rx_bw_Hz s) = bw"
  shows "run_state (store_bandwidth ev tx (show_u32 bw @ [nl])) s = (Some 0, s)"
  using assms bandwidth_small [OF assms(1)] by (simp add: store_bandwidth_def kstrtol_u32 Let_def)

lemma governor_back:
  assumes "st_rate_governor s = 0 \<or> st_rate_governor s = 1"
  shows "run_state (store_rate_governor ((if st_rate_governor s \<noteq> 0 then ''nominal'' else ''highest_osr'') @ [nl])) s = (Some 0, s)"
  using assms streq_governor by (auto simp: store_rate_governor_def simp del: streq_lookup.simps)

lemma fir_back:
  assumes "rx \<Longrightarrow> st_bypass_rx_fir s = b" "tx \<Longrightarrow> st_bypass_tx_fir s = b"
  shows "run_state (store_fir_enable ev rx tx (show_flag (\<not> b) @ [nl])) s = (Some 0, s)"
  using assms by (simp add: store_fir_enable_def kstrtobool_flag)

lemma dcxo_back:
  assumes "v = (if coarse then pd_dcxo_coarse s else pd_dcxo_fine s)" "unat v \<le> (if coarse then 63 else 8191)"
  shows "run_state (store_dcxo ev coarse (show_s32 v @ [nl])) s = (Some 0, s)"
proof -
  have "kstrtol (show_s32 v @ [nl]) = Inr (uint v)" using assms(2) by (intro kstrtol_s32) (auto split: if_splits)
  moreover have "clamp_u32 v 0 (if coarse then 63 else 8191) = v"
    using assms(2) by (intro clamp_id) (auto split: if_splits)
  ultimately show ?thesis using assms(1) by (simp add: store_dcxo_def Let_def)
qed

lemma xo_back:
  assumes "unat (bd_refin_rate (ev_board ev) s) < 2 ^ 31"
  shows "run_state (store_xo_correction ev (show_u32 (bd_refin_rate (ev_board ev) s) @ [nl])) s = (Some 0, s)"
  using kstrtol_u32 [OF assms] by (simp add: store_xo_correction_def)

lemma shown_back:
  assumes "show_attr ev a s = Inr str" "a \<noteq> AD9361_ENSM_MODE" "run_state (store_attr ev a str) s = (Some 0, s)"
  shows "\<exists>str. run_state (phy_show ev a) s = (Inr str, s) \<and>
    run_state (phy_store ev a str) s =
      (Some (if st_curr_ensm_state s = ucast ENSM_STATE_SLEEP then - 22 else int (length str)), s)"
  using assms by (auto simp: phy_show_def phy_store_def reported_def)

text \<open>
  C35. What a plain attribute prints can be written back. With an external clock the two trims of
  the crystal print nothing but \<open>-\<close>19; every other plain attribute, and these without one, prints a
  text. If the value it holds is one its own write accepts (\<open>in_range\<close>), writing that text back takes
  all of it and leaves the driver and the chip as they were; asleep, the text is printed all the
  same, and writing it back is refused with \<open>-\<close>22 and changes nothing.
\<close>

theorem attributes_write_back:
  assumes "a \<in> plain_attrs" "in_range ev a s"
  shows "if a \<in> dcxo_attrs \<and> pd_use_extclk s then run_state (phy_show ev a) s = (Inl (- 19), s)
    else \<exists>str. run_state (phy_show ev a) s = (Inr str, s) \<and>
      run_state (phy_store ev a str) s =
        (Some (if st_curr_ensm_state s = ucast ENSM_STATE_SLEEP then - 22 else int (length str)), s)"
proof -
  note c = assms(2) [unfolded in_range_def]
  consider "a = AD9361_RF_RX_BANDWIDTH" | "a = AD9361_RF_TX_BANDWIDTH" | "a = AD9361_TRX_RATE_GOV"
    | "a = AD9361_FIR_RX_ENABLE" | "a = AD9361_FIR_TX_ENABLE" | "a \<in> dcxo_attrs" "pd_use_extclk s"
    | "a = AD9361_DCXO_TUNE_COARSE" "\<not> pd_use_extclk s" | "a = AD9361_DCXO_TUNE_FINE" "\<not> pd_use_extclk s"
    | "a = AD9361_XO_CORRECTION"
    using assms(1) unfolding plain_attrs_def dcxo_attrs_def by blast
  then show ?thesis
  proof cases
    case 1
    have g: "run_state (store_attr ev a (show_u32 (st_current_rx_bw_Hz s) @ [nl])) s = (Some 0, s)"
      unfolding 1 store_attr_def phy_attr.case using c 1 by (intro bandwidth_back) simp_all
    show ?thesis using shown_back [OF _ _ g] by (simp add: 1 show_attr_def dcxo_attrs_def)
  next
    case 2
    have g: "run_state (store_attr ev a (show_u32 (st_current_tx_bw_Hz s) @ [nl])) s = (Some 0, s)"
      unfolding 2 store_attr_def phy_attr.case using c 2 by (intro bandwidth_back) simp_all
    show ?thesis using shown_back [OF _ _ g] by (simp add: 2 show_attr_def dcxo_attrs_def)
  next
    case 3
    have g: "run_state (store_attr ev a ((if st_rate_governor s \<noteq> 0 then ''nominal'' else ''highest_osr'') @ [nl])) s = (Some 0, s)"
      unfolding 3 store_attr_def phy_attr.case using c 3 by (intro governor_back) simp_all
    show ?thesis using shown_back [OF _ _ g] by (simp add: 3 show_attr_def dcxo_attrs_def)
  next
    case 4
    have g: "run_state (store_attr ev a (show_flag (\<not> st_bypass_rx_fir s) @ [nl])) s = (Some 0, s)"
      unfolding 4 store_attr_def phy_attr.case by (intro fir_back) simp_all
    show ?thesis using shown_back [OF _ _ g] by (simp add: 4 show_attr_def dcxo_attrs_def)
  next
    case 5
    have g: "run_state (store_attr ev a (show_flag (\<not> st_bypass_tx_fir s) @ [nl])) s = (Some 0, s)"
      unfolding 5 store_attr_def phy_attr.case by (intro fir_back) simp_all
    show ?thesis using shown_back [OF _ _ g] by (simp add: 5 show_attr_def dcxo_attrs_def)
  next
    case 6
    then show ?thesis by (auto simp: dcxo_attrs_def phy_show_def show_attr_def)
  next
    case 7
    have g: "run_state (store_attr ev a (show_s32 (pd_dcxo_coarse s) @ [nl])) s = (Some 0, s)"
      unfolding 7 store_attr_def phy_attr.case using c 7 by (intro dcxo_back) simp_all
    show ?thesis using shown_back [OF _ _ g] 7(2) by (simp add: 7(1) show_attr_def)
  next
    case 8
    have g: "run_state (store_attr ev a (show_s32 (pd_dcxo_fine s) @ [nl])) s = (Some 0, s)"
      unfolding 8 store_attr_def phy_attr.case using c 8 by (intro dcxo_back) simp_all
    show ?thesis using shown_back [OF _ _ g] 8(2) by (simp add: 8(1) show_attr_def)
  next
    case 9
    have g: "run_state (store_attr ev a (show_u32 (bd_refin_rate (ev_board ev) s) @ [nl])) s = (Some 0, s)"
      unfolding 9 store_attr_def phy_attr.case using c 9 by (intro xo_back) simp_all
    show ?thesis using shown_back [OF _ _ g] by (simp add: 9 show_attr_def dcxo_attrs_def)
  qed
qed


text \<open>A board where everything succeeds, and the driver on a register file.\<close>

definition calm_board :: "'c board" where
  "calm_board = \<lparr>bd_refin_rate = (\<lambda>_. 40000000), bd_refin_enable = rtn 0, bd_enable = (\<lambda>_. rtn 0),
     bd_add_action = rtn 0, bd_set_parent = (\<lambda>_ _. rtn ()), bd_sync_pulse = id\<rparr>"

definition chip_env :: "regfile env" where
  "chip_env = \<lparr>ev_bus = chip_bus, ev_fw = fixed_clk 30720000, ev_board = calm_board, ev_tune = (\<lambda>_ _. rtn (Some 0)),
     ev_isqrt = id, ev_junk = 0, ev_set_refin = (\<lambda>_. rtn 0), ev_accuracy = (\<lambda>_. 25000), ev_ext_lo = (\<lambda>_. True),
     ev_set_parent = (\<lambda>_ _. rtn 0), ev_external = (\<lambda>_ _. False)\<rparr>"

text \<open>A board on an external clock: its bandwidth goes back, its trims are not there.\<close>

theorem attributes_write_back_witness:
  "let s = ad_zero\<lparr>st_curr_ensm_state := ucast ENSM_STATE_FDD, st_current_rx_bw_Hz := 18000000, pd_use_extclk := True\<rparr>
   in (\<exists>str. run_state (phy_show chip_env AD9361_RF_RX_BANDWIDTH) s = (Inr str, s) \<and>
        run_state (phy_store chip_env AD9361_RF_RX_BANDWIDTH str) s = (Some (int (length str)), s)) \<and>
      run_state (phy_show chip_env AD9361_DCXO_TUNE_FINE) s = (Inl (- 19), s)"
proof -
  let ?s = "ad_zero\<lparr>st_curr_ensm_state := ucast ENSM_STATE_FDD, st_current_rx_bw_Hz := 18000000, pd_use_extclk := True\<rparr>"
  have r: "in_range chip_env AD9361_RF_RX_BANDWIDTH ?s" "in_range chip_env AD9361_DCXO_TUNE_FINE ?s"
    by (simp_all add: in_range_def ad_zero_def validate_rf_bw_def clamp_u32_def)
  have p: "AD9361_RF_RX_BANDWIDTH \<in> plain_attrs" "AD9361_DCXO_TUNE_FINE \<in> plain_attrs"
    by (simp_all add: plain_attrs_def)
  show ?thesis
    using attributes_write_back [OF p(1) r(1)] attributes_write_back [OF p(2) r(2)]
    by (simp add: dcxo_attrs_def ad_regs Let_def)
qed

subsection \<open>Switching the filters\<close>

definition fir_attr :: "phy_attr \<Rightarrow> (bool \<times> bool) option" where
  "fir_attr a = (case a of AD9361_FIR_RX_ENABLE \<Rightarrow> Some (True, False) | AD9361_FIR_TX_ENABLE \<Rightarrow> Some (False, True)
     | AD9361_FIR_TRX_ENABLE \<Rightarrow> Some (True, True) | _ \<Rightarrow> None)"

lemma store_fir_attr: "fir_attr a = Some (rx, tx) \<Longrightarrow> store_attr ev a buf = store_fir_enable ev rx tx buf"
  by (auto simp: fir_attr_def store_attr_def split: phy_attr.splits)

lemma store_fir_refused:
  assumes "run_state (store_fir_enable ev rx tx buf) s = (Some r, t)" "r < 0" "kstrtobool buf = Inr res"
  shows "(rx \<longrightarrow> st_bypass_rx_fir t) \<and> (tx \<longrightarrow> st_bypass_tx_fir t)"
proof -
  define m where "m = validate_enable_fir (ev_bus ev) (ev_fw ev) (ev_tune ev) (ev_isqrt ev) (ev_junk ev)"
  obtain v u where v: "run_state m (bypass_firs rx tx (\<not> res) s) = (v, u)" by fastforce
  show ?thesis
    using assms v unfolding store_fir_enable_def m_def [symmetric]
    by (auto simp: run_state_if bypass_firs_def split: if_splits option.splits)
qed

text \<open>
  C36. A filter switch that is refused. Asleep, or with a text that is no switch, nothing changes;
  refused by the check of the filters or by anything the clock chain, the digital tuning or the
  bandwidth answers, the paths the switch is about are recorded as bypassed, whatever was asked
  for. This is what the driver notes and prints; the filter enables programmed into the chip before the
  failure are not undone.
\<close>

theorem fir_enable_refused:
  assumes "run_state (phy_store ev a buf) s = (Some r, t)" "r < 0" "fir_attr a = Some (rx, tx)"
  shows "if st_curr_ensm_state s = ucast ENSM_STATE_SLEEP then r = - 22 \<and> t = s
    else case kstrtobool buf of
           Inl e \<Rightarrow> r = e \<and> t = s
         | Inr _ \<Rightarrow> (rx \<longrightarrow> st_bypass_rx_fir t) \<and> (tx \<longrightarrow> st_bypass_tx_fir t)"
proof (cases "st_curr_ensm_state s = ucast ENSM_STATE_SLEEP")
  case True
  moreover have "a \<noteq> AD9361_ENSM_MODE" using assms(3) by (auto simp: fir_attr_def)
  ultimately show ?thesis using assms(1) by (simp add: phy_store_def)
next
  case False
  obtain v u where v: "run_state (store_fir_enable ev rx tx buf) s = (v, u)" by fastforce
  then have w: "map_option (reported buf) v = Some r" "u = t"
    using assms(1) False unfolding phy_store_def store_fir_attr [OF assms(3)] by auto
  show ?thesis
  proof (cases "kstrtobool buf")
    case (Inl e)
    then have "v = Some e" "t = s" using v w(2) by (simp_all add: store_fir_enable_def)
    then show ?thesis using w(1) assms(2) False Inl by (auto simp: reported_def split: if_splits)
  next
    case (Inr res)
    then show ?thesis
      using store_fir_refused [of ev rx tx buf s] v w assms(2) False by (auto simp: reported_def split: if_splits)
  qed
qed

theorem fir_enable_refused_witness:
  "\<exists>t. run_state (phy_store chip_env AD9361_FIR_TRX_ENABLE ''1'') ad_zero = (Some (- 22), t) \<and>
     ((True \<longrightarrow> st_bypass_rx_fir t) \<and> (True \<longrightarrow> st_bypass_tx_fir t))"
proof -
  have z: "st_bypass_rx_fir (ad_zero :: regfile ad9361)" "st_bypass_tx_fir (ad_zero :: regfile ad9361)"
    "st_curr_ensm_state (ad_zero :: regfile ad9361) = 0" by (simp_all add: ad_zero_def)
  have f: "\<not> fir_modes_ok (bypass_firs True True False (ad_zero :: regfile ad9361))"
    by (simp add: bypass_firs_def fir_modes_ok_def ad_zero_def)
  have k: "kstrtobool ''1'' = Inr True" by (simp add: kstrtobool_def)
  have "\<exists>t. run_state (phy_store chip_env AD9361_FIR_TRX_ENABLE ''1'') ad_zero = (Some (- 22), t)"
    using z f k by (simp add: phy_store_def store_attr_def store_fir_enable_def validate_enable_fir_def reported_def ad_regs)
  then obtain t where t: "run_state (phy_store chip_env AD9361_FIR_TRX_ENABLE ''1'') ad_zero = (Some (- 22), t)" by blast
  then show ?thesis
    using fir_enable_refused [OF t, of True True] z k by (simp add: fir_attr_def ad_regs)
qed


subsection \<open>Profiles as text\<close>

lemma pieces_plain: "d \<notin> set l \<Longrightarrow> pieces d l = [l]"
  by (induction l) auto

lemma pieces_first: "d \<notin> set l \<Longrightarrow> pieces d (l @ d # rest) = l # pieces d rest"
  by (induction l) auto

lemma pieces_join: "(\<And>x. x \<in> set xs \<Longrightarrow> d \<notin> set (f x)) \<Longrightarrow>
    pieces d (concat (map (\<lambda>x. f x @ [d]) xs) @ rest) = map f xs @ pieces d rest"
  by (induction xs) (simp_all add: pieces_first)

lemma nat_plain: "CHR '','' \<notin> set (show_nat n)"
  using show_nat_digits [of n] by (auto simp: is_digit_def)

lemma byte_back: "(ucast (word_of_int (int (unat w)) :: u32) :: u8) = w" for w :: u8
  by (simp add: ucast_eq [symmetric])

lemma read_value: "read_lo_line (show_nat n) = Lo_value (word_of_int (int n))"
  by (simp add: read_lo_line_def scan_int_end)
    (simp add: scan_int_def)

lemma read_value_line: "read_lo_line (show_nat n @ [nl]) = Lo_value (word_of_int (int n))"
proof -
  have "no_digit [nl]" "k_isspace nl" by (simp_all add: is_digit_def nl_def k_isspace_def is_space_def)
  then show ?thesis by (simp add: read_lo_line_def scan_int_nat) (simp add: scan_int_def)
qed

lemma read_profile: "read_lo_line (show_nat p @ CHR '' '' # show_nat v) = Lo_profile (word_of_int (int p)) (word_of_int (int v))"
  by (simp add: read_lo_line_def scan_int_nat is_digit_def skip_show_nat scan_int_end)

lemma load_values: "length vals + length ws \<le> 16 \<Longrightarrow>
    lo_load_lines (map (\<lambda>w. Lo_value (ucast w)) ws) p vals = Some (p, vals @ ws)"
  by (induction ws arbitrary: vals) simp_all

lemma profile_lines:
  assumes "length ws = 16"
  shows "map read_lo_line (pieces CHR '','' (show_profile p ws)) =
    Lo_profile (word_of_int (int (unat p))) (word_of_int (int (unat (hd ws)))) # map (\<lambda>w. Lo_value (word_of_int (int (unat w)))) (tl ws)"
proof -
  obtain w vs where "ws = w # vs" "vs \<noteq> []" using assms by (cases ws; cases "tl ws") auto
  then obtain mid l where ws: "ws = w # mid @ [l]" by (metis rev_exhaust)
  have printed: "show_profile p ws = (show_nat (unat p) @ CHR '' '' # show_nat (unat w)) @ CHR '','' #
      concat (map (\<lambda>x. show_nat (unat x) @ [CHR '','']) mid) @ show_nat (unat l) @ [nl]"
    by (simp add: show_profile_def ws)
  have "CHR '','' \<notin> set (show_nat (unat p) @ CHR '' '' # show_nat (unat w))" using nat_plain by auto
  moreover have "CHR '','' \<notin> set (show_nat (unat l) @ [nl])" using nat_plain by (auto simp: nl_def)
  ultimately show ?thesis
    unfolding printed unfolding ws by (simp add: pieces_first pieces_join nat_plain pieces_plain read_profile read_value read_value_line del: append_assoc append.simps)
qed

text \<open>
  A profile written to \<^verbatim>\<open>fastlock_load\<close> in the form \<^verbatim>\<open>fastlock_save\<close> prints it loads its
  sixteen words under its number, and all of the text is taken when that succeeds.
\<close>

theorem fastlock_text_roundtrip:
  assumes "length ws = 16" "st_curr_ensm_state s \<noteq> ucast ENSM_STATE_SLEEP"
    and "run_state (fastlock_load (ev_bus ev) (ch = 1) (ucast p) ws) s = (r, t)"
  shows "run_state (phy_lo_write ev LOEXT_LOAD ch (show_profile p ws)) s =
    (Some (if r \<noteq> 0 then r else int (length (show_profile p ws))), t)"
proof -
  obtain w vs where ws: "ws = w # vs" using assms(1) by (cases ws) auto
  have p: "word_of_int (int (unat p)) = (ucast p :: u32)" by (simp only: ucast_eq uint_nat)
  have "lo_load_lines (map read_lo_line (pieces CHR '','' (show_profile p ws))) 0 [] = Some (ucast p, ws)"
    unfolding profile_lines [OF assms(1)] using assms(1) by (simp add: ws load_values byte_back p)
  then show ?thesis
    using assms by (simp add: phy_lo_write_def lo_argument_def lo_do_def lo_load_def reported_def)
qed


theorem fastlock_text_roundtrip_witness:
  "\<exists>r t. run_state (fastlock_load (ev_bus chip_env) (0 = (1 :: nat)) (ucast (1 :: u8)) (replicate 16 7)) ad_zero = (r, t) \<and>
     run_state (phy_lo_write chip_env LOEXT_LOAD 0 (show_profile 1 (replicate 16 7))) ad_zero =
       (Some (if r \<noteq> 0 then r else int (length (show_profile 1 (replicate 16 7)))), t)"
proof -
  have awake: "st_curr_ensm_state (ad_zero :: regfile ad9361) \<noteq> ucast ENSM_STATE_SLEEP" by (simp add: ad_zero_def ad_regs)
  have len: "length (replicate 16 (7 :: u8)) = 16" by simp
  obtain r t where rt: "run_state (fastlock_load (ev_bus chip_env) (0 = (1 :: nat)) (ucast (1 :: u8)) (replicate 16 7)) ad_zero = (r, t)"
    by fastforce
  show ?thesis using rt fastlock_text_roundtrip [OF len awake rt] by blast
qed

subsection \<open>Gain of a transmit channel\<close>

lemma chip_only_set_tx_atten [chip_intro]: "chip_only (set_tx_atten bus a tx1 tx2 im)"
  unfolding set_tx_atten_def by (intro chip_intro)

text \<open>The number of quarter dB as the two integers of a gain.\<close>

lemma quarter_parts:
  assumes "(c :: u32) \<le> 359" "atten_val (250 * uint c) = VAL_INT_PLUS_MICRO_DB v w"
  shows "word_of_int (\<bar>v\<bar> * 1000 + \<bar>w\<bar> div 1000) = c * 250" "\<not> 0 < v" "\<not> (v = 0 \<and> 0 < w)"
proof -
  define m where "m = 250 * uint c"
  define a b where "a = m div 1000" and "b = m mod 1000"
  have "0 \<le> m" by (simp add: m_def)
  then have ab: "0 \<le> a" "0 \<le> b" "1000 * a + b = m" by (simp_all add: a_def b_def pos_imp_zdiv_nonneg_iff)
  have vw: "v = - a" "w = (if a = 0 then - (b * 1000) else b * 1000)"
    using assms(2) by (auto simp: atten_val_def Let_def a_def b_def m_def)
  have "\<bar>v\<bar> * 1000 + \<bar>w\<bar> div 1000 = m" using ab unfolding vw by (auto simp: abs_mult)
  then have "word_of_int (\<bar>v\<bar> * 1000 + \<bar>w\<bar> div 1000) = (word_of_int m :: u32)" by (rule arg_cong)
  then show "word_of_int (\<bar>v\<bar> * 1000 + \<bar>w\<bar> div 1000) = c * 250" by (simp add: m_def mult.commute)
  show "\<not> 0 < v" "\<not> (v = 0 \<and> 0 < w)" using ab unfolding vw by auto
qed

lemma quarter_back: "(c :: u32) \<le> 359 \<Longrightarrow> sint (c * 250) = 250 * uint c"
proof -
  assume "c \<le> 359"
  then have u: "unat c \<le> 359" by (simp add: word_le_nat_alt)
  then have "unat (c * 250) = unat c * 250" by (subst unat_mult_lem [THEN iffD1]) simp_all
  then have "sint (c * 250) = int (unat c * 250)" using u sint_eq_unat [of "c * 250"] by simp
  then show ?thesis unfolding uint_nat by simp
qed

lemma set_tx_atten_codes_any:
  assumes "c \<le> 359"
  shows "\<exists>s'. run_state (set_tx_atten chip_bus (c * 250) tx1 tx2 im) s = (0, s') \<and>
    atten_code False s' = (if tx1 then c else atten_code False s) \<and>
    atten_code True s' = (if tx2 then c else atten_code True s)"
proof (cases im)
  case True
  then show ?thesis using set_tx_atten_codes [OF assms] by fastforce
next
  case False
  have m: "IMMEDIATELY_UPDATE_TPC_ATTEN \<noteq> 0" by (simp add: ad_regs)
  have r: "REG_TX1_ATTEN_1 = atten_reg False" "REG_TX2_ATTEN_1 = atten_reg True" by (simp_all add: atten_reg_def)
  note scale = code_scale [OF assms]
  have "\<exists>v. run_state (set_tx_atten chip_bus (c * 250) tx1 tx2 im) s =
    (0, (if tx2 then put_code True c else id) ((if tx1 then put_code False c else id) (set_reg REG_TX2_DIG_ATTEN v s)))"
    unfolding set_tx_atten_def if_not_P [OF leD [OF scale(1)]] Let_def run_bind_eq [OF run_spi_writef [OF m]] r scale(2)
    using False by (cases tx1; cases tx2) (auto simp: run_put_code)
  then show ?thesis using scale(3) by (auto simp: code_put code_dig)
qed

text \<open>The transmit path behind a channel: its own, or in single-channel mode the one configured.\<close>

definition tx_path2 :: "'c ad9361 \<Rightarrow> nat \<Rightarrow> bool" where
  "tx_path2 s ch = (if pd_rx2tx2 s then ch = 1 else pd_rx1tx1_mode_use_tx_num s = 2)"

text \<open>
  C37. A transmit gain of a multiple of a quarter dB down to \<open>-\<close>89.75 dB, written as the two
  integers of the attribute, is read back as the same two integers, also between 0 and \<open>-\<close>1 dB
  where the sign is on the second. This holds for both channels with two of each, and for the
  one channel of single-channel mode on whichever path it is configured to use; the attenuation of
  the other path does not change; and it holds whether or not attenuations are applied at once.
\<close>

theorem tx_gain_roundtrip:
  assumes "ev_bus ev = chip_bus" "(c :: u32) \<le> 359" "ch < (if pd_rx2tx2 s then 2 else 1)"
    and "atten_val (250 * uint c) = VAL_INT_PLUS_MICRO_DB v w" "st_curr_ensm_state s \<noteq> ucast ENSM_STATE_SLEEP"
  shows "\<exists>t u. run_state (phy_write_raw ev IIO_CHAN_INFO_HARDWAREGAIN True ch v w) s = (Some 0, t) \<and>
    run_state (phy_read_raw ev IIO_CHAN_INFO_HARDWAREGAIN True ch) t = (Some (Inr (VAL_INT_PLUS_MICRO_DB v w)), u) \<and>
    atten_code (\<not> tx_path2 s ch) t = atten_code (\<not> tx_path2 s ch) s"
proof -
  note q = quarter_parts [OF assms(2,4)]
  let ?im = "\<not> pd_update_tx_gain_via_alert s"
  let ?w = "channel_map_1rx1tx True (int ch) s" and ?r = "\<lambda>t. word_of_int (channel_map_1rx1tx True (int ch + 1) t) :: u32"
  have map: "(?w = 0) = (\<not> tx_path2 s ch)" "(?w = 1) = tx_path2 s ch" "(?r s \<noteq> 1) = tx_path2 s ch"
    using assms(3) by (auto simp: channel_map_1rx1tx_def tx_path2_def less_2_cases_iff split: if_splits)
  obtain t where t: "run_state (set_tx_atten chip_bus (c * 250) (?w = 0) (?w = 1) ?im) s = (0, t)"
    "atten_code (tx_path2 s ch) t = c" "atten_code (\<not> tx_path2 s ch) t = atten_code (\<not> tx_path2 s ch) s"
    using set_tx_atten_codes_any [OF assms(2), of "?w = 0" "?w = 1" ?im s] unfolding map
    by (cases "tx_path2 s ch") auto
  have "chip_only (set_tx_atten chip_bus (c * 250) (?w = 0) (?w = 1) ?im)" by (intro chip_intro)
  from chip_onlyE [OF this, of s] have same: "?r t = ?r s" using t(1) by (auto simp: channel_map_1rx1tx_def)
  have "run_state (write_gain chip_bus True ch v w) s = (0, t)"
    using t(1) q by (simp add: write_gain_def Let_def)
  then have w: "run_state (phy_write_raw ev IIO_CHAN_INFO_HARDWAREGAIN True ch v w) s = (Some 0, t)"
    using assms(1,5) by (simp add: phy_write_raw_def)
  have "run_state (get_tx_atten chip_bus (?r t)) t = (250 * uint c, t)"
    unfolding run_get_tx_atten same map(3) using t(2) quarter_back [OF assms(2)] by simp
  then have "run_state (read_gain chip_bus True ch) t = (Some (Inr (VAL_INT_PLUS_MICRO_DB v w)), t)"
    using assms(4) by (simp add: read_gain_def Let_def not_less)
  then have "run_state (phy_read_raw ev IIO_CHAN_INFO_HARDWAREGAIN True ch) t = (Some (Inr (VAL_INT_PLUS_MICRO_DB v w)), t)"
    using assms(1) by (simp add: phy_read_raw_def)
  with w t(3) show ?thesis by blast
qed

text \<open>Single-channel mode on the second path, attenuations applied in ALERT.\<close>

theorem tx_gain_roundtrip_witness:
  "\<exists>t u. run_state (phy_write_raw chip_env IIO_CHAN_INFO_HARDWAREGAIN True 0 0 (- 750000))
       (ad_zero\<lparr>pd_rx2tx2 := False, pd_rx1tx1_mode_use_tx_num := 2, pd_update_tx_gain_via_alert := True\<rparr>) = (Some 0, t) \<and>
    run_state (phy_read_raw chip_env IIO_CHAN_INFO_HARDWAREGAIN True 0) t = (Some (Inr (VAL_INT_PLUS_MICRO_DB 0 (- 750000))), u)"
proof -
  let ?s = "ad_zero\<lparr>pd_rx2tx2 := False, pd_rx1tx1_mode_use_tx_num := 2, pd_update_tx_gain_via_alert := True\<rparr>"
  have "atten_val (250 * uint (3 :: u32)) = VAL_INT_PLUS_MICRO_DB 0 (- 750000)" by (simp add: atten_val_def)
  from tx_gain_roundtrip [OF _ _ _ this, of chip_env 0 ?s] show ?thesis
    by (auto simp: chip_env_def ad_zero_def ad_regs)
qed

subsection \<open>Mode of the gain control\<close>

lemma chip_only_option_step [chip_intro]:
  "chip_only m \<Longrightarrow> (\<And>y. chip_only (g y)) \<Longrightarrow> chip_only (case x of None \<Rightarrow> m | Some y \<Rightarrow> g y)"
  by (simp split: option.split)

lemma chip_only_gain_ctrl_mode: "chip_only (set_gain_ctrl_mode bus fw gctl)"
  unfolding set_gain_ctrl_mode_def en_dis_rx_def gc_update_def by (intro chip_intro)

text \<open>
  C38. The mode is noted before the chip is told. Whatever the first write of a mode returned,
  a second one reports success and does nothing.
\<close>

theorem agc_mode_retry:
  assumes "run_state (set_agc_mode ev ch mode) s = (r, t)" "mode < 256"
  shows "run_state (set_agc_mode ev ch mode) t = (Some 0, t)"
proof -
  have m: "ucast (ucast mode :: u8) = mode"
    using assms(2) by (simp add: word_unat_eq_iff word_less_nat_alt unsigned_ucast_eq unsigned_take_bit_eq take_bit_nat_eq_self)
  have "ucast (agc_mode ch t) = mode"
  proof (cases "ucast (agc_mode ch s) = mode")
    case True
    then show ?thesis using assms(1) by (simp add: set_agc_mode_def)
  next
    case False
    define s1 where "s1 = (if ch = 0 then s\<lparr>st_agc_mode0 := ucast mode\<rparr> else s\<lparr>st_agc_mode1 := ucast mode\<rparr>)"
    obtain g where g: "run_state (set_gain_ctrl_mode (ev_bus ev) (ev_fw ev) g) s1 = (r, t)"
      using assms(1) False unfolding set_agc_mode_def s1_def by (auto simp: run_state_if split: if_splits)
    moreover obtain x c where "run_state (set_gain_ctrl_mode (ev_bus ev) (ev_fw ev) g) s1 = (x, s1\<lparr>ad_chip := c\<rparr>)"
      using chip_onlyE [OF chip_only_gain_ctrl_mode [of "ev_bus ev" "ev_fw ev" g], of s1] by metis
    ultimately have "t = s1\<lparr>ad_chip := c\<rparr>" by simp
    then have "agc_mode ch t = agc_mode ch s1" by (simp add: agc_mode_def)
    then show ?thesis using m by (simp add: agc_mode_def s1_def)
  qed
  then show ?thesis by (simp add: set_agc_mode_def)
qed


text \<open>A bus on which every transfer fails.\<close>

definition dead_env :: "regfile env" where
  "dead_env = chip_env\<lparr>ev_bus := (\<lambda>tx n c. (- 5, [], c))\<rparr>"

theorem agc_mode_retry_witness:
  "\<exists>t. run_state (set_agc_mode dead_env 0 2) ad_zero = (Some (- 5), t) \<and>
     run_state (set_agc_mode dead_env 0 2) t = (Some 0, t)"
proof -
  have "\<exists>t. run_state (set_agc_mode dead_env 0 2) ad_zero = (Some (- 5), t)"
    by (simp add: set_agc_mode_def agc_mode_def ad_zero_def dead_env_def set_gain_ctrl_mode_def spi_readm_def
        spi_write_then_read_def MAX_MBYTE_SPI_def)
  then obtain t where "run_state (set_agc_mode dead_env 0 2) ad_zero = (Some (- 5), t)" by blast
  then show ?thesis using agc_mode_retry [of dead_env 0 2 ad_zero "Some (- 5)" t] by simp
qed

subsection \<open>Gain step errors as text\<close>

lemma overlay_all: "length vs = length ws \<Longrightarrow> overlay (map sint ws @ rest) vs = ws"
  by (simp add: overlay_def comp_def)

lemma scan_spaced_s32: "no_digit rest \<Longrightarrow>
    scan_items (concat (map (\<lambda>_. [Sp, Conv True]) ws) @ f) (spaced ws @ rest) = map sint ws @ scan_items f rest"
proof (induction ws)
  case (Cons w ws)
  have "no_digit (spaced ws @ rest)" using Cons.prems by (cases ws) (auto simp: spaced_def is_digit_def)
  then show ?case using Cons by (simp add: spaced_def show_s32_def skip_show_int scan_int_show)
qed (simp add: spaced_def)

lemma gain_errors_items:
  "fmt_items gain_errors_fmt = map Lit ''lna_error:'' @ concat (replicate 4 [Sp, Conv True]) @
     Sp # map Lit ''mixer_error:'' @ concat (replicate 16 [Sp, Conv True]) @
     Sp # map Lit ''gain_step_calib_reg_val:'' @ concat (replicate 5 [Sp, Conv True])"
  by code_simp

lemma scan_lits: "scan_items (map Lit p @ f) (p @ str) = scan_items f str"
  by (induction p) simp_all

lemma nl_space: "k_isspace nl" "no_digit (nl # str)"
  by (simp_all add: nl_def k_isspace_def is_space_def is_digit_def)

lemma scan_section:
  assumes "no_digit rest"
  shows "scan_items (map Lit p @ concat (map (\<lambda>_. [Sp, Conv True]) ws) @ f) (p @ spaced ws @ rest) = map sint ws @ scan_items f rest"
  unfolding scan_lits by (rule scan_spaced_s32 [OF assms])

lemma skip_line: "str \<noteq> [] \<Longrightarrow> \<not> k_isspace (hd str) \<Longrightarrow> scan_items (Sp # f) (nl # str) = scan_items f str"
  using nl_space(1) by (cases str) simp_all

lemma scan_gain_errors:
  assumes "length ls = 4" "length ms = 16" "length gs = 5"
  shows "sscanf (''lna_error:'' @ spaced ls @ [nl] @ ''mixer_error:'' @ spaced ms @ [nl] @
      ''gain_step_calib_reg_val:'' @ spaced gs @ [nl]) gain_errors_fmt = map sint ls @ map sint ms @ map sint gs"
proof -
  let ?r = "\<lambda>ws :: u32 list. concat (map (\<lambda>_. [Sp, Conv True]) ws)"
  have r: "concat (replicate 4 [Sp, Conv True]) = ?r ls" "concat (replicate 16 [Sp, Conv True]) = ?r ms"
    "concat (replicate 5 [Sp, Conv True]) = ?r gs @ []"
    using assms by (simp_all only: map_replicate_const append_Nil2)
  define l m g where "l = ''lna_error:''" and "m = ''mixer_error:''" and "g = ''gain_step_calib_reg_val:''"
  have start: "m \<noteq> []" "g \<noteq> []" "\<not> k_isspace (hd m)" "\<not> k_isspace (hd g)"
    by (simp_all add: m_def g_def k_isspace_def is_space_def)
  have "scan_items (map Lit g @ ?r gs @ []) (g @ spaced gs @ [nl]) = map sint gs"
    using scan_section [of "[nl]" g gs "[]"] nl_space(2) by simp
  then have "scan_items (map Lit m @ ?r ms @ Sp # map Lit g @ ?r gs @ []) (m @ spaced ms @ nl # g @ spaced gs @ [nl]) =
      map sint ms @ map sint gs"
    using scan_section [of "nl # g @ spaced gs @ [nl]" m ms "Sp # map Lit g @ ?r gs @ []"] nl_space(2)
      skip_line [of "g @ spaced gs @ [nl]"] start by simp
  then have "scan_items (map Lit l @ ?r ls @ Sp # map Lit m @ ?r ms @ Sp # map Lit g @ ?r gs @ [])
      (l @ spaced ls @ nl # m @ spaced ms @ nl # g @ spaced gs @ [nl]) = map sint ls @ map sint ms @ map sint gs"
    using scan_section [of "nl # m @ spaced ms @ nl # g @ spaced gs @ [nl]" l ls "Sp # map Lit m @ ?r ms @ Sp # map Lit g @ ?r gs @ []"]
      nl_space(2) skip_line [of "m @ spaced ms @ nl # g @ spaced gs @ [nl]"] start by simp
  then show ?thesis
    unfolding sscanf_def gain_errors_items r l_def [symmetric] m_def [symmetric] g_def [symmetric] by simp
qed

lemma overlay_last: "length vs = length ws \<Longrightarrow> overlay (map sint ws) vs = ws"
  using overlay_all [of vs ws "[]"] by simp

text \<open>
  The gain step errors written as they are printed are the tables there were: the scan takes
  all 25 numbers, negative ones too, and stores what was there.
\<close>

theorem gain_errors_roundtrip:
  assumes "length (pd_rssi_lna_err_tbl s) = 4" "length (pd_rssi_mixer_err_tbl s) = 16"
    "length (pd_rssi_gain_step_calib_reg_val s) = 5" "length (pd_rssi_lna_err_tbl t) = 4"
    "length (pd_rssi_mixer_err_tbl t) = 16" "length (pd_rssi_gain_step_calib_reg_val t) = 5"
  shows "length (sscanf (show_gain_errors s) gain_errors_fmt) = 25 \<and>
    take_gain_errors (sscanf (show_gain_errors s) gain_errors_fmt) t =
      t\<lparr>pd_rssi_lna_err_tbl := pd_rssi_lna_err_tbl s, pd_rssi_mixer_err_tbl := pd_rssi_mixer_err_tbl s,
        pd_rssi_gain_step_calib_reg_val := pd_rssi_gain_step_calib_reg_val s\<rparr>"
proof -
  have scan: "sscanf (show_gain_errors s) gain_errors_fmt = map sint (pd_rssi_lna_err_tbl s) @
      map sint (pd_rssi_mixer_err_tbl s) @ map sint (pd_rssi_gain_step_calib_reg_val s)"
    using scan_gain_errors [OF assms(1-3)] assms(1-3) unfolding show_gain_errors_def by (simp only: take_all order_refl)
  show ?thesis
    unfolding scan using assms by (simp add: take_gain_errors_def overlay_all overlay_last)
qed

theorem gain_errors_roundtrip_witness:
  "length (sscanf (show_gain_errors ad_zero) gain_errors_fmt) = 25 \<and>
    take_gain_errors (sscanf (show_gain_errors ad_zero) gain_errors_fmt) (ad_zero\<lparr>pd_rssi_lna_err_tbl := [1, 2, 3, - 4]\<rparr>) = ad_zero"
proof -
  let ?t = "ad_zero\<lparr>pd_rssi_lna_err_tbl := [1, 2, 3, - 4]\<rparr>"
  have l: "length (pd_rssi_lna_err_tbl (ad_zero :: regfile ad9361)) = 4" "length (pd_rssi_mixer_err_tbl (ad_zero :: regfile ad9361)) = 16"
    "length (pd_rssi_gain_step_calib_reg_val (ad_zero :: regfile ad9361)) = 5" by (simp_all add: ad_zero_def)
  show ?thesis using gain_errors_roundtrip [OF l, of ?t] l by simp
qed

subsection \<open>Asleep\<close>

text \<open>
  A sleeping device refuses every attribute but the mode, every value of a carrier and
  every raw value, and nothing changes.
\<close>

lemma asleep_refuses:
  assumes "st_curr_ensm_state s = ucast ENSM_STATE_SLEEP"
  shows "(a \<noteq> AD9361_ENSM_MODE \<longrightarrow> run_state (phy_store ev a buf) s = (Some (- 22), s)) \<and>
    run_state (phy_lo_write ev p ch buf) s = (Some (- 22), s) \<and>
    run_state (phy_write_raw ev m output ch v w) s = (Some (- 22), s)"
  using assms by (simp add: phy_store_def phy_lo_write_def phy_write_raw_def)

text \<open>A text that names no mode is taken without an error, and ends independent FDD.\<close>

lemma unknown_mode:
  assumes "streq_lookup buf ensm_modes = None"
  shows "run_state (phy_store ev AD9361_ENSM_MODE buf) s = (Some (int (length buf)), s\<lparr>pd_fdd_independent_mode := False\<rparr>)"
  using assms by (simp add: phy_store_def store_attr_def store_ensm_mode_def reported_def)

end
