(* ===== verification/Ad_Dt_Props.thy ===== *)
theory Ad_Dt_Props
  imports Ad_Dbg Ad_Attr_Props
begin

unbundle bit_operations_syntax

text \<open>
  The debugfs table is large enough, exactly; what is written into the file of a property is
  what is read from it; the device tree is refused for nothing but its path rates; and the two
  fast lock delays end up in each other's place.
\<close>

subsection \<open>The table\<close>

lemma add_all: "length es + length xs \<le> MAX_DEBUGFS_ENTRIES \<Longrightarrow> foldl add_entry es xs = es @ xs"
  by (induction xs arbitrary: es) (simp_all add: add_entry_def)

lemmas dt_lists = dt_modes_def dt_channels_def dt_clocks_def dt_offsets_def dt_levels_def dt_gain_def dt_agc_def
  dt_fast_agc_def dt_fast_unlock_def dt_rssi_def dt_aux_def dt_gpo_def dt_txmon_def

lemmas dt_builders = u32_field_def int_field_def u16_field_def u8_field_def bool_field_def enum_field_def

lemma dt_fields_length: "length (dt_fields dev) = (if dev = ID_AD9363A then 168 else 171)"
  by (simp add: dt_fields_def dt_lists)

text \<open>
  The table of debugfs entries has room for every property of the device tree and every
  command, so nothing is dropped; for all but the AD9363A it is then full.
\<close>

theorem debugfs_entries_fit:
  "debugfs_entries dev = (map dt_entry (dt_fields dev) @ cmd_entries :: 'c debugfs_entry list) \<and>
   length (debugfs_entries dev :: 'c debugfs_entry list) = (if dev = ID_AD9363A then 179 else MAX_DEBUGFS_ENTRIES)"
proof -
  have all: "debugfs_entries dev = (map dt_entry (dt_fields dev) @ cmd_entries :: 'c debugfs_entry list)"
    unfolding debugfs_entries_def
    by (subst add_all) (simp_all add: dt_fields_length cmd_entries_def MAX_DEBUGFS_ENTRIES_def)
  have "length (cmd_entries :: 'c debugfs_entry list) = 11" by (simp add: cmd_entries_def)
  then show ?thesis unfolding all by (simp add: dt_fields_length MAX_DEBUGFS_ENTRIES_def)
qed

subsection \<open>Writing and reading a property\<close>

text \<open>What a variable keeps of a number.\<close>

definition stored :: "'c dt_field \<Rightarrow> u32 \<Rightarrow> u32" where
  "stored f v = (if df_size f = 1 then v AND 0xFF else if df_size f = 2 then v AND 0xFFFF
     else if df_size f = 5 then of_bool (v \<noteq> 0) else v)"

definition field_ok :: "'c dt_field \<Rightarrow> bool" where
  "field_ok f \<longleftrightarrow> (\<forall>v s t. df_put f v s = Some t \<longrightarrow> df_get f t = stored f v)"

lemma low_bytes:
  "ucast (ucast v :: u8) = v AND 0xFF" "ucast (ucast v :: u16) = v AND 0xFFFF" for v :: u32
proof -
  have m: "0xFF = (mask 8 :: u32)" "0xFFFF = (mask 16 :: u32)" by (simp_all add: mask_eq_exp_minus_1)
  show "ucast (ucast v :: u8) = v AND 0xFF" "ucast (ucast v :: u16) = v AND 0xFFFF"
    unfolding m by (rule bit_word_eqI; auto simp: bit_simps)+
qed

lemma field_ok_builders:
  "(\<And>v s. g (u (\<lambda>_. v) s) = v) \<Longrightarrow> field_ok (u32_field n d g u)"
  "(\<And>v s. g' (u' (\<lambda>_. v) s) = v) \<Longrightarrow> field_ok (int_field n d g' u')"
  "(\<And>v s. h (w (\<lambda>_. v) s) = v) \<Longrightarrow> field_ok (u16_field n d h w)"
  "(\<And>v s. h' (w' (\<lambda>_. v) s) = v) \<Longrightarrow> field_ok (u8_field n d h' w')"
  "(\<And>v s. b (c (\<lambda>_. v) s) = v) \<Longrightarrow> field_ok (bool_field n b c)"
  by (auto simp: field_ok_def stored_def dt_builders low_bytes)

lemma index_in_nth: "distinct xs \<Longrightarrow> i < length xs \<Longrightarrow> index_in xs (xs ! i) = i"
  by (induction xs arbitrary: i) (auto simp: nth_Cons' in_set_conv_nth)

lemma field_ok_enum: "distinct xs \<Longrightarrow> (\<And>v s. g (u (\<lambda>_. v) s) = v) \<Longrightarrow> field_ok (enum_field xs n d g u)"
  by (auto simp: field_ok_def stored_def dt_builders index_in_nth split: if_splits)

lemma enums_distinct [simp]: "distinct gain_index_types" "distinct rssi_modes" "distinct clkouts"
  by (simp_all add: gain_index_types_def rssi_modes_def clkouts_def)

lemma groups_ok:
  "list_all field_ok dt_modes" "list_all field_ok dt_channels" "list_all field_ok dt_clocks" "list_all field_ok dt_offsets"
  "list_all field_ok dt_levels" "list_all field_ok dt_gain" "list_all field_ok dt_agc" "list_all field_ok dt_fast_agc"
  "list_all field_ok dt_fast_unlock" "list_all field_ok dt_rssi" "list_all field_ok dt_aux" "list_all field_ok dt_gpo"
  "list_all field_ok dt_txmon"
  by (simp_all add: dt_lists field_ok_builders field_ok_enum)

lemma dt_fields_ok: "f \<in> set (dt_fields dev) \<Longrightarrow> field_ok f"
  using groups_ok unfolding dt_fields_def list_all_iff by (auto split: if_splits)

lemma length_show_nat: "n < 10 ^ Suc k \<Longrightarrow> length (show_nat n) \<le> Suc k"
proof (induction k arbitrary: n)
  case 0
  then show ?case by (simp add: show_nat.simps [of n])
next
  case (Suc k)
  then have "n div 10 < 10 ^ Suc k" by (simp add: div_less_iff_less_mult)
  then show ?case using Suc.IH [of "n div 10"] by (simp add: show_nat.simps [of n])
qed

lemma show_u32_short: "length (show_u32 v) \<le> 10"
proof -
  have "unat v < 2 ^ LENGTH(32)" by (rule unsigned_less)
  then show ?thesis unfolding show_u32_def by (intro length_show_nat [of _ 9, simplified]) simp
qed

lemma scan_shown: "scan_numbers (show_u32 v @ [nl]) = [v]"
proof -
  have "no_digit [nl]" "hd [nl] \<notin> set ''xX''" "k_isspace nl"
    by (simp_all add: nl_def is_digit_def k_isspace_def is_space_def)
  then have "scan_any_int (show_nat (unat v) @ [nl]) = Some (int (unat v), [nl])" "dropWhile k_isspace [nl] = []"
    using scan_any_int_show [of "[nl]" "int (unat v)"] by (simp_all add: show_int_def)
  then show ?thesis by (simp add: scan_numbers_def show_u32_def) (simp add: scan_any_int_def)
qed

text \<open>
  C39. A number written into the debugfs file of a device tree property is taken as a whole and
  read back cut to the width of the property's variable; to a truth value if it is a switch.
\<close>

theorem debugfs_write_read:
  assumes "f \<in> set (dt_fields dev)" "df_put f v s = Some t"
  shows "run_state (debugfs_write ev ax pin cal_sw (dt_entry f) val (show_u32 v @ [nl])) s =
      ((Some (int (length (show_u32 v @ [nl]))), val), t) \<and>
    run_state (debugfs_read ev ax (dt_entry f) val) t = ((Some (Dbg_text (show_u32 (stored f v) @ [nl])), val), t)"
proof -
  define str where "str = show_u32 v @ [nl]"
  have str: "take 79 str = str" "scan_numbers str = [v]" using show_u32_short [of v] scan_shown by (simp_all add: str_def)
  have "df_get f t = stored f v" using dt_fields_ok [OF assms(1)] assms(2) by (simp add: field_ok_def)
  then show ?thesis
    using assms(2) unfolding str_def [symmetric]
    by (simp add: debugfs_write_def debugfs_read_def str dt_entry_def store_out_value_def Let_def)
qed

text \<open>A gain mode of 300 in a byte.\<close>

definition rx1_mode_field :: "'c dt_field" where
  "rx1_mode_field = u8_field ''adi,gc-rx1-mode'' 0 (\<lambda>s. gc_rx1_mode (pd_gain_ctrl s)) (\<lambda>f. pd_gain_ctrl_update (gc_rx1_mode_update f))"

lemma rx1_mode_there: "rx1_mode_field \<in> set (dt_fields dev)"
  by (simp add: rx1_mode_field_def dt_fields_def dt_gain_def)

theorem debugfs_write_read_witness:
  "\<forall>ax. \<exists>t. run_state (debugfs_write chip_env ax None None (dt_entry rx1_mode_field) 0 (show_u32 300 @ [nl])) ad_zero =
      ((Some (int (length (show_u32 300 @ [nl]))), 0), t) \<and>
    run_state (debugfs_read chip_env ax (dt_entry rx1_mode_field) 0) t =
      ((Some (Dbg_text (show_u32 44 @ [nl])), 0), t)"
proof
  fix ax
  obtain t where t: "df_put rx1_mode_field 300 (ad_zero :: regfile ad9361) = Some t"
    by (simp add: rx1_mode_field_def u8_field_def)
  show "\<exists>t. run_state (debugfs_write chip_env ax None None (dt_entry rx1_mode_field) 0 (show_u32 300 @ [nl])) ad_zero =
      ((Some (int (length (show_u32 300 @ [nl]))), 0), t) \<and>
    run_state (debugfs_read chip_env ax (dt_entry rx1_mode_field) 0) t = ((Some (Dbg_text (show_u32 44 @ [nl])), 0), t)"
    using debugfs_write_read [OF rx1_mode_there t, of chip_env ax None None 0] by (auto simp: stored_def rx1_mode_field_def u8_field_def)
qed


subsection \<open>The parser\<close>

lemma dt_run_append: "dt_run (fs @ gs) s = (case dt_run fs s of Dt_ok t \<Rightarrow> dt_run gs t | Dt_null \<Rightarrow> Dt_null | Dt_foreign \<Rightarrow> Dt_foreign)"
  by (induction fs arbitrary: s) (simp_all split: dt_out.split)

text \<open>A step that leaves a part of the state alone.\<close>

definition dt_keeps :: "('s \<Rightarrow> 'a) \<Rightarrow> ('s \<Rightarrow> 's dt_out) \<Rightarrow> bool" where
  "dt_keeps g f \<longleftrightarrow> (\<forall>s t. f s = Dt_ok t \<longrightarrow> g t = g s)"

lemma dt_run_keeps: "list_all (dt_keeps g) fs \<Longrightarrow> dt_run fs s = Dt_ok t \<Longrightarrow> g t = g s"
  by (induction fs arbitrary: s) (fastforce simp: dt_keeps_def split: dt_out.splits)+

lemma dt_keeps_ok: "(\<And>s. g (f s) = g s) \<Longrightarrow> dt_keeps g (\<lambda>s. Dt_ok (f s))"
  by (simp add: dt_keeps_def)

lemma dt_keeps_fields:
  "(\<And>v s. g (u (\<lambda>_. v) s) = g s) \<Longrightarrow> dt_keeps g (read_field node (u32_field n d h u))"
  "(\<And>v s. g (u' (\<lambda>_. v) s) = g s) \<Longrightarrow> dt_keeps g (read_field node (int_field n d h' u'))"
  "(\<And>v s. g (w (\<lambda>_. v) s) = g s) \<Longrightarrow> dt_keeps g (read_field node (u16_field n d i w))"
  "(\<And>v s. g (w' (\<lambda>_. v) s) = g s) \<Longrightarrow> dt_keeps g (read_field node (u8_field n d i' w'))"
  "(\<And>v s. g (x (\<lambda>_. v) s) = g s) \<Longrightarrow> dt_keeps g (read_field node (bool_field n j x))"
  "(\<And>v s. g (y (\<lambda>_. v) s) = g s) \<Longrightarrow> dt_keeps g (read_field node (enum_field zs n d k y))"
  by (auto simp: dt_keeps_def read_field_def dt_builders split: if_splits)

definition delays :: "'c ad9361 \<Rightarrow> u32 \<times> u32" where
  "delays s = (pd_rx_fastlock_delay_ns s, pd_tx_fastlock_delay_ns s)"

lemma delays_kept_by_groups:
  "list_all (dt_keeps delays) (map (read_field node) dt_channels)" "list_all (dt_keeps delays) (map (read_field node) dt_clocks)"
  "list_all (dt_keeps delays) (map (read_field node) dt_offsets)" "list_all (dt_keeps delays) (map (read_field node) dt_levels)"
  "list_all (dt_keeps delays) (map (read_field node) dt_gain)" "list_all (dt_keeps delays) (map (read_field node) dt_agc)"
  "list_all (dt_keeps delays) (map (read_field node) dt_fast_agc)" "list_all (dt_keeps delays) (map (read_field node) dt_fast_unlock)"
  "list_all (dt_keeps delays) (map (read_field node) dt_rssi)" "list_all (dt_keeps delays) (map (read_field node) dt_aux)"
  "list_all (dt_keeps delays) (map (read_field node) dt_gpo)" "list_all (dt_keeps delays) (map (read_field node) dt_txmon)"
  by (simp_all add: dt_lists dt_keeps_fields delays_def)

lemma delays_kept_by_steps:
  "dt_keeps delays (\<lambda>s. Dt_ok (s\<lparr>pd_port_ctrl := dt_port node (pd_port_ctrl s)\<rparr>))" "dt_keeps delays (\<lambda>s. Dt_ok (dt_synth node s))"
  "dt_keeps delays (\<lambda>s. Dt_ok (dt_ad9363a s))" "dt_keeps delays (dt_path_clks node)" "dt_keeps delays (\<lambda>s. Dt_ok (dt_rssi_tables node s))"
  by (auto simp: delays_def dt_keeps_def dt_synth_def dt_ad9363a_def dt_path_clks_def dt_rssi_tables_def Let_def split: option.splits)

text \<open>
  C40. The device tree has the two fast lock delays the wrong way round: the receiver gets the
  number of \<^verbatim>\<open>adi,tx-fastlock-delay-ns\<close>, the transmitter that of \<^verbatim>\<open>adi,rx-fastlock-delay-ns\<close>, and
  nothing that is read after them changes it.
\<close>

theorem dt_swaps_fastlock_delays:
  assumes "phy_parse_dt node s = Dt_ok t"
  shows "pd_rx_fastlock_delay_ns t = of_u32 node ''adi,tx-fastlock-delay-ns'' 0 \<and>
    pd_tx_fastlock_delay_ns t = of_u32 node ''adi,rx-fastlock-delay-ns'' 0"
proof -
  let ?f = "map (read_field node)"
  let ?rest = "[\<lambda>s. Dt_ok (s\<lparr>pd_port_ctrl := dt_port node (pd_port_ctrl s)\<rparr>)] @ ?f dt_channels @
    [\<lambda>s. Dt_ok (dt_synth node s), \<lambda>s. Dt_ok (dt_ad9363a s)] @ ?f (if pd_dev s = ID_AD9363A then [] else dt_clocks) @
    ?f dt_offsets @ [dt_path_clks node] @ ?f (dt_levels @ dt_gain @ dt_agc @ dt_fast_agc @ dt_fast_unlock @ dt_rssi) @
    [\<lambda>s. Dt_ok (dt_rssi_tables node s)] @ ?f (dt_aux @ dt_gpo @ dt_txmon)"
  have "dt_run (?f dt_modes @ ?rest) (zero_pdata s) = Dt_ok t"
    using assms by (simp only: phy_parse_dt_def Let_def append.simps dt_run.simps dt_out.case)
  then obtain u where u: "dt_run (?f dt_modes) (zero_pdata s) = Dt_ok u" "dt_run ?rest u = Dt_ok t"
    unfolding dt_run_append [of "?f dt_modes"] by (auto split: dt_out.splits)
  have "list_all (dt_keeps delays) ?rest"
    by (cases "pd_dev s = ID_AD9363A") (simp_all only: if_True if_False map_append list.map list_all_append
        list.pred_inject append.simps delays_kept_by_groups delays_kept_by_steps simp_thms)
  then have "delays t = delays u" using u(2) by (rule dt_run_keeps)
  moreover have "delays u = (of_u32 node ''adi,tx-fastlock-delay-ns'' 0, of_u32 node ''adi,rx-fastlock-delay-ns'' 0)"
    using u(1) by (auto simp: delays_def dt_modes_def read_field_def field_value_def dt_builders)
  ultimately show ?thesis by (simp add: delays_def)
qed

text \<open>A tree with the path rates and one delay.\<close>

definition small_tree :: dt_node where
  "small_tree = [''adi,rx-path-clock-frequencies'' \<mapsto> replicate 6 0, ''adi,tx-path-clock-frequencies'' \<mapsto> replicate 6 0,
     ''adi,tx-fastlock-delay-ns'' \<mapsto> [700]]"

text \<open>Every group of fields that only has numbers in range gives a state.\<close>

definition dt_total :: "('s \<Rightarrow> 's dt_out) \<Rightarrow> bool" where
  "dt_total f \<longleftrightarrow> (\<forall>s. \<exists>t. f s = Dt_ok t)"

lemma dt_run_total: "list_all dt_total fs \<Longrightarrow> \<exists>t. dt_run fs s = Dt_ok t"
proof (induction fs arbitrary: s)
  case (Cons f fs)
  then obtain t where "f s = Dt_ok t" by (auto simp: dt_total_def)
  then show ?case using Cons by simp
qed simp

lemma dt_total_fields:
  "dt_total (read_field node (u32_field n d h u))" "dt_total (read_field node (int_field n d h' u'))"
  "dt_total (read_field node (u16_field n d i w))" "dt_total (read_field node (u8_field n d i' w'))"
  "dt_total (read_field node (bool_field n j x))"
  "unat (of_u32 node n d) < length zs \<Longrightarrow> dt_total (read_field node (enum_field zs n d k y))"
  by (auto simp: dt_total_def read_field_def field_value_def dt_builders)

text \<open>The numbers of the four enumerations are in range.\<close>

definition enums_known :: "dt_node \<Rightarrow> bool" where
  "enums_known node \<longleftrightarrow> unat (of_u32 node ''adi,clk-output-mode-select'' 0) < 7 \<and>
     unat (of_u32 node ''adi,fagc-gain-index-type-after-exit-rx-mode'' 0) < 4 \<and>
     unat (of_u32 node ''adi,fagc-rst-gla-if-en-agc-pulled-high-mode'' 0) < 4 \<and>
     unat (of_u32 node ''adi,rssi-restart-mode'' 3) < 6"

lemma groups_total:
  assumes "enums_known node"
  shows "list_all dt_total (map (read_field node) dt_modes)"
    "list_all dt_total (map (read_field node) dt_channels)"
    "list_all dt_total (map (read_field node) dt_clocks)"
    "list_all dt_total (map (read_field node) dt_offsets)"
    "list_all dt_total (map (read_field node) dt_levels)"
    "list_all dt_total (map (read_field node) dt_gain)"
    "list_all dt_total (map (read_field node) dt_agc)"
    "list_all dt_total (map (read_field node) dt_fast_agc)"
    "list_all dt_total (map (read_field node) dt_fast_unlock)"
    "list_all dt_total (map (read_field node) dt_rssi)"
    "list_all dt_total (map (read_field node) dt_aux)"
    "list_all dt_total (map (read_field node) dt_gpo)"
    "list_all dt_total (map (read_field node) dt_txmon)"
  using assms [unfolded enums_known_def]
  by (simp_all add: dt_lists dt_total_fields gain_index_types_def rssi_modes_def clkouts_def)

lemma dt_steps_total:
  "dt_total (\<lambda>s. Dt_ok (f s))"
  by (simp add: dt_total_def)

definition path_rates_there :: "dt_node \<Rightarrow> bool" where
  "path_rates_there node \<longleftrightarrow> of_array node ''adi,rx-path-clock-frequencies'' 6 \<noteq> None \<and>
     of_array node ''adi,tx-path-clock-frequencies'' 6 \<noteq> None"

lemma path_clks_total: "path_rates_there node \<Longrightarrow> dt_total (dt_path_clks node)"
  by (auto simp: path_rates_there_def dt_total_def dt_path_clks_def)

lemma path_clks_null: "\<not> path_rates_there node \<Longrightarrow> dt_path_clks node s = Dt_null"
  by (auto simp: path_rates_there_def dt_path_clks_def split: option.split)

lemma parse_dt_by_rates:
  assumes "enums_known node"
  shows "if path_rates_there node then \<exists>t. phy_parse_dt node s = Dt_ok t else phy_parse_dt node s = Dt_null"
proof -
  let ?f = "map (read_field node)"
  let ?fst = "[\<lambda>s. Dt_ok (zero_pdata s)] @ ?f dt_modes @
        [\<lambda>s. Dt_ok (s\<lparr>pd_port_ctrl := dt_port node (pd_port_ctrl s)\<rparr>)] @ ?f dt_channels @
        [\<lambda>s. Dt_ok (dt_synth node s), \<lambda>s. Dt_ok (dt_ad9363a s)] @ ?f (if pd_dev s = ID_AD9363A then [] else dt_clocks) @
        ?f dt_offsets"
  let ?snd = "?f (dt_levels @ dt_gain @ dt_agc @ dt_fast_agc @ dt_fast_unlock @ dt_rssi) @
        [\<lambda>s. Dt_ok (dt_rssi_tables node s)] @ ?f (dt_aux @ dt_gpo @ dt_txmon)"
  have parse: "phy_parse_dt node s = dt_run (?fst @ dt_path_clks node # ?snd) s"
    by (simp only: phy_parse_dt_def Let_def append.simps append_assoc map_append)
  have total: "list_all dt_total ?fst" "list_all dt_total ?snd"
    by (cases "pd_dev s = ID_AD9363A"; simp only: if_True if_False map_append list.map list_all_append
        list.pred_inject append.simps groups_total [OF assms] dt_steps_total simp_thms)+
  obtain u where u: "dt_run ?fst s = Dt_ok u" using dt_run_total [OF total(1)] by auto
  have cont: "phy_parse_dt node s = dt_run (dt_path_clks node # ?snd) u"
    unfolding parse dt_run_append [of ?fst] u dt_out.case by (rule refl)
  show ?thesis
  proof (cases "path_rates_there node")
    case True
    then have "list_all dt_total (dt_path_clks node # ?snd)"
      by (simp only: list.pred_inject simp_thms total(2) path_clks_total)
    from dt_run_total [OF this, of u] show ?thesis using True unfolding cont by (simp only: if_True)
  next
    case False
    then show ?thesis unfolding cont by (simp add: path_clks_null)
  qed
qed

lemma parse_dt_total: "\<lbrakk>enums_known node; path_rates_there node\<rbrakk> \<Longrightarrow> \<exists>t. phy_parse_dt node s = Dt_ok t"
  by (drule parse_dt_by_rates [of _ s]) (simp only: if_True)

text \<open>
  Without the six path rates of both directions there is no platform data, whatever else the
  tree has; with them there is, for every tree whose enumerations are in range: every other
  property has a default.
\<close>

theorem parse_dt_outcome:
  assumes "enums_known node"
  shows "if path_rates_there node then \<exists>t. phy_parse_dt node s = Dt_ok t else phy_parse_dt node s = Dt_null"
  by (rule parse_dt_by_rates [OF assms])

lemma small_tree_facts:
  "enums_known small_tree" "path_rates_there small_tree"
  "of_u32 small_tree ''adi,tx-fastlock-delay-ns'' 0 = 700" "of_u32 small_tree ''adi,rx-fastlock-delay-ns'' 0 = 0"
  by (simp_all add: enums_known_def path_rates_there_def small_tree_def of_u32_def of_array_def)

theorem parse_dt_outcome_witness:
  "if path_rates_there small_tree then \<exists>t. phy_parse_dt small_tree ad_zero = Dt_ok t else phy_parse_dt small_tree ad_zero = Dt_null"
  by (rule parse_dt_outcome [OF small_tree_facts(1)])

theorem dt_swaps_fastlock_delays_witness:
  "\<exists>t. phy_parse_dt small_tree ad_zero = Dt_ok t \<and> pd_rx_fastlock_delay_ns t = 700 \<and> pd_tx_fastlock_delay_ns t = 0"
proof -
  obtain t where t: "phy_parse_dt small_tree ad_zero = Dt_ok t"
    using parse_dt_total [OF small_tree_facts(1,2)] by blast
  show ?thesis using t dt_swaps_fastlock_delays [OF t] by (auto simp only: small_tree_facts(3,4))
qed

end
