(* ===== verification/App_Tasks.thy ===== *)
theory App_Tasks
  imports Client_Props Cli Diag
begin

unbundle bit_operations_syntax

text \<open>
  What the tasks of the streaming application ask of the operating system and give back:
  the socket set-up of \<^verbatim>\<open>net.c\<close>, the mappings of \<^verbatim>\<open>driver.c\<close>, the receive and transmit tasks of
  \<^verbatim>\<open>rx.c\<close> and \<^verbatim>\<open>tx.c\<close> around their sessions, and the diagnostic modes around their loops. An
  operation returns the list of its calls, each with its result; the loops in between
  are those of \<open>Client\<close> and \<open>Diag\<close>.
\<close>

subsection \<open>Calls\<close>

datatype sockopt = SO_REUSEADDR | SO_SNDBUF | SO_RCVBUF | TCP_NODELAY

datatype region = Rx_region | Tx_region

text \<open>
  \<open>Socket_call\<close> says whether the socket is a stream; \<open>Bind\<close> has the port in network order.
\<close>

datatype os_call = Socket_call bool int | Setsockopt int sockopt int | Bind int u16 bool | Listen int int
  | Accept int int | Close int | Mmap region u32 bool | Munmap region u32 | Malloc bool | Free | Thread_create region

definition SOCK_BUF_BYTES :: int where "SOCK_BUF_BYTES = 8388608"

definition htons :: "u16 \<Rightarrow> u16" where "htons p = push_bit 8 p OR drop_bit 8 p"

definition tcp_listen :: "int \<Rightarrow> bool \<Rightarrow> int \<Rightarrow> int \<times> os_call list" where
  "tcp_listen server bind_ok port =
     (if server < 0 then (-1, [Socket_call True server])
      else let pre = [Socket_call True server, Setsockopt server SO_REUSEADDR 1, Bind server (htons (word_of_int port)) bind_ok]
      in if \<not> bind_ok then (-1, pre @ [Close server]) else (server, pre @ [Listen server 1]))"

definition tcp_accept :: "int \<Rightarrow> int \<Rightarrow> int \<Rightarrow> int \<Rightarrow> bool \<Rightarrow> int \<times> os_call list" where
  "tcp_accept client server sndbuf rcvbuf nodelay =
     (if client < 0 then (-1, [Accept server client])
      else (client, [Accept server client] @
        (if 0 < sndbuf then [Setsockopt client SO_SNDBUF sndbuf] else []) @
        (if 0 < rcvbuf then [Setsockopt client SO_RCVBUF rcvbuf] else []) @
        (if nodelay then [Setsockopt client TCP_NODELAY 1] else [])))"

text \<open>The page offset of a mapping, and whether it can be written.\<close>

definition map_args :: "region \<Rightarrow> ulong \<times> bool" where
  "map_args r = (case r of Rx_region \<Rightarrow> (0, False) | Tx_region \<Rightarrow> (1, True))"

definition driver_rx_mmap :: "driver \<Rightarrow> bool \<Rightarrow> bool \<times> os_call list" where
  "driver_rx_mmap drv map_ok = (map_ok, [Mmap Rx_region (d_rx_buf_size drv) map_ok])"

definition driver_rx_munmap :: "driver \<Rightarrow> os_call list" where
  "driver_rx_munmap drv = [Munmap Rx_region (d_rx_buf_size drv)]"

definition driver_tx_mmap :: "u32 \<Rightarrow> bool \<Rightarrow> bool \<times> os_call list" where
  "driver_tx_mmap sz map_ok = (map_ok, [Mmap Tx_region sz map_ok])"

definition driver_tx_munmap :: "u32 \<Rightarrow> os_call list" where
  "driver_tx_munmap sz = [Munmap Tx_region sz]"

subsection \<open>The receive task\<close>

text \<open>The results of the calls; the loops stop where their lists end.\<close>

record rx_env =
  re_map :: bool
  re_client :: int
  re_sock :: int
  re_pton :: bool
  re_enable :: int
  re_iters :: "rx_iter list"
  re_udp :: "((int \<times> axi_rx_read) \<times> (nat \<Rightarrow> u8) \<times> int) list"

text \<open>
  \<open>None\<close> is the overflow of the datagram buffer; without a return value the loop is still
  running.
\<close>

definition rx_send_udp ::
  "driver \<Rightarrow> rx_env \<Rightarrow> dir_stats \<Rightarrow> udp_state \<Rightarrow> (int option \<times> os_call list) option" where
  "rx_send_udp drv e st us =
     (let sock = re_sock e in
      if sock < 0 then Some (Some 1, [Socket_call False sock])
      else if \<not> re_pton e then Some (Some 1, [Socket_call False sock, Close sock])
      else let pre = [Socket_call False sock, Setsockopt sock SO_SNDBUF SOCK_BUF_BYTES] in
        map_option (\<lambda>out. case out of Failed _ \<Rightarrow> (Some 1, pre @ [Close sock]) | _ \<Rightarrow> (None, pre))
          (rx_udp_loop drv (re_udp e) st us))"

text \<open>Leaving a task: its mapping goes, then the driver is closed.\<close>

definition task_done :: "driver \<Rightarrow> os_call list \<Rightarrow> int \<times> driver \<times> os_call list" where
  "task_done drv calls = (let (d, l) = driver_close drv in (0, d, calls @ map Close l))"

definition rx_task_run ::
  "bool \<Rightarrow> bool \<Rightarrow> int \<Rightarrow> rx_env \<Rightarrow> driver \<Rightarrow> dir_stats \<Rightarrow> udp_state \<Rightarrow> (int option \<times> driver \<times> os_call list) option" where
  "rx_task_run tcp combined server e drv st us =
     (let (map_ok, m) = driver_rx_mmap drv (re_map e) in
      if \<not> map_ok then (let (d, l) = driver_close drv in Some (Some 1, d, m @ map Close l))
      else let finish = (\<lambda>calls. case task_done drv (m @ calls @ driver_rx_munmap drv) of (r, d, l) \<Rightarrow> Some (Some r, d, l)) in
        if tcp then
          (let (client, acc) = tcp_accept (re_client e) server SOCK_BUF_BYTES 0 True in
           if client < 0 then finish acc
           else case rx_tcp_session drv combined (re_enable e) (re_iters e) (st\<lparr>ds_buf_size := d_rx_buf_size drv\<rparr>) of
                  Failed _ \<Rightarrow> finish (acc @ [Close client])
                | _ \<Rightarrow> Some (None, drv, m @ acc))
        else case rx_send_udp drv e (st\<lparr>ds_buf_size := d_rx_buf_size drv\<rparr>) us of
               None \<Rightarrow> None
             | Some (None, l) \<Rightarrow> Some (None, drv, m @ l)
             | Some (Some _, l) \<Rightarrow> finish l)"

subsection \<open>The transmit task\<close>

record tx_env =
  te_map :: bool
  te_client :: int
  te_puts :: "int list"
  te_enable :: int
  te_iters :: "(recv_result list \<times> int) list"

definition tx_task_run ::
  "bool \<Rightarrow> u32 option \<Rightarrow> int \<Rightarrow> tx_env \<Rightarrow> driver \<Rightarrow> tx_state \<Rightarrow> int option \<times> driver \<times> os_call list" where
  "tx_task_run tcp samples server e drv t =
     (let effective = tx_effective samples drv; (map_ok, m) = driver_tx_mmap effective (te_map e) in
      if \<not> map_ok then (let (d, l) = driver_close drv in (Some 1, d, m @ map Close l))
      else let finish = (\<lambda>calls. case task_done drv (m @ calls @ driver_tx_munmap effective) of (r, d, l) \<Rightarrow> (Some r, d, l)) in
        if tcp then
          (let (client, acc) = tcp_accept (te_client e) server 0 SOCK_BUF_BYTES False in
           if client < 0 then finish acc
           else case fst (tx_tcp_session drv effective (te_puts e) (te_enable e) (te_iters e)
                  (t\<lparr>ts_stats := (ts_stats t)\<lparr>ds_buf_size := effective\<rparr>\<rparr>)) of
                  Failed _ \<Rightarrow> finish (acc @ [Close client])
                | _ \<Rightarrow> (None, drv, m @ acc))
        else finish [])"

subsection \<open>The diagnostic modes\<close>

text \<open>The two that transmit: \<open>gets\<close> are the replies of the driver, and an error ends the loop.\<close>

definition diag_duplex :: "driver \<Rightarrow> bool \<Rightarrow> bool \<Rightarrow> axi_rx_read option list \<Rightarrow> int option \<times> os_call list" where
  "diag_duplex drv rx_ok tx_ok gets =
     (let (rx_ok, m) = driver_rx_mmap drv rx_ok in
      if \<not> rx_ok then (Some 1, m)
      else let (tx_ok, n) = driver_tx_mmap (d_tx_buf_size drv) tx_ok in
        if \<not> tx_ok then (Some 1, m @ n @ driver_rx_munmap drv)
        else let run = m @ n @ [Thread_create Tx_region] in
          if None \<in> set gets then (Some 0, run @ driver_tx_munmap (d_tx_buf_size drv) @ driver_rx_munmap drv)
          else (None, run))"

definition diag_membench_run :: "driver \<Rightarrow> bool \<Rightarrow> bool \<Rightarrow> int \<times> os_call list" where
  "diag_membench_run drv map_ok malloc_ok =
     (let (map_ok, m) = driver_rx_mmap drv map_ok in
      if \<not> map_ok then (1, m)
      else if \<not> malloc_ok then (1, m @ [Malloc False] @ driver_rx_munmap drv)
      else (0, m @ [Malloc True, Free] @ driver_rx_munmap drv))"

definition diag_test_run :: "driver \<Rightarrow> bool \<Rightarrow> axi_rx_read option list \<Rightarrow> int option \<times> os_call list" where
  "diag_test_run drv map_ok gets =
     (let (map_ok, m) = driver_rx_mmap drv map_ok in
      if \<not> map_ok then (Some 1, m)
      else if None \<in> set gets then (Some 1, m @ driver_rx_munmap drv) else (None, m))"

subsection \<open>What a task holds\<close>

datatype held = Fd int | Mapped region | Heap | Thread region

text \<open>
  The resources held after a call; \<open>None\<close> is one given back that was not held, or a region
  unmapped that a thread was started on.
\<close>

definition give_back :: "held \<Rightarrow> held list \<Rightarrow> held list option" where
  "give_back x h = (if x \<in> set h then Some (remove1 x h) else None)"

fun after_call :: "os_call \<Rightarrow> held list \<Rightarrow> held list option" where
  "after_call (Socket_call _ fd) h = Some (if fd < 0 then h else Fd fd # h)"
| "after_call (Accept _ fd) h = Some (if fd < 0 then h else Fd fd # h)"
| "after_call (Close fd) h = give_back (Fd fd) h"
| "after_call (Mmap r _ map_ok) h = Some (if map_ok then Mapped r # h else h)"
| "after_call (Munmap r _) h = (if Thread r \<in> set h then None else give_back (Mapped r) h)"
| "after_call (Malloc malloc_ok) h = Some (if malloc_ok then Heap # h else h)"
| "after_call Free h = give_back Heap h"
| "after_call (Thread_create r) h = Some (Thread r # h)"
| "after_call _ h = Some h"

fun after_calls :: "os_call list \<Rightarrow> held list \<Rightarrow> held list option" where
  "after_calls [] h = Some h"
| "after_calls (c # cs) h = (case after_call c h of None \<Rightarrow> None | Some h' \<Rightarrow> after_calls cs h')"

lemma after_calls_append [simp]:
  "after_calls (cs @ ds) h = (case after_calls cs h of None \<Rightarrow> None | Some h' \<Rightarrow> after_calls ds h')"
  by (induction cs arbitrary: h) (auto split: option.split)

lemma listen_held: "tcp_listen server bind_ok port = (r, calls) \<Longrightarrow>
    after_calls calls h = Some (if r < 0 then h else Fd r # h)"
  by (auto simp: tcp_listen_def give_back_def Let_def split: if_splits)

lemma accept_held: "tcp_accept client server sndbuf rcvbuf nodelay = (r, calls) \<Longrightarrow>
    after_calls calls h = Some (if r < 0 then h else Fd r # h)"
  by (auto simp: tcp_accept_def split: if_splits)

lemma accept_ok: "tcp_accept client server sndbuf rcvbuf nodelay = (r, calls) \<Longrightarrow> 0 \<le> r \<Longrightarrow> r = client"
  by (auto simp: tcp_accept_def split: if_splits)

lemma udp_held: "rx_send_udp drv e st us = Some (Some r, calls) \<Longrightarrow> after_calls calls h = Some h"
proof (cases "0 \<le> re_sock e \<and> re_pton e")
  case True
  moreover assume "rx_send_udp drv e st us = Some (Some r, calls)"
  ultimately obtain out where "rx_udp_loop drv (re_udp e) st us = Some out"
    and "(case out of Failed _ \<Rightarrow> (Some 1, [Socket_call False (re_sock e), Setsockopt (re_sock e) SO_SNDBUF SOCK_BUF_BYTES, Close (re_sock e)])
       | _ \<Rightarrow> (None, [Socket_call False (re_sock e), Setsockopt (re_sock e) SO_SNDBUF SOCK_BUF_BYTES])) = (Some r, calls)"
    by (auto simp: rx_send_udp_def Let_def)
  then show ?thesis using True by (cases out) (auto simp: give_back_def)
qed (auto simp: rx_send_udp_def give_back_def Let_def split: if_splits)

lemmas task_maps = driver_rx_mmap_def driver_rx_munmap_def driver_tx_mmap_def driver_tx_munmap_def

text \<open>
  C19. A task that returns has given back everything it took, once: the sockets, its mapping and
  the driver, which it leaves closed.
\<close>

theorem tasks_release:
  assumes "0 \<le> d_fd drv"
  shows "(rx_task_run tcp combined server e drv st us = Some (Some r, d, calls) \<longrightarrow>
      after_calls calls [Fd (d_fd drv)] = Some [] \<and> d_fd d = - 1) \<and>
    (tx_task_run tcp samples server f drv t = (Some r', d', calls') \<longrightarrow>
      after_calls calls' [Fd (d_fd drv)] = Some [] \<and> d_fd d' = - 1)"
proof (intro conjI impI)
  have close: "driver_close drv = (drv\<lparr>d_fd := - 1\<rparr>, [d_fd drv])" using assms by (simp add: driver_close_def)
  obtain c acc where a: "tcp_accept (re_client e) server SOCK_BUF_BYTES 0 True = (c, acc)" by fastforce
  obtain c' acc' where a': "tcp_accept (te_client f) server 0 SOCK_BUF_BYTES False = (c', acc')" by fastforce
  note held = accept_held [OF a] accept_held [OF a']
  {
    assume "rx_task_run tcp combined server e drv st us = Some (Some r, d, calls)"
    then show "after_calls calls [Fd (d_fd drv)] = Some []" "d_fd d = - 1"
      by (auto simp: rx_task_run_def task_done_def task_maps close a held udp_held give_back_def
          split: if_splits outcome.splits option.splits prod.splits)
  }
  {
    assume "tx_task_run tcp samples server f drv t = (Some r', d', calls')"
    then show "after_calls calls' [Fd (d_fd drv)] = Some []" "d_fd d' = - 1"
      by (auto simp: tx_task_run_def task_done_def task_maps close a' held give_back_def Let_def
          split: if_splits outcome.splits)
  }
qed

definition client_gone :: rx_env where
  "client_gone = \<lparr>re_map = True, re_client = 5, re_sock = 6, re_pton = True, re_enable = - 1, re_iters = [], re_udp = []\<rparr>"

theorem tasks_release_witness:
  "\<exists>d calls. rx_task_run True False 4 client_gone rx_w_driver rx_w_stats \<lparr>s_wrap_buf = [], s_wrap_pos = 0\<rparr> = Some (Some 0, d, calls) \<and>
     length calls = 7 \<and> after_calls calls [Fd 3] = Some [] \<and> d_fd d = - 1"
proof -
  let ?t = "rx_task_run True False 4 client_gone rx_w_driver rx_w_stats \<lparr>s_wrap_buf = [], s_wrap_pos = 0\<rparr>"
  obtain d calls where r: "?t = Some (Some 0, d, calls)" "length calls = 7"
    by (simp add: rx_task_run_def task_maps tcp_accept_def client_gone_def rx_tcp_session_def driver_enable_def
        task_done_def driver_close_def rx_w_driver_def SOCK_BUF_BYTES_def)
  have "0 \<le> d_fd rx_w_driver" by (simp add: rx_w_driver_def)
  from tasks_release [OF this, THEN conjunct1, THEN mp, OF r(1)] r show ?thesis by (auto simp: rx_w_driver_def)
qed

text \<open>
  The diagnostic modes that transmit unmap the ring while the thread that fills it is still
  running: nothing stops it, and it is not waited for.
\<close>

lemma diag_unmaps_under_feeder:
  "diag_duplex drv True True gets = (Some r, calls) \<Longrightarrow> after_calls calls h = None"
  by (auto simp: diag_duplex_def task_maps Let_def split: if_splits)

lemma diag_others_release:
  assumes "Thread Rx_region \<notin> set h"
  shows "diag_membench_run drv map_ok malloc_ok = (r, calls) \<Longrightarrow> after_calls calls h = Some h"
    "diag_test_run drv map_ok gets = (Some r', calls') \<Longrightarrow> after_calls calls' h = Some h"
    "diag_duplex drv map_ok tx_ok gets = (Some 1, calls'') \<Longrightarrow> after_calls calls'' h = Some h"
  using assms
  by (auto simp: diag_membench_run_def diag_test_run_def diag_duplex_def task_maps give_back_def Let_def split: if_splits)

subsection \<open>The mappings and the kernel driver\<close>

text \<open>The number an ioctl of the kernel driver answers.\<close>

definition ioctl_value :: "u32 \<Rightarrow> u32 \<Rightarrow> axi_priv \<Rightarrow> u32 option" where
  "ioctl_value bs cmd p = (case axi_ioctl bs cmd True p of (None, _, [Put_user v]) \<Rightarrow> Some v | _ \<Rightarrow> None)"

definition opened :: "int \<Rightarrow> u32 \<Rightarrow> axi_priv \<Rightarrow> driver \<Rightarrow> int \<times> driver \<times> int list" where
  "opened fd bs p = driver_open fd (ioctl_value bs AD936X_AXI_IOC_GET_RX_BUFSIZE p)
     (ioctl_value bs AD936X_AXI_IOC_GET_TX_BUFSIZE p) (ioctl_value bs AD936X_AXI_IOC_GET_BLOCKSIZE p)"

text \<open>
  \<^verbatim>\<open>mmap\<close> refuses an empty length, rounds any other up to whole pages of 4096 bytes (a length
  that wraps to nothing is refused), and hands the rounded length to the driver.
\<close>

definition page_align :: "u32 \<Rightarrow> u32" where
  "page_align sz = (sz + 4095) div 4096 * 4096"

definition map_region :: "u32 \<Rightarrow> region \<Rightarrow> u32 \<Rightarrow> axi_priv \<Rightarrow> errno option \<times> axi_priv \<times> action list" where
  "map_region bs r sz p =
     (if sz = 0 then (Some EINVAL, p, [])
      else if page_align sz = 0 then (Some ENOMEM, p, [])
      else axi_mmap bs (fst (map_args r)) (page_align sz) (snd (map_args r)) None p)"

lemma page_align_whole:
  assumes "4096 dvd unat sz" shows "page_align sz = sz"
proof -
  obtain k where k: "unat sz = 4096 * k" using assms by blast
  have "4096 * k < 4294967296" using unat_u32_lt [of sz] k by simp
  then have "k \<le> 1048575" by simp
  then have lt: "unat sz + 4095 < 4294967296" using k by simp
  have u: "unat (sz + 4095) = 4096 * k + 4095" using unat_plus_lt [of sz 4095] lt k by simp
  have "unat (page_align sz) = (4096 * k + 4095) div 4096 * 4096"
    unfolding page_align_def unat_div_times_le u by simp
  also have "\<dots> = 4096 * k" by simp
  finally have "unat (page_align sz) = 4096 * k" .
  then show ?thesis using k by (simp add: word_unat_eq_iff)
qed

lemma ioctl_values [simp]:
  "ioctl_value bs AD936X_AXI_IOC_GET_RX_BUFSIZE p = Some (rxbuf_size_max p)"
  "ioctl_value bs AD936X_AXI_IOC_GET_TX_BUFSIZE p = Some (txbuf_size_max p)"
  "ioctl_value bs AD936X_AXI_IOC_GET_BLOCKSIZE p = Some bs"
  by (simp_all add: ioctl_value_def axi_ioctl_def AD936X_AXI_IOC_GET_RX_BUFSIZE_def AD936X_AXI_IOC_GET_TX_BUFSIZE_def
      AD936X_AXI_IOC_GET_BLOCKSIZE_def ioc_ior_def)

lemma mod_from_dvd: "unat b dvd unat (a :: u32) \<Longrightarrow> a mod b = 0"
  by (simp add: word_unat_eq_iff unat_mod_distrib)

text \<open>
  C20. The application and the kernel driver agree on the rings, when the driver's block size is a
  whole number of pages. For a handle opened on a driver whose reserved regions are not empty and
  are whole blocks, both mappings the tasks ask for are accepted, each reaches its own region, and
  the size the FPGA is told is the one the task computes its pointers with, for the whole transmit
  ring and for any requested depth of at least one sample that fits 32 bits in bytes. The driver
  does not check its block size; \<open>short_block_disagrees\<close> is what happens with blocks of half a page,
  and \<open>no_depth_refused\<close> a depth of zero.
\<close>

theorem tasks_agree_on_rings:
  assumes "opened fd bs p drv = (0, d, l)" "0 < bs" "4096 dvd unat bs"
    and "unat bs dvd unat (rxbuf_size_max p)" "unat bs dvd unat (txbuf_size_max p)"
    and "0 < rxbuf_size_max p" "0 < txbuf_size_max p"
    and "\<forall>n. samples = Some n \<longrightarrow> 0 < n \<and> 4 * unat n + unat bs < 4294967296"
  shows "map_region bs Rx_region (d_rx_buf_size d) p =
      (None, p\<lparr>rxbuf_size := d_rx_buf_size d\<rparr>,
       [Writel Rx_buf_size (d_rx_buf_size d), Remap_pfn_range (rxbuf_phys p) (d_rx_buf_size d)]) \<and>
    map_region bs Tx_region (tx_effective samples d) p =
      (None, p\<lparr>txbuf_size := tx_effective samples d\<rparr>,
       [Writel Tx_buf_size (tx_effective samples d), Remap_pfn_range (txbuf_phys p) (tx_effective samples d)])"
proof -
  have d: "d_rx_buf_size d = rxbuf_size_max p" "d_tx_buf_size d = txbuf_size_max p" "d_block_size d = bs"
    using assms(1) by (auto simp: opened_def driver_open_def Let_def split: if_splits)
  have tx: "unat bs dvd unat (tx_effective samples d) \<and> tx_effective samples d \<le> txbuf_size_max p \<and>
      0 < tx_effective samples d"
  proof (cases samples)
    case None
    then show ?thesis using assms(5,7) d by (simp add: tx_effective_def)
  next
    case (Some n)
    have b: "0 < unat bs" "0 < unat n" "0 < unat (txbuf_size_max p)"
      using assms(2,7,8) Some by (simp_all add: word_less_nat_alt)
    have "0 < unat (d_block_size d)" using b(1) d by simp
    note r = tx_effective_rounds_up [OF this, of n]
    have "0 < (4 * unat n + unat bs - 1) div unat bs * unat bs" using b by (simp add: div_greater_zero_iff)
    then show ?thesis
      using r assms(5,8) b(3) d Some by (auto simp: word_le_nat_alt word_less_nat_alt)
  qed
  have pg: "page_align sz = sz" if "unat bs dvd unat sz" for sz
    by (rule page_align_whole [OF dvd_trans [OF assms(3) that]])
  show ?thesis
    using tx pg [OF assms(4)] pg [of "tx_effective samples d"] mod_from_dvd [OF assms(4)] assms(6)
      mod_from_dvd [of bs "tx_effective samples d"]
    by (auto simp: map_region_def map_args_def axi_mmap_def d not_less)
qed

text \<open>The board's own block size, and rings of 32 and 8 MiB.\<close>

definition axi_board :: axi_priv where
  "axi_board = axi_small\<lparr>rxbuf_size_max := 33554432, txbuf_size_max := 8388608\<rparr>"

theorem tasks_agree_on_rings_witness:
  "map_region 65536 Rx_region 33554432 axi_board =
     (None, axi_board\<lparr>rxbuf_size := 33554432\<rparr>, [Writel Rx_buf_size 33554432, Remap_pfn_range 0x1000 33554432]) \<and>
   map_region 65536 Tx_region 131072 axi_board =
     (None, axi_board\<lparr>txbuf_size := 131072\<rparr>, [Writel Tx_buf_size 131072, Remap_pfn_range 0x2000 131072])"
proof -
  let ?d = "\<lparr>d_fd = 3, d_rx_buf_size = 33554432, d_tx_buf_size = 8388608, d_block_size = 65536\<rparr>"
  have o: "opened 3 65536 axi_board \<lparr>d_fd = - 1, d_rx_buf_size = 0, d_tx_buf_size = 0, d_block_size = 0\<rparr> = (0, ?d, [])"
    by (simp add: opened_def driver_open_def axi_board_def)
  have t: "tx_effective (Some 20000) ?d = 131072" by (simp add: tx_effective_def Let_def)
  show ?thesis
    using tasks_agree_on_rings [OF o, of "Some 20000", unfolded t]
    by (simp add: axi_board_def axi_small_def axi_priv_zero_def)
qed

text \<open>
  With blocks of half a page the task that asks for a ring of one block wraps its pointers at 2048
  bytes, and the FPGA is told 4096. A depth of zero is an empty mapping, which is refused.
\<close>

lemma short_block_disagrees:
  "tx_effective (Some 300) (rx_w_driver\<lparr>d_block_size := 2048, d_tx_buf_size := 8192\<rparr>) = 2048 \<and>
   fst (map_region 2048 Tx_region 2048 axi_board) = None \<and>
   writels (snd (snd (map_region 2048 Tx_region 2048 axi_board))) = [(Tx_buf_size, 4096)]"
  by (simp add: tx_effective_def Let_def map_region_def page_align_def map_args_def axi_mmap_def axi_board_def)

lemma no_depth_refused:
  assumes "0 < d_block_size d"
  shows "tx_effective (Some 0) d = 0 \<and> fst (map_region bs Tx_region 0 p) = Some EINVAL"
proof -
  have "d_block_size d - 1 < d_block_size d" using assms by (simp add: word_nat unat_minus_le)
  then have "(d_block_size d - 1) div d_block_size d = 0"
    by (simp add: word_unat_eq_iff unat_div_distrib word_nat)
  then show ?thesis by (simp add: tx_effective_def Let_def map_region_def)
qed

end
