(* ===== verification/Spec2Isabelle.thy ===== *)
theory Spec2Isabelle
  imports Axi_Props Axi_System Net Tcp_Props Legacy_Props Diag_Props Client_Props Cli Ad_Tune Ad_Clk_Props
    Ad_Gain_Props Ad_Ensm_Props Ad_Rf_Props Ad_Setup_Props Ad_Chain_Props Ad_Dig_Props Ad_Calib_Props Ad_Fir_Props Ad_Bringup Ad_Gt_Props Ad_Dt_Props App_Tasks
begin

text \<open>
  Zyndra: the firmware of a software radio made of a Zynq-7020 and an AD936x transceiver.

  \<^bold>\<open>The program\<close>

  The FPGA (\<^verbatim>\<open>src/fpga/rtl\<close>) receives samples from the transceiver and writes them around a
  ring in memory, and reads the samples to transmit from a second ring. Software sees a
  register block with the rings' sizes and pointers. The kernel driver \<^verbatim>\<open>ad936x-axi.c\<close> owns
  the registers: a timer counts the blocks the FPGA has completed, \<^verbatim>\<open>read\<close> hands out one block
  at a time, \<^verbatim>\<open>write\<close> publishes how far the transmit ring was filled, \<^verbatim>\<open>mmap\<close> maps the rings
  and an \<^verbatim>\<open>ioctl\<close> starts the FPGA. The application \<^verbatim>\<open>ad9361-txrx\<close> moves the blocks between
  the rings and TCP or UDP, and holds diagnostic modes (tone, PRBS, loop-back, benchmark).
  Two older programs do the receive path without the driver: \<^verbatim>\<open>ad9361_rx.c\<close> from user space
  and \<^verbatim>\<open>ad936x-tcp.c\<close> inside the kernel. Under QEMU the FPGA is replaced by the emulator
  \<^verbatim>\<open>ad936x-emu\<close>. The transceiver itself is programmed over SPI by the \<^verbatim>\<open>ad9361\<close> kernel driver
  (\<^verbatim>\<open>ad9361_main.c\<close>): clocks, synthesizers, gain, attenuation, the enable state machine.

  \<^bold>\<open>Theories\<close>

  Shared: \<open>Zyn_Prelude\<close> (C's integer types, errno values, word and \<open>mod\<close> lemmas), \<open>Ring\<close>
  (distance and advance of ring pointers, as every component writes them), \<open>Ring_Stream\<close>
  (a ring as a window on an endless stream; the locale \<open>ring_reader\<close> for software that
  polls the FPGA's pointer, interpreted on the kernel module and on the old receiver),
  \<open>Cstr\<close> (the C string functions the command lines use).

  \<^item> \<^verbatim>\<open>ad936x-axi.c\<close>: \<open>Axi_Regs\<close> has the register block; \<open>Axi_Driver\<close> the driver state
    (\<open>axi_priv\<close>, the fields of \<^verbatim>\<open>struct ad936x_axi\<close>) and one definition per handler (a blocking
    handler is cut where it waits: \<open>axi_read_enter\<close>, \<open>axi_read_wakes\<close>, \<open>axi_read_resume\<close>);
    \<open>Axi_Ring\<close> states the receive side as a counter of blocks and proves the refinement;
    \<open>Axi_Props\<close> has the properties, among them the refinement of \<open>stream_run\<close>, a reference on
    absolute positions of the FPGA's stream; \<open>Axi_System\<close> runs the driver against a device (locale
    \<open>rx_device\<close>, interpreted on the emulator of \<open>Emu\<close>).
  \<^item> \<^verbatim>\<open>ad9361-txrx\<close>: \<open>Net\<close> (\<^verbatim>\<open>net.c\<close>), \<open>Client\<close> and \<open>Client_Props\<close> (\<^verbatim>\<open>driver.c\<close>, \<^verbatim>\<open>rx.c\<close>,
    \<^verbatim>\<open>tx.c\<close>, \<^verbatim>\<open>stats.c\<close>; the locale \<open>block_source\<close> is what a receive session asks of the
    driver, interpreted on the driver's replies), \<open>Cli\<close> (\<^verbatim>\<open>ad9361_txrx.c\<close>: options, checks,
    dispatch, reconnection, the start-up handshake of the two tasks), \<open>Prbs\<close>, \<open>Diag\<close> and
    \<open>Diag_Props\<close> (\<^verbatim>\<open>prbs.c\<close>, \<^verbatim>\<open>diag.c\<close>), and \<open>App_Tasks\<close>: the system calls of a task around
    its session (sockets, mappings, threads) as a list, and what is held after them.
  \<^item> Older receivers: \<open>Tcp_Driver\<close> and \<open>Tcp_Props\<close> (\<^verbatim>\<open>ad936x-tcp.c\<close>), \<open>Legacy_Rx\<close> and
    \<open>Legacy_Props\<close> (\<^verbatim>\<open>ad9361_rx.c\<close>; the two threads are interleaved as an inductive relation
    whose steps are the accesses to the semaphores and the slot array).
  \<^item> \<^verbatim>\<open>ad9361_main.c\<close>, foundations: \<open>Ad_Tables\<close> (constant tables), \<open>Ad_Regs\<close> (register numbers
    and fields), \<open>Ad_Pdata\<close> (platform data of the blocks), \<open>Ad_Spi\<close> (register access and the
    driver's state, a \<open>state\<close> monad over an SPI transfer that is a parameter), \<open>Ad_Frame\<close> (which
    fields an operation leaves alone; the locales \<open>driver_field\<close> and \<open>ensm_free_field\<close>, interpreted
    on the fields of the state).
  \<^item> Its clocks and carriers: \<open>Ad_Rfpll\<close> and \<open>Ad_Tune\<close> (synthesizers), \<open>Ad_Clk\<close> and \<open>Ad_Clk_Props\<close>
    (clock scalers, baseband PLL), \<open>Ad_Chain\<close> and \<open>Ad_Chain_Props\<close> (the sample rates of both paths),
    \<open>Ad_Fastlock\<close> (fast lock profiles).
  \<^item> Its signal paths: \<open>Ad_Rf\<close> and \<open>Ad_Rf_Props\<close> (attenuation, self test, oscillator control, eye
    search), \<open>Ad_Gain\<close> and \<open>Ad_Gain_Props\<close> (receive gain), \<open>Ad_Agc\<close> (gain control set-up),
    \<open>Ad_Setup\<close> and \<open>Ad_Setup_Props\<close> (gain timing, signal strength, auxiliary converters), \<open>Ad_Bbf\<close>
    (analog filters), \<open>Ad_Calib\<close> and \<open>Ad_Calib_Props\<close> (calibrations; locale \<open>calib_field\<close>), \<open>Ad_Fir\<close>
    and \<open>Ad_Fir_Props\<close> (filter files and coefficients), \<open>Ad_Gt\<close> and \<open>Ad_Gt_Props\<close> (gain table files).
  \<^item> Its life: \<open>Ad_Ensm\<close> and \<open>Ad_Ensm_Props\<close> (enable state machine), \<open>Ad_Init\<close> and \<open>Ad_Bringup\<close>
    (\<^verbatim>\<open>ad9361_setup\<close>), \<open>Ad_Dig\<close> and \<open>Ad_Dig_Props\<close> (\<^verbatim>\<open>ad9361_conv.c\<close>: tuning of the digital
    interface, the converter).
  \<^item> Its files: \<open>Ad_Attr\<close> and \<open>Ad_Chan\<close> (attributes of the device and of its channels, carrier
    notifiers), \<open>Ad_Dt\<close> (device tree), \<open>Ad_Dbg\<close> (debugfs, reset and reinitialisation), with
    \<open>Ad_Attr_Props\<close> and \<open>Ad_Dt_Props\<close>. \<open>Kstr\<close> has the kernel's number parsing, \<open>Scanf\<close> its
    \<^verbatim>\<open>sscanf\<close> and \<^verbatim>\<open>strsep\<close>.

  \<^bold>\<open>How code becomes definitions\<close>

  A struct is a record, an enum a datatype, a C integer a word of its width; 32-bit \<^verbatim>\<open>long\<close> and
  \<^verbatim>\<open>size_t\<close> are those of the ARM target. A handler maps the state to the result (an errno or a
  value), the next state and the list of device accesses it makes, in order. What the
  kernel, the sockets or the hardware answer is an argument: lists of results of the
  successive calls, or the transfer function of the SPI bus. A division by zero, a read
  outside an array and a loop without end are the value \<open>None\<close>.

  Loops: the loops over data are structural or have a measure. The VCO scaling loop is a
  \<open>partial_function\<close>, shown to return for every accepted carrier. The calibration wait polls
  5001 times, the count of the code. The fix-up loop of \<open>rfpll_set_rate\<close> has fuel, and two
  rounds are proved to be enough from every state. The search of \<open>calculate_rf_clock_chain\<close> and the
  doubling of the PLL rate are bounded by the tables and the range they run through; the parsers
  recurse on the text that is left.

  \<^bold>\<open>What is proved\<close>

  Properties about the AXI driver show that timer and read name the blocks of the FPGA's stream
  and the gaps between them correctly, what a write flushes and publishes, that mappings
  stay in their regions, that nothing is delivered before the enable call and something is
  after it; and three defects (a full transmit ring is taken for an empty one; a faulting read
  loses the agreement of counter and pointer; a reader two rings behind is handed one block
  twice). The streaming properties show that the clients
  receive the FPGA's stream in order, with gaps only where a loss is announced, that the
  transmit ring holds the client's data behind the prefill, that the PRBS checker is exact,
  that descriptors are closed once, that tasks give back what they take, and that the tasks and the kernel driver agree on the
  rings. Those that follow the FPGA's stream hold while the FPGA does not overtake the software,
  which the code cannot see: the hypotheses \<open>timely\<close> (less than a ring written between two ticks of the
  timer, no read one and a half rings behind), \<open>pace_kept\<close> and \<open>block_intact\<close> (no byte is overwritten
  before it is copied to the socket) say so, and each has a witness. The properties of the datagram
  sender need no such condition, but speak of the blocks as they were copied. The transceiver properties are round trips (what is programmed, printed or written is
  what is read back: carriers, clocks, attenuation, filter and gain table files, attributes,
  debugfs files), the termination of the fix-up loop, the exact rates of a clock chain, the choice
  of delays, phases and gains by their sweeps, what an operation leaves behind when it fails, that
  any filter file leaves the filters well-formed, that the device tree mixes up two properties,
  and the moves of the enable state machine. Those about registers are over \<open>chip_bus\<close>, the SPI bus whose chip
  is a register file behind the documented command word; every definition and the lemmas on
  what an operation leaves alone are over an arbitrary bus.

  \<^bold>\<open>Not modelled\<close>

  Of the transceiver driver: \<^verbatim>\<open>ad9361_probe\<close> and the registration of clocks, notifiers and
  channels, which are tables and calls for the kernel, and the functions for a kernel without the
  converter driver. Delays are not timed. The set-up of the sockets of the old receiver, the VHDL,
  the QEMU device shim, the host tools and the build files are not modelled: they hold no state of
  this program, or are in languages whose behaviour the emulator and the driver model stand for.
\<close>

end
